(* ===== verification/Prelude.thy ===== *)
theory Prelude
  imports Main "HOL-Library.Word" "HOL-Library.AList"
begin

unbundle bit_operations_syntax

section \<open>Prelude: bytes, results, Go maps and sorted port sets\<close>

text \<open>
  The vocabulary every component shares.  A Go \<^verbatim>\<open>byte\<close> is an \<open>8 word\<close>, a Go
  \<^verbatim>\<open>string\<close> a HOL \<open>string\<close> whose characters are its bytes, a Go call that returns
  \<^verbatim>\<open>(T, error)\<close> a sum with the error on the left, a Go \<^verbatim>\<open>map[int]V\<close> an association
  list read with \<open>map_of\<close>, and a call that also changes something outside itself a
  function from that state to a result and the new state.

  The lemma collections are \<open>res_simps\<close> (unfolding the result and state plumbing) and
  \<open>be_simps\<close> (big-endian reads of big-endian writes).
\<close>

named_theorems res_simps "unfolding of the result and state plumbing"
named_theorems be_simps "big-endian reads of big-endian writes"

type_synonym byte = "8 word"
type_synonym bytes = "byte list"
type_synonym u16 = "16 word"
type_synonym u32 = "32 word"
type_synonym u64 = "64 word"

subsection \<open>Results and state passing\<close>

definition rbind :: "'e + 'a \<Rightarrow> ('a \<Rightarrow> 'e + 'b) \<Rightarrow> 'e + 'b" where
  "rbind m f = (case m of Inl e \<Rightarrow> Inl e | Inr x \<Rightarrow> f x)"

lemma rbind_simps [simp]: "rbind (Inl e) f = Inl e" "rbind (Inr x) f = f x"
  by (simp_all add: rbind_def)

lemma rbind_eq_Inr [res_simps]: "rbind m f = Inr y \<longleftrightarrow> (\<exists>x. m = Inr x \<and> f x = Inr y)"
  by (cases m) auto

lemma rbind_eq_Inl [res_simps]:
  "rbind m f = Inl e \<longleftrightarrow> m = Inl e \<or> (\<exists>x. m = Inr x \<and> f x = Inl e)"
  by (cases m) auto

type_synonym ('s, 'e, 'a) action = "'s \<Rightarrow> ('e + 'a) \<times> 's"

definition sbind :: "('s, 'e, 'a) action \<Rightarrow> ('a \<Rightarrow> ('s, 'e, 'b) action) \<Rightarrow> ('s, 'e, 'b) action" where
  "sbind m f s = (case m s of (Inl e, s') \<Rightarrow> (Inl e, s') | (Inr x, s') \<Rightarrow> f x s')"

definition sret :: "'e + 'a \<Rightarrow> ('s, 'e, 'a) action" where
  "sret r s = (r, s)"

lemma sret_apply [simp]: "sret r s = (r, s)"
  by (simp add: sret_def)

lemma sbind_Inr: "m s = (Inr x, s') \<Longrightarrow> sbind m f s = f x s'"
  by (simp add: sbind_def)

lemma sbind_Inl: "m s = (Inl e, s') \<Longrightarrow> sbind m f s = (Inl e, s')"
  by (simp add: sbind_def)

lemma sbind_sret [simp]: "sbind (sret r) f s = (case r of Inl e \<Rightarrow> (Inl e, s) | Inr x \<Rightarrow> f x s)"
  by (simp add: sbind_def split: sum.split)

lemma sbind_eq_Inr [res_simps]:
  "sbind m f s = (Inr y, t) \<longleftrightarrow> (\<exists>x u. m s = (Inr x, u) \<and> f x u = (Inr y, t))"
  by (auto simp: sbind_def split: prod.splits sum.splits)

subsection \<open>Go strings and bytes\<close>

definition byte_of_char :: "char \<Rightarrow> byte" where
  "byte_of_char c = word_of_nat (of_char c)"

definition char_of_byte :: "byte \<Rightarrow> char" where
  "char_of_byte b = char_of (unat b)"

lemma char_byte_inverse [simp]: "char_of_byte (byte_of_char c) = c"
proof -
  have "of_char c < (256::nat)" by (rule nat_of_char_less_256)
  then show ?thesis
    by (simp add: char_of_byte_def byte_of_char_def unat_of_nat)
qed

lemma byte_char_inverse [simp]: "byte_of_char (char_of_byte b) = b"
proof -
  have "unat b < 256" using unsigned_less [of b, where 'a = nat] by simp
  then show ?thesis
    by (simp add: char_of_byte_def byte_of_char_def)
qed

definition bytes_of :: "string \<Rightarrow> bytes" where
  "bytes_of = map byte_of_char"

definition string_of :: "bytes \<Rightarrow> string" where
  "string_of = map char_of_byte"

lemma string_bytes_inverse [simp]: "string_of (bytes_of s) = s"
  by (simp add: bytes_of_def string_of_def o_def)

lemma bytes_string_inverse [simp]: "bytes_of (string_of b) = b"
  by (simp add: bytes_of_def string_of_def o_def)

lemma length_bytes_of [simp]: "length (bytes_of s) = length s"
  by (simp add: bytes_of_def)

lemma bytes_of_eq_iff [simp]: "bytes_of a = bytes_of b \<longleftrightarrow> a = b"
  by (metis string_bytes_inverse)

text \<open>A string without bytes at or above 0x80: what Go calls ASCII here.\<close>

definition is_ascii :: "string \<Rightarrow> bool" where
  "is_ascii s \<longleftrightarrow> (\<forall>b \<in> set (bytes_of s). b < 0x80)"

text \<open>\<^verbatim>\<open>strings.TrimRight(s, c)\<close> for a one-character cutset.\<close>

definition trim_right :: "char \<Rightarrow> string \<Rightarrow> string" where
  "trim_right c s = rev (dropWhile (\<lambda>x. x = c) (rev s))"

lemma trim_right_id: "(s = [] \<or> last s \<noteq> c) \<Longrightarrow> trim_right c s = s"
  by (cases s rule: rev_cases) (auto simp: trim_right_def)

lemma trim_right_Nil [simp]: "trim_right c [] = []"
  by (simp add: trim_right_def)

subsection \<open>Big-endian integers\<close>

text \<open>\<^verbatim>\<open>binary.BigEndian\<close> of package \<^verbatim>\<open>encoding/binary\<close>.\<close>

definition put16 :: "u16 \<Rightarrow> bytes" where
  "put16 w = [ucast (drop_bit 8 w), ucast w]"

definition get16 :: "byte \<Rightarrow> byte \<Rightarrow> u16" where
  "get16 a b = push_bit 8 (ucast a) OR ucast b"

definition put32 :: "u32 \<Rightarrow> bytes" where
  "put32 w = [ucast (drop_bit 24 w), ucast (drop_bit 16 w), ucast (drop_bit 8 w), ucast w]"

definition get32 :: "byte \<Rightarrow> byte \<Rightarrow> byte \<Rightarrow> byte \<Rightarrow> u32" where
  "get32 a b c d = push_bit 24 (ucast a) OR push_bit 16 (ucast b) OR push_bit 8 (ucast c) OR ucast d"

definition put64 :: "u64 \<Rightarrow> bytes" where
  "put64 w = put32 (ucast (drop_bit 32 w)) @ put32 (ucast w)"

definition get64 :: "byte \<Rightarrow> byte \<Rightarrow> byte \<Rightarrow> byte \<Rightarrow> byte \<Rightarrow> byte \<Rightarrow> byte \<Rightarrow> byte \<Rightarrow> u64" where
  "get64 a b c d e f g h = push_bit 32 (ucast (get32 a b c d)) OR ucast (get32 e f g h)"

lemma length_put [simp]: "length (put16 w) = 2" "length (put32 v) = 4" "length (put64 x) = 8"
  by (simp_all add: put16_def put32_def put64_def)

lemma add_diff_if: "(k::nat) + (n - k) = (if k \<le> n then n else k)"
  by simp

lemma get16_put16 [be_simps]: "get16 (ucast (drop_bit 8 w)) (ucast w) = w"
  unfolding get16_def by (rule bit_word_eqI) (auto simp: bit_simps)

lemma get16_bits:
  "ucast (drop_bit 8 (get16 a b)) = a" "ucast (get16 a b) = b"
  unfolding get16_def
  by (rule bit_word_eqI; auto simp: bit_simps dest: bit_imp_le_length)+

lemma put16_get16 [be_simps]: "put16 (get16 a b) = [a, b]"
  by (simp add: put16_def get16_bits)

lemma get32_put32 [be_simps]:
  "get32 (ucast (drop_bit 24 w)) (ucast (drop_bit 16 w)) (ucast (drop_bit 8 w)) (ucast w) = w"
  unfolding get32_def by (rule bit_word_eqI) (auto simp: bit_simps add_diff_if split: if_splits)

definition get64_of :: "bytes \<Rightarrow> u64" where
  "get64_of bs = get64 (bs ! 0) (bs ! 1) (bs ! 2) (bs ! 3) (bs ! 4) (bs ! 5) (bs ! 6) (bs ! 7)"

lemma get64_halves: "push_bit 32 (ucast (ucast (drop_bit 32 w) :: u32)) OR ucast (ucast w :: u32) = (w :: u64)"
  by (rule bit_word_eqI) (auto simp: bit_simps)

lemma get64_of_words: "get64_of (put32 u @ put32 v @ rest) = push_bit 32 (ucast u) OR ucast v"
proof -
  have lst: "put32 u @ put32 v @ rest =
      [ucast (drop_bit 24 u), ucast (drop_bit 16 u), ucast (drop_bit 8 u), ucast u,
       ucast (drop_bit 24 v), ucast (drop_bit 16 v), ucast (drop_bit 8 v), ucast v] @ rest"
    by (simp add: put32_def)
  have words: "\<And>a b c d e f g h. get64_of ([a, b, c, d, e, f, g, h] @ rest) = get64 a b c d e f g h"
    by (simp add: get64_of_def)
  show ?thesis
    unfolding lst words get64_def get32_put32 ..
qed

lemma get64_put64 [be_simps]: "get64_of (put64 w @ rest) = w"
  by (simp only: put64_def append_assoc get64_of_words get64_halves)

subsection \<open>Go maps and sets of ports\<close>

text \<open>
  A Go \<^verbatim>\<open>map[int]V\<close> is an association list; \<open>map_of\<close> reads it, \<open>AList.update\<close> and
  \<open>AList.delete\<close> write it.  The iteration order of a Go map is unspecified; the code
  always sorts the keys first, as \<open>sorted_keys\<close> does.
\<close>

type_synonym 'v gomap = "(int \<times> 'v) list"

definition sort_uniq :: "int list \<Rightarrow> int list" where
  "sort_uniq xs = sort (remdups xs)"

definition sorted_keys :: "'v gomap \<Rightarrow> int list" where
  "sorted_keys m = sort_uniq (map fst m)"

lemma set_sort_uniq [simp]: "set (sort_uniq xs) = set xs"
  by (simp add: sort_uniq_def)

lemma sort_uniq_sorted [simp]: "sorted (sort_uniq xs)" "distinct (sort_uniq xs)"
  by (simp_all add: sort_uniq_def)

lemma sorted_distinct_id: "sorted xs \<Longrightarrow> distinct xs \<Longrightarrow> sort_uniq xs = xs"
  by (simp add: sort_uniq_def sort_key_id_if_sorted distinct_remdups_id)

lemma sort_uniq_cong: "set xs = set ys \<Longrightarrow> sort_uniq xs = sort_uniq ys"
  by (rule sorted_distinct_set_unique) simp_all

lemma set_sorted_keys [simp]: "set (sorted_keys m) = dom (map_of m)"
  by (simp add: sorted_keys_def dom_map_of_conv_image_fst)

lemma sorted_keys_sorted [simp]: "sorted (sorted_keys m)" "distinct (sorted_keys m)"
  by (simp_all add: sorted_keys_def)

lemma sorted_keys_cong: "dom (map_of m) = dom (map_of n) \<Longrightarrow> sorted_keys m = sorted_keys n"
  by (rule sorted_distinct_set_unique) simp_all

lemma map_of_map_keys:
  "map_of (map (\<lambda>k. (k, f k)) ks) x = (if x \<in> set ks then Some (f x) else None)"
  by (induction ks) auto

end
