(* ===== verification/Switch_Model.thy ===== *)
theory Switch_Model
  imports Prelude
begin

section \<open>The shared model: types, errors and the registry of switches\<close>

text \<open>
  Package \<^verbatim>\<open>model\<close>: the records every backend maps its answers onto (types.go), the
  NSDP-native records (nsdp.go), the error sentinels (errors.go) and the registry of known
  switches (registry.go).  A pointer field of the Go structs that may be nil is an \<open>option\<close>.
\<close>

subsection \<open>Enumerations\<close>

datatype vlan_mode = VlanUntagged | VlanTagged | VlanExcluded

definition mode_text :: "vlan_mode \<Rightarrow> string" where
  "mode_text m = (case m of VlanUntagged \<Rightarrow> ''untagged'' | VlanTagged \<Rightarrow> ''tagged'' | VlanExcluded \<Rightarrow> ''excluded'')"

datatype ip_mode = IPModeDHCP | IPModeStatic | IPModeUnknown

datatype poe_detect =
  PoEDetectDisabled | PoEDetectSearching | PoEDetectDelivering | PoEDetectFault | PoEDetectUnknown

datatype backend =
  BackendSNMP | BackendNSDP | BackendHTTP | BackendSSH | BackendTelnet | BackendConsole

datatype switch_class = ClassFullyManaged | ClassSmartManagedPro | ClassPlus

text \<open>The Go type \<^verbatim>\<open>Backend\<close> is a string type: \<open>backend_name\<close> is its value.\<close>

fun backend_name :: "backend \<Rightarrow> string" where
  "backend_name BackendSNMP = ''snmp''"
| "backend_name BackendNSDP = ''nsdp''"
| "backend_name BackendHTTP = ''http''"
| "backend_name BackendSSH = ''ssh''"
| "backend_name BackendTelnet = ''telnet''"
| "backend_name BackendConsole = ''console''"

text \<open>
  \<^verbatim>\<open>sort.Strings\<close> over backend names orders backends by the rank of their name, which makes
  them a linear order.
\<close>

fun backend_rank :: "backend \<Rightarrow> nat" where
  "backend_rank BackendConsole = 0"
| "backend_rank BackendHTTP = 1"
| "backend_rank BackendNSDP = 2"
| "backend_rank BackendSNMP = 3"
| "backend_rank BackendSSH = 4"
| "backend_rank BackendTelnet = 5"

lemma backend_rank_inject [simp]: "backend_rank a = backend_rank b \<longleftrightarrow> a = b"
  by (cases a; cases b) simp_all

instantiation backend :: linorder
begin

definition less_eq_backend :: "backend \<Rightarrow> backend \<Rightarrow> bool" where
  "less_eq_backend a b \<longleftrightarrow> backend_rank a \<le> backend_rank b"

definition less_backend :: "backend \<Rightarrow> backend \<Rightarrow> bool" where
  "less_backend a b \<longleftrightarrow> backend_rank a < backend_rank b"

instance
  by standard (auto simp: less_eq_backend_def less_backend_def)

end

subsection \<open>Shared records (types.go)\<close>

record port_speed =
  sp_autonegotiate :: bool
  sp_speed_mbps :: "int option"
  sp_full_duplex :: "bool option"

definition AutoPortSpeed :: port_speed where
  "AutoPortSpeed = \<lparr>sp_autonegotiate = True, sp_speed_mbps = None, sp_full_duplex = None\<rparr>"

definition ForcedPortSpeed :: "int \<Rightarrow> bool \<Rightarrow> port_speed" where
  "ForcedPortSpeed speed duplex =
     \<lparr>sp_autonegotiate = False, sp_speed_mbps = Some speed, sp_full_duplex = Some duplex\<rparr>"

definition PortSpeed_Equal :: "port_speed \<Rightarrow> port_speed \<Rightarrow> bool" where
  "PortSpeed_Equal p q \<longleftrightarrow>
     (if sp_autonegotiate p \<noteq> sp_autonegotiate q then False
      else if (sp_speed_mbps p = None) \<noteq> (sp_speed_mbps q = None) then False
      else if sp_speed_mbps p \<noteq> None \<and> the (sp_speed_mbps p) \<noteq> the (sp_speed_mbps q) then False
      else if (sp_full_duplex p = None) \<noteq> (sp_full_duplex q = None) then False
      else if sp_full_duplex p \<noteq> None \<and> the (sp_full_duplex p) \<noteq> the (sp_full_duplex q) then False
      else True)"

record port_status =
  ps_port :: int
  ps_name :: "string option"
  ps_admin_enabled :: bool
  ps_link_up :: bool
  ps_speed_mbps :: "int option"
  ps_description :: "string option"
  ps_full_duplex :: "bool option"
  ps_flow_control :: "bool option"
  ps_speed_config :: "port_speed option"

record poe_status =
  poe_port :: int
  poe_admin_enabled :: bool
  poe_detect :: poe_detect
  poe_power_mw :: "int option"

definition Delivering :: "poe_status \<Rightarrow> bool" where
  "Delivering p \<longleftrightarrow> poe_detect p = PoEDetectDelivering"

definition PoeCycleComplete :: "poe_status option \<Rightarrow> poe_status option \<Rightarrow> bool" where
  "PoeCycleComplete before now =
     (case now of
        None \<Rightarrow> False
      | Some n \<Rightarrow>
          (if before \<noteq> None \<and> Delivering (the before) then Delivering n
           else poe_detect n = PoEDetectDelivering \<or> poe_detect n = PoEDetectSearching))"

text \<open>The deadlines of a power cycle, in nanoseconds (snmp/writer\_cycle.go).\<close>

record poe_cycle_timeouts =
  pct_off :: int
  pct_on :: int
  pct_poll :: int

definition DefaultPoeCycleTimeouts :: poe_cycle_timeouts where
  "DefaultPoeCycleTimeouts =
     \<lparr>pct_off = 30 * 10 ^ 9, pct_on = 60 * 10 ^ 9, pct_poll = 2 * 10 ^ 9\<rparr>"

record vlan_info =
  vi_vlan_id :: int
  vi_name :: "string option"
  vi_members :: "int list"
  vi_tagged :: "int list"
  vi_untagged :: "int list"

record port_stats =
  st_port :: int
  st_rx_bytes :: "u64 option"
  st_tx_bytes :: "u64 option"
  st_rx_packets :: "u64 option"
  st_tx_packets :: "u64 option"
  st_rx_errors :: "u64 option"
  st_tx_errors :: "u64 option"

record mgmt_ip_config =
  mg_mode :: ip_mode
  mg_address :: "string option"
  mg_netmask :: "string option"
  mg_gateway :: "string option"
  mg_base_mac :: "string option"

record pvid =
  pv_port :: int
  pv_vlan :: int

record lldp_neighbor =
  ln_local_port :: int
  ln_sys_name :: "string option"
  ln_port_desc :: "string option"
  ln_chassis_id :: "string option"
  ln_port_id :: "string option"

record mac_entry =
  me_mac :: string
  me_port :: int
  me_vlan_id :: "int option"

text \<open>The float64 values of the code: the conversion of an int64, or not a number.\<close>

datatype float64 = Float64 int | NaN

record sensor =
  se_name :: string
  se_kind :: string
  se_value :: float64
  se_unit :: string

record service_status =
  sv_name :: string
  sv_enabled :: bool
  sv_port :: "int option"

record switch_user =
  us_name :: string
  us_access_mode :: string
  us_privileged :: "bool option"
  us_snmpv3_access :: "string option"
  us_snmpv3_auth :: "string option"
  us_snmpv3_encryption :: "string option"

record syslog_server =
  sy_host :: string
  sy_port :: int
  sy_severity :: int
  sy_active :: bool
  sy_index :: "int option"

record syslog_config =
  sc_enabled :: bool
  sc_local_port :: int
  sc_servers :: "syslog_server list"

record detected_model =
  dm_key :: "string option"
  dm_sys_descr :: "string option"
  dm_sys_object_id :: "string option"

record switch_data =
  sd_model :: string
  sd_host :: string
  sd_ports :: "port_status list"
  sd_poe :: "poe_status list"
  sd_vlans :: "vlan_info list"
  sd_pvids :: "pvid list"
  sd_lldp :: "lldp_neighbor list"
  sd_macs :: "mac_entry list"
  sd_sensors :: "sensor list"
  sd_stats :: "port_stats list"
  sd_mgmt_ip :: "mgmt_ip_config option"

subsection \<open>NSDP-native records (nsdp.go)\<close>

text \<open>\<^verbatim>\<open>LinkSpeed\<close> is an int type whose values are the wire bytes.\<close>

type_synonym link_speed = int

definition LinkSpeedDown :: link_speed where "LinkSpeedDown = 0"
definition LinkSpeedTenGigabit :: link_speed where "LinkSpeedTenGigabit = 6"
definition LinkSpeedTenGigabitPriorArt :: link_speed where "LinkSpeedTenGigabitPriorArt = 0xFF"

fun linkSpeedMbps :: "link_speed \<Rightarrow> int option" where
  "linkSpeedMbps v =
     (if v = 0 then Some 0
      else if v = 1 then Some 10
      else if v = 2 then Some 10
      else if v = 3 then Some 100
      else if v = 4 then Some 100
      else if v = 5 then Some 1000
      else if v = 6 then Some 10000
      else if v = 0xFF then Some 10000
      else None)"

definition LinkSpeedFromByte :: "byte \<Rightarrow> link_speed" where
  "LinkSpeedFromByte b =
     (let v = uint b in if linkSpeedMbps v \<noteq> None then v else LinkSpeedDown)"

definition SpeedMbps :: "link_speed \<Rightarrow> int" where
  "SpeedMbps s = (case linkSpeedMbps s of Some m \<Rightarrow> m | None \<Rightarrow> 0)"

datatype vlan_engine =
  VLANEngineDisabled | VLANEngineBasicPort | VLANEngineAdvancedPort
| VLANEngineBasic8021Q | VLANEngineAdvanced8021Q

record nsdp_port_status =
  nps_port :: int
  nps_speed :: link_speed
  nps_flow_control :: "bool option"

record nsdp_port_statistics =
  nst_port :: int
  nst_rx :: u64
  nst_tx :: u64
  nst_crc :: u64

record nsdp_vlan_membership =
  nvm_vlan_id :: int
  nvm_members :: "int list"
  nvm_tagged :: "int list"

text \<open>\<^verbatim>\<open>UntaggedPorts\<close>: the sorted members that are not tagged, duplicates kept.\<close>

definition UntaggedPorts :: "nsdp_vlan_membership \<Rightarrow> int list" where
  "UntaggedPorts m = sort (filter (\<lambda>p. p \<notin> set (nvm_tagged m)) (nvm_members m))"

record nsdp_port_pvid =
  npv_port :: int
  npv_vlan :: int

record nsdp_port_mirroring =
  npm_destination :: int
  npm_sources :: "int list"

record nsdp_igmp_snooping =
  nig_enabled :: bool
  nig_vlan :: "int option"

record nsdp_port_name =
  npn_port :: int
  npn_name :: "string option"

record nsdp_device =
  nd_model :: string
  nd_mac :: string
  nd_hostname :: "string option"
  nd_ip :: "string option"
  nd_netmask :: "string option"
  nd_gateway :: "string option"
  nd_firmware :: "string option"
  nd_dhcp :: "bool option"
  nd_port_count :: "int option"
  nd_serial :: "string option"
  nd_vlan_engine :: "vlan_engine option"
  nd_port_status :: "nsdp_port_status list"
  nd_port_names :: "nsdp_port_name list"
  nd_port_statistics :: "nsdp_port_statistics list"
  nd_vlan_members :: "nsdp_vlan_membership list"
  nd_port_pvids :: "nsdp_port_pvid list"
  nd_qos_engine :: "int option"
  nd_port_mirroring :: "nsdp_port_mirroring option"
  nd_igmp :: "nsdp_igmp_snooping option"
  nd_broadcast :: "bool option"
  nd_loop :: "bool option"

subsection \<open>Errors (errors.go)\<close>

text \<open>
  A Go error is kept as a value: the format string and arguments of its message, the sentinel it
  wraps, and for a verification failure the observed values before and after.  \<open>errors_is\<close>
  is \<^verbatim>\<open>errors.Is\<close>, \<open>is_verification\<close> is \<^verbatim>\<open>errors.As\<close> to
  \<^verbatim>\<open>*WriteVerificationError\<close>.  \<open>Go_Panic\<close> is a run-time panic.
\<close>

datatype sentinel =
  ErrUnsupportedCapability | ErrProtectedPort | ErrKnownUnimplemented | ErrCredential | ErrConfig
| ErrUnknownModel | ErrSNMP | ErrNSDP | ErrHTTP | ErrHTTPAuth | ErrHTTPUnexpectedPage
| ErrCliTransport | ErrCliCommandRejected

text \<open>\<^verbatim>\<open>ErrHTTPAuth\<close> and \<^verbatim>\<open>ErrHTTPUnexpectedPage\<close> wrap \<^verbatim>\<open>ErrHTTP\<close>.\<close>

fun sentinel_is :: "sentinel \<Rightarrow> sentinel \<Rightarrow> bool" where
  "sentinel_is ErrHTTPAuth t = (t = ErrHTTPAuth \<or> t = ErrHTTP)"
| "sentinel_is ErrHTTPUnexpectedPage t = (t = ErrHTTPUnexpectedPage \<or> t = ErrHTTP)"
| "sentinel_is s t = (s = t)"

datatype msg_arg = AInt int | AStr string | ABytes bytes | AStrs "string list" | AInts "int list"

datatype observed =
  Obs_Nil | Obs_Int int | Obs_Str string | Obs_StrPtr "string option"
| Obs_Vlan "vlan_info option" | Obs_Mgmt mgmt_ip_config | Obs_Ints "int list"
| Obs_PoE "poe_status option" | Obs_Port "port_status option" | Obs_Pvids "pvid list"
| Obs_Syslog syslog_config | Obs_Servers "syslog_server list"
| Obs_IntPtr "int option" | Obs_Bool bool | Obs_BoolPtr "bool option" | Obs_Speed "port_speed option"
| Obs_Mode vlan_mode | Obs_Strs "string list"

datatype go_error =
  Wraps string "msg_arg list" sentinel
| WrapsCause string "msg_arg list" sentinel go_error
| Rewraps string "msg_arg list" go_error
| Verification string "msg_arg list" observed observed
| Plain string "msg_arg list"
| Foreign string
| Go_Panic

type_synonym 'a res = "go_error + 'a"

fun errors_is :: "go_error \<Rightarrow> sentinel \<Rightarrow> bool" where
  "errors_is (Wraps f a s) t = sentinel_is s t"
| "errors_is (WrapsCause f a s e) t = (sentinel_is s t \<or> errors_is e t)"
| "errors_is (Rewraps f a e) t = errors_is e t"
| "errors_is (Verification f a b c) t = False"
| "errors_is (Plain f a) t = False"
| "errors_is (Foreign f) t = False"
| "errors_is Go_Panic t = False"

fun is_verification :: "go_error \<Rightarrow> bool" where
  "is_verification (Verification f a b c) = True"
| "is_verification (WrapsCause f a s e) = is_verification e"
| "is_verification (Rewraps f a e) = is_verification e"
| "is_verification _ = False"

end
