(* ===== verification/Registry.thy ===== *)
theory Registry
  imports Switch_Model
begin

section \<open>The registry of known switches (registry.go)\<close>

text \<open>
  The declarative table of models, the alias table, lookup by key, and what the table
  guarantees: keys are unique, aliases resolve to registered keys and are not keys
  themselves, and only the Plus line speaks NSDP.
\<close>

datatype vlan_write = SNMPVlanWriteQBridge | SNMPVlanWriteFastpathSwitchport

definition vendorBaseFullyManaged :: string where
  "vendorBaseFullyManaged = ''1.3.6.1.4.1.4526.10''"

definition vendorBaseSmartManagedPro :: string where
  "vendorBaseSmartManagedPro = ''1.3.6.1.4.1.4526.11''"

record switch_model =
  sm_key :: string
  sm_display_name :: string
  sm_class :: switch_class
  sm_port_count :: nat
  sm_poe_port_count :: nat
  sm_backends :: "backend list"
  sm_snmp_vendor_base :: string
  sm_verified :: bool
  sm_snmp_can_create_vlan :: bool
  sm_snmp_vlan_write :: vlan_write
  sm_snmp_vlan_split :: bool

definition HasBackend :: "switch_model \<Rightarrow> backend \<Rightarrow> bool" where
  "HasBackend m b \<longleftrightarrow> b \<in> set (sm_backends m)"

definition HasMACTable :: "switch_model \<Rightarrow> bool" where
  "HasMACTable m \<longleftrightarrow> HasBackend m BackendSNMP"

definition model_m4300_24x :: switch_model where
  "model_m4300_24x =
     \<lparr>sm_key = ''m4300-24x'', sm_display_name = ''M4300-24X (XSM4324CS)'', sm_class = ClassFullyManaged,
      sm_port_count = 28, sm_poe_port_count = 0,
      sm_backends = [BackendSNMP, BackendHTTP, BackendSSH, BackendTelnet],
      sm_snmp_vendor_base = vendorBaseFullyManaged, sm_verified = True, sm_snmp_can_create_vlan = True,
      sm_snmp_vlan_write = SNMPVlanWriteFastpathSwitchport,
      sm_snmp_vlan_split = False\<rparr>"

definition model_m4300_16x :: switch_model where
  "model_m4300_16x =
     \<lparr>sm_key = ''m4300-16x'', sm_display_name = ''M4300-16X (XSM4316)'', sm_class = ClassFullyManaged,
      sm_port_count = 16, sm_poe_port_count = 16,
      sm_backends = [BackendSNMP, BackendHTTP, BackendSSH, BackendTelnet],
      sm_snmp_vendor_base = vendorBaseFullyManaged, sm_verified = True, sm_snmp_can_create_vlan = True,
      sm_snmp_vlan_write = SNMPVlanWriteFastpathSwitchport,
      sm_snmp_vlan_split = False\<rparr>"

definition model_gsm7252ps :: switch_model where
  "model_gsm7252ps =
     \<lparr>sm_key = ''gsm7252ps'', sm_display_name = ''GSM7252PS'', sm_class = ClassFullyManaged,
      sm_port_count = 52, sm_poe_port_count = 48,
      sm_backends = [BackendSNMP, BackendHTTP, BackendSSH, BackendTelnet],
      sm_snmp_vendor_base = vendorBaseFullyManaged, sm_verified = True, sm_snmp_can_create_vlan = True,
      sm_snmp_vlan_write = SNMPVlanWriteQBridge,
      sm_snmp_vlan_split = False\<rparr>"

definition model_gsm7228ps :: switch_model where
  "model_gsm7228ps =
     \<lparr>sm_key = ''gsm7228ps'', sm_display_name = ''GSM7228PS (S3300)'', sm_class = ClassSmartManagedPro,
      sm_port_count = 52, sm_poe_port_count = 48,
      sm_backends = [BackendSNMP, BackendHTTP, BackendTelnet],
      sm_snmp_vendor_base = vendorBaseSmartManagedPro, sm_verified = True, sm_snmp_can_create_vlan = True,
      sm_snmp_vlan_write = SNMPVlanWriteQBridge,
      sm_snmp_vlan_split = True\<rparr>"

definition model_gs110emx :: switch_model where
  "model_gs110emx =
     \<lparr>sm_key = ''gs110emx'', sm_display_name = ''GS110EMX'', sm_class = ClassPlus,
      sm_port_count = 10, sm_poe_port_count = 0,
      sm_backends = [BackendNSDP, BackendHTTP],
      sm_snmp_vendor_base = [], sm_verified = True, sm_snmp_can_create_vlan = True,
      sm_snmp_vlan_write = SNMPVlanWriteQBridge,
      sm_snmp_vlan_split = False\<rparr>"

definition model_gs305ep :: switch_model where
  "model_gs305ep =
     \<lparr>sm_key = ''gs305ep'', sm_display_name = ''GS305EP'', sm_class = ClassPlus,
      sm_port_count = 5, sm_poe_port_count = 4,
      sm_backends = [BackendNSDP, BackendHTTP],
      sm_snmp_vendor_base = [], sm_verified = True, sm_snmp_can_create_vlan = True,
      sm_snmp_vlan_write = SNMPVlanWriteQBridge,
      sm_snmp_vlan_split = False\<rparr>"

definition model_m7300 :: switch_model where
  "model_m7300 =
     \<lparr>sm_key = ''m7300'', sm_display_name = ''M7300-24XF'', sm_class = ClassFullyManaged,
      sm_port_count = 24, sm_poe_port_count = 0,
      sm_backends = [BackendSNMP],
      sm_snmp_vendor_base = vendorBaseFullyManaged, sm_verified = False, sm_snmp_can_create_vlan = True,
      sm_snmp_vlan_write = SNMPVlanWriteQBridge,
      sm_snmp_vlan_split = False\<rparr>"

definition model_xs748t :: switch_model where
  "model_xs748t =
     \<lparr>sm_key = ''xs748t'', sm_display_name = ''XS748T'', sm_class = ClassSmartManagedPro,
      sm_port_count = 48, sm_poe_port_count = 0,
      sm_backends = [BackendSNMP],
      sm_snmp_vendor_base = vendorBaseSmartManagedPro, sm_verified = False, sm_snmp_can_create_vlan = True,
      sm_snmp_vlan_write = SNMPVlanWriteQBridge,
      sm_snmp_vlan_split = False\<rparr>"

definition model_gs728tpp :: switch_model where
  "model_gs728tpp =
     \<lparr>sm_key = ''gs728tpp'', sm_display_name = ''GS728TPP'', sm_class = ClassSmartManagedPro,
      sm_port_count = 28, sm_poe_port_count = 24,
      sm_backends = [BackendSNMP, BackendHTTP],
      sm_snmp_vendor_base = [], sm_verified = True, sm_snmp_can_create_vlan = False,
      sm_snmp_vlan_write = SNMPVlanWriteQBridge,
      sm_snmp_vlan_split = False\<rparr>"

definition model_gs105pe :: switch_model where
  "model_gs105pe =
     \<lparr>sm_key = ''gs105pe'', sm_display_name = ''GS105PE'', sm_class = ClassPlus,
      sm_port_count = 5, sm_poe_port_count = 0,
      sm_backends = [BackendNSDP, BackendHTTP],
      sm_snmp_vendor_base = [], sm_verified = True, sm_snmp_can_create_vlan = True,
      sm_snmp_vlan_write = SNMPVlanWriteQBridge,
      sm_snmp_vlan_split = False\<rparr>"

definition Models :: "switch_model list" where
  "Models =
     [model_m4300_24x,
      model_m4300_16x,
      model_gsm7252ps,
      model_gsm7228ps,
      model_gs110emx,
      model_gs305ep,
      model_m7300,
      model_xs748t,
      model_gs728tpp,
      model_gs105pe]"

definition modelAliases :: "(string \<times> string) list" where
  "modelAliases = [(''s3300'', ''gsm7228ps'')]"

definition modelIndex :: "string \<Rightarrow> switch_model option" where
  "modelIndex k = map_of (map (\<lambda>m. (sm_key m, m)) Models) k"

definition GetModel :: "string \<Rightarrow> switch_model res" where
  "GetModel key =
     (let canonical = (case map_of modelAliases key of Some a \<Rightarrow> a | None \<Rightarrow> key)
      in case modelIndex canonical of
           None \<Rightarrow> Inl (Wraps ''%s: %w'' [AStr key] ErrUnknownModel)
         | Some m \<Rightarrow> Inr m)"

lemmas model_defs = model_m4300_24x_def model_m4300_16x_def model_gsm7252ps_def model_gsm7228ps_def model_gs110emx_def model_gs305ep_def model_m7300_def model_xs748t_def model_gs728tpp_def model_gs105pe_def

lemmas registry_defs = Models_def model_defs

lemma Models_keys_distinct: "distinct (map sm_key Models)"
  by (simp add: registry_defs)

lemma modelIndex_iff: "modelIndex k = Some m \<longleftrightarrow> m \<in> set Models \<and> sm_key m = k"
proof -
  have "distinct (map fst (map (\<lambda>m. (sm_key m, m)) Models))"
    using Models_keys_distinct by (simp add: o_def)
  then have "modelIndex k = Some m \<longleftrightarrow> (k, m) \<in> set (map (\<lambda>m. (sm_key m, m)) Models)"
    unfolding modelIndex_def by (rule map_of_eq_Some_iff)
  then show ?thesis by auto
qed

lemma alias_not_key: "map_of modelAliases k = Some c \<Longrightarrow> k \<notin> sm_key ` set Models"
  by (auto simp: modelAliases_def registry_defs split: if_splits)

lemma GetModel_Inr: "GetModel k = Inr m \<Longrightarrow> m \<in> set Models"
  by (simp add: GetModel_def Let_def modelIndex_iff split: option.splits)

text \<open>NSDP belongs to the Plus line only, and every Plus model is small enough for one byte.\<close>

lemma nsdp_models:
  assumes "m \<in> set Models"
  shows "HasBackend m BackendNSDP \<longleftrightarrow> sm_class m = ClassPlus"
  using assms by (auto simp: registry_defs HasBackend_def)

lemma port_count_bound: "m \<in> set Models \<Longrightarrow> 0 < sm_port_count m \<and> sm_port_count m \<le> 52"
  by (auto simp: registry_defs)

lemma poe_count_bound: "m \<in> set Models \<Longrightarrow> sm_poe_port_count m \<le> sm_port_count m"
  by (auto simp: registry_defs)

text \<open>
  The registry is a faithful lookup table: a key resolves to a model exactly when it is an
  alias or the key of a registered model, the answer is the entry registered under the
  resolved key, and every other key is refused with an error wrapping
  \<^verbatim>\<open>ErrUnknownModel\<close>.
\<close>

lemma GetModel_lookup:
  "(\<forall>m. GetModel k = Inr m \<longleftrightarrow>
      m \<in> set Models \<and> sm_key m = (if k = ''s3300'' then ''gsm7228ps'' else k))
   \<and> (case GetModel k of Inl e \<Rightarrow> errors_is e ErrUnknownModel | Inr m \<Rightarrow> m \<in> set Models)"
proof -
  define c where "c = (if k = ''s3300'' then ''gsm7228ps'' else k)"
  have look: "GetModel k = (case modelIndex c of
      None \<Rightarrow> Inl (Wraps ''%s: %w'' [AStr k] ErrUnknownModel) | Some m \<Rightarrow> Inr m)"
    by (simp add: GetModel_def modelAliases_def c_def)
  show ?thesis
    unfolding c_def [symmetric] look modelIndex_iff [of c, symmetric]
    using modelIndex_iff [of c] by (cases "modelIndex c") (simp_all, metis)
qed

end
