(* ===== verification/Nsdp_Codec.thy ===== *)
theory Nsdp_Codec
  imports Switch_Model
begin

unbundle bit_operations_syntax

section \<open>The NSDP wire codec (nsdp/protocol.go)\<close>

text \<open>
  Tags, operations, TLV entries and packets with their encoder and decoder.  Indexing and slicing
  of wire data go through \<open>go_index\<close> and \<open>go_slice\<close>, which return \<open>Go_Panic\<close> out of range,
  so that "the decoder never panics" is a theorem and not an artefact of HOL's total lists.
\<close>

type_synonym tag = u16

subsection \<open>Indexing, slicing and reading wire data\<close>

definition go_index :: "'a list \<Rightarrow> nat \<Rightarrow> 'a res" where
  "go_index xs i = (if i < length xs then Inr (xs ! i) else Inl Go_Panic)"

definition go_slice :: "'a list \<Rightarrow> nat \<Rightarrow> nat \<Rightarrow> 'a list res" where
  "go_slice xs lo hi =
     (if lo \<le> hi \<and> hi \<le> length xs then Inr (take (hi - lo) (drop lo xs)) else Inl Go_Panic)"

definition Uint16 :: "bytes \<Rightarrow> u16 res" where
  "Uint16 b = rbind (go_index b 1) (\<lambda>b1. rbind (go_index b 0) (\<lambda>b0. Inr (get16 b0 b1)))"

definition Uint32 :: "bytes \<Rightarrow> u32 res" where
  "Uint32 b = (if length b < 4 then Inl Go_Panic else Inr (get32 (b ! 0) (b ! 1) (b ! 2) (b ! 3)))"

definition Uint64 :: "bytes \<Rightarrow> u64 res" where
  "Uint64 b = (if length b < 8 then Inl Go_Panic else Inr (get64_of b))"

definition uint16_at :: "bytes \<Rightarrow> nat \<Rightarrow> u16 res" where
  "uint16_at b i = rbind (go_slice b i (i + 2)) Uint16"

lemma go_index_in [simp]: "i < length xs \<Longrightarrow> go_index xs i = Inr (xs ! i)"
  by (simp add: go_index_def)

lemma go_slice_in [simp]:
  "lo \<le> hi \<Longrightarrow> hi \<le> length xs \<Longrightarrow> go_slice xs lo hi = Inr (take (hi - lo) (drop lo xs))"
  by (simp add: go_slice_def)

lemma uint16_at_in [simp]:
  "i + 2 \<le> length b \<Longrightarrow> uint16_at b i = Inr (get16 (b ! i) (b ! Suc i))"
  by (simp add: uint16_at_def Uint16_def)

text \<open>\<^verbatim>\<open>errNSDP\<close>: an error wrapping the NSDP sentinel.\<close>

definition errNSDP :: "string \<Rightarrow> msg_arg list \<Rightarrow> go_error" where
  "errNSDP f a = Wraps f a ErrNSDP"

lemma errors_is_errNSDP [simp]: "errors_is (errNSDP f a) t \<longleftrightarrow> t = ErrNSDP"
  by (auto simp: errNSDP_def)

lemma errNSDP_neq [simp]:
  "errNSDP f a \<noteq> Go_Panic" "Go_Panic \<noteq> errNSDP f a" "\<not> is_verification (errNSDP f a)"
  by (simp_all add: errNSDP_def)

subsection \<open>Operations and tags\<close>

type_synonym op = byte

abbreviation (input) OpReadRequest :: op where "OpReadRequest \<equiv> 0x01"
abbreviation (input) OpReadResponse :: op where "OpReadResponse \<equiv> 0x02"
abbreviation (input) OpWriteRequest :: op where "OpWriteRequest \<equiv> 0x03"
abbreviation (input) OpWriteResponse :: op where "OpWriteResponse \<equiv> 0x04"

definition isValidOp :: "op \<Rightarrow> bool" where
  "isValidOp p \<longleftrightarrow>
     p = OpReadRequest \<or> p = OpReadResponse \<or> p = OpWriteRequest \<or> p = OpWriteResponse"

abbreviation (input) TagStartOfMark :: tag where "TagStartOfMark \<equiv> 0x0000"
abbreviation (input) TagEndOfMark :: tag where "TagEndOfMark \<equiv> 0xFFFF"
abbreviation (input) TagModel :: tag where "TagModel \<equiv> 0x0001"
abbreviation (input) TagHostname :: tag where "TagHostname \<equiv> 0x0003"
abbreviation (input) TagMAC :: tag where "TagMAC \<equiv> 0x0004"
abbreviation (input) TagLocation :: tag where "TagLocation \<equiv> 0x0005"
abbreviation (input) TagIPAddress :: tag where "TagIPAddress \<equiv> 0x0006"
abbreviation (input) TagNetmask :: tag where "TagNetmask \<equiv> 0x0007"
abbreviation (input) TagGateway :: tag where "TagGateway \<equiv> 0x0008"
abbreviation (input) TagDHCPMode :: tag where "TagDHCPMode \<equiv> 0x000B"
abbreviation (input) TagFirmwareVer1 :: tag where "TagFirmwareVer1 \<equiv> 0x000D"
abbreviation (input) TagFirmwareVer2 :: tag where "TagFirmwareVer2 \<equiv> 0x000E"
abbreviation (input) TagPortCount :: tag where "TagPortCount \<equiv> 0x6000"
abbreviation (input) TagSerialNumber :: tag where "TagSerialNumber \<equiv> 0x7800"
abbreviation (input) TagPassword :: tag where "TagPassword \<equiv> 0x000A"
abbreviation (input) TagAuthV2Encpass :: tag where "TagAuthV2Encpass \<equiv> 0x0014"
abbreviation (input) TagAuthV2Salt :: tag where "TagAuthV2Salt \<equiv> 0x0017"
abbreviation (input) TagAuthV2Password :: tag where "TagAuthV2Password \<equiv> 0x001A"
abbreviation (input) TagPortStatus :: tag where "TagPortStatus \<equiv> 0x0C00"
abbreviation (input) TagPortStatistics :: tag where "TagPortStatistics \<equiv> 0x1000"
abbreviation (input) TagVLANEngine :: tag where "TagVLANEngine \<equiv> 0x2000"
abbreviation (input) TagVLANPortConf :: tag where "TagVLANPortConf \<equiv> 0x2400"
abbreviation (input) TagVLANMembers :: tag where "TagVLANMembers \<equiv> 0x2800"
abbreviation (input) TagMaxVlan :: tag where "TagMaxVlan \<equiv> 0x6400"
abbreviation (input) TagPortPVID :: tag where "TagPortPVID \<equiv> 0x3000"
abbreviation (input) TagQOSEngine :: tag where "TagQOSEngine \<equiv> 0x3400"
abbreviation (input) TagPortQOSPriority :: tag where "TagPortQOSPriority \<equiv> 0x3800"
abbreviation (input) TagIngressRateLimit :: tag where "TagIngressRateLimit \<equiv> 0x4C00"
abbreviation (input) TagEgressRateLimit :: tag where "TagEgressRateLimit \<equiv> 0x5000"
abbreviation (input) TagBroadcastFiltering :: tag where "TagBroadcastFiltering \<equiv> 0x5400"
abbreviation (input) TagBroadcastBandwidth :: tag where "TagBroadcastBandwidth \<equiv> 0x5800"
abbreviation (input) TagPortMirroring :: tag where "TagPortMirroring \<equiv> 0x5C00"
abbreviation (input) TagIGMPSnooping :: tag where "TagIGMPSnooping \<equiv> 0x6800"
abbreviation (input) TagBlockUnknownMulticast :: tag where "TagBlockUnknownMulticast \<equiv> 0x6C00"
abbreviation (input) TagIGMPv3HeaderValidation :: tag where "TagIGMPv3HeaderValidation \<equiv> 0x7000"
abbreviation (input) TagIGMPStaticRouterPorts :: tag where "TagIGMPStaticRouterPorts \<equiv> 0x8000"
abbreviation (input) TagLoopDetection :: tag where "TagLoopDetection \<equiv> 0x9000"
abbreviation (input) TagActiveFirmware :: tag where "TagActiveFirmware \<equiv> 0x000C"
abbreviation (input) TagReboot :: tag where "TagReboot \<equiv> 0x0013"
abbreviation (input) TagFactoryReset :: tag where "TagFactoryReset \<equiv> 0x0400"
abbreviation (input) TagVLANDestroy :: tag where "TagVLANDestroy \<equiv> 0x2C00"
abbreviation (input) TagPortName :: tag where "TagPortName \<equiv> 0xB000"

text \<open>The whole catalogue, in the order of the source.\<close>

definition tag_catalogue :: "tag list" where
  "tag_catalogue =
     [TagStartOfMark, TagEndOfMark, TagModel, TagHostname, TagMAC, TagLocation, TagIPAddress,
      TagNetmask, TagGateway, TagDHCPMode, TagFirmwareVer1, TagFirmwareVer2, TagPortCount,
      TagSerialNumber, TagPassword, TagAuthV2Encpass, TagAuthV2Salt, TagAuthV2Password,
      TagPortStatus, TagPortStatistics, TagVLANEngine, TagVLANPortConf, TagVLANMembers,
      TagMaxVlan, TagPortPVID, TagQOSEngine, TagPortQOSPriority, TagIngressRateLimit,
      TagEgressRateLimit, TagBroadcastFiltering, TagBroadcastBandwidth, TagPortMirroring,
      TagIGMPSnooping, TagBlockUnknownMulticast, TagIGMPv3HeaderValidation,
      TagIGMPStaticRouterPorts, TagLoopDetection, TagActiveFirmware, TagReboot, TagFactoryReset,
      TagVLANDestroy, TagPortName]"

lemma tag_catalogue_distinct: "distinct tag_catalogue"
  by (simp add: tag_catalogue_def)

abbreviation (input) ResultSuccess :: u16 where "ResultSuccess \<equiv> 0x0000"
abbreviation (input) ResultBadPassword :: u16 where "ResultBadPassword \<equiv> 0x0700"
abbreviation (input) ResultBadPasswordV2 :: u16 where "ResultBadPasswordV2 \<equiv> 0x0D00"
abbreviation (input) ResultLockedV2 :: u16 where "ResultLockedV2 \<equiv> 0x0E00"
abbreviation (input) ResultReadOnly :: u16 where "ResultReadOnly \<equiv> 0x0300"
abbreviation (input) ResultWriteOnly :: u16 where "ResultWriteOnly \<equiv> 0x0400"

abbreviation (input) ErrorDenied :: nat where "ErrorDenied \<equiv> 0x07"
abbreviation (input) ErrorReadOnly :: nat where "ErrorReadOnly \<equiv> 0x03"
abbreviation (input) ErrorWriteOnly :: nat where "ErrorWriteOnly \<equiv> 0x04"
abbreviation (input) ErrorAuthRejected :: nat where "ErrorAuthRejected \<equiv> 0x0D"
abbreviation (input) ErrorLocked :: nat where "ErrorLocked \<equiv> 0x0E"

subsection \<open>TLV entries\<close>

record tlv =
  tlv_tag :: tag
  tlv_value :: bytes

abbreviation TLV :: "tag \<Rightarrow> bytes \<Rightarrow> tlv" where
  "TLV t v \<equiv> \<lparr>tlv_tag = t, tlv_value = v\<rparr>"

text \<open>The length field is \<^verbatim>\<open>uint16(len(t.Value))\<close>: it wraps for a value of 65536 bytes.\<close>

definition TLV_Encode :: "tlv \<Rightarrow> bytes" where
  "TLV_Encode t =
     put16 (tlv_tag t) @ put16 (word_of_nat (length (tlv_value t))) @ tlv_value t"

definition DecodeTLV :: "bytes \<Rightarrow> (tlv \<times> nat) res" where
  "DecodeTLV data =
     (if length data < 4 then Inl (errNSDP ''NSDP TLV shorter than its 4-byte header'' [])
      else rbind (uint16_at data 0) (\<lambda>tag.
           rbind (uint16_at data 2) (\<lambda>len.
           let n = unat len in
           if length data < 4 + n
           then Inl (errNSDP ''NSDP TLV declares %d value bytes but only %d are present''
                       [AInt (int n), AInt (int (length data) - 4)])
           else rbind (go_slice data 4 (4 + n)) (\<lambda>value. Inr (TLV tag value, 4 + n)))))"

subsection \<open>Packets\<close>

record packet =
  pk_op :: op
  pk_client_mac :: bytes
  pk_server_mac :: bytes
  pk_sequence :: u32
  pk_result :: u16
  pk_error_attr :: u16
  pk_tlvs :: "tlv list"

definition ErrorCode :: "packet \<Rightarrow> nat" where
  "ErrorCode p = unat (drop_bit 8 (pk_result p))"

definition AddTLV :: "tag \<Rightarrow> bytes \<Rightarrow> packet \<Rightarrow> packet" where
  "AddTLV t v p = p\<lparr>pk_tlvs := pk_tlvs p @ [TLV t v]\<rparr>"

definition Signature :: bytes where
  "Signature = bytes_of ''NSDP''"

definition EndMarker :: bytes where
  "EndMarker = [0xFF, 0xFF, 0x00, 0x00]"

abbreviation (input) HeaderSize :: nat where "HeaderSize \<equiv> 32"
abbreviation (input) macSize :: nat where "macSize \<equiv> 6"

definition packMAC :: "bytes \<Rightarrow> string \<Rightarrow> bytes res" where
  "packMAC mac field =
     (if length mac > macSize
      then Inl (errNSDP ''NSDP %s must be at most %d bytes, got %d''
                  [AStr field, AInt (int macSize), AInt (int (length mac))])
      else Inr (mac @ replicate (macSize - length mac) 0))"

definition encode_header :: "packet \<Rightarrow> bytes \<Rightarrow> bytes \<Rightarrow> bytes" where
  "encode_header p clientMAC serverMAC =
     [0x01, pk_op p] @ put16 (pk_result p) @ put16 (pk_error_attr p) @ [0, 0]
     @ clientMAC @ serverMAC @ put32 (pk_sequence p) @ Signature @ [0, 0, 0, 0]"

definition EncodePacket :: "packet \<Rightarrow> bytes res" where
  "EncodePacket p =
     rbind (packMAC (pk_client_mac p) ''client_mac'') (\<lambda>clientMAC.
     rbind (packMAC (pk_server_mac p) ''server_mac'') (\<lambda>serverMAC.
     Inr (encode_header p clientMAC serverMAC
          @ concat (map TLV_Encode (pk_tlvs p)) @ EndMarker)))"

lemma DecodeTLV_consumed: "DecodeTLV data = Inr (e, n) \<Longrightarrow> 4 \<le> n \<and> n \<le> length data"
  by (auto simp: DecodeTLV_def Let_def res_simps split: if_splits)

text \<open>
  The decoder's TLV loop over the bytes from the current offset on: it runs while four bytes are
  left and stops without appending at the first end-of-mark tag.
\<close>

function decode_tlvs :: "bytes \<Rightarrow> tlv list res" where
  "decode_tlvs data =
     (if length data < 4 then Inr []
      else case DecodeTLV data of
             Inl e \<Rightarrow> Inl e
           | Inr (entry, consumed) \<Rightarrow>
               (if tlv_tag entry = TagEndOfMark then Inr []
                else rbind (decode_tlvs (drop consumed data)) (\<lambda>rest. Inr (entry # rest))))"
  by pat_completeness auto

termination
  by (relation "measure length") (auto dest: DecodeTLV_consumed)

declare decode_tlvs.simps [simp del]

definition DecodePacket :: "bytes \<Rightarrow> packet res" where
  "DecodePacket data =
     (if length data < HeaderSize
      then Inl (errNSDP ''NSDP packet shorter than %d-byte header'' [AInt (int HeaderSize)])
      else rbind (go_slice data 0 HeaderSize) (\<lambda>header.
           rbind (go_slice header 0x18 0x1C) (\<lambda>signature.
           if signature \<noteq> Signature then Inl (errNSDP ''bad NSDP signature %q'' [ABytes signature])
           else
             rbind (go_index header 0x01) (\<lambda>opRaw.
             rbind (uint16_at header 0x02) (\<lambda>result.
             rbind (uint16_at header 0x04) (\<lambda>errorAttr.
             rbind (go_slice header 0x08 0x0E) (\<lambda>clientMAC.
             rbind (go_slice header 0x0E 0x14) (\<lambda>serverMAC.
             rbind (rbind (go_slice header 0x14 0x18) Uint32) (\<lambda>sequence.
             rbind (decode_tlvs (drop HeaderSize data)) (\<lambda>tlvs.
             if \<not> isValidOp opRaw
             then Inl (errNSDP ''unrecognized NSDP operation code 0x%02X'' [AInt (uint opRaw)])
             else Inr \<lparr>pk_op = opRaw, pk_client_mac = clientMAC, pk_server_mac = serverMAC,
                       pk_sequence = sequence, pk_result = result, pk_error_attr = errorAttr,
                       pk_tlvs = tlvs\<rparr>)))))))))) "

subsection \<open>What the wire can carry\<close>

text \<open>
  A TLV the wire carries: a value whose length fits its 16-bit field and a tag other than the
  end marker.  A packet the wire carries: six-byte addresses, a known operation, such TLVs.
\<close>

definition wf_tlv :: "tlv \<Rightarrow> bool" where
  "wf_tlv t \<longleftrightarrow> length (tlv_value t) < 65536 \<and> tlv_tag t \<noteq> TagEndOfMark"

definition wf_packet :: "packet \<Rightarrow> bool" where
  "wf_packet p \<longleftrightarrow> isValidOp (pk_op p) \<and> length (pk_client_mac p) = 6
     \<and> length (pk_server_mac p) = 6 \<and> list_all wf_tlv (pk_tlvs p)"

subsection \<open>Decoding what was encoded\<close>

lemma length_TLV_Encode [simp]: "length (TLV_Encode t) = 4 + length (tlv_value t)"
  by (simp add: TLV_Encode_def)

lemma length_Signature [simp]: "length Signature = 4"
  by (simp add: Signature_def)

lemma length_EndMarker [simp]: "length EndMarker = 4"
  by (simp add: EndMarker_def)

lemma DecodeTLV_Encode:
  assumes "length (tlv_value t) < 65536"
  shows "DecodeTLV (TLV_Encode t @ rest) = Inr (t, 4 + length (tlv_value t))"
proof -
  have len: "unat (word_of_nat (length (tlv_value t)) :: u16) = length (tlv_value t)"
    using assms by (simp add: unat_of_nat)
  have "uint16_at (TLV_Encode t @ rest) 0 = Inr (tlv_tag t)"
    by (simp add: TLV_Encode_def put16_def be_simps)
  moreover have "uint16_at (TLV_Encode t @ rest) 2 = Inr (word_of_nat (length (tlv_value t)))"
    by (simp add: TLV_Encode_def put16_def be_simps)
  moreover have "go_slice (TLV_Encode t @ rest) 4 (4 + length (tlv_value t)) = Inr (tlv_value t)"
    by (simp add: TLV_Encode_def put16_def)
  ultimately show ?thesis
    by (simp add: DecodeTLV_def len Let_def)
qed

lemma DecodeTLV_EndMarker: "DecodeTLV (EndMarker @ rest) = Inr (TLV TagEndOfMark [], 4)"
proof -
  have "EndMarker = TLV_Encode (TLV TagEndOfMark [])"
    by (simp add: EndMarker_def TLV_Encode_def put16_def)
  then show ?thesis
    using DecodeTLV_Encode [of "TLV TagEndOfMark []" rest] by simp
qed

lemma decode_tlvs_encode:
  "list_all wf_tlv ts \<Longrightarrow> decode_tlvs (concat (map TLV_Encode ts) @ EndMarker @ rest) = Inr ts"
proof (induction ts)
  case Nil
  then show ?case
    by (subst decode_tlvs.simps) (simp add: DecodeTLV_EndMarker)
next
  case (Cons t ts)
  then have wf: "length (tlv_value t) < 65536" "tlv_tag t \<noteq> TagEndOfMark"
    by (auto simp: wf_tlv_def)
  define body where "body = concat (map TLV_Encode ts) @ EndMarker @ rest"
  have split: "concat (map TLV_Encode (t # ts)) @ EndMarker @ rest = TLV_Encode t @ body"
    by (simp add: body_def)
  have dec: "DecodeTLV (TLV_Encode t @ body) = Inr (t, 4 + length (tlv_value t))"
    using wf(1) by (rule DecodeTLV_Encode)
  have "drop (4 + length (tlv_value t)) (TLV_Encode t @ body) = body"
    by simp
  moreover have "decode_tlvs body = Inr ts"
    using Cons by (simp add: body_def)
  ultimately show ?case
    unfolding split by (subst decode_tlvs.simps) (simp add: dec wf del: drop_append)
qed

lemma EncodePacket_wf:
  "length (pk_client_mac p) = 6 \<Longrightarrow> length (pk_server_mac p) = 6 \<Longrightarrow>
   EncodePacket p = Inr (encode_header p (pk_client_mac p) (pk_server_mac p)
     @ concat (map TLV_Encode (pk_tlvs p)) @ EndMarker)"
  by (simp add: EncodePacket_def packMAC_def)

lemma length6: "length xs = 6 \<Longrightarrow> \<exists>a b c d e f. xs = [a, b, c, d, e, f]"
  by (auto simp: numeral_eq_Suc length_Suc_conv)

text \<open>The header fields sit where the decoder looks for them.\<close>

lemma encode_header_fields:
  fixes p :: packet and cm sm :: bytes
  assumes "length cm = 6" "length sm = 6"
  defines "h \<equiv> encode_header p cm sm"
  shows "length h = 32" "go_slice h 0x18 0x1C = Inr Signature" "go_index h 1 = Inr (pk_op p)"
    "uint16_at h 2 = Inr (pk_result p)" "uint16_at h 4 = Inr (pk_error_attr p)"
    "go_slice h 0x08 0x0E = Inr cm" "go_slice h 0x0E 0x14 = Inr sm"
    "rbind (go_slice h 0x14 0x18) Uint32 = Inr (pk_sequence p)"
proof -
  obtain a b c d e f where cm: "cm = [a, b, c, d, e, f]" using length6 assms(1) by blast
  obtain a' b' c' d' e' f' where sm: "sm = [a', b', c', d', e', f']" using length6 assms(2) by blast
  obtain w x y z where sg: "Signature = [w, x, y, z]"
    by (simp add: Signature_def bytes_of_def)
  have h: "h = [0x01, pk_op p, ucast (drop_bit 8 (pk_result p)), ucast (pk_result p),
      ucast (drop_bit 8 (pk_error_attr p)), ucast (pk_error_attr p), 0, 0,
      a, b, c, d, e, f, a', b', c', d', e', f',
      ucast (drop_bit 24 (pk_sequence p)), ucast (drop_bit 16 (pk_sequence p)),
      ucast (drop_bit 8 (pk_sequence p)), ucast (pk_sequence p), w, x, y, z, 0, 0, 0, 0]"
    by (simp add: h_def encode_header_def put16_def put32_def cm sm sg)
  show "length h = 32" "go_slice h 0x18 0x1C = Inr Signature" "go_index h 1 = Inr (pk_op p)"
    "uint16_at h 2 = Inr (pk_result p)" "uint16_at h 4 = Inr (pk_error_attr p)"
    "go_slice h 0x08 0x0E = Inr cm" "go_slice h 0x0E 0x14 = Inr sm"
    "rbind (go_slice h 0x14 0x18) Uint32 = Inr (pk_sequence p)"
    by (simp_all add: h sg cm sm Uint32_def be_simps)
qed

lemma DecodePacket_header:
  assumes macs: "length (pk_client_mac p) = 6" "length (pk_server_mac p) = 6"
    and "isValidOp (pk_op p)"
  shows "DecodePacket (encode_header p (pk_client_mac p) (pk_server_mac p) @ body)
     = rbind (decode_tlvs body) (\<lambda>tlvs. Inr (p\<lparr>pk_tlvs := tlvs\<rparr>))"
proof -
  define h where "h = encode_header p (pk_client_mac p) (pk_server_mac p)"
  note fields = encode_header_fields [OF macs, of p, folded h_def]
  have "go_slice (h @ body) 0 HeaderSize = Inr h"
    using fields(1) by simp
  moreover have "drop HeaderSize (h @ body) = body"
    using fields(1) by simp
  moreover have "\<not> length (h @ body) < HeaderSize"
    using fields(1) by simp
  ultimately show ?thesis
    using assms(3) unfolding h_def [symmetric] DecodePacket_def
    by (simp only: fields(2-) if_False rbind_simps refl not_True_eq_False simp_thms packet.update_convs)
       (cases "decode_tlvs body", simp_all)
qed

lemma DecodePacket_encoded:
  assumes "wf_packet p"
  shows "DecodePacket (encode_header p (pk_client_mac p) (pk_server_mac p)
      @ concat (map TLV_Encode (pk_tlvs p)) @ EndMarker @ rest) = Inr p"
  using assms by (simp add: wf_packet_def DecodePacket_header decode_tlvs_encode)

lemma encode_decode_packet:
  assumes "wf_packet p"
  obtains bs where "EncodePacket p = Inr bs" "\<And>junk. DecodePacket (bs @ junk) = Inr p"
    "DecodePacket bs = Inr p"
    "length bs = 36 + length (concat (map TLV_Encode (pk_tlvs p)))"
  using assms DecodePacket_encoded [OF assms] DecodePacket_encoded [OF assms, of "[]"]
    encode_header_fields(1) [of "pk_client_mac p" "pk_server_mac p" p]
  by (simp add: EncodePacket_wf wf_packet_def)

text \<open>
  C30.  Wire round trip: a packet with six-byte addresses, a known operation and TLVs the
  wire can carry encodes, and decoding the datagram gives back exactly that packet, whatever
  bytes follow the end marker; the datagram is 32 bytes of header, four and the value for each
  TLV, and four for the end marker.
\<close>

theorem packet_roundtrip:
  assumes "wf_packet p"
  shows "\<exists>bs. EncodePacket p = Inr bs \<and> DecodePacket (bs @ junk) = Inr p
    \<and> length bs = 32 + (\<Sum>t\<leftarrow>pk_tlvs p. 4 + length (tlv_value t)) + 4"
proof -
  obtain bs where "EncodePacket p = Inr bs" "DecodePacket (bs @ junk) = Inr p"
      "length bs = 36 + length (concat (map TLV_Encode (pk_tlvs p)))"
    using encode_decode_packet [OF assms] by blast
  moreover have "length (concat (map TLV_Encode ts)) = (\<Sum>t\<leftarrow>ts. 4 + length (tlv_value t))" for ts
    by (induction ts) (simp_all add: TLV_Encode_def put16_def)
  ultimately show ?thesis by simp
qed

definition sample_packet :: packet where
  "sample_packet =
     \<lparr>pk_op = OpReadRequest, pk_client_mac = [0, 0, 0, 0, 0, 1], pk_server_mac = [0, 0, 0, 0, 0, 0],
      pk_sequence = 70000, pk_result = 0, pk_error_attr = 0,
      pk_tlvs = [TLV TagModel [], TLV TagPortPVID [3, 1, 44]]\<rparr>"

lemma wf_sample_packet: "wf_packet sample_packet"
  by (simp add: sample_packet_def wf_packet_def wf_tlv_def isValidOp_def)

theorem packet_roundtrip_witness:
  "wf_packet sample_packet
   \<and> (\<exists>bs. EncodePacket sample_packet = Inr bs \<and> DecodePacket (bs @ [1, 2, 3]) = Inr sample_packet \<and> length bs = 47)"
  using wf_sample_packet packet_roundtrip [OF wf_sample_packet, of "[1, 2, 3]"] by (auto simp: sample_packet_def)

subsection \<open>Decoding arbitrary bytes\<close>

lemma DecodeTLV_cases:
  "case DecodeTLV data of Inl e \<Rightarrow> errors_is e ErrNSDP
   | Inr (t, n) \<Rightarrow> length (tlv_value t) < 65536 \<and> n = 4 + length (tlv_value t)"
proof (cases "length data < 4")
  case False
  let ?n = "unat (get16 (data ! 2) (data ! Suc 2))"
  have "?n < 65536"
    using unsigned_less [of "get16 (data ! 2) (data ! Suc 2)", where 'a = nat] by simp
  with False show ?thesis
    by (auto simp: DecodeTLV_def Let_def)
qed (simp add: DecodeTLV_def)

lemma decode_tlvs_cases:
  "case decode_tlvs data of Inl e \<Rightarrow> errors_is e ErrNSDP | Inr ts \<Rightarrow> list_all wf_tlv ts"
proof (induction data rule: decode_tlvs.induct)
  case (1 data)
  show ?case
  proof (cases "length data < 4")
    case True
    then show ?thesis by (subst decode_tlvs.simps) simp
  next
    case False
    show ?thesis
    proof (cases "DecodeTLV data")
      case (Inl e)
      with False DecodeTLV_cases [of data] show ?thesis by (subst decode_tlvs.simps) simp
    next
      case (Inr r)
      obtain t n where r: "r = (t, n)" by (cases r)
      have wf: "length (tlv_value t) < 65536" using DecodeTLV_cases [of data] Inr r by simp
      show ?thesis
      proof (cases "tlv_tag t = TagEndOfMark")
        case True
        with False Inr r show ?thesis by (subst decode_tlvs.simps) simp
      next
        case tag: False
        have "case decode_tlvs (drop n data) of Inl e \<Rightarrow> errors_is e ErrNSDP
              | Inr ts \<Rightarrow> list_all wf_tlv ts"
          using "1.IH" False Inr r tag by blast
        with False Inr r tag wf show ?thesis
          by (subst decode_tlvs.simps) (auto simp: wf_tlv_def split: sum.splits)
      qed
    qed
  qed
qed

lemma DecodePacket_cases:
  "case DecodePacket data of Inl e \<Rightarrow> errors_is e ErrNSDP | Inr p \<Rightarrow> wf_packet p"
proof (cases "length data < HeaderSize")
  case False
  have "case decode_tlvs (drop HeaderSize data) of Inl e \<Rightarrow> errors_is e ErrNSDP
        | Inr ts \<Rightarrow> list_all wf_tlv ts"
    by (rule decode_tlvs_cases)
  with False show ?thesis
    by (cases "decode_tlvs (drop HeaderSize data)")
       (simp_all add: DecodePacket_def Uint32_def wf_packet_def)
qed (simp add: DecodePacket_def)

text \<open>
  The decoder is total and panic-free: every byte string is either rejected with an
  error wrapping \<^verbatim>\<open>ErrNSDP\<close> (never an index or slice panic) or decoded to a packet with
  six-byte addresses, a known operation and no end-marker TLV.
\<close>

theorem DecodePacket_total:
  "case DecodePacket data of Inl e \<Rightarrow> errors_is e ErrNSDP | Inr p \<Rightarrow> wf_packet p"
  by (rule DecodePacket_cases)

text \<open>Re-encoding a received packet and decoding it again changes nothing.\<close>

lemma decode_encode_decode:
  "DecodePacket data = Inr p \<Longrightarrow> \<exists>bs. EncodePacket p = Inr bs \<and> DecodePacket bs = Inr p"
  using DecodePacket_cases [of data] encode_decode_packet [of p] by (metis sum.simps(6))

end
