(* ===== verification/Bitmap.thy ===== *)
theory Bitmap
  imports Switch_Model
begin

unbundle bit_operations_syntax

section \<open>MSB-first bitmaps of ports and VLANs\<close>

text \<open>
  Three packages carry the same bitmap: port 1 is the high bit of byte 0, port 9 the high bit
  of byte 1.  \<^verbatim>\<open>nsdp\<close> decodes with \<^verbatim>\<open>bitmapToPorts\<close> and encodes with
  \<^verbatim>\<open>portsToBitmap\<close> (nsdp/parse.go), \<^verbatim>\<open>snmp\<close> with \<^verbatim>\<open>DecodePortBitmap\<close> and
  \<^verbatim>\<open>EncodePortBitmap\<close> (snmp/parse.go, snmp/write.go) and, for VLAN ids,
  \<^verbatim>\<open>DecodeVlanBitmap\<close>, \<^verbatim>\<open>vlanBitmap\<close> and \<^verbatim>\<open>editVlanBits\<close>
  (snmp/writer_switchport.go).  The locale \<open>msb_codec\<close> states what a decoder and an
  encoder of this layout promise; both packages' pairs are interpretations of it.
\<close>

subsection \<open>The loops of the code\<close>

text \<open>The mask \<^verbatim>\<open>0x80 >> uint(bit)\<close>; a negative \<^verbatim>\<open>bit\<close> shifts everything out.\<close>

definition msb_mask :: "int \<Rightarrow> byte" where
  "msb_mask k = (if k < 0 then 0 else drop_bit (nat k) 0x80)"

definition byte_ports :: "nat \<Rightarrow> byte \<Rightarrow> int list" where
  "byte_ports i b =
     map (\<lambda>k. int (i * 8) + k + 1) (filter (\<lambda>k. b AND msb_mask k \<noteq> 0) [0, 1, 2, 3, 4, 5, 6, 7])"

fun ports_from :: "nat \<Rightarrow> bytes \<Rightarrow> int list" where
  "ports_from i [] = []"
| "ports_from i (b # bs) = byte_ports i b @ ports_from (Suc i) bs"

definition bitmapToPorts :: "bytes \<Rightarrow> int list" where
  "bitmapToPorts bitmap = ports_from 0 bitmap"

text \<open>Go's integer division truncates towards zero.\<close>

definition go_div :: "int \<Rightarrow> int \<Rightarrow> int" where
  "go_div a b = sgn a * sgn b * (\<bar>a\<bar> div \<bar>b\<bar>)"

definition go_mod :: "int \<Rightarrow> int \<Rightarrow> int" where
  "go_mod a b = a - b * go_div a b"

text \<open>
  One turn of the encoding loop: the buffer grows until the byte exists, then the bit is set; a
  port at or below -7 gives a negative byte index, on which Go panics.
\<close>

definition set_port_bit :: "bytes \<Rightarrow> int \<Rightarrow> bytes res" where
  "set_port_bit data p =
     (let byteIdx = go_div (p - 1) 8; bit = go_mod (p - 1) 8
      in if byteIdx < 0 then Inl Go_Panic
         else let i = nat byteIdx; data' = data @ replicate (Suc i - length data) 0
              in Inr (data'[i := data' ! i OR msb_mask bit]))"

fun set_port_bits :: "bytes \<Rightarrow> int list \<Rightarrow> bytes res" where
  "set_port_bits data [] = Inr data"
| "set_port_bits data (p # ps) = rbind (set_port_bit data p) (\<lambda>d. set_port_bits d ps)"

definition portsToBitmap :: "int list \<Rightarrow> nat \<Rightarrow> bytes res" where
  "portsToBitmap ports widthBytes = set_port_bits (replicate widthBytes 0) ports"

text \<open>The SNMP pair has the same loops.\<close>

definition DecodePortBitmap :: "bytes \<Rightarrow> int list" where
  "DecodePortBitmap bitmap = ports_from 0 bitmap"

definition EncodePortBitmap :: "int list \<Rightarrow> nat \<Rightarrow> bytes res" where
  "EncodePortBitmap ports widthBytes = set_port_bits (replicate widthBytes 0) ports"

definition VlanBitmapWidth :: "nat \<Rightarrow> nat" where
  "VlanBitmapWidth portCount = (let w = (portCount + 7) div 8 in if w < 8 then 8 else w)"

definition SetPortBit :: "bytes \<Rightarrow> int \<Rightarrow> bool \<Rightarrow> nat \<Rightarrow> bytes res" where
  "SetPortBit bitmap port on requested =
     (let next = filter (\<lambda>p. p \<noteq> port) (DecodePortBitmap bitmap);
          next' = (if on then sort (next @ [port]) else next);
          target = (if requested > length bitmap then requested else length bitmap);
          target' = (if target < 8 then 8 else target)
      in EncodePortBitmap next' target')"

definition MembershipBitmaps ::
    "bytes \<Rightarrow> bytes \<Rightarrow> int \<Rightarrow> vlan_mode \<Rightarrow> nat \<Rightarrow> (bytes \<times> bytes) res" where
  "MembershipBitmaps egress untagged port mode width =
     (let inEgress = (mode = VlanUntagged \<or> mode = VlanTagged); inUntagged = (mode = VlanUntagged)
      in rbind (SetPortBit egress port inEgress width) (\<lambda>e.
         rbind (SetPortBit untagged port inUntagged width) (\<lambda>u. Inr (e, u))))"

subsection \<open>One bit of a bitmap\<close>

text \<open>\<open>bm_bit bm n\<close>: the bit of port \<open>n + 1\<close>, out-of-range bits being clear.\<close>

definition bm_bit :: "bytes \<Rightarrow> nat \<Rightarrow> bool" where
  "bm_bit bm n \<longleftrightarrow> n div 8 < length bm \<and> bit (bm ! (n div 8)) (7 - n mod 8)"

lemma bm_bit_Cons8: "bm_bit (b # bs) (n + 8) \<longleftrightarrow> bm_bit bs n"
proof -
  have "(n + 8) div 8 = Suc (n div 8)" by simp
  then show ?thesis by (simp add: bm_bit_def)
qed

lemma msb_mask_exp: "k < 8 \<Longrightarrow> msb_mask (int k) = 2 ^ (7 - k)"
proof -
  assume "k < 8"
  then have "k \<in> {0, 1, 2, 3, 4, 5, 6, 7}" by auto
  then show ?thesis by (auto simp: msb_mask_def)
qed

lemma and_msb_mask: "k < 8 \<Longrightarrow> b AND msb_mask (int k) \<noteq> 0 \<longleftrightarrow> bit b (7 - k)"
  by (simp add: msb_mask_exp and_exp_eq_0_iff_not_bit)

lemma bit_msb_mask: "k < 8 \<Longrightarrow> bit (msb_mask (int k)) j \<longleftrightarrow> j = 7 - k"
  by (auto simp: msb_mask_exp bit_exp_iff)

lemma int_range8: "{0, 1, 2, 3, 4, 5, 6, 7} = int ` {0..<8}"
  by (auto simp: image_iff)

lemma set_byte_ports:
  "x \<in> set (byte_ports i b) \<longleftrightarrow> (\<exists>k < 8. x = int (i * 8 + k + 1) \<and> bit b (7 - k))"
proof -
  have "x \<in> set (byte_ports i b) \<longleftrightarrow>
      (\<exists>k \<in> {0, 1, 2, 3, 4, 5, 6, 7}. x = int (i * 8) + k + 1 \<and> b AND msb_mask k \<noteq> 0)"
    by (simp add: byte_ports_def)
  also have "\<dots> \<longleftrightarrow> (\<exists>k < 8. x = int (i * 8) + int k + 1 \<and> b AND msb_mask (int k) \<noteq> 0)"
    unfolding int_range8 by auto
  finally show ?thesis by (auto simp: and_msb_mask ac_simps)
qed

lemma strict_byte_ports:
  "sorted_wrt (<) (byte_ports i b)" "\<forall>x \<in> set (byte_ports i b). int (i * 8) < x \<and> x \<le> int (i * 8) + 8"
proof -
  have "sorted_wrt (<) [0, 1, 2, 3, 4, 5, 6, 7::int]" by simp
  then have "sorted_wrt (<) (filter (\<lambda>k. b AND msb_mask k \<noteq> 0) [0, 1, 2, 3, 4, 5, 6, 7])"
    by (rule sorted_wrt_filter)
  then show "sorted_wrt (<) (byte_ports i b)"
    unfolding byte_ports_def sorted_wrt_map by (rule sorted_wrt_mono_rel [rotated]) simp
qed (auto simp: set_byte_ports)

lemma ports_from_iff:
  "x \<in> set (ports_from i bm) \<longleftrightarrow> (\<exists>n. x = int (i * 8 + n + 1) \<and> bm_bit bm n)"
proof (induction bm arbitrary: i)
  case Nil
  then show ?case by (simp add: bm_bit_def)
next
  case (Cons b bs)
  have split: "(\<exists>n. x = int (i * 8 + n + 1) \<and> bm_bit (b # bs) n) \<longleftrightarrow>
      (\<exists>k < 8. x = int (i * 8 + k + 1) \<and> bit b (7 - k))
      \<or> (\<exists>n. x = int (Suc i * 8 + n + 1) \<and> bm_bit bs n)" (is "?L \<longleftrightarrow> ?A \<or> ?B")
  proof
    assume ?L
    then obtain n where n: "x = int (i * 8 + n + 1)" "bm_bit (b # bs) n" by blast
    show "?A \<or> ?B"
    proof (cases "n < 8")
      case True
      with n show ?thesis by (auto simp: bm_bit_def)
    next
      case False
      then obtain m where "n = m + 8" by (metis add.commute le_Suc_ex not_less)
      with n have "x = int (Suc i * 8 + m + 1)" "bm_bit bs m" by (simp_all add: bm_bit_Cons8)
      then show ?thesis by blast
    qed
  next
    assume "?A \<or> ?B"
    then show ?L
    proof
      assume ?A
      then obtain k where "k < 8" "x = int (i * 8 + k + 1)" "bit b (7 - k)" by blast
      then show ?L by (auto simp: bm_bit_def intro!: exI [of _ k])
    next
      assume ?B
      then obtain n where "x = int (Suc i * 8 + n + 1)" "bm_bit bs n" by blast
      then show ?L by (intro exI [of _ "n + 8"]) (simp add: bm_bit_Cons8)
    qed
  qed
  show ?case by (simp only: split) (simp add: set_byte_ports Cons.IH)
qed

lemma ports_from_strict:
  "sorted_wrt (<) (ports_from i bm) \<and> (\<forall>x \<in> set (ports_from i bm). int (i * 8) < x)"
proof (induction bm arbitrary: i)
  case (Cons b bs)
  have "\<forall>x \<in> set (byte_ports i b). \<forall>y \<in> set (ports_from (Suc i) bs). x < y"
    using strict_byte_ports(2) [of i b] Cons.IH [of "Suc i"] by fastforce
  then show ?case
    using strict_byte_ports [of i b] Cons.IH [of "Suc i"] by (auto simp: sorted_wrt_append)
qed simp

lemma ports_from_sorted: "sorted (ports_from i bm)" "distinct (ports_from i bm)"
  using ports_from_strict [of i bm] by (simp_all add: strict_sorted_iff)

lemma mem_bitmapToPorts: "x \<in> set (bitmapToPorts bm) \<longleftrightarrow> 1 \<le> x \<and> bm_bit bm (nat (x - 1))"
  unfolding bitmapToPorts_def ports_from_iff by force

lemma bitmapToPorts_sorted: "sorted (bitmapToPorts bm)" "distinct (bitmapToPorts bm)"
  by (simp_all add: bitmapToPorts_def ports_from_sorted)

lemma bitmap_eqI:
  assumes "length a = length b" and "\<And>n. bm_bit a n = bm_bit b n"
  shows "a = b"
proof (rule nth_equalityI [OF assms(1)])
  fix i assume i: "i < length a"
  show "a ! i = b ! i"
  proof (rule bit_word_eqI)
    fix k assume k: "k < LENGTH(8)"
    have "bm_bit a (i * 8 + (7 - k)) = bm_bit b (i * 8 + (7 - k))" by (rule assms(2))
    moreover have "(i * 8 + (7 - k)) div 8 = i" "(i * 8 + (7 - k)) mod 8 = 7 - k" by simp_all
    ultimately show "bit (a ! i) k = bit (b ! i) k"
      using i k assms(1) by (simp add: bm_bit_def)
  qed
qed

subsection \<open>Setting bits\<close>

lemma bm_bit_pad [simp]: "bm_bit (data @ replicate m 0) n = bm_bit data n"
  by (auto simp: bm_bit_def nth_append)

lemma bm_bit_zeros [simp]: "\<not> bm_bit (replicate w 0) n"
  by (simp add: bm_bit_def)

lemma go_div_mod_nonneg: "0 \<le> a \<Longrightarrow> go_div a 8 = a div 8 \<and> go_mod a 8 = a mod 8"
proof -
  assume "0 \<le> a"
  then have "go_div a 8 = a div 8" by (cases "a = 0") (auto simp: go_div_def)
  then show ?thesis by (simp add: go_mod_def minus_mult_div_eq_mod)
qed

lemma set_port_bit_nat:
  assumes "1 \<le> p"
  shows "set_port_bit data p =
    (let n = nat (p - 1); data' = data @ replicate (Suc (n div 8) - length data) 0
     in Inr (data'[n div 8 := data' ! (n div 8) OR msb_mask (int (n mod 8))]))"
proof -
  have idx: "go_div (p - 1) 8 = int (nat (p - 1) div 8)" "go_mod (p - 1) 8 = int (nat (p - 1) mod 8)"
    using assms go_div_mod_nonneg [of "p - 1"] by (simp_all add: zdiv_int zmod_int)
  show ?thesis
    unfolding set_port_bit_def idx by (simp add: Let_def)
qed

lemma bit_place_eq: "n = (m :: nat) \<longleftrightarrow> n div 8 = m div 8 \<and> 7 - n mod 8 = 7 - m mod 8"
proof
  assume eq: "n div 8 = m div 8 \<and> 7 - n mod 8 = 7 - m mod 8"
  have "n mod 8 < 8" "m mod 8 < 8" by simp_all
  with eq have "n mod 8 = m mod 8" by linarith
  with eq show "n = m" by (metis div_mult_mod_eq)
qed simp

lemma bm_bit_update:
  assumes "m div 8 < length d"
  shows "bm_bit (d[m div 8 := d ! (m div 8) OR msb_mask (int (m mod 8))]) n \<longleftrightarrow> bm_bit d n \<or> n = m"
proof -
  have "n = m \<longleftrightarrow> n div 8 = m div 8 \<and> 7 - n mod 8 = 7 - m mod 8"
    by (rule bit_place_eq)
  then show ?thesis
    using assms by (auto simp: bm_bit_def nth_list_update bit_or_iff bit_msb_mask)
qed

lemma set_port_bit_ok:
  assumes "1 \<le> p"
  obtains d where "set_port_bit data p = Inr d"
    "\<And>n. bm_bit d n \<longleftrightarrow> bm_bit data n \<or> int n + 1 = p"
    "length d = max (length data) (Suc (nat (p - 1) div 8))"
proof
  define m where "m = nat (p - 1)"
  define data' where "data' = data @ replicate (Suc (m div 8) - length data) 0"
  have len: "length data' = max (length data) (Suc (m div 8))"
    by (auto simp: data'_def)
  let ?d = "data'[m div 8 := data' ! (m div 8) OR msb_mask (int (m mod 8))]"
  show "set_port_bit data p = Inr ?d"
    using assms by (simp add: set_port_bit_nat m_def data'_def Let_def)
  show "bm_bit ?d n \<longleftrightarrow> bm_bit data n \<or> int n + 1 = p" for n
  proof -
    have "int n + 1 = p \<longleftrightarrow> n = m" using assms by (auto simp: m_def)
    then show ?thesis using bm_bit_update [of m data' n] len by (simp add: data'_def)
  qed
  show "length ?d = max (length data) (Suc (nat (p - 1) div 8))"
    using len by (simp add: m_def)
qed

lemma set_port_bits_ok:
  assumes "\<forall>p \<in> set ps. 1 \<le> p"
  shows "\<exists>d. set_port_bits data ps = Inr d
    \<and> (\<forall>n. bm_bit d n \<longleftrightarrow> bm_bit data n \<or> int n + 1 \<in> set ps)
    \<and> length data \<le> length d
    \<and> ((\<forall>p \<in> set ps. p \<le> int (8 * length data)) \<longrightarrow> length d = length data)"
  using assms
proof (induction ps arbitrary: data)
  case (Cons p ps)
  from Cons.prems have p: "1 \<le> p" and ps: "\<forall>p \<in> set ps. 1 \<le> p" by simp_all
  obtain d where d: "set_port_bit data p = Inr d"
      "\<And>n. bm_bit d n \<longleftrightarrow> bm_bit data n \<or> int n + 1 = p"
      "length d = max (length data) (Suc (nat (p - 1) div 8))"
    using set_port_bit_ok [OF p] by blast
  obtain e where e: "set_port_bits d ps = Inr e"
      "\<forall>n. bm_bit e n \<longleftrightarrow> bm_bit d n \<or> int n + 1 \<in> set ps" "length d \<le> length e"
      "(\<forall>p \<in> set ps. p \<le> int (8 * length d)) \<longrightarrow> length e = length d"
    using Cons.IH [OF ps, of d] by blast
  have "length d = length data" if "p \<le> int (8 * length data)"
  proof -
    have "nat (p - 1) < 8 * length data" using that p by linarith
    then have "nat (p - 1) div 8 < length data" by (simp add: div_less_iff_less_mult mult.commute)
    with d(3) show ?thesis by simp
  qed
  with d e show ?case by auto
qed simp

subsection \<open>The codec interface\<close>

locale msb_codec =
  fixes decode :: "bytes \<Rightarrow> int list" and encode :: "int list \<Rightarrow> nat \<Rightarrow> bytes res"
  assumes decode_mem: "x \<in> set (decode bm) \<longleftrightarrow> 1 \<le> x \<and> bm_bit bm (nat (x - 1))"
    and decode_sorted: "sorted (decode bm)" "distinct (decode bm)"
    and encode_bits: "\<forall>p \<in> set ps. 1 \<le> p \<Longrightarrow>
      \<exists>bm. encode ps w = Inr bm \<and> (\<forall>n. bm_bit bm n \<longleftrightarrow> int n + 1 \<in> set ps) \<and> w \<le> length bm
        \<and> ((\<forall>p \<in> set ps. p \<le> int (8 * w)) \<longrightarrow> length bm = w)"
begin

lemma decode_encode:
  assumes "\<forall>p \<in> set ps. 1 \<le> p"
  shows "\<exists>bm. encode ps w = Inr bm \<and> decode bm = sort_uniq ps \<and> w \<le> length bm
    \<and> ((\<forall>p \<in> set ps. p \<le> int (8 * w)) \<longrightarrow> length bm = w)"
proof -
  obtain bm where bm: "encode ps w = Inr bm" "\<forall>n. bm_bit bm n \<longleftrightarrow> int n + 1 \<in> set ps"
      "w \<le> length bm" "(\<forall>p \<in> set ps. p \<le> int (8 * w)) \<longrightarrow> length bm = w"
    using encode_bits [OF assms] by blast
  have "set (decode bm) = set ps"
    using assms bm(2) by (auto simp: decode_mem)
  then have "decode bm = sort_uniq ps"
    by (intro sorted_distinct_set_unique) (simp_all add: decode_sorted)
  with bm show ?thesis by blast
qed

lemma decode_pos: "x \<in> set (decode bm) \<Longrightarrow> 1 \<le> x"
  by (simp add: decode_mem)

lemma decode_le: "x \<in> set (decode bm) \<Longrightarrow> x \<le> int (8 * length bm)"
proof -
  assume "x \<in> set (decode bm)"
  then have "1 \<le> x" "nat (x - 1) div 8 < length bm" by (simp_all add: decode_mem bm_bit_def)
  then have "nat (x - 1) < 8 * length bm"
    by (simp add: div_less_iff_less_mult mult.commute)
  with \<open>1 \<le> x\<close> show ?thesis by linarith
qed

lemma encode_decode: "encode (decode bm) (length bm) = Inr bm"
proof -
  obtain c where c: "encode (decode bm) (length bm) = Inr c"
      "\<forall>n. bm_bit c n \<longleftrightarrow> int n + 1 \<in> set (decode bm)" "length c = length bm"
    using encode_bits [of "decode bm" "length bm"] decode_pos decode_le by blast
  have "c = bm"
    by (rule bitmap_eqI) (simp_all add: c decode_mem)
  with c show ?thesis by simp
qed

end

interpretation nsdp_bm: msb_codec bitmapToPorts portsToBitmap
proof unfold_locales
  fix ps :: "int list" and w :: nat
  assume "\<forall>p \<in> set ps. 1 \<le> p"
  then show "\<exists>bm. portsToBitmap ps w = Inr bm \<and> (\<forall>n. bm_bit bm n \<longleftrightarrow> int n + 1 \<in> set ps) \<and> w \<le> length bm
      \<and> ((\<forall>p \<in> set ps. p \<le> int (8 * w)) \<longrightarrow> length bm = w)"
    using set_port_bits_ok [of ps "replicate w 0"] by (simp add: portsToBitmap_def)
qed (simp_all add: mem_bitmapToPorts bitmapToPorts_sorted)

lemma snmp_codec_same [simp]:
  "DecodePortBitmap = bitmapToPorts" "EncodePortBitmap = portsToBitmap"
  by (simp_all add: fun_eq_iff DecodePortBitmap_def bitmapToPorts_def EncodePortBitmap_def portsToBitmap_def)

interpretation snmp_bm: msb_codec DecodePortBitmap EncodePortBitmap
  unfolding snmp_codec_same by unfold_locales

text \<open>
  NSDP port bitmaps round-trip: a list of positive port numbers encodes to a bitmap (no
  panic), at least as wide as asked and exactly so when every port fits; decoding gives the
  ports back, sorted and without duplicates; and encoding a decoded bitmap at its own width
  restores it byte for byte.
\<close>

theorem port_bitmap_roundtrip:
  assumes "\<forall>p \<in> set ps. 1 \<le> p"
  shows "(\<exists>bm. portsToBitmap ps w = Inr bm \<and> bitmapToPorts bm = sort_uniq ps \<and> w \<le> length bm
      \<and> ((\<forall>p \<in> set ps. p \<le> int (8 * w)) \<longrightarrow> length bm = w))
    \<and> portsToBitmap (bitmapToPorts raw) (length raw) = Inr raw"
  using nsdp_bm.decode_encode [OF assms, of w] nsdp_bm.encode_decode [of raw] by blast

theorem port_bitmap_roundtrip_witness:
  "(\<exists>bm. portsToBitmap [9, 1, 9] 1 = Inr bm \<and> bitmapToPorts bm = [1, 9] \<and> 1 \<le> length bm)
   \<and> portsToBitmap (bitmapToPorts [0x81, 0]) 2 = Inr [0x81, 0]"
proof -
  have ps: "\<forall>p \<in> set [9, 1, 9::int]. 1 \<le> p" and u: "sort_uniq [9, 1, 9] = [1, 9]"
    and l: "length [0x81, 0::byte] = 2"
    by (simp_all add: sort_uniq_def)
  show ?thesis using port_bitmap_roundtrip [OF ps, of 1 "[0x81, 0]"] unfolding u l by metis
qed

subsection \<open>SNMP membership bitmaps (snmp/write.go)\<close>

lemma SetPortBit_ok:
  assumes "1 \<le> port" "port \<le> int (8 * max 8 (max (length bm) w))"
  shows "\<exists>bm'. SetPortBit bm port on w = Inr bm' \<and> length bm' = max 8 (max (length bm) w)
    \<and> (\<forall>n. bm_bit bm' n \<longleftrightarrow> (if int n + 1 = port then on else bm_bit bm n))"
proof -
  let ?W = "max 8 (max (length bm) w)"
  let ?next = "filter (\<lambda>p. p \<noteq> port) (DecodePortBitmap bm)"
  let ?next' = "if on then sort (?next @ [port]) else ?next"
  have le: "x \<le> int (8 * ?W)" if "x \<in> set (DecodePortBitmap bm)" for x
    using snmp_bm.decode_le [OF that] by (simp add: max_def split: if_splits)
  have pos: "\<forall>p \<in> set ?next'. 1 \<le> p"
    using assms(1) snmp_bm.decode_pos by auto
  have fits: "\<forall>p \<in> set ?next'. p \<le> int (8 * ?W)"
    using le assms(2) by auto
  have "SetPortBit bm port on w = EncodePortBitmap ?next' ?W"
    by (simp add: SetPortBit_def Let_def max_def)
  moreover obtain bm' where bm': "EncodePortBitmap ?next' ?W = Inr bm'"
      "\<forall>n. bm_bit bm' n \<longleftrightarrow> int n + 1 \<in> set ?next'" "length bm' = ?W"
    using snmp_bm.encode_bits [OF pos, of ?W] fits by blast
  moreover have "int n + 1 \<in> set ?next' \<longleftrightarrow> (if int n + 1 = port then on else bm_bit bm n)" for n
    by (auto simp: mem_bitmapToPorts)
  ultimately show ?thesis by (intro exI [of _ bm']) simp
qed

text \<open>
  An SNMP membership change touches one port: both new bitmaps keep the width
  \<^verbatim>\<open>max(8, len, width)\<close>, the changed port has the bits of the mode table (untagged: egress
  and untagged; tagged: egress only; excluded: neither), and every other port keeps both of
  its bits.
\<close>

lemma MembershipBitmaps_one_port:
  assumes "1 \<le> port" "port \<le> int (8 * max 8 w)"
  shows "\<exists>e u. MembershipBitmaps egress untagged port mode w = Inr (e, u)
    \<and> length e = max 8 (max (length egress) w) \<and> length u = max 8 (max (length untagged) w)
    \<and> (\<forall>n. bm_bit e n \<longleftrightarrow>
          (if int n + 1 = port then mode \<noteq> VlanExcluded else bm_bit egress n))
    \<and> (\<forall>n. bm_bit u n \<longleftrightarrow>
          (if int n + 1 = port then mode = VlanUntagged else bm_bit untagged n))"
proof -
  have fits: "port \<le> int (8 * max 8 (max k w))" for k
    using assms(2) by (simp add: max_def split: if_splits)
  obtain e where e: "SetPortBit egress port (mode = VlanUntagged \<or> mode = VlanTagged) w = Inr e"
      "length e = max 8 (max (length egress) w)"
      "\<forall>n. bm_bit e n \<longleftrightarrow> (if int n + 1 = port then mode = VlanUntagged \<or> mode = VlanTagged
         else bm_bit egress n)"
    using SetPortBit_ok [OF assms(1) fits] by blast
  obtain u where u: "SetPortBit untagged port (mode = VlanUntagged) w = Inr u"
      "length u = max 8 (max (length untagged) w)"
      "\<forall>n. bm_bit u n \<longleftrightarrow> (if int n + 1 = port then mode = VlanUntagged else bm_bit untagged n)"
    using SetPortBit_ok [OF assms(1) fits] by blast
  have "(mode = VlanUntagged \<or> mode = VlanTagged) \<longleftrightarrow> mode \<noteq> VlanExcluded"
    by (cases mode) simp_all
  with e u show ?thesis
    by (simp add: MembershipBitmaps_def Let_def)
qed

lemma MembershipBitmaps_one_port_witness:
  "(1::int) \<le> 5 \<and> (5::int) \<le> int (8 * max 8 7)
   \<and> (\<exists>e u. MembershipBitmaps [0x80] [0x80] 5 VlanTagged 7 = Inr (e, u) \<and> length e = 8
      \<and> bm_bit e 4 \<and> \<not> bm_bit u 4 \<and> bm_bit u 0)"
proof -
  have h: "(1::int) \<le> 5" "(5::int) \<le> int (8 * max 8 7)" by simp_all
  have "bm_bit [0x80] 0" by (simp add: bm_bit_def)
  then show ?thesis
    using h MembershipBitmaps_one_port [OF h, of "[0x80]" "[0x80]" VlanTagged] by fastforce
qed

end
