(* ===== verification/Nsdp_Auth.thy ===== *)
theory Nsdp_Auth
  imports Nsdp_Codec
begin

unbundle bit_operations_syntax

section \<open>NSDP write authentication (nsdp/auth.go)\<close>

text \<open>
  The v1 scheme XORs the password with a repeating key, the v2 scheme folds password, salt and
  switch MAC into an eight-byte token, and the \<^verbatim>\<open>AUTH_V2_ENCPASS\<close> value selects
  between them.
\<close>

definition V1Key :: bytes where
  "V1Key = bytes_of ''NtgrSmartSwitchRock''"

lemma length_V1Key: "length V1Key = 19"
  by (simp add: V1Key_def)

text \<open>The ASCII check both schemes share: the first byte at or above 0x80 is reported.\<close>

fun ascii_check :: "nat \<Rightarrow> bytes \<Rightarrow> unit res" where
  "ascii_check i [] = Inr ()"
| "ascii_check i (b # bs) =
     (if b \<ge> 0x80
      then Inl (errNSDP ''NSDP password must be ASCII, got byte 0x%02X at index %d''
                  [AInt (uint b), AInt (int i)])
      else ascii_check (Suc i) bs)"

lemma ascii_check_eq: "ascii_check i bs = Inr u \<longleftrightarrow> (\<forall>b \<in> set bs. b < 0x80)"
  by (induction bs arbitrary: i) auto

lemma ascii_check_error: "ascii_check i bs = Inl e \<Longrightarrow> errors_is e ErrNSDP"
  by (induction bs arbitrary: i) (auto split: if_splits)

definition xor_key :: "bytes \<Rightarrow> bytes" where
  "xor_key pw = map (\<lambda>i. pw ! i XOR V1Key ! (i mod length V1Key)) [0..<length pw]"

definition EncodePasswordV1 :: "string \<Rightarrow> bytes res" where
  "EncodePasswordV1 password =
     (let pw = bytes_of password in rbind (ascii_check 0 pw) (\<lambda>_. Inr (xor_key pw)))"

definition PasswordTLV :: "string \<Rightarrow> tlv res" where
  "PasswordTLV password = rbind (EncodePasswordV1 password) (\<lambda>enc. Inr (TLV TagPassword enc))"

abbreviation (input) EncpassV1 :: u64 where "EncpassV1 \<equiv> 0x01"
abbreviation (input) EncpassV2 :: u64 where "EncpassV2 \<equiv> 0x10"

text \<open>The value is folded into a 64-bit accumulator, so high bytes of a long value fall out.\<close>

definition EncpassIsV2 :: "bytes \<Rightarrow> bool" where
  "EncpassIsV2 value =
     (if value = [] then False
      else foldl (\<lambda>n b. push_bit 8 n OR ucast b) 0 value = EncpassV2)"

definition token_key :: "bytes \<Rightarrow> bytes" where
  "token_key pw = take 20 pw @ replicate (20 - length (take 20 pw)) 0"

definition token_of :: "bytes \<Rightarrow> bytes \<Rightarrow> bytes \<Rightarrow> bytes" where
  "token_of k m s =
     [s!3 XOR s!2 XOR m!1 XOR m!5 XOR k!0 XOR k!1 XOR k!2,
      s!3 XOR s!1 XOR m!4 XOR m!0 XOR k!3 XOR k!4 XOR k!5,
      s!0 XOR s!2 XOR m!3 XOR m!2 XOR k!6 XOR k!7 XOR k!8,
      s!0 XOR s!1 XOR m!4 XOR m!5 XOR k!9 XOR k!10 XOR k!11,
      s!3 XOR s!2 XOR m!1 XOR m!5 XOR k!12 XOR k!13 XOR k!14,
      s!3 XOR s!1 XOR m!4 XOR m!0 XOR k!15 XOR k!16 XOR k!17,
      s!0 XOR s!2 XOR m!3 XOR m!2 XOR k!18 XOR k!19 XOR k!0,
      s!0 XOR s!1 XOR m!4 XOR m!5 XOR k!1 XOR k!3 XOR k!5]"

definition AuthV2Password :: "string \<Rightarrow> bytes \<Rightarrow> bytes \<Rightarrow> bytes res" where
  "AuthV2Password password switchMAC salt =
     (if length salt \<noteq> 4
      then Inl (errNSDP ''NSDP v2 salt must be 4 bytes, got %d'' [AInt (int (length salt))])
      else if length switchMAC \<noteq> 6
      then Inl (errNSDP ''NSDP v2 switch MAC must be 6 bytes, got %d'' [AInt (int (length switchMAC))])
      else rbind (ascii_check 0 (bytes_of password)) (\<lambda>_.
           Inr (token_of (token_key (bytes_of password)) switchMAC salt)))"

definition AuthV2PasswordTLV :: "string \<Rightarrow> bytes \<Rightarrow> bytes \<Rightarrow> tlv res" where
  "AuthV2PasswordTLV password switchMAC salt =
     rbind (AuthV2Password password switchMAC salt) (\<lambda>tok. Inr (TLV TagAuthV2Password tok))"

subsection \<open>Laws\<close>

lemma length_xor_key [simp]: "length (xor_key pw) = length pw"
  by (simp add: xor_key_def)

lemma nth_xor_key: "i < length pw \<Longrightarrow> xor_key pw ! i = pw ! i XOR V1Key ! (i mod length V1Key)"
  by (simp add: xor_key_def)

lemma xor_key_involution [simp]: "xor_key (xor_key pw) = pw"
  by (rule nth_equalityI) (simp_all add: nth_xor_key xor.assoc)

lemma EncodePasswordV1_ascii: "is_ascii pw \<Longrightarrow> EncodePasswordV1 pw = Inr (xor_key (bytes_of pw))"
  using ascii_check_eq [of 0 "bytes_of pw" "()"]
  by (simp add: EncodePasswordV1_def is_ascii_def Let_def)

lemma AuthV2Password_ascii:
  "is_ascii pw \<Longrightarrow> length mac = 6 \<Longrightarrow> length salt = 4 \<Longrightarrow>
   AuthV2Password pw mac salt = Inr (token_of (token_key (bytes_of pw)) mac salt)"
  using ascii_check_eq [of 0 "bytes_of pw" "()"]
  by (simp add: AuthV2Password_def is_ascii_def)

lemma ascii_check_non_ascii:
  "\<not> is_ascii pw \<Longrightarrow> \<exists>e. ascii_check 0 (bytes_of pw) = Inl e \<and> errors_is e ErrNSDP"
  using ascii_check_eq [of 0 "bytes_of pw" "()"] ascii_check_error [of 0 "bytes_of pw"]
  by (cases "ascii_check 0 (bytes_of pw)") (auto simp: is_ascii_def)

lemma length_token [simp]: "length (token_of k m s) = 8"
  by (simp add: token_of_def)

text \<open>
  The v1 encoding is an involution on ASCII passwords, so it is injective (two passwords
  never share an encoding) and keeps the length; a password that is not ASCII is refused with
  an error wrapping \<^verbatim>\<open>ErrNSDP\<close>.
\<close>

lemma EncodePasswordV1_involution:
  "if is_ascii pw
   then \<exists>enc. EncodePasswordV1 pw = Inr enc \<and> length enc = length pw
          \<and> xor_key enc = bytes_of pw
          \<and> (\<forall>other. EncodePasswordV1 other = Inr enc \<longleftrightarrow> other = pw)
   else \<exists>e. EncodePasswordV1 pw = Inl e \<and> errors_is e ErrNSDP"
proof (cases "is_ascii pw")
  case True
  have "other = pw" if "EncodePasswordV1 other = Inr (xor_key (bytes_of pw))" for other
  proof -
    have "xor_key (bytes_of other) = xor_key (bytes_of pw)"
      using that by (auto simp: EncodePasswordV1_def Let_def res_simps)
    then show ?thesis by (metis xor_key_involution bytes_of_eq_iff)
  qed
  with True show ?thesis by (auto simp: EncodePasswordV1_ascii)
next
  case False
  then obtain e where "ascii_check 0 (bytes_of pw) = Inl e" "errors_is e ErrNSDP"
    using ascii_check_non_ascii by blast
  then have "EncodePasswordV1 pw = Inl e \<and> errors_is e ErrNSDP"
    by (simp add: EncodePasswordV1_def Let_def)
  with False show ?thesis by auto
qed

text \<open>The known-answer vector of the source's comment.\<close>

lemma AuthV2Password_vector:
  "AuthV2Password ''password'' [0x12, 0x34, 0x56, 0x78, 0x9a, 0xbc] [0x12, 0x34, 0x56, 0x78]
   = Inr [0xc4, 0xaf, 0x7c, 0x00, 0xa6, 0xc4, 0x1a, 0x7d]"
  by (simp add: AuthV2Password_def bytes_of_def byte_of_char_def token_key_def token_of_def)

subsection \<open>What the v2 token depends on\<close>

lemma xor_cancel2: "(a :: byte) XOR (b XOR x) = c XOR (d XOR x) \<longleftrightarrow> a XOR b = c XOR d"
  by (auto simp: bit_eq_iff bit_xor_iff)

lemma xor_pair: "(a :: byte) XOR b = c XOR d \<longleftrightarrow> a XOR c = b XOR d"
  by (auto simp: bit_eq_iff bit_xor_iff)

lemma xor_undo: "(x :: byte) XOR (x XOR y) = y"
  by (simp flip: xor.assoc)

lemma length4: "length xs = 4 \<Longrightarrow> \<exists>a b c d. xs = [a, b, c, d]"
  by (auto simp: numeral_eq_Suc length_Suc_conv)

lemma token_salt_eq:
  assumes "length s = 4" "length s' = 4"
  shows "token_of k m s = token_of k m s' \<longleftrightarrow> (\<exists>c. s' = map (\<lambda>b. b XOR c) s)"
proof -
  obtain a b c d where s: "s = [a, b, c, d]" using length4 assms(1) by blast
  obtain a' b' c' d' where s': "s' = [a', b', c', d']" using length4 assms(2) by blast
  have "token_of k m s = token_of k m s' \<longleftrightarrow>
      d XOR c = d' XOR c' \<and> d XOR b = d' XOR b' \<and> a XOR c = a' XOR c' \<and> a XOR b = a' XOR b'"
    by (auto simp: token_of_def s s' xor_cancel2)
  also have "\<dots> \<longleftrightarrow> d XOR d' = c XOR c' \<and> d XOR d' = b XOR b' \<and> a XOR a' = c XOR c'
      \<and> a XOR a' = b XOR b'"
    by (simp only: xor_pair [of d c] xor_pair [of d b] xor_pair [of a c] xor_pair [of a b])
  also have "\<dots> \<longleftrightarrow> d XOR d' = c XOR c' \<and> d XOR d' = b XOR b' \<and> a XOR a' = c XOR c'"
    by auto
  also have "\<dots> \<longleftrightarrow> (\<exists>e. s' = map (\<lambda>b. b XOR e) s)"
  proof
    assume eq: "d XOR d' = c XOR c' \<and> d XOR d' = b XOR b' \<and> a XOR a' = c XOR c'"
    have "s' = [a XOR (a XOR a'), b XOR (b XOR b'), c XOR (c XOR c'), d XOR (d XOR d')]"
      by (simp add: s' xor_undo)
    also have "\<dots> = map (\<lambda>b. b XOR (a XOR a')) s"
    proof -
      have "b XOR b' = a XOR a'" "c XOR c' = a XOR a'" "d XOR d' = a XOR a'" using eq by metis+
      then show ?thesis by (simp only: s list.map)
    qed
    finally have "s' = map (\<lambda>b. b XOR (a XOR a')) s" .
    then show "\<exists>e. s' = map (\<lambda>b. b XOR e) s" ..
  next
    assume "\<exists>e. s' = map (\<lambda>b. b XOR e) s"
    then obtain e where "a' = a XOR e" "b' = b XOR e" "c' = c XOR e" "d' = d XOR e"
      by (auto simp: s s')
    then show "d XOR d' = c XOR c' \<and> d XOR d' = b XOR b' \<and> a XOR a' = c XOR c'"
      by (simp add: xor_undo)
  qed
  finally show ?thesis .
qed

text \<open>
  The v2 token is an eight-byte function of password, MAC and salt, and two four-byte
  challenges get the same token exactly when they differ by one constant byte in all four
  positions: a stale token is accepted for no other salt.
\<close>

lemma AuthV2Password_salt_sensitivity:
  assumes "is_ascii pw" "length mac = 6" "length s = 4" "length s' = 4"
  shows "\<exists>t t'. AuthV2Password pw mac s = Inr t \<and> AuthV2Password pw mac s' = Inr t'
    \<and> length t = 8 \<and> (t = t' \<longleftrightarrow> (\<exists>c. s' = map (\<lambda>b. b XOR c) s))"
  using assms by (simp add: AuthV2Password_ascii token_salt_eq)

lemma AuthV2Password_salt_sensitivity_witness:
  "is_ascii ''password'' \<and> (\<exists>t t'. AuthV2Password ''password'' [1, 2, 3, 4, 5, 6] [0, 0, 0, 1] = Inr t
     \<and> AuthV2Password ''password'' [1, 2, 3, 4, 5, 6] [0, 0, 0, 2] = Inr t' \<and> t \<noteq> t')"
proof -
  have a: "is_ascii ''password''"
    by (simp add: is_ascii_def bytes_of_def byte_of_char_def)
  have "\<nexists>c. [0, 0, 0, 2] = map (\<lambda>b. b XOR c) [0, 0, 0, 1 :: byte]"
    by auto
  then show ?thesis
    using a AuthV2Password_salt_sensitivity [OF a, of "[1, 2, 3, 4, 5, 6]" "[0, 0, 0, 1]" "[0, 0, 0, 2]"]
    by auto
qed

end
