(* ===== verification/Net_Text.thy ===== *)
theory Net_Text
  imports Switch_Model
begin

section \<open>Addresses as text: the parts of fmt, strings and net the code uses\<close>

text \<open>
  \<^verbatim>\<open>%d\<close> of a byte, \<^verbatim>\<open>%02x\<close>, \<^verbatim>\<open>strings.ToUpper\<close> on ASCII, and Go's
  \<^verbatim>\<open>net.ParseIP\<close> followed by \<^verbatim>\<open>To4\<close>, both the dotted-quad and the colon form
  (a zone makes \<^verbatim>\<open>ParseIP\<close> return nil).
\<close>

subsection \<open>Rendering\<close>

definition dec_digit :: "nat \<Rightarrow> char" where
  "dec_digit n = char_of (48 + n)"

fun show_nat :: "nat \<Rightarrow> string" where
  "show_nat n = (if n < 10 then [dec_digit n] else show_nat (n div 10) @ [dec_digit (n mod 10)])"

declare show_nat.simps [simp del]

definition show_byte :: "byte \<Rightarrow> string" where
  "show_byte b = show_nat (unat b)"

definition hex_digit :: "nat \<Rightarrow> char" where
  "hex_digit n = (if n < 10 then char_of (48 + n) else char_of (87 + n))"

text \<open>\<^verbatim>\<open>%02x\<close>.\<close>

definition show_hex :: "byte \<Rightarrow> string" where
  "show_hex b = [hex_digit (unat b div 16), hex_digit (unat b mod 16)]"

definition to_upper :: "char \<Rightarrow> char" where
  "to_upper c = (if 97 \<le> (of_char c :: nat) \<and> (of_char c :: nat) \<le> 122
                 then char_of ((of_char c :: nat) - 32) else c)"

definition to_lower :: "char \<Rightarrow> char" where
  "to_lower c = (let n = of_char c :: nat in if 65 \<le> n \<and> n \<le> 90 then char_of (n + 32) else c)"

definition ToUpper :: "string \<Rightarrow> string" where
  "ToUpper = map to_upper"

subsection \<open>Parsing\<close>

definition is_digit :: "char \<Rightarrow> bool" where
  "is_digit c \<longleftrightarrow> 48 \<le> (of_char c :: nat) \<and> (of_char c :: nat) \<le> 57"

definition digit_value :: "char \<Rightarrow> nat" where
  "digit_value c = of_char c - 48"

text \<open>
  The loop of \<^verbatim>\<open>netip.parseIPv4Fields\<close>: whether this is the first character, the
  previous one, the rest, the value and the digits of the current octet, the octets so far.
\<close>

fun ipv4_loop :: "bool \<Rightarrow> char \<Rightarrow> string \<Rightarrow> nat \<Rightarrow> nat \<Rightarrow> bytes \<Rightarrow> bytes option" where
  "ipv4_loop start prev [] val digLen octets =
     (if length octets < 3 then None else Some (octets @ [word_of_nat val]))"
| "ipv4_loop start prev (c # cs) val digLen octets =
     (if is_digit c then
        (if digLen = 1 \<and> val = 0 then None
         else let v = val * 10 + digit_value c
              in if v > 255 then None else ipv4_loop False c cs v (Suc digLen) octets)
      else if c = CHR ''.'' then
        (if start \<or> cs = [] \<or> prev = CHR ''.'' then None
         else if length octets = 3 then None
         else ipv4_loop False c cs 0 0 (octets @ [word_of_nat val]))
      else None)"

definition parseIPv4Fields :: "string \<Rightarrow> bytes option" where
  "parseIPv4Fields s = ipv4_loop True (CHR '' '') s 0 0 []"

definition hex_value :: "char \<Rightarrow> nat option" where
  "hex_value c =
     (let n = of_char c :: nat
      in if 48 \<le> n \<and> n \<le> 57 then Some (n - 48)
         else if 97 \<le> n \<and> n \<le> 102 then Some (n - 87)
         else if 65 \<le> n \<and> n \<le> 70 then Some (n - 55)
         else None)"

text \<open>One hexadecimal group: its digit count, value and the rest; a fifth digit is an error.\<close>

fun hex_group :: "string \<Rightarrow> nat \<Rightarrow> nat \<Rightarrow> (nat \<times> nat \<times> string) option" where
  "hex_group [] off acc = Some (off, acc, [])"
| "hex_group (c # cs) off acc =
     (case hex_value c of
        None \<Rightarrow> Some (off, acc, c # cs)
      | Some v \<Rightarrow> if off > 3 then None else hex_group cs (Suc off) (acc * 16 + v))"

lemma hex_group_length: "hex_group s off acc = Some (o', a, rest) \<Longrightarrow> length rest \<le> length s"
  by (induction s off acc rule: hex_group.induct) (auto split: option.splits if_splits)

lemma hex_group_progress:
  "hex_group s off acc = Some (o', a, rest) \<Longrightarrow> length rest + o' = length s + off"
  by (induction s off acc rule: hex_group.induct) (auto split: option.splits if_splits)

text \<open>The main loop of \<^verbatim>\<open>netip.parseIPv6\<close>: rest of the text, bytes so far, ellipsis.\<close>

function ipv6_loop :: "string \<Rightarrow> bytes \<Rightarrow> nat option \<Rightarrow> (string \<times> bytes \<times> nat option) option" where
  "ipv6_loop s ip ell =
     (if length ip \<ge> 16 then Some (s, ip, ell)
      else case hex_group s 0 0 of
        None \<Rightarrow> None
      | Some (off, acc, rest) \<Rightarrow>
          (if off = 0 then None
           else if rest \<noteq> [] \<and> hd rest = CHR ''.'' then
             (if ell = None \<and> length ip \<noteq> 12 then None
              else if length ip + 4 > 16 then None
              else map_option (\<lambda>f. ([], ip @ f, ell)) (parseIPv4Fields s))
           else
             (let ip' = ip @ [word_of_nat (acc div 256), word_of_nat acc]
              in if rest = [] then Some ([], ip', ell)
                 else if hd rest \<noteq> CHR '':'' \<or> tl rest = [] then None
                 else if hd (tl rest) = CHR '':'' then
                   (if ell \<noteq> None then None
                    else if tl (tl rest) = [] then Some ([], ip', Some (length ip'))
                    else ipv6_loop (tl (tl rest)) ip' (Some (length ip')))
                 else ipv6_loop (tl rest) ip' ell)))"
  by pat_completeness auto
termination
  by (relation "measure (\<lambda>(s, ip, ell). length s)") (auto dest!: hex_group_progress simp: neq_Nil_conv)

declare ipv6_loop.simps [simp del]

definition parseIPv6 :: "string \<Rightarrow> bytes option" where
  "parseIPv6 text =
     (let lead = (take 2 text = ''::'');
          s = (if lead then drop 2 text else text)
      in if lead \<and> s = [] then Some (replicate 16 0)
         else case ipv6_loop s [] (if lead then Some 0 else None) of
           None \<Rightarrow> None
         | Some (r, ip, ell) \<Rightarrow>
             (if r \<noteq> [] then None
              else if length ip < 16 then
                (case ell of None \<Rightarrow> None
                 | Some k \<Rightarrow> Some (take k ip @ replicate (16 - length ip) 0 @ drop k ip))
              else if ell \<noteq> None then None
              else Some ip))"

text \<open>\<^verbatim>\<open>net.ParseIP\<close> decides by the first dot, colon or percent sign; it always returns 16 bytes.\<close>

definition ParseIP :: "string \<Rightarrow> bytes option" where
  "ParseIP s =
     (case find (\<lambda>c. c = CHR ''.'' \<or> c = CHR '':'' \<or> c = CHR ''%'') s of
        None \<Rightarrow> None
      | Some c \<Rightarrow>
          (if c = CHR ''.'' then
             map_option (\<lambda>f. replicate 10 0 @ [0xFF, 0xFF] @ f) (parseIPv4Fields s)
           else if c = CHR '':'' then (if CHR ''%'' \<in> set s then None else parseIPv6 s)
           else None))"

definition To4 :: "bytes \<Rightarrow> bytes option" where
  "To4 ip =
     (if length ip = 4 then Some ip
      else if length ip = 16 \<and> take 10 ip = replicate 10 0 \<and> ip ! 10 = 0xFF \<and> ip ! 11 = 0xFF
      then Some (drop 12 ip)
      else None)"

definition dotted :: "byte \<Rightarrow> byte \<Rightarrow> byte \<Rightarrow> byte \<Rightarrow> string" where
  "dotted a b c d =
     show_byte a @ ''.'' @ show_byte b @ ''.'' @ show_byte c @ ''.'' @ show_byte d"

subsection \<open>Reading a rendered octet back\<close>

lemma digit_facts [simp]:
  assumes "n < 10"
  shows "is_digit (dec_digit n)" "digit_value (dec_digit n) = n" "dec_digit n \<noteq> CHR ''.''"
proof -
  have "(48 + n) mod 256 = 48 + n" using assms by simp
  then have oc: "(of_char (dec_digit n) :: nat) = 48 + n"
    by (simp add: dec_digit_def)
  then show "is_digit (dec_digit n)" "digit_value (dec_digit n) = n"
    using assms by (simp_all add: is_digit_def digit_value_def)
  have "(of_char (CHR ''.'') :: nat) = 46" by simp
  with oc show "dec_digit n \<noteq> CHR ''.''" by auto
qed

lemma dot_not_digit [simp]: "\<not> is_digit (CHR ''.'')"
  by (simp add: is_digit_def)

lemma show_nat_cases:
  assumes "n < 256"
  shows "show_nat n =
    (if n < 10 then [dec_digit n]
     else if n < 100 then [dec_digit (n div 10), dec_digit (n mod 10)]
     else [dec_digit (n div 100), dec_digit (n div 10 mod 10), dec_digit (n mod 10)])"
proof -
  have one: "show_nat k = [dec_digit k]" if "k < 10" for k
    using that by (simp add: show_nat.simps [of k])
  have two: "show_nat k = [dec_digit (k div 10), dec_digit (k mod 10)]" if "10 \<le> k" "k < 100" for k
  proof -
    have "k div 10 < 10" using that by linarith
    with that show ?thesis by (simp add: show_nat.simps [of k] one)
  qed
  have three: "show_nat k = [dec_digit (k div 100), dec_digit (k div 10 mod 10), dec_digit (k mod 10)]"
    if "100 \<le> k" "k < 256" for k
  proof -
    have "10 \<le> k div 10" "k div 10 < 100" using that by linarith+
    moreover have "k div 10 div 10 = k div 100" by (simp add: div_mult2_eq [symmetric])
    ultimately show ?thesis using that by (simp add: show_nat.simps [of k] two)
  qed
  show ?thesis using one two three assms by auto
qed

text \<open>Reading the digits of \<open>n\<close> leaves the loop after them with value \<open>n\<close>.\<close>

lemma ipv4_loop_octet:
  assumes "n < 256"
  shows "\<exists>p k. p \<noteq> CHR ''.'' \<and>
    ipv4_loop start prev (show_nat n @ rest) 0 0 octets = ipv4_loop False p rest n k octets"
proof -
  have three: "n div 100 * 10 + n div 10 mod 10 = n div 10" "n div 10 * 10 + n mod 10 = n"
  proof -
    have "n div 100 = n div 10 div 10" by (simp add: div_mult2_eq [symmetric])
    then show "n div 100 * 10 + n div 10 mod 10 = n div 10" by simp
  qed simp
  have small: "n div 10 < 26" "n div 100 < 10" using assms by linarith+
  consider "n < 10" | "10 \<le> n" "n < 100" | "100 \<le> n" by linarith
  then show ?thesis
  proof cases
    case 1
    then show ?thesis using assms
      by (intro exI [of _ "dec_digit n"] exI [of _ 1]) (simp add: show_nat_cases)
  next
    case 2
    have "n div 10 \<noteq> 0" "\<not> 255 < n div 10" using 2 by linarith+
    then show ?thesis using assms three 2
      by (intro exI [of _ "dec_digit (n mod 10)"] exI [of _ 2])
         (auto simp: show_nat_cases numeral_2_eq_2 Let_def)
  next
    case 3
    have "n div 100 \<noteq> 0" using 3 by linarith
    then show ?thesis using assms three small 3
      by (intro exI [of _ "dec_digit (n mod 10)"] exI [of _ 3])
         (simp add: show_nat_cases numeral_3_eq_3 Let_def)
  qed
qed

lemma show_nat_no_sep:
  assumes "n < 256" "x \<in> set (show_nat n)"
  shows "is_digit x"
  using assms by (auto simp: show_nat_cases split: if_splits)

lemma is_digit_not_sep: "is_digit x \<Longrightarrow> x \<noteq> CHR ''.'' \<and> x \<noteq> CHR '':'' \<and> x \<noteq> CHR ''%''"
  by (auto simp: is_digit_def)

lemma find_dot:
  "\<forall>x \<in> set xs. is_digit x \<Longrightarrow>
   find (\<lambda>c. c = CHR ''.'' \<or> c = CHR '':'' \<or> c = CHR ''%'') (xs @ CHR ''.'' # ys) = Some (CHR ''.'')"
  by (induction xs) (auto dest: is_digit_not_sep)

lemma ipv4_loop_dot:
  "p \<noteq> CHR ''.'' \<Longrightarrow> cs \<noteq> [] \<Longrightarrow> length octets \<noteq> 3 \<Longrightarrow>
   ipv4_loop False p (CHR ''.'' # cs) n k octets = ipv4_loop False (CHR ''.'') cs 0 0 (octets @ [word_of_nat n])"
  by simp

lemma show_nat_nonempty [simp]: "show_nat n \<noteq> []"
  by (subst show_nat.simps) simp

lemma byte_lt: "unat (b :: byte) < 256"
  using unsigned_less [of b, where 'a = nat] by simp

lemma ipv4_loop_byte:
  obtains p k where "p \<noteq> CHR ''.''"
    "ipv4_loop start prev (show_byte b @ rest) 0 0 octets = ipv4_loop False p rest (unat b) k octets"
  using ipv4_loop_octet [OF byte_lt, of start prev b rest octets] unfolding show_byte_def by blast

lemma parse_dotted: "parseIPv4Fields (dotted a b c d) = Some [a, b, c, d]"
proof -
  define r1 where "r1 = show_byte d"
  define r2 where "r2 = show_byte c @ CHR ''.'' # r1"
  define r3 where "r3 = show_byte b @ CHR ''.'' # r2"
  have ne: "r1 \<noteq> []" "r2 \<noteq> []" "r3 \<noteq> []"
    by (simp_all add: r1_def r2_def r3_def show_byte_def)
  have c: "ipv4_loop st pr r2 0 0 [a, b] = ipv4_loop False (CHR ''.'') r1 0 0 [a, b, c]" for st pr
  proof -
    obtain p k where "p \<noteq> CHR ''.''"
      "ipv4_loop st pr r2 0 0 [a, b] = ipv4_loop False p (CHR ''.'' # r1) (unat c) k [a, b]"
      unfolding r2_def by (rule ipv4_loop_byte)
    then show ?thesis using ne by (simp add: ipv4_loop_dot del: ipv4_loop.simps)
  qed
  have b: "ipv4_loop st pr r3 0 0 [a] = ipv4_loop False (CHR ''.'') r2 0 0 [a, b]" for st pr
  proof -
    obtain p k where "p \<noteq> CHR ''.''"
      "ipv4_loop st pr r3 0 0 [a] = ipv4_loop False p (CHR ''.'' # r2) (unat b) k [a]"
      unfolding r3_def by (rule ipv4_loop_byte)
    then show ?thesis using ne by (simp add: ipv4_loop_dot del: ipv4_loop.simps)
  qed
  have last: "ipv4_loop st pr r1 0 0 [a, b, c] = Some [a, b, c, d]" for st pr
  proof -
    obtain p k where "ipv4_loop st pr (show_byte d @ []) 0 0 [a, b, c] = ipv4_loop False p [] (unat d) k [a, b, c]"
      by (rule ipv4_loop_byte)
    then show ?thesis by (simp add: r1_def)
  qed
  obtain p k where "p \<noteq> CHR ''.''"
    "ipv4_loop True (CHR '' '') (show_byte a @ CHR ''.'' # r3) 0 0 []
     = ipv4_loop False p (CHR ''.'' # r3) (unat a) k []"
    by (rule ipv4_loop_byte)
  then have "ipv4_loop True (CHR '' '') (show_byte a @ CHR ''.'' # r3) 0 0 [] = Some [a, b, c, d]"
    using ne by (simp add: ipv4_loop_dot b c last del: ipv4_loop.simps)
  then show ?thesis
    by (simp add: parseIPv4Fields_def dotted_def r1_def r2_def r3_def del: ipv4_loop.simps)
qed

lemma ParseIP_dotted: "ParseIP (dotted a b c d) = Some (replicate 10 0 @ [0xFF, 0xFF, a, b, c, d])"
proof -
  have "find (\<lambda>c. c = CHR ''.'' \<or> c = CHR '':'' \<or> c = CHR ''%'') (dotted a b c d) = Some (CHR ''.'')"
    unfolding dotted_def using find_dot [of "show_byte a"] show_nat_no_sep [OF byte_lt]
    by (simp add: show_byte_def)
  then show ?thesis by (simp add: ParseIP_def parse_dotted)
qed

lemma To4_mapped: "To4 (replicate 10 0 @ [0xFF, 0xFF, a, b, c, d]) = Some [a, b, c, d]"
  by (simp add: To4_def nth_append)

lemma dotted_inject: "dotted a b c d = dotted a' b' c' d' \<Longrightarrow> [a, b, c, d] = [a', b', c', d']"
  using parse_dotted [of a b c d] parse_dotted [of a' b' c' d'] by (simp only: option.inject)

subsection \<open>\<^verbatim>\<open>strings.TrimSpace\<close>\<close>

text \<open>
  The white space of package \<^verbatim>\<open>unicode\<close> in UTF-8: six one-byte characters, U+0085,
  U+00A0, U+1680, U+2000 to U+200A, U+2028, U+2029, U+202F, U+205F and U+3000.  None is a
  suffix or a prefix of another, so trimming strips them one at a time from either end.
\<close>

definition space_runes :: "bytes list" where
  "space_runes =
     [[9], [10], [11], [12], [13], [32], [0xC2, 0x85], [0xC2, 0xA0], [0xE1, 0x9A, 0x80],
      [0xE2, 0x80, 0x80], [0xE2, 0x80, 0x81], [0xE2, 0x80, 0x82], [0xE2, 0x80, 0x83],
      [0xE2, 0x80, 0x84], [0xE2, 0x80, 0x85], [0xE2, 0x80, 0x86], [0xE2, 0x80, 0x87],
      [0xE2, 0x80, 0x88], [0xE2, 0x80, 0x89], [0xE2, 0x80, 0x8A], [0xE2, 0x80, 0xA8],
      [0xE2, 0x80, 0xA9], [0xE2, 0x80, 0xAF], [0xE2, 0x81, 0x9F], [0xE3, 0x80, 0x80]]"

definition leading_rune :: "bytes list \<Rightarrow> bytes \<Rightarrow> nat" where
  "leading_rune runes s =
     (case List.find (\<lambda>r. take (length r) s = r) runes of None \<Rightarrow> 0 | Some r \<Rightarrow> length r)"

function strip_runes :: "bytes list \<Rightarrow> bytes \<Rightarrow> bytes" where
  "strip_runes runes s =
     (let k = leading_rune runes s in if k = 0 \<or> s = [] then s else strip_runes runes (drop k s))"
  by pat_completeness auto
termination
  by (relation "measure (length \<circ> snd)") auto

declare strip_runes.simps [simp del]

definition TrimSpace :: "string \<Rightarrow> string" where
  "TrimSpace s =
     (let left = strip_runes space_runes (bytes_of s)
      in string_of (rev (strip_runes (map rev space_runes) (rev left))))"

lemma strip_runes_id: "leading_rune runes s = 0 \<Longrightarrow> strip_runes runes s = s"
  by (simp add: strip_runes.simps)

lemma strip_runes_Nil [simp]: "strip_runes runes [] = []"
  by (simp add: strip_runes.simps)

end
