(* ===== verification/Nsdp_Parse.thy ===== *)
theory Nsdp_Parse
  imports Nsdp_Codec Bitmap Net_Text
begin

unbundle bit_operations_syntax

section \<open>Reading NSDP values (nsdp/parse.go)\<close>

text \<open>
  One parser per TLV value and the two-pass aggregation of a whole response into an
  \<open>nsdp_device\<close>.  Every index and slice is a checked one, so the absence of panics is
  proved, not assumed.
\<close>

subsection \<open>Value parsers\<close>

definition ParseIPv4 :: "bytes \<Rightarrow> string res" where
  "ParseIPv4 data =
     (if length data \<noteq> 4
      then Inl (errNSDP ''IPv4 TLV must be 4 bytes, got %d'' [AInt (int (length data))])
      else rbind (go_index data 0) (\<lambda>a. rbind (go_index data 1) (\<lambda>b.
           rbind (go_index data 2) (\<lambda>c. rbind (go_index data 3) (\<lambda>d. Inr (dotted a b c d))))))"

definition mac_text :: "byte \<Rightarrow> byte \<Rightarrow> byte \<Rightarrow> byte \<Rightarrow> byte \<Rightarrow> byte \<Rightarrow> string" where
  "mac_text a b c d e f =
     show_hex a @ '':'' @ show_hex b @ '':'' @ show_hex c @ '':'' @ show_hex d @ '':'' @ show_hex e @ '':'' @ show_hex f"

definition ParseMAC :: "bytes \<Rightarrow> string res" where
  "ParseMAC data =
     (if length data \<noteq> 6
      then Inl (errNSDP ''MAC TLV must be 6 bytes, got %d'' [AInt (int (length data))])
      else rbind (go_index data 0) (\<lambda>a. rbind (go_index data 1) (\<lambda>b. rbind (go_index data 2) (\<lambda>c.
           rbind (go_index data 3) (\<lambda>d. rbind (go_index data 4) (\<lambda>e. rbind (go_index data 5) (\<lambda>f.
           Inr (mac_text a b c d e f))))))))"

text \<open>The text of an address of six bytes, for the statements about it.\<close>

definition show_mac :: "bytes \<Rightarrow> string" where
  "show_mac m = mac_text (m ! 0) (m ! 1) (m ! 2) (m ! 3) (m ! 4) (m ! 5)"

lemma ParseMAC_six: "length data = 6 \<Longrightarrow> ParseMAC data = Inr (show_mac data)"
  by (simp add: ParseMAC_def show_mac_def)

definition ParsePortStatus :: "bytes \<Rightarrow> nsdp_port_status res" where
  "ParsePortStatus data =
     (if length data \<noteq> 3
      then Inl (errNSDP ''PORT_STATUS TLV must be 3 bytes, got %d'' [AInt (int (length data))])
      else rbind (go_index data 2) (\<lambda>flow. rbind (go_index data 0) (\<lambda>port. rbind (go_index data 1) (\<lambda>speed.
        Inr \<lparr>nps_port = uint port, nps_speed = LinkSpeedFromByte speed,
             nps_flow_control = Some (flow \<noteq> 0)\<rparr>))))"

definition uint64_at :: "bytes \<Rightarrow> nat \<Rightarrow> u64 res" where
  "uint64_at data i = rbind (go_slice data i (i + 8)) Uint64"

definition ParsePortStatistics :: "bytes \<Rightarrow> nsdp_port_statistics res" where
  "ParsePortStatistics data =
     (if length data \<noteq> 49
      then Inl (errNSDP ''PORT_STATISTICS TLV must be 49 bytes, got %d'' [AInt (int (length data))])
      else rbind (go_index data 0) (\<lambda>port.
           rbind (uint64_at data 1) (\<lambda>rx. rbind (uint64_at data 9) (\<lambda>tx. rbind (uint64_at data 17) (\<lambda>crc.
           Inr \<lparr>nst_port = uint port, nst_rx = rx, nst_tx = tx, nst_crc = crc\<rparr>)))))"

definition ParsePortPvid :: "bytes \<Rightarrow> nsdp_port_pvid res" where
  "ParsePortPvid data =
     (if length data \<noteq> 3
      then Inl (errNSDP ''PORT_PVID TLV must be 3 bytes, got %d'' [AInt (int (length data))])
      else rbind (go_index data 0) (\<lambda>port. rbind (uint16_at data 1) (\<lambda>vlan.
           Inr \<lparr>npv_port = uint port, npv_vlan = uint vlan\<rparr>)))"

definition NUL :: char where
  "NUL = char_of (0 :: nat)"

definition ParsePortName :: "bytes \<Rightarrow> nsdp_port_name res" where
  "ParsePortName data =
     (if length data = 0
      then Inl (errNSDP ''PORT_NAME TLV must be at least 1 byte, got 0'' [])
      else rbind (go_slice data 1 (length data)) (\<lambda>tail.
           let text = trim_right NUL (string_of tail)
           in rbind (go_index data 0) (\<lambda>port.
              Inr \<lparr>npn_port = uint port, npn_name = (if text \<noteq> [] then Some text else None)\<rparr>)))"

text \<open>Bytes at or above 0x80 become U+FFFD, three bytes in UTF-8; trailing NULs go.\<close>

definition ascii_byte :: "byte \<Rightarrow> string" where
  "ascii_byte c = (if c < 0x80 then [char_of_byte c] else string_of [0xEF, 0xBF, 0xBD])"

definition decodeASCII :: "bytes \<Rightarrow> string" where
  "decodeASCII data = trim_right NUL (concat (map ascii_byte data))"

definition ParseSerial :: "bytes \<Rightarrow> string res" where
  "ParseSerial data =
     rbind (if length data = 0 then Inr True else rbind (go_index data 0) (\<lambda>b. Inr (b \<noteq> 0x01))) (\<lambda>bad.
     if bad
     then rbind (if length data > 1 then go_slice data 0 1 else Inr data) (\<lambda>prefix.
          Inl (errNSDP ''SERIAL_NUMBER TLV: unexpected prefix byte %q'' [ABytes prefix]))
     else rbind (go_slice data 1 (length data)) (\<lambda>tail. Inr (decodeASCII tail)))"

definition ParseVlanMembers :: "bytes \<Rightarrow> nat \<Rightarrow> nsdp_vlan_membership res" where
  "ParseVlanMembers data portCount =
     (let bitmapBytes = (portCount + 7) div 8; expected = 2 + bitmapBytes * 2
      in if length data < expected
         then Inl (errNSDP ''VLAN_MEMBERS TLV must be >=%d bytes for %d ports, got %d''
                     [AInt (int expected), AInt (int portCount), AInt (int (length data))])
         else rbind (go_slice data 2 (2 + bitmapBytes)) (\<lambda>member.
              rbind (go_slice data (2 + bitmapBytes) (2 + bitmapBytes * 2)) (\<lambda>tagged.
              rbind (uint16_at data 0) (\<lambda>vid.
              Inr \<lparr>nvm_vlan_id = uint vid, nvm_members = bitmapToPorts member,
                   nvm_tagged = bitmapToPorts tagged\<rparr>))))"

definition ParsePortMirroring :: "bytes \<Rightarrow> nsdp_port_mirroring res" where
  "ParsePortMirroring data =
     (if length data = 0
      then Inl (errNSDP ''PORT_MIRRORING TLV must be at least 1 byte, got 0'' [])
      else rbind (go_index data 0) (\<lambda>dest. rbind (go_slice data 1 (length data)) (\<lambda>srcs.
           Inr \<lparr>npm_destination = uint dest, npm_sources = bitmapToPorts srcs\<rparr>)))"

definition ParseIgmpSnooping :: "bytes \<Rightarrow> nsdp_igmp_snooping res" where
  "ParseIgmpSnooping data =
     (if length data < 2
      then Inl (errNSDP ''IGMP_SNOOPING TLV must be >= 2 bytes, got %d'' [AInt (int (length data))])
      else rbind (go_index data 1) (\<lambda>enabled.
           rbind (if length data \<ge> 4 then rbind (go_index data 3) (\<lambda>vlan. Inr (if vlan \<noteq> 0 then Some (uint vlan) else None))
                  else Inr None) (\<lambda>vlan.
           Inr \<lparr>nig_enabled = (enabled \<noteq> 0), nig_vlan = vlan\<rparr>)))"

subsection \<open>Aggregating a response\<close>

text \<open>Pass 1: the last non-empty \<^verbatim>\<open>PORT_COUNT\<close> decides the bitmap width, 8 ports if none.\<close>

fun scan_port_count :: "nat \<Rightarrow> tlv list \<Rightarrow> nat res" where
  "scan_port_count n [] = Inr n"
| "scan_port_count n (t # ts) =
     rbind (if tlv_tag t = TagPortCount \<and> length (tlv_value t) > 0
            then rbind (go_index (tlv_value t) 0) (\<lambda>b. Inr (unat b)) else Inr n) (\<lambda>m. scan_port_count m ts)"

text \<open>
  The variables pass 2 fills: model name and MAC, and a device record with everything else
  (whose own name and MAC are set at the end).
\<close>

record device_vars =
  dv_model :: "string option"
  dv_mac :: "string option"
  dv_dev :: nsdp_device

definition empty_device :: nsdp_device where
  "empty_device =
     \<lparr>nd_model = [], nd_mac = [], nd_hostname = None, nd_ip = None, nd_netmask = None,
      nd_gateway = None, nd_firmware = None, nd_dhcp = None, nd_port_count = None,
      nd_serial = None, nd_vlan_engine = None, nd_port_status = [], nd_port_names = [],
      nd_port_statistics = [], nd_vlan_members = [], nd_port_pvids = [], nd_qos_engine = None,
      nd_port_mirroring = None, nd_igmp = None, nd_broadcast = None, nd_loop = None\<rparr>"

definition init_vars :: device_vars where
  "init_vars = \<lparr>dv_model = None, dv_mac = None, dv_dev = empty_device\<rparr>"

fun engine_of :: "nat \<Rightarrow> vlan_engine" where
  "engine_of n =
     (if n = 0 then VLANEngineDisabled else if n = 1 then VLANEngineBasicPort
      else if n = 2 then VLANEngineAdvancedPort else if n = 3 then VLANEngineBasic8021Q
      else VLANEngineAdvanced8021Q)"

definition upd :: "(nsdp_device \<Rightarrow> nsdp_device) \<Rightarrow> device_vars \<Rightarrow> device_vars" where
  "upd f v = v\<lparr>dv_dev := f (dv_dev v)\<rparr>"

text \<open>A one-byte field: an empty value is skipped, any other is read at its first byte.\<close>

definition with_first :: "tlv \<Rightarrow> device_vars \<Rightarrow> (byte \<Rightarrow> device_vars res) \<Rightarrow> device_vars res" where
  "with_first t v f = (if length (tlv_value t) > 0 then rbind (go_index (tlv_value t) 0) f else Inr v)"

definition device_step :: "nat \<Rightarrow> device_vars \<Rightarrow> tlv \<Rightarrow> device_vars res" where
  "device_step portCount v t =
     (let tag = tlv_tag t; val = tlv_value t in
      if tag = TagModel then Inr (v\<lparr>dv_model := Some (decodeASCII val)\<rparr>)
      else if tag = TagMAC then rbind (ParseMAC val) (\<lambda>s. Inr (v\<lparr>dv_mac := Some s\<rparr>))
      else if tag = TagHostname then Inr (upd (\<lambda>d. d\<lparr>nd_hostname := Some (decodeASCII val)\<rparr>) v)
      else if tag = TagIPAddress then
        rbind (ParseIPv4 val) (\<lambda>s. Inr (upd (\<lambda>d. d\<lparr>nd_ip := Some s\<rparr>) v))
      else if tag = TagNetmask then
        rbind (ParseIPv4 val) (\<lambda>s. Inr (upd (\<lambda>d. d\<lparr>nd_netmask := Some s\<rparr>) v))
      else if tag = TagGateway then
        rbind (ParseIPv4 val) (\<lambda>s. Inr (upd (\<lambda>d. d\<lparr>nd_gateway := Some s\<rparr>) v))
      else if tag = TagFirmwareVer1 then Inr (upd (\<lambda>d. d\<lparr>nd_firmware := Some (decodeASCII val)\<rparr>) v)
      else if tag = TagDHCPMode then
        with_first t v (\<lambda>b. Inr (upd (\<lambda>d. d\<lparr>nd_dhcp := Some (b \<noteq> 0)\<rparr>) v))
      else if tag = TagPortCount then
        with_first t v (\<lambda>b. Inr (upd (\<lambda>d. d\<lparr>nd_port_count := Some (uint b)\<rparr>) v))
      else if tag = TagSerialNumber then
        rbind (ParseSerial val) (\<lambda>s. Inr (upd (\<lambda>d. d\<lparr>nd_serial := Some s\<rparr>) v))
      else if tag = TagVLANEngine then
        with_first t v (\<lambda>b. (if b > 0x04
              then Inl (errNSDP ''VLAN_ENGINE TLV: invalid value %d, want 0-4'' [AInt (uint b)])
              else Inr (upd (\<lambda>d. d\<lparr>nd_vlan_engine := Some (engine_of (unat b))\<rparr>) v)))
      else if tag = TagPortStatus then
        rbind (ParsePortStatus val) (\<lambda>x. Inr (upd (\<lambda>d. d\<lparr>nd_port_status := nd_port_status d @ [x]\<rparr>) v))
      else if tag = TagPortName then
        rbind (ParsePortName val) (\<lambda>x. Inr (upd (\<lambda>d. d\<lparr>nd_port_names := nd_port_names d @ [x]\<rparr>) v))
      else if tag = TagPortStatistics then
        rbind (ParsePortStatistics val)
          (\<lambda>x. Inr (upd (\<lambda>d. d\<lparr>nd_port_statistics := nd_port_statistics d @ [x]\<rparr>) v))
      else if tag = TagVLANMembers then
        rbind (ParseVlanMembers val portCount)
          (\<lambda>x. Inr (upd (\<lambda>d. d\<lparr>nd_vlan_members := nd_vlan_members d @ [x]\<rparr>) v))
      else if tag = TagPortPVID then
        rbind (ParsePortPvid val) (\<lambda>x. Inr (upd (\<lambda>d. d\<lparr>nd_port_pvids := nd_port_pvids d @ [x]\<rparr>) v))
      else if tag = TagQOSEngine then
        with_first t v (\<lambda>b. Inr (upd (\<lambda>d. d\<lparr>nd_qos_engine := Some (uint b)\<rparr>) v))
      else if tag = TagPortMirroring then
        rbind (ParsePortMirroring val) (\<lambda>x. Inr (upd (\<lambda>d. d\<lparr>nd_port_mirroring := Some x\<rparr>) v))
      else if tag = TagIGMPSnooping then
        rbind (ParseIgmpSnooping val) (\<lambda>x. Inr (upd (\<lambda>d. d\<lparr>nd_igmp := Some x\<rparr>) v))
      else if tag = TagBroadcastFiltering then
        with_first t v (\<lambda>b. Inr (upd (\<lambda>d. d\<lparr>nd_broadcast := Some (b \<noteq> 0)\<rparr>) v))
      else if tag = TagLoopDetection then
        with_first t v (\<lambda>b. Inr (upd (\<lambda>d. d\<lparr>nd_loop := Some (b \<noteq> 0)\<rparr>) v))
      else Inr v)"

fun device_steps :: "nat \<Rightarrow> device_vars \<Rightarrow> tlv list \<Rightarrow> device_vars res" where
  "device_steps n v [] = Inr v"
| "device_steps n v (t # ts) = rbind (device_step n v t) (\<lambda>v'. device_steps n v' ts)"

definition ParseDevice :: "packet \<Rightarrow> nsdp_device res" where
  "ParseDevice p =
     rbind (scan_port_count 8 (pk_tlvs p)) (\<lambda>portCount.
     rbind (device_steps portCount init_vars (pk_tlvs p)) (\<lambda>v.
     case dv_model v of
       None \<Rightarrow> Inl (errNSDP ''no MODEL tag in NSDP response'' [])
     | Some name \<Rightarrow>
         rbind (case dv_mac v of Some s \<Rightarrow> Inr s | None \<Rightarrow> ParseMAC (pk_server_mac p)) (\<lambda>mac.
         Inr ((dv_dev v)\<lparr>nd_model := name, nd_mac := mac\<rparr>))))"

subsection \<open>No parser panics\<close>

text \<open>A result is safe when its error, if any, wraps \<^verbatim>\<open>ErrNSDP\<close>: in particular it is no panic.\<close>

definition nsdp_safe :: "'a res \<Rightarrow> bool" where
  "nsdp_safe r \<longleftrightarrow> (case r of Inl e \<Rightarrow> errors_is e ErrNSDP | Inr x \<Rightarrow> True)"

named_theorems safe_intros "results whose errors wrap the NSDP sentinel"

lemma nsdp_safe_simps [simp]: "nsdp_safe (Inr x)" "nsdp_safe (Inl e) \<longleftrightarrow> errors_is e ErrNSDP"
  by (simp_all add: nsdp_safe_def)

lemma nsdp_safe_rbind [safe_intros]:
  "nsdp_safe m \<Longrightarrow> (\<And>x. m = Inr x \<Longrightarrow> nsdp_safe (f x)) \<Longrightarrow> nsdp_safe (rbind m f)"
  by (cases m) simp_all

lemma go_slice_tail [simp]: "data \<noteq> [] \<Longrightarrow> go_slice data (Suc 0) (length data) = Inr (tl data)"
  by (cases data) (simp_all add: go_slice_def)

lemma value_parsers_safe [safe_intros]:
  "nsdp_safe (ParseIPv4 data)" "nsdp_safe (ParseMAC data)" "nsdp_safe (ParsePortStatus data)"
  "nsdp_safe (ParsePortPvid data)" "nsdp_safe (ParsePortName data)" "nsdp_safe (ParseSerial data)"
  "nsdp_safe (ParsePortMirroring data)" "nsdp_safe (ParseIgmpSnooping data)"
  by (simp_all add: ParseIPv4_def ParseMAC_def ParsePortStatus_def ParsePortPvid_def
      ParsePortName_def ParseSerial_def ParsePortMirroring_def ParseIgmpSnooping_def Let_def)

lemma uint64_at_in [simp]: "i + 8 \<le> length b \<Longrightarrow> uint64_at b i = Inr (get64_of (take 8 (drop i b)))"
  by (simp add: uint64_at_def Uint64_def)

lemma ParsePortStatistics_safe [safe_intros]: "nsdp_safe (ParsePortStatistics data)"
  by (simp add: ParsePortStatistics_def)

lemma ParseVlanMembers_safe [safe_intros]: "nsdp_safe (ParseVlanMembers data n)"
  by (auto simp: ParseVlanMembers_def Let_def)

text \<open>The first byte of a value, if it has one, and what reading it comes to.\<close>

definition first_byte :: "tlv \<Rightarrow> byte option" where
  "first_byte t = (case tlv_value t of [] \<Rightarrow> None | b # bs \<Rightarrow> Some b)"

lemma with_first_eq [simp]: "with_first t v f = (case first_byte t of None \<Rightarrow> Inr v | Some b \<Rightarrow> f b)"
  by (simp add: with_first_def first_byte_def split: list.split)

fun announced_count :: "nat \<Rightarrow> tlv list \<Rightarrow> nat" where
  "announced_count n [] = n"
| "announced_count n (t # ts) =
     announced_count (if tlv_tag t = TagPortCount \<and> first_byte t \<noteq> None then unat (the (first_byte t)) else n) ts"

lemma scan_port_count_eq: "scan_port_count n ts = Inr (announced_count n ts)"
  by (induction ts arbitrary: n) (auto simp: first_byte_def split: list.split)

lemma device_step_safe [safe_intros]: "nsdp_safe (device_step n v t)"
  unfolding device_step_def Let_def
  by (auto intro!: safe_intros split: option.split)

lemma device_steps_safe [safe_intros]: "nsdp_safe (device_steps n v ts)"
  by (induction ts arbitrary: v) (auto intro!: safe_intros)

text \<open>
  C38.  Aggregating any packet, however malformed its TLVs, ends in a device or in an error
  wrapping \<^verbatim>\<open>ErrNSDP\<close>: no index or slice of the whole parser can panic.
\<close>

theorem ParseDevice_no_panic:
  "case ParseDevice p of Inl e \<Rightarrow> errors_is e ErrNSDP \<and> e \<noteq> Go_Panic | Inr d \<Rightarrow> True"
proof -
  have "nsdp_safe (ParseDevice p)"
    unfolding ParseDevice_def scan_port_count_eq by (auto intro!: safe_intros split: option.split)
  then show ?thesis by (auto simp: nsdp_safe_def split: sum.splits)
qed

subsection \<open>The port count may come last\<close>

definition set_count :: "int \<Rightarrow> device_vars \<Rightarrow> device_vars" where
  "set_count c = upd (\<lambda>d. d\<lparr>nd_port_count := Some c\<rparr>)"

lemma device_step_count:
  "tlv_tag t = TagPortCount \<Longrightarrow> device_step n v t =
    (case first_byte t of None \<Rightarrow> Inr v | Some b \<Rightarrow> Inr (set_count (uint b) v))"
  by (simp add: device_step_def set_count_def split: option.split)

lemma rbind_if: "rbind (if c then a else b) f = (if c then rbind a f else rbind b f)"
  by simp

lemma rbind_rbind: "rbind (rbind m f) g = rbind m (\<lambda>x. rbind (f x) g)"
  by (cases m) simp_all

lemma if_eqI: "(c \<Longrightarrow> a = b) \<Longrightarrow> (\<not> c \<Longrightarrow> x = y) \<Longrightarrow> (if c then a else x) = (if c then b else y)"
  by simp

lemma device_step_set_count:
  assumes "tlv_tag t \<noteq> TagPortCount"
  shows "device_step n (set_count c v) t = rbind (device_step n v t) (\<lambda>w. Inr (set_count c w))"
  using assms unfolding device_step_def Let_def rbind_if
  by (cases v; cases "dv_dev v"; intro if_eqI; simp add: set_count_def upd_def rbind_rbind split: option.split)

lemma device_steps_set_count:
  assumes "\<forall>t \<in> set ts. tlv_tag t \<noteq> TagPortCount"
  shows "device_steps n (set_count c v) ts = rbind (device_steps n v ts) (\<lambda>w. Inr (set_count c w))"
  using assms
proof (induction ts arbitrary: v)
  case (Cons t ts)
  then show ?case
    by (cases "device_step n v t") (simp_all add: device_step_set_count)
qed simp

lemma device_steps_append:
  "device_steps n v (a @ b) = rbind (device_steps n v a) (\<lambda>w. device_steps n w b)"
  by (induction a arbitrary: v) (auto simp: rbind_def split: sum.split)

lemma announced_count_none:
  "\<forall>t \<in> set ts. tlv_tag t \<noteq> TagPortCount \<Longrightarrow> announced_count n ts = n"
  by (induction ts arbitrary: n) auto

lemma announced_count_append: "announced_count n (a @ b) = announced_count (announced_count n a) b"
  by (induction a arbitrary: n) auto

lemma device_steps_count_moves:
  assumes "tlv_tag c = TagPortCount" "\<forall>t \<in> set a. tlv_tag t \<noteq> TagPortCount"
  shows "device_steps n v (a @ c # b) = device_steps n v (c # a @ b)"
  using assms
  by (cases "first_byte c"; cases "device_steps n v a")
     (simp_all add: device_steps_append device_step_count device_steps_set_count)

text \<open>
  Two-pass dispatch: a response with one \<^verbatim>\<open>PORT_COUNT\<close> TLV is read the same
  wherever that TLV stands, so a \<^verbatim>\<open>VLAN_MEMBERS\<close> TLV in front of it is still read at the
  bitmap width it announces.
\<close>

lemma ParseDevice_port_count_position:
  assumes "tlv_tag c = TagPortCount" "\<forall>t \<in> set (a @ b). tlv_tag t \<noteq> TagPortCount"
  shows "ParseDevice (p\<lparr>pk_tlvs := a @ c # b\<rparr>) = ParseDevice (p\<lparr>pk_tlvs := c # a @ b\<rparr>)"
proof -
  have a: "\<forall>t \<in> set a. tlv_tag t \<noteq> TagPortCount" and b: "\<forall>t \<in> set b. tlv_tag t \<noteq> TagPortCount"
    using assms(2) by auto
  have fields: "pk_tlvs (p\<lparr>pk_tlvs := ts\<rparr>) = ts" "pk_server_mac (p\<lparr>pk_tlvs := ts\<rparr>) = pk_server_mac p" for ts
    by simp_all
  have count: "announced_count 8 (a @ c # b) = announced_count 8 (c # a @ b)"
    using a b by (simp add: announced_count_append announced_count_none)
  show ?thesis
    unfolding ParseDevice_def fields scan_port_count_eq rbind_simps count device_steps_count_moves [OF assms(1) a] ..
qed

lemma ParseDevice_port_count_position_witness:
  "tlv_tag (TLV TagPortCount [16]) = TagPortCount
   \<and> ParseDevice (sample_packet\<lparr>pk_tlvs := [TLV TagModel [71], TLV TagVLANMembers [0, 1, 0, 128, 0, 0]]
        @ TLV TagPortCount [16] # []\<rparr>)
     = ParseDevice (sample_packet\<lparr>pk_tlvs := TLV TagPortCount [16]
        # [TLV TagModel [71], TLV TagVLANMembers [0, 1, 0, 128, 0, 0]] @ []\<rparr>)"
  using ParseDevice_port_count_position [of "TLV TagPortCount [16]"
      "[TLV TagModel [71], TLV TagVLANMembers [0, 1, 0, 128, 0, 0]]" "[]" sample_packet] by simp

end
