(* ===== verification/Nsdp_Build.thy ===== *)
theory Nsdp_Build
  imports Nsdp_Auth Nsdp_Parse
begin

unbundle bit_operations_syntax

section \<open>Building NSDP requests and values (nsdp/write.go, nsdp/write_tlv.go)\<close>

text \<open>
  The request builders and one builder per writable TLV, with the round trips through the
  parsers of \<open>Nsdp_Parse\<close>: what a writer encodes is what the reader decodes.
\<close>

subsection \<open>Requests\<close>

definition request :: "op \<Rightarrow> bytes \<Rightarrow> bytes \<Rightarrow> u32 \<Rightarrow> tlv list \<Rightarrow> packet" where
  "request code cm sm sequence ts =
     \<lparr>pk_op = code, pk_client_mac = cm, pk_server_mac = sm, pk_sequence = sequence,
      pk_result = 0, pk_error_attr = 0, pk_tlvs = ts\<rparr>"

definition BuildReadRequest :: "bytes \<Rightarrow> bytes \<Rightarrow> u32 \<Rightarrow> tag list \<Rightarrow> packet" where
  "BuildReadRequest clientMAC serverMAC sequence tags =
     foldl (\<lambda>p t. AddTLV t [] p) (request OpReadRequest clientMAC serverMAC sequence []) tags"

definition BuildWriteRequest ::
    "bytes \<Rightarrow> bytes \<Rightarrow> u32 \<Rightarrow> string \<Rightarrow> tlv list \<Rightarrow> packet res" where
  "BuildWriteRequest clientMAC serverMAC sequence password tlvs =
     rbind (PasswordTLV password) (\<lambda>passwordTLV.
     Inr (request OpWriteRequest clientMAC serverMAC sequence (passwordTLV # tlvs)))"

definition BuildWriteRequestV2 ::
    "bytes \<Rightarrow> bytes \<Rightarrow> u32 \<Rightarrow> bytes \<Rightarrow> tlv list \<Rightarrow> packet" where
  "BuildWriteRequestV2 clientMAC serverMAC sequence authToken tlvs =
     request OpWriteRequest clientMAC serverMAC sequence (TLV TagAuthV2Password authToken # tlvs)"

subsection \<open>Values\<close>

definition PvidTLV :: "int \<Rightarrow> int \<Rightarrow> tlv res" where
  "PvidTLV port vlan =
     (if port < 0 \<or> port > 0xFF
      then Inl (errNSDP ''NSDP PORT_PVID port must fit a byte (0-255), got %d'' [AInt port])
      else if vlan < 0 \<or> vlan > 0xFFFF
      then Inl (errNSDP ''NSDP PORT_PVID vlan must fit a uint16 (0-65535), got %d'' [AInt vlan])
      else Inr (TLV TagPortPVID (word_of_int port # put16 (word_of_int vlan))))"

definition VlanMembersTLV :: "int \<Rightarrow> int list \<Rightarrow> int list \<Rightarrow> nat \<Rightarrow> tlv res" where
  "VlanMembersTLV vlan members tagged portCount =
     (if vlan < 0 \<or> vlan > 0xFFFF
      then Inl (errNSDP ''NSDP VLAN_MEMBERS vlan must fit a uint16 (0-65535), got %d'' [AInt vlan])
      else let width = (portCount + 7) div 8
           in rbind (portsToBitmap members width) (\<lambda>m.
              rbind (portsToBitmap tagged width) (\<lambda>t.
              Inr (TLV TagVLANMembers (put16 (word_of_int vlan) @ m @ t)))))"

definition IPv4TLV :: "tag \<Rightarrow> string \<Rightarrow> tlv res" where
  "IPv4TLV tag text =
     (case ParseIP text of
        None \<Rightarrow> Inl (errNSDP ''NSDP IPv4 TLV: invalid dotted-quad address %q'' [AStr text])
      | Some ip \<Rightarrow>
          (case To4 ip of
             None \<Rightarrow> Inl (errNSDP ''NSDP IPv4 TLV: %q is not an IPv4 address'' [AStr text])
           | Some ip4 \<Rightarrow> Inr (TLV tag ip4)))"

definition DhcpTLV :: "bool \<Rightarrow> tlv" where
  "DhcpTLV enabled = TLV TagDHCPMode [if enabled then 0x01 else 0x00]"

definition rebootTLV :: tlv where
  "rebootTLV = TLV TagReboot []"

text \<open>\<^verbatim>\<open>uint16(vlan)\<close> and \<^verbatim>\<open>byte(port)\<close> drop the high bits silently.\<close>

definition VLANDestroyTLV :: "int \<Rightarrow> tlv" where
  "VLANDestroyTLV vlan = TLV TagVLANDestroy (put16 (word_of_int vlan))"

definition PortNameTLV :: "int \<Rightarrow> string \<Rightarrow> tlv" where
  "PortNameTLV port name = TLV TagPortName (word_of_int port # bytes_of name)"

fun hostname_ascii :: "nat \<Rightarrow> bytes \<Rightarrow> unit res" where
  "hostname_ascii i [] = Inr ()"
| "hostname_ascii i (b # bs) =
     (if b \<ge> 0x80
      then Inl (errNSDP ''NSDP hostname must be ASCII, got byte 0x%02X at index %d''
                  [AInt (uint b), AInt (int i)])
      else hostname_ascii (Suc i) bs)"

definition HostnameTLV :: "string \<Rightarrow> tlv res" where
  "HostnameTLV name =
     rbind (hostname_ascii 0 (bytes_of name)) (\<lambda>_. Inr (TLV TagHostname (bytes_of name)))"

subsection \<open>Shape of the requests\<close>

lemma foldl_AddTLV: "foldl (\<lambda>p t. AddTLV t [] p) p tags = p\<lparr>pk_tlvs := pk_tlvs p @ map (\<lambda>t. TLV t []) tags\<rparr>"
  by (induction tags arbitrary: p) (simp_all add: AddTLV_def)

lemma BuildReadRequest_eq:
  "BuildReadRequest cm sm sq tags = request OpReadRequest cm sm sq (map (\<lambda>t. TLV t []) tags)"
  by (simp add: BuildReadRequest_def foldl_AddTLV request_def)

lemma wf_request:
  "isValidOp code \<Longrightarrow> length cm = 6 \<Longrightarrow> length sm = 6 \<Longrightarrow> list_all wf_tlv ts \<Longrightarrow>
   wf_packet (request code cm sm sq ts)"
  by (simp add: request_def wf_packet_def)

subsection \<open>Round trips through the parsers\<close>

lemma uint_byte_of: "0 \<le> p \<Longrightarrow> p \<le> 0xFF \<Longrightarrow> uint (word_of_int p :: byte) = p"
  by (simp add: uint_word_of_int)

lemma uint_u16_of: "0 \<le> v \<Longrightarrow> v \<le> 0xFFFF \<Longrightarrow> uint (word_of_int v :: u16) = v"
  by (simp add: uint_word_of_int)

lemma PvidTLV_ok:
  "0 \<le> port \<Longrightarrow> port \<le> 0xFF \<Longrightarrow> 0 \<le> vlan \<Longrightarrow> vlan \<le> 0xFFFF \<Longrightarrow>
   PvidTLV port vlan = Inr (TLV TagPortPVID (word_of_int port # put16 (word_of_int vlan)))"
  by (simp add: PvidTLV_def)

lemma ParsePortPvid_bytes:
  "ParsePortPvid (p # put16 v) = Inr \<lparr>npv_port = uint p, npv_vlan = uint v\<rparr>"
  by (simp add: ParsePortPvid_def put16_def be_simps)

text \<open>
  PVID values round-trip, and the builder rejects exactly what the three bytes cannot
  carry: for a port in 0..255 and a VLAN in 0..65535 the parser reads back the same pair, for
  every other pair the builder fails with an error wrapping \<^verbatim>\<open>ErrNSDP\<close>.
\<close>

lemma PvidTLV_roundtrip:
  "if 0 \<le> port \<and> port \<le> 0xFF \<and> 0 \<le> vlan \<and> vlan \<le> 0xFFFF
   then \<exists>t. PvidTLV port vlan = Inr t \<and> tlv_tag t = TagPortPVID
          \<and> ParsePortPvid (tlv_value t) = Inr \<lparr>npv_port = port, npv_vlan = vlan\<rparr>
   else \<exists>e. PvidTLV port vlan = Inl e \<and> errors_is e ErrNSDP"
  by (auto simp: PvidTLV_def ParsePortPvid_bytes uint_byte_of uint_u16_of)

lemma VlanMembersTLV_ok:
  assumes "0 \<le> vlan" "vlan \<le> 0xFFFF"
    and "\<forall>p \<in> set members. 1 \<le> p \<and> p \<le> int (8 * ((n + 7) div 8))"
    and "\<forall>p \<in> set tagged. 1 \<le> p \<and> p \<le> int (8 * ((n + 7) div 8))"
  obtains m t where "VlanMembersTLV vlan members tagged n = Inr (TLV TagVLANMembers (put16 (word_of_int vlan) @ m @ t))"
    "length m = (n + 7) div 8" "length t = (n + 7) div 8"
    "bitmapToPorts m = sort_uniq members" "bitmapToPorts t = sort_uniq tagged"
proof -
  obtain m where "portsToBitmap members ((n + 7) div 8) = Inr m" "length m = (n + 7) div 8"
      "bitmapToPorts m = sort_uniq members"
    using nsdp_bm.decode_encode [of members "(n + 7) div 8"] assms(3) by blast
  moreover obtain t where "portsToBitmap tagged ((n + 7) div 8) = Inr t" "length t = (n + 7) div 8"
      "bitmapToPorts t = sort_uniq tagged"
    using nsdp_bm.decode_encode [of tagged "(n + 7) div 8"] assms(4) by blast
  ultimately show ?thesis
    using assms(1,2) that by (simp add: VlanMembersTLV_def Let_def)
qed

lemma ParseVlanMembers_bytes:
  assumes "length m = (n + 7) div 8" "length t = (n + 7) div 8"
  shows "ParseVlanMembers (put16 v @ m @ t) n
    = Inr \<lparr>nvm_vlan_id = uint v, nvm_members = bitmapToPorts m, nvm_tagged = bitmapToPorts t\<rparr>"
  using assms by (simp add: ParseVlanMembers_def Let_def put16_def be_simps)

text \<open>
  VLAN membership values round-trip: for a 16-bit VLAN id and ports the model's bitmap
  width can hold, the parser given the same port count reads back the id and both port sets,
  sorted and without duplicates.
\<close>

theorem VlanMembersTLV_roundtrip:
  assumes "0 \<le> vlan" "vlan \<le> 0xFFFF"
    and "\<forall>p \<in> set members. 1 \<le> p \<and> p \<le> int (8 * ((n + 7) div 8))"
    and "\<forall>p \<in> set tagged. 1 \<le> p \<and> p \<le> int (8 * ((n + 7) div 8))"
  shows "\<exists>t. VlanMembersTLV vlan members tagged n = Inr t \<and> tlv_tag t = TagVLANMembers
    \<and> ParseVlanMembers (tlv_value t) n
      = Inr \<lparr>nvm_vlan_id = vlan, nvm_members = sort_uniq members, nvm_tagged = sort_uniq tagged\<rparr>"
proof -
  obtain m t where "VlanMembersTLV vlan members tagged n = Inr (TLV TagVLANMembers (put16 (word_of_int vlan) @ m @ t))"
    "length m = (n + 7) div 8" "length t = (n + 7) div 8"
    "bitmapToPorts m = sort_uniq members" "bitmapToPorts t = sort_uniq tagged"
    using VlanMembersTLV_ok [OF assms] by blast
  then show ?thesis
    using assms(1,2) by (simp add: ParseVlanMembers_bytes uint_u16_of)
qed

theorem VlanMembersTLV_roundtrip_witness:
  "(0::int) \<le> 90 \<and> (90::int) \<le> 0xFFFF
   \<and> (\<exists>t. VlanMembersTLV 90 [10, 2] [10] 10 = Inr t \<and> tlv_tag t = TagVLANMembers
      \<and> ParseVlanMembers (tlv_value t) 10
        = Inr \<lparr>nvm_vlan_id = 90, nvm_members = sort_uniq [10, 2], nvm_tagged = sort_uniq [10]\<rparr>)"
  using VlanMembersTLV_roundtrip [of 90 "[10, 2]" 10 "[10]"] by simp

text \<open>
  Past the model's width the member bitmap grows and the tagged one does not, so the record is
  no longer split where the parser splits it: on a five-port model, putting port 9 untagged
  into VLAN 90 writes a record that reads back with no member at all and port 1 tagged.
\<close>

lemma VlanMembersTLV_misaligned:
  "VlanMembersTLV 90 [9] [] 5 = Inr (TLV TagVLANMembers [0, 90, 0, 0x80, 0])
   \<and> ParseVlanMembers [0, 90, 0, 0x80, 0] 5
     = Inr \<lparr>nvm_vlan_id = 90, nvm_members = [], nvm_tagged = [1]\<rparr>"
  by (simp add: VlanMembersTLV_def Let_def portsToBitmap_def set_port_bit_def go_div_def go_mod_def
      msb_mask_def put16_def ParseVlanMembers_def bitmapToPorts_def byte_ports_def get16_def)

lemma IPv4TLV_dotted: "IPv4TLV tag (dotted a b c d) = Inr (TLV tag [a, b, c, d])"
  by (simp add: IPv4TLV_def ParseIP_dotted To4_mapped)

lemma ParseIPv4_bytes: "ParseIPv4 [a, b, c, d] = Inr (dotted a b c d)"
  by (simp add: ParseIPv4_def)

text \<open>
  IPv4 values round-trip: the text the reader renders for four bytes is accepted by the
  writer's \<^verbatim>\<open>net.ParseIP\<close> and encoded to the same four bytes, and two different
  addresses never render alike.
\<close>

lemma IPv4TLV_roundtrip:
  "ParseIPv4 [a, b, c, d] = Inr s
     \<longrightarrow> IPv4TLV tag s = Inr (TLV tag [a, b, c, d])
       \<and> (\<forall>other. ParseIPv4 other = Inr s \<longrightarrow> other = [a, b, c, d])"
proof
  assume "ParseIPv4 [a, b, c, d] = Inr s"
  then have s: "s = dotted a b c d" by (simp add: ParseIPv4_bytes)
  have "other = [a, b, c, d]" if other: "ParseIPv4 other = Inr s" for other
  proof -
    have "length other = 4" using other by (auto simp: ParseIPv4_def split: if_splits)
    then obtain a' b' c' d' where o: "other = [a', b', c', d']" using length4 by blast
    with other s have "dotted a' b' c' d' = dotted a b c d" by (simp add: ParseIPv4_bytes)
    then show ?thesis using o dotted_inject by blast
  qed
  then show "IPv4TLV tag s = Inr (TLV tag [a, b, c, d])
       \<and> (\<forall>other. ParseIPv4 other = Inr s \<longrightarrow> other = [a, b, c, d])"
    by (auto simp: s IPv4TLV_dotted)
qed

lemma IPv4TLV_roundtrip_witness:
  "ParseIPv4 [10, 1, 5, 25] = Inr (dotted 10 1 5 25)
   \<and> IPv4TLV TagGateway (dotted 10 1 5 25) = Inr (TLV TagGateway [10, 1, 5, 25])"
  using mp [OF IPv4TLV_roundtrip [of 10 1 5 25 "dotted 10 1 5 25" TagGateway] ParseIPv4_bytes]
  by (intro conjI ParseIPv4_bytes) blast

lemma ParsePortName_bytes:
  "ParsePortName (p # bytes_of name) = Inr \<lparr>npn_port = uint p,
     npn_name = (if trim_right NUL name \<noteq> [] then Some (trim_right NUL name) else None)\<rparr>"
  using go_slice_tail [of "p # bytes_of name"] by (simp add: ParsePortName_def Let_def)

lemma ascii_bytes_concat: "\<forall>b \<in> set bs. b < 0x80 \<Longrightarrow> concat (map ascii_byte bs) = string_of bs"
  by (induction bs) (simp_all add: ascii_byte_def string_of_def)

lemma decodeASCII_ascii: "is_ascii s \<Longrightarrow> decodeASCII (bytes_of s) = trim_right NUL s"
  using ascii_bytes_concat [of "bytes_of s"] by (simp add: is_ascii_def decodeASCII_def)

lemma hostname_ascii_iff: "hostname_ascii i bs = Inr u \<longleftrightarrow> (\<forall>b \<in> set bs. b < 0x80)"
  by (induction bs arbitrary: i) auto

lemma hostname_ascii_error: "hostname_ascii i bs = Inl e \<Longrightarrow> errors_is e ErrNSDP"
  by (induction bs arbitrary: i) (auto split: if_splits)

lemma HostnameTLV_ascii: "is_ascii name \<Longrightarrow> HostnameTLV name = Inr (TLV TagHostname (bytes_of name))"
  using hostname_ascii_iff [of 0 "bytes_of name" "()"] by (simp add: HostnameTLV_def is_ascii_def)

end
