(* ===== verification/Nsdp_Client.thy ===== *)
theory Nsdp_Client
  imports Nsdp_Build
begin

unbundle bit_operations_syntax

section \<open>The NSDP UDP client (nsdp/client.go)\<close>

text \<open>
  One request/response exchange per call over a transceiver, with the client's 16-bit sequence
  counter, the check of a write's result and the choice of the write-authentication scheme.
  The network is a parameter: a \<open>transceiver\<close> takes a datagram and where to send it to, and
  returns the response datagram or an error, in a state of its own.  Deadlines are part of that
  parameter: an exchange that times out is one whose transceiver returns an error.
\<close>

subsection \<open>Results\<close>

definition errNSDPCause :: "go_error \<Rightarrow> string \<Rightarrow> msg_arg list \<Rightarrow> go_error" where
  "errNSDPCause cause f a = WrapsCause f a ErrNSDP cause"

definition errorName :: "nat \<Rightarrow> string" where
  "errorName code =
     (if code = 0 then ''none''
      else if code = ErrorReadOnly then ''attribute not readable''
      else if code = ErrorWriteOnly then ''attribute not writable''
      else if code = 0x05 then ''invalid value''
      else if code = ErrorDenied then ''denied''
      else if code = ErrorAuthRejected then ''write authentication rejected''
      else if code = ErrorLocked then ''write locked out after repeated auth failures''
      else ''unknown error code '' @ show_nat code)"

definition attrName :: "u16 \<Rightarrow> string" where
  "attrName attr =
     (if attr = 0 then ''no attribute''
      else ''0x'' @ show_hex (ucast (drop_bit 8 attr)) @ show_hex (ucast attr))"

definition AuthV2Unsupported :: string where
  "AuthV2Unsupported =
     ''this firmware refuses the v1 XOR password and requires the v2 salted ''
     @ ''challenge-response, which this library implements; let the client auto-detect the scheme ''
     @ ''(WithAuthScheme(\"auto\")) or force \"v2\" rather than \"v1\"''"

definition CheckResult :: "packet \<Rightarrow> unit res" where
  "CheckResult p =
     (if pk_result p = ResultSuccess then Inr ()
      else
        let code = ErrorCode p; blamed = attrName (pk_error_attr p); detail = errorName code in
        if code = ErrorAuthRejected \<and> pk_error_attr p = TagPassword
        then Inl (errNSDP ''NSDP write rejected at %s: error %d (%s) -- %s''
                    [AStr blamed, AInt (int code), AStr detail, AStr AuthV2Unsupported])
        else if code = ErrorDenied \<or> code = ErrorAuthRejected
        then Inl (errNSDP ''NSDP write rejected: bad password (error 0x%02x) at %s''
                    [AInt (int code), AStr blamed])
        else if code = ErrorLocked
        then Inl (errNSDP (''NSDP write locked out after repeated auth failures (error 0x%02x) at %s; ''
                      @ ''the switch goes silent for a cooldown -- pace writes and retry'')
                    [AInt (int code), AStr blamed])
        else Inl (errNSDP ''NSDP request failed with result 0x%04x (error %d: %s) on %s''
                    [AInt (uint (pk_result p)), AInt (int code), AStr detail, AStr blamed]))"

text \<open>\<^verbatim>\<open>firstTLVValue\<close>: nil, here \<open>None\<close>, only when no TLV has the tag.\<close>

fun first_value :: "tag \<Rightarrow> tlv list \<Rightarrow> bytes option" where
  "first_value tag [] = None"
| "first_value tag (t # ts) = (if tlv_tag t = tag then Some (tlv_value t) else first_value tag ts)"

definition firstTLVValue :: "packet \<Rightarrow> tag \<Rightarrow> bytes option" where
  "firstTLVValue p tag = first_value tag (pk_tlvs p)"

subsection \<open>The client and its construction\<close>

record udp_client =
  uc_host :: string
  uc_client_port :: int
  uc_server_port :: int
  uc_interface :: string
  uc_client_mac :: "bytes option"
  uc_sequence :: u32
  uc_auth_scheme :: string
  uc_resolved_scheme :: string

type_synonym client_option = "udp_client \<Rightarrow> udp_client"

definition WithClientPort :: "int \<Rightarrow> client_option" where
  "WithClientPort port c = c\<lparr>uc_client_port := port\<rparr>"

definition WithServerPort :: "int \<Rightarrow> client_option" where
  "WithServerPort port c = c\<lparr>uc_server_port := port\<rparr>"

definition WithInterface :: "string \<Rightarrow> client_option" where
  "WithInterface iface c = c\<lparr>uc_interface := iface\<rparr>"

definition WithClientMAC :: "bytes option \<Rightarrow> client_option" where
  "WithClientMAC mac c = c\<lparr>uc_client_mac := mac\<rparr>"

definition WithAuthScheme :: "string \<Rightarrow> client_option" where
  "WithAuthScheme scheme c =
     (if scheme = ''v1'' \<or> scheme = ''v2'' then c\<lparr>uc_auth_scheme := scheme\<rparr>
      else c\<lparr>uc_auth_scheme := ''auto''\<rparr>)"

definition dummyClientMAC :: bytes where
  "dummyClientMAC = [0x00, 0x00, 0x00, 0x00, 0x00, 0x01]"

definition zeroMAC :: bytes where
  "zeroMAC = replicate 6 0"

text \<open>\<^verbatim>\<open>hex.DecodeString\<close>: pairs of digits, an error at the first other character.\<close>

fun hex_decode :: "string \<Rightarrow> bytes res" where
  "hex_decode [] = Inr []"
| "hex_decode [c] =
     (if hex_value c = None then Inl (Foreign ''encoding/hex: invalid byte'')
      else Inl (Foreign ''encoding/hex: odd length hex string''))"
| "hex_decode (c # d # s) =
     (case hex_value c of
        None \<Rightarrow> Inl (Foreign ''encoding/hex: invalid byte'')
      | Some hi \<Rightarrow>
          (case hex_value d of
             None \<Rightarrow> Inl (Foreign ''encoding/hex: invalid byte'')
           | Some lo \<Rightarrow> rbind (hex_decode s) (\<lambda>r. Inr (word_of_nat (16 * hi + lo) # r))))"

text \<open>\<^verbatim>\<open>os.ReadFile\<close> is the parameter \<open>read_file\<close>.\<close>

definition ReadInterfaceMAC :: "(string \<Rightarrow> string res) \<Rightarrow> string \<Rightarrow> bytes res" where
  "ReadInterfaceMAC read_file iface =
     rbind (read_file (''/sys/class/net/'' @ iface @ ''/address'')) (\<lambda>data.
     let text = TrimSpace data in
     rbind (hex_decode (filter (\<lambda>c. c \<noteq> CHR '':'') text)) (\<lambda>raw.
     if length raw \<noteq> 6
     then Inl (errNSDP ''interface %q MAC is not 6 bytes: %q'' [AStr iface, AStr text])
     else Inr raw))"

definition default_client :: "string \<Rightarrow> udp_client" where
  "default_client host =
     \<lparr>uc_host = host, uc_client_port = 63321, uc_server_port = 63322, uc_interface = [],
      uc_client_mac = None, uc_sequence = 0, uc_auth_scheme = ''auto'', uc_resolved_scheme = []\<rparr>"

definition NewUDPClient ::
    "(string \<Rightarrow> string res) \<Rightarrow> string \<Rightarrow> client_option list \<Rightarrow> udp_client res" where
  "NewUDPClient read_file host opts =
     (let c = foldl (\<lambda>c opt. opt c) (default_client host) opts in
      if uc_client_mac c \<noteq> None then Inr c
      else if uc_interface c \<noteq> []
      then rbind (ReadInterfaceMAC read_file (uc_interface c)) (\<lambda>mac.
           Inr (c\<lparr>uc_client_mac := Some mac\<rparr>))
      else Inr (c\<lparr>uc_client_mac := Some dummyClientMAC\<rparr>))"

definition client_mac :: "udp_client \<Rightarrow> bytes" where
  "client_mac c = (case uc_client_mac c of None \<Rightarrow> [] | Some m \<Rightarrow> m)"

subsection \<open>Exchanges\<close>

type_synonym 'n transceiver = "bytes \<Rightarrow> string \<Rightarrow> int \<Rightarrow> int \<Rightarrow> string \<Rightarrow> ('n, go_error, bytes) action"

definition nextSeq :: "udp_client \<Rightarrow> udp_client" where
  "nextSeq c = c\<lparr>uc_sequence := (uc_sequence c + 1) AND 0xFFFF\<rparr>"

definition exchange :: "'n transceiver \<Rightarrow> udp_client \<Rightarrow> packet \<Rightarrow> ('n, go_error, packet) action" where
  "exchange tr c req n =
     (case EncodePacket req of
        Inl e \<Rightarrow> (Inl e, n)
      | Inr payload \<Rightarrow>
          (case tr payload (uc_host c) (uc_server_port c) (uc_client_port c) (uc_interface c) n of
             (Inl e, n') \<Rightarrow> (Inl e, n')
           | (Inr data, n') \<Rightarrow>
               (case DecodePacket data of
                  Inl e \<Rightarrow> (Inl (errNSDPCause e ''malformed NSDP response from %s: %v'' [AStr (uc_host c)]), n')
                | Inr resp \<Rightarrow> (Inr resp, n'))))"

definition UDPClient_Read :: "'n transceiver \<Rightarrow> tag list \<Rightarrow> (udp_client \<times> 'n, go_error, packet) action" where
  "UDPClient_Read tr tags = (\<lambda>(c0, n).
     let c = nextSeq c0 in
     case exchange tr c (BuildReadRequest (client_mac c) zeroMAC (uc_sequence c) tags) n of
       (Inl e, n') \<Rightarrow> (Inl e, (c, n'))
     | (Inr resp, n') \<Rightarrow>
         (if pk_op resp \<noteq> OpReadResponse
          then (Inl (errNSDP ''expected READ_RESPONSE from %s, got %s''
                       [AStr (uc_host c), AInt (uint (pk_op resp))]), (c, n'))
          else (Inr resp, (c, n'))))"

definition resolveScheme :: "'n transceiver \<Rightarrow> (udp_client \<times> 'n, go_error, string) action" where
  "resolveScheme tr = (\<lambda>(c, n).
     if uc_resolved_scheme c \<noteq> [] then (Inr (uc_resolved_scheme c), (c, n))
     else let forced = uc_auth_scheme c in
     if forced = ''v1'' \<or> forced = ''v2'' then (Inr forced, (c\<lparr>uc_resolved_scheme := forced\<rparr>, n))
     else case UDPClient_Read tr [TagAuthV2Encpass] (c, n) of
       (Inl e, s) \<Rightarrow> (Inl e, s)
     | (Inr resp, (c', n')) \<Rightarrow>
         let scheme = (if EncpassIsV2 (case firstTLVValue resp TagAuthV2Encpass of None \<Rightarrow> [] | Some v \<Rightarrow> v)
                       then ''v2'' else ''v1'')
         in (Inr scheme, (c'\<lparr>uc_resolved_scheme := scheme\<rparr>, n')))"

definition buildAuthWrite ::
    "'n transceiver \<Rightarrow> tlv list \<Rightarrow> string \<Rightarrow> (udp_client \<times> 'n, go_error, packet) action" where
  "buildAuthWrite tr tlvs password =
     sbind (resolveScheme tr) (\<lambda>scheme.
     if scheme = ''v2'' then
       sbind (UDPClient_Read tr [TagAuthV2Salt]) (\<lambda>saltResp (c, n).
       case firstTLVValue saltResp TagAuthV2Salt of
         None \<Rightarrow> (Inl (errNSDP ''%s advertised v2 auth but returned no AUTH_V2_SALT (0x0017)''
                         [AStr (uc_host c)]), (c, n))
       | Some salt \<Rightarrow>
           (case AuthV2Password password (pk_server_mac saltResp) salt of
              Inl e \<Rightarrow> (Inl e, (c, n))
            | Inr token \<Rightarrow>
                let c' = nextSeq c in
                (Inr (BuildWriteRequestV2 (client_mac c') zeroMAC (uc_sequence c') token tlvs), (c', n))))
     else (\<lambda>(c, n).
       let c' = nextSeq c in
       (BuildWriteRequest (client_mac c') zeroMAC (uc_sequence c') password tlvs, (c', n))))"

definition UDPClient_Write ::
    "'n transceiver \<Rightarrow> tlv list \<Rightarrow> string \<Rightarrow> (udp_client \<times> 'n, go_error, packet) action" where
  "UDPClient_Write tr tlvs password =
     sbind (buildAuthWrite tr tlvs password) (\<lambda>req (c, n).
     case exchange tr c req n of
       (Inl e, n') \<Rightarrow> (Inl e, (c, n'))
     | (Inr resp, n') \<Rightarrow>
         (if pk_op resp \<noteq> OpWriteResponse
          then (Inl (errNSDP ''expected WRITE_RESPONSE from %s, got %s''
                       [AStr (uc_host c), AInt (uint (pk_op resp))]), (c, n'))
          else case CheckResult resp of
                 Inl e \<Rightarrow> (Inl e, (c, n'))
               | Inr _ \<Rightarrow> (Inr resp, (c, n'))))"

text \<open>
  \<^verbatim>\<open>realTransceive\<close> over the socket calls it makes: dial, write, set the read deadline, and
  read into a 4096-byte buffer, which drops the rest of a longer datagram.  A failed read is
  marked with whether it is a timeout.
\<close>

definition realTransceive ::
    "(string \<Rightarrow> int \<Rightarrow> int \<Rightarrow> string \<Rightarrow> ('n, go_error, unit) action) \<Rightarrow>
     (bytes \<Rightarrow> ('n, go_error, unit) action) \<Rightarrow> ('n, go_error, unit) action \<Rightarrow>
     ('n, bool \<times> go_error, bytes) action \<Rightarrow> 'n transceiver" where
  "realTransceive dial send deadline recv payload host serverPort clientPort iface =
     sbind (dial host serverPort clientPort iface) (\<lambda>_.
     sbind (send payload) (\<lambda>_.
     sbind deadline (\<lambda>_ n.
     case recv n of
       (Inl (timeout, e), n') \<Rightarrow>
         (Inl (if timeout then errNSDPCause e ''NSDP request to %s timed out'' [AStr host] else e), n')
     | (Inr data, n') \<Rightarrow> (Inr (take 4096 data), n'))))"

subsection \<open>Laws\<close>

lemma exchange_ok:
  assumes "EncodePacket req = Inr payload"
    and "tr payload (uc_host c) (uc_server_port c) (uc_client_port c) (uc_interface c) n = (Inr data, n')"
    and "DecodePacket data = Inr resp"
  shows "exchange tr c req n = (Inr resp, n')"
  using assms by (simp add: exchange_def)

lemma exchange_error:
  assumes "EncodePacket req = Inr payload"
    and "tr payload (uc_host c) (uc_server_port c) (uc_client_port c) (uc_interface c) n = (Inl e, n')"
  shows "exchange tr c req n = (Inl e, n')"
  using assms by (simp add: exchange_def)

lemma resolveScheme_resolved:
  "uc_resolved_scheme c \<noteq> [] \<Longrightarrow> resolveScheme tr (c, n) = (Inr (uc_resolved_scheme c), (c, n))"
  by (simp add: resolveScheme_def)

lemma resolveScheme_forced:
  "uc_resolved_scheme c = [] \<Longrightarrow> uc_auth_scheme c = scheme \<Longrightarrow> scheme = ''v1'' \<or> scheme = ''v2'' \<Longrightarrow>
   resolveScheme tr (c, n) = (Inr scheme, (c\<lparr>uc_resolved_scheme := scheme\<rparr>, n))"
  by (auto simp: resolveScheme_def)

lemma resolveScheme_detects:
  "uc_resolved_scheme c = [] \<Longrightarrow> uc_auth_scheme c = ''auto'' \<Longrightarrow>
   UDPClient_Read tr [TagAuthV2Encpass] (c, n) = (Inr resp, (c', n')) \<Longrightarrow>
   firstTLVValue resp TagAuthV2Encpass = Some v \<Longrightarrow>
   resolveScheme tr (c, n) =
     (let scheme = (if EncpassIsV2 v then ''v2'' else ''v1'')
      in (Inr scheme, (c'\<lparr>uc_resolved_scheme := scheme\<rparr>, n')))"
  by (simp add: resolveScheme_def)

lemma buildAuthWrite_v1:
  "resolveScheme tr s = (Inr ''v1'', (c, n)) \<Longrightarrow>
   buildAuthWrite tr tlvs password s =
     (BuildWriteRequest (client_mac (nextSeq c)) zeroMAC (uc_sequence (nextSeq c)) password tlvs,
      (nextSeq c, n))"
  by (simp add: buildAuthWrite_def sbind_def Let_def)

lemma buildAuthWrite_v2:
  "resolveScheme tr s = (Inr ''v2'', s') \<Longrightarrow>
   UDPClient_Read tr [TagAuthV2Salt] s' = (Inr resp, (c, n)) \<Longrightarrow>
   firstTLVValue resp TagAuthV2Salt = Some salt \<Longrightarrow>
   AuthV2Password password (pk_server_mac resp) salt = Inr token \<Longrightarrow>
   buildAuthWrite tr tlvs password s =
     (Inr (BuildWriteRequestV2 (client_mac (nextSeq c)) zeroMAC (uc_sequence (nextSeq c)) token tlvs),
      (nextSeq c, n))"
  by (simp add: buildAuthWrite_def sbind_def Let_def)

lemma nextSeq_wraps:
  "uint (uc_sequence (nextSeq c)) = (uint (uc_sequence c) + 1) mod 65536"
proof -
  have "uint (uc_sequence (nextSeq c)) = uint (uc_sequence c + 1) mod 2 ^ 16"
    using uint_and [of "uc_sequence c + 1" "0xFFFF"] take_bit_eq_mask [of 16 "uint (uc_sequence c + 1)"]
    by (simp add: nextSeq_def take_bit_eq_mod mask_eq_exp_minus_1)
  also have "\<dots> = (uint (uc_sequence c) + 1) mod 65536"
    by (simp add: uint_word_ariths mod_mod_cancel)
  finally show ?thesis .
qed

lemma CheckResult_ok [simp]: "CheckResult p = Inr u \<longleftrightarrow> pk_result p = ResultSuccess"
  by (simp add: CheckResult_def Let_def)

lemma CheckResult_error: "CheckResult p = Inl e \<Longrightarrow> errors_is e ErrNSDP \<and> \<not> is_verification e"
  by (auto simp: CheckResult_def Let_def split: if_splits)

lemma exchange_answer:
  "exchange tr c req n = (Inr resp, n') \<Longrightarrow>
   \<exists>payload data. EncodePacket req = Inr payload \<and> DecodePacket data = Inr resp
     \<and> tr payload (uc_host c) (uc_server_port c) (uc_client_port c) (uc_interface c) n = (Inr data, n')"
  by (auto simp: exchange_def split: sum.splits prod.splits)

text \<open>
  A write is reported successful only on a decoded \<^verbatim>\<open>WRITE_RESPONSE\<close> whose
  result is success: a stray read response, an unknown operation or any non-zero result is an
  error, whatever the network delivered.
\<close>

theorem UDPClient_Write_confirmed:
  assumes "UDPClient_Write tr tlvs password s = (Inr resp, s')"
  shows "pk_op resp = OpWriteResponse \<and> pk_result resp = ResultSuccess
    \<and> (\<exists>payload (c :: udp_client) n data. tr payload (uc_host c) (uc_server_port c) (uc_client_port c) (uc_interface c) n
          = (Inr data, snd s') \<and> DecodePacket data = Inr resp)"
proof -
  obtain req c n where
    "(case exchange tr c req n of (Inl e, n') \<Rightarrow> (Inl e, (c, n'))
      | (Inr r, n') \<Rightarrow>
         (if pk_op r \<noteq> OpWriteResponse
          then (Inl (errNSDP ''expected WRITE_RESPONSE from %s, got %s''
                       [AStr (uc_host c), AInt (uint (pk_op r))]), (c, n'))
          else case CheckResult r of Inl e \<Rightarrow> (Inl e, (c, n')) | Inr _ \<Rightarrow> (Inr r, (c, n'))))
     = (Inr resp, s')"
    using assms unfolding UDPClient_Write_def by (auto simp only: res_simps split_paired_Ex prod.case)
  then obtain n' where ex: "exchange tr c req n = (Inr resp, n')" and s': "s' = (c, n')"
      and ok: "pk_op resp = OpWriteResponse" "CheckResult resp = Inr ()"
    by (cases "exchange tr c req n"; cases "fst (exchange tr c req n)")
       (auto split: if_splits sum.splits)
  obtain payload data where
    "tr payload (uc_host c) (uc_server_port c) (uc_client_port c) (uc_interface c) n = (Inr data, n')"
    "DecodePacket data = Inr resp"
    using exchange_answer [OF ex] by blast
  then have "\<exists>payload (c :: udp_client) n data. tr payload (uc_host c) (uc_server_port c) (uc_client_port c) (uc_interface c) n
      = (Inr data, snd s') \<and> DecodePacket data = Inr resp"
    unfolding s' snd_conv by blast
  with ok show ?thesis by simp
qed

definition sample_reply :: packet where
  "sample_reply =
     \<lparr>pk_op = OpWriteResponse, pk_client_mac = dummyClientMAC, pk_server_mac = zeroMAC,
      pk_sequence = 1, pk_result = 0, pk_error_attr = 0, pk_tlvs = []\<rparr>"

definition sample_client :: udp_client where
  "sample_client =
     (default_client ''10.0.0.1'')\<lparr>uc_client_mac := Some dummyClientMAC, uc_auth_scheme := ''v1''\<rparr>"

lemma wf_sample_reply: "wf_packet sample_reply"
  by (simp add: wf_packet_def sample_reply_def isValidOp_def dummyClientMAC_def zeroMAC_def)

definition sample_net :: "unit transceiver" where
  "sample_net payload host sp cp iface n = (EncodePacket sample_reply, n)"

definition sample_client' :: udp_client where
  "sample_client' = sample_client\<lparr>uc_sequence := 1, uc_resolved_scheme := ''v1''\<rparr>"

definition sample_write_request :: packet where
  "sample_write_request = request OpWriteRequest dummyClientMAC zeroMAC 1 [TLV TagPassword []]"

lemma sample_build:
  "buildAuthWrite sample_net [] [] (sample_client, ()) = (Inr sample_write_request, (sample_client', ()))"
proof -
  have "resolveScheme sample_net (sample_client, ())
      = (Inr ''v1'', (sample_client\<lparr>uc_resolved_scheme := ''v1''\<rparr>, ()))"
    by (rule resolveScheme_forced) (simp_all add: sample_client_def default_client_def)
  then show ?thesis
    by (simp add: buildAuthWrite_v1 BuildWriteRequest_def PasswordTLV_def EncodePasswordV1_def xor_key_def
        bytes_of_def nextSeq_def client_mac_def sample_client_def sample_client'_def default_client_def
        sample_write_request_def)
qed

lemma sample_exchange: "exchange sample_net c sample_write_request () = (Inr sample_reply, ())"
proof -
  have wf: "wf_packet sample_write_request"
    by (simp add: sample_write_request_def wf_packet_def request_def isValidOp_def wf_tlv_def
        dummyClientMAC_def zeroMAC_def)
  obtain payload where "EncodePacket sample_write_request = Inr payload"
    using encode_decode_packet [OF wf] by blast
  moreover obtain data where "EncodePacket sample_reply = Inr data" "DecodePacket data = Inr sample_reply"
    using encode_decode_packet [OF wf_sample_reply] by blast
  ultimately show ?thesis
    by (auto intro: exchange_ok simp: sample_net_def)
qed

lemma sample_write:
  "UDPClient_Write sample_net [] [] (sample_client, ()) = (Inr sample_reply, (sample_client', ()))"
  by (simp add: UDPClient_Write_def sbind_def sample_build sample_exchange)
     (simp add: sample_reply_def CheckResult_def)

theorem UDPClient_Write_confirmed_witness:
  "pk_op sample_reply = OpWriteResponse \<and> pk_result sample_reply = ResultSuccess"
  using UDPClient_Write_confirmed [OF sample_write] by blast

lemma resolveScheme_cached:
  assumes "resolveScheme tr s = (Inr scheme, s')"
  shows "resolveScheme tr' s' = (Inr scheme, s') \<and> uc_resolved_scheme (fst s') = scheme"
  using assms by (cases s; cases s')
    (auto simp: resolveScheme_def Let_def split: if_splits prod.splits sum.splits)

lemma resolveScheme_cached_witness:
  "resolveScheme (\<lambda>_ _ _ _ _ n. (Inl Go_Panic, n))
     (sample_client\<lparr>uc_resolved_scheme := ''v1''\<rparr>, ())
   = (Inr ''v1'', (sample_client\<lparr>uc_resolved_scheme := ''v1''\<rparr>, ()))"
proof -
  have "resolveScheme (\<lambda>_ _ _ _ _ n. (Inl Go_Panic, n)) (sample_client, ())
      = (Inr ''v1'', (sample_client\<lparr>uc_resolved_scheme := ''v1''\<rparr>, ()))"
    by (rule resolveScheme_forced) (simp_all add: sample_client_def default_client_def)
  from resolveScheme_cached [OF this] show ?thesis by blast
qed

end
