(* ===== verification/Virtual_State.thy ===== *)
theory Virtual_State
  imports Nsdp_Build Registry
begin

unbundle bit_operations_syntax

section \<open>The virtual switch's state and its NSDP projection (virtual/state.go)\<close>

text \<open>
  The part of \<^verbatim>\<open>State\<close> that the NSDP and SNMP faces read and write (the fields only the
  web and command-line faces use are left out): \<open>NsdpTlvs\<close> projects it
  onto the requested tags, \<open>ApplyNsdpWrite\<close> applies one TLV of an authenticated write.  Go
  maps are association lists; a set of ports, \<^verbatim>\<open>map[int]bool\<close> in the code, holds the
  ports whose value is true.
\<close>

subsection \<open>State\<close>

record port_sim =
  vp_name :: string
  vp_admin :: bool
  vp_link :: bool
  vp_speed :: int
  vp_if_type :: int
  vp_rx_octets :: "u64 option"
  vp_tx_octets :: "u64 option"
  vp_rx_ucast :: "u64 option"
  vp_tx_ucast :: "u64 option"
  vp_rx_errors :: "u64 option"
  vp_tx_errors :: "u64 option"
  vp_description :: "string option"
  vp_flow_control :: bool
  vp_serves_etherlike :: bool
  vp_switchport_mode :: string
  vp_physical_mode :: string

definition NewPortSim :: "string \<Rightarrow> bool \<Rightarrow> bool \<Rightarrow> int \<Rightarrow> port_sim" where
  "NewPortSim name admin link speed =
     \<lparr>vp_name = name, vp_admin = admin, vp_link = link, vp_speed = speed, vp_if_type = 6,
      vp_rx_octets = None, vp_tx_octets = None, vp_rx_ucast = None, vp_tx_ucast = None,
      vp_rx_errors = None, vp_tx_errors = None, vp_description = None, vp_flow_control = False,
      vp_serves_etherlike = False, vp_switchport_mode = ''general'', vp_physical_mode = []\<rparr>"

lemma NewPortSim_sel [simp]:
  "vp_link (NewPortSim n a l v) = l" "vp_speed (NewPortSim n a l v) = v"
  "vp_description (NewPortSim n a l v) = None" "vp_flow_control (NewPortSim n a l v) = False"
  "vp_rx_octets (NewPortSim n a l v) = None" "vp_tx_octets (NewPortSim n a l v) = None"
  "vp_rx_errors (NewPortSim n a l v) = None"
  by (simp_all add: NewPortSim_def)

record vlan_sim =
  vv_name :: string
  vv_member :: "bool gomap"
  vv_untagged :: "bool gomap"
  vv_configured_only :: "bool gomap"
  vv_no_static_row :: bool

record mgmt_sim =
  vm_address :: string
  vm_netmask :: string
  vm_gateway :: string
  vm_mode :: string

record poe_sim =
  vq_admin :: bool
  vq_detect :: int
  vq_power_mw :: int
  vq_status_lag :: int

record sensor_sim =
  vn_kind :: string
  vn_instance :: string
  vn_raw :: string

record entity_sim =
  ve_index :: int
  ve_class :: int
  ve_name :: string
  ve_descr :: string

record mac_sim =
  va_vlan :: int
  va_mac :: bytes
  va_bridge_port :: int

record lldp_sim =
  vl_time_mark :: int
  vl_local_port :: int
  vl_rem_idx :: int
  vl_chassis :: string
  vl_port_id :: string
  vl_port_desc :: string
  vl_sys_name :: string

record collector_sim =
  vc_host :: string
  vc_port :: int
  vc_severity :: int
  vc_status :: int
  vc_index :: int

record syslog_sim =
  vy_admin_mode :: int
  vy_local_port :: int
  vy_collectors :: "collector_sim list"

record user_sim =
  vu_name :: string
  vu_http_access_mode :: string
  vu_cli_access_mode :: string
  vu_snmpv3_access :: string
  vu_snmpv3_auth :: string
  vu_snmpv3_encryption :: string

record service_sim =
  vf_enabled :: bool
  vf_port :: "int option"
  vf_cli_port :: "int option"

record scp_cert_deploy_sim =
  vd_commands :: "string list"
  vd_copies :: "(string \<times> string) list"
  vd_https_disabled :: bool
  vd_https_enabled :: bool
  vd_saved :: bool

record vstate =
  vs_model_key :: string
  vs_ports :: "port_sim gomap"
  vs_vlans :: "vlan_sim gomap"
  vs_pvids :: "int gomap"
  vs_poe :: "poe_sim gomap"
  vs_sensors :: "sensor_sim list"
  vs_entities :: "entity_sim list"
  vs_macs :: "mac_sim list"
  vs_bridge_ports :: "int gomap"
  vs_lldp :: "lldp_sim list"
  vs_mgmt :: mgmt_sim
  vs_syslog :: syslog_sim
  vs_model_name :: string
  vs_serial :: string
  vs_firmware :: string
  vs_hostname :: string
  vs_password :: string
  vs_mac :: bytes
  vs_auth_v2 :: bool
  vs_sys_descr :: string
  vs_sys_object_id :: string
  vs_base_mac_ascii :: bool
  vs_portlist_width :: "nat option"
  vs_qos_engine :: "int option"
  vs_mirror_dest :: "int option"
  vs_mirror_sources :: "bool gomap"
  vs_igmp_enabled :: "bool option"
  vs_igmp_vlan :: "int option"
  vs_broadcast :: "bool option"
  vs_loop :: "bool option"
  vs_sw_mode :: "int gomap"
  vs_sw_access :: "int gomap"
  vs_sw_native :: "int gomap"
  vs_sw_allowed :: "bytes gomap"
  vs_sw_general_untagged :: "bool gomap gomap"
  vs_sw_general_tagged :: "bool gomap gomap"
  vs_pdu_egress :: "bool gomap"
  vs_users :: "user_sim list"
  vs_services :: "(string \<times> service_sim) list"
  vs_deploy :: "scp_cert_deploy_sim option"
  vs_locked_ports :: "bool gomap"
  vs_reboots :: int

definition NewState :: "string \<Rightarrow> vstate" where
  "NewState modelKey =
     \<lparr>vs_model_key = modelKey, vs_ports = [], vs_vlans = [], vs_pvids = [],
      vs_poe = [], vs_sensors = [], vs_entities = [], vs_macs = [], vs_bridge_ports = [], vs_lldp = [],
      vs_mgmt = \<lparr>vm_address = ''0.0.0.0'', vm_netmask = ''0.0.0.0'', vm_gateway = ''0.0.0.0'',
                 vm_mode = ''dhcp''\<rparr>,
      vs_syslog = \<lparr>vy_admin_mode = 2, vy_local_port = 514, vy_collectors = []\<rparr>,
      vs_model_name = [], vs_serial = [], vs_firmware = [], vs_hostname = [],
      vs_password = ''password'', vs_mac = [0x28, 0xc6, 0x8e, 0x00, 0x00, 0x01],
      vs_auth_v2 = False, vs_sys_descr = [], vs_sys_object_id = [], vs_base_mac_ascii = False,
      vs_portlist_width = None, vs_qos_engine = None, vs_mirror_dest = None, vs_mirror_sources = [],
      vs_igmp_enabled = None, vs_igmp_vlan = None, vs_broadcast = None, vs_loop = None,
      vs_sw_mode = [], vs_sw_access = [], vs_sw_native = [], vs_sw_allowed = [],
      vs_sw_general_untagged = [], vs_sw_general_tagged = [], vs_pdu_egress = [],
      vs_users = [], vs_services = [], vs_deploy = None, vs_locked_ports = [], vs_reboots = 0\<rparr>"

definition mustModel :: "vstate \<Rightarrow> switch_model res" where
  "mustModel s = (case GetModel (vs_model_key s) of Inl e \<Rightarrow> Inl Go_Panic | Inr m \<Rightarrow> Inr m)"

subsection \<open>Sets of ports\<close>

definition in_set :: "bool gomap \<Rightarrow> int \<Rightarrow> bool" where
  "in_set m p \<longleftrightarrow> map_of m p = Some True"

fun portSetFromSlice :: "int list \<Rightarrow> bool gomap" where
  "portSetFromSlice [] = []"
| "portSetFromSlice (p # ps) = AList.update p True (portSetFromSlice ps)"

definition sliceFromPortSet :: "bool gomap \<Rightarrow> int list" where
  "sliceFromPortSet m = filter (in_set m) (sorted_keys m)"

definition setDifference :: "bool gomap \<Rightarrow> bool gomap \<Rightarrow> bool gomap" where
  "setDifference a b = map (\<lambda>k. (k, True)) (filter (\<lambda>k. in_set a k \<and> \<not> in_set b k) (sorted_keys a))"

subsection \<open>Projection\<close>

definition mbpsToSpeedByte :: "int \<Rightarrow> byte" where
  "mbpsToSpeedByte mbps =
     (if mbps = 10 then 0x02 else if mbps = 100 then 0x04 else if mbps = 1000 then 0x05
      else if mbps = 10000 then word_of_int LinkSpeedTenGigabit else 0x00)"

definition u64OrZero :: "u64 option \<Rightarrow> u64" where
  "u64OrZero p = (case p of None \<Rightarrow> 0 | Some v \<Rightarrow> v)"

text \<open>
  A builder whose error only skips its TLV; a panic is not an error value and is not caught.
\<close>

definition skip_error :: "tlv res \<Rightarrow> tlv list res" where
  "skip_error r = (case r of Inr t \<Rightarrow> Inr [t] | Inl Go_Panic \<Rightarrow> Inl Go_Panic | Inl _ \<Rightarrow> Inr [])"

definition appendIPv4TLV :: "tag \<Rightarrow> string \<Rightarrow> tlv list res" where
  "appendIPv4TLV tag addr = skip_error (IPv4TLV tag addr)"

fun concat_res :: "tlv list res list \<Rightarrow> tlv list res" where
  "concat_res [] = Inr []"
| "concat_res (r # rs) = rbind r (\<lambda>x. rbind (concat_res rs) (\<lambda>y. Inr (x @ y)))"

definition bool_byte :: "bool \<Rightarrow> byte" where
  "bool_byte b = (if b then 1 else 0)"

definition port_status_tlv :: "int \<times> port_sim \<Rightarrow> tlv" where
  "port_status_tlv = (\<lambda>(port, sim).
     TLV TagPortStatus
       [word_of_int port, (if vp_link sim then mbpsToSpeedByte (vp_speed sim) else 0x00),
        bool_byte (vp_flow_control sim)])"

definition port_name_tlv :: "int \<times> port_sim \<Rightarrow> tlv" where
  "port_name_tlv = (\<lambda>(port, sim).
     TLV TagPortName
       (word_of_int port # (case vp_description sim of None \<Rightarrow> [] | Some d \<Rightarrow> bytes_of d)))"

definition port_statistics_tlv :: "int \<times> port_sim \<Rightarrow> tlv" where
  "port_statistics_tlv = (\<lambda>(port, sim).
     TLV TagPortStatistics
       (word_of_int port # put64 (u64OrZero (vp_rx_octets sim)) @ put64 (u64OrZero (vp_tx_octets sim))
        @ put64 (u64OrZero (vp_rx_errors sim)) @ replicate 24 0))"

definition vlan_members_tlv :: "nat \<Rightarrow> int \<times> vlan_sim \<Rightarrow> tlv list res" where
  "vlan_members_tlv portCount = (\<lambda>(vid, vsim).
     skip_error (VlanMembersTLV vid (sliceFromPortSet (vv_member vsim))
       (sliceFromPortSet (setDifference (vv_member vsim) (vv_untagged vsim))) portCount))"

definition port_pvid_tlv :: "int \<times> int \<Rightarrow> tlv" where
  "port_pvid_tlv = (\<lambda>(port, vlan). TLV TagPortPVID (word_of_int port # put16 (word_of_int vlan)))"

text \<open>The entries of a map in the order of their keys.\<close>

definition sorted_items :: "'v gomap \<Rightarrow> (int \<times> 'v) list" where
  "sorted_items m = map (\<lambda>k. (k, the (map_of m k))) (sorted_keys m)"

text \<open>The TLVs that answer one tag, in the emission order of the code.\<close>

definition tag_answer :: "vstate \<Rightarrow> switch_model \<Rightarrow> tag \<Rightarrow> tlv list res" where
  "tag_answer s sm tag =
     (if tag = TagModel then
        Inr [TLV TagModel (bytes_of (if vs_model_name s = [] then sm_display_name sm else vs_model_name s))]
      else if tag = TagMAC then Inr [TLV TagMAC (vs_mac s)]
      else if tag = TagPortCount then Inr [TLV TagPortCount [word_of_nat (sm_port_count sm)]]
      else if tag = TagSerialNumber then
        Inr (if vs_serial s \<noteq> [] then [TLV TagSerialNumber (0x01 # bytes_of (vs_serial s))] else [])
      else if tag = TagHostname then
        Inr (if vs_hostname s \<noteq> [] then [TLV TagHostname (bytes_of (vs_hostname s))] else [])
      else if tag = TagFirmwareVer1 then
        Inr (if vs_firmware s \<noteq> [] then [TLV TagFirmwareVer1 (bytes_of (vs_firmware s))] else [])
      else if tag = TagPortStatus then Inr (map port_status_tlv (sorted_items (vs_ports s)))
      else if tag = TagPortName then Inr (map port_name_tlv (sorted_items (vs_ports s)))
      else if tag = TagPortStatistics then Inr (map port_statistics_tlv (sorted_items (vs_ports s)))
      else if tag = TagVLANMembers then
        concat_res (map (vlan_members_tlv (sm_port_count sm)) (sorted_items (vs_vlans s)))
      else if tag = TagPortPVID then Inr (map port_pvid_tlv (sorted_items (vs_pvids s)))
      else if tag = TagIPAddress then appendIPv4TLV TagIPAddress (vm_address (vs_mgmt s))
      else if tag = TagNetmask then appendIPv4TLV TagNetmask (vm_netmask (vs_mgmt s))
      else if tag = TagGateway then appendIPv4TLV TagGateway (vm_gateway (vs_mgmt s))
      else if tag = TagDHCPMode then
        Inr [TLV TagDHCPMode [if vm_mode (vs_mgmt s) \<noteq> ''static'' then 0x01 else 0x00]]
      else if tag = TagQOSEngine then
        Inr (case vs_qos_engine s of None \<Rightarrow> [] | Some q \<Rightarrow> [TLV TagQOSEngine [word_of_int q]])
      else if tag = TagPortMirroring then
        (case vs_mirror_dest s of None \<Rightarrow> Inr []
         | Some d \<Rightarrow>
             rbind (EncodePortBitmap (sliceFromPortSet (vs_mirror_sources s)) ((sm_port_count sm + 7) div 8))
               (\<lambda>bm. Inr [TLV TagPortMirroring (word_of_int d # bm)]))
      else if tag = TagIGMPSnooping then
        Inr (case vs_igmp_enabled s of None \<Rightarrow> []
             | Some e \<Rightarrow> [TLV TagIGMPSnooping
                 [0x00, bool_byte e, 0x00, (case vs_igmp_vlan s of None \<Rightarrow> 0 | Some v \<Rightarrow> word_of_int v)]])
      else if tag = TagBroadcastFiltering then
        Inr (case vs_broadcast s of None \<Rightarrow> [] | Some b \<Rightarrow> [TLV TagBroadcastFiltering [bool_byte b]])
      else if tag = TagLoopDetection then
        Inr (case vs_loop s of None \<Rightarrow> [] | Some b \<Rightarrow> [TLV TagLoopDetection [bool_byte b]])
      else Inr [])"

definition emission_order :: "tag list" where
  "emission_order =
     [TagModel, TagMAC, TagPortCount, TagSerialNumber, TagHostname, TagFirmwareVer1, TagPortStatus,
      TagPortName, TagPortStatistics, TagVLANMembers, TagPortPVID, TagIPAddress, TagNetmask,
      TagGateway, TagDHCPMode, TagQOSEngine, TagPortMirroring, TagIGMPSnooping,
      TagBroadcastFiltering, TagLoopDetection]"

definition NsdpTlvs :: "vstate \<Rightarrow> tag list \<Rightarrow> tlv list res" where
  "NsdpTlvs s tags =
     rbind (mustModel s) (\<lambda>sm.
     concat_res (map (tag_answer s sm) (filter (\<lambda>t. t \<in> set tags) emission_order)))"

subsection \<open>Writes\<close>

definition set_mgmt :: "(mgmt_sim \<Rightarrow> mgmt_sim) \<Rightarrow> vstate \<Rightarrow> vstate" where
  "set_mgmt f s = s\<lparr>vs_mgmt := f (vs_mgmt s)\<rparr>"

definition ApplyNsdpWrite :: "tag \<Rightarrow> bytes \<Rightarrow> vstate \<Rightarrow> vstate res" where
  "ApplyNsdpWrite tag value s =
     (if tag = TagPortPVID then
        (if length value < 3 then Inr s
         else rbind (go_index value 0) (\<lambda>port. rbind (uint16_at value 1) (\<lambda>vlan.
              Inr (s\<lparr>vs_pvids := AList.update (uint port) (uint vlan) (vs_pvids s)\<rparr>))))
      else if tag = TagVLANMembers then
        rbind (mustModel s) (\<lambda>sm.
        case ParseVlanMembers value (sm_port_count sm) of
          Inl _ \<Rightarrow> Inr s
        | Inr m \<Rightarrow>
            let name = (case map_of (vs_vlans s) (nvm_vlan_id m) of None \<Rightarrow> [] | Some v \<Rightarrow> vv_name v)
            in Inr (s\<lparr>vs_vlans := AList.update (nvm_vlan_id m)
                   \<lparr>vv_name = name, vv_member = portSetFromSlice (nvm_members m),
                    vv_untagged = portSetFromSlice (UntaggedPorts m),
                    vv_configured_only = [], vv_no_static_row = False\<rparr> (vs_vlans s)\<rparr>))
      else if tag = TagIPAddress then
        (case ParseIPv4 value of Inl _ \<Rightarrow> Inr s | Inr a \<Rightarrow> Inr (set_mgmt (\<lambda>m. m\<lparr>vm_address := a\<rparr>) s))
      else if tag = TagNetmask then
        (case ParseIPv4 value of Inl _ \<Rightarrow> Inr s | Inr a \<Rightarrow> Inr (set_mgmt (\<lambda>m. m\<lparr>vm_netmask := a\<rparr>) s))
      else if tag = TagGateway then
        (case ParseIPv4 value of Inl _ \<Rightarrow> Inr s | Inr a \<Rightarrow> Inr (set_mgmt (\<lambda>m. m\<lparr>vm_gateway := a\<rparr>) s))
      else if tag = TagHostname then Inr (s\<lparr>vs_hostname := string_of value\<rparr>)
      else if tag = TagDHCPMode then
        (if length value = 0 then Inr s
         else rbind (go_index value 0) (\<lambda>b.
              Inr (set_mgmt (\<lambda>m. m\<lparr>vm_mode := (if b = 0x01 then ''dhcp'' else ''static'')\<rparr>) s)))
      else if tag = TagVLANDestroy then
        (if length value < 2 then Inr s
         else rbind (uint16_at value 0) (\<lambda>w. let vid = uint w in
           if map_of (vs_vlans s) vid \<noteq> None
           then Inr (s\<lparr>vs_vlans := AList.delete vid (vs_vlans s),
                       vs_pvids := map (\<lambda>(p, pv). (p, if pv = vid then 1 else pv)) (vs_pvids s)\<rparr>)
           else Inr s))
      else if tag = TagPortName then
        (if length value = 0 then Inr s
         else rbind (go_index value 0) (\<lambda>b. rbind (go_slice value 1 (length value)) (\<lambda>tail.
           case map_of (vs_ports s) (uint b) of
             None \<Rightarrow> Inr s
           | Some sim \<Rightarrow>
               let text = trim_right NUL (string_of tail)
               in Inr (s\<lparr>vs_ports := AList.update (uint b)
                      (sim\<lparr>vp_description := (if text \<noteq> [] then Some text else None)\<rparr>) (vs_ports s)\<rparr>))))
      else Inr s)"

text \<open>The face's loop over the configuration TLVs of one write.\<close>

fun apply_writes :: "tlv list \<Rightarrow> vstate \<Rightarrow> vstate res" where
  "apply_writes [] s = Inr s"
| "apply_writes (t # ts) s = rbind (ApplyNsdpWrite (tlv_tag t) (tlv_value t) s) (apply_writes ts)"

subsection \<open>Well-formed states\<close>

text \<open>
  What the wire can carry of a state: a known model, a six-byte address, ports and VLAN ids that
  fit their fields, VLAN members within the model's bitmap, dotted-quad addresses.
\<close>

definition is_dotted :: "string \<Rightarrow> bool" where
  "is_dotted a =
     (case ParseIP a of None \<Rightarrow> False
      | Some ip \<Rightarrow> (case To4 ip of None \<Rightarrow> False | Some ip4 \<Rightarrow> ParseIPv4 ip4 = Inr a))"

definition vlan_ok :: "nat \<Rightarrow> int \<times> vlan_sim \<Rightarrow> bool" where
  "vlan_ok n = (\<lambda>(vid, v). 0 \<le> vid \<and> vid \<le> 0xFFFF
     \<and> list_all (\<lambda>p. 1 \<le> p \<and> p \<le> int (8 * ((n + 7) div 8))) (sliceFromPortSet (vv_member v)))"

definition port_ok :: "int \<times> port_sim \<Rightarrow> bool" where
  "port_ok = (\<lambda>(p, sim). 0 \<le> p \<and> p \<le> 0xFF
     \<and> (case vp_description sim of None \<Rightarrow> True | Some d \<Rightarrow> length d < 65535))"

definition pvid_ok :: "int \<times> int \<Rightarrow> bool" where
  "pvid_ok = (\<lambda>(p, v). 0 \<le> p \<and> p \<le> 0xFF \<and> 0 \<le> v \<and> v \<le> 0xFFFF)"

definition mgmt_ok :: "mgmt_sim \<Rightarrow> bool" where
  "mgmt_ok m \<longleftrightarrow> is_dotted (vm_address m) \<and> is_dotted (vm_netmask m) \<and> is_dotted (vm_gateway m)"

definition mirror_ok :: "nat \<Rightarrow> vstate \<Rightarrow> bool" where
  "mirror_ok n s \<longleftrightarrow> list_all (\<lambda>p. 1 \<le> p \<and> p \<le> int (8 * ((n + 7) div 8)))
      (sliceFromPortSet (vs_mirror_sources s))"

definition vs_ok :: "vstate \<Rightarrow> bool" where
  "vs_ok s \<longleftrightarrow>
     (case mustModel s of Inl _ \<Rightarrow> False
      | Inr sm \<Rightarrow> list_all (vlan_ok (sm_port_count sm)) (sorted_items (vs_vlans s))
          \<and> mirror_ok (sm_port_count sm) s)
     \<and> length (vs_mac s) = 6 \<and> list_all port_ok (sorted_items (vs_ports s))
     \<and> list_all pvid_ok (sorted_items (vs_pvids s)) \<and> mgmt_ok (vs_mgmt s)
     \<and> length (vs_model_name s) < 65536 \<and> length (vs_serial s) < 65535
     \<and> length (vs_firmware s) < 65536 \<and> length (vs_hostname s) < 65536"

subsection \<open>Laws of the port sets and sorted items\<close>

lemma set_sliceFromPortSet [simp]: "set (sliceFromPortSet m) = {p. in_set m p}"
  by (auto simp: sliceFromPortSet_def in_set_def)

lemma sliceFromPortSet_sorted [simp]: "sorted (sliceFromPortSet m)" "distinct (sliceFromPortSet m)"
  by (simp_all add: sliceFromPortSet_def sorted_wrt_filter)

lemma slice_sort_uniq [simp]: "sort_uniq (sliceFromPortSet m) = sliceFromPortSet m"
  by (simp add: sorted_distinct_id)

lemma in_set_portSetFromSlice [simp]: "in_set (portSetFromSlice ps) p \<longleftrightarrow> p \<in> set ps"
  by (induction ps) (auto simp: in_set_def update_conv')

lemma slice_portSet [simp]: "sliceFromPortSet (portSetFromSlice ps) = sort_uniq ps"
  by (rule sorted_distinct_set_unique) simp_all

lemma in_set_setDifference [simp]: "in_set (setDifference a b) p \<longleftrightarrow> in_set a p \<and> \<not> in_set b p"
proof -
  have "p \<in> dom (map_of a)" if "in_set a p"
    using that by (auto simp: in_set_def)
  then show ?thesis
    by (auto simp: setDifference_def map_of_map_keys in_set_def)
qed

lemma all_sorted_items: "list_all P (sorted_items m) \<longleftrightarrow> (\<forall>k v. map_of m k = Some v \<longrightarrow> P (k, v))"
  by (force simp: sorted_items_def list_all_iff)

lemma sorted_items_cong: "map_of m = map_of m' \<Longrightarrow> sorted_items m = sorted_items m'"
  using sorted_keys_cong [of m m'] by (simp add: sorted_items_def)

subsection \<open>Writes keep states well formed\<close>

lemma ParseIPv4_is_dotted: "ParseIPv4 data = Inr a \<Longrightarrow> is_dotted a"
proof -
  assume parse: "ParseIPv4 data = Inr a"
  then have "length data = 4" by (auto simp: ParseIPv4_def split: if_splits)
  then obtain w x y z where "data = [w, x, y, z]" using length4 by blast
  with parse have a: "a = dotted w x y z" by (simp add: ParseIPv4_bytes)
  show ?thesis
    unfolding a is_dotted_def ParseIP_dotted option.case To4_mapped ParseIPv4_bytes by simp
qed

lemma mustModel_Models: "mustModel s = Inr sm \<Longrightarrow> sm \<in> set Models"
  by (auto simp: mustModel_def dest: GetModel_Inr split: sum.splits)

lemma mustModel_key: "vs_model_key s' = vs_model_key s \<Longrightarrow> mustModel s' = mustModel s"
  by (simp add: mustModel_def)

lemma vs_ok_model: "vs_ok s \<Longrightarrow> \<exists>sm. mustModel s = Inr sm \<and> sm \<in> set Models"
  using mustModel_Models by (auto simp: vs_ok_def split: sum.splits)

lemma vs_ok_simps:
  "mustModel s = Inr sm \<Longrightarrow> vs_ok s \<longleftrightarrow>
     (\<forall>k v. map_of (vs_vlans s) k = Some v \<longrightarrow> vlan_ok (sm_port_count sm) (k, v))
     \<and> mirror_ok (sm_port_count sm) s
     \<and> length (vs_mac s) = 6 \<and> (\<forall>k v. map_of (vs_ports s) k = Some v \<longrightarrow> port_ok (k, v))
     \<and> (\<forall>k v. map_of (vs_pvids s) k = Some v \<longrightarrow> pvid_ok (k, v)) \<and> mgmt_ok (vs_mgmt s)
     \<and> length (vs_model_name s) < 65536 \<and> length (vs_serial s) < 65535
     \<and> length (vs_firmware s) < 65536 \<and> length (vs_hostname s) < 65536"
  by (simp add: vs_ok_def all_sorted_items)

lemma mirror_ok_cong: "vs_mirror_sources s' = vs_mirror_sources s \<Longrightarrow> mirror_ok n s' = mirror_ok n s"
  by (simp add: mirror_ok_def)

lemma uint_byte_range: "0 \<le> uint (b :: byte)" "uint b \<le> 0xFF"
  using uint_ge_0 [of b] uint_bounded [of b] by auto

lemma uint_u16_range: "0 \<le> uint (w :: u16)" "uint w \<le> 0xFFFF"
  using uint_ge_0 [of w] uint_bounded [of w] by auto

lemma ParseVlanMembers_ranges:
  assumes "ParseVlanMembers data n = Inr m"
  shows "0 \<le> nvm_vlan_id m \<and> nvm_vlan_id m \<le> 0xFFFF
    \<and> (\<forall>p \<in> set (nvm_members m). 1 \<le> p \<and> p \<le> int (8 * ((n + 7) div 8)))"
proof -
  define w where "w = (n + 7) div 8"
  from assms obtain v where m: "nvm_vlan_id m = uint (v :: u16)"
      "nvm_members m = bitmapToPorts (take w (drop 2 data))" and len: "2 + w * 2 \<le> length data"
    by (auto simp: ParseVlanMembers_def Let_def w_def split: if_splits)
  have "length (take w (drop 2 data)) = w" using len by simp
  then show ?thesis
    using nsdp_bm.decode_pos nsdp_bm.decode_le [of _ "take w (drop 2 data)"] uint_u16_range [of v]
    by (auto simp: m w_def)
qed

lemma pvid_reset_conv:
  "map_of (map (\<lambda>(p, pv). (p, if pv = vid then 1 else pv)) m) k
   = map_option (\<lambda>pv. if pv = vid then 1 else pv) (map_of m k)"
  by (simp add: map_of_map)

definition identity_kept :: "vstate \<Rightarrow> vstate \<Rightarrow> bool" where
  "identity_kept s s' \<longleftrightarrow> vs_model_key s' = vs_model_key s \<and> vs_mac s' = vs_mac s
     \<and> vs_password s' = vs_password s \<and> vs_auth_v2 s' = vs_auth_v2 s
     \<and> vs_model_name s' = vs_model_name s \<and> vs_serial s' = vs_serial s
     \<and> vs_firmware s' = vs_firmware s"

lemma identity_kept_refl [simp]: "identity_kept s s"
  by (simp add: identity_kept_def)

lemma identity_kept_trans: "identity_kept s t \<Longrightarrow> identity_kept t u \<Longrightarrow> identity_kept s u"
  by (simp add: identity_kept_def)

lemma vlan_ok_stored:
  assumes "ParseVlanMembers value n = Inr m"
  shows "vlan_ok n (nvm_vlan_id m,
    \<lparr>vv_name = nm, vv_member = portSetFromSlice (nvm_members m), vv_untagged = u,
     vv_configured_only = c, vv_no_static_row = r\<rparr>)"
  using ParseVlanMembers_ranges [OF assms] by (auto simp: vlan_ok_def list_all_iff)

lemma trim_right_length: "length (trim_right c s) \<le> length s"
  using length_dropWhile_le [of "\<lambda>x. x = c" "rev s"] by (simp add: trim_right_def)

text \<open>One lemma per tag: the stored value stays well formed.\<close>

lemma apply_pvid:
  assumes "mustModel s = Inr sm" "vs_ok s"
  shows "\<exists>s'. ApplyNsdpWrite TagPortPVID value s = Inr s' \<and> vs_ok s' \<and> identity_kept s s'"
proof (cases "length value < 3")
  case False
  define s' where "s' = s\<lparr>vs_pvids := AList.update (uint (value ! 0)) (uint (get16 (value ! 1) (value ! 2))) (vs_pvids s)\<rparr>"
  have "value \<noteq> []" using False by auto
  then have "ApplyNsdpWrite TagPortPVID value s = Inr s'"
    using False by (simp add: ApplyNsdpWrite_def s'_def numeral_2_eq_2)
  moreover have "mustModel s' = Inr sm" using assms(1) by (simp add: s'_def mustModel_def)
  then have "vs_ok s'"
    using assms by (auto simp: vs_ok_simps s'_def update_conv' pvid_ok_def mirror_ok_def uint_byte_range uint_u16_range)
  ultimately show ?thesis by (simp add: identity_kept_def s'_def)
qed (use assms in \<open>simp add: ApplyNsdpWrite_def\<close>)

lemma apply_vlan_members:
  assumes "mustModel s = Inr sm" "vs_ok s"
  shows "\<exists>s'. ApplyNsdpWrite TagVLANMembers value s = Inr s' \<and> vs_ok s' \<and> identity_kept s s'"
proof (cases "ParseVlanMembers value (sm_port_count sm)")
  case (Inr m)
  define nm where "nm = (case map_of (vs_vlans s) (nvm_vlan_id m) of None \<Rightarrow> [] | Some v \<Rightarrow> vv_name v)"
  define v where "v = \<lparr>vv_name = nm, vv_member = portSetFromSlice (nvm_members m),
      vv_untagged = portSetFromSlice (UntaggedPorts m), vv_configured_only = [], vv_no_static_row = False\<rparr>"
  define s' where "s' = s\<lparr>vs_vlans := AList.update (nvm_vlan_id m) v (vs_vlans s)\<rparr>"
  have "ApplyNsdpWrite TagVLANMembers value s = Inr s'"
    using Inr assms(1) by (simp add: ApplyNsdpWrite_def Let_def s'_def v_def nm_def)
  moreover have "mustModel s' = Inr sm" using assms(1) by (simp add: s'_def mustModel_def)
  then have "vs_ok s'"
    using assms vlan_ok_stored [OF Inr]
    by (auto simp: vs_ok_simps s'_def update_conv' mirror_ok_def v_def)
  ultimately show ?thesis by (simp add: identity_kept_def s'_def)
qed (use assms in \<open>simp add: ApplyNsdpWrite_def\<close>)

lemma apply_mgmt:
  assumes "mustModel s = Inr sm" "vs_ok s" "tag \<in> {TagIPAddress, TagNetmask, TagGateway}"
  shows "\<exists>s'. ApplyNsdpWrite tag value s = Inr s' \<and> vs_ok s' \<and> identity_kept s s'"
proof (cases "ParseIPv4 value")
  case (Inr a)
  have ok: "vs_ok (set_mgmt f s)" "identity_kept s (set_mgmt f s)" if "mgmt_ok (f (vs_mgmt s))" for f
  proof -
    have "mustModel (set_mgmt f s) = Inr sm" using assms(1) by (simp add: set_mgmt_def mustModel_def)
    then show "vs_ok (set_mgmt f s)"
      using assms that by (auto simp: vs_ok_simps set_mgmt_def mirror_ok_def)
  qed (simp add: identity_kept_def set_mgmt_def)
  have "mgmt_ok (vs_mgmt s)" using assms by (simp add: vs_ok_simps)
  then have "mgmt_ok ((vs_mgmt s)\<lparr>vm_address := a\<rparr>)" "mgmt_ok ((vs_mgmt s)\<lparr>vm_netmask := a\<rparr>)"
      "mgmt_ok ((vs_mgmt s)\<lparr>vm_gateway := a\<rparr>)"
    using ParseIPv4_is_dotted [OF Inr] by (simp_all add: mgmt_ok_def)
  with Inr assms(3) ok show ?thesis by (auto simp: ApplyNsdpWrite_def)
qed (use assms in \<open>auto simp: ApplyNsdpWrite_def\<close>)

lemma apply_small:
  assumes "mustModel s = Inr sm" "vs_ok s" "length value < 65536" "tag \<in> {TagHostname, TagDHCPMode, TagVLANDestroy}"
  shows "\<exists>s'. ApplyNsdpWrite tag value s = Inr s' \<and> vs_ok s' \<and> identity_kept s s'"
proof -
  have hostname: "vs_ok (s\<lparr>vs_hostname := string_of value\<rparr>)"
  proof -
    have "mustModel (s\<lparr>vs_hostname := string_of value\<rparr>) = Inr sm" using assms(1) by (simp add: mustModel_def)
    then show ?thesis using assms by (auto simp: vs_ok_simps mirror_ok_def string_of_def)
  qed
  have dhcp: "vs_ok (set_mgmt (\<lambda>m. m\<lparr>vm_mode := md\<rparr>) s)" for md
  proof -
    have "mustModel (set_mgmt (\<lambda>m. m\<lparr>vm_mode := md\<rparr>) s) = Inr sm" using assms(1) by (simp add: mustModel_def set_mgmt_def)
    then show ?thesis using assms by (auto simp: vs_ok_simps mirror_ok_def set_mgmt_def mgmt_ok_def)
  qed
  have destroy: "vs_ok (s\<lparr>vs_vlans := AList.delete vid (vs_vlans s),
      vs_pvids := map (\<lambda>(p, pv). (p, if pv = vid then 1 else pv)) (vs_pvids s)\<rparr>)" (is "vs_ok ?s") for vid
  proof -
    have "mustModel ?s = Inr sm" using assms(1) by (simp add: mustModel_def)
    then show ?thesis
      using assms by (auto simp: vs_ok_simps mirror_ok_def delete_conv' pvid_reset_conv pvid_ok_def split: if_splits)
  qed
  from assms(4) show ?thesis
    using hostname dhcp destroy assms(2)
    by (auto simp: ApplyNsdpWrite_def Let_def identity_kept_def set_mgmt_def)
qed

lemma apply_port_name:
  assumes "mustModel s = Inr sm" "vs_ok s" "length value < 65536"
  shows "\<exists>s'. ApplyNsdpWrite TagPortName value s = Inr s' \<and> vs_ok s' \<and> identity_kept s s'"
proof (cases "value = [] \<or> map_of (vs_ports s) (uint (hd value)) = None")
  case True
  then show ?thesis using assms by (cases "value") (auto simp: ApplyNsdpWrite_def)
next
  case False
  then obtain b tail sim where v: "value = b # tail" and sim: "map_of (vs_ports s) (uint b) = Some sim"
    by (cases "value") auto
  define d where "d = trim_right NUL (string_of tail)"
  define s' where "s' = s\<lparr>vs_ports := AList.update (uint b)
      (sim\<lparr>vp_description := (if d \<noteq> [] then Some d else None)\<rparr>) (vs_ports s)\<rparr>"
  have "ApplyNsdpWrite TagPortName value s = Inr s'"
    using sim go_slice_tail [of "value"] by (simp add: v ApplyNsdpWrite_def Let_def s'_def d_def)
  moreover have "length d < 65535"
    using assms(3) trim_right_length [of NUL "string_of tail"] by (simp add: v d_def string_of_def)
  moreover have "mustModel s' = Inr sm" using assms(1) by (simp add: s'_def mustModel_def)
  ultimately show ?thesis
    using assms by (auto simp: vs_ok_simps s'_def update_conv' mirror_ok_def port_ok_def identity_kept_def
        uint_byte_range split: if_splits)
qed

lemma apply_write_ok:
  assumes "vs_ok s" "length value < 65536"
  shows "\<exists>s'. ApplyNsdpWrite tag value s = Inr s' \<and> vs_ok s' \<and> identity_kept s s'"
proof -
  obtain sm where sm: "mustModel s = Inr sm" using vs_ok_model assms(1) by blast
  let ?known = "{TagPortPVID, TagVLANMembers, TagIPAddress, TagNetmask, TagGateway, TagHostname,
                TagDHCPMode, TagVLANDestroy, TagPortName}"
  consider "tag = TagPortPVID" | "tag = TagVLANMembers" | "tag \<in> {TagIPAddress, TagNetmask, TagGateway}"
    | "tag \<in> {TagHostname, TagDHCPMode, TagVLANDestroy}" | "tag = TagPortName" | "tag \<notin> ?known"
    by blast
  then show ?thesis
  proof cases
    case 1 then show ?thesis using apply_pvid [OF sm assms(1)] by simp
  next
    case 2 then show ?thesis using apply_vlan_members [OF sm assms(1)] by simp
  next
    case 3 then show ?thesis using apply_mgmt [OF sm assms(1)] by blast
  next
    case 4 then show ?thesis using apply_small [OF sm assms] by blast
  next
    case 5 then show ?thesis using apply_port_name [OF sm assms] by simp
  next
    case 6
    then show ?thesis using assms(1) by (simp add: ApplyNsdpWrite_def)
  qed
qed

text \<open>
  C35.  Every TLV of a write, however malformed its value, is applied without a panic, keeps the
  state well formed and leaves the switch's identity, password and authentication scheme alone.
\<close>

theorem ApplyNsdpWrite_invariant:
  assumes "vs_ok s" "length value < 65536"
  shows "\<exists>s'. ApplyNsdpWrite tag value s = Inr s' \<and> vs_ok s' \<and> identity_kept s s'"
  using assms by (rule apply_write_ok)

text \<open>A ten-port switch with one described port and one tagged VLAN member.\<close>

definition sample_state :: vstate where
  "sample_state = (NewState ''gs110emx'')
     \<lparr>vs_ports := [(1, (NewPortSim ''1/0/1'' True True 1000)\<lparr>vp_description := Some ''up'', vp_rx_octets := Some 12\<rparr>),
                  (2, (NewPortSim ''1/0/2'' True False 0)\<lparr>vp_flow_control := True\<rparr>)],
      vs_vlans := [(90, \<lparr>vv_name = [], vv_member = [(1, True), (10, True)], vv_untagged = [(1, True)],
                        vv_configured_only = [], vv_no_static_row = False\<rparr>)],
      vs_pvids := [(1, 90), (2, 1)]\<rparr>"

lemma sample_model: "mustModel sample_state = Inr model_gs110emx"
  by (simp add: sample_state_def NewState_def mustModel_def GetModel_def modelAliases_def modelIndex_def
      registry_defs)

lemma default_dotted: "is_dotted ''0.0.0.0''"
proof -
  have "''0.0.0.0'' = dotted 0 0 0 0" by code_simp
  then show ?thesis using ParseIPv4_is_dotted [OF ParseIPv4_bytes [of 0 0 0 0]] by simp
qed

lemma sample_ok: "vs_ok sample_state"
  unfolding vs_ok_def sample_model sum.case sorted_items_def
  by (simp add: sample_state_def NewState_def sorted_keys_def sort_uniq_def port_ok_def pvid_ok_def
      mgmt_ok_def default_dotted vlan_ok_def mirror_ok_def sliceFromPortSet_def in_set_def model_gs110emx_def)

theorem ApplyNsdpWrite_invariant_witness:
  "vs_ok sample_state \<and> length [1::byte, 0] < 65536
   \<and> (\<exists>s'. ApplyNsdpWrite TagPortPVID [1, 0] sample_state = Inr s' \<and> vs_ok s' \<and> identity_kept sample_state s')"
  using ApplyNsdpWrite_invariant [OF sample_ok, of "[1, 0]" TagPortPVID] sample_ok by simp

end
