(* ===== verification/Virtual_Projection.thy ===== *)
theory Virtual_Projection
  imports Virtual_State
begin

unbundle bit_operations_syntax

section \<open>What a reader sees of the virtual switch\<close>

text \<open>
  The refinement between the state and the client's device record: parsing the TLVs that
  \<open>NsdpTlvs\<close> emits gives the record \<open>project_device\<close> computes directly from the state,
  whatever tags were asked for.  \<open>tag_view\<close> says what one tag contributes.
\<close>

subsection \<open>The device a state stands for\<close>

definition model_name_of :: "vstate \<Rightarrow> switch_model \<Rightarrow> string" where
  "model_name_of s sm = (if vs_model_name s = [] then sm_display_name sm else vs_model_name s)"

definition status_view :: "int \<times> port_sim \<Rightarrow> nsdp_port_status" where
  "status_view = (\<lambda>(p, sim). \<lparr>nps_port = p,
     nps_speed = LinkSpeedFromByte (if vp_link sim then mbpsToSpeedByte (vp_speed sim) else 0x00),
     nps_flow_control = Some (vp_flow_control sim)\<rparr>)"

definition described :: "string option \<Rightarrow> string option" where
  "described d = (case d of None \<Rightarrow> None
     | Some t \<Rightarrow> if trim_right NUL t \<noteq> [] then Some (trim_right NUL t) else None)"

definition name_view :: "int \<times> port_sim \<Rightarrow> nsdp_port_name" where
  "name_view = (\<lambda>(p, sim). \<lparr>npn_port = p, npn_name = described (vp_description sim)\<rparr>)"

definition statistics_view :: "int \<times> port_sim \<Rightarrow> nsdp_port_statistics" where
  "statistics_view = (\<lambda>(p, sim). \<lparr>nst_port = p, nst_rx = u64OrZero (vp_rx_octets sim),
     nst_tx = u64OrZero (vp_tx_octets sim), nst_crc = u64OrZero (vp_rx_errors sim)\<rparr>)"

definition vlan_view :: "int \<times> vlan_sim \<Rightarrow> nsdp_vlan_membership" where
  "vlan_view = (\<lambda>(vid, v). \<lparr>nvm_vlan_id = vid, nvm_members = sliceFromPortSet (vv_member v),
     nvm_tagged = sliceFromPortSet (setDifference (vv_member v) (vv_untagged v))\<rparr>)"

definition pvid_view :: "int \<times> int \<Rightarrow> nsdp_port_pvid" where
  "pvid_view = (\<lambda>(p, v). \<lparr>npv_port = p, npv_vlan = v\<rparr>)"

definition tag_view :: "vstate \<Rightarrow> switch_model \<Rightarrow> tag \<Rightarrow> device_vars \<Rightarrow> device_vars" where
  "tag_view s sm tag v =
     (if tag = TagModel then v\<lparr>dv_model := Some (decodeASCII (bytes_of (model_name_of s sm)))\<rparr>
      else if tag = TagMAC then v\<lparr>dv_mac := Some (show_mac (vs_mac s))\<rparr>
      else if tag = TagPortCount then upd (\<lambda>d. d\<lparr>nd_port_count := Some (int (sm_port_count sm))\<rparr>) v
      else if tag = TagSerialNumber then
        (if vs_serial s = [] then v
         else upd (\<lambda>d. d\<lparr>nd_serial := Some (decodeASCII (bytes_of (vs_serial s)))\<rparr>) v)
      else if tag = TagHostname then
        (if vs_hostname s = [] then v
         else upd (\<lambda>d. d\<lparr>nd_hostname := Some (decodeASCII (bytes_of (vs_hostname s)))\<rparr>) v)
      else if tag = TagFirmwareVer1 then
        (if vs_firmware s = [] then v
         else upd (\<lambda>d. d\<lparr>nd_firmware := Some (decodeASCII (bytes_of (vs_firmware s)))\<rparr>) v)
      else if tag = TagPortStatus then
        upd (\<lambda>d. d\<lparr>nd_port_status := nd_port_status d @ map status_view (sorted_items (vs_ports s))\<rparr>) v
      else if tag = TagPortName then
        upd (\<lambda>d. d\<lparr>nd_port_names := nd_port_names d @ map name_view (sorted_items (vs_ports s))\<rparr>) v
      else if tag = TagPortStatistics then
        upd (\<lambda>d. d\<lparr>nd_port_statistics := nd_port_statistics d @ map statistics_view (sorted_items (vs_ports s))\<rparr>) v
      else if tag = TagVLANMembers then
        upd (\<lambda>d. d\<lparr>nd_vlan_members := nd_vlan_members d @ map vlan_view (sorted_items (vs_vlans s))\<rparr>) v
      else if tag = TagPortPVID then
        upd (\<lambda>d. d\<lparr>nd_port_pvids := nd_port_pvids d @ map pvid_view (sorted_items (vs_pvids s))\<rparr>) v
      else if tag = TagIPAddress then upd (\<lambda>d. d\<lparr>nd_ip := Some (vm_address (vs_mgmt s))\<rparr>) v
      else if tag = TagNetmask then upd (\<lambda>d. d\<lparr>nd_netmask := Some (vm_netmask (vs_mgmt s))\<rparr>) v
      else if tag = TagGateway then upd (\<lambda>d. d\<lparr>nd_gateway := Some (vm_gateway (vs_mgmt s))\<rparr>) v
      else if tag = TagDHCPMode then
        upd (\<lambda>d. d\<lparr>nd_dhcp := Some (vm_mode (vs_mgmt s) \<noteq> ''static'')\<rparr>) v
      else if tag = TagQOSEngine then
        (case vs_qos_engine s of None \<Rightarrow> v
         | Some q \<Rightarrow> upd (\<lambda>d. d\<lparr>nd_qos_engine := Some (uint (word_of_int q :: byte))\<rparr>) v)
      else if tag = TagPortMirroring then
        (case vs_mirror_dest s of None \<Rightarrow> v
         | Some p \<Rightarrow> upd (\<lambda>d. d\<lparr>nd_port_mirroring := Some \<lparr>npm_destination = uint (word_of_int p :: byte),
             npm_sources = sliceFromPortSet (vs_mirror_sources s)\<rparr>\<rparr>) v)
      else if tag = TagIGMPSnooping then
        (case vs_igmp_enabled s of None \<Rightarrow> v
         | Some e \<Rightarrow>
             let w = (case vs_igmp_vlan s of None \<Rightarrow> 0 | Some vl \<Rightarrow> word_of_int vl) :: byte
             in upd (\<lambda>d. d\<lparr>nd_igmp := Some \<lparr>nig_enabled = e, nig_vlan = (if w \<noteq> 0 then Some (uint w) else None)\<rparr>\<rparr>) v)
      else if tag = TagBroadcastFiltering then
        (case vs_broadcast s of None \<Rightarrow> v | Some b \<Rightarrow> upd (\<lambda>d. d\<lparr>nd_broadcast := Some b\<rparr>) v)
      else if tag = TagLoopDetection then
        (case vs_loop s of None \<Rightarrow> v | Some b \<Rightarrow> upd (\<lambda>d. d\<lparr>nd_loop := Some b\<rparr>) v)
      else v)"

definition answered_tags :: "tag list \<Rightarrow> tag list" where
  "answered_tags tags = filter (\<lambda>t. t \<in> set tags) emission_order"

definition project_vars :: "vstate \<Rightarrow> switch_model \<Rightarrow> tag list \<Rightarrow> device_vars" where
  "project_vars s sm tags = fold (tag_view s sm) (answered_tags tags) init_vars"

definition project_device :: "vstate \<Rightarrow> switch_model \<Rightarrow> tag list \<Rightarrow> nsdp_device" where
  "project_device s sm tags =
     (dv_dev (project_vars s sm tags))\<lparr>nd_model := decodeASCII (bytes_of (model_name_of s sm)),
       nd_mac := show_mac (vs_mac s)\<rparr>"

subsection \<open>One tag at a time\<close>

definition answers :: "nat \<Rightarrow> vstate \<Rightarrow> switch_model \<Rightarrow> tag \<Rightarrow> bool" where
  "answers n s sm tag \<longleftrightarrow>
     (\<exists>ts. tag_answer s sm tag = Inr ts \<and> (\<forall>v. device_steps n v ts = Inr (tag_view s sm tag v))
       \<and> list_all wf_tlv ts \<and> (\<forall>t \<in> set ts. tlv_tag t = tag))"

lemma steps_map:
  "(\<And>x v. x \<in> set xs \<Longrightarrow> device_step n v (f x) = Inr (g x v)) \<Longrightarrow>
   device_steps n v (map f xs) = Inr (fold g xs v)"
  by (induction xs arbitrary: v) auto

lemma upd_upd [simp]: "upd f (upd g v) = upd (\<lambda>d. f (g d)) v"
  by (simp add: upd_def)

lemma fold_append_status:
  "fold (\<lambda>x. upd (\<lambda>d. d\<lparr>nd_port_status := nd_port_status d @ [h x]\<rparr>)) xs v
   = upd (\<lambda>d. d\<lparr>nd_port_status := nd_port_status d @ map h xs\<rparr>) v"
  by (induction xs arbitrary: v) (simp_all add: upd_def)

lemma fold_append_names:
  "fold (\<lambda>x. upd (\<lambda>d. d\<lparr>nd_port_names := nd_port_names d @ [h x]\<rparr>)) xs v
   = upd (\<lambda>d. d\<lparr>nd_port_names := nd_port_names d @ map h xs\<rparr>) v"
  by (induction xs arbitrary: v) (simp_all add: upd_def)

lemma fold_append_statistics:
  "fold (\<lambda>x. upd (\<lambda>d. d\<lparr>nd_port_statistics := nd_port_statistics d @ [h x]\<rparr>)) xs v
   = upd (\<lambda>d. d\<lparr>nd_port_statistics := nd_port_statistics d @ map h xs\<rparr>) v"
  by (induction xs arbitrary: v) (simp_all add: upd_def)

lemma fold_append_vlans:
  "fold (\<lambda>x. upd (\<lambda>d. d\<lparr>nd_vlan_members := nd_vlan_members d @ [h x]\<rparr>)) xs v
   = upd (\<lambda>d. d\<lparr>nd_vlan_members := nd_vlan_members d @ map h xs\<rparr>) v"
  by (induction xs arbitrary: v) (simp_all add: upd_def)

lemma fold_append_pvids:
  "fold (\<lambda>x. upd (\<lambda>d. d\<lparr>nd_port_pvids := nd_port_pvids d @ [h x]\<rparr>)) xs v
   = upd (\<lambda>d. d\<lparr>nd_port_pvids := nd_port_pvids d @ map h xs\<rparr>) v"
  by (induction xs arbitrary: v) (simp_all add: upd_def)

lemma answers_listI:
  assumes "tag_answer s sm tag = Inr (map f xs)"
    and "\<And>x v. x \<in> set xs \<Longrightarrow> device_step n v (f x) = Inr (g x v)"
    and "\<And>v. fold g xs v = tag_view s sm tag v"
    and "\<And>x. x \<in> set xs \<Longrightarrow> wf_tlv (f x) \<and> tlv_tag (f x) = tag"
  shows "answers n s sm tag"
proof -
  have "device_steps n v (map f xs) = Inr (tag_view s sm tag v)" for v
    using steps_map [of xs n f g v] assms(2,3) by simp
  with assms(1,4) show ?thesis by (auto simp: answers_def list_all_iff)
qed

lemma port_items_ok:
  assumes "mustModel s = Inr sm" "vs_ok s" "(p, sim) \<in> set (sorted_items (vs_ports s))"
  shows "uint (word_of_int p :: byte) = p" "\<And>d. vp_description sim = Some d \<Longrightarrow> length d < 65535"
  using assms by (auto simp: vs_ok_def list_all_iff port_ok_def uint_byte_of split: sum.splits option.splits)

lemma answers_port_status:
  assumes "mustModel s = Inr sm" "vs_ok s"
  shows "answers n s sm TagPortStatus"
proof (rule answers_listI [OF _ _ fold_append_status [of status_view, THEN trans]])
  show "tag_answer s sm TagPortStatus = Inr (map port_status_tlv (sorted_items (vs_ports s)))"
    by (simp add: tag_answer_def)
  show "device_step n v (port_status_tlv x)
      = Inr (upd (\<lambda>d. d\<lparr>nd_port_status := nd_port_status d @ [status_view x]\<rparr>) v)"
    if "x \<in> set (sorted_items (vs_ports s))" for x v
  proof (cases x)
    case (Pair p sim)
    then show ?thesis
      using port_items_ok [OF assms, of p sim] that
      by (simp add: port_status_tlv_def device_step_def Let_def ParsePortStatus_def status_view_def bool_byte_def)
  qed
qed (simp_all add: tag_view_def port_status_tlv_def wf_tlv_def split: prod.splits)

lemma answers_port_name:
  assumes "mustModel s = Inr sm" "vs_ok s"
  shows "answers n s sm TagPortName"
proof (rule answers_listI [OF _ _ fold_append_names [of name_view, THEN trans]])
  show "tag_answer s sm TagPortName = Inr (map port_name_tlv (sorted_items (vs_ports s)))"
    by (simp add: tag_answer_def)
  show "device_step n v (port_name_tlv x)
      = Inr (upd (\<lambda>d. d\<lparr>nd_port_names := nd_port_names d @ [name_view x]\<rparr>) v)"
    if "x \<in> set (sorted_items (vs_ports s))" for x v
  proof (cases x)
    case (Pair p sim)
    have "ParsePortName [word_of_int p] = Inr \<lparr>npn_port = p, npn_name = None\<rparr>"
      using ParsePortName_bytes [of "word_of_int p" "[]"] port_items_ok [OF assms, of p sim] that Pair
      by (simp add: bytes_of_def)
    then show ?thesis
      using port_items_ok [OF assms, of p sim] that Pair
      by (simp add: port_name_tlv_def device_step_def Let_def ParsePortName_bytes name_view_def
          described_def split: option.splits)
  qed
  show "wf_tlv (port_name_tlv x) \<and> tlv_tag (port_name_tlv x) = TagPortName"
    if "x \<in> set (sorted_items (vs_ports s))" for x
    using port_items_ok [OF assms, of "fst x" "snd x"] that
    by (cases x) (auto simp: port_name_tlv_def wf_tlv_def split: option.splits)
qed (simp add: tag_view_def)

lemma ParsePortStatistics_bytes:
  "ParsePortStatistics (p # put64 a @ put64 b @ put64 c @ replicate 24 0)
   = Inr \<lparr>nst_port = uint p, nst_rx = a, nst_tx = b, nst_crc = c\<rparr>"
proof -
  have "get64_of (put64 w) = w" for w
    using get64_put64 [of w "[]"] by simp
  then show ?thesis
    by (simp add: ParsePortStatistics_def)
qed

lemma answers_port_statistics:
  assumes "mustModel s = Inr sm" "vs_ok s"
  shows "answers n s sm TagPortStatistics"
proof (rule answers_listI [OF _ _ fold_append_statistics [of statistics_view, THEN trans]])
  show "tag_answer s sm TagPortStatistics = Inr (map port_statistics_tlv (sorted_items (vs_ports s)))"
    by (simp add: tag_answer_def)
  show "device_step n v (port_statistics_tlv x)
      = Inr (upd (\<lambda>d. d\<lparr>nd_port_statistics := nd_port_statistics d @ [statistics_view x]\<rparr>) v)"
    if "x \<in> set (sorted_items (vs_ports s))" for x v
    using port_items_ok [OF assms, of "fst x" "snd x"] that
    by (cases x) (simp add: port_statistics_tlv_def device_step_def Let_def ParsePortStatistics_bytes
        statistics_view_def)
qed (simp_all add: tag_view_def port_statistics_tlv_def wf_tlv_def split: prod.splits)

lemma answers_port_pvid:
  assumes "mustModel s = Inr sm" "vs_ok s"
  shows "answers n s sm TagPortPVID"
proof (rule answers_listI [OF _ _ fold_append_pvids [of pvid_view, THEN trans]])
  show "tag_answer s sm TagPortPVID = Inr (map port_pvid_tlv (sorted_items (vs_pvids s)))"
    by (simp add: tag_answer_def)
  show "device_step n v (port_pvid_tlv x)
      = Inr (upd (\<lambda>d. d\<lparr>nd_port_pvids := nd_port_pvids d @ [pvid_view x]\<rparr>) v)"
    if "x \<in> set (sorted_items (vs_pvids s))" for x v
  proof -
    have "pvid_ok x" using assms that by (auto simp: vs_ok_def list_all_iff)
    then show ?thesis
      by (cases x) (simp add: port_pvid_tlv_def device_step_def Let_def ParsePortPvid_bytes
          pvid_view_def pvid_ok_def uint_byte_of uint_u16_of)
  qed
qed (simp_all add: tag_view_def port_pvid_tlv_def wf_tlv_def split: prod.splits)

lemma concat_singletons:
  assumes "\<And>x. x \<in> set xs \<Longrightarrow> f x = Inr [h x]"
  shows "concat_res (map f xs) = Inr (map h xs)"
  using assms by (induction xs) simp_all

lemma answers_vlan_members:
  assumes "mustModel s = Inr sm" "vs_ok s"
  shows "answers (sm_port_count sm) s sm TagVLANMembers"
proof -
  let ?c = "sm_port_count sm"
  have "\<exists>t. vlan_members_tlv ?c x = Inr [t] \<and> tlv_tag t = TagVLANMembers \<and> wf_tlv t
      \<and> ParseVlanMembers (tlv_value t) ?c = Inr (vlan_view x)"
    if x: "x \<in> set (sorted_items (vs_vlans s))" for x
  proof (cases x)
    case (Pair vid v)
    have "vlan_ok ?c (vid, v)" using assms x Pair by (auto simp: vs_ok_def list_all_iff)
    then have "0 \<le> vid" "vid \<le> 0xFFFF"
        "\<forall>p \<in> set (sliceFromPortSet (vv_member v)). 1 \<le> p \<and> p \<le> int (8 * ((?c + 7) div 8))"
        "\<forall>p \<in> set (sliceFromPortSet (setDifference (vv_member v) (vv_untagged v))).
           1 \<le> p \<and> p \<le> int (8 * ((?c + 7) div 8))"
      by (auto simp: vlan_ok_def list_all_iff)
    from VlanMembersTLV_ok [OF this] obtain m t where
      "VlanMembersTLV vid (sliceFromPortSet (vv_member v))
         (sliceFromPortSet (setDifference (vv_member v) (vv_untagged v))) ?c
       = Inr (TLV TagVLANMembers (put16 (word_of_int vid) @ m @ t))"
      "length m = (?c + 7) div 8" "length t = (?c + 7) div 8"
      "bitmapToPorts m = sliceFromPortSet (vv_member v)"
      "bitmapToPorts t = sliceFromPortSet (setDifference (vv_member v) (vv_untagged v))"
      unfolding slice_sort_uniq by blast
    moreover have "?c \<le> 52" using port_count_bound mustModel_Models assms(1) by blast
    ultimately show ?thesis
      using \<open>0 \<le> vid\<close> \<open>vid \<le> 0xFFFF\<close>
      by (simp add: Pair vlan_members_tlv_def skip_error_def ParseVlanMembers_bytes vlan_view_def
          uint_u16_of wf_tlv_def)
  qed
  then obtain f where f: "\<And>x. x \<in> set (sorted_items (vs_vlans s)) \<Longrightarrow>
      vlan_members_tlv ?c x = Inr [f x] \<and> tlv_tag (f x) = TagVLANMembers \<and> wf_tlv (f x)
      \<and> ParseVlanMembers (tlv_value (f x)) ?c = Inr (vlan_view x)"
    by metis
  show ?thesis
  proof (rule answers_listI [OF _ _ fold_append_vlans [of vlan_view, THEN trans]])
    show "tag_answer s sm TagVLANMembers = Inr (map f (sorted_items (vs_vlans s)))"
      using f by (simp add: tag_answer_def concat_singletons)
    show "device_step ?c v (f x) = Inr (upd (\<lambda>d. d\<lparr>nd_vlan_members := nd_vlan_members d @ [vlan_view x]\<rparr>) v)"
      if "x \<in> set (sorted_items (vs_vlans s))" for x v
      using f [OF that] by (simp add: device_step_def Let_def)
  qed (use f in \<open>simp_all add: tag_view_def\<close>)
qed

lemma is_dotted_TLV:
  assumes "is_dotted a"
  obtains v where "IPv4TLV tag a = Inr (TLV tag v)" "ParseIPv4 v = Inr a" "length v = 4"
proof -
  from assms obtain ip v where "ParseIP a = Some ip" "To4 ip = Some v" "ParseIPv4 v = Inr a"
    by (auto simp: is_dotted_def split: option.splits)
  moreover then have "length v = 4" by (auto simp: ParseIPv4_def split: if_splits)
  ultimately show ?thesis using that by (simp add: IPv4TLV_def)
qed

lemma answers_oneI:
  assumes "tag_answer s sm tag = Inr [t]" "\<And>v. device_step n v t = Inr (tag_view s sm tag v)"
    "wf_tlv t" "tlv_tag t = tag"
  shows "answers n s sm tag"
  using assms by (simp add: answers_def)

lemma answers_noneI:
  assumes "tag_answer s sm tag = Inr []" "\<And>v. tag_view s sm tag v = v"
  shows "answers n s sm tag"
  using assms by (simp add: answers_def)

lemma answers_addresses:
  assumes "mustModel s = Inr sm" "vs_ok s"
  shows "answers n s sm TagIPAddress" "answers n s sm TagNetmask" "answers n s sm TagGateway"
proof -
  have ok: "is_dotted (vm_address (vs_mgmt s))" "is_dotted (vm_netmask (vs_mgmt s))" "is_dotted (vm_gateway (vs_mgmt s))"
    using assms by (simp_all add: vs_ok_simps mgmt_ok_def)
  obtain v where "IPv4TLV TagIPAddress (vm_address (vs_mgmt s)) = Inr (TLV TagIPAddress v)"
      "ParseIPv4 v = Inr (vm_address (vs_mgmt s))" "length v = 4"
    using is_dotted_TLV [OF ok(1)] by blast
  then show "answers n s sm TagIPAddress"
    by (intro answers_oneI [of _ _ _ "TLV TagIPAddress v"])
       (simp_all add: tag_answer_def appendIPv4TLV_def skip_error_def device_step_def tag_view_def wf_tlv_def)
  obtain v where "IPv4TLV TagNetmask (vm_netmask (vs_mgmt s)) = Inr (TLV TagNetmask v)"
      "ParseIPv4 v = Inr (vm_netmask (vs_mgmt s))" "length v = 4"
    using is_dotted_TLV [OF ok(2)] by blast
  then show "answers n s sm TagNetmask"
    by (intro answers_oneI [of _ _ _ "TLV TagNetmask v"])
       (simp_all add: tag_answer_def appendIPv4TLV_def skip_error_def device_step_def tag_view_def wf_tlv_def)
  obtain v where "IPv4TLV TagGateway (vm_gateway (vs_mgmt s)) = Inr (TLV TagGateway v)"
      "ParseIPv4 v = Inr (vm_gateway (vs_mgmt s))" "length v = 4"
    using is_dotted_TLV [OF ok(3)] by blast
  then show "answers n s sm TagGateway"
    by (intro answers_oneI [of _ _ _ "TLV TagGateway v"])
       (simp_all add: tag_answer_def appendIPv4TLV_def skip_error_def device_step_def tag_view_def wf_tlv_def)
qed

lemma ParseSerial_bytes: "ParseSerial (0x01 # bs) = Inr (decodeASCII bs)"
  using go_slice_tail [of "0x01 # bs"] by (simp add: ParseSerial_def)

lemma display_name_short: "sm \<in> set Models \<Longrightarrow> length (sm_display_name sm) < 65536"
  by (auto simp: registry_defs)

lemma answers_model:
  assumes "mustModel s = Inr sm" "vs_ok s"
  shows "answers n s sm TagModel"
proof (rule answers_oneI)
  show "tag_answer s sm TagModel = Inr [TLV TagModel (bytes_of (model_name_of s sm))]"
    by (simp add: tag_answer_def model_name_of_def)
  show "wf_tlv (TLV TagModel (bytes_of (model_name_of s sm)))"
    using assms display_name_short [OF mustModel_Models] by (simp add: wf_tlv_def model_name_of_def vs_ok_simps)
qed (simp_all add: device_step_def tag_view_def)

lemma answers_mac:
  assumes "mustModel s = Inr sm" "vs_ok s"
  shows "answers n s sm TagMAC"
  using assms
  by (intro answers_oneI [of _ _ _ "TLV TagMAC (vs_mac s)"])
     (simp_all add: tag_answer_def device_step_def ParseMAC_six tag_view_def wf_tlv_def vs_ok_simps)

lemma port_count_byte:
  assumes "mustModel s = Inr sm"
  shows "uint (word_of_nat (sm_port_count sm) :: byte) = int (sm_port_count sm)"
    "unat (word_of_nat (sm_port_count sm) :: byte) = sm_port_count sm"
  using port_count_bound [OF mustModel_Models [OF assms]] uint_byte_of [of "int (sm_port_count sm)"]
  by (simp_all add: unat_of_nat)

lemma answers_port_count:
  assumes "mustModel s = Inr sm"
  shows "answers n s sm TagPortCount"
  using port_count_byte [OF assms]
  by (intro answers_oneI [of _ _ _ "TLV TagPortCount [word_of_nat (sm_port_count sm)]"])
     (simp_all add: tag_answer_def device_step_def first_byte_def tag_view_def wf_tlv_def)

lemma answers_texts:
  assumes "mustModel s = Inr sm" "vs_ok s"
  shows "answers n s sm TagSerialNumber" "answers n s sm TagHostname" "answers n s sm TagFirmwareVer1"
proof -
  show "answers n s sm TagSerialNumber"
    using assms
    by (cases "vs_serial s = []", intro answers_noneI, simp_all add: tag_answer_def tag_view_def,
        intro answers_oneI [of _ _ _ "TLV TagSerialNumber (0x01 # bytes_of (vs_serial s))"])
       (simp_all add: tag_answer_def device_step_def ParseSerial_bytes tag_view_def wf_tlv_def vs_ok_simps)
  show "answers n s sm TagHostname"
    using assms
    by (cases "vs_hostname s = []", intro answers_noneI, simp_all add: tag_answer_def tag_view_def,
        intro answers_oneI [of _ _ _ "TLV TagHostname (bytes_of (vs_hostname s))"])
       (simp_all add: tag_answer_def device_step_def tag_view_def wf_tlv_def vs_ok_simps)
  show "answers n s sm TagFirmwareVer1"
    using assms
    by (cases "vs_firmware s = []", intro answers_noneI, simp_all add: tag_answer_def tag_view_def,
        intro answers_oneI [of _ _ _ "TLV TagFirmwareVer1 (bytes_of (vs_firmware s))"])
       (simp_all add: tag_answer_def device_step_def tag_view_def wf_tlv_def vs_ok_simps)
qed

lemma answers_dhcp: "answers n s sm TagDHCPMode"
  by (rule answers_oneI [of _ _ _ "TLV TagDHCPMode [if vm_mode (vs_mgmt s) \<noteq> ''static'' then 0x01 else 0x00]"])
     (simp_all add: tag_answer_def device_step_def first_byte_def tag_view_def wf_tlv_def)

lemma answers_flags:
  "answers n s sm TagQOSEngine" "answers n s sm TagBroadcastFiltering" "answers n s sm TagLoopDetection"
proof -
  show "answers n s sm TagQOSEngine"
  proof (cases "vs_qos_engine s")
    case (Some q)
    then show ?thesis
      by (intro answers_oneI [of _ _ _ "TLV TagQOSEngine [word_of_int q]"])
         (simp_all add: tag_answer_def device_step_def first_byte_def tag_view_def wf_tlv_def)
  qed (rule answers_noneI, simp_all add: tag_answer_def tag_view_def)
  show "answers n s sm TagBroadcastFiltering"
  proof (cases "vs_broadcast s")
    case (Some b)
    then show ?thesis
      by (intro answers_oneI [of _ _ _ "TLV TagBroadcastFiltering [bool_byte b]"])
         (simp_all add: tag_answer_def device_step_def first_byte_def tag_view_def wf_tlv_def bool_byte_def)
  qed (rule answers_noneI, simp_all add: tag_answer_def tag_view_def)
  show "answers n s sm TagLoopDetection"
  proof (cases "vs_loop s")
    case (Some b)
    then show ?thesis
      by (intro answers_oneI [of _ _ _ "TLV TagLoopDetection [bool_byte b]"])
         (simp_all add: tag_answer_def device_step_def first_byte_def tag_view_def wf_tlv_def bool_byte_def)
  qed (rule answers_noneI, simp_all add: tag_answer_def tag_view_def)
qed

lemma answers_igmp: "answers n s sm TagIGMPSnooping"
proof (cases "vs_igmp_enabled s")
  case (Some e)
  define w :: byte where "w = (case vs_igmp_vlan s of None \<Rightarrow> 0 | Some vl \<Rightarrow> word_of_int vl)"
  show ?thesis
  proof (rule answers_oneI)
    show "tag_answer s sm TagIGMPSnooping = Inr [TLV TagIGMPSnooping [0x00, bool_byte e, 0x00, w]]"
      by (simp add: tag_answer_def Some w_def)
    show "device_step n v (TLV TagIGMPSnooping [0x00, bool_byte e, 0x00, w])
        = Inr (tag_view s sm TagIGMPSnooping v)" for v
      by (simp add: device_step_def ParseIgmpSnooping_def tag_view_def Some w_def [symmetric] Let_def bool_byte_def)
  qed (simp_all add: wf_tlv_def)
qed (rule answers_noneI, simp_all add: tag_answer_def tag_view_def)

lemma answers_mirroring:
  assumes "mustModel s = Inr sm" "vs_ok s"
  shows "answers n s sm TagPortMirroring"
proof (cases "vs_mirror_dest s")
  case (Some d)
  let ?w = "(sm_port_count sm + 7) div 8"
  have "\<forall>p \<in> set (sliceFromPortSet (vs_mirror_sources s)). 1 \<le> p \<and> p \<le> int (8 * ?w)"
    using assms by (simp add: vs_ok_simps mirror_ok_def list_all_iff)
  then obtain bm where bm: "EncodePortBitmap (sliceFromPortSet (vs_mirror_sources s)) ?w = Inr bm"
      "bitmapToPorts bm = sliceFromPortSet (vs_mirror_sources s)" "length bm = ?w"
    using snmp_bm.decode_encode [of "sliceFromPortSet (vs_mirror_sources s)" ?w] by auto
  have "?w < 65535" using port_count_bound mustModel_Models assms(1) by fastforce
  moreover have "ParsePortMirroring (b # bm) = Inr \<lparr>npm_destination = uint b, npm_sources = bitmapToPorts bm\<rparr>" for b
    using go_slice_tail [of "b # bm"] by (simp add: ParsePortMirroring_def)
  ultimately show ?thesis
    using bm Some by (simp add: answers_def tag_answer_def tag_view_def device_step_def wf_tlv_def)
qed (simp add: answers_def tag_answer_def tag_view_def)

lemma answers_tag:
  assumes "mustModel s = Inr sm" "vs_ok s" "tag \<in> set emission_order"
    and "tag = TagVLANMembers \<longrightarrow> n = sm_port_count sm"
  shows "answers n s sm tag"
proof -
  note facts = answers_model [OF assms(1,2)] answers_mac [OF assms(1,2)] answers_port_count [OF assms(1)]
    answers_texts [OF assms(1,2)] answers_port_status [OF assms(1,2)] answers_port_name [OF assms(1,2)]
    answers_port_statistics [OF assms(1,2)] answers_port_pvid [OF assms(1,2)] answers_addresses [OF assms(1,2)]
    answers_dhcp answers_flags answers_mirroring [OF assms(1,2)] answers_igmp
  have "\<forall>t \<in> set emission_order. t \<noteq> TagVLANMembers \<longrightarrow> answers n s sm t"
    by (simp add: emission_order_def facts)
  then show ?thesis
    using assms(3,4) answers_vlan_members [OF assms(1,2)] by (cases "tag = TagVLANMembers") auto
qed

subsection \<open>A whole response\<close>

lemma answers_concat:
  assumes "\<forall>t \<in> set tags. answers n s sm t"
  obtains ts where "concat_res (map (tag_answer s sm) tags) = Inr ts"
    "\<And>v. device_steps n v ts = Inr (fold (tag_view s sm) tags v)"
    "list_all wf_tlv ts" "tlv_tag ` set ts \<subseteq> set tags"
  using assms
proof (induction tags arbitrary: thesis)
  case (Cons tag tags)
  obtain ts where ts: "tag_answer s sm tag = Inr ts" "\<And>v. device_steps n v ts = Inr (tag_view s sm tag v)"
      "list_all wf_tlv ts" "\<forall>t \<in> set ts. tlv_tag t = tag"
    using Cons.prems(2) by (auto simp: answers_def)
  obtain us where us: "concat_res (map (tag_answer s sm) tags) = Inr us"
      "\<And>v. device_steps n v us = Inr (fold (tag_view s sm) tags v)"
      "list_all wf_tlv us" "tlv_tag ` set us \<subseteq> set tags"
    using Cons.IH Cons.prems(2) by auto
  show ?case
    by (rule Cons.prems(1) [of "ts @ us"]) (use ts us in \<open>auto simp: device_steps_append\<close>)
qed simp

lemma scan_answers:
  assumes "mustModel s = Inr sm" "concat_res (map (tag_answer s sm) tags) = Inr ts"
    "\<forall>t \<in> set tags. \<exists>m. answers m s sm t"
  shows "announced_count n ts = (if TagPortCount \<in> set tags then sm_port_count sm else n)"
  using assms(2,3)
proof (induction tags arbitrary: ts n)
  case (Cons tag tags)
  then obtain a b where a: "tag_answer s sm tag = Inr a" and b: "concat_res (map (tag_answer s sm) tags) = Inr b"
      and ts: "ts = a @ b"
    by (auto simp: res_simps)
  obtain m where "answers m s sm tag" using Cons.prems by auto
  then have tags_a: "\<forall>t \<in> set a. tlv_tag t = tag" using a by (auto simp: answers_def)
  show ?case
  proof (cases "tag = TagPortCount")
    case True
    then have "a = [TLV TagPortCount [word_of_nat (sm_port_count sm)]]"
      using a by (simp add: tag_answer_def)
    then show ?thesis
      using Cons.IH [OF b] Cons.prems(2) True port_count_byte(2) [OF assms(1)]
      by (simp add: ts announced_count_append first_byte_def)
  next
    case False
    then have "announced_count n a = n"
      using tags_a by (intro announced_count_none) auto
    then show ?thesis
      using Cons.IH [OF b] Cons.prems(2) False by (simp add: ts announced_count_append)
  qed
qed simp

lemma dv_model_view: "tag \<noteq> TagModel \<Longrightarrow> dv_model (tag_view s sm tag v) = dv_model v"
  by (simp add: tag_view_def upd_def Let_def split: option.split)

lemma dv_mac_view: "tag \<noteq> TagMAC \<Longrightarrow> dv_mac (tag_view s sm tag v) = dv_mac v"
  by (simp add: tag_view_def upd_def Let_def split: option.split)

lemma dv_model_fold:
  "dv_model (fold (tag_view s sm) tags v)
   = (if TagModel \<in> set tags then Some (decodeASCII (bytes_of (model_name_of s sm))) else dv_model v)"
proof (induction tags arbitrary: v)
  case (Cons tag tags)
  then show ?case
    by (cases "tag = TagModel") (simp_all add: dv_model_view, simp add: tag_view_def)
qed simp

lemma dv_mac_fold:
  "dv_mac (fold (tag_view s sm) tags v)
   = (if TagMAC \<in> set tags then Some (show_mac (vs_mac s)) else dv_mac v)"
proof (induction tags arbitrary: v)
  case (Cons tag tags)
  then show ?case
    by (cases "tag = TagMAC") (simp_all add: dv_mac_view, simp add: tag_view_def)
qed simp

lemma port_count_answered: "TagPortCount \<in> set (answered_tags tags) \<longleftrightarrow> TagPortCount \<in> set tags"
  by (simp add: answered_tags_def emission_order_def)

lemma model_mac_answered:
  "TagModel \<in> set (answered_tags tags) \<longleftrightarrow> TagModel \<in> set tags"
  "TagMAC \<in> set (answered_tags tags) \<longleftrightarrow> TagMAC \<in> set tags"
  by (simp_all add: answered_tags_def emission_order_def)

lemma NsdpTlvs_answers:
  assumes "mustModel s = Inr sm" "vs_ok s"
  obtains ts where "NsdpTlvs s tags = Inr ts" "list_all wf_tlv ts" "tlv_tag ` set ts \<subseteq> set tags"
    "tlv_tag ` set ts \<subseteq> set emission_order"
    "announced_count 8 ts = (if TagPortCount \<in> set tags then sm_port_count sm else 8)"
    "TagVLANMembers \<in> set tags \<longrightarrow> TagPortCount \<in> set tags \<Longrightarrow>
     device_steps (announced_count 8 ts) init_vars ts = Inr (project_vars s sm tags)"
proof -
  have all: "\<forall>t \<in> set (answered_tags tags). answers (sm_port_count sm) s sm t"
    using answers_tag [OF assms] by (auto simp: answered_tags_def)
  from answers_concat [OF this] obtain ts where
      ts: "concat_res (map (tag_answer s sm) (answered_tags tags)) = Inr ts"
      "list_all wf_tlv ts" "tlv_tag ` set ts \<subseteq> set (answered_tags tags)"
    by metis
  have scan: "announced_count 8 ts = (if TagPortCount \<in> set tags then sm_port_count sm else 8)"
  proof -
    have "\<forall>t \<in> set (answered_tags tags). \<exists>m. answers m s sm t" using all by blast
    from scan_answers [OF assms(1) ts(1) this] show ?thesis by (simp add: port_count_answered)
  qed
  have "NsdpTlvs s tags = Inr ts"
    using assms(1) ts(1) by (simp add: NsdpTlvs_def answered_tags_def)
  moreover have "device_steps (announced_count 8 ts) init_vars ts = Inr (project_vars s sm tags)"
    if "TagVLANMembers \<in> set tags \<longrightarrow> TagPortCount \<in> set tags"
  proof -
    have "\<forall>t \<in> set (answered_tags tags). answers (announced_count 8 ts) s sm t"
      using that answers_tag [OF assms] scan by (auto simp: answered_tags_def)
    from answers_concat [OF this] ts(1) show ?thesis
      by (auto simp: project_vars_def)
  qed
  moreover have "set (answered_tags tags) \<subseteq> set tags" "set (answered_tags tags) \<subseteq> set emission_order"
    by (auto simp: answered_tags_def)
  ultimately show ?thesis
    using that ts scan by blast
qed

lemma NsdpTlvs_ParseDevice:
  assumes "vs_ok s" "mustModel s = Inr sm" "TagModel \<in> set tags"
    "TagVLANMembers \<in> set tags \<longrightarrow> TagPortCount \<in> set tags"
  obtains ts where "NsdpTlvs s tags = Inr ts" "list_all wf_tlv ts" "tlv_tag ` set ts \<subseteq> set tags"
    "tlv_tag ` set ts \<subseteq> set emission_order"
    "\<And>p. pk_tlvs p = ts \<Longrightarrow> pk_server_mac p = vs_mac s \<Longrightarrow> ParseDevice p = Inr (project_device s sm tags)"
proof -
  obtain ts where ts: "NsdpTlvs s tags = Inr ts" "list_all wf_tlv ts" "tlv_tag ` set ts \<subseteq> set tags"
      "tlv_tag ` set ts \<subseteq> set emission_order"
      "device_steps (announced_count 8 ts) init_vars ts = Inr (project_vars s sm tags)"
    using NsdpTlvs_answers [OF assms(2,1), of tags] assms(4) by metis
  define v where "v = project_vars s sm tags"
  have model: "dv_model v = Some (decodeASCII (bytes_of (model_name_of s sm)))"
    using assms(3) by (simp add: v_def project_vars_def dv_model_fold model_mac_answered)
  have mac: "dv_mac v = (if TagMAC \<in> set tags then Some (show_mac (vs_mac s)) else None)"
    by (simp add: v_def project_vars_def dv_mac_fold model_mac_answered init_vars_def)
  have "length (vs_mac s) = 6" using assms(1,2) by (simp add: vs_ok_simps)
  then have "ParseDevice p = Inr (project_device s sm tags)"
    if "pk_tlvs p = ts" "pk_server_mac p = vs_mac s" for p
    unfolding ParseDevice_def that scan_port_count_eq rbind_simps ts(5) v_def [symmetric] rbind_simps model option.case mac
    by (simp add: ParseMAC_six project_device_def v_def)
  with that ts(1-4) show ?thesis by blast
qed

text \<open>
  C33.  Projection and parser agree: for a well-formed state and any set of tags that names
  \<^verbatim>\<open>MODEL\<close>, and \<^verbatim>\<open>PORT_COUNT\<close> when it names \<^verbatim>\<open>VLAN_MEMBERS\<close>, the
  TLVs the virtual switch answers are of the requested tags only, fit the wire, and parse to
  exactly the device the state stands for.
\<close>

theorem NsdpTlvs_parse:
  assumes "vs_ok s" "mustModel s = Inr sm" "TagModel \<in> set tags"
    "TagVLANMembers \<in> set tags \<longrightarrow> TagPortCount \<in> set tags"
    "pk_server_mac p = vs_mac s"
  shows "\<exists>ts. NsdpTlvs s tags = Inr ts \<and> list_all wf_tlv ts \<and> tlv_tag ` set ts \<subseteq> set tags
    \<and> ParseDevice (p\<lparr>pk_tlvs := ts\<rparr>) = Inr (project_device s sm tags)"
  using assms(5) by (rule_tac NsdpTlvs_ParseDevice [OF assms(1-4)]) auto

theorem NsdpTlvs_parse_witness:
  "vs_ok sample_state \<and> mustModel sample_state = Inr model_gs110emx
   \<and> (\<exists>ts. NsdpTlvs sample_state [TagModel, TagPortCount, TagVLANMembers] = Inr ts
     \<and> ParseDevice (sample_packet\<lparr>pk_server_mac := vs_mac sample_state, pk_tlvs := ts\<rparr>)
       = Inr (project_device sample_state model_gs110emx [TagModel, TagPortCount, TagVLANMembers]))"
  using NsdpTlvs_parse [OF sample_ok sample_model, of "[TagModel, TagPortCount, TagVLANMembers]"
      "sample_packet\<lparr>pk_server_mac := vs_mac sample_state\<rparr>"] sample_ok sample_model by auto

end
