(* ===== verification/Nsdp_Reader.thy ===== *)
theory Nsdp_Reader
  imports Virtual_Projection
begin

section \<open>The model-driven NSDP reader (nsdp/reader.go)\<close>

text \<open>
  The reader over any \<^verbatim>\<open>Client\<close>: a function \<open>read\<close> from tags to a decoded response.
  The locale \<open>nsdp_client\<close> states what such a client promises of the switch behind it; the
  reader's answers are derived inside it.
\<close>

subsection \<open>Operations\<close>

text \<open>The interface \<^verbatim>\<open>Client\<close>: its method \<^verbatim>\<open>Read\<close>.\<close>

type_synonym 's client_read = "tag list \<Rightarrow> ('s, go_error, packet) action"

record nsdp_reader =
  rd_model :: switch_model

definition requireNSDP :: "switch_model \<Rightarrow> unit res" where
  "requireNSDP m =
     (if \<not> HasBackend m BackendNSDP
      then Inl (Wraps ''model %q has no NSDP backend: %w'' [AStr (sm_key m)] ErrUnsupportedCapability)
      else Inr ())"

definition withModel :: "tag list \<Rightarrow> tag list" where
  "withModel tags = (if TagModel \<in> set tags then tags else TagModel # tags)"

definition unsupportedRead :: "string \<Rightarrow> 'a res" where
  "unsupportedRead msg = Inl (Wraps ''%s: %w'' [AStr msg] ErrUnsupportedCapability)"

definition NewReader :: "switch_model \<Rightarrow> nsdp_reader res" where
  "NewReader m = rbind (requireNSDP m) (\<lambda>_. Inr \<lparr>rd_model = m\<rparr>)"

definition device :: "'s client_read \<Rightarrow> tag list \<Rightarrow> ('s, go_error, nsdp_device) action" where
  "device read tags = sbind (read (withModel tags)) (\<lambda>pkt. sret (ParseDevice pkt))"

definition fullDeviceTags :: "tag list" where
  "fullDeviceTags =
     [TagModel, TagMAC, TagHostname, TagPortName, TagIPAddress, TagNetmask, TagGateway,
      TagFirmwareVer1, TagDHCPMode, TagPortCount, TagSerialNumber, TagVLANEngine, TagPortStatus,
      TagPortStatistics, TagVLANMembers, TagPortPVID, TagQOSEngine, TagPortMirroring,
      TagIGMPSnooping, TagBroadcastFiltering, TagLoopDetection]"

text \<open>The map of labels: the last record of a port wins, an absent port and an empty one are nil.\<close>

definition port_label :: "nsdp_port_name list \<Rightarrow> int \<Rightarrow> string option" where
  "port_label names port =
     (case map_of (rev (map (\<lambda>n. (npn_port n, npn_name n)) names)) port of None \<Rightarrow> None | Some l \<Rightarrow> l)"

definition mapPorts :: "nsdp_device \<Rightarrow> port_status list" where
  "mapPorts dev =
     map (\<lambda>s. \<lparr>ps_port = nps_port s, ps_name = None, ps_admin_enabled = True,
               ps_link_up = (nps_speed s \<noteq> LinkSpeedDown),
               ps_speed_mbps = (let v = SpeedMbps (nps_speed s) in if v \<noteq> 0 then Some v else None),
               ps_description = port_label (nd_port_names dev) (nps_port s),
               ps_full_duplex = None, ps_flow_control = None, ps_speed_config = None\<rparr>)
       (nd_port_status dev)"

definition mapStats :: "nsdp_device \<Rightarrow> port_stats list" where
  "mapStats dev =
     map (\<lambda>s. \<lparr>st_port = nst_port s, st_rx_bytes = Some (nst_rx s), st_tx_bytes = Some (nst_tx s),
               st_rx_packets = None, st_tx_packets = None, st_rx_errors = Some (nst_crc s),
               st_tx_errors = None\<rparr>)
       (nd_port_statistics dev)"

definition mapVLANs :: "nsdp_device \<Rightarrow> vlan_info list" where
  "mapVLANs dev =
     map (\<lambda>m. \<lparr>vi_vlan_id = nvm_vlan_id m, vi_name = None, vi_members = nvm_members m,
               vi_tagged = nvm_tagged m, vi_untagged = UntaggedPorts m\<rparr>)
       (nd_vlan_members dev)"

definition mapMgmtIP :: "nsdp_device \<Rightarrow> mgmt_ip_config" where
  "mapMgmtIP dev =
     \<lparr>mg_mode = (case nd_dhcp dev of None \<Rightarrow> IPModeUnknown
                | Some b \<Rightarrow> if b then IPModeDHCP else IPModeStatic),
      mg_address = nd_ip dev, mg_netmask = nd_netmask dev, mg_gateway = nd_gateway dev,
      mg_base_mac = Some (ToUpper (nd_mac dev))\<rparr>"

definition GetPorts :: "'s client_read \<Rightarrow> ('s, go_error, port_status list) action" where
  "GetPorts read = sbind (device read [TagPortCount, TagPortStatus, TagPortName]) (\<lambda>dev. sret (Inr (mapPorts dev)))"

definition GetStats :: "'s client_read \<Rightarrow> ('s, go_error, port_stats list) action" where
  "GetStats read = sbind (device read [TagPortStatistics]) (\<lambda>dev. sret (Inr (mapStats dev)))"

definition GetVLANs :: "'s client_read \<Rightarrow> ('s, go_error, vlan_info list) action" where
  "GetVLANs read = sbind (device read [TagPortCount, TagVLANMembers]) (\<lambda>dev. sret (Inr (mapVLANs dev)))"

definition GetPVIDs :: "'s client_read \<Rightarrow> ('s, go_error, pvid list) action" where
  "GetPVIDs read = sbind (device read [TagPortPVID])
     (\<lambda>dev. sret (Inr (map (\<lambda>p. \<lparr>pv_port = npv_port p, pv_vlan = npv_vlan p\<rparr>) (nd_port_pvids dev))))"

definition GetMgmtIP :: "'s client_read \<Rightarrow> ('s, go_error, mgmt_ip_config) action" where
  "GetMgmtIP read = sbind (device read [TagIPAddress, TagNetmask, TagGateway, TagDHCPMode])
     (\<lambda>dev. sret (Inr (mapMgmtIP dev)))"

definition GetHostname :: "'s client_read \<Rightarrow> ('s, go_error, string) action" where
  "GetHostname read = sbind (device read [TagHostname])
     (\<lambda>dev. sret (Inr (case nd_hostname dev of None \<Rightarrow> [] | Some h \<Rightarrow> h)))"

definition GetDevice :: "'s client_read \<Rightarrow> ('s, go_error, nsdp_device) action" where
  "GetDevice read = device read fullDeviceTags"

definition nsdpSweepEvidence :: string where
  "nsdpSweepEvidence =
     ''measured by an exhaustive NSDP tag sweep of a real GS110EMX ''
     @ ''(10.1.5.25, firmware 1.0.2.8, 2026-07-30) covering every tag in the 16-bit space; ''
     @ ''see the nsdp package for the full tag inventory''"

definition NoMACsMsg :: string where
  "NoMACsMsg = ''NSDP has no MAC/FDB table tag ('' @ nsdpSweepEvidence @ '')''"

definition NoLLDPMsg :: string where
  "NoLLDPMsg = ''NSDP has no LLDP neighbour tag ('' @ nsdpSweepEvidence @ '')''"

definition NoSensorsMsg :: string where
  "NoSensorsMsg = ''NSDP has no environmental-sensor tag ('' @ nsdpSweepEvidence @ '')''"

definition NoPoEReadMsg :: string where
  "NoPoEReadMsg = ''NSDP has no PoE status tag ('' @ nsdpSweepEvidence @ ''); use the HTTP backend for PoE''"

definition GetLLDP :: "nsdp_reader \<Rightarrow> 'a res" where "GetLLDP r = unsupportedRead NoLLDPMsg"
definition GetMACs :: "nsdp_reader \<Rightarrow> 'a res" where "GetMACs r = unsupportedRead NoMACsMsg"
definition GetPoE :: "nsdp_reader \<Rightarrow> 'a res" where "GetPoE r = unsupportedRead NoPoEReadMsg"
definition GetSensors :: "nsdp_reader \<Rightarrow> 'a res" where "GetSensors r = unsupportedRead NoSensorsMsg"

definition refuse_with_key :: "nsdp_reader \<Rightarrow> string \<Rightarrow> 'a res" where
  "refuse_with_key r msg =
     Inl (Wraps ''model %q: %s: %w'' [AStr (sm_key (rd_model r)), AStr msg] ErrUnsupportedCapability)"

definition GetUsers :: "nsdp_reader \<Rightarrow> 'a res" where
  "GetUsers r = refuse_with_key r
     ''this backend does not expose local user accounts (no such tag/page/table on this backend)''"

definition GetServices :: "nsdp_reader \<Rightarrow> 'a res" where
  "GetServices r = refuse_with_key r
     ''this backend does not expose management-service state (http/https/telnet/ssh)''"

definition GetSyslog :: "nsdp_reader \<Rightarrow> 'a res" where
  "GetSyslog r = refuse_with_key r ''this backend does not expose remote-logging configuration''"

subsection \<open>What a client promises\<close>

text \<open>Tags a client asks for on behalf of a reader: no authentication tag, no end marker.\<close>

definition plain_tags :: "tag list \<Rightarrow> bool" where
  "plain_tags tags \<longleftrightarrow> length tags \<le> 64 \<and> TagAuthV2Encpass \<notin> set tags \<and> TagAuthV2Salt \<notin> set tags
     \<and> TagAuthV2Password \<notin> set tags \<and> TagEndOfMark \<notin> set tags"

text \<open>A response that fits the client's 4096-byte receive buffer.\<close>

definition reply_fits :: "tlv list \<Rightarrow> bool" where
  "reply_fits ts \<longleftrightarrow> 36 + length (concat (map TLV_Encode ts)) \<le> 4096"

definition answer_fits :: "vstate \<Rightarrow> tag list \<Rightarrow> bool" where
  "answer_fits s tags = (case NsdpTlvs s tags of Inl _ \<Rightarrow> False | Inr ts \<Rightarrow> reply_fits ts)"

text \<open>
  \<open>dev\<close> is the switch behind a client's state, \<open>inv n\<close> says that the client and the switch
  work together for at least \<open>n\<close> more writes; reads are free.
\<close>

locale nsdp_client =
  fixes read :: "'s client_read" and dev :: "'s \<Rightarrow> vstate" and inv :: "nat \<Rightarrow> 's \<Rightarrow> bool"
  assumes inv_ok: "inv n s \<Longrightarrow> vs_ok (dev s)"
    and read_answers: "inv n s \<Longrightarrow> plain_tags tags \<Longrightarrow> NsdpTlvs (dev s) tags = Inr ts \<Longrightarrow> reply_fits ts \<Longrightarrow>
      \<exists>p s'. read tags s = (Inr p, s') \<and> pk_tlvs p = ts \<and> pk_server_mac p = vs_mac (dev s)
        \<and> dev s' = dev s \<and> inv n s'"
begin

lemma device_reads:
  assumes "inv n s" "plain_tags (withModel tags)" "answer_fits (dev s) (withModel tags)"
    and "TagVLANMembers \<in> set tags \<longrightarrow> TagPortCount \<in> set tags"
    and "mustModel (dev s) = Inr sm"
  shows "\<exists>s'. device read tags s = (Inr (project_device (dev s) sm (withModel tags)), s')
    \<and> dev s' = dev s \<and> inv n s'"
proof -
  have vlans: "TagVLANMembers \<in> set (withModel tags) \<longrightarrow> TagPortCount \<in> set (withModel tags)"
      and model: "TagModel \<in> set (withModel tags)"
    using assms(4) by (auto simp: withModel_def)
  obtain ts where ts: "NsdpTlvs (dev s) (withModel tags) = Inr ts"
      "\<And>p. pk_tlvs p = ts \<Longrightarrow> pk_server_mac p = vs_mac (dev s) \<Longrightarrow>
        ParseDevice p = Inr (project_device (dev s) sm (withModel tags))"
    using NsdpTlvs_ParseDevice [OF inv_ok [OF assms(1)] assms(5) model vlans] by metis
  then have "reply_fits ts" using assms(3) by (simp add: answer_fits_def)
  then obtain p s' where "read (withModel tags) s = (Inr p, s')" "pk_tlvs p = ts"
      "pk_server_mac p = vs_mac (dev s)" "dev s' = dev s" "inv n s'"
    using read_answers [OF assms(1,2) ts(1)] by blast
  then show ?thesis
    using ts(2) [of p] by (auto simp: device_def sbind_def)
qed

end

subsection \<open>What each operation reports\<close>

text \<open>The shared-model records a state stands for.\<close>

definition ports_of :: "vstate \<Rightarrow> port_status list" where
  "ports_of s = map (\<lambda>(p, sim).
     let sp = LinkSpeedFromByte (if vp_link sim then mbpsToSpeedByte (vp_speed sim) else 0x00) in
     \<lparr>ps_port = p, ps_name = None, ps_admin_enabled = True, ps_link_up = (sp \<noteq> LinkSpeedDown),
      ps_speed_mbps = (if SpeedMbps sp \<noteq> 0 then Some (SpeedMbps sp) else None),
      ps_description = described (vp_description sim),
      ps_full_duplex = None, ps_flow_control = None, ps_speed_config = None\<rparr>) (sorted_items (vs_ports s))"

definition vlan_info_of :: "int \<times> vlan_sim \<Rightarrow> vlan_info" where
  "vlan_info_of = (\<lambda>(vid, v).
     \<lparr>vi_vlan_id = vid, vi_name = None, vi_members = sliceFromPortSet (vv_member v),
      vi_tagged = sliceFromPortSet (setDifference (vv_member v) (vv_untagged v)),
      vi_untagged = filter (in_set (vv_untagged v)) (sliceFromPortSet (vv_member v))\<rparr>)"

definition vlans_of :: "vstate \<Rightarrow> vlan_info list" where
  "vlans_of s = map vlan_info_of (sorted_items (vs_vlans s))"

definition pvids_of :: "vstate \<Rightarrow> pvid list" where
  "pvids_of s = map (\<lambda>(p, v). \<lparr>pv_port = p, pv_vlan = v\<rparr>) (sorted_items (vs_pvids s))"

definition mgmt_of :: "vstate \<Rightarrow> mgmt_ip_config" where
  "mgmt_of s =
     \<lparr>mg_mode = (if vm_mode (vs_mgmt s) \<noteq> ''static'' then IPModeDHCP else IPModeStatic),
      mg_address = Some (vm_address (vs_mgmt s)), mg_netmask = Some (vm_netmask (vs_mgmt s)),
      mg_gateway = Some (vm_gateway (vs_mgmt s)), mg_base_mac = Some (ToUpper (show_mac (vs_mac s)))\<rparr>"

lemmas project_simps = project_device_def project_vars_def answered_tags_def emission_order_def
  withModel_def tag_view_def init_vars_def empty_device_def upd_def

lemma mapPorts_project:
  "mapPorts (project_device s sm (withModel [TagPortCount, TagPortStatus, TagPortName])) = ports_of s"
proof -
  let ?d = "project_device s sm (withModel [TagPortCount, TagPortStatus, TagPortName])"
  have st: "nd_port_status ?d = map status_view (sorted_items (vs_ports s))"
      and nm: "nd_port_names ?d = map name_view (sorted_items (vs_ports s))"
    by (simp_all add: project_simps)
  have label: "port_label (map name_view (sorted_items (vs_ports s))) p = described (vp_description sim)"
    if "(p, sim) \<in> set (sorted_items (vs_ports s))" for p sim
  proof -
    have "distinct (map fst (rev (map (\<lambda>x. (fst x, described (vp_description (snd x)))) (sorted_items (vs_ports s)))))"
      by (simp add: sorted_items_def o_def rev_map [symmetric])
    then have "map_of (rev (map (\<lambda>x. (fst x, described (vp_description (snd x)))) (sorted_items (vs_ports s)))) p
        = Some (described (vp_description sim))"
      by (rule map_of_is_SomeI) (use that in force)
    then show ?thesis
      by (simp add: port_label_def name_view_def case_prod_beta o_def)
  qed
  show ?thesis
    unfolding mapPorts_def st nm ports_of_def
    by (simp, intro ballI) (use label in \<open>auto simp: status_view_def Let_def\<close>)
qed

lemma mapVLANs_project:
  "mapVLANs (project_device s sm (withModel [TagPortCount, TagVLANMembers])) = vlans_of s"
proof -
  have "nd_vlan_members (project_device s sm (withModel [TagPortCount, TagVLANMembers]))
      = map vlan_view (sorted_items (vs_vlans s))"
    by (simp add: project_simps)
  moreover have "UntaggedPorts (vlan_view x) = vi_untagged (vlan_info_of x)" for x
    by (cases x) (auto simp: UntaggedPorts_def vlan_view_def vlan_info_of_def sort_key_id_if_sorted
        sorted_wrt_filter intro!: filter_cong)
  ultimately show ?thesis
    by (auto simp: mapVLANs_def vlans_of_def vlan_info_of_def vlan_view_def)
qed

lemma pvids_project:
  "map (\<lambda>p. \<lparr>pv_port = npv_port p, pv_vlan = npv_vlan p\<rparr>)
     (nd_port_pvids (project_device s sm (withModel [TagPortPVID]))) = pvids_of s"
proof -
  have "nd_port_pvids (project_device s sm (withModel [TagPortPVID])) = map pvid_view (sorted_items (vs_pvids s))"
    by (simp add: project_simps)
  then show ?thesis by (simp add: pvids_of_def pvid_view_def case_prod_beta)
qed

lemma mapMgmtIP_project:
  "mapMgmtIP (project_device s sm (withModel [TagIPAddress, TagNetmask, TagGateway, TagDHCPMode])) = mgmt_of s"
  by (simp add: mapMgmtIP_def mgmt_of_def project_simps)

lemma hostname_project:
  "(case nd_hostname (project_device s sm (withModel [TagHostname])) of None \<Rightarrow> [] | Some h \<Rightarrow> h)
   = decodeASCII (bytes_of (vs_hostname s))"
proof (cases "vs_hostname s = []")
  case True
  then show ?thesis by (simp add: project_simps decodeASCII_def bytes_of_def)
qed (simp add: project_simps)

text \<open>Every reader operation's response fits the receive buffer.\<close>

definition reader_tags :: "tag list list" where
  "reader_tags =
     [[TagPortCount, TagPortStatus, TagPortName], [TagPortStatistics], [TagPortCount, TagVLANMembers],
      [TagPortPVID], [TagIPAddress, TagNetmask, TagGateway, TagDHCPMode], [TagHostname]]"

definition readable :: "vstate \<Rightarrow> bool" where
  "readable s \<longleftrightarrow> list_all (\<lambda>tags. answer_fits s (withModel tags)) reader_tags"

lemma reader_tags_plain:
  "tags \<in> set reader_tags \<Longrightarrow> plain_tags (withModel tags)
     \<and> (TagVLANMembers \<in> set tags \<longrightarrow> TagPortCount \<in> set tags)"
  by (auto simp: reader_tags_def plain_tags_def withModel_def)

lemma mapStats_project:
  "mapStats (project_device s sm (withModel [TagPortStatistics])) =
     map (\<lambda>(p, sim). \<lparr>st_port = p, st_rx_bytes = Some (u64OrZero (vp_rx_octets sim)),
        st_tx_bytes = Some (u64OrZero (vp_tx_octets sim)), st_rx_packets = None, st_tx_packets = None,
        st_rx_errors = Some (u64OrZero (vp_rx_errors sim)), st_tx_errors = None\<rparr>) (sorted_items (vs_ports s))"
proof -
  have "nd_port_statistics (project_device s sm (withModel [TagPortStatistics]))
      = map statistics_view (sorted_items (vs_ports s))"
    by (simp add: project_simps)
  then show ?thesis by (simp add: mapStats_def statistics_view_def case_prod_beta)
qed

context nsdp_client
begin

lemma reader_op:
  assumes "inv n s" "readable (dev s)" "tags \<in> set reader_tags"
    and "\<And>sm. f (project_device (dev s) sm (withModel tags)) = x"
  shows "\<exists>s'. sbind (device read tags) (\<lambda>d. sret (Inr (f d))) s = (Inr x, s') \<and> dev s' = dev s \<and> inv n s'"
proof -
  obtain sm where sm: "mustModel (dev s) = Inr sm" using vs_ok_model inv_ok assms(1) by blast
  have "answer_fits (dev s) (withModel tags)"
    using assms(2,3) by (simp add: readable_def list_all_iff)
  then obtain s' where "device read tags s = (Inr (project_device (dev s) sm (withModel tags)), s')"
      "dev s' = dev s" "inv n s'"
    using device_reads [OF assms(1) _ _ _ sm, of tags] reader_tags_plain [OF assms(3)] by blast
  then show ?thesis using assms(4) by (auto simp: sbind_def)
qed

lemma GetPorts_reads:
  "inv n s \<Longrightarrow> readable (dev s) \<Longrightarrow>
   \<exists>s'. GetPorts read s = (Inr (ports_of (dev s)), s') \<and> dev s' = dev s \<and> inv n s'"
  unfolding GetPorts_def by (rule reader_op) (simp_all add: reader_tags_def mapPorts_project)

lemma GetVLANs_reads:
  "inv n s \<Longrightarrow> readable (dev s) \<Longrightarrow>
   \<exists>s'. GetVLANs read s = (Inr (vlans_of (dev s)), s') \<and> dev s' = dev s \<and> inv n s'"
  unfolding GetVLANs_def by (rule reader_op) (simp_all add: reader_tags_def mapVLANs_project)

lemma GetPVIDs_reads:
  "inv n s \<Longrightarrow> readable (dev s) \<Longrightarrow>
   \<exists>s'. GetPVIDs read s = (Inr (pvids_of (dev s)), s') \<and> dev s' = dev s \<and> inv n s'"
  unfolding GetPVIDs_def by (rule reader_op) (simp_all add: reader_tags_def pvids_project)

lemma GetMgmtIP_reads:
  "inv n s \<Longrightarrow> readable (dev s) \<Longrightarrow>
   \<exists>s'. GetMgmtIP read s = (Inr (mgmt_of (dev s)), s') \<and> dev s' = dev s \<and> inv n s'"
  unfolding GetMgmtIP_def by (rule reader_op) (simp_all add: reader_tags_def mapMgmtIP_project)

lemma GetHostname_reads:
  "inv n s \<Longrightarrow> readable (dev s) \<Longrightarrow>
   \<exists>s'. GetHostname read s = (Inr (decodeASCII (bytes_of (vs_hostname (dev s)))), s') \<and> dev s' = dev s \<and> inv n s'"
  unfolding GetHostname_def by (rule reader_op) (simp_all add: reader_tags_def hostname_project)

end

end
