(* ===== verification/Nsdp_Writer.thy ===== *)
theory Nsdp_Writer
  imports Nsdp_Reader
begin

section \<open>The NSDP writer: guard, write, verify (nsdp/writer.go)\<close>

text \<open>
  The model-driven writer over any \<^verbatim>\<open>WriteClient\<close>.  Each operation guards, reads the
  current state, sends one write and reads back; it reports success only when the value read
  back is the one asked for.  The first laws hold for every client, however it behaves; the
  locale \<open>nsdp_write_client\<close> adds a switch that applies what is written to it.
\<close>

subsection \<open>Operations\<close>

type_synonym 's client_write = "tlv list \<Rightarrow> string \<Rightarrow> ('s, go_error, packet) action"

record nsdp_writer =
  wr_model :: switch_model
  wr_password :: string
  wr_protected :: "int list"

definition NewWriter :: "switch_model \<Rightarrow> string \<Rightarrow> int list \<Rightarrow> nsdp_writer res" where
  "NewWriter m password protected =
     rbind (NewReader m) (\<lambda>_. Inr \<lparr>wr_model = m, wr_password = password, wr_protected = protected\<rparr>)"

definition guard :: "nsdp_writer \<Rightarrow> int \<Rightarrow> bool \<Rightarrow> unit res" where
  "guard w port force =
     (if port \<in> set (wr_protected w) \<and> \<not> force
      then Inl (Wraps ''port %d is protected; pass force=True to override: %w'' [AInt port] ErrProtectedPort)
      else Inr ())"

definition find_vlan :: "int \<Rightarrow> vlan_info list \<Rightarrow> vlan_info option" where
  "find_vlan vlanID vlans = List.find (\<lambda>v. vi_vlan_id v = vlanID) vlans"

definition get_vlan :: "'s client_read \<Rightarrow> int \<Rightarrow> ('s, go_error, vlan_info option) action" where
  "get_vlan read vlanID = sbind (GetVLANs read) (\<lambda>vlans. sret (Inr (find_vlan vlanID vlans)))"

definition pvidMap :: "pvid list \<Rightarrow> int \<Rightarrow> int option" where
  "pvidMap pairs = map_of (rev (map (\<lambda>p. (pv_port p, pv_vlan p)) pairs))"

definition pvidLookup :: "(int \<Rightarrow> int option) \<Rightarrow> int \<Rightarrow> observed" where
  "pvidLookup m port = (case m port of None \<Rightarrow> Obs_Nil | Some v \<Rightarrow> Obs_Int v)"

definition SetPVID ::
    "'s client_read \<Rightarrow> 's client_write \<Rightarrow> nsdp_writer \<Rightarrow> int \<Rightarrow> int \<Rightarrow> bool \<Rightarrow> ('s, go_error, unit) action" where
  "SetPVID read write w port vlan force =
     sbind (sret (guard w port force)) (\<lambda>_.
     sbind (get_vlan read vlan) (\<lambda>target.
     if target = None then sret (Inl (errNSDP ''VLAN %d does not exist'' [AInt vlan]))
     else
     sbind (GetPVIDs read) (\<lambda>beforePairs.
     sbind (sret (PvidTLV port vlan)) (\<lambda>tlv.
     sbind (write [tlv] (wr_password w)) (\<lambda>_.
     sbind (GetPVIDs read) (\<lambda>afterPairs.
     let before = pvidMap beforePairs; after = pvidMap afterPairs in
     sret (if after port \<noteq> Some vlan
           then Inl (Verification ''PVID for port %d did not read back as %d'' [AInt port, AInt vlan]
                       (pvidLookup before port) (pvidLookup after port))
           else Inr ())))))))"

definition SetHostname ::
    "'s client_read \<Rightarrow> 's client_write \<Rightarrow> nsdp_writer \<Rightarrow> string \<Rightarrow> ('s, go_error, unit) action" where
  "SetHostname read write w name =
     (if TrimSpace name = [] then sret (Inl (Plain ''hostname must not be empty'' []))
      else
      sbind (GetHostname read) (\<lambda>before.
      sbind (sret (HostnameTLV name)) (\<lambda>tlv.
      sbind (write [tlv] (wr_password w)) (\<lambda>_.
      sbind (GetHostname read) (\<lambda>after.
      sret (if after \<noteq> name
            then Inl (Verification ''host name is %q after writing %q'' [AStr after, AStr name]
                        (Obs_Str before) (Obs_Str after))
            else Inr ()))))))"

definition membersAfter :: "vlan_info option \<Rightarrow> int \<Rightarrow> vlan_mode \<Rightarrow> int list \<times> int list" where
  "membersAfter current port mode =
     (let memberSet = (case current of None \<Rightarrow> [] | Some v \<Rightarrow> vi_members v);
          taggedSet = (case current of None \<Rightarrow> [] | Some v \<Rightarrow> vi_tagged v);
          memberSet' = (if mode = VlanExcluded then removeAll port memberSet else port # memberSet);
          taggedSet' = (if mode = VlanTagged then port # taggedSet else removeAll port taggedSet)
      in (sort_uniq memberSet', sort_uniq taggedSet'))"

definition membershipOK :: "vlan_info option \<Rightarrow> int \<Rightarrow> vlan_mode \<Rightarrow> bool" where
  "membershipOK after port mode =
     (case after of
        None \<Rightarrow> mode = VlanExcluded
      | Some v \<Rightarrow>
          let inMembers = port \<in> set (vi_members v); inTagged = port \<in> set (vi_tagged v) in
          if mode = VlanExcluded then \<not> inMembers
          else inMembers \<and> (inTagged = (mode = VlanTagged)))"

definition SetVlanMembership ::
    "'s client_read \<Rightarrow> 's client_write \<Rightarrow> nsdp_writer \<Rightarrow> int \<Rightarrow> int \<Rightarrow> vlan_mode \<Rightarrow> bool \<Rightarrow>
     ('s, go_error, unit) action" where
  "SetVlanMembership read write w vlanID port mode force =
     sbind (sret (guard w port force)) (\<lambda>_.
     sbind (get_vlan read vlanID) (\<lambda>before.
     let (members, tagged) = membersAfter before port mode in
     sbind (sret (VlanMembersTLV vlanID members tagged (sm_port_count (wr_model w)))) (\<lambda>tlv.
     sbind (write [tlv] (wr_password w)) (\<lambda>_.
     sbind (get_vlan read vlanID) (\<lambda>after.
     sret (if \<not> membershipOK after port mode
           then Inl (Verification ''VLAN %d membership for port %d did not read back as %s''
                       [AInt vlanID, AInt port, AStr (mode_text mode)] (Obs_Vlan before) (Obs_Vlan after))
           else Inr ()))))))"

definition mgmtIPMatches :: "mgmt_ip_config \<Rightarrow> string \<Rightarrow> string \<Rightarrow> string \<Rightarrow> bool" where
  "mgmtIPMatches cfg address netmask gateway \<longleftrightarrow>
     mg_address cfg = Some address \<and> mg_netmask cfg = Some netmask \<and> mg_gateway cfg = Some gateway"

definition SetMgmtIP ::
    "'s client_read \<Rightarrow> 's client_write \<Rightarrow> nsdp_writer \<Rightarrow> string \<Rightarrow> string \<Rightarrow> string \<Rightarrow> bool \<Rightarrow>
     ('s, go_error, unit) action" where
  "SetMgmtIP read write w address netmask gateway force =
     (if \<not> force
      then sret (Inl (Wraps ''set_mgmt_ip can strand the switch; pass force=True to override: %w'' []
                        ErrProtectedPort))
      else
      sbind (GetMgmtIP read) (\<lambda>before.
      sbind (sret (IPv4TLV TagIPAddress address)) (\<lambda>addrTLV.
      sbind (sret (IPv4TLV TagNetmask netmask)) (\<lambda>netmaskTLV.
      sbind (sret (IPv4TLV TagGateway gateway)) (\<lambda>gatewayTLV.
      sbind (write [addrTLV, netmaskTLV, gatewayTLV] (wr_password w)) (\<lambda>_.
      sbind (GetMgmtIP read) (\<lambda>after.
      sret (if \<not> mgmtIPMatches after address netmask gateway
            then Inl (Verification ''management IP did not read back as written'' []
                        (Obs_Mgmt before) (Obs_Mgmt after))
            else Inr ()))))))))"

definition descriptionMap :: "port_status list \<Rightarrow> int \<Rightarrow> string option option" where
  "descriptionMap statuses = map_of (rev (map (\<lambda>s. (ps_port s, ps_description s)) statuses))"

definition descriptionLookup :: "(int \<Rightarrow> string option option) \<Rightarrow> int \<Rightarrow> observed" where
  "descriptionLookup m port = (case m port of None \<Rightarrow> Obs_Nil | Some d \<Rightarrow> Obs_StrPtr d)"

definition strPtrEqual :: "string option \<Rightarrow> string option \<Rightarrow> bool" where
  "strPtrEqual a b =
     (if (a = None) \<noteq> (b = None) then False else a = None \<or> the a = the b)"

text \<open>\<^verbatim>\<open>quoteOrNone\<close>; the quoting itself is \<^verbatim>\<open>strconv.Quote\<close>, left to the formatter.\<close>

definition quoteOrNone :: "string option \<Rightarrow> msg_arg" where
  "quoteOrNone s = (case s of None \<Rightarrow> AStr ''None'' | Some t \<Rightarrow> ABytes (bytes_of t))"

definition SetPortDescription ::
    "'s client_read \<Rightarrow> 's client_write \<Rightarrow> nsdp_writer \<Rightarrow> int \<Rightarrow> string \<Rightarrow> bool \<Rightarrow> ('s, go_error, unit) action" where
  "SetPortDescription read write w port description force =
     sbind (sret (guard w port force)) (\<lambda>_.
     sbind (GetPorts read) (\<lambda>beforeStatuses.
     sbind (write [PortNameTLV port description] (wr_password w)) (\<lambda>_.
     sbind (GetPorts read) (\<lambda>afterStatuses.
     let before = descriptionMap beforeStatuses; after = descriptionMap afterStatuses;
         want = (if description \<noteq> [] then Some description else None) in
     sret (if (case after port of None \<Rightarrow> True | Some got \<Rightarrow> \<not> strPtrEqual got want)
           then Inl (Verification ''description for port %d did not read back as %s''
                       [AInt port, quoteOrNone want]
                       (descriptionLookup before port) (descriptionLookup after port))
           else Inr ())))))"

definition vlanIDs :: "vlan_info list \<Rightarrow> int list" where
  "vlanIDs = map vi_vlan_id"

definition CreateVlan ::
    "'s client_read \<Rightarrow> 's client_write \<Rightarrow> nsdp_writer \<Rightarrow> int \<Rightarrow> string \<Rightarrow> ('s, go_error, unit) action" where
  "CreateVlan read write w vlanID name =
     sbind (GetVLANs read) (\<lambda>existing.
     if vlanID \<in> set (vlanIDs existing) then sret (Inr ())
     else
     sbind (sret (VlanMembersTLV vlanID [] [] (sm_port_count (wr_model w)))) (\<lambda>tlv.
     sbind (write [tlv] (wr_password w)) (\<lambda>_.
     sbind (GetVLANs read) (\<lambda>after.
     sret (if vlanID \<notin> set (vlanIDs after)
           then Inl (Verification ''VLAN %d was not created over NSDP'' [AInt vlanID]
                       Obs_Nil (Obs_Ints (vlanIDs after)))
           else Inr ())))))"

definition DeleteVlan ::
    "'s client_read \<Rightarrow> 's client_write \<Rightarrow> nsdp_writer \<Rightarrow> int \<Rightarrow> bool \<Rightarrow> ('s, go_error, unit) action" where
  "DeleteVlan read write w vlanID force =
     (if \<not> force
      then sret (Inl (Wraps ''deleting VLAN %d removes every member port from it; pass force=True to override: %w''
                        [AInt vlanID] ErrProtectedPort))
      else
      sbind (GetVLANs read) (\<lambda>before.
      sbind (write [VLANDestroyTLV vlanID] (wr_password w)) (\<lambda>_.
      sbind (GetVLANs read) (\<lambda>after.
      sret (if vlanID \<in> set (vlanIDs after)
            then Inl (Verification ''VLAN %d was not deleted over NSDP'' [AInt vlanID]
                        (Obs_Ints (vlanIDs before)) (Obs_Ints (vlanIDs after)))
            else Inr ())))))"

subsection \<open>Operations the protocol lacks\<close>

definition unsupportedWrite :: "string \<Rightarrow> msg_arg list \<Rightarrow> unit res" where
  "unsupportedWrite msg a = Inl (Wraps (msg @ '': %w'') a ErrUnsupportedCapability)"

definition NoPoEWriteMsg :: string where
  "NoPoEWriteMsg = ''NSDP has no PoE control tag ('' @ nsdpSweepEvidence @ ''); use the HTTP backend for PoE''"

definition NoPortAdminMsg :: string where
  "NoPortAdminMsg =
     ''per-port admin-enable over NSDP is UNPROVEN on these Plus models: the ''
     @ ''measured tag inventory (GS110EMX fw 1.0.2.8) has two candidate per-port config tags ''
     @ ''(0x0800, 0x9400) whose semantics were never settled -- no write has been attempted ''
     @ ''against either, and a wrong guess can drop the port's link. Use the HTTP backend, ''
     @ ''whose port-settings page IS grounded''"

definition SetPoE :: "nsdp_writer \<Rightarrow> int \<Rightarrow> bool \<Rightarrow> bool \<Rightarrow> unit res" where
  "SetPoE w port on force = unsupportedWrite NoPoEWriteMsg []"

definition SetPortEnabled :: "nsdp_writer \<Rightarrow> int \<Rightarrow> bool \<Rightarrow> bool \<Rightarrow> unit res" where
  "SetPortEnabled w port on force = unsupportedWrite NoPortAdminMsg []"

definition SetPortSpeed :: "nsdp_writer \<Rightarrow> int \<Rightarrow> port_speed \<Rightarrow> bool \<Rightarrow> unit res" where
  "SetPortSpeed w port speed force = unsupportedWrite
     ''model %q: NSDP publishes the negotiated link speed only; no speed/duplex admin tag has been identified''
     [AStr (sm_key (wr_model w))]"

definition SetFlowControl :: "nsdp_writer \<Rightarrow> int \<Rightarrow> bool \<Rightarrow> bool \<Rightarrow> unit res" where
  "SetFlowControl w port on force = unsupportedWrite
     ''model %q: NSDP reports flow control but no write tag for it has been identified''
     [AStr (sm_key (wr_model w))]"

definition SetSyslogEnabled :: "nsdp_writer \<Rightarrow> bool \<Rightarrow> bool \<Rightarrow> unit res" where
  "SetSyslogEnabled w on force = unsupportedWrite
     ''model %q: this backend does not expose a remote-logging toggle'' [AStr (sm_key (wr_model w))]"

definition AddSyslogCollector :: "nsdp_writer \<Rightarrow> string \<Rightarrow> int \<Rightarrow> int \<Rightarrow> bool \<Rightarrow> unit res" where
  "AddSyslogCollector w host port severity force = unsupportedWrite
     ''model %q: this backend has no grounded syslog-collector row write'' [AStr (sm_key (wr_model w))]"

definition RemoveSyslogCollector :: "nsdp_writer \<Rightarrow> string \<Rightarrow> bool \<Rightarrow> unit res" where
  "RemoveSyslogCollector w host force = unsupportedWrite
     ''model %q: this backend has no grounded syslog-collector row write'' [AStr (sm_key (wr_model w))]"

subsection \<open>Laws for every client\<close>

lemma sbind_sret_Inr [simp]: "sbind (sret (Inr x)) f s = f x s"
  by (simp add: sbind_def)

lemma sbind_sret_Inl [simp]: "sbind (sret (Inl e)) f s = (Inl e, s)"
  by (simp add: sbind_def)

lemma guard_ok [simp]: "guard w port force = Inr u \<longleftrightarrow> port \<notin> set (wr_protected w) \<or> force"
  by (simp add: guard_def)

lemma PvidTLV_range: "PvidTLV port vlan = Inr t \<Longrightarrow> 0 \<le> port \<and> port \<le> 0xFF \<and> 0 \<le> vlan \<and> vlan \<le> 0xFFFF"
  by (auto simp: PvidTLV_def split: if_splits)

text \<open>
  A protected port is never touched without force: the three per-port operations refuse
  before any exchange, with an error wrapping \<^verbatim>\<open>ErrProtectedPort\<close> and the client's
  state as it was; the whole-switch operations refuse without force in the same way.
\<close>

theorem protected_port_refused:
  assumes "port \<in> set (wr_protected w)"
  shows "\<exists>e e' e''. errors_is e ErrProtectedPort \<and> errors_is e' ErrProtectedPort \<and> errors_is e'' ErrProtectedPort
       \<and> SetPVID read write w port vlan False s = (Inl e, s)
       \<and> SetVlanMembership read write w vlan port mode False s = (Inl e, s)
       \<and> SetPortDescription read write w port text False s = (Inl e, s)
       \<and> SetMgmtIP read write w a m g False s = (Inl e', s)
       \<and> DeleteVlan read write w vlan False s = (Inl e'', s)"
  using assms
  by (simp add: SetPVID_def SetVlanMembership_def SetPortDescription_def guard_def SetMgmtIP_def DeleteVlan_def)

definition refusing_writer :: nsdp_writer where
  "refusing_writer = \<lparr>wr_model = model_gs110emx, wr_password = ''password'', wr_protected = [10]\<rparr>"

theorem protected_port_refused_witness:
  "\<exists>e. errors_is e ErrProtectedPort
     \<and> SetPVID (\<lambda>tags s. (Inr sample_packet, s)) (\<lambda>ts pw s. (Inr sample_packet, s)) refusing_writer 10 90 False ()
       = (Inl e, ())"
proof -
  have "10 \<in> set (wr_protected refusing_writer)" by (simp add: refusing_writer_def)
  from protected_port_refused [OF this] show ?thesis by metis
qed

text \<open>
  A PVID change reported successful was verified: for any client at all, success means the
  port was not protected or forced, port and VLAN fit the wire, and the PVID table read back at
  the end says the port is in that VLAN.
\<close>

lemma SetPVID_verified:
  assumes "SetPVID read write w port vlan force s = (Inr (), t)"
  shows "(port \<notin> set (wr_protected w) \<or> force) \<and> 0 \<le> port \<and> port \<le> 0xFF \<and> 0 \<le> vlan \<and> vlan \<le> 0xFFFF
    \<and> (\<exists>u pairs. GetPVIDs read u = (Inr pairs, t) \<and> pvidMap pairs port = Some vlan)"
  using assms unfolding SetPVID_def
  by (auto simp: res_simps Let_def simp del: sbind_sret dest: PvidTLV_range split: if_splits)

text \<open>
  A membership change reported successful was verified: for any client, success means the
  guard let it pass and the VLAN table read back at the end has the port in the mode asked for.
\<close>

theorem SetVlanMembership_verified:
  assumes "SetVlanMembership read write w vlanID port mode force s = (Inr (), t)"
  shows "(port \<notin> set (wr_protected w) \<or> force)
    \<and> (\<exists>u vlans. GetVLANs read u = (Inr vlans, t) \<and> membershipOK (find_vlan vlanID vlans) port mode)"
  using assms unfolding SetVlanMembership_def get_vlan_def
  by (auto simp: res_simps Let_def case_prod_beta simp del: sbind_sret split: if_splits)

subsection \<open>A switch that applies what is written\<close>

text \<open>Configuration TLVs: no credential, no end marker, and short enough for one datagram.\<close>

definition plain_writes :: "tlv list \<Rightarrow> bool" where
  "plain_writes tlvs \<longleftrightarrow> list_all wf_tlv tlvs \<and> length (concat (map TLV_Encode tlvs)) \<le> 60000
     \<and> list_all (\<lambda>t. tlv_tag t \<noteq> TagPassword \<and> tlv_tag t \<noteq> TagAuthV2Password) tlvs"

locale nsdp_write_client = nsdp_client read dev inv
  for read :: "'s client_read" and dev :: "'s \<Rightarrow> vstate" and inv :: "nat \<Rightarrow> 's \<Rightarrow> bool" +
  fixes send :: "'s client_write" and password :: string
  assumes writes_apply: "inv (Suc n) s \<Longrightarrow> plain_writes tlvs \<Longrightarrow> apply_writes tlvs (dev s) = Inr d \<Longrightarrow>
      \<exists>p s'. send tlvs password s = (Inr p, s') \<and> dev s' = d \<and> inv n s'"

subsection \<open>Looking a state up through the reader\<close>

lemma find_vlan_of:
  "find_vlan vid (vlans_of d) = map_option (\<lambda>v. vlan_info_of (vid, v)) (map_of (vs_vlans d) vid)"
proof -
  have "find_vlan vid (map (\<lambda>k. vlan_info_of (k, f k)) ks)
      = (if vid \<in> set ks then Some (vlan_info_of (vid, f vid)) else None)" for f ks
    by (induction ks) (auto simp: find_vlan_def vlan_info_of_def)
  moreover have "vlans_of d = map (\<lambda>k. vlan_info_of (k, the (map_of (vs_vlans d) k))) (sorted_keys (vs_vlans d))"
    by (simp add: vlans_of_def sorted_items_def)
  ultimately show ?thesis
    by (cases "map_of (vs_vlans d) vid") auto
qed

lemma map_of_keyed_rev:
  "distinct ks \<Longrightarrow> map_of (rev (map (\<lambda>k. (k, f k)) ks)) x = (if x \<in> set ks then Some (f x) else None)"
  by (induction ks) (auto simp: map_add_def split: option.split)

lemma pvidMap_of: "pvidMap (pvids_of d) port = map_of (vs_pvids d) port"
proof -
  have "pvidMap (pvids_of d)
      = map_of (rev (map (\<lambda>k. (k, the (map_of (vs_pvids d) k))) (sorted_keys (vs_pvids d))))"
    by (simp add: pvidMap_def pvids_of_def sorted_items_def o_def)
  then show ?thesis
    by (cases "map_of (vs_pvids d) port") (auto simp: map_of_keyed_rev)
qed

lemma descriptionMap_of:
  "descriptionMap (ports_of d) port = map_option (\<lambda>sim. described (vp_description sim)) (map_of (vs_ports d) port)"
proof -
  have "descriptionMap (ports_of d)
      = map_of (rev (map (\<lambda>k. (k, described (vp_description (the (map_of (vs_ports d) k))))) (sorted_keys (vs_ports d))))"
    by (simp add: descriptionMap_def ports_of_def sorted_items_def o_def Let_def)
  then show ?thesis
    by (cases "map_of (vs_ports d) port") (auto simp: map_of_keyed_rev)
qed

lemma vlanIDs_of: "set (vlanIDs (vlans_of d)) = dom (map_of (vs_vlans d))"
  by (auto simp: vlanIDs_def vlans_of_def vlan_info_of_def sorted_items_def image_image)

subsection \<open>What each write does to the state\<close>

lemma apply_PvidTLV:
  assumes "0 \<le> port" "port \<le> 0xFF" "0 \<le> vlan" "vlan \<le> 0xFFFF"
  obtains t where "PvidTLV port vlan = Inr t" "plain_writes [t]"
    "apply_writes [t] d = Inr (d\<lparr>vs_pvids := AList.update port vlan (vs_pvids d)\<rparr>)"
proof
  let ?t = "TLV TagPortPVID (word_of_int port # put16 (word_of_int vlan))"
  show "PvidTLV port vlan = Inr ?t" using assms by (rule PvidTLV_ok)
  show "plain_writes [?t]" by (simp add: plain_writes_def wf_tlv_def)
  show "apply_writes [?t] d = Inr (d\<lparr>vs_pvids := AList.update port vlan (vs_pvids d)\<rparr>)"
    using assms by (simp add: ApplyNsdpWrite_def put16_def get16_put16 uint_byte_of uint_u16_of)
qed

definition vlan_after :: "vlan_sim option \<Rightarrow> int list \<Rightarrow> int list \<Rightarrow> vlan_sim" where
  "vlan_after old members tagged =
     \<lparr>vv_name = (case old of None \<Rightarrow> [] | Some v \<Rightarrow> vv_name v), vv_member = portSetFromSlice members,
      vv_untagged = portSetFromSlice (sort (filter (\<lambda>p. p \<notin> set tagged) members)),
      vv_configured_only = [], vv_no_static_row = False\<rparr>"

lemma apply_VlanMembersTLV:
  assumes "mustModel d = Inr sm" "0 \<le> vid" "vid \<le> 0xFFFF"
    and "\<forall>p \<in> set members. 1 \<le> p \<and> p \<le> int (8 * ((sm_port_count sm + 7) div 8))"
    and "\<forall>p \<in> set tagged. 1 \<le> p \<and> p \<le> int (8 * ((sm_port_count sm + 7) div 8))"
  obtains t where "VlanMembersTLV vid members tagged (sm_port_count sm) = Inr t" "plain_writes [t]"
    "apply_writes [t] d = Inr (d\<lparr>vs_vlans := AList.update vid
       (vlan_after (map_of (vs_vlans d) vid) (sort_uniq members) (sort_uniq tagged)) (vs_vlans d)\<rparr>)"
proof -
  let ?n = "sm_port_count sm"
  obtain m g where mg: "VlanMembersTLV vid members tagged ?n = Inr (TLV TagVLANMembers (put16 (word_of_int vid) @ m @ g))"
    "length m = (?n + 7) div 8" "length g = (?n + 7) div 8"
    "bitmapToPorts m = sort_uniq members" "bitmapToPorts g = sort_uniq tagged"
    using VlanMembersTLV_ok [OF assms(2-5)] by blast
  let ?t = "TLV TagVLANMembers (put16 (word_of_int vid) @ m @ g)"
  have "?n \<le> 52" using port_count_bound [OF mustModel_Models [OF assms(1)]] by simp
  then have "(?n + 7) div 8 < 8" by simp
  then have "plain_writes [?t]" using mg(2,3) by (simp add: plain_writes_def wf_tlv_def)
  moreover have "apply_writes [?t] d = Inr (d\<lparr>vs_vlans := AList.update vid
       (vlan_after (map_of (vs_vlans d) vid) (sort_uniq members) (sort_uniq tagged)) (vs_vlans d)\<rparr>)"
    using assms(1-3) mg(2-5)
    by (simp add: ApplyNsdpWrite_def ParseVlanMembers_bytes uint_u16_of Let_def vlan_after_def UntaggedPorts_def)
  ultimately show ?thesis using that mg(1) by blast
qed

lemma apply_hostname:
  assumes "is_ascii name" "length name < 50000"
  obtains t where "HostnameTLV name = Inr t" "plain_writes [t]" "apply_writes [t] d = Inr (d\<lparr>vs_hostname := name\<rparr>)"
proof
  show "HostnameTLV name = Inr (TLV TagHostname (bytes_of name))" using assms(1) by (rule HostnameTLV_ascii)
  show "plain_writes [TLV TagHostname (bytes_of name)]"
    using assms(2) by (simp add: plain_writes_def wf_tlv_def)
  show "apply_writes [TLV TagHostname (bytes_of name)] d = Inr (d\<lparr>vs_hostname := name\<rparr>)"
    by (simp add: ApplyNsdpWrite_def)
qed

lemma apply_addresses:
  assumes "is_dotted a" "is_dotted m" "is_dotted g"
  obtains t u v where "IPv4TLV TagIPAddress a = Inr t" "IPv4TLV TagNetmask m = Inr u" "IPv4TLV TagGateway g = Inr v"
    "plain_writes [t, u, v]"
    "apply_writes [t, u, v] d = Inr (d\<lparr>vs_mgmt := (vs_mgmt d)\<lparr>vm_address := a, vm_netmask := m, vm_gateway := g\<rparr>\<rparr>)"
proof -
  obtain t where t: "IPv4TLV TagIPAddress a = Inr (TLV TagIPAddress t)" "ParseIPv4 t = Inr a" "length t = 4"
    using is_dotted_TLV [OF assms(1)] by blast
  obtain u where u: "IPv4TLV TagNetmask m = Inr (TLV TagNetmask u)" "ParseIPv4 u = Inr m" "length u = 4"
    using is_dotted_TLV [OF assms(2)] by blast
  obtain v where v: "IPv4TLV TagGateway g = Inr (TLV TagGateway v)" "ParseIPv4 v = Inr g" "length v = 4"
    using is_dotted_TLV [OF assms(3)] by blast
  show ?thesis
    by (rule that [OF t(1) u(1) v(1)])
       (use t u v in \<open>simp_all add: plain_writes_def wf_tlv_def ApplyNsdpWrite_def set_mgmt_def\<close>)
qed

text \<open>The port a name TLV is for: its number loses everything above eight bits.\<close>

definition labelled :: "int \<Rightarrow> string \<Rightarrow> port_sim \<Rightarrow> vstate \<Rightarrow> vstate" where
  "labelled port text sim d = d\<lparr>vs_ports := AList.update port
     (sim\<lparr>vp_description := described (Some text)\<rparr>) (vs_ports d)\<rparr>"

lemma apply_port_label:
  assumes "map_of (vs_ports d) (port mod 256) = Some sim" "length text < 50000"
  shows "plain_writes [PortNameTLV port text]"
    "apply_writes [PortNameTLV port text] d = Inr (labelled (port mod 256) text sim d)"
  using assms go_slice_tail [of "word_of_int port # bytes_of text"]
  by (simp_all add: PortNameTLV_def plain_writes_def wf_tlv_def ApplyNsdpWrite_def Let_def uint_word_of_int
      described_def labelled_def)

text \<open>The VLAN a destroy TLV names: its id loses everything above 16 bits.\<close>

definition destroyed :: "int \<Rightarrow> vstate \<Rightarrow> vstate" where
  "destroyed vid d = d\<lparr>vs_vlans := AList.delete vid (vs_vlans d),
     vs_pvids := map (\<lambda>(p, pv). (p, if pv = vid then 1 else pv)) (vs_pvids d)\<rparr>"

lemma apply_destroy:
  "plain_writes [VLANDestroyTLV vid]"
  "apply_writes [VLANDestroyTLV vid] d = Inr
    (if map_of (vs_vlans d) (vid mod 65536) \<noteq> None then destroyed (vid mod 65536) d else d)"
  by (simp_all add: VLANDestroyTLV_def plain_writes_def wf_tlv_def ApplyNsdpWrite_def put16_def get16_put16
      uint_word_of_int Let_def destroyed_def)

subsection \<open>One port moves\<close>

definition vlan_member :: "vlan_sim option \<Rightarrow> int \<Rightarrow> bool" where
  "vlan_member v p = (case v of None \<Rightarrow> False | Some x \<Rightarrow> in_set (vv_member x) p)"

definition vlan_untagged :: "vlan_sim option \<Rightarrow> int \<Rightarrow> bool" where
  "vlan_untagged v p = (case v of None \<Rightarrow> False | Some x \<Rightarrow> in_set (vv_member x) p \<and> in_set (vv_untagged x) p)"

text \<open>The VLAN after the writer moved one port of it.\<close>

definition vlan_moved :: "int \<Rightarrow> vlan_sim option \<Rightarrow> int \<Rightarrow> vlan_mode \<Rightarrow> vlan_sim" where
  "vlan_moved vid old port mode =
     (let (ms, ts) = membersAfter (map_option (\<lambda>v. vlan_info_of (vid, v)) old) port mode
      in vlan_after old ms ts)"

lemma membersAfter_sets:
  "set (fst (membersAfter (map_option (\<lambda>v. vlan_info_of (vid, v)) old) port mode))
     = {p. if p = port then mode \<noteq> VlanExcluded else vlan_member old p}"
  "set (snd (membersAfter (map_option (\<lambda>v. vlan_info_of (vid, v)) old) port mode))
     = {p. if p = port then mode = VlanTagged else vlan_member old p \<and> \<not> vlan_untagged old p}"
  by (cases old; cases mode; auto simp: membersAfter_def vlan_info_of_def vlan_member_def vlan_untagged_def Let_def)+

lemma membersAfter_sorted:
  "sort_uniq (fst (membersAfter v port mode)) = fst (membersAfter v port mode)"
  "sort_uniq (snd (membersAfter v port mode)) = snd (membersAfter v port mode)"
  by (simp_all add: membersAfter_def Let_def sorted_distinct_id)

lemma vlan_moved_sets:
  "vlan_member (Some (vlan_moved vid old port mode)) p
     \<longleftrightarrow> (if p = port then mode \<noteq> VlanExcluded else vlan_member old p)"
  "vlan_untagged (Some (vlan_moved vid old port mode)) p
     \<longleftrightarrow> (if p = port then mode = VlanUntagged else vlan_untagged old p)"
  using membersAfter_sets [of vid old port mode]
  by (cases mode; auto simp: vlan_moved_def vlan_after_def vlan_member_def [of "Some _"] vlan_untagged_def [of "Some _"]
      case_prod_beta; auto simp: vlan_member_def vlan_untagged_def split: option.splits)+

lemma vlan_moved_marks:
  "vv_name (vlan_moved vid old port mode) = (case old of None \<Rightarrow> [] | Some v \<Rightarrow> vv_name v)"
  "vv_configured_only (vlan_moved vid old port mode) = []" "\<not> vv_no_static_row (vlan_moved vid old port mode)"
  by (simp_all add: vlan_moved_def vlan_after_def case_prod_beta)

lemma vlan_moved_OK: "membershipOK (Some (vlan_info_of (vid, vlan_moved vid old port mode))) port mode"
proof -
  have "in_set (vv_member (vlan_moved vid old port mode)) port \<longleftrightarrow> mode \<noteq> VlanExcluded"
      "in_set (vv_member (vlan_moved vid old port mode)) port \<and> in_set (vv_untagged (vlan_moved vid old port mode)) port
        \<longleftrightarrow> mode = VlanUntagged"
    using vlan_moved_sets [of vid old port mode port] by (simp_all add: vlan_member_def vlan_untagged_def)
  then show ?thesis by (cases mode) (auto simp: membershipOK_def vlan_info_of_def Let_def)
qed

lemma apply_move:
  assumes "vs_ok d" "mustModel d = Inr sm" "0 \<le> vid" "vid \<le> 0xFFFF"
    and "mode = VlanExcluded \<or> 1 \<le> port \<and> port \<le> int (8 * ((sm_port_count sm + 7) div 8))"
    and "membersAfter (map_option (\<lambda>v. vlan_info_of (vid, v)) (map_of (vs_vlans d) vid)) port mode = (ms, ts)"
  obtains t where "VlanMembersTLV vid ms ts (sm_port_count sm) = Inr t" "plain_writes [t]"
    "apply_writes [t] d = Inr (d\<lparr>vs_vlans := AList.update vid
       (vlan_moved vid (map_of (vs_vlans d) vid) port mode) (vs_vlans d)\<rparr>)"
proof -
  let ?old = "map_of (vs_vlans d) vid" and ?w = "8 * ((sm_port_count sm + 7) div 8)"
  have old: "1 \<le> p \<and> p \<le> int ?w" if "vlan_member ?old p" for p
    using that assms(1,2) by (auto simp: vs_ok_simps vlan_ok_def list_all_iff vlan_member_def split: option.splits)
  have "set ms = {p. if p = port then mode \<noteq> VlanExcluded else vlan_member ?old p}"
      "set ts = {p. if p = port then mode = VlanTagged else vlan_member ?old p \<and> \<not> vlan_untagged ?old p}"
    using membersAfter_sets [of vid ?old port mode] assms(6) by simp_all
  then have "\<forall>p \<in> set ms. 1 \<le> p \<and> p \<le> int ?w" "\<forall>p \<in> set ts. 1 \<le> p \<and> p \<le> int ?w"
    using old assms(5) by (auto split: if_splits)
  from apply_VlanMembersTLV [OF assms(2-4) this] obtain t where
    "VlanMembersTLV vid ms ts (sm_port_count sm) = Inr t" "plain_writes [t]"
    "apply_writes [t] d = Inr (d\<lparr>vs_vlans := AList.update vid
       (vlan_after ?old (sort_uniq ms) (sort_uniq ts)) (vs_vlans d)\<rparr>)" by metis
  then show ?thesis
    using that assms(6) membersAfter_sorted [of "map_option (\<lambda>v. vlan_info_of (vid, v)) ?old" port mode]
    by (simp add: vlan_moved_def)
qed

subsection \<open>What the writer achieves\<close>

context nsdp_write_client
begin

lemma get_vlan_reads:
  "inv n s \<Longrightarrow> readable (dev s) \<Longrightarrow> \<exists>s'. get_vlan read vid s
     = (Inr (map_option (\<lambda>v. vlan_info_of (vid, v)) (map_of (vs_vlans (dev s)) vid)), s') \<and> dev s' = dev s \<and> inv n s'"
  using GetVLANs_reads [of n s] by (auto simp: get_vlan_def sbind_def find_vlan_of)

lemma SetPVID_effect:
  assumes "inv (Suc n) s" "readable (dev s)" "readable d" "wr_password w = password"
    and "port \<notin> set (wr_protected w) \<or> force" "map_of (vs_vlans (dev s)) vlan \<noteq> None"
    and "0 \<le> port" "port \<le> 0xFF" "0 \<le> vlan" "vlan \<le> 0xFFFF"
    and "d = (dev s)\<lparr>vs_pvids := AList.update port vlan (vs_pvids (dev s))\<rparr>"
  shows "\<exists>t. SetPVID read send w port vlan force s = (Inr (), t) \<and> dev t = d \<and> inv n t"
proof -
  obtain tlv where tlv: "PvidTLV port vlan = Inr tlv" "plain_writes [tlv]" "apply_writes [tlv] (dev s) = Inr d"
    using apply_PvidTLV [OF assms(7-10)] assms(11) by metis
  obtain s1 v where s1: "get_vlan read vlan s = (Inr (Some v), s1)" "dev s1 = dev s" "inv (Suc n) s1"
    using get_vlan_reads [OF assms(1,2), of vlan] assms(6) by auto
  obtain s2 where s2: "GetPVIDs read s1 = (Inr (pvids_of (dev s)), s2)" "dev s2 = dev s" "inv (Suc n) s2"
    using GetPVIDs_reads [of _ s1] s1 assms(2) by auto
  obtain p s3 where s3: "send [tlv] password s2 = (Inr p, s3)" "dev s3 = d" "inv n s3"
    using writes_apply [OF s2(3) tlv(2)] tlv(3) s2(2) by metis
  obtain s4 where s4: "GetPVIDs read s3 = (Inr (pvids_of d), s4)" "dev s4 = d" "inv n s4"
    using GetPVIDs_reads [of _ s3] s3 assms(3) by auto
  have "pvidMap (pvids_of d) port = Some vlan"
    by (simp add: pvidMap_of assms(11) update_conv')
  then have "SetPVID read send w port vlan force s = (Inr (), s4)"
    using assms(4,5) s1 s2 s3 s4 tlv(1)
    by (simp add: SetPVID_def guard_def sbind_Inr Let_def)
  with s4 show ?thesis by blast
qed

lemma SetHostname_effect:
  assumes "inv (Suc n) s" "readable (dev s)" "readable d" "wr_password w = password"
    and "TrimSpace name \<noteq> []" "is_ascii name" "trim_right NUL name = name" "length name < 50000"
    and "d = (dev s)\<lparr>vs_hostname := name\<rparr>"
  shows "\<exists>t. SetHostname read send w name s = (Inr (), t) \<and> dev t = d \<and> inv n t"
proof -
  obtain tlv where tlv: "HostnameTLV name = Inr tlv" "plain_writes [tlv]" "apply_writes [tlv] (dev s) = Inr d"
    using apply_hostname [OF assms(6,8)] assms(9) by metis
  obtain s1 h where s1: "GetHostname read s = (Inr h, s1)" "dev s1 = dev s" "inv (Suc n) s1"
    using GetHostname_reads [OF assms(1,2)] by auto
  obtain p s2 where s2: "send [tlv] password s1 = (Inr p, s2)" "dev s2 = d" "inv n s2"
    using writes_apply [OF s1(3) tlv(2)] tlv(3) s1(2) by metis
  obtain s3 where s3: "GetHostname read s2 = (Inr name, s3)" "dev s3 = d" "inv n s3"
    using GetHostname_reads [of _ s2] s2 assms(3,6,7,9) by (auto simp: decodeASCII_ascii)
  have "SetHostname read send w name s = (Inr (), s3)"
    using assms(4,5) s1 s2 s3 tlv(1) by (simp add: SetHostname_def sbind_Inr)
  with s3 show ?thesis by blast
qed

lemma SetMgmtIP_effect:
  assumes "inv (Suc n) s" "readable (dev s)" "readable d" "wr_password w = password"
    and "is_dotted a" "is_dotted m" "is_dotted g"
    and "d = (dev s)\<lparr>vs_mgmt := (vs_mgmt (dev s))\<lparr>vm_address := a, vm_netmask := m, vm_gateway := g\<rparr>\<rparr>"
  shows "\<exists>t. SetMgmtIP read send w a m g True s = (Inr (), t) \<and> dev t = d \<and> inv n t"
proof -
  obtain x y z where tlv: "IPv4TLV TagIPAddress a = Inr x" "IPv4TLV TagNetmask m = Inr y" "IPv4TLV TagGateway g = Inr z"
      "plain_writes [x, y, z]" "apply_writes [x, y, z] (dev s) = Inr d"
    using apply_addresses [OF assms(5-7)] assms(8) by metis
  obtain s1 b where s1: "GetMgmtIP read s = (Inr b, s1)" "dev s1 = dev s" "inv (Suc n) s1"
    using GetMgmtIP_reads [OF assms(1,2)] by auto
  obtain p s2 where s2: "send [x, y, z] password s1 = (Inr p, s2)" "dev s2 = d" "inv n s2"
    using writes_apply [OF s1(3) tlv(4)] tlv(5) s1(2) by metis
  obtain s3 where s3: "GetMgmtIP read s2 = (Inr (mgmt_of d), s3)" "dev s3 = d" "inv n s3"
    using GetMgmtIP_reads [of _ s2] s2 assms(3) by auto
  have "mgmtIPMatches (mgmt_of d) a m g" by (simp add: mgmtIPMatches_def mgmt_of_def assms(8))
  then have "SetMgmtIP read send w a m g True s = (Inr (), s3)"
    using assms(4) s1 s2 s3 tlv(1-3) by (simp add: SetMgmtIP_def sbind_Inr)
  with s3 show ?thesis by blast
qed

lemma SetVlanMembership_effect:
  assumes "inv (Suc n) s" "readable (dev s)" "readable d" "wr_password w = password"
    and "port \<notin> set (wr_protected w) \<or> force" "0 \<le> vid" "vid \<le> 0xFFFF"
    and "mustModel (dev s) = Inr (wr_model w)"
    and "mode = VlanExcluded \<or> 1 \<le> port \<and> port \<le> int (8 * ((sm_port_count (wr_model w) + 7) div 8))"
    and "d = (dev s)\<lparr>vs_vlans := AList.update vid (vlan_moved vid (map_of (vs_vlans (dev s)) vid) port mode)
                      (vs_vlans (dev s))\<rparr>"
  shows "\<exists>t. SetVlanMembership read send w vid port mode force s = (Inr (), t) \<and> dev t = d \<and> inv n t"
proof -
  let ?old = "map_of (vs_vlans (dev s)) vid"
  obtain ms ts where mt: "membersAfter (map_option (\<lambda>v. vlan_info_of (vid, v)) ?old) port mode = (ms, ts)"
    by fastforce
  obtain tlv where tlv: "VlanMembersTLV vid ms ts (sm_port_count (wr_model w)) = Inr tlv" "plain_writes [tlv]"
      "apply_writes [tlv] (dev s) = Inr d"
    using apply_move [OF inv_ok [OF assms(1)] assms(8,6,7,9) mt] assms(10) by metis
  obtain s1 where s1: "get_vlan read vid s = (Inr (map_option (\<lambda>v. vlan_info_of (vid, v)) ?old), s1)"
      "dev s1 = dev s" "inv (Suc n) s1"
    using get_vlan_reads [OF assms(1,2), of vid] by auto
  obtain p s2 where s2: "send [tlv] password s1 = (Inr p, s2)" "dev s2 = d" "inv n s2"
    using writes_apply [OF s1(3) tlv(2)] tlv(3) s1(2) by metis
  obtain s3 where s3: "get_vlan read vid s2 = (Inr (Some (vlan_info_of (vid, vlan_moved vid ?old port mode))), s3)"
      "dev s3 = d" "inv n s3"
    using get_vlan_reads [of _ s2 vid] s2 assms(3) by (auto simp: assms(10) update_conv')
  have "SetVlanMembership read send w vid port mode force s = (Inr (), s3)"
    using assms(4,5) s1 s2 s3 tlv(1) mt
    by (simp add: SetVlanMembership_def guard_def sbind_Inr vlan_moved_OK)
  with s3 show ?thesis by blast
qed

lemma SetPortDescription_runs:
  assumes "inv (Suc n) s" "readable (dev s)" "readable d" "wr_password w = password"
    and "port \<notin> set (wr_protected w) \<or> force" "map_of (vs_ports (dev s)) (port mod 256) = Some sim"
    and "length text < 50000" "d = labelled (port mod 256) text sim (dev s)"
  shows "\<exists>t. dev t = d \<and> inv n t \<and> SetPortDescription read send w port text force s =
    (if map_of (vs_ports d) port = None
        \<or> described (vp_description (the (map_of (vs_ports d) port))) \<noteq> (if text \<noteq> [] then Some text else None)
     then Inl (Verification ''description for port %d did not read back as %s''
                 [AInt port, quoteOrNone (if text \<noteq> [] then Some text else None)]
                 (descriptionLookup (descriptionMap (ports_of (dev s))) port)
                 (descriptionLookup (descriptionMap (ports_of d)) port))
     else Inr (), t)"
proof -
  note tlv = apply_port_label [OF assms(6,7)]
  obtain s1 where s1: "GetPorts read s = (Inr (ports_of (dev s)), s1)" "dev s1 = dev s" "inv (Suc n) s1"
    using GetPorts_reads [OF assms(1,2)] by auto
  obtain p s2 where s2: "send [PortNameTLV port text] password s1 = (Inr p, s2)" "dev s2 = d" "inv n s2"
    using writes_apply [OF s1(3) tlv(1)] tlv(2) s1(2) assms(8) by metis
  obtain s3 where s3: "GetPorts read s2 = (Inr (ports_of d), s3)" "dev s3 = d" "inv n s3"
    using GetPorts_reads [of _ s2] s2 assms(3) by auto
  have eq: "strPtrEqual a b \<longleftrightarrow> a = b" for a b by (cases a; cases b) (auto simp: strPtrEqual_def)
  have g: "guard w port force = Inr ()" using assms(5) by (simp add: guard_def)
  show ?thesis
    using assms(4) s1 s2 s3
    by (intro exI [of _ s3])
       (cases "map_of (vs_ports d) port",
        simp_all add: g SetPortDescription_def sbind_Inr Let_def eq descriptionMap_of split del: if_split)
qed

lemma SetPortDescription_effect:
  assumes "inv (Suc n) s" "readable (dev s)" "readable d" "wr_password w = password"
    and "port \<notin> set (wr_protected w) \<or> force" "map_of (vs_ports (dev s)) port = Some sim"
    and "trim_right NUL text = text" "length text < 50000" "d = labelled port text sim (dev s)"
  shows "\<exists>t. SetPortDescription read send w port text force s = (Inr (), t) \<and> dev t = d \<and> inv n t"
proof -
  obtain sm where "mustModel (dev s) = Inr sm" using vs_ok_model inv_ok [OF assms(1)] by blast
  then have "port_ok (port, sim)" using inv_ok [OF assms(1)] assms(6) by (simp add: vs_ok_simps)
  then have "port mod 256 = port" by (simp add: port_ok_def)
  then obtain t where t: "dev t = d" "inv n t" "SetPortDescription read send w port text force s =
    (if map_of (vs_ports d) port = None
        \<or> described (vp_description (the (map_of (vs_ports d) port))) \<noteq> (if text \<noteq> [] then Some text else None)
     then Inl (Verification ''description for port %d did not read back as %s''
                 [AInt port, quoteOrNone (if text \<noteq> [] then Some text else None)]
                 (descriptionLookup (descriptionMap (ports_of (dev s))) port)
                 (descriptionLookup (descriptionMap (ports_of d)) port))
     else Inr (), t)"
    using SetPortDescription_runs [OF assms(1-5), of sim "text"] assms(6,8,9) by auto
  have "map_of (vs_ports d) port = Some (sim\<lparr>vp_description := (if text \<noteq> [] then Some text else None)\<rparr>)"
    using assms(7) by (simp add: assms(9) labelled_def update_conv' described_def)
  with t assms(7) show ?thesis by (intro exI [of _ t]) (auto simp: described_def)
qed

lemma CreateVlan_effect:
  assumes "inv (Suc n) s" "readable (dev s)" "readable d" "wr_password w = password"
    and "0 \<le> vid" "vid \<le> 0xFFFF" "mustModel (dev s) = Inr (wr_model w)" "map_of (vs_vlans (dev s)) vid = None"
    and "d = (dev s)\<lparr>vs_vlans := AList.update vid (vlan_after None [] []) (vs_vlans (dev s))\<rparr>"
  shows "\<exists>t. CreateVlan read send w vid name s = (Inr (), t) \<and> dev t = d \<and> inv n t"
proof -
  obtain tlv where tlv: "VlanMembersTLV vid [] [] (sm_port_count (wr_model w)) = Inr tlv" "plain_writes [tlv]"
      "apply_writes [tlv] (dev s) = Inr d"
    using apply_VlanMembersTLV [OF assms(7,5,6), of "[]" "[]"] assms(8,9)
    by (auto simp: sort_uniq_def)
  obtain s1 where s1: "GetVLANs read s = (Inr (vlans_of (dev s)), s1)" "dev s1 = dev s" "inv (Suc n) s1"
    using GetVLANs_reads [OF assms(1,2)] by auto
  obtain p s2 where s2: "send [tlv] password s1 = (Inr p, s2)" "dev s2 = d" "inv n s2"
    using writes_apply [OF s1(3) tlv(2)] tlv(3) s1(2) by metis
  obtain s3 where s3: "GetVLANs read s2 = (Inr (vlans_of d), s3)" "dev s3 = d" "inv n s3"
    using GetVLANs_reads [of _ s2] s2 assms(3) by auto
  have "vid \<notin> set (vlanIDs (vlans_of (dev s)))" "vid \<in> set (vlanIDs (vlans_of d))"
    using assms(8) by (auto simp: vlanIDs_of assms(9) update_conv')
  then have "CreateVlan read send w vid name s = (Inr (), s3)"
    using assms(4) s1 s2 s3 tlv(1) by (simp add: CreateVlan_def sbind_Inr)
  with s3 show ?thesis by blast
qed

lemma CreateVlan_existing:
  assumes "inv n s" "readable (dev s)" "map_of (vs_vlans (dev s)) vid \<noteq> None"
  shows "\<exists>t. CreateVlan read send w vid name s = (Inr (), t) \<and> dev t = dev s \<and> inv n t"
proof -
  obtain s1 where s1: "GetVLANs read s = (Inr (vlans_of (dev s)), s1)" "dev s1 = dev s" "inv n s1"
    using GetVLANs_reads [OF assms(1,2)] by auto
  have "vid \<in> set (vlanIDs (vlans_of (dev s)))" using assms(3) by (auto simp: vlanIDs_of)
  with s1 show ?thesis by (simp add: CreateVlan_def sbind_Inr)
qed

lemma DeleteVlan_effect:
  assumes "inv (Suc n) s" "readable (dev s)" "readable d" "wr_password w = password"
    and "map_of (vs_vlans (dev s)) (vid mod 65536) \<noteq> None" "d = destroyed (vid mod 65536) (dev s)"
  shows "\<exists>t. DeleteVlan read send w vid True s = (Inr (), t) \<and> dev t = d \<and> inv n t"
proof -
  have d: "apply_writes [VLANDestroyTLV vid] (dev s) = Inr d"
    using apply_destroy(2) [of vid "dev s"] assms(5,6) by simp
  obtain s1 where s1: "GetVLANs read s = (Inr (vlans_of (dev s)), s1)" "dev s1 = dev s" "inv (Suc n) s1"
    using GetVLANs_reads [OF assms(1,2)] by auto
  obtain p s2 where s2: "send [VLANDestroyTLV vid] password s1 = (Inr p, s2)" "dev s2 = d" "inv n s2"
    using writes_apply [OF s1(3) apply_destroy(1)] d s1(2) by metis
  obtain s3 where s3: "GetVLANs read s2 = (Inr (vlans_of d), s3)" "dev s3 = d" "inv n s3"
    using GetVLANs_reads [of _ s2] s2 assms(3) by auto
  have "vid \<notin> set (vlanIDs (vlans_of d))"
  proof
    assume "vid \<in> set (vlanIDs (vlans_of d))"
    then have "map_of (vs_vlans d) vid \<noteq> None" by (auto simp: vlanIDs_of)
    moreover then have "0 \<le> vid" "vid \<le> 0xFFFF"
      using inv_ok [OF s3(3)] vs_ok_model [OF inv_ok [OF s3(3)]]
      by (auto simp: s3(2) vs_ok_simps vlan_ok_def)
    ultimately show False
      by (simp add: assms(6) destroyed_def delete_conv')
  qed
  then have "DeleteVlan read send w vid True s = (Inr (), s3)"
    using assms(4) s1 s2 s3 by (simp add: DeleteVlan_def sbind_Inr)
  with s3 show ?thesis by blast
qed

end

end
