(* ===== verification/Virtual_Face.thy ===== *)
theory Virtual_Face
  imports Virtual_Projection Nsdp_Client
begin

unbundle bit_operations_syntax

section \<open>The virtual switch's NSDP face (virtual/nsdpface.go)\<close>

text \<open>
  The command responder: it answers read requests from the state's projection, authenticates
  write requests (the XOR password, or the salted token with its lockout) and applies them.
  \<open>serve_datagram\<close> is one turn of the receive loop; \<open>virtual_net\<close> is the client's
  transceiver over such a face.
\<close>

subsection \<open>State\<close>

record nsdp_face =
  nf_state :: vstate
  nf_salt :: bytes
  nf_counter :: u32
  nf_failures :: nat

abbreviation (input) v2EscalateAt :: nat where "v2EscalateAt \<equiv> 3"
abbreviation (input) v2SilenceAt :: nat where "v2SilenceAt \<equiv> 5"

definition NewNsdpFace :: "vstate \<Rightarrow> nsdp_face" where
  "NewNsdpFace s = \<lparr>nf_state = s, nf_salt = [0, 0, 0, 0], nf_counter = 0, nf_failures = 0\<rparr>"

definition nextSalt :: "nsdp_face \<Rightarrow> bytes \<times> nsdp_face" where
  "nextSalt f =
     (let c = nf_counter f + 1; salt = put32 (c * 2654435761)
      in (salt, f\<lparr>nf_counter := c, nf_salt := salt\<rparr>))"

definition saltIssued :: "nsdp_face \<Rightarrow> bool" where
  "saltIssued f \<longleftrightarrow> nf_counter f \<noteq> 0"

subsection \<open>Handlers\<close>

definition response_to :: "packet \<Rightarrow> vstate \<Rightarrow> op \<Rightarrow> packet" where
  "response_to req s code =
     \<lparr>pk_op = code, pk_client_mac = pk_client_mac req, pk_server_mac = vs_mac s,
      pk_sequence = pk_sequence req, pk_result = ResultSuccess, pk_error_attr = 0, pk_tlvs = []\<rparr>"

definition readResponse :: "packet \<Rightarrow> (nsdp_face, go_error, packet) action" where
  "readResponse req f =
     (let tags = map tlv_tag (pk_tlvs req); s = nf_state f; resp = response_to req s OpReadResponse in
      if TagAuthV2Password \<in> set tags
      then (Inr (resp\<lparr>pk_result := ResultReadOnly, pk_error_attr := TagAuthV2Password\<rparr>), f)
      else case NsdpTlvs s tags of
        Inl e \<Rightarrow> (Inl e, f)
      | Inr ts \<Rightarrow>
          let encpass = (if TagAuthV2Encpass \<in> set tags
                then [TLV TagAuthV2Encpass [0x00, 0x00, 0x00, if vs_auth_v2 s then 0x10 else 0x01]] else []);
              (salt, f') = (if TagAuthV2Salt \<in> set tags
                then (let (v, g) = nextSalt f in ([TLV TagAuthV2Salt v], g)) else ([], f));
              resp' = resp\<lparr>pk_tlvs := ts @ encpass @ salt\<rparr> in
          if pk_tlvs resp' = [] \<and> length (pk_tlvs req) = 1 \<and> tlv_tag (hd (pk_tlvs req)) \<noteq> TagEndOfMark
          then (Inr (resp'\<lparr>pk_result := ResultReadOnly, pk_error_attr := tlv_tag (hd (pk_tlvs req))\<rparr>), f')
          else (Inr resp', f'))"

definition config_tlvs :: "tag \<Rightarrow> tlv list \<Rightarrow> tlv list" where
  "config_tlvs auth ts = filter (\<lambda>t. tlv_tag t \<noteq> auth) ts"

definition write_v2 :: "packet \<Rightarrow> (nsdp_face, go_error, packet option) action" where
  "write_v2 req f =
     (let s = nf_state f; resp = response_to req s OpWriteResponse in
      if nf_failures f > v2SilenceAt then (Inr None, f)
      else
        let token = first_value TagAuthV2Password (pk_tlvs req) in
        case AuthV2Password (vs_password s) (vs_mac s) (nf_salt f) of
          Inl e \<Rightarrow> (Inl e, f)
        | Inr expected \<Rightarrow>
            if token = None \<or> \<not> saltIssued f \<or> token \<noteq> Some expected
            then
              let n = nf_failures f + 1;
                  code = (if n > v2EscalateAt then ResultLockedV2 else ResultBadPasswordV2);
                  attr = (case pk_tlvs req of [] \<Rightarrow> 0 | t # _ \<Rightarrow> tlv_tag t)
              in (Inr (Some (resp\<lparr>pk_result := code, pk_error_attr := attr\<rparr>)), f\<lparr>nf_failures := n\<rparr>)
            else
              case apply_writes (config_tlvs TagAuthV2Password (pk_tlvs req)) s of
                Inl e \<Rightarrow> (Inl e, f)
              | Inr s' \<Rightarrow> (Inr (Some resp), f\<lparr>nf_state := s', nf_failures := 0\<rparr>))"

definition write_v1 :: "packet \<Rightarrow> (nsdp_face, go_error, packet option) action" where
  "write_v1 req f =
     (let s = nf_state f; resp = response_to req s OpWriteResponse in
      case EncodePasswordV1 (vs_password s) of
        Inl e \<Rightarrow> (Inl e, f)
      | Inr expected \<Rightarrow>
          if TLV TagPassword expected \<notin> set (pk_tlvs req)
          then (Inr (Some (resp\<lparr>pk_result := ResultBadPassword\<rparr>)), f)
          else
            case apply_writes (config_tlvs TagPassword (pk_tlvs req)) s of
              Inl e \<Rightarrow> (Inl e, f)
            | Inr s' \<Rightarrow> (Inr (Some resp), f\<lparr>nf_state := s'\<rparr>))"

definition writeResponse :: "packet \<Rightarrow> (nsdp_face, go_error, packet option) action" where
  "writeResponse req f = (if vs_auth_v2 (nf_state f) then write_v2 req f else write_v1 req f)"

definition handle :: "packet \<Rightarrow> (nsdp_face, go_error, packet option) action" where
  "handle req f =
     (if pk_op req = OpReadRequest
      then (case readResponse req f of (Inl e, g) \<Rightarrow> (Inl e, g) | (Inr resp, g) \<Rightarrow> (Inr (Some resp), g))
      else if pk_op req = OpWriteRequest then writeResponse req f
      else (Inr None, f))"

text \<open>
  One turn of \<^verbatim>\<open>serve\<close>: no reply for a datagram that does not decode, a request that
  fails or is not answered, or a response that does not encode; a panic ends the process.
\<close>

definition serve_datagram :: "bytes \<Rightarrow> (nsdp_face, go_error, bytes option) action" where
  "serve_datagram datagram f =
     (case DecodePacket (take 65535 datagram) of
        Inl e \<Rightarrow> (if e = Go_Panic then (Inl e, f) else (Inr None, f))
      | Inr req \<Rightarrow>
          (case handle req f of
             (Inl e, g) \<Rightarrow> (if e = Go_Panic then (Inl e, g) else (Inr None, g))
           | (Inr None, g) \<Rightarrow> (Inr None, g)
           | (Inr (Some resp), g) \<Rightarrow>
               (case EncodePacket resp of
                  Inl e \<Rightarrow> (if e = Go_Panic then (Inl e, g) else (Inr None, g))
                | Inr out \<Rightarrow> (Inr (Some out), g))))"

subsection \<open>A network of one switch\<close>

text \<open>
  The loopback network between one client socket and the face: a datagram that is sent is
  served at once and its reply, if any, waits in the socket; reading an empty socket times out.
\<close>

type_synonym net = "nsdp_face \<times> bytes option"

definition net_dial :: "string \<Rightarrow> int \<Rightarrow> int \<Rightarrow> string \<Rightarrow> (net, go_error, unit) action" where
  "net_dial host sp cp iface = (\<lambda>(f, m). (Inr (), (f, None)))"

definition net_send :: "bytes \<Rightarrow> (net, go_error, unit) action" where
  "net_send datagram = (\<lambda>(f, m).
     case serve_datagram datagram f of (Inl e, g) \<Rightarrow> (Inl e, (g, None)) | (Inr r, g) \<Rightarrow> (Inr (), (g, r)))"

definition net_recv :: "(net, bool \<times> go_error, bytes) action" where
  "net_recv = (\<lambda>(f, m).
     case m of None \<Rightarrow> (Inl (True, Foreign ''i/o timeout''), (f, None)) | Some d \<Rightarrow> (Inr d, (f, None)))"

definition virtual_net :: "net transceiver" where
  "virtual_net = realTransceive net_dial net_send (sret (Inr ())) net_recv"

lemma virtual_net_reply:
  "serve_datagram d f = (Inr (Some out), g) \<Longrightarrow> virtual_net d h sp cp i (f, m) = (Inr (take 4096 out), (g, None))"
  by (simp add: virtual_net_def realTransceive_def net_dial_def net_send_def net_recv_def sbind_def)

lemma virtual_net_silence:
  "serve_datagram d f = (Inr None, g) \<Longrightarrow>
   virtual_net d h sp cp i (f, m)
     = (Inl (errNSDPCause (Foreign ''i/o timeout'') ''NSDP request to %s timed out'' [AStr h]), (g, None))"
  by (simp add: virtual_net_def realTransceive_def net_dial_def net_send_def net_recv_def sbind_def)

subsection \<open>Faces that can answer\<close>

definition face_ok :: "nsdp_face \<Rightarrow> bool" where
  "face_ok f \<longleftrightarrow> vs_ok (nf_state f) \<and> length (nf_salt f) = 4 \<and> nf_failures f \<le> v2SilenceAt + 1"

lemma face_ok_new: "vs_ok s \<Longrightarrow> face_ok (NewNsdpFace s)"
  by (simp add: face_ok_def NewNsdpFace_def)

lemma apply_writes_ok:
  assumes "vs_ok s" "list_all wf_tlv ts"
  shows "\<exists>s'. apply_writes ts s = Inr s' \<and> vs_ok s' \<and> identity_kept s s'"
  using assms
proof (induction ts arbitrary: s)
  case (Cons t ts)
  obtain u where u: "ApplyNsdpWrite (tlv_tag t) (tlv_value t) s = Inr u" "vs_ok u" "identity_kept s u"
    using apply_write_ok [of s "tlv_value t" "tlv_tag t"] Cons.prems by (auto simp: wf_tlv_def)
  obtain s' where "apply_writes ts u = Inr s'" "vs_ok s'" "identity_kept u s'"
    using Cons.IH [OF u(2)] Cons.prems by auto
  with u show ?case by (auto intro: identity_kept_trans)
qed simp

end
