(* ===== verification/Nsdp_System.thy ===== *)
theory Nsdp_System
  imports Nsdp_Writer Virtual_Face
begin

unbundle bit_operations_syntax

section \<open>Client, network and switch together\<close>

text \<open>
  The UDP client talking to the virtual switch over \<open>virtual_net\<close>, with either
  authentication scheme.  The interpretation at the end discharges the laws of
  \<open>nsdp_write_client\<close> for that system, and the properties say what the writer's
  operations do to the switch.
\<close>

subsection \<open>One exchange with the face\<close>

lemma serve_request:
  assumes "wf_packet req" "36 + length (concat (map TLV_Encode (pk_tlvs req))) \<le> 65535"
    and "handle req f = (Inr (Some resp), g)" "wf_packet resp"
    and "reply_fits (pk_tlvs resp)"
  shows "exchange virtual_net c req (f, m) = (Inr resp, (g, None))"
proof -
  obtain d where d: "EncodePacket req = Inr d" "DecodePacket d = Inr req"
      "length d = 36 + length (concat (map TLV_Encode (pk_tlvs req)))"
    using encode_decode_packet [OF assms(1)] by metis
  obtain out where out: "EncodePacket resp = Inr out" "DecodePacket out = Inr resp"
      "length out = 36 + length (concat (map TLV_Encode (pk_tlvs resp)))"
    using encode_decode_packet [OF assms(4)] by metis
  have "take 65535 d = d" using d(3) assms(2) by simp
  then have "serve_datagram d f = (Inr (Some out), g)"
    using d(2) out(1) assms(3) by (simp add: serve_datagram_def)
  moreover have "take 4096 out = out" using out(3) assms(5) by (simp add: reply_fits_def)
  ultimately show ?thesis
    by (intro exchange_ok [OF d(1) _ out(2)]) (simp add: virtual_net_reply)
qed

lemma wf_response:
  assumes "vs_ok s" "length (pk_client_mac req) = 6" "isValidOp code" "list_all wf_tlv ts"
  shows "wf_packet ((response_to req s code)\<lparr>pk_result := r, pk_error_attr := a, pk_tlvs := ts\<rparr>)"
  using assms vs_ok_model [OF assms(1)] by (auto simp: wf_packet_def response_to_def vs_ok_simps)

text \<open>A read request with no authentication tag is answered from the projection.\<close>

lemma handle_plain_read:
  assumes "vs_ok (nf_state f)" "pk_op req = OpReadRequest" "length (pk_client_mac req) = 6"
    and "plain_tags (map tlv_tag (pk_tlvs req))"
    and "NsdpTlvs (nf_state f) (map tlv_tag (pk_tlvs req)) = Inr ts" "list_all wf_tlv ts"
  shows "\<exists>resp. handle req f = (Inr (Some resp), f) \<and> wf_packet resp \<and> pk_op resp = OpReadResponse
    \<and> pk_tlvs resp = ts \<and> pk_server_mac resp = vs_mac (nf_state f)"
proof -
  let ?s = "nf_state f"
  obtain r a where "handle req f
      = (Inr (Some ((response_to req ?s OpReadResponse)\<lparr>pk_result := r, pk_error_attr := a, pk_tlvs := ts\<rparr>)), f)"
  proof (cases "ts = [] \<and> length (pk_tlvs req) = 1 \<and> tlv_tag (hd (pk_tlvs req)) \<noteq> TagEndOfMark")
    case True
    then have "handle req f = (Inr (Some ((response_to req ?s OpReadResponse)\<lparr>pk_result := ResultReadOnly,
        pk_error_attr := tlv_tag (hd (pk_tlvs req)), pk_tlvs := ts\<rparr>)), f)"
      using assms by (simp add: handle_def readResponse_def Let_def plain_tags_def response_to_def)
    then show ?thesis using that by blast
  next
    case False
    then have "handle req f = (Inr (Some ((response_to req ?s OpReadResponse)\<lparr>pk_result := 0,
        pk_error_attr := 0, pk_tlvs := ts\<rparr>)), f)"
      using assms by (auto simp: handle_def readResponse_def Let_def plain_tags_def response_to_def)
    then show ?thesis using that by blast
  qed
  moreover have "isValidOp OpReadResponse" by (simp add: isValidOp_def)
  ultimately show ?thesis
    using wf_response [OF assms(1,3) _ assms(6)] by (auto simp: response_to_def)
qed

lemma wf_empty_tlvs:
  "TagEndOfMark \<notin> set tags \<Longrightarrow> list_all wf_tlv (map (\<lambda>t. TLV t []) tags)"
  by (auto simp: list_all_iff wf_tlv_def)

lemma length_empty_tlvs: "length (concat (map TLV_Encode (map (\<lambda>t. TLV t []) tags))) = 4 * length tags"
  by (induction tags) simp_all

definition read_request :: "udp_client \<Rightarrow> tag list \<Rightarrow> packet" where
  "read_request c tags = BuildReadRequest (client_mac c) zeroMAC (uc_sequence c) tags"

lemma read_request_fields [simp]:
  "pk_op (read_request c tags) = OpReadRequest" "pk_client_mac (read_request c tags) = client_mac c"
  "pk_tlvs (read_request c tags) = map (\<lambda>t. TLV t []) tags"
  "map tlv_tag (pk_tlvs (read_request c tags)) = tags"
  by (simp_all add: read_request_def BuildReadRequest_eq request_def o_def)

lemma wf_read_request:
  assumes "length (client_mac c) = 6" "TagEndOfMark \<notin> set tags"
  shows "wf_packet (read_request c tags)"
  unfolding read_request_def BuildReadRequest_eq
  using assms by (intro wf_request wf_empty_tlvs) (simp_all add: isValidOp_def zeroMAC_def)

lemma nextSeq_fields [simp]:
  "client_mac (nextSeq c) = client_mac c" "uc_resolved_scheme (nextSeq c) = uc_resolved_scheme c"
  "uc_auth_scheme (nextSeq c) = uc_auth_scheme c"
  by (simp_all add: client_mac_def nextSeq_def)

lemma vs_ok_mac: "vs_ok s \<Longrightarrow> length (vs_mac s) = 6"
  by (simp add: vs_ok_def)

lemma client_read_ok:
  assumes "exchange virtual_net (nextSeq c) (read_request (nextSeq c) tags) (f, m) = (Inr resp, (g, None))"
    and "pk_op resp = OpReadResponse"
  shows "UDPClient_Read virtual_net tags (c, (f, m)) = (Inr resp, (nextSeq c, (g, None)))"
  using assms by (simp add: UDPClient_Read_def read_request_def Let_def)

lemma client_plain_read:
  assumes "vs_ok (nf_state f)" "length (client_mac c) = 6" "plain_tags tags"
    and "NsdpTlvs (nf_state f) tags = Inr ts" "reply_fits ts"
  shows "\<exists>p. UDPClient_Read virtual_net tags (c, (f, m)) = (Inr p, (nextSeq c, (f, None)))
    \<and> pk_tlvs p = ts \<and> pk_server_mac p = vs_mac (nf_state f)"
proof -
  let ?req = "read_request (nextSeq c) tags"
  obtain sm where "mustModel (nf_state f) = Inr sm" using vs_ok_model [OF assms(1)] by blast
  then have wf: "list_all wf_tlv ts"
    using NsdpTlvs_answers [OF _ assms(1), of sm tags] assms(4) by (metis sum.inject(2))
  obtain resp where resp: "handle ?req f = (Inr (Some resp), f)" "wf_packet resp" "pk_op resp = OpReadResponse"
      "pk_tlvs resp = ts" "pk_server_mac resp = vs_mac (nf_state f)"
    using handle_plain_read [of f ?req ts] assms wf by (auto simp del: read_request_fields(3))
  have "wf_packet ?req" using assms(2,3) by (intro wf_read_request) (simp_all add: plain_tags_def)
  moreover have "36 + length (concat (map TLV_Encode (pk_tlvs ?req))) \<le> 65535"
    using assms(3) by (simp add: length_empty_tlvs plain_tags_def del: map_map)
  ultimately have "exchange virtual_net (nextSeq c) ?req (f, m) = (Inr resp, (f, None))"
    using serve_request resp assms(5) by blast
  from client_read_ok [OF this resp(3)] resp(4,5) show ?thesis by blast
qed

subsection \<open>Resolving the scheme and authenticating\<close>

definition encpass_value :: "vstate \<Rightarrow> bytes" where
  "encpass_value s = [0x00, 0x00, 0x00, if vs_auth_v2 s then 0x10 else 0x01]"

definition scheme_of :: "vstate \<Rightarrow> string" where
  "scheme_of s = (if vs_auth_v2 s then ''v2'' else ''v1'')"

lemma EncpassIsV2_value: "EncpassIsV2 (encpass_value s) \<longleftrightarrow> vs_auth_v2 s"
  by (simp add: EncpassIsV2_def encpass_value_def)

lemma NsdpTlvs_none:
  assumes "vs_ok s" "set tags \<inter> set emission_order = {}"
  shows "NsdpTlvs s tags = Inr []"
proof -
  have "filter (\<lambda>t. t \<in> set tags) emission_order = []"
    using assms(2) by (auto simp: filter_empty_conv)
  then show ?thesis using vs_ok_model [OF assms(1)] by (auto simp: NsdpTlvs_def)
qed

lemma client_auth_read:
  assumes "vs_ok (nf_state f)" "length (client_mac c) = 6"
    and "tag = TagAuthV2Encpass \<and> v = encpass_value (nf_state f) \<and> g = f
       \<or> tag = TagAuthV2Salt \<and> (v, g) = nextSalt f"
  shows "\<exists>p. UDPClient_Read virtual_net [tag] (c, (f, m)) = (Inr p, (nextSeq c, (g, None)))
    \<and> firstTLVValue p tag = Some v \<and> pk_server_mac p = vs_mac (nf_state f)"
proof -
  let ?req = "read_request (nextSeq c) [tag]" and ?s = "nf_state f"
  let ?resp = "(response_to ?req ?s OpReadResponse)\<lparr>pk_result := 0, pk_error_attr := 0, pk_tlvs := [TLV tag v]\<rparr>"
  have none: "NsdpTlvs ?s [tag] = Inr []"
    using assms(3) by (intro NsdpTlvs_none [OF assms(1)]) (auto simp: emission_order_def)
  have "handle ?req f = (Inr (Some ?resp), g)"
    using assms(3) none
    by (auto simp: handle_def readResponse_def Let_def encpass_value_def response_to_def nextSalt_def
        read_request_def BuildReadRequest_eq request_def)
  moreover have "length v = 4"
    using assms(3) by (auto simp: encpass_value_def nextSalt_def Let_def)
  then have "reply_fits [TLV tag v]" "list_all wf_tlv [TLV tag v]"
    using assms(3) by (auto simp: reply_fits_def wf_tlv_def)
  moreover then have "wf_packet ?resp"
    using assms(2) by (intro wf_response [OF assms(1)]) (simp_all add: isValidOp_def)
  moreover have "wf_packet ?req" using assms(2,3) by (intro wf_read_request) auto
  moreover have "36 + length (concat (map TLV_Encode (pk_tlvs ?req))) \<le> 65535" by simp
  ultimately have "exchange virtual_net (nextSeq c) ?req (f, m) = (Inr ?resp, (g, None))"
    by (intro serve_request) simp_all
  from client_read_ok [OF this] show ?thesis
    by (simp add: firstTLVValue_def response_to_def)
qed

text \<open>A client whose scheme is the switch's, or that will find it out by asking.\<close>

definition scheme_ok :: "udp_client \<Rightarrow> vstate \<Rightarrow> bool" where
  "scheme_ok c s \<longleftrightarrow> uc_resolved_scheme c = scheme_of s
     \<or> uc_resolved_scheme c = [] \<and> (uc_auth_scheme c = scheme_of s \<or> uc_auth_scheme c = ''auto'')"

definition same_mac :: "udp_client \<Rightarrow> udp_client \<Rightarrow> bool" where
  "same_mac c c' \<longleftrightarrow> client_mac c' = client_mac c"

lemma scheme_of_cases: "scheme_of s = ''v1'' \<and> \<not> vs_auth_v2 s \<or> scheme_of s = ''v2'' \<and> vs_auth_v2 s"
  by (simp add: scheme_of_def)

lemma resolves:
  assumes "vs_ok (nf_state f)" "length (client_mac c) = 6" "scheme_ok c (nf_state f)"
  shows "\<exists>c' m'. resolveScheme virtual_net (c, (f, m)) = (Inr (scheme_of (nf_state f)), (c', (f, m')))
    \<and> client_mac c' = client_mac c \<and> uc_resolved_scheme c' = scheme_of (nf_state f)"
proof -
  let ?s = "nf_state f"
  have nonempty: "scheme_of ?s \<noteq> []" by (simp add: scheme_of_def)
  consider "uc_resolved_scheme c = scheme_of ?s"
    | "uc_resolved_scheme c = []" "uc_auth_scheme c = scheme_of ?s"
    | "uc_resolved_scheme c = []" "uc_auth_scheme c = ''auto''"
    using assms(3) by (auto simp: scheme_ok_def)
  then show ?thesis
  proof cases
    case 1
    then show ?thesis using resolveScheme_resolved [of c virtual_net "(f, m)"] nonempty by auto
  next
    case 2
    then show ?thesis
      using resolveScheme_forced [OF 2, of virtual_net "(f, m)"] scheme_of_cases [of ?s]
      by (auto simp: client_mac_def)
  next
    case 3
    obtain p where p: "UDPClient_Read virtual_net [TagAuthV2Encpass] (c, (f, m)) = (Inr p, (nextSeq c, (f, None)))"
        "firstTLVValue p TagAuthV2Encpass = Some (encpass_value ?s)"
      using client_auth_read [OF assms(1,2)] by blast
    have "resolveScheme virtual_net (c, (f, m))
        = (Inr (scheme_of ?s), ((nextSeq c)\<lparr>uc_resolved_scheme := scheme_of ?s\<rparr>, (f, None)))"
      using resolveScheme_detects [OF 3 p] by (simp add: EncpassIsV2_value scheme_of_def Let_def)
    then show ?thesis by (simp add: client_mac_def nextSeq_def)
  qed
qed

lemma config_of_plain: "plain_writes ts \<Longrightarrow> auth \<in> {TagPassword, TagAuthV2Password} \<Longrightarrow> config_tlvs auth ts = ts"
  by (auto simp: config_tlvs_def plain_writes_def list_all_iff intro!: filter_True)

definition write_request :: "udp_client \<Rightarrow> tlv \<Rightarrow> tlv list \<Rightarrow> packet" where
  "write_request c auth tlvs = request OpWriteRequest (client_mac c) zeroMAC (uc_sequence c) (auth # tlvs)"

lemma write_request_ok:
  assumes "length (client_mac c) = 6" "wf_tlv auth" "length (tlv_value auth) \<le> 4096" "plain_writes tlvs"
  shows "wf_packet (write_request c auth tlvs)"
    "36 + length (concat (map TLV_Encode (pk_tlvs (write_request c auth tlvs)))) \<le> 65535"
  using assms
  by (simp_all add: write_request_def wf_packet_def request_def isValidOp_def zeroMAC_def plain_writes_def)

lemma write_exchange:
  assumes "face_ok f" "length (client_mac c) = 6" "wf_tlv auth" "length (tlv_value auth) \<le> 4096" "plain_writes tlvs"
    and "writeResponse (write_request c auth tlvs) f
      = (Inr (Some (response_to (write_request c auth tlvs) (nf_state f) OpWriteResponse)), g)"
  shows "exchange virtual_net c (write_request c auth tlvs) (f, m)
    = (Inr (response_to (write_request c auth tlvs) (nf_state f) OpWriteResponse), (g, None))"
proof (rule serve_request [OF write_request_ok [OF assms(2-5)]])
  let ?req = "write_request c auth tlvs"
  show "handle ?req f = (Inr (Some (response_to ?req (nf_state f) OpWriteResponse)), g)"
    using assms(6) by (simp add: handle_def write_request_def request_def)
  have "vs_ok (nf_state f)" using assms(1) by (simp add: face_ok_def)
  from wf_response [OF this, of ?req OpWriteResponse "[]" 0 0] assms(2)
  show "wf_packet (response_to ?req (nf_state f) OpWriteResponse)"
    by (simp add: response_to_def write_request_def request_def isValidOp_def)
qed (simp add: reply_fits_def response_to_def)

lemma UDPClient_Write_ok:
  assumes "buildAuthWrite tr tlvs password s = (Inr req, (c, n))"
    and "exchange tr c req n = (Inr resp, n')" "pk_op resp = OpWriteResponse" "pk_result resp = ResultSuccess"
  shows "UDPClient_Write tr tlvs password s = (Inr resp, (c, n'))"
  using assms by (simp add: UDPClient_Write_def sbind_def CheckResult_def)

text \<open>
  The system's invariant: a face that can answer and has not gone silent, a client with a
  six-byte address, the switch's password, and a scheme that is or will be the right one.  Each
  write takes one salt, and the face takes its 32-bit salt counter for "none issued" when it
  wraps to zero: \<open>n\<close> more writes are covered while the counter stays below that.
\<close>

definition system_inv :: "string \<Rightarrow> nat \<Rightarrow> udp_client \<times> net \<Rightarrow> bool" where
  "system_inv password n = (\<lambda>(c, (f, m)).
     face_ok f \<and> nf_failures f \<le> v2SilenceAt \<and> length (client_mac c) = 6
     \<and> vs_password (nf_state f) = password \<and> is_ascii password \<and> length password \<le> 4096
     \<and> scheme_ok c (nf_state f) \<and> unat (nf_counter f) + n < 2 ^ 32)"

definition system_dev :: "udp_client \<times> net \<Rightarrow> vstate" where
  "system_dev = (\<lambda>(c, (f, m)). nf_state f)"

lemma system_write_v1:
  assumes "system_inv password (Suc n) (c, (f, m))" "\<not> vs_auth_v2 (nf_state f)" "plain_writes tlvs"
    and "apply_writes tlvs (nf_state f) = Inr d"
  shows "\<exists>p c' g. UDPClient_Write virtual_net tlvs password (c, (f, m)) = (Inr p, (c', (g, None)))
    \<and> nf_state g = d \<and> system_inv password n (c', (g, None))"
proof -
  have f: "face_ok f" "vs_ok (nf_state f)" "length (client_mac c) = 6" "is_ascii password"
      "vs_password (nf_state f) = password" "length password \<le> 4096" "scheme_ok c (nf_state f)"
    using assms(1) by (auto simp: system_inv_def face_ok_def)
  obtain c1 m1 where r: "resolveScheme virtual_net (c, (f, m)) = (Inr ''v1'', (c1, (f, m1)))"
      "client_mac c1 = client_mac c" "uc_resolved_scheme c1 = ''v1''"
    using resolves [OF f(2,3,7), of m] assms(2) unfolding scheme_of_def by auto
  let ?c = "nextSeq c1" and ?pw = "TLV TagPassword (xor_key (bytes_of password))"
  let ?req = "write_request ?c ?pw tlvs"
  have build: "buildAuthWrite virtual_net tlvs password (c, (f, m)) = (Inr ?req, (?c, (f, m1)))"
    using buildAuthWrite_v1 [OF r(1)] f(4)
    by (simp add: BuildWriteRequest_def PasswordTLV_def EncodePasswordV1_ascii write_request_def)
  have d: "vs_ok d" "identity_kept (nf_state f) d"
    using apply_writes_ok [OF f(2), of tlvs] assms(3,4) by (auto simp: plain_writes_def)
  let ?g = "f\<lparr>nf_state := d\<rparr>"
  have tlvs: "config_tlvs TagPassword (?pw # tlvs) = tlvs"
    using config_of_plain [OF assms(3), of TagPassword] by (simp add: config_tlvs_def)
  have "pk_tlvs ?req = ?pw # tlvs" by (simp add: write_request_def request_def)
  then have resp: "writeResponse ?req f = (Inr (Some (response_to ?req (nf_state f) OpWriteResponse)), ?g)"
    using assms(2,4) f(4,5) tlvs
    by (simp add: writeResponse_def write_v1_def Let_def EncodePasswordV1_ascii)
  have "exchange virtual_net ?c ?req (f, m1) = (Inr (response_to ?req (nf_state f) OpWriteResponse), (?g, None))"
    using f(3,6) r(2) by (intro write_exchange [OF f(1) _ _ _ assms(3) resp]) (simp_all add: wf_tlv_def)
  from UDPClient_Write_ok [OF build this]
  have "UDPClient_Write virtual_net tlvs password (c, (f, m))
      = (Inr (response_to ?req (nf_state f) OpWriteResponse), (?c, (?g, None)))"
    by (simp add: response_to_def)
  moreover have "system_inv password n (?c, (?g, None))"
    using assms(1,2,4) d r(2,3)
    by (auto simp: system_inv_def face_ok_def identity_kept_def scheme_ok_def scheme_of_def)
  ultimately show ?thesis by fastforce
qed

lemma length_AuthV2Password: "AuthV2Password pw mac salt = Inr tok \<Longrightarrow> length tok = 8"
  by (auto simp: AuthV2Password_def res_simps split: if_splits)

lemma system_write_v2:
  assumes "system_inv password (Suc n) (c, (f, m))" "vs_auth_v2 (nf_state f)" "plain_writes tlvs"
    and "apply_writes tlvs (nf_state f) = Inr d"
  shows "\<exists>p c' g. UDPClient_Write virtual_net tlvs password (c, (f, m)) = (Inr p, (c', (g, None)))
    \<and> nf_state g = d \<and> system_inv password n (c', (g, None))"
proof -
  have f: "face_ok f" "vs_ok (nf_state f)" "length (client_mac c) = 6" "is_ascii password"
      "vs_password (nf_state f) = password" "nf_failures f \<le> 5" "scheme_ok c (nf_state f)"
      "unat (nf_counter f) + Suc n < 2 ^ 32" "length (vs_mac (nf_state f)) = 6"
    using assms(1) by (auto simp: system_inv_def face_ok_def vs_ok_mac)
  obtain c1 m1 where r: "resolveScheme virtual_net (c, (f, m)) = (Inr ''v2'', (c1, (f, m1)))"
      "client_mac c1 = client_mac c" "uc_resolved_scheme c1 = ''v2''"
    using resolves [OF f(2,3,7), of m] assms(2) unfolding scheme_of_def by auto
  obtain salt f1 where f1: "nextSalt f = (salt, f1)" by force
  then have f1_fields: "nf_state f1 = nf_state f" "nf_salt f1 = salt" "nf_failures f1 = nf_failures f"
      "nf_counter f1 = nf_counter f + 1" "length salt = 4"
    by (auto simp: nextSalt_def Let_def)
  have counter: "unat (nf_counter f1) = Suc (unat (nf_counter f))"
    using f(8) by (simp add: f1_fields unat_word_ariths)
  then have issued: "saltIssued f1" by (auto simp: saltIssued_def)
  obtain p1 where p1: "UDPClient_Read virtual_net [TagAuthV2Salt] (c1, (f, m1)) = (Inr p1, (nextSeq c1, (f1, None)))"
      "firstTLVValue p1 TagAuthV2Salt = Some salt" "pk_server_mac p1 = vs_mac (nf_state f)"
    using client_auth_read [OF f(2), of c1 TagAuthV2Salt salt f1 m1] f(3) r(2) f1 by auto
  obtain token where token: "AuthV2Password password (vs_mac (nf_state f)) salt = Inr token" "length token = 8"
    using AuthV2Password_ascii [OF f(4,9) f1_fields(5)] length_AuthV2Password by blast
  let ?c = "nextSeq (nextSeq c1)" and ?tok = "TLV TagAuthV2Password token"
  let ?req = "write_request ?c ?tok tlvs"
  have build: "buildAuthWrite virtual_net tlvs password (c, (f, m)) = (Inr ?req, (?c, (f1, None)))"
    using buildAuthWrite_v2 [OF r(1) p1(1,2)] p1(3) token(1)
    by (simp add: BuildWriteRequestV2_def write_request_def)
  have d: "vs_ok d" "identity_kept (nf_state f) d"
    using apply_writes_ok [OF f(2), of tlvs] assms(3,4) by (auto simp: plain_writes_def)
  let ?g = "f1\<lparr>nf_state := d, nf_failures := 0\<rparr>"
  have tlvs: "config_tlvs TagAuthV2Password (?tok # tlvs) = tlvs"
    using config_of_plain [OF assms(3), of TagAuthV2Password] by (simp add: config_tlvs_def)
  have "pk_tlvs ?req = ?tok # tlvs" by (simp add: write_request_def request_def)
  then have resp: "writeResponse ?req f1 = (Inr (Some (response_to ?req (nf_state f1) OpWriteResponse)), ?g)"
    using assms(2,4) f(5,6) tlvs token(1) issued
    by (simp add: writeResponse_def write_v2_def Let_def f1_fields)
  have "face_ok f1" using f(1) by (simp add: face_ok_def f1_fields)
  from write_exchange [OF this _ _ _ assms(3) resp]
  have "exchange virtual_net ?c ?req (f1, None) = (Inr (response_to ?req (nf_state f1) OpWriteResponse), (?g, None))"
    using f(3) r(2) token(2) by (simp add: wf_tlv_def)
  from UDPClient_Write_ok [OF build this]
  have "UDPClient_Write virtual_net tlvs password (c, (f, m))
      = (Inr (response_to ?req (nf_state f1) OpWriteResponse), (?c, (?g, None)))"
    by (simp add: response_to_def)
  moreover have "system_inv password n (?c, (?g, None))"
    using assms(1,2,4) d r(2,3) counter
    by (auto simp: system_inv_def face_ok_def identity_kept_def scheme_ok_def scheme_of_def f1_fields)
  ultimately show ?thesis by fastforce
qed

subsection \<open>The system is a lawful client\<close>

interpretation udp: nsdp_write_client "UDPClient_Read virtual_net" system_dev "system_inv password"
    "UDPClient_Write virtual_net" password
  for password :: string
proof unfold_locales
  fix n and s :: "udp_client \<times> net"
  assume "system_inv password n s"
  then show "vs_ok (system_dev s)" by (cases s) (auto simp: system_inv_def system_dev_def face_ok_def)
next
  fix n and s :: "udp_client \<times> net" and tags ts
  assume inv: "system_inv password n s" and tags: "plain_tags tags" "NsdpTlvs (system_dev s) tags = Inr ts" "reply_fits ts"
  obtain c f m where s: "s = (c, (f, m))" by (cases s) auto
  have "vs_ok (nf_state f)" "length (client_mac c) = 6"
    using inv by (auto simp: s system_inv_def face_ok_def)
  then obtain p where "UDPClient_Read virtual_net tags (c, (f, m)) = (Inr p, (nextSeq c, (f, None)))"
      "pk_tlvs p = ts" "pk_server_mac p = vs_mac (nf_state f)"
    using client_plain_read [of f c tags ts m] tags by (auto simp: s system_dev_def)
  moreover have "system_inv password n (nextSeq c, (f, None))"
    using inv by (auto simp: s system_inv_def scheme_ok_def)
  ultimately show "\<exists>p s'. UDPClient_Read virtual_net tags s = (Inr p, s') \<and> pk_tlvs p = ts
      \<and> pk_server_mac p = vs_mac (system_dev s) \<and> system_dev s' = system_dev s \<and> system_inv password n s'"
    by (auto simp: s system_dev_def)
next
  fix n and s :: "udp_client \<times> net" and tlvs d
  assume inv: "system_inv password (Suc n) s" and w: "plain_writes tlvs" "apply_writes tlvs (system_dev s) = Inr d"
  obtain c f m where s: "s = (c, (f, m))" by (cases s) auto
  have "apply_writes tlvs (nf_state f) = Inr d" using w(2) by (simp add: s system_dev_def)
  then have "\<exists>p c' g. UDPClient_Write virtual_net tlvs password (c, (f, m)) = (Inr p, (c', (g, None)))
      \<and> nf_state g = d \<and> system_inv password n (c', (g, None))"
    using inv w(1) system_write_v1 [of password n c f m tlvs d] system_write_v2 [of password n c f m tlvs d]
    by (cases "vs_auth_v2 (nf_state f)") (simp_all add: s)
  then show "\<exists>p s'. UDPClient_Write virtual_net tlvs password s = (Inr p, s') \<and> system_dev s' = d
      \<and> system_inv password n s'"
    by (fastforce simp: s system_dev_def)
qed

subsection \<open>End to end\<close>

abbreviation client_read :: "(udp_client \<times> net) client_read" where
  "client_read \<equiv> UDPClient_Read virtual_net"

abbreviation client_write :: "(udp_client \<times> net) client_write" where
  "client_write \<equiv> UDPClient_Write virtual_net"

text \<open>A fresh client, its scheme still to be found out, and a switch that wants the salted token.\<close>

definition sample_system :: "udp_client \<times> net" where
  "sample_system =
     ((default_client ''10.0.0.1'')\<lparr>uc_client_mac := Some dummyClientMAC\<rparr>,
      (NewNsdpFace (sample_state\<lparr>vs_auth_v2 := True\<rparr>), None))"

definition sample_writer :: nsdp_writer where
  "sample_writer = \<lparr>wr_model = model_gs110emx, wr_password = ''password'', wr_protected = [10]\<rparr>"

definition sample_v2 :: vstate where
  "sample_v2 = sample_state\<lparr>vs_auth_v2 := True\<rparr>"

lemma sample_dev: "system_dev sample_system = sample_v2"
  by (simp add: sample_system_def system_dev_def NewNsdpFace_def sample_v2_def)

lemma sample_v2_model: "mustModel sample_v2 = Inr model_gs110emx"
  using sample_model by (simp add: sample_v2_def mustModel_def)

lemma sample_v2_ok: "vs_ok sample_v2"
  using sample_ok by (simp add: vs_ok_simps [OF sample_model] vs_ok_simps [OF sample_v2_model])
    (simp add: sample_v2_def mirror_ok_def)

lemma sample_readable: "readable sample_v2"
  by code_simp

lemma sample_inv: "system_inv ''password'' 5 sample_system"
proof -
  have "is_ascii ''password''" by code_simp
  then show ?thesis
    using face_ok_new [OF sample_v2_ok]
    by (simp add: sample_system_def system_inv_def NewNsdpFace_def sample_v2_def client_mac_def
        dummyClientMAC_def scheme_ok_def default_client_def)
       (simp add: sample_state_def NewState_def)
qed

text \<open>The writers' own guarantees at work: the table read back at the end has what was asked for.\<close>

lemma sample_pvid_write:
  "\<exists>t. SetPVID client_read client_write sample_writer 2 90 False sample_system = (Inr (), t)"
proof -
  let ?d = "sample_v2\<lparr>vs_pvids := AList.update 2 90 (vs_pvids sample_v2)\<rparr>"
  have inv: "system_inv ''password'' (Suc 4) sample_system" using sample_inv by simp
  have d: "readable ?d" by code_simp
  have "map_of (vs_vlans sample_v2) 90 \<noteq> None" by (simp add: sample_v2_def sample_state_def)
  moreover have "wr_password sample_writer = ''password''" "2 \<notin> set (wr_protected sample_writer)"
    by (simp_all add: sample_writer_def)
  ultimately show ?thesis
    using udp.SetPVID_effect [OF inv, of ?d sample_writer 2 False 90] sample_readable d
    unfolding sample_dev by auto
qed

theorem SetPVID_verified_witness:
  "\<exists>t u pairs. SetPVID client_read client_write sample_writer 2 90 False sample_system = (Inr (), t)
    \<and> GetPVIDs client_read u = (Inr pairs, t) \<and> pvidMap pairs 2 = Some 90"
  using sample_pvid_write SetPVID_verified [of client_read client_write sample_writer 2 90 False sample_system]
  by blast

lemma sample_member_write:
  "\<exists>t. SetVlanMembership client_read client_write sample_writer 90 2 VlanTagged False sample_system = (Inr (), t)"
proof -
  let ?old = "map_of (vs_vlans sample_v2) 90"
  let ?d = "sample_v2\<lparr>vs_vlans := AList.update 90 (vlan_moved 90 ?old 2 VlanTagged) (vs_vlans sample_v2)\<rparr>"
  have inv: "system_inv ''password'' (Suc 4) sample_system" using sample_inv by simp
  have d: "readable ?d" by code_simp
  have w: "wr_password sample_writer = ''password''" "(2::int) \<notin> set (wr_protected sample_writer) \<or> False"
      "mustModel (system_dev sample_system) = Inr (wr_model sample_writer)"
      "VlanTagged = VlanExcluded \<or> 1 \<le> (2::int) \<and> 2 \<le> int (8 * ((sm_port_count (wr_model sample_writer) + 7) div 8))"
    by (simp_all add: sample_writer_def sample_dev sample_v2_model model_gs110emx_def)
  show ?thesis
    using udp.SetVlanMembership_effect [OF inv _ _ w(1,2) _ _ w(3,4), of ?d 90] sample_readable d
    unfolding sample_dev by fastforce
qed

theorem SetVlanMembership_verified_witness:
  "\<exists>t u vlans. SetVlanMembership client_read client_write sample_writer 90 2 VlanTagged False sample_system = (Inr (), t)
    \<and> GetVLANs client_read u = (Inr vlans, t) \<and> membershipOK (find_vlan 90 vlans) 2 VlanTagged"
  using sample_member_write
    SetVlanMembership_verified [of client_read client_write sample_writer 90 2 VlanTagged False sample_system]
  by blast

text \<open>
  C2.  Setting a PVID end to end: on a switch of either authentication scheme, with the right
  password, an unprotected (or forced) port and a VLAN the switch has, the call succeeds,
  the switch's PVID table maps the port to the VLAN and nothing else of its state changes.
\<close>

theorem SetPVID_end_to_end:
  assumes "system_inv password (Suc n) s" "wr_password w = password"
    and "port \<notin> set (wr_protected w) \<or> force" "map_of (vs_vlans (system_dev s)) vlan \<noteq> None"
    and "0 \<le> port" "port \<le> 0xFF" "0 \<le> vlan" "vlan \<le> 0xFFFF"
    and "readable (system_dev s)" "readable d"
    and "d = (system_dev s)\<lparr>vs_pvids := AList.update port vlan (vs_pvids (system_dev s))\<rparr>"
  shows "\<exists>t. SetPVID client_read client_write w port vlan force s = (Inr (), t)
    \<and> system_dev t = d \<and> map_of (vs_pvids d) = (map_of (vs_pvids (system_dev s)))(port \<mapsto> vlan)
    \<and> system_inv password n t"
  using udp.SetPVID_effect [OF assms(1,9,10,2-8,11)] by (auto simp: assms(11) update_conv')

theorem SetPVID_end_to_end_witness:
  "\<exists>t. SetPVID client_read client_write sample_writer 2 90 False sample_system = (Inr (), t)
    \<and> vs_pvids (system_dev t) = [(1, 90), (2, 90)]"
proof -
  let ?d = "sample_v2\<lparr>vs_pvids := [(1, 90), (2, 90)]\<rparr>"
  have inv: "system_inv ''password'' (Suc 4) sample_system" using sample_inv by simp
  have "readable ?d" by code_simp
  moreover have "?d = sample_v2\<lparr>vs_pvids := AList.update 2 90 (vs_pvids sample_v2)\<rparr>"
    by (simp add: sample_v2_def sample_state_def)
  moreover have "map_of (vs_vlans sample_v2) 90 \<noteq> None" by (simp add: sample_v2_def sample_state_def)
  moreover have "wr_password sample_writer = ''password''" "(2::int) \<notin> set (wr_protected sample_writer) \<or> False"
    by (simp_all add: sample_writer_def)
  ultimately obtain t where "SetPVID client_read client_write sample_writer 2 90 False sample_system = (Inr (), t)"
      "system_dev t = ?d"
    using SetPVID_end_to_end [OF inv, of sample_writer 2 False 90 ?d] sample_readable sample_dev by fastforce
  then show ?thesis by fastforce
qed

text \<open>
  C1.  Moving one port of one VLAN end to end: the call succeeds, afterwards the port is in
  exactly the mode asked for in that VLAN, every other port is a member and untagged there just
  as before, the VLAN keeps its name (a new one has none) and is a plain static one, its marks of
  ports that are configured only and of a missing static row cleared, and no other VLAN and
  nothing else of the switch's state changes.
\<close>

theorem SetVlanMembership_end_to_end:
  assumes "system_inv password (Suc n) s" "wr_password w = password"
    and "port \<notin> set (wr_protected w) \<or> force" "0 \<le> vid" "vid \<le> 0xFFFF"
    and "mustModel (system_dev s) = Inr (wr_model w)"
    and "mode = VlanExcluded \<or> 1 \<le> port \<and> port \<le> int (8 * ((sm_port_count (wr_model w) + 7) div 8))"
    and "old = map_of (vs_vlans (system_dev s)) vid"
    and "d = (system_dev s)\<lparr>vs_vlans := AList.update vid (vlan_moved vid old port mode) (vs_vlans (system_dev s))\<rparr>"
    and "readable (system_dev s)" "readable d"
  shows "\<exists>t new. SetVlanMembership client_read client_write w vid port mode force s = (Inr (), t)
    \<and> map_of (vs_vlans (system_dev t)) = (map_of (vs_vlans (system_dev s)))(vid \<mapsto> new)
    \<and> (\<forall>p. vlan_member (Some new) p = (if p = port then mode \<noteq> VlanExcluded else vlan_member old p)
         \<and> vlan_untagged (Some new) p = (if p = port then mode = VlanUntagged else vlan_untagged old p))
    \<and> vv_name new = (case old of None \<Rightarrow> [] | Some v \<Rightarrow> vv_name v)
    \<and> vv_configured_only new = [] \<and> \<not> vv_no_static_row new
    \<and> (system_dev t)\<lparr>vs_vlans := vs_vlans (system_dev s)\<rparr> = system_dev s \<and> system_inv password n t"
proof -
  obtain t where "SetVlanMembership client_read client_write w vid port mode force s = (Inr (), t)"
      "system_dev t = d" "system_inv password n t"
    using udp.SetVlanMembership_effect [OF assms(1,10,11,2-7)] assms(8,9) by blast
  then show ?thesis
    by (intro exI [of _ t] exI [of _ "vlan_moved vid old port mode"])
       (simp add: assms(9) update_conv' vlan_moved_sets vlan_moved_marks)
qed

theorem SetVlanMembership_end_to_end_witness:
  "\<exists>t new. SetVlanMembership client_read client_write sample_writer 90 2 VlanTagged False sample_system = (Inr (), t)
    \<and> map_of (vs_vlans (system_dev t)) 90 = Some new \<and> vlan_member (Some new) 2 \<and> \<not> vlan_untagged (Some new) 2
    \<and> vlan_untagged (Some new) 1"
proof -
  let ?old = "map_of (vs_vlans sample_v2) 90"
  let ?d = "sample_v2\<lparr>vs_vlans := AList.update 90 (vlan_moved 90 ?old 2 VlanTagged) (vs_vlans sample_v2)\<rparr>"
  have inv: "system_inv ''password'' (Suc 4) sample_system" using sample_inv by simp
  have d: "readable ?d" by code_simp
  have w: "wr_password sample_writer = ''password''" "(2::int) \<notin> set (wr_protected sample_writer) \<or> False"
      "mustModel (system_dev sample_system) = Inr (wr_model sample_writer)"
      "VlanTagged = VlanExcluded \<or> 1 \<le> (2::int) \<and> 2 \<le> int (8 * ((sm_port_count (wr_model sample_writer) + 7) div 8))"
    by (simp_all add: sample_writer_def sample_dev sample_v2_model model_gs110emx_def)
  have old: "vlan_untagged ?old 1" by (simp add: sample_v2_def sample_state_def vlan_untagged_def in_set_def)
  obtain t new where tn: "SetVlanMembership client_read client_write sample_writer 90 2 VlanTagged False sample_system = (Inr (), t)"
      "map_of (vs_vlans (system_dev t)) = (map_of (vs_vlans sample_v2))(90 \<mapsto> new)"
      "\<forall>p. vlan_member (Some new) p = (if p = 2 then VlanTagged \<noteq> VlanExcluded else vlan_member ?old p)
         \<and> vlan_untagged (Some new) p = (if p = 2 then VlanTagged = VlanUntagged else vlan_untagged ?old p)"
    using SetVlanMembership_end_to_end [OF inv w(1,2) _ _ w(3,4), of 90 ?old ?d] sample_readable d
    unfolding sample_dev by fastforce
  have "vlan_member (Some new) 2" "\<not> vlan_untagged (Some new) 2" "vlan_untagged (Some new) 1"
    using tn(3) old by simp_all
  with tn(1,2) show ?thesis by fastforce
qed

text \<open>
  C37.  Reading end to end: the five typed reads of a lawful system succeed, report exactly the
  records the switch's state stands for, and change nothing on the switch.
\<close>

theorem reads_end_to_end:
  assumes "system_inv password n s" "readable (system_dev s)"
  shows "\<exists>t1 t2 t3 t4 t5. GetPorts client_read s = (Inr (ports_of (system_dev s)), t1)
    \<and> GetVLANs client_read t1 = (Inr (vlans_of (system_dev s)), t2)
    \<and> GetPVIDs client_read t2 = (Inr (pvids_of (system_dev s)), t3)
    \<and> GetMgmtIP client_read t3 = (Inr (mgmt_of (system_dev s)), t4)
    \<and> GetHostname client_read t4 = (Inr (decodeASCII (bytes_of (vs_hostname (system_dev s)))), t5)
    \<and> system_dev t5 = system_dev s \<and> system_inv password n t5"
proof -
  obtain t1 where t1: "GetPorts client_read s = (Inr (ports_of (system_dev s)), t1)"
      "system_dev t1 = system_dev s" "system_inv password n t1"
    using udp.GetPorts_reads [OF assms] by blast
  obtain t2 where t2: "GetVLANs client_read t1 = (Inr (vlans_of (system_dev s)), t2)"
      "system_dev t2 = system_dev s" "system_inv password n t2"
    using udp.GetVLANs_reads [OF t1(3)] t1(2) assms(2) by fastforce
  obtain t3 where t3: "GetPVIDs client_read t2 = (Inr (pvids_of (system_dev s)), t3)"
      "system_dev t3 = system_dev s" "system_inv password n t3"
    using udp.GetPVIDs_reads [OF t2(3)] t2(2) assms(2) by fastforce
  obtain t4 where t4: "GetMgmtIP client_read t3 = (Inr (mgmt_of (system_dev s)), t4)"
      "system_dev t4 = system_dev s" "system_inv password n t4"
    using udp.GetMgmtIP_reads [OF t3(3)] t3(2) assms(2) by fastforce
  obtain t5 where t5: "GetHostname client_read t4 = (Inr (decodeASCII (bytes_of (vs_hostname (system_dev s)))), t5)"
      "system_dev t5 = system_dev s" "system_inv password n t5"
    using udp.GetHostname_reads [OF t4(3)] t4(2) assms(2) by fastforce
  show ?thesis using t1(1) t2(1) t3(1) t4(1) t5 by blast
qed

theorem reads_end_to_end_witness:
  "\<exists>t1 t2. GetPorts client_read sample_system = (Inr (ports_of sample_v2), t1)
    \<and> GetVLANs client_read t1 = (Inr (vlans_of sample_v2), t2)"
  using reads_end_to_end [OF sample_inv] sample_readable unfolding sample_dev by blast

text \<open>
  Creating a VLAN end to end: an id the switch lacks becomes an empty VLAN and nothing
  else changes; an id it has is left as it is, without a write.
\<close>

theorem CreateVlan_end_to_end:
  assumes "system_inv password (Suc n) s" "wr_password w = password" "0 \<le> vid" "vid \<le> 0xFFFF"
    and "mustModel (system_dev s) = Inr (wr_model w)" "readable (system_dev s)" "readable d"
    and "d = (if map_of (vs_vlans (system_dev s)) vid = None
              then (system_dev s)\<lparr>vs_vlans := AList.update vid (vlan_after None [] []) (vs_vlans (system_dev s))\<rparr>
              else system_dev s)"
  shows "\<exists>t. CreateVlan client_read client_write w vid name s = (Inr (), t) \<and> system_dev t = d"
proof (cases "map_of (vs_vlans (system_dev s)) vid = None")
  case True
  then show ?thesis
    using udp.CreateVlan_effect [OF assms(1,6,7,2-5) True, of name] assms(8) by force
next
  case False
  then show ?thesis
    using udp.CreateVlan_existing [OF assms(1,6) False, of w name] assms(8) by force
qed

theorem CreateVlan_end_to_end_witness:
  "\<exists>t. CreateVlan client_read client_write sample_writer 7 ''lab'' sample_system = (Inr (), t)
    \<and> map_of (vs_vlans (system_dev t)) 7 = Some (vlan_after None [] [])"
proof -
  let ?d = "sample_v2\<lparr>vs_vlans := AList.update 7 (vlan_after None [] []) (vs_vlans sample_v2)\<rparr>"
  have inv: "system_inv ''password'' (Suc 4) sample_system" using sample_inv by simp
  have "readable ?d" by code_simp
  moreover have "map_of (vs_vlans sample_v2) 7 = None" by (simp add: sample_v2_def sample_state_def)
  moreover have "wr_password sample_writer = ''password''" "wr_model sample_writer = model_gs110emx"
    by (simp_all add: sample_writer_def)
  ultimately have "\<exists>t. CreateVlan client_read client_write sample_writer 7 ''lab'' sample_system = (Inr (), t)
      \<and> system_dev t = ?d"
    using CreateVlan_end_to_end [OF inv, of sample_writer 7 ?d "''lab''"] sample_readable sample_v2_model
    unfolding sample_dev by simp
  then show ?thesis by (auto simp: update_conv')
qed

text \<open>
  Deleting a VLAN end to end: the call reports success once the VLAN whose id is the
  argument modulo 65536 is gone, every PVID that named it is back at 1, and nothing else
  changed.  For an argument that fits 16 bits that is the VLAN asked for.
\<close>

theorem DeleteVlan_end_to_end:
  assumes "system_inv password (Suc n) s" "wr_password w = password"
    and "map_of (vs_vlans (system_dev s)) (vid mod 65536) \<noteq> None"
    and "d = destroyed (vid mod 65536) (system_dev s)" "readable (system_dev s)" "readable d"
  shows "\<exists>t. DeleteVlan client_read client_write w vid True s = (Inr (), t) \<and> system_dev t = d
    \<and> (\<forall>v. map_of (vs_vlans d) v = (if v = vid mod 65536 then None else map_of (vs_vlans (system_dev s)) v))
    \<and> (\<forall>p. map_of (vs_pvids d) p = map_option (\<lambda>v. if v = vid mod 65536 then 1 else v)
             (map_of (vs_pvids (system_dev s)) p))"
  using udp.DeleteVlan_effect [OF assms(1,5,6,2-4)]
  by (auto simp: assms(4) destroyed_def delete_conv' pvid_reset_conv)

theorem DeleteVlan_end_to_end_witness:
  "\<exists>t. DeleteVlan client_read client_write sample_writer 90 True sample_system = (Inr (), t)
    \<and> system_dev t = destroyed 90 sample_v2"
proof -
  have inv: "system_inv ''password'' (Suc 4) sample_system" using sample_inv by simp
  have "readable (destroyed 90 sample_v2)" by code_simp
  moreover have "map_of (vs_vlans sample_v2) 90 \<noteq> None" by (simp add: sample_v2_def sample_state_def)
  moreover have "wr_password sample_writer = ''password''" by (simp add: sample_writer_def)
  ultimately show ?thesis
    using DeleteVlan_end_to_end [OF inv, of sample_writer 90 "destroyed 90 sample_v2"] sample_readable
    unfolding sample_dev by auto
qed

text \<open>
  C39.  The destroy TLV drops the high bits of the id: asked to delete VLAN 65626, which no
  switch can have, the writer destroys VLAN 90 and reports success, because the id it looks
  for afterwards is, as before, not in the table.
\<close>

theorem DeleteVlan_destroys_another:
  "map_of (vs_vlans sample_v2) 65626 = None \<and> map_of (vs_vlans sample_v2) 90 \<noteq> None
   \<and> (\<exists>t. DeleteVlan client_read client_write sample_writer 65626 True sample_system = (Inr (), t)
       \<and> map_of (vs_vlans (system_dev t)) 90 = None)"
proof -
  have inv: "system_inv ''password'' (Suc 4) sample_system" using sample_inv by simp
  have d: "readable (destroyed 90 sample_v2)" by code_simp
  have v: "map_of (vs_vlans sample_v2) 90 \<noteq> None" "map_of (vs_vlans sample_v2) 65626 = None"
    by (simp_all add: sample_v2_def sample_state_def)
  have w: "wr_password sample_writer = ''password''" by (simp add: sample_writer_def)
  have m: "(65626::int) mod 65536 = 90" by simp
  obtain t where "DeleteVlan client_read client_write sample_writer 65626 True sample_system = (Inr (), t)"
      "system_dev t = destroyed 90 sample_v2"
    using udp.DeleteVlan_effect [OF inv _ d w, of 65626, unfolded sample_dev m, OF sample_readable v(1) refl] by blast
  moreover have "map_of (vs_vlans (destroyed 90 sample_v2)) 90 = None"
    by (simp add: destroyed_def delete_conv')
  ultimately have "\<exists>t. DeleteVlan client_read client_write sample_writer 65626 True sample_system = (Inr (), t)
      \<and> map_of (vs_vlans (system_dev t)) 90 = None" by metis
  with v show ?thesis by blast
qed

text \<open>
  Describing a port end to end: for an unprotected (or forced) port of the switch and a
  text without trailing NULs the call succeeds, that port's description is the text (none for an
  empty one), and nothing else changes.
\<close>

theorem SetPortDescription_end_to_end:
  assumes "system_inv password (Suc n) s" "wr_password w = password"
    and "port \<notin> set (wr_protected w) \<or> force" "map_of (vs_ports (system_dev s)) port = Some sim"
    and "trim_right NUL text = text" "length text < 50000"
    and "d = labelled port text sim (system_dev s)" "readable (system_dev s)" "readable d"
  shows "\<exists>t. SetPortDescription client_read client_write w port text force s = (Inr (), t) \<and> system_dev t = d
    \<and> map_of (vs_ports d) = (map_of (vs_ports (system_dev s)))
        (port \<mapsto> sim\<lparr>vp_description := (if text \<noteq> [] then Some text else None)\<rparr>)"
proof -
  have "map_of (vs_ports d) = (map_of (vs_ports (system_dev s)))
      (port \<mapsto> sim\<lparr>vp_description := (if text \<noteq> [] then Some text else None)\<rparr>)"
    using assms(5) by (simp add: assms(7) labelled_def update_conv' described_def)
  then show ?thesis
    using udp.SetPortDescription_effect [OF assms(1,8,9,2-7)] by blast
qed

lemma sample_port: "map_of (vs_ports sample_v2) 1 = Some (the (map_of (vs_ports sample_v2) 1))"
  by (simp add: sample_v2_def sample_state_def)

theorem SetPortDescription_end_to_end_witness:
  "\<exists>t. SetPortDescription client_read client_write sample_writer 1 ''core'' False sample_system = (Inr (), t)
    \<and> system_dev t = labelled 1 ''core'' (the (map_of (vs_ports sample_v2) 1)) sample_v2"
proof -
  let ?sim = "the (map_of (vs_ports sample_v2) 1)"
  have inv: "system_inv ''password'' (Suc 4) sample_system" using sample_inv by simp
  have d: "readable (labelled 1 ''core'' ?sim sample_v2)" by code_simp
  have w: "wr_password sample_writer = ''password''" "1 \<notin> set (wr_protected sample_writer) \<or> False"
    by (simp_all add: sample_writer_def)
  have label: "trim_right NUL ''core'' = ''core''" "length ''core'' < 50000" by code_simp+
  show ?thesis
    using SetPortDescription_end_to_end [OF inv w _ label, unfolded sample_dev, OF sample_port refl sample_readable d]
    by blast
qed

text \<open>
  C40.  The port-name TLV drops the high bits of the port while the guard compares the whole
  number: with port 1 protected, describing port 257 without force passes the guard,
  overwrites port 1's description and then reports a verification failure.
\<close>

theorem SetPortDescription_bypasses_guard:
  "guard (sample_writer\<lparr>wr_protected := [1]\<rparr>) 1 False \<noteq> Inr ()
   \<and> (\<exists>e t. SetPortDescription client_read client_write (sample_writer\<lparr>wr_protected := [1]\<rparr>) 257 ''core'' False
              sample_system = (Inl e, t) \<and> is_verification e
        \<and> map_option vp_description (map_of (vs_ports (system_dev sample_system)) 1) = Some (Some ''up'')
        \<and> map_option vp_description (map_of (vs_ports (system_dev t)) 1) = Some (Some ''core''))"
proof -
  let ?w = "sample_writer\<lparr>wr_protected := [1]\<rparr>" and ?sim = "the (map_of (vs_ports sample_v2) 1)"
  let ?d = "labelled 1 ''core'' ?sim sample_v2"
  have inv: "system_inv ''password'' (Suc 4) sample_system" using sample_inv by simp
  have d: "readable ?d" by code_simp
  have w: "wr_password ?w = ''password''" "257 \<notin> set (wr_protected ?w) \<or> False"
    by (simp_all add: sample_writer_def)
  have m: "(257::int) mod 256 = 1" by simp
  have none: "map_of (vs_ports ?d) 257 = None"
    by (simp add: labelled_def update_conv' sample_v2_def sample_state_def)
  obtain t e where t: "system_dev t = ?d"
      "SetPortDescription client_read client_write ?w 257 ''core'' False sample_system = (Inl e, t)"
      "is_verification e"
    using udp.SetPortDescription_runs [OF inv _ d w, unfolded sample_dev m, OF sample_readable sample_port _ refl]
    unfolding none by fastforce
  have "described (Some ''core'') = Some ''core''" by code_simp
  then have "map_option vp_description (map_of (vs_ports ?d) 1) = Some (Some ''core'')"
    by (simp add: labelled_def update_conv')
  moreover have "map_option vp_description (map_of (vs_ports sample_v2) 1) = Some (Some ''up'')"
    by (simp add: sample_v2_def sample_state_def)
  moreover have "guard ?w 1 False \<noteq> Inr ()" by (simp add: guard_def)
  ultimately show ?thesis using t by (auto simp: sample_dev)
qed

text \<open>
  C36.  Renaming and readdressing end to end: an ASCII name that is not blank and has no
  trailing NULs becomes the host name, and three dotted quads written with force become address,
  mask and gateway; both calls succeed and change nothing else.
\<close>

theorem SetHostname_SetMgmtIP_end_to_end:
  assumes "system_inv password (Suc (Suc n)) s" "wr_password w = password"
    and "TrimSpace name \<noteq> []" "is_ascii name" "trim_right NUL name = name" "length name < 50000"
    and "is_dotted a" "is_dotted m" "is_dotted g"
    and "d = (system_dev s)\<lparr>vs_hostname := name\<rparr>"
    and "d' = d\<lparr>vs_mgmt := (vs_mgmt d)\<lparr>vm_address := a, vm_netmask := m, vm_gateway := g\<rparr>\<rparr>"
    and "readable (system_dev s)" "readable d" "readable d'"
  shows "\<exists>t u. SetHostname client_read client_write w name s = (Inr (), t) \<and> system_dev t = d
    \<and> SetMgmtIP client_read client_write w a m g True t = (Inr (), u) \<and> system_dev u = d'"
proof -
  obtain t where t: "SetHostname client_read client_write w name s = (Inr (), t)" "system_dev t = d"
      "system_inv password (Suc n) t"
    using udp.SetHostname_effect [OF assms(1,12,13,2-6,10)] by blast
  have "readable (system_dev t)" using assms(13) t(2) by simp
  then obtain u where "SetMgmtIP client_read client_write w a m g True t = (Inr (), u)" "system_dev u = d'"
    using udp.SetMgmtIP_effect [OF t(3) _ assms(14,2,7-9)] assms(11) t(2) by blast
  with t show ?thesis by blast
qed

theorem SetHostname_SetMgmtIP_end_to_end_witness:
  "\<exists>t u. SetHostname client_read client_write sample_writer ''edge-1'' sample_system = (Inr (), t)
    \<and> vs_hostname (system_dev t) = ''edge-1''
    \<and> SetMgmtIP client_read client_write sample_writer ''0.0.0.0'' ''0.0.0.0'' ''0.0.0.0'' True t = (Inr (), u)"
proof -
  let ?d = "sample_v2\<lparr>vs_hostname := ''edge-1''\<rparr>"
  let ?e = "?d\<lparr>vs_mgmt := (vs_mgmt ?d)\<lparr>vm_address := ''0.0.0.0'', vm_netmask := ''0.0.0.0'', vm_gateway := ''0.0.0.0''\<rparr>\<rparr>"
  have inv: "system_inv ''password'' (Suc (Suc 3)) sample_system" using sample_inv by simp
  have w: "wr_password sample_writer = ''password''" by (simp add: sample_writer_def)
  have name: "TrimSpace ''edge-1'' \<noteq> []" "is_ascii ''edge-1''" "trim_right NUL ''edge-1'' = ''edge-1''"
      "length ''edge-1'' < 50000" by code_simp+
  have r: "readable ?d" "readable ?e" by code_simp+
  obtain t u where "SetHostname client_read client_write sample_writer ''edge-1'' sample_system = (Inr (), t)"
      "system_dev t = ?d" "SetMgmtIP client_read client_write sample_writer ''0.0.0.0'' ''0.0.0.0'' ''0.0.0.0'' True t = (Inr (), u)"
    using SetHostname_SetMgmtIP_end_to_end [OF inv w name default_dotted default_dotted default_dotted,
        unfolded sample_dev, OF refl refl sample_readable r] by blast
  moreover from this(2) have "vs_hostname (system_dev t) = ''edge-1''" by simp
  ultimately show ?thesis by blast
qed

end
