(* ===== verification/Virtual_Lockout.thy ===== *)
theory Virtual_Lockout
  imports Virtual_Face
begin

unbundle bit_operations_syntax

section \<open>The face as a state machine: robustness, authentication, lockout\<close>

text \<open>
  \<open>face_step\<close> relates a face to the face after one more datagram, whatever its bytes.  The
  invariants follow by rule induction over it: the face never panics and stays well formed, its
  switch changes only on an authenticated write, and a face that has gone silent stays silent.
\<close>

subsection \<open>No datagram panics\<close>

lemma DecodePacket_parts:
  assumes "DecodePacket data = Inr p"
  shows "length (pk_client_mac p) = 6 \<and> isValidOp (pk_op p) \<and> list_all wf_tlv (pk_tlvs p)"
  using DecodePacket_cases [of data] assms by (simp add: wf_packet_def)

lemma nextSalt_keeps:
  "face_ok f \<Longrightarrow> face_ok (snd (nextSalt f))" "nf_state (snd (nextSalt f)) = nf_state f"
  "nf_failures (snd (nextSalt f)) = nf_failures f"
  by (simp_all add: nextSalt_def Let_def face_ok_def)

definition salted :: "packet \<Rightarrow> nsdp_face \<Rightarrow> nsdp_face" where
  "salted req f = (if TagAuthV2Password \<notin> tlv_tag ` set (pk_tlvs req) \<and> TagAuthV2Salt \<in> tlv_tag ` set (pk_tlvs req)
                   then snd (nextSalt f) else f)"

lemma readResponse_answer:
  assumes "face_ok f"
  obtains resp where "readResponse req f = (Inr resp, salted req f)"
    "pk_server_mac resp = vs_mac (nf_state f)" "pk_client_mac resp = pk_client_mac req"
proof -
  have ok: "vs_ok (nf_state f)" using assms by (simp add: face_ok_def)
  obtain sm where sm: "mustModel (nf_state f) = Inr sm" using vs_ok_model [OF ok] by blast
  obtain ts where ts: "NsdpTlvs (nf_state f) (map tlv_tag (pk_tlvs req)) = Inr ts"
    by (rule NsdpTlvs_answers [OF sm ok, of "map tlv_tag (pk_tlvs req)"])
  obtain v g where g: "nextSalt f = (v, g)" by force
  have answer: "case readResponse req f of (r, h) \<Rightarrow> h = salted req f \<and> (\<exists>resp. r = Inr resp
      \<and> pk_server_mac resp = vs_mac (nf_state f) \<and> pk_client_mac resp = pk_client_mac req)"
    by (cases "TagAuthV2Password \<in> tlv_tag ` set (pk_tlvs req)"; cases "TagAuthV2Salt \<in> tlv_tag ` set (pk_tlvs req)")
       (simp_all add: readResponse_def Let_def ts g salted_def response_to_def)
  obtain r h where rh: "readResponse req f = (r, h)" by force
  from answer show ?thesis unfolding rh prod.case using that rh by blast
qed

lemma readResponse_ok:
  assumes "face_ok f"
  shows "\<exists>resp g. readResponse req f = (Inr resp, g) \<and> nf_state g = nf_state f \<and> nf_failures g = nf_failures f
    \<and> face_ok g \<and> pk_server_mac resp = vs_mac (nf_state f) \<and> pk_client_mac resp = pk_client_mac req"
proof -
  have "face_ok (salted req f)" "nf_state (salted req f) = nf_state f" "nf_failures (salted req f) = nf_failures f"
    using assms nextSalt_keeps by (simp_all add: salted_def)
  then show ?thesis using readResponse_answer [OF assms, of req] by metis
qed

lemma write_v2_ok:
  assumes "face_ok f" "list_all wf_tlv (pk_tlvs req)"
  shows "case write_v2 req f of (r, g) \<Rightarrow> r \<noteq> Inl Go_Panic \<and> face_ok g
    \<and> identity_kept (nf_state f) (nf_state g)
    \<and> (\<forall>resp. r = Inr (Some resp) \<longrightarrow> pk_server_mac resp = vs_mac (nf_state f) \<and> pk_client_mac resp = pk_client_mac req)"
proof -
  have ok: "vs_ok (nf_state f)" using assms(1) by (simp add: face_ok_def)
  have "list_all wf_tlv (config_tlvs TagAuthV2Password (pk_tlvs req))"
    using assms(2) by (simp add: config_tlvs_def list_all_iff)
  then obtain s' where s': "apply_writes (config_tlvs TagAuthV2Password (pk_tlvs req)) (nf_state f) = Inr s'"
      "vs_ok s'" "identity_kept (nf_state f) s'"
    using apply_writes_ok [OF ok] by blast
  have pw: "AuthV2Password p m s \<noteq> Inl Go_Panic" for p m s
    using ascii_check_error [of 0 "bytes_of p"] by (auto simp: AuthV2Password_def res_simps)
  show ?thesis
    using assms(1) s' pw
    by (auto simp: write_v2_def Let_def face_ok_def response_to_def split: sum.split)
qed

lemma write_v1_ok:
  assumes "face_ok f" "list_all wf_tlv (pk_tlvs req)"
  shows "case write_v1 req f of (r, g) \<Rightarrow> r \<noteq> Inl Go_Panic \<and> face_ok g
    \<and> identity_kept (nf_state f) (nf_state g)
    \<and> (\<forall>resp. r = Inr (Some resp) \<longrightarrow> pk_server_mac resp = vs_mac (nf_state f) \<and> pk_client_mac resp = pk_client_mac req)"
proof -
  have ok: "vs_ok (nf_state f)" using assms(1) by (simp add: face_ok_def)
  have "list_all wf_tlv (config_tlvs TagPassword (pk_tlvs req))"
    using assms(2) by (simp add: config_tlvs_def list_all_iff)
  then obtain s' where s': "apply_writes (config_tlvs TagPassword (pk_tlvs req)) (nf_state f) = Inr s'"
      "vs_ok s'" "identity_kept (nf_state f) s'"
    using apply_writes_ok [OF ok] by blast
  have pw: "EncodePasswordV1 p \<noteq> Inl Go_Panic" for p
    using ascii_check_error [of 0 "bytes_of p"] by (auto simp: EncodePasswordV1_def Let_def res_simps)
  show ?thesis
    using assms(1) s' pw
    by (auto simp: write_v1_def Let_def face_ok_def response_to_def split: sum.split)
qed

lemma handle_ok:
  assumes "face_ok f" "DecodePacket data = Inr req" "handle req f = (r, g)"
  shows "r \<noteq> Inl Go_Panic" "face_ok g" "identity_kept (nf_state f) (nf_state g)"
    "r = Inr (Some resp) \<Longrightarrow> length (pk_client_mac resp) = 6 \<and> length (pk_server_mac resp) = 6"
proof -
  note parts = DecodePacket_parts [OF assms(2)]
  have mac: "length (vs_mac (nf_state f)) = 6" using assms(1) by (simp add: face_ok_def vs_ok_def)
  have "r \<noteq> Inl Go_Panic \<and> face_ok g \<and> identity_kept (nf_state f) (nf_state g)
      \<and> (\<forall>resp. r = Inr (Some resp) \<longrightarrow> pk_server_mac resp = vs_mac (nf_state f) \<and> pk_client_mac resp = pk_client_mac req)"
    using assms(1,3) readResponse_ok [OF assms(1), of req] write_v1_ok [OF assms(1), of req]
      write_v2_ok [OF assms(1), of req] parts
    by (auto simp: handle_def writeResponse_def split: if_splits)
  then show "r \<noteq> Inl Go_Panic" "face_ok g" "identity_kept (nf_state f) (nf_state g)"
    "r = Inr (Some resp) \<Longrightarrow> length (pk_client_mac resp) = 6 \<and> length (pk_server_mac resp) = 6"
    using parts mac by auto
qed

lemma serve_ok:
  assumes "face_ok f"
  obtains r g where "serve_datagram d f = (Inr r, g)" "face_ok g" "identity_kept (nf_state f) (nf_state g)"
proof -
  have "\<exists>r g. serve_datagram d f = (Inr r, g) \<and> face_ok g \<and> identity_kept (nf_state f) (nf_state g)"
  proof (cases "DecodePacket (take 65535 d)")
    case (Inl e)
    then have "e \<noteq> Go_Panic" using DecodePacket_cases [of "take 65535 d"] by auto
    with Inl assms show ?thesis by (simp add: serve_datagram_def)
  next
    case (Inr req)
    obtain r g where h: "handle req f = (r, g)" by force
    note ok = handle_ok [OF assms Inr h]
    show ?thesis
    proof (cases r)
      case (Inl e)
      then show ?thesis using ok(1-3) h Inr by (simp add: serve_datagram_def)
    next
      case (Inr reply)
      then show ?thesis
        using ok h \<open>DecodePacket (take 65535 d) = Inr req\<close>
        by (cases reply) (simp_all add: serve_datagram_def EncodePacket_wf)
    qed
  qed
  then show ?thesis using that by blast
qed

subsection \<open>Steps\<close>

inductive face_step :: "nsdp_face \<Rightarrow> nsdp_face \<Rightarrow> bool" where
  served: "serve_datagram d f = (Inr r, g) \<Longrightarrow> face_step f g"

inductive face_steps :: "nsdp_face \<Rightarrow> nsdp_face \<Rightarrow> bool" where
  none: "face_steps f f"
| more: "face_steps f g \<Longrightarrow> face_step g h \<Longrightarrow> face_steps f h"

inductive_cases face_stepE: "face_step f g"
inductive_simps face_step_iff: "face_step f g"

lemma face_step_ok: "face_step f g \<Longrightarrow> face_ok f \<Longrightarrow> face_ok g \<and> identity_kept (nf_state f) (nf_state g)"
  by (elim face_stepE) (metis serve_ok prod.inject)

lemma face_steps_ok:
  assumes "face_steps f g" "face_ok f"
  shows "face_ok g \<and> identity_kept (nf_state f) (nf_state g)"
  using assms by (induction rule: face_steps.induct) (auto dest: face_step_ok intro: identity_kept_trans)

text \<open>
  C31.  The face survives anything: from a well-formed state, after any sequence of datagrams of
  any bytes, the next datagram is served without a panic, and the state stays well formed
  with the same model, address, password and authentication scheme.
\<close>

theorem face_survives:
  assumes "vs_ok s" "face_steps (NewNsdpFace s) f"
  shows "\<exists>r g. serve_datagram d f = (Inr r, g) \<and> vs_ok (nf_state g) \<and> identity_kept s (nf_state g)"
proof -
  have f: "face_ok f" "identity_kept s (nf_state f)"
    using face_steps_ok [OF assms(2) face_ok_new [OF assms(1)]] by (simp_all add: NewNsdpFace_def)
  from serve_ok [OF f(1), of d] obtain r g where
      "serve_datagram d f = (Inr r, g)" "face_ok g" "identity_kept (nf_state f) (nf_state g)" by metis
  then show ?thesis
    using f(2) by (auto simp: face_ok_def intro: identity_kept_trans)
qed

theorem face_survives_witness:
  "\<exists>r g. serve_datagram [1, 2, 3] (NewNsdpFace sample_state) = (Inr r, g) \<and> vs_ok (nf_state g)"
  using face_survives [OF sample_ok face_steps.none, of "[1, 2, 3]"] by blast

subsection \<open>Only authenticated writes change the switch\<close>

definition authentic :: "packet \<Rightarrow> nsdp_face \<Rightarrow> bool" where
  "authentic req f \<longleftrightarrow>
     (let s = nf_state f in
      if vs_auth_v2 s
      then nf_failures f \<le> v2SilenceAt \<and> saltIssued f
        \<and> (\<exists>tok. first_value TagAuthV2Password (pk_tlvs req) = Some tok
             \<and> AuthV2Password (vs_password s) (vs_mac s) (nf_salt f) = Inr tok)
      else \<exists>enc. EncodePasswordV1 (vs_password s) = Inr enc \<and> TLV TagPassword enc \<in> set (pk_tlvs req))"

lemma handle_authentic:
  assumes "handle req f = (r, g)" "nf_state g \<noteq> nf_state f" "face_ok f"
  shows "pk_op req = OpWriteRequest \<and> authentic req f"
proof -
  have "pk_op req = OpWriteRequest"
    using assms readResponse_ok [OF assms(3), of req] by (auto simp: handle_def split: if_splits)
  moreover then have "writeResponse req f = (r, g)" using assms(1) by (simp add: handle_def)
  then have "authentic req f"
    using assms(2)
    by (auto simp: writeResponse_def write_v1_def write_v2_def authentic_def Let_def
        split: if_splits sum.splits)
  ultimately show ?thesis ..
qed

text \<open>
  C32.  Only an authenticated write changes the switch: whenever serving a datagram changes the
  state, the datagram decodes to a write request that carries the XOR of the switch's
  password or, under the salted scheme, the token for the last salt issued, before lockout.
\<close>

theorem state_change_authenticated:
  assumes "face_ok f" "serve_datagram d f = (Inr r, g)" "nf_state g \<noteq> nf_state f"
  shows "\<exists>req. DecodePacket (take 65535 d) = Inr req \<and> pk_op req = OpWriteRequest \<and> authentic req f"
proof (cases "DecodePacket (take 65535 d)")
  case (Inl e)
  then show ?thesis using assms by (auto simp: serve_datagram_def split: if_splits)
next
  case (Inr req)
  obtain r' g' where h: "handle req f = (r', g')" by force
  have "g = g'"
    using assms(2) Inr h by (auto simp: serve_datagram_def split: sum.splits option.splits if_splits)
  then show ?thesis using handle_authentic [OF h _ assms(1)] assms(3) Inr by blast
qed

definition sample_rename :: packet where
  "sample_rename =
     \<lparr>pk_op = OpWriteRequest, pk_client_mac = [0, 0, 0, 0, 0, 1], pk_server_mac = [0, 0, 0, 0, 0, 0],
      pk_sequence = 1, pk_result = 0, pk_error_attr = 0,
      pk_tlvs = [TLV TagPassword (xor_key (bytes_of ''password'')), TLV TagHostname (bytes_of ''edge'')]\<rparr>"

lemma sample_rename_wf: "wf_packet sample_rename"
  by (simp add: sample_rename_def wf_packet_def isValidOp_def wf_tlv_def)

lemma sample_rename_handled:
  "handle sample_rename (NewNsdpFace sample_state)
   = (Inr (Some (response_to sample_rename sample_state OpWriteResponse)),
      (NewNsdpFace sample_state)\<lparr>nf_state := sample_state\<lparr>vs_hostname := ''edge''\<rparr>\<rparr>)"
proof -
  have "is_ascii ''password''" by code_simp
  then have pw: "EncodePasswordV1 (vs_password sample_state) = Inr (xor_key (bytes_of ''password''))"
    using EncodePasswordV1_ascii by (simp add: sample_state_def NewState_def)
  have tlvs: "config_tlvs TagPassword (pk_tlvs sample_rename) = [TLV TagHostname (bytes_of ''edge'')]"
    by (simp add: config_tlvs_def sample_rename_def)
  have "apply_writes [TLV TagHostname (bytes_of ''edge'')] sample_state = Inr (sample_state\<lparr>vs_hostname := ''edge''\<rparr>)"
    using sample_model by (simp add: ApplyNsdpWrite_def res_simps)
  moreover have "\<not> vs_auth_v2 sample_state" by (simp add: sample_state_def NewState_def)
  moreover have "pk_op sample_rename = OpWriteRequest"
      "TLV TagPassword (xor_key (bytes_of ''password'')) \<in> set (pk_tlvs sample_rename)"
    by (simp_all add: sample_rename_def)
  ultimately show ?thesis
    using pw tlvs by (simp add: handle_def writeResponse_def write_v1_def Let_def NewNsdpFace_def)
qed

theorem state_change_authenticated_witness:
  "\<exists>d r g req. serve_datagram d (NewNsdpFace sample_state) = (Inr r, g) \<and> vs_hostname (nf_state g) = ''edge''
     \<and> DecodePacket (take 65535 d) = Inr req \<and> pk_op req = OpWriteRequest
     \<and> authentic req (NewNsdpFace sample_state)"
proof -
  obtain d where d: "DecodePacket d = Inr sample_rename"
      "length d = 36 + length (concat (map TLV_Encode (pk_tlvs sample_rename)))"
    using encode_decode_packet [OF sample_rename_wf] by metis
  then have "take 65535 d = d" by (simp add: sample_rename_def)
  moreover have "wf_packet (response_to sample_rename sample_state OpWriteResponse)"
    using sample_rename_wf sample_ok [unfolded vs_ok_def]
    by (simp add: wf_packet_def response_to_def isValidOp_def)
  then obtain out where out: "EncodePacket (response_to sample_rename sample_state OpWriteResponse) = Inr out"
    using encode_decode_packet by blast
  ultimately obtain r g where g: "serve_datagram d (NewNsdpFace sample_state) = (Inr r, g)"
      "nf_state g = sample_state\<lparr>vs_hostname := ''edge''\<rparr>"
    using d(1) sample_rename_handled out by (auto simp: serve_datagram_def)
  moreover have "nf_state g \<noteq> nf_state (NewNsdpFace sample_state)"
  proof
    assume "nf_state g = nf_state (NewNsdpFace sample_state)"
    then have "vs_hostname (sample_state\<lparr>vs_hostname := ''edge''\<rparr>) = vs_hostname sample_state"
      using g(2) by (simp add: NewNsdpFace_def)
    then show False by (simp add: sample_state_def NewState_def)
  qed
  ultimately show ?thesis
    using state_change_authenticated [OF face_ok_new [OF sample_ok] g(1)] by fastforce
qed

subsection \<open>Lockout\<close>

text \<open>The answer to a failed write after \<open>n\<close> failures in a row; none once the face is silent.\<close>

definition lockout_code :: "nat \<Rightarrow> u16 option" where
  "lockout_code n = (if n < 3 then Some ResultBadPasswordV2 else if n \<le> 5 then Some ResultLockedV2 else None)"

definition rejection :: "packet \<Rightarrow> vstate \<Rightarrow> u16 \<Rightarrow> packet" where
  "rejection req s code =
     (response_to req s OpWriteResponse)\<lparr>pk_result := code,
        pk_error_attr := (case pk_tlvs req of [] \<Rightarrow> 0 | t # _ \<Rightarrow> tlv_tag t)\<rparr>"

lemma write_v2_rejects:
  assumes "face_ok f" "is_ascii (vs_password (nf_state f))" "vs_auth_v2 (nf_state f)" "\<not> authentic req f"
  shows "writeResponse req f =
    (Inr (map_option (rejection req (nf_state f)) (lockout_code (nf_failures f))),
     f\<lparr>nf_failures := (if nf_failures f \<le> 5 then nf_failures f + 1 else nf_failures f)\<rparr>)"
proof -
  obtain tok where "AuthV2Password (vs_password (nf_state f)) (vs_mac (nf_state f)) (nf_salt f) = Inr tok"
    using AuthV2Password_ascii [OF assms(2), of "vs_mac (nf_state f)" "nf_salt f"] assms(1)
    by (auto simp: face_ok_def vs_ok_def)
  then show ?thesis
    using assms(3,4)
    by (cases "first_value TagAuthV2Password (pk_tlvs req)")
       (auto simp: writeResponse_def write_v2_def authentic_def Let_def lockout_code_def rejection_def)
qed

fun fail_writes :: "packet list \<Rightarrow> nsdp_face \<Rightarrow> packet option list" where
  "fail_writes [] f = []"
| "fail_writes (req # reqs) f =
     (case writeResponse req f of (Inl e, g) \<Rightarrow> [] | (Inr r, g) \<Rightarrow> r # fail_writes reqs g)"

lemma fail_writes_codes:
  assumes "face_ok f" "is_ascii (vs_password (nf_state f))" "vs_auth_v2 (nf_state f)"
    and "list_all (\<lambda>req. \<forall>n. \<not> authentic req (f\<lparr>nf_failures := n\<rparr>)) reqs"
  shows "map (map_option pk_result) (fail_writes reqs f)
    = map (\<lambda>i. lockout_code (min 6 (nf_failures f + i))) [0..<length reqs]"
  using assms
proof (induction reqs arbitrary: f)
  case (Cons req reqs)
  let ?n = "if nf_failures f \<le> 5 then nf_failures f + 1 else nf_failures f"
  have le: "nf_failures f \<le> 6" using Cons.prems(1) by (simp add: face_ok_def)
  have "\<forall>n. \<not> authentic req (f\<lparr>nf_failures := n\<rparr>)" using Cons.prems(4) by simp
  from this [THEN spec, of "nf_failures f"] have na: "\<not> authentic req f" by simp
  note rej = write_v2_rejects [OF Cons.prems(1-3) na]
  have g: "face_ok (f\<lparr>nf_failures := ?n\<rparr>)" using Cons.prems(1) by (simp add: face_ok_def)
  have "map (map_option pk_result) (fail_writes reqs (f\<lparr>nf_failures := ?n\<rparr>))
      = map (\<lambda>i. lockout_code (min 6 (?n + i))) [0..<length reqs]"
    using Cons.IH [OF g] Cons.prems(2-4) by simp
  moreover have "min 6 (?n + i) = min 6 (nf_failures f + Suc i)" for i using le by auto
  moreover have "min 6 (nf_failures f) = nf_failures f" using le by simp
  ultimately show ?case
    by (simp add: rej rejection_def option.map_comp comp_def option.map_ident map_upt_Suc del: upt_Suc)
qed simp

text \<open>The face after a run of writes.\<close>

definition after_writes :: "packet list \<Rightarrow> nsdp_face \<Rightarrow> nsdp_face" where
  "after_writes reqs f = fold (\<lambda>req g. snd (writeResponse req g)) reqs f"

lemma after_writes_failed:
  assumes "face_ok f" "is_ascii (vs_password (nf_state f))" "vs_auth_v2 (nf_state f)"
    and "list_all (\<lambda>req. \<forall>n. \<not> authentic req (f\<lparr>nf_failures := n\<rparr>)) reqs"
  shows "after_writes reqs f = f\<lparr>nf_failures := min 6 (nf_failures f + length reqs)\<rparr>"
  using assms
proof (induction reqs arbitrary: f)
  case Nil
  then have "nf_failures f \<le> 6" by (simp add: face_ok_def)
  then show ?case by (simp add: after_writes_def min_def)
next
  case (Cons req reqs)
  let ?n = "if nf_failures f \<le> 5 then nf_failures f + 1 else nf_failures f"
  have "\<forall>n. \<not> authentic req (f\<lparr>nf_failures := n\<rparr>)" using Cons.prems(4) by simp
  from this [THEN spec, of "nf_failures f"] have "\<not> authentic req f" by simp
  then have "after_writes (req # reqs) f = after_writes reqs (f\<lparr>nf_failures := ?n\<rparr>)"
    using write_v2_rejects [OF Cons.prems(1-3)] by (simp add: after_writes_def)
  moreover have "face_ok (f\<lparr>nf_failures := ?n\<rparr>)" using Cons.prems(1) by (simp add: face_ok_def)
  moreover have "min 6 (?n + length reqs) = min 6 (nf_failures f + length (req # reqs))"
    using Cons.prems(1) by (simp add: face_ok_def min_def)
  ultimately show ?case using Cons.IH [of "f\<lparr>nf_failures := ?n\<rparr>"] Cons.prems(2-4) by simp
qed

lemma lockout_code_bounds: "lockout_code (min 6 i)
    = (if i < 3 then Some ResultBadPasswordV2 else if i < 6 then Some ResultLockedV2 else None)"
  by (auto simp: lockout_code_def min_def)

text \<open>
  C34.  Lockout escalates as documented, whatever salts the face has issued and however many writes
  failed before.  On a switch with the salted scheme, whose password is ASCII, writes that come
  before any salt or without the token of the last one get the error for a bad password while
  fewer than three failed in a row, the lockout error while fewer than six did, and no reply ever
  after, and only the count of failures changes.  A write with the right token after them is
  applied and clears the count while fewer than six failed, and gets no reply from then on.
\<close>

theorem lockout_escalates:
  assumes "face_ok f" "is_ascii (vs_password (nf_state f))" "vs_auth_v2 (nf_state f)"
    and tok: "AuthV2Password (vs_password (nf_state f)) (vs_mac (nf_state f)) (nf_salt f) = Inr tok"
    and wrong: "list_all (\<lambda>req. \<not> saltIssued f \<or> first_value TagAuthV2Password (pk_tlvs req) \<noteq> Some tok) reqs"
    and right: "first_value TagAuthV2Password (pk_tlvs good) = Some tok"
      "apply_writes (config_tlvs TagAuthV2Password (pk_tlvs good)) (nf_state f) = Inr s'"
  shows "map (map_option pk_result) (fail_writes reqs f)
      = map (\<lambda>i. if nf_failures f + i < 3 then Some ResultBadPasswordV2
                 else if nf_failures f + i < 6 then Some ResultLockedV2 else None) [0..<length reqs]
    \<and> after_writes reqs f = f\<lparr>nf_failures := min 6 (nf_failures f + length reqs)\<rparr>
    \<and> (saltIssued f \<longrightarrow> writeResponse good (after_writes reqs f) =
        (if nf_failures f + length reqs < 6
         then (Inr (Some (response_to good (nf_state f) OpWriteResponse)), f\<lparr>nf_state := s', nf_failures := 0\<rparr>)
         else (Inr None, after_writes reqs f)))"
proof -
  have rejected: "list_all (\<lambda>req. \<forall>n. \<not> authentic req (f\<lparr>nf_failures := n\<rparr>)) reqs"
    using wrong tok assms(3) by (auto simp: list_all_iff authentic_def Let_def saltIssued_def)
  note after = after_writes_failed [OF assms(1-3) rejected]
  moreover have "writeResponse good (after_writes reqs f) =
        (if nf_failures f + length reqs < 6
         then (Inr (Some (response_to good (nf_state f) OpWriteResponse)), f\<lparr>nf_state := s', nf_failures := 0\<rparr>)
         else (Inr None, after_writes reqs f))" if "saltIssued f"
    using that tok right assms(3) by (simp add: after writeResponse_def write_v2_def Let_def saltIssued_def)
  ultimately show ?thesis
    using fail_writes_codes [OF assms(1-3) rejected] by (simp add: lockout_code_bounds)
qed

definition sample_bad_write :: packet where
  "sample_bad_write =
     \<lparr>pk_op = OpWriteRequest, pk_client_mac = [0, 0, 0, 0, 0, 1], pk_server_mac = [0, 0, 0, 0, 0, 0],
      pk_sequence = 1, pk_result = 0, pk_error_attr = 0, pk_tlvs = [TLV TagAuthV2Password [1, 2]]\<rparr>"

definition salted_face :: nsdp_face where
  "salted_face = snd (nextSalt (NewNsdpFace (sample_state\<lparr>vs_auth_v2 := True\<rparr>)))"

lemma replicate_2: "replicate 2 x = [x, x]"
  by (simp add: numeral_2_eq_2)

theorem lockout_escalates_witness:
  "saltIssued salted_face
   \<and> map (map_option pk_result) (fail_writes (replicate 8 sample_bad_write) salted_face)
     = [Some 0x0D00, Some 0x0D00, Some 0x0D00, Some 0x0E00, Some 0x0E00, Some 0x0E00, None, None]
   \<and> (\<exists>good reply. writeResponse good (after_writes [sample_bad_write, sample_bad_write] salted_face)
        = (Inr (Some reply), salted_face))"
proof -
  let ?s = "sample_state\<lparr>vs_auth_v2 := True\<rparr>"
  have "vs_ok ?s"
    using sample_ok sample_model by (simp add: vs_ok_def mustModel_def mirror_ok_def)
  then have ok: "face_ok salted_face" using nextSalt_keeps(1) face_ok_new by (simp add: salted_face_def)
  have fields: "nf_state salted_face = ?s" "nf_failures salted_face = 0" "saltIssued salted_face"
    by (simp_all add: salted_face_def nextSalt_def Let_def saltIssued_def NewNsdpFace_def)
  have ascii: "is_ascii (vs_password (nf_state salted_face))" unfolding fields by code_simp
  have "length (vs_mac (nf_state salted_face)) = 6" "length (nf_salt salted_face) = 4"
    using ok by (simp_all add: face_ok_def vs_ok_def)
  then obtain tok where tok: "length tok = 8"
      "AuthV2Password (vs_password (nf_state salted_face)) (vs_mac (nf_state salted_face)) (nf_salt salted_face) = Inr tok"
    using AuthV2Password_ascii [OF ascii] length_token by blast
  define good where "good = sample_bad_write\<lparr>pk_tlvs := [TLV TagAuthV2Password tok]\<rparr>"
  have right: "first_value TagAuthV2Password (pk_tlvs good) = Some tok"
      "apply_writes (config_tlvs TagAuthV2Password (pk_tlvs good)) (nf_state salted_face) = Inr ?s"
    by (simp_all add: good_def config_tlvs_def fields)
  have wrong: "list_all (\<lambda>req. \<not> saltIssued salted_face \<or> first_value TagAuthV2Password (pk_tlvs req) \<noteq> Some tok)
      (replicate n sample_bad_write)" for n
    using tok(1) by (auto simp: list_all_iff sample_bad_write_def)
  have v2: "vs_auth_v2 (nf_state salted_face)" by (simp add: fields)
  note run = lockout_escalates [OF ok ascii v2 tok(2) wrong right]
  have same: "salted_face\<lparr>nf_state := ?s, nf_failures := 0\<rparr> = salted_face" by (cases salted_face) (use fields in simp)
  have "map (map_option pk_result) (fail_writes (replicate 8 sample_bad_write) salted_face)
      = [Some 0x0D00, Some 0x0D00, Some 0x0D00, Some 0x0E00, Some 0x0E00, Some 0x0E00, None, None]"
    using run [of 8] fields(2) by (simp add: upt_rec)
  moreover have "writeResponse good (after_writes [sample_bad_write, sample_bad_write] salted_face)
      = (Inr (Some (response_to good ?s OpWriteResponse)), salted_face)"
    using run [of 2, THEN conjunct2, THEN conjunct2, rule_format, OF fields(3)] by (simp add: fields same replicate_2)
  ultimately show ?thesis using fields(3) by blast
qed

text \<open>
  Silence is final: once a face of the salted scheme has gone silent, no sequence of
  datagrams, right tokens included, changes its switch or wakes it up again.
\<close>

theorem silence_is_final:
  assumes "face_steps f g" "face_ok f" "vs_auth_v2 (nf_state f)" "nf_failures f > v2SilenceAt"
  shows "nf_state g = nf_state f \<and> nf_failures g = nf_failures f \<and> (\<forall>req. writeResponse req g = (Inr None, g))"
  using assms
proof (induction rule: face_steps.induct)
  case (none f)
  then show ?case by (simp add: writeResponse_def write_v2_def)
next
  case (more f g h)
  then have g: "nf_state g = nf_state f" "nf_failures g = nf_failures f"
      "\<forall>req. writeResponse req g = (Inr None, g)" by auto
  have ok: "face_ok g" using face_steps_ok [OF more.hyps(1)] more.prems(1) by simp
  from more.hyps(2) obtain d r where d: "serve_datagram d g = (Inr r, h)" by (rule face_stepE)
  have "nf_state h = nf_state g \<and> nf_failures h = nf_failures g"
  proof (cases "DecodePacket (take 65535 d)")
    case (Inl e)
    then show ?thesis using d by (auto simp: serve_datagram_def split: if_splits)
  next
    case (Inr req)
    obtain r' g' where hd: "handle req g = (r', g')" by force
    have "h = g'"
      using d Inr hd by (auto simp: serve_datagram_def split: sum.splits option.splits if_splits)
    then show ?thesis
      using hd g(3) readResponse_ok [OF ok, of req] by (auto simp: handle_def split: if_splits)
  qed
  then show ?case using g more.prems by (simp add: writeResponse_def write_v2_def)
qed

theorem silence_is_final_witness:
  "writeResponse sample_bad_write ((NewNsdpFace (sample_state\<lparr>vs_auth_v2 := True\<rparr>))\<lparr>nf_failures := 6\<rparr>)
   = (Inr None, (NewNsdpFace (sample_state\<lparr>vs_auth_v2 := True\<rparr>))\<lparr>nf_failures := 6\<rparr>)"
proof -
  let ?f = "(NewNsdpFace (sample_state\<lparr>vs_auth_v2 := True\<rparr>))\<lparr>nf_failures := 6\<rparr>"
  have "face_ok ?f"
    using sample_ok sample_model by (simp add: face_ok_def NewNsdpFace_def vs_ok_def mustModel_def mirror_ok_def)
  then show ?thesis
    using silence_is_final [OF face_steps.none, of ?f] by (simp add: NewNsdpFace_def)
qed

subsection \<open>Salts\<close>

lemma nextSalt_injective:
  "fst (nextSalt f) = fst (nextSalt g) \<longleftrightarrow> nf_counter f = nf_counter g"
proof
  assume "fst (nextSalt f) = fst (nextSalt g)"
  then have "put32 ((nf_counter f + 1) * 2654435761) = put32 ((nf_counter g + 1) * 2654435761)"
    by (simp add: nextSalt_def Let_def)
  moreover have "get32 (put32 w ! 0) (put32 w ! 1) (put32 w ! 2) (put32 w ! 3) = w" for w
    by (simp add: put32_def get32_put32)
  ultimately have "(nf_counter f + 1) * 2654435761 = (nf_counter g + 1) * 2654435761" by metis
  then have "(nf_counter f + 1) * 2654435761 * 244002641 = (nf_counter g + 1) * 2654435761 * 244002641"
    by (rule arg_cong)
  moreover have "(2654435761 :: u32) * 244002641 = 1" by code_simp
  then have "w * 2654435761 * 244002641 = (w :: u32)" for w
    by (simp only: mult.assoc mult_1_right)
  ultimately show "nf_counter f = nf_counter g" by simp
qed (simp add: nextSalt_def Let_def)

end
