(* ===== verification/Dispatch.thy ===== *)
theory Dispatch
  imports Registry Nsdp_Writer
begin

section \<open>Choosing the backend: dispatch.go and write_dispatch.go\<close>

text \<open>
  A \<^verbatim>\<open>Switch\<close> runs each operation on exactly one backend, chosen by
  \<open>resolveBackend\<close>, through a reader or writer built on first use and cached.  The world the
  readers and writers act on is the type variable \<open>'s\<close>; the interfaces \<^verbatim>\<open>BackendReader\<close>
  and \<^verbatim>\<open>BackendWriter\<close> are records of their methods; the registries that \<^verbatim>\<open>init\<close>
  functions fill are parameters.  A context is what its \<^verbatim>\<open>Err\<close> answers in a world.
\<close>

subsection \<open>Interfaces\<close>

record 's backend_reader =
  br_GetPorts :: "('s, go_error, port_status list) action"
  br_GetStats :: "('s, go_error, port_stats list) action"
  br_GetVLANs :: "('s, go_error, vlan_info list) action"
  br_GetPVIDs :: "('s, go_error, pvid list) action"
  br_GetLLDP :: "('s, go_error, lldp_neighbor list) action"
  br_GetMACs :: "('s, go_error, mac_entry list) action"
  br_GetPoE :: "('s, go_error, poe_status list) action"
  br_GetSensors :: "('s, go_error, sensor list) action"
  br_GetMgmtIP :: "('s, go_error, mgmt_ip_config) action"
  br_GetUsers :: "('s, go_error, switch_user list) action"
  br_GetServices :: "('s, go_error, service_status list) action"
  br_GetHostname :: "('s, go_error, string) action"
  br_GetSyslog :: "('s, go_error, syslog_config) action"

record 's backend_writer =
  bw_SetPoE :: "int \<Rightarrow> bool \<Rightarrow> bool \<Rightarrow> ('s, go_error, unit) action"
  bw_SetPortEnabled :: "int \<Rightarrow> bool \<Rightarrow> bool \<Rightarrow> ('s, go_error, unit) action"
  bw_SetPortDescription :: "int \<Rightarrow> string \<Rightarrow> bool \<Rightarrow> ('s, go_error, unit) action"
  bw_SetPortSpeed :: "int \<Rightarrow> port_speed \<Rightarrow> bool \<Rightarrow> ('s, go_error, unit) action"
  bw_SetFlowControl :: "int \<Rightarrow> bool \<Rightarrow> bool \<Rightarrow> ('s, go_error, unit) action"
  bw_SetPVID :: "int \<Rightarrow> int \<Rightarrow> bool \<Rightarrow> ('s, go_error, unit) action"
  bw_SetVlanMembership :: "int \<Rightarrow> int \<Rightarrow> vlan_mode \<Rightarrow> bool \<Rightarrow> ('s, go_error, unit) action"
  bw_CreateVlan :: "int \<Rightarrow> string \<Rightarrow> ('s, go_error, unit) action"
  bw_DeleteVlan :: "int \<Rightarrow> bool \<Rightarrow> ('s, go_error, unit) action"
  bw_SetMgmtIP :: "string \<Rightarrow> string \<Rightarrow> string \<Rightarrow> bool \<Rightarrow> ('s, go_error, unit) action"
  bw_CyclePoE :: "int \<Rightarrow> poe_cycle_timeouts \<Rightarrow> bool \<Rightarrow> ('s, go_error, unit) action"
  bw_ClearPoEFault :: "int \<Rightarrow> poe_cycle_timeouts \<Rightarrow> bool \<Rightarrow> ('s, go_error, unit) action"
  bw_SetHostname :: "string \<Rightarrow> bool \<Rightarrow> ('s, go_error, unit) action"
  bw_SetSyslogEnabled :: "bool \<Rightarrow> bool \<Rightarrow> ('s, go_error, unit) action"
  bw_AddSyslogCollector :: "string \<Rightarrow> int \<Rightarrow> int \<Rightarrow> bool \<Rightarrow> ('s, go_error, unit) action"
  bw_RemoveSyslogCollector :: "string \<Rightarrow> bool \<Rightarrow> ('s, go_error, unit) action"

subsection \<open>The switch handle (switch.go)\<close>

text \<open>
  A resolve-once cell: the resolver runs until it succeeds once.  An injected client is its read
  method and, when it also implements the write interface, its write method.
\<close>

record 's resolve_once =
  ro_resolver :: "('s, go_error, string option) action option"
  ro_resolved :: bool
  ro_value :: "string option"

definition newResolveOnce :: "('s, go_error, string option) action option \<Rightarrow> 's resolve_once" where
  "newResolveOnce resolver = \<lparr>ro_resolver = resolver, ro_resolved = False, ro_value = None\<rparr>"

definition resolve :: "('s resolve_once \<times> 's, go_error, string option) action" where
  "resolve = (\<lambda>(c, s).
     if ro_resolved c then (Inr (ro_value c), (c, s))
     else case ro_resolver c of
       None \<Rightarrow> (Inr None, (c\<lparr>ro_resolved := True\<rparr>, s))
     | Some resolver \<Rightarrow>
         (case resolver s of
            (Inl e, s') \<Rightarrow> (Inl e, (c, s'))
          | (Inr v, s') \<Rightarrow> (Inr v, (c\<lparr>ro_resolved := True, ro_value := v\<rparr>, s'))))"

record 's nsdp_transport =
  nt_read :: "'s client_read"
  nt_write :: "'s client_write option"

record 's gswitch =
  sw_model :: switch_model
  sw_host :: string
  sw_nsdp_interface :: "string option"
  sw_nsdp_client :: "'s nsdp_transport option"
  sw_nsdp_password :: "'s resolve_once"
  sw_protected :: "int list"
  sw_backend :: "backend option"
  sw_readers :: "backend \<Rightarrow> 's backend_reader option"
  sw_writers :: "backend \<Rightarrow> 's backend_writer option"

type_synonym 's ctx = "'s \<Rightarrow> go_error option"
type_synonym 's builder = "('s gswitch \<times> 's, go_error, 's backend_reader) action"
type_synonym 's write_builder = "('s gswitch \<times> 's, go_error, 's backend_writer) action"

subsection \<open>Registries, construction on first use\<close>

definition RegisterBackend ::
    "backend \<Rightarrow> 's builder \<Rightarrow> (backend \<Rightarrow> 's builder option) \<Rightarrow> backend \<Rightarrow> 's builder option" where
  "RegisterBackend b build registry = registry(b := Some build)"

definition RegisterWriteBackend ::
    "backend \<Rightarrow> 's write_builder \<Rightarrow> (backend \<Rightarrow> 's write_builder option) \<Rightarrow> backend \<Rightarrow> 's write_builder option" where
  "RegisterWriteBackend b build registry = registry(b := Some build)"

definition no_implementation :: "switch_model \<Rightarrow> backend \<Rightarrow> go_error" where
  "no_implementation m b =
     Wraps ''model %q has no %s backend implementation yet: %w'' [AStr (sm_key m), AStr (backend_name b)]
       ErrUnsupportedCapability"

definition readerFor ::
    "(backend \<Rightarrow> 's builder option) \<Rightarrow> backend \<Rightarrow> ('s gswitch \<times> 's, go_error, 's backend_reader) action" where
  "readerFor registry b = (\<lambda>(sw, s).
     case sw_readers sw b of
       Some r \<Rightarrow> (Inr r, (sw, s))
     | None \<Rightarrow>
         (case registry b of
            None \<Rightarrow> (Inl (no_implementation (sw_model sw) b), (sw, s))
          | Some build \<Rightarrow>
              (case build (sw, s) of
                 (Inl e, t) \<Rightarrow> (Inl e, t)
               | (Inr r, (sw', s')) \<Rightarrow>
                   (Inr r, (sw'\<lparr>sw_readers := (sw_readers sw')(b := Some r)\<rparr>, s')))))"

definition writerFor ::
    "(backend \<Rightarrow> 's write_builder option) \<Rightarrow> backend \<Rightarrow> ('s gswitch \<times> 's, go_error, 's backend_writer) action" where
  "writerFor registry b = (\<lambda>(sw, s).
     case sw_writers sw b of
       Some w \<Rightarrow> (Inr w, (sw, s))
     | None \<Rightarrow>
         (case registry b of
            None \<Rightarrow> (Inl (no_implementation (sw_model sw) b), (sw, s))
          | Some build \<Rightarrow>
              (case build (sw, s) of
                 (Inl e, t) \<Rightarrow> (Inl e, t)
               | (Inr w, (sw', s')) \<Rightarrow>
                   (Inr w, (sw'\<lparr>sw_writers := (sw_writers sw')(b := Some w)\<rparr>, s')))))"

subsection \<open>Resolution\<close>

definition backendPreference :: "backend list" where
  "backendPreference =
     [BackendSNMP, BackendNSDP, BackendHTTP, BackendSSH, BackendTelnet, BackendConsole]"

definition sorted_names :: "backend list \<Rightarrow> string list" where
  "sorted_names bs = map backend_name (sort bs)"

definition resolveBackend :: "switch_model \<Rightarrow> backend option \<Rightarrow> backend list \<Rightarrow> backend res" where
  "resolveBackend m requested preference =
     (case requested of
        Some b \<Rightarrow>
          (if \<not> HasBackend m b
           then Inl (Wraps ''model %q has no %s backend (it has: %s): %w''
                       [AStr (sm_key m), AStr (backend_name b), AStrs (sorted_names (sm_backends m))]
                       ErrUnsupportedCapability)
           else Inr b)
      | None \<Rightarrow>
          (case List.find (HasBackend m) preference of
             Some b \<Rightarrow> Inr b
           | None \<Rightarrow> Inl (Wraps ''model %q declares no backend this library can dispatch to: %w''
                           [AStr (sm_key m)] ErrUnsupportedCapability)))"

definition effective :: "'s gswitch \<Rightarrow> backend option \<Rightarrow> backend option" where
  "effective sw requested = (case requested of None \<Rightarrow> sw_backend sw | Some b \<Rightarrow> Some b)"

definition ResolveBackend :: "'s gswitch \<Rightarrow> backend option \<Rightarrow> backend res" where
  "ResolveBackend sw requested = resolveBackend (sw_model sw) (effective sw requested) backendPreference"

definition cannotServe :: "switch_model \<Rightarrow> backend \<Rightarrow> backend option \<Rightarrow> go_error \<Rightarrow> go_error" where
  "cannotServe m chosen requested exc =
     (if requested = None
      then let others = sorted_names (filter (\<lambda>b. b \<noteq> chosen) (sm_backends m)) in
           Rewraps ''model %q: the default backend %s cannot serve this operation: %w%s''
             [AStr (sm_key m), AStr (backend_name chosen), AStrs others] exc
      else Rewraps ''model %q: the requested backend %s cannot serve this operation: %w''
             [AStr (sm_key m), AStr (backend_name chosen)] exc)"

definition refuse :: "switch_model \<Rightarrow> backend \<Rightarrow> backend option \<Rightarrow> go_error \<Rightarrow> go_error" where
  "refuse m chosen requested e =
     (if errors_is e ErrUnsupportedCapability then cannotServe m chosen requested e else e)"

definition readVia ::
    "(backend \<Rightarrow> 's builder option) \<Rightarrow> 's ctx \<Rightarrow> backend option \<Rightarrow> ('s backend_reader \<Rightarrow> ('s, go_error, 'a) action)
     \<Rightarrow> ('s gswitch \<times> 's, go_error, 'a) action" where
  "readVia registry ctx requested fn = (\<lambda>(sw, s).
     case ctx s of
       Some e \<Rightarrow> (Inl e, (sw, s))
     | None \<Rightarrow>
         let eff = effective sw requested in
         (case resolveBackend (sw_model sw) eff backendPreference of
            Inl e \<Rightarrow> (Inl e, (sw, s))
          | Inr chosen \<Rightarrow>
              (case readerFor registry chosen (sw, s) of
                 (Inl e, t) \<Rightarrow> (Inl (refuse (sw_model sw) chosen eff e), t)
               | (Inr reader, (sw', s')) \<Rightarrow>
                   (case fn reader s' of
                      (Inl e, s'') \<Rightarrow> (Inl (refuse (sw_model sw) chosen eff e), (sw', s''))
                    | (Inr v, s'') \<Rightarrow> (Inr v, (sw', s''))))))"

definition writeVia ::
    "(backend \<Rightarrow> 's write_builder option) \<Rightarrow> 's ctx \<Rightarrow> backend option \<Rightarrow> ('s backend_writer \<Rightarrow> ('s, go_error, unit) action)
     \<Rightarrow> ('s gswitch \<times> 's, go_error, unit) action" where
  "writeVia registry ctx requested fn = (\<lambda>(sw, s).
     case ctx s of
       Some e \<Rightarrow> (Inl e, (sw, s))
     | None \<Rightarrow>
         let eff = effective sw requested in
         (case resolveBackend (sw_model sw) eff backendPreference of
            Inl e \<Rightarrow> (Inl e, (sw, s))
          | Inr chosen \<Rightarrow>
              (case writerFor registry chosen (sw, s) of
                 (Inl e, t) \<Rightarrow> (Inl (refuse (sw_model sw) chosen eff e), t)
               | (Inr writer, (sw', s')) \<Rightarrow>
                   (case fn writer s' of
                      (Inl e, s'') \<Rightarrow> (Inl (refuse (sw_model sw) chosen eff e), (sw', s''))
                    | (Inr v, s'') \<Rightarrow> (Inr v, (sw', s''))))))"

subsection \<open>Resolution is deterministic and never falls back\<close>

lemma resolveBackend_requested:
  "resolveBackend m (Some b) prefs = Inr c \<longleftrightarrow> c = b \<and> HasBackend m b"
  by (auto simp: resolveBackend_def)

lemma resolveBackend_default:
  "resolveBackend m None backendPreference = Inr c \<longleftrightarrow>
   HasBackend m c \<and> (\<forall>b \<in> set (takeWhile (\<lambda>b. b \<noteq> c) backendPreference). \<not> HasBackend m b)"
  by (cases c) (auto simp: resolveBackend_def backendPreference_def split: if_splits)

lemma resolveBackend_has: "resolveBackend m req backendPreference = Inr c \<Longrightarrow> HasBackend m c"
  by (cases req) (simp_all add: resolveBackend_requested resolveBackend_default)

lemma resolveBackend_error:
  "resolveBackend m req prefs = Inl e \<Longrightarrow> errors_is e ErrUnsupportedCapability \<and> \<not> is_verification e"
  by (auto simp: resolveBackend_def split: option.splits if_splits)

lemma effective_effective [simp]: "effective sw (effective sw req) = effective sw req"
  by (simp add: effective_def split: option.split)

lemma errors_is_refuse [simp]:
  "errors_is (refuse m b req e) t = errors_is e t" "is_verification (refuse m b req e) = is_verification e"
  by (simp_all add: refuse_def cannotServe_def Let_def)

lemma refuse_id: "\<not> errors_is e ErrUnsupportedCapability \<Longrightarrow> refuse m b req e = e"
  by (simp add: refuse_def)

lemma readerFor_cong: "registry b = registry' b \<Longrightarrow> readerFor registry b = readerFor registry' b"
  by (simp only: readerFor_def)

lemma writerFor_cong: "registry b = registry' b \<Longrightarrow> writerFor registry b = writerFor registry' b"
  by (simp only: writerFor_def)

lemma readVia_unfold:
  assumes "ctx s = None" "ResolveBackend sw req = Inr b"
  shows "readVia registry ctx req fn (sw, s) =
    (case readerFor registry b (sw, s) of
       (Inl e, t) \<Rightarrow> (Inl (refuse (sw_model sw) b (effective sw req) e), t)
     | (Inr reader, (sw', s')) \<Rightarrow>
         (case fn reader s' of
            (Inl e, s'') \<Rightarrow> (Inl (refuse (sw_model sw) b (effective sw req) e), (sw', s''))
          | (Inr v, s'') \<Rightarrow> (Inr v, (sw', s''))))"
  using assms by (simp add: readVia_def ResolveBackend_def Let_def)

lemma writeVia_unfold:
  assumes "ctx s = None" "ResolveBackend sw req = Inr b"
  shows "writeVia registry ctx req fn (sw, s) =
    (case writerFor registry b (sw, s) of
       (Inl e, t) \<Rightarrow> (Inl (refuse (sw_model sw) b (effective sw req) e), t)
     | (Inr writer, (sw', s')) \<Rightarrow>
         (case fn writer s' of
            (Inl e, s'') \<Rightarrow> (Inl (refuse (sw_model sw) b (effective sw req) e), (sw', s''))
          | (Inr v, s'') \<Rightarrow> (Inr v, (sw', s''))))"
  using assms by (simp add: writeVia_def ResolveBackend_def Let_def)

lemma readVia_stops:
  "ctx s = Some e \<Longrightarrow> readVia registry ctx req fn (sw, s) = (Inl e, (sw, s))"
  "ctx s = None \<Longrightarrow> ResolveBackend sw req = Inl e \<Longrightarrow> readVia registry ctx req fn (sw, s) = (Inl e, (sw, s))"
  "ctx s = Some e \<Longrightarrow> writeVia wregistry ctx req wfn (sw, s) = (Inl e, (sw, s))"
  "ctx s = None \<Longrightarrow> ResolveBackend sw req = Inl e \<Longrightarrow> writeVia wregistry ctx req wfn (sw, s) = (Inl e, (sw, s))"
  by (simp_all add: readVia_def writeVia_def ResolveBackend_def Let_def)

text \<open>
  How a backend failed: it could not be obtained, or it was and the operation on it failed, with this
  error and in this state.
\<close>

definition fails_with ::
    "('s gswitch \<times> 's, go_error, 'h) action \<Rightarrow> ('h \<Rightarrow> ('s, go_error, 'a) action) \<Rightarrow> 's gswitch \<times> 's \<Rightarrow>
     go_error \<Rightarrow> 's gswitch \<times> 's \<Rightarrow> bool" where
  "fails_with obtained fn st cause st' \<longleftrightarrow>
     obtained st = (Inl cause, st') \<or>
     (\<exists>h sw' s' s''. obtained st = (Inr h, (sw', s')) \<and> fn h s' = (Inl cause, s'') \<and> st' = (sw', s''))"

text \<open>What is reported of a failure of backend \<open>b\<close>: the error itself, or wrapped in a refusal that names \<open>b\<close>.\<close>

definition reported :: "switch_model \<Rightarrow> backend \<Rightarrow> go_error \<Rightarrow> go_error \<Rightarrow> bool" where
  "reported m b cause e \<longleftrightarrow>
     (\<forall>sentinel. errors_is e sentinel = errors_is cause sentinel) \<and>
     (if errors_is cause ErrUnsupportedCapability
      then \<exists>fmt args. e = Rewraps fmt (AStr (sm_key m) # AStr (backend_name b) # args) cause
      else e = cause)"

lemma reported_refuse: "reported m b cause (refuse m b req cause)"
  by (simp add: reported_def refuse_def cannotServe_def Let_def)


lemma gs110emx_default: "resolveBackend model_gs110emx None backendPreference = Inr BackendNSDP"
  by code_simp

definition sample_switch :: "unit gswitch" where
  "sample_switch = \<lparr>sw_model = model_gs110emx, sw_host = [], sw_nsdp_interface = None, sw_nsdp_client = None,
     sw_nsdp_password = newResolveOnce None, sw_protected = [], sw_backend = None,
     sw_readers = (\<lambda>_. None), sw_writers = (\<lambda>_. None)\<rparr>"


subsection \<open>Readers and writers are built once\<close>

text \<open>What a builder must leave alone; then the cache makes a later build impossible.\<close>

locale builder_law =
  fixes build :: "('s gswitch \<times> 's, go_error, 'r) action"
  assumes keeps: "build (sw, s) = (r, (sw', s')) \<Longrightarrow>
      sw_model sw' = sw_model sw \<and> sw_backend sw' = sw_backend sw \<and> sw_protected sw' = sw_protected sw
      \<and> sw_readers sw' = sw_readers sw \<and> sw_writers sw' = sw_writers sw"
begin

lemma resolution_kept: "build (sw, s) = (r, (sw', s')) \<Longrightarrow> ResolveBackend sw' req = ResolveBackend sw req"
  using keeps [of sw s r sw' s'] by (simp add: ResolveBackend_def effective_def split: option.split)

end

lemma readerFor_keeps:
  assumes "\<And>build. registry b = Some build \<Longrightarrow> builder_law build"
    and "readerFor registry b (sw, s) = (r, (sw', s'))"
  shows "ResolveBackend sw' req = ResolveBackend sw req \<and> sw_writers sw' = sw_writers sw
    \<and> (\<forall>x. r = Inr x \<longrightarrow> sw_readers sw' = (sw_readers sw)(b := Some x))
    \<and> (\<forall>e. r = Inl e \<longrightarrow> sw_readers sw' = sw_readers sw)"
proof (cases "sw_readers sw b")
  case (Some x)
  then show ?thesis using assms(2) by (auto simp: readerFor_def)
next
  case None
  show ?thesis
  proof (cases "registry b")
    case None
    then show ?thesis using assms(2) \<open>sw_readers sw b = None\<close> by (auto simp: readerFor_def)
  next
    case (Some build)
    obtain r1 sw1 s1 where b: "build (sw, s) = (r1, (sw1, s1))" by (cases "build (sw, s)") auto
    note laws = builder_law.keeps [OF assms(1) [OF Some] b]
    show ?thesis
      using assms(2) None Some b laws
      by (cases r1) (auto simp: readerFor_def ResolveBackend_def effective_def split: option.split)
  qed
qed

lemma readVia_caches:
  assumes "\<And>build. registry b = Some build \<Longrightarrow> builder_law build"
    and "ctx s = None" "ResolveBackend sw req = Inr b" "readVia registry ctx req fn (sw, s) = (Inr v, (sw', s'))"
  shows "\<exists>x. sw_readers sw' b = Some x \<and> (\<forall>registry' s''. readerFor registry' b (sw', s'') = (Inr x, (sw', s'')))"
proof -
  obtain r sw1 s1 where r: "readerFor registry b (sw, s) = (r, (sw1, s1))" by (cases "readerFor registry b (sw, s)") auto
  then obtain x where x: "r = Inr x" "sw1 = sw'"
    using assms(2-4) by (cases r) (auto simp: readVia_unfold split: prod.splits sum.splits)
  then show ?thesis using readerFor_keeps [OF assms(1) r] by (auto simp: readerFor_def)
qed

end
