(* ===== verification/Facade.thy ===== *)
theory Facade
  imports Dispatch Nsdp_System
begin

section \<open>The facade: switch.go, switch_write.go, snapshot.go and backend_nsdp.go\<close>

text \<open>
  \<^verbatim>\<open>Switch\<close>'s operations over the dispatch seam, and the NSDP backend's builders.  The world
  is the list of the UDP clients constructed so far and the network; a client object is its index
  in the list.  The fields of \<^verbatim>\<open>Switch\<close> that only the SNMP, HTTP and CLI backends use are
  left out, and those backends' builders are entries of the registry parameters.
\<close>

subsection \<open>UDP clients as objects\<close>

type_synonym 'n world = "udp_client list \<times> 'n"

definition at_client ::
    "nat \<Rightarrow> (udp_client \<times> 'n, go_error, 'a) action \<Rightarrow> ('n world, go_error, 'a) action" where
  "at_client i act = (\<lambda>(cs, n). case act (cs ! i, n) of (r, (c, n')) \<Rightarrow> (r, (cs[i := c], n')))"

definition client_object :: "'n transceiver \<Rightarrow> nat \<Rightarrow> 'n world nsdp_transport" where
  "client_object tr i =
     \<lparr>nt_read = (\<lambda>tags. at_client i (UDPClient_Read tr tags)),
      nt_write = Some (\<lambda>tlvs password. at_client i (UDPClient_Write tr tlvs password))\<rparr>"

subsection \<open>Construction (switch.go)\<close>

type_synonym 's switch_option = "'s gswitch \<Rightarrow> 's gswitch"

definition sortedUniquePorts :: "int list \<Rightarrow> int list" where
  "sortedUniquePorts ports = sort_uniq ports"

definition WithProtectedPorts :: "int list \<Rightarrow> 's switch_option" where
  "WithProtectedPorts ports sw = sw\<lparr>sw_protected := sortedUniquePorts ports\<rparr>"

definition WithNSDPInterface :: "string \<Rightarrow> 's switch_option" where
  "WithNSDPInterface iface sw = sw\<lparr>sw_nsdp_interface := Some iface\<rparr>"

definition WithNSDPClient :: "'s nsdp_transport \<Rightarrow> 's switch_option" where
  "WithNSDPClient c sw = sw\<lparr>sw_nsdp_client := Some c\<rparr>"

definition WithNSDPPassword :: "string \<Rightarrow> 's switch_option" where
  "WithNSDPPassword pw sw = sw\<lparr>sw_nsdp_password := newResolveOnce (Some (\<lambda>s. (Inr (Some pw), s)))\<rparr>"

definition WithNSDPPasswordResolver :: "('s, go_error, string option) action \<Rightarrow> 's switch_option" where
  "WithNSDPPasswordResolver r sw = sw\<lparr>sw_nsdp_password := newResolveOnce (Some r)\<rparr>"

definition WithBackend :: "backend \<Rightarrow> 's switch_option" where
  "WithBackend b sw = sw\<lparr>sw_backend := Some b\<rparr>"

definition New :: "switch_model option \<Rightarrow> string \<Rightarrow> 's switch_option list \<Rightarrow> 's gswitch res" where
  "New m host opts =
     (case m of
        None \<Rightarrow> Inl (Wraps ''netgearswitch.New: model must not be nil: %w'' [] ErrConfig)
      | Some sm \<Rightarrow>
          Inr (foldl (\<lambda>sw opt. opt sw)
            \<lparr>sw_model = sm, sw_host = host, sw_nsdp_interface = None, sw_nsdp_client = None,
             sw_nsdp_password = newResolveOnce None, sw_protected = [], sw_backend = None,
             sw_readers = (\<lambda>_. None), sw_writers = (\<lambda>_. None)\<rparr> opts))"

subsection \<open>The NSDP builders (backend_nsdp.go)\<close>

text \<open>\<^verbatim>\<open>os.ReadFile\<close> is the parameter \<open>read_file\<close>, the transport \<open>tr\<close>.\<close>

definition buildNSDPClient ::
    "(string \<Rightarrow> string res) \<Rightarrow> 'n transceiver
     \<Rightarrow> ('n world gswitch \<times> 'n world, go_error, 'n world nsdp_transport) action" where
  "buildNSDPClient read_file tr = (\<lambda>(sw, (cs, n)).
     case sw_nsdp_client sw of
       Some c \<Rightarrow> (Inr c, (sw, (cs, n)))
     | None \<Rightarrow>
         (let opts = (case sw_nsdp_interface sw of None \<Rightarrow> [] | Some iface \<Rightarrow> [WithInterface iface]) in
          case NewUDPClient read_file (sw_host sw) opts of
            Inl e \<Rightarrow> (Inl e, (sw, (cs, n)))
          | Inr c \<Rightarrow> (Inr (client_object tr (length cs)), (sw, (cs @ [c], n)))))"

text \<open>\<^verbatim>\<open>*nsdp.Reader\<close> as a \<^verbatim>\<open>BackendReader\<close>.\<close>

definition nsdp_backend_reader :: "'s client_read \<Rightarrow> nsdp_reader \<Rightarrow> 's backend_reader" where
  "nsdp_backend_reader read r =
     \<lparr>br_GetPorts = GetPorts read, br_GetStats = GetStats read, br_GetVLANs = GetVLANs read,
      br_GetPVIDs = GetPVIDs read, br_GetLLDP = sret (GetLLDP r), br_GetMACs = sret (GetMACs r),
      br_GetPoE = sret (GetPoE r), br_GetSensors = sret (GetSensors r), br_GetMgmtIP = GetMgmtIP read,
      br_GetUsers = sret (GetUsers r), br_GetServices = sret (GetServices r),
      br_GetHostname = GetHostname read, br_GetSyslog = sret (GetSyslog r)\<rparr>"

definition buildNSDPReader :: "(string \<Rightarrow> string res) \<Rightarrow> 'n transceiver \<Rightarrow> 'n world builder" where
  "buildNSDPReader read_file tr = (\<lambda>(sw, w).
     case buildNSDPClient read_file tr (sw, w) of
       (Inl e, t) \<Rightarrow> (Inl e, t)
     | (Inr client, t) \<Rightarrow>
         (case NewReader (sw_model sw) of
            Inl e \<Rightarrow> (Inl e, t)
          | Inr r \<Rightarrow> (Inr (nsdp_backend_reader (nt_read client) r), t)))"

definition requireNSDPPassword :: "string \<Rightarrow> string option \<Rightarrow> string res" where
  "requireNSDPPassword host password =
     (case password of
        None \<Rightarrow> Inl (Wraps ''no NSDP admin password configured for %q: %w'' [AStr host] ErrCredential)
      | Some pw \<Rightarrow> Inr pw)"

definition buildNSDPWriteClient ::
    "(string \<Rightarrow> string res) \<Rightarrow> 'n transceiver
     \<Rightarrow> ('n world gswitch \<times> 'n world, go_error, 'n world client_read \<times> 'n world client_write) action" where
  "buildNSDPWriteClient read_file tr = (\<lambda>(sw, w).
     case buildNSDPClient read_file tr (sw, w) of
       (Inl e, t) \<Rightarrow> (Inl e, t)
     | (Inr client, t) \<Rightarrow>
         (case nt_write client of
            None \<Rightarrow> (Inl (Wraps ''nsdp client for %q does not support writes: %w'' [AStr (sw_host sw)]
                           ErrUnsupportedCapability), t)
          | Some send \<Rightarrow> (Inr (nt_read client, send), t)))"

text \<open>
  \<^verbatim>\<open>nsdpWriterAdapter\<close>: the writer as a \<^verbatim>\<open>BackendWriter\<close>, with the two PoE operations
  it lacks filled in as refusals.
\<close>

definition nsdpWriterAdapter ::
    "'s client_read \<Rightarrow> 's client_write \<Rightarrow> nsdp_writer \<Rightarrow> 's backend_writer" where
  "nsdpWriterAdapter read send w =
     \<lparr>bw_SetPoE = (\<lambda>port on force. sret (SetPoE w port on force)),
      bw_SetPortEnabled = (\<lambda>port on force. sret (SetPortEnabled w port on force)),
      bw_SetPortDescription = SetPortDescription read send w,
      bw_SetPortSpeed = (\<lambda>port speed force. sret (SetPortSpeed w port speed force)),
      bw_SetFlowControl = (\<lambda>port on force. sret (SetFlowControl w port on force)),
      bw_SetPVID = SetPVID read send w,
      bw_SetVlanMembership = SetVlanMembership read send w,
      bw_CreateVlan = CreateVlan read send w,
      bw_DeleteVlan = DeleteVlan read send w,
      bw_SetMgmtIP = SetMgmtIP read send w,
      bw_CyclePoE = (\<lambda>port timeouts force. sret (unsupportedWrite NoPoEWriteMsg [])),
      bw_ClearPoEFault = (\<lambda>port timeouts force. sret (unsupportedWrite NoPoEWriteMsg [])),
      bw_SetHostname = (\<lambda>name force. SetHostname read send w name),
      bw_SetSyslogEnabled = (\<lambda>on force. sret (SetSyslogEnabled w on force)),
      bw_AddSyslogCollector = (\<lambda>host port severity force. sret (AddSyslogCollector w host port severity force)),
      bw_RemoveSyslogCollector = (\<lambda>host force. sret (RemoveSyslogCollector w host force))\<rparr>"

definition resolve_nsdp_password :: "('s gswitch \<times> 's, go_error, string option) action" where
  "resolve_nsdp_password = (\<lambda>(sw, s).
     case resolve (sw_nsdp_password sw, s) of
       (r, (cell, s')) \<Rightarrow> (r, (sw\<lparr>sw_nsdp_password := cell\<rparr>, s')))"

definition buildNSDPWriter :: "(string \<Rightarrow> string res) \<Rightarrow> 'n transceiver \<Rightarrow> 'n world write_builder" where
  "buildNSDPWriter read_file tr = (\<lambda>(sw, w).
     case buildNSDPWriteClient read_file tr (sw, w) of
       (Inl e, t) \<Rightarrow> (Inl e, t)
     | (Inr (read, send), t) \<Rightarrow>
         (case resolve_nsdp_password t of
            (Inl e, t') \<Rightarrow> (Inl e, t')
          | (Inr password, t') \<Rightarrow>
              (case requireNSDPPassword (sw_host sw) password of
                 Inl e \<Rightarrow> (Inl e, t')
               | Inr pw \<Rightarrow>
                   (case NewWriter (sw_model sw) pw (sw_protected sw) of
                      Inl e \<Rightarrow> (Inl e, t')
                    | Inr writer \<Rightarrow> (Inr (nsdpWriterAdapter read send writer), t')))))"

subsection \<open>The builders keep what they must\<close>

lemma buildNSDPClient_keeps: "buildNSDPClient read_file tr (sw, w) = (r, (sw', w')) \<Longrightarrow> sw' = sw"
  by (cases w) (auto simp: buildNSDPClient_def Let_def split: option.splits sum.splits)

interpretation nsdp_reader_builder: builder_law "buildNSDPReader read_file tr"
  for read_file :: "string \<Rightarrow> string res" and tr :: "'n transceiver"
  by unfold_locales
    (auto simp: buildNSDPReader_def split: prod.splits sum.splits dest!: buildNSDPClient_keeps)

interpretation nsdp_writer_builder: builder_law "buildNSDPWriter read_file tr"
  for read_file :: "string \<Rightarrow> string res" and tr :: "'n transceiver"
  by unfold_locales
    (auto simp: buildNSDPWriter_def buildNSDPWriteClient_def resolve_nsdp_password_def
       split: prod.splits sum.splits option.splits dest!: buildNSDPClient_keeps)

subsection \<open>Registries\<close>

text \<open>What the \<^verbatim>\<open>init\<close> function of the NSDP shim does to the registries.\<close>

record 's registries =
  rg_readers :: "backend \<Rightarrow> 's builder option"
  rg_writers :: "backend \<Rightarrow> 's write_builder option"

definition nsdp_init :: "(string \<Rightarrow> string res) \<Rightarrow> 'n transceiver \<Rightarrow> 'n world registries \<Rightarrow> 'n world registries" where
  "nsdp_init read_file tr rg =
     rg\<lparr>rg_readers := RegisterBackend BackendNSDP (buildNSDPReader read_file tr) (rg_readers rg),
        rg_writers := RegisterWriteBackend BackendNSDP (buildNSDPWriter read_file tr) (rg_writers rg)\<rparr>"

subsection \<open>Reads (switch.go)\<close>

definition Switch_GetPorts :: "'s registries \<Rightarrow> 's ctx \<Rightarrow> backend option \<Rightarrow> ('s gswitch \<times> 's, go_error, port_status list) action" where
  "Switch_GetPorts rg ctx b = readVia (rg_readers rg) ctx b br_GetPorts"

definition Switch_GetStats :: "'s registries \<Rightarrow> 's ctx \<Rightarrow> backend option \<Rightarrow> ('s gswitch \<times> 's, go_error, port_stats list) action" where
  "Switch_GetStats rg ctx b = readVia (rg_readers rg) ctx b br_GetStats"

definition Switch_GetVLANs :: "'s registries \<Rightarrow> 's ctx \<Rightarrow> backend option \<Rightarrow> ('s gswitch \<times> 's, go_error, vlan_info list) action" where
  "Switch_GetVLANs rg ctx b = readVia (rg_readers rg) ctx b br_GetVLANs"

definition Switch_GetPVIDs :: "'s registries \<Rightarrow> 's ctx \<Rightarrow> backend option \<Rightarrow> ('s gswitch \<times> 's, go_error, pvid list) action" where
  "Switch_GetPVIDs rg ctx b = readVia (rg_readers rg) ctx b br_GetPVIDs"

definition Switch_GetLLDP :: "'s registries \<Rightarrow> 's ctx \<Rightarrow> backend option \<Rightarrow> ('s gswitch \<times> 's, go_error, lldp_neighbor list) action" where
  "Switch_GetLLDP rg ctx b = readVia (rg_readers rg) ctx b br_GetLLDP"

definition getMACsNoGate :: "'s registries \<Rightarrow> 's ctx \<Rightarrow> backend option \<Rightarrow> ('s gswitch \<times> 's, go_error, mac_entry list) action" where
  "getMACsNoGate rg ctx b = readVia (rg_readers rg) ctx b br_GetMACs"

definition Switch_GetMACs :: "'s registries \<Rightarrow> 's ctx \<Rightarrow> backend option \<Rightarrow> ('s gswitch \<times> 's, go_error, mac_entry list) action" where
  "Switch_GetMACs rg ctx b = (\<lambda>(sw, s).
     if \<not> HasMACTable (sw_model sw)
     then (Inl (Wraps ''model %q has no MAC/FDB table: %w'' [AStr (sm_key (sw_model sw))] ErrUnsupportedCapability), (sw, s))
     else getMACsNoGate rg ctx b (sw, s))"

definition Switch_GetPoE :: "'s registries \<Rightarrow> 's ctx \<Rightarrow> backend option \<Rightarrow> ('s gswitch \<times> 's, go_error, poe_status list) action" where
  "Switch_GetPoE rg ctx b = readVia (rg_readers rg) ctx b br_GetPoE"

definition Switch_GetSensors :: "'s registries \<Rightarrow> 's ctx \<Rightarrow> backend option \<Rightarrow> ('s gswitch \<times> 's, go_error, sensor list) action" where
  "Switch_GetSensors rg ctx b = readVia (rg_readers rg) ctx b br_GetSensors"

definition Switch_GetUsers :: "'s registries \<Rightarrow> 's ctx \<Rightarrow> backend option \<Rightarrow> ('s gswitch \<times> 's, go_error, switch_user list) action" where
  "Switch_GetUsers rg ctx b = readVia (rg_readers rg) ctx b br_GetUsers"

definition Switch_GetServices :: "'s registries \<Rightarrow> 's ctx \<Rightarrow> backend option \<Rightarrow> ('s gswitch \<times> 's, go_error, service_status list) action" where
  "Switch_GetServices rg ctx b = readVia (rg_readers rg) ctx b br_GetServices"

definition Switch_GetHostname :: "'s registries \<Rightarrow> 's ctx \<Rightarrow> backend option \<Rightarrow> ('s gswitch \<times> 's, go_error, string) action" where
  "Switch_GetHostname rg ctx b = readVia (rg_readers rg) ctx b br_GetHostname"

definition Switch_GetSyslog :: "'s registries \<Rightarrow> 's ctx \<Rightarrow> backend option \<Rightarrow> ('s gswitch \<times> 's, go_error, syslog_config) action" where
  "Switch_GetSyslog rg ctx b = readVia (rg_readers rg) ctx b br_GetSyslog"

definition Switch_GetMgmtIP :: "'s registries \<Rightarrow> 's ctx \<Rightarrow> backend option \<Rightarrow> ('s gswitch \<times> 's, go_error, mgmt_ip_config) action" where
  "Switch_GetMgmtIP rg ctx b = readVia (rg_readers rg) ctx b br_GetMgmtIP"

text \<open>\<^verbatim>\<open>NSDPDevice\<close> bypasses the dispatch and its cache: a fresh reader per call.\<close>

definition NSDPDevice ::
    "(string \<Rightarrow> string res) \<Rightarrow> 'n transceiver \<Rightarrow> 'n world ctx
     \<Rightarrow> ('n world gswitch \<times> 'n world, go_error, nsdp_device) action" where
  "NSDPDevice read_file tr ctx = (\<lambda>(sw, w).
     case ctx w of
       Some e \<Rightarrow> (Inl e, (sw, w))
     | None \<Rightarrow>
         if \<not> HasBackend (sw_model sw) BackendNSDP
         then (Inl (Wraps ''model %q has no NSDP backend: %w'' [AStr (sm_key (sw_model sw))] ErrUnsupportedCapability), (sw, w))
         else case buildNSDPClient read_file tr (sw, w) of
           (Inl e, t) \<Rightarrow> (Inl e, t)
         | (Inr client, (sw', w')) \<Rightarrow>
             (case NewReader (sw_model sw) of
                Inl e \<Rightarrow> (Inl e, (sw', w'))
              | Inr r \<Rightarrow> (case GetDevice (nt_read client) w' of (x, w'') \<Rightarrow> (x, (sw', w'')))))"

subsection \<open>Snapshot (snapshot.go)\<close>

definition snapshotDegrade :: "'a \<Rightarrow> ('t, go_error, 'a) action \<Rightarrow> ('t, go_error, 'a) action" where
  "snapshotDegrade zero fn s =
     (case fn s of
        (Inl e, t) \<Rightarrow> (if errors_is e ErrUnsupportedCapability then (Inr zero, t) else (Inl e, t))
      | (Inr v, t) \<Rightarrow> (Inr v, t))"

definition snapshotDegradePtr :: "('t, go_error, 'a) action \<Rightarrow> ('t, go_error, 'a option) action" where
  "snapshotDegradePtr fn s =
     (case fn s of
        (Inl e, t) \<Rightarrow> (if errors_is e ErrUnsupportedCapability then (Inr None, t) else (Inl e, t))
      | (Inr v, t) \<Rightarrow> (Inr (Some v), t))"

definition Snapshot :: "'s registries \<Rightarrow> 's ctx \<Rightarrow> backend option \<Rightarrow> ('s gswitch \<times> 's, go_error, switch_data) action" where
  "Snapshot rg ctx b = (\<lambda>(sw, s).
     case ctx s of
       Some e \<Rightarrow> (Inl e, (sw, s))
     | None \<Rightarrow>
         (sbind (snapshotDegrade [] (Switch_GetPorts rg ctx b)) (\<lambda>ports.
          sbind (snapshotDegrade [] (Switch_GetStats rg ctx b)) (\<lambda>stats.
          sbind (snapshotDegrade [] (Switch_GetVLANs rg ctx b)) (\<lambda>vlans.
          sbind (snapshotDegrade [] (Switch_GetPVIDs rg ctx b)) (\<lambda>pvids.
          sbind (snapshotDegrade [] (Switch_GetLLDP rg ctx b)) (\<lambda>lldp.
          sbind (snapshotDegrade [] (getMACsNoGate rg ctx b)) (\<lambda>macs.
          sbind (snapshotDegrade [] (Switch_GetPoE rg ctx b)) (\<lambda>poe.
          sbind (snapshotDegrade [] (Switch_GetSensors rg ctx b)) (\<lambda>sensors.
          sbind (snapshotDegradePtr (Switch_GetMgmtIP rg ctx b)) (\<lambda>mgmt.
          sret (Inr \<lparr>sd_model = sm_key (sw_model sw), sd_host = sw_host sw, sd_ports = ports, sd_poe = poe,
             sd_vlans = vlans, sd_pvids = pvids, sd_lldp = lldp, sd_macs = macs, sd_sensors = sensors,
             sd_stats = stats, sd_mgmt_ip = mgmt\<rparr>)))))))))) (sw, s)))"

subsection \<open>Writes (switch_write.go)\<close>

record write_options =
  wo_force :: bool
  wo_backend :: "backend option"

type_synonym 's facade_write = "('s gswitch \<times> 's, go_error, unit) action"

definition cycleTimeoutsFromOptions :: "(poe_cycle_timeouts \<Rightarrow> poe_cycle_timeouts) list \<Rightarrow> poe_cycle_timeouts" where
  "cycleTimeoutsFromOptions opts = foldl (\<lambda>t opt. opt t) DefaultPoeCycleTimeouts opts"

definition WithCycleTimeouts :: "poe_cycle_timeouts \<Rightarrow> poe_cycle_timeouts \<Rightarrow> poe_cycle_timeouts" where
  "WithCycleTimeouts t pt = t"

definition Switch_SetPoE :: "'s registries \<Rightarrow> 's ctx \<Rightarrow> int \<Rightarrow> bool \<Rightarrow> write_options \<Rightarrow> 's facade_write" where
  "Switch_SetPoE rg ctx port on w = writeVia (rg_writers rg) ctx (wo_backend w) (\<lambda>b. bw_SetPoE b port on (wo_force w))"

definition Switch_SetPortEnabled :: "'s registries \<Rightarrow> 's ctx \<Rightarrow> int \<Rightarrow> bool \<Rightarrow> write_options \<Rightarrow> 's facade_write" where
  "Switch_SetPortEnabled rg ctx port on w =
     writeVia (rg_writers rg) ctx (wo_backend w) (\<lambda>b. bw_SetPortEnabled b port on (wo_force w))"

definition Switch_SetPortDescription :: "'s registries \<Rightarrow> 's ctx \<Rightarrow> int \<Rightarrow> string \<Rightarrow> write_options \<Rightarrow> 's facade_write" where
  "Switch_SetPortDescription rg ctx port description w =
     writeVia (rg_writers rg) ctx (wo_backend w) (\<lambda>b. bw_SetPortDescription b port description (wo_force w))"

definition Switch_SetPortSpeed :: "'s registries \<Rightarrow> 's ctx \<Rightarrow> int \<Rightarrow> port_speed \<Rightarrow> write_options \<Rightarrow> 's facade_write" where
  "Switch_SetPortSpeed rg ctx port speed w =
     writeVia (rg_writers rg) ctx (wo_backend w) (\<lambda>b. bw_SetPortSpeed b port speed (wo_force w))"

definition Switch_SetFlowControl :: "'s registries \<Rightarrow> 's ctx \<Rightarrow> int \<Rightarrow> bool \<Rightarrow> write_options \<Rightarrow> 's facade_write" where
  "Switch_SetFlowControl rg ctx port on w =
     writeVia (rg_writers rg) ctx (wo_backend w) (\<lambda>b. bw_SetFlowControl b port on (wo_force w))"

definition Switch_SetPVID :: "'s registries \<Rightarrow> 's ctx \<Rightarrow> int \<Rightarrow> int \<Rightarrow> write_options \<Rightarrow> 's facade_write" where
  "Switch_SetPVID rg ctx port vlan w =
     writeVia (rg_writers rg) ctx (wo_backend w) (\<lambda>b. bw_SetPVID b port vlan (wo_force w))"

definition Switch_SetVlanMembership :: "'s registries \<Rightarrow> 's ctx \<Rightarrow> int \<Rightarrow> int \<Rightarrow> vlan_mode \<Rightarrow> write_options \<Rightarrow> 's facade_write" where
  "Switch_SetVlanMembership rg ctx vlanID port mode w =
     writeVia (rg_writers rg) ctx (wo_backend w) (\<lambda>b. bw_SetVlanMembership b vlanID port mode (wo_force w))"

definition Switch_CreateVlan :: "'s registries \<Rightarrow> 's ctx \<Rightarrow> int \<Rightarrow> string \<Rightarrow> write_options \<Rightarrow> 's facade_write" where
  "Switch_CreateVlan rg ctx vlanID name w =
     writeVia (rg_writers rg) ctx (wo_backend w) (\<lambda>b. bw_CreateVlan b vlanID name)"

definition isProtected :: "'s gswitch \<Rightarrow> int \<Rightarrow> bool" where
  "isProtected sw port \<longleftrightarrow> port \<in> set (sw_protected sw)"

definition guardVLANDeleteMembers :: "'s registries \<Rightarrow> 's ctx \<Rightarrow> int \<Rightarrow> bool \<Rightarrow> backend option \<Rightarrow> 's facade_write" where
  "guardVLANDeleteMembers rg ctx vlanID force b = (\<lambda>(sw, s).
     if force then (Inr (), (sw, s))
     else case Switch_GetVLANs rg ctx b (sw, s) of
       (Inl e, t) \<Rightarrow> (if errors_is e ErrUnsupportedCapability then (Inr (), t) else (Inl e, t))
     | (Inr vlans, t) \<Rightarrow>
         (case find_vlan vlanID vlans of
            None \<Rightarrow> (Inr (), t)
          | Some v \<Rightarrow>
              (let clash = filter (isProtected sw) (vi_members v) in
               if clash \<noteq> []
               then (Inl (Wraps ''VLAN %d includes protected port(s) %s; pass force=True to delete it anyway: %w''
                            [AInt vlanID, AInts clash] ErrProtectedPort), t)
               else (Inr (), t))))"

definition Switch_DeleteVlan :: "'s registries \<Rightarrow> 's ctx \<Rightarrow> int \<Rightarrow> write_options \<Rightarrow> 's facade_write" where
  "Switch_DeleteVlan rg ctx vlanID w =
     sbind (guardVLANDeleteMembers rg ctx vlanID (wo_force w) (wo_backend w)) (\<lambda>_.
     writeVia (rg_writers rg) ctx (wo_backend w) (\<lambda>b. bw_DeleteVlan b vlanID (wo_force w)))"

definition Switch_SetHostname :: "'s registries \<Rightarrow> 's ctx \<Rightarrow> string \<Rightarrow> write_options \<Rightarrow> 's facade_write" where
  "Switch_SetHostname rg ctx name w =
     writeVia (rg_writers rg) ctx (wo_backend w) (\<lambda>b. bw_SetHostname b name (wo_force w))"

definition Switch_SetSyslogEnabled :: "'s registries \<Rightarrow> 's ctx \<Rightarrow> bool \<Rightarrow> write_options \<Rightarrow> 's facade_write" where
  "Switch_SetSyslogEnabled rg ctx on w =
     writeVia (rg_writers rg) ctx (wo_backend w) (\<lambda>b. bw_SetSyslogEnabled b on (wo_force w))"

definition Switch_AddSyslogCollector :: "'s registries \<Rightarrow> 's ctx \<Rightarrow> string \<Rightarrow> int \<Rightarrow> int \<Rightarrow> write_options \<Rightarrow> 's facade_write" where
  "Switch_AddSyslogCollector rg ctx host port severity w =
     writeVia (rg_writers rg) ctx (wo_backend w) (\<lambda>b. bw_AddSyslogCollector b host port severity (wo_force w))"

definition Switch_RemoveSyslogCollector :: "'s registries \<Rightarrow> 's ctx \<Rightarrow> string \<Rightarrow> write_options \<Rightarrow> 's facade_write" where
  "Switch_RemoveSyslogCollector rg ctx host w =
     writeVia (rg_writers rg) ctx (wo_backend w) (\<lambda>b. bw_RemoveSyslogCollector b host (wo_force w))"

definition Switch_SetMgmtIP :: "'s registries \<Rightarrow> 's ctx \<Rightarrow> string \<Rightarrow> string \<Rightarrow> string \<Rightarrow> write_options \<Rightarrow> 's facade_write" where
  "Switch_SetMgmtIP rg ctx address netmask gateway w =
     writeVia (rg_writers rg) ctx (wo_backend w) (\<lambda>b. bw_SetMgmtIP b address netmask gateway (wo_force w))"

definition Switch_CyclePoE :: "'s registries \<Rightarrow> 's ctx \<Rightarrow> int \<Rightarrow> write_options
    \<Rightarrow> (poe_cycle_timeouts \<Rightarrow> poe_cycle_timeouts) list \<Rightarrow> 's facade_write" where
  "Switch_CyclePoE rg ctx port w opts =
     writeVia (rg_writers rg) ctx (wo_backend w) (\<lambda>b. bw_CyclePoE b port (cycleTimeoutsFromOptions opts) (wo_force w))"

definition Switch_ClearPoEFault :: "'s registries \<Rightarrow> 's ctx \<Rightarrow> int \<Rightarrow> write_options
    \<Rightarrow> (poe_cycle_timeouts \<Rightarrow> poe_cycle_timeouts) list \<Rightarrow> 's facade_write" where
  "Switch_ClearPoEFault rg ctx port w opts =
     writeVia (rg_writers rg) ctx (wo_backend w) (\<lambda>b. bw_ClearPoEFault b port (cycleTimeoutsFromOptions opts) (wo_force w))"

end
