(* ===== verification/Facade_System.thy ===== *)
theory Facade_System
  imports Facade
begin

section \<open>The facade over the virtual switch\<close>

text \<open>
  Every UDP client object that talks to the virtual switch is a lawful client: the locale
  \<open>nsdp_write_client\<close> is interpreted once more, for the object at index \<open>i\<close> of the world.  The
  facade's operations then refine an abstract switch: any sequence of them does to the switch's
  state what the abstract operations say, whether readers and writers are built or cached.
\<close>

subsection \<open>Client objects are lawful clients\<close>

definition face_fit :: "string \<Rightarrow> nat \<Rightarrow> nsdp_face \<Rightarrow> bool" where
  "face_fit password n f \<longleftrightarrow> face_ok f \<and> nf_failures f \<le> v2SilenceAt
     \<and> vs_password (nf_state f) = password \<and> is_ascii password \<and> length password \<le> 4096
     \<and> unat (nf_counter f) + n < 2 ^ 32"

definition client_fit :: "vstate \<Rightarrow> udp_client \<Rightarrow> bool" where
  "client_fit s c \<longleftrightarrow> length (client_mac c) = 6 \<and> scheme_ok c s"

lemma system_inv_split: "system_inv password n (c, (f, m)) \<longleftrightarrow> face_fit password n f \<and> client_fit (nf_state f) c"
  by (auto simp: system_inv_def face_fit_def client_fit_def)

lemma client_fit_cong: "vs_auth_v2 s = vs_auth_v2 s' \<Longrightarrow> client_fit s c = client_fit s' c"
  by (simp add: client_fit_def scheme_ok_def scheme_of_def)

text \<open>The world holds \<open>l\<close> client objects, all fit, and a switch of model key \<open>k\<close>; object \<open>i\<close> is one of them.\<close>

definition world_inv :: "string \<Rightarrow> nat \<Rightarrow> string \<Rightarrow> nat \<Rightarrow> nat \<Rightarrow> net world \<Rightarrow> bool" where
  "world_inv password l k i n = (\<lambda>(cs, (f, m)).
     i < l \<and> length cs = l \<and> face_fit password n f \<and> list_all (client_fit (nf_state f)) cs
     \<and> vs_model_key (nf_state f) = k)"

definition world_dev :: "net world \<Rightarrow> vstate" where
  "world_dev = (\<lambda>(cs, (f, m)). nf_state f)"

lemma world_inv_after:
  assumes "world_inv password l k i n (cs, (f, m))" "system_inv password j (c, (g, m'))"
    and "vs_auth_v2 (nf_state g) = vs_auth_v2 (nf_state f)" "vs_model_key (nf_state g) = vs_model_key (nf_state f)"
  shows "world_inv password l k i j (cs[i := c], (g, m'))"
  using assms set_update_subset_insert [of cs i c] client_fit_cong [OF assms(3)]
  by (auto simp: world_inv_def system_inv_split list_all_iff)

lemma slot_system_inv: "world_inv password l k i n (cs, (f, m)) \<Longrightarrow> system_inv password n (cs ! i, (f, m))"
  by (auto simp: world_inv_def system_inv_split list_all_iff)

abbreviation slot_read :: "nat \<Rightarrow> net world client_read" where
  "slot_read i \<equiv> \<lambda>tags. at_client i (UDPClient_Read virtual_net tags)"

abbreviation slot_write :: "nat \<Rightarrow> net world client_write" where
  "slot_write i \<equiv> \<lambda>tlvs pw. at_client i (UDPClient_Write virtual_net tlvs pw)"

interpretation slot: nsdp_write_client "slot_read i" world_dev "world_inv password l k i" "slot_write i" password
  for i :: nat and password k :: string and l :: nat
proof unfold_locales
  fix n and w :: "net world"
  assume "world_inv password l k i n w"
  then show "vs_ok (world_dev w)" by (cases w) (auto simp: world_inv_def world_dev_def face_fit_def face_ok_def)
next
  fix n and w :: "net world" and tags ts
  assume inv: "world_inv password l k i n w" and tags: "plain_tags tags" "NsdpTlvs (world_dev w) tags = Inr ts" "reply_fits ts"
  obtain cs f m where w: "w = (cs, (f, m))" by (cases w) auto
  obtain p c g m' where r: "UDPClient_Read virtual_net tags (cs ! i, (f, m)) = (Inr p, (c, (g, m')))"
      "pk_tlvs p = ts" "pk_server_mac p = vs_mac (nf_state f)" "nf_state g = nf_state f"
      "system_inv password n (c, (g, m'))"
    using udp.read_answers [OF slot_system_inv [OF inv [unfolded w]] tags(1) _ tags(3)] tags(2)
    by (auto simp: w world_dev_def system_dev_def)
  have "world_inv password l k i n (cs[i := c], (g, m'))"
    using world_inv_after [OF inv [unfolded w] r(5)] r(4) by simp
  then show "\<exists>p w'. slot_read i tags w = (Inr p, w') \<and> pk_tlvs p = ts
      \<and> pk_server_mac p = vs_mac (world_dev w) \<and> world_dev w' = world_dev w \<and> world_inv password l k i n w'"
    using r by (simp add: w at_client_def world_dev_def)
next
  fix n and w :: "net world" and tlvs d
  assume inv: "world_inv password l k i (Suc n) w" and tlvs: "plain_writes tlvs" "apply_writes tlvs (world_dev w) = Inr d"
  obtain cs f m where w: "w = (cs, (f, m))" by (cases w) auto
  obtain p c g m' where r: "UDPClient_Write virtual_net tlvs password (cs ! i, (f, m)) = (Inr p, (c, (g, m')))"
      "nf_state g = d" "system_inv password n (c, (g, m'))"
    using udp.writes_apply [OF slot_system_inv [OF inv [unfolded w]] tlvs(1)] tlvs(2)
    by (auto simp: w world_dev_def system_dev_def)
  have "vs_ok (nf_state f)" using inv by (auto simp: w world_inv_def face_fit_def face_ok_def)
  then have "identity_kept (nf_state f) d"
    using apply_writes_ok [of "nf_state f" tlvs] tlvs by (auto simp: w world_dev_def plain_writes_def)
  then have "world_inv password l k i n (cs[i := c], (g, m'))"
    using world_inv_after [OF inv [unfolded w] r(3)] r(2) by (simp add: identity_kept_def)
  then show "\<exists>p w'. slot_write i tlvs password w = (Inr p, w') \<and> world_dev w' = d \<and> world_inv password l k i n w'"
    using r by (simp add: w at_client_def world_dev_def)
qed

subsection \<open>The handle's invariant\<close>

definition password_ready :: "string \<Rightarrow> 's resolve_once \<Rightarrow> bool" where
  "password_ready password c \<longleftrightarrow>
     (if ro_resolved c then ro_value c = Some password
      else ro_resolver c = Some (\<lambda>s. (Inr (Some password), s)))"

definition reader_at :: "switch_model \<Rightarrow> nat \<Rightarrow> net world backend_reader" where
  "reader_at m i = nsdp_backend_reader (slot_read i) \<lparr>rd_model = m\<rparr>"

definition writer_of :: "switch_model \<Rightarrow> string \<Rightarrow> int list \<Rightarrow> nsdp_writer" where
  "writer_of m password ports = \<lparr>wr_model = m, wr_password = password, wr_protected = ports\<rparr>"

definition writer_at :: "switch_model \<Rightarrow> string \<Rightarrow> int list \<Rightarrow> nat \<Rightarrow> net world backend_writer" where
  "writer_at m password ports i = nsdpWriterAdapter (slot_read i) (slot_write i) (writer_of m password ports)"

text \<open>The fixed part of a handle: what operations never change.\<close>

definition handle_fixed :: "switch_model \<Rightarrow> int list \<Rightarrow> net world gswitch \<Rightarrow> bool" where
  "handle_fixed sm ports sw \<longleftrightarrow> sw_model sw = sm \<and> sw_protected sw = ports \<and> sw_nsdp_client sw = None
     \<and> sw_nsdp_interface sw = None \<and> ResolveBackend sw None = Inr BackendNSDP"

definition facade_inv :: "string \<Rightarrow> switch_model \<Rightarrow> int list \<Rightarrow> nat \<Rightarrow> net world gswitch \<times> net world \<Rightarrow> bool" where
  "facade_inv password sm ports n = (\<lambda>(sw, (cs, (f, m))).
     handle_fixed sm ports sw \<and> password_ready password (sw_nsdp_password sw)
     \<and> (\<forall>r. sw_readers sw BackendNSDP = Some r \<longrightarrow> (\<exists>i < length cs. r = reader_at sm i))
     \<and> (\<forall>w. sw_writers sw BackendNSDP = Some w \<longrightarrow> (\<exists>i < length cs. w = writer_at sm password ports i))
     \<and> face_fit password n f \<and> list_all (client_fit (nf_state f)) cs
     \<and> mustModel (nf_state f) = Inr sm)"

lemma facade_inv_world:
  assumes "facade_inv password sm ports n (sw, w)" "i < length (fst w)"
  shows "world_inv password (length (fst w)) (vs_model_key (world_dev w)) i n w"
  using assms by (cases w) (auto simp: facade_inv_def world_inv_def world_dev_def)

lemma world_facade_inv:
  assumes "facade_inv password sm ports n (sw, w)" "world_inv password (length (fst w)) (vs_model_key (world_dev w)) i j v"
  shows "facade_inv password sm ports j (sw, v)"
  using assms by (cases w; cases v) (auto simp: facade_inv_def world_inv_def world_dev_def mustModel_def)

lemma fresh_client:
  "NewUDPClient read_file host [] = Inr ((default_client host)\<lparr>uc_client_mac := Some dummyClientMAC\<rparr>)"
  by (simp add: NewUDPClient_def default_client_def Let_def)

lemma fresh_client_fit: "client_fit s ((default_client host)\<lparr>uc_client_mac := Some dummyClientMAC\<rparr>)"
  by (simp add: client_fit_def client_mac_def dummyClientMAC_def scheme_ok_def default_client_def)

text \<open>Getting the reader or writer: from the cache, or built around a new client object.\<close>

abbreviation virtual_registries :: "(string \<Rightarrow> string res) \<Rightarrow> net world registries \<Rightarrow> net world registries" where
  "virtual_registries read_file rg \<equiv> nsdp_init read_file virtual_net rg"

lemma virtual_registries_nsdp:
  "rg_readers (virtual_registries read_file rg) BackendNSDP = Some (buildNSDPReader read_file virtual_net)"
  "rg_writers (virtual_registries read_file rg) BackendNSDP = Some (buildNSDPWriter read_file virtual_net)"
  by (simp_all add: nsdp_init_def RegisterBackend_def RegisterWriteBackend_def)

lemma facade_nsdp: "handle_fixed sm ports sw \<Longrightarrow> requireNSDP sm = Inr ()"
  using resolveBackend_has by (fastforce simp: handle_fixed_def ResolveBackend_def requireNSDP_def)

lemma readerFor_ready:
  assumes inv: "facade_inv password sm ports n (sw, w)"
  shows "\<exists>i sw' w'. readerFor (rg_readers (virtual_registries read_file rg)) BackendNSDP (sw, w)
      = (Inr (reader_at sm i), (sw', w'))
    \<and> i < length (fst w') \<and> world_dev w' = world_dev w \<and> facade_inv password sm ports n (sw', w')"
proof -
  obtain cs f m where w: "w = (cs, (f, m))" by (cases w) auto
  have fixed: "handle_fixed sm ports sw" using inv by (simp add: w facade_inv_def)
  show ?thesis
  proof (cases "sw_readers sw BackendNSDP")
    case (Some r)
    then obtain i where "i < length cs" "r = reader_at sm i" using inv by (auto simp: w facade_inv_def)
    then show ?thesis using Some inv by (auto simp: w readerFor_def world_dev_def)
  next
    case None
    let ?c = "(default_client (sw_host sw))\<lparr>uc_client_mac := Some dummyClientMAC\<rparr>"
    let ?sw = "sw\<lparr>sw_readers := (sw_readers sw)(BackendNSDP := Some (reader_at sm (length cs)))\<rparr>"
    have "buildNSDPReader read_file virtual_net (sw, w) = (Inr (reader_at sm (length cs)), (sw, (cs @ [?c], (f, m))))"
      using fixed facade_nsdp [OF fixed]
      by (simp add: w buildNSDPReader_def buildNSDPClient_def handle_fixed_def fresh_client NewReader_def
          client_object_def reader_at_def)
    then have "readerFor (rg_readers (virtual_registries read_file rg)) BackendNSDP (sw, w)
        = (Inr (reader_at sm (length cs)), (?sw, (cs @ [?c], (f, m))))"
      using None by (simp add: readerFor_def virtual_registries_nsdp w)
    moreover have "facade_inv password sm ports n (?sw, (cs @ [?c], (f, m)))"
      using inv fresh_client_fit [of "nf_state f" "sw_host sw"]
      by (auto simp: w facade_inv_def handle_fixed_def ResolveBackend_def effective_def less_Suc_eq)
    ultimately show ?thesis by (auto simp: w world_dev_def)
  qed
qed

lemma resolve_ready:
  assumes "password_ready password (sw_nsdp_password sw)"
  shows "\<exists>c. resolve_nsdp_password (sw, w) = (Inr (Some password), (sw\<lparr>sw_nsdp_password := c\<rparr>, w))
    \<and> password_ready password c"
proof (cases "ro_resolved (sw_nsdp_password sw)")
  case True
  then show ?thesis
    using assms by (intro exI [of _ "sw_nsdp_password sw"]) (simp add: password_ready_def resolve_nsdp_password_def resolve_def)
next
  case False
  then show ?thesis
    using assms by (intro exI [of _ "(sw_nsdp_password sw)\<lparr>ro_resolved := True, ro_value := Some password\<rparr>"])
      (simp add: password_ready_def resolve_nsdp_password_def resolve_def)
qed

lemma writerFor_ready:
  assumes inv: "facade_inv password sm ports n (sw, w)"
  shows "\<exists>i sw' w'. writerFor (rg_writers (virtual_registries read_file rg)) BackendNSDP (sw, w)
      = (Inr (writer_at sm password ports i), (sw', w'))
    \<and> i < length (fst w') \<and> world_dev w' = world_dev w \<and> facade_inv password sm ports n (sw', w')"
proof -
  obtain cs f m where w: "w = (cs, (f, m))" by (cases w) auto
  have fixed: "handle_fixed sm ports sw" using inv by (simp add: w facade_inv_def)
  show ?thesis
  proof (cases "sw_writers sw BackendNSDP")
    case (Some r)
    then obtain i where "i < length cs" "r = writer_at sm password ports i" using inv by (auto simp: w facade_inv_def)
    then show ?thesis using Some inv by (auto simp: w writerFor_def world_dev_def)
  next
    case None
    let ?c = "(default_client (sw_host sw))\<lparr>uc_client_mac := Some dummyClientMAC\<rparr>" and ?i = "length cs"
    obtain cell where cell: "resolve_nsdp_password (sw, (cs @ [?c], (f, m)))
        = (Inr (Some password), (sw\<lparr>sw_nsdp_password := cell\<rparr>, (cs @ [?c], (f, m))))" "password_ready password cell"
      using resolve_ready inv by (fastforce simp: w facade_inv_def)
    have client: "buildNSDPWriteClient read_file virtual_net (sw, w)
        = (Inr (slot_read ?i, slot_write ?i), (sw, (cs @ [?c], (f, m))))"
      using fixed by (simp add: w buildNSDPWriteClient_def buildNSDPClient_def handle_fixed_def fresh_client client_object_def)
    let ?sw = "sw\<lparr>sw_nsdp_password := cell,
        sw_writers := (sw_writers sw)(BackendNSDP := Some (writer_at sm password ports ?i))\<rparr>"
    have "buildNSDPWriter read_file virtual_net (sw, w)
        = (Inr (writer_at sm password ports ?i), (sw\<lparr>sw_nsdp_password := cell\<rparr>, (cs @ [?c], (f, m))))"
      using fixed facade_nsdp [OF fixed]
      by (simp add: buildNSDPWriter_def client cell requireNSDPPassword_def handle_fixed_def NewWriter_def NewReader_def
          writer_at_def writer_of_def)
    then have "writerFor (rg_writers (virtual_registries read_file rg)) BackendNSDP (sw, w)
        = (Inr (writer_at sm password ports ?i), (?sw, (cs @ [?c], (f, m))))"
      using None by (simp add: writerFor_def virtual_registries_nsdp w)
    moreover have "facade_inv password sm ports n (?sw, (cs @ [?c], (f, m)))"
      using inv fresh_client_fit [of "nf_state f" "sw_host sw"] cell(2)
      by (auto simp: w facade_inv_def handle_fixed_def ResolveBackend_def effective_def less_Suc_eq)
    ultimately show ?thesis by (auto simp: w world_dev_def)
  qed
qed

text \<open>One facade operation on the default backend, given what its reader or writer does.\<close>

definition no_deadline :: "'s ctx" where
  "no_deadline s = None"

lemma facade_read:
  assumes inv: "facade_inv password sm ports n (sw, w)"
    and op: "\<And>i v. world_inv password (length (fst v)) (vs_model_key (world_dev v)) i n v \<Longrightarrow> world_dev v = world_dev w \<Longrightarrow>
      \<exists>u. fn (reader_at sm i) v = (Inr x, u) \<and> world_dev u = world_dev v
        \<and> world_inv password (length (fst v)) (vs_model_key (world_dev v)) i n u"
  shows "\<exists>sw' w'. readVia (rg_readers (virtual_registries read_file rg)) no_deadline None fn (sw, w) = (Inr x, (sw', w'))
    \<and> world_dev w' = world_dev w \<and> facade_inv password sm ports n (sw', w')"
proof -
  obtain i sw' v where v: "readerFor (rg_readers (virtual_registries read_file rg)) BackendNSDP (sw, w)
        = (Inr (reader_at sm i), (sw', v))" "i < length (fst v)" "world_dev v = world_dev w"
      "facade_inv password sm ports n (sw', v)"
    using readerFor_ready [OF inv] by metis
  obtain u where u: "fn (reader_at sm i) v = (Inr x, u)" "world_dev u = world_dev v"
      "world_inv password (length (fst v)) (vs_model_key (world_dev v)) i n u"
    using op [OF facade_inv_world [OF v(4,2)] v(3)] by blast
  have "ResolveBackend sw None = Inr BackendNSDP" using inv by (cases w) (simp add: facade_inv_def handle_fixed_def)
  then show ?thesis
    using v u world_facade_inv [OF v(4) u(3)] by (simp add: readVia_unfold no_deadline_def)
qed

lemma facade_write:
  assumes inv: "facade_inv password sm ports n (sw, w)"
    and op: "\<And>i v. world_inv password (length (fst v)) (vs_model_key (world_dev v)) i n v \<Longrightarrow> world_dev v = world_dev w \<Longrightarrow>
      \<exists>u. fn (writer_at sm password ports i) v = (Inr (), u) \<and> world_dev u = d
        \<and> world_inv password (length (fst v)) (vs_model_key (world_dev v)) i k u"
  shows "\<exists>sw' w'. writeVia (rg_writers (virtual_registries read_file rg)) no_deadline None fn (sw, w) = (Inr (), (sw', w'))
    \<and> world_dev w' = d \<and> facade_inv password sm ports k (sw', w')"
proof -
  obtain i sw' v where v: "writerFor (rg_writers (virtual_registries read_file rg)) BackendNSDP (sw, w)
        = (Inr (writer_at sm password ports i), (sw', v))" "i < length (fst v)" "world_dev v = world_dev w"
      "facade_inv password sm ports n (sw', v)"
    using writerFor_ready [OF inv] by metis
  obtain u where u: "fn (writer_at sm password ports i) v = (Inr (), u)" "world_dev u = d"
      "world_inv password (length (fst v)) (vs_model_key (world_dev v)) i k u"
    using op [OF facade_inv_world [OF v(4,2)] v(3)] by blast
  have "ResolveBackend sw None = Inr BackendNSDP" using inv by (cases w) (simp add: facade_inv_def handle_fixed_def)
  then show ?thesis
    using v u world_facade_inv [OF v(4) u(3)] by (simp add: writeVia_unfold no_deadline_def)
qed

subsection \<open>The abstract switch\<close>

text \<open>
  What each facade write means for the switch's state, and when it is permitted: unprotected port
  or force, arguments the wire can carry, the objects it names present.
\<close>

datatype facade_op =
  PVID_Op int int
| Membership_Op int int vlan_mode
| CreateVlan_Op int string
| DeleteVlan_Op int
| Description_Op int string
| Hostname_Op string
| MgmtIP_Op string string string

fun op_effect :: "facade_op \<Rightarrow> vstate \<Rightarrow> vstate" where
  "op_effect (PVID_Op port vlan) s = s\<lparr>vs_pvids := AList.update port vlan (vs_pvids s)\<rparr>"
| "op_effect (Membership_Op vid port mode) s =
     s\<lparr>vs_vlans := AList.update vid (vlan_moved vid (map_of (vs_vlans s) vid) port mode) (vs_vlans s)\<rparr>"
| "op_effect (CreateVlan_Op vid name) s =
     (if map_of (vs_vlans s) vid = None
      then s\<lparr>vs_vlans := AList.update vid (vlan_after None [] []) (vs_vlans s)\<rparr> else s)"
| "op_effect (DeleteVlan_Op vid) s = destroyed vid s"
| "op_effect (Description_Op port text) s = labelled port text (the (map_of (vs_ports s) port)) s"
| "op_effect (Hostname_Op name) s = s\<lparr>vs_hostname := name\<rparr>"
| "op_effect (MgmtIP_Op a m g) s =
     s\<lparr>vs_mgmt := (vs_mgmt s)\<lparr>vm_address := a, vm_netmask := m, vm_gateway := g\<rparr>\<rparr>"

fun op_permitted :: "switch_model \<Rightarrow> int list \<Rightarrow> bool \<Rightarrow> facade_op \<Rightarrow> vstate \<Rightarrow> bool" where
  "op_permitted sm ports force (PVID_Op port vlan) s \<longleftrightarrow>
     (port \<notin> set ports \<or> force) \<and> map_of (vs_vlans s) vlan \<noteq> None
     \<and> 0 \<le> port \<and> port \<le> 0xFF \<and> 0 \<le> vlan \<and> vlan \<le> 0xFFFF"
| "op_permitted sm ports force (Membership_Op vid port mode) s \<longleftrightarrow>
     (port \<notin> set ports \<or> force) \<and> 0 \<le> vid \<and> vid \<le> 0xFFFF
     \<and> (mode = VlanExcluded \<or> 1 \<le> port \<and> port \<le> int (8 * ((sm_port_count sm + 7) div 8)))"
| "op_permitted sm ports force (CreateVlan_Op vid name) s \<longleftrightarrow> 0 \<le> vid \<and> vid \<le> 0xFFFF"
| "op_permitted sm ports force (DeleteVlan_Op vid) s \<longleftrightarrow>
     force \<and> 0 \<le> vid \<and> vid \<le> 0xFFFF \<and> map_of (vs_vlans s) vid \<noteq> None"
| "op_permitted sm ports force (Description_Op port text) s \<longleftrightarrow>
     (port \<notin> set ports \<or> force) \<and> map_of (vs_ports s) port \<noteq> None
     \<and> trim_right NUL text = text \<and> length text < 50000"
| "op_permitted sm ports force (Hostname_Op name) s \<longleftrightarrow>
     TrimSpace name \<noteq> [] \<and> is_ascii name \<and> trim_right NUL name = name \<and> length name < 50000"
| "op_permitted sm ports force (MgmtIP_Op a m g) s \<longleftrightarrow> force \<and> is_dotted a \<and> is_dotted m \<and> is_dotted g"

fun ops_permitted :: "switch_model \<Rightarrow> int list \<Rightarrow> (bool \<times> facade_op) list \<Rightarrow> vstate \<Rightarrow> bool" where
  "ops_permitted sm ports [] s \<longleftrightarrow> True"
| "ops_permitted sm ports ((force, op) # ops) s \<longleftrightarrow>
     op_permitted sm ports force op s \<and> readable s \<and> readable (op_effect op s)
     \<and> ops_permitted sm ports ops (op_effect op s)"

text \<open>The same operations on the facade, over the default backend.\<close>

fun do_op :: "'s registries \<Rightarrow> 's ctx \<Rightarrow> bool \<Rightarrow> facade_op \<Rightarrow> 's facade_write" where
  "do_op rg ctx force (PVID_Op port vlan) = Switch_SetPVID rg ctx port vlan \<lparr>wo_force = force, wo_backend = None\<rparr>"
| "do_op rg ctx force (Membership_Op vid port mode) =
     Switch_SetVlanMembership rg ctx vid port mode \<lparr>wo_force = force, wo_backend = None\<rparr>"
| "do_op rg ctx force (CreateVlan_Op vid name) = Switch_CreateVlan rg ctx vid name \<lparr>wo_force = force, wo_backend = None\<rparr>"
| "do_op rg ctx force (DeleteVlan_Op vid) = Switch_DeleteVlan rg ctx vid \<lparr>wo_force = force, wo_backend = None\<rparr>"
| "do_op rg ctx force (Description_Op port text) =
     Switch_SetPortDescription rg ctx port text \<lparr>wo_force = force, wo_backend = None\<rparr>"
| "do_op rg ctx force (Hostname_Op name) = Switch_SetHostname rg ctx name \<lparr>wo_force = force, wo_backend = None\<rparr>"
| "do_op rg ctx force (MgmtIP_Op a m g) = Switch_SetMgmtIP rg ctx a m g \<lparr>wo_force = force, wo_backend = None\<rparr>"

fun do_ops :: "'s registries \<Rightarrow> 's ctx \<Rightarrow> (bool \<times> facade_op) list \<Rightarrow> 's facade_write" where
  "do_ops rg ctx [] = sret (Inr ())"
| "do_ops rg ctx ((force, op) # ops) = sbind (do_op rg ctx force op) (\<lambda>_. do_ops rg ctx ops)"

subsection \<open>Each operation refines its meaning\<close>

lemma writer_fields [simp]:
  "wr_password (writer_of sm pw ports) = pw" "wr_protected (writer_of sm pw ports) = ports"
  "wr_model (writer_of sm pw ports) = sm"
  by (simp_all add: writer_of_def)

lemma bw_writer_at [simp]:
  "bw_SetPVID (writer_at sm pw ports i) = SetPVID (slot_read i) (slot_write i) (writer_of sm pw ports)"
  "bw_SetVlanMembership (writer_at sm pw ports i) = SetVlanMembership (slot_read i) (slot_write i) (writer_of sm pw ports)"
  "bw_CreateVlan (writer_at sm pw ports i) = CreateVlan (slot_read i) (slot_write i) (writer_of sm pw ports)"
  "bw_DeleteVlan (writer_at sm pw ports i) = DeleteVlan (slot_read i) (slot_write i) (writer_of sm pw ports)"
  "bw_SetPortDescription (writer_at sm pw ports i) = SetPortDescription (slot_read i) (slot_write i) (writer_of sm pw ports)"
  "bw_SetHostname (writer_at sm pw ports i) name force = SetHostname (slot_read i) (slot_write i) (writer_of sm pw ports) name"
  "bw_SetMgmtIP (writer_at sm pw ports i) = SetMgmtIP (slot_read i) (slot_write i) (writer_of sm pw ports)"
  by (simp_all add: writer_at_def nsdpWriterAdapter_def)

lemma world_inv_Suc: "world_inv password l k i (Suc n) w \<Longrightarrow> world_inv password l k i n w"
  by (cases w) (auto simp: world_inv_def face_fit_def)

lemma facade_model: "facade_inv password sm ports n (sw, w) \<Longrightarrow> mustModel (world_dev w) = Inr sm"
  by (cases w) (auto simp: facade_inv_def world_dev_def)

lemma do_op_via:
  "do_op rg ctx force (PVID_Op port vlan) = writeVia (rg_writers rg) ctx None (\<lambda>b. bw_SetPVID b port vlan force)"
  "do_op rg ctx force (Membership_Op vid port mode) =
     writeVia (rg_writers rg) ctx None (\<lambda>b. bw_SetVlanMembership b vid port mode force)"
  "do_op rg ctx force (CreateVlan_Op vid name) = writeVia (rg_writers rg) ctx None (\<lambda>b. bw_CreateVlan b vid name)"
  "do_op rg ctx True (DeleteVlan_Op vid) = writeVia (rg_writers rg) ctx None (\<lambda>b. bw_DeleteVlan b vid True)"
  "do_op rg ctx force (Description_Op port text) =
     writeVia (rg_writers rg) ctx None (\<lambda>b. bw_SetPortDescription b port text force)"
  "do_op rg ctx force (Hostname_Op name) = writeVia (rg_writers rg) ctx None (\<lambda>b. bw_SetHostname b name force)"
  "do_op rg ctx force (MgmtIP_Op a m g) = writeVia (rg_writers rg) ctx None (\<lambda>b. bw_SetMgmtIP b a m g force)"
  by (simp_all add: Switch_SetPVID_def Switch_SetVlanMembership_def Switch_CreateVlan_def Switch_DeleteVlan_def
      Switch_SetPortDescription_def Switch_SetHostname_def Switch_SetMgmtIP_def guardVLANDeleteMembers_def
      sbind_def split_def fun_eq_iff)

lemma do_op_refines:
  assumes inv: "facade_inv password sm ports (Suc n) (sw, w)"
    and ok: "op_permitted sm ports force op (world_dev w)"
    and rd: "readable (world_dev w)" "readable (op_effect op (world_dev w))"
  shows "\<exists>sw' w'. do_op (virtual_registries read_file rg) no_deadline force op (sw, w) = (Inr (), (sw', w'))
    \<and> world_dev w' = op_effect op (world_dev w) \<and> facade_inv password sm ports n (sw', w')"
proof (cases op)
  case (PVID_Op port vlan)
  show ?thesis
    unfolding PVID_Op do_op_via
    by (rule facade_write [OF inv], unfold bw_writer_at, rule slot.SetPVID_effect) (use ok rd PVID_Op in auto)
next
  case (Membership_Op vid port mode)
  show ?thesis
    unfolding Membership_Op do_op_via
    by (rule facade_write [OF inv], unfold bw_writer_at, rule slot.SetVlanMembership_effect)
      (use ok rd Membership_Op facade_model [OF inv] in auto)
next
  case (CreateVlan_Op vid name)
  show ?thesis
  proof (cases "map_of (vs_vlans (world_dev w)) vid = None")
    case True
    show ?thesis
      unfolding CreateVlan_Op do_op_via
      by (rule facade_write [OF inv], unfold bw_writer_at, rule slot.CreateVlan_effect)
        (use ok rd True CreateVlan_Op facade_model [OF inv] in auto)
  next
    case False
    have effect: "op_effect (CreateVlan_Op vid name) (world_dev w) = world_dev w" using False by (simp del: not_None_eq)
    show ?thesis
      unfolding CreateVlan_Op do_op_via effect
    proof (rule facade_write [OF inv])
      fix i v assume "world_inv password (length (fst v)) (vs_model_key (world_dev v)) i (Suc n) v" "world_dev v = world_dev w"
      then show "\<exists>u. bw_CreateVlan (writer_at sm password ports i) vid name v = (Inr (), u) \<and> world_dev u = world_dev w
          \<and> world_inv password (length (fst v)) (vs_model_key (world_dev v)) i n u"
        using slot.CreateVlan_existing [OF world_inv_Suc] rd(1) False by fastforce
    qed
  qed
next
  case (DeleteVlan_Op vid)
  then have is_forced: "force = True" "vid mod 65536 = vid" using ok by auto
  show ?thesis
    unfolding DeleteVlan_Op is_forced do_op_via
    by (rule facade_write [OF inv], unfold bw_writer_at, rule slot.DeleteVlan_effect)
      (use ok rd DeleteVlan_Op is_forced in auto)
next
  case (Description_Op port label)
  show ?thesis
    unfolding Description_Op do_op_via
    by (rule facade_write [OF inv], unfold bw_writer_at, rule slot.SetPortDescription_effect)
      (use ok rd Description_Op in auto)
next
  case (Hostname_Op name)
  show ?thesis
    unfolding Hostname_Op do_op_via
    by (rule facade_write [OF inv], unfold bw_writer_at, rule slot.SetHostname_effect) (use ok rd Hostname_Op in auto)
next
  case (MgmtIP_Op a m g)
  then have is_forced: "force = True" using ok by simp
  show ?thesis
    unfolding MgmtIP_Op is_forced do_op_via
    by (rule facade_write [OF inv], unfold bw_writer_at, rule slot.SetMgmtIP_effect) (use ok rd MgmtIP_Op in auto)
qed

lemma do_ops_refines:
  assumes "facade_inv password sm ports (length ops + n) (sw, w)" "ops_permitted sm ports ops (world_dev w)"
  shows "\<exists>sw' w'. do_ops (virtual_registries read_file rg) no_deadline ops (sw, w) = (Inr (), (sw', w'))
    \<and> world_dev w' = fold (\<lambda>(force, op). op_effect op) ops (world_dev w) \<and> facade_inv password sm ports n (sw', w')"
  using assms
proof (induction ops arbitrary: sw w)
  case Nil
  then show ?case by simp
next
  case (Cons a ops)
  obtain force op where a: "a = (force, op)" by force
  have ok: "op_permitted sm ports force op (world_dev w)" "readable (world_dev w)" "readable (op_effect op (world_dev w))"
      "facade_inv password sm ports (Suc (length ops + n)) (sw, w)"
    using Cons.prems by (simp_all add: a)
  obtain sw1 w1 where step: "do_op (virtual_registries read_file rg) no_deadline force op (sw, w) = (Inr (), (sw1, w1))"
      "world_dev w1 = op_effect op (world_dev w)" "facade_inv password sm ports (length ops + n) (sw1, w1)"
    using do_op_refines [OF ok(4,1-3)] by blast
  obtain sw' w' where "do_ops (virtual_registries read_file rg) no_deadline ops (sw1, w1) = (Inr (), (sw', w'))"
      "world_dev w' = fold (\<lambda>(force, op). op_effect op) ops (world_dev w1)" "facade_inv password sm ports n (sw', w')"
    using Cons.IH [OF step(3)] Cons.prems(2) step(2) by (auto simp: a)
  then show ?case using step(1,2) by (simp add: a sbind_Inr)
qed

lemma facade_inv_New:
  assumes "New (Some sm) host [WithNSDPPassword password, WithProtectedPorts ports] = Inr sw"
    and "resolveBackend sm None backendPreference = Inr BackendNSDP" "mustModel d = Inr sm" "vs_ok d"
    and "vs_password d = password" "is_ascii password" "length password \<le> 4096" "n < 2 ^ 32"
  shows "facade_inv password sm (sortedUniquePorts ports) n (sw, ([], (NewNsdpFace d, m)))"
  using assms face_ok_new [OF assms(4)]
  by (auto simp: New_def WithNSDPPassword_def WithProtectedPorts_def facade_inv_def handle_fixed_def password_ready_def
      newResolveOnce_def ResolveBackend_def effective_def face_fit_def NewNsdpFace_def)

text \<open>
  C11.  The facade refines the abstract switch: starting from a handle as New returns it (its
  reader, writer and password not yet built) on a model whose default backend is NSDP, any list
  of permitted writes succeeds and leaves the switch's state as the abstract operations, applied
  one after the other, say; the handle is then ready for more.
\<close>

theorem facade_refines:
  assumes "New (Some sm) host [WithNSDPPassword password, WithProtectedPorts ports] = Inr sw"
    and "resolveBackend sm None backendPreference = Inr BackendNSDP" "mustModel d = Inr sm" "vs_ok d"
    and "vs_password d = password" "is_ascii password" "length password \<le> 4096" "length ops + n < 2 ^ 32"
    and "ops_permitted sm (sortedUniquePorts ports) ops d"
  shows "\<exists>sw' w'. do_ops (virtual_registries read_file rg) no_deadline ops (sw, ([], (NewNsdpFace d, None)))
      = (Inr (), (sw', w'))
    \<and> world_dev w' = fold (\<lambda>(force, op). op_effect op) ops d
    \<and> facade_inv password sm (sortedUniquePorts ports) n (sw', w')"
  using do_ops_refines [OF facade_inv_New [OF assms(1-8)]] assms(9)
  by (simp add: world_dev_def NewNsdpFace_def)

definition sample_ops :: "(bool \<times> facade_op) list" where
  "sample_ops = [(False, CreateVlan_Op 7 ''lab''), (False, PVID_Op 2 7), (True, DeleteVlan_Op 90)]"

definition sample_handle :: "net world gswitch" where
  "sample_handle =
     (case New (Some model_gs110emx) ''10.0.0.1'' [WithNSDPPassword ''password'', WithProtectedPorts [10, 10]]
      of Inr sw \<Rightarrow> sw)"

lemma sample_handle_New:
  "New (Some model_gs110emx) ''10.0.0.1'' [WithNSDPPassword ''password'', WithProtectedPorts [10, 10]] = Inr sample_handle"
  by (simp add: sample_handle_def New_def)

lemma sample_facade:
  "is_ascii ''password''" "length ''password'' \<le> 4096" "vs_password sample_v2 = ''password''"
  by code_simp+

lemma sample_permitted: "ops_permitted model_gs110emx (sortedUniquePorts [10, 10]) sample_ops sample_v2"
proof -
  let ?s1 = "op_effect (CreateVlan_Op 7 ''lab'') sample_v2"
  let ?s2 = "op_effect (PVID_Op 2 7) ?s1"
  have readable: "readable ?s1" "readable ?s2" "readable (op_effect (DeleteVlan_Op 90) ?s2)"
    by code_simp+
  have permitted: "op_permitted model_gs110emx [10] False (CreateVlan_Op 7 ''lab'') sample_v2"
      "op_permitted model_gs110emx [10] False (PVID_Op 2 7) ?s1"
      "op_permitted model_gs110emx [10] True (DeleteVlan_Op 90) ?s2"
    by code_simp+
  have ports: "sortedUniquePorts [10, 10] = [10]" by (simp add: sortedUniquePorts_def sort_uniq_def)
  show ?thesis
    using readable permitted sample_readable unfolding ports sample_ops_def
    by (simp del: op_effect.simps op_permitted.simps)
qed

theorem facade_refines_witness:
  "\<exists>sw' w'. do_ops (virtual_registries (\<lambda>f. Inl (Foreign f)) \<lparr>rg_readers = (\<lambda>_. None), rg_writers = (\<lambda>_. None)\<rparr>)
      no_deadline sample_ops (sample_handle, ([], (NewNsdpFace sample_v2, None))) = (Inr (), (sw', w'))
    \<and> map_of (vs_pvids (world_dev w')) 2 = Some 7 \<and> map_of (vs_vlans (world_dev w')) 90 = None"
proof -
  have n: "length sample_ops + 100 < 2 ^ 32" by (simp add: sample_ops_def)
  let ?d = "fold (\<lambda>(force, op). op_effect op) sample_ops sample_v2"
  have "map_of (vs_pvids ?d) 2 = Some 7 \<and> map_of (vs_vlans ?d) 90 = None" by code_simp
  then show ?thesis
    using facade_refines [OF sample_handle_New gs110emx_default sample_v2_model sample_v2_ok sample_facade(3,1,2)
        n sample_permitted]
    by metis
qed

subsection \<open>Snapshot\<close>

definition stats_of :: "vstate \<Rightarrow> port_stats list" where
  "stats_of s = map (\<lambda>(p, sim). \<lparr>st_port = p, st_rx_bytes = Some (u64OrZero (vp_rx_octets sim)),
      st_tx_bytes = Some (u64OrZero (vp_tx_octets sim)), st_rx_packets = None, st_tx_packets = None,
      st_rx_errors = Some (u64OrZero (vp_rx_errors sim)), st_tx_errors = None\<rparr>) (sorted_items (vs_ports s))"

lemma slot_GetStats:
  "world_inv password l k i n w \<Longrightarrow> readable (world_dev w) \<Longrightarrow>
   \<exists>u. GetStats (slot_read i) w = (Inr (stats_of (world_dev w)), u) \<and> world_dev u = world_dev w
     \<and> world_inv password l k i n u"
  unfolding GetStats_def by (rule slot.reader_op) (simp_all add: reader_tags_def mapStats_project stats_of_def)

lemma br_reader_at [simp]:
  "br_GetPorts (reader_at sm i) = GetPorts (slot_read i)" "br_GetStats (reader_at sm i) = GetStats (slot_read i)"
  "br_GetVLANs (reader_at sm i) = GetVLANs (slot_read i)" "br_GetPVIDs (reader_at sm i) = GetPVIDs (slot_read i)"
  "br_GetMgmtIP (reader_at sm i) = GetMgmtIP (slot_read i)"
  by (simp_all add: reader_at_def nsdp_backend_reader_def)

text \<open>An operation the backend lacks is refused, the switch untouched.\<close>

lemma facade_refused:
  assumes inv: "facade_inv password sm ports n (sw, w)"
    and op: "\<And>i v. \<exists>e. fn (reader_at sm i) v = (Inl e, v) \<and> errors_is e ErrUnsupportedCapability"
  shows "\<exists>e sw' w'. readVia (rg_readers (virtual_registries read_file rg)) no_deadline None fn (sw, w) = (Inl e, (sw', w'))
    \<and> errors_is e ErrUnsupportedCapability \<and> world_dev w' = world_dev w \<and> facade_inv password sm ports n (sw', w')"
proof -
  obtain i sw' v where v: "readerFor (rg_readers (virtual_registries read_file rg)) BackendNSDP (sw, w)
        = (Inr (reader_at sm i), (sw', v))" "world_dev v = world_dev w" "facade_inv password sm ports n (sw', v)"
    using readerFor_ready [OF inv] by metis
  obtain e where e: "fn (reader_at sm i) v = (Inl e, v)" "errors_is e ErrUnsupportedCapability" using op by blast
  have "ResolveBackend sw None = Inr BackendNSDP" using inv by (cases w) (simp add: facade_inv_def handle_fixed_def)
  then show ?thesis using v e by (simp add: readVia_unfold no_deadline_def)
qed

definition snap_step :: "string \<Rightarrow> switch_model \<Rightarrow> int list \<Rightarrow> nat \<Rightarrow> vstate
    \<Rightarrow> (net world gswitch \<times> net world, go_error, 'a) action \<Rightarrow> 'a \<Rightarrow> bool" where
  "snap_step password sm ports n d act x \<longleftrightarrow>
     (\<forall>sw w. facade_inv password sm ports n (sw, w) \<longrightarrow> world_dev w = d \<longrightarrow>
        (\<exists>sw' w'. act (sw, w) = (Inr x, (sw', w')) \<and> facade_inv password sm ports n (sw', w') \<and> world_dev w' = d))"

lemma snap_step_served:
  assumes "\<And>l k i v. world_inv password l k i n v \<Longrightarrow> world_dev v = d \<Longrightarrow>
      \<exists>u. fn (reader_at sm i) v = (Inr x, u) \<and> world_dev u = world_dev v \<and> world_inv password l k i n u"
  shows "snap_step password sm ports n d
    (snapshotDegrade z (readVia (rg_readers (virtual_registries read_file rg)) no_deadline None fn)) x"
    "snap_step password sm ports n d
    (snapshotDegradePtr (readVia (rg_readers (virtual_registries read_file rg)) no_deadline None fn)) (Some x)"
proof -
  have step: "\<exists>sw' w'. readVia (rg_readers (virtual_registries read_file rg)) no_deadline None fn (sw, w) = (Inr x, (sw', w'))
      \<and> world_dev w' = world_dev w \<and> facade_inv password sm ports n (sw', w')"
    if "facade_inv password sm ports n (sw, w)" "world_dev w = d" for sw w
    by (rule facade_read [OF that(1)], rule assms) (use that in simp_all)
  show "snap_step password sm ports n d
      (snapshotDegrade z (readVia (rg_readers (virtual_registries read_file rg)) no_deadline None fn)) x"
    using step by (fastforce simp: snap_step_def snapshotDegrade_def)
  show "snap_step password sm ports n d
      (snapshotDegradePtr (readVia (rg_readers (virtual_registries read_file rg)) no_deadline None fn)) (Some x)"
    using step by (fastforce simp: snap_step_def snapshotDegradePtr_def)
qed

lemma snap_step_lacking:
  assumes "\<And>i v. \<exists>e. fn (reader_at sm i) v = (Inl e, v) \<and> errors_is e ErrUnsupportedCapability"
  shows "snap_step password sm ports n d
    (snapshotDegrade z (readVia (rg_readers (virtual_registries read_file rg)) no_deadline None fn)) z"
  unfolding snap_step_def
proof (intro allI impI)
  fix sw and w :: "net world"
  assume inv: "facade_inv password sm ports n (sw, w)" "world_dev w = d"
  obtain e sw' w' where "readVia (rg_readers (virtual_registries read_file rg)) no_deadline None fn (sw, w) = (Inl e, (sw', w'))"
      "errors_is e ErrUnsupportedCapability" "world_dev w' = world_dev w" "facade_inv password sm ports n (sw', w')"
    using facade_refused [where fn = fn, OF inv(1) assms] by blast
  then show "\<exists>sw' w'. snapshotDegrade z (readVia (rg_readers (virtual_registries read_file rg)) no_deadline None fn) (sw, w)
      = (Inr z, (sw', w')) \<and> facade_inv password sm ports n (sw', w') \<and> world_dev w' = d"
    using inv(2) by (simp add: snapshotDegrade_def)
qed

lemma snap_step_bind:
  assumes "snap_step password sm ports n d act x" "snap_step password sm ports n d (rest x) y"
  shows "snap_step password sm ports n d (sbind act rest) y"
  unfolding snap_step_def
proof (intro allI impI)
  fix sw and w :: "net world"
  assume inv: "facade_inv password sm ports n (sw, w)" "world_dev w = d"
  obtain sw1 w1 where 1: "act (sw, w) = (Inr x, (sw1, w1))" "facade_inv password sm ports n (sw1, w1)" "world_dev w1 = d"
    using assms(1) inv unfolding snap_step_def by blast
  obtain sw2 w2 where 2: "rest x (sw1, w1) = (Inr y, (sw2, w2))" "facade_inv password sm ports n (sw2, w2)" "world_dev w2 = d"
    using assms(2) 1(2,3) unfolding snap_step_def by blast
  show "\<exists>sw' w'. sbind act rest (sw, w) = (Inr y, (sw', w')) \<and> facade_inv password sm ports n (sw', w') \<and> world_dev w' = d"
    using sbind_Inr [of act "(sw, w)" x "(sw1, w1)" rest, OF 1(1)] 2 by auto
qed

lemma snap_step_ret: "snap_step password sm ports n d (sret (Inr x)) x"
  by (simp add: snap_step_def)

lemma reader_lacks:
  "\<exists>e. br_GetLLDP (reader_at sm i) v = (Inl e, v) \<and> errors_is e ErrUnsupportedCapability"
  "\<exists>e. br_GetMACs (reader_at sm i) v = (Inl e, v) \<and> errors_is e ErrUnsupportedCapability"
  "\<exists>e. br_GetPoE (reader_at sm i) v = (Inl e, v) \<and> errors_is e ErrUnsupportedCapability"
  "\<exists>e. br_GetSensors (reader_at sm i) v = (Inl e, v) \<and> errors_is e ErrUnsupportedCapability"
  by (simp_all add: reader_at_def nsdp_backend_reader_def GetLLDP_def GetMACs_def GetPoE_def GetSensors_def unsupportedRead_def)

text \<open>
  C23.  A snapshot over NSDP is complete and honest: it holds the ports, counters, VLANs, PVIDs and
  management address of the switch exactly, nothing for the tables the protocol lacks, and it
  changes nothing.
\<close>

theorem Snapshot_reports:
  assumes inv: "facade_inv password sm ports n (sw, w)" and rd: "readable (world_dev w)"
  shows "\<exists>sw' w'. Snapshot (virtual_registries read_file rg) no_deadline None (sw, w)
      = (Inr \<lparr>sd_model = sm_key sm, sd_host = sw_host sw, sd_ports = ports_of (world_dev w), sd_poe = [],
          sd_vlans = vlans_of (world_dev w), sd_pvids = pvids_of (world_dev w), sd_lldp = [], sd_macs = [],
          sd_sensors = [], sd_stats = stats_of (world_dev w), sd_mgmt_ip = Some (mgmt_of (world_dev w))\<rparr>, (sw', w'))
    \<and> facade_inv password sm ports n (sw', w') \<and> world_dev w' = world_dev w"
proof -
  have key: "sw_model sw = sm" using inv by (cases w) (simp add: facade_inv_def handle_fixed_def)
  let ?step = "snap_step password sm ports n (world_dev w)"
  let ?rg = "virtual_registries read_file rg"
  have served: "?step (snapshotDegrade [] (Switch_GetPorts ?rg no_deadline None)) (ports_of (world_dev w))"
      "?step (snapshotDegrade [] (Switch_GetStats ?rg no_deadline None)) (stats_of (world_dev w))"
      "?step (snapshotDegrade [] (Switch_GetVLANs ?rg no_deadline None)) (vlans_of (world_dev w))"
      "?step (snapshotDegrade [] (Switch_GetPVIDs ?rg no_deadline None)) (pvids_of (world_dev w))"
      "?step (snapshotDegradePtr (Switch_GetMgmtIP ?rg no_deadline None)) (Some (mgmt_of (world_dev w)))"
    unfolding Switch_GetPorts_def Switch_GetStats_def Switch_GetVLANs_def Switch_GetPVIDs_def Switch_GetMgmtIP_def
    using slot.GetPorts_reads slot_GetStats slot.GetVLANs_reads slot.GetPVIDs_reads slot.GetMgmtIP_reads rd
    by (intro snap_step_served; fastforce)+
  have lacking: "?step (snapshotDegrade [] (Switch_GetLLDP ?rg no_deadline None)) []"
      "?step (snapshotDegrade [] (getMACsNoGate ?rg no_deadline None)) []"
      "?step (snapshotDegrade [] (Switch_GetPoE ?rg no_deadline None)) []"
      "?step (snapshotDegrade [] (Switch_GetSensors ?rg no_deadline None)) []"
    unfolding Switch_GetLLDP_def getMACsNoGate_def Switch_GetPoE_def Switch_GetSensors_def
    by (intro snap_step_lacking reader_lacks)+
  note steps = snap_step_bind [OF served(1)] snap_step_bind [OF served(2)] snap_step_bind [OF served(3)]
    snap_step_bind [OF served(4)] snap_step_bind [OF lacking(1)] snap_step_bind [OF lacking(2)]
    snap_step_bind [OF lacking(3)] snap_step_bind [OF lacking(4)] snap_step_bind [OF served(5)]
  have "?step (sbind (snapshotDegrade [] (Switch_GetPorts ?rg no_deadline None)) (\<lambda>ports.
          sbind (snapshotDegrade [] (Switch_GetStats ?rg no_deadline None)) (\<lambda>stats.
          sbind (snapshotDegrade [] (Switch_GetVLANs ?rg no_deadline None)) (\<lambda>vlans.
          sbind (snapshotDegrade [] (Switch_GetPVIDs ?rg no_deadline None)) (\<lambda>pvids.
          sbind (snapshotDegrade [] (Switch_GetLLDP ?rg no_deadline None)) (\<lambda>lldp.
          sbind (snapshotDegrade [] (getMACsNoGate ?rg no_deadline None)) (\<lambda>macs.
          sbind (snapshotDegrade [] (Switch_GetPoE ?rg no_deadline None)) (\<lambda>poe.
          sbind (snapshotDegrade [] (Switch_GetSensors ?rg no_deadline None)) (\<lambda>sensors.
          sbind (snapshotDegradePtr (Switch_GetMgmtIP ?rg no_deadline None)) (\<lambda>mgmt.
          sret (Inr \<lparr>sd_model = sm_key sm, sd_host = sw_host sw, sd_ports = ports, sd_poe = poe,
             sd_vlans = vlans, sd_pvids = pvids, sd_lldp = lldp, sd_macs = macs, sd_sensors = sensors,
             sd_stats = stats, sd_mgmt_ip = mgmt\<rparr>)))))))))))
      \<lparr>sd_model = sm_key sm, sd_host = sw_host sw, sd_ports = ports_of (world_dev w), sd_poe = [],
        sd_vlans = vlans_of (world_dev w), sd_pvids = pvids_of (world_dev w), sd_lldp = [], sd_macs = [],
        sd_sensors = [], sd_stats = stats_of (world_dev w), sd_mgmt_ip = Some (mgmt_of (world_dev w))\<rparr>"
    by (rule steps(1), rule steps(2), rule steps(3), rule steps(4), rule steps(5), rule steps(6), rule steps(7),
        rule steps(8), rule steps(9), rule snap_step_ret)
  from this [unfolded snap_step_def, rule_format, OF inv refl]
  show ?thesis by (simp only: Snapshot_def prod.case no_deadline_def option.case key)
qed

theorem Snapshot_reports_witness:
  "\<exists>data t. Snapshot (virtual_registries (\<lambda>f. Inl (Foreign f)) \<lparr>rg_readers = (\<lambda>_. None), rg_writers = (\<lambda>_. None)\<rparr>)
      no_deadline None (sample_handle, ([], (NewNsdpFace sample_v2, None))) = (Inr data, t)
    \<and> sd_model data = ''gs110emx'' \<and> sd_ports data = ports_of sample_v2 \<and> sd_lldp data = []"
proof -
  have inv: "facade_inv ''password'' model_gs110emx (sortedUniquePorts [10, 10]) 5
      (sample_handle, ([], (NewNsdpFace sample_v2, None)))"
    by (rule facade_inv_New [OF sample_handle_New gs110emx_default sample_v2_model sample_v2_ok sample_facade(3,1,2)]) simp
  have dev: "world_dev ([], (NewNsdpFace sample_v2, None)) = sample_v2" by (simp add: world_dev_def NewNsdpFace_def)
  have key: "sm_key model_gs110emx = ''gs110emx''" by (simp add: model_gs110emx_def)
  show ?thesis
    using Snapshot_reports [OF inv, unfolded dev, OF sample_readable, unfolded key] by fastforce
qed

end
