(* ===== verification/Safety_Gate.thy ===== *)
theory Safety_Gate
  imports Net_Text Switch_Model
begin

section \<open>The write gate of the command-line programs: cmd/internal/safety/safety.go\<close>

text \<open>
  \<^verbatim>\<open>DoWrite\<close> stands between a command and every write: a dry run only describes the
  operation, otherwise the user has to confirm it.  The streams are parameters, actions on a state
  \<open>'s\<close> that the write's action shares; \<open>terminal_streams\<close> is the instance of a terminal.
\<close>

abbreviation (input) ExitOK :: int where "ExitOK \<equiv> 0"
abbreviation (input) ExitError :: int where "ExitError \<equiv> 1"
abbreviation (input) ExitUsage :: int where "ExitUsage \<equiv> 2"
abbreviation (input) ExitVerify :: int where "ExitVerify \<equiv> 3"
abbreviation (input) ExitProtected :: int where "ExitProtected \<equiv> 4"

definition ExitCodeFor :: "go_error option \<Rightarrow> int" where
  "ExitCodeFor err =
     (case err of
        None \<Rightarrow> ExitOK
      | Some e \<Rightarrow>
          if is_verification e then ExitVerify
          else if errors_is e ErrProtectedPort then ExitProtected
          else ExitError)"

text \<open>
  \<^verbatim>\<open>ReadString\<close> returns the bytes up to and including the delimiter, or all that is left
  together with the error that ended the input.
\<close>

datatype read_error = Read_EOF | Read_Failed go_error

record 's streams =
  st_out :: "string \<Rightarrow> ('s, go_error, unit) action"
  st_err :: "string \<Rightarrow> ('s, go_error, unit) action"
  st_in :: "'s \<Rightarrow> (string \<times> read_error option) \<times> 's"

text \<open>
  \<^verbatim>\<open>strings.ToLower\<close>; no rune beyond ASCII has \<open>y\<close>, \<open>e\<close> or \<open>s\<close> for its
  lower case, so lowering the ASCII letters decides the comparisons below.
\<close>

definition accepts :: "string \<Rightarrow> bool" where
  "accepts line \<longleftrightarrow> (let reply = map to_lower (TrimSpace line) in reply = ''y'' \<or> reply = ''yes'')"

definition Confirm :: "'s streams \<Rightarrow> string \<Rightarrow> bool \<Rightarrow> ('s, go_error, bool) action" where
  "Confirm streams prompt assumeYes s =
     (if assumeYes then (Inr True, s)
      else case st_err streams (prompt @ '' [y/N]: '') s of
        (Inl e, s') \<Rightarrow> (Inl e, s')
      | (Inr _, s') \<Rightarrow>
          (case st_in streams s' of
             ((line, Some (Read_Failed e)), s'') \<Rightarrow> (Inl e, s'')
           | ((line, _), s'') \<Rightarrow> (Inr (accepts line), s'')))"

record 's write_request =
  wq_dry_run :: bool
  wq_assume_yes :: bool
  wq_host :: string
  wq_description :: string
  wq_warning :: string
  wq_action :: "('s, go_error, unit) action"

abbreviation newline :: string where "newline \<equiv> [char_of (10 :: nat)]"

definition prompt_of :: "'s write_request \<Rightarrow> string" where
  "prompt_of req =
     (let prompt = ''About to '' @ wq_description req @ '' on '' @ wq_host req @ ''.'' in
      if wq_warning req \<noteq> [] then wq_warning req @ newline @ prompt else prompt)"

definition DoWrite :: "'s streams \<Rightarrow> 's write_request \<Rightarrow> 's \<Rightarrow> (int \<times> go_error option) \<times> 's" where
  "DoWrite streams req s =
     (if wq_dry_run req
      then case st_out streams (''DRY-RUN: would '' @ wq_description req @ '' on '' @ wq_host req
                                @ '' (nothing sent)'' @ newline) s of
             (Inl e, s') \<Rightarrow> ((ExitError, Some e), s')
           | (Inr _, s') \<Rightarrow> ((ExitOK, None), s')
      else case Confirm streams (prompt_of req) (wq_assume_yes req) s of
        (Inl e, s') \<Rightarrow> ((ExitError, Some e), s')
      | (Inr ok, s') \<Rightarrow>
          if \<not> ok
          then case st_err streams (''aborted: no changes made'' @ newline) s' of
                 (Inl e, s'') \<Rightarrow> ((ExitError, Some e), s'')
               | (Inr _, s'') \<Rightarrow> ((ExitError, None), s'')
          else case wq_action req s' of
                 (Inl e, s'') \<Rightarrow> ((ExitCodeFor (Some e), Some e), s'')
               | (Inr _, s'') \<Rightarrow>
                   (case st_out streams (''ok: '' @ wq_description req @ newline) s'' of
                      (Inl e, s3) \<Rightarrow> ((ExitError, Some e), s3)
                    | (Inr _, s3) \<Rightarrow> ((ExitOK, None), s3)))"

subsection \<open>Streams that leave the switch alone\<close>

text \<open>\<open>view\<close> is what of the state the streams do not touch.\<close>

locale console =
  fixes streams :: "'s streams" and view :: "'s \<Rightarrow> 'v"
  assumes out_keeps: "st_out streams x s = (r, s') \<Longrightarrow> view s' = view s"
    and err_keeps: "st_err streams x s = (r, s') \<Longrightarrow> view s' = view s"
    and in_keeps: "st_in streams s = (l, s') \<Longrightarrow> view s' = view s"
begin

lemma Confirm_keeps: "Confirm streams prompt yes s = (r, s') \<Longrightarrow> view s' = view s"
  by (auto simp: Confirm_def split: if_splits prod.splits sum.splits option.splits read_error.splits
      dest!: err_keeps in_keeps)

text \<open>
  Whatever the streams do, what they do not touch changes only through the action, which runs at
  most once, only outside a dry run and only after a confirmation.
\<close>

lemma DoWrite_guards:
  assumes "DoWrite streams req s = (r, s')" "view s' \<noteq> view s"
  shows "\<not> wq_dry_run req \<and> (\<exists>s1 x s2. Confirm streams (prompt_of req) (wq_assume_yes req) s = (Inr True, s1)
    \<and> view s1 = view s \<and> wq_action req s1 = (x, s2) \<and> view s' = view s2)"
proof -
  have live: "\<not> wq_dry_run req"
    using assms out_keeps by (force simp: DoWrite_def split: if_splits prod.splits sum.splits)
  obtain c s1 where c: "Confirm streams (prompt_of req) (wq_assume_yes req) s = (c, s1)" by force
  have s1: "view s1 = view s" by (rule Confirm_keeps [OF c])
  have yes: "c = Inr True"
  proof (rule ccontr)
    assume "c \<noteq> Inr True"
    have "view s' = view s1"
    proof (cases c)
      case (Inl e)
      then show ?thesis using assms(1) live c by (simp add: DoWrite_def)
    next
      case (Inr ok)
      then have "\<not> ok" using \<open>c \<noteq> Inr True\<close> by auto
      then show ?thesis
        using assms(1) live c Inr err_keeps by (force simp: DoWrite_def split: prod.splits sum.splits)
    qed
    then show False using assms(2) s1 by simp
  qed
  obtain x s2 where x: "wq_action req s1 = (x, s2)" by force
  have "view s' = view s2"
    using assms(1) live c x yes out_keeps by (cases x) (fastforce simp: DoWrite_def split: prod.splits sum.splits)+
  then show ?thesis using live c yes s1 x by blast
qed

end

subsection \<open>A terminal\<close>

record 'v terminal =
  tm_out :: string
  tm_err :: string
  tm_in :: string
  tm_world :: 'v

definition read_line :: "string \<Rightarrow> (string \<times> read_error option) \<times> string" where
  "read_line input =
     (let line = takeWhile (\<lambda>c. c \<noteq> char_of (10 :: nat)) input; rest = dropWhile (\<lambda>c. c \<noteq> char_of (10 :: nat)) input in
      if rest = [] then ((line, Some Read_EOF), []) else ((line @ newline, None), tl rest))"

definition terminal_streams :: "'v terminal streams" where
  "terminal_streams =
     \<lparr>st_out = (\<lambda>x t. (Inr (), t\<lparr>tm_out := tm_out t @ x\<rparr>)),
      st_err = (\<lambda>x t. (Inr (), t\<lparr>tm_err := tm_err t @ x\<rparr>)),
      st_in = (\<lambda>t. case read_line (tm_in t) of (l, rest) \<Rightarrow> (l, t\<lparr>tm_in := rest\<rparr>))\<rparr>"

lemma terminal_streams [simp]:
  "st_out terminal_streams x t = (Inr (), t\<lparr>tm_out := tm_out t @ x\<rparr>)"
  "st_err terminal_streams x t = (Inr (), t\<lparr>tm_err := tm_err t @ x\<rparr>)"
  "st_in terminal_streams t = (case read_line (tm_in t) of (l, rest) \<Rightarrow> (l, t\<lparr>tm_in := rest\<rparr>))"
  by (simp_all add: terminal_streams_def)

interpretation terminal: console terminal_streams tm_world
  by unfold_locales (auto split: prod.splits)

text \<open>An action on the world as an action on the terminal.\<close>

definition on_world :: "('v, go_error, unit) action \<Rightarrow> ('v terminal, go_error, unit) action" where
  "on_world act t = (case act (tm_world t) of (r, v) \<Rightarrow> (r, t\<lparr>tm_world := v\<rparr>))"

definition confirmed :: "'v terminal write_request \<Rightarrow> 'v terminal \<Rightarrow> bool" where
  "confirmed req t \<longleftrightarrow> wq_assume_yes req \<or> accepts (fst (fst (read_line (tm_in t))))"

lemma DoWrite_terminal:
  assumes "wq_action req = on_world act" "DoWrite terminal_streams req t = ((code, err), t')"
  shows "if wq_dry_run req then code = ExitOK \<and> tm_world t' = tm_world t
    else if \<not> confirmed req t then code = ExitError \<and> err = None \<and> tm_world t' = tm_world t
    else tm_world t' = snd (act (tm_world t))
      \<and> (case fst (act (tm_world t)) of Inl e \<Rightarrow> err = Some e \<and> code = ExitCodeFor (Some e) | Inr _ \<Rightarrow> err = None \<and> code = ExitOK)"
proof -
  have read: "read_line i = ((l, e), rest) \<Longrightarrow> e = None \<or> e = Some Read_EOF" for i l e rest
    by (auto simp: read_line_def Let_def split: if_splits)
  obtain l e rest where rl: "read_line (tm_in t) = ((l, e), rest)" by (metis prod.exhaust)
  have ask: "Confirm terminal_streams prompt (wq_assume_yes req) t =
      (Inr (confirmed req t), if wq_assume_yes req then t else t\<lparr>tm_err := tm_err t @ prompt @ '' [y/N]: '', tm_in := rest\<rparr>)"
    for prompt
    using read [OF rl] rl by (auto simp: Confirm_def confirmed_def)
  obtain r v where act: "act (tm_world t) = (r, v)" by force
  show ?thesis
    using assms(2) act
    by (cases r) (auto simp: DoWrite_def assms(1) ask on_world_def split: if_splits)
qed

end
