(* ===== verification/Cli_Text.thy ===== *)
theory Cli_Text
  imports Net_Text
begin

section \<open>The text the command line reads and writes\<close>

text \<open>
  The parts of \<^verbatim>\<open>cmd/gngsw\<close> that turn arguments into values and values into text:
  \<^verbatim>\<open>parseRate\<close>, \<^verbatim>\<open>universalNewlines\<close> (write.go) and \<^verbatim>\<open>pyRepr\<close>
  (pyrepr.go), with the functions of package strconv, strings and unicode/utf8 they use.  A Go
  string is a byte string; \<open>is_print\<close> is \<^verbatim>\<open>unicode.IsPrint\<close> on the runes beyond
  ASCII, a parameter.
\<close>

subsection \<open>\<^verbatim>\<open>strconv\<close>\<close>

definition show_int :: "int \<Rightarrow> string" where
  "show_int i = (if i < 0 then ''-'' @ show_nat (nat (- i)) else show_nat (nat i))"

definition dec_value :: "string \<Rightarrow> nat" where
  "dec_value ds = fold (\<lambda>c v. v * 10 + digit_value c) ds 0"

definition int64_range :: "int \<Rightarrow> bool" where
  "int64_range i \<longleftrightarrow> - (2 ^ 63) \<le> i \<and> i < 2 ^ 63"

text \<open>\<^verbatim>\<open>Atoi\<close>: an optional sign and decimal digits, in the range of a 64-bit int.\<close>

definition Atoi :: "string \<Rightarrow> int option" where
  "Atoi s =
     (let negative = (case s of c # _ \<Rightarrow> c = CHR ''-'' | [] \<Rightarrow> False);
          signed = (case s of c # _ \<Rightarrow> c = CHR ''-'' \<or> c = CHR ''+'' | [] \<Rightarrow> False);
          ds = (if signed then tl s else s);
          i = (if negative then - int (dec_value ds) else int (dec_value ds)) in
      if ds = [] \<or> \<not> list_all is_digit ds \<or> \<not> int64_range i then None else Some i)"

text \<open>\<^verbatim>\<open>ParseUint\<close> in base 10.\<close>

definition ParseUint :: "string \<Rightarrow> nat \<Rightarrow> nat option" where
  "ParseUint s bits =
     (if s = [] \<or> \<not> list_all is_digit s \<or> 2 ^ bits \<le> dec_value s then None else Some (dec_value s))"

text \<open>The wrap-around of Go's \<^verbatim>\<open>int\<close>.\<close>

definition wrap64 :: "int \<Rightarrow> int" where
  "wrap64 i = (i + 2 ^ 63) mod 2 ^ 64 - 2 ^ 63"

definition parseRate :: "string \<Rightarrow> int option" where
  "parseRate t =
     (let token = ToUpper (TrimSpace t) in
      if token \<noteq> [] \<and> last token = CHR ''G''
      then map_option (\<lambda>n. wrap64 (n * 1000)) (Atoi (butlast token))
      else Atoi token)"

lemma dec_digit [simp]: "n < 10 \<Longrightarrow> is_digit (dec_digit n)" "n < 10 \<Longrightarrow> digit_value (dec_digit n) = n"
  by (simp_all add: dec_digit_def is_digit_def digit_value_def)

lemma show_nat_digits: "list_all is_digit (show_nat n) \<and> dec_value (show_nat n) = n \<and> show_nat n \<noteq> []"
proof (induction n rule: show_nat.induct)
  case (1 n)
  then show ?case by (cases "n < 10") (simp_all add: show_nat.simps [of n] dec_value_def)
qed

lemma digit_no_sign: "list_all is_digit ds \<Longrightarrow> ds = c # cs \<Longrightarrow> c \<noteq> CHR ''-'' \<and> c \<noteq> CHR ''+''"
  by (auto simp: is_digit_def)

lemma Atoi_show_int: "Atoi (show_int i) = (if int64_range i then Some i else None)"
proof -
  obtain c cs where n: "show_nat (nat i) = c # cs" using show_nat_digits by (metis neq_Nil_conv)
  show ?thesis
    using show_nat_digits [of "nat i"] show_nat_digits [of "nat (- i)"] digit_no_sign [OF _ n]
    by (auto simp: Atoi_def show_int_def n Let_def)
qed

subsection \<open>Newlines\<close>

text \<open>\<^verbatim>\<open>ReplaceAll\<close> of the two-character line end, then of what carriage returns remain.\<close>

fun replace_crlf :: "string \<Rightarrow> string" where
  "replace_crlf (c # d # s) =
     (if c = char_of (13 :: nat) \<and> d = char_of (10 :: nat) then d # replace_crlf s else c # replace_crlf (d # s))"
| "replace_crlf s = s"

definition universalNewlines :: "string \<Rightarrow> string" where
  "universalNewlines s = map (\<lambda>c. if c = char_of (13 :: nat) then char_of (10 :: nat) else c) (replace_crlf s)"

lemma universalNewlines_no_CR: "char_of (13 :: nat) \<notin> set (universalNewlines s)"
  by (auto simp: universalNewlines_def char_of_eq_iff split: if_splits)

lemma universalNewlines_idem: "universalNewlines (universalNewlines s) = universalNewlines s"
proof -
  have id: "char_of (13 :: nat) \<notin> set u \<Longrightarrow> replace_crlf u = u" for u
    by (induction u rule: replace_crlf.induct) auto
  have "map (\<lambda>c. if c = char_of (13 :: nat) then char_of (10 :: nat) else c) u = u" if "char_of (13 :: nat) \<notin> set u" for u :: string
    using that by (induction u) auto
  then show ?thesis
    using universalNewlines_no_CR [of s] id by (simp add: universalNewlines_def [of "universalNewlines s"])
qed

subsection \<open>Runes\<close>

definition cont :: "byte \<Rightarrow> bool" where
  "cont b \<longleftrightarrow> 0x80 \<le> b \<and> b \<le> 0xBF"

text \<open>
  \<^verbatim>\<open>utf8.DecodeRune\<close>: the rune at the front and its width; an ill-formed sequence is the
  replacement character, one byte wide.
\<close>

definition next_rune :: "byte \<Rightarrow> bytes \<Rightarrow> nat \<times> nat" where
  "next_rune b bs =
     (let v = (\<lambda>i. unat (bs ! i) mod 64); has = (\<lambda>n. n \<le> length bs \<and> list_all cont (take n bs)) in
      if b < 0x80 then (unat b, 1)
      else if 0xC2 \<le> b \<and> b \<le> 0xDF \<and> has 1 then ((unat b mod 32) * 64 + v 0, 2)
      else if 0xE0 \<le> b \<and> b \<le> 0xEF \<and> has 2 \<and> (b = 0xE0 \<longrightarrow> 0xA0 \<le> bs ! 0) \<and> (b = 0xED \<longrightarrow> bs ! 0 \<le> 0x9F)
        then ((unat b mod 16) * 4096 + v 0 * 64 + v 1, 3)
      else if 0xF0 \<le> b \<and> b \<le> 0xF4 \<and> has 3 \<and> (b = 0xF0 \<longrightarrow> 0x90 \<le> bs ! 0) \<and> (b = 0xF4 \<longrightarrow> bs ! 0 \<le> 0x8F)
        then ((unat b mod 8) * 262144 + v 0 * 4096 + v 1 * 64 + v 2, 4)
      else (0xFFFD, 1))"

function runes :: "bytes \<Rightarrow> nat list" where
  "runes [] = []"
| "runes (b # bs) = fst (next_rune b bs) # runes (drop (snd (next_rune b bs) - 1) bs)"
  by pat_completeness auto
termination by (relation "measure length") auto

text \<open>\<^verbatim>\<open>WriteRune\<close> of a rune \<open>next_rune\<close> gives.\<close>

definition encode_rune :: "nat \<Rightarrow> string" where
  "encode_rune r = map (\<lambda>n. char_of n)
     (if r < 0x80 then [r]
      else if r < 0x800 then [0xC0 + r div 64, 0x80 + r mod 64]
      else if r < 0x10000 then [0xE0 + r div 4096, 0x80 + r div 64 mod 64, 0x80 + r mod 64]
      else [0xF0 + r div 262144, 0x80 + r div 4096 mod 64, 0x80 + r div 64 mod 64, 0x80 + r mod 64])"

text \<open>\<^verbatim>\<open>%0kx\<close>.\<close>

fun hex_pad :: "nat \<Rightarrow> nat \<Rightarrow> string" where
  "hex_pad 0 n = []"
| "hex_pad (Suc k) n = hex_pad k (n div 16) @ [hex_digit (n mod 16)]"

definition IsPrint :: "(nat \<Rightarrow> bool) \<Rightarrow> nat \<Rightarrow> bool" where
  "IsPrint is_print r \<longleftrightarrow> (if r < 0x80 then 0x20 \<le> r \<and> r \<le> 0x7E else is_print r)"

abbreviation (input) BACKSLASH :: char where "BACKSLASH \<equiv> char_of (92 :: nat)"

definition repr_rune :: "(nat \<Rightarrow> bool) \<Rightarrow> nat \<Rightarrow> nat \<Rightarrow> string" where
  "repr_rune is_print quote r =
     (if r = 92 then [BACKSLASH, BACKSLASH]
      else if r < 0x80 \<and> r = quote then [BACKSLASH, char_of quote]
      else if r = 10 then [BACKSLASH, CHR ''n'']
      else if r = 13 then [BACKSLASH, CHR ''r'']
      else if r = 9 then [BACKSLASH, CHR ''t'']
      else if r < 0x20 \<or> r = 0x7F then BACKSLASH # CHR ''x'' # hex_pad 2 r
      else if r < 0x100 \<and> \<not> IsPrint is_print r then BACKSLASH # CHR ''x'' # hex_pad 2 r
      else if r < 0x10000 \<and> \<not> IsPrint is_print r then BACKSLASH # CHR ''u'' # hex_pad 4 r
      else if \<not> IsPrint is_print r then BACKSLASH # CHR ''U'' # hex_pad 8 r
      else encode_rune r)"

definition pyRepr :: "(nat \<Rightarrow> bool) \<Rightarrow> string \<Rightarrow> string" where
  "pyRepr is_print s =
     (let quote = (if char_of (39 :: nat) \<in> set s \<and> char_of (34 :: nat) \<notin> set s then 34 else 39) in
      char_of quote # concat (map (repr_rune is_print quote) (runes (bytes_of s))) @ [char_of quote])"

text \<open>\<^verbatim>\<open>strconv.Quote\<close>, the verb \<^verbatim>\<open>%q\<close>: an ill-formed byte is escaped by its value.\<close>

definition quote_rune :: "(nat \<Rightarrow> bool) \<Rightarrow> nat \<Rightarrow> string" where
  "quote_rune is_print r =
     (if r = 34 \<or> r = 92 then [BACKSLASH, char_of r]
      else if IsPrint is_print r then encode_rune r
      else if r = 7 then [BACKSLASH, CHR ''a''] else if r = 8 then [BACKSLASH, CHR ''b'']
      else if r = 12 then [BACKSLASH, CHR ''f''] else if r = 10 then [BACKSLASH, CHR ''n'']
      else if r = 13 then [BACKSLASH, CHR ''r''] else if r = 9 then [BACKSLASH, CHR ''t'']
      else if r = 11 then [BACKSLASH, CHR ''v'']
      else if r < 0x20 \<or> r = 0x7F then BACKSLASH # CHR ''x'' # hex_pad 2 r
      else if r < 0x10000 then BACKSLASH # CHR ''u'' # hex_pad 4 r
      else BACKSLASH # CHR ''U'' # hex_pad 8 r)"

function quote_runes :: "(nat \<Rightarrow> bool) \<Rightarrow> bytes \<Rightarrow> string" where
  "quote_runes is_print [] = []"
| "quote_runes is_print (b # bs) =
     (case next_rune b bs of (r, w) \<Rightarrow>
        (if r = 0xFFFD \<and> w = 1 then BACKSLASH # CHR ''x'' # hex_pad 2 (unat b) else quote_rune is_print r)
        @ quote_runes is_print (drop (w - 1) bs))"
  by pat_completeness auto
termination by (relation "measure (length \<circ> snd)") auto

definition Quote :: "(nat \<Rightarrow> bool) \<Rightarrow> string \<Rightarrow> string" where
  "Quote is_print s = CHR ''\"'' # quote_runes is_print (bytes_of s) @ [CHR ''\"'']"

text \<open>Text a person types, without quotes or backslashes, is only put between quotes.\<close>

definition plain_text :: "string \<Rightarrow> bool" where
  "plain_text = list_all (\<lambda>c. let n = of_char c :: nat in 0x20 \<le> n \<and> n \<le> 0x7E \<and> n \<noteq> 39 \<and> n \<noteq> 92)"

lemma next_rune_ascii: "b < 0x80 \<Longrightarrow> next_rune b bs = (unat b, 1)"
  by (simp add: next_rune_def)

lemma pyRepr_plain:
  assumes "plain_text s"
  shows "pyRepr is_print s = char_of (39 :: nat) # s @ [char_of (39 :: nat)]"
proof -
  have "concat (map (repr_rune is_print 39) (runes (bytes_of s))) = s"
    using assms
  proof (induction s)
    case (Cons c s)
    have n: "(of_char c :: nat) < 128" using Cons.prems by (simp add: plain_text_def Let_def)
    then have b: "byte_of_char c < 0x80" "unat (byte_of_char c) = of_char c"
      by (simp_all add: byte_of_char_def word_less_nat_alt unat_of_nat)
    show ?case
      using Cons b by (simp add: bytes_of_def next_rune_ascii plain_text_def Let_def repr_rune_def IsPrint_def encode_rune_def)
  qed (simp add: bytes_of_def)
  moreover have "char_of (39 :: nat) \<notin> set s"
    using assms by (auto simp: plain_text_def list_all_iff Let_def)
  ultimately show ?thesis by (simp add: pyRepr_def)
qed

end
