(* ===== verification/Gngsw_Write.thy ===== *)
theory Gngsw_Write
  imports Cli_Text Facade Safety_Gate
begin

section \<open>The write commands of gngsw: cmd/gngsw/write.go\<close>

text \<open>
  Each command's \<^verbatim>\<open>RunE\<close> on the positional arguments and the flags cobra has parsed
  (cobra is a library; the number of arguments it enforces is \<open>run_command\<close>'s check): arguments
  become values, a usage error ends the command, and everything else is one facade call behind
  the write gate.  A command's result is the exit code left in \<^verbatim>\<open>cmdContext.code\<close>.

  The context: the streams, how a switch handle is obtained (\<^verbatim>\<open>SwitchFactory\<close> or
  \<^verbatim>\<open>resolve.Resolve\<close>), the backends registered, the rendering of an error
  (\<^verbatim>\<open>Error()\<close>; with \<^verbatim>\<open>--verbose\<close> also its chain), and the read form of
  \<open>poe\<close>.  \<^verbatim>\<open>Switch.Close\<close> releases HTTP and shell sessions only, which the handle
  modelled here does not hold.
\<close>

record 'n cmd_context =
  cc_streams :: "'n terminal streams"
  cc_factory :: "('n, go_error, 'n gswitch) action"
  cc_registries :: "'n registries"
  cc_error_text :: "go_error \<Rightarrow> string"
  cc_verbose_chain :: "(go_error \<Rightarrow> string) option"
  cc_is_print :: "nat \<Rightarrow> bool"
  cc_show_poe :: "'n terminal \<Rightarrow> int \<times> 'n terminal"

record write_flags =
  wf_dry_run :: bool
  wf_yes :: bool
  wf_force :: bool

type_synonym 'n run = "'n terminal \<Rightarrow> int \<times> 'n terminal"

text \<open>\<^verbatim>\<open>fail\<close>, \<^verbatim>\<open>usageError\<close> and \<^verbatim>\<open>libraryError\<close>: a failing stderr is ignored.\<close>

definition fail_with :: "'n cmd_context \<Rightarrow> int \<Rightarrow> string \<Rightarrow> 'n run" where
  "fail_with cc code message t = (code, snd (st_err (cc_streams cc) (''error: '' @ message @ newline) t))"

definition usageError :: "'n cmd_context \<Rightarrow> string \<Rightarrow> 'n run" where
  "usageError cc = fail_with cc ExitUsage"

definition report_error :: "'n cmd_context \<Rightarrow> go_error \<Rightarrow> 'n terminal \<Rightarrow> 'n terminal" where
  "report_error cc e t =
     (let t' = (case cc_verbose_chain cc of None \<Rightarrow> t | Some chain \<Rightarrow> snd (st_err (cc_streams cc) (chain e) t)) in
      snd (st_err (cc_streams cc) (''error: '' @ cc_error_text cc e @ newline) t'))"

definition libraryError :: "'n cmd_context \<Rightarrow> go_error \<Rightarrow> 'n run" where
  "libraryError cc e t = (ExitCodeFor (Some e), report_error cc e t)"

text \<open>
  \<^verbatim>\<open>getSwitch\<close>, \<^verbatim>\<open>runWrite\<close> and \<^verbatim>\<open>runWriteWithSwitch\<close>; the
  handle lives for this one command.
\<close>

definition with_handle :: "'n gswitch \<Rightarrow> 'n facade_write \<Rightarrow> ('n, go_error, unit) action" where
  "with_handle sw act w = (case act (sw, w) of (r, (sw', w')) \<Rightarrow> (r, w'))"

definition runWriteWithSwitch :: "'n cmd_context \<Rightarrow> 'n gswitch \<Rightarrow> write_flags \<Rightarrow> string \<Rightarrow> string \<Rightarrow> 'n facade_write \<Rightarrow> 'n run" where
  "runWriteWithSwitch cc sw fl description warning act t =
     (case DoWrite (cc_streams cc)
             \<lparr>wq_dry_run = wf_dry_run fl, wq_assume_yes = wf_yes fl, wq_host = sw_host sw,
              wq_description = description, wq_warning = warning, wq_action = on_world (with_handle sw act)\<rparr> t of
        ((code, None), t') \<Rightarrow> (code, t')
      | ((code, Some e), t') \<Rightarrow> (code, report_error cc e t'))"

definition getSwitch :: "'n cmd_context \<Rightarrow> ('n terminal, go_error, 'n gswitch) action" where
  "getSwitch cc t = (case cc_factory cc (tm_world t) of (r, w) \<Rightarrow> (r, t\<lparr>tm_world := w\<rparr>))"

definition runWrite :: "'n cmd_context \<Rightarrow> write_flags \<Rightarrow> string \<Rightarrow> string \<Rightarrow> 'n facade_write \<Rightarrow> 'n run" where
  "runWrite cc fl description warning act t =
     (case getSwitch cc t of
        (Inl e, t') \<Rightarrow> libraryError cc e t'
      | (Inr sw, t') \<Rightarrow> runWriteWithSwitch cc sw fl description warning act t')"

subsection \<open>Arguments\<close>

text \<open>A positional integer; what is no integer ends the command as a usage error.\<close>

definition parseIntArg :: "(nat \<Rightarrow> bool) \<Rightarrow> string \<Rightarrow> string \<Rightarrow> string + int" where
  "parseIntArg is_print s name =
     (case Atoi s of
        None \<Rightarrow> Inl (''invalid '' @ name @ '' '' @ Quote is_print s @ '': must be an integer'')
      | Some n \<Rightarrow> Inr n)"

definition with_int :: "'n cmd_context \<Rightarrow> string \<Rightarrow> string \<Rightarrow> (int \<Rightarrow> 'n run) \<Rightarrow> 'n run" where
  "with_int cc s name k =
     (case parseIntArg (cc_is_print cc) s name of Inl message \<Rightarrow> usageError cc message | Inr n \<Rightarrow> k n)"

definition vlanModes :: "string \<Rightarrow> vlan_mode option" where
  "vlanModes = map_of [(''untagged'', VlanUntagged), (''tagged'', VlanTagged), (''excluded'', VlanExcluded)]"

abbreviation (input) no_context :: "'n ctx" where "no_context \<equiv> \<lambda>s. None"

abbreviation APOS :: char where "APOS \<equiv> char_of (39 :: nat)"

abbreviation forced :: "write_flags \<Rightarrow> write_options" where
  "forced fl \<equiv> \<lparr>wo_force = wf_force fl, wo_backend = None\<rparr>"

subsection \<open>The commands\<close>

definition newPoeCmd :: "'n cmd_context \<Rightarrow> write_flags \<Rightarrow> string list \<Rightarrow> 'n run" where
  "newPoeCmd cc fl args =
     (if args = [] then cc_show_poe cc
      else with_int cc (args ! 0) ''port'' (\<lambda>port.
        if length args = 1 then usageError cc ''an action (on|off|cycle|clear-fault) is required with a port''
        else let action = args ! 1; rg = cc_registries cc;
               description = ''set PoE port '' @ show_int port @ '' -> '' @ action in
          if action = ''on'' then runWrite cc fl description [] (Switch_SetPoE rg no_context port True (forced fl))
          else if action = ''off'' then runWrite cc fl description [] (Switch_SetPoE rg no_context port False (forced fl))
          else if action = ''cycle'' then runWrite cc fl description [] (Switch_CyclePoE rg no_context port (forced fl) [])
          else if action = ''clear-fault'' then runWrite cc fl description [] (Switch_ClearPoEFault rg no_context port (forced fl) [])
          else usageError cc (''invalid action '' @ Quote (cc_is_print cc) action
                 @ '': must be one of on, off, cycle, clear-fault'')))"

definition newPortCmd :: "'n cmd_context \<Rightarrow> write_flags \<Rightarrow> string list \<Rightarrow> 'n run" where
  "newPortCmd cc fl args =
     with_int cc (args ! 0) ''port'' (\<lambda>port.
       let state = args ! 1 in
       if state \<noteq> ''up'' \<and> state \<noteq> ''down''
       then usageError cc (''invalid state '' @ Quote (cc_is_print cc) state @ '': must be 'up' or 'down'' @ [APOS])
       else runWrite cc fl (''set port '' @ show_int port @ '' '' @ state) []
              (Switch_SetPortEnabled (cc_registries cc) no_context port (state = ''up'') (forced fl)))"

definition newDescribeCmd :: "'n cmd_context \<Rightarrow> write_flags \<Rightarrow> string list \<Rightarrow> 'n run" where
  "newDescribeCmd cc fl args =
     with_int cc (args ! 0) ''port'' (\<lambda>port.
       let label = args ! 1;
           description = (if label \<noteq> []
             then ''describe port '' @ show_int port @ '' as '' @ pyRepr (cc_is_print cc) label
             else ''clear the description on port '' @ show_int port) in
       runWrite cc fl description [] (Switch_SetPortDescription (cc_registries cc) no_context port label (forced fl)))"

definition newSpeedCmd :: "'n cmd_context \<Rightarrow> string \<Rightarrow> write_flags \<Rightarrow> string list \<Rightarrow> 'n run" where
  "newSpeedCmd cc duplex fl args =
     with_int cc (args ! 0) ''port'' (\<lambda>port.
       if duplex \<noteq> ''full'' \<and> duplex \<noteq> ''half''
       then usageError cc (''invalid --duplex '' @ Quote (cc_is_print cc) duplex @ '': must be 'full' or 'half'' @ [APOS])
       else let rateArg = args ! 1; set = (\<lambda>speed description. runWrite cc fl description []
              (Switch_SetPortSpeed (cc_registries cc) no_context port speed (forced fl))) in
         if map to_lower rateArg = ''auto'' then set AutoPortSpeed (''set port '' @ show_int port @ '' to auto-negotiate'')
         else case parseRate rateArg of
           None \<Rightarrow> usageError cc (''not a port rate: '' @ pyRepr (cc_is_print cc) rateArg @ '' (try 'auto', '100' or '10G')'')
         | Some rate \<Rightarrow> set (ForcedPortSpeed rate (duplex = ''full''))
             (''force port '' @ show_int port @ '' to '' @ show_int rate @ '' Mbit/s '' @ duplex @ ''-duplex''))"

definition newFlowControlCmd :: "'n cmd_context \<Rightarrow> write_flags \<Rightarrow> string list \<Rightarrow> 'n run" where
  "newFlowControlCmd cc fl args =
     with_int cc (args ! 0) ''port'' (\<lambda>port.
       let state = args ! 1 in
       if state \<noteq> ''on'' \<and> state \<noteq> ''off''
       then usageError cc (''invalid state '' @ Quote (cc_is_print cc) state @ '': must be 'on' or 'off'' @ [APOS])
       else runWrite cc fl (''turn flow control '' @ state @ '' for port '' @ show_int port) []
              (Switch_SetFlowControl (cc_registries cc) no_context port (state = ''on'') (forced fl)))"

definition newCyclePoECmd :: "'n cmd_context \<Rightarrow> write_flags \<Rightarrow> string list \<Rightarrow> 'n run" where
  "newCyclePoECmd cc fl args =
     with_int cc (args ! 0) ''port'' (\<lambda>port.
       runWrite cc fl (''power-cycle PoE port '' @ show_int port) []
         (Switch_CyclePoE (cc_registries cc) no_context port (forced fl) []))"

definition newClearPoEFaultCmd :: "'n cmd_context \<Rightarrow> write_flags \<Rightarrow> string list \<Rightarrow> 'n run" where
  "newClearPoEFaultCmd cc fl args =
     with_int cc (args ! 0) ''port'' (\<lambda>port.
       runWrite cc fl (''clear PoE fault on port '' @ show_int port) []
         (Switch_ClearPoEFault (cc_registries cc) no_context port (forced fl) []))"

definition newPVIDCmd :: "'n cmd_context \<Rightarrow> write_flags \<Rightarrow> string list \<Rightarrow> 'n run" where
  "newPVIDCmd cc fl args =
     with_int cc (args ! 0) ''port'' (\<lambda>port.
     with_int cc (args ! 1) ''vlan'' (\<lambda>vlan.
       runWrite cc fl (''set PVID port '' @ show_int port @ '' -> VLAN '' @ show_int vlan) []
         (Switch_SetPVID (cc_registries cc) no_context port vlan (forced fl))))"

definition newVlanSetCmd :: "'n cmd_context \<Rightarrow> write_flags \<Rightarrow> string list \<Rightarrow> 'n run" where
  "newVlanSetCmd cc fl args =
     with_int cc (args ! 0) ''vlan'' (\<lambda>vlan.
     with_int cc (args ! 1) ''port'' (\<lambda>port.
       let mode = args ! 2 in
       case vlanModes mode of
         None \<Rightarrow> usageError cc (''invalid mode '' @ Quote (cc_is_print cc) mode @ '': must be one of untagged, tagged, excluded'')
       | Some modeVal \<Rightarrow>
           runWrite cc fl (''set VLAN '' @ show_int vlan @ '' port '' @ show_int port @ '' -> '' @ mode) []
             (Switch_SetVlanMembership (cc_registries cc) no_context vlan port modeVal (forced fl))))"

definition newVlanCreateCmd :: "'n cmd_context \<Rightarrow> write_flags \<Rightarrow> string list \<Rightarrow> 'n run" where
  "newVlanCreateCmd cc fl args =
     with_int cc (args ! 0) ''vlan'' (\<lambda>vlan.
       let name = args ! 1 in
       runWrite cc fl (''create VLAN '' @ show_int vlan @ '' named '' @ pyRepr (cc_is_print cc) name) []
         (Switch_CreateVlan (cc_registries cc) no_context vlan name (forced fl)))"

definition newVlanDeleteCmd :: "'n cmd_context \<Rightarrow> write_flags \<Rightarrow> string list \<Rightarrow> 'n run" where
  "newVlanDeleteCmd cc fl args =
     with_int cc (args ! 0) ''vlan'' (\<lambda>vlan.
       runWrite cc fl (''delete VLAN '' @ show_int vlan) []
         (Switch_DeleteVlan (cc_registries cc) no_context vlan (forced fl)))"

definition newIPSetCmd :: "'n cmd_context \<Rightarrow> write_flags \<Rightarrow> string list \<Rightarrow> 'n run" where
  "newIPSetCmd cc fl args =
     (let address = args ! 0; netmask = args ! 1; gateway = args ! 2 in
      runWrite cc fl (''set mgmt IP '' @ address @ '' netmask '' @ netmask @ '' gw '' @ gateway)
        ''WARNING: a wrong management-IP change can strand the switch.''
        (Switch_SetMgmtIP (cc_registries cc) no_context address netmask gateway (forced fl)))"

definition newHostnameSetCmd :: "'n cmd_context \<Rightarrow> write_flags \<Rightarrow> string list \<Rightarrow> 'n run" where
  "newHostnameSetCmd cc fl args =
     (let name = args ! 0 in
      runWrite cc fl (''set hostname to '' @ pyRepr (cc_is_print cc) name) []
        (Switch_SetHostname (cc_registries cc) no_context name (forced fl)))"

definition newSyslogSetCmd :: "'n cmd_context \<Rightarrow> write_flags \<Rightarrow> string list \<Rightarrow> 'n run" where
  "newSyslogSetCmd cc fl args =
     (let state = args ! 0 in
      if state \<noteq> ''on'' \<and> state \<noteq> ''off''
      then usageError cc (''invalid state '' @ Quote (cc_is_print cc) state @ '': must be 'on' or 'off'' @ [APOS])
      else runWrite cc fl (''turn remote logging '' @ state) []
             (Switch_SetSyslogEnabled (cc_registries cc) no_context (state = ''on'') (forced fl)))"

definition newSyslogAddCmd :: "'n cmd_context \<Rightarrow> int \<Rightarrow> int \<Rightarrow> write_flags \<Rightarrow> string list \<Rightarrow> 'n run" where
  "newSyslogAddCmd cc port severity fl args =
     (let address = args ! 0 in
      if severity < 0 \<or> severity > 7
      then usageError cc (''invalid --severity '' @ show_int severity @ '': must be 0-7'')
      else runWrite cc fl (''add syslog collector '' @ address @ '' (port '' @ show_int port @ '', severity ''
               @ show_int severity @ '')'') []
             (Switch_AddSyslogCollector (cc_registries cc) no_context address port severity (forced fl)))"

definition newSyslogRemoveCmd :: "'n cmd_context \<Rightarrow> write_flags \<Rightarrow> string list \<Rightarrow> 'n run" where
  "newSyslogRemoveCmd cc fl args =
     (let address = args ! 0 in
      runWrite cc fl (''remove syslog collector '' @ address) []
        (Switch_RemoveSyslogCollector (cc_registries cc) no_context address (forced fl)))"

subsection \<open>The command table\<close>

text \<open>
  \<^verbatim>\<open>Run\<close>'s command, with its own flags' values; cobra refuses a wrong number of arguments
  before \<^verbatim>\<open>RunE\<close>, and \<^verbatim>\<open>Run\<close> then reports cobra's message as a usage error.
\<close>

datatype gngsw_cmd =
  Cmd_Poe | Cmd_Port | Cmd_Describe | Cmd_Speed string | Cmd_FlowControl | Cmd_CyclePoE | Cmd_ClearPoEFault
| Cmd_PVID | Cmd_VlanSet | Cmd_VlanCreate | Cmd_VlanDelete | Cmd_IPSet | Cmd_HostnameSet
| Cmd_SyslogSet | Cmd_SyslogAdd int int | Cmd_SyslogRemove

fun args_ok :: "gngsw_cmd \<Rightarrow> nat \<Rightarrow> bool" where
  "args_ok Cmd_Poe n = (n \<le> 2)"
| "args_ok Cmd_VlanSet n = (n = 3)"
| "args_ok Cmd_IPSet n = (n = 3)"
| "args_ok Cmd_CyclePoE n = (n = 1)"
| "args_ok Cmd_ClearPoEFault n = (n = 1)"
| "args_ok Cmd_VlanDelete n = (n = 1)"
| "args_ok Cmd_HostnameSet n = (n = 1)"
| "args_ok Cmd_SyslogSet n = (n = 1)"
| "args_ok (Cmd_SyslogAdd p v) n = (n = 1)"
| "args_ok Cmd_SyslogRemove n = (n = 1)"
| "args_ok cmd n = (n = 2)"

fun RunE :: "'n cmd_context \<Rightarrow> gngsw_cmd \<Rightarrow> write_flags \<Rightarrow> string list \<Rightarrow> 'n run" where
  "RunE cc Cmd_Poe = newPoeCmd cc"
| "RunE cc Cmd_Port = newPortCmd cc"
| "RunE cc Cmd_Describe = newDescribeCmd cc"
| "RunE cc (Cmd_Speed duplex) = newSpeedCmd cc duplex"
| "RunE cc Cmd_FlowControl = newFlowControlCmd cc"
| "RunE cc Cmd_CyclePoE = newCyclePoECmd cc"
| "RunE cc Cmd_ClearPoEFault = newClearPoEFaultCmd cc"
| "RunE cc Cmd_PVID = newPVIDCmd cc"
| "RunE cc Cmd_VlanSet = newVlanSetCmd cc"
| "RunE cc Cmd_VlanCreate = newVlanCreateCmd cc"
| "RunE cc Cmd_VlanDelete = newVlanDeleteCmd cc"
| "RunE cc Cmd_IPSet = newIPSetCmd cc"
| "RunE cc Cmd_HostnameSet = newHostnameSetCmd cc"
| "RunE cc Cmd_SyslogSet = newSyslogSetCmd cc"
| "RunE cc (Cmd_SyslogAdd port severity) = newSyslogAddCmd cc port severity"
| "RunE cc Cmd_SyslogRemove = newSyslogRemoveCmd cc"

definition run_command :: "'n cmd_context \<Rightarrow> string \<Rightarrow> gngsw_cmd \<Rightarrow> write_flags \<Rightarrow> string list \<Rightarrow> 'n run" where
  "run_command cc cobra_message cmd fl args =
     (if args_ok cmd (length args) then RunE cc cmd fl args else fail_with cc ExitUsage cobra_message)"

end
