(* ===== verification/Gngsw_System.thy ===== *)
theory Gngsw_System
  imports Facade_System Gngsw_Write
begin

section \<open>gngsw in front of the virtual switch\<close>

text \<open>
  The write commands of gngsw from the arguments to the switch's state: what is typed is one
  operation of the abstract switch, the gate decides whether it runs, and the facade of
  \<open>Facade_System\<close> carries it out.  An operation that would touch a protected port, or that needs
  force and was not given it, is refused with an exit code of its own.
\<close>

subsection \<open>Refusals\<close>

text \<open>Without force these operations are refused, whatever the switch's state.\<close>

fun op_protected :: "int list \<Rightarrow> facade_op \<Rightarrow> bool" where
  "op_protected ports (PVID_Op port vlan) \<longleftrightarrow> port \<in> set ports"
| "op_protected ports (Membership_Op vid port mode) \<longleftrightarrow> port \<in> set ports"
| "op_protected ports (Description_Op port label) \<longleftrightarrow> port \<in> set ports"
| "op_protected ports (DeleteVlan_Op vid) \<longleftrightarrow> True"
| "op_protected ports (MgmtIP_Op a m g) \<longleftrightarrow> True"
| "op_protected ports op \<longleftrightarrow> False"

definition refusal :: "go_error \<Rightarrow> bool" where
  "refusal e \<longleftrightarrow> ExitCodeFor (Some e) = ExitProtected"

lemma refusal_Wraps [simp]: "refusal (Wraps f a ErrProtectedPort)"
  by (simp add: refusal_def ExitCodeFor_def)

lemma refuse_refusal: "refusal e \<Longrightarrow> refusal (refuse m b eff e)"
  by (auto simp: refusal_def ExitCodeFor_def refuse_def cannotServe_def split: if_splits)

lemma facade_write_refused:
  assumes inv: "facade_inv password sm ports n (sw, w)"
    and op: "\<And>i v. \<exists>e. fn (writer_at sm password ports i) v = (Inl e, v) \<and> refusal e"
  shows "\<exists>e sw' w'. writeVia (rg_writers (virtual_registries read_file rg)) no_deadline None fn (sw, w) = (Inl e, (sw', w'))
    \<and> refusal e \<and> world_dev w' = world_dev w \<and> facade_inv password sm ports n (sw', w')"
proof -
  obtain i sw' v where v: "writerFor (rg_writers (virtual_registries read_file rg)) BackendNSDP (sw, w)
        = (Inr (writer_at sm password ports i), (sw', v))" "world_dev v = world_dev w" "facade_inv password sm ports n (sw', v)"
    using writerFor_ready [OF inv] by metis
  obtain e where e: "fn (writer_at sm password ports i) v = (Inl e, v)" "refusal e" using op by blast
  have "ResolveBackend sw None = Inr BackendNSDP" using inv by (cases w) (simp add: facade_inv_def handle_fixed_def)
  then show ?thesis using v e refuse_refusal [OF e(2)] by (simp add: writeVia_unfold no_deadline_def)
qed

lemma guardVLANDeleteMembers_cases:
  assumes inv: "facade_inv password sm ports n (sw, w)" and rd: "readable (world_dev w)"
  shows "\<exists>r sw' w'. guardVLANDeleteMembers (virtual_registries read_file rg) no_deadline vid False None (sw, w) = (r, (sw', w'))
    \<and> (\<forall>e. r = Inl e \<longrightarrow> refusal e) \<and> world_dev w' = world_dev w \<and> facade_inv password sm ports n (sw', w')"
proof -
  have "\<exists>sw' w'. Switch_GetVLANs (virtual_registries read_file rg) no_deadline None (sw, w)
        = (Inr (vlans_of (world_dev w)), (sw', w'))
      \<and> world_dev w' = world_dev w \<and> facade_inv password sm ports n (sw', w')"
    unfolding Switch_GetVLANs_def
  proof (rule facade_read [OF inv])
    fix i v assume "world_inv password (length (fst v)) (vs_model_key (world_dev v)) i n v" "world_dev v = world_dev w"
    then show "\<exists>u. br_GetVLANs (reader_at sm i) v = (Inr (vlans_of (world_dev w)), u) \<and> world_dev u = world_dev v
        \<and> world_inv password (length (fst v)) (vs_model_key (world_dev v)) i n u"
      using slot.GetVLANs_reads rd by fastforce
  qed
  then obtain sw' w' where v: "Switch_GetVLANs (virtual_registries read_file rg) no_deadline None (sw, w)
        = (Inr (vlans_of (world_dev w)), (sw', w'))" "world_dev w' = world_dev w" "facade_inv password sm ports n (sw', w')"
    by blast
  let ?g = "guardVLANDeleteMembers (virtual_registries read_file rg) no_deadline vid False None (sw, w)"
  have "?g = (fst ?g, (sw', w')) \<and> (\<forall>e. fst ?g = Inl e \<longrightarrow> refusal e)"
    using v(1) by (simp add: guardVLANDeleteMembers_def Let_def split: option.split)
  then show ?thesis using v(2,3) by metis
qed

lemma do_op_protected:
  assumes inv: "facade_inv password sm ports n (sw, w)" and rd: "readable (world_dev w)" and p: "op_protected ports op"
  shows "\<exists>e sw' w'. do_op (virtual_registries read_file rg) no_deadline False op (sw, w) = (Inl e, (sw', w'))
    \<and> refusal e \<and> world_dev w' = world_dev w \<and> facade_inv password sm ports n (sw', w')"
proof (cases op)
  case (PVID_Op port vlan)
  show ?thesis
    unfolding PVID_Op do_op_via
    by (rule facade_write_refused [OF inv]) (use p PVID_Op in \<open>simp add: SetPVID_def guard_def\<close>)
next
  case (Membership_Op vid port mode)
  show ?thesis
    unfolding Membership_Op do_op_via
    by (rule facade_write_refused [OF inv]) (use p Membership_Op in \<open>simp add: SetVlanMembership_def guard_def\<close>)
next
  case (Description_Op port label)
  show ?thesis
    unfolding Description_Op do_op_via
    by (rule facade_write_refused [OF inv]) (use p Description_Op in \<open>simp add: SetPortDescription_def guard_def\<close>)
next
  case (MgmtIP_Op a m g)
  show ?thesis
    unfolding MgmtIP_Op do_op_via
    by (rule facade_write_refused [OF inv]) (simp add: SetMgmtIP_def)
next
  case (DeleteVlan_Op vid)
  obtain r sw1 w1 where g: "guardVLANDeleteMembers (virtual_registries read_file rg) no_deadline vid False None (sw, w) = (r, (sw1, w1))"
      "\<forall>e. r = Inl e \<longrightarrow> refusal e" "world_dev w1 = world_dev w" "facade_inv password sm ports n (sw1, w1)"
    using guardVLANDeleteMembers_cases [OF inv rd] by metis
  show ?thesis
  proof (cases r)
    case (Inl e)
    then show ?thesis using g by (simp add: DeleteVlan_Op Switch_DeleteVlan_def sbind_def)
  next
    case (Inr u)
    have "\<exists>e sw' w'. writeVia (rg_writers (virtual_registries read_file rg)) no_deadline None
          (\<lambda>b. bw_DeleteVlan b vid False) (sw1, w1) = (Inl e, (sw', w'))
        \<and> refusal e \<and> world_dev w' = world_dev w1 \<and> facade_inv password sm ports n (sw', w')"
      by (rule facade_write_refused [OF g(4)]) (simp add: DeleteVlan_def)
    then show ?thesis using g Inr by (simp add: DeleteVlan_Op Switch_DeleteVlan_def sbind_def)
  qed
qed (use p in simp_all)

subsection \<open>What a command line means\<close>

text \<open>The operation a command and its arguments stand for, when they are well-formed.\<close>

fun command_op :: "gngsw_cmd \<Rightarrow> string list \<Rightarrow> facade_op option" where
  "command_op Cmd_PVID [port, vlan] =
     (case (Atoi port, Atoi vlan) of (Some p, Some v) \<Rightarrow> Some (PVID_Op p v) | _ \<Rightarrow> None)"
| "command_op Cmd_VlanSet [vlan, port, mode] =
     (case (Atoi vlan, Atoi port, vlanModes mode) of
        (Some v, Some p, Some m) \<Rightarrow> Some (Membership_Op v p m) | _ \<Rightarrow> None)"
| "command_op Cmd_VlanCreate [vlan, name] = map_option (\<lambda>v. CreateVlan_Op v name) (Atoi vlan)"
| "command_op Cmd_VlanDelete [vlan] = map_option DeleteVlan_Op (Atoi vlan)"
| "command_op Cmd_Describe [port, label] = map_option (\<lambda>p. Description_Op p label) (Atoi port)"
| "command_op Cmd_HostnameSet [name] = Some (Hostname_Op name)"
| "command_op Cmd_IPSet [a, m, g] = Some (MgmtIP_Op a m g)"
| "command_op _ _ = None"

lemma with_int_Some [simp]: "Atoi s = Some n \<Longrightarrow> with_int cc s name k = k n"
  by (simp add: with_int_def parseIntArg_def)

lemmas command_defs = newPVIDCmd_def newVlanSetCmd_def newVlanCreateCmd_def newVlanDeleteCmd_def newDescribeCmd_def
  newHostnameSetCmd_def newIPSetCmd_def

lemma no_deadline_context: "no_deadline = (\<lambda>s. None)"
  by (simp add: no_deadline_def fun_eq_iff)

lemma some_write [simp]: "\<exists>description warning. runWrite cc fl d wn act = runWrite cc fl description warning act"
  by blast

lemma command_runs:
  assumes "command_op cmd args = Some op"
  shows "\<exists>description warning. run_command cc message cmd fl args
    = runWrite cc fl description warning (do_op (cc_registries cc) no_deadline (wf_force fl) op)"
  using assms
  by (cases "(cmd, args)" rule: command_op.cases)
    (auto simp: run_command_def command_defs no_deadline_context Let_def split: option.splits prod.splits)

text \<open>A command at a terminal, the handle obtained without touching the world.\<close>

lemma runWrite_terminal:
  assumes "cc_streams cc = terminal_streams" "cc_factory cc (tm_world t) = (Inr sw, tm_world t)"
    and act: "act (sw, tm_world t) = (r, (sw', w'))"
  shows "\<exists>code t'. runWrite cc fl description warning act t = (code, t')
    \<and> (if wf_dry_run fl then code = ExitOK \<and> tm_world t' = tm_world t
       else if \<not> (wf_yes fl \<or> accepts (fst (fst (read_line (tm_in t))))) then code = ExitError \<and> tm_world t' = tm_world t
       else tm_world t' = w' \<and> (case r of Inl e \<Rightarrow> code = ExitCodeFor (Some e) | Inr _ \<Rightarrow> code = ExitOK))"
proof -
  let ?req = "\<lparr>wq_dry_run = wf_dry_run fl, wq_assume_yes = wf_yes fl, wq_host = sw_host sw,
      wq_description = description, wq_warning = warning, wq_action = on_world (with_handle sw act)\<rparr>"
  obtain code err t1 where d: "DoWrite terminal_streams ?req t = ((code, err), t1)" by (metis prod.exhaust)
  have report: "tm_world (report_error cc e u) = tm_world u" for e u
    using assms(1) by (simp add: report_error_def Let_def split: option.split)
  have "runWrite cc fl description warning act t = (code, case err of None \<Rightarrow> t1 | Some e \<Rightarrow> report_error cc e t1)"
    using assms(1,2) d by (simp add: runWrite_def getSwitch_def runWriteWithSwitch_def split: option.split)
  moreover have "tm_world (case err of None \<Rightarrow> t1 | Some e \<Rightarrow> report_error cc e t1) = tm_world t1"
    using report by (simp split: option.split)
  moreover have "with_handle sw act (tm_world t) = (r, w')" using act by (simp add: with_handle_def)
  ultimately show ?thesis
    using DoWrite_terminal [OF _ d, of "with_handle sw act"] by (cases r) (auto simp: confirmed_def split: if_splits)
qed

text \<open>A fit command context: terminal streams, and a factory that gives a fit handle.\<close>

definition fit_context :: "string \<Rightarrow> switch_model \<Rightarrow> int list \<Rightarrow> nat \<Rightarrow> net world cmd_context \<Rightarrow> net world terminal \<Rightarrow> bool" where
  "fit_context password sm ports n cc t \<longleftrightarrow>
     cc_streams cc = terminal_streams
     \<and> (\<exists>read_file rg. cc_registries cc = virtual_registries read_file rg)
     \<and> (\<exists>sw. cc_factory cc (tm_world t) = (Inr sw, tm_world t) \<and> facade_inv password sm ports n (sw, tm_world t))"

subsection \<open>Properties\<close>

lemma DoWrite_code: "DoWrite streams req s = ((code, err), s') \<Longrightarrow> code \<in> {ExitOK, ExitError, ExitVerify, ExitProtected}"
  by (auto simp: DoWrite_def ExitCodeFor_def split: if_splits prod.splits sum.splits option.splits)

lemma runWrite_code: "fst (runWrite cc fl d wn act t) \<noteq> ExitUsage"
proof -
  have "fst (runWriteWithSwitch cc sw fl d wn act u) \<noteq> ExitUsage" for sw u
    using DoWrite_code by (fastforce simp: runWriteWithSwitch_def split: prod.splits option.splits)
  then show ?thesis
    by (auto simp: runWrite_def libraryError_def ExitCodeFor_def split: prod.splits sum.splits)
qed

definition sample_context :: "net world cmd_context" where
  "sample_context =
     \<lparr>cc_streams = terminal_streams, cc_factory = (\<lambda>w. (Inr sample_handle, w)),
      cc_registries = virtual_registries (\<lambda>f. Inl (Foreign f)) \<lparr>rg_readers = (\<lambda>_. None), rg_writers = (\<lambda>_. None)\<rparr>,
      cc_error_text = (\<lambda>e. ''refused''), cc_verbose_chain = None, cc_is_print = (\<lambda>r. True),
      cc_show_poe = (\<lambda>t. (0, t))\<rparr>"

definition sample_terminal :: "net world terminal" where
  "sample_terminal = \<lparr>tm_out = [], tm_err = [], tm_in = ''Yes'' @ newline, tm_world = ([], (NewNsdpFace sample_v2, None))\<rparr>"

lemma sample_terminal_dev: "world_dev (tm_world sample_terminal) = sample_v2"
  by (simp add: sample_terminal_def world_dev_def NewNsdpFace_def)

lemma sample_says_yes: "accepts (fst (fst (read_line (tm_in sample_terminal))))"
proof -
  have "tm_in sample_terminal = ''Yes'' @ newline" by (simp add: sample_terminal_def)
  moreover have "accepts (fst (fst (read_line (''Yes'' @ newline))))" by code_simp
  ultimately show ?thesis by simp
qed

lemma sample_fit: "n < 2 ^ 32 \<Longrightarrow> fit_context ''password'' model_gs110emx (sortedUniquePorts [10, 10]) n sample_context sample_terminal"
  using facade_inv_New [OF sample_handle_New gs110emx_default sample_v2_model sample_v2_ok sample_facade(3,1,2)]
  by (auto simp: fit_context_def sample_context_def sample_terminal_def)

lemma sample_command:
  "command_op Cmd_PVID [''2'', ''90''] = Some (PVID_Op 2 90)" "command_op Cmd_PVID [''10'', ''90''] = Some (PVID_Op 10 90)"
  by code_simp+

text \<open>
  C21.  A gngsw command does what it says, and only after consent: with a fit handle, arguments
  that stand for a permitted operation and any input on the terminal, a dry run exits with 0 and a
  declined confirmation with 1, the switch unchanged; otherwise the command exits with 0 and the
  switch's state is the abstract operation applied to the state before.
\<close>

theorem gngsw_write_effect:
  assumes "fit_context password sm ports (Suc n) cc t" "command_op cmd args = Some op"
    and "op_permitted sm ports (wf_force fl) op (world_dev (tm_world t))"
    and "readable (world_dev (tm_world t))" "readable (op_effect op (world_dev (tm_world t)))"
  shows "\<exists>code t'. run_command cc message cmd fl args t = (code, t')
    \<and> (if wf_dry_run fl then code = ExitOK \<and> tm_world t' = tm_world t
       else if \<not> (wf_yes fl \<or> accepts (fst (fst (read_line (tm_in t))))) then code = ExitError \<and> tm_world t' = tm_world t
       else code = ExitOK \<and> world_dev (tm_world t') = op_effect op (world_dev (tm_world t)))"
proof -
  obtain read_file rg sw where cc: "cc_streams cc = terminal_streams" "cc_registries cc = virtual_registries read_file rg"
      "cc_factory cc (tm_world t) = (Inr sw, tm_world t)" "facade_inv password sm ports (Suc n) (sw, tm_world t)"
    using assms(1) by (auto simp: fit_context_def)
  obtain sw' w' where op: "do_op (virtual_registries read_file rg) no_deadline (wf_force fl) op (sw, tm_world t) = (Inr (), (sw', w'))"
      "world_dev w' = op_effect op (world_dev (tm_world t))"
    using do_op_refines [OF cc(4) assms(3-5)] by blast
  obtain d wn where "run_command cc message cmd fl args
      = runWrite cc fl d wn (do_op (virtual_registries read_file rg) no_deadline (wf_force fl) op)"
    using command_runs [OF assms(2)] cc(2) by metis
  then show ?thesis
    using runWrite_terminal [where act = "do_op (virtual_registries read_file rg) no_deadline (wf_force fl) op", OF cc(1,3) op(1), of fl d wn] op(2) by (auto split: if_splits)
qed

theorem gngsw_write_effect_witness:
  "\<exists>t'. run_command sample_context [] Cmd_PVID \<lparr>wf_dry_run = False, wf_yes = False, wf_force = False\<rparr> [''2'', ''90''] sample_terminal
      = (ExitOK, t') \<and> map_of (vs_pvids (world_dev (tm_world t'))) 2 = Some 90"
proof -
  have permitted: "op_permitted model_gs110emx (sortedUniquePorts [10, 10]) False (PVID_Op 2 90) sample_v2"
      "readable (op_effect (PVID_Op 2 90) sample_v2)"
    by code_simp+
  have "map_of (vs_pvids (op_effect (PVID_Op 2 90) sample_v2)) 2 = Some 90" by code_simp
  then show ?thesis
    using gngsw_write_effect [OF sample_fit [of "Suc 0"] sample_command(1), unfolded sample_terminal_dev,
        where fl = "\<lparr>wf_dry_run = False, wf_yes = False, wf_force = False\<rparr>"] permitted sample_readable sample_says_yes
    by (fastforce simp del: op_effect.simps op_permitted.simps)
qed



lemma usageError_terminal: "cc_streams cc = terminal_streams \<Longrightarrow> tm_world (snd (usageError cc m t)) = tm_world t"
  by (simp add: usageError_def fail_with_def)

lemma usage_with_int:
  assumes "cc_streams cc = terminal_streams"
    and "\<And>n. Atoi s = Some n \<Longrightarrow> fst (k n t) = ExitUsage \<Longrightarrow> tm_world (snd (k n t)) = tm_world t"
    and "fst (with_int cc s name k t) = ExitUsage"
  shows "tm_world (snd (with_int cc s name k t)) = tm_world t"
  using assms usageError_terminal [OF assms(1)]
  by (auto simp: with_int_def parseIntArg_def split: option.splits)

text \<open>
  C25.  A usage error never reaches a switch: whatever the command, its flags, its arguments and the
  switch, when the exit code is 2 the world, what asking for a handle might change included, is as it was.
\<close>

theorem gngsw_usage:
  assumes "cc_streams cc = terminal_streams" "\<And>t. fst (cc_show_poe cc t) \<noteq> ExitUsage"
    and "run_command cc message cmd fl args t = (ExitUsage, t')"
  shows "tm_world t' = tm_world t"
proof -
  have k: "fst (RunE cc cmd fl args t) = ExitUsage \<Longrightarrow> tm_world (snd (RunE cc cmd fl args t)) = tm_world t"
    using usageError_terminal [OF assms(1)] assms(2)
    by (cases cmd) (auto simp: runWrite_code command_defs newPoeCmd_def newPortCmd_def newSpeedCmd_def newFlowControlCmd_def
        newCyclePoECmd_def newClearPoEFaultCmd_def newSyslogSetCmd_def newSyslogAddCmd_def newSyslogRemoveCmd_def Let_def
        intro!: usage_with_int [OF assms(1)] split: if_splits option.splits)
  then show ?thesis
    using assms(1,3) by (auto simp: run_command_def fail_with_def split: if_splits)
qed


definition sample_usage :: "int \<times> net world terminal" where
  "sample_usage = run_command sample_context [] Cmd_PVID \<lparr>wf_dry_run = False, wf_yes = True, wf_force = True\<rparr>
     [''two'', ''90''] sample_terminal"

theorem gngsw_usage_witness: "fst sample_usage = ExitUsage \<and> tm_world (snd sample_usage) = tm_world sample_terminal"
proof -
  have bad: "Atoi ''two'' = None" by code_simp
  have "fst sample_usage = ExitUsage"
    by (simp add: sample_usage_def run_command_def newPVIDCmd_def with_int_def parseIntArg_def bad usageError_def fail_with_def)
  then have run: "run_command sample_context [] Cmd_PVID \<lparr>wf_dry_run = False, wf_yes = True, wf_force = True\<rparr>
      [''two'', ''90''] sample_terminal = (ExitUsage, snd sample_usage)"
    by (simp add: prod_eq_iff flip: sample_usage_def)
  have "tm_world (snd sample_usage) = tm_world sample_terminal"
    by (rule gngsw_usage [OF _ _ run]) (simp_all add: sample_context_def)
  then show ?thesis using \<open>fst sample_usage = ExitUsage\<close> by simp
qed

end
