(* ===== verification/Snmp_Rows.thy ===== *)
theory Snmp_Rows
  imports Cli_Text Registry "HOL-Library.Product_Lexorder" "HOL-Library.List_Lexorder" "HOL-Library.Char_ord"
begin

section \<open>SNMP rows and object identifiers (snmp/client.go, snmp/oids.go)\<close>

text \<open>
  A row of an SNMP answer is an object identifier, as text, and a value that is an int64, a string
  or a byte string; a varbind to set carries a net-snmp type letter instead of the row's type
  token.  The column helpers of snmp/parse.go, which every parser is built from, are here too.
\<close>

subsection \<open>Rows, clients and varbinds\<close>

datatype snmp_value = VInt int | VStr string | VBytes bytes

record row =
  rw_oid :: string
  rw_value :: snmp_value
  rw_type :: string

definition NewIntRow :: "string \<Rightarrow> int \<Rightarrow> row" where
  "NewIntRow oid v = \<lparr>rw_oid = oid, rw_value = VInt v, rw_type = []\<rparr>"

definition NewStrRow :: "string \<Rightarrow> string \<Rightarrow> row" where
  "NewStrRow oid v = \<lparr>rw_oid = oid, rw_value = VStr v, rw_type = []\<rparr>"

definition NewBytesRow :: "string \<Rightarrow> bytes \<Rightarrow> row" where
  "NewBytesRow oid v = \<lparr>rw_oid = oid, rw_value = VBytes v, rw_type = []\<rparr>"

definition AbsentTypes :: "string list" where
  "AbsentTypes = [''NOSUCHOBJECT'', ''NOSUCHINSTANCE'', ''ENDOFMIBVIEW'']"

definition FullOID :: "string \<Rightarrow> string \<Rightarrow> string" where
  "FullOID oid index =
     (let oid' = dropWhile (\<lambda>c. c = CHR ''.'') oid in if index \<noteq> [] then oid' @ ''.'' @ index else oid')"

record set_varbind =
  sv_oid :: string
  sv_value :: snmp_value
  sv_letter :: char

definition NewSetVarbind :: "string \<Rightarrow> snmp_value \<Rightarrow> string \<Rightarrow> set_varbind res" where
  "NewSetVarbind oid value letter =
     (if letter \<in> {''i'', ''u'', ''s'', ''x'', ''a''}
      then Inr \<lparr>sv_oid = oid, sv_value = value, sv_letter = hd letter\<rparr>
      else Inl (Plain ''unknown SET type letter %q; expected one of [a i s u x]'' [AStr letter]))"

lemma NewSetVarbind_letters [simp]:
  "NewSetVarbind oid v ''x'' = Inr \<lparr>sv_oid = oid, sv_value = v, sv_letter = CHR ''x''\<rparr>"
  "NewSetVarbind oid v ''u'' = Inr \<lparr>sv_oid = oid, sv_value = v, sv_letter = CHR ''u''\<rparr>"
  "NewSetVarbind oid v ''i'' = Inr \<lparr>sv_oid = oid, sv_value = v, sv_letter = CHR ''i''\<rparr>"
  "NewSetVarbind oid v ''s'' = Inr \<lparr>sv_oid = oid, sv_value = v, sv_letter = CHR ''s''\<rparr>"
  "NewSetVarbind oid v ''a'' = Inr \<lparr>sv_oid = oid, sv_value = v, sv_letter = CHR ''a''\<rparr>"
  by (simp_all add: NewSetVarbind_def)

text \<open>The client interfaces: what the transport does with a list of identifiers, a subtree, a PDU.\<close>

record 's snmp_client =
  cl_Get :: "string list \<Rightarrow> ('s, go_error, row list) action"
  cl_Walk :: "string \<Rightarrow> ('s, go_error, row list) action"
  cl_Set :: "set_varbind \<Rightarrow> ('s, go_error, unit) action"
  cl_SetMany :: "set_varbind list \<Rightarrow> ('s, go_error, unit) action"

definition errOID :: "string \<Rightarrow> string \<Rightarrow> msg_arg list \<Rightarrow> go_error" where
  "errOID oid format args = Wraps (format @ '' at %s: %w'') (args @ [AStr oid]) ErrSNMP"

definition errSNMP :: "string \<Rightarrow> msg_arg list \<Rightarrow> go_error" where
  "errSNMP format args = Wraps (format @ '': %w'') args ErrSNMP"

lemma errors_is_SNMP [simp]: "errors_is (errOID oid f a) ErrSNMP" "errors_is (errSNMP f a) ErrSNMP"
  by (simp_all add: errOID_def errSNMP_def)

subsection \<open>Object identifiers\<close>

definition SysDescr :: string where "SysDescr = ''1.3.6.1.2.1.1.1.0''"
definition SysObjectID :: string where "SysObjectID = ''1.3.6.1.2.1.1.2.0''"
definition SysName :: string where "SysName = ''1.3.6.1.2.1.1.5.0''"
definition IfType :: string where "IfType = ''1.3.6.1.2.1.2.2.1.3''"
definition IfAdminStatus :: string where "IfAdminStatus = ''1.3.6.1.2.1.2.2.1.7''"
definition IfOperStatus :: string where "IfOperStatus = ''1.3.6.1.2.1.2.2.1.8''"
definition IfInErrors :: string where "IfInErrors = ''1.3.6.1.2.1.2.2.1.14''"
definition IfOutErrors :: string where "IfOutErrors = ''1.3.6.1.2.1.2.2.1.20''"
definition IfName :: string where "IfName = ''1.3.6.1.2.1.31.1.1.1.1''"
definition IfHCInOctets :: string where "IfHCInOctets = ''1.3.6.1.2.1.31.1.1.1.6''"
definition IfHCInUcast :: string where "IfHCInUcast = ''1.3.6.1.2.1.31.1.1.1.7''"
definition IfHCOutOctets :: string where "IfHCOutOctets = ''1.3.6.1.2.1.31.1.1.1.10''"
definition IfHCOutUcast :: string where "IfHCOutUcast = ''1.3.6.1.2.1.31.1.1.1.11''"
definition IfHighSpeed :: string where "IfHighSpeed = ''1.3.6.1.2.1.31.1.1.1.15''"
definition IfAlias :: string where "IfAlias = ''1.3.6.1.2.1.31.1.1.1.18''"
definition Dot3StatsDuplexStatus :: string where "Dot3StatsDuplexStatus = ''1.3.6.1.2.1.10.7.2.1.19''"
definition Dot3PauseAdminMode :: string where "Dot3PauseAdminMode = ''1.3.6.1.2.1.10.7.10.1.1''"
definition Dot3PauseOperMode :: string where "Dot3PauseOperMode = ''1.3.6.1.2.1.10.7.10.1.2''"
definition Dot1dBaseBridgeAddress :: string where "Dot1dBaseBridgeAddress = ''1.3.6.1.2.1.17.1.1''"
definition Dot1dBasePortIfIndex :: string where "Dot1dBasePortIfIndex = ''1.3.6.1.2.1.17.1.4.1.2''"
definition Dot1qTpFdbPort :: string where "Dot1qTpFdbPort = ''1.3.6.1.2.1.17.7.1.2.2.1.2''"
definition Dot1qVlanStaticName :: string where "Dot1qVlanStaticName = ''1.3.6.1.2.1.17.7.1.4.3.1.1''"
definition Dot1qVlanStaticEgress :: string where "Dot1qVlanStaticEgress = ''1.3.6.1.2.1.17.7.1.4.3.1.2''"
definition Dot1qVlanStaticUntagged :: string where "Dot1qVlanStaticUntagged = ''1.3.6.1.2.1.17.7.1.4.3.1.4''"
definition Dot1qVlanCurrentEgress :: string where "Dot1qVlanCurrentEgress = ''1.3.6.1.2.1.17.7.1.4.2.1.4''"
definition Dot1qVlanCurrentUntagged :: string where "Dot1qVlanCurrentUntagged = ''1.3.6.1.2.1.17.7.1.4.2.1.5''"
definition Dot1qVlanStatus :: string where "Dot1qVlanStatus = ''1.3.6.1.2.1.17.7.1.4.2.1.6''"
definition Dot1qPvid :: string where "Dot1qPvid = ''1.3.6.1.2.1.17.7.1.4.5.1.1''"
definition Dot1qVlanStaticRowStatus :: string where "Dot1qVlanStaticRowStatus = ''1.3.6.1.2.1.17.7.1.4.3.1.5''"
definition EntPhysicalDescr :: string where "EntPhysicalDescr = ''1.3.6.1.2.1.47.1.1.1.1.2''"
definition EntPhysicalClass :: string where "EntPhysicalClass = ''1.3.6.1.2.1.47.1.1.1.1.5''"
definition EntPhysicalName :: string where "EntPhysicalName = ''1.3.6.1.2.1.47.1.1.1.1.7''"
definition LldpRemTable :: string where "LldpRemTable = ''1.0.8802.1.1.2.1.4.1''"
definition PethPsePortTable :: string where "PethPsePortTable = ''1.3.6.1.2.1.105.1.1.1''"
definition IPAdEntAddr :: string where "IPAdEntAddr = ''1.3.6.1.2.1.4.20.1.1''"
definition IPAdEntIfIndex :: string where "IPAdEntIfIndex = ''1.3.6.1.2.1.4.20.1.2''"
definition IPAdEntNetmask :: string where "IPAdEntNetmask = ''1.3.6.1.2.1.4.20.1.3''"
definition IPAddressIfIndex :: string where "IPAddressIfIndex = ''1.3.6.1.2.1.4.34.1.3''"
definition IPRouteDest :: string where "IPRouteDest = ''1.3.6.1.2.1.4.21.1.1''"
definition IPRouteNextHop :: string where "IPRouteNextHop = ''1.3.6.1.2.1.4.21.1.7''"
definition FastpathSwitchportMode :: string where "FastpathSwitchportMode = ''1.3.6.1.4.1.4526.10.1.2.8.37.1.2''"
definition FastpathSwitchportAccessVlan :: string where "FastpathSwitchportAccessVlan = ''1.3.6.1.4.1.4526.10.1.2.8.37.1.3''"
definition FastpathSwitchportNativeVlan :: string where "FastpathSwitchportNativeVlan = ''1.3.6.1.4.1.4526.10.1.2.8.37.1.4''"
definition FastpathSwitchportAllowedVlans :: string where "FastpathSwitchportAllowedVlans = ''1.3.6.1.4.1.4526.10.1.2.8.37.1.6''"
definition FastpathSwitchportUntaggedVlans :: string where "FastpathSwitchportUntaggedVlans = ''1.3.6.1.4.1.4526.10.1.2.8.37.1.7''"
definition FastpathSwitchportTaggedVlans :: string where "FastpathSwitchportTaggedVlans = ''1.3.6.1.4.1.4526.10.1.2.8.37.1.8''"
definition DHCPModeOIDSuffix :: string where "DHCPModeOIDSuffix = ''99.1''"

definition PethPsePortAdmin :: string where "PethPsePortAdmin = PethPsePortTable @ ''.3''"
definition PethPsePortDetect :: string where "PethPsePortDetect = PethPsePortTable @ ''.6''"

abbreviation (input) RowStatusCreateAndGo :: int where "RowStatusCreateAndGo \<equiv> 4"
abbreviation (input) RowStatusDestroy :: int where "RowStatusDestroy \<equiv> 6"
abbreviation (input) EntClassPowerSupply :: int where "EntClassPowerSupply \<equiv> 6"
abbreviation (input) EntClassFan :: int where "EntClassFan \<equiv> 7"
abbreviation (input) EthernetCsmacd :: int where "EthernetCsmacd \<equiv> 6"
abbreviation (input) SwitchportModeAccess :: int where "SwitchportModeAccess \<equiv> 1"
abbreviation (input) SwitchportModeTrunk :: int where "SwitchportModeTrunk \<equiv> 2"
abbreviation (input) SwitchportModeGeneral :: int where "SwitchportModeGeneral \<equiv> 3"
abbreviation (input) SwitchportVlanBitmapBytes :: nat where "SwitchportVlanBitmapBytes \<equiv> 512"

subsection \<open>The vendor subtree\<close>

record vendor_oids =
  vo_base :: string
  vo_poe_power_mw :: string
  vo_box_fan :: string
  vo_box_psu_power :: string
  vo_box_temp :: string
  vo_dhcp_mode :: string
  vo_syslog_admin_mode :: string
  vo_syslog_local_port :: string
  vo_syslog_host_addr :: string
  vo_syslog_host_port :: string
  vo_syslog_host_severity :: string
  vo_syslog_host_status :: string
  vo_mgmt_addr :: string
  vo_mgmt_netmask :: string
  vo_mgmt_gateway :: string

definition vendorOidsFor :: "string \<Rightarrow> vendor_oids" where
  "vendorOidsFor base =
     \<lparr>vo_base = base, vo_poe_power_mw = base @ ''.15.1.1.1.2'', vo_box_fan = base @ ''.43.1.6.1.4'',
      vo_box_psu_power = base @ ''.43.1.8.1.5'', vo_box_temp = base @ ''.43.1.15.1.3'',
      vo_dhcp_mode = base @ ''.'' @ DHCPModeOIDSuffix, vo_syslog_admin_mode = base @ ''.14.1.4.1.0'',
      vo_syslog_local_port = base @ ''.14.1.4.3.0'', vo_syslog_host_addr = base @ ''.14.1.4.5.1.3'',
      vo_syslog_host_port = base @ ''.14.1.4.5.1.4'', vo_syslog_host_severity = base @ ''.14.1.4.5.1.5'',
      vo_syslog_host_status = base @ ''.14.1.4.5.1.7'', vo_mgmt_addr = base @ ''.98.1'',
      vo_mgmt_netmask = base @ ''.98.2'', vo_mgmt_gateway = base @ ''.98.3''\<rparr>"

definition HasVendorOids :: "switch_model \<Rightarrow> bool" where
  "HasVendorOids m \<longleftrightarrow> sm_snmp_vendor_base m \<noteq> []"

definition GetVendorOids :: "switch_model \<Rightarrow> vendor_oids res" where
  "GetVendorOids m =
     (if \<not> HasVendorOids m
      then Inl (Wraps ''model %q has no SNMP vendor OID subtree: %w'' [AStr (sm_key m)] ErrUnsupportedCapability)
      else Inr (vendorOidsFor (sm_snmp_vendor_base m)))"

definition UnimplementedRoots :: "switch_model \<Rightarrow> string list" where
  "UnimplementedRoots m =
     (if sm_poe_port_count m > 0 then []
      else PethPsePortTable # (if HasVendorOids m then [vo_poe_power_mw (vendorOidsFor (sm_snmp_vendor_base m))] else []))"

definition strip_prefix :: "string \<Rightarrow> string \<Rightarrow> string option" where
  "strip_prefix p s = (if take (length p) s = p then Some (drop (length p) s) else None)"

definition IsOIDImplemented :: "switch_model \<Rightarrow> string \<Rightarrow> bool" where
  "IsOIDImplemented m oid =
     (let dotted = dropWhile (\<lambda>c. c = CHR ''.'') oid in
      list_all (\<lambda>root. dotted \<noteq> root \<and> strip_prefix (root @ ''.'') dotted = None) (UnimplementedRoots m))"

lemma strip_prefix_append [simp]: "strip_prefix p (p @ s) = Some s"
  by (simp add: strip_prefix_def)

lemma strip_prefix_Some: "strip_prefix p s = Some r \<longleftrightarrow> s = p @ r"
  by (auto simp: strip_prefix_def) (metis append_take_drop_id)

text \<open>\<^verbatim>\<open>strings.Split\<close> at a character, and \<^verbatim>\<open>strings.Join\<close>.\<close>

fun split_on :: "char \<Rightarrow> string \<Rightarrow> string list" where
  "split_on sep [] = [[]]"
| "split_on sep (c # cs) =
     (if c = sep then [] # split_on sep cs
      else case split_on sep cs of [] \<Rightarrow> [[c]] | p # ps \<Rightarrow> (c # p) # ps)"

abbreviation (input) split_dots :: "string \<Rightarrow> string list" where "split_dots \<equiv> split_on (CHR ''.'')"

definition Join :: "string list \<Rightarrow> string \<Rightarrow> string" where
  "Join parts sep = (case parts of [] \<Rightarrow> [] | p # ps \<Rightarrow> p @ concat (map (\<lambda>q. sep @ q) ps))"

lemma split_on_nonempty [simp]: "split_on sep s \<noteq> []"
  by (induction s) (auto split: list.splits)

lemma split_on_no_sep: "sep \<notin> set s \<Longrightarrow> split_on sep s = [s]"
  by (induction s) auto

lemma split_on_append: "sep \<notin> set s \<Longrightarrow> split_on sep (s @ sep # t) = s # split_on sep t"
  by (induction s) auto

subsection \<open>Columns\<close>

definition suffix :: "row \<Rightarrow> string \<Rightarrow> string option" where
  "suffix row base = strip_prefix (base @ ''.'') (rw_oid row)"

text \<open>The value as the argument of an error message.\<close>

fun value_arg :: "snmp_value \<Rightarrow> msg_arg" where
  "value_arg (VInt i) = AInt i"
| "value_arg (VStr s) = AStr s"
| "value_arg (VBytes b) = ABytes b"

definition decodeUTF8Replace :: "bytes \<Rightarrow> string" where
  "decodeUTF8Replace b = concat (map encode_rune (runes b))"

fun int_column :: "string \<Rightarrow> int gomap \<Rightarrow> row list \<Rightarrow> int gomap res" where
  "int_column base out [] = Inr out"
| "int_column base out (row # rows) =
     (case suffix row base of
        None \<Rightarrow> int_column base out rows
      | Some s \<Rightarrow>
          if CHR ''.'' \<in> set s then int_column base out rows
          else (case Atoi s of
            None \<Rightarrow> Inl (errOID (rw_oid row) ''malformed index %q'' [AStr s])
          | Some idx \<Rightarrow>
              (case rw_value row of
                 VInt v \<Rightarrow> int_column base (AList.update idx v out) rows
               | _ \<Rightarrow> Inl (errOID (rw_oid row) ''non-integer value %s'' [value_arg (rw_value row)]))))"

definition IndexIntColumn :: "row list \<Rightarrow> string \<Rightarrow> int gomap res" where
  "IndexIntColumn rows base = int_column base [] rows"

fun str_column :: "string \<Rightarrow> string gomap \<Rightarrow> row list \<Rightarrow> string gomap res" where
  "str_column base out [] = Inr out"
| "str_column base out (row # rows) =
     (case suffix row base of
        None \<Rightarrow> str_column base out rows
      | Some s \<Rightarrow>
          if CHR ''.'' \<in> set s then str_column base out rows
          else (case Atoi s of
            None \<Rightarrow> Inl (errOID (rw_oid row) ''non-integer index %q'' [AStr s])
          | Some idx \<Rightarrow>
              (case rw_value row of
                 VStr v \<Rightarrow> str_column base (AList.update idx v out) rows
               | VBytes b \<Rightarrow> str_column base (AList.update idx (decodeUTF8Replace b) out) rows
               | VInt i \<Rightarrow> Inl (errOID (rw_oid row) ''non-string value %s'' [AInt i]))))"

definition IndexStrColumn :: "row list \<Rightarrow> string \<Rightarrow> string gomap res" where
  "IndexStrColumn rows base = str_column base [] rows"

text \<open>\<^verbatim>\<open>colKey\<close>, \<^verbatim>\<open>"%s.%d"\<close>: the identifier of an instance of a column.\<close>

definition colKey :: "string \<Rightarrow> int \<Rightarrow> string" where
  "colKey base index = base @ ''.'' @ show_int index"

subsection \<open>Columns that parse\<close>

lemma show_nat_no_dot: "CHR ''.'' \<notin> set (show_nat n)"
  using show_nat_digits [of n] by (auto simp: list_all_iff is_digit_def)

lemma show_int_no_dot: "CHR ''.'' \<notin> set (show_int i)"
  by (auto simp: show_int_def show_nat_no_dot)

text \<open>The error of a column always names SNMP; a column never panics.\<close>

lemma int_column_error: "int_column base out rows = Inl e \<Longrightarrow> errors_is e ErrSNMP"
  by (induction base out rows rule: int_column.induct) (auto split: option.splits if_splits snmp_value.splits)

lemma str_column_error: "str_column base out rows = Inl e \<Longrightarrow> errors_is e ErrSNMP"
  by (induction base out rows rule: str_column.induct) (auto split: option.splits if_splits snmp_value.splits)

lemma column_error:
  "IndexIntColumn rows base = Inl e \<Longrightarrow> errors_is e ErrSNMP" "IndexStrColumn rows base = Inl e' \<Longrightarrow> errors_is e' ErrSNMP"
  by (simp_all add: IndexIntColumn_def int_column_error IndexStrColumn_def str_column_error)

text \<open>A column an agent answers, one row per entry of a map, is read back as that map.\<close>

definition int_rows :: "string \<Rightarrow> int gomap \<Rightarrow> row list" where
  "int_rows base m = map (\<lambda>(k, v). NewIntRow (colKey base k) v) m"

definition str_rows :: "string \<Rightarrow> string gomap \<Rightarrow> row list" where
  "str_rows base m = map (\<lambda>(k, v). NewStrRow (colKey base k) v) m"

lemma suffix_colKey [simp]:
  "suffix (NewIntRow (colKey base k) v) base = Some (show_int k)"
  "suffix (NewStrRow (colKey base k) t) base = Some (show_int k)"
  "suffix (NewBytesRow (colKey base k) b) base = Some (show_int k)"
  using strip_prefix_append [of "base @ ''.''" "show_int k"]
  by (simp_all add: suffix_def NewIntRow_def NewStrRow_def NewBytesRow_def colKey_def)

lemma row_values [simp]:
  "rw_value (NewIntRow oid v) = VInt v" "rw_value (NewStrRow oid t) = VStr t" "rw_value (NewBytesRow oid b) = VBytes b"
  by (simp_all add: NewIntRow_def NewStrRow_def NewBytesRow_def)

lemma int_column_rows:
  "list_all (\<lambda>(k, v). int64_range k) m \<Longrightarrow>
   int_column base out (int_rows base m) = Inr (fold (\<lambda>(k, v). AList.update k v) m out)"
  by (induction m arbitrary: out) (auto simp: int_rows_def show_int_no_dot Atoi_show_int)

lemma str_column_rows:
  "list_all (\<lambda>(k, v). int64_range k) m \<Longrightarrow>
   str_column base out (str_rows base m) = Inr (fold (\<lambda>(k, v). AList.update k v) m out)"
  by (induction m arbitrary: out) (auto simp: str_rows_def show_int_no_dot Atoi_show_int)

lemma fold_update_distinct:
  "distinct (map fst m) \<Longrightarrow> set (map fst m) \<inter> set (map fst out) = {} \<Longrightarrow>
   fold (\<lambda>(k, v). AList.update k v) m out = out @ m"
proof (induction m arbitrary: out)
  case (Cons a m)
  obtain k v where a: "a = (k, v)" by force
  have "AList.update k v out = out @ [(k, v)]"
    using Cons.prems(2) by (induction out) (auto simp: a)
  moreover have "fold (\<lambda>(k, v). AList.update k v) m (out @ [(k, v)]) = (out @ [(k, v)]) @ m"
    by (rule Cons.IH) (use Cons.prems in \<open>auto simp: a\<close>)
  ultimately show ?case by (simp add: a)
qed simp

lemma IndexIntColumn_rows:
  assumes "distinct (map fst m)" "list_all (\<lambda>(k, v). int64_range k) m"
  shows "IndexIntColumn (int_rows base m) base = Inr m"
  using assms by (simp add: IndexIntColumn_def int_column_rows fold_update_distinct)

lemma IndexStrColumn_rows:
  assumes "distinct (map fst m)" "list_all (\<lambda>(k, v). int64_range k) m"
  shows "IndexStrColumn (str_rows base m) base = Inr m"
  using assms by (simp add: IndexStrColumn_def str_column_rows fold_update_distinct)

end
