(* ===== verification/Snmp_Parse.thy ===== *)
theory Snmp_Parse
  imports Snmp_Rows Bitmap
begin

section \<open>SNMP tables to records (snmp/parse.go)\<close>

text \<open>
  The parsers of the port, counter, VLAN, PVID and PoE tables and of the syslog table, each from
  the walks of its columns.  A missing row of a Go map reads as zero.
\<close>

definition map_or0 :: "int gomap \<Rightarrow> int \<Rightarrow> int" where
  "map_or0 m k = (case map_of m k of None \<Rightarrow> 0 | Some v \<Rightarrow> v)"

subsection \<open>Physical ports\<close>

text \<open>None when there is no ifType row: every interface is kept.\<close>

definition physicalPorts :: "row list \<Rightarrow> int list option res" where
  "physicalPorts ifTypes =
     rbind (IndexIntColumn ifTypes IfType) (\<lambda>typeMap.
     Inr (if typeMap = [] then None
          else Some (map fst (filter (\<lambda>(idx, t). t = EthernetCsmacd) typeMap))))"

definition sortedUnion :: "int gomap list \<Rightarrow> int list" where
  "sortedUnion maps = sort_uniq (concat (map (map fst) maps))"

definition filterPhysical :: "int list \<Rightarrow> int list option \<Rightarrow> int list" where
  "filterPhysical ports physical =
     (case physical of None \<Rightarrow> ports | Some ps \<Rightarrow> filter (\<lambda>p. p \<in> set ps) ports)"

subsection \<open>Ports\<close>

definition dot3DuplexStatus :: "int \<Rightarrow> bool option" where
  "dot3DuplexStatus v = (if v = 2 then Some False else if v = 3 then Some True else None)"

definition text_or_nil :: "string gomap \<Rightarrow> int \<Rightarrow> string option" where
  "text_or_nil m p = (case map_of m p of None \<Rightarrow> None | Some n \<Rightarrow> if n \<noteq> [] then Some n else None)"

definition port_status_at ::
    "int gomap \<Rightarrow> int gomap \<Rightarrow> int gomap \<Rightarrow> string gomap \<Rightarrow> string gomap \<Rightarrow> int gomap \<Rightarrow> int gomap \<Rightarrow> int \<Rightarrow> port_status" where
  "port_status_at adminMap operMap speedMap nameMap aliasMap duplexMap pauseMap p =
     (let linkUp = (map_or0 operMap p = 1) in
      \<lparr>ps_port = p,
       ps_name = text_or_nil nameMap p,
       ps_admin_enabled = (map_or0 adminMap p = 1),
       ps_link_up = linkUp,
       ps_speed_mbps = (case map_of speedMap p of None \<Rightarrow> None
                        | Some mbps \<Rightarrow> if mbps > 0 \<and> linkUp then Some mbps else None),
       ps_description = text_or_nil aliasMap p,
       ps_full_duplex = dot3DuplexStatus (map_or0 duplexMap p),
       ps_flow_control = map_option (\<lambda>mode. mode \<noteq> 1) (map_of pauseMap p),
       ps_speed_config = None\<rparr>)"

definition ParsePortStatus ::
    "row list \<Rightarrow> row list \<Rightarrow> row list \<Rightarrow> row list \<Rightarrow> row list \<Rightarrow> row list \<Rightarrow> row list \<Rightarrow> row list \<Rightarrow> port_status list res" where
  "ParsePortStatus admin oper speed names aliases ifTypes duplex pause =
     rbind (IndexIntColumn admin IfAdminStatus) (\<lambda>adminMap.
     rbind (IndexIntColumn oper IfOperStatus) (\<lambda>operMap.
     rbind (IndexIntColumn speed IfHighSpeed) (\<lambda>speedMap.
     rbind (IndexStrColumn names IfName) (\<lambda>nameMap.
     rbind (IndexStrColumn aliases IfAlias) (\<lambda>aliasMap.
     rbind (physicalPorts ifTypes) (\<lambda>physical.
     rbind (IndexIntColumn duplex Dot3StatsDuplexStatus) (\<lambda>duplexMap.
     rbind (IndexIntColumn pause Dot3PauseOperMode) (\<lambda>pauseMap.
     Inr (map (port_status_at adminMap operMap speedMap nameMap aliasMap duplexMap pauseMap)
            (filterPhysical (sortedUnion [adminMap, operMap]) physical))))))))))"

record port_stats_cols =
  co_InOctets :: "row list"
  co_OutOctets :: "row list"
  co_InUcast :: "row list"
  co_OutUcast :: "row list"
  co_InErrors :: "row list"
  co_OutErrors :: "row list"
  co_IfTypes :: "row list"

definition uint64PtrIfPresent :: "int gomap \<Rightarrow> int \<Rightarrow> u64 option" where
  "uint64PtrIfPresent m p = map_option word_of_int (map_of m p)"

definition ParsePortStats :: "port_stats_cols \<Rightarrow> port_stats list res" where
  "ParsePortStats cols =
     rbind (IndexIntColumn (co_InOctets cols) IfHCInOctets) (\<lambda>rxBytes.
     rbind (IndexIntColumn (co_OutOctets cols) IfHCOutOctets) (\<lambda>txBytes.
     rbind (IndexIntColumn (co_InUcast cols) IfHCInUcast) (\<lambda>rxPackets.
     rbind (IndexIntColumn (co_OutUcast cols) IfHCOutUcast) (\<lambda>txPackets.
     rbind (IndexIntColumn (co_InErrors cols) IfInErrors) (\<lambda>rxErrors.
     rbind (IndexIntColumn (co_OutErrors cols) IfOutErrors) (\<lambda>txErrors.
     rbind (physicalPorts (co_IfTypes cols)) (\<lambda>physical.
     Inr (map (\<lambda>p. \<lparr>st_port = p, st_rx_bytes = uint64PtrIfPresent rxBytes p,
              st_tx_bytes = uint64PtrIfPresent txBytes p, st_rx_packets = uint64PtrIfPresent rxPackets p,
              st_tx_packets = uint64PtrIfPresent txPackets p, st_rx_errors = uint64PtrIfPresent rxErrors p,
              st_tx_errors = uint64PtrIfPresent txErrors p\<rparr>)
            (filterPhysical (sortedUnion [rxBytes, txBytes, rxPackets, txPackets, rxErrors, txErrors]) physical)))))))))"

subsection \<open>VLANs\<close>

definition isAllDigits :: "string \<Rightarrow> bool" where
  "isAllDigits s \<longleftrightarrow> s \<noteq> [] \<and> list_all is_digit s"

text \<open>A bitmap arrives as bytes or as a string; any other value is an error.\<close>

fun bitmap_value :: "snmp_value \<Rightarrow> bytes option" where
  "bitmap_value (VBytes b) = Some b"
| "bitmap_value (VStr s) = Some (bytes_of s)"
| "bitmap_value (VInt i) = None"

fun bitmap_column :: "string \<Rightarrow> bytes gomap \<Rightarrow> row list \<Rightarrow> bytes gomap res" where
  "bitmap_column base out [] = Inr out"
| "bitmap_column base out (row # rows) =
     (case suffix row base of
        None \<Rightarrow> bitmap_column base out rows
      | Some s \<Rightarrow>
          if \<not> isAllDigits s then Inl (errOID (rw_oid row) ''malformed VLAN index %q'' [AStr s])
          else (case bitmap_value (rw_value row) of
            None \<Rightarrow> Inl (errOID (rw_oid row) ''malformed VLAN port bitmap type'' [])
          | Some data \<Rightarrow>
              (case Atoi s of
                 None \<Rightarrow> Inl (errOID (rw_oid row) ''malformed VLAN index %q'' [AStr s])
               | Some idx \<Rightarrow> bitmap_column base (AList.update idx data out) rows)))"

definition vlanBitmapMap :: "row list \<Rightarrow> string \<Rightarrow> bytes gomap res" where
  "vlanBitmapMap rows base = bitmap_column base [] rows"

definition intSliceDiff :: "int list \<Rightarrow> int list \<Rightarrow> int list" where
  "intSliceDiff a b = filter (\<lambda>v. v \<notin> set b) a"

fun current_bitmap_column :: "string \<Rightarrow> bytes gomap \<Rightarrow> row list \<Rightarrow> bytes gomap res" where
  "current_bitmap_column base out [] = Inr out"
| "current_bitmap_column base out (row # rows) =
     (case suffix row base of
        None \<Rightarrow> current_bitmap_column base out rows
      | Some s \<Rightarrow>
          (let parts = split_dots s in
           if length parts \<noteq> 2 \<or> \<not> isAllDigits (parts ! 0) \<or> \<not> isAllDigits (parts ! 1)
           then Inl (errOID (rw_oid row) ''malformed dot1qVlanCurrentTable index %q'' [AStr s])
           else (case bitmap_value (rw_value row) of
             None \<Rightarrow> Inl (errOID (rw_oid row) ''malformed VLAN port bitmap type'' [])
           | Some data \<Rightarrow>
               (case Atoi (parts ! 1) of
                  None \<Rightarrow> Inl (errOID (rw_oid row) ''malformed dot1qVlanCurrentTable index %q'' [AStr s])
                | Some idx \<Rightarrow> current_bitmap_column base (AList.update idx data out) rows))))"

definition currentVlanBitmapMap :: "row list \<Rightarrow> string \<Rightarrow> bytes gomap res" where
  "currentVlanBitmapMap rows base = current_bitmap_column base [] rows"

definition bitmap_at :: "bytes gomap \<Rightarrow> int \<Rightarrow> bytes" where
  "bitmap_at m vid = (case map_of m vid of None \<Rightarrow> [] | Some b \<Rightarrow> b)"

definition vlan_info_at ::
    "int list option \<Rightarrow> string gomap \<Rightarrow> bytes gomap \<Rightarrow> bytes gomap \<Rightarrow> bytes gomap \<Rightarrow> bytes gomap \<Rightarrow> int \<Rightarrow> vlan_info" where
  "vlan_info_at physical nameMap egressMap untagMap curEgressMap curUntagMap vid =
     (let portsOf = (\<lambda>bitmap. filterPhysical (DecodePortBitmap bitmap) physical);
          staticRow = (map_of nameMap vid \<noteq> None);
          member = (if staticRow then portsOf (bitmap_at egressMap vid) else portsOf (bitmap_at curEgressMap vid));
          untag = (if staticRow then portsOf (bitmap_at untagMap vid) else portsOf (bitmap_at curUntagMap vid)) in
      \<lparr>vi_vlan_id = vid, vi_name = text_or_nil nameMap vid, vi_members = member,
       vi_tagged = intSliceDiff member untag, vi_untagged = untag\<rparr>)"

definition ParseVlans ::
    "row list \<Rightarrow> row list \<Rightarrow> row list \<Rightarrow> row list \<Rightarrow> row list \<Rightarrow> row list \<Rightarrow> vlan_info list res" where
  "ParseVlans names egress untagged ifTypes currentEgress currentUntagged =
     rbind (physicalPorts ifTypes) (\<lambda>physical.
     rbind (IndexStrColumn names Dot1qVlanStaticName) (\<lambda>nameMap.
     rbind (vlanBitmapMap egress Dot1qVlanStaticEgress) (\<lambda>egressMap.
     rbind (vlanBitmapMap untagged Dot1qVlanStaticUntagged) (\<lambda>untagMap.
     rbind (currentVlanBitmapMap currentEgress Dot1qVlanCurrentEgress) (\<lambda>curEgressMap.
     rbind (currentVlanBitmapMap currentUntagged Dot1qVlanCurrentUntagged) (\<lambda>curUntagMap.
     Inr (map (vlan_info_at physical nameMap egressMap untagMap curEgressMap curUntagMap)
            (sort_uniq (map fst nameMap @ map fst curEgressMap)))))))))"

definition ParsePvids :: "row list \<Rightarrow> row list \<Rightarrow> pvid list res" where
  "ParsePvids rows ifTypes =
     rbind (IndexIntColumn rows Dot1qPvid) (\<lambda>pvidMap.
     rbind (physicalPorts ifTypes) (\<lambda>physical.
     Inr (map (\<lambda>p. \<lparr>pv_port = p, pv_vlan = map_or0 pvidMap p\<rparr>)
            (filterPhysical (sortedUnion [pvidMap]) physical))))"

subsection \<open>PoE\<close>

definition DetectMap :: "int \<Rightarrow> poe_detect option" where
  "DetectMap = map_of [(1, PoEDetectDisabled), (2, PoEDetectSearching), (3, PoEDetectDelivering), (4, PoEDetectFault)]"

text \<open>
  The admin and detect columns by (group, port).  The first \<^verbatim>\<open>Atoi\<close> error is
  \<^verbatim>\<open>strconv\<close>'s own, not one of package snmp.
\<close>

type_synonym poe_cols = "((int \<times> int) \<times> int gomap) list"

fun poe_columns :: "poe_cols \<Rightarrow> row list \<Rightarrow> poe_cols res" where
  "poe_columns cols [] = Inr cols"
| "poe_columns cols (row # rows) =
     (case strip_prefix (PethPsePortTable @ ''.'') (rw_oid row) of
        None \<Rightarrow> poe_columns cols rows
      | Some s \<Rightarrow>
          (let parts = split_dots s in
           if length parts \<noteq> 3 then poe_columns cols rows
           else (case Atoi (parts ! 0) of
             None \<Rightarrow> Inl (Rewraps ''non-integer PoE column %q at %s: %w'' [AStr (parts ! 0), AStr (rw_oid row)]
                        (Foreign ''strconv''))
           | Some column \<Rightarrow>
               if column \<noteq> 3 \<and> column \<noteq> 6 then poe_columns cols rows
               else (case (Atoi (parts ! 1), Atoi (parts ! 2), rw_value row) of
                 (Some grp, Some port, VInt value) \<Rightarrow>
                   poe_columns
                     (AList.update (grp, port)
                        (AList.update column value (case map_of cols (grp, port) of None \<Rightarrow> [] | Some c \<Rightarrow> c)) cols) rows
               | _ \<Rightarrow> Inl (errOID (rw_oid row) ''non-integer PoE value %s'' [value_arg (rw_value row)])))))"

fun parseSensorReading :: "snmp_value \<Rightarrow> int option" where
  "parseSensorReading (VInt v) = Some v"
| "parseSensorReading (VStr s) = Atoi s"
| "parseSensorReading (VBytes b) = None"

text \<open>Vendor power readings by the last component; what is no integer is skipped.\<close>

fun power_column :: "int gomap \<Rightarrow> row list \<Rightarrow> int gomap" where
  "power_column mw [] = mw"
| "power_column mw (row # rows) =
     (case Atoi (last (split_dots (rw_oid row))) of
        None \<Rightarrow> power_column mw rows
      | Some idx \<Rightarrow>
          (case parseSensorReading (rw_value row) of
             None \<Rightarrow> power_column mw rows
           | Some v \<Rightarrow> power_column (AList.update idx v mw) rows))"

fun poe_statuses :: "int gomap \<Rightarrow> ((int \<times> int) \<times> int gomap) list \<Rightarrow> poe_status list res" where
  "poe_statuses mw [] = Inr []"
| "poe_statuses mw (((grp, port), c) # rest) =
     (case map_of c 3 of
        None \<Rightarrow> Inl (errSNMP ''PoE port %d missing admin (col 3)'' [AInt port])
      | Some admin \<Rightarrow>
          (case map_of c 6 of
             None \<Rightarrow> Inl (errSNMP ''PoE port %d missing detect (col 6)'' [AInt port])
           | Some detectVal \<Rightarrow>
               rbind (poe_statuses mw rest) (\<lambda>statuses.
               Inr (\<lparr>poe_port = port, poe_admin_enabled = (admin = 1),
                     poe_detect = (case DetectMap detectVal of None \<Rightarrow> PoEDetectUnknown | Some d \<Rightarrow> d),
                     poe_power_mw = map_of mw port\<rparr> # statuses))))"

definition ParsePoe :: "row list \<Rightarrow> row list \<Rightarrow> poe_status list res" where
  "ParsePoe status powerMw =
     rbind (poe_columns [] status) (\<lambda>cols. poe_statuses (power_column [] powerMw) (sort_key fst cols))"

subsection \<open>Syslog\<close>

fun firstInt :: "row list \<Rightarrow> int option" where
  "firstInt [] = None"
| "firstInt (row # rows) = (case rw_value row of VInt v \<Rightarrow> Some v | _ \<Rightarrow> firstInt rows)"

abbreviation (input) syslogAdminEnabled :: int where "syslogAdminEnabled \<equiv> 1"
abbreviation (input) syslogHostStatusActive :: int where "syslogHostStatusActive \<equiv> 1"

definition syslog_server_at :: "string gomap \<Rightarrow> int gomap \<Rightarrow> int gomap \<Rightarrow> int gomap \<Rightarrow> int \<Rightarrow> syslog_server" where
  "syslog_server_at addresses ports severities statuses idx =
     \<lparr>sy_host = the (map_of addresses idx), sy_port = map_or0 ports idx, sy_severity = map_or0 severities idx,
      sy_active = (map_or0 statuses idx = syslogHostStatusActive), sy_index = Some idx\<rparr>"

definition ParseSyslog ::
    "row list \<Rightarrow> row list \<Rightarrow> row list \<Rightarrow> row list \<Rightarrow> row list \<Rightarrow> row list \<Rightarrow> string \<Rightarrow> string \<Rightarrow> string \<Rightarrow> string \<Rightarrow> syslog_config res" where
  "ParseSyslog adminMode localPort hostAddr hostPort hostSeverity hostStatus addrBase portBase severityBase statusBase =
     rbind (IndexStrColumn hostAddr addrBase) (\<lambda>addresses.
     rbind (IndexIntColumn hostPort portBase) (\<lambda>ports.
     rbind (IndexIntColumn hostSeverity severityBase) (\<lambda>severities.
     rbind (IndexIntColumn hostStatus statusBase) (\<lambda>statuses.
     Inr \<lparr>sc_enabled = (case firstInt adminMode of None \<Rightarrow> False | Some v \<Rightarrow> v = syslogAdminEnabled),
          sc_local_port = (case firstInt localPort of None \<Rightarrow> 0 | Some v \<Rightarrow> v),
          sc_servers = map (syslog_server_at addresses ports severities statuses)
            (filter (\<lambda>idx. TrimSpace (the (map_of addresses idx)) \<noteq> []) (sorted_keys addresses))\<rparr>))))"

end
