(* ===== verification/Snmp_Tables.thy ===== *)
theory Snmp_Tables
  imports Snmp_Parse
begin

section \<open>SNMP neighbours, stations, sensors, addresses and identity (snmp/parse.go)\<close>

text \<open>
  The rest of the parsers of snmp/parse.go.  \<open>is_print\<close> and \<open>up\<close> are
  \<^verbatim>\<open>unicode.IsPrint\<close> and \<^verbatim>\<open>unicode.ToUpper\<close> on the runes beyond ASCII; they are only
  reached by a chassis identifier in raw bytes and by a \<^verbatim>\<open>sysDescr\<close> that is not ASCII.
\<close>

subsection \<open>MAC addresses\<close>

text \<open>\<^verbatim>\<open>%02X\<close>.\<close>

definition show_HEX :: "byte \<Rightarrow> string" where
  "show_HEX b = ToUpper (show_hex b)"

definition formatMacBytesRaw :: "bytes \<Rightarrow> string" where
  "formatMacBytesRaw b = Join (map show_HEX b) '':''"

fun oid_bytes :: "string list \<Rightarrow> bytes res" where
  "oid_bytes [] = Inr []"
| "oid_bytes (p # ps) =
     (case Atoi p of
        None \<Rightarrow> Inl (Rewraps ''non-numeric MAC OID byte %q: %w'' [AStr p] (Foreign ''strconv''))
      | Some v \<Rightarrow> rbind (oid_bytes ps) (\<lambda>bs. Inr (word_of_int v # bs)))"

definition formatMacBytesFromOIDParts :: "string list \<Rightarrow> string res" where
  "formatMacBytesFromOIDParts parts = rbind (oid_bytes parts) (\<lambda>b. Inr (formatMacBytesRaw b))"

definition formatMacOctetString :: "snmp_value \<Rightarrow> string option" where
  "formatMacOctetString v =
     (case bitmap_value v of
        None \<Rightarrow> None
      | Some b \<Rightarrow> if length b \<noteq> 6 then None else Some (formatMacBytesRaw b))"

text \<open>\<^verbatim>\<open>ParseUint(p, 16, 8)\<close> of two characters.\<close>

fun hex_octet :: "string \<Rightarrow> byte option" where
  "hex_octet [c, d] =
     (case (hex_value c, hex_value d) of
        (Some x, Some y) \<Rightarrow> Some (word_of_nat (16 * x + y))
      | _ \<Rightarrow> None)"
| "hex_octet _ = None"

fun macFromASCIIText :: "snmp_value \<Rightarrow> string option" where
  "macFromASCIIText (VStr s) =
     (let parts = split_on (CHR '':'') s in
      if length parts \<noteq> 6 then None
      else map_option formatMacBytesRaw (those (map hex_octet parts)))"
| "macFromASCIIText (VInt v) = None"
| "macFromASCIIText (VBytes v) = None"

fun base_mac_rows :: "row list \<Rightarrow> string option res" where
  "base_mac_rows [] = Inr None"
| "base_mac_rows (row # rows) =
     (case suffix row Dot1dBaseBridgeAddress of
        None \<Rightarrow> base_mac_rows rows
      | Some _ \<Rightarrow>
          (case formatMacOctetString (rw_value row) of
             Some mac \<Rightarrow> Inr (Some mac)
           | None \<Rightarrow>
               (case macFromASCIIText (rw_value row) of
                  Some mac \<Rightarrow> Inr (Some mac)
                | None \<Rightarrow> Inl (errOID (rw_oid row) ''malformed base MAC %s'' [value_arg (rw_value row)]))))"

definition ParseBaseMac :: "row list \<Rightarrow> string option res" where
  "ParseBaseMac rows = base_mac_rows rows"

subsection \<open>LLDP\<close>

definition isPrintableLatin1 :: "string \<Rightarrow> bool" where
  "isPrintableLatin1 s \<longleftrightarrow>
     list_all (\<lambda>b. 0x20 \<le> b \<and> b \<le> 0x7E \<or> 0xA1 \<le> b \<and> b \<noteq> 0xAD) (bytes_of s)"

fun columnText :: "snmp_value \<Rightarrow> string" where
  "columnText (VBytes b) = decodeUTF8Replace b"
| "columnText (VStr s) = s"
| "columnText (VInt i) = show_int i"

fun formatValue :: "(nat \<Rightarrow> bool) \<Rightarrow> snmp_value \<Rightarrow> string" where
  "formatValue is_print (VStr s) = Quote is_print s"
| "formatValue is_print (VBytes b) = Quote is_print (string_of b)"
| "formatValue is_print (VInt i) = show_int i"

definition formatChassisID :: "(nat \<Rightarrow> bool) \<Rightarrow> snmp_value \<Rightarrow> string" where
  "formatChassisID is_print v =
     (case formatMacOctetString v of
        Some mac \<Rightarrow> mac
      | None \<Rightarrow> (case v of VStr s \<Rightarrow> s | _ \<Rightarrow> formatValue is_print v))"

definition formatPortID :: "snmp_value \<Rightarrow> string" where
  "formatPortID v =
     (case v of
        VBytes b \<Rightarrow> if length b = 6 then formatMacBytesRaw b else columnText v
      | VStr s \<Rightarrow> if length s = 6 \<and> \<not> isPrintableLatin1 s then formatMacBytesRaw (bytes_of s) else columnText v
      | VInt i \<Rightarrow> columnText v)"

fun lldpValueEmpty :: "snmp_value \<Rightarrow> bool" where
  "lldpValueEmpty (VStr s) = (s = [])"
| "lldpValueEmpty (VBytes b) = (b = [])"
| "lldpValueEmpty (VInt i) = (i = 0)"

definition colOrEmpty :: "snmp_value gomap \<Rightarrow> int \<Rightarrow> snmp_value" where
  "colOrEmpty cols col = (case map_of cols col of None \<Rightarrow> VStr [] | Some v \<Rightarrow> v)"

text \<open>
  The groups in order of first appearance: \<open>AList.update\<close> appends a new key and keeps the place
  of an old one.
\<close>

type_synonym lldp_key = "string \<times> string \<times> string"

fun lldp_groups :: "(lldp_key \<times> snmp_value gomap) list \<Rightarrow> row list \<Rightarrow> (lldp_key \<times> snmp_value gomap) list res" where
  "lldp_groups grouped [] = Inr grouped"
| "lldp_groups grouped (row # rows) =
     (case strip_prefix (LldpRemTable @ ''.1.'') (rw_oid row) of
        None \<Rightarrow> lldp_groups grouped rows
      | Some s \<Rightarrow>
          (let parts = split_dots s in
           if length parts \<noteq> 4 then Inl (errOID (rw_oid row) ''malformed LLDP index'' [])
           else (case Atoi (parts ! 0) of
             None \<Rightarrow> Inl (errOID (rw_oid row) ''non-integer LLDP column %q'' [AStr (parts ! 0)])
           | Some column \<Rightarrow>
               (let key = (parts ! 1, parts ! 2, parts ! 3);
                    cols = (case map_of grouped key of None \<Rightarrow> [] | Some c \<Rightarrow> c) in
                lldp_groups (AList.update key (AList.update column (rw_value row) cols) grouped) rows))))"

definition some_text :: "string \<Rightarrow> string option" where
  "some_text t = (if t \<noteq> [] then Some t else None)"

definition lldp_neighbor_of :: "(nat \<Rightarrow> bool) \<Rightarrow> int \<Rightarrow> snmp_value gomap \<Rightarrow> lldp_neighbor" where
  "lldp_neighbor_of is_print lp cols =
     \<lparr>ln_local_port = lp,
      ln_sys_name = some_text (columnText (colOrEmpty cols 9)),
      ln_port_desc = some_text (columnText (colOrEmpty cols 8)),
      ln_chassis_id = some_text (formatChassisID is_print (colOrEmpty cols 5)),
      ln_port_id = some_text (formatPortID (colOrEmpty cols 7))\<rparr>"

fun lldp_neighbors :: "(nat \<Rightarrow> bool) \<Rightarrow> (lldp_key \<times> snmp_value gomap) list \<Rightarrow> lldp_neighbor list res" where
  "lldp_neighbors is_print [] = Inr []"
| "lldp_neighbors is_print (((timeMark, localPort, remIndex), cols) # rest) =
     (if lldpValueEmpty (colOrEmpty cols 5) \<and> lldpValueEmpty (colOrEmpty cols 7) \<and>
         lldpValueEmpty (colOrEmpty cols 8) \<and> lldpValueEmpty (colOrEmpty cols 9)
      then lldp_neighbors is_print rest
      else (case Atoi localPort of
        None \<Rightarrow> Inl (errOID (LldpRemTable @ ''.1.'' @ ''...'' @ localPort) ''non-integer LLDP local port %q'' [AStr localPort])
      | Some lp \<Rightarrow>
          rbind (lldp_neighbors is_print rest) (\<lambda>ns. Inr (lldp_neighbor_of is_print lp cols # ns))))"

text \<open>\<open>sort_key\<close> is stable, as \<^verbatim>\<open>sort.SliceStable\<close>.\<close>

definition ParseLldp :: "(nat \<Rightarrow> bool) \<Rightarrow> row list \<Rightarrow> lldp_neighbor list res" where
  "ParseLldp is_print rows =
     rbind (lldp_groups [] rows) (\<lambda>grouped.
     rbind (lldp_neighbors is_print grouped) (\<lambda>result. Inr (sort_key ln_local_port result)))"

subsection \<open>The forwarding database\<close>

fun mac_rows :: "int gomap \<Rightarrow> row list \<Rightarrow> mac_entry list res" where
  "mac_rows bridgeToIf [] = Inr []"
| "mac_rows bridgeToIf (row # rows) =
     (case suffix row Dot1qTpFdbPort of
        None \<Rightarrow> mac_rows bridgeToIf rows
      | Some s \<Rightarrow>
          (let parts = split_dots s in
           if length parts \<noteq> 7 then Inl (errOID (rw_oid row) ''malformed FDB index'' [])
           else (case Atoi (parts ! 0) of
             None \<Rightarrow> Inl (errOID (rw_oid row) ''non-integer VLAN index %q'' [AStr (parts ! 0)])
           | Some vlanID \<Rightarrow>
               (case rw_value row of
                  VInt bridgePort \<Rightarrow>
                    rbind (formatMacBytesFromOIDParts (tl parts)) (\<lambda>mac.
                    rbind (mac_rows bridgeToIf rows) (\<lambda>entries.
                    Inr (\<lparr>me_mac = mac,
                          me_port = (case map_of bridgeToIf bridgePort of None \<Rightarrow> bridgePort | Some p \<Rightarrow> p),
                          me_vlan_id = Some vlanID\<rparr> # entries)))
                | _ \<Rightarrow> Inl (errOID (rw_oid row) ''non-integer bridge port %s'' [value_arg (rw_value row)])))))"

text \<open>
  Sorted by port and MAC.  \<^verbatim>\<open>sort.Slice\<close> leaves the order of two entries of one port and one
  MAC (in two VLANs) open; here they keep the order of their rows.
\<close>

definition ParseMacs :: "row list \<Rightarrow> row list \<Rightarrow> mac_entry list res" where
  "ParseMacs fdb bridgePorts =
     rbind (IndexIntColumn bridgePorts Dot1dBasePortIfIndex) (\<lambda>bridgeToIf.
     rbind (mac_rows bridgeToIf fdb) (\<lambda>result.
     Inr (sort_key (\<lambda>e. (me_port e, me_mac e)) result)))"

subsection \<open>Sensors\<close>

record sensor_column =
  cn_kind :: string
  cn_unit :: string
  cn_rows :: "row list"

fun box_rows :: "string \<Rightarrow> string \<Rightarrow> row list \<Rightarrow> sensor list res" where
  "box_rows kind unit [] = Inr []"
| "box_rows kind unit (row # rows) =
     (if rw_value row = VStr ''Not Supported'' then box_rows kind unit rows
      else (case parseSensorReading (rw_value row) of
        None \<Rightarrow> Inl (errOID (rw_oid row) ''non-integer %s reading %s'' [AStr kind, value_arg (rw_value row)])
      | Some v \<Rightarrow>
          rbind (box_rows kind unit rows) (\<lambda>sensors.
          Inr (\<lparr>se_name = kind @ last (split_dots (rw_oid row)), se_kind = kind, se_value = Float64 v, se_unit = unit\<rparr>
               # sensors))))"

fun ParseBoxSensors :: "sensor_column list \<Rightarrow> sensor list res" where
  "ParseBoxSensors [] = Inr []"
| "ParseBoxSensors (col # cols) =
     rbind (box_rows (cn_kind col) (cn_unit col) (cn_rows col)) (\<lambda>sensors.
     rbind (ParseBoxSensors cols) (\<lambda>rest. Inr (sensors @ rest)))"

definition entitySensorKindOf :: "int \<Rightarrow> string option" where
  "entitySensorKindOf = map_of [(EntClassPowerSupply, ''power''), (EntClassFan, ''fan'')]"

text \<open>\<^verbatim>\<open>strings.ReplaceAll\<close> of a text that is not empty.\<close>

function ReplaceAll :: "string \<Rightarrow> string \<Rightarrow> string \<Rightarrow> string" where
  "ReplaceAll old new s =
     (if s = [] \<or> old = [] then s
      else case strip_prefix old s of
        Some rest \<Rightarrow> new @ ReplaceAll old new rest
      | None \<Rightarrow> hd s # ReplaceAll old new (tl s))"
  by pat_completeness auto
termination
  by (relation "measure (\<lambda>(old, new, s). length s)") (auto simp: strip_prefix_Some)

declare ReplaceAll.simps [simp del]

definition canonSensorName :: "string \<Rightarrow> string" where
  "canonSensorName name = ReplaceAll ''PowerSupply'' ''PS'' (ReplaceAll ''Power Supply'' ''PS'' name)"

definition str_or_empty :: "string gomap \<Rightarrow> int \<Rightarrow> string" where
  "str_or_empty m k = (case map_of m k of None \<Rightarrow> [] | Some s \<Rightarrow> s)"

fun entity_sensors :: "string gomap \<Rightarrow> string gomap \<Rightarrow> int gomap \<Rightarrow> int list \<Rightarrow> sensor list" where
  "entity_sensors names descrs classes [] = []"
| "entity_sensors names descrs classes (idx # idxs) =
     (case entitySensorKindOf (map_or0 classes idx) of
        None \<Rightarrow> entity_sensors names descrs classes idxs
      | Some kind \<Rightarrow>
          (let name = str_or_empty names idx;
               name' = (if name = [] then str_or_empty descrs idx else name);
               name'' = (if name' = [] then kind @ show_int idx else name') in
           \<lparr>se_name = canonSensorName name'', se_kind = kind, se_value = NaN, se_unit = ''inventory''\<rparr>
           # entity_sensors names descrs classes idxs))"

definition ParseEntitySensors :: "row list \<Rightarrow> row list \<Rightarrow> row list \<Rightarrow> sensor list res" where
  "ParseEntitySensors classRows nameRows descrRows =
     rbind (IndexStrColumn nameRows EntPhysicalName) (\<lambda>names.
     rbind (IndexStrColumn descrRows EntPhysicalDescr) (\<lambda>descrs.
     rbind (IndexIntColumn classRows EntPhysicalClass) (\<lambda>classes.
     Inr (entity_sensors names descrs classes (sorted_keys classes)))))"

subsection \<open>The management address\<close>

fun ipStr :: "row \<Rightarrow> string res" where
  "ipStr row =
     (case rw_value row of
        VStr s \<Rightarrow> Inr s
      | _ \<Rightarrow> Inl (errOID (rw_oid row) ''non-IP value %s'' [value_arg (rw_value row)]))"

fun ipv4FromRFC4293Index :: "row list \<Rightarrow> string option" where
  "ipv4FromRFC4293Index [] = None"
| "ipv4FromRFC4293Index (row # rows) =
     (case suffix row IPAddressIfIndex of
        None \<Rightarrow> ipv4FromRFC4293Index rows
      | Some s \<Rightarrow>
          (let parts = split_dots s; ip = Join (take 4 (drop 2 parts)) ''.'' in
           if length parts < 6 \<or> parts ! 0 \<noteq> ''1'' \<or> parts ! 1 \<noteq> ''4'' then ipv4FromRFC4293Index rows
           else if ip = ''127.0.0.1'' then ipv4FromRFC4293Index rows
           else Some ip))"

fun toIntBestEffort :: "snmp_value \<Rightarrow> int option" where
  "toIntBestEffort (VInt v) = Some v"
| "toIntBestEffort (VStr s) = Atoi (TrimSpace s)"
| "toIntBestEffort (VBytes b) = None"

text \<open>The first address that is not the loopback one, with the suffix of its row.\<close>

fun first_address :: "row list \<Rightarrow> (string \<times> string) option res" where
  "first_address [] = Inr None"
| "first_address (row # rows) =
     (case suffix row IPAdEntAddr of
        None \<Rightarrow> first_address rows
      | Some ipIndex \<Rightarrow>
          if rw_value row = VStr ''127.0.0.1'' then first_address rows
          else rbind (ipStr row) (\<lambda>s. Inr (Some (s, ipIndex))))"

fun netmask_at :: "string \<Rightarrow> row list \<Rightarrow> string option res" where
  "netmask_at want [] = Inr None"
| "netmask_at want (r # rows) =
     (if rw_oid r = want then rbind (ipStr r) (\<lambda>s. Inr (Some s)) else netmask_at want rows)"

fun dest_rows :: "(string \<times> snmp_value) list \<Rightarrow> row list \<Rightarrow> (string \<times> snmp_value) list" where
  "dest_rows dests [] = dests"
| "dest_rows dests (r # rows) =
     (case suffix r IPRouteDest of
        None \<Rightarrow> dest_rows dests rows
      | Some s \<Rightarrow> dest_rows (AList.update s (rw_value r) dests) rows)"

fun default_gateway :: "(string \<times> snmp_value) list \<Rightarrow> row list \<Rightarrow> string option res" where
  "default_gateway dests [] = Inr None"
| "default_gateway dests (row # rows) =
     (case suffix row IPRouteNextHop of
        None \<Rightarrow> default_gateway dests rows
      | Some idx \<Rightarrow>
          if map_of dests idx = Some (VStr ''0.0.0.0'') then rbind (ipStr row) (\<lambda>s. Inr (Some s))
          else default_gateway dests rows)"

definition dhcp_ip_mode :: "row list \<Rightarrow> ip_mode" where
  "dhcp_ip_mode dhcpMode =
     (case dhcpMode of
        [] \<Rightarrow> IPModeUnknown
      | row # _ \<Rightarrow>
          (case toIntBestEffort (rw_value row) of
             None \<Rightarrow> IPModeUnknown
           | Some v \<Rightarrow> if v = 1 then IPModeDHCP else if v = 2 then IPModeStatic else IPModeUnknown))"

definition ParseMgmtIP ::
    "row list \<Rightarrow> row list \<Rightarrow> row list \<Rightarrow> row list \<Rightarrow> row list \<Rightarrow> row list \<Rightarrow> row list \<Rightarrow> mgmt_ip_config res" where
  "ParseMgmtIP addr netmask routeDest routeNexthop dhcpMode baseMac addrRFC4293 =
     rbind (first_address addr) (\<lambda>found.
     let ip = (case found of None \<Rightarrow> ipv4FromRFC4293Index addrRFC4293 | Some (s, _) \<Rightarrow> Some s) in
     rbind (case found of None \<Rightarrow> Inr None
            | Some (_, ipIndex) \<Rightarrow> netmask_at (IPAdEntNetmask @ ''.'' @ ipIndex) netmask) (\<lambda>mask.
     rbind (default_gateway (dest_rows [] routeDest) routeNexthop) (\<lambda>gateway.
     rbind (ParseBaseMac baseMac) (\<lambda>mac.
     Inr \<lparr>mg_mode = dhcp_ip_mode dhcpMode, mg_address = ip, mg_netmask = mask, mg_gateway = gateway,
          mg_base_mac = mac\<rparr>))))"

subsection \<open>System information and the detection of the model\<close>

fun scalarText :: "row list \<Rightarrow> string \<Rightarrow> string option res" where
  "scalarText [] oid = Inr None"
| "scalarText (row # rows) oid =
     (if rw_oid row \<noteq> oid then scalarText rows oid
      else (case rw_value row of
        VBytes b \<Rightarrow> Inr (Some (decodeUTF8Replace b))
      | VStr s \<Rightarrow> Inr (Some s)
      | VInt i \<Rightarrow> Inl (errOID (rw_oid row) ''non-string value %s'' [AInt i])))"

definition ParseSystemInfo :: "row list \<Rightarrow> (string option \<times> string option) res" where
  "ParseSystemInfo rows =
     rbind (scalarText rows SysDescr) (\<lambda>sysDescr.
     rbind (scalarText rows SysObjectID) (\<lambda>sysObjectID. Inr (sysDescr, sysObjectID)))"

definition ParseHostname :: "row list \<Rightarrow> string res" where
  "ParseHostname rows =
     rbind (scalarText rows SysName) (\<lambda>value.
     case value of
       None \<Rightarrow> Inl (errOID SysName ''switch did not answer sysName; it is a mandatory MIB-II scalar, so this is an agent or transport failure rather than an absent hostname'' [])
     | Some s \<Rightarrow> Inr s)"

definition modelMatchTokens :: "switch_model \<Rightarrow> string list" where
  "modelMatchTokens m =
     (let name = sm_display_name m in
      filter (\<lambda>t. t \<noteq> [])
        (ToUpper (sm_key m) #
         (if CHR ''('' \<in> set name \<and> last name = CHR '')''
          then [TrimSpace (takeWhile (\<lambda>c. c \<noteq> CHR ''('') name),
                TrimSpace (butlast (tl (dropWhile (\<lambda>c. c \<noteq> CHR ''('') name)))]
          else [TrimSpace name])))"

definition wordStripChars :: "char \<Rightarrow> bool" where
  "wordStripChars c \<longleftrightarrow>
     (let n = of_char c :: nat in
      0x21 \<le> n \<and> n \<le> 0x7E \<and> n \<noteq> 0x2D \<and> \<not> (0x30 \<le> n \<and> n \<le> 0x39) \<and> \<not> (0x41 \<le> n \<and> n \<le> 0x5A) \<and> \<not> (0x61 \<le> n \<and> n \<le> 0x7A))"

text \<open>
  \<^verbatim>\<open>strings.Fields\<close>.  A byte of a word is passed one at a time: no white-space rune starts
  with a byte that is not the first of a rune.
\<close>

function fields_from :: "bytes \<Rightarrow> bytes \<Rightarrow> bytes list" where
  "fields_from word s =
     (if s = [] then (if word = [] then [] else [word])
      else let k = leading_rune space_runes s in
        if k = 0 then fields_from (word @ [hd s]) (tl s)
        else (if word = [] then [] else [word]) @ fields_from [] (drop k s))"
  by pat_completeness auto
termination
  by (relation "measure (length \<circ> snd)") auto

declare fields_from.simps [simp del]

definition Fields :: "string \<Rightarrow> string list" where
  "Fields s = map string_of (fields_from [] (bytes_of s))"

text \<open>\<^verbatim>\<open>strings.ToUpper\<close> of any text: rune by rune, ill-formed bytes replaced.\<close>

definition ToUpperRunes :: "(nat \<Rightarrow> nat) \<Rightarrow> string \<Rightarrow> string" where
  "ToUpperRunes up s =
     concat (map (\<lambda>r. encode_rune (if r < 0x80 then (if 97 \<le> r \<and> r \<le> 122 then r - 32 else r) else up r))
       (runes (bytes_of s)))"

definition Trim :: "string \<Rightarrow> (char \<Rightarrow> bool) \<Rightarrow> string" where
  "Trim s cutset = rev (dropWhile cutset (rev (dropWhile cutset s)))"

definition candidateTokens :: "(nat \<Rightarrow> nat) \<Rightarrow> string \<Rightarrow> string list" where
  "candidateTokens up sysDescr = map (\<lambda>word. ToUpperRunes up (Trim word wordStripChars)) (Fields sysDescr)"

definition SysObjectIDModels :: "(string \<times> string) list" where
  "SysObjectIDModels = [(''1.3.6.1.4.1.4526.100.10.19'', ''gsm7228ps'')]"

definition DetectModelFromSysObjectID :: "string option \<Rightarrow> switch_model list \<Rightarrow> string option" where
  "DetectModelFromSysObjectID sysObjectID models =
     (case sysObjectID of
        None \<Rightarrow> None
      | Some oid \<Rightarrow>
          if oid = [] then None
          else (case map_of SysObjectIDModels oid of
            None \<Rightarrow> None
          | Some key \<Rightarrow> if key \<in> set (map sm_key models) then Some key else None))"

definition DetectModelFromSysDescr :: "(nat \<Rightarrow> nat) \<Rightarrow> string option \<Rightarrow> switch_model list \<Rightarrow> string option" where
  "DetectModelFromSysDescr up sysDescr models =
     (case sysDescr of
        None \<Rightarrow> None
      | Some text \<Rightarrow>
          if text = [] then None
          else (case remdups (map sm_key
                  (filter (\<lambda>m. list_ex (\<lambda>token. ToUpperRunes up token \<in> set (candidateTokens up text)) (modelMatchTokens m)) models)) of
            [k] \<Rightarrow> Some k
          | _ \<Rightarrow> None))"

end
