(* ===== verification/Snmp_Reader.thy ===== *)
theory Snmp_Reader
  imports Snmp_Tables
begin

section \<open>The model-driven SNMP reader (snmp/reader.go)\<close>

text \<open>
  The reader over any \<^verbatim>\<open>Client\<close>: each operation walks its columns in the order the code
  walks them and gives them to its parser.  The operations the backend does not serve are
  refused by name.
\<close>

record 's snmp_reader =
  re_client :: "'s snmp_client"
  re_model :: switch_model

definition ReadSystemInfo :: "(nat \<Rightarrow> nat) \<Rightarrow> 's snmp_client \<Rightarrow> ('s, go_error, detected_model) action" where
  "ReadSystemInfo up c =
     sbind (cl_Get c [SysDescr, SysObjectID]) (\<lambda>rows.
     sbind (sret (ParseSystemInfo rows)) (\<lambda>(sysDescr, sysObjectID).
     let key = DetectModelFromSysObjectID sysObjectID Models;
         key' = (if key = None then DetectModelFromSysDescr up sysDescr Models else key) in
     sret (Inr \<lparr>dm_key = key', dm_sys_descr = sysDescr, dm_sys_object_id = sysObjectID\<rparr>)))"

definition NewReader :: "'s snmp_client \<Rightarrow> switch_model \<Rightarrow> 's snmp_reader res" where
  "NewReader c m =
     (if \<not> HasBackend m BackendSNMP
      then Inl (Wraps ''model %q has no SNMP backend: %w'' [AStr (sm_key m)] ErrUnsupportedCapability)
      else Inr \<lparr>re_client = c, re_model = m\<rparr>)"

fun walkAll :: "'s snmp_client \<Rightarrow> string list \<Rightarrow> ('s, go_error, row list list) action" where
  "walkAll c [] = sret (Inr [])"
| "walkAll c (oid # oids) =
     sbind (cl_Walk c oid) (\<lambda>rows. sbind (walkAll c oids) (\<lambda>cols. sret (Inr (rows # cols))))"

definition GetPorts :: "'s snmp_reader \<Rightarrow> ('s, go_error, port_status list) action" where
  "GetPorts r =
     sbind (walkAll (re_client r)
       [IfAdminStatus, IfOperStatus, IfHighSpeed, IfName, IfAlias, IfType, Dot3StatsDuplexStatus, Dot3PauseOperMode]) (\<lambda>cols.
     sret (ParsePortStatus (cols ! 0) (cols ! 1) (cols ! 2) (cols ! 3) (cols ! 4) (cols ! 5) (cols ! 6) (cols ! 7)))"

definition GetStats :: "'s snmp_reader \<Rightarrow> ('s, go_error, port_stats list) action" where
  "GetStats r =
     sbind (walkAll (re_client r)
       [IfHCInOctets, IfHCOutOctets, IfHCInUcast, IfHCOutUcast, IfInErrors, IfOutErrors, IfType]) (\<lambda>cols.
     sret (ParsePortStats
       \<lparr>co_InOctets = cols ! 0, co_OutOctets = cols ! 1, co_InUcast = cols ! 2, co_OutUcast = cols ! 3,
        co_InErrors = cols ! 4, co_OutErrors = cols ! 5, co_IfTypes = cols ! 6\<rparr>))"

definition GetVLANs :: "'s snmp_reader \<Rightarrow> ('s, go_error, vlan_info list) action" where
  "GetVLANs r =
     sbind (walkAll (re_client r)
       [Dot1qVlanStaticName, Dot1qVlanStaticEgress, Dot1qVlanStaticUntagged, IfType,
        Dot1qVlanCurrentEgress, Dot1qVlanCurrentUntagged]) (\<lambda>cols.
     sret (ParseVlans (cols ! 0) (cols ! 1) (cols ! 2) (cols ! 3) (cols ! 4) (cols ! 5)))"

definition GetPVIDs :: "'s snmp_reader \<Rightarrow> ('s, go_error, pvid list) action" where
  "GetPVIDs r = sbind (walkAll (re_client r) [Dot1qPvid, IfType]) (\<lambda>cols. sret (ParsePvids (cols ! 0) (cols ! 1)))"

definition GetLLDP :: "(nat \<Rightarrow> bool) \<Rightarrow> 's snmp_reader \<Rightarrow> ('s, go_error, lldp_neighbor list) action" where
  "GetLLDP is_print r = sbind (cl_Walk (re_client r) LldpRemTable) (\<lambda>rows. sret (ParseLldp is_print rows))"

definition GetMACs :: "'s snmp_reader \<Rightarrow> ('s, go_error, mac_entry list) action" where
  "GetMACs r =
     sbind (walkAll (re_client r) [Dot1qTpFdbPort, Dot1dBasePortIfIndex]) (\<lambda>cols. sret (ParseMacs (cols ! 0) (cols ! 1)))"

definition GetPoE :: "'s snmp_reader \<Rightarrow> ('s, go_error, poe_status list) action" where
  "GetPoE r =
     (if sm_poe_port_count (re_model r) = 0
      then sret (Inl (Wraps ''model %q has no PoE (no PSE ports): %w'' [AStr (sm_key (re_model r))] ErrUnsupportedCapability))
      else
      sbind (cl_Walk (re_client r) PethPsePortAdmin) (\<lambda>admin.
      sbind (cl_Walk (re_client r) PethPsePortDetect) (\<lambda>detect.
      sbind (if HasVendorOids (re_model r)
             then sbind (sret (GetVendorOids (re_model r))) (\<lambda>vendor. cl_Walk (re_client r) (vo_poe_power_mw vendor))
             else sret (Inr [])) (\<lambda>power.
      sret (ParsePoe (admin @ detect) power)))))"

definition GetSensors :: "'s snmp_reader \<Rightarrow> ('s, go_error, sensor list) action" where
  "GetSensors r =
     (if \<not> HasVendorOids (re_model r)
      then sbind (walkAll (re_client r) [EntPhysicalClass, EntPhysicalName, EntPhysicalDescr]) (\<lambda>cols.
           sret (ParseEntitySensors (cols ! 0) (cols ! 1) (cols ! 2)))
      else
      sbind (sret (GetVendorOids (re_model r))) (\<lambda>vendor.
      sbind (walkAll (re_client r) [vo_box_fan vendor, vo_box_psu_power vendor, vo_box_temp vendor]) (\<lambda>cols.
      let columns =
            [\<lparr>cn_kind = ''fan'', cn_unit = ''RPM'', cn_rows = cols ! 0\<rparr>,
             \<lparr>cn_kind = ''power'', cn_unit = ''W'', cn_rows = cols ! 1\<rparr>,
             \<lparr>cn_kind = ''temperature'', cn_unit = ''C'', cn_rows = cols ! 2\<rparr>] in
      if list_all (\<lambda>c. cn_rows c = []) columns
      then sret (Inl (Wraps
             ''model %q declares vendor sensor OIDs (%s) but the vendor fan/PSU/temperature walk returned nothing: %w''
             [AStr (sm_key (re_model r)), AStr (sm_snmp_vendor_base (re_model r))] ErrUnsupportedCapability))
      else sret (ParseBoxSensors columns))))"

definition GetMgmtIP :: "'s snmp_reader \<Rightarrow> ('s, go_error, mgmt_ip_config) action" where
  "GetMgmtIP r =
     (let walk = cl_Walk (re_client r) in
      sbind (walk IPAdEntAddr) (\<lambda>addr.
      sbind (walk IPAdEntNetmask) (\<lambda>netmask.
      sbind (walk IPRouteDest) (\<lambda>routeDest.
      sbind (walk IPRouteNextHop) (\<lambda>routeNexthop.
      sbind (if HasVendorOids (re_model r)
             then sbind (sret (GetVendorOids (re_model r))) (\<lambda>vendor. walk (vo_dhcp_mode vendor))
             else sret (Inr [])) (\<lambda>dhcp.
      sbind (walk Dot1dBaseBridgeAddress) (\<lambda>baseMac.
      sbind (walk IPAddressIfIndex) (\<lambda>addrRFC4293.
      sret (ParseMgmtIP addr netmask routeDest routeNexthop dhcp baseMac addrRFC4293)))))))))"

definition GetHostname :: "'s snmp_reader \<Rightarrow> ('s, go_error, string) action" where
  "GetHostname r = sbind (cl_Get (re_client r) [SysName]) (\<lambda>rows. sret (ParseHostname rows))"

definition GetSyslog :: "'s snmp_reader \<Rightarrow> ('s, go_error, syslog_config) action" where
  "GetSyslog r =
     (if \<not> HasVendorOids (re_model r)
      then sret (Inl (Wraps ''model %q registers no Netgear vendor OID subtree, and the logging columns are vendor-only; an empty result here would be indistinguishable from a switch with no syslog collectors configured: %w''
             [AStr (sm_key (re_model r))] ErrUnsupportedCapability))
      else
      sbind (sret (GetVendorOids (re_model r))) (\<lambda>vendor.
      sbind (cl_Get (re_client r) [vo_syslog_admin_mode vendor]) (\<lambda>adminMode.
      sbind (cl_Get (re_client r) [vo_syslog_local_port vendor]) (\<lambda>localPort.
      sbind (walkAll (re_client r) [vo_syslog_host_addr vendor, vo_syslog_host_port vendor,
               vo_syslog_host_severity vendor, vo_syslog_host_status vendor]) (\<lambda>cols.
      sret (ParseSyslog adminMode localPort (cols ! 0) (cols ! 1) (cols ! 2) (cols ! 3)
              (vo_syslog_host_addr vendor) (vo_syslog_host_port vendor)
              (vo_syslog_host_severity vendor) (vo_syslog_host_status vendor)))))))"

definition GetUsers :: "'s snmp_reader \<Rightarrow> ('s, go_error, switch_user list) action" where
  "GetUsers r = sret (Inl (Wraps
     ''model %q: this backend does not expose local user accounts (no such tag/page/table on this backend): %w''
     [AStr (sm_key (re_model r))] ErrUnsupportedCapability))"

definition GetServices :: "'s snmp_reader \<Rightarrow> ('s, go_error, service_status list) action" where
  "GetServices r = sret (Inl (Wraps
     ''model %q: this backend does not expose management-service state (http/https/telnet/ssh): %w''
     [AStr (sm_key (re_model r))] ErrUnsupportedCapability))"

definition GetSystemInfo :: "(nat \<Rightarrow> nat) \<Rightarrow> 's snmp_reader \<Rightarrow> ('s, go_error, detected_model) action" where
  "GetSystemInfo up r = ReadSystemInfo up (re_client r)"

end
