(* ===== verification/Snmp_Switchport.thy ===== *)
theory Snmp_Switchport
  imports Snmp_Reader
begin

unbundle bit_operations_syntax

section \<open>The plan of a FASTPATH switchport write (snmp/writer_switchport.go)\<close>

text \<open>
  On the FASTPATH 12 models the VLAN membership of a port follows from its switchport mode.  The
  writer plans the columns to set from the membership it wants, and checks the full membership of
  the port afterwards.  The sets of VLAN ids, \<^verbatim>\<open>intSet\<close> in the code, are HOL sets of
  integers; \<^verbatim>\<open>sorted\<close> is \<open>sorted_list_of_set\<close>.
\<close>

subsection \<open>Bitmaps of VLAN ids\<close>

abbreviation (input) defaultVlan :: int where "defaultVlan \<equiv> 1"

text \<open>
  The bit of a VLAN in a buffer that does not grow: an index out of the buffer panics.
\<close>

definition vlan_bit :: "(byte \<Rightarrow> byte \<Rightarrow> byte) \<Rightarrow> bytes \<Rightarrow> int \<Rightarrow> bytes res" where
  "vlan_bit f data vlan =
     (let i = go_div (vlan - 1) 8 in
      if i < 0 \<or> i \<ge> int (length data) then Inl Go_Panic
      else Inr (data[nat i := f (data ! nat i) (msb_mask (go_mod (vlan - 1) 8))]))"

fun vlan_bits :: "(byte \<Rightarrow> byte \<Rightarrow> byte) \<Rightarrow> bytes \<Rightarrow> int list \<Rightarrow> bytes res" where
  "vlan_bits f data [] = Inr data"
| "vlan_bits f data (v # vs) = rbind (vlan_bit f data v) (\<lambda>d. vlan_bits f d vs)"

abbreviation (input) set_mask :: "byte \<Rightarrow> byte \<Rightarrow> byte" where "set_mask \<equiv> \<lambda>b m. b OR m"
abbreviation (input) clear_mask :: "byte \<Rightarrow> byte \<Rightarrow> byte" where "clear_mask \<equiv> \<lambda>b m. b AND NOT m"

definition vlanBitmap :: "int list \<Rightarrow> bytes res" where
  "vlanBitmap vlans = vlan_bits set_mask (replicate SwitchportVlanBitmapBytes 0) vlans"

definition DecodeVlanBitmap :: "bytes \<Rightarrow> int list" where
  "DecodeVlanBitmap bitmap = ports_from 0 bitmap"

definition editVlanBits :: "bytes \<Rightarrow> int list \<Rightarrow> int list \<Rightarrow> bytes res" where
  "editVlanBits bitmap add remove =
     (let highest = fold max remove (fold max add 1);
          need = nat (go_div (highest - 1) 8 + 1);
          need' = (if need < SwitchportVlanBitmapBytes then SwitchportVlanBitmapBytes else need);
          data = bitmap @ replicate (need' - length bitmap) 0 in
      rbind (vlan_bits set_mask data add) (\<lambda>d. vlan_bits clear_mask d remove))"

subsection \<open>The plan\<close>

definition portMembership :: "vlan_info list \<Rightarrow> int \<Rightarrow> int set \<times> int set" where
  "portMembership vlans port =
     (set (map vi_vlan_id (filter (\<lambda>v. port \<in> set (vi_tagged v)) vlans)),
      set (map vi_vlan_id (filter (\<lambda>v. port \<in> set (vi_untagged v)) vlans)))"

record switchport_plan =
  sp_untagged :: int
  sp_tagged :: "int list"
  sp_varbinds :: "set_varbind list"

definition want_sets :: "int \<Rightarrow> vlan_mode \<Rightarrow> int set \<Rightarrow> int set \<Rightarrow> int set \<times> int set" where
  "want_sets vlanID mode curTagged curUntagged =
     (case mode of
        VlanTagged \<Rightarrow> (curTagged \<union> {vlanID}, curUntagged - {vlanID})
      | VlanUntagged \<Rightarrow> (curTagged - {vlanID}, {vlanID})
      | VlanExcluded \<Rightarrow> (curTagged - {vlanID}, curUntagged - {vlanID}))"

definition PlanSwitchportMembership ::
    "int \<Rightarrow> int \<Rightarrow> vlan_mode \<Rightarrow> int option \<Rightarrow> bytes \<Rightarrow> int list \<Rightarrow> int list \<Rightarrow> int list \<Rightarrow> switchport_plan res" where
  "PlanSwitchportMembership vlanID port mode currentMode currentAllowed currentTagged currentUntagged existingVlans =
     (let (wantTagged, wantUntagged) = want_sets vlanID mode (set currentTagged) (set currentUntagged) in
      rbind
       (if card wantUntagged > 1
        then Inl (Wraps ''port %d is currently an untagged member of VLANs %v; the FASTPATH switchport control plane holds at most ONE untagged VLAN per port (access VLAN / trunk native VLAN), and the per-VLAN participation columns that could express several answer notWritable. Refusing rather than silently dropping %v: %w''
               [AInt port, AInts (sorted_list_of_set (set currentUntagged)), AInts (tl (sorted_list_of_set wantUntagged))]
               ErrUnsupportedCapability)
        else if card wantUntagged = 1 then Inr (hd (sorted_list_of_set wantUntagged))
        else if defaultVlan \<in> wantTagged
        then Inl (Wraps ''excluding port %d from VLAN %d would leave it untagged in no VLAN, which this hardware cannot express, and the fallback (VLAN %d) is a TAGGED member here -- honouring the request would silently demote VLAN %d from tagged to untagged. Give the port an explicit untagged VLAN first: %w''
               [AInt port, AInt vlanID, AInt defaultVlan, AInt defaultVlan] ErrUnsupportedCapability)
        else Inr defaultVlan) (\<lambda>untaggedVlan.
      rbind
       (if wantTagged \<noteq> {}
        then rbind
          (if currentMode = Some SwitchportModeTrunk
           then editVlanBits currentAllowed (sorted_list_of_set (wantTagged \<union> {untaggedVlan}))
                  (sorted_list_of_set (set existingVlans - wantTagged - {untaggedVlan}))
           else vlanBitmap (sorted_list_of_set (wantTagged \<union> {untaggedVlan}))) (\<lambda>allowed.
          rbind (NewSetVarbind (colKey FastpathSwitchportAllowedVlans port) (VBytes allowed) ''x'') (\<lambda>allowedVb.
          rbind (NewSetVarbind (colKey FastpathSwitchportNativeVlan port) (VInt untaggedVlan) ''u'') (\<lambda>nativeVb.
          rbind (NewSetVarbind (colKey FastpathSwitchportMode port) (VInt SwitchportModeTrunk) ''i'') (\<lambda>modeVb.
          Inr [allowedVb, nativeVb, modeVb]))))
        else
          rbind (NewSetVarbind (colKey FastpathSwitchportAccessVlan port) (VInt untaggedVlan) ''u'') (\<lambda>accessVb.
          rbind (NewSetVarbind (colKey FastpathSwitchportMode port) (VInt SwitchportModeAccess) ''i'') (\<lambda>modeVb.
          Inr [accessVb, modeVb]))) (\<lambda>varbinds.
      Inr \<lparr>sp_untagged = untaggedVlan, sp_tagged = sorted_list_of_set wantTagged, sp_varbinds = varbinds\<rparr>)))"

text \<open>The empty message is None.\<close>

definition switchportDivergence ::
    "switchport_plan \<Rightarrow> int \<Rightarrow> int \<Rightarrow> vlan_info list \<Rightarrow> (string \<times> msg_arg list) option" where
  "switchportDivergence plan vlanID port after =
     (if \<not> list_ex (\<lambda>v. vi_vlan_id v = vlanID) after
      then Some (''VLAN %d disappeared while setting membership for port %d'', [AInt vlanID, AInt port])
      else
      let (gotTagged, gotUntagged) = portMembership after port; wantTagged = set (sp_tagged plan) in
      if gotUntagged \<noteq> {sp_untagged plan}
      then Some (''port %d should be an untagged member of VLAN %d only, but reads back untagged in %v'',
                 [AInt port, AInt (sp_untagged plan), AInts (sorted_list_of_set gotUntagged)])
      else if gotTagged \<noteq> wantTagged
      then (let gained = sorted_list_of_set (gotTagged - wantTagged); lost = sorted_list_of_set (wantTagged - gotTagged) in
            Some (''port %d tagged membership did not verify: wanted %v, got %v''
                    @ (if gained \<noteq> [] then ''; UNREQUESTED membership gained in %v'' else [])
                    @ (if lost \<noteq> [] then ''; membership LOST in %v'' else []),
                  [AInt port, AInts (sorted_list_of_set wantTagged), AInts (sorted_list_of_set gotTagged)]
                    @ (if gained \<noteq> [] then [AInts gained] else []) @ (if lost \<noteq> [] then [AInts lost] else [])))
      else None)"

subsection \<open>Laws of the VLAN bitmaps\<close>

lemma vlan_bit_ok:
  assumes "1 \<le> v" "v \<le> int (8 * length data)"
  shows "vlan_bit f data v =
     Inr (data[nat (v - 1) div 8 := f (data ! (nat (v - 1) div 8)) (msb_mask (int (nat (v - 1) mod 8)))])"
proof -
  define n where "n = nat (v - 1)"
  have v: "v - 1 = int n" using assms(1) by (simp add: n_def)
  have "n div 8 < length data" using assms by (auto simp: n_def)
  moreover have "go_div (v - 1) 8 = int (n div 8)" "go_mod (v - 1) 8 = int (n mod 8)"
    using go_div_mod_nonneg [of "v - 1"] by (simp_all add: v zdiv_int zmod_int)
  ultimately show ?thesis by (simp add: vlan_bit_def Let_def n_def)
qed

lemma bm_bit_set:
  assumes "n div 8 < length d"
  shows "bm_bit (d[n div 8 := d ! (n div 8) OR msb_mask (int (n mod 8))]) m \<longleftrightarrow> bm_bit d m \<or> m = n"
  by (rule bm_bit_update [OF assms])

lemma bm_bit_clear:
  assumes "n div 8 < length d"
  shows "bm_bit (d[n div 8 := d ! (n div 8) AND NOT (msb_mask (int (n mod 8)))]) m \<longleftrightarrow> bm_bit d m \<and> m \<noteq> n"
proof -
  have "m = n \<longleftrightarrow> m div 8 = n div 8 \<and> 7 - m mod 8 = 7 - n mod 8"
    by (rule bit_place_eq)
  then show ?thesis
    using assms by (auto simp: bm_bit_def nth_list_update bit_and_iff bit_not_iff bit_msb_mask)
qed

lemma vlan_bits_set:
  "\<forall>v \<in> set vs. 1 \<le> v \<and> v \<le> int (8 * length data) \<Longrightarrow>
   \<exists>d. vlan_bits set_mask data vs = Inr d \<and> length d = length data
     \<and> (\<forall>n. bm_bit d n \<longleftrightarrow> bm_bit data n \<or> int n + 1 \<in> set vs)"
proof (induction vs arbitrary: data)
  case (Cons v vs)
  define n where "n = nat (v - 1)"
  define data' where "data' = data[n div 8 := data ! (n div 8) OR msb_mask (int (n mod 8))]"
  have n: "int n + 1 = v" "n div 8 < length data" using Cons.prems by (auto simp: n_def)
  have step: "vlan_bit set_mask data v = Inr data'"
    using vlan_bit_ok [of v data set_mask] Cons.prems by (simp add: data'_def n_def)
  have "\<forall>w \<in> set vs. 1 \<le> w \<and> w \<le> int (8 * length data')" using Cons.prems by (simp add: data'_def)
  then obtain d where d: "vlan_bits set_mask data' vs = Inr d" "length d = length data'"
      "\<forall>m. bm_bit d m \<longleftrightarrow> bm_bit data' m \<or> int m + 1 \<in> set vs"
    using Cons.IH by blast
  have "bm_bit data' m \<longleftrightarrow> bm_bit data m \<or> int m + 1 = v" for m
    using bm_bit_set [OF n(2), of m] n(1) by (auto simp: data'_def)
  then show ?case using d step by (auto simp: data'_def)
qed simp

lemma vlan_bits_clear:
  "\<forall>v \<in> set vs. 1 \<le> v \<and> v \<le> int (8 * length data) \<Longrightarrow>
   \<exists>d. vlan_bits clear_mask data vs = Inr d \<and> length d = length data
     \<and> (\<forall>n. bm_bit d n \<longleftrightarrow> bm_bit data n \<and> int n + 1 \<notin> set vs)"
proof (induction vs arbitrary: data)
  case (Cons v vs)
  define n where "n = nat (v - 1)"
  define data' where "data' = data[n div 8 := data ! (n div 8) AND NOT (msb_mask (int (n mod 8)))]"
  have n: "int n + 1 = v" "n div 8 < length data" using Cons.prems by (auto simp: n_def)
  have step: "vlan_bit clear_mask data v = Inr data'"
    using vlan_bit_ok [of v data clear_mask] Cons.prems by (simp add: data'_def n_def)
  have "\<forall>w \<in> set vs. 1 \<le> w \<and> w \<le> int (8 * length data')" using Cons.prems by (simp add: data'_def)
  then obtain d where d: "vlan_bits clear_mask data' vs = Inr d" "length d = length data'"
      "\<forall>m. bm_bit d m \<longleftrightarrow> bm_bit data' m \<and> int m + 1 \<notin> set vs"
    using Cons.IH by blast
  have "bm_bit data' m \<longleftrightarrow> bm_bit data m \<and> int m + 1 \<noteq> v" for m
    using bm_bit_clear [OF n(2), of m] n(1) by (auto simp: data'_def)
  then show ?case using d step by (auto simp: data'_def)
qed simp

lemma mem_DecodeVlanBitmap: "x \<in> set (DecodeVlanBitmap bm) \<longleftrightarrow> 1 \<le> x \<and> bm_bit bm (nat (x - 1))"
  using mem_bitmapToPorts [of x bm] by (simp add: DecodeVlanBitmap_def bitmapToPorts_def)

text \<open>Encoded VLAN ids decode to themselves.\<close>

lemma vlanBitmap_ok:
  assumes "\<forall>v \<in> set vs. 1 \<le> v \<and> v \<le> 4096"
  shows "\<exists>bm. vlanBitmap vs = Inr bm \<and> length bm = 512 \<and> set (DecodeVlanBitmap bm) = set vs"
proof -
  obtain d where d: "vlan_bits set_mask (replicate 512 0) vs = Inr d" "length d = 512"
      "\<forall>n. bm_bit d n \<longleftrightarrow> int n + 1 \<in> set vs"
    using vlan_bits_set [of vs "replicate 512 0"] assms by auto
  have "x \<in> set (DecodeVlanBitmap d) \<longleftrightarrow> x \<in> set vs" for x
    using d(3) assms by (cases "1 \<le> x") (auto simp: mem_DecodeVlanBitmap)
  then show ?thesis using d by (auto simp: vlanBitmap_def)
qed

lemma fold_max_le: "fold max xs (m :: int) \<le> k \<longleftrightarrow> m \<le> k \<and> (\<forall>x \<in> set xs. x \<le> k)"
  by (induction xs arbitrary: m) auto

text \<open>Only the named bits change; the bits of the other VLANs and the width are kept.\<close>

lemma editVlanBits_ok:
  assumes "\<forall>v \<in> set add \<union> set remove. 1 \<le> v \<and> v \<le> 4096"
  shows "\<exists>bm. editVlanBits old add remove = Inr bm \<and> length bm = max 512 (length old)
    \<and> set (DecodeVlanBitmap bm) = (set (DecodeVlanBitmap old) \<union> set add) - set remove"
proof -
  define highest where "highest = fold max remove (fold max add 1)"
  have h: "1 \<le> highest" "highest \<le> 4096"
  proof -
    show "highest \<le> 4096" using assms by (auto simp: highest_def fold_max_le)
    have "fold max remove (fold max add 1) \<le> highest" by (simp add: highest_def)
    then show "1 \<le> highest" by (simp add: fold_max_le)
  qed
  have "go_div (highest - 1) 8 = (highest - 1) div 8" using go_div_mod_nonneg [of "highest - 1"] h by simp
  then have need: "nat (go_div (highest - 1) 8 + 1) \<le> 512" using h by simp
  define data where "data = old @ replicate (512 - length old) 0"
  have data: "length data = max 512 (length old)" "bm_bit data = bm_bit old" by (auto simp: data_def fun_eq_iff)
  obtain d where d: "vlan_bits set_mask data add = Inr d" "length d = length data"
      "\<forall>n. bm_bit d n \<longleftrightarrow> bm_bit data n \<or> int n + 1 \<in> set add"
    using vlan_bits_set [of add data] assms data(1) by force
  obtain e where e: "vlan_bits clear_mask d remove = Inr e" "length e = length d"
      "\<forall>n. bm_bit e n \<longleftrightarrow> bm_bit d n \<and> int n + 1 \<notin> set remove"
    using vlan_bits_clear [of remove d] assms data(1) d(2) by force
  have "editVlanBits old add remove = Inr e"
    using d(1) e(1) need by (simp add: editVlanBits_def Let_def highest_def [symmetric] data_def)
  moreover have "x \<in> set (DecodeVlanBitmap e) \<longleftrightarrow> (x \<in> set (DecodeVlanBitmap old) \<or> x \<in> set add) \<and> x \<notin> set remove" for x
    using d(3) e(3) assms by (cases "1 \<le> x") (auto simp: mem_DecodeVlanBitmap data(2))
  ultimately show ?thesis using data(1) d(2) e(2) by auto
qed

end
