(* ===== verification/Snmp_Writer.thy ===== *)
theory Snmp_Writer
  imports Snmp_Switchport
begin

section \<open>The SNMP writer (snmp/writer.go, snmp/writer\_vlan.go, snmp/writer\_switchport.go)\<close>

text \<open>
  Every operation guards, reads, sets and reads back.  The clock and the sleep of the PoE cycle are
  fields of the writer, as in the code; \<^verbatim>\<open>Snmp_Cycle\<close> has the operations that use them.
\<close>

record 's snmp_writer =
  sw_client :: "'s snmp_client"
  sw_model :: switch_model
  sw_protected :: "int list"
  sw_reader :: "'s snmp_reader"
  sw_clock :: "'s \<Rightarrow> int \<times> 's"
  sw_sleep :: "int \<Rightarrow> ('s, go_error, unit) action"

definition poeAdminOID :: "int \<Rightarrow> string" where
  "poeAdminOID port = PethPsePortTable @ ''.3.1.'' @ show_int port"

definition NewWriter ::
    "'s snmp_client \<Rightarrow> switch_model \<Rightarrow> int list \<Rightarrow> ('s \<Rightarrow> int \<times> 's) \<Rightarrow> (int \<Rightarrow> ('s, go_error, unit) action) \<Rightarrow> 's snmp_writer res" where
  "NewWriter c m protected clock sleep =
     rbind (NewReader c m) (\<lambda>reader.
     Inr \<lparr>sw_client = c, sw_model = m, sw_protected = protected, sw_reader = reader, sw_clock = clock, sw_sleep = sleep\<rparr>)"

definition guard :: "'s snmp_writer \<Rightarrow> int \<Rightarrow> bool \<Rightarrow> unit res" where
  "guard w port force =
     (if port \<in> set (sw_protected w) \<and> \<not> force
      then Inl (Wraps ''port %d is protected; pass force=True to override: %w'' [AInt port] ErrProtectedPort)
      else Inr ())"

definition poeStatus :: "'s snmp_writer \<Rightarrow> int \<Rightarrow> ('s, go_error, poe_status option) action" where
  "poeStatus w port = sbind (GetPoE (sw_reader w)) (\<lambda>statuses. sret (Inr (List.find (\<lambda>s. poe_port s = port) statuses)))"

definition portStatus :: "'s snmp_writer \<Rightarrow> int \<Rightarrow> ('s, go_error, port_status option) action" where
  "portStatus w port = sbind (GetPorts (sw_reader w)) (\<lambda>statuses. sret (Inr (List.find (\<lambda>s. ps_port s = port) statuses)))"

definition bool_text :: "bool \<Rightarrow> string" where
  "bool_text b = (if b then ''true'' else ''false'')"

definition on_off :: "bool \<Rightarrow> int" where
  "on_off b = (if b then 1 else 2)"

subsection \<open>Ports\<close>

definition SetPoE :: "'s snmp_writer \<Rightarrow> int \<Rightarrow> bool \<Rightarrow> bool \<Rightarrow> ('s, go_error, unit) action" where
  "SetPoE w port on force =
     sbind (sret (if \<not> on then guard w port force else Inr ())) (\<lambda>_.
     sbind (poeStatus w port) (\<lambda>before.
     sbind (sret (NewSetVarbind (poeAdminOID port) (VInt (on_off on)) ''i'')) (\<lambda>varbind.
     sbind (cl_Set (sw_client w) varbind) (\<lambda>_.
     sbind (poeStatus w port) (\<lambda>after.
     sret (if map_option poe_admin_enabled after \<noteq> Some on
           then Inl (Verification ''PoE admin for port %d did not read back as %v'' [AInt port, AStr (bool_text on)]
                       (Obs_PoE before) (Obs_PoE after))
           else Inr ()))))))"

definition SetPortEnabled :: "'s snmp_writer \<Rightarrow> int \<Rightarrow> bool \<Rightarrow> bool \<Rightarrow> ('s, go_error, unit) action" where
  "SetPortEnabled w port enabled force =
     sbind (sret (if \<not> enabled then guard w port force else Inr ())) (\<lambda>_.
     sbind (portStatus w port) (\<lambda>before.
     sbind (sret (NewSetVarbind (colKey IfAdminStatus port) (VInt (on_off enabled)) ''i'')) (\<lambda>varbind.
     sbind (cl_Set (sw_client w) varbind) (\<lambda>_.
     sbind (portStatus w port) (\<lambda>after.
     sret (if map_option ps_admin_enabled after \<noteq> Some enabled
           then Inl (Verification ''admin state for port %d did not read back as %v'' [AInt port, AStr (bool_text enabled)]
                       (Obs_Port before) (Obs_Port after))
           else Inr ()))))))"

definition strPtrEqual :: "string option \<Rightarrow> string option \<Rightarrow> bool" where
  "strPtrEqual a b = (if (a = None) \<noteq> (b = None) then False else a = None \<or> the a = the b)"

text \<open>\<^verbatim>\<open>quoteOrNone\<close>; the quoting is left to the formatter of the message.\<close>

definition quoteOrNone :: "string option \<Rightarrow> msg_arg" where
  "quoteOrNone s = (case s of None \<Rightarrow> AStr ''None'' | Some t \<Rightarrow> ABytes (bytes_of t))"

definition description_of :: "port_status option \<Rightarrow> string option" where
  "description_of st = (case st of None \<Rightarrow> None | Some p \<Rightarrow> ps_description p)"

definition SetPortDescription :: "'s snmp_writer \<Rightarrow> int \<Rightarrow> string \<Rightarrow> bool \<Rightarrow> ('s, go_error, unit) action" where
  "SetPortDescription w port description force =
     sbind (sret (guard w port force)) (\<lambda>_.
     sbind (portStatus w port) (\<lambda>before.
     sbind (sret (NewSetVarbind (colKey IfAlias port) (VStr description) ''s'')) (\<lambda>varbind.
     sbind (cl_Set (sw_client w) varbind) (\<lambda>_.
     sbind (portStatus w port) (\<lambda>after.
     let want = (if description \<noteq> [] then Some description else None) in
     sret (if after = None \<or> \<not> strPtrEqual (description_of after) want
           then Inl (Verification ''description for port %d did not read back as %s'' [AInt port, quoteOrNone want]
                       (Obs_StrPtr (description_of before)) (Obs_StrPtr (description_of after)))
           else Inr ()))))))"

definition SetPortSpeed :: "'s snmp_writer \<Rightarrow> int \<Rightarrow> port_speed \<Rightarrow> bool \<Rightarrow> ('s, go_error, unit) action" where
  "SetPortSpeed w port speed force = sret (Inl (Wraps
     ''model %q: SNMP exposes only the NEGOTIATED port rate (ifSpeed); no configured speed/duplex column has been located: %w''
     [AStr (sm_key (sw_model w))] ErrUnsupportedCapability))"

definition SetFlowControl :: "'s snmp_writer \<Rightarrow> int \<Rightarrow> bool \<Rightarrow> bool \<Rightarrow> ('s, go_error, unit) action" where
  "SetFlowControl w port on force = sret (Inl (Wraps
     ''model %q: no SNMP flow-control write has been established (dot3PauseAdminMode is read-only in this library): %w''
     [AStr (sm_key (sw_model w))] ErrUnsupportedCapability))"

subsection \<open>The host name and remote logging\<close>

definition SetHostname :: "'s snmp_writer \<Rightarrow> string \<Rightarrow> bool \<Rightarrow> ('s, go_error, unit) action" where
  "SetHostname w name force =
     sbind (GetHostname (sw_reader w)) (\<lambda>before.
     sbind (sret (NewSetVarbind SysName (VStr name) ''s'')) (\<lambda>varbind.
     sbind (cl_SetMany (sw_client w) [varbind]) (\<lambda>_.
     sbind (GetHostname (sw_reader w)) (\<lambda>after.
     sret (if after \<noteq> name
           then Inl (Verification ''sysName is %q after writing %q'' [AStr after, AStr name] (Obs_Str before) (Obs_Str after))
           else Inr ())))))"

definition vendor_only :: "'s snmp_writer \<Rightarrow> vendor_oids res" where
  "vendor_only w =
     (if \<not> HasVendorOids (sw_model w)
      then Inl (Wraps ''model %q registers no Netgear vendor OID subtree, and the logging columns are vendor-only: %w''
             [AStr (sm_key (sw_model w))] ErrUnsupportedCapability)
      else GetVendorOids (sw_model w))"

definition SetSyslogEnabled :: "'s snmp_writer \<Rightarrow> bool \<Rightarrow> bool \<Rightarrow> ('s, go_error, unit) action" where
  "SetSyslogEnabled w enabled force =
     sbind (sret (vendor_only w)) (\<lambda>vendor.
     sbind (GetSyslog (sw_reader w)) (\<lambda>before.
     sbind (sret (NewSetVarbind (vo_syslog_admin_mode vendor) (VInt (on_off enabled)) ''i'')) (\<lambda>varbind.
     sbind (cl_SetMany (sw_client w) [varbind]) (\<lambda>_.
     sbind (GetSyslog (sw_reader w)) (\<lambda>after.
     sret (if sc_enabled after \<noteq> enabled
           then Inl (Verification ''syslog enabled is %v after writing %v''
                       [AStr (bool_text (sc_enabled after)), AStr (bool_text enabled)] (Obs_Syslog before) (Obs_Syslog after))
           else Inr ()))))))"

definition AddSyslogCollector :: "'s snmp_writer \<Rightarrow> string \<Rightarrow> int \<Rightarrow> int \<Rightarrow> bool \<Rightarrow> ('s, go_error, unit) action" where
  "AddSyslogCollector w host port severity force = sret (Inl (Wraps
     ''model %q: this agent refuses to create a syslog host row (measured: createAndGo/createAndWait -> inconsistentValue, value-columns-only -> commitFailed); add it over a CLI backend: %w''
     [AStr (sm_key (sw_model w))] ErrUnsupportedCapability))"

definition RemoveSyslogCollector :: "'s snmp_writer \<Rightarrow> string \<Rightarrow> bool \<Rightarrow> ('s, go_error, unit) action" where
  "RemoveSyslogCollector w host force =
     sbind (sret (vendor_only w)) (\<lambda>vendor.
     sbind (GetSyslog (sw_reader w)) (\<lambda>before.
     sbind (sret (case List.find (\<lambda>s. sy_host s = host) (sc_servers before) of
         None \<Rightarrow> Inl (errSNMP ''no syslog collector for %q to remove'' [AStr host])
       | Some r \<Rightarrow>
           (case sy_index r of
              None \<Rightarrow> Inl (errSNMP ''the syslog collector for %q carries no table index'' [AStr host])
            | Some index \<Rightarrow> NewSetVarbind (colKey (vo_syslog_host_status vendor) index) (VInt RowStatusDestroy) ''i''))) (\<lambda>varbind.
     sbind (cl_Set (sw_client w) varbind) (\<lambda>_.
     sbind (GetSyslog (sw_reader w)) (\<lambda>after.
     sret (if list_ex (\<lambda>s. sy_host s = host) (sc_servers after)
           then Inl (Verification ''syslog collector %q is still configured after destroy'' [AStr host]
                       (Obs_Servers (sc_servers before)) (Obs_Servers (sc_servers after)))
           else Inr ()))))))"

subsection \<open>VLANs\<close>

abbreviation (input) vlanEncodeWidth :: nat where "vlanEncodeWidth \<equiv> 8"

definition find_vlan :: "int \<Rightarrow> vlan_info list \<Rightarrow> vlan_info option" where
  "find_vlan vlanID vlans = List.find (\<lambda>v. vi_vlan_id v = vlanID) vlans"

definition get_vlan :: "'s snmp_writer \<Rightarrow> int \<Rightarrow> ('s, go_error, vlan_info option) action" where
  "get_vlan w vlanID = sbind (GetVLANs (sw_reader w)) (\<lambda>vlans. sret (Inr (find_vlan vlanID vlans)))"

definition SetPVID :: "'s snmp_writer \<Rightarrow> int \<Rightarrow> int \<Rightarrow> bool \<Rightarrow> ('s, go_error, unit) action" where
  "SetPVID w port vlan force =
     sbind (sret (guard w port force)) (\<lambda>_.
     sbind (get_vlan w vlan) (\<lambda>target.
     if target = None then sret (Inl (errSNMP ''VLAN %d does not exist'' [AInt vlan]))
     else
     sbind (GetPVIDs (sw_reader w)) (\<lambda>before.
     sbind (sret (NewSetVarbind (colKey Dot1qPvid port) (VInt vlan) ''u'')) (\<lambda>varbind.
     sbind (cl_Set (sw_client w) varbind) (\<lambda>_.
     sbind (GetPVIDs (sw_reader w)) (\<lambda>after.
     sret (if \<not> list_ex (\<lambda>p. pv_port p = port \<and> pv_vlan p = vlan) after
           then Inl (Verification ''PVID for port %d did not read back as %d'' [AInt port, AInt vlan]
                       (Obs_Pvids before) (Obs_Pvids after))
           else Inr ())))))))"

text \<open>The octets of the first row of a VLAN that holds octets.\<close>

definition ends_with :: "string \<Rightarrow> string \<Rightarrow> bool" where
  "ends_with t s \<longleftrightarrow> take (length t) (rev s) = rev t"

fun raw_rows :: "string \<Rightarrow> row list \<Rightarrow> bytes option" where
  "raw_rows t [] = None"
| "raw_rows t (row # rows) =
     (if ends_with t (rw_oid row)
      then (case bitmap_value (rw_value row) of Some b \<Rightarrow> Some b | None \<Rightarrow> raw_rows t rows)
      else raw_rows t rows)"

definition rawBitmap :: "'s snmp_writer \<Rightarrow> string \<Rightarrow> int \<Rightarrow> ('s, go_error, bytes option) action" where
  "rawBitmap w baseOID vlanID =
     sbind (cl_Walk (sw_client w) baseOID) (\<lambda>rows. sret (Inr (raw_rows (''.'' @ show_int vlanID) rows)))"

definition physical :: "'s snmp_writer \<Rightarrow> ('s, go_error, int list option) action" where
  "physical w = sbind (cl_Walk (sw_client w) IfType) (\<lambda>ifTypes. sret (physicalPorts ifTypes))"

fun first_bytes :: "row list \<Rightarrow> bytes option" where
  "first_bytes [] = None"
| "first_bytes (row # rows) = (case rw_value row of VBytes b \<Rightarrow> Some b | _ \<Rightarrow> first_bytes rows)"

definition switchportVlanBitmap :: "'s snmp_writer \<Rightarrow> string \<Rightarrow> int \<Rightarrow> ('s, go_error, bytes) action" where
  "switchportVlanBitmap w baseOID port =
     sbind (cl_Get (sw_client w) [colKey baseOID port]) (\<lambda>rows.
     sret (Inr (case first_bytes rows of Some b \<Rightarrow> b | None \<Rightarrow> replicate SwitchportVlanBitmapBytes 0)))"

definition switchportMode :: "'s snmp_writer \<Rightarrow> int \<Rightarrow> ('s, go_error, int option) action" where
  "switchportMode w port =
     sbind (cl_Get (sw_client w) [colKey FastpathSwitchportMode port]) (\<lambda>rows. sret (Inr (firstInt rows)))"

fun set_each :: "'s snmp_writer \<Rightarrow> set_varbind list \<Rightarrow> ('s, go_error, unit) action" where
  "set_each w [] = sret (Inr ())"
| "set_each w (varbind # rest) = sbind (cl_Set (sw_client w) varbind) (\<lambda>_. set_each w rest)"

definition setVlanSwitchport ::
    "'s snmp_writer \<Rightarrow> int \<Rightarrow> int \<Rightarrow> vlan_mode \<Rightarrow> vlan_info \<Rightarrow> vlan_info list \<Rightarrow> ('s, go_error, unit) action" where
  "setVlanSwitchport w vlanID port mode before vlans =
     (let (currentTagged, currentUntagged) = portMembership vlans port in
      sbind (switchportMode w port) (\<lambda>currentMode.
      sbind (switchportVlanBitmap w FastpathSwitchportAllowedVlans port) (\<lambda>currentAllowed.
      sbind (sret (PlanSwitchportMembership vlanID port mode currentMode currentAllowed
               (sorted_list_of_set currentTagged) (sorted_list_of_set currentUntagged) (map vi_vlan_id vlans))) (\<lambda>plan.
      sbind (set_each w (sp_varbinds plan)) (\<lambda>_.
      sbind (GetVLANs (sw_reader w)) (\<lambda>after.
      sret (case switchportDivergence plan vlanID port after of
              None \<Rightarrow> Inr ()
            | Some (fmt, args) \<Rightarrow>
                Inl (Verification fmt args (Obs_Vlan (Some before)) (Obs_Vlan (find_vlan vlanID after))))))))))"

definition SetVlanMembership :: "'s snmp_writer \<Rightarrow> int \<Rightarrow> int \<Rightarrow> vlan_mode \<Rightarrow> bool \<Rightarrow> ('s, go_error, unit) action" where
  "SetVlanMembership w vlanID port mode force =
     sbind (sret (guard w port force)) (\<lambda>_.
     sbind (GetVLANs (sw_reader w)) (\<lambda>vlans.
     case find_vlan vlanID vlans of
       None \<Rightarrow> sret (Inl (errSNMP ''VLAN %d does not exist'' [AInt vlanID]))
     | Some before \<Rightarrow>
       if sm_snmp_vlan_write (sw_model w) = SNMPVlanWriteFastpathSwitchport
       then setVlanSwitchport w vlanID port mode before vlans
       else
       sbind (rawBitmap w Dot1qVlanStaticEgress vlanID) (\<lambda>rawEgress.
       sbind (rawBitmap w Dot1qVlanStaticUntagged vlanID) (\<lambda>rawUntagged.
       sbind (sret (case rawEgress of Some b \<Rightarrow> Inr b | None \<Rightarrow> EncodePortBitmap (vi_members before) vlanEncodeWidth)) (\<lambda>egressBitmap.
       sbind (sret (case rawUntagged of Some b \<Rightarrow> Inr b | None \<Rightarrow> EncodePortBitmap (vi_untagged before) vlanEncodeWidth)) (\<lambda>untaggedBitmap.
       sbind (sret (MembershipBitmaps egressBitmap untaggedBitmap port mode (VlanBitmapWidth (sm_port_count (sw_model w)))))
         (\<lambda>(newEgress, newUntagged).
       sbind (sret (NewSetVarbind (colKey Dot1qVlanStaticEgress vlanID) (VBytes newEgress) ''x'')) (\<lambda>egressVb.
       sbind (sret (NewSetVarbind (colKey Dot1qVlanStaticUntagged vlanID) (VBytes newUntagged) ''x'')) (\<lambda>untaggedVb.
       sbind (if sm_snmp_vlan_split (sw_model w)
              then sbind (cl_Set (sw_client w) egressVb) (\<lambda>_. cl_Set (sw_client w) untaggedVb)
              else cl_SetMany (sw_client w) [egressVb, untaggedVb]) (\<lambda>_.
       sbind (get_vlan w vlanID) (\<lambda>after.
       sbind (physical w) (\<lambda>keep.
       let wantEgress = filterPhysical (DecodePortBitmap newEgress) keep;
           wantUntagged = filterPhysical (DecodePortBitmap newUntagged) keep in
       sret (case after of
               None \<Rightarrow> Inl (Verification ''VLAN %d disappeared while setting membership for port %d'' [AInt vlanID, AInt port]
                         (Obs_Vlan (Some before)) (Obs_Vlan None))
             | Some v \<Rightarrow>
                 if vi_members v \<noteq> wantEgress
                 then Inl (Verification ''VLAN %d egress (member_ports) for port %d did not verify: wanted %v, got %v''
                        [AInt vlanID, AInt port, AInts wantEgress, AInts (vi_members v)] (Obs_Vlan (Some before)) (Obs_Vlan after))
                 else if vi_untagged v \<noteq> wantUntagged
                 then Inl (Verification ''VLAN %d untagged_ports for port %d did not verify: wanted %v, got %v''
                        [AInt vlanID, AInt port, AInts wantUntagged, AInts (vi_untagged v)] (Obs_Vlan (Some before)) (Obs_Vlan after))
                 else Inr ())))))))))))))"

definition NoVLANCreateMsg :: string where
  "NoVLANCreateMsg = ''this model's SNMP agent cannot create a VLAN: every RowStatus mechanism ''
     @ ''(createAndGo, createAndGo+name in one PDU, createAndWait->name->active, the name column alone, ''
     @ ''and createAndGo carrying an egress PortList) is answered inconsistentValue -- measured on the ''
     @ ''device. Membership, PVID and delete DO work over SNMP; create a VLAN over the HTTP backend''"

definition requireSNMPVLANCreation :: "switch_model \<Rightarrow> unit res" where
  "requireSNMPVLANCreation m =
     (if \<not> sm_snmp_can_create_vlan m
      then Inl (Wraps ''model %q: %s: %w'' [AStr (sm_key m), AStr NoVLANCreateMsg] ErrUnsupportedCapability)
      else Inr ())"

definition derefOrEmpty :: "string option \<Rightarrow> string" where
  "derefOrEmpty s = (case s of None \<Rightarrow> [] | Some t \<Rightarrow> t)"

definition CreateVlan :: "'s snmp_writer \<Rightarrow> int \<Rightarrow> string \<Rightarrow> ('s, go_error, unit) action" where
  "CreateVlan w vlanID name =
     sbind (sret (requireSNMPVLANCreation (sw_model w))) (\<lambda>_.
     sbind (get_vlan w vlanID) (\<lambda>before.
     sbind (sret (NewSetVarbind (colKey Dot1qVlanStaticRowStatus vlanID) (VInt RowStatusCreateAndGo) ''i'')) (\<lambda>rowStatusVb.
     sbind (sret (NewSetVarbind (colKey Dot1qVlanStaticName vlanID) (VStr name) ''s'')) (\<lambda>nameVb.
     sbind (cl_SetMany (sw_client w) [rowStatusVb, nameVb]) (\<lambda>_.
     sbind (get_vlan w vlanID) (\<lambda>after.
     sret (if map_option (\<lambda>v. derefOrEmpty (vi_name v)) after \<noteq> Some name
           then Inl (Verification ''VLAN %d was not created with name %q'' [AInt vlanID, AStr name] (Obs_Vlan before) (Obs_Vlan after))
           else Inr ())))))))"

definition DeleteVlan :: "'s snmp_writer \<Rightarrow> int \<Rightarrow> bool \<Rightarrow> ('s, go_error, unit) action" where
  "DeleteVlan w vlanID force =
     sbind (get_vlan w vlanID) (\<lambda>before.
     case before of
       None \<Rightarrow> sret (Inl (errSNMP ''VLAN %d does not exist'' [AInt vlanID]))
     | Some v \<Rightarrow>
       let clash = filter (\<lambda>p. p \<in> set (sw_protected w)) (vi_members v) in
       sbind (sret (if \<not> force \<and> clash \<noteq> []
              then Inl (Wraps ''VLAN %d includes protected port(s) %s; pass force=True to delete it anyway: %w''
                          [AInt vlanID, AInts (sort clash)] ErrProtectedPort)
              else Inr ())) (\<lambda>_.
       sbind (sret (NewSetVarbind (colKey Dot1qVlanStaticRowStatus vlanID) (VInt RowStatusDestroy) ''i'')) (\<lambda>varbind.
       sbind (cl_Set (sw_client w) varbind) (\<lambda>_.
       sbind (get_vlan w vlanID) (\<lambda>after.
       sret (if after \<noteq> None
             then Inl (Verification ''VLAN %d still exists after destroy'' [AInt vlanID] (Obs_Vlan before) (Obs_Vlan after))
             else Inr ()))))))"

subsection \<open>The management address\<close>

fun mgmt_fields :: "mgmt_ip_config \<Rightarrow> mgmt_ip_config \<Rightarrow> (string \<times> string \<times> string option) list \<Rightarrow> unit res" where
  "mgmt_fields before after [] = Inr ()"
| "mgmt_fields before after ((name, want, got) # rest) =
     (if got \<noteq> Some want
      then Inl (Verification ''management %s did not read back as %q (got %q)'' [AStr name, AStr want, AStr (derefOrEmpty got)]
             (Obs_Mgmt before) (Obs_Mgmt after))
      else mgmt_fields before after rest)"

definition SetMgmtIP :: "'s snmp_writer \<Rightarrow> string \<Rightarrow> string \<Rightarrow> string \<Rightarrow> bool \<Rightarrow> ('s, go_error, unit) action" where
  "SetMgmtIP w address netmask gateway force =
     sbind (sret (if \<not> force
       then Inl (Wraps ''set_mgmt_ip can strand the switch and uses UNVERIFIED OIDs; pass force=True to proceed: %w'' [] ErrProtectedPort)
       else GetVendorOids (sw_model w))) (\<lambda>vo.
     sbind (GetMgmtIP (sw_reader w)) (\<lambda>before.
     sbind (sret (NewSetVarbind (vo_mgmt_addr vo) (VStr address) ''a'')) (\<lambda>addrVb.
     sbind (sret (NewSetVarbind (vo_mgmt_netmask vo) (VStr netmask) ''a'')) (\<lambda>netmaskVb.
     sbind (sret (NewSetVarbind (vo_mgmt_gateway vo) (VStr gateway) ''a'')) (\<lambda>gatewayVb.
     sbind (cl_SetMany (sw_client w) [addrVb, netmaskVb, gatewayVb]) (\<lambda>_.
     sbind (GetMgmtIP (sw_reader w)) (\<lambda>after.
     sret (mgmt_fields before after
       [(''address'', address, mg_address after), (''netmask'', netmask, mg_netmask after),
        (''gateway'', gateway, mg_gateway after)]))))))))"

end
