(* ===== verification/Snmp_Cycle.thy ===== *)
theory Snmp_Cycle
  imports Snmp_Writer
begin

section \<open>The PoE power cycle (snmp/writer\_cycle.go)\<close>

text \<open>
  The off-on state machine of \<^verbatim>\<open>poeRearm\<close>.  Its two loops read the device until a
  predicate holds or a deadline passes; nothing bounds them but the clock, so they are a partial
  function, whose value None is a run that does not return.  Times and durations are integers of
  nanoseconds; \<^verbatim>\<open>formatSeconds\<close> is left to the formatter of the message.
\<close>

subsection \<open>The loop\<close>

text \<open>One run of an operation that may not return.\<close>

type_synonym ('s, 'a) run = "'s \<Rightarrow> ((go_error + 'a) \<times> 's) option"

definition run_bind :: "('s, 'a) run \<Rightarrow> ('a \<Rightarrow> ('s, 'b) run) \<Rightarrow> ('s, 'b) run" where
  "run_bind m f s =
     (case m s of
        None \<Rightarrow> None
      | Some (r, s') \<Rightarrow> (case r of Inl e \<Rightarrow> Some (Inl e, s') | Inr x \<Rightarrow> f x s'))"

definition returns :: "('s, go_error, 'a) action \<Rightarrow> ('s, 'a) run" where
  "returns m s = Some (m s)"

lemma run_bind_returns [simp]:
  "run_bind (returns m) f s = (case m s of (Inl e, s') \<Rightarrow> Some (Inl e, s') | (Inr x, s') \<Rightarrow> f x s')"
  by (simp add: run_bind_def returns_def split: prod.split sum.split)

text \<open>
  A loop: observe, leave when \<open>finished\<close>, fail when the clock has reached the deadline, sleep.
\<close>

partial_function (option) poll ::
    "('s, go_error, 'a) action \<Rightarrow> ('a \<Rightarrow> bool) \<Rightarrow> ('a \<Rightarrow> go_error) \<Rightarrow> ('s \<Rightarrow> int \<times> 's) \<Rightarrow> ('s, go_error, unit) action \<Rightarrow>
     int \<Rightarrow> 's \<Rightarrow> ((go_error + unit) \<times> 's) option" where
  "poll observe finished timeout clock sleep deadline s =
     (case observe s of
        (Inl e, s1) \<Rightarrow> Some (Inl e, s1)
      | (Inr x, s1) \<Rightarrow>
          if finished x then Some (Inr (), s1)
          else (case clock s1 of (t, s2) \<Rightarrow>
            if \<not> t < deadline then Some (Inl (timeout x), s2)
            else (case sleep s2 of
              (Inl e, s3) \<Rightarrow> Some (Inl e, s3)
            | (Inr _, s3) \<Rightarrow> poll observe finished timeout clock sleep deadline s3)))"

subsection \<open>The operations\<close>

definition poeIsOff :: "poe_status option \<Rightarrow> bool \<Rightarrow> bool" where
  "poeIsOff status portUp \<longleftrightarrow>
     (case status of None \<Rightarrow> False
      | Some st \<Rightarrow> (poe_detect st = PoEDetectDisabled \<or> poe_detect st = PoEDetectSearching) \<and> \<not> portUp)"

definition poeRecovered :: "poe_status option \<Rightarrow> poe_status option \<Rightarrow> bool" where
  "poeRecovered before status \<longleftrightarrow>
     (case status of None \<Rightarrow> False
      | Some st \<Rightarrow> poe_detect st = PoEDetectDelivering \<or> poe_detect st = PoEDetectSearching)"

text \<open>What the first loop observes: the PoE status and whether the link is up.\<close>

definition observe_off :: "'s snmp_writer \<Rightarrow> int \<Rightarrow> ('s, go_error, poe_status option \<times> bool) action" where
  "observe_off w port =
     sbind (poeStatus w port) (\<lambda>status.
     sbind (portStatus w port) (\<lambda>st.
     sret (Inr (status, (case st of None \<Rightarrow> False | Some p \<Rightarrow> ps_link_up p)))))"

definition deadline_after :: "'s snmp_writer \<Rightarrow> int \<Rightarrow> ('s, go_error, int) action" where
  "deadline_after w d s = (case sw_clock w s of (t, s') \<Rightarrow> (Inr (t + d), s'))"

definition poeRearm ::
    "'s snmp_writer \<Rightarrow> int \<Rightarrow> poe_cycle_timeouts \<Rightarrow> (poe_status option \<Rightarrow> poe_status option \<Rightarrow> bool) \<Rightarrow> (int \<Rightarrow> string \<times> msg_arg list) \<Rightarrow>
     ('s, unit) run" where
  "poeRearm w port timeouts onRecovered onTimeoutMessage =
     run_bind (returns (poeStatus w port)) (\<lambda>before.
     run_bind (returns (sret (NewSetVarbind (poeAdminOID port) (VInt 2) ''i''))) (\<lambda>offVb.
     run_bind (returns (cl_Set (sw_client w) offVb)) (\<lambda>_.
     run_bind (returns (deadline_after w (pct_off timeouts))) (\<lambda>deadline.
     run_bind (poll (observe_off w port) (\<lambda>(status, up). poeIsOff status up)
                (\<lambda>(status, up). Verification ''PoE port %d did not turn off within %s'' [AInt port, AInt (pct_off timeouts)]
                   (Obs_PoE before) (Obs_PoE status))
                (sw_clock w) (sw_sleep w (pct_poll timeouts)) deadline) (\<lambda>_.
     run_bind (returns (sret (NewSetVarbind (poeAdminOID port) (VInt 1) ''i''))) (\<lambda>onVb.
     run_bind (returns (cl_Set (sw_client w) onVb)) (\<lambda>_.
     run_bind (returns (deadline_after w (pct_on timeouts))) (\<lambda>deadline.
     poll (poeStatus w port) (onRecovered before)
       (\<lambda>status. case onTimeoutMessage (pct_on timeouts) of (fmt, args) \<Rightarrow>
          Verification fmt args (Obs_PoE before) (Obs_PoE status))
       (sw_clock w) (sw_sleep w (pct_poll timeouts)) deadline))))))))"

definition CyclePoE :: "'s snmp_writer \<Rightarrow> int \<Rightarrow> poe_cycle_timeouts \<Rightarrow> bool \<Rightarrow> ('s, unit) run" where
  "CyclePoE w port timeouts force =
     run_bind (returns (sret (guard w port force))) (\<lambda>_.
     poeRearm w port timeouts PoeCycleComplete
       (\<lambda>timeout. (''PoE port %d did not come back after the power cycle within %s'', [AInt port, AInt timeout])))"

definition ClearPoEFault :: "'s snmp_writer \<Rightarrow> int \<Rightarrow> poe_cycle_timeouts \<Rightarrow> bool \<Rightarrow> ('s, unit) run" where
  "ClearPoEFault w port timeouts force =
     run_bind (returns (sret (guard w port force))) (\<lambda>_.
     poeRearm w port timeouts poeRecovered
       (\<lambda>timeout. (''PoE port %d still in FAULT after clear within %s'', [AInt port, AInt timeout])))"

end
