(* ===== verification/Poe_Time.thy ===== *)
theory Poe_Time
  imports Snmp_Cycle
begin

section \<open>The PoE cycle in time\<close>

text \<open>
  The locale \<open>timed\<close> is what a poll loop needs of its clock: it never goes back, and a sleep that
  is not cut short advances it by at least \<open>d\<close>.  Inside it, every loop returns, and returns with
  success when what it waits for comes early enough.  The wall clock and \<^verbatim>\<open>defaultSleep\<close> of
  the code are an interpretation, over any client whose operations take their time.
\<close>

declare poll.simps [simp del]

subsection \<open>Loops over a clock\<close>

text \<open>An operation that does not turn the clock back.\<close>

definition forward :: "('s \<Rightarrow> int) \<Rightarrow> ('s, go_error, 'a) action \<Rightarrow> bool" where
  "forward now m \<longleftrightarrow> (\<forall>s. now s \<le> now (snd (m s)))"

named_theorems forward_intros

lemma forward_sret [forward_intros]: "forward now (sret r)"
  by (simp add: forward_def)

lemma forward_sbind [forward_intros]:
  assumes "forward now m" "\<And>x. forward now (f x)"
  shows "forward now (sbind m f)"
proof -
  have "now s \<le> now (snd (sbind m f s))" for s
  proof (cases "m s")
    case (Pair r u)
    have "now s \<le> now u" using assms(1) Pair unfolding forward_def by (metis snd_conv)
    moreover have "now u \<le> now (snd (f x u))" for x using assms(2) unfolding forward_def by blast
    ultimately show ?thesis using Pair by (cases r) (auto simp: sbind_def intro: order_trans)
  qed
  then show ?thesis by (simp add: forward_def)
qed

lemma forward_if [forward_intros]:
  "(b \<Longrightarrow> forward now m) \<Longrightarrow> (\<not> b \<Longrightarrow> forward now n) \<Longrightarrow> forward now (if b then m else n)"
  by simp

locale timed =
  fixes now :: "'s \<Rightarrow> int" and clock :: "'s \<Rightarrow> int \<times> 's" and sleep :: "('s, go_error, unit) action" and d :: int
  assumes d_pos: "0 < d"
    and clock_now: "clock s = (t, s') \<Longrightarrow> now s' = t \<and> now s \<le> t"
    and sleep_advances: "sleep s = (Inr (), s') \<Longrightarrow> now s + d \<le> now s'"
    and sleep_forward: "now s \<le> now (snd (sleep s))"
begin

lemma poll_returns:
  assumes "forward now observe"
  shows "\<exists>r s'. poll observe finished timeout clock sleep deadline s = Some (r, s') \<and> now s \<le> now s'"
proof (induction "nat (deadline - now s)" arbitrary: s rule: less_induct)
  case less
  obtain r1 s1 where o: "observe s = (r1, s1)" by force
  have s1: "now s \<le> now s1" using assms o unfolding forward_def by (metis snd_conv)
  obtain t s2 where c: "clock s1 = (t, s2)" by force
  have s2: "now s2 = t" "now s1 \<le> t" using clock_now [OF c] by simp_all
  obtain r3 s3 where sl: "sleep s2 = (r3, s3)" by force
  have s3: "now s2 \<le> now s3" using sleep_forward [of s2] sl by simp
  show ?case
  proof (cases "\<exists>x. r1 = Inr x \<and> \<not> finished x \<and> t < deadline \<and> r3 = Inr ()")
    case True
    then have "r3 = Inr ()" and t: "t < deadline" by auto
    then have "now s + d \<le> now s3" using sleep_advances [of s2 s3] sl s1 s2 by simp
    with t have "nat (deadline - now s3) < nat (deadline - now s)" using d_pos s1 s2 by linarith
    then obtain r s' where "poll observe finished timeout clock sleep deadline s3 = Some (r, s')" "now s3 \<le> now s'"
      using less by blast
    then show ?thesis
      using True o c sl s1 s2 s3 by (subst poll.simps) auto
  next
    case False
    then show ?thesis
      using o c sl s1 s2 s3 by (subst poll.simps) (auto split: sum.split)
  qed
qed

text \<open>
  What the loop waits for is seen in every state from \<open>T\<close> on, an observation takes at most \<open>L\<close>:
  with that much time before the deadline the loop ends well.
\<close>

lemma poll_succeeds:
  assumes quick: "\<And>s. now s \<le> now (snd (observe s)) \<and> now (snd (clock (snd (observe s)))) \<le> now s + L"
    and no_error: "\<And>s. \<exists>x s'. observe s = (Inr x, s')" "\<And>s. \<exists>s'. sleep s = (Inr (), s')"
    and settled: "\<And>s x s'. T \<le> now s \<Longrightarrow> observe s = (Inr x, s') \<Longrightarrow> finished x"
    and early: "T + L \<le> deadline"
  shows "\<exists>s'. poll observe finished timeout clock sleep deadline s = Some (Inr (), s')"
proof (induction "nat (T - now s)" arbitrary: s rule: less_induct)
  case less
  obtain x s1 where o: "observe s = (Inr x, s1)" using no_error(1) by blast
  obtain t s2 where c: "clock s1 = (t, s2)" by force
  obtain s3 where sl: "sleep s2 = (Inr (), s3)" using no_error(2) by blast
  have times: "now s \<le> now s1" "now s2 \<le> now s + L" "now s2 = t" "now s1 \<le> t" "now s2 + d \<le> now s3"
    using quick [of s] clock_now [OF c] sleep_advances [OF sl] by (simp_all add: o c)
  show ?case
  proof (cases "finished x")
    case True
    then show ?thesis using o by (subst poll.simps) simp
  next
    case False
    then have "now s < T" using settled [OF _ o] by fastforce
    then have "t < deadline" "nat (T - now s3) < nat (T - now s)" using times early d_pos by linarith+
    moreover from this(2) obtain s' where "poll observe finished timeout clock sleep deadline s3 = Some (Inr (), s')"
      using less by blast
    ultimately show ?thesis using False o c sl by (subst poll.simps) simp
  qed
qed

end

text \<open>
  The states a loop passes through: from one observation that does not satisfy it, before the
  deadline and after one sleep, to the next.
\<close>

inductive polling ::
    "('s, go_error, 'a) action \<Rightarrow> ('a \<Rightarrow> bool) \<Rightarrow> ('s \<Rightarrow> int \<times> 's) \<Rightarrow> ('s, go_error, unit) action \<Rightarrow> int \<Rightarrow> 's \<Rightarrow> 's \<Rightarrow> bool"
  for observe :: "('s, go_error, 'a) action" and finished clock sleep deadline where
  polling_here: "polling observe finished clock sleep deadline s s"
| polling_on: "observe s = (Inr x, s1) \<Longrightarrow> \<not> finished x \<Longrightarrow> clock s1 = (t, s2) \<Longrightarrow> t < deadline \<Longrightarrow> sleep s2 = (Inr (), s3) \<Longrightarrow>
    polling observe finished clock sleep deadline s3 u \<Longrightarrow> polling observe finished clock sleep deadline s u"

text \<open>A loop that returns success got, polling, to a state in which it observed what it waited for.\<close>

definition seen ::
    "('s, go_error, 'a) action \<Rightarrow> ('a \<Rightarrow> bool) \<Rightarrow> ('s \<Rightarrow> int \<times> 's) \<Rightarrow> ('s, go_error, unit) action \<Rightarrow> int \<Rightarrow> 's \<Rightarrow>
     (go_error + unit) \<times> 's \<Rightarrow> bool" where
  "seen observe finished clock sleep deadline s rs \<longleftrightarrow> (case rs of (Inl e, s') \<Rightarrow> True
     | (Inr _, s') \<Rightarrow> \<exists>u x. polling observe finished clock sleep deadline s u \<and> observe u = (Inr x, s') \<and> finished x)"

lemma poll_seen:
  fixes observe :: "('s, go_error, 'a) action"
  assumes "poll observe finished timeout clock sleep deadline s = Some rs"
  shows "seen observe finished clock sleep deadline s rs"
  using assms
proof (rule poll.raw_induct
    [where P = "\<lambda>observe finished timeout clock sleep deadline s rs. seen observe finished clock sleep deadline s rs", rotated])
  fix poll :: "('s, go_error, 'a) action \<Rightarrow> ('a \<Rightarrow> bool) \<Rightarrow> ('a \<Rightarrow> go_error) \<Rightarrow> ('s \<Rightarrow> int \<times> 's) \<Rightarrow>
    ('s, go_error, unit) action \<Rightarrow> int \<Rightarrow> 's \<Rightarrow> ((go_error + unit) \<times> 's) option"
  fix observe finished timeout clock sleep deadline s rs
  assume IH: "\<And>observe finished timeout clock sleep deadline s rs.
      poll observe finished timeout clock sleep deadline s = Some rs \<Longrightarrow> seen observe finished clock sleep deadline s rs"
  assume step: "(case observe s of (Inl e, s1) \<Rightarrow> Some (Inl e, s1)
      | (Inr x, s1) \<Rightarrow>
          if finished x then Some (Inr (), s1)
          else (case clock s1 of (t, s2) \<Rightarrow>
            if \<not> t < deadline then Some (Inl (timeout x), s2)
            else (case sleep s2 of
              (Inl e, s3) \<Rightarrow> Some (Inl e, s3)
            | (Inr _, s3) \<Rightarrow> poll observe finished timeout clock sleep deadline s3))) = Some rs"
  show "seen observe finished clock sleep deadline s rs"
  proof (cases "\<exists>x s1 t s2 s3. observe s = (Inr x, s1) \<and> \<not> finished x \<and> clock s1 = (t, s2) \<and> t < deadline \<and> sleep s2 = (Inr (), s3)")
    case True
    then obtain x s1 t s2 s3 where o: "observe s = (Inr x, s1)" "\<not> finished x" "clock s1 = (t, s2)" "t < deadline" "sleep s2 = (Inr (), s3)"
      by blast
    then have "seen observe finished clock sleep deadline s3 rs" using step by (intro IH [of _ _ timeout]) simp
    then show ?thesis
      using polling_on [where observe = observe and finished = finished and clock = clock and sleep = sleep and s = s, OF o]
      unfolding seen_def by (fastforce split: prod.splits sum.splits)
  next
    case False
    then show ?thesis
      using step polling_here [of observe finished clock sleep deadline s]
      by (fastforce simp: seen_def split: prod.splits sum.splits if_splits)
  qed
qed

lemma poll_observed:
  assumes "poll observe finished timeout clock sleep deadline s = Some (Inr (), s')"
  shows "\<exists>u x. polling observe finished clock sleep deadline s u \<and> observe u = (Inr x, s') \<and> finished x"
  using poll_seen [OF assms] by (simp add: seen_def)

subsection \<open>The wall clock\<close>

text \<open>
  \<^verbatim>\<open>time.Now\<close> and \<^verbatim>\<open>defaultSleep\<close> on a world with a clock: the timer fires after the
  duration unless the context is cancelled before.
\<close>

record 's world =
  wd_device :: 's
  wd_now :: int
  wd_cancel :: "int option"

definition time_Now :: "'s world \<Rightarrow> int \<times> 's world" where
  "time_Now s = (wd_now s, s)"

definition defaultSleep :: "int \<Rightarrow> ('s world, go_error, unit) action" where
  "defaultSleep d s =
     (if d \<le> 0
      then (if wd_cancel s \<noteq> None \<and> the (wd_cancel s) \<le> wd_now s then Inl (Foreign ''context'') else Inr (), s)
      else (case wd_cancel s of
        None \<Rightarrow> (Inr (), s\<lparr>wd_now := wd_now s + d\<rparr>)
      | Some c \<Rightarrow> if c < wd_now s + d then (Inl (Foreign ''context''), s\<lparr>wd_now := max (wd_now s) c\<rparr>)
                  else (Inr (), s\<lparr>wd_now := wd_now s + d\<rparr>)))"

lemma timed_production: "0 < d \<Longrightarrow> timed wd_now time_Now (defaultSleep d) d"
  by unfold_locales (auto simp: time_Now_def defaultSleep_def split: option.splits if_splits)

interpretation wall: timed wd_now time_Now "defaultSleep (pct_poll DefaultPoeCycleTimeouts)" "pct_poll DefaultPoeCycleTimeouts"
  by (rule timed_production) (simp add: DefaultPoeCycleTimeouts_def)

text \<open>A client whose operations do not turn the clock back.\<close>

definition forward_client :: "'s world snmp_client \<Rightarrow> bool" where
  "forward_client c \<longleftrightarrow> (\<forall>oid. forward wd_now (cl_Walk c oid)) \<and> (\<forall>varbind. forward wd_now (cl_Set c varbind))"

lemma forward_walk [forward_intros]: "forward_client c \<Longrightarrow> forward wd_now (cl_Walk c oid)"
  and forward_set [forward_intros]: "forward_client c \<Longrightarrow> forward wd_now (cl_Set c varbind)"
  by (simp_all add: forward_client_def)

lemma forward_walkAll [forward_intros]: "forward_client c \<Longrightarrow> forward wd_now (walkAll c oids)"
  by (induction oids) (auto intro!: forward_intros)

lemma forward_GetPoE [forward_intros]: "forward_client (re_client r) \<Longrightarrow> forward wd_now (GetPoE r)"
  unfolding GetPoE_def by (intro forward_intros)

lemma forward_GetPorts [forward_intros]: "forward_client (re_client r) \<Longrightarrow> forward wd_now (GetPorts r)"
  unfolding GetPorts_def by (intro forward_intros)

lemma forward_poeStatus: "forward_client (re_client (sw_reader w)) \<Longrightarrow> forward wd_now (poeStatus w port)"
  unfolding poeStatus_def by (intro forward_intros)

lemma forward_observe_off: "forward_client (re_client (sw_reader w)) \<Longrightarrow> forward wd_now (observe_off w port)"
  unfolding observe_off_def portStatus_def by (intro forward_intros forward_poeStatus)

text \<open>A run that returns, and not before it started.\<close>

definition returning :: "('s world, 'a) run \<Rightarrow> bool" where
  "returning m \<longleftrightarrow> (\<forall>s. \<exists>r s'. m s = Some (r, s') \<and> wd_now s \<le> wd_now s')"

lemma returning_returns: "forward wd_now m \<Longrightarrow> returning (returns m)"
  by (simp add: returning_def returns_def forward_def) (metis prod.collapse)

lemma returning_bind:
  assumes "returning m" "\<And>x. returning (f x)"
  shows "returning (run_bind m f)"
  unfolding returning_def
proof
  fix s
  obtain r u where m: "m s = Some (r, u)" "wd_now s \<le> wd_now u" using assms(1) unfolding returning_def by blast
  show "\<exists>q v. run_bind m f s = Some (q, v) \<and> wd_now s \<le> wd_now v"
  proof (cases r)
    case (Inr x)
    obtain q v where "f x u = Some (q, v)" "wd_now u \<le> wd_now v" using assms(2) unfolding returning_def by blast
    then show ?thesis using m Inr by (simp add: run_bind_def)
  qed (use m in \<open>simp add: run_bind_def\<close>)
qed

lemma returning_poll:
  assumes "0 < d" "forward wd_now observe"
  shows "returning (poll observe finished timeout time_Now (defaultSleep d) deadline)"
  using timed.poll_returns [OF timed_production [OF assms(1)] assms(2)] by (simp add: returning_def)

lemma poeRearm_returning:
  assumes "0 < pct_poll timeouts" "forward_client (sw_client w)" "re_client (sw_reader w) = sw_client w"
    and "sw_clock w = time_Now" "sw_sleep w = defaultSleep"
  shows "returning (poeRearm w port timeouts onRecovered onTimeoutMessage)"
proof -
  have "forward wd_now (deadline_after w d)" for d
    using assms(4) by (simp add: forward_def deadline_after_def time_Now_def)
  then show ?thesis
    unfolding poeRearm_def assms(4,5) using assms(1,2,3)
    by (intro returning_bind returning_returns returning_poll forward_poeStatus forward_observe_off forward_intros) simp_all
qed

text \<open>
  C9.  A power cycle and a fault clear always return: with the wall clock and \<^verbatim>\<open>defaultSleep\<close>,
  a positive poll interval and any agent, however it answers, neither loop runs for ever.
\<close>

theorem CyclePoE_returns:
  assumes "NewWriter c m protected time_Now defaultSleep = Inr w" "forward_client c" "0 < pct_poll timeouts"
  shows "(\<exists>r s'. CyclePoE w port timeouts force s = Some (r, s')) \<and> (\<exists>r s'. ClearPoEFault w port timeouts force s = Some (r, s'))"
proof -
  have w: "sw_client w = c" "re_client (sw_reader w) = sw_client w" "sw_clock w = time_Now" "sw_sleep w = defaultSleep"
    using assms(1) by (auto simp: NewWriter_def NewReader_def split: if_splits)
  have "returning (CyclePoE w port timeouts force)" "returning (ClearPoEFault w port timeouts force)"
    unfolding CyclePoE_def ClearPoEFault_def using assms(2,3) w
    by (auto intro!: returning_bind returning_returns poeRearm_returning forward_sret)
  then show ?thesis unfolding returning_def by blast
qed

text \<open>An agent that answers every walk with nothing, and takes a second for it.\<close>

definition empty_agent :: "unit world snmp_client" where
  "empty_agent =
     \<lparr>cl_Get = (\<lambda>oids s. (Inr [], s)), cl_Walk = (\<lambda>oid s. (Inr [], s\<lparr>wd_now := wd_now s + 10 ^ 9\<rparr>)),
      cl_Set = (\<lambda>varbind s. (Inr (), s)), cl_SetMany = (\<lambda>varbinds s. (Inr (), s))\<rparr>"

theorem CyclePoE_returns_witness:
  "\<exists>w r s'. NewWriter empty_agent model_gsm7252ps [] time_Now defaultSleep = Inr w
     \<and> CyclePoE w 1 DefaultPoeCycleTimeouts False \<lparr>wd_device = (), wd_now = 0, wd_cancel = None\<rparr> = Some (r, s')"
proof -
  obtain w where w: "NewWriter empty_agent model_gsm7252ps [] time_Now defaultSleep = Inr w"
    by (simp add: NewWriter_def NewReader_def HasBackend_def model_gsm7252ps_def)
  have "forward_client empty_agent" by (simp add: forward_client_def forward_def empty_agent_def)
  then show ?thesis
    using CyclePoE_returns [OF w, of DefaultPoeCycleTimeouts 1 False "\<lparr>wd_device = (), wd_now = 0, wd_cancel = None\<rparr>"] w
    by (auto simp: DefaultPoeCycleTimeouts_def)
qed

subsection \<open>What a reported success means\<close>

lemma run_bind_Inr: "run_bind m f s = Some (Inr y, t) \<longleftrightarrow> (\<exists>x u. m s = Some (Inr x, u) \<and> f x u = Some (Inr y, t))"
  by (auto simp: run_bind_def split: option.splits prod.splits sum.splits)

lemma returns_Inr: "returns m s = Some (Inr x, t) \<longleftrightarrow> m s = (Inr x, t)"
  by (simp add: returns_def)

text \<open>The SET of a port's PoE admin column: 1 is on, 2 is off.\<close>

definition power_set :: "int \<Rightarrow> int \<Rightarrow> set_varbind" where
  "power_set port value = \<lparr>sv_oid = poeAdminOID port, sv_value = VInt value, sv_letter = CHR ''i''\<rparr>"

text \<open>
  C10.  A power cycle is reported as done only when it took place, in this order.  The port was not
  protected or the call was forced; the status \<open>before\<close> was read; the SET that powers the port
  off succeeded; from the state it left, before the deadline taken then, polling reached a state in
  which the port was read as off with its link down; from there the SET that powers it on succeeded;
  and from the state that left, polling reached one whose status is back, by
  \<^verbatim>\<open>PoeCycleComplete\<close> of the status before; the call ends in the state that read left.
\<close>

theorem CyclePoE_observed:
  assumes "CyclePoE w port timeouts force s = Some (Inr (), s')"
  shows "\<exists>before s1 s2 t1 s3 v st up s4 s5 t2 s6 u now_status.
      (port \<notin> set (sw_protected w) \<or> force)
    \<and> poeStatus w port s = (Inr before, s1)
    \<and> cl_Set (sw_client w) (power_set port 2) s1 = (Inr (), s2)
    \<and> sw_clock w s2 = (t1, s3)
    \<and> polling (observe_off w port) (\<lambda>(status, up). poeIsOff status up) (sw_clock w) (sw_sleep w (pct_poll timeouts))
        (t1 + pct_off timeouts) s3 v
    \<and> observe_off w port v = (Inr (st, up), s4) \<and> poeIsOff st up
    \<and> cl_Set (sw_client w) (power_set port 1) s4 = (Inr (), s5)
    \<and> sw_clock w s5 = (t2, s6)
    \<and> polling (poeStatus w port) (PoeCycleComplete before) (sw_clock w) (sw_sleep w (pct_poll timeouts))
        (t2 + pct_on timeouts) s6 u
    \<and> poeStatus w port u = (Inr now_status, s') \<and> PoeCycleComplete before now_status"
proof -
  have guarded: "port \<notin> set (sw_protected w) \<or> force"
    using assms by (auto simp: CyclePoE_def run_bind_Inr returns_Inr guard_def simp del: run_bind_returns split: if_splits)
  obtain before s1 s2 d1 s3 s4 s5 d2 s6 where run: "poeStatus w port s = (Inr before, s1)"
      "cl_Set (sw_client w) (power_set port 2) s1 = (Inr (), s2)" "deadline_after w (pct_off timeouts) s2 = (Inr d1, s3)"
      "cl_Set (sw_client w) (power_set port 1) s4 = (Inr (), s5)" "deadline_after w (pct_on timeouts) s5 = (Inr d2, s6)"
    and loops: "\<exists>t. poll (observe_off w port) (\<lambda>(status, up). poeIsOff status up) t (sw_clock w) (sw_sleep w (pct_poll timeouts)) d1 s3
        = Some (Inr (), s4)"
      "\<exists>t. poll (poeStatus w port) (PoeCycleComplete before) t (sw_clock w) (sw_sleep w (pct_poll timeouts)) d2 s6
        = Some (Inr (), s')"
    using assms
    by (auto simp: CyclePoE_def poeRearm_def run_bind_Inr returns_Inr power_set_def simp del: run_bind_returns) blast
  from loops obtain m n where polls:
      "poll (observe_off w port) (\<lambda>(status, up). poeIsOff status up) m (sw_clock w) (sw_sleep w (pct_poll timeouts)) d1 s3 = Some (Inr (), s4)"
      "poll (poeStatus w port) (PoeCycleComplete before) n (sw_clock w) (sw_sleep w (pct_poll timeouts)) d2 s6 = Some (Inr (), s')"
    by blast
  obtain v off where v: "polling (observe_off w port) (\<lambda>(status, up). poeIsOff status up) (sw_clock w) (sw_sleep w (pct_poll timeouts)) d1 s3 v"
      "observe_off w port v = (Inr off, s4)" "case off of (status, up) \<Rightarrow> poeIsOff status up"
    using poll_observed [OF polls(1)] by blast
  obtain st up where "off = (st, up)" by force
  with v have off: "observe_off w port v = (Inr (st, up), s4)" "poeIsOff st up" by simp_all
  obtain u now_status where u: "polling (poeStatus w port) (PoeCycleComplete before) (sw_clock w) (sw_sleep w (pct_poll timeouts)) d2 s6 u"
      "poeStatus w port u = (Inr now_status, s')" "PoeCycleComplete before now_status"
    using poll_observed [OF polls(2)] by blast
  obtain t1 t2 where "sw_clock w s2 = (t1, s3)" "d1 = t1 + pct_off timeouts" "sw_clock w s5 = (t2, s6)" "d2 = t2 + pct_on timeouts"
    using run(3,5) by (auto simp: deadline_after_def split: prod.splits)
  with guarded run(1,2,4) v(1) off u show ?thesis by blast
qed

text \<open>An agent with one PoE port, which obeys at once.\<close>

definition poe_rows :: "int \<Rightarrow> string \<Rightarrow> row list" where
  "poe_rows admin oid =
     (if oid = PethPsePortAdmin then [NewIntRow (PethPsePortTable @ ''.3.1.1'') admin]
      else if oid = PethPsePortDetect then [NewIntRow (PethPsePortTable @ ''.6.1.1'') (if admin = 1 then 3 else 1)]
      else [])"

definition poe_agent :: "int snmp_client" where
  "poe_agent =
     \<lparr>cl_Get = (\<lambda>oids s. (Inr [], s)), cl_Walk = (\<lambda>oid s. (Inr (poe_rows s oid), s)),
      cl_Set = (\<lambda>varbind s. (Inr (), if sv_value varbind = VInt 1 then 1 else 2)), cl_SetMany = (\<lambda>varbinds s. (Inr (), s))\<rparr>"

definition poe_writer :: "int snmp_writer" where
  "poe_writer =
     \<lparr>sw_client = poe_agent, sw_model = model_gsm7252ps, sw_protected = [],
      sw_reader = \<lparr>re_client = poe_agent, re_model = model_gsm7252ps\<rparr>,
      sw_clock = (\<lambda>s. (0, s)), sw_sleep = (\<lambda>d s. (Inr (), s))\<rparr>"

lemma poe_agent_reads:
  "poeStatus poe_writer 1 1 =
     (Inr (Some \<lparr>poe_port = 1, poe_admin_enabled = True, poe_detect = PoEDetectDelivering, poe_power_mw = None\<rparr>), 1)"
  "poeStatus poe_writer 1 2 =
     (Inr (Some \<lparr>poe_port = 1, poe_admin_enabled = False, poe_detect = PoEDetectDisabled, poe_power_mw = None\<rparr>), 2)"
  "portStatus poe_writer 1 2 = (Inr None, 2)"
  by code_simp+

lemma poe_agent_cycle: "CyclePoE poe_writer 1 DefaultPoeCycleTimeouts False 1 = Some (Inr (), 1)"
proof -
  have writes: "cl_Set (sw_client poe_writer) varbind s = (Inr (), if sv_value varbind = VInt 1 then 1 else 2)"
    "sw_clock poe_writer s = (0, s)" "sw_sleep poe_writer d s = (Inr (), s)" "sw_protected poe_writer = []" for varbind s d
    by (simp_all add: poe_writer_def poe_agent_def)
  have "poll (observe_off poe_writer 1) (\<lambda>(status, up). poeIsOff status up) t (sw_clock poe_writer) sl d 2 = Some (Inr (), 2)" for t sl d
    by (subst poll.simps) (simp add: observe_off_def sbind_def poe_agent_reads poeIsOff_def)
  moreover have "poll (poeStatus poe_writer 1) (PoeCycleComplete (Some b)) t (sw_clock poe_writer) sl d 1 = Some (Inr (), 1)" for b t sl d
    by (subst poll.simps) (simp add: poe_agent_reads PoeCycleComplete_def Delivering_def)
  ultimately show ?thesis
    by (simp add: CyclePoE_def poeRearm_def run_bind_Inr returns_Inr guard_def writes poe_agent_reads deadline_after_def
        del: run_bind_returns)
qed

theorem CyclePoE_observed_witness:
  "CyclePoE poe_writer 1 DefaultPoeCycleTimeouts False 1 = Some (Inr (), 1)
   \<and> (\<exists>before s1 s2 s5. poeStatus poe_writer 1 1 = (Inr before, s1)
        \<and> cl_Set (sw_client poe_writer) (power_set 1 2) s1 = (Inr (), s2)
        \<and> (\<exists>v st up s4. observe_off poe_writer 1 v = (Inr (st, up), s4) \<and> poeIsOff st up
             \<and> cl_Set (sw_client poe_writer) (power_set 1 1) s4 = (Inr (), s5))
        \<and> (\<exists>u now_status. poeStatus poe_writer 1 u = (Inr now_status, 1) \<and> PoeCycleComplete before now_status))"
  using CyclePoE_observed [OF poe_agent_cycle] poe_agent_cycle by blast

end
