(* ===== verification/Virtual_Switchport.thy ===== *)
theory Virtual_Switchport
  imports Virtual_State Snmp_Switchport
begin

unbundle bit_operations_syntax

section \<open>The switchport table of the virtual switch (virtual/state\_switchport.go)\<close>

text \<open>
  The per-port switchport rows of the FASTPATH models and what they make of the VLAN membership.
  A panic that a SET raises is a value of \<open>set_panic\<close>: one of the three errors the code wraps
  for its SNMP face, or any other.  A set of VLAN ids or ports is a map to \<^verbatim>\<open>bool\<close>, as in
  the code; the maps of the seeds and of new VLANs are never nil.
\<close>

datatype set_panic = CommitFailed | NotWritable | InconsistentValue | OtherPanic

type_synonym 'a set_res = "set_panic + 'a"

definition isSwitchportModel :: "switch_model \<Rightarrow> bool" where
  "isSwitchportModel m \<longleftrightarrow> sm_snmp_vlan_write m = SNMPVlanWriteFastpathSwitchport"

text \<open>The model of the state; an unknown key panics.\<close>

definition state_model :: "vstate \<Rightarrow> switch_model set_res" where
  "state_model s = (case mustModel s of Inl _ \<Rightarrow> Inl OtherPanic | Inr m \<Rightarrow> Inr m)"

subsection \<open>Bitmaps\<close>

definition panic_res :: "'a res \<Rightarrow> 'a set_res" where
  "panic_res r = (case r of Inl _ \<Rightarrow> Inl OtherPanic | Inr x \<Rightarrow> Inr x)"

lemma panic_res_simps [simp]: "panic_res (Inr x) = Inr x" "panic_res (Inl e) = Inl OtherPanic"
  by (simp_all add: panic_res_def)

definition allVlansBitmap :: bytes where
  "allVlansBitmap = (case vlan_bits set_mask (replicate SwitchportVlanBitmapBytes 0) (map int [1..<4094]) of
     Inl _ \<Rightarrow> [] | Inr b \<Rightarrow> b)"

definition vlanBitmapBytes :: "bool gomap \<Rightarrow> bytes set_res" where
  "vlanBitmapBytes vlans =
     panic_res (vlan_bits set_mask (replicate SwitchportVlanBitmapBytes 0) (sliceFromPortSet vlans))"

definition vlansInBitmap :: "bytes \<Rightarrow> bool gomap" where
  "vlansInBitmap bitmap = map (\<lambda>v. (v, True)) (ports_from 0 bitmap)"

subsection \<open>The rows of a port\<close>

definition fill :: "int \<Rightarrow> 'v \<Rightarrow> 'v gomap \<Rightarrow> 'v gomap" where
  "fill port v m = (if map_of m port = None then AList.update port v m else m)"

definition switchportDefaults :: "int \<Rightarrow> vstate \<Rightarrow> vstate" where
  "switchportDefaults port s =
     s\<lparr>vs_sw_mode := fill port SwitchportModeAccess (vs_sw_mode s),
       vs_sw_access := fill port 1 (vs_sw_access s),
       vs_sw_native := fill port 1 (vs_sw_native s),
       vs_sw_allowed := fill port allVlansBitmap (vs_sw_allowed s),
       vs_sw_general_untagged := fill port [(1, True)] (vs_sw_general_untagged s),
       vs_sw_general_tagged := fill port [] (vs_sw_general_tagged s)\<rparr>"

definition all_defaults :: "vstate \<Rightarrow> vstate" where
  "all_defaults s = fold switchportDefaults (sorted_keys (vs_ports s)) s"

definition accessModePorts :: "vstate \<Rightarrow> int list \<times> vstate" where
  "accessModePorts s =
     (let s' = all_defaults s in
      (filter (\<lambda>p. map_of (vs_sw_mode s') p = Some SwitchportModeAccess) (sorted_keys (vs_sw_mode s')), s'))"

definition rejectIfReadonlyQbridge :: "vstate \<Rightarrow> vstate set_res" where
  "rejectIfReadonlyQbridge s =
     rbind (state_model s) (\<lambda>m.
     if \<not> isSwitchportModel m then Inr s
     else (case accessModePorts s of (access, s') \<Rightarrow> if access \<noteq> [] then Inl CommitFailed else Inr s'))"

subsection \<open>The membership that follows\<close>

text \<open>Reading a map of the code at a key it does not have gives the zero value.\<close>

definition int_at :: "int gomap \<Rightarrow> int \<Rightarrow> int" where
  "int_at m k = (case map_of m k of None \<Rightarrow> 0 | Some v \<Rightarrow> v)"

definition bytes_at :: "bytes gomap \<Rightarrow> int \<Rightarrow> bytes" where
  "bytes_at m k = (case map_of m k of None \<Rightarrow> [] | Some v \<Rightarrow> v)"

definition set_at :: "bool gomap gomap \<Rightarrow> int \<Rightarrow> bool gomap" where
  "set_at m k = (case map_of m k of None \<Rightarrow> [] | Some v \<Rightarrow> v)"

definition set_port :: "int \<Rightarrow> bool \<Rightarrow> bool \<Rightarrow> vlan_sim \<Rightarrow> vlan_sim" where
  "set_port port untagged tagged v =
     (if untagged then v\<lparr>vv_member := AList.update port True (vv_member v),
                        vv_untagged := AList.update port True (vv_untagged v)\<rparr>
      else if tagged then v\<lparr>vv_member := AList.update port True (vv_member v),
                           vv_untagged := AList.delete port (vv_untagged v)\<rparr>
      else v\<lparr>vv_member := AList.delete port (vv_member v),
             vv_untagged := AList.delete port (vv_untagged v)\<rparr>)"

text \<open>The untagged and the tagged VLANs of a port with its rows filled in.\<close>

definition switchport_sets :: "int \<Rightarrow> vstate \<Rightarrow> bool gomap \<times> bool gomap" where
  "switchport_sets port s =
     (let mode = int_at (vs_sw_mode s) port in
      if mode = SwitchportModeAccess then ([(int_at (vs_sw_access s) port, True)], [])
      else if mode = SwitchportModeTrunk then
        (let native = int_at (vs_sw_native s) port;
             allowed = sliceFromPortSet (vlansInBitmap (bytes_at (vs_sw_allowed s) port)) in
         ([(native, True)],
          map (\<lambda>v. (v, True)) (filter (\<lambda>v. v \<noteq> native \<and> map_of (vs_vlans s) v \<noteq> None) allowed)))
      else
        (let untagged = map (\<lambda>v. (v, True)) (sliceFromPortSet (set_at (vs_sw_general_untagged s) port)) in
         (untagged,
          map (\<lambda>v. (v, True)) (filter (\<lambda>v. \<not> in_set untagged v) (sliceFromPortSet (set_at (vs_sw_general_tagged s) port))))))"

definition switchport_pvids :: "int \<Rightarrow> vstate \<Rightarrow> int gomap" where
  "switchport_pvids port s =
     (let mode = int_at (vs_sw_mode s) port in
      if mode = SwitchportModeAccess then AList.update port (int_at (vs_sw_access s) port) (vs_pvids s)
      else if mode = SwitchportModeTrunk then AList.update port (int_at (vs_sw_native s) port) (vs_pvids s)
      else vs_pvids s)"

definition applySwitchport :: "int \<Rightarrow> vstate \<Rightarrow> vstate" where
  "applySwitchport port s =
     (let s1 = switchportDefaults port s;
          (untagged, tagged) = switchport_sets port s1 in
      s1\<lparr>vs_pvids := switchport_pvids port s1,
         vs_vlans := map (\<lambda>(vid, v). (vid, set_port port (in_set untagged vid) (in_set tagged vid) v)) (vs_vlans s1)\<rparr>)"

text \<open>The loop over the ports of an accepted egress write, and the refusal of a new row.\<close>

definition reconcile_port :: "int \<Rightarrow> bool gomap \<Rightarrow> int \<Rightarrow> vstate \<Rightarrow> vstate set_res" where
  "reconcile_port vid incoming port s =
     (let s1 = switchportDefaults port s; mode = int_at (vs_sw_mode s1) port in
      rbind
       (if mode = SwitchportModeTrunk then
          (let allowed = vlansInBitmap (bytes_at (vs_sw_allowed s1) port);
               allowed' = (if in_set incoming port then AList.update vid True allowed else AList.delete vid allowed) in
           rbind (vlanBitmapBytes allowed') (\<lambda>b. Inr (s1\<lparr>vs_sw_allowed := AList.update port b (vs_sw_allowed s1)\<rparr>)))
        else if mode = SwitchportModeGeneral then
          (if in_set incoming port
           then Inr (s1\<lparr>vs_sw_general_untagged :=
                  AList.update port (AList.update vid True (set_at (vs_sw_general_untagged s1) port)) (vs_sw_general_untagged s1)\<rparr>)
           else Inr (s1\<lparr>vs_sw_general_untagged :=
                    AList.update port (AList.delete vid (set_at (vs_sw_general_untagged s1) port)) (vs_sw_general_untagged s1),
                  vs_sw_general_tagged :=
                    AList.update port (AList.delete vid (set_at (vs_sw_general_tagged s1) port)) (vs_sw_general_tagged s1)\<rparr>))
        else Inr s1) (\<lambda>s2. Inr (applySwitchport port s2)))"

fun reconcile_ports :: "int \<Rightarrow> bool gomap \<Rightarrow> int list \<Rightarrow> vstate \<Rightarrow> vstate set_res" where
  "reconcile_ports vid incoming [] s = Inr s"
| "reconcile_ports vid incoming (p # ps) s = rbind (reconcile_port vid incoming p s) (reconcile_ports vid incoming ps)"

definition reconcileQbridgeMembership :: "int \<Rightarrow> bool gomap \<Rightarrow> vstate \<Rightarrow> vstate set_res" where
  "reconcileQbridgeMembership vid incoming s = reconcile_ports vid incoming (sorted_keys (vs_ports s)) s"

definition refuseVlanCreationIfUnsupported :: "vstate \<Rightarrow> unit set_res" where
  "refuseVlanCreationIfUnsupported s =
     rbind (state_model s) (\<lambda>m. if \<not> sm_snmp_can_create_vlan m then Inl InconsistentValue else Inr ())"

end
