(* ===== verification/Virtual_Snmp.thy ===== *)
theory Virtual_Snmp
  imports Virtual_Switchport
begin

section \<open>SNMP SETs on the virtual switch (virtual/state.go)\<close>

text \<open>
  \<^verbatim>\<open>IsWritableOID\<close>, the gate of a SET, and \<^verbatim>\<open>ApplyWrite\<close>, what one varbind does to the
  state.  The value of a varbind is an \<^verbatim>\<open>int\<close>, a string or bytes, as \<^verbatim>\<open>fromWireValue\<close>
  gives it.
\<close>

subsection \<open>Columns and values\<close>

definition columnTail :: "string \<Rightarrow> string \<Rightarrow> int option" where
  "columnTail base oid =
     (case strip_prefix (base @ ''.'') oid of
        None \<Rightarrow> None
      | Some rest \<Rightarrow> if isAllDigits rest then Atoi rest else None)"

definition isPoeAdminColumn :: "string \<Rightarrow> int option" where
  "isPoeAdminColumn oid =
     (case strip_prefix (PethPsePortTable @ ''.3.1.'') oid of
        None \<Rightarrow> None
      | Some rest \<Rightarrow> if isAllDigits rest then Atoi rest else None)"

fun mustInt :: "snmp_value \<Rightarrow> int set_res" where
  "mustInt (VInt v) = Inr v"
| "mustInt (VStr s) = (case Atoi s of None \<Rightarrow> Inl OtherPanic | Some n \<Rightarrow> Inr n)"
| "mustInt (VBytes b) = Inl OtherPanic"

fun asBytes :: "snmp_value \<Rightarrow> bytes" where
  "asBytes (VBytes b) = b"
| "asBytes (VStr s) = bytes_of s"
| "asBytes (VInt v) = [word_of_int v]"

fun asString :: "snmp_value \<Rightarrow> string" where
  "asString (VStr s) = s"
| "asString (VBytes b) = string_of b"
| "asString (VInt v) = show_int v"

definition resolveVendorOids :: "switch_model \<Rightarrow> vendor_oids option" where
  "resolveVendorOids m =
     (if \<not> HasVendorOids m then None
      else case GetVendorOids m of Inl _ \<Rightarrow> None | Inr v \<Rightarrow> Some v)"

subsection \<open>The operations of one varbind\<close>

definition update_port :: "int \<Rightarrow> (port_sim \<Rightarrow> port_sim) \<Rightarrow> vstate \<Rightarrow> vstate" where
  "update_port port f s =
     (case map_of (vs_ports s) port of None \<Rightarrow> s | Some p \<Rightarrow> s\<lparr>vs_ports := AList.update port (f p) (vs_ports s)\<rparr>)"

definition ApplyPoeAdmin :: "int \<Rightarrow> bool \<Rightarrow> vstate \<Rightarrow> vstate" where
  "ApplyPoeAdmin port on s =
     (case map_of (vs_poe s) port of
        None \<Rightarrow> s
      | Some psim \<Rightarrow>
          (let psim' = psim\<lparr>vq_admin := on, vq_detect := (if on then 3 else 1),
                            vq_status_lag := (if on \<and> \<not> vq_admin psim then 1 else vq_status_lag psim)\<rparr>;
               s' = s\<lparr>vs_poe := AList.update port psim' (vs_poe s)\<rparr> in
           if \<not> on then update_port port (\<lambda>p. p\<lparr>vp_link := False\<rparr>) s' else s'))"

definition write_admin :: "int \<Rightarrow> snmp_value \<Rightarrow> vstate \<Rightarrow> vstate set_res" where
  "write_admin port value s =
     (if map_of (vs_ports s) port = None then Inr s
      else rbind (mustInt value) (\<lambda>iv.
        Inr (update_port port (\<lambda>p. p\<lparr>vp_admin := (iv = 1), vp_link := (if iv \<noteq> 1 then False else vp_link p)\<rparr>) s)))"

definition write_alias :: "int \<Rightarrow> snmp_value \<Rightarrow> vstate \<Rightarrow> vstate" where
  "write_alias port value s =
     update_port port (\<lambda>p. p\<lparr>vp_description := (if asString value \<noteq> [] then Some (asString value) else None)\<rparr>) s"

text \<open>
  The loop of the S3300's side effect runs over the ports of the incoming list; each becomes an
  untagged member unless it is a member already.
\<close>

definition auto_untag :: "bool gomap \<Rightarrow> vlan_sim \<Rightarrow> vlan_sim" where
  "auto_untag incoming v =
     v\<lparr>vv_untagged := fold (\<lambda>p u. if in_set (vv_member v) p then u else AList.update p True u)
         (sorted_keys incoming) (vv_untagged v)\<rparr>"

definition write_egress :: "int \<Rightarrow> snmp_value \<Rightarrow> vstate \<Rightarrow> vstate set_res" where
  "write_egress vid value s =
     (case map_of (vs_vlans s) vid of
        None \<Rightarrow> Inr s
      | Some vl \<Rightarrow>
          rbind (rejectIfReadonlyQbridge s) (\<lambda>s1.
          let incoming = portSetFromSlice (DecodePortBitmap (asBytes value)) in
          rbind (state_model s1) (\<lambda>m.
          if isSwitchportModel m then reconcileQbridgeMembership vid incoming s1
          else if sm_snmp_vlan_split m
          then Inr (s1\<lparr>vs_vlans := AList.update vid ((auto_untag incoming vl)\<lparr>vv_member := incoming\<rparr>) (vs_vlans s1),
                       vs_pdu_egress := AList.update vid True (vs_pdu_egress s1)\<rparr>)
          else Inr (s1\<lparr>vs_vlans := AList.update vid (vl\<lparr>vv_member := incoming\<rparr>) (vs_vlans s1)\<rparr>))))"

definition write_untagged :: "int \<Rightarrow> snmp_value \<Rightarrow> vstate \<Rightarrow> vstate set_res" where
  "write_untagged vid value s =
     (case map_of (vs_vlans s) vid of
        None \<Rightarrow> Inr s
      | Some vl \<Rightarrow>
          rbind (state_model s) (\<lambda>m.
          if isSwitchportModel m then Inr s
          else if in_set (vs_pdu_egress s) vid then Inr s
          else Inr (s\<lparr>vs_vlans := AList.update vid
                 (vl\<lparr>vv_untagged := portSetFromSlice (DecodePortBitmap (asBytes value))\<rparr>) (vs_vlans s)\<rparr>)))"

definition write_native :: "int \<Rightarrow> snmp_value \<Rightarrow> vstate \<Rightarrow> vstate set_res" where
  "write_native port value s =
     rbind (mustInt value) (\<lambda>native.
     if map_of (vs_vlans s) native = None then Inl CommitFailed
     else Inr (applySwitchport port (s\<lparr>vs_sw_native := AList.update port native (vs_sw_native s)\<rparr>)))"

text \<open>The branches of the switchport table: None when the identifier is none of its columns.\<close>

definition write_switchport :: "string \<Rightarrow> snmp_value \<Rightarrow> vstate \<Rightarrow> vstate set_res option" where
  "write_switchport oid value s =
     (case columnTail FastpathSwitchportMode oid of
        Some port \<Rightarrow> Some (rbind (mustInt value) (\<lambda>v.
          Inr (applySwitchport port (s\<lparr>vs_sw_mode := AList.update port v (vs_sw_mode s)\<rparr>))))
      | None \<Rightarrow>
     (case columnTail FastpathSwitchportAccessVlan oid of
        Some port \<Rightarrow> Some (rbind (mustInt value) (\<lambda>v.
          Inr (applySwitchport port (s\<lparr>vs_sw_access := AList.update port v (vs_sw_access s)\<rparr>))))
      | None \<Rightarrow>
     (case columnTail FastpathSwitchportNativeVlan oid of
        Some port \<Rightarrow> Some (write_native port value s)
      | None \<Rightarrow>
     (case columnTail FastpathSwitchportAllowedVlans oid of
        Some port \<Rightarrow> Some (Inr (applySwitchport port
          (s\<lparr>vs_sw_allowed := AList.update port (asBytes value) (vs_sw_allowed s)\<rparr>)))
      | None \<Rightarrow>
     (case columnTail FastpathSwitchportTaggedVlans oid of
        Some port \<Rightarrow> Some (Inl NotWritable)
      | None \<Rightarrow>
     (case columnTail FastpathSwitchportUntaggedVlans oid of
        Some port \<Rightarrow> Some (Inl NotWritable)
      | None \<Rightarrow> None))))))"

definition new_vlan :: "string \<Rightarrow> vlan_sim" where
  "new_vlan name = \<lparr>vv_name = name, vv_member = [], vv_untagged = [], vv_configured_only = [], vv_no_static_row = False\<rparr>"

definition write_row_status :: "int \<Rightarrow> snmp_value \<Rightarrow> vstate \<Rightarrow> vstate set_res" where
  "write_row_status vid value s =
     rbind (mustInt value) (\<lambda>iv.
     if iv = RowStatusDestroy then Inr (s\<lparr>vs_vlans := AList.delete vid (vs_vlans s)\<rparr>)
     else if map_of (vs_vlans s) vid = None then
       rbind (refuseVlanCreationIfUnsupported s) (\<lambda>_.
       Inr (if iv = RowStatusCreateAndGo then s\<lparr>vs_vlans := AList.update vid (new_vlan []) (vs_vlans s)\<rparr> else s))
     else Inr s)"

definition write_vlan_name :: "int \<Rightarrow> snmp_value \<Rightarrow> vstate \<Rightarrow> vstate set_res" where
  "write_vlan_name vid value s =
     (case map_of (vs_vlans s) vid of
        Some vl \<Rightarrow> Inr (s\<lparr>vs_vlans := AList.update vid (vl\<lparr>vv_name := asString value\<rparr>) (vs_vlans s)\<rparr>)
      | None \<Rightarrow>
          rbind (refuseVlanCreationIfUnsupported s) (\<lambda>_.
          Inr (s\<lparr>vs_vlans := AList.update vid (new_vlan (asString value)) (vs_vlans s)\<rparr>)))"

text \<open>The first collector with the index is removed, or its status set.\<close>

fun remove_collector :: "int \<Rightarrow> collector_sim list \<Rightarrow> collector_sim list" where
  "remove_collector index [] = []"
| "remove_collector index (c # cs) = (if vc_index c = index then cs else c # remove_collector index cs)"

fun set_collector :: "int \<Rightarrow> int \<Rightarrow> collector_sim list \<Rightarrow> collector_sim list" where
  "set_collector index v [] = []"
| "set_collector index v (c # cs) =
     (if vc_index c = index then c\<lparr>vc_status := v\<rparr> # cs else c # set_collector index v cs)"

definition set_syslog :: "(syslog_sim \<Rightarrow> syslog_sim) \<Rightarrow> vstate \<Rightarrow> vstate" where
  "set_syslog f s = s\<lparr>vs_syslog := f (vs_syslog s)\<rparr>"

definition write_collector :: "int \<Rightarrow> snmp_value \<Rightarrow> vstate \<Rightarrow> vstate set_res" where
  "write_collector index value s =
     (if \<not> list_ex (\<lambda>c. vc_index c = index) (vy_collectors (vs_syslog s)) then Inl InconsistentValue
      else rbind (mustInt value) (\<lambda>v.
        Inr (set_syslog (\<lambda>y. y\<lparr>vy_collectors :=
               (if v = RowStatusDestroy then remove_collector index (vy_collectors y)
                else set_collector index v (vy_collectors y))\<rparr>) s)))"

definition write_vendor :: "vendor_oids \<Rightarrow> string \<Rightarrow> snmp_value \<Rightarrow> vstate \<Rightarrow> vstate set_res" where
  "write_vendor v oid value s =
     (if oid = vo_mgmt_addr v then Inr (set_mgmt (\<lambda>m. m\<lparr>vm_address := asString value\<rparr>) s)
      else if oid = vo_mgmt_netmask v then Inr (set_mgmt (\<lambda>m. m\<lparr>vm_netmask := asString value\<rparr>) s)
      else if oid = vo_mgmt_gateway v then Inr (set_mgmt (\<lambda>m. m\<lparr>vm_gateway := asString value\<rparr>) s)
      else if oid = vo_dhcp_mode v @ ''.0'' then
        rbind (mustInt value) (\<lambda>iv. Inr (set_mgmt (\<lambda>m. m\<lparr>vm_mode := (if iv = 2 then ''static'' else ''dhcp'')\<rparr>) s))
      else if oid = vo_syslog_admin_mode v then
        rbind (mustInt value) (\<lambda>iv. Inr (set_syslog (\<lambda>y. y\<lparr>vy_admin_mode := iv\<rparr>) s))
      else (case columnTail (vo_syslog_host_status v) oid of
              Some index \<Rightarrow> write_collector index value s
            | None \<Rightarrow> Inr s))"

subsection \<open>The dispatch\<close>

definition ApplyWrite :: "string \<Rightarrow> snmp_value \<Rightarrow> vstate \<Rightarrow> vstate set_res" where
  "ApplyWrite oid value s =
     rbind (state_model s) (\<lambda>m.
     case columnTail IfAdminStatus oid of Some port \<Rightarrow> write_admin port value s | None \<Rightarrow>
    (case columnTail IfAlias oid of Some port \<Rightarrow> Inr (write_alias port value s) | None \<Rightarrow>
    (case isPoeAdminColumn oid of
       Some port \<Rightarrow> rbind (mustInt value) (\<lambda>v. Inr (ApplyPoeAdmin port (v = 1) s)) | None \<Rightarrow>
    (case columnTail Dot1qPvid oid of
       Some port \<Rightarrow> rbind (mustInt value) (\<lambda>v. Inr (s\<lparr>vs_pvids := AList.update port v (vs_pvids s)\<rparr>)) | None \<Rightarrow>
    (case columnTail Dot1qVlanStaticEgress oid of Some vid \<Rightarrow> write_egress vid value s | None \<Rightarrow>
    (case columnTail Dot1qVlanStaticUntagged oid of Some vid \<Rightarrow> write_untagged vid value s | None \<Rightarrow>
    (case (if isSwitchportModel m then write_switchport oid value s else None) of Some r \<Rightarrow> r | None \<Rightarrow>
    (case columnTail Dot1qVlanStaticRowStatus oid of Some vid \<Rightarrow> write_row_status vid value s | None \<Rightarrow>
    (case columnTail Dot1qVlanStaticName oid of Some vid \<Rightarrow> write_vlan_name vid value s | None \<Rightarrow>
     if oid = SysName then Inr (s\<lparr>vs_hostname := asString value\<rparr>)
     else (case resolveVendorOids m of None \<Rightarrow> Inr s | Some v \<Rightarrow> write_vendor v oid value s))))))))))"

definition IsWritableOID :: "vstate \<Rightarrow> string \<Rightarrow> bool set_res" where
  "IsWritableOID s oid =
     rbind (state_model s) (\<lambda>m.
     Inr (columnTail IfAdminStatus oid \<noteq> None \<or> columnTail IfAlias oid \<noteq> None \<or> isPoeAdminColumn oid \<noteq> None
       \<or> columnTail Dot1qPvid oid \<noteq> None \<or> columnTail Dot1qVlanStaticEgress oid \<noteq> None
       \<or> columnTail Dot1qVlanStaticUntagged oid \<noteq> None \<or> columnTail Dot1qVlanStaticRowStatus oid \<noteq> None
       \<or> columnTail Dot1qVlanStaticName oid \<noteq> None
       \<or> isSwitchportModel m \<and>
           (columnTail FastpathSwitchportMode oid \<noteq> None \<or> columnTail FastpathSwitchportAccessVlan oid \<noteq> None
            \<or> columnTail FastpathSwitchportNativeVlan oid \<noteq> None \<or> columnTail FastpathSwitchportAllowedVlans oid \<noteq> None
            \<or> columnTail FastpathSwitchportTaggedVlans oid \<noteq> None \<or> columnTail FastpathSwitchportUntaggedVlans oid \<noteq> None)
       \<or> oid = SysName
       \<or> (case resolveVendorOids m of None \<Rightarrow> False
          | Some v \<Rightarrow> oid = vo_mgmt_addr v \<or> oid = vo_mgmt_netmask v \<or> oid = vo_mgmt_gateway v
              \<or> oid = vo_syslog_admin_mode v \<or> columnTail (vo_syslog_host_status v) oid \<noteq> None
              \<or> oid = vo_dhcp_mode v @ ''.0'')))"

end
