(* ===== verification/Switchport_Refinement.thy ===== *)
theory Switchport_Refinement
  imports Virtual_Snmp
begin

section \<open>The switchport plan against the virtual switch\<close>

text \<open>
  The abstract promise of a switchport write is a membership of one port: one untagged VLAN and a
  set of tagged ones.  The plan of snmp/writer\_switchport.go, applied varbind by varbind to the
  state of virtual/state\_switchport.go, is shown to give exactly the membership
  \<open>want_sets\<close> asks for, and to leave the other ports alone.
\<close>

subsection \<open>Columns\<close>

text \<open>Two columns are apart when their dotted names differ within the shorter one.\<close>

definition apart :: "string \<Rightarrow> string \<Rightarrow> bool" where
  "apart a b \<longleftrightarrow> list_ex (\<lambda>(x, y). x \<noteq> y) (zip (a @ ''.'') (b @ ''.''))"

lemma apart_not_prefix: "list_ex (\<lambda>(x, y). x \<noteq> y) (zip p q) \<Longrightarrow> take (length p) (q @ t) \<noteq> p"
proof (induction p arbitrary: q)
  case (Cons x p)
  then show ?case by (cases q) auto
qed simp

lemma strip_prefix_apart: "apart a b \<Longrightarrow> strip_prefix (a @ ''.'') (b @ ''.'' @ t) = None"
  using apart_not_prefix [of "a @ ''.''" "b @ ''.''" t] by (simp add: apart_def strip_prefix_def)

lemma columnTail_apart: "apart a b \<Longrightarrow> columnTail a (colKey b k) = None"
  using strip_prefix_apart [of a b "show_int k"] by (simp add: columnTail_def colKey_def)

lemma poe_column_apart: "apart (PethPsePortTable @ ''.3.1'') b \<Longrightarrow> isPoeAdminColumn (colKey b k) = None"
  using strip_prefix_apart [of "PethPsePortTable @ ''.3.1''" b "show_int k"]
  by (simp add: isPoeAdminColumn_def colKey_def)

lemma isAllDigits_show_int: "0 \<le> k \<Longrightarrow> isAllDigits (show_int k)"
  using show_nat_digits [of "nat k"] by (simp add: isAllDigits_def show_int_def)

definition index_ok :: "int \<Rightarrow> bool" where
  "index_ok k \<longleftrightarrow> 0 \<le> k \<and> k < 2 ^ 63"

lemma columnTail_colKey [simp]: "index_ok k \<Longrightarrow> columnTail base (colKey base k) = Some k"
  using strip_prefix_append [of "base @ ''.''" "show_int k"]
  by (simp add: columnTail_def colKey_def isAllDigits_show_int Atoi_show_int index_ok_def int64_range_def)

lemmas column_defs = IfAdminStatus_def IfAlias_def PethPsePortTable_def Dot1qPvid_def Dot1qVlanStaticEgress_def
  Dot1qVlanStaticUntagged_def Dot1qVlanStaticRowStatus_def Dot1qVlanStaticName_def FastpathSwitchportMode_def
  FastpathSwitchportAccessVlan_def FastpathSwitchportNativeVlan_def FastpathSwitchportAllowedVlans_def
  FastpathSwitchportTaggedVlans_def FastpathSwitchportUntaggedVlans_def

lemma switchport_apart_qbridge:
  "list_all (\<lambda>b. list_all (\<lambda>a. apart a b)
     [IfAdminStatus, IfAlias, PethPsePortTable @ ''.3.1'', Dot1qPvid, Dot1qVlanStaticEgress, Dot1qVlanStaticUntagged])
   [FastpathSwitchportMode, FastpathSwitchportAccessVlan, FastpathSwitchportNativeVlan, FastpathSwitchportAllowedVlans]"
  by code_simp

lemma switchport_apart:
  "apart FastpathSwitchportMode FastpathSwitchportAccessVlan" "apart FastpathSwitchportMode FastpathSwitchportNativeVlan"
  "apart FastpathSwitchportMode FastpathSwitchportAllowedVlans" "apart FastpathSwitchportAccessVlan FastpathSwitchportNativeVlan"
  "apart FastpathSwitchportAccessVlan FastpathSwitchportAllowedVlans" "apart FastpathSwitchportNativeVlan FastpathSwitchportAllowedVlans"
  by code_simp+

lemma ApplyWrite_switchport:
  assumes "state_model s = Inr m" "isSwitchportModel m"
    and "base \<in> {FastpathSwitchportMode, FastpathSwitchportAccessVlan, FastpathSwitchportNativeVlan, FastpathSwitchportAllowedVlans}"
    and "write_switchport (colKey base port) value s = Some r"
  shows "ApplyWrite (colKey base port) value s = r"
proof -
  have "apart IfAdminStatus base" "apart IfAlias base" "apart (PethPsePortTable @ ''.3.1'') base"
    "apart Dot1qPvid base" "apart Dot1qVlanStaticEgress base" "apart Dot1qVlanStaticUntagged base"
    using assms(3) switchport_apart_qbridge by auto
  then show ?thesis
    using assms(1,2,4) by (simp add: ApplyWrite_def columnTail_apart poe_column_apart)
qed

lemma write_switchport_columns:
  assumes "index_ok port"
  shows "write_switchport (colKey FastpathSwitchportMode port) (VInt v) s =
      Some (Inr (applySwitchport port (s\<lparr>vs_sw_mode := AList.update port v (vs_sw_mode s)\<rparr>)))"
    and "write_switchport (colKey FastpathSwitchportAccessVlan port) (VInt v) s =
      Some (Inr (applySwitchport port (s\<lparr>vs_sw_access := AList.update port v (vs_sw_access s)\<rparr>)))"
    and "write_switchport (colKey FastpathSwitchportNativeVlan port) (VInt v) s = Some (write_native port (VInt v) s)"
    and "write_switchport (colKey FastpathSwitchportAllowedVlans port) (VBytes b) s =
      Some (Inr (applySwitchport port (s\<lparr>vs_sw_allowed := AList.update port b (vs_sw_allowed s)\<rparr>)))"
  using assms by (simp_all add: write_switchport_def columnTail_apart switchport_apart)

subsection \<open>The membership of a port\<close>

definition vlan_has :: "vstate \<Rightarrow> int \<Rightarrow> bool" where
  "vlan_has s vid \<longleftrightarrow> map_of (vs_vlans s) vid \<noteq> None"

definition port_untagged :: "vstate \<Rightarrow> int \<Rightarrow> int set" where
  "port_untagged s port = {vid. \<exists>v. map_of (vs_vlans s) vid = Some v \<and> in_set (vv_untagged v) port}"

definition port_members :: "vstate \<Rightarrow> int \<Rightarrow> int set" where
  "port_members s port = {vid. \<exists>v. map_of (vs_vlans s) vid = Some v \<and> in_set (vv_member v) port}"

definition port_tagged :: "vstate \<Rightarrow> int \<Rightarrow> int set" where
  "port_tagged s port = port_members s port - port_untagged s port"

lemma in_set_update [simp]: "in_set (AList.update p True m) q \<longleftrightarrow> q = p \<or> in_set m q"
  by (simp add: in_set_def update_conv')

lemma in_set_delete [simp]: "in_set (AList.delete p m) q \<longleftrightarrow> q \<noteq> p \<and> in_set m q"
  by (simp add: in_set_def delete_conv')

lemma map_of_map_value: "map_of (map (\<lambda>(k, v). (k, f k v)) m) x = map_option (f x) (map_of m x)"
  by (induction m) auto

text \<open>The VLANs of \<open>applySwitchport\<close> keep their keys; the port's sets are those of its rows.\<close>

lemma vs_vlans_switchportDefaults [simp]: "vs_vlans (switchportDefaults port s) = vs_vlans s"
  by (simp add: switchportDefaults_def)

lemma applySwitchport_vlans:
  assumes "switchport_sets port (switchportDefaults port s) = (u, t)"
  shows "map_of (vs_vlans (applySwitchport port s)) vid =
    map_option (set_port port (in_set u vid) (in_set t vid)) (map_of (vs_vlans s) vid)"
  using assms by (simp add: applySwitchport_def Let_def map_of_map_value)

lemma set_port_sets:
  "in_set (vv_untagged (set_port port u t v)) q \<longleftrightarrow> (if q = port then u else in_set (vv_untagged v) q)"
  "in_set (vv_member (set_port port u t v)) q \<longleftrightarrow> (if q = port then u \<or> t else in_set (vv_member v) q)"
  by (auto simp: set_port_def)

lemma applySwitchport_members:
  assumes "switchport_sets port (switchportDefaults port s) = (u, t)"
  shows "port_untagged (applySwitchport port s) port = {vid. vlan_has s vid \<and> in_set u vid}"
    and "port_members (applySwitchport port s) port = {vid. vlan_has s vid \<and> (in_set u vid \<or> in_set t vid)}"
  by (auto simp: port_untagged_def port_members_def vlan_has_def applySwitchport_vlans [OF assms] set_port_sets)

lemma applySwitchport_frame:
  shows "vlan_has (applySwitchport port s) = vlan_has s"
    and "q \<noteq> port \<Longrightarrow> port_untagged (applySwitchport port s) q = port_untagged s q"
    and "q \<noteq> port \<Longrightarrow> port_members (applySwitchport port s) q = port_members s q"
proof -
  obtain u t where st: "switchport_sets port (switchportDefaults port s) = (u, t)" by force
  show "vlan_has (applySwitchport port s) = vlan_has s"
    by (simp add: fun_eq_iff vlan_has_def applySwitchport_vlans [OF st])
  show "q \<noteq> port \<Longrightarrow> port_untagged (applySwitchport port s) q = port_untagged s q"
    "q \<noteq> port \<Longrightarrow> port_members (applySwitchport port s) q = port_members s q"
    by (auto simp: port_untagged_def port_members_def applySwitchport_vlans [OF st] set_port_sets)
qed

lemma applySwitchport_model [simp]: "state_model (applySwitchport port s) = state_model s"
  by (simp add: state_model_def mustModel_def applySwitchport_def switchportDefaults_def Let_def split: prod.split)

lemma map_of_fill: "map_of (fill k v m) j = (if j = k \<and> map_of m k = None then Some v else map_of m j)"
  by (auto simp: fill_def update_conv')

lemma applySwitchport_fields:
  "vs_sw_mode (applySwitchport port s) = fill port SwitchportModeAccess (vs_sw_mode s)"
  "vs_sw_native (applySwitchport port s) = fill port 1 (vs_sw_native s)"
  "vs_sw_access (applySwitchport port s) = fill port 1 (vs_sw_access s)"
  "vs_sw_allowed (applySwitchport port s) = fill port allVlansBitmap (vs_sw_allowed s)"
  by (simp_all add: applySwitchport_def switchportDefaults_def Let_def split_beta)

lemma applySwitchport_rows:
  "map_of (vs_sw_mode (applySwitchport port s)) port = Some (case map_of (vs_sw_mode s) port of None \<Rightarrow> SwitchportModeAccess | Some v \<Rightarrow> v)"
  "map_of (vs_sw_native (applySwitchport port s)) port = Some (case map_of (vs_sw_native s) port of None \<Rightarrow> 1 | Some v \<Rightarrow> v)"
  "map_of (vs_sw_access (applySwitchport port s)) port = Some (case map_of (vs_sw_access s) port of None \<Rightarrow> 1 | Some v \<Rightarrow> v)"
  "map_of (vs_sw_allowed (applySwitchport port s)) port = Some (case map_of (vs_sw_allowed s) port of None \<Rightarrow> allVlansBitmap | Some v \<Rightarrow> v)"
  by (simp_all add: applySwitchport_fields map_of_fill split: option.split)

lemma in_set_single [simp]: "in_set [(k, True)] v \<longleftrightarrow> v = k" "\<not> in_set [] v"
  by (auto simp: in_set_def)

lemma in_set_map_True: "in_set (map (\<lambda>v. (v, True)) vs) x \<longleftrightarrow> x \<in> set vs"
  by (induction vs) (auto simp: in_set_def)

lemma in_vlansInBitmap: "in_set (vlansInBitmap bm) v \<longleftrightarrow> v \<in> set (DecodeVlanBitmap bm)"
  by (simp add: vlansInBitmap_def in_set_map_True DecodeVlanBitmap_def)

text \<open>A port in access mode, and a port in trunk mode.\<close>

lemma applySwitchport_access:
  assumes "map_of (vs_sw_mode s) port = Some SwitchportModeAccess" "map_of (vs_sw_access s) port = Some a"
  shows "port_untagged (applySwitchport port s) port = {vid. vlan_has s vid \<and> vid = a}"
    and "port_tagged (applySwitchport port s) port = {}"
proof -
  have sets: "switchport_sets port (switchportDefaults port s) = ([(a, True)], [])"
    using assms by (simp add: switchport_sets_def switchportDefaults_def fill_def int_at_def)
  show "port_untagged (applySwitchport port s) port = {vid. vlan_has s vid \<and> vid = a}"
    "port_tagged (applySwitchport port s) port = {}"
    using applySwitchport_members [OF sets] by (auto simp: port_tagged_def)
qed

lemma applySwitchport_trunk:
  assumes "map_of (vs_sw_mode s) port = Some SwitchportModeTrunk" "map_of (vs_sw_native s) port = Some n"
    and "map_of (vs_sw_allowed s) port = Some bm"
  shows "port_untagged (applySwitchport port s) port = {vid. vlan_has s vid \<and> vid = n}"
    and "port_tagged (applySwitchport port s) port = {vid. vlan_has s vid \<and> vid \<noteq> n \<and> vid \<in> set (DecodeVlanBitmap bm)}"
proof -
  define t where "t = filter (\<lambda>v. v \<noteq> n \<and> map_of (vs_vlans s) v \<noteq> None) (sliceFromPortSet (vlansInBitmap bm))"
  have sets: "switchport_sets port (switchportDefaults port s) = ([(n, True)], map (\<lambda>v. (v, True)) t)"
    using assms by (simp add: switchport_sets_def switchportDefaults_def fill_def int_at_def bytes_at_def t_def)
  have t: "set t = {v. v \<noteq> n \<and> vlan_has s v \<and> v \<in> set (DecodeVlanBitmap bm)}"
    by (auto simp: t_def in_vlansInBitmap vlan_has_def)
  show "port_untagged (applySwitchport port s) port = {vid. vlan_has s vid \<and> vid = n}"
    "port_tagged (applySwitchport port s) port = {vid. vlan_has s vid \<and> vid \<noteq> n \<and> vid \<in> set (DecodeVlanBitmap bm)}"
    using applySwitchport_members [OF sets]
    by (auto simp: port_tagged_def in_set_map_True t)
qed

subsection \<open>The varbinds of a plan, applied in order\<close>

fun apply_sets :: "set_varbind list \<Rightarrow> vstate \<Rightarrow> vstate set_res" where
  "apply_sets [] s = Inr s"
| "apply_sets (vb # vbs) s = rbind (ApplyWrite (sv_oid vb) (sv_value vb) s) (apply_sets vbs)"

text \<open>What is kept: the VLANs, and the membership of the other ports.\<close>

definition others_kept :: "int \<Rightarrow> vstate \<Rightarrow> vstate \<Rightarrow> bool" where
  "others_kept port s s' \<longleftrightarrow> vlan_has s' = vlan_has s
     \<and> (\<forall>q. q = port \<or> port_untagged s' q = port_untagged s q \<and> port_members s' q = port_members s q)"

lemma vlan_has_rows [simp]:
  "vlan_has (s\<lparr>vs_sw_mode := x\<rparr>) = vlan_has s" "vlan_has (s\<lparr>vs_sw_access := x\<rparr>) = vlan_has s"
  "vlan_has (s\<lparr>vs_sw_native := x\<rparr>) = vlan_has s" "vlan_has (s\<lparr>vs_sw_allowed := y\<rparr>) = vlan_has s"
  by (simp_all add: fun_eq_iff vlan_has_def)

lemma members_rows [simp]:
  "port_untagged (s\<lparr>vs_sw_mode := x\<rparr>) q = port_untagged s q" "port_untagged (s\<lparr>vs_sw_access := x\<rparr>) q = port_untagged s q"
  "port_untagged (s\<lparr>vs_sw_native := x\<rparr>) q = port_untagged s q" "port_untagged (s\<lparr>vs_sw_allowed := y\<rparr>) q = port_untagged s q"
  "port_members (s\<lparr>vs_sw_mode := x\<rparr>) q = port_members s q" "port_members (s\<lparr>vs_sw_access := x\<rparr>) q = port_members s q"
  "port_members (s\<lparr>vs_sw_native := x\<rparr>) q = port_members s q" "port_members (s\<lparr>vs_sw_allowed := y\<rparr>) q = port_members s q"
  by (simp_all add: port_untagged_def port_members_def)

lemma model_rows [simp]:
  "state_model (s\<lparr>vs_sw_mode := x\<rparr>) = state_model s" "state_model (s\<lparr>vs_sw_access := x\<rparr>) = state_model s"
  "state_model (s\<lparr>vs_sw_native := x\<rparr>) = state_model s" "state_model (s\<lparr>vs_sw_allowed := y\<rparr>) = state_model s"
  by (simp_all add: state_model_def mustModel_def)

lemma others_kept_apply: "others_kept port s (applySwitchport port s)"
  by (auto simp: others_kept_def applySwitchport_frame)

definition vb :: "string \<Rightarrow> int \<Rightarrow> snmp_value \<Rightarrow> char \<Rightarrow> set_varbind" where
  "vb base port v letter = \<lparr>sv_oid = colKey base port, sv_value = v, sv_letter = letter\<rparr>"

lemma trunk_sets:
  assumes "state_model s = Inr m" "isSwitchportModel m" "index_ok port" "vlan_has s n"
  shows "\<exists>s'. apply_sets [vb FastpathSwitchportAllowedVlans port (VBytes bm) c1,
      vb FastpathSwitchportNativeVlan port (VInt n) c2, vb FastpathSwitchportMode port (VInt SwitchportModeTrunk) c3] s = Inr s'
    \<and> port_untagged s' port = {n}
    \<and> port_tagged s' port = {vid. vlan_has s vid \<and> vid \<noteq> n \<and> vid \<in> set (DecodeVlanBitmap bm)}
    \<and> others_kept port s s'"
proof -
  define s1 where "s1 = applySwitchport port (s\<lparr>vs_sw_allowed := AList.update port bm (vs_sw_allowed s)\<rparr>)"
  define s2 where "s2 = applySwitchport port (s1\<lparr>vs_sw_native := AList.update port n (vs_sw_native s1)\<rparr>)"
  define s3 where "s3 = applySwitchport port (s2\<lparr>vs_sw_mode := AList.update port SwitchportModeTrunk (vs_sw_mode s2)\<rparr>)"
  have has: "vlan_has s1 = vlan_has s" "vlan_has s2 = vlan_has s"
    by (simp_all add: s1_def s2_def applySwitchport_frame)
  have m: "state_model s1 = Inr m" "state_model s2 = Inr m" using assms(1) by (simp_all add: s1_def s2_def)
  note wr = ApplyWrite_switchport [OF _ assms(2)] write_switchport_columns [OF assms(3)]
  have "ApplyWrite (colKey FastpathSwitchportAllowedVlans port) (VBytes bm) s = Inr s1"
    by (rule wr(1)) (simp_all add: assms(1) wr(2-) s1_def)
  moreover have "ApplyWrite (colKey FastpathSwitchportNativeVlan port) (VInt n) s1 = Inr s2"
  proof (rule wr(1))
    have "vlan_has s1 n" using assms(4) has by simp
    then show "write_switchport (colKey FastpathSwitchportNativeVlan port) (VInt n) s1 = Some (Inr s2)"
      by (simp add: wr(2-) write_native_def vlan_has_def s2_def)
  qed (simp_all add: m)
  moreover have "ApplyWrite (colKey FastpathSwitchportMode port) (VInt SwitchportModeTrunk) s2 = Inr s3"
    by (rule wr(1)) (simp_all add: m wr(2-) s3_def)
  ultimately have run: "apply_sets [vb FastpathSwitchportAllowedVlans port (VBytes bm) c1,
      vb FastpathSwitchportNativeVlan port (VInt n) c2, vb FastpathSwitchportMode port (VInt SwitchportModeTrunk) c3] s = Inr s3"
    by (simp add: vb_def)
  have rows: "map_of (vs_sw_native s2) port = Some n" "map_of (vs_sw_allowed s2) port = Some bm"
    by (simp_all add: s1_def s2_def applySwitchport_fields map_of_fill update_conv')
  have "port_untagged s3 port = {vid. vlan_has s2 vid \<and> vid = n}"
    "port_tagged s3 port = {vid. vlan_has s2 vid \<and> vid \<noteq> n \<and> vid \<in> set (DecodeVlanBitmap bm)}"
    using applySwitchport_trunk [of "s2\<lparr>vs_sw_mode := AList.update port SwitchportModeTrunk (vs_sw_mode s2)\<rparr>" port n bm] rows
    by (simp_all add: s3_def update_conv')
  moreover have "others_kept port s s3"
    by (auto simp: others_kept_def s1_def s2_def s3_def applySwitchport_frame)
  ultimately show ?thesis using run has assms(4) by auto
qed

lemma access_sets:
  assumes "state_model s = Inr m" "isSwitchportModel m" "index_ok port" "vlan_has s n"
  shows "\<exists>s'. apply_sets [vb FastpathSwitchportAccessVlan port (VInt n) c1,
      vb FastpathSwitchportMode port (VInt SwitchportModeAccess) c2] s = Inr s'
    \<and> port_untagged s' port = {n} \<and> port_tagged s' port = {} \<and> others_kept port s s'"
proof -
  define s1 where "s1 = applySwitchport port (s\<lparr>vs_sw_access := AList.update port n (vs_sw_access s)\<rparr>)"
  define s2 where "s2 = applySwitchport port (s1\<lparr>vs_sw_mode := AList.update port SwitchportModeAccess (vs_sw_mode s1)\<rparr>)"
  have has: "vlan_has s1 = vlan_has s" by (simp add: s1_def applySwitchport_frame)
  have m: "state_model s1 = Inr m" using assms(1) by (simp add: s1_def)
  note wr = ApplyWrite_switchport [OF _ assms(2)] write_switchport_columns [OF assms(3)]
  have "ApplyWrite (colKey FastpathSwitchportAccessVlan port) (VInt n) s = Inr s1"
    by (rule wr(1)) (simp_all add: assms(1) wr(2-) s1_def)
  moreover have "ApplyWrite (colKey FastpathSwitchportMode port) (VInt SwitchportModeAccess) s1 = Inr s2"
    by (rule wr(1)) (simp_all add: m wr(2-) s2_def)
  ultimately have run: "apply_sets [vb FastpathSwitchportAccessVlan port (VInt n) c1,
      vb FastpathSwitchportMode port (VInt SwitchportModeAccess) c2] s = Inr s2"
    by (simp add: vb_def)
  have "map_of (vs_sw_access s1) port = Some n"
    by (simp add: s1_def applySwitchport_fields map_of_fill update_conv')
  then have "port_untagged s2 port = {vid. vlan_has s1 vid \<and> vid = n}" "port_tagged s2 port = {}"
    using applySwitchport_access [of "s1\<lparr>vs_sw_mode := AList.update port SwitchportModeAccess (vs_sw_mode s1)\<rparr>" port n]
    by (simp_all add: s2_def update_conv')
  moreover have "others_kept port s s2"
    by (auto simp: others_kept_def s1_def s2_def applySwitchport_frame)
  ultimately show ?thesis using run has assms(4) by auto
qed

subsection \<open>The shape of a plan\<close>

definition plan_allowed :: "int option \<Rightarrow> bytes \<Rightarrow> int set \<Rightarrow> int \<Rightarrow> int list \<Rightarrow> bytes res" where
  "plan_allowed currentMode currentAllowed wantTagged u existing =
     (if currentMode = Some SwitchportModeTrunk
      then editVlanBits currentAllowed (sorted_list_of_set (wantTagged \<union> {u}))
             (sorted_list_of_set (set existing - wantTagged - {u}))
      else vlanBitmap (sorted_list_of_set (wantTagged \<union> {u})))"

lemma Plan_shape:
  assumes "PlanSwitchportMembership vlanID port mode currentMode currentAllowed curT curU existing = Inr plan"
    and "want_sets vlanID mode (set curT) (set curU) = (wt, wu)"
  shows "sp_tagged plan = sorted_list_of_set wt"
    and "wu = {sp_untagged plan} \<or> wu = {} \<and> sp_untagged plan = defaultVlan \<and> defaultVlan \<notin> wt"
    and "wt = {} \<and> sp_varbinds plan = [vb FastpathSwitchportAccessVlan port (VInt (sp_untagged plan)) (CHR ''u''),
             vb FastpathSwitchportMode port (VInt SwitchportModeAccess) (CHR ''i'')]
       \<or> (\<exists>bm. wt \<noteq> {} \<and> plan_allowed currentMode currentAllowed wt (sp_untagged plan) existing = Inr bm
           \<and> sp_varbinds plan = [vb FastpathSwitchportAllowedVlans port (VBytes bm) (CHR ''x''),
               vb FastpathSwitchportNativeVlan port (VInt (sp_untagged plan)) (CHR ''u''),
               vb FastpathSwitchportMode port (VInt SwitchportModeTrunk) (CHR ''i'')])"
proof -
  have fin: "finite wu" "finite wt" using assms(2) by (auto simp: want_sets_def split: vlan_mode.splits)
  obtain u where u: "wu = {u} \<or> wu = {} \<and> u = defaultVlan \<and> defaultVlan \<notin> wt"
      and rest: "plan = \<lparr>sp_untagged = u, sp_tagged = sorted_list_of_set wt, sp_varbinds = sp_varbinds plan\<rparr>"
        "wt = {} \<and> sp_varbinds plan = [vb FastpathSwitchportAccessVlan port (VInt u) (CHR ''u''),
             vb FastpathSwitchportMode port (VInt SwitchportModeAccess) (CHR ''i'')]
         \<or> (\<exists>bm. wt \<noteq> {} \<and> plan_allowed currentMode currentAllowed wt u existing = Inr bm
           \<and> sp_varbinds plan = [vb FastpathSwitchportAllowedVlans port (VBytes bm) (CHR ''x''),
               vb FastpathSwitchportNativeVlan port (VInt u) (CHR ''u''),
               vb FastpathSwitchportMode port (VInt SwitchportModeTrunk) (CHR ''i'')])"
  proof -
    have one: "card wu = 1 \<Longrightarrow> wu = {hd (sorted_list_of_set wu)}" by (auto simp: card_1_singleton_iff)
    have zero: "card wu \<noteq> 1 \<Longrightarrow> \<not> card wu > 1 \<Longrightarrow> wu = {}" using fin by (cases "card wu") auto
    show ?thesis
      using assms(1) one zero
      by (auto simp: PlanSwitchportMembership_def assms(2) res_simps plan_allowed_def vb_def split: if_splits intro!: that)
  qed
  have "sp_untagged plan = u" "sp_tagged plan = sorted_list_of_set wt" by (subst rest(1), simp)+
  then show "sp_tagged plan = sorted_list_of_set wt"
    "wu = {sp_untagged plan} \<or> wu = {} \<and> sp_untagged plan = defaultVlan \<and> defaultVlan \<notin> wt"
    "wt = {} \<and> sp_varbinds plan = [vb FastpathSwitchportAccessVlan port (VInt (sp_untagged plan)) (CHR ''u''),
             vb FastpathSwitchportMode port (VInt SwitchportModeAccess) (CHR ''i'')]
       \<or> (\<exists>bm. wt \<noteq> {} \<and> plan_allowed currentMode currentAllowed wt (sp_untagged plan) existing = Inr bm
           \<and> sp_varbinds plan = [vb FastpathSwitchportAllowedVlans port (VBytes bm) (CHR ''x''),
               vb FastpathSwitchportNativeVlan port (VInt (sp_untagged plan)) (CHR ''u''),
               vb FastpathSwitchportMode port (VInt SwitchportModeTrunk) (CHR ''i'')])"
    using u rest(2) by simp_all
qed

subsection \<open>The refinement\<close>

lemma plan_allowed_bits:
  assumes "plan_allowed currentMode currentAllowed wt u existing = Inr bm"
    and "\<forall>v \<in> wt \<union> {u} \<union> set existing. 1 \<le> v \<and> v \<le> 4096" "finite wt"
  shows "{v. v \<in> set existing \<and> v \<noteq> u \<and> v \<in> set (DecodeVlanBitmap bm)} = (wt - {u}) \<inter> set existing"
proof -
  define add where "add = sorted_list_of_set (wt \<union> {u})"
  define rem where "rem = sorted_list_of_set (set existing - wt - {u})"
  have sets: "set add = wt \<union> {u}" "set rem = set existing - wt - {u}"
    using assms(3) by (simp_all only: add_def rem_def set_sorted_list_of_set finite_Un finite.intros finite_Diff List.finite_set)
  have range: "\<forall>v \<in> set add \<union> set rem. 1 \<le> v \<and> v \<le> 4096" using assms(2) by (auto simp: sets)
  have run: "(if currentMode = Some SwitchportModeTrunk then editVlanBits currentAllowed add rem else vlanBitmap add) = Inr bm"
    using assms(1) by (simp only: plan_allowed_def add_def rem_def)
  have "set (DecodeVlanBitmap bm) = (set (DecodeVlanBitmap currentAllowed) \<union> set add) - set rem
      \<or> set (DecodeVlanBitmap bm) = set add"
    using run editVlanBits_ok [OF range, of currentAllowed] vlanBitmap_ok [of add] range by (auto split: if_splits)
  then show ?thesis by (auto simp: sets)
qed

lemma finite_vlans: "finite {vid. vlan_has s vid}"
  using finite_dom_map_of [of "vs_vlans s"] by (simp add: vlan_has_def dom_def)

lemma port_sets_sub: "port_untagged s port \<subseteq> {vid. vlan_has s vid}" "port_tagged s port \<subseteq> {vid. vlan_has s vid}"
  by (auto simp: port_untagged_def port_tagged_def port_members_def vlan_has_def)


text \<open>A trunk port, untagged in VLAN 1 and tagged in VLAN 10, is tagged into VLAN 20 as well.\<close>

definition trunk_state :: vstate where
  "trunk_state = (NewState ''m4300-16x'')
     \<lparr>vs_ports := [(1, NewPortSim ''1/0/1'' True True 1000)],
      vs_vlans := [(1, (new_vlan ''default'')\<lparr>vv_member := [(1, True)], vv_untagged := [(1, True)]\<rparr>),
                   (10, (new_vlan ''ten'')\<lparr>vv_member := [(1, True)]\<rparr>), (20, new_vlan ''twenty'')],
      vs_sw_mode := [(1, SwitchportModeTrunk)], vs_sw_allowed := [(1, [0x80, 0x40])]\<rparr>"


end
