(* ===== verification/Virtual_Oidmap.thy ===== *)
theory Virtual_Oidmap
  imports Virtual_Snmp
begin

section \<open>The object tree of the virtual switch (virtual/state\_oidmap.go)\<close>

text \<open>
  \<^verbatim>\<open>OIDMap\<close> projects the state onto identifiers, each with a type token and a value.  The map it
  fills is an association list keyed by the identifier's text; the rows of one kind of object are a
  definition of their own, in the order of the code.  A Go map ranges over its keys in no fixed
  order; the keys written for different entries differ, so any order gives the same map, and the
  model takes the sorted one.
\<close>

record oid_entry =
  oe_type :: string
  oe_value :: string

type_synonym oid_map = "(string \<times> oid_entry) list"

definition entry :: "string \<Rightarrow> string \<Rightarrow> oid_entry" where
  "entry snmpType value = \<lparr>oe_type = snmpType, oe_value = value\<rparr>"

definition boolToStatus :: "bool \<Rightarrow> string" where
  "boolToStatus b = (if b then ''1'' else ''2'')"

definition Configured :: "vlan_sim \<Rightarrow> bool gomap" where
  "Configured v = map (\<lambda>k. (k, True)) (sort_uniq (map fst (vv_member v) @ map fst (vv_configured_only v)))"

text \<open>A list of pieces each of which may panic.\<close>

fun collect :: "('e + 'a list) list \<Rightarrow> 'e + 'a list" where
  "collect [] = Inr []"
| "collect (r # rs) = rbind r (\<lambda>x. rbind (collect rs) (\<lambda>xs. Inr (x @ xs)))"

lemma collect_ok: "\<forall>x \<in> set xs. f x = Inr (g x) \<Longrightarrow> collect (map f xs) = Inr (concat (map g xs))"
  by (induction xs) auto

lemma collect_append: "collect (xs @ ys) = rbind (collect xs) (\<lambda>a. rbind (collect ys) (\<lambda>b. Inr (a @ b)))"
  by (induction xs) (auto simp: rbind_def split: sum.splits)

subsection \<open>Identity\<close>

definition base_mac_wire :: "vstate \<Rightarrow> string" where
  "base_mac_wire s =
     (if vs_base_mac_ascii s then Join (map (\<lambda>b. ToUpper (hex_pad 2 (unat b))) (vs_mac s)) '':'' else string_of (vs_mac s))"

definition system_rows :: "switch_model \<Rightarrow> vendor_oids option \<Rightarrow> vstate \<Rightarrow> oid_map" where
  "system_rows m v s =
     [(Dot1dBaseBridgeAddress @ ''.0'', entry ''OCTETSTR'' (base_mac_wire s)),
      (SysDescr, entry ''OCTETSTR'' (if vs_sys_descr s = [] then ''Netgear '' @ sm_display_name m else vs_sys_descr s)),
      (SysObjectID, entry ''OID'' (if vs_sys_object_id s = []
         then (case v of None \<Rightarrow> ''1.3.6.1.2.1'' | Some ven \<Rightarrow> vo_base ven @ ''.1'') else vs_sys_object_id s)),
      (SysName, entry ''OCTETSTR'' (vs_hostname s))]"

subsection \<open>Ports\<close>

definition counter_row :: "string \<Rightarrow> string \<Rightarrow> int \<Rightarrow> u64 option \<Rightarrow> oid_map" where
  "counter_row base typ port val =
     (case val of None \<Rightarrow> [] | Some n \<Rightarrow> [(colKey base port, entry typ (show_nat (unat n)))])"

definition port_rows :: "int \<times> port_sim \<Rightarrow> oid_map" where
  "port_rows = (\<lambda>(port, sim).
     [(colKey IfAdminStatus port, entry ''INTEGER'' (boolToStatus (vp_admin sim))),
      (colKey IfOperStatus port, entry ''INTEGER'' (boolToStatus (vp_link sim))),
      (colKey IfHighSpeed port, entry ''Gauge32'' (show_int (vp_speed sim))),
      (colKey IfType port, entry ''INTEGER'' (show_int (vp_if_type sim))),
      (colKey IfName port, entry ''OCTETSTR'' (vp_name sim))]
     @ (case vp_description sim of None \<Rightarrow> [] | Some d \<Rightarrow> [(colKey IfAlias port, entry ''OCTETSTR'' d)])
     @ (if vp_serves_etherlike sim
        then [(colKey Dot3StatsDuplexStatus port, entry ''INTEGER'' (if vp_link sim then ''3'' else ''1'')),
              (colKey Dot3PauseOperMode port, entry ''INTEGER'' (if vp_flow_control sim then ''4'' else ''1'')),
              (colKey Dot3PauseAdminMode port, entry ''INTEGER'' (if vp_flow_control sim then ''4'' else ''1''))]
        else [])
     @ counter_row IfHCInOctets ''Counter64'' port (vp_rx_octets sim)
     @ counter_row IfHCOutOctets ''Counter64'' port (vp_tx_octets sim)
     @ counter_row IfHCInUcast ''Counter64'' port (vp_rx_ucast sim)
     @ counter_row IfHCOutUcast ''Counter64'' port (vp_tx_ucast sim)
     @ counter_row IfInErrors ''Counter32'' port (vp_rx_errors sim)
     @ counter_row IfOutErrors ''Counter32'' port (vp_tx_errors sim))"

text \<open>The rows of the switchport table, of a state whose rows are filled in.\<close>

definition switchport_rows :: "vstate \<Rightarrow> int \<Rightarrow> oid_map set_res" where
  "switchport_rows s port =
     rbind (vlanBitmapBytes (set_at (vs_sw_general_tagged s) port)) (\<lambda>tagged.
     rbind (vlanBitmapBytes (set_at (vs_sw_general_untagged s) port)) (\<lambda>untagged.
     Inr [(colKey FastpathSwitchportMode port, entry ''INTEGER'' (show_int (int_at (vs_sw_mode s) port))),
          (colKey FastpathSwitchportAccessVlan port, entry ''Gauge32'' (show_int (int_at (vs_sw_access s) port))),
          (colKey FastpathSwitchportNativeVlan port, entry ''Gauge32'' (show_int (int_at (vs_sw_native s) port))),
          (colKey FastpathSwitchportAllowedVlans port, entry ''OCTETSTR'' (string_of (bytes_at (vs_sw_allowed s) port))),
          (colKey FastpathSwitchportTaggedVlans port, entry ''OCTETSTR'' (string_of tagged)),
          (colKey FastpathSwitchportUntaggedVlans port, entry ''OCTETSTR'' (string_of untagged))]))"

subsection \<open>VLANs, PVIDs and PoE\<close>

definition port_list :: "nat \<Rightarrow> bool gomap \<Rightarrow> string set_res" where
  "port_list width ports =
     rbind (panic_res (EncodePortBitmap (sliceFromPortSet ports) width)) (\<lambda>b. Inr (string_of b))"

text \<open>The identifier of a row of the current VLAN table, at time mark 0.\<close>

definition currentKey :: "string \<Rightarrow> int \<Rightarrow> string" where
  "currentKey base vid = base @ ''.0.'' @ show_int vid"

definition vlan_rows :: "nat \<Rightarrow> int \<times> vlan_sim \<Rightarrow> oid_map set_res" where
  "vlan_rows width = (\<lambda>(vid, v).
     rbind (port_list width (vv_member v)) (\<lambda>member.
     rbind (port_list width (vv_untagged v)) (\<lambda>untagged.
     rbind (if vv_no_static_row v then Inr []
            else rbind (port_list width (Configured v)) (\<lambda>configured.
              Inr [(colKey Dot1qVlanStaticName vid, entry ''OCTETSTR'' (vv_name v)),
                   (colKey Dot1qVlanStaticEgress vid, entry ''OCTETSTR'' configured),
                   (colKey Dot1qVlanStaticUntagged vid, entry ''OCTETSTR'' untagged)])) (\<lambda>static.
     Inr ([(currentKey Dot1qVlanCurrentEgress vid, entry ''OCTETSTR'' member),
           (currentKey Dot1qVlanCurrentUntagged vid, entry ''OCTETSTR'' untagged),
           (currentKey Dot1qVlanStatus vid, entry ''INTEGER'' (if vv_no_static_row v then ''1'' else ''2''))] @ static)))))"

definition pvid_row :: "int \<times> int \<Rightarrow> string \<times> oid_entry" where
  "pvid_row = (\<lambda>(port, pv). (colKey Dot1qPvid port, entry ''Gauge32'' (show_int pv)))"

definition poe_rows_of :: "vendor_oids option \<Rightarrow> int \<times> poe_sim \<Rightarrow> oid_map" where
  "poe_rows_of v = (\<lambda>(port, psim).
     [(PethPsePortTable @ ''.3.1.'' @ show_int port, entry ''INTEGER'' (boolToStatus (vq_admin psim))),
      (PethPsePortTable @ ''.6.1.'' @ show_int port, entry ''INTEGER'' (show_int (vq_detect psim)))]
     @ (case v of None \<Rightarrow> []
        | Some ven \<Rightarrow> [(vo_poe_power_mw ven @ ''.1.'' @ show_int port, entry ''Gauge32'' (show_int (vq_power_mw psim)))]))"

subsection \<open>Sensors, inventory, forwarding and neighbours\<close>

definition sensor_base :: "vendor_oids \<Rightarrow> string \<Rightarrow> string set_res" where
  "sensor_base v kind =
     (if kind = ''fan'' then Inr (vo_box_fan v)
      else if kind = ''power'' then Inr (vo_box_psu_power v)
      else if kind = ''temperature'' then Inr (vo_box_temp v)
      else Inl OtherPanic)"

definition sensor_row :: "vendor_oids \<Rightarrow> sensor_sim \<Rightarrow> oid_map set_res" where
  "sensor_row v sim =
     rbind (sensor_base v (vn_kind sim)) (\<lambda>base.
     Inr [(base @ ''.'' @ vn_instance sim, entry ''OCTETSTR'' (vn_raw sim))])"

definition entity_rows :: "entity_sim \<Rightarrow> oid_map" where
  "entity_rows ent =
     [(colKey EntPhysicalClass (ve_index ent), entry ''INTEGER'' (show_int (ve_class ent))),
      (colKey EntPhysicalName (ve_index ent), entry ''OCTETSTR'' (ve_name ent)),
      (colKey EntPhysicalDescr (ve_index ent), entry ''OCTETSTR'' (ve_descr ent))]"

definition mac_row :: "mac_sim \<Rightarrow> string \<times> oid_entry" where
  "mac_row sim =
     (Dot1qTpFdbPort @ ''.'' @ show_int (va_vlan sim) @ ''.'' @ Join (map (\<lambda>b. show_nat (unat b)) (va_mac sim)) ''.'',
      entry ''INTEGER'' (show_int (va_bridge_port sim)))"

definition bridge_row :: "int \<times> int \<Rightarrow> string \<times> oid_entry" where
  "bridge_row = (\<lambda>(bridgePort, ifindex). (colKey Dot1dBasePortIfIndex bridgePort, entry ''INTEGER'' (show_int ifindex)))"

definition lldp_rows :: "lldp_sim \<Rightarrow> oid_map" where
  "lldp_rows nb =
     (let idx = show_int (vl_time_mark nb) @ ''.'' @ show_int (vl_local_port nb) @ ''.'' @ show_int (vl_rem_idx nb) in
      [(LldpRemTable @ ''.1.5.'' @ idx, entry ''OCTETSTR'' (vl_chassis nb)),
       (LldpRemTable @ ''.1.7.'' @ idx, entry ''OCTETSTR'' (vl_port_id nb)),
       (LldpRemTable @ ''.1.8.'' @ idx, entry ''OCTETSTR'' (vl_port_desc nb)),
       (LldpRemTable @ ''.1.9.'' @ idx, entry ''OCTETSTR'' (vl_sys_name nb))])"

subsection \<open>Management address and remote logging\<close>

definition mgmt_rows :: "vendor_oids option \<Rightarrow> mgmt_sim \<Rightarrow> oid_map" where
  "mgmt_rows v mg =
     [(IPAdEntAddr @ ''.'' @ vm_address mg, entry ''IPADDR'' (vm_address mg)),
      (IPAdEntNetmask @ ''.'' @ vm_address mg, entry ''IPADDR'' (vm_netmask mg)),
      (IPRouteDest @ ''.0.0.0.0'', entry ''IPADDR'' ''0.0.0.0''),
      (IPRouteNextHop @ ''.0.0.0.0'', entry ''IPADDR'' (vm_gateway mg))]
     @ (case v of None \<Rightarrow> []
        | Some ven \<Rightarrow> [(vo_dhcp_mode ven @ ''.0'', entry ''INTEGER'' (if vm_mode mg = ''static'' then ''2'' else ''1''))])"

definition collector_rows :: "vendor_oids \<Rightarrow> collector_sim \<Rightarrow> oid_map" where
  "collector_rows v col =
     [(vo_base v @ ''.14.1.4.5.1.2.'' @ show_int (vc_index col), entry ''INTEGER'' ''1''),
      (colKey (vo_syslog_host_addr v) (vc_index col), entry ''OCTETSTR'' (vc_host col)),
      (colKey (vo_syslog_host_port v) (vc_index col), entry ''Gauge32'' (show_int (vc_port col))),
      (colKey (vo_syslog_host_severity v) (vc_index col), entry ''INTEGER'' (show_int (vc_severity col))),
      (colKey (vo_syslog_host_status v) (vc_index col), entry ''INTEGER'' (show_int (vc_status col)))]"

definition syslog_rows :: "vendor_oids option \<Rightarrow> syslog_sim \<Rightarrow> oid_map" where
  "syslog_rows v y =
     (case v of None \<Rightarrow> []
      | Some ven \<Rightarrow>
          [(vo_syslog_admin_mode ven, entry ''INTEGER'' (show_int (vy_admin_mode y))),
           (vo_syslog_local_port ven, entry ''Gauge32'' (show_int (vy_local_port y)))]
          @ concat (map (collector_rows ven) (vy_collectors y)))"

subsection \<open>The map\<close>

definition portlist_width :: "switch_model \<Rightarrow> vstate \<Rightarrow> nat" where
  "portlist_width m s = (case vs_portlist_width s of None \<Rightarrow> VlanBitmapWidth (sm_port_count m) | Some w \<Rightarrow> w)"

text \<open>Every row written, in the order of the code, and the state with its switchport rows filled in.\<close>

definition oid_rows :: "vstate \<Rightarrow> (oid_map \<times> vstate) set_res" where
  "oid_rows s =
     rbind (state_model s) (\<lambda>m.
     let v = resolveVendorOids m; s' = (if isSwitchportModel m then all_defaults s else s) in
     rbind (if isSwitchportModel m then collect (map (switchport_rows s') (sorted_keys (vs_ports s'))) else Inr []) (\<lambda>switchport.
     rbind (collect (map (vlan_rows (portlist_width m s')) (sorted_items (vs_vlans s')))) (\<lambda>vlans.
     rbind (case v of None \<Rightarrow> Inr [] | Some ven \<Rightarrow> collect (map (sensor_row ven) (vs_sensors s'))) (\<lambda>sensors.
     Inr (system_rows m v s' @ concat (map port_rows (sorted_items (vs_ports s'))) @ switchport @ vlans
          @ map pvid_row (sorted_items (vs_pvids s')) @ concat (map (poe_rows_of v) (sorted_items (vs_poe s'))) @ sensors
          @ concat (map entity_rows (vs_entities s')) @ map mac_row (vs_macs s')
          @ map bridge_row (sorted_items (vs_bridge_ports s')) @ concat (map lldp_rows (vs_lldp s'))
          @ mgmt_rows v (vs_mgmt s') @ syslog_rows v (vs_syslog s'),
          s')))))"

definition fill_map :: "oid_map \<Rightarrow> oid_map" where
  "fill_map rows = fold (\<lambda>(k, e). AList.update k e) rows []"

definition OIDMap :: "vstate \<Rightarrow> (oid_map \<times> vstate) set_res" where
  "OIDMap s = rbind (oid_rows s) (\<lambda>(rows, s'). Inr (fill_map rows, s'))"

lemma fold_update_keys:
  "distinct (map fst out) \<Longrightarrow>
   distinct (map fst (fold (\<lambda>(k, e). AList.update k e) rows out))
   \<and> set (map fst (fold (\<lambda>(k, e). AList.update k e) rows out)) = set (map fst out) \<union> set (map fst rows)"
proof (induction rows arbitrary: out)
  case (Cons r rows)
  obtain k e where r: "r = (k, e)" by force
  have "distinct (map fst (AList.update k e out))" using Cons.prems by (simp add: distinct_update)
  from Cons.IH [OF this] show ?case by (auto simp: r dom_update)
qed simp

lemma fold_update_map_of:
  "map_of (fold (\<lambda>(k, e). AList.update k e) rows out) k =
   (case map_of (rev rows) k of None \<Rightarrow> map_of out k | Some e \<Rightarrow> Some e)"
proof (induction rows arbitrary: out)
  case (Cons r rows)
  obtain k' e where r: "r = (k', e)" by force
  show ?case by (simp add: r Cons.IH update_conv' map_add_def split: option.split)
qed simp

lemma fill_map_keys: "distinct (map fst (fill_map rows))" "fst ` set (fill_map rows) = fst ` set rows"
  using fold_update_keys [of "[]" rows] by (simp_all add: fill_map_def)

lemma fill_map_map_of: "map_of (fill_map rows) = map_of (rev rows)"
  by (rule ext) (simp add: fill_map_def fold_update_map_of split: option.split)

lemma fill_map_set:
  assumes "distinct (map fst rows)"
  shows "set (fill_map rows) = set rows"
proof -
  have d: "distinct (map fst (rev rows))" using assms by (simp add: rev_map [symmetric])
  have "set (fill_map rows) = set (rev rows)"
    using map_of_inject_set [OF fill_map_keys(1) d] fill_map_map_of by blast
  then show ?thesis by simp
qed

end
