(* ===== verification/Mib_View.thy ===== *)
theory Mib_View
  imports Virtual_Oidmap
begin

section \<open>The sorted view of the object tree (virtual/mibview.go)\<close>

text \<open>
  A view of the state's objects sorted by the numbers of their identifiers, answering exact and next
  lookups.  \<^verbatim>\<open>slices.Compare\<close> on slices of ints is the lexicographic order of lists;
  \<^verbatim>\<open>slices.BinarySearchFunc\<close> on the sorted entries gives the number of entries below
  the target, and whether the entry there equals it.
\<close>

record view_entry =
  vw_oid :: "int list"
  vw_type :: string
  vw_value :: string

record mib_view =
  mv_state :: vstate
  mv_entries :: "view_entry list"

fun atoi_all :: "string list \<Rightarrow> int list option" where
  "atoi_all [] = Some []"
| "atoi_all (p # ps) =
     (case Atoi p of None \<Rightarrow> None
      | Some n \<Rightarrow> (case atoi_all ps of None \<Rightarrow> None | Some ns \<Rightarrow> Some (n # ns)))"

definition TrimPrefix :: "string \<Rightarrow> string \<Rightarrow> string" where
  "TrimPrefix s p = (case strip_prefix p s of None \<Rightarrow> s | Some r \<Rightarrow> r)"

definition oidToInts :: "string \<Rightarrow> int list option" where
  "oidToInts oid = (let t = TrimPrefix oid ''.'' in if t = [] then None else atoi_all (split_dots t))"

definition intsToOID :: "int list \<Rightarrow> string" where
  "intsToOID oid = Join (map show_int oid) ''.''"

subsection \<open>The view\<close>

fun view_entries :: "oid_map \<Rightarrow> view_entry list set_res" where
  "view_entries [] = Inr []"
| "view_entries ((oid, e) # m) =
     (case oidToInts oid of
        None \<Rightarrow> Inl OtherPanic
      | Some ints \<Rightarrow>
          rbind (view_entries m) (\<lambda>es. Inr (\<lparr>vw_oid = ints, vw_type = oe_type e, vw_value = oe_value e\<rparr> # es)))"

definition Rebuild :: "mib_view \<Rightarrow> mib_view set_res" where
  "Rebuild v =
     rbind (OIDMap (mv_state v)) (\<lambda>(m, s).
     rbind (view_entries m) (\<lambda>entries.
     Inr \<lparr>mv_state = s, mv_entries = sort_key vw_oid entries\<rparr>))"

definition NewMibView :: "vstate \<Rightarrow> mib_view set_res" where
  "NewMibView s = Rebuild \<lparr>mv_state = s, mv_entries = []\<rparr>"

definition view_search :: "mib_view \<Rightarrow> int list \<Rightarrow> nat \<times> bool" where
  "view_search v oid =
     (let i = length (takeWhile (\<lambda>e. vw_oid e < oid) (mv_entries v)) in
      (i, i < length (mv_entries v) \<and> vw_oid (mv_entries v ! i) = oid))"

definition view_Get :: "mib_view \<Rightarrow> int list \<Rightarrow> view_entry option" where
  "view_Get v oid = (case view_search v oid of (i, found) \<Rightarrow> if \<not> found then None else Some (mv_entries v ! i))"

definition view_GetNext :: "mib_view \<Rightarrow> int list \<Rightarrow> view_entry option" where
  "view_GetNext v oid =
     (case view_search v oid of (i, found) \<Rightarrow>
        let j = (if found then i + 1 else i) in
        if length (mv_entries v) \<le> j then None else Some (mv_entries v ! j))"

definition ApplyWriteUncommitted :: "string \<Rightarrow> snmp_value \<Rightarrow> mib_view \<Rightarrow> mib_view set_res" where
  "ApplyWriteUncommitted oid value v =
     rbind (ApplyWrite oid value (mv_state v)) (\<lambda>s. Inr (v\<lparr>mv_state := s\<rparr>))"

definition view_ApplyWrite :: "string \<Rightarrow> snmp_value \<Rightarrow> mib_view \<Rightarrow> mib_view set_res" where
  "view_ApplyWrite oid value v = rbind (ApplyWriteUncommitted oid value v) Rebuild"

text \<open>A snapshot marks the start of a PDU: it first clears the egress writes seen in the last one.\<close>

definition Snapshot_State :: "vstate \<Rightarrow> vstate \<times> vstate" where
  "Snapshot_State s = (let s' = s\<lparr>vs_pdu_egress := []\<rparr> in (s', s'))"

definition SnapshotState :: "mib_view \<Rightarrow> vstate \<times> mib_view" where
  "SnapshotState v = (case Snapshot_State (mv_state v) of (snap, s) \<Rightarrow> (snap, v\<lparr>mv_state := s\<rparr>))"

definition RestoreState :: "vstate \<Rightarrow> mib_view \<Rightarrow> mib_view" where
  "RestoreState snapshot v = v\<lparr>mv_state := snapshot\<rparr>"

definition IsImplemented :: "mib_view \<Rightarrow> int list \<Rightarrow> bool set_res" where
  "IsImplemented v oid = rbind (state_model (mv_state v)) (\<lambda>m. Inr (IsOIDImplemented m (intsToOID oid)))"

subsection \<open>Identifiers as numbers\<close>

text \<open>The numbers an identifier can hold, and the round trip through its text.\<close>

definition oid_ints :: "int list \<Rightarrow> bool" where
  "oid_ints oid \<longleftrightarrow> oid \<noteq> [] \<and> list_all int64_range oid"

lemma Join_Cons: "Join (p # q # ps) sep = p @ sep @ Join (q # ps) sep"
  by (simp add: Join_def)

lemma Join_single [simp]: "Join [p] sep = p" "Join [] sep = []"
  by (simp_all add: Join_def)

lemma intsToOID_Cons: "intsToOID (i # j # oid) = show_int i @ CHR ''.'' # intsToOID (j # oid)"
  by (simp add: intsToOID_def Join_Cons)

lemma intsToOID_single [simp]: "intsToOID [i] = show_int i" "intsToOID [] = []"
  by (simp_all add: intsToOID_def)

lemma split_intsToOID: "oid \<noteq> [] \<Longrightarrow> split_dots (intsToOID oid) = map show_int oid"
proof (induction oid)
  case (Cons i oid)
  then show ?case
    by (cases oid) (simp_all add: split_on_no_sep show_int_no_dot intsToOID_Cons split_on_append)
qed simp

lemma atoi_all_show: "list_all int64_range oid \<Longrightarrow> atoi_all (map show_int oid) = Some oid"
  by (induction oid) (simp_all add: Atoi_show_int)

lemma show_int_nonempty [simp]: "show_int i \<noteq> []"
  using show_nat_digits [of "nat i"] by (auto simp: show_int_def)

lemma show_int_first: "show_int i = c # cs \<Longrightarrow> c \<noteq> CHR ''.''"
  using show_int_no_dot [of i] by auto

lemma intsToOID_first: "oid \<noteq> [] \<Longrightarrow> \<exists>c cs. intsToOID oid = c # cs \<and> c \<noteq> CHR ''.''"
proof (cases oid)
  case (Cons i rest)
  obtain c cs where c: "show_int i = c # cs" by (meson show_int_nonempty neq_Nil_conv)
  then show ?thesis using show_int_first [OF c] Cons
    by (cases rest) (auto simp: intsToOID_Cons)
qed simp

lemma TrimPrefix_dot: "TrimPrefix (CHR ''.'' # s) ''.'' = s"
  by (simp add: TrimPrefix_def strip_prefix_def)

lemma TrimPrefix_no_dot: "oid \<noteq> [] \<Longrightarrow> TrimPrefix (intsToOID oid) ''.'' = intsToOID oid"
  using intsToOID_first [of oid] by (auto simp: TrimPrefix_def strip_prefix_def)

lemma oidToInts_intsToOID:
  assumes "oid_ints oid"
  shows "oidToInts (intsToOID oid) = Some oid" "oidToInts (CHR ''.'' # intsToOID oid) = Some oid"
proof -
  have o: "oid \<noteq> []" "list_all int64_range oid" using assms by (simp_all add: oid_ints_def)
  have "intsToOID oid \<noteq> []" using intsToOID_first [OF o(1)] by auto
  then show "oidToInts (intsToOID oid) = Some oid" "oidToInts (CHR ''.'' # intsToOID oid) = Some oid"
    using o by (simp_all add: oidToInts_def TrimPrefix_no_dot TrimPrefix_dot split_intsToOID atoi_all_show)
qed

text \<open>Prefixes of texts are prefixes of the numbers.\<close>

lemma no_dot_split:
  "CHR ''.'' \<notin> set a \<Longrightarrow> CHR ''.'' \<notin> set b \<Longrightarrow>
   a @ CHR ''.'' # x = b @ CHR ''.'' # y \<longleftrightarrow> a = b \<and> x = y"
proof (induction a arbitrary: b)
  case Nil then show ?case by (cases b) auto
next
  case (Cons c a) then show ?case by (cases b) auto
qed

lemma show_int_inj [simp]: "show_int i = show_int j \<longleftrightarrow> i = j"
proof
  assume eq: "show_int i = show_int j"
  have d: "dec_value (show_nat n) = n" "list_all is_digit (show_nat n)" for n
    using show_nat_digits [of n] by auto
  have ne: "show_nat n \<noteq> CHR ''-'' # r" for n r
    using d(2) [of n] by (auto simp: is_digit_def)
  show "i = j"
  proof (cases "i < 0"; cases "j < 0")
    assume "i < 0" "j < 0"
    then have "show_nat (nat (- i)) = show_nat (nat (- j))" using eq by (simp add: show_int_def)
    then have "nat (- i) = nat (- j)" using d(1) by metis
    then show ?thesis using \<open>i < 0\<close> \<open>j < 0\<close> by simp
  next
    assume "\<not> i < 0" "\<not> j < 0"
    then have "show_nat (nat i) = show_nat (nat j)" using eq by (simp add: show_int_def)
    then have "nat i = nat j" using d(1) by metis
    then show ?thesis using \<open>\<not> i < 0\<close> \<open>\<not> j < 0\<close> by simp
  qed (use eq ne in \<open>auto simp: show_int_def\<close>, metis)
qed simp

lemma intsToOID_prefix:
  "root \<noteq> [] \<Longrightarrow> oid \<noteq> [] \<Longrightarrow>
   (\<exists>t. intsToOID oid = intsToOID root @ CHR ''.'' # t) \<longleftrightarrow> (\<exists>r. r \<noteq> [] \<and> oid = root @ r)"
proof (induction root arbitrary: oid)
  case (Cons i root)
  obtain j rest where oid: "oid = j # rest" using Cons.prems(2) by (cases oid) auto
  show ?case
  proof (cases rest)
    case Nil
    have "intsToOID oid \<noteq> intsToOID (i # root) @ CHR ''.'' # t" for t
      using show_int_no_dot [of j] by (auto simp: oid Nil) 
    then show ?thesis by (auto simp: oid Nil Cons_eq_append_conv)
  next
    case rest: (Cons k rest')
    have oid': "intsToOID oid = show_int j @ CHR ''.'' # intsToOID rest" by (simp add: oid rest intsToOID_Cons)
    show ?thesis
    proof (cases root)
      case Nil
      then show ?thesis
        by (auto simp: oid' no_dot_split show_int_no_dot) (auto simp: oid rest)
    next
      case (Cons i' root')
      have "intsToOID (i # root) = show_int i @ CHR ''.'' # intsToOID root" by (simp add: Cons intsToOID_Cons)
      then have "(\<exists>t. intsToOID oid = intsToOID (i # root) @ CHR ''.'' # t)
          \<longleftrightarrow> j = i \<and> (\<exists>t. intsToOID rest = intsToOID root @ CHR ''.'' # t)"
        by (simp add: oid' no_dot_split show_int_no_dot)
      then show ?thesis using Cons.IH [of rest] Cons rest by (auto simp: oid)
    qed
  qed
qed simp

end
