(* ===== verification/Snmp_Face.thy ===== *)
theory Snmp_Face
  imports Mib_View
begin

section \<open>The SNMP agent of the virtual switch (virtual/snmpface.go)\<close>

text \<open>
  The command responder over a view: GET, GETNEXT, GETBULK and the all-or-nothing SET.  The
  datagrams are decoded and encoded by gosnmp, so a request here is the packet that library
  decoded.  A value of any Go integer type is its mathematical integer; a conversion to
  \<^verbatim>\<open>int\<close> or \<^verbatim>\<open>int64\<close> wraps.  A panic that the face does not recover ends the
  process and is a value of \<open>set_panic\<close>.
\<close>

subsection \<open>Packets\<close>

datatype asn_type =
  A_Integer | A_OctetString | A_ObjectIdentifier | A_IPAddress | A_Counter32 | A_Gauge32 | A_TimeTicks
| A_Counter64 | A_Uinteger32 | A_NoSuchObject | A_NoSuchInstance | A_EndOfMibView | A_Other nat

datatype wire_value = W_Nil | W_Int int | W_Bytes bytes | W_Str string

record pdu =
  pd_name :: string
  pd_type :: asn_type
  pd_value :: wire_value

datatype snmp_status =
  Status_NoError | Status_CommitFailed | Status_NotWritable | Status_InconsistentValue | Status_WrongValue
| Status_Other nat

datatype pdu_kind = GetRequest | GetNextRequest | GetBulkRequest | SetRequest | GetResponse | OtherPDU

record snmp_packet =
  sk_v2c :: bool
  sk_community :: string
  sk_kind :: pdu_kind
  sk_request_id :: u32
  sk_error :: snmp_status
  sk_error_index :: nat
  sk_non_repeaters :: nat
  sk_max_repetitions :: nat
  sk_vars :: "pdu list"

definition no_value :: "string \<Rightarrow> asn_type \<Rightarrow> pdu" where
  "no_value name t = \<lparr>pd_name = name, pd_type = t, pd_value = W_Nil\<rparr>"

subsection \<open>Values\<close>

definition unsigned_value :: "string \<Rightarrow> nat \<Rightarrow> asn_type \<Rightarrow> (wire_value \<times> asn_type) set_res" where
  "unsigned_value s bits t = (case ParseUint s bits of None \<Rightarrow> Inl OtherPanic | Some n \<Rightarrow> Inr (W_Int (int n), t))"

definition toWireValue :: "string \<Rightarrow> string \<Rightarrow> (wire_value \<times> asn_type) set_res" where
  "toWireValue snmpType value =
     (if snmpType = ''INTEGER'' then
        (case Atoi value of None \<Rightarrow> Inl OtherPanic | Some n \<Rightarrow> Inr (W_Int n, A_Integer))
      else if snmpType = ''Gauge32'' then unsigned_value value 32 A_Gauge32
      else if snmpType = ''Counter32'' then unsigned_value value 32 A_Counter32
      else if snmpType = ''Counter64'' then unsigned_value value 64 A_Counter64
      else if snmpType = ''OCTETSTR'' then Inr (W_Bytes (bytes_of value), A_OctetString)
      else if snmpType = ''IPADDR'' then Inr (W_Str value, A_IPAddress)
      else if snmpType = ''OID'' then Inr (W_Str value, A_ObjectIdentifier)
      else Inl OtherPanic)"

text \<open>\<^verbatim>\<open>fmt.Sprint(nil)\<close> is the text \<^verbatim>\<open><nil>\<close>.\<close>

fun fromWireValue :: "wire_value \<Rightarrow> snmp_value" where
  "fromWireValue (W_Int v) = VInt (wrap64 v)"
| "fromWireValue (W_Bytes b) = VBytes b"
| "fromWireValue (W_Str s) = VStr s"
| "fromWireValue W_Nil = VStr ''<nil>''"

subsection \<open>Reads\<close>

definition getPDU :: "mib_view \<Rightarrow> string \<Rightarrow> pdu set_res" where
  "getPDU v name =
     (case oidToInts name of
        None \<Rightarrow> Inr (no_value name A_NoSuchObject)
      | Some oid \<Rightarrow>
          rbind (IsImplemented v oid) (\<lambda>implemented.
          if \<not> implemented then Inr (no_value name A_NoSuchObject)
          else (case view_Get v oid of
            None \<Rightarrow> Inr (no_value name A_NoSuchInstance)
          | Some e \<Rightarrow>
              rbind (toWireValue (vw_type e) (vw_value e)) (\<lambda>(val, typ).
              Inr \<lparr>pd_name = name, pd_type = typ, pd_value = val\<rparr>))))"

definition getNextPDU :: "mib_view \<Rightarrow> string \<Rightarrow> pdu set_res" where
  "getNextPDU v name =
     (case oidToInts name of
        None \<Rightarrow> Inr (no_value name A_NoSuchObject)
      | Some oid \<Rightarrow>
          rbind (IsImplemented v oid) (\<lambda>implemented.
          if \<not> implemented then Inr (no_value name A_NoSuchObject)
          else (case view_GetNext v oid of
            None \<Rightarrow> Inr (no_value name A_EndOfMibView)
          | Some e \<Rightarrow>
              rbind (toWireValue (vw_type e) (vw_value e)) (\<lambda>(val, typ).
              Inr \<lparr>pd_name = ''.'' @ intsToOID (vw_oid e), pd_type = typ, pd_value = val\<rparr>))))"

fun each_var :: "(string \<Rightarrow> pdu set_res) \<Rightarrow> pdu list \<Rightarrow> pdu list set_res" where
  "each_var f [] = Inr []"
| "each_var f (vb # vbs) = rbind (f (pd_name vb)) (\<lambda>p. rbind (each_var f vbs) (\<lambda>ps. Inr (p # ps)))"

definition handleGet :: "mib_view \<Rightarrow> pdu list \<Rightarrow> pdu list set_res" where
  "handleGet v vars = each_var (getPDU v) vars"

definition handleGetNext :: "mib_view \<Rightarrow> pdu list \<Rightarrow> pdu list set_res" where
  "handleGetNext v vars = each_var (getNextPDU v) vars"

text \<open>
  One repetition steps every repeated column from its current identifier; a column that is done
  answers the end of the view from then on.
\<close>

fun bulk_row :: "mib_view \<Rightarrow> (string \<times> bool) list \<Rightarrow> (pdu list \<times> (string \<times> bool) list) set_res" where
  "bulk_row v [] = Inr ([], [])"
| "bulk_row v ((cur, fin) # cols) =
     rbind (if fin then Inr (no_value cur A_EndOfMibView, (cur, True))
            else rbind (getNextPDU v cur) (\<lambda>p.
              Inr (p, if pd_type p = A_EndOfMibView \<or> pd_type p = A_NoSuchObject then (cur, True)
                      else (pd_name p, False)))) (\<lambda>(p, col).
     rbind (bulk_row v cols) (\<lambda>(ps, cols'). Inr (p # ps, col # cols')))"

fun bulk_rows :: "mib_view \<Rightarrow> nat \<Rightarrow> (string \<times> bool) list \<Rightarrow> pdu list set_res" where
  "bulk_rows v 0 cols = Inr []"
| "bulk_rows v (Suc n) cols =
     rbind (bulk_row v cols) (\<lambda>(ps, cols'). rbind (bulk_rows v n cols') (\<lambda>rest. Inr (ps @ rest)))"

definition handleGetBulk :: "mib_view \<Rightarrow> snmp_packet \<Rightarrow> pdu list set_res" where
  "handleGetBulk v req =
     (let vars = sk_vars req;
          nonRepeaters = (if sk_non_repeaters req > length vars then length vars else sk_non_repeaters req);
          repeated = drop nonRepeaters vars in
      rbind (each_var (getNextPDU v) (take nonRepeaters vars)) (\<lambda>out.
      if repeated = [] \<or> sk_max_repetitions req = 0 then Inr out
      else rbind (bulk_rows v (sk_max_repetitions req) (map (\<lambda>vb. (pd_name vb, False)) repeated)) (\<lambda>ps.
           Inr (out @ ps))))"

subsection \<open>Sets\<close>

fun panic_status :: "set_panic \<Rightarrow> snmp_status" where
  "panic_status CommitFailed = Status_CommitFailed"
| "panic_status NotWritable = Status_NotWritable"
| "panic_status InconsistentValue = Status_InconsistentValue"
| "panic_status OtherPanic = Status_WrongValue"

definition applyUncommitted :: "mib_view \<Rightarrow> string \<Rightarrow> snmp_value \<Rightarrow> snmp_status + mib_view" where
  "applyUncommitted v oid value =
     (case ApplyWriteUncommitted oid value v of Inl p \<Rightarrow> Inl (panic_status p) | Inr v' \<Rightarrow> Inr v')"

text \<open>
  The varbinds in order, each on the state the ones before it left: a refusal carries its status and
  the number of the varbind, and the view with the writes so far.  What a refused varbind changed
  before it panicked is left out; the restore overwrites it.
\<close>

fun set_vars :: "nat \<Rightarrow> pdu list \<Rightarrow> mib_view \<Rightarrow> ((snmp_status \<times> nat) option \<times> mib_view) set_res" where
  "set_vars i [] v = Inr (None, v)"
| "set_vars i (vb # vbs) v =
     (let oid = dropWhile (\<lambda>c. c = CHR ''.'') (pd_name vb) in
      rbind (IsWritableOID (mv_state v) oid) (\<lambda>writable.
      if \<not> writable then Inr (Some (Status_NotWritable, (i + 1) mod 256), v)
      else (case applyUncommitted v oid (fromWireValue (pd_value vb)) of
        Inl status \<Rightarrow> Inr (Some (status, (i + 1) mod 256), v)
      | Inr v' \<Rightarrow> set_vars (i + 1) vbs v')))"

definition handleSet :: "pdu list \<Rightarrow> mib_view \<Rightarrow> ((pdu list \<times> snmp_status \<times> nat) \<times> mib_view) set_res" where
  "handleSet vars v =
     (case SnapshotState v of (snapshot, v0) \<Rightarrow>
        rbind (set_vars 0 vars v0) (\<lambda>(err, v1).
        case err of
          Some (status, i) \<Rightarrow> Inr ((vars, status, i), RestoreState snapshot v1)
        | None \<Rightarrow> rbind (Rebuild v1) (\<lambda>v2. Inr ((vars, Status_NoError, 0), v2))))"

subsection \<open>Dispatch\<close>

definition snmp_handle :: "snmp_packet \<Rightarrow> mib_view \<Rightarrow> (snmp_packet option \<times> mib_view) set_res" where
  "snmp_handle req v =
     (let resp = \<lparr>sk_v2c = True, sk_community = sk_community req, sk_kind = GetResponse,
            sk_request_id = sk_request_id req, sk_error = Status_NoError, sk_error_index = 0,
            sk_non_repeaters = 0, sk_max_repetitions = 0, sk_vars = []\<rparr>;
          answer = (\<lambda>r. rbind r (\<lambda>vars. Inr (Some (resp\<lparr>sk_vars := vars\<rparr>), v))) in
      case sk_kind req of
        GetRequest \<Rightarrow> answer (handleGet v (sk_vars req))
      | GetNextRequest \<Rightarrow> answer (handleGetNext v (sk_vars req))
      | GetBulkRequest \<Rightarrow> answer (handleGetBulk v req)
      | SetRequest \<Rightarrow>
          rbind (handleSet (sk_vars req) v) (\<lambda>((vars, status, i), v').
          Inr (Some (resp\<lparr>sk_vars := vars, sk_error := status, sk_error_index := i\<rparr>), v'))
      | _ \<Rightarrow> Inr (None, v))"

record snmp_face =
  sf_view :: mib_view
  sf_community :: string

text \<open>One turn of \<^verbatim>\<open>serve\<close> on a decoded packet: no answer to another version or community.\<close>

definition serve_packet :: "snmp_packet \<Rightarrow> snmp_face \<Rightarrow> (snmp_packet option \<times> snmp_face) set_res" where
  "serve_packet req f =
     (if \<not> sk_v2c req then Inr (None, f)
      else if sk_community req \<noteq> sf_community f then Inr (None, f)
      else rbind (snmp_handle req (sf_view f)) (\<lambda>(resp, v). Inr (resp, f\<lparr>sf_view := v\<rparr>)))"

end
