(* ===== verification/Snmp_Client.thy ===== *)
theory Snmp_Client
  imports Snmp_Face Snmp_Cycle
begin

section \<open>The gosnmp client (snmp/gosnmp.go)\<close>

text \<open>
  \<^verbatim>\<open>GoSNMPClient\<close> over the gosnmp library.  The library is a parameter, \<open>gosnmp\<close>: what its
  Connect, Get, GetBulk and Set do to the network.  A walk runs until the agent ends it, so it is a
  partial function.  The host, port and community only reach the library and the messages.
\<close>

subsection \<open>The library\<close>

record reply =
  rp_error :: snmp_status
  rp_index :: nat
  rp_vars :: "pdu list"

record 's gosnmp =
  gs_Connect :: "('s, go_error, unit) action"
  gs_Get :: "string list \<Rightarrow> ('s, go_error, reply) action"
  gs_GetBulk :: "string list \<Rightarrow> nat \<Rightarrow> nat \<Rightarrow> ('s, go_error, reply) action"
  gs_Set :: "pdu list \<Rightarrow> ('s, go_error, reply) action"

abbreviation (input) bulkMaxRepetitions :: nat where "bulkMaxRepetitions \<equiv> 25"

subsection \<open>Rows\<close>

fun pduIntValue :: "wire_value \<Rightarrow> int option" where
  "pduIntValue (W_Int n) = Some (wrap64 n)"
| "pduIntValue _ = None"

definition isPrintableOctets :: "bytes \<Rightarrow> bool" where
  "isPrintableOctets b \<longleftrightarrow> list_all (\<lambda>c. \<not> (c < 0x20 \<or> c > 0x7E)) b"

fun wire_arg :: "wire_value \<Rightarrow> msg_arg" where
  "wire_arg W_Nil = AStr ''<nil>''"
| "wire_arg (W_Int n) = AInt n"
| "wire_arg (W_Bytes b) = ABytes b"
| "wire_arg (W_Str s) = AStr s"

definition intRow :: "string \<Rightarrow> int \<Rightarrow> string \<Rightarrow> row" where
  "intRow oid v typ = (NewIntRow oid v)\<lparr>rw_type := typ\<rparr>"

definition strRow :: "string \<Rightarrow> string \<Rightarrow> string \<Rightarrow> row" where
  "strRow oid v typ = (NewStrRow oid v)\<lparr>rw_type := typ\<rparr>"

definition bytesRow :: "string \<Rightarrow> bytes \<Rightarrow> string \<Rightarrow> row" where
  "bytesRow oid v typ = (NewBytesRow oid v)\<lparr>rw_type := typ\<rparr>"

definition int_row :: "string \<Rightarrow> wire_value \<Rightarrow> string \<Rightarrow> string \<Rightarrow> row res" where
  "int_row oid val typ format =
     (case pduIntValue val of None \<Rightarrow> Inl (errOID oid format [wire_arg val]) | Some v \<Rightarrow> Inr (intRow oid v typ))"

definition TrimDots :: "string \<Rightarrow> string" where
  "TrimDots s = dropWhile (\<lambda>c. c = CHR ''.'') s"

definition normalizeVarbind :: "pdu \<Rightarrow> row res" where
  "normalizeVarbind p =
     (let oid = TrimDots (pd_name p); val = pd_value p in
      case pd_type p of
        A_Integer \<Rightarrow> int_row oid val ''INTEGER'' ''non-integer INTEGER value %v''
      | A_Gauge32 \<Rightarrow> int_row oid val ''Gauge32'' ''non-integer Gauge32 value %v''
      | A_Uinteger32 \<Rightarrow> int_row oid val ''Gauge32'' ''non-integer Gauge32 value %v''
      | A_Counter32 \<Rightarrow> int_row oid val ''Counter32'' ''non-integer Counter32 value %v''
      | A_Counter64 \<Rightarrow> int_row oid val ''Counter64'' ''non-integer Counter64 value %v''
      | A_TimeTicks \<Rightarrow> int_row oid val ''Timeticks'' ''non-integer Timeticks value %v''
      | A_OctetString \<Rightarrow>
          (case val of
             W_Bytes raw \<Rightarrow> Inr (if isPrintableOctets raw then strRow oid (string_of raw) ''STRING'' else bytesRow oid raw ''Hex-STRING'')
           | _ \<Rightarrow> Inl (errOID oid ''non-byte OCTET STRING value %v'' [wire_arg val]))
      | A_IPAddress \<Rightarrow>
          (case val of W_Str s \<Rightarrow> Inr (strRow oid s ''IpAddress'')
           | _ \<Rightarrow> Inl (errOID oid ''non-string IpAddress value %v'' [wire_arg val]))
      | A_ObjectIdentifier \<Rightarrow>
          (case val of W_Str s \<Rightarrow> Inr (strRow oid (TrimDots s) ''OID'')
           | _ \<Rightarrow> Inl (errOID oid ''non-string OID value %v'' [wire_arg val]))
      | A_NoSuchObject \<Rightarrow> Inr (strRow oid [] ''NOSUCHOBJECT'')
      | A_NoSuchInstance \<Rightarrow> Inr (strRow oid [] ''NOSUCHINSTANCE'')
      | A_EndOfMibView \<Rightarrow> Inr (strRow oid [] ''ENDOFMIBVIEW'')
      | A_Other n \<Rightarrow> Inl (errOID oid ''unsupported SNMP type %s'' [AInt (int n)]))"

subsection \<open>Get\<close>

definition link_error :: "string \<Rightarrow> msg_arg list \<Rightarrow> ('s, go_error, 'a) action \<Rightarrow> ('s, go_error, 'a) action" where
  "link_error format args m s = (case m s of (Inl e, s') \<Rightarrow> (Inl (WrapsCause format args ErrSNMP e), s') | (Inr x, s') \<Rightarrow> (Inr x, s'))"

fun get_rows :: "pdu list \<Rightarrow> row list res" where
  "get_rows [] = Inr []"
| "get_rows (p # ps) =
     rbind (normalizeVarbind p) (\<lambda>row.
     if rw_type row \<in> set AbsentTypes then Inl (errSNMP ''absent OID in GET response: %s'' [AStr (rw_oid row)])
     else rbind (get_rows ps) (\<lambda>rows. Inr (row # rows)))"

definition status_arg :: "snmp_status \<Rightarrow> msg_arg" where
  "status_arg st = AInt (case st of Status_NoError \<Rightarrow> 0 | Status_CommitFailed \<Rightarrow> 14 | Status_NotWritable \<Rightarrow> 17
     | Status_InconsistentValue \<Rightarrow> 12 | Status_WrongValue \<Rightarrow> 10 | Status_Other n \<Rightarrow> int n)"

definition client_Get :: "'s gosnmp \<Rightarrow> string list \<Rightarrow> ('s, go_error, row list) action" where
  "client_Get g oids =
     (if oids = [] then sret (Inr [])
      else
      sbind (link_error ''connect to switch for GET %v: %w: %w'' (map AStr oids) (gs_Connect g)) (\<lambda>_.
      sbind (link_error ''GET %v: %w: %w'' (map AStr oids) (gs_Get g oids)) (\<lambda>pkt.
      if rp_error pkt \<noteq> Status_NoError
      then sret (Inl (errSNMP ''GET: agent returned error-status %s at varbind index %d''
                   [status_arg (rp_error pkt), AInt (int (rp_index pkt))]))
      else sret (get_rows (rp_vars pkt)))))"

subsection \<open>Walk\<close>

definition walkOIDInts :: "string \<Rightarrow> int list option" where
  "walkOIDInts oid = (let t = TrimDots oid in if t = [] then None else atoi_all (split_dots t))"

text \<open>
  The loop over the varbinds of one answer: an error, or the rows so far, the position and whether
  to stop.
\<close>

fun walk_vars :: "string \<Rightarrow> pdu list \<Rightarrow> int list \<Rightarrow> row list \<Rightarrow> (int list \<times> row list \<times> bool) res" where
  "walk_vars prefix [] position rows = Inr (position, rows, False)"
| "walk_vars prefix (p # ps) position rows =
     (if pd_type p = A_EndOfMibView \<or> pd_type p = A_NoSuchObject \<or> pd_type p = A_NoSuchInstance
      then Inr (position, rows, True)
      else
      let name = TrimDots (pd_name p) in
      if strip_prefix prefix name = None then Inr (position, rows, True)
      else (case walkOIDInts name of
        None \<Rightarrow> Inl (errOID name ''malformed OID in WALK response'' [])
      | Some nxt \<Rightarrow>
          if \<not> position < nxt then Inl (errOID name ''OID not increasing'' [])
          else rbind (normalizeVarbind p) (\<lambda>row. walk_vars prefix ps nxt (rows @ [row]))))"

partial_function (option) walk_loop ::
    "'s gosnmp \<Rightarrow> string \<Rightarrow> string \<Rightarrow> string \<Rightarrow> int list \<Rightarrow> row list \<Rightarrow> 's \<Rightarrow> ((go_error + row list) \<times> 's) option" where
  "walk_loop g baseOID prefix oid position rows s =
     (case link_error ''WALK %s: %w: %w'' [AStr baseOID] (gs_GetBulk g [oid] 0 bulkMaxRepetitions) s of
        (Inl e, s1) \<Rightarrow> Some (Inl e, s1)
      | (Inr pkt, s1) \<Rightarrow>
          if rp_error pkt \<noteq> Status_NoError
          then Some (Inl (errSNMP ''WALK %s: agent returned error-status %s at varbind index %d''
                  [AStr baseOID, status_arg (rp_error pkt), AInt (int (rp_index pkt))]), s1)
          else if rp_vars pkt = [] then Some (Inr rows, s1)
          else (case walk_vars prefix (rp_vars pkt) position rows of
            Inl e \<Rightarrow> Some (Inl e, s1)
          | Inr (position', rows', stop) \<Rightarrow>
              if stop then Some (Inr rows', s1)
              else walk_loop g baseOID prefix (pd_name (last (rp_vars pkt))) position' rows' s1))"

definition Walk :: "'s gosnmp \<Rightarrow> string \<Rightarrow> 's \<Rightarrow> ((go_error + row list) \<times> 's) option" where
  "Walk g baseOID =
     run_bind (returns (link_error ''connect to switch for WALK %s: %w: %w'' [AStr baseOID] (gs_Connect g))) (\<lambda>_.
     case walkOIDInts baseOID of
       None \<Rightarrow> returns (sret (Inl (errOID baseOID ''malformed base OID for WALK'' [])))
     | Some position \<Rightarrow> walk_loop g baseOID (TrimDots baseOID @ ''.'') baseOID position [])"

subsection \<open>Set\<close>

fun toOctetBytes :: "snmp_value \<Rightarrow> bytes option" where
  "toOctetBytes (VBytes b) = Some b"
| "toOctetBytes (VStr s) = Some (bytes_of s)"
| "toOctetBytes (VInt i) = None"

definition toSetPDU :: "set_varbind \<Rightarrow> pdu res" where
  "toSetPDU vb =
     (let oid = sv_oid vb; val = sv_value vb; c = sv_letter vb in
      if c = CHR ''i'' then
        (case val of VInt v \<Rightarrow> Inr \<lparr>pd_name = oid, pd_type = A_Integer, pd_value = W_Int v\<rparr>
         | _ \<Rightarrow> Inl (errOID oid ''non-integer value %v for SET type i'' [value_arg val]))
      else if c = CHR ''u'' then
        (case val of VInt v \<Rightarrow> Inr \<lparr>pd_name = oid, pd_type = A_Gauge32, pd_value = W_Int (v mod 2 ^ 32)\<rparr>
         | _ \<Rightarrow> Inl (errOID oid ''non-integer value %v for SET type u'' [value_arg val]))
      else if c = CHR ''a'' then
        (case val of VStr s \<Rightarrow> Inr \<lparr>pd_name = oid, pd_type = A_IPAddress, pd_value = W_Str s\<rparr>
         | _ \<Rightarrow> Inl (errOID oid ''non-string value %v for SET type a'' [value_arg val]))
      else if c = CHR ''s'' \<or> c = CHR ''x'' then
        (case toOctetBytes val of Some b \<Rightarrow> Inr \<lparr>pd_name = oid, pd_type = A_OctetString, pd_value = W_Bytes b\<rparr>
         | None \<Rightarrow> Inl (errOID oid ''unsupported value type for SET type %q'' [AStr [c]]))
      else Inl (errOID oid ''unsupported SET type letter %q'' [AStr [c]]))"

fun set_pdus :: "set_varbind list \<Rightarrow> pdu list res" where
  "set_pdus [] = Inr []"
| "set_pdus (vb # vbs) = rbind (toSetPDU vb) (\<lambda>p. rbind (set_pdus vbs) (\<lambda>ps. Inr (p # ps)))"

definition oidsOf :: "set_varbind list \<Rightarrow> string list" where
  "oidsOf vbs = map sv_oid vbs"

definition SetMany :: "'s gosnmp \<Rightarrow> set_varbind list \<Rightarrow> ('s, go_error, unit) action" where
  "SetMany g vbs =
     (if vbs = [] then sret (Inr ())
      else
      sbind (sret (set_pdus vbs)) (\<lambda>pdus.
      sbind (link_error ''connect to switch for SET %v: %w: %w'' (map AStr (oidsOf vbs)) (gs_Connect g)) (\<lambda>_.
      sbind (link_error ''SET %v: %w: %w'' (map AStr (oidsOf vbs)) (gs_Set g pdus)) (\<lambda>pkt.
      if rp_error pkt \<noteq> Status_NoError
      then sret (Inl (errSNMP ''SET: agent rejected %s with error-status %s''
             [AStr (if 1 \<le> rp_index pkt \<and> rp_index pkt \<le> length vbs then sv_oid (vbs ! (rp_index pkt - 1)) else ''?''),
              status_arg (rp_error pkt)]))
      else sret (Inr ())))))"

definition Set_one :: "'s gosnmp \<Rightarrow> set_varbind \<Rightarrow> ('s, go_error, unit) action" where
  "Set_one g vb = SetMany g [vb]"

end
