(* ===== verification/Snmp_Walk.thy ===== *)
theory Snmp_Walk
  imports Snmp_Client
begin

section \<open>A walk of the virtual switch\<close>

text \<open>
  The client against the agent.  gosnmp carries a packet from one to the other unchanged, but
  decodes identifiers with a leading dot; \<open>virtual_link\<close> is the library's part under that reading
  of its documentation.  A walk returns the rows of the view below its root, in order.
\<close>

subsection \<open>The link\<close>

definition dot_form :: "string \<Rightarrow> string" where
  "dot_form name = (case name of [] \<Rightarrow> [] | c # cs \<Rightarrow> if c = CHR ''.'' then name else CHR ''.'' # name)"

definition decoded :: "pdu \<Rightarrow> pdu" where
  "decoded p =
     p\<lparr>pd_name := dot_form (pd_name p),
       pd_value := (if pd_type p = A_ObjectIdentifier
         then (case pd_value p of W_Str s \<Rightarrow> W_Str (dot_form s) | w \<Rightarrow> w) else pd_value p)\<rparr>"

definition agent_reply :: "snmp_packet \<Rightarrow> (snmp_face, go_error, reply) action" where
  "agent_reply req f =
     (case serve_packet (req\<lparr>sk_vars := map decoded (sk_vars req)\<rparr>) f of
        Inl p \<Rightarrow> (Inl Go_Panic, f)
      | Inr (None, f') \<Rightarrow> (Inl (Foreign ''request timeout''), f')
      | Inr (Some resp, f') \<Rightarrow>
          (Inr \<lparr>rp_error = sk_error resp, rp_index = sk_error_index resp, rp_vars = map decoded (sk_vars resp)\<rparr>, f'))"

definition link_packet :: "string \<Rightarrow> pdu_kind \<Rightarrow> nat \<Rightarrow> pdu list \<Rightarrow> snmp_packet" where
  "link_packet community kind reps vars =
     \<lparr>sk_v2c = True, sk_community = community, sk_kind = kind, sk_request_id = 0, sk_error = Status_NoError,
      sk_error_index = 0, sk_non_repeaters = 0, sk_max_repetitions = reps, sk_vars = vars\<rparr>"

abbreviation (input) asn_null :: asn_type where "asn_null \<equiv> A_Other 5"

definition virtual_link :: "string \<Rightarrow> snmp_face gosnmp" where
  "virtual_link community =
     \<lparr>gs_Connect = sret (Inr ()),
      gs_Get = (\<lambda>oids. agent_reply (link_packet community GetRequest 0 (map (\<lambda>oid. no_value oid asn_null) oids))),
      gs_GetBulk = (\<lambda>oids nonRepeaters reps.
        agent_reply ((link_packet community GetBulkRequest reps (map (\<lambda>oid. no_value oid asn_null) oids))
          \<lparr>sk_non_repeaters := nonRepeaters\<rparr>)),
      gs_Set = (\<lambda>pdus. agent_reply (link_packet community SetRequest 0 pdus))\<rparr>"

subsection \<open>Identifiers in order\<close>

text \<open>What lies above a root and not above its subtree is in the subtree.\<close>

definition below :: "int list \<Rightarrow> int list \<Rightarrow> bool" where
  "below root oid \<longleftrightarrow> length root < length oid \<and> take (length root) oid = root"

lemma below_iff: "below root oid \<longleftrightarrow> (\<exists>r. r \<noteq> [] \<and> oid = root @ r)"
proof
  assume b: "below root oid"
  then have "oid = root @ drop (length root) oid" "drop (length root) oid \<noteq> []"
    by (auto simp: below_def) (metis append_take_drop_id)
  then show "\<exists>r. r \<noteq> [] \<and> oid = root @ r" by blast
qed (auto simp: below_def)

lemma below_greater: "below root oid \<Longrightarrow> root < oid"
proof (induction root arbitrary: oid)
  case Nil then show ?case by (cases oid) (auto simp: below_def)
next
  case (Cons i root) then show ?case by (cases oid) (auto simp: below_def)
qed

lemma below_between: "root < y \<Longrightarrow> y < x \<Longrightarrow> below root x \<Longrightarrow> below root y"
proof (induction root arbitrary: x y)
  case Nil then show ?case by (cases y) (auto simp: below_def)
next
  case (Cons i root)
  then obtain j x' k y' where x: "x = j # x'" and y: "y = k # y'"
    by (cases x; cases y) (auto simp: below_def)
  have j: "j = i" "below root x'" using Cons.prems(3) by (auto simp: below_def x)
  have "k = i" "root < y'" "y' < x'"
    using Cons.prems(1,2) j by (auto simp: x y)
  then show ?case using Cons.IH [of y' x'] j by (auto simp: below_def y)
qed

subsection \<open>Next lookups\<close>

definition oids_sorted :: "view_entry list \<Rightarrow> bool" where
  "oids_sorted es \<longleftrightarrow> sorted_wrt (<) (map vw_oid es)"

definition later :: "int list \<Rightarrow> view_entry list \<Rightarrow> view_entry list" where
  "later oid es = filter (\<lambda>e. oid < vw_oid e) es"

lemma oids_sorted_Cons: "oids_sorted (e # es) \<longleftrightarrow> oids_sorted es \<and> (\<forall>x \<in> set es. vw_oid e < vw_oid x)"
  by (auto simp: oids_sorted_def)

lemma oids_sorted_filter: "oids_sorted es \<Longrightarrow> oids_sorted (filter P es)"
  by (induction es) (auto simp: oids_sorted_Cons)

lemma GetNext_after:
  assumes "oids_sorted (mv_entries v)"
  shows "view_GetNext v oid = (case later oid (mv_entries v) of [] \<Rightarrow> None | e # _ \<Rightarrow> Some e)"
proof -
  define tw where "tw es = takeWhile (\<lambda>e. vw_oid e < oid) es" for es :: "view_entry list"
  have gen: "oids_sorted es \<Longrightarrow>
     (let i = length (tw es); j = (if i < length es \<and> vw_oid (es ! i) = oid then i + 1 else i) in
      if length es \<le> j then None else Some (es ! j)) = (case later oid es of [] \<Rightarrow> None | e # _ \<Rightarrow> Some e)" for es
  proof (induction es)
    case (Cons e es)
    have IH: "(let i = length (tw es); j = (if i < length es \<and> vw_oid (es ! i) = oid then i + 1 else i) in
      if length es \<le> j then None else Some (es ! j)) = (case later oid es of [] \<Rightarrow> None | e # _ \<Rightarrow> Some e)"
      using Cons by (simp add: oids_sorted_Cons)
    have gt: "\<forall>x \<in> set es. vw_oid e < vw_oid x" using Cons.prems by (simp add: oids_sorted_Cons)
    consider "vw_oid e < oid" | "vw_oid e = oid" | "oid < vw_oid e" by fastforce
    then show ?case
    proof cases
      case 1
      then show ?thesis using IH by (auto simp: tw_def later_def Let_def split: if_splits)
    next
      case 2
      then have "later oid (e # es) = es" using gt by (auto simp: later_def filter_id_conv)
      then show ?thesis using 2 by (cases es) (simp_all add: tw_def)
    next
      case 3
      then show ?thesis by (auto simp: tw_def later_def)
    qed
  qed (simp add: tw_def later_def)
  show ?thesis using gen [OF assms] by (simp add: view_GetNext_def view_search_def tw_def Let_def)
qed

lemma after_step:
  assumes "oids_sorted es" "later oid es = e # rest"
  shows "later (vw_oid e) es = rest"
proof -
  have "later (vw_oid e) (later oid es) = rest"
    using oids_sorted_filter [OF assms(1), of "\<lambda>e. oid < vw_oid e"] assms(2)
    by (auto simp: later_def oids_sorted_Cons filter_id_conv)
  moreover have "oid < vw_oid e" using assms(2) by (auto simp: later_def filter_eq_Cons_iff)
  then have "later (vw_oid e) (later oid es) = later (vw_oid e) es"
    by (auto simp: later_def filter_filter intro!: filter_cong)
  ultimately show ?thesis by simp
qed

definition subtree :: "int list \<Rightarrow> view_entry list \<Rightarrow> view_entry list" where
  "subtree root es = filter (\<lambda>e. below root (vw_oid e)) es"

lemma subtree_after:
  assumes "oids_sorted es"
  shows "subtree root es = takeWhile (\<lambda>e. below root (vw_oid e)) (later root es)"
proof -
  have sorted: "oids_sorted (later root es)" using assms by (simp add: later_def oids_sorted_filter)
  have sub: "subtree root es = subtree root (later root es)"
    by (auto simp: subtree_def later_def filter_filter below_greater intro!: filter_cong)
  have "filter (\<lambda>e. below root (vw_oid e)) xs = takeWhile (\<lambda>e. below root (vw_oid e)) xs"
    if "oids_sorted xs" "\<forall>x \<in> set xs. root < vw_oid x" for xs
    using that
  proof (induction xs)
    case (Cons x xs)
    show ?case
    proof (cases "below root (vw_oid x)")
      case False
      have "\<not> below root (vw_oid y)" if "y \<in> set xs" for y
        using below_between [of root "vw_oid x" "vw_oid y"] False Cons.prems that by (auto simp: oids_sorted_Cons)
      then show ?thesis using False by (simp add: filter_empty_conv)
    qed (use Cons in \<open>simp add: oids_sorted_Cons\<close>)
  qed simp
  from this [OF sorted] show ?thesis unfolding sub by (simp add: subtree_def later_def)
qed

subsection \<open>Rows of a view\<close>

text \<open>A view the agent can serve: sorted, of numbers that print and parse, of values that encode.\<close>

definition wire_ok :: "view_entry \<Rightarrow> bool" where
  "wire_ok e \<longleftrightarrow> oid_ints (vw_oid e) \<and> (case toWireValue (vw_type e) (vw_value e) of Inl _ \<Rightarrow> False | Inr _ \<Rightarrow> True)"

definition view_ok :: "mib_view \<Rightarrow> bool" where
  "view_ok v \<longleftrightarrow> oids_sorted (mv_entries v) \<and> list_all wire_ok (mv_entries v)
     \<and> (case state_model (mv_state v) of Inl _ \<Rightarrow> False | Inr _ \<Rightarrow> True)"

definition implemented :: "mib_view \<Rightarrow> int list \<Rightarrow> bool" where
  "implemented v oid \<longleftrightarrow> IsImplemented v oid = Inr True"

text \<open>The varbind the client decodes for an entry, and the row it makes of it.\<close>

definition entry_pdu :: "view_entry \<Rightarrow> pdu" where
  "entry_pdu e =
     (case toWireValue (vw_type e) (vw_value e) of
        Inl _ \<Rightarrow> no_value [] A_EndOfMibView
      | Inr (val, typ) \<Rightarrow> \<lparr>pd_name = ''.'' @ intsToOID (vw_oid e), pd_type = typ, pd_value = val\<rparr>)"

definition entry_row :: "view_entry \<Rightarrow> row" where
  "entry_row e = (case normalizeVarbind (decoded (entry_pdu e)) of Inl _ \<Rightarrow> NewStrRow [] [] | Inr row \<Rightarrow> row)"

lemma wire_okE: "wire_ok e \<Longrightarrow> \<exists>val ty. toWireValue (vw_type e) (vw_value e) = Inr (val, ty)"
  by (cases "toWireValue (vw_type e) (vw_value e)") (auto simp: wire_ok_def)

lemma IsImplemented_total: "view_ok v \<Longrightarrow> \<exists>b. IsImplemented v oid = Inr b"
  by (auto simp: view_ok_def IsImplemented_def split: sum.splits)

lemma after_subset: "e \<in> set (later oid es) \<Longrightarrow> e \<in> set es"
  by (auto simp: later_def)

lemma toWireValue_types:
  "toWireValue t s = Inr (val, typ) \<Longrightarrow>
   typ \<noteq> A_EndOfMibView \<and> typ \<noteq> A_NoSuchObject \<and> typ \<noteq> A_NoSuchInstance
   \<and> (\<exists>row. normalizeVarbind \<lparr>pd_name = name, pd_type = typ,
        pd_value = (if typ = A_ObjectIdentifier then (case val of W_Str s \<Rightarrow> W_Str (dot_form s) | w \<Rightarrow> w) else val)\<rparr> = Inr row
      \<and> rw_oid row = TrimDots name)"
  by (auto simp: toWireValue_def unsigned_value_def normalizeVarbind_def Let_def int_row_def intRow_def strRow_def bytesRow_def
      NewIntRow_def NewStrRow_def NewBytesRow_def split: if_splits option.splits)

lemma intsToOID_no_dot_prefix: "oid \<noteq> [] \<Longrightarrow> TrimDots (CHR ''.'' # intsToOID oid) = intsToOID oid" "oid \<noteq> [] \<Longrightarrow> TrimDots (intsToOID oid) = intsToOID oid"
  using intsToOID_first [of oid] by (auto simp: TrimDots_def)

lemma dot_form_ints: "oid \<noteq> [] \<Longrightarrow> dot_form (intsToOID oid) = CHR ''.'' # intsToOID oid" "dot_form (CHR ''.'' # s) = CHR ''.'' # s"
  using intsToOID_first [of oid] by (auto simp: dot_form_def)

lemma walkOIDInts_ints:
  assumes "oid_ints oid"
  shows "walkOIDInts (intsToOID oid) = Some oid"
proof -
  have o: "oid \<noteq> []" "list_all int64_range oid" using assms by (simp_all add: oid_ints_def)
  have "intsToOID oid \<noteq> []" using intsToOID_first [OF o(1)] by auto
  then show ?thesis using o by (simp add: walkOIDInts_def intsToOID_no_dot_prefix split_intsToOID atoi_all_show)
qed

lemma entry_pdu_ok:
  assumes "wire_ok e"
  shows "pd_name (entry_pdu e) = ''.'' @ intsToOID (vw_oid e)"
    "pd_type (entry_pdu e) \<noteq> A_EndOfMibView" "pd_type (entry_pdu e) \<noteq> A_NoSuchObject" "pd_type (entry_pdu e) \<noteq> A_NoSuchInstance"
    "normalizeVarbind (decoded (entry_pdu e)) = Inr (entry_row e)" "rw_oid (entry_row e) = intsToOID (vw_oid e)"
proof -
  obtain val ty where w: "toWireValue (vw_type e) (vw_value e) = Inr (val, ty)"
    using wire_okE [OF assms] by blast
  have o: "vw_oid e \<noteq> []" using assms by (simp add: wire_ok_def oid_ints_def)
  note t = toWireValue_types [OF w, of "CHR ''.'' # intsToOID (vw_oid e)"]
  then show "pd_name (entry_pdu e) = ''.'' @ intsToOID (vw_oid e)"
    "pd_type (entry_pdu e) \<noteq> A_EndOfMibView" "pd_type (entry_pdu e) \<noteq> A_NoSuchObject" "pd_type (entry_pdu e) \<noteq> A_NoSuchInstance"
    by (simp_all add: entry_pdu_def w)
  show "normalizeVarbind (decoded (entry_pdu e)) = Inr (entry_row e)" "rw_oid (entry_row e) = intsToOID (vw_oid e)"
    using t by (auto simp: entry_row_def entry_pdu_def w decoded_def dot_form_ints intsToOID_no_dot_prefix o)
qed

lemma getNextPDU_ok:
  assumes "view_ok v" "oid_ints oid" "implemented v oid"
  shows "getNextPDU v (CHR ''.'' # intsToOID oid) =
     Inr (case later oid (mv_entries v) of [] \<Rightarrow> no_value (CHR ''.'' # intsToOID oid) A_EndOfMibView | e # _ \<Rightarrow> entry_pdu e)"
proof -
  have s: "oids_sorted (mv_entries v)" using assms(1) by (simp add: view_ok_def)
  show ?thesis
  proof (cases "later oid (mv_entries v)")
    case (Cons e rest)
    then have "wire_ok e" using after_subset [of e oid "mv_entries v"] assms(1) by (auto simp: view_ok_def list_all_iff)
    then show ?thesis using assms(2,3) Cons
      by (auto simp: getNextPDU_def oidToInts_intsToOID implemented_def GetNext_after [OF s] entry_pdu_def wire_ok_def split: sum.splits)
  qed (use assms in \<open>simp add: getNextPDU_def oidToInts_intsToOID implemented_def GetNext_after [OF s]\<close>)
qed

lemma getNextPDU_total:
  assumes "view_ok v"
  shows "\<exists>p. getNextPDU v name = Inr p"
proof (cases "oidToInts name")
  case (Some oid)
  obtain b where b: "IsImplemented v oid = Inr b" using IsImplemented_total [OF assms] by blast
  have s: "oids_sorted (mv_entries v)" using assms by (simp add: view_ok_def)
  show ?thesis
  proof (cases "later oid (mv_entries v)")
    case (Cons e rest)
    then have "wire_ok e" using after_subset [of e oid "mv_entries v"] assms by (auto simp: view_ok_def list_all_iff)
    from wire_okE [OF this] show ?thesis
      using Cons by (auto simp: getNextPDU_def Some b GetNext_after [OF s])
  qed (simp add: getNextPDU_def Some b GetNext_after [OF s])
qed (simp add: getNextPDU_def)

lemma bulk_row_total:
  assumes "view_ok v"
  shows "\<exists>ps cols'. bulk_row v cols = Inr (ps, cols')"
proof (induction cols)
  case (Cons c cols)
  obtain cur fin where c: "c = (cur, fin)" by force
  obtain p where "getNextPDU v cur = Inr p" using getNextPDU_total [OF assms] by blast
  then show ?case using Cons by (auto simp: c)
qed simp

lemma bulk_rows_total: "view_ok v \<Longrightarrow> \<exists>ps. bulk_rows v n cols = Inr ps"
proof (induction n arbitrary: cols)
  case (Suc n)
  obtain ps cols' where b: "bulk_row v cols = Inr (ps, cols')" using bulk_row_total [OF Suc.prems] by blast
  obtain rest where "bulk_rows v n cols' = Inr rest" using Suc by blast
  then show ?case using b by auto
qed simp

text \<open>What ends a walk: a varbind without a value, or one outside the subtree.\<close>

definition ends_walk :: "int list \<Rightarrow> pdu \<Rightarrow> bool" where
  "ends_walk root p \<longleftrightarrow> pd_type p = A_EndOfMibView \<or> strip_prefix (intsToOID root @ ''.'') (TrimDots (pd_name p)) = None"

lemma below_prefix:
  assumes "root \<noteq> []" "oid \<noteq> []"
  shows "strip_prefix (intsToOID root @ ''.'') (TrimDots (CHR ''.'' # intsToOID oid)) = None \<longleftrightarrow> \<not> below root oid"
proof -
  have "(\<exists>t. strip_prefix (intsToOID root @ ''.'') (intsToOID oid) = Some t) \<longleftrightarrow> below root oid"
    using intsToOID_prefix [OF assms] by (simp add: strip_prefix_Some below_iff)
  then show ?thesis using assms(2) by (simp add: intsToOID_no_dot_prefix) (metis not_Some_eq)
qed

lemma bulk_under_root:
  assumes ok: "view_ok v" and root: "oid_ints root"
    and "oid_ints oid" "implemented v oid"
    and "\<forall>e \<in> set (mv_entries v). below root (vw_oid e) \<longrightarrow> implemented v (vw_oid e)"
  shows "\<exists>junk. bulk_rows v n [(CHR ''.'' # intsToOID oid, False)]
       = Inr (map entry_pdu (take n (takeWhile (\<lambda>e. below root (vw_oid e)) (later oid (mv_entries v)))) @ junk)
     \<and> (if n \<le> length (takeWhile (\<lambda>e. below root (vw_oid e)) (later oid (mv_entries v)))
        then junk = [] else \<exists>j js. junk = j # js \<and> ends_walk root j)"
  using assms(3,4)
proof (induction n arbitrary: oid)
  case (Suc n)
  have root': "root \<noteq> []" using root by (simp add: oid_ints_def)
  have s: "oids_sorted (mv_entries v)" using ok by (simp add: view_ok_def)
  note nxt = getNextPDU_ok [OF ok Suc.prems]
  show ?case
  proof (cases "later oid (mv_entries v)")
    case Nil
    obtain rest where "bulk_rows v n [(CHR ''.'' # intsToOID oid, True)] = Inr rest" using bulk_rows_total [OF ok] by blast
    then show ?thesis using Nil nxt by (simp add: ends_walk_def no_value_def)
  next
    case (Cons e L)
    have e: "wire_ok e" "e \<in> set (mv_entries v)"
      using Cons after_subset [of e oid "mv_entries v"] ok by (auto simp: view_ok_def list_all_iff)
    then have oe: "oid_ints (vw_oid e)" "vw_oid e \<noteq> []" by (auto simp: wire_ok_def oid_ints_def)
    have step: "bulk_row v [(CHR ''.'' # intsToOID oid, False)]
        = Inr ([entry_pdu e], [(CHR ''.'' # intsToOID (vw_oid e), False)])"
      using nxt Cons entry_pdu_ok [OF e(1)] by simp
    show ?thesis
    proof (cases "below root (vw_oid e)")
      case True
      then have "implemented v (vw_oid e)" using assms(5) e by blast
      from Suc.IH [OF oe(1) this] show ?thesis
        using after_step [OF s Cons] Cons True step by (auto split: if_splits)
    next
      case False
      obtain rest where "bulk_rows v n [(CHR ''.'' # intsToOID (vw_oid e), False)] = Inr rest" using bulk_rows_total [OF ok] by blast
      then show ?thesis
        using Cons False step entry_pdu_ok(1) [OF e(1)] below_prefix [OF root' oe(2)]
        by (simp add: ends_walk_def)
    qed
  qed
qed simp

subsection \<open>The walk\<close>

lemma TrimDots_dot_form [simp]: "TrimDots (dot_form s) = TrimDots s"
  by (cases s) (simp_all add: dot_form_def TrimDots_def)

lemma decoded_sel [simp]: "pd_type (decoded p) = pd_type p" "pd_name (decoded p) = dot_form (pd_name p)"
  by (simp_all add: decoded_def)

lemma walk_vars_rows:
  assumes "root \<noteq> []" "list_all wire_ok es" "oids_sorted es" "\<forall>e \<in> set es. position < vw_oid e \<and> below root (vw_oid e)"
  shows "walk_vars (intsToOID root @ ''.'') (map decoded (map entry_pdu es @ junk)) position rows =
     walk_vars (intsToOID root @ ''.'') (map decoded junk) (last (position # map vw_oid es)) (rows @ map entry_row es)"
  using assms(2-)
proof (induction es arbitrary: position rows)
  case (Cons e es)
  have e: "wire_ok e" and oe: "oid_ints (vw_oid e)" "vw_oid e \<noteq> []"
    using Cons.prems by (auto simp: wire_ok_def oid_ints_def)
  note p = entry_pdu_ok [OF e]
  note name = intsToOID_no_dot_prefix(1) [OF oe(2)]
  obtain t where pre: "strip_prefix (intsToOID root @ ''.'') (intsToOID (vw_oid e)) = Some t"
    using below_prefix [OF assms(1) oe(2)] Cons.prems(3) by (auto simp: name)
  have "walk_vars (intsToOID root @ ''.'') (map decoded (map entry_pdu (e # es) @ junk)) position rows
      = walk_vars (intsToOID root @ ''.'') (map decoded (map entry_pdu es @ junk)) (vw_oid e) (rows @ [entry_row e])"
    using Cons.prems(3) p pre by (simp add: Let_def name walkOIDInts_ints [OF oe(1)])
  also have "\<dots> = walk_vars (intsToOID root @ ''.'') (map decoded junk) (last (vw_oid e # map vw_oid es))
      ((rows @ [entry_row e]) @ map entry_row es)"
    by (rule Cons.IH) (use Cons.prems in \<open>auto simp: oids_sorted_Cons\<close>)
  finally show ?case by simp
qed simp

lemma walk_vars_end:
  "ends_walk root j \<Longrightarrow> walk_vars (intsToOID root @ ''.'') (map decoded (j # js)) position rows = Inr (position, rows, True)"
  by (auto simp: ends_walk_def Let_def)

lemma link_GetBulk:
  assumes "sf_community f = community" "0 < n" "bulk_rows (sf_view f) n [(dot_form oid, False)] = Inr ps"
  shows "gs_GetBulk (virtual_link community) [oid] 0 n f =
     (Inr \<lparr>rp_error = Status_NoError, rp_index = 0, rp_vars = map decoded ps\<rparr>, f)"
  using assms by (simp add: virtual_link_def agent_reply_def serve_packet_def link_packet_def snmp_handle_def handleGetBulk_def
      no_value_def decoded_def Let_def)

lemma link_error_Inr: "m s = (Inr x, s') \<Longrightarrow> link_error fmt args m s = (Inr x, s')"
  by (simp add: link_error_def)

lemma after_nth:
  "oids_sorted es \<Longrightarrow> later oid es = xs \<Longrightarrow> i < length xs \<Longrightarrow> later (vw_oid (xs ! i)) es = drop (Suc i) xs"
proof (induction i arbitrary: oid xs)
  case 0
  then obtain e rest where "xs = e # rest" by (cases xs) auto
  then show ?case using after_step [OF 0(1)] 0 by simp
next
  case (Suc i)
  then obtain e rest where xs: "xs = e # rest" by (cases xs) auto
  then show ?case using Suc.IH [OF Suc.prems(1) after_step [OF Suc.prems(1)]] Suc.prems by simp
qed

lemma takeWhile_drop:
  "n \<le> length (takeWhile P xs) \<Longrightarrow> takeWhile P (drop n xs) = drop n (takeWhile P xs)"
  by (induction xs arbitrary: n) (auto simp: drop_Cons' split: if_splits)

definition served :: "snmp_face \<Rightarrow> int list \<Rightarrow> bool" where
  "served f root \<longleftrightarrow> view_ok (sf_view f) \<and> oid_ints root \<and> implemented (sf_view f) root
     \<and> list_all (\<lambda>e. implemented (sf_view f) (vw_oid e)) (subtree root (mv_entries (sf_view f)))"

lemma walk_loop_rows:
  assumes f: "served f root" and c: "sf_community f = community"
    and "oid_ints oid" "implemented (sf_view f) oid" "dot_form start = CHR ''.'' # intsToOID oid"
  shows "walk_loop (virtual_link community) base (intsToOID root @ ''.'') start oid rows f =
     Some (Inr (rows @ map entry_row (takeWhile (\<lambda>e. below root (vw_oid e)) (later oid (mv_entries (sf_view f))))), f)"
  using assms(3-)
proof (induction "length (later oid (mv_entries (sf_view f)))" arbitrary: oid start rows rule: less_induct)
  case less
  define v where "v = sf_view f"
  define U where "U = takeWhile (\<lambda>e. below root (vw_oid e)) (later oid (mv_entries v))"
  have ok: "view_ok v" and root: "oid_ints root" "root \<noteq> []" and s: "oids_sorted (mv_entries v)"
    and imp: "\<forall>e \<in> set (mv_entries v). below root (vw_oid e) \<longrightarrow> implemented v (vw_oid e)"
    using f by (auto simp: served_def v_def oid_ints_def view_ok_def subtree_def list_all_iff)
  obtain junk where bulk: "bulk_rows v 25 [(CHR ''.'' # intsToOID oid, False)] = Inr (map entry_pdu (take 25 U) @ junk)"
      and junk: "if 25 \<le> length U then junk = [] else \<exists>j js. junk = j # js \<and> ends_walk root j"
    using bulk_under_root [OF ok root(1) less.prems(1) less.prems(2) [folded v_def] imp, of 25] unfolding U_def by auto
  have U: "list_all wire_ok U" "oids_sorted U" "\<forall>e \<in> set U. oid < vw_oid e \<and> below root (vw_oid e) \<and> e \<in> set (mv_entries v)"
  proof -
    have sub: "set U \<subseteq> set (later oid (mv_entries v))" unfolding U_def by (meson set_takeWhileD subsetI)
    then show "list_all wire_ok U" using ok after_subset by (force simp: view_ok_def list_all_iff)
    show "oids_sorted U" using oids_sorted_filter [OF s] unfolding U_def later_def oids_sorted_def
      by (metis sorted_wrt_takeWhile takeWhile_map sorted_wrt_map)
    show "\<forall>e \<in> set U. oid < vw_oid e \<and> below root (vw_oid e) \<and> e \<in> set (mv_entries v)"
      using set_takeWhileD sub unfolding U_def later_def by fastforce
  qed
  have reply: "gs_GetBulk (virtual_link community) [start] 0 25 f =
      (Inr \<lparr>rp_error = Status_NoError, rp_index = 0, rp_vars = map decoded (map entry_pdu (take 25 U) @ junk)\<rparr>, f)"
    by (rule link_GetBulk [OF c]) (simp_all add: less.prems(3) bulk [unfolded v_def])
  have answer: "link_error ''WALK %s: %w: %w'' [AStr base] (gs_GetBulk (virtual_link community) [start] 0 25) f =
      (Inr \<lparr>rp_error = Status_NoError, rp_index = 0, rp_vars = map decoded (map entry_pdu (take 25 U) @ junk)\<rparr>, f)"
    by (rule link_error_Inr) (rule reply)
  have vars: "walk_vars (intsToOID root @ ''.'') (map decoded (map entry_pdu (take 25 U) @ junk)) oid rows =
      walk_vars (intsToOID root @ ''.'') (map decoded junk) (last (oid # map vw_oid (take 25 U))) (rows @ map entry_row (take 25 U))"
    by (rule walk_vars_rows) (use root(2) U in \<open>auto simp: list_all_iff oids_sorted_def take_map [symmetric] sorted_wrt_take dest: in_set_takeD\<close>)
  show ?case
  proof (cases "25 \<le> length U")
    case False
    then obtain j js where j: "junk = j # js" "ends_walk root j" using junk by auto
    have "walk_vars (intsToOID root @ ''.'') (map decoded (map entry_pdu (take 25 U) @ junk)) oid rows
        = Inr (last (oid # map vw_oid (take 25 U)), rows @ map entry_row U, True)"
      using vars walk_vars_end [OF j(2), of js] False by (simp add: j(1))
    then show ?thesis
      using answer j(1)
      by (subst walk_loop.simps) (simp add: U_def [symmetric] v_def [symmetric])
  next
    case True
    then have j: "junk = []" using junk by simp
    define e where "e = U ! 24"
    have ne: "take 25 U \<noteq> []" using True by (cases U) auto
    have e: "e \<in> set U" "last (take 25 U) = e" "take 25 U \<noteq> []"
      using True last_conv_nth [OF ne] ne by (simp_all add: e_def)
    have oe: "oid_ints (vw_oid e)" "wire_ok e" "implemented v (vw_oid e)" "oid < vw_oid e" "vw_oid e \<noteq> []"
      using U e(1) imp by (auto simp: list_all_iff wire_ok_def oid_ints_def)
    define A where "A = later oid (mv_entries v)"
    have len: "24 < length A" "length U \<le> length A" using True length_takeWhile_le [of "\<lambda>e. below root (vw_oid e)" A]
      by (auto simp: U_def A_def)
    have "e = A ! 24" using True by (simp add: e_def U_def A_def takeWhile_nth)
    then have aft: "later (vw_oid e) (mv_entries v) = drop 25 A"
      using after_nth [OF s A_def [symmetric] len(1)] by simp
    have rest: "takeWhile (\<lambda>e. below root (vw_oid e)) (drop 25 A) = drop 25 U"
      using takeWhile_drop [of 25 "\<lambda>e. below root (vw_oid e)" A] True by (simp add: U_def A_def)
    have nonempty: "map decoded (map entry_pdu (take 25 U) @ junk) \<noteq> []" using e(3) by (simp add: j)
    have name: "pd_name (last (map decoded (map entry_pdu (take 25 U) @ junk))) = CHR ''.'' # intsToOID (vw_oid e)"
      using e(2,3) entry_pdu_ok(1) [OF oe(2)] by (simp add: j last_map dot_form_ints)
    have "walk_vars (intsToOID root @ ''.'') (map decoded (map entry_pdu (take 25 U) @ junk)) oid rows
        = Inr (vw_oid e, rows @ map entry_row (take 25 U), False)"
      using vars e by (simp add: j last_map)
    then have "walk_loop (virtual_link community) base (intsToOID root @ ''.'') start oid rows f
        = walk_loop (virtual_link community) base (intsToOID root @ ''.'') (CHR ''.'' # intsToOID (vw_oid e)) (vw_oid e)
            (rows @ map entry_row (take 25 U)) f"
      using answer ne nonempty name
      by (subst walk_loop.simps) simp
    also have "\<dots> = Some (Inr ((rows @ map entry_row (take 25 U)) @ map entry_row (drop 25 U)), f)"
      using less.hyps [OF _ oe(1) oe(3) [unfolded v_def], of "CHR ''.'' # intsToOID (vw_oid e)" "rows @ map entry_row (take 25 U)"] len aft rest
      by (simp add: v_def [symmetric] A_def dot_form_ints)
    finally show ?thesis by (simp add: U_def v_def flip: map_append)
  qed
qed

lemma link_Connect: "link_error fmt args (gs_Connect (virtual_link community)) f = (Inr (), f)"
  by (simp add: link_error_def virtual_link_def)

lemma Walk_rows:
  assumes "served f root" "sf_community f = community"
  shows "Walk (virtual_link community) (intsToOID root) f = Some (Inr (map entry_row (subtree root (mv_entries (sf_view f)))), f)"
proof -
  have root: "oid_ints root" "root \<noteq> []" "implemented (sf_view f) root" and s: "oids_sorted (mv_entries (sf_view f))"
    using assms(1) by (auto simp: served_def oid_ints_def view_ok_def)
  have "walk_loop (virtual_link community) (intsToOID root) (intsToOID root @ ''.'') (intsToOID root) root [] f
      = Some (Inr (map entry_row (subtree root (mv_entries (sf_view f)))), f)"
    using walk_loop_rows [OF assms root(1,3), of "intsToOID root" "intsToOID root" "[]"] root(2)
    by (simp add: dot_form_ints subtree_after [OF s])
  then show ?thesis
    by (simp add: Walk_def run_bind_returns link_Connect walkOIDInts_ints [OF root(1)] intsToOID_no_dot_prefix [OF root(2)])
qed

end
