(* ===== verification/Snmp_Columns.thy ===== *)
theory Snmp_Columns
  imports Snmp_Walk
begin

section \<open>The rows of a rebuilt view\<close>

text \<open>
  What the agent serves below a root, from the rows of the object tree: when every row's identifier
  is the text of numbers and its value encodes, the rebuilt view is one the agent can serve, and
  the entries below a root are the rows below it, provided those come in order.
\<close>

subsection \<open>Keys\<close>

definition oid_of :: "string \<Rightarrow> int list" where
  "oid_of k = (case oidToInts k of None \<Rightarrow> [] | Some i \<Rightarrow> i)"

definition key_ok :: "string \<Rightarrow> bool" where
  "key_ok k \<longleftrightarrow> oid_ints (oid_of k) \<and> intsToOID (oid_of k) = k"

definition entry_ok :: "oid_entry \<Rightarrow> bool" where
  "entry_ok e \<longleftrightarrow> (case toWireValue (oe_type e) (oe_value e) of Inl _ \<Rightarrow> False | Inr _ \<Rightarrow> True)"

definition row_ok :: "string \<times> oid_entry \<Rightarrow> bool" where
  "row_ok r \<longleftrightarrow> key_ok (fst r) \<and> entry_ok (snd r)"

definition view_row :: "string \<times> oid_entry \<Rightarrow> view_entry" where
  "view_row r = \<lparr>vw_oid = oid_of (fst r), vw_type = oe_type (snd r), vw_value = oe_value (snd r)\<rparr>"

lemma key_ok_ints: "key_ok k \<longleftrightarrow> (\<exists>i. oid_ints i \<and> k = intsToOID i)"
  by (auto simp: key_ok_def oid_of_def oidToInts_intsToOID)

lemma oid_of_ints [simp]: "oid_ints i \<Longrightarrow> oid_of (intsToOID i) = i"
  by (simp add: oid_of_def oidToInts_intsToOID)

lemma oid_of_inj: "key_ok a \<Longrightarrow> key_ok b \<Longrightarrow> oid_of a = oid_of b \<longleftrightarrow> a = b"
  by (metis key_ok_def)

lemma oidToInts_key: "key_ok k \<Longrightarrow> oidToInts k = Some (oid_of k)"
  by (metis key_ok_def oidToInts_intsToOID(1))

lemma intsToOID_append: "a \<noteq> [] \<Longrightarrow> b \<noteq> [] \<Longrightarrow> intsToOID (a @ b) = intsToOID a @ ''.'' @ intsToOID b"
proof (induction a)
  case (Cons i a)
  then show ?case by (cases a; cases b) (simp_all add: intsToOID_Cons)
qed simp

lemma key_ok_append:
  assumes "key_ok base" "key_ok k"
  shows "key_ok (base @ ''.'' @ k)" "oid_of (base @ ''.'' @ k) = oid_of base @ oid_of k"
proof -
  have o: "oid_ints (oid_of base @ oid_of k)" "oid_of base \<noteq> []" "oid_of k \<noteq> []"
    using assms by (auto simp: key_ok_def oid_ints_def)
  have "base @ ''.'' @ k = intsToOID (oid_of base @ oid_of k)"
    using assms o by (simp add: intsToOID_append key_ok_def)
  then show "key_ok (base @ ''.'' @ k)" "oid_of (base @ ''.'' @ k) = oid_of base @ oid_of k"
    using o(1) by (auto simp: key_ok_ints)
qed

lemma key_ok_int:
  assumes "int64_range i"
  shows "key_ok (show_int i)" "oid_of (show_int i) = [i]"
proof -
  have i: "oid_ints [i]" using assms by (simp add: oid_ints_def)
  show "oid_of (show_int i) = [i]" using oid_of_ints [OF i] by simp
  then show "key_ok (show_int i)" using i by (simp add: key_ok_def)
qed

lemma key_ok_colKey:
  assumes "key_ok base" "int64_range i"
  shows "key_ok (colKey base i)" "oid_of (colKey base i) = oid_of base @ [i]"
  using key_ok_append [OF assms(1), of "show_int i"] key_ok_int [OF assms(2)] by (simp_all add: colKey_def)

subsection \<open>The rebuilt view\<close>

lemma view_entries_rows: "list_all (\<lambda>r. key_ok (fst r)) m \<Longrightarrow> view_entries m = Inr (map view_row m)"
  by (induction m) (auto simp: oidToInts_key view_row_def)

lemma row_ok_wire: "row_ok r \<Longrightarrow> wire_ok (view_row r)"
  by (simp add: row_ok_def wire_ok_def view_row_def key_ok_def entry_ok_def)

lemma oids_sorted_sort_key:
  assumes "distinct (map vw_oid es)"
  shows "oids_sorted (sort_key vw_oid es)"
proof -
  have "sorted (map vw_oid (sort_key vw_oid es))" "distinct (map vw_oid (sort_key vw_oid es))"
    using assms by (simp_all add: distinct_map)
  then show ?thesis
    by (simp add: oids_sorted_def strict_sorted_iff)
qed

lemma oids_sorted_unique:
  "oids_sorted xs \<Longrightarrow> oids_sorted ys \<Longrightarrow> set xs = set ys \<Longrightarrow> xs = ys"
proof -
  assume a: "oids_sorted xs" "oids_sorted ys" "set xs = set ys"
  then have d: "distinct (map vw_oid xs)" "distinct (map vw_oid ys)" and s: "sorted (map vw_oid xs)" "sorted (map vw_oid ys)"
    by (simp_all add: oids_sorted_def strict_sorted_iff)
  have "map vw_oid xs = map vw_oid ys"
    using sorted_distinct_set_unique [OF s(1) d(1) s(2) d(2)] a(3) by simp
  moreover have "inj_on vw_oid (set xs \<union> set ys)" using d a(3) by (simp add: distinct_map)
  ultimately show "xs = ys" using inj_on_map_eq_map by blast
qed

lemma fill_map_filter:
  "set (filter (\<lambda>r. P (fst r)) (fill_map rows)) = set (filter (\<lambda>r. P (fst r)) rows)"
  if "distinct (map fst (filter (\<lambda>r. P (fst r)) rows))"
proof -
  define f where "f xs = filter (\<lambda>r. P (fst r)) xs" for xs :: "(string \<times> oid_entry) list"
  have mo: "map_of (f xs) k = (if P k then map_of xs k else None)" for xs k
    by (induction xs) (auto simp: f_def)
  have "distinct (map fst (f (fill_map rows)))"
    using fill_map_keys(1) [of rows] by (simp add: f_def distinct_map_filter)
  moreover have d: "distinct (map fst (rev (f rows)))" using that by (simp add: f_def rev_map [symmetric])
  moreover have "f (rev rows) = rev (f rows)" by (simp add: f_def rev_filter)
  then have "map_of (f (fill_map rows)) = map_of (rev (f rows))"
    by (intro ext) (metis mo fill_map_map_of)
  ultimately have "set (f (fill_map rows)) = set (rev (f rows))"
    using map_of_inject_set by blast
  then show ?thesis by (simp add: f_def)
qed

lemma Rebuild_ok:
  assumes rows: "oid_rows (mv_state v) = Inr (rows, s')" "list_all row_ok rows"
    and m: "state_model s' = Inr m"
  shows "\<exists>v'. Rebuild v = Inr v' \<and> mv_state v' = s' \<and> view_ok v'
    \<and> (\<forall>root col. filter (\<lambda>r. below root (oid_of (fst r))) rows = col \<longrightarrow> sorted_wrt (<) (map (\<lambda>r. oid_of (fst r)) col)
         \<longrightarrow> subtree root (mv_entries v') = map view_row col)"
proof -
  define m' where "m' = fill_map rows"
  define es where "es = sort_key vw_oid (map view_row m')"
  have keys: "key_ok (fst r)" if "r \<in> set m'" for r
  proof -
    have "fst r \<in> fst ` set rows" using that fill_map_keys(2) [of rows] by (auto simp: m'_def)
    then show ?thesis using rows(2) by (auto simp: list_all_iff row_ok_def)
  qed
  have ent: "r \<in> set rows" if "r \<in> set m'" for r
  proof -
    have "map_of m' (fst r) = Some (snd r)"
      using that fill_map_keys(1) [of rows] by (simp add: m'_def map_of_eq_Some_iff)
    then have "map_of (rev rows) (fst r) = Some (snd r)" by (simp add: m'_def fill_map_map_of)
    then show ?thesis using map_of_SomeD by fastforce
  qed
  have d: "distinct (map vw_oid (map view_row m'))"
  proof -
    have "inj_on (\<lambda>r. oid_of (fst r)) (set m')"
      using fill_map_keys(1) [of rows] keys oid_of_inj unfolding m'_def by (auto simp: inj_on_def distinct_map)
    then show ?thesis
      using fill_map_keys(1) [of rows] by (simp add: m'_def view_row_def o_def distinct_map)
  qed
  have ve: "view_entries m' = Inr (map view_row m')"
    by (rule view_entries_rows) (use keys in \<open>auto simp: list_all_iff\<close>)
  define v' where "v' = \<lparr>mv_state = s', mv_entries = es\<rparr>"
  have "Rebuild v = Inr v'"
    using rows(1) ve by (simp add: Rebuild_def OIDMap_def m'_def es_def v'_def)
  moreover have sorted: "oids_sorted es" unfolding es_def by (rule oids_sorted_sort_key [OF d])
  moreover have "view_ok v'"
    using sorted m ent rows(2) row_ok_wire by (auto simp: view_ok_def v'_def es_def list_all_iff)
  moreover have "subtree root es = map view_row col"
    if col: "filter (\<lambda>r. below root (oid_of (fst r))) rows = col" and sc: "sorted_wrt (<) (map (\<lambda>r. oid_of (fst r)) col)" for root col
  proof (rule oids_sorted_unique)
    show "oids_sorted (subtree root es)" unfolding subtree_def by (rule oids_sorted_filter [OF sorted])
    show "oids_sorted (map view_row col)" using sc by (simp add: oids_sorted_def view_row_def o_def)
    have "distinct (map (\<lambda>r. oid_of (fst r)) col)" using sc by (simp add: strict_sorted_iff)
    then have "distinct (map fst col)" by (auto simp: distinct_map inj_on_def)
    then have "set (filter (\<lambda>r. below root (oid_of (fst r))) m') = set col"
      using fill_map_filter [of "\<lambda>k. below root (oid_of k)" rows] col by (simp add: m'_def)
    moreover have "set (subtree root es) = view_row ` set (filter (\<lambda>r. below root (oid_of (fst r))) m')"
      by (auto simp: subtree_def es_def view_row_def)
    ultimately show "set (subtree root es) = set (map view_row col)" by simp
  qed
  ultimately show ?thesis by (intro exI [of _ v']) (simp add: v'_def)
qed

section \<open>The columns of the object tree\<close>

text \<open>
  Which rows of the virtual switch's objects a walk finds: the numbers of the columns, the rows of
  each kind of object below each column, and the states whose rows are all served.
\<close>

subsection \<open>The numbers of the columns\<close>

lemma below_simps [simp]:
  "below [] x \<longleftrightarrow> x \<noteq> []" "below (i # r) [] \<longleftrightarrow> False" "below (i # r) (j # x) \<longleftrightarrow> i = j \<and> below r x"
  by (auto simp: below_def)

lemma digit_chars:
  "dec_digit 0 = CHR ''0''" "dec_digit 1 = CHR ''1''" "dec_digit (Suc 0) = CHR ''1''" "dec_digit 2 = CHR ''2''"
  "dec_digit 3 = CHR ''3''" "dec_digit 4 = CHR ''4''" "dec_digit 5 = CHR ''5''" "dec_digit 6 = CHR ''6''"
  "dec_digit 7 = CHR ''7''" "dec_digit 8 = CHR ''8''" "dec_digit 9 = CHR ''9''"
  by (simp_all add: dec_digit_def char_of_def bit_simps)

definition nums :: "string \<Rightarrow> int list \<Rightarrow> bool" where
  "nums k i \<longleftrightarrow> oid_ints i \<and> intsToOID i = k"

lemma numsD: "nums k i \<Longrightarrow> key_ok k" "nums k i \<Longrightarrow> oid_of k = i"
  by (auto simp: nums_def key_ok_ints)

lemmas nums_eval = nums_def oid_ints_def int64_range_def intsToOID_def Join_def show_int_def show_nat.simps
      digit_chars

lemma port_column_nums:
  "nums IfType [1, 3, 6, 1, 2, 1, 2, 2, 1, 3]"
  "nums IfAdminStatus [1, 3, 6, 1, 2, 1, 2, 2, 1, 7]"
  "nums IfOperStatus [1, 3, 6, 1, 2, 1, 2, 2, 1, 8]"
  "nums IfInErrors [1, 3, 6, 1, 2, 1, 2, 2, 1, 14]"
  "nums IfOutErrors [1, 3, 6, 1, 2, 1, 2, 2, 1, 20]"
  "nums IfName [1, 3, 6, 1, 2, 1, 31, 1, 1, 1, 1]"
  "nums IfHCInOctets [1, 3, 6, 1, 2, 1, 31, 1, 1, 1, 6]"
  "nums IfHCInUcast [1, 3, 6, 1, 2, 1, 31, 1, 1, 1, 7]"
  "nums IfHCOutOctets [1, 3, 6, 1, 2, 1, 31, 1, 1, 1, 10]"
  "nums IfHCOutUcast [1, 3, 6, 1, 2, 1, 31, 1, 1, 1, 11]"
  "nums IfHighSpeed [1, 3, 6, 1, 2, 1, 31, 1, 1, 1, 15]"
  "nums IfAlias [1, 3, 6, 1, 2, 1, 31, 1, 1, 1, 18]"
  "nums Dot3StatsDuplexStatus [1, 3, 6, 1, 2, 1, 10, 7, 2, 1, 19]"
  "nums Dot3PauseAdminMode [1, 3, 6, 1, 2, 1, 10, 7, 10, 1, 1]"
  "nums Dot3PauseOperMode [1, 3, 6, 1, 2, 1, 10, 7, 10, 1, 2]"
  by (simp_all add: nums_eval IfType_def IfAdminStatus_def IfOperStatus_def IfInErrors_def IfOutErrors_def
      IfName_def IfHCInOctets_def IfHCInUcast_def IfHCOutOctets_def IfHCOutUcast_def IfHighSpeed_def IfAlias_def
      Dot3StatsDuplexStatus_def Dot3PauseAdminMode_def Dot3PauseOperMode_def)

lemma vlan_column_nums:
  "nums Dot1qVlanStaticName [1, 3, 6, 1, 2, 1, 17, 7, 1, 4, 3, 1, 1]"
  "nums Dot1qVlanStaticEgress [1, 3, 6, 1, 2, 1, 17, 7, 1, 4, 3, 1, 2]"
  "nums Dot1qVlanStaticUntagged [1, 3, 6, 1, 2, 1, 17, 7, 1, 4, 3, 1, 4]"
  "nums Dot1qVlanStaticRowStatus [1, 3, 6, 1, 2, 1, 17, 7, 1, 4, 3, 1, 5]"
  "nums Dot1qVlanCurrentEgress [1, 3, 6, 1, 2, 1, 17, 7, 1, 4, 2, 1, 4]"
  "nums Dot1qVlanCurrentUntagged [1, 3, 6, 1, 2, 1, 17, 7, 1, 4, 2, 1, 5]"
  "nums Dot1qVlanStatus [1, 3, 6, 1, 2, 1, 17, 7, 1, 4, 2, 1, 6]"
  "nums Dot1qPvid [1, 3, 6, 1, 2, 1, 17, 7, 1, 4, 5, 1, 1]"
  by (simp_all add: nums_eval Dot1qVlanStaticName_def Dot1qVlanStaticEgress_def Dot1qVlanStaticUntagged_def
      Dot1qVlanStaticRowStatus_def Dot1qVlanCurrentEgress_def Dot1qVlanCurrentUntagged_def Dot1qVlanStatus_def
      Dot1qPvid_def)

lemma other_column_nums:
  "nums SysDescr [1, 3, 6, 1, 2, 1, 1, 1, 0]"
  "nums SysObjectID [1, 3, 6, 1, 2, 1, 1, 2, 0]"
  "nums SysName [1, 3, 6, 1, 2, 1, 1, 5, 0]"
  "nums Dot1dBaseBridgeAddress [1, 3, 6, 1, 2, 1, 17, 1, 1]"
  "nums Dot1dBasePortIfIndex [1, 3, 6, 1, 2, 1, 17, 1, 4, 1, 2]"
  "nums Dot1qTpFdbPort [1, 3, 6, 1, 2, 1, 17, 7, 1, 2, 2, 1, 2]"
  "nums EntPhysicalDescr [1, 3, 6, 1, 2, 1, 47, 1, 1, 1, 1, 2]"
  "nums EntPhysicalClass [1, 3, 6, 1, 2, 1, 47, 1, 1, 1, 1, 5]"
  "nums EntPhysicalName [1, 3, 6, 1, 2, 1, 47, 1, 1, 1, 1, 7]"
  "nums LldpRemTable [1, 0, 8802, 1, 1, 2, 1, 4, 1]"
  "nums PethPsePortTable [1, 3, 6, 1, 2, 1, 105, 1, 1, 1]"
  "nums IPAdEntAddr [1, 3, 6, 1, 2, 1, 4, 20, 1, 1]"
  "nums IPAdEntNetmask [1, 3, 6, 1, 2, 1, 4, 20, 1, 3]"
  "nums IPRouteDest [1, 3, 6, 1, 2, 1, 4, 21, 1, 1]"
  "nums IPRouteNextHop [1, 3, 6, 1, 2, 1, 4, 21, 1, 7]"
  "nums FastpathSwitchportMode [1, 3, 6, 1, 4, 1, 4526, 10, 1, 2, 8, 37, 1, 2]"
  "nums FastpathSwitchportAccessVlan [1, 3, 6, 1, 4, 1, 4526, 10, 1, 2, 8, 37, 1, 3]"
  "nums FastpathSwitchportNativeVlan [1, 3, 6, 1, 4, 1, 4526, 10, 1, 2, 8, 37, 1, 4]"
  "nums FastpathSwitchportAllowedVlans [1, 3, 6, 1, 4, 1, 4526, 10, 1, 2, 8, 37, 1, 6]"
  "nums FastpathSwitchportUntaggedVlans [1, 3, 6, 1, 4, 1, 4526, 10, 1, 2, 8, 37, 1, 7]"
  "nums FastpathSwitchportTaggedVlans [1, 3, 6, 1, 4, 1, 4526, 10, 1, 2, 8, 37, 1, 8]"
  "nums vendorBaseFullyManaged [1, 3, 6, 1, 4, 1, 4526, 10]"
  "nums vendorBaseSmartManagedPro [1, 3, 6, 1, 4, 1, 4526, 11]"
  by (simp_all add: nums_eval SysDescr_def SysObjectID_def SysName_def Dot1dBaseBridgeAddress_def
      Dot1dBasePortIfIndex_def Dot1qTpFdbPort_def EntPhysicalDescr_def EntPhysicalClass_def EntPhysicalName_def
      LldpRemTable_def PethPsePortTable_def IPAdEntAddr_def IPAdEntNetmask_def IPRouteDest_def IPRouteNextHop_def
      FastpathSwitchportMode_def FastpathSwitchportAccessVlan_def FastpathSwitchportNativeVlan_def
      FastpathSwitchportAllowedVlans_def FastpathSwitchportUntaggedVlans_def FastpathSwitchportTaggedVlans_def
      vendorBaseFullyManaged_def vendorBaseSmartManagedPro_def)

lemmas column_keys = port_column_nums [THEN numsD(1)] vlan_column_nums [THEN numsD(1)] other_column_nums [THEN numsD(1)]
lemmas column_oids = port_column_nums [THEN numsD(2)] vlan_column_nums [THEN numsD(2)] other_column_nums [THEN numsD(2)]

subsection \<open>Keys with a longer index\<close>

lemma key_mid:
  assumes "key_ok base" "nums mid m" "int64_range i"
  shows "key_ok (base @ ''.'' @ mid @ ''.'' @ show_int i)" "oid_of (base @ ''.'' @ mid @ ''.'' @ show_int i) = oid_of base @ m @ [i]"
proof -
  have "key_ok (mid @ ''.'' @ show_int i) \<and> oid_of (mid @ ''.'' @ show_int i) = m @ [i]"
    using key_ok_append [OF numsD(1) [OF assms(2)] key_ok_int(1) [OF assms(3)]] numsD(2) [OF assms(2)] key_ok_int(2) [OF assms(3)]
    by simp
  then show "key_ok (base @ ''.'' @ mid @ ''.'' @ show_int i)" "oid_of (base @ ''.'' @ mid @ ''.'' @ show_int i) = oid_of base @ m @ [i]"
    using key_ok_append [OF assms(1)] by simp_all
qed

lemma key_ok_ints_list: "list_all int64_range is \<Longrightarrow> is \<noteq> [] \<Longrightarrow> key_ok (Join (map show_int is) ''.'') \<and> oid_of (Join (map show_int is) ''.'') = is"
  using oid_of_ints [of "is"] key_ok_ints by (auto simp: oid_ints_def intsToOID_def)

lemma currentKey_ok:
  assumes "key_ok base" "int64_range vid"
  shows "key_ok (currentKey base vid)" "oid_of (currentKey base vid) = oid_of base @ [0, vid]"
proof -
  have "nums ''0'' [0]" by (simp add: nums_eval)
  from key_mid [OF assms(1) this assms(2)]
  show "key_ok (currentKey base vid)" "oid_of (currentKey base vid) = oid_of base @ [0, vid]"
    by (simp_all add: currentKey_def)
qed

subsection \<open>Values that encode\<close>

definition u32_range :: "int \<Rightarrow> bool" where
  "u32_range i \<longleftrightarrow> 0 \<le> i \<and> i < 2 ^ 32"

lemma ParseUint_show_nat: "n < 2 ^ bits \<Longrightarrow> ParseUint (show_nat n) bits = Some n"
  using show_nat_digits [of n] by (auto simp: ParseUint_def)

lemma ParseUint_show_int: "0 \<le> i \<Longrightarrow> i < 2 ^ bits \<Longrightarrow> ParseUint (show_int i) bits = Some (nat i)"
  using ParseUint_show_nat [of "nat i" bits] by (simp add: show_int_def nat_less_iff)

lemma wire_integer: "int64_range i \<Longrightarrow> toWireValue ''INTEGER'' (show_int i) = Inr (W_Int i, A_Integer)"
  by (simp add: toWireValue_def Atoi_show_int)

lemma wire_gauge: "u32_range i \<Longrightarrow> toWireValue ''Gauge32'' (show_int i) = Inr (W_Int i, A_Gauge32)"
  using ParseUint_show_int [of i 32] by (simp add: toWireValue_def unsigned_value_def u32_range_def)

lemma wire_counter32: "unat n < 2 ^ 32 \<Longrightarrow> toWireValue ''Counter32'' (show_nat (unat n)) = Inr (W_Int (uint n), A_Counter32)"
  using ParseUint_show_nat [of "unat n" 32] by (simp add: toWireValue_def unsigned_value_def)

lemma wire_counter64: "toWireValue ''Counter64'' (show_nat (unat (n :: u64))) = Inr (W_Int (uint n), A_Counter64)"
  using ParseUint_show_nat [of "unat n" 64] unsigned_less [of n, where 'a = nat]
  by (simp add: toWireValue_def unsigned_value_def)

lemma wire_octets: "toWireValue ''OCTETSTR'' s = Inr (W_Bytes (bytes_of s), A_OctetString)"
  by (simp add: toWireValue_def)

lemma wire_texts:
  "toWireValue ''IPADDR'' s = Inr (W_Str s, A_IPAddress)" "toWireValue ''OID'' s = Inr (W_Str s, A_ObjectIdentifier)"
  by (simp_all add: toWireValue_def)

lemma boolToStatus_int: "boolToStatus b = show_int (if b then 1 else 2)"
  by (simp add: boolToStatus_def show_int_def show_nat.simps digit_chars)

lemma digit_texts: "''1'' = show_int 1" "''2'' = show_int 2" "''3'' = show_int 3" "''4'' = show_int 4"
  by (simp_all add: show_int_def show_nat.simps digit_chars)

lemma small_int64: "int64_range 1" "int64_range 2" "int64_range 3" "int64_range 4"
  by (simp_all add: int64_range_def)

lemma entry_ok_simps:
  "entry_ok (entry ''INTEGER'' (show_int i)) \<longleftrightarrow> int64_range i"
  "u32_range i \<Longrightarrow> entry_ok (entry ''Gauge32'' (show_int i))"
  "unat (n :: u64) < 2 ^ 32 \<Longrightarrow> entry_ok (entry ''Counter32'' (show_nat (unat n)))"
  "entry_ok (entry ''Counter64'' (show_nat (unat n)))"
  "entry_ok (entry ''OCTETSTR'' s)" "entry_ok (entry ''IPADDR'' s)" "entry_ok (entry ''OID'' s)"
  by (simp_all add: entry_ok_def entry_def wire_gauge wire_counter32 wire_counter64 wire_octets wire_texts)
    (simp add: toWireValue_def Atoi_show_int)

lemma entry_ok_status: "entry_ok (entry ''INTEGER'' (boolToStatus b))"
  "entry_ok (entry ''INTEGER'' ''1'')" "entry_ok (entry ''INTEGER'' ''2'')" "entry_ok (entry ''INTEGER'' ''3'')" "entry_ok (entry ''INTEGER'' ''4'')"
  by (simp_all add: boolToStatus_int entry_ok_simps small_int64 digit_texts)

end
