(* ===== verification/Snmp_Objects.thy ===== *)
theory Snmp_Objects
  imports Snmp_Columns
begin

section \<open>The objects of a state below the columns the client walks\<close>

text \<open>
  A state whose numbers fit the wire types of its columns (\<open>snmp_ok\<close>) is served whole, and each
  column holds one row for each of its objects, in order.
\<close>

subsection \<open>Rows below a root\<close>

definition picks :: "int list \<Rightarrow> oid_map \<Rightarrow> oid_map" where
  "picks root rows = filter (\<lambda>r. below root (oid_of (fst r))) rows"

lemma picks_simps [simp]:
  "picks root [] = []" "picks root (xs @ ys) = picks root xs @ picks root ys"
  "picks root ((k, e) # rs) = (if below root (oid_of k) then (k, e) # picks root rs else picks root rs)"
  "picks root (concat xss) = concat (map (picks root) xss)"
  by (simp_all add: picks_def [abs_def] filter_concat)

lemma picks_none: "\<forall>r \<in> set rows. \<not> below root (oid_of (fst r)) \<Longrightarrow> picks root rows = []"
  by (simp add: picks_def)

lemma picks_concat_none: "\<forall>x \<in> set xs. picks root (f x) = [] \<Longrightarrow> concat (map (picks root \<circ> f) xs) = []"
  by (induction xs) auto

text \<open>The columns of the reads modelled here.\<close>

definition port_roots :: "int list set" where
  "port_roots = oid_of ` {IfAdminStatus, IfOperStatus, IfHighSpeed, IfName, IfAlias, IfType, Dot3StatsDuplexStatus, Dot3PauseOperMode}"

definition vlan_roots :: "int list set" where
  "vlan_roots = oid_of ` {Dot1qVlanStaticName, Dot1qVlanStaticEgress, Dot1qVlanStaticUntagged, Dot1qVlanCurrentEgress,
     Dot1qVlanCurrentUntagged}"

definition pvid_roots :: "int list set" where
  "pvid_roots = {oid_of Dot1qPvid}"

lemmas root_defs = port_roots_def vlan_roots_def pvid_roots_def

definition roots :: "int list set" where
  "roots = port_roots \<union> vlan_roots \<union> pvid_roots"

lemma roots_standard: "root \<in> roots \<Longrightarrow> \<exists>r. root = [1, 3, 6, 1, 2] @ r \<and> r \<noteq> []"
  by (auto simp: roots_def root_defs column_oids)

subsection \<open>States the agent serves\<close>

definition counter32_ok :: "u64 option \<Rightarrow> bool" where
  "counter32_ok val = (case val of None \<Rightarrow> True | Some n \<Rightarrow> unat n < 2 ^ 32)"

definition port_served :: "int \<times> port_sim \<Rightarrow> bool" where
  "port_served = (\<lambda>(p, sim). int64_range p \<and> u32_range (vp_speed sim) \<and> int64_range (vp_if_type sim)
     \<and> counter32_ok (vp_rx_errors sim) \<and> counter32_ok (vp_tx_errors sim))"

definition ports_positive :: "bool gomap \<Rightarrow> bool" where
  "ports_positive m \<longleftrightarrow> list_all (\<lambda>(p, b). 1 \<le> p) m"

definition vlan_served :: "int \<times> vlan_sim \<Rightarrow> bool" where
  "vlan_served = (\<lambda>(vid, v). int64_range vid \<and> ports_positive (vv_member v) \<and> ports_positive (vv_untagged v)
     \<and> ports_positive (vv_configured_only v))"

definition vids_ok :: "bool gomap \<Rightarrow> bool" where
  "vids_ok m \<longleftrightarrow> list_all (\<lambda>(v, b). 1 \<le> v \<and> v \<le> 4096) m"

definition poe_served :: "int \<times> poe_sim \<Rightarrow> bool" where
  "poe_served = (\<lambda>(p, q). int64_range p \<and> int64_range (vq_detect q) \<and> u32_range (vq_power_mw q))"

definition collector_served :: "collector_sim \<Rightarrow> bool" where
  "collector_served c \<longleftrightarrow> int64_range (vc_index c) \<and> u32_range (vc_port c) \<and> int64_range (vc_severity c) \<and> int64_range (vc_status c)"

definition snmp_ok :: "vstate \<Rightarrow> bool" where
  "snmp_ok s \<longleftrightarrow>
     (case state_model s of Inl _ \<Rightarrow> False | Inr _ \<Rightarrow> True)
   \<and> list_all port_served (vs_ports s) \<and> list_all vlan_served (vs_vlans s)
   \<and> list_all (\<lambda>(p, v). int64_range p \<and> u32_range v) (vs_pvids s)
   \<and> list_all poe_served (vs_poe s)
   \<and> list_all (\<lambda>x. vn_kind x \<in> {''fan'', ''power'', ''temperature''} \<and> key_ok (vn_instance x)) (vs_sensors s)
   \<and> list_all (\<lambda>x. int64_range (ve_index x) \<and> int64_range (ve_class x)) (vs_entities s)
   \<and> list_all (\<lambda>x. int64_range (va_vlan x) \<and> va_mac x \<noteq> [] \<and> int64_range (va_bridge_port x)) (vs_macs s)
   \<and> list_all (\<lambda>(b, i). int64_range b \<and> int64_range i) (vs_bridge_ports s)
   \<and> list_all (\<lambda>x. int64_range (vl_time_mark x) \<and> int64_range (vl_local_port x) \<and> int64_range (vl_rem_idx x)) (vs_lldp s)
   \<and> key_ok (vm_address (vs_mgmt s))
   \<and> int64_range (vy_admin_mode (vs_syslog s)) \<and> u32_range (vy_local_port (vs_syslog s))
   \<and> list_all collector_served (vy_collectors (vs_syslog s))
   \<and> list_all (\<lambda>(p, v). int64_range v) (vs_sw_mode s)
   \<and> list_all (\<lambda>(p, v). u32_range v) (vs_sw_access s) \<and> list_all (\<lambda>(p, v). u32_range v) (vs_sw_native s)
   \<and> list_all (\<lambda>(p, m). vids_ok m) (vs_sw_general_untagged s) \<and> list_all (\<lambda>(p, m). vids_ok m) (vs_sw_general_tagged s)"

lemma sorted_items_set: "x \<in> set (sorted_items m) \<Longrightarrow> x \<in> set m"
  by (auto simp: sorted_items_def dest: map_of_SomeD)

lemma sorted_items_all: "list_all P m \<Longrightarrow> list_all P (sorted_items m)"
  by (auto simp: list_all_iff dest: sorted_items_set)

subsection \<open>The rows are served\<close>

lemma row_ok_pair [simp]: "row_ok (k, e) \<longleftrightarrow> key_ok k \<and> entry_ok e"
  by (simp add: row_ok_def)

lemma counter_row_ok:
  "key_ok base \<Longrightarrow> int64_range p \<Longrightarrow> list_all row_ok (counter_row base ''Counter64'' p val)"
  "key_ok base \<Longrightarrow> int64_range p \<Longrightarrow> counter32_ok val \<Longrightarrow>
   list_all row_ok (counter_row base ''Counter32'' p val)"
  by (auto simp: counter_row_def counter32_ok_def key_ok_colKey entry_ok_simps split: option.splits)

lemma port_rows_ok: "port_served x \<Longrightarrow> list_all row_ok (port_rows x)"
  by (auto simp: port_rows_def port_served_def counter_row_ok column_keys key_ok_colKey entry_ok_simps entry_ok_status
      split: option.splits)

lemma port_list_ok:
  assumes "ports_positive m"
  shows "\<exists>b. port_list width m = Inr (string_of b) \<and> (\<forall>n. bm_bit b n \<longleftrightarrow> in_set m (int n + 1))"
proof -
  have pos: "\<forall>p \<in> set (sliceFromPortSet m). 1 \<le> p"
    using assms by (auto simp: ports_positive_def list_all_iff sliceFromPortSet_def sorted_keys_def)
  obtain b where "portsToBitmap (sliceFromPortSet m) width = Inr b" "\<forall>n. bm_bit b n \<longleftrightarrow> int n + 1 \<in> set (sliceFromPortSet m)"
    using nsdp_bm.encode_bits [OF pos, of width] by blast
  moreover have "q \<in> set (sliceFromPortSet m) \<longleftrightarrow> in_set m q" for q
    by (auto simp: sliceFromPortSet_def in_set_def)
  ultimately show ?thesis by (auto simp: port_list_def)
qed

lemma Configured_positive: "vlan_served (vid, v) \<Longrightarrow> ports_positive (Configured v)"
  by (auto simp: vlan_served_def Configured_def ports_positive_def list_all_iff)

lemma port_list_total: "ports_positive m \<Longrightarrow> \<exists>b. port_list width m = Inr b"
  using port_list_ok by blast

text \<open>The rows of a VLAN, given its three port lists.\<close>

definition static_rows :: "int \<Rightarrow> vlan_sim \<Rightarrow> string \<Rightarrow> string \<Rightarrow> oid_map" where
  "static_rows vid v configured untagged =
     (if vv_no_static_row v then []
      else [(colKey Dot1qVlanStaticName vid, entry ''OCTETSTR'' (vv_name v)),
            (colKey Dot1qVlanStaticEgress vid, entry ''OCTETSTR'' configured),
            (colKey Dot1qVlanStaticUntagged vid, entry ''OCTETSTR'' untagged)])"

definition port_list_of :: "nat \<Rightarrow> bool gomap \<Rightarrow> string" where
  "port_list_of width m = (case port_list width m of Inl _ \<Rightarrow> [] | Inr b \<Rightarrow> b)"

definition vlan_rows_of :: "nat \<Rightarrow> int \<times> vlan_sim \<Rightarrow> oid_map" where
  "vlan_rows_of width = (\<lambda>(vid, v).
     [(currentKey Dot1qVlanCurrentEgress vid, entry ''OCTETSTR'' (port_list_of width (vv_member v))),
      (currentKey Dot1qVlanCurrentUntagged vid, entry ''OCTETSTR'' (port_list_of width (vv_untagged v))),
      (currentKey Dot1qVlanStatus vid, entry ''INTEGER'' (if vv_no_static_row v then ''1'' else ''2''))]
     @ static_rows vid v (port_list_of width (Configured v)) (port_list_of width (vv_untagged v)))"

lemma vlan_rows_served:
  assumes "vlan_served x"
  shows "vlan_rows width x = Inr (vlan_rows_of width x)" "list_all row_ok (vlan_rows_of width x)"
proof -
  obtain vid v where x: "x = (vid, v)" by force
  have pos: "ports_positive (vv_member v)" "ports_positive (vv_untagged v)" "ports_positive (Configured v)" and vid: "int64_range vid"
    using assms Configured_positive [of vid v] by (auto simp: x vlan_served_def)
  obtain a b c where "port_list width (vv_member v) = Inr a" "port_list width (vv_untagged v) = Inr b" "port_list width (Configured v) = Inr c"
    using pos port_list_total by meson
  then show "vlan_rows width x = Inr (vlan_rows_of width x)"
    by (simp add: x vlan_rows_def vlan_rows_of_def static_rows_def port_list_of_def)
  show "list_all row_ok (vlan_rows_of width x)"
    using vid by (simp add: x vlan_rows_of_def static_rows_def currentKey_ok key_ok_colKey column_keys entry_ok_simps entry_ok_status)
qed

lemma vlanBitmapBytes_total:
  assumes "vids_ok m"
  shows "\<exists>b. vlanBitmapBytes m = Inr b"
proof -
  have "\<forall>v \<in> set (sliceFromPortSet m). 1 \<le> v \<and> v \<le> 4096"
    using assms by (auto simp: vids_ok_def list_all_iff sliceFromPortSet_def sorted_keys_def)
  then show ?thesis using vlan_bits_set [of "sliceFromPortSet m" "replicate SwitchportVlanBitmapBytes 0"]
    by (auto simp: vlanBitmapBytes_def)
qed

lemma int_at_all: "list_all (\<lambda>(p, v). P v) m \<Longrightarrow> P 0 \<Longrightarrow> P (int_at m p)"
  by (auto simp: int_at_def list_all_iff split: option.split dest!: map_of_SomeD)

lemma set_at_all: "list_all (\<lambda>(p, v). vids_ok v) m \<Longrightarrow> vids_ok (set_at m p)"
proof (cases "map_of m p")
  case (Some q)
  assume "list_all (\<lambda>(p, v). vids_ok v) m"
  then show ?thesis using map_of_SomeD [OF Some] by (auto simp: set_at_def Some list_all_iff)
qed (simp add: set_at_def vids_ok_def)

lemma zero_ranges: "int64_range 0" "u32_range 0"
  by (simp_all add: int64_range_def u32_range_def)

definition bitmap_text :: "bool gomap \<Rightarrow> string" where
  "bitmap_text m = (case vlanBitmapBytes m of Inl _ \<Rightarrow> [] | Inr b \<Rightarrow> string_of b)"

definition switchport_rows_of :: "vstate \<Rightarrow> int \<Rightarrow> oid_map" where
  "switchport_rows_of s port =
     [(colKey FastpathSwitchportMode port, entry ''INTEGER'' (show_int (int_at (vs_sw_mode s) port))),
      (colKey FastpathSwitchportAccessVlan port, entry ''Gauge32'' (show_int (int_at (vs_sw_access s) port))),
      (colKey FastpathSwitchportNativeVlan port, entry ''Gauge32'' (show_int (int_at (vs_sw_native s) port))),
      (colKey FastpathSwitchportAllowedVlans port, entry ''OCTETSTR'' (string_of (bytes_at (vs_sw_allowed s) port))),
      (colKey FastpathSwitchportTaggedVlans port, entry ''OCTETSTR'' (bitmap_text (set_at (vs_sw_general_tagged s) port))),
      (colKey FastpathSwitchportUntaggedVlans port, entry ''OCTETSTR'' (bitmap_text (set_at (vs_sw_general_untagged s) port)))]"

lemma switchport_rows_served:
  assumes "snmp_ok s" "int64_range port"
  shows "switchport_rows s port = Inr (switchport_rows_of s port)" "list_all row_ok (switchport_rows_of s port)"
proof -
  obtain a b where "vlanBitmapBytes (set_at (vs_sw_general_tagged s) port) = Inr a"
      "vlanBitmapBytes (set_at (vs_sw_general_untagged s) port) = Inr b"
    using assms(1) set_at_all vlanBitmapBytes_total unfolding snmp_ok_def by meson
  then show "switchport_rows s port = Inr (switchport_rows_of s port)"
    by (simp add: switchport_rows_def switchport_rows_of_def bitmap_text_def)
  have "int64_range (int_at (vs_sw_mode s) port)" "u32_range (int_at (vs_sw_access s) port)" "u32_range (int_at (vs_sw_native s) port)"
    using assms(1) zero_ranges int_at_all [where P = int64_range] int_at_all [where P = u32_range] unfolding snmp_ok_def by blast+
  then show "list_all row_ok (switchport_rows_of s port)"
    using assms(2) by (simp add: switchport_rows_of_def key_ok_colKey column_keys entry_ok_simps)
qed

subsection \<open>The vendor subtree\<close>

definition vendor_ok :: "vendor_oids \<Rightarrow> bool" where
  "vendor_ok v \<longleftrightarrow> v = vendorOidsFor vendorBaseFullyManaged \<or> v = vendorOidsFor vendorBaseSmartManagedPro"

lemma registry_vendor:
  assumes "state_model s = Inr m" "resolveVendorOids m = Some v"
  shows "vendor_ok v"
proof -
  have "m \<in> set Models"
    using assms(1) modelIndex_iff
    by (auto simp: state_model_def mustModel_def GetModel_def Let_def split: sum.splits option.splits)
  then have "sm_snmp_vendor_base m \<in> {[], vendorBaseFullyManaged, vendorBaseSmartManagedPro}"
    by (auto simp: registry_defs)
  then show ?thesis
    using assms(2) by (auto simp: resolveVendorOids_def GetVendorOids_def HasVendorOids_def vendor_ok_def split: if_splits)
qed

text \<open>A key of the enterprise arc, which no standard column is above.\<close>

definition vendor_path :: "string \<Rightarrow> bool" where
  "vendor_path k \<longleftrightarrow> key_ok k \<and> below [1, 3, 6, 1, 4] (oid_of k)"

lemma vendor_path_append: "vendor_path base \<Longrightarrow> key_ok k \<Longrightarrow> vendor_path (base @ ''.'' @ k)"
  by (auto simp: vendor_path_def key_ok_append [simplified] below_iff)

lemma vendor_path_colKey: "vendor_path base \<Longrightarrow> int64_range i \<Longrightarrow> vendor_path (colKey base i)"
  using vendor_path_append [of base "show_int i"] key_ok_int by (simp add: colKey_def)

lemma vendor_path_root: "vendor_path k \<Longrightarrow> root \<in> roots \<Longrightarrow> \<not> below root (oid_of k)"
  using roots_standard by (fastforce simp: vendor_path_def below_iff)

lemma vendor_base_path: "vendor_ok v \<Longrightarrow> vendor_path (vo_base v)"
  by (auto simp: vendor_ok_def vendor_path_def vendorOidsFor_def column_keys column_oids)

lemma vendor_suffixes:
  "nums ''15.1.1.1.2'' [15, 1, 1, 1, 2]" "nums ''43.1.6.1.4'' [43, 1, 6, 1, 4]" "nums ''43.1.8.1.5'' [43, 1, 8, 1, 5]"
  "nums ''43.1.15.1.3'' [43, 1, 15, 1, 3]" "nums ''99.1'' [99, 1]" "nums ''14.1.4.1.0'' [14, 1, 4, 1, 0]"
  "nums ''14.1.4.3.0'' [14, 1, 4, 3, 0]" "nums ''14.1.4.5.1.3'' [14, 1, 4, 5, 1, 3]" "nums ''14.1.4.5.1.4'' [14, 1, 4, 5, 1, 4]"
  "nums ''14.1.4.5.1.5'' [14, 1, 4, 5, 1, 5]" "nums ''14.1.4.5.1.7'' [14, 1, 4, 5, 1, 7]" "nums ''14.1.4.5.1.2'' [14, 1, 4, 5, 1, 2]"
  "nums ''1'' [1]" "nums ''0'' [0]"
  by (simp_all add: nums_eval)

lemma vendor_columns:
  assumes "vendor_ok v"
  shows "vendor_path (vo_poe_power_mw v)" "vendor_path (vo_box_fan v)" "vendor_path (vo_box_psu_power v)" "vendor_path (vo_box_temp v)"
    "vendor_path (vo_dhcp_mode v)" "vendor_path (vo_syslog_admin_mode v)" "vendor_path (vo_syslog_local_port v)"
    "vendor_path (vo_syslog_host_addr v)" "vendor_path (vo_syslog_host_port v)" "vendor_path (vo_syslog_host_severity v)"
    "vendor_path (vo_syslog_host_status v)" "vendor_path (vo_base v @ ''.14.1.4.5.1.2'')"
  using vendor_suffixes [THEN numsD(1), THEN vendor_path_append [OF vendor_base_path [OF assms]]] assms
  by (auto simp: vendor_ok_def vendorOidsFor_def DHCPModeOIDSuffix_def)

subsection \<open>The other rows\<close>

text \<open>Rows that are served and lie below no column of the reads.\<close>

definition beside :: "oid_map \<Rightarrow> bool" where
  "beside rows \<longleftrightarrow> list_all row_ok rows \<and> (\<forall>root \<in> roots. picks root rows = [])"

lemma beside_simps [simp]:
  "beside []" "beside (xs @ ys) \<longleftrightarrow> beside xs \<and> beside ys"
  by (auto simp: beside_def)

lemma beside_Cons [simp]: "beside ((k, e) # rows) \<longleftrightarrow> key_ok k \<and> entry_ok e \<and> (\<forall>root \<in> roots. \<not> below root (oid_of k)) \<and> beside rows"
  by (auto simp: beside_def split: if_splits)

lemma beside_concat: "\<forall>x \<in> set xs. beside (f x) \<Longrightarrow> beside (concat (map f xs))"
  by (induction xs) auto

lemma beside_map: "\<forall>x \<in> set xs. beside [f x] \<Longrightarrow> beside (map f xs)"
  using beside_concat [of xs "\<lambda>x. [f x]"] by simp

lemma vendor_row: "vendor_path k \<Longrightarrow> key_ok k \<and> (\<forall>root \<in> roots. \<not> below root (oid_of k))"
  using vendor_path_root by (auto simp: vendor_path_def)

lemma roots_eval: "(\<forall>root \<in> roots. P root) \<longleftrightarrow> (\<forall>root \<in> port_roots. P root) \<and> (\<forall>root \<in> vlan_roots. P root) \<and> (\<forall>root \<in> pvid_roots. P root)"
  by (auto simp: roots_def)

lemma system_beside:
  assumes "v = None \<or> vendor_ok (the v)" "key_ok (vm_address (vs_mgmt s))"
  shows "beside (system_rows m v s)"
proof -
  have "key_ok (Dot1dBaseBridgeAddress @ ''.0'') \<and> oid_of (Dot1dBaseBridgeAddress @ ''.0'') = [1, 3, 6, 1, 2, 1, 17, 1, 1, 0]"
    using key_ok_append [of Dot1dBaseBridgeAddress "''0''"] vendor_suffixes(14) [THEN numsD(1)] vendor_suffixes(14) [THEN numsD(2)]
    by (simp add: column_keys column_oids)
  then show ?thesis
    by (simp add: system_rows_def column_keys column_oids entry_ok_simps roots_eval root_defs)
qed

lemma entity_beside: "int64_range (ve_index x) \<Longrightarrow> int64_range (ve_class x) \<Longrightarrow> beside (entity_rows x)"
  by (simp add: entity_rows_def key_ok_colKey column_keys column_oids entry_ok_simps roots_eval root_defs)

lemma bridge_beside: "int64_range b \<Longrightarrow> int64_range i \<Longrightarrow> beside [bridge_row (b, i)]"
  by (simp add: bridge_row_def key_ok_colKey column_keys column_oids entry_ok_simps roots_eval root_defs)

lemma byte_int64: "int64_range (uint (b :: byte))"
proof -
  have "0 \<le> uint b" "uint b < 256" using unsigned_less [of b, where 'a = int] by simp_all
  then show ?thesis unfolding int64_range_def by (auto intro: order_trans [of _ 0])
qed

lemma show_nat_int: "show_nat (unat b) = show_int (uint b)"
  by (simp add: show_int_def not_less)

lemma mac_beside:
  assumes "int64_range (va_vlan x)" "va_mac x \<noteq> []" "int64_range (va_bridge_port x)"
  shows "beside [mac_row x]"
proof -
  let ?i = "map uint (va_mac x)"
  have "key_ok (intsToOID ?i)" "oid_of (intsToOID ?i) = ?i"
    using assms(2) byte_int64 oid_of_ints [of ?i] by (simp_all add: key_ok_def oid_ints_def list_all_iff)
  moreover have "Join (map (\<lambda>b. show_nat (unat b)) (va_mac x)) ''.'' = intsToOID ?i"
    by (simp add: intsToOID_def o_def show_nat_int)
  ultimately have k: "key_ok (show_int (va_vlan x) @ ''.'' @ Join (map (\<lambda>b. show_nat (unat b)) (va_mac x)) ''.'')"
    using key_ok_append [OF key_ok_int(1) [OF assms(1)]] by simp
  show ?thesis
    using key_ok_append [OF _ k, of Dot1qTpFdbPort] assms(3)
    by (simp add: mac_row_def column_keys column_oids entry_ok_simps roots_eval root_defs)
qed

lemma lldp_suffixes: "nums ''1.5'' [1, 5]" "nums ''1.7'' [1, 7]" "nums ''1.8'' [1, 8]" "nums ''1.9'' [1, 9]"
  by (simp_all add: nums_eval)

lemma lldp_beside:
  assumes "int64_range (vl_time_mark x)" "int64_range (vl_local_port x)" "int64_range (vl_rem_idx x)"
  shows "beside (lldp_rows x)"
proof -
  define idx where "idx = show_int (vl_time_mark x) @ ''.'' @ show_int (vl_local_port x) @ ''.'' @ show_int (vl_rem_idx x)"
  have idx: "key_ok idx"
    unfolding idx_def using assms by (intro key_ok_append key_ok_int)
  have "key_ok (LldpRemTable @ ''.'' @ mid @ ''.'' @ idx) \<and> oid_of (LldpRemTable @ ''.'' @ mid @ ''.'' @ idx) = oid_of LldpRemTable @ oid_of mid @ oid_of idx"
    if "key_ok mid" for mid
    using key_ok_append [OF that idx] key_ok_append [of LldpRemTable "mid @ ''.'' @ idx"] by (simp add: column_keys)
  from lldp_suffixes [THEN numsD(1), THEN this] show ?thesis
    unfolding idx_def by (simp add: lldp_rows_def Let_def column_oids entry_ok_simps roots_eval root_defs)
qed

lemma poe_beside:
  assumes "poe_served x" "v = None \<or> vendor_ok (the v)"
  shows "beside (poe_rows_of v x)"
proof -
  obtain p q where x: "x = (p, q)" by force
  have r: "int64_range p" "int64_range (vq_detect q)" "u32_range (vq_power_mw q)" using assms(1) by (auto simp: x poe_served_def)
  have mid: "nums ''3.1'' [3, 1]" "nums ''6.1'' [6, 1]" "nums ''1'' [1]" by (simp_all add: nums_eval)
  note k = key_mid [OF column_keys(34) mid(1) r(1)] key_mid [OF column_keys(34) mid(2) r(1)]
  have vp: "vendor_path (vo_poe_power_mw ven @ ''.'' @ ''1'' @ ''.'' @ show_int p)" if "vendor_ok ven" for ven
    using vendor_path_append [OF vendor_columns(1) [OF that] key_ok_append(1) [OF numsD(1) [OF mid(3)] key_ok_int(1) [OF r(1)]]] .
  show ?thesis
  proof (cases v)
    case None
    then show ?thesis using k r
      by (simp add: x poe_rows_of_def column_oids entry_ok_simps entry_ok_status roots_eval root_defs)
  next
    case (Some ven)
    then show ?thesis using k r vendor_row [OF vp] assms(2)
      by (simp add: x poe_rows_of_def column_oids entry_ok_simps entry_ok_status) (simp add: roots_eval root_defs column_oids)
  qed
qed

lemma mgmt_beside:
  assumes "key_ok (vm_address mg)" "v = None \<or> vendor_ok (the v)"
  shows "beside (mgmt_rows v mg)"
proof -
  have z: "key_ok ''0.0.0.0''" using numsD(1) [of "''0.0.0.0''" "[0, 0, 0, 0]"] by (simp add: nums_eval)
  have dh: "vendor_path (vo_dhcp_mode ven @ ''.'' @ ''0'')" if "vendor_ok ven" for ven
    using vendor_path_append [OF vendor_columns(5) [OF that] numsD(1) [OF vendor_suffixes(14)]] .
  note k = key_ok_append [OF _ assms(1), of IPAdEntAddr] key_ok_append [OF _ assms(1), of IPAdEntNetmask]
    key_ok_append [OF _ z, of IPRouteDest] key_ok_append [OF _ z, of IPRouteNextHop]
  show ?thesis
  proof (cases v)
    case None
    then show ?thesis using k
      by (simp add: mgmt_rows_def column_keys column_oids entry_ok_simps roots_eval root_defs)
  next
    case (Some ven)
    then show ?thesis using k vendor_row [OF dh] assms(2)
      by (simp add: mgmt_rows_def column_keys column_oids entry_ok_simps entry_ok_status) (simp add: roots_eval root_defs column_oids)
  qed
qed

lemma vendor_col_row: "vendor_path base \<Longrightarrow> int64_range i \<Longrightarrow> key_ok (colKey base i) \<and> (\<forall>root \<in> roots. \<not> below root (oid_of (colKey base i)))"
  using vendor_row vendor_path_colKey by blast

lemma collector_beside:
  assumes "vendor_ok v" "collector_served c"
  shows "beside (collector_rows v c)"
proof -
  have r: "int64_range (vc_index c)" "u32_range (vc_port c)" "int64_range (vc_severity c)" "int64_range (vc_status c)"
    using assms(2) by (simp_all add: collector_served_def)
  have two: "vo_base v @ ''.14.1.4.5.1.2.'' @ show_int i = colKey (vo_base v @ ''.14.1.4.5.1.2'') i" for i
    by (simp add: colKey_def)
  show ?thesis
    unfolding collector_rows_def two
    using vendor_columns [OF assms(1), THEN vendor_col_row, OF r(1)] r by (simp add: entry_ok_simps entry_ok_status)
qed

lemma syslog_beside:
  assumes "v = None \<or> vendor_ok (the v)" "int64_range (vy_admin_mode y)" "u32_range (vy_local_port y)" "list_all collector_served (vy_collectors y)"
  shows "beside (syslog_rows v y)"
proof (cases v)
  case (Some ven)
  then have v: "vendor_ok ven" using assms(1) by simp
  have "beside (concat (map (collector_rows ven) (vy_collectors y)))"
    by (rule beside_concat) (use assms(4) collector_beside [OF v] in \<open>auto simp: list_all_iff\<close>)
  then show ?thesis
    using vendor_columns [OF v, THEN vendor_row] assms by (simp add: Some syslog_rows_def entry_ok_simps)
qed (simp add: syslog_rows_def)

definition sensor_key :: "vendor_oids \<Rightarrow> string \<Rightarrow> string" where
  "sensor_key v kind = (if kind = ''fan'' then vo_box_fan v else if kind = ''power'' then vo_box_psu_power v else vo_box_temp v)"

definition sensor_row_of :: "vendor_oids \<Rightarrow> sensor_sim \<Rightarrow> oid_map" where
  "sensor_row_of v x = [(sensor_key v (vn_kind x) @ ''.'' @ vn_instance x, entry ''OCTETSTR'' (vn_raw x))]"

lemma sensor_rows_served:
  assumes "vendor_ok v" "vn_kind x \<in> {''fan'', ''power'', ''temperature''}" "key_ok (vn_instance x)"
  shows "sensor_row v x = Inr (sensor_row_of v x)" "beside (sensor_row_of v x)"
proof -
  show "sensor_row v x = Inr (sensor_row_of v x)"
    using assms(2) by (auto simp: sensor_row_def sensor_row_of_def sensor_key_def sensor_base_def)
  have "vendor_path (sensor_key v (vn_kind x) @ ''.'' @ vn_instance x)"
    using vendor_columns [OF assms(1)] by (intro vendor_path_append assms(3)) (simp add: sensor_key_def)
  from vendor_row [OF this] show "beside (sensor_row_of v x)" by (simp add: sensor_row_of_def entry_ok_simps)
qed

lemma switchport_beside:
  assumes "snmp_ok s" "int64_range port"
  shows "beside (switchport_rows_of s port)"
proof -
  have v: "vendor_path FastpathSwitchportMode" "vendor_path FastpathSwitchportAccessVlan" "vendor_path FastpathSwitchportNativeVlan"
    "vendor_path FastpathSwitchportAllowedVlans" "vendor_path FastpathSwitchportTaggedVlans" "vendor_path FastpathSwitchportUntaggedVlans"
    by (simp_all add: vendor_path_def column_keys column_oids)
  have "picks root (switchport_rows_of s port) = []" if "root \<in> roots" for root
    using v [THEN vendor_col_row, OF assms(2)] that by (simp add: switchport_rows_of_def)
  then show ?thesis using switchport_rows_served [OF assms] by (simp add: beside_def)
qed

end
