(* ===== verification/Snmp_Served.thy ===== *)
theory Snmp_Served
  imports Snmp_Objects
begin

section \<open>What the agent serves for a state\<close>

text \<open>
  The rebuilt view of a served state and the walk of each column: one row for each object that has
  the column, in the order of the keys.
\<close>

subsection \<open>All rows\<close>

definition filled :: "switch_model \<Rightarrow> vstate \<Rightarrow> vstate" where
  "filled m s = (if isSwitchportModel m then all_defaults s else s)"

definition vlan_part :: "switch_model \<Rightarrow> vstate \<Rightarrow> oid_map" where
  "vlan_part m s = concat (map (vlan_rows_of (portlist_width m s)) (sorted_items (vs_vlans s)))"

definition port_part :: "vstate \<Rightarrow> oid_map" where
  "port_part s = concat (map port_rows (sorted_items (vs_ports s)))"

definition pvid_part :: "vstate \<Rightarrow> oid_map" where
  "pvid_part s = map pvid_row (sorted_items (vs_pvids s))"

text \<open>A row of a system object is not beside every column; the others are.\<close>

lemma list_all_update: "list_all P m \<Longrightarrow> P (k, v) \<Longrightarrow> list_all P (AList.update k v m)"
  by (induction m) auto

lemma fill_all: "list_all P m \<Longrightarrow> P (k, v) \<Longrightarrow> list_all P (fill k v m)"
  by (simp add: fill_def list_all_update)

lemma snmp_ok_defaults:
  assumes "snmp_ok s"
  shows "snmp_ok (switchportDefaults p s)"
proof -
  have "state_model (switchportDefaults p s) = state_model s"
    by (simp add: state_model_def mustModel_def switchportDefaults_def)
  moreover have "int64_range 1" "u32_range 1" "vids_ok [(1, True)]" "vids_ok []"
    by (simp_all add: int64_range_def u32_range_def vids_ok_def)
  ultimately show ?thesis
    using assms by (simp add: snmp_ok_def switchportDefaults_def fill_all)
qed

lemma defaults_sel [simp]:
  "vs_ports (switchportDefaults p s) = vs_ports s" "vs_vlans (switchportDefaults p s) = vs_vlans s"
  "vs_pvids (switchportDefaults p s) = vs_pvids s" "vs_model_key (switchportDefaults p s) = vs_model_key s"
  "vs_portlist_width (switchportDefaults p s) = vs_portlist_width s" "vs_hostname (switchportDefaults p s) = vs_hostname s"
  by (simp_all add: switchportDefaults_def)

lemma fold_defaults:
  "snmp_ok s \<Longrightarrow> snmp_ok (fold switchportDefaults ps s)"
  "vs_ports (fold switchportDefaults ps s) = vs_ports s" "vs_vlans (fold switchportDefaults ps s) = vs_vlans s"
  "vs_pvids (fold switchportDefaults ps s) = vs_pvids s" "vs_model_key (fold switchportDefaults ps s) = vs_model_key s"
  "vs_portlist_width (fold switchportDefaults ps s) = vs_portlist_width s"
  "vs_hostname (fold switchportDefaults ps s) = vs_hostname s"
  by (induction ps arbitrary: s) (simp_all add: snmp_ok_defaults)

lemma filled_ok:
  "snmp_ok s \<Longrightarrow> snmp_ok (filled m s)"
  by (simp add: filled_def all_defaults_def fold_defaults)

lemma filled_sel [simp]:
  "vs_ports (filled m s) = vs_ports s" "vs_vlans (filled m s) = vs_vlans s" "vs_pvids (filled m s) = vs_pvids s"
  "vs_model_key (filled m s) = vs_model_key s" "vs_portlist_width (filled m s) = vs_portlist_width s"
  "vs_hostname (filled m s) = vs_hostname s"
  by (simp_all add: filled_def all_defaults_def fold_defaults)

lemma state_model_filled [simp]: "state_model (filled m s) = state_model s"
  by (simp add: state_model_def mustModel_def)

lemma pvid_rows_ok: "int64_range p \<Longrightarrow> u32_range v \<Longrightarrow> row_ok (pvid_row (p, v))"
  by (simp add: pvid_row_def key_ok_colKey column_keys entry_ok_simps)

lemma oid_rows_served:
  assumes ok: "snmp_ok s" and m: "state_model s = Inr m"
  shows "\<exists>a b c d. oid_rows s = Inr (a @ port_part s @ b @ vlan_part m s @ pvid_part s @ c @ d, filled m s)
     \<and> beside a \<and> beside b \<and> beside c \<and> beside d
     \<and> list_all row_ok (port_part s) \<and> list_all row_ok (vlan_part m s) \<and> list_all row_ok (pvid_part s)"
proof -
  define s' where "s' = filled m s"
  define v where "v = resolveVendorOids m"
  have ok': "snmp_ok s'" using ok by (simp add: s'_def filled_ok)
  have v: "v = None \<or> vendor_ok (the v)" using registry_vendor [OF m] by (cases v) (auto simp: v_def)
  define b where "b = (if isSwitchportModel m then concat (map (switchport_rows_of s') (sorted_keys (vs_ports s'))) else [])"
  define sens where "sens = (case v of None \<Rightarrow> [] | Some ven \<Rightarrow> concat (map (sensor_row_of ven) (vs_sensors s')))"
  have ports: "int64_range p" if "p \<in> set (sorted_keys (vs_ports s'))" for p
    using ok' that by (fastforce simp: snmp_ok_def list_all_iff port_served_def sorted_keys_def)
  have sw: "(if isSwitchportModel m then collect (map (switchport_rows s') (sorted_keys (vs_ports s'))) else Inr []) = Inr b" "beside b"
    using ports switchport_rows_served [OF ok'] switchport_beside [OF ok']
    by (auto simp: b_def intro!: collect_ok beside_concat)
  have vl: "collect (map (vlan_rows (portlist_width m s')) (sorted_items (vs_vlans s'))) = Inr (vlan_part m s')"
      "list_all row_ok (vlan_part m s')"
  proof -
    have all: "vlan_served x" if "x \<in> set (sorted_items (vs_vlans s'))" for x
      using ok' sorted_items_set [OF that] by (auto simp: snmp_ok_def list_all_iff)
    show "collect (map (vlan_rows (portlist_width m s')) (sorted_items (vs_vlans s'))) = Inr (vlan_part m s')"
      unfolding vlan_part_def using all vlan_rows_served(1) by (intro collect_ok) blast
    show "list_all row_ok (vlan_part m s')"
      using all vlan_rows_served(2) by (fastforce simp: vlan_part_def list_all_iff)
  qed
  have se: "(case v of None \<Rightarrow> Inr [] | Some ven \<Rightarrow> collect (map (sensor_row ven) (vs_sensors s'))) = Inr sens" "beside sens"
  proof -
    have "vn_kind x \<in> {''fan'', ''power'', ''temperature''} \<and> key_ok (vn_instance x)" if "x \<in> set (vs_sensors s')" for x
      using ok' that by (auto simp: snmp_ok_def list_all_iff)
    then show "(case v of None \<Rightarrow> Inr [] | Some ven \<Rightarrow> collect (map (sensor_row ven) (vs_sensors s'))) = Inr sens" "beside sens"
      using v sensor_rows_served unfolding sens_def
      by (auto split: option.split intro!: collect_ok beside_concat)
  qed
  define c where "c = concat (map (poe_rows_of v) (sorted_items (vs_poe s'))) @ sens @ concat (map entity_rows (vs_entities s'))"
  define d where "d = map mac_row (vs_macs s') @ map bridge_row (sorted_items (vs_bridge_ports s')) @ concat (map lldp_rows (vs_lldp s'))
      @ mgmt_rows v (vs_mgmt s') @ syslog_rows v (vs_syslog s')"
  have "beside c"
    unfolding c_def using ok' se(2) v poe_beside entity_beside
    by (auto simp: snmp_ok_def list_all_iff intro!: beside_concat dest!: sorted_items_set)
  moreover have "beside d"
  proof -
    have "beside (map bridge_row (sorted_items (vs_bridge_ports s')))"
      using ok' bridge_beside by (intro beside_map) (auto simp: snmp_ok_def list_all_iff dest!: sorted_items_set)
    moreover have "beside (map mac_row (vs_macs s'))" "beside (concat (map lldp_rows (vs_lldp s')))"
      using ok' mac_beside lldp_beside by (auto simp: snmp_ok_def list_all_iff intro!: beside_map beside_concat)
    moreover have "beside (mgmt_rows v (vs_mgmt s'))" "beside (syslog_rows v (vs_syslog s'))"
      using ok' v mgmt_beside syslog_beside by (auto simp: snmp_ok_def)
    ultimately show ?thesis by (simp add: d_def)
  qed
  moreover have "beside (system_rows m v s')" using system_beside v ok' by (auto simp: snmp_ok_def)
  moreover have "list_all row_ok (port_part s)"
    using ok port_rows_ok by (fastforce simp: port_part_def snmp_ok_def list_all_iff dest!: sorted_items_set)
  moreover have "list_all row_ok (pvid_part s)"
    using ok pvid_rows_ok by (fastforce simp: pvid_part_def snmp_ok_def list_all_iff dest!: sorted_items_set)
  moreover have "oid_rows s = Inr (system_rows m v s' @ port_part s @ b @ vlan_part m s @ pvid_part s @ c @ d, filled m s)"
  proof -
    have parts: "port_part s' = port_part s" "pvid_part s' = pvid_part s" "vlan_part m s' = vlan_part m s"
      by (simp_all add: s'_def port_part_def pvid_part_def vlan_part_def portlist_width_def)
    show ?thesis
      unfolding oid_rows_def m filled_def [symmetric] s'_def [symmetric] v_def [symmetric] rbind_simps Let_def sw(1) vl(1) se(1)
      by (simp add: parts c_def d_def port_part_def [of s', symmetric] pvid_part_def [of s', symmetric])
  qed
  moreover have "list_all row_ok (vlan_part m s)"
    using vl(2) by (simp add: s'_def vlan_part_def portlist_width_def)
  ultimately show ?thesis using sw(2) by blast
qed

end
