(* ===== verification/Snmp_Reads.thy ===== *)
theory Snmp_Reads
  imports Snmp_Served
begin

section \<open>Walks of the columns\<close>

text \<open>
  The rows below each column of a served state, one for each object that has the column and in the
  order of the keys, and what the parsers read from them.
\<close>

subsection \<open>Columns\<close>

text \<open>The entries of a map that have a value, and the rows of a column that holds them.\<close>

definition keyed :: "('x \<Rightarrow> 'v option) \<Rightarrow> (int \<times> 'x) list \<Rightarrow> (int \<times> 'v) list" where
  "keyed f items = concat (map (\<lambda>(k, x). case f x of None \<Rightarrow> [] | Some v \<Rightarrow> [(k, v)]) items)"

definition column_rows :: "(int \<Rightarrow> string) \<Rightarrow> (int \<times> oid_entry) list \<Rightarrow> oid_map" where
  "column_rows key es = map (\<lambda>(k, e). (key k, e)) es"

lemma keyed_simps [simp]:
  "keyed f [] = []" "keyed f ((k, x) # items) = (case f x of None \<Rightarrow> [] | Some v \<Rightarrow> [(k, v)]) @ keyed f items"
  by (simp_all add: keyed_def)

lemma keyed_keys: "q \<in> set (keyed f items) \<Longrightarrow> fst q \<in> fst ` set items"
  by (induction items) (auto split: option.splits)

lemma keyed_all [simp]: "keyed (\<lambda>x. Some (g x)) items = map (\<lambda>(k, x). (k, g x)) items"
  by (induction items) auto

lemma keyed_sorted: "sorted_wrt (<) (map fst items) \<Longrightarrow> sorted_wrt (<) (map fst (keyed f items))"
proof (induction items)
  case (Cons a items)
  obtain k x where a: "a = (k, x)" by force
  have "k < fst q" if "q \<in> set (keyed f items)" for q
    using keyed_keys [OF that] Cons.prems by (auto simp: a)
  then show ?case using Cons by (auto simp: a split: option.split)
qed simp

lemma keyed_map: "keyed f items = map (\<lambda>(k, v). (k, h v)) (keyed g items)" if "\<And>x. f x = map_option h (g x)"
  by (induction items) (auto simp: that split: option.splits)

lemma map_of_keyed:
  "distinct (map fst items) \<Longrightarrow> map_of (keyed f items) k = Option.bind (map_of items k) f"
proof (induction items)
  case (Cons a items)
  obtain j x where a: "a = (j, x)" by force
  have "j \<notin> fst ` set (keyed f items)" using Cons.prems keyed_keys [of _ f items] by (fastforce simp: a)
  then have "map_of (keyed f items) j = None" by (simp add: map_of_eq_None_iff)
  then show ?case using Cons by (auto simp: a split: option.split)
qed simp

lemma sorted_items_sorted: "sorted_wrt (<) (map fst (sorted_items m))"
  by (simp add: sorted_items_def o_def strict_sorted_iff)

lemma column_sorted:
  assumes "sorted_wrt (<) (map fst es)" "\<forall>(k, e) \<in> set es. oid_of (key k) = base @ [k]"
  shows "sorted_wrt (<) (map (\<lambda>r. oid_of (fst r)) (column_rows key es))"
proof -
  have less: "base @ [i] < base @ [j] \<longleftrightarrow> i < j" for i j :: int by (induction base) auto
  have "map (\<lambda>r. oid_of (fst r)) (column_rows key es) = map (\<lambda>k. base @ [k]) (map fst es)"
    using assms(2) by (auto simp: column_rows_def)
  then show ?thesis using assms(1) by (simp add: sorted_wrt_map less)
qed

subsection \<open>The columns of the ports\<close>

definition port_cols :: "(string \<times> (port_sim \<Rightarrow> oid_entry option)) list" where
  "port_cols =
     [(IfAdminStatus, \<lambda>sim. Some (entry ''INTEGER'' (show_int (if vp_admin sim then 1 else 2)))),
      (IfOperStatus, \<lambda>sim. Some (entry ''INTEGER'' (show_int (if vp_link sim then 1 else 2)))),
      (IfHighSpeed, \<lambda>sim. Some (entry ''Gauge32'' (show_int (vp_speed sim)))),
      (IfType, \<lambda>sim. Some (entry ''INTEGER'' (show_int (vp_if_type sim)))),
      (IfName, \<lambda>sim. Some (entry ''OCTETSTR'' (vp_name sim))),
      (IfAlias, \<lambda>sim. map_option (entry ''OCTETSTR'') (vp_description sim)),
      (Dot3StatsDuplexStatus, \<lambda>sim. if vp_serves_etherlike sim
         then Some (entry ''INTEGER'' (show_int (if vp_link sim then 3 else 1))) else None),
      (Dot3PauseOperMode, \<lambda>sim. if vp_serves_etherlike sim
         then Some (entry ''INTEGER'' (show_int (if vp_flow_control sim then 4 else 1))) else None)]"

lemma counter_row_picks:
  assumes "key_ok base" "int64_range p" "\<not> below root (oid_of base @ [p])"
  shows "picks root (counter_row base t p val) = []"
  using assms by (simp add: counter_row_def key_ok_colKey split: option.split)

lemma port_rows_picks:
  assumes "port_served (p, sim)" "(base, f) \<in> set port_cols"
  shows "picks (oid_of base) (port_rows (p, sim)) = column_rows (colKey base) (keyed f [(p, sim)])"
proof -
  have p: "int64_range p" using assms(1) by (simp add: port_served_def)
  have texts: "(if b then ''3'' else ''1'') = show_int (if b then 3 else 1)" "(if b then ''4'' else ''1'') = show_int (if b then 4 else 1)" for b
    by (simp_all add: digit_texts)
  note cols = port_rows_def key_ok_colKey column_keys column_oids p counter_row_picks column_rows_def boolToStatus_int texts
  show ?thesis
    using assms(2) unfolding port_cols_def
    apply (simp only: set_simps insert_iff empty_iff prod.inject)
    apply (elim disjE conjE)
    apply (simp_all add: cols split: option.split)
    done
qed

lemma port_rows_other:
  assumes "port_served (p, sim)" "root \<in> vlan_roots \<union> pvid_roots"
  shows "picks root (port_rows (p, sim)) = []"
proof -
  have p: "int64_range p" using assms(1) by (simp add: port_served_def)
  show ?thesis
    using assms(2) unfolding vlan_roots_def pvid_roots_def
    apply (simp only: image_insert image_empty Un_iff insert_iff empty_iff simp_thms)
    apply (elim disjE)
    apply (simp_all add: port_rows_def key_ok_colKey column_keys column_oids p counter_row_picks split: option.split)
    done
qed

subsection \<open>VLANs and PVIDs\<close>

definition vlan_cols :: "nat \<Rightarrow> (string \<times> (int \<Rightarrow> string) \<times> int list \<times> (vlan_sim \<Rightarrow> oid_entry option)) list" where
  "vlan_cols w =
     [(Dot1qVlanStaticName, colKey Dot1qVlanStaticName, [],
         \<lambda>v. if vv_no_static_row v then None else Some (entry ''OCTETSTR'' (vv_name v))),
      (Dot1qVlanStaticEgress, colKey Dot1qVlanStaticEgress, [],
         \<lambda>v. if vv_no_static_row v then None else Some (entry ''OCTETSTR'' (port_list_of w (Configured v)))),
      (Dot1qVlanStaticUntagged, colKey Dot1qVlanStaticUntagged, [],
         \<lambda>v. if vv_no_static_row v then None else Some (entry ''OCTETSTR'' (port_list_of w (vv_untagged v)))),
      (Dot1qVlanCurrentEgress, currentKey Dot1qVlanCurrentEgress, [0],
         \<lambda>v. Some (entry ''OCTETSTR'' (port_list_of w (vv_member v)))),
      (Dot1qVlanCurrentUntagged, currentKey Dot1qVlanCurrentUntagged, [0],
         \<lambda>v. Some (entry ''OCTETSTR'' (port_list_of w (vv_untagged v))))]"

lemma vlan_rows_picks:
  assumes "int64_range vid" "(base, key, mid, f) \<in> set (vlan_cols w)"
  shows "picks (oid_of base) (vlan_rows_of w (vid, v)) = column_rows key (keyed f [(vid, v)])"
  using assms(2) unfolding vlan_cols_def
  apply (simp only: set_simps insert_iff empty_iff prod.inject)
  apply (elim disjE conjE)
  apply (simp_all add: vlan_rows_of_def static_rows_def key_ok_colKey currentKey_ok column_keys column_oids assms(1) column_rows_def)
  done

lemma vlan_rows_other:
  assumes "int64_range vid" "root \<in> port_roots \<union> pvid_roots"
  shows "picks root (vlan_rows_of w (vid, v)) = []"
  using assms(2) unfolding port_roots_def pvid_roots_def
  apply (simp only: image_insert image_empty Un_iff insert_iff empty_iff simp_thms)
  apply (elim disjE)
  apply (simp_all add: vlan_rows_of_def static_rows_def key_ok_colKey currentKey_ok column_keys column_oids assms(1))
  done

lemma pvid_row_picks:
  assumes "int64_range p" "root \<in> roots"
  shows "picks root [pvid_row (p, v)] = (if root \<in> pvid_roots then [pvid_row (p, v)] else [])"
  using assms(2) unfolding roots_def root_defs
  apply (simp only: image_insert image_empty Un_iff insert_iff empty_iff simp_thms)
  apply (elim disjE)
  apply (simp_all add: pvid_row_def key_ok_colKey column_keys column_oids assms(1))
  done

subsection \<open>One walk\<close>

lemma picks_concat: "\<forall>x \<in> set items. picks root (g x) = column_rows key (keyed f [x]) \<Longrightarrow>
   picks root (concat (map g items)) = column_rows key (keyed f items)"
  by (induction items) (auto simp: column_rows_def keyed_def)

lemma picks_concat_empty: "\<forall>x \<in> set items. picks root (g x) = [] \<Longrightarrow> picks root (concat (map g items)) = []"
  by (induction items) auto

text \<open>
  What a walk of a column finds on a face whose view was just rebuilt: its rows, in order, as the
  client decodes them.
\<close>

definition walked :: "oid_map \<Rightarrow> row list" where
  "walked rows = map (\<lambda>r. entry_row (view_row r)) rows"

text \<open>A face that serves a state: its view is the one rebuilt from it.\<close>

definition serving :: "snmp_face \<Rightarrow> vstate \<Rightarrow> bool" where
  "serving f s \<longleftrightarrow> snmp_ok s \<and> (case NewMibView s of Inl _ \<Rightarrow> False | Inr v \<Rightarrow> sf_view f = v)"

lemma vlan_cols_key:
  assumes "(base, key, mid, f) \<in> set (vlan_cols w)" "int64_range k"
  shows "key_ok (key k)" "oid_of (key k) = (oid_of base @ mid) @ [k]" "oid_of base \<in> roots"
  using assms(1) unfolding vlan_cols_def
  by (auto simp: key_ok_colKey currentKey_ok column_keys assms(2) roots_def vlan_roots_def)

lemma port_cols_key:
  assumes "(base, f) \<in> set port_cols"
  shows "key_ok base" "oid_of base \<in> port_roots"
  using assms by (auto simp: port_cols_def column_keys port_roots_def)

lemma roots_apart: "root \<in> port_roots \<Longrightarrow> root \<notin> vlan_roots \<and> root \<notin> pvid_roots" "root \<in> vlan_roots \<Longrightarrow> root \<notin> pvid_roots"
  by (auto simp: root_defs column_oids)

lemma Rebuild_state: "Rebuild v = Rebuild \<lparr>mv_state = mv_state v, mv_entries = []\<rparr>"
  by (simp add: Rebuild_def)

lemma serving_view:
  assumes "serving f s" "state_model s = Inr m"
  shows "snmp_ok s \<and> mv_state (sf_view f) = filled m s \<and> view_ok (sf_view f)
    \<and> (\<forall>root \<in> roots. \<forall>col. picks root (port_part s @ vlan_part m s @ pvid_part s) = col \<longrightarrow>
         sorted_wrt (<) (map (\<lambda>r. oid_of (fst r)) col) \<longrightarrow> subtree root (mv_entries (sf_view f)) = map view_row col)"
proof -
  have ok: "snmp_ok s" using assms(1) by (simp add: serving_def)
  obtain a b c d where rows: "oid_rows s = Inr (a @ port_part s @ b @ vlan_part m s @ pvid_part s @ c @ d, filled m s)"
      (is "_ = Inr (?rows, _)")
    and bes: "beside a" "beside b" "beside c" "beside d"
    and ok3: "list_all row_ok (port_part s)" "list_all row_ok (vlan_part m s)" "list_all row_ok (pvid_part s)"
    using oid_rows_served [OF ok assms(2)] by blast
  have all: "list_all row_ok ?rows" using bes ok3 by (simp add: beside_def)
  have sm: "state_model (filled m s) = Inr m" using assms(2) by simp
  obtain v' where v': "Rebuild \<lparr>mv_state = s, mv_entries = []\<rparr> = Inr v'" "mv_state v' = filled m s" "view_ok v'"
      and sub: "\<And>root col. picks root ?rows = col \<Longrightarrow> sorted_wrt (<) (map (\<lambda>r. oid_of (fst r)) col)
         \<Longrightarrow> subtree root (mv_entries v') = map view_row col"
    using Rebuild_ok [of "\<lparr>mv_state = s, mv_entries = []\<rparr>" ?rows "filled m s" m] rows all sm unfolding picks_def by auto
  have v: "sf_view f = v'" using assms(1) v'(1) by (simp add: serving_def NewMibView_def)
  have eq: "picks root ?rows = picks root (port_part s @ vlan_part m s @ pvid_part s)" if "root \<in> roots" for root
    using bes that by (auto simp: beside_def)
  have "subtree root (mv_entries v') = map view_row col"
    if r: "root \<in> roots" and c: "picks root (port_part s @ vlan_part m s @ pvid_part s) = col"
      and so: "sorted_wrt (<) (map (\<lambda>r. oid_of (fst r)) col)" for root col
    by (rule sub [OF trans [OF eq [OF r] c] so])
  then show ?thesis using ok v'(2,3) unfolding v by blast
qed

lemma served_ports: "snmp_ok s \<Longrightarrow> x \<in> set (sorted_items (vs_ports s)) \<Longrightarrow> port_served x \<and> int64_range (fst x)"
  by (drule sorted_items_set) (cases x, auto simp: snmp_ok_def list_all_iff port_served_def)

lemma served_vlans: "snmp_ok s \<Longrightarrow> x \<in> set (sorted_items (vs_vlans s)) \<Longrightarrow> vlan_served x \<and> int64_range (fst x)"
  by (drule sorted_items_set) (cases x, auto simp: snmp_ok_def list_all_iff vlan_served_def)

lemma served_pvids: "snmp_ok s \<Longrightarrow> x \<in> set (sorted_items (vs_pvids s)) \<Longrightarrow> int64_range (fst x) \<and> u32_range (snd x)"
  by (drule sorted_items_set) (cases x, auto simp: snmp_ok_def list_all_iff)

lemmas served_keys = served_ports served_vlans served_pvids

lemma picks_pvids:
  assumes "\<forall>x \<in> set xs. int64_range (fst x)" "root \<in> roots"
  shows "picks root (map pvid_row xs) = (if root \<in> pvid_roots then map pvid_row xs else [])"
  using assms(1)
proof (induction xs)
  case (Cons x xs)
  have "picks root (map pvid_row (x # xs)) = picks root [pvid_row x] @ picks root (map pvid_row xs)"
    unfolding list.map using picks_simps(2) [of root "[pvid_row x]" "map pvid_row xs"] by simp
  then show ?case using Cons pvid_row_picks [of "fst x" root "snd x"] assms(2) by auto
qed simp

lemma picks_parts:
  assumes "snmp_ok s" "root \<in> roots"
  shows "root \<notin> port_roots \<Longrightarrow> picks root (port_part s) = []" "root \<notin> vlan_roots \<Longrightarrow> picks root (vlan_part m s) = []"
    "picks root (pvid_part s) = (if root \<in> pvid_roots then pvid_part s else [])"
proof -
  assume n: "root \<notin> port_roots"
  have "picks root (port_rows x) = []" if "x \<in> set (sorted_items (vs_ports s))" for x
    using served_ports [OF assms(1) that] n assms(2) port_rows_other [of "fst x" "snd x" root] by (simp add: roots_def)
  then show "picks root (port_part s) = []" unfolding port_part_def by (intro picks_concat_empty) blast
next
  assume n: "root \<notin> vlan_roots"
  have "picks root (vlan_rows_of w x) = []" if "x \<in> set (sorted_items (vs_vlans s))" for x w
    using served_vlans [OF assms(1) that] n assms(2) vlan_rows_other [of "fst x" root w "snd x"] by (simp add: roots_def)
  then show "picks root (vlan_part m s) = []" unfolding vlan_part_def by (intro picks_concat_empty) blast
next
  have "\<forall>x \<in> set (sorted_items (vs_pvids s)). int64_range (fst x)" using served_pvids [OF assms(1)] by blast
  then show "picks root (pvid_part s) = (if root \<in> pvid_roots then pvid_part s else [])"
    unfolding pvid_part_def by (rule picks_pvids [OF _ assms(2)])
qed

lemma serving_ports:
  assumes "serving f s" "state_model s = Inr m" and col: "(base, fc) \<in> set port_cols"
  shows "subtree (oid_of base) (mv_entries (sf_view f)) = map view_row (column_rows (colKey base) (keyed fc (sorted_items (vs_ports s))))"
proof -
  note view = serving_view [OF assms(1,2)]
  have ok: "snmp_ok s" using view by simp
  have root: "oid_of base \<in> port_roots" "oid_of base \<in> roots" "key_ok base" using port_cols_key [OF col] by (auto simp: roots_def)
  have "picks (oid_of base) (port_part s) = column_rows (colKey base) (keyed fc (sorted_items (vs_ports s)))"
    unfolding port_part_def by (rule picks_concat) (use served_keys [OF ok] port_rows_picks col in auto)
  then have "picks (oid_of base) (port_part s @ vlan_part m s @ pvid_part s) = column_rows (colKey base) (keyed fc (sorted_items (vs_ports s)))"
    using picks_parts [OF ok root(2)] roots_apart(1) [OF root(1)] by simp
  moreover have "sorted_wrt (<) (map (\<lambda>r. oid_of (fst r)) (column_rows (colKey base) (keyed fc (sorted_items (vs_ports s)))))"
  proof (rule column_sorted [OF keyed_sorted [OF sorted_items_sorted]], clarify)
    fix k e assume "(k, e) \<in> set (keyed fc (sorted_items (vs_ports s)))"
    from keyed_keys [OF this] have "int64_range k" using served_keys [OF ok] by auto
    then show "oid_of (colKey base k) = oid_of base @ [k]" using key_ok_colKey [OF root(3)] by simp
  qed
  ultimately show ?thesis using view root(2) by blast
qed

lemma serving_vlans:
  assumes "serving f s" "state_model s = Inr m" and col: "(base, key, mid, fv) \<in> set (vlan_cols (portlist_width m s))"
  shows "subtree (oid_of base) (mv_entries (sf_view f)) = map view_row (column_rows key (keyed fv (sorted_items (vs_vlans s))))"
proof -
  note view = serving_view [OF assms(1,2)]
  have ok: "snmp_ok s" using view by simp
  have root: "oid_of base \<in> vlan_roots" "oid_of base \<in> roots"
    using vlan_cols_key(3) [OF col, of 0] zero_ranges col by (auto simp: vlan_cols_def vlan_roots_def)
  have "picks (oid_of base) (vlan_part m s) = column_rows key (keyed fv (sorted_items (vs_vlans s)))"
    unfolding vlan_part_def by (rule picks_concat) (use served_keys [OF ok] vlan_rows_picks [OF _ col] in fastforce)
  then have "picks (oid_of base) (port_part s @ vlan_part m s @ pvid_part s) = column_rows key (keyed fv (sorted_items (vs_vlans s)))"
    using picks_parts [OF ok root(2)] roots_apart [of "oid_of base"] root(1) by auto
  moreover have "sorted_wrt (<) (map (\<lambda>r. oid_of (fst r)) (column_rows key (keyed fv (sorted_items (vs_vlans s)))))"
  proof (rule column_sorted [OF keyed_sorted [OF sorted_items_sorted]], clarify)
    fix k e assume "(k, e) \<in> set (keyed fv (sorted_items (vs_vlans s)))"
    from keyed_keys [OF this] have "int64_range k" using served_keys [OF ok] by auto
    then show "oid_of (key k) = (oid_of base @ mid) @ [k]" using vlan_cols_key [OF col] by simp
  qed
  ultimately show ?thesis using view root(2) by blast
qed

lemma serving_pvids:
  assumes "serving f s" "state_model s = Inr m"
  shows "subtree (oid_of Dot1qPvid) (mv_entries (sf_view f)) =
    map view_row (column_rows (colKey Dot1qPvid) (keyed (\<lambda>v. Some (entry ''Gauge32'' (show_int v))) (sorted_items (vs_pvids s))))"
    (is "_ = map view_row ?col")
proof -
  note view = serving_view [OF assms]
  have ok: "snmp_ok s" using view by simp
  have root: "oid_of Dot1qPvid \<in> pvid_roots" "oid_of Dot1qPvid \<in> roots" by (simp_all add: roots_def pvid_roots_def)
  have "?col = pvid_part s"
    by (simp add: column_rows_def pvid_part_def pvid_row_def case_prod_beta')
  then have "picks (oid_of Dot1qPvid) (port_part s @ vlan_part m s @ pvid_part s) = ?col"
    using picks_parts [OF ok root(2)] root(1) roots_apart by auto
  moreover have "sorted_wrt (<) (map (\<lambda>r. oid_of (fst r)) ?col)"
  proof (rule column_sorted [OF keyed_sorted [OF sorted_items_sorted]], clarify)
    fix k e assume "(k, e) \<in> set (keyed (\<lambda>v. Some (entry ''Gauge32'' (show_int v))) (sorted_items (vs_pvids s)))"
    from keyed_keys [OF this] have "int64_range k" using served_keys [OF ok] by auto
    then show "oid_of (colKey Dot1qPvid k) = oid_of Dot1qPvid @ [k]" by (simp add: key_ok_colKey column_keys)
  qed
  ultimately show ?thesis using view root(2) by blast
qed

end
