(* ===== verification/Snmp_System.thy ===== *)
theory Snmp_System
  imports Snmp_Reads
begin

section \<open>The SNMP reader on the virtual switch\<close>

text \<open>
  The reader over the gosnmp client over the agent: what GetPorts, GetVLANs and GetPVIDs return for
  a state the agent serves.
\<close>

subsection \<open>Columns the agent implements\<close>

text \<open>
  The agent refuses the PoE table and the vendor's power column of a model without PoE ports; the
  columns of these reads lie outside both.
\<close>

lemma intsToOID_inj: "a \<noteq> [] \<Longrightarrow> b \<noteq> [] \<Longrightarrow> intsToOID a = intsToOID b \<longleftrightarrow> a = b"
proof
  assume ne: "a \<noteq> []" "b \<noteq> []" and "intsToOID a = intsToOID b"
  then have "map show_int a = map show_int b" using split_intsToOID by metis
  then show "a = b" by (rule map_injective) (simp add: inj_def)
qed simp

lemma standard_implemented:
  assumes m: "state_model (mv_state v) = Inr m" and o: "oid = [1, 3, 6, 1, 2, 1, x] @ r" "x \<noteq> 105"
  shows "implemented v oid"
proof -
  have o': "oid \<noteq> []" using o by simp
  have clear: "dropWhile (\<lambda>c. c = CHR ''.'') (intsToOID oid) \<noteq> k
      \<and> strip_prefix (k @ ''.'') (dropWhile (\<lambda>c. c = CHR ''.'') (intsToOID oid)) = None"
    if k: "key_ok k" "oid_of k \<noteq> oid" "\<not> below (oid_of k) oid" for k
  proof -
    have d: "dropWhile (\<lambda>c. c = CHR ''.'') (intsToOID oid) = intsToOID oid"
      using intsToOID_no_dot_prefix(2) [OF o'] by (simp add: TrimDots_def)
    have ne: "oid_of k \<noteq> []" and ki: "intsToOID (oid_of k) = k" using k(1) by (auto simp: key_ok_def oid_ints_def)
    have "intsToOID oid \<noteq> k"
      using intsToOID_inj [of "oid_of k" oid] ne o' ki k(2) by auto
    moreover have "strip_prefix (k @ ''.'') (intsToOID oid) = None"
      using intsToOID_prefix [OF ne o'] k(3) ki
      by (cases "strip_prefix (k @ ''.'') (intsToOID oid)") (auto simp: strip_prefix_Some below_iff)
    ultimately show ?thesis by (simp add: d)
  qed
  have "IsOIDImplemented m (intsToOID oid)"
  proof -
    have poe: "key_ok PethPsePortTable" "oid_of PethPsePortTable = [1, 3, 6, 1, 2, 1, 105, 1, 1, 1]" by (simp_all add: column_keys column_oids)
    have vendor: "key_ok k \<and> oid_of k \<noteq> oid \<and> \<not> below (oid_of k) oid"
      if "HasVendorOids m" and kdef: "k = vo_poe_power_mw (vendorOidsFor (sm_snmp_vendor_base m))" for k
    proof -
      have "resolveVendorOids m = Some (vendorOidsFor (sm_snmp_vendor_base m))"
        using that by (simp add: resolveVendorOids_def GetVendorOids_def)
      then have "vendor_path k" using registry_vendor [OF m] vendor_columns(1) kdef by blast
      then obtain r' where "key_ok k" "oid_of k = [1, 3, 6, 1, 4] @ r'" by (auto simp: vendor_path_def below_iff)
      then show ?thesis using o by auto
    qed
    show ?thesis
      unfolding IsOIDImplemented_def UnimplementedRoots_def Let_def
      using clear [OF poe(1)] poe(2) o clear [of "vo_poe_power_mw (vendorOidsFor (sm_snmp_vendor_base m))"] vendor
      by (auto simp: list_all_iff)
  qed
  then show ?thesis using m by (simp add: implemented_def IsImplemented_def)
qed

text \<open>The client of the writers and readers; a walk that never ended would have no outcome, which a panic stands for.\<close>

definition gosnmp_client :: "'s gosnmp \<Rightarrow> 's snmp_client" where
  "gosnmp_client g =
     \<lparr>cl_Get = client_Get g, cl_Walk = (\<lambda>oid s. case Walk g oid s of None \<Rightarrow> (Inl Go_Panic, s) | Some r \<Rightarrow> r),
      cl_Set = Set_one g, cl_SetMany = SetMany g\<rparr>"

lemma roots_ints: "root \<in> roots \<Longrightarrow> oid_ints root \<and> (\<exists>x r. root = [1, 3, 6, 1, 2, 1, x] @ r \<and> x \<noteq> 105)"
  by (auto simp: roots_def root_defs column_oids oid_ints_def int64_range_def)

lemma walk_column:
  assumes "serving f s" "state_model s = Inr m" "sf_community f = community" and root: "oid_of base \<in> roots" "key_ok base"
  shows "cl_Walk (gosnmp_client (virtual_link community)) base f =
     (Inr (map entry_row (subtree (oid_of base) (mv_entries (sf_view f)))), f)"
proof -
  have view: "mv_state (sf_view f) = filled m s" "view_ok (sf_view f)" using serving_view [OF assms(1,2)] by auto
  have m: "state_model (mv_state (sf_view f)) = Inr m" using view(1) assms(2) by simp
  obtain x r where r: "oid_of base = [1, 3, 6, 1, 2, 1, x] @ r" "x \<noteq> 105" and o: "oid_ints (oid_of base)" using roots_ints [OF root(1)] by blast
  have "served f (oid_of base)"
    unfolding served_def
    using view(2) o standard_implemented [OF m r] standard_implemented [OF m _ r(2)] r(1)
    by (auto simp: list_all_iff subtree_def below_iff)
  from Walk_rows [OF this assms(3)] show ?thesis
    using root(2) by (simp add: gosnmp_client_def key_ok_def)
qed

subsection \<open>Rows to values\<close>

definition octet_text :: "string \<Rightarrow> string" where
  "octet_text s = (if isPrintableOctets (bytes_of s) then s else decodeUTF8Replace (bytes_of s))"

lemma wrap64_id: "int64_range v \<Longrightarrow> wrap64 v = v"
  by (simp add: wrap64_def int64_range_def)

lemma entry_row_int:
  "key_ok k \<Longrightarrow> int64_range v \<Longrightarrow> entry_row (view_row (k, entry ''INTEGER'' (show_int v))) = intRow k v ''INTEGER''"
  "key_ok k \<Longrightarrow> u32_range v \<Longrightarrow> entry_row (view_row (k, entry ''Gauge32'' (show_int v))) = intRow k v ''Gauge32''"
proof -
  assume k: "key_ok k"
  have ne: "oid_of k \<noteq> []" "intsToOID (oid_of k) = k" using k by (auto simp: key_ok_def oid_ints_def)
  have td: "TrimDots (CHR ''.'' # k) = k" using intsToOID_no_dot_prefix(1) [OF ne(1)] ne(2) by simp
  note row = entry_row_def entry_pdu_def view_row_def entry_def normalizeVarbind_def int_row_def decoded_def Let_def
    dot_form_ints ne td
  show "int64_range v \<Longrightarrow> entry_row (view_row (k, entry ''INTEGER'' (show_int v))) = intRow k v ''INTEGER''"
    by (simp add: row wire_integer wrap64_id)
  assume v: "u32_range v"
  then have "int64_range v" by (simp add: u32_range_def int64_range_def)
  then show "entry_row (view_row (k, entry ''Gauge32'' (show_int v))) = intRow k v ''Gauge32''"
    using v by (simp add: row wire_gauge wrap64_id)
qed

lemma entry_row_octets:
  assumes "key_ok k"
  shows "entry_row (view_row (k, entry ''OCTETSTR'' t)) =
     (if isPrintableOctets (bytes_of t) then strRow k t ''STRING'' else bytesRow k (bytes_of t) ''Hex-STRING'')"
proof -
  have ne: "oid_of k \<noteq> []" "intsToOID (oid_of k) = k" using assms by (auto simp: key_ok_def oid_ints_def)
  have td: "TrimDots (CHR ''.'' # k) = k" using intsToOID_no_dot_prefix(1) [OF ne(1)] ne(2) by simp
  show ?thesis
    by (simp add: entry_row_def entry_pdu_def view_row_def entry_def normalizeVarbind_def decoded_def Let_def
        dot_form_ints ne td wire_octets)
qed

lemma suffix_rows [simp]:
  "suffix (intRow (colKey base k) v t) base = Some (show_int k)"
  "suffix (strRow (colKey base k) x t) base = Some (show_int k)"
  "suffix (bytesRow (colKey base k) b t) base = Some (show_int k)"
  "rw_value (intRow oid v t) = VInt v" "rw_value (strRow oid x t) = VStr x" "rw_value (bytesRow oid b t) = VBytes b"
  using strip_prefix_append [of "base @ ''.''" "show_int k"]
  by (simp_all add: suffix_def intRow_def strRow_def bytesRow_def NewIntRow_def NewStrRow_def NewBytesRow_def colKey_def)

text \<open>The rows of a column of integers, of texts.\<close>

definition cells :: "(int \<Rightarrow> string) \<Rightarrow> ('v \<Rightarrow> oid_entry) \<Rightarrow> (int \<times> 'v) list \<Rightarrow> row list" where
  "cells key f vs = map (\<lambda>(k, v). entry_row (view_row (key k, f v))) vs"

lemma cells_simps [simp]:
  "cells key f [] = []" "cells key f ((k, v) # vs) = entry_row (view_row (key k, f v)) # cells key f vs"
  by (simp_all add: cells_def)

lemma cells_rows: "map entry_row (map view_row (column_rows key (keyed (\<lambda>x. map_option f (g x)) items))) = cells key f (keyed g items)"
  by (simp add: cells_def column_rows_def keyed_map [of "\<lambda>x. map_option f (g x)" f g] case_prod_beta')

lemma int_cells:
  assumes "key_ok base" "list_all (\<lambda>(k, v). int64_range k \<and> entry_row (view_row (colKey base k, h v)) = intRow (colKey base k) v t) vs"
  shows "int_column base out (cells (colKey base) h vs) = Inr (fold (\<lambda>(k, v). AList.update k v) vs out)"
  using assms(2) by (induction vs arbitrary: out) (auto simp: show_int_no_dot Atoi_show_int)

lemma IndexIntColumn_cells:
  assumes "key_ok base" "distinct (map fst vs)" "list_all (\<lambda>(k, v). int64_range k \<and> P v) vs"
    "P = int64_range \<and> ty = ''INTEGER'' \<or> P = u32_range \<and> ty = ''Gauge32''"
  shows "IndexIntColumn (cells (colKey base) (\<lambda>v. entry ty (show_int v)) vs) base = Inr vs"
proof -
  have "list_all (\<lambda>(k, v). int64_range k \<and> entry_row (view_row (colKey base k, entry ty (show_int v))) = intRow (colKey base k) v ty) vs"
    using assms(1,3,4) by (auto simp: list_all_iff entry_row_int key_ok_colKey)
  from int_cells [OF assms(1) this] show ?thesis
    using assms(2) by (simp add: IndexIntColumn_def fold_update_distinct)
qed

lemma str_cells:
  "key_ok base \<Longrightarrow> list_all (\<lambda>(k, v). int64_range k) vs \<Longrightarrow> str_column base out (cells (colKey base) (entry ''OCTETSTR'') vs) =
     Inr (fold (\<lambda>(k, v). AList.update k v) (map (\<lambda>(k, v). (k, octet_text v)) vs) out)"
  by (induction vs arbitrary: out)
    (auto simp: entry_row_octets key_ok_colKey show_int_no_dot Atoi_show_int octet_text_def)

lemma IndexStrColumn_cells:
  assumes "key_ok base" "distinct (map fst vs)" "list_all (\<lambda>(k, v). int64_range k) vs"
  shows "IndexStrColumn (cells (colKey base) (entry ''OCTETSTR'') vs) base = Inr (map (\<lambda>(k, v). (k, octet_text v)) vs)"
proof -
  define us where "us = map (\<lambda>(k, v). (k, octet_text v)) vs"
  have "map fst us = map fst vs" by (simp add: us_def case_prod_beta')
  then have "distinct (map fst us)" using assms(2) by simp
  then show ?thesis
    unfolding IndexStrColumn_def str_cells [OF assms(1,3)] us_def [symmetric] by (simp add: fold_update_distinct)
qed

subsection \<open>Reading the columns of the ports\<close>

lemma keyed_distinct: "distinct (map fst (keyed g (sorted_items m)))"
  using keyed_sorted [OF sorted_items_sorted, of g m] by (simp add: strict_sorted_iff)

lemma map_of_sorted_items [simp]: "map_of (sorted_items m) = map_of m"
proof
  fix k show "map_of (sorted_items m) k = map_of m k"
    by (cases "map_of m k") (auto simp: sorted_items_def map_of_map_keys dom_def)
qed

lemma map_of_column: "map_of (keyed g (sorted_items m)) k = Option.bind (map_of m k) g"
  using map_of_keyed [of "sorted_items m" g k] sorted_items_sorted [of m] by (simp add: strict_sorted_iff)

lemma keyed_all_ok:
  "\<forall>x \<in> set items. int64_range (fst x) \<and> (\<forall>v. g (snd x) = Some v \<longrightarrow> P v) \<Longrightarrow>
   list_all (\<lambda>(k, v). int64_range k \<and> P v) (keyed g items)"
  by (induction items) (auto split: option.splits)

abbreviation virtual_client :: "string \<Rightarrow> snmp_face snmp_client" where
  "virtual_client community \<equiv> gosnmp_client (virtual_link community)"

lemma walk_port:
  assumes "serving f s" "sf_community f = community" and col: "(base, fc) \<in> set port_cols" "\<And>x. fc x = map_option h (g x)"
  shows "cl_Walk (virtual_client community) base f = (Inr (cells (colKey base) h (keyed g (sorted_items (vs_ports s)))), f)"
proof -
  obtain m where m: "state_model s = Inr m" using assms(1) by (auto simp: serving_def snmp_ok_def split: sum.splits)
  have fc: "fc = (\<lambda>x. map_option h (g x))" using col(2) by blast
  have "oid_of base \<in> roots" "key_ok base" using port_cols_key [OF col(1)] by (auto simp: roots_def)
  from walk_column [OF assms(1) m assms(2) this] show ?thesis
    unfolding serving_ports [OF assms(1) m col(1)] fc cells_rows .
qed

lemma read_port_int:
  assumes "serving f s" "sf_community f = community"
    and ex: "list_ex (\<lambda>(b, fc). b = base \<and> (\<forall>x. fc x = map_option (\<lambda>v. entry ty (show_int v)) (g x))) port_cols"
    and "P = int64_range \<and> ty = ''INTEGER'' \<or> P = u32_range \<and> ty = ''Gauge32''"
    and P: "\<And>p sim v. port_served (p, sim) \<Longrightarrow> g sim = Some v \<Longrightarrow> P v"
  shows "\<exists>rows. cl_Walk (virtual_client community) base f = (Inr rows, f) \<and>
     IndexIntColumn rows base = Inr (keyed g (sorted_items (vs_ports s)))"
proof -
  have ok: "snmp_ok s" using assms(1) by (simp add: serving_def)
  obtain fc where col: "(base, fc) \<in> set port_cols" "\<And>x. fc x = map_option (\<lambda>v. entry ty (show_int v)) (g x)"
    using ex by (auto simp: list_ex_iff)
  have "\<forall>x \<in> set (sorted_items (vs_ports s)). int64_range (fst x) \<and> (\<forall>v. g (snd x) = Some v \<longrightarrow> P v)"
    using served_ports [OF ok] P by (metis prod.collapse)
  from IndexIntColumn_cells [OF port_cols_key(1) [OF col(1)] keyed_distinct keyed_all_ok [OF this] assms(4)] show ?thesis
    using walk_port [OF assms(1,2) col] by auto
qed

lemma read_port_str:
  assumes "serving f s" "sf_community f = community"
    and ex: "list_ex (\<lambda>(b, fc). b = base \<and> (\<forall>x. fc x = map_option (entry ''OCTETSTR'') (g x))) port_cols"
  shows "\<exists>rows. cl_Walk (virtual_client community) base f = (Inr rows, f) \<and>
     IndexStrColumn rows base = Inr (keyed (\<lambda>x. map_option octet_text (g x)) (sorted_items (vs_ports s)))"
proof -
  have ok: "snmp_ok s" using assms(1) by (simp add: serving_def)
  obtain fc where col: "(base, fc) \<in> set port_cols" "\<And>x. fc x = map_option (entry ''OCTETSTR'') (g x)"
    using ex by (auto simp: list_ex_iff)
  have "\<forall>x \<in> set (sorted_items (vs_ports s)). int64_range (fst x) \<and> (\<forall>v. g (snd x) = Some v \<longrightarrow> True)"
    using served_ports [OF ok] by blast
  from keyed_all_ok [OF this]
  have "list_all (\<lambda>(k, v). int64_range k) (keyed g (sorted_items (vs_ports s)))" by simp
  from IndexStrColumn_cells [OF port_cols_key(1) [OF col(1)] keyed_distinct this] show ?thesis
    using walk_port [OF assms(1,2) col] keyed_map [of "\<lambda>x. map_option octet_text (g x)" octet_text g] by auto
qed

subsection \<open>Ports\<close>

text \<open>What a port of the state reads as.\<close>

definition snmp_port_view :: "int \<times> port_sim \<Rightarrow> port_status" where
  "snmp_port_view = (\<lambda>(p, sim).
     \<lparr>ps_port = p, ps_name = some_text (octet_text (vp_name sim)), ps_admin_enabled = vp_admin sim, ps_link_up = vp_link sim,
      ps_speed_mbps = (if vp_speed sim > 0 \<and> vp_link sim then Some (vp_speed sim) else None),
      ps_description = Option.bind (vp_description sim) (\<lambda>d. some_text (octet_text d)),
      ps_full_duplex = (if vp_serves_etherlike sim \<and> vp_link sim then Some True else None),
      ps_flow_control = (if vp_serves_etherlike sim then Some (vp_flow_control sim) else None),
      ps_speed_config = None\<rparr>)"

definition is_physical :: "vstate \<Rightarrow> int \<Rightarrow> bool" where
  "is_physical s p \<longleftrightarrow> (case map_of (vs_ports s) p of None \<Rightarrow> vs_ports s = [] | Some sim \<Rightarrow> vp_if_type sim = EthernetCsmacd)"

lemma sorted_items_empty [simp]: "sorted_items m = [] \<longleftrightarrow> m = []"
proof
  assume "sorted_items m = []"
  then have "set (sorted_keys m) = {}" by (simp add: sorted_items_def)
  then show "m = []" by (cases m) (auto simp: fun_eq_iff)
qed (simp add: sorted_items_def sorted_keys_def sort_uniq_def)

lemma physical_read:
  assumes "IndexIntColumn rows IfType = Inr (keyed (\<lambda>sim. Some (vp_if_type sim)) (sorted_items (vs_ports s)))"
  shows "\<exists>ph. physicalPorts rows = Inr ph \<and> (\<forall>ps. filterPhysical ps ph = filter (is_physical s) ps)"
proof -
  let ?I = "sorted_items (vs_ports s)"
  let ?T = "map (\<lambda>(k, x). (k, vp_if_type x)) ?I"
  have mem: "p \<in> set (map fst (filter (\<lambda>(idx, t). t = EthernetCsmacd) ?T)) \<longleftrightarrow> is_physical s p" if "vs_ports s \<noteq> []" for p
  proof -
    have "(p, x) \<in> set ?I \<longleftrightarrow> map_of (vs_ports s) p = Some x" for x
      using map_of_eq_Some_iff [of ?I p x] sorted_items_sorted [of "vs_ports s"] by (simp add: strict_sorted_iff)
    then show ?thesis using that by (force simp: is_physical_def split: option.split)
  qed
  show ?thesis
  proof (cases "vs_ports s = []")
    case True
    then show ?thesis using assms by (simp add: physicalPorts_def filterPhysical_def is_physical_def)
  next
    case False
    then have "physicalPorts rows = Inr (Some (map fst (filter (\<lambda>(idx, t). t = EthernetCsmacd) ?T)))"
      using assms by (simp add: physicalPorts_def)
    then show ?thesis
      unfolding filterPhysical_def using mem [OF False] by (intro exI conjI allI filter_cong) auto
  qed
qed

lemma sortedUnion_same: "set (map fst a) = set (map fst b) \<Longrightarrow> sortedUnion [a, b] = sorted_keys a"
  unfolding sortedUnion_def sorted_keys_def by (rule sort_uniq_cong) simp

lemma sorted_items_keys: "map fst (sorted_items m) = sorted_keys m"
  by (simp add: sorted_items_def o_def)

lemma sorted_keys_sorted_items [simp]: "sorted_keys (map (\<lambda>(k, x). (k, g x)) (sorted_items m)) = sorted_keys m"
  by (simp add: sorted_keys_def case_prod_beta' o_def sorted_items_keys [unfolded sorted_keys_def] sorted_distinct_id)

lemma fst_map_pair [simp]: "map fst (map (\<lambda>(k, x). (k, g x)) xs) = map fst xs"
  by (simp add: case_prod_beta')

lemma filter_sorted_items: "map (\<lambda>p. h (p, the (map_of m p))) (filter P (sorted_keys m)) = map h (filter (P \<circ> fst) (sorted_items m))"
  by (simp add: sorted_items_def filter_map o_def)

lemma snmp_GetPorts_reported:
  assumes "serving f s" "sf_community f = community" "re_client r = virtual_client community"
  shows "Snmp_Reader.GetPorts r f = (Inr (map snmp_port_view (filter (is_physical s \<circ> fst) (sorted_items (vs_ports s)))), f)"
proof -
  let ?I = "sorted_items (vs_ports s)" and ?c = "virtual_client community"
  note ints = read_port_int [where P = int64_range and ty = "''INTEGER''", OF assms(1,2)]
  have "\<exists>rows. cl_Walk ?c IfAdminStatus f = (Inr rows, f) \<and>
      IndexIntColumn rows IfAdminStatus = Inr (keyed (\<lambda>sim. Some (if vp_admin sim then 1 else 2)) ?I)"
    by (rule ints) (auto simp: port_cols_def port_served_def int64_range_def split: if_splits)
  then obtain r1 where r1: "cl_Walk ?c IfAdminStatus f = (Inr r1, f)"
      "IndexIntColumn r1 IfAdminStatus = Inr (keyed (\<lambda>sim. Some (if vp_admin sim then 1 else 2)) ?I)" by blast
  have "\<exists>rows. cl_Walk ?c IfOperStatus f = (Inr rows, f) \<and>
      IndexIntColumn rows IfOperStatus = Inr (keyed (\<lambda>sim. Some (if vp_link sim then 1 else 2)) ?I)"
    by (rule ints) (auto simp: port_cols_def port_served_def int64_range_def split: if_splits)
  then obtain r2 where r2: "cl_Walk ?c IfOperStatus f = (Inr r2, f)"
      "IndexIntColumn r2 IfOperStatus = Inr (keyed (\<lambda>sim. Some (if vp_link sim then 1 else 2)) ?I)" by blast
  have "\<exists>rows. cl_Walk ?c IfHighSpeed f = (Inr rows, f) \<and>
      IndexIntColumn rows IfHighSpeed = Inr (keyed (\<lambda>sim. Some (vp_speed sim)) ?I)"
    by (rule read_port_int [where P = u32_range and ty = "''Gauge32''", OF assms(1,2)]) (auto simp: port_cols_def port_served_def int64_range_def split: if_splits)
  then obtain r3 where r3: "cl_Walk ?c IfHighSpeed f = (Inr r3, f)"
      "IndexIntColumn r3 IfHighSpeed = Inr (keyed (\<lambda>sim. Some (vp_speed sim)) ?I)" by blast
  have "\<exists>rows. cl_Walk ?c IfName f = (Inr rows, f) \<and>
      IndexStrColumn rows IfName = Inr (keyed (\<lambda>sim. Some (octet_text (vp_name sim))) ?I)"
    using read_port_str [OF assms(1,2), of IfName "\<lambda>sim. Some (vp_name sim)"] by (simp add: port_cols_def)
  then obtain r4 where r4: "cl_Walk ?c IfName f = (Inr r4, f)"
      "IndexStrColumn r4 IfName = Inr (keyed (\<lambda>sim. Some (octet_text (vp_name sim))) ?I)" by blast
  have "\<exists>rows. cl_Walk ?c IfAlias f = (Inr rows, f) \<and>
      IndexStrColumn rows IfAlias = Inr (keyed (\<lambda>sim. map_option octet_text (vp_description sim)) ?I)"
    using read_port_str [OF assms(1,2), of IfAlias "vp_description"] by (simp add: port_cols_def)
  then obtain r5 where r5: "cl_Walk ?c IfAlias f = (Inr r5, f)"
      "IndexStrColumn r5 IfAlias = Inr (keyed (\<lambda>sim. map_option octet_text (vp_description sim)) ?I)" by blast
  have "\<exists>rows. cl_Walk ?c IfType f = (Inr rows, f) \<and>
      IndexIntColumn rows IfType = Inr (keyed (\<lambda>sim. Some (vp_if_type sim)) ?I)"
    by (rule ints) (auto simp: port_cols_def port_served_def int64_range_def split: if_splits)
  then obtain r6 where r6: "cl_Walk ?c IfType f = (Inr r6, f)"
      "IndexIntColumn r6 IfType = Inr (keyed (\<lambda>sim. Some (vp_if_type sim)) ?I)" by blast
  have "\<exists>rows. cl_Walk ?c Dot3StatsDuplexStatus f = (Inr rows, f) \<and>
      IndexIntColumn rows Dot3StatsDuplexStatus = Inr (keyed (\<lambda>sim. if vp_serves_etherlike sim then Some (if vp_link sim then 3 else 1) else None) ?I)"
    by (rule ints) (auto simp: port_cols_def port_served_def int64_range_def split: if_splits)
  then obtain r7 where r7: "cl_Walk ?c Dot3StatsDuplexStatus f = (Inr r7, f)"
      "IndexIntColumn r7 Dot3StatsDuplexStatus = Inr (keyed (\<lambda>sim. if vp_serves_etherlike sim then Some (if vp_link sim then 3 else 1) else None) ?I)" by blast
  have "\<exists>rows. cl_Walk ?c Dot3PauseOperMode f = (Inr rows, f) \<and>
      IndexIntColumn rows Dot3PauseOperMode = Inr (keyed (\<lambda>sim. if vp_serves_etherlike sim then Some (if vp_flow_control sim then 4 else 1) else None) ?I)"
    by (rule ints) (auto simp: port_cols_def port_served_def int64_range_def split: if_splits)
  then obtain r8 where r8: "cl_Walk ?c Dot3PauseOperMode f = (Inr r8, f)"
      "IndexIntColumn r8 Dot3PauseOperMode = Inr (keyed (\<lambda>sim. if vp_serves_etherlike sim then Some (if vp_flow_control sim then 4 else 1) else None) ?I)" by blast
  obtain ph where ph: "physicalPorts r6 = Inr ph" "\<And>ps. filterPhysical ps ph = filter (is_physical s) ps"
    using physical_read [OF r6(2)] by blast
  have port: "port_status_at (keyed (\<lambda>sim. Some (if vp_admin sim then 1 else 2)) ?I) (keyed (\<lambda>sim. Some (if vp_link sim then 1 else 2)) ?I)
      (keyed (\<lambda>sim. Some (vp_speed sim)) ?I) (keyed (\<lambda>sim. Some (octet_text (vp_name sim))) ?I)
      (keyed (\<lambda>sim. map_option octet_text (vp_description sim)) ?I)
      (keyed (\<lambda>sim. if vp_serves_etherlike sim then Some (if vp_link sim then 3 else 1) else None) ?I)
      (keyed (\<lambda>sim. if vp_serves_etherlike sim then Some (if vp_flow_control sim then 4 else 1) else None) ?I) p
      = snmp_port_view (p, the (map_of (vs_ports s) p))" if "p \<in> set (filter (is_physical s) (sorted_keys (vs_ports s)))" for p
  proof -
    obtain sim where "map_of (vs_ports s) p = Some sim" using \<open>p \<in> _\<close> by auto
    then show ?thesis
      by (auto simp: port_status_at_def snmp_port_view_def map_or0_def map_of_column text_or_nil_def dot3DuplexStatus_def
          some_text_def Let_def simp del: keyed_all split: option.splits)
  qed
  have keys: "sortedUnion [keyed (\<lambda>sim. Some (if vp_admin sim then 1 else 2)) ?I, keyed (\<lambda>sim. Some (if vp_link sim then 1 else 2)) ?I]
      = sorted_keys (vs_ports s)"
    unfolding keyed_all by (subst sortedUnion_same) (simp_all only: fst_map_pair sorted_keys_sorted_items)
  have "ParsePortStatus r1 r2 r3 r4 r5 r6 r7 r8 = Inr (map snmp_port_view (filter (is_physical s \<circ> fst) ?I))"
    unfolding ParsePortStatus_def r1(2) r2(2) r3(2) r4(2) r5(2) r7(2) r8(2) ph rbind_simps keys
      filter_sorted_items [symmetric] sum.inject by (rule map_cong [OF refl port])
  then show ?thesis
    by (simp add: Snmp_Reader.GetPorts_def assms(3) sbind_def r1(1) r2(1) r3(1) r4(1) r5(1) r6(1) r7(1) r8(1))
qed

end
