(* ===== verification/Snmp_System_Vlans.thy ===== *)
theory Snmp_System_Vlans
  imports Snmp_System
begin

section \<open>VLANs and PVIDs of the virtual switch over SNMP\<close>

text \<open>
  What GetVLANs and GetPVIDs return for a state the agent serves: its VLANs and its PVIDs, without
  the interfaces that are not physical ports.
\<close>

lemma physical_served:
  assumes "serving f s" "sf_community f = community"
  shows "\<exists>rows ph. cl_Walk (virtual_client community) IfType f = (Inr rows, f) \<and> physicalPorts rows = Inr ph
     \<and> (\<forall>ps. filterPhysical ps ph = filter (is_physical s) ps)"
proof -
  have "\<exists>rows. cl_Walk (virtual_client community) IfType f = (Inr rows, f) \<and>
      IndexIntColumn rows IfType = Inr (keyed (\<lambda>sim. Some (vp_if_type sim)) (sorted_items (vs_ports s)))"
    by (rule read_port_int [where P = int64_range and ty = "''INTEGER''", OF assms])
      (auto simp: port_cols_def port_served_def)
  then show ?thesis using physical_read by blast
qed

lemma serving_model: "serving f s \<Longrightarrow> \<exists>m. state_model s = Inr m"
  by (auto simp: serving_def snmp_ok_def split: sum.splits)

subsection \<open>PVIDs\<close>

lemma snmp_GetPVIDs_reported:
  assumes "serving f s" "sf_community f = community" "re_client r = virtual_client community"
  shows "Snmp_Reader.GetPVIDs r f =
     (Inr (map (\<lambda>(p, v). \<lparr>pv_port = p, pv_vlan = v\<rparr>) (filter (is_physical s \<circ> fst) (sorted_items (vs_pvids s)))), f)"
proof -
  let ?I = "sorted_items (vs_pvids s)" and ?c = "virtual_client community"
  obtain m where m: "state_model s = Inr m" using serving_model [OF assms(1)] by blast
  have ok: "snmp_ok s" using assms(1) by (simp add: serving_def)
  define rows where "rows = cells (colKey Dot1qPvid) (\<lambda>v. entry ''Gauge32'' (show_int v)) ?I"
  have key: "key_ok Dot1qPvid" "oid_of Dot1qPvid \<in> roots" by (simp_all add: column_keys roots_def pvid_roots_def)
  have "map entry_row (subtree (oid_of Dot1qPvid) (mv_entries (sf_view f))) = rows"
    unfolding serving_pvids [OF assms(1) m] rows_def by (simp add: cells_def column_rows_def case_prod_beta')
  then have walk: "cl_Walk ?c Dot1qPvid f = (Inr rows, f)"
    using walk_column [OF assms(1) m assms(2) key(2,1)] by simp
  have "list_all (\<lambda>(k, v). int64_range k \<and> u32_range v) ?I" using served_pvids [OF ok] by (auto simp: list_all_iff)
  then have pvids: "IndexIntColumn rows Dot1qPvid = Inr ?I"
    unfolding rows_def using sorted_items_sorted [of "vs_pvids s"]
    by (intro IndexIntColumn_cells [OF key(1), where P = u32_range]) (simp_all add: strict_sorted_iff)
  obtain r2 ph where r2: "cl_Walk ?c IfType f = (Inr r2, f)" and ph: "physicalPorts r2 = Inr ph"
      "\<And>ps. filterPhysical ps ph = filter (is_physical s) ps"
    using physical_served [OF assms(1,2)] by blast
  have keys: "sortedUnion [?I] = sorted_keys (vs_pvids s)"
    by (simp add: sortedUnion_def sorted_items_keys sorted_distinct_id)
  have pv: "\<lparr>pv_port = p, pv_vlan = map_or0 ?I p\<rparr> = (\<lambda>(p, v). \<lparr>pv_port = p, pv_vlan = v\<rparr>) (p, the (map_of (vs_pvids s) p))"
    if "p \<in> set (filter (is_physical s) (sorted_keys (vs_pvids s)))" for p
    using that by (auto simp: map_or0_def)
  have "ParsePvids rows r2 = Inr (map (\<lambda>(p, v). \<lparr>pv_port = p, pv_vlan = v\<rparr>) (filter (is_physical s \<circ> fst) ?I))"
    unfolding ParsePvids_def pvids ph rbind_simps keys filter_sorted_items [symmetric] sum.inject by (rule map_cong [OF refl pv])
  then show ?thesis
    by (simp add: Snmp_Reader.GetPVIDs_def assms(3) sbind_def walk r2)
qed

subsection \<open>Port lists\<close>

lemma octets_value:
  "key_ok k \<Longrightarrow> bitmap_value (rw_value (entry_row (view_row (k, entry ''OCTETSTR'' t)))) = Some (bytes_of t)"
  "key_ok k \<Longrightarrow> rw_oid (entry_row (view_row (k, entry ''OCTETSTR'' t))) = k"
  by (auto simp: entry_row_octets strRow_def bytesRow_def NewStrRow_def NewBytesRow_def)

lemma show_int_digits: "0 \<le> k \<Longrightarrow> isAllDigits (show_int k)"
  using show_nat_digits [of "nat k"] by (simp add: isAllDigits_def show_int_def)

lemma bitmap_cells:
  assumes "key_ok base" "list_all (\<lambda>(k, v). int64_range k \<and> 0 \<le> k) vs"
  shows "bitmap_column base out (cells (colKey base) (entry ''OCTETSTR'') vs) =
     Inr (fold (\<lambda>(k, v). AList.update k v) (map (\<lambda>(k, v). (k, bytes_of v)) vs) out)"
  using assms(2)
proof (induction vs arbitrary: out)
  case (Cons a vs)
  obtain k v where a: "a = (k, v)" by force
  have k: "int64_range k" "0 \<le> k" "key_ok (colKey base k)" using Cons.prems key_ok_colKey [OF assms(1)] by (auto simp: a)
  have "suffix (entry_row (view_row (colKey base k, entry ''OCTETSTR'' v))) base = Some (show_int k)"
    using strip_prefix_append [of "base @ ''.''" "show_int k"] octets_value(2) [OF k(3)] by (simp add: suffix_def colKey_def)
  then show ?case using Cons k by (simp add: a octets_value show_int_digits Atoi_show_int)
qed simp

lemma current_cells:
  assumes "key_ok base" "list_all (\<lambda>(k, v). int64_range k \<and> 0 \<le> k) vs"
  shows "current_bitmap_column base out (cells (currentKey base) (entry ''OCTETSTR'') vs) =
     Inr (fold (\<lambda>(k, v). AList.update k v) (map (\<lambda>(k, v). (k, bytes_of v)) vs) out)"
  using assms(2)
proof (induction vs arbitrary: out)
  case (Cons a vs)
  obtain k v where a: "a = (k, v)" by force
  have k: "int64_range k" "0 \<le> k" "key_ok (currentKey base k)" using Cons.prems currentKey_ok [OF assms(1)] by (auto simp: a)
  have suf: "suffix (entry_row (view_row (currentKey base k, entry ''OCTETSTR'' v))) base = Some (''0.'' @ show_int k)"
    using strip_prefix_append [of "base @ ''.''" "''0.'' @ show_int k"] octets_value(2) [OF k(3)] by (simp add: suffix_def currentKey_def)
  have "split_dots (''0.'' @ show_int k) = [''0'', show_int k]"
    using split_on_append [of "CHR ''.''" "''0''" "show_int k"] by (simp add: split_on_no_sep show_int_no_dot)
  moreover have "isAllDigits ''0''" by (simp add: isAllDigits_def is_digit_def)
  ultimately show ?case using Cons k suf by (simp add: a octets_value show_int_digits Atoi_show_int)
qed simp

definition port_bytes :: "nat \<Rightarrow> bool gomap \<Rightarrow> bytes" where
  "port_bytes w m = bytes_of (port_list_of w m)"

lemma port_bytes_decode:
  assumes "ports_positive m"
  shows "DecodePortBitmap (port_bytes w m) = sliceFromPortSet m"
proof -
  obtain b where b: "port_list w m = Inr (string_of b)" "\<And>n. bm_bit b n \<longleftrightarrow> in_set m (int n + 1)"
    using port_list_ok [OF assms, of w] by blast
  have pos: "1 \<le> p" if "in_set m p" for p
    using that map_of_SomeD [of m p] assms by (auto simp: in_set_def ports_positive_def list_all_iff split: option.splits)
  have "set (DecodePortBitmap b) = set (sliceFromPortSet m)"
  proof (rule set_eqI)
    fix p show "p \<in> set (DecodePortBitmap b) \<longleftrightarrow> p \<in> set (sliceFromPortSet m)"
      using pos [of p] b(2) [of "nat (p - 1)"] by (cases "1 \<le> p") (simp_all add: nsdp_bm.decode_mem, blast)
  qed
  moreover have "sorted (DecodePortBitmap b)" "distinct (DecodePortBitmap b)"
    by (simp_all add: bitmapToPorts_def ports_from_sorted)
  ultimately show ?thesis
    using sorted_distinct_set_unique [of "DecodePortBitmap b" "sliceFromPortSet m"] b(1)
    by (simp add: port_bytes_def port_list_of_def)
qed

subsection \<open>VLANs\<close>

definition snmp_vlan_view :: "vstate \<Rightarrow> int \<times> vlan_sim \<Rightarrow> vlan_info" where
  "snmp_vlan_view s = (\<lambda>(vid, v).
     (let portsOf = (\<lambda>m. filter (is_physical s) (sliceFromPortSet m));
          member = portsOf (if vv_no_static_row v then vv_member v else Configured v);
          untag = portsOf (vv_untagged v) in
      \<lparr>vi_vlan_id = vid, vi_name = (if vv_no_static_row v then None else some_text (octet_text (vv_name v))),
       vi_members = member, vi_tagged = intSliceDiff member untag, vi_untagged = untag\<rparr>))"

definition vids_natural :: "vstate \<Rightarrow> bool" where
  "vids_natural s \<longleftrightarrow> list_all (\<lambda>(vid, v). 0 \<le> vid) (vs_vlans s)"

lemma walk_vlan:
  assumes "serving f s" "sf_community f = community" "state_model s = Inr m"
    and ex: "list_ex (\<lambda>(b, k, mid, fc). b = base \<and> k = key \<and> (\<forall>x. fc x = map_option (entry ''OCTETSTR'') (g x))) (vlan_cols (portlist_width m s))"
  shows "cl_Walk (virtual_client community) base f = (Inr (cells key (entry ''OCTETSTR'') (keyed g (sorted_items (vs_vlans s)))), f)"
proof -
  obtain mid fc where col: "(base, key, mid, fc) \<in> set (vlan_cols (portlist_width m s))" and "\<And>x. fc x = map_option (entry ''OCTETSTR'') (g x)"
    using ex by (auto simp: list_ex_iff)
  then have fc: "fc = (\<lambda>x. map_option (entry ''OCTETSTR'') (g x))" by blast
  have "oid_of base \<in> roots" "key_ok base"
    using col by (auto simp: vlan_cols_def roots_def vlan_roots_def column_keys)
  from walk_column [OF assms(1,3,2) this] show ?thesis
    unfolding serving_vlans [OF assms(1,3) col] fc cells_rows .
qed

lemma keyed_bytes: "map (\<lambda>(k, v). (k, bytes_of v)) (keyed g items) = keyed (\<lambda>x. map_option bytes_of (g x)) items"
  by (rule keyed_map [symmetric]) simp

lemma fold_keyed: "fold (\<lambda>(k, v). AList.update k v) (keyed g (sorted_items m)) [] = keyed g (sorted_items m)"
  by (rule fold_update_distinct [of _ "[]", simplified]) (rule keyed_distinct)

lemma read_vlan:
  assumes "serving f s" "sf_community f = community" "state_model s = Inr m" "vids_natural s" "key_ok base"
    and ex: "list_ex (\<lambda>(b, k, mid, fc). b = base \<and> k = key \<and> (\<forall>x. fc x = map_option (entry ''OCTETSTR'') (g x))) (vlan_cols (portlist_width m s))"
  shows "\<exists>rows. cl_Walk (virtual_client community) base f = (Inr rows, f)
     \<and> (key = colKey base \<longrightarrow> IndexStrColumn rows base = Inr (keyed (\<lambda>x. map_option octet_text (g x)) (sorted_items (vs_vlans s)))
          \<and> vlanBitmapMap rows base = Inr (keyed (\<lambda>x. map_option bytes_of (g x)) (sorted_items (vs_vlans s))))
     \<and> (key = currentKey base \<longrightarrow>
          currentVlanBitmapMap rows base = Inr (keyed (\<lambda>x. map_option bytes_of (g x)) (sorted_items (vs_vlans s))))"
proof -
  let ?vs = "keyed g (sorted_items (vs_vlans s))"
  have ok: "snmp_ok s" using assms(1) by (simp add: serving_def)
  have nat: "0 \<le> fst x" if "x \<in> set (sorted_items (vs_vlans s))" for x
    using sorted_items_set [OF that] assms(4) by (auto simp: vids_natural_def list_all_iff)
  have keys: "list_all (\<lambda>(k, v). int64_range k \<and> 0 \<le> k) ?vs"
    using keyed_keys [of _ g "sorted_items (vs_vlans s)"] served_vlans [OF ok] nat by (fastforce simp: list_all_iff)
  then have "list_all (\<lambda>(k, v). int64_range k) ?vs" by (auto simp: list_all_iff)
  from IndexStrColumn_cells [OF assms(5) keyed_distinct this]
  have "IndexStrColumn (cells (colKey base) (entry ''OCTETSTR'') ?vs) base = Inr (keyed (\<lambda>x. map_option octet_text (g x)) (sorted_items (vs_vlans s)))"
    using keyed_map [of "\<lambda>x. map_option octet_text (g x)" octet_text g] by simp
  then show ?thesis
    using walk_vlan [OF assms(1-3) ex] bitmap_cells [OF assms(5) keys] current_cells [OF assms(5) keys]
    by (auto simp: vlanBitmapMap_def currentVlanBitmapMap_def keyed_bytes fold_keyed)
qed

lemma snmp_GetVLANs_reported:
  assumes "serving f s" "sf_community f = community" "re_client r = virtual_client community" "vids_natural s"
  shows "Snmp_Reader.GetVLANs r f = (Inr (map (snmp_vlan_view s) (sorted_items (vs_vlans s))), f)"
proof -
  obtain m where m: "state_model s = Inr m" using serving_model [OF assms(1)] by blast
  let ?I = "sorted_items (vs_vlans s)" and ?c = "virtual_client community" and ?w = "portlist_width m s"
  let ?nm = "\<lambda>v. if vv_no_static_row v then None else Some (vv_name v)"
    and ?eg = "\<lambda>v. if vv_no_static_row v then None else Some (port_list_of ?w (Configured v))"
    and ?un = "\<lambda>v. if vv_no_static_row v then None else Some (port_list_of ?w (vv_untagged v))"
    and ?ce = "\<lambda>v. Some (port_list_of ?w (vv_member v))"
    and ?cu = "\<lambda>v. Some (port_list_of ?w (vv_untagged v))"
  have ok: "snmp_ok s" using assms(1) by (simp add: serving_def)
  have "list_ex (\<lambda>(b, k, mid, fc). b = Dot1qVlanStaticName \<and> k = colKey Dot1qVlanStaticName \<and> (\<forall>x. fc x = map_option (entry ''OCTETSTR'') (?nm x))) (vlan_cols ?w)"
    unfolding list_ex_iff
    by (rule bexI [of _ "(Dot1qVlanStaticName, colKey Dot1qVlanStaticName, [], \<lambda>v. if vv_no_static_row v then None else Some (entry ''OCTETSTR'' (vv_name v)))"]) (simp_all add: vlan_cols_def)
  from read_vlan [OF assms(1,2) m assms(4) _ this]
  obtain r1 where r1: "cl_Walk ?c Dot1qVlanStaticName f = (Inr r1, f)" "IndexStrColumn r1 Dot1qVlanStaticName = Inr (keyed (\<lambda>x. map_option octet_text (?nm x)) ?I)"
    by (auto simp: column_keys)
  have "list_ex (\<lambda>(b, k, mid, fc). b = Dot1qVlanStaticEgress \<and> k = colKey Dot1qVlanStaticEgress \<and> (\<forall>x. fc x = map_option (entry ''OCTETSTR'') (?eg x))) (vlan_cols ?w)"
    unfolding list_ex_iff
    by (rule bexI [of _ "(Dot1qVlanStaticEgress, colKey Dot1qVlanStaticEgress, [], \<lambda>v. if vv_no_static_row v then None else Some (entry ''OCTETSTR'' (port_list_of ?w (Configured v))))"]) (simp_all add: vlan_cols_def)
  from read_vlan [OF assms(1,2) m assms(4) _ this]
  obtain r2 where r2: "cl_Walk ?c Dot1qVlanStaticEgress f = (Inr r2, f)" "vlanBitmapMap r2 Dot1qVlanStaticEgress = Inr (keyed (\<lambda>x. map_option bytes_of (?eg x)) ?I)"
    by (auto simp: column_keys)
  have "list_ex (\<lambda>(b, k, mid, fc). b = Dot1qVlanStaticUntagged \<and> k = colKey Dot1qVlanStaticUntagged \<and> (\<forall>x. fc x = map_option (entry ''OCTETSTR'') (?un x))) (vlan_cols ?w)"
    unfolding list_ex_iff
    by (rule bexI [of _ "(Dot1qVlanStaticUntagged, colKey Dot1qVlanStaticUntagged, [], \<lambda>v. if vv_no_static_row v then None else Some (entry ''OCTETSTR'' (port_list_of ?w (vv_untagged v))))"]) (simp_all add: vlan_cols_def)
  from read_vlan [OF assms(1,2) m assms(4) _ this]
  obtain r3 where r3: "cl_Walk ?c Dot1qVlanStaticUntagged f = (Inr r3, f)" "vlanBitmapMap r3 Dot1qVlanStaticUntagged = Inr (keyed (\<lambda>x. map_option bytes_of (?un x)) ?I)"
    by (auto simp: column_keys)
  have "list_ex (\<lambda>(b, k, mid, fc). b = Dot1qVlanCurrentEgress \<and> k = currentKey Dot1qVlanCurrentEgress \<and> (\<forall>x. fc x = map_option (entry ''OCTETSTR'') (?ce x))) (vlan_cols ?w)"
    unfolding list_ex_iff
    by (rule bexI [of _ "(Dot1qVlanCurrentEgress, currentKey Dot1qVlanCurrentEgress, [0], \<lambda>v. Some (entry ''OCTETSTR'' (port_list_of ?w (vv_member v))))"]) (simp_all add: vlan_cols_def)
  from read_vlan [OF assms(1,2) m assms(4) _ this]
  obtain r4 where r4: "cl_Walk ?c Dot1qVlanCurrentEgress f = (Inr r4, f)" "currentVlanBitmapMap r4 Dot1qVlanCurrentEgress = Inr (keyed (\<lambda>x. map_option bytes_of (?ce x)) ?I)"
    by (auto simp: column_keys)
  have "list_ex (\<lambda>(b, k, mid, fc). b = Dot1qVlanCurrentUntagged \<and> k = currentKey Dot1qVlanCurrentUntagged \<and> (\<forall>x. fc x = map_option (entry ''OCTETSTR'') (?cu x))) (vlan_cols ?w)"
    unfolding list_ex_iff
    by (rule bexI [of _ "(Dot1qVlanCurrentUntagged, currentKey Dot1qVlanCurrentUntagged, [0], \<lambda>v. Some (entry ''OCTETSTR'' (port_list_of ?w (vv_untagged v))))"]) (simp_all add: vlan_cols_def)
  from read_vlan [OF assms(1,2) m assms(4) _ this]
  obtain r5 where r5: "cl_Walk ?c Dot1qVlanCurrentUntagged f = (Inr r5, f)" "currentVlanBitmapMap r5 Dot1qVlanCurrentUntagged = Inr (keyed (\<lambda>x. map_option bytes_of (?cu x)) ?I)"
    by (auto simp: column_keys)
  obtain r6 ph where r6: "cl_Walk ?c IfType f = (Inr r6, f)" and ph: "physicalPorts r6 = Inr ph"
      "\<And>ps. filterPhysical ps ph = filter (is_physical s) ps"
    using physical_served [OF assms(1,2)] by blast
  have keys: "sort_uniq (map fst (keyed (\<lambda>x. map_option octet_text (?nm x)) ?I) @ map fst (keyed (\<lambda>x. map_option bytes_of (?ce x)) ?I))
      = sorted_keys (vs_vlans s)" (is "sort_uniq (map fst ?N @ map fst ?C) = _")
  proof -
    have "set (map fst ?N) \<subseteq> fst ` set ?I" using keyed_keys [of _ "\<lambda>x. map_option octet_text (?nm x)" ?I] by (auto simp del: keyed_all)
    moreover have "set (map fst ?C) = fst ` set ?I" by force
    ultimately have "set (map fst ?N @ map fst ?C) = set (map fst ?I)" by auto
    then have "sort_uniq (map fst ?N @ map fst ?C) = sort_uniq (map fst ?I)" by (rule sort_uniq_cong)
    then show ?thesis by (simp add: sorted_items_keys sorted_distinct_id)
  qed
  have info: "vlan_info_at ph (keyed (\<lambda>x. map_option octet_text (?nm x)) ?I) (keyed (\<lambda>x. map_option bytes_of (?eg x)) ?I)
      (keyed (\<lambda>x. map_option bytes_of (?un x)) ?I) (keyed (\<lambda>x. map_option bytes_of (?ce x)) ?I)
      (keyed (\<lambda>x. map_option bytes_of (?cu x)) ?I) vid = snmp_vlan_view s (vid, the (map_of (vs_vlans s) vid))"
    if vid: "vid \<in> set (sorted_keys (vs_vlans s))" for vid
  proof -
    obtain v where v: "map_of (vs_vlans s) vid = Some v" using vid by auto
    have "vlan_served (vid, v)" using map_of_SomeD [OF v] ok by (auto simp: snmp_ok_def list_all_iff)
    then have pos: "ports_positive (vv_member v)" "ports_positive (vv_untagged v)" "ports_positive (Configured v)"
      using Configured_positive by (auto simp: vlan_served_def)
    show ?thesis
      using port_bytes_decode [OF pos(1), of ?w] port_bytes_decode [OF pos(2), of ?w] port_bytes_decode [OF pos(3), of ?w]
      by (auto simp: vlan_info_at_def snmp_vlan_view_def map_of_column bitmap_at_def text_or_nil_def some_text_def Let_def v ph(2)
          port_bytes_def simp del: keyed_all)
  qed
  have all: "map (\<lambda>p. h (p, the (map_of (vs_vlans s) p))) (sorted_keys (vs_vlans s)) = map h ?I" for h :: "int \<times> vlan_sim \<Rightarrow> vlan_info"
    by (simp add: sorted_items_def)
  have "ParseVlans r1 r2 r3 r6 r4 r5 = Inr (map (snmp_vlan_view s) ?I)"
    unfolding ParseVlans_def ph(1) r1(2) r2(2) r3(2) r4(2) r5(2) rbind_simps keys all [symmetric] sum.inject
    by (rule map_cong [OF refl info])
  then show ?thesis
    by (simp add: Snmp_Reader.GetVLANs_def assms(3) sbind_def r1(1) r2(1) r3(1) r4(1) r5(1) r6)
qed

end
