(* ===== verification/Snmp_Set.thy ===== *)
theory Snmp_Set
  imports Snmp_System_Vlans Switchport_Refinement
begin

section \<open>SETs on the virtual switch over SNMP\<close>

text \<open>
  A varbind that the state accepts, sent through the client and the agent: the answer is success and
  the agent then serves the state it wrote.
\<close>

subsection \<open>Columns of an identifier\<close>

lemma qbridge_apart:
  "list_all (\<lambda>a. apart a Dot1qPvid) [IfAdminStatus, IfAlias, PethPsePortTable @ ''.3.1'']"
  "list_all (\<lambda>a. apart a IfAlias) [IfAdminStatus]"
  "list_all (\<lambda>a. apart a Dot1qVlanStaticEgress) [IfAdminStatus, IfAlias, PethPsePortTable @ ''.3.1'', Dot1qPvid]"
  "list_all (\<lambda>a. apart a Dot1qVlanStaticUntagged)
     [IfAdminStatus, IfAlias, PethPsePortTable @ ''.3.1'', Dot1qPvid, Dot1qVlanStaticEgress]"
  by code_simp+

lemma ApplyWrite_columns:
  assumes "state_model s = Inr m" "index_ok i"
  shows "ApplyWrite (colKey IfAdminStatus i) v s = write_admin i v s"
    "ApplyWrite (colKey IfAlias i) v s = Inr (write_alias i v s)"
    "ApplyWrite (colKey Dot1qPvid i) (VInt n) s = Inr (s\<lparr>vs_pvids := AList.update i n (vs_pvids s)\<rparr>)"
    "ApplyWrite (colKey Dot1qVlanStaticEgress i) v s = write_egress i v s"
    "ApplyWrite (colKey Dot1qVlanStaticUntagged i) v s = write_untagged i v s"
  using assms qbridge_apart by (simp_all add: ApplyWrite_def columnTail_apart poe_column_apart)

lemma IsWritable_columns:
  assumes "state_model s = Inr m" "index_ok i"
    "base \<in> {IfAdminStatus, IfAlias, Dot1qPvid, Dot1qVlanStaticEgress, Dot1qVlanStaticUntagged}"
  shows "IsWritableOID s (colKey base i) = Inr True"
  using assms by (auto simp: IsWritableOID_def)

subsection \<open>One varbind\<close>

lemma NewMibView_total:
  assumes "snmp_ok s"
  shows "\<exists>v m. NewMibView s = Inr v \<and> state_model s = Inr m \<and> mv_state v = filled m s"
proof -
  obtain m where m: "state_model s = Inr m" using assms by (auto simp: snmp_ok_def split: sum.splits)
  obtain rows where rows: "oid_rows s = Inr (rows, filled m s)" "list_all row_ok rows"
    using oid_rows_served [OF assms m] by (auto simp: beside_def)
  then show ?thesis
    using Rebuild_ok [of "\<lparr>mv_state = s, mv_entries = []\<rparr>" rows "filled m s" m] m by (auto simp: NewMibView_def)
qed

definition sent :: "set_varbind \<Rightarrow> pdu \<Rightarrow> snmp_value \<Rightarrow> bool" where
  "sent bind p val \<longleftrightarrow> toSetPDU bind = Inr p \<and> pd_name p = sv_oid bind \<and> pd_type p \<noteq> A_ObjectIdentifier \<and> fromWireValue (pd_value p) = val"

lemma sent_varbinds:
  "int64_range v \<Longrightarrow> sent \<lparr>sv_oid = oid, sv_value = VInt v, sv_letter = CHR ''i''\<rparr> \<lparr>pd_name = oid, pd_type = A_Integer, pd_value = W_Int v\<rparr> (VInt v)"
  "u32_range v \<Longrightarrow> sent \<lparr>sv_oid = oid, sv_value = VInt v, sv_letter = CHR ''u''\<rparr> \<lparr>pd_name = oid, pd_type = A_Gauge32, pd_value = W_Int v\<rparr> (VInt v)"
  "sent \<lparr>sv_oid = oid, sv_value = VBytes b, sv_letter = CHR ''x''\<rparr> \<lparr>pd_name = oid, pd_type = A_OctetString, pd_value = W_Bytes b\<rparr> (VBytes b)"
  "sent \<lparr>sv_oid = oid, sv_value = VStr t, sv_letter = CHR ''s''\<rparr> \<lparr>pd_name = oid, pd_type = A_OctetString, pd_value = W_Bytes (bytes_of t)\<rparr> (VBytes (bytes_of t))"
  by (auto simp: sent_def toSetPDU_def wrap64_id u32_range_def int64_range_def)

text \<open>The state a PDU's varbinds are applied to: the agent's, with the egress writes of the last PDU forgotten.\<close>

definition pdu_state :: "switch_model \<Rightarrow> vstate \<Rightarrow> vstate" where
  "pdu_state m s = (filled m s)\<lparr>vs_pdu_egress := []\<rparr>"

fun apply_all :: "(string \<times> snmp_value) list \<Rightarrow> vstate \<Rightarrow> vstate set_res" where
  "apply_all [] s = Inr s"
| "apply_all ((oid, v) # ws) s =
     rbind (IsWritableOID s oid) (\<lambda>writable. if \<not> writable then Inl NotWritable else rbind (ApplyWrite oid v s) (apply_all ws))"

lemma drop_dots_name: "key_ok k \<Longrightarrow> dropWhile (\<lambda>c. c = CHR ''.'') (dot_form k) = k"
proof -
  assume "key_ok k"
  then have ne: "oid_of k \<noteq> []" "intsToOID (oid_of k) = k" by (auto simp: key_ok_def oid_ints_def)
  have "dropWhile (\<lambda>c. c = CHR ''.'') (CHR ''.'' # k) = k"
    using intsToOID_no_dot_prefix(1) [OF ne(1)] ne(2) by (simp only: TrimDots_def)
  moreover have "dot_form k = CHR ''.'' # k" using dot_form_ints(1) [OF ne(1)] ne(2) by simp
  ultimately show ?thesis by simp
qed

lemma set_vars_ok:
  assumes "list_all2 (\<lambda>(bind, p) (oid, val). sent bind p val \<and> oid = sv_oid bind \<and> key_ok oid) vps ws" "apply_all ws (mv_state v) = Inr s1"
  shows "set_vars i (map decoded (map snd vps)) v = Inr (None, v\<lparr>mv_state := s1\<rparr>)"
  using assms
proof (induction vps ws arbitrary: v i rule: list_all2_induct)
  case Nil
  then show ?case by simp
next
  case (Cons x vps w ws)
  obtain bind p oid val where x: "x = (bind, p)" "w = (oid, val)" by force
  have p: "sent bind p val" "oid = sv_oid bind" "key_ok oid" using Cons.hyps(1) by (auto simp: x)
  have name: "dropWhile (\<lambda>c. c = CHR ''.'') (pd_name (decoded p)) = oid" "fromWireValue (pd_value (decoded p)) = val"
    using p drop_dots_name [OF p(3)] by (auto simp: sent_def decoded_def)
  obtain s2 where s2: "IsWritableOID (mv_state v) oid = Inr True" "ApplyWrite oid val (mv_state v) = Inr s2" "apply_all ws s2 = Inr s1"
    using Cons.prems by (auto simp: x rbind_def split: sum.splits if_splits)
  have "applyUncommitted v oid val = Inr (v\<lparr>mv_state := s2\<rparr>)"
    using s2(2) by (simp add: applyUncommitted_def ApplyWriteUncommitted_def)
  then show ?case using s2 Cons.IH [of "v\<lparr>mv_state := s2\<rparr>" "Suc i"] name by (simp add: x(1) Let_def del: decoded_sel)
qed

lemma set_pdus_sent: "list_all2 (\<lambda>(bind, p) (oid, val). sent bind p val \<and> oid = sv_oid bind \<and> key_ok oid) vps ws \<Longrightarrow>
   set_pdus (map fst vps) = Inr (map snd vps)"
  by (induction rule: list_all2_induct) (auto simp: sent_def)

text \<open>
  A list of varbinds that the agent's state accepts one after the other, sent as one PDU: the answer
  is success, and the agent then serves the state they wrote.
\<close>

lemma SetMany_served:
  assumes f: "serving f s" "sf_community f = community" "state_model s = Inr m" and ne: "vps \<noteq> []"
    and vps: "list_all2 (\<lambda>(bind, p) (oid, val). sent bind p val \<and> oid = sv_oid bind \<and> key_ok oid) vps ws"
    and app: "apply_all ws (pdu_state m s) = Inr s1" and ok: "snmp_ok s1"
  shows "\<exists>f'. cl_SetMany (virtual_client community) (map fst vps) f = (Inr (), f') \<and> serving f' s1 \<and> sf_community f' = community"
proof -
  have st: "mv_state (sf_view f) = filled m s" using serving_view [OF f(1,3)] by simp
  obtain v2 where v2: "NewMibView s1 = Inr v2" using NewMibView_total [OF ok] by blast
  define v0 where "v0 = (sf_view f)\<lparr>mv_state := pdu_state m s\<rparr>"
  have v0: "SnapshotState (sf_view f) = (pdu_state m s, v0)"
    by (simp add: SnapshotState_def Snapshot_State_def v0_def st pdu_state_def Let_def)
  have "set_vars 0 (map decoded (map snd vps)) v0 = Inr (None, v0\<lparr>mv_state := s1\<rparr>)"
    by (rule set_vars_ok [OF vps]) (simp add: v0_def app)
  moreover have "Rebuild (v0\<lparr>mv_state := s1\<rparr>) = Inr v2"
    using v2 Rebuild_state [of "v0\<lparr>mv_state := s1\<rparr>"] by (simp add: NewMibView_def)
  ultimately have hs: "handleSet (map decoded (map snd vps)) (sf_view f) = Inr ((map decoded (map snd vps), Status_NoError, 0), v2)"
    by (simp add: handleSet_def v0)
  define f' where "f' = f\<lparr>sf_view := v2\<rparr>"
  have "gs_Set (virtual_link community) (map snd vps) f =
      (Inr \<lparr>rp_error = Status_NoError, rp_index = 0, rp_vars = map decoded (map decoded (map snd vps))\<rparr>, f')"
    using f(2) hs by (simp add: virtual_link_def agent_reply_def serve_packet_def link_packet_def snmp_handle_def f'_def)
  then have "cl_SetMany (virtual_client community) (map fst vps) f = (Inr (), f')"
    using ne set_pdus_sent [OF vps] link_Connect
    by (simp add: gosnmp_client_def SetMany_def sbind_def link_error_Inr)
  moreover have "serving f' s1" using ok v2 by (simp add: serving_def f'_def)
  ultimately show ?thesis using f(2) by (auto simp: f'_def)
qed

lemma Set_served:
  assumes f: "serving f s" "sf_community f = community" "state_model s = Inr m"
    and "sent bind p val" "key_ok (sv_oid bind)" "IsWritableOID (pdu_state m s) (sv_oid bind) = Inr True"
    "ApplyWrite (sv_oid bind) val (pdu_state m s) = Inr s1" "snmp_ok s1"
  shows "\<exists>f'. cl_Set (virtual_client community) bind f = (Inr (), f') \<and> serving f' s1 \<and> sf_community f' = community"
proof -
  have "apply_all [(sv_oid bind, val)] (pdu_state m s) = Inr s1" using assms(6,7) by simp
  moreover have "list_all2 (\<lambda>(bind, p) (oid, val). sent bind p val \<and> oid = sv_oid bind \<and> key_ok oid) [(bind, p)] [(sv_oid bind, val)]"
    using assms(4,5) by simp
  ultimately have "\<exists>f'. cl_SetMany (virtual_client community) (map fst [(bind, p)]) f = (Inr (), f') \<and> serving f' s1 \<and> sf_community f' = community"
    by (intro SetMany_served [OF f]) (use assms(8) in auto)
  then show ?thesis by (simp add: gosnmp_client_def Set_one_def)
qed

lemma pdu_state_sel [simp]:
  "vs_ports (pdu_state m s) = vs_ports s" "vs_vlans (pdu_state m s) = vs_vlans s" "vs_pvids (pdu_state m s) = vs_pvids s"
  "state_model (pdu_state m s) = state_model s" "vs_model_key (pdu_state m s) = vs_model_key s"
  "vs_pdu_egress (pdu_state m s) = []"
  by (simp_all add: pdu_state_def state_model_def mustModel_def)

lemma pdu_state_ok: "snmp_ok s \<Longrightarrow> snmp_ok (pdu_state m s)"
  using filled_ok [of s m] by (simp add: pdu_state_def snmp_ok_def state_model_def mustModel_def)

subsection \<open>SetPVID\<close>

definition writes_to :: "snmp_face snmp_writer \<Rightarrow> string \<Rightarrow> bool" where
  "writes_to w community \<longleftrightarrow> sw_client w = virtual_client community \<and> re_client (sw_reader w) = virtual_client community"

lemma sorted_items_mem: "(k, x) \<in> set (sorted_items m) \<longleftrightarrow> map_of m k = Some x"
  using map_of_eq_Some_iff [of "sorted_items m" k x] sorted_items_sorted [of m] by (simp add: strict_sorted_iff)

lemma find_snmp_vlans:
  "find_vlan vid (map (snmp_vlan_view s) (sorted_items (vs_vlans s))) = map_option (\<lambda>v. snmp_vlan_view s (vid, v)) (map_of (vs_vlans s) vid)"
proof -
  have "List.find (\<lambda>i. vi_vlan_id i = vid) (map (snmp_vlan_view s) xs) = map_option (\<lambda>v. snmp_vlan_view s (vid, v)) (map_of xs vid)" for xs
    by (induction xs) (auto simp: snmp_vlan_view_def Let_def)
  then show ?thesis unfolding find_vlan_def by simp
qed

lemma serving_index: "map_of (vs_ports s) p \<noteq> None \<Longrightarrow> serving f s \<Longrightarrow> int64_range p"
  by (auto simp: serving_def snmp_ok_def list_all_iff port_served_def dest!: map_of_SomeD)

lemma SetPVID_system:
  assumes f: "serving f s" "sf_community f = community" "writes_to w community" "vids_natural s"
    and g: "port \<notin> set (sw_protected w) \<or> force"
    and ok: "vlan_has s vlan" "u32_range vlan" "index_ok port" "is_physical s port"
  shows "\<exists>f' m. Snmp_Writer.SetPVID w port vlan force f = (Inr (), f') \<and> sf_community f' = community
    \<and> state_model s = Inr m \<and> serving f' ((pdu_state m s)\<lparr>vs_pvids := AList.update port vlan (vs_pvids s)\<rparr>)"
proof -
  obtain m where m: "state_model s = Inr m" using serving_model [OF f(1)] by blast
  define s1 where "s1 = (pdu_state m s)\<lparr>vs_pvids := AList.update port vlan (vs_pvids s)\<rparr>"
  have so: "snmp_ok s" using f(1) by (simp add: serving_def)
  have p64: "int64_range port" using ok(3) by (simp add: index_ok_def int64_range_def)
  have s1: "snmp_ok s1"
  proof -
    have "list_all (\<lambda>(p, v). int64_range p \<and> u32_range v) (AList.update port vlan (vs_pvids s))"
      using so p64 ok(2) by (intro list_all_update) (simp_all add: snmp_ok_def)
    then show ?thesis using pdu_state_ok [OF so, of m] by (simp add: s1_def snmp_ok_def state_model_def mustModel_def)
  qed
  have r: "re_client (sw_reader w) = virtual_client community" and c: "sw_client w = virtual_client community"
    using f(3) by (auto simp: writes_to_def)
  have key: "key_ok (colKey Dot1qPvid port)" using key_ok_colKey [OF _ p64] by (simp add: column_keys)
  have m': "state_model (pdu_state m s) = Inr m" using m by simp
  have "IsWritableOID (pdu_state m s) (colKey Dot1qPvid port) = Inr True"
    by (rule IsWritable_columns [OF m' ok(3)]) simp
  moreover have "ApplyWrite (colKey Dot1qPvid port) (VInt vlan) (pdu_state m s) = Inr s1"
    using ApplyWrite_columns(3) [OF m' ok(3), of vlan] by (simp add: s1_def)
  ultimately obtain f' where f': "cl_Set (virtual_client community) \<lparr>sv_oid = colKey Dot1qPvid port, sv_value = VInt vlan, sv_letter = CHR ''u''\<rparr> f = (Inr (), f')"
      "serving f' s1" "sf_community f' = community"
    using Set_served [OF f(1,2) m sent_varbinds(2) [OF ok(2)], of "colKey Dot1qPvid port" s1] key s1 by auto
  have "map_of (vs_pvids s1) port = Some vlan" "is_physical s1 port"
    using ok(4) by (auto simp: s1_def update_conv' is_physical_def split: option.splits)
  then have "list_ex (\<lambda>p. pv_port p = port \<and> pv_vlan p = vlan)
      (map (\<lambda>(p, v). \<lparr>pv_port = p, pv_vlan = v\<rparr>) (filter (is_physical s1 \<circ> fst) (sorted_items (vs_pvids s1))))"
    by (auto simp: list_ex_iff sorted_items_mem intro!: bexI [of _ "(port, vlan)"])
  moreover have "find_vlan vlan (map (snmp_vlan_view s) (sorted_items (vs_vlans s))) \<noteq> None"
    using ok(1) by (simp add: find_snmp_vlans vlan_has_def)
  ultimately have "Snmp_Writer.SetPVID w port vlan force f = (Inr (), f')"
    using g snmp_GetVLANs_reported [OF f(1,2) r f(4)] snmp_GetPVIDs_reported [OF f(1,2) r] snmp_GetPVIDs_reported [OF f'(2,3) r] f'(1)
    by (auto simp: Snmp_Writer.SetPVID_def guard_def get_vlan_def sbind_def c)
  then show ?thesis using f' m by (auto simp: s1_def)
qed

end
