(* ===== verification/Snmp_Set_Vlans.thy ===== *)
theory Snmp_Set_Vlans
  imports Snmp_Set
begin

section \<open>VLAN membership on the virtual switch over SNMP\<close>

text \<open>
  SetVlanMembership on a Q-BRIDGE model, through the client and the agent: the two port lists are
  read, one port is changed in each, and both are written, in one PDU or, on a model that splits
  them, in two.  The write verifies, and the agent then serves the membership it asked for.
\<close>

subsection \<open>The raw port lists\<close>

lemma last_component:
  "CHR ''.'' \<notin> set a \<Longrightarrow> CHR ''.'' \<notin> set c \<Longrightarrow> ends_with (CHR ''.'' # a) (b @ CHR ''.'' # c) \<longleftrightarrow> a = c"
proof
  assume dots: "CHR ''.'' \<notin> set a" "CHR ''.'' \<notin> set c" and "ends_with (CHR ''.'' # a) (b @ CHR ''.'' # c)"
  then have e: "take (length (rev a @ [CHR ''.''])) (rev c @ CHR ''.'' # rev b) = rev a @ [CHR ''.'']" by (simp add: ends_with_def)
  then obtain t where t: "rev c @ CHR ''.'' # rev b = (rev a @ [CHR ''.'']) @ t" by (metis append_take_drop_id)
  have "rev c @ CHR ''.'' # rev b = rev a @ CHR ''.'' # t" using t by simp
  then have "rev c = rev a" using dots no_dot_split [of "rev c" "rev a" "rev b" t] by simp
  then show "a = c" by simp
next
  assume "a = c"
  then show "ends_with (CHR ''.'' # a) (b @ CHR ''.'' # c)" by (simp add: ends_with_def)
qed

lemma raw_cells:
  assumes "key_ok base" "list_all (\<lambda>(k, v). int64_range k) vs"
  shows "raw_rows (''.'' @ show_int vid) (cells (colKey base) (entry ''OCTETSTR'') vs) = map_option bytes_of (map_of vs vid)"
  using assms(2)
proof (induction vs)
  case (Cons a vs)
  obtain k v where a: "a = (k, v)" by force
  have k: "key_ok (colKey base k)" using Cons.prems key_ok_colKey [OF assms(1)] by (simp add: a)
  have "ends_with (''.'' @ show_int vid) (colKey base k) \<longleftrightarrow> vid = k"
    using last_component [of "show_int vid" "show_int k" base] by (simp add: show_int_no_dot colKey_def)
  then show ?case using Cons k by (simp add: a octets_value)
qed simp

lemma static_lists:
  assumes "serving f s" "sf_community f = community" "state_model s = Inr m" "sw_client w = virtual_client community"
    and v: "map_of (vs_vlans s) vid = Some v" "\<not> vv_no_static_row v"
  shows "rawBitmap w Dot1qVlanStaticEgress vid f = (Inr (Some (port_bytes (portlist_width m s) (Configured v))), f)"
    "rawBitmap w Dot1qVlanStaticUntagged vid f = (Inr (Some (port_bytes (portlist_width m s) (vv_untagged v))), f)"
proof -
  let ?I = "sorted_items (vs_vlans s)" and ?w = "portlist_width m s"
  have ok: "snmp_ok s" using assms(1) by (simp add: serving_def)
  have raw: "rawBitmap w base vid f = (Inr (map_option bytes_of (Option.bind (map_of (vs_vlans s) vid) g)), f)"
    if key: "key_ok base" and ex: "list_ex (\<lambda>(b, k, mid, fc). b = base \<and> k = colKey base \<and> (\<forall>x. fc x = map_option (entry ''OCTETSTR'') (g x))) (vlan_cols ?w)"
    for base g
  proof -
    have keys: "list_all (\<lambda>(k, v). int64_range k) (keyed g ?I)"
      using keyed_keys [of _ g ?I] served_vlans [OF ok] by (fastforce simp: list_all_iff)
    show ?thesis
      using walk_vlan [OF assms(1-3) ex] raw_cells [OF key keys, of vid]
      by (simp add: rawBitmap_def sbind_def assms(4) map_of_column)
  qed
  have "list_ex (\<lambda>(b, k, mid, fc). b = Dot1qVlanStaticEgress \<and> k = colKey Dot1qVlanStaticEgress
      \<and> (\<forall>x. fc x = map_option (entry ''OCTETSTR'') (if vv_no_static_row x then None else Some (port_list_of ?w (Configured x))))) (vlan_cols ?w)"
    unfolding list_ex_iff
    by (rule bexI [of _ "(Dot1qVlanStaticEgress, colKey Dot1qVlanStaticEgress, [],
        \<lambda>v. if vv_no_static_row v then None else Some (entry ''OCTETSTR'' (port_list_of ?w (Configured v))))"]) (simp_all add: vlan_cols_def)
  from raw [OF _ this] show "rawBitmap w Dot1qVlanStaticEgress vid f = (Inr (Some (port_bytes ?w (Configured v))), f)"
    using v by (simp add: column_keys port_bytes_def)
  have "list_ex (\<lambda>(b, k, mid, fc). b = Dot1qVlanStaticUntagged \<and> k = colKey Dot1qVlanStaticUntagged
      \<and> (\<forall>x. fc x = map_option (entry ''OCTETSTR'') (if vv_no_static_row x then None else Some (port_list_of ?w (vv_untagged x))))) (vlan_cols ?w)"
    unfolding list_ex_iff
    by (rule bexI [of _ "(Dot1qVlanStaticUntagged, colKey Dot1qVlanStaticUntagged, [],
        \<lambda>v. if vv_no_static_row v then None else Some (entry ''OCTETSTR'' (port_list_of ?w (vv_untagged v))))"]) (simp_all add: vlan_cols_def)
  from raw [OF _ this] show "rawBitmap w Dot1qVlanStaticUntagged vid f = (Inr (Some (port_bytes ?w (vv_untagged v))), f)"
    using v by (simp add: column_keys port_bytes_def)
qed

lemma port_bytes_bits:
  assumes "ports_positive m"
  shows "bm_bit (port_bytes w m) n \<longleftrightarrow> in_set m (int n + 1)"
proof -
  obtain b where "port_list w m = Inr (string_of b)" "\<forall>n. bm_bit b n \<longleftrightarrow> in_set m (int n + 1)"
    using port_list_ok [OF assms] by blast
  then show ?thesis by (simp add: port_bytes_def port_list_of_def)
qed

subsection \<open>The new port lists\<close>

text \<open>A port list with one port changed.\<close>

lemma edited_list:
  assumes "ports_positive m" "1 \<le> port" "port \<le> int (8 * max 8 width)"
  shows "\<exists>b. SetPortBit (port_bytes w m) port on width = Inr b
    \<and> (\<forall>q. q \<in> set (DecodePortBitmap b) \<longleftrightarrow> (if q = port then on else in_set m q))"
proof -
  have le: "port \<le> int (8 * max 8 (max (length (port_bytes w m)) width))" using assms(3) by (simp add: max_def split: if_splits)
  obtain b where b: "SetPortBit (port_bytes w m) port on width = Inr b"
      "\<And>n. bm_bit b n \<longleftrightarrow> (if int n + 1 = port then on else in_set m (int n + 1))"
    using SetPortBit_ok [OF assms(2) le, of on] port_bytes_bits [OF assms(1)] by auto
  have pos: "1 \<le> q" if "in_set m q" for q
    using that map_of_SomeD [of m q] assms(1) by (auto simp: in_set_def ports_positive_def list_all_iff split: option.splits)
  have "q \<in> set (DecodePortBitmap b) \<longleftrightarrow> (if q = port then on else in_set m q)" for q
    using b(2) [of "nat (q - 1)"] pos [of q] assms(2) by (cases "1 \<le> q") (auto simp: nsdp_bm.decode_mem)
  then show ?thesis using b(1) by blast
qed

text \<open>The state after the two writes: the VLAN has the two new port lists.\<close>

definition with_lists :: "int \<Rightarrow> vlan_sim \<Rightarrow> bytes \<Rightarrow> bytes \<Rightarrow> vstate \<Rightarrow> vstate" where
  "with_lists vid v e u s = s\<lparr>vs_vlans := AList.update vid
     (v\<lparr>vv_member := portSetFromSlice (DecodePortBitmap e), vv_untagged := portSetFromSlice (DecodePortBitmap u)\<rparr>) (vs_vlans s),
     vs_pdu_egress := []\<rparr>"

lemma update_swaps:
  "v\<lparr>vv_untagged := a, vv_member := b\<rparr> = v\<lparr>vv_member := b, vv_untagged := a\<rparr>"
  "s\<lparr>vs_pdu_egress := g, vs_vlans := c\<rparr> = s\<lparr>vs_vlans := c, vs_pdu_egress := g\<rparr>"
  by simp_all

lemma portSet_positive: "ports_positive (portSetFromSlice (DecodePortBitmap b))"
proof -
  have "ports_positive (portSetFromSlice ps)" if "\<forall>p \<in> set ps. 1 \<le> p" for ps
    using that
  proof (induction ps)
    case (Cons p ps)
    then have "list_all (\<lambda>(p, b). 1 \<le> p) (AList.update p True (portSetFromSlice ps))"
      by (intro list_all_update) (simp_all add: ports_positive_def)
    then show ?case by (simp add: ports_positive_def)
  qed (simp add: ports_positive_def)
  then show ?thesis using snmp_bm.decode_pos by blast
qed

lemma snmp_ok_vlan:
  assumes "snmp_ok s" "map_of (vs_vlans s) vid = Some v" "ports_positive a" "ports_positive b"
  shows "snmp_ok (s\<lparr>vs_vlans := AList.update vid (v\<lparr>vv_member := a, vv_untagged := b\<rparr>) (vs_vlans s), vs_pdu_egress := g\<rparr>)"
proof -
  have all: "list_all vlan_served (vs_vlans s)" using assms(1) by (simp add: snmp_ok_def)
  then have "vlan_served (vid, v)" using map_of_SomeD [OF assms(2)] by (auto simp: list_all_iff)
  then have "vlan_served (vid, v\<lparr>vv_member := a, vv_untagged := b\<rparr>)" using assms(3,4) by (simp add: vlan_served_def)
  from list_all_update [OF all this]
  have "list_all vlan_served (AList.update vid (v\<lparr>vv_member := a, vv_untagged := b\<rparr>) (vs_vlans s))" .
  then show ?thesis using assms(1) by (simp add: snmp_ok_def state_model_def mustModel_def)
qed

subsection \<open>The writes\<close>

lemma auto_untag_positive:
  assumes "ports_positive incoming" "ports_positive (vv_untagged v)"
  shows "ports_positive (vv_untagged (auto_untag incoming v))"
proof -
  have keys: "\<forall>p \<in> set (sorted_keys incoming). 1 \<le> p"
    using assms(1) by (auto simp: ports_positive_def list_all_iff dest!: map_of_SomeD)
  have "list_all (\<lambda>(p, b). 1 \<le> p) (fold (\<lambda>p u. if in_set (vv_member v) p then u else AList.update p True u) ps un)"
    if "\<forall>p \<in> set ps. 1 \<le> p" "list_all (\<lambda>(p, b). 1 \<le> p) un" for ps un
    using that by (induction ps arbitrary: un) (auto simp: list_all_update)
  from this [OF keys] assms(2) show ?thesis by (simp add: auto_untag_def ports_positive_def)
qed

lemma write_lists:
  assumes m: "state_model s = Inr m" "\<not> isSwitchportModel m" and v: "map_of (vs_vlans s) vid = Some v" and i: "index_ok vid"
    and e0: "vs_pdu_egress s = []" and un: "ports_positive (vv_untagged v)"
  shows "\<exists>un g. ApplyWrite (colKey Dot1qVlanStaticEgress vid) (VBytes e) s = Inr (s\<lparr>vs_vlans := AList.update vid
        (v\<lparr>vv_member := portSetFromSlice (DecodePortBitmap e), vv_untagged := un\<rparr>) (vs_vlans s), vs_pdu_egress := g\<rparr>)
     \<and> ports_positive un \<and> (\<not> sm_snmp_vlan_split m \<longrightarrow> g = [])"
    "ApplyWrite (colKey Dot1qVlanStaticUntagged vid) (VBytes u) s =
       Inr (s\<lparr>vs_vlans := AList.update vid (v\<lparr>vv_untagged := portSetFromSlice (DecodePortBitmap u)\<rparr>) (vs_vlans s)\<rparr>)"
proof -
  show "ApplyWrite (colKey Dot1qVlanStaticUntagged vid) (VBytes u) s =
       Inr (s\<lparr>vs_vlans := AList.update vid (v\<lparr>vv_untagged := portSetFromSlice (DecodePortBitmap u)\<rparr>) (vs_vlans s)\<rparr>)"
    unfolding ApplyWrite_columns(5) [OF m(1) i] write_untagged_def using m v e0 by (simp add: in_set_def)
  define M where "M = portSetFromSlice (DecodePortBitmap e)"
  define a where "a = vv_untagged (auto_untag M v)"
  have a: "auto_untag M v = v\<lparr>vv_untagged := a\<rparr>" by (simp add: a_def auto_untag_def)
  have "ports_positive a" unfolding a_def by (rule auto_untag_positive [OF _ un]) (unfold M_def, rule portSet_positive)
  moreover have "ApplyWrite (colKey Dot1qVlanStaticEgress vid) (VBytes e) s = Inr (s\<lparr>vs_vlans := AList.update vid
        (v\<lparr>vv_member := M, vv_untagged := (if sm_snmp_vlan_split m then a else vv_untagged v)\<rparr>) (vs_vlans s),
        vs_pdu_egress := (if sm_snmp_vlan_split m then AList.update vid True (vs_pdu_egress s) else [])\<rparr>)"
    unfolding ApplyWrite_columns(4) [OF m(1) i] write_egress_def asBytes.simps M_def [symmetric] Let_def
    using m v e0 a by (simp add: rejectIfReadonlyQbridge_def update_swaps)
  ultimately show "\<exists>un g. ApplyWrite (colKey Dot1qVlanStaticEgress vid) (VBytes e) s = Inr (s\<lparr>vs_vlans := AList.update vid
        (v\<lparr>vv_member := portSetFromSlice (DecodePortBitmap e), vv_untagged := un\<rparr>) (vs_vlans s), vs_pdu_egress := g\<rparr>)
     \<and> ports_positive un \<and> (\<not> sm_snmp_vlan_split m \<longrightarrow> g = [])"
    using un unfolding M_def
    by (intro exI [of _ "if sm_snmp_vlan_split m then a else vv_untagged v"]
        exI [of _ "if sm_snmp_vlan_split m then AList.update vid True (vs_pdu_egress s) else []"]) simp
qed

lemma filled_qbridge: "\<not> isSwitchportModel m \<Longrightarrow> pdu_state m s = s\<lparr>vs_pdu_egress := []\<rparr>"
  by (simp add: pdu_state_def filled_def)

abbreviation list_vb :: "string \<Rightarrow> int \<Rightarrow> bytes \<Rightarrow> set_varbind" where
  "list_vb base vid b \<equiv> \<lparr>sv_oid = colKey base vid, sv_value = VBytes b, sv_letter = CHR ''x''\<rparr>"

lemma set_lists:
  assumes f: "serving f s" "sf_community f = community" "state_model s = Inr m" and q: "\<not> isSwitchportModel m"
    and v: "map_of (vs_vlans s) vid = Some v" "index_ok vid"
  shows "\<exists>f'. (if sm_snmp_vlan_split m
      then sbind (cl_Set (virtual_client community) (list_vb Dot1qVlanStaticEgress vid e))
             (\<lambda>_. cl_Set (virtual_client community) (list_vb Dot1qVlanStaticUntagged vid u))
      else cl_SetMany (virtual_client community) [list_vb Dot1qVlanStaticEgress vid e, list_vb Dot1qVlanStaticUntagged vid u]) f = (Inr (), f')
    \<and> sf_community f' = community \<and> serving f' (with_lists vid v e u s)"
proof -
  let ?M = "portSetFromSlice (DecodePortBitmap e)" and ?U = "portSetFromSlice (DecodePortBitmap u)"
  define s0 where "s0 = s\<lparr>vs_pdu_egress := []\<rparr>"
  have ok: "snmp_ok s" using f(1) by (simp add: serving_def)
  have all: "list_all vlan_served (vs_vlans s)" using ok by (simp add: snmp_ok_def)
  then have pos: "ports_positive (vv_untagged v)" using map_of_SomeD [OF v(1)] by (auto simp: list_all_iff vlan_served_def)
  have i64: "int64_range vid" using v(2) by (simp add: index_ok_def int64_range_def)
  have keys: "key_ok (colKey Dot1qVlanStaticEgress vid)" "key_ok (colKey Dot1qVlanStaticUntagged vid)"
    using key_ok_colKey [OF _ i64] by (simp_all add: column_keys)
  have sm: "state_model (t\<lparr>vs_vlans := x\<rparr>) = state_model t" "state_model (t\<lparr>vs_pdu_egress := y\<rparr>) = state_model t" for t x y
    by (simp_all add: state_model_def mustModel_def)
  have s0: "pdu_state m s = s0" "state_model s0 = Inr m" "map_of (vs_vlans s0) vid = Some v" "vs_pdu_egress s0 = []"
    using filled_qbridge [OF q, of s] f(3) v(1) by (simp_all add: s0_def sm)
  note w1 = write_lists [OF s0(2) q s0(3) v(2) s0(4) pos]
  obtain un g where e: "ApplyWrite (colKey Dot1qVlanStaticEgress vid) (VBytes e) s0 = Inr (s0\<lparr>vs_vlans := AList.update vid
        (v\<lparr>vv_member := ?M, vv_untagged := un\<rparr>) (vs_vlans s0), vs_pdu_egress := g\<rparr>)" "ports_positive un" "\<not> sm_snmp_vlan_split m \<longrightarrow> g = []"
    using w1(1) by blast
  define s1 where "s1 = s0\<lparr>vs_vlans := AList.update vid (v\<lparr>vv_member := ?M, vv_untagged := un\<rparr>) (vs_vlans s0), vs_pdu_egress := g\<rparr>"
  have ok1: "snmp_ok s1" unfolding s1_def s0_def
    using snmp_ok_vlan [OF ok v(1) portSet_positive e(2)] by simp
  have ok2: "snmp_ok (with_lists vid v e u s)"
    unfolding with_lists_def by (rule snmp_ok_vlan [OF ok v(1) portSet_positive portSet_positive])
  have m1: "state_model s1 = Inr m" using s0(2) by (simp add: s1_def sm)
  have v1: "map_of (vs_vlans s1) vid = Some (v\<lparr>vv_member := ?M, vv_untagged := un\<rparr>)" by (simp add: s1_def update_conv')
  have u: "ApplyWrite (colKey Dot1qVlanStaticUntagged vid) (VBytes u) (s1\<lparr>vs_pdu_egress := []\<rparr>) = Inr (with_lists vid v e u s)"
    using write_lists(2) [of "s1\<lparr>vs_pdu_egress := []\<rparr>" m vid "v\<lparr>vv_member := ?M, vv_untagged := un\<rparr>" u] m1 q v1 v(2) e(2)
    by (simp add: sm with_lists_def s1_def s0_def update_swaps)
  have wr: "IsWritableOID t (colKey Dot1qVlanStaticEgress vid) = Inr True \<and> IsWritableOID t (colKey Dot1qVlanStaticUntagged vid) = Inr True"
    if "state_model t = Inr m" for t
    using IsWritable_columns [OF that v(2)] by simp
  show ?thesis
  proof (cases "sm_snmp_vlan_split m")
    case True
    obtain f1 where f1: "cl_Set (virtual_client community) (list_vb Dot1qVlanStaticEgress vid e) f = (Inr (), f1)"
        "serving f1 s1" "sf_community f1 = community"
      using Set_served [OF f sent_varbinds(3), of "colKey Dot1qVlanStaticEgress vid" e s1] keys wr s0 e(1) ok1 by (auto simp: s1_def)
    have "pdu_state m s1 = s1\<lparr>vs_pdu_egress := []\<rparr>" by (rule filled_qbridge [OF q])
    then obtain f2 where "cl_Set (virtual_client community) (list_vb Dot1qVlanStaticUntagged vid u) f1 = (Inr (), f2)"
        "serving f2 (with_lists vid v e u s)" "sf_community f2 = community"
      using Set_served [OF f1(2,3) m1 sent_varbinds(3), of "colKey Dot1qVlanStaticUntagged vid" u "with_lists vid v e u s"] keys wr m1 u ok2
      by (auto simp: sm)
    then show ?thesis using True f1(1) by (auto simp: sbind_def)
  next
    case False
    then have g: "s1\<lparr>vs_pdu_egress := []\<rparr> = s1" using e(3) by (simp add: s1_def)
    have app: "apply_all [(colKey Dot1qVlanStaticEgress vid, VBytes e), (colKey Dot1qVlanStaticUntagged vid, VBytes u)] (pdu_state m s)
        = Inr (with_lists vid v e u s)"
      using wr [OF s0(2)] wr [OF m1] e(1) [folded s1_def] u g by (simp add: s0(1))
    have l2: "list_all2 (\<lambda>(bind, p) (oid, val). sent bind p val \<and> oid = sv_oid bind \<and> key_ok oid)
        [(list_vb Dot1qVlanStaticEgress vid e, \<lparr>pd_name = colKey Dot1qVlanStaticEgress vid, pd_type = A_OctetString, pd_value = W_Bytes e\<rparr>),
         (list_vb Dot1qVlanStaticUntagged vid u, \<lparr>pd_name = colKey Dot1qVlanStaticUntagged vid, pd_type = A_OctetString, pd_value = W_Bytes u\<rparr>)]
        [(colKey Dot1qVlanStaticEgress vid, VBytes e), (colKey Dot1qVlanStaticUntagged vid, VBytes u)]"
      using keys by (simp add: sent_varbinds)
    from SetMany_served [OF f _ l2 app ok2] show ?thesis using False by auto
  qed
qed

subsection \<open>SetVlanMembership\<close>

text \<open>What a VLAN reads as after a port list write.\<close>

lemma Configured_lists:
  "set (sliceFromPortSet (Configured v)) = fst ` set (vv_member v) \<union> fst ` set (vv_configured_only v)"
  by (auto simp: Configured_def in_set_def map_of_map_keys split: if_splits)

lemma sort_uniq_ports [simp]: "sort_uniq (bitmapToPorts b) = bitmapToPorts b"
  by (simp add: sorted_distinct_id bitmapToPorts_def ports_from_sorted)

lemma SetVlanMembership_system:
  assumes f: "serving f s" "sf_community f = community" "writes_to w community" "vids_natural s"
    and m: "state_model s = Inr (sw_model w)" "\<not> isSwitchportModel (sw_model w)"
    and g: "port \<notin> set (sw_protected w) \<or> force"
    and v: "map_of (vs_vlans s) vid = Some v" "\<not> vv_no_static_row v" "port \<notin> fst ` set (vv_configured_only v)"
    and p: "1 \<le> port" "port \<le> int (8 * max 8 (VlanBitmapWidth (sm_port_count (sw_model w))))"
  shows "\<exists>f' e u. SetVlanMembership w vid port mode force f = (Inr (), f') \<and> sf_community f' = community
    \<and> serving f' (with_lists vid v e u s)
    \<and> (\<forall>q. q \<in> set (DecodePortBitmap e) \<longleftrightarrow> (if q = port then mode \<noteq> VlanExcluded else in_set (Configured v) q))
    \<and> (\<forall>q. q \<in> set (DecodePortBitmap u) \<longleftrightarrow> (if q = port then mode = VlanUntagged else in_set (vv_untagged v) q))"
proof -
  let ?m = "sw_model w" and ?W = "VlanBitmapWidth (sm_port_count (sw_model w))" and ?c = "virtual_client community"
  have r: "re_client (sw_reader w) = ?c" and c: "sw_client w = ?c" using f(3) by (auto simp: writes_to_def)
  have ok: "snmp_ok s" using f(1) by (simp add: serving_def)
  have "vlan_served (vid, v)" using map_of_SomeD [OF v(1)] ok by (auto simp: snmp_ok_def list_all_iff)
  then have pos: "ports_positive (Configured v)" "ports_positive (vv_untagged v)" and i64: "int64_range vid"
    using Configured_positive by (auto simp: vlan_served_def)
  have vid: "index_ok vid"
    using f(4) map_of_SomeD [OF v(1)] i64 by (auto simp: vids_natural_def list_all_iff index_ok_def int64_range_def)
  obtain e where e: "SetPortBit (port_bytes (portlist_width ?m s) (Configured v)) port (mode = VlanUntagged \<or> mode = VlanTagged) ?W = Inr e"
      "\<forall>q. q \<in> set (DecodePortBitmap e) \<longleftrightarrow> (if q = port then mode = VlanUntagged \<or> mode = VlanTagged else in_set (Configured v) q)"
    using edited_list [OF pos(1) p] by blast
  obtain u where u: "SetPortBit (port_bytes (portlist_width ?m s) (vv_untagged v)) port (mode = VlanUntagged) ?W = Inr u"
      "\<forall>q. q \<in> set (DecodePortBitmap u) \<longleftrightarrow> (if q = port then mode = VlanUntagged else in_set (vv_untagged v) q)"
    using edited_list [OF pos(2) p] by blast
  have bitmaps: "MembershipBitmaps (port_bytes (portlist_width ?m s) (Configured v)) (port_bytes (portlist_width ?m s) (vv_untagged v)) port mode ?W
      = Inr (e, u)"
    by (simp add: MembershipBitmaps_def Let_def e(1) u(1))
  define s1 where "s1 = with_lists vid v e u s"
  obtain f' where f': "(if sm_snmp_vlan_split ?m
      then sbind (cl_Set ?c (list_vb Dot1qVlanStaticEgress vid e)) (\<lambda>_. cl_Set ?c (list_vb Dot1qVlanStaticUntagged vid u))
      else cl_SetMany ?c [list_vb Dot1qVlanStaticEgress vid e, list_vb Dot1qVlanStaticUntagged vid u]) f = (Inr (), f')"
      "sf_community f' = community" "serving f' s1"
    using set_lists [OF f(1,2) m v(1) vid] unfolding s1_def by blast
  have nat1: "vids_natural s1"
    using f(4) vid unfolding vids_natural_def s1_def with_lists_def by (simp add: list_all_update index_ok_def)
  have v1: "map_of (vs_vlans s1) vid = Some (v\<lparr>vv_member := portSetFromSlice (DecodePortBitmap e), vv_untagged := portSetFromSlice (DecodePortBitmap u)\<rparr>)"
      (is "_ = Some ?v") by (simp add: s1_def with_lists_def update_conv')
  have phys: "is_physical s1 = is_physical s" 
  proof -
    have "vs_ports s1 = vs_ports s" by (simp add: s1_def with_lists_def)
    then show ?thesis unfolding is_physical_def [abs_def] by (rule arg_cong)
  qed
  have members: "sliceFromPortSet (Configured ?v) = DecodePortBitmap e"
  proof (rule sorted_distinct_set_unique)
    have "fst ` set (portSetFromSlice (bitmapToPorts e)) = set (bitmapToPorts e)"
    proof -
      have "map_of (portSetFromSlice ps) q = None \<longleftrightarrow> q \<notin> set ps" for ps q by (induction ps) (auto simp: update_conv')
      then show ?thesis by (auto simp: map_of_eq_None_iff)
    qed
    moreover have "q \<in> set (bitmapToPorts e)" if "q \<in> fst ` set (vv_configured_only v)" for q
    proof -
      have "q \<noteq> port" "in_set (Configured v) q" using that v(3) Configured_lists [of v] by auto
      then show ?thesis using e(2) by simp
    qed
    ultimately show "set (sliceFromPortSet (Configured ?v)) = set (DecodePortBitmap e)"
      unfolding Configured_lists by auto
  qed (simp_all add: bitmapToPorts_def ports_from_sorted)
  have view: "vi_members (snmp_vlan_view s1 (vid, ?v)) = filter (is_physical s) (DecodePortBitmap e)"
      "vi_untagged (snmp_vlan_view s1 (vid, ?v)) = filter (is_physical s) (DecodePortBitmap u)"
    using members v(2) by (simp_all add: snmp_vlan_view_def Let_def phys)
  obtain rows ph where ph: "cl_Walk ?c IfType f' = (Inr rows, f')" "physicalPorts rows = Inr ph"
      "\<And>ps. filterPhysical ps ph = filter (is_physical s1) ps"
    using physical_served [OF f'(3,2)] by blast
  have g0: "guard w port force = Inr ()" using g by (auto simp: guard_def)
  have q: "(sm_snmp_vlan_write ?m = SNMPVlanWriteFastpathSwitchport) = False" using m(2) by (simp add: isSwitchportModel_def)
  have after: "get_vlan w vid f' = (Inr (Some (snmp_vlan_view s1 (vid, ?v))), f')"
    using snmp_GetVLANs_reported [OF f'(3,2) r nat1] v1 by (simp add: get_vlan_def sbind_def find_snmp_vlans)
  have keep: "physical w f' = (Inr ph, f')" using ph by (simp add: physical_def sbind_def c)
  have "SetVlanMembership w vid port mode force f = (Inr (), f')"
    unfolding SetVlanMembership_def c
    by (simp only: sbind_def sret_apply g0 snmp_GetVLANs_reported [OF f(1,2) r f(4)] find_snmp_vlans v(1) option.map option.case q if_False
        static_lists [OF f(1,2) m(1) c v(1,2)] bitmaps prod.case sum.case NewSetVarbind_letters f'(1) after keep Let_def)
      (use view in \<open>simp add: ph(3) phys\<close>)
  moreover have md: "(mode = VlanUntagged \<or> mode = VlanTagged) = (mode \<noteq> VlanExcluded)" by (cases mode) simp_all
  ultimately show ?thesis using f'(2,3) e(2) [unfolded md] u(2) unfolding s1_def by blast
qed

end
