(* ===== verification/Snmp_Sound.thy ===== *)
theory Snmp_Sound
  imports Snmp_Set_Vlans
begin

section \<open>The agent never panics\<close>

text \<open>
  Progress and preservation for the SNMP face: a state whose numbers fit its columns is served, and
  a SET of values of the columns' types, at the indices the columns have, keeps it so.  The two
  conditions are needed: a PVID below zero is accepted and then panics every read of its row.
\<close>

subsection \<open>Typed SETs\<close>

definition small_value :: "snmp_value \<Rightarrow> bool" where
  "small_value v \<longleftrightarrow> (case mustInt v of Inl _ \<Rightarrow> True | Inr n \<Rightarrow> u32_range n)"

definition writable_columns :: "string list" where
  "writable_columns = [IfAdminStatus, IfAlias, Dot1qPvid, Dot1qVlanStaticEgress, Dot1qVlanStaticUntagged, FastpathSwitchportMode,
     FastpathSwitchportAccessVlan, FastpathSwitchportNativeVlan, FastpathSwitchportAllowedVlans, Dot1qVlanStaticRowStatus,
     Dot1qVlanStaticName]"

definition typed_set :: "switch_model \<Rightarrow> string \<Rightarrow> snmp_value \<Rightarrow> bool" where
  "typed_set m oid v \<longleftrightarrow> small_value v
     \<and> list_all (\<lambda>col. case columnTail col oid of None \<Rightarrow> True | Some i \<Rightarrow> 1 \<le> i \<and> i \<le> 4096) writable_columns
     \<and> (case resolveVendorOids m of None \<Rightarrow> True | Some ven \<Rightarrow> oid = vo_mgmt_addr ven \<longrightarrow> key_ok (asString v))"

text \<open>The states the agent serves whatever it is sent: those of \<open>snmp_ok\<close> with ports from 1.\<close>

definition agent_ok :: "vstate \<Rightarrow> bool" where
  "agent_ok s \<longleftrightarrow> snmp_ok s \<and> list_all (\<lambda>(p, x). 1 \<le> p) (vs_ports s)"

lemma state_model_cong: "vs_model_key s = vs_model_key t \<Longrightarrow> state_model s = state_model t"
  by (simp add: state_model_def mustModel_def)

lemma typed_index: "typed_set m oid v \<Longrightarrow> col \<in> set writable_columns \<Longrightarrow> columnTail col oid = Some i \<Longrightarrow> 1 \<le> i \<and> i \<le> 4096"
  by (auto simp: typed_set_def list_all_iff split: option.splits)

lemma small_int: "small_value v \<Longrightarrow> mustInt v = Inr n \<Longrightarrow> u32_range n"
  by (simp add: small_value_def)

lemma u32_int64: "u32_range n \<Longrightarrow> int64_range n"
  by (simp add: u32_range_def int64_range_def)

lemma index_range: "1 \<le> i \<Longrightarrow> i \<le> 4096 \<Longrightarrow> int64_range i"
  by (simp add: int64_range_def)

text \<open>The conditions on the parts of a state, each kept on its own.\<close>

lemma snmp_okD:
  assumes "snmp_ok s"
  shows "list_all port_served (vs_ports s)" "list_all vlan_served (vs_vlans s)" "list_all (\<lambda>(p, v). int64_range p \<and> u32_range v) (vs_pvids s)"
    "list_all poe_served (vs_poe s)" "list_all (\<lambda>(p, v). int64_range v) (vs_sw_mode s)"
    "list_all (\<lambda>(p, v). u32_range v) (vs_sw_access s)" "list_all (\<lambda>(p, v). u32_range v) (vs_sw_native s)"
    "list_all (\<lambda>(p, m). vids_ok m) (vs_sw_general_untagged s)" "list_all (\<lambda>(p, m). vids_ok m) (vs_sw_general_tagged s)"
  using assms by (simp_all add: snmp_ok_def)

text \<open>An update of one part.\<close>

lemma snmp_ok_updates:
  assumes "snmp_ok s"
  shows "list_all port_served a \<Longrightarrow> snmp_ok (s\<lparr>vs_ports := a\<rparr>)"
    "list_all vlan_served b \<Longrightarrow> snmp_ok (s\<lparr>vs_vlans := b\<rparr>)"
    "list_all (\<lambda>(p, v). int64_range p \<and> u32_range v) c \<Longrightarrow> snmp_ok (s\<lparr>vs_pvids := c\<rparr>)"
    "list_all poe_served d \<Longrightarrow> snmp_ok (s\<lparr>vs_poe := d\<rparr>)"
    "list_all (\<lambda>(p, v). int64_range v) e \<Longrightarrow> snmp_ok (s\<lparr>vs_sw_mode := e\<rparr>)"
    "list_all (\<lambda>(p, v). u32_range v) g \<Longrightarrow> snmp_ok (s\<lparr>vs_sw_access := g\<rparr>)"
    "list_all (\<lambda>(p, v). u32_range v) g \<Longrightarrow> snmp_ok (s\<lparr>vs_sw_native := g\<rparr>)"
    "snmp_ok (s\<lparr>vs_sw_allowed := h\<rparr>)" "snmp_ok (s\<lparr>vs_hostname := t\<rparr>)" "snmp_ok (s\<lparr>vs_pdu_egress := k\<rparr>)"
    "list_all (\<lambda>(p, m). vids_ok m) n \<Longrightarrow> snmp_ok (s\<lparr>vs_sw_general_untagged := n\<rparr>)"
    "list_all (\<lambda>(p, m). vids_ok m) n \<Longrightarrow> snmp_ok (s\<lparr>vs_sw_general_tagged := n\<rparr>)"
    "key_ok (vm_address y) \<Longrightarrow> snmp_ok (s\<lparr>vs_mgmt := y\<rparr>)"
    "int64_range (vy_admin_mode z) \<Longrightarrow> u32_range (vy_local_port z) \<Longrightarrow> list_all collector_served (vy_collectors z) \<Longrightarrow> snmp_ok (s\<lparr>vs_syslog := z\<rparr>)"
  using assms by (simp_all add: snmp_ok_def state_model_def mustModel_def)

lemma vids_ok_changes:
  "vids_ok m \<Longrightarrow> 1 \<le> vid \<Longrightarrow> vid \<le> 4096 \<Longrightarrow> vids_ok (AList.update vid b m)" "vids_ok m \<Longrightarrow> vids_ok (AList.delete vid m)"
proof -
  show "vids_ok m \<Longrightarrow> 1 \<le> vid \<Longrightarrow> vid \<le> 4096 \<Longrightarrow> vids_ok (AList.update vid b m)"
    unfolding vids_ok_def by (rule list_all_update) simp_all
  show "vids_ok m \<Longrightarrow> vids_ok (AList.delete vid m)"
    by (auto simp: vids_ok_def list_all_iff AList.delete_eq)
qed

lemma update_port_ok:
  assumes "agent_ok s" "\<And>p x. port_served (p, x) \<Longrightarrow> port_served (p, f x)"
  shows "agent_ok (update_port port f s)"
proof (cases "map_of (vs_ports s) port")
  case (Some x)
  have "port_served (port, x)" "1 \<le> port"
    using map_of_SomeD [OF Some] assms(1) by (auto simp: agent_ok_def snmp_ok_def list_all_iff)
  then have "list_all port_served (AList.update port (f x) (vs_ports s))" "list_all (\<lambda>(p, x). 1 \<le> p) (AList.update port (f x) (vs_ports s))"
    using assms by (auto simp: agent_ok_def snmp_ok_def list_all_update)
  then show ?thesis using assms(1) by (simp add: update_port_def Some agent_ok_def snmp_ok_updates)
qed (use assms(1) in \<open>simp add: update_port_def\<close>)

lemma agent_ok_same_ports: "snmp_ok s' \<Longrightarrow> agent_ok s \<Longrightarrow> vs_ports s' = vs_ports s \<Longrightarrow> agent_ok s'"
  by (simp add: agent_ok_def)

subsection \<open>The operations keep the agent well\<close>

lemma write_admin_ok: "agent_ok s \<Longrightarrow> write_admin port v s = Inr s' \<Longrightarrow> agent_ok s'"
  by (auto simp: write_admin_def rbind_def port_served_def split: if_splits sum.splits intro!: update_port_ok)

lemma write_alias_ok: "agent_ok s \<Longrightarrow> agent_ok (write_alias port v s)"
  unfolding write_alias_def by (rule update_port_ok) (simp_all add: port_served_def)

lemma ApplyPoeAdmin_ok:
  assumes "agent_ok s"
  shows "agent_ok (ApplyPoeAdmin port on s)"
proof (cases "map_of (vs_poe s) port")
  case (Some q)
  have poe: "list_all poe_served (vs_poe s)" using assms by (simp add: agent_ok_def snmp_ok_def)
  then have "poe_served (port, q)" using map_of_SomeD [OF Some] by (auto simp: list_all_iff)
  define q' where "q' = q\<lparr>vq_admin := on, vq_detect := (if on then 3 else 1), vq_status_lag := (if on \<and> \<not> vq_admin q then 1 else vq_status_lag q)\<rparr>"
  have "poe_served (port, q')" using \<open>poe_served (port, q)\<close> by (simp add: q'_def poe_served_def int64_range_def)
  then have "list_all poe_served (AList.update port q' (vs_poe s))" by (rule list_all_update [OF poe])
  then have "agent_ok (s\<lparr>vs_poe := AList.update port q' (vs_poe s)\<rparr>)" using assms by (simp add: agent_ok_def snmp_ok_updates)
  then show ?thesis
    using update_port_ok [of "s\<lparr>vs_poe := AList.update port q' (vs_poe s)\<rparr>" "\<lambda>p. p\<lparr>vp_link := False\<rparr>" port]
    by (simp add: ApplyPoeAdmin_def Some q'_def [symmetric] Let_def port_served_def)
qed (use assms in \<open>simp add: ApplyPoeAdmin_def\<close>)

lemma vlan_update_ok:
  assumes "agent_ok s" "vlan_served (vid, v)"
  shows "agent_ok (s\<lparr>vs_vlans := AList.update vid v (vs_vlans s)\<rparr>)"
  using assms by (simp add: agent_ok_def snmp_ok_updates list_all_update snmp_okD)

lemma vlan_at: "agent_ok s \<Longrightarrow> map_of (vs_vlans s) vid = Some v \<Longrightarrow> vlan_served (vid, v)"
  using map_of_SomeD snmp_okD(2) by (fastforce simp: agent_ok_def list_all_iff)

lemma write_untagged_ok:
  assumes "agent_ok s" "write_untagged vid v s = Inr s'"
  shows "agent_ok s'"
proof (cases "map_of (vs_vlans s) vid")
  case (Some vl)
  have "vlan_served (vid, vl\<lparr>vv_untagged := portSetFromSlice (DecodePortBitmap (asBytes v))\<rparr>)"
    using vlan_at [OF assms(1) Some] portSet_positive [of "asBytes v"] by (simp add: vlan_served_def)
  from vlan_update_ok [OF assms(1) this] show ?thesis
    using assms by (auto simp: write_untagged_def Some rbind_def split: sum.splits if_splits)
qed (use assms in \<open>simp add: write_untagged_def\<close>)

lemma defaults_ok: "agent_ok s \<Longrightarrow> agent_ok (switchportDefaults p s)"
  by (rule agent_ok_same_ports) (simp_all add: agent_ok_def snmp_ok_defaults)

lemma all_defaults_ok: "agent_ok s \<Longrightarrow> agent_ok (all_defaults s)"
  by (rule agent_ok_same_ports) (simp_all add: agent_ok_def all_defaults_def fold_defaults)

lemma set_port_ok:
  assumes "1 \<le> port" "vlan_served (vid, v)"
  shows "vlan_served (vid, set_port port a b v)"
proof -
  have "ports_positive (AList.update port True m)" "ports_positive (AList.delete port m)" if "ports_positive m" for m
  proof -
    show "ports_positive (AList.update port True m)" using that assms(1) unfolding ports_positive_def by (intro list_all_update) simp_all
    show "ports_positive (AList.delete port m)" using that by (auto simp: ports_positive_def list_all_iff AList.delete_eq)
  qed
  then show ?thesis using assms(2) by (simp add: set_port_def vlan_served_def)
qed

lemma applySwitchport_ok:
  assumes "agent_ok s" "1 \<le> port" "int64_range port"
  shows "agent_ok (applySwitchport port s)"
proof -
  define s1 where "s1 = switchportDefaults port s"
  obtain a b where ab: "switchport_sets port s1 = (a, b)" by force
  have ok1: "agent_ok s1" unfolding s1_def by (rule defaults_ok [OF assms(1)])
  then have so: "snmp_ok s1" by (simp add: agent_ok_def)
  have u: "u32_range (int_at (vs_sw_access s1) port)" "u32_range (int_at (vs_sw_native s1) port)"
    using int_at_all [OF snmp_okD(6) [OF so]] int_at_all [OF snmp_okD(7) [OF so]] zero_ranges by auto
  have pv: "list_all (\<lambda>(p, v). int64_range p \<and> u32_range v) (switchport_pvids port s1)"
    using snmp_okD(3) [OF so] u assms(3) by (simp add: switchport_pvids_def Let_def list_all_update)
  have vl: "list_all vlan_served (map (\<lambda>(vid, v). (vid, set_port port (in_set a vid) (in_set b vid) v)) (vs_vlans s1))"
    using snmp_okD(2) [OF so] set_port_ok [OF assms(2)] by (auto simp: list_all_iff)
  have "snmp_ok (s1\<lparr>vs_pvids := switchport_pvids port s1,
      vs_vlans := map (\<lambda>(vid, v). (vid, set_port port (in_set a vid) (in_set b vid) v)) (vs_vlans s1)\<rparr>)"
    by (rule snmp_ok_updates(2) [OF snmp_ok_updates(3) [OF so pv] vl])
  then show ?thesis using ok1 by (simp add: applySwitchport_def s1_def [symmetric] ab agent_ok_def Let_def)
qed

lemma reconcile_port_ok:
  assumes "agent_ok s" "1 \<le> port" "int64_range port" "1 \<le> vid" "vid \<le> 4096" "reconcile_port vid incoming port s = Inr s'"
  shows "agent_ok s'"
proof -
  define s1 where "s1 = switchportDefaults port s"
  have ok1: "agent_ok s1" unfolding s1_def by (rule defaults_ok [OF assms(1)])
  then have so: "snmp_ok s1" by (simp add: agent_ok_def)
  note un = snmp_okD(8) [OF so] and ta = snmp_okD(9) [OF so]
  have sets: "vids_ok (set_at (vs_sw_general_untagged s1) port)" "vids_ok (set_at (vs_sw_general_tagged s1) port)"
    using set_at_all [OF un] set_at_all [OF ta] by auto
  have up: "snmp_ok (s1\<lparr>vs_sw_general_untagged := AList.update port (AList.update vid True (set_at (vs_sw_general_untagged s1) port)) (vs_sw_general_untagged s1)\<rparr>)"
    by (intro snmp_ok_updates(11) [OF so] list_all_update [OF un]) (simp add: vids_ok_changes sets assms)
  have down1: "snmp_ok (s1\<lparr>vs_sw_general_untagged := AList.update port (AList.delete vid (set_at (vs_sw_general_untagged s1) port)) (vs_sw_general_untagged s1)\<rparr>)"
    by (intro snmp_ok_updates(11) [OF so] list_all_update [OF un]) (simp add: vids_ok_changes sets)
  have down: "snmp_ok (s1\<lparr>vs_sw_general_untagged := AList.update port (AList.delete vid (set_at (vs_sw_general_untagged s1) port)) (vs_sw_general_untagged s1),
      vs_sw_general_tagged := AList.update port (AList.delete vid (set_at (vs_sw_general_tagged s1) port)) (vs_sw_general_tagged s1)\<rparr>)"
    by (intro snmp_ok_updates(12) [OF down1] list_all_update) (simp_all add: vids_ok_changes sets ta)
  have allowed: "snmp_ok (s1\<lparr>vs_sw_allowed := h\<rparr>)" for h by (rule snmp_ok_updates(8) [OF so])
  have "\<exists>s2. s' = applySwitchport port s2 \<and> snmp_ok s2 \<and> vs_ports s2 = vs_ports s1"
    using assms(6) up down allowed so
    by (auto simp: reconcile_port_def s1_def [symmetric] Let_def rbind_def split: if_splits sum.splits)
  then show ?thesis using applySwitchport_ok [OF _ assms(2,3)] agent_ok_same_ports [OF _ ok1] by blast
qed

lemma reconcile_ports_ok:
  "agent_ok s \<Longrightarrow> \<forall>p \<in> set ps. 1 \<le> p \<and> int64_range p \<Longrightarrow> 1 \<le> vid \<Longrightarrow> vid \<le> 4096 \<Longrightarrow>
   reconcile_ports vid incoming ps s = Inr s' \<Longrightarrow> agent_ok s'"
proof (induction ps arbitrary: s)
  case (Cons p ps)
  obtain s2 where s2: "reconcile_port vid incoming p s = Inr s2" "reconcile_ports vid incoming ps s2 = Inr s'"
    using Cons.prems(5) by (cases "reconcile_port vid incoming p s") auto
  have "agent_ok s2" by (rule reconcile_port_ok [OF Cons.prems(1) _ _ Cons.prems(3,4) s2(1)]) (use Cons.prems(2) in auto)
  then show ?case using Cons.IH [OF _ _ Cons.prems(3,4) s2(2)] Cons.prems(2) by auto
qed simp

lemma agent_ports: "agent_ok s \<Longrightarrow> p \<in> set (sorted_keys (vs_ports s)) \<Longrightarrow> 1 \<le> p \<and> int64_range p"
  by (auto simp: agent_ok_def snmp_ok_def list_all_iff port_served_def dest!: map_of_SomeD)

lemma write_egress_ok:
  assumes ok: "agent_ok s" and "1 \<le> vid" "vid \<le> 4096" "write_egress vid v s = Inr s'"
  shows "agent_ok s'"
proof (cases "map_of (vs_vlans s) vid")
  case (Some vl)
  define M where "M = portSetFromSlice (DecodePortBitmap (asBytes v))"
  have M: "ports_positive M" unfolding M_def by (rule portSet_positive)
  obtain s1 m where s1: "rejectIfReadonlyQbridge s = Inr s1" "state_model s1 = Inr m"
      "(if isSwitchportModel m then reconcileQbridgeMembership vid M s1
        else if sm_snmp_vlan_split m
        then Inr (s1\<lparr>vs_vlans := AList.update vid ((auto_untag M vl)\<lparr>vv_member := M\<rparr>) (vs_vlans s1),
                     vs_pdu_egress := AList.update vid True (vs_pdu_egress s1)\<rparr>)
        else Inr (s1\<lparr>vs_vlans := AList.update vid (vl\<lparr>vv_member := M\<rparr>) (vs_vlans s1)\<rparr>)) = Inr s'"
    using assms(4) unfolding write_egress_def Some option.case M_def [symmetric] Let_def
    by (auto simp: rbind_def split: sum.splits)
  have ok1: "agent_ok s1"
    using s1(1) ok all_defaults_ok [OF ok]
    by (auto simp: rejectIfReadonlyQbridge_def accessModePorts_def Let_def rbind_def split: sum.splits if_splits)
  have vl: "vlan_served (vid, vl)" by (rule vlan_at [OF ok Some])
  have "vlan_served (vid, vl\<lparr>vv_member := M\<rparr>)" using vl M by (simp add: vlan_served_def)
  note plain = vlan_update_ok [OF ok1 this]
  have "auto_untag M vl = vl\<lparr>vv_untagged := vv_untagged (auto_untag M vl)\<rparr>" by (simp add: auto_untag_def)
  moreover have "ports_positive (vv_untagged (auto_untag M vl))" by (rule auto_untag_positive [OF M]) (use vl in \<open>simp add: vlan_served_def\<close>)
  ultimately have "vlan_served (vid, (auto_untag M vl)\<lparr>vv_member := M\<rparr>)"
    using vl M by (auto simp: vlan_served_def auto_untag_def)
  note split = vlan_update_ok [OF ok1 this]
  show ?thesis
  proof (cases "isSwitchportModel m")
    case True
    have ps: "\<forall>p \<in> set (sorted_keys (vs_ports s1)). 1 \<le> p \<and> int64_range p" using agent_ports [OF ok1] by blast
    have "reconcile_ports vid M (sorted_keys (vs_ports s1)) s1 = Inr s'" using True s1(3) by (simp add: reconcileQbridgeMembership_def)
    then show ?thesis by (rule reconcile_ports_ok [OF ok1 ps assms(2,3)])
  next
    case False
    then show ?thesis
      using s1(3) plain split by (auto simp: agent_ok_def snmp_ok_updates(10) split: if_splits)
  qed
qed (use assms in \<open>simp add: write_egress_def\<close>)

lemma sw_update_ok:
  assumes "agent_ok s" "1 \<le> port" "port \<le> 4096" "u32_range n"
  shows "agent_ok (applySwitchport port (s\<lparr>vs_sw_mode := AList.update port n (vs_sw_mode s)\<rparr>))"
    "agent_ok (applySwitchport port (s\<lparr>vs_sw_access := AList.update port n (vs_sw_access s)\<rparr>))"
    "agent_ok (applySwitchport port (s\<lparr>vs_sw_native := AList.update port n (vs_sw_native s)\<rparr>))"
    "agent_ok (applySwitchport port (s\<lparr>vs_sw_allowed := AList.update port b (vs_sw_allowed s)\<rparr>))"
proof -
  have so: "snmp_ok s" using assms(1) by (simp add: agent_ok_def)
  note p = assms(2) index_range [OF assms(2,3)]
  have "snmp_ok (s\<lparr>vs_sw_mode := AList.update port n (vs_sw_mode s)\<rparr>)"
    by (intro snmp_ok_updates(5) [OF so] list_all_update) (simp_all add: snmp_okD [OF so] u32_int64 assms(4))
  then show "agent_ok (applySwitchport port (s\<lparr>vs_sw_mode := AList.update port n (vs_sw_mode s)\<rparr>))"
    using assms(1) by (intro applySwitchport_ok [OF _ p]) (simp add: agent_ok_def)
  have "snmp_ok (s\<lparr>vs_sw_access := AList.update port n (vs_sw_access s)\<rparr>)"
    by (intro snmp_ok_updates(6) [OF so] list_all_update) (simp_all add: snmp_okD [OF so] assms(4))
  then show "agent_ok (applySwitchport port (s\<lparr>vs_sw_access := AList.update port n (vs_sw_access s)\<rparr>))"
    using assms(1) by (intro applySwitchport_ok [OF _ p]) (simp add: agent_ok_def)
  have "snmp_ok (s\<lparr>vs_sw_native := AList.update port n (vs_sw_native s)\<rparr>)"
    by (intro snmp_ok_updates(7) [OF so] list_all_update) (simp_all add: snmp_okD [OF so] assms(4))
  then show "agent_ok (applySwitchport port (s\<lparr>vs_sw_native := AList.update port n (vs_sw_native s)\<rparr>))"
    using assms(1) by (intro applySwitchport_ok [OF _ p]) (simp add: agent_ok_def)
  show "agent_ok (applySwitchport port (s\<lparr>vs_sw_allowed := AList.update port b (vs_sw_allowed s)\<rparr>))"
    using assms(1) snmp_ok_updates(8) [OF so] by (intro applySwitchport_ok [OF _ p]) (simp add: agent_ok_def)
qed

lemma write_switchport_ok:
  assumes ok: "agent_ok s" and t: "typed_set m oid v" and w: "write_switchport oid v s = Some (Inr s')"
  shows "agent_ok s'"
proof -
  have i: "1 \<le> p \<and> p \<le> 4096" if "columnTail col oid = Some p" "col \<in> {FastpathSwitchportMode, FastpathSwitchportAccessVlan,
      FastpathSwitchportNativeVlan, FastpathSwitchportAllowedVlans}" for col p
    using typed_index [OF t _ that(1)] that(2) by (auto simp: writable_columns_def)
  have n: "u32_range n" if "mustInt v = Inr n" for n using small_int [OF _ that] t by (simp add: typed_set_def)
  have "u32_range 0" by (simp add: u32_range_def)
  then show ?thesis
    using w i n sw_update_ok [OF ok]
    by (auto simp: write_switchport_def write_native_def rbind_def split: option.splits sum.splits if_splits)
qed

lemma new_vlan_served: "int64_range vid \<Longrightarrow> vlan_served (vid, new_vlan t)"
  by (simp add: vlan_served_def new_vlan_def ports_positive_def)

lemma write_row_status_ok:
  assumes ok: "agent_ok s" and "1 \<le> vid" "vid \<le> 4096" "write_row_status vid v s = Inr s'"
  shows "agent_ok s'"
proof -
  have "list_all vlan_served (AList.delete vid (vs_vlans s))"
    using ok by (auto simp: agent_ok_def snmp_ok_def list_all_iff AList.delete_eq)
  then have "agent_ok (s\<lparr>vs_vlans := AList.delete vid (vs_vlans s)\<rparr>)" using ok by (simp add: agent_ok_def snmp_ok_updates)
  then show ?thesis
    using assms(4) ok vlan_update_ok [OF ok new_vlan_served [OF index_range [OF assms(2,3)]]]
    by (auto simp: write_row_status_def rbind_def split: sum.splits if_splits)
qed

lemma write_vlan_name_ok:
  assumes ok: "agent_ok s" and "1 \<le> vid" "vid \<le> 4096" "write_vlan_name vid v s = Inr s'"
  shows "agent_ok s'"
proof (cases "map_of (vs_vlans s) vid")
  case None
  then show ?thesis
    using assms(4) vlan_update_ok [OF ok new_vlan_served [OF index_range [OF assms(2,3)]]]
    by (auto simp: write_vlan_name_def rbind_def split: sum.splits)
next
  case (Some vl)
  have "vlan_served (vid, vl\<lparr>vv_name := asString v\<rparr>)" using vlan_at [OF ok Some] by (simp add: vlan_served_def)
  from vlan_update_ok [OF ok this] show ?thesis using assms(4) by (simp add: write_vlan_name_def Some)
qed

lemma mgmt_ok: "agent_ok s \<Longrightarrow> key_ok (vm_address (f (vs_mgmt s))) \<Longrightarrow> agent_ok (set_mgmt f s)"
  by (simp add: agent_ok_def set_mgmt_def snmp_ok_updates)

lemma syslog_ok:
  assumes "agent_ok s" "int64_range (vy_admin_mode (f (vs_syslog s)))" "vy_local_port (f (vs_syslog s)) = vy_local_port (vs_syslog s)"
    "list_all collector_served (vy_collectors (vs_syslog s)) \<Longrightarrow> list_all collector_served (vy_collectors (f (vs_syslog s)))"
  shows "agent_ok (set_syslog f s)"
  using assms by (simp add: agent_ok_def set_syslog_def snmp_ok_updates snmp_ok_def [of s])

lemma collectors_kept:
  "list_all collector_served cs \<Longrightarrow> list_all collector_served (remove_collector i cs)"
  "list_all collector_served cs \<Longrightarrow> int64_range v \<Longrightarrow> list_all collector_served (set_collector i v cs)"
  by (induction cs) (auto simp: collector_served_def)

lemma write_collector_ok:
  assumes ok: "agent_ok s" and "small_value v" "write_collector i v s = Inr s'"
  shows "agent_ok s'"
proof -
  obtain n where n: "mustInt v = Inr n" "int64_range n"
      "s' = set_syslog (\<lambda>y. y\<lparr>vy_collectors := (if n = RowStatusDestroy then remove_collector i (vy_collectors y)
         else set_collector i n (vy_collectors y))\<rparr>) s"
    using assms(2,3) small_int u32_int64 by (auto simp: write_collector_def rbind_def split: if_splits sum.splits)
  have "int64_range (vy_admin_mode (vs_syslog s))" using ok by (simp add: agent_ok_def snmp_ok_def)
  then show ?thesis unfolding n(3) by (intro syslog_ok [OF ok]) (simp_all add: collectors_kept n(2))
qed

lemma write_vendor_ok:
  assumes ok: "agent_ok s" and "small_value v" "oid = vo_mgmt_addr ven \<longrightarrow> key_ok (asString v)" "write_vendor ven oid v s = Inr s'"
  shows "agent_ok s'"
proof -
  have addr: "key_ok (vm_address (vs_mgmt s))" and syslog: "int64_range (vy_admin_mode (vs_syslog s))"
    using ok by (simp_all add: agent_ok_def snmp_ok_def)
  have n: "int64_range n" if "mustInt v = Inr n" for n using small_int [OF assms(2) that] by (rule u32_int64)
  have m1: "agent_ok (set_mgmt (\<lambda>m. m\<lparr>vm_netmask := t\<rparr>) s)" "agent_ok (set_mgmt (\<lambda>m. m\<lparr>vm_gateway := t\<rparr>) s)"
    "agent_ok (set_mgmt (\<lambda>m. m\<lparr>vm_mode := t\<rparr>) s)" for t
    by (rule mgmt_ok [OF ok], simp add: addr)+
  have m2: "key_ok t \<Longrightarrow> agent_ok (set_mgmt (\<lambda>m. m\<lparr>vm_address := t\<rparr>) s)" for t by (rule mgmt_ok [OF ok]) simp
  have m3: "int64_range i \<Longrightarrow> agent_ok (set_syslog (\<lambda>y. y\<lparr>vy_admin_mode := i\<rparr>) s)" for i by (rule syslog_ok [OF ok]) simp_all
  show ?thesis
    using assms(3,4) m1 m2 m3 n ok write_collector_ok [OF ok assms(2)]
    by (auto simp: write_vendor_def rbind_def split: if_splits sum.splits option.splits)
qed

lemma ApplyWrite_ok:
  assumes ok: "agent_ok s" and m: "state_model s = Inr m" and t: "typed_set m oid v" and w: "ApplyWrite oid v s = Inr s'"
  shows "agent_ok s'"
proof -
  have i: "columnTail Dot1qPvid oid = Some k \<Longrightarrow> 1 \<le> k \<and> k \<le> 4096"
    "columnTail Dot1qVlanStaticEgress oid = Some k \<Longrightarrow> 1 \<le> k \<and> k \<le> 4096"
    "columnTail Dot1qVlanStaticRowStatus oid = Some k \<Longrightarrow> 1 \<le> k \<and> k \<le> 4096"
    "columnTail Dot1qVlanStaticName oid = Some k \<Longrightarrow> 1 \<le> k \<and> k \<le> 4096" for k
    by (rule typed_index [OF t]; simp add: writable_columns_def)+
  have sv: "small_value v" using t by (simp add: typed_set_def)
  have pv: "agent_ok (s\<lparr>vs_pvids := AList.update p n (vs_pvids s)\<rparr>)" if "columnTail Dot1qPvid oid = Some p" "mustInt v = Inr n" for p n
  proof -
    have "int64_range p" using index_range i that(1) by blast
    then have "list_all (\<lambda>(p, v). int64_range p \<and> u32_range v) (AList.update p n (vs_pvids s))"
      using ok small_int [OF sv that(2)] by (intro list_all_update) (simp_all add: agent_ok_def snmp_ok_def)
    then show ?thesis using ok by (simp add: agent_ok_def snmp_ok_updates)
  qed
  have host: "agent_ok (s\<lparr>vs_hostname := h\<rparr>)" for h using ok by (simp add: agent_ok_def snmp_ok_updates)
  have vendor: "agent_ok s'" if "resolveVendorOids m = Some ven" "write_vendor ven oid v s = Inr s'" for ven
    by (rule write_vendor_ok [OF ok sv _ that(2)]) (use t that(1) in \<open>simp add: typed_set_def\<close>)
  have sw: "agent_ok s'" if "write_switchport oid v s = Some (Inr s')" by (rule write_switchport_ok [OF ok t that])
  show ?thesis
  proof (cases "columnTail IfAdminStatus oid")
    case (Some p) then show ?thesis using w m write_admin_ok [OF ok] by (simp add: ApplyWrite_def)
  next
    case a: None
    show ?thesis
    proof (cases "columnTail IfAlias oid")
      case (Some p) then show ?thesis using a w m write_alias_ok [OF ok] by (auto simp: ApplyWrite_def)
    next
      case b: None
      show ?thesis
        using w m a b pv host vendor sw ApplyPoeAdmin_ok [OF ok] write_egress_ok [OF ok] write_untagged_ok [OF ok]
          write_row_status_ok [OF ok] write_vlan_name_ok [OF ok] i ok
        by (auto simp: ApplyWrite_def rbind_def split: option.splits sum.splits if_splits)
    qed
  qed
qed

subsection \<open>The model never changes\<close>

lemma defaults_model [simp]: "vs_model_key (all_defaults s) = vs_model_key s"
  by (simp add: all_defaults_def fold_defaults)

lemma applySwitchport_same_model [simp]: "vs_model_key (applySwitchport p s) = vs_model_key s"
  by (simp add: applySwitchport_def Let_def case_prod_beta')

lemma reconcile_model: "reconcile_ports vid incoming ps s = Inr s' \<Longrightarrow> vs_model_key s' = vs_model_key s"
proof (induction ps arbitrary: s)
  case (Cons p ps)
  obtain s2 where "reconcile_port vid incoming p s = Inr s2" "reconcile_ports vid incoming ps s2 = Inr s'"
    using Cons.prems by (cases "reconcile_port vid incoming p s") auto
  moreover have "vs_model_key s2 = vs_model_key s"
    using calculation(1) by (auto simp: reconcile_port_def Let_def rbind_def split: if_splits sum.splits)
  ultimately show ?case using Cons.IH by simp
qed simp

lemma update_port_model [simp]: "vs_model_key (update_port p f s) = vs_model_key s"
  by (simp add: update_port_def split: option.split)

lemma write_egress_model: "write_egress vid v s = Inr s' \<Longrightarrow> vs_model_key s' = vs_model_key s"
  by (auto simp: write_egress_def rejectIfReadonlyQbridge_def accessModePorts_def reconcileQbridgeMembership_def Let_def rbind_def
      dest!: reconcile_model split: option.splits sum.splits if_splits)

lemma write_model:
  "write_admin p v s = Inr s' \<Longrightarrow> vs_model_key s' = vs_model_key s" "vs_model_key (write_alias p v s) = vs_model_key s"
  "vs_model_key (ApplyPoeAdmin p on s) = vs_model_key s" "write_untagged vid v s = Inr s' \<Longrightarrow> vs_model_key s' = vs_model_key s"
  "write_switchport oid v s = Some (Inr s') \<Longrightarrow> vs_model_key s' = vs_model_key s"
  "write_row_status vid v s = Inr s' \<Longrightarrow> vs_model_key s' = vs_model_key s" "write_vlan_name vid v s = Inr s' \<Longrightarrow> vs_model_key s' = vs_model_key s"
  "write_vendor ven oid v s = Inr s' \<Longrightarrow> vs_model_key s' = vs_model_key s"
         apply (auto simp: write_admin_def rbind_def split: if_splits sum.splits)[1]
        apply (simp add: write_alias_def)
       apply (simp add: ApplyPoeAdmin_def Let_def split: option.split)
      apply (auto simp: write_untagged_def rbind_def split: if_splits sum.splits option.splits)[1]
     apply (auto simp: write_switchport_def write_native_def rbind_def split: if_splits sum.splits option.splits)[1]
    apply (auto simp: write_row_status_def rbind_def split: if_splits sum.splits)[1]
   apply (auto simp: write_vlan_name_def rbind_def split: option.splits sum.splits)[1]
  apply (auto simp: write_vendor_def write_collector_def set_mgmt_def set_syslog_def rbind_def split: if_splits sum.splits option.splits)[1]
  done

lemma ApplyWrite_model:
  assumes "ApplyWrite oid v s = Inr s'"
  shows "state_model s' = state_model s"
proof (rule state_model_cong)
  show "vs_model_key s' = vs_model_key s"
    using assms
    by (auto simp: ApplyWrite_def rbind_def write_model write_egress_model split: option.splits sum.splits if_splits)
qed

subsection \<open>Progress and preservation\<close>

definition agent_well :: "switch_model \<Rightarrow> mib_view \<Rightarrow> bool" where
  "agent_well m v \<longleftrightarrow> view_ok v \<and> agent_ok (mv_state v) \<and> state_model (mv_state v) = Inr m"

definition typed_request :: "switch_model \<Rightarrow> snmp_packet \<Rightarrow> bool" where
  "typed_request m req \<longleftrightarrow> sk_kind req = SetRequest \<longrightarrow>
     list_all (\<lambda>p. typed_set m (TrimDots (pd_name p)) (fromWireValue (pd_value p))) (sk_vars req)"

lemma getPDU_total:
  assumes "view_ok v"
  shows "\<exists>p. getPDU v name = Inr p"
proof (cases "oidToInts name")
  case (Some oid)
  obtain b where b: "IsImplemented v oid = Inr b" using IsImplemented_total [OF assms] by blast
  show ?thesis
  proof (cases "view_Get v oid")
    case (Some e)
    then have "e \<in> set (mv_entries v)" by (auto simp: view_Get_def view_search_def Let_def split: if_splits)
    then have "wire_ok e" using assms by (auto simp: view_ok_def list_all_iff)
    from wire_okE [OF this] show ?thesis using Some \<open>oidToInts name = _\<close> b by (auto simp: getPDU_def)
  qed (simp add: getPDU_def Some b)
qed (simp add: getPDU_def)

lemma each_var_total: "(\<And>n. \<exists>p. g n = Inr p) \<Longrightarrow> \<exists>ps. each_var g vars = Inr ps"
proof (induction vars)
  case (Cons p vars)
  obtain q ps where "g (pd_name p) = Inr q" "each_var g vars = Inr ps" using Cons by metis
  then show ?case by simp
qed simp

lemma handleGetBulk_total:
  assumes "view_ok v"
  shows "\<exists>ps. handleGetBulk v req = Inr ps"
proof -
  obtain a where a: "each_var (getNextPDU v) (take (if sk_non_repeaters req > length (sk_vars req) then length (sk_vars req) else sk_non_repeaters req) (sk_vars req)) = Inr a"
    using each_var_total getNextPDU_total [OF assms] by blast
  show ?thesis
    using bulk_rows_total [OF assms, of "sk_max_repetitions req"] unfolding handleGetBulk_def Let_def a rbind_simps
    by (metis rbind_simps(2))
qed

lemma set_vars_well:
  assumes "agent_ok (mv_state v)" "state_model (mv_state v) = Inr m"
    "list_all (\<lambda>p. typed_set m (TrimDots (pd_name p)) (fromWireValue (pd_value p))) vars"
  shows "\<exists>e v'. set_vars i vars v = Inr (e, v') \<and> mv_entries v' = mv_entries v \<and> agent_ok (mv_state v') \<and> state_model (mv_state v') = Inr m"
  using assms
proof (induction vars arbitrary: v i)
  case (Cons p vars)
  define oid where "oid = TrimDots (pd_name p)"
  define val where "val = fromWireValue (pd_value p)"
  obtain b where b: "IsWritableOID (mv_state v) oid = Inr b" using Cons.prems(2) by (simp add: IsWritableOID_def)
  show ?case
  proof (cases "b \<and> (\<exists>s'. ApplyWrite oid val (mv_state v) = Inr s')")
    case True
    then obtain s' where s': "ApplyWrite oid val (mv_state v) = Inr s'" by blast
    have "agent_ok s'" using ApplyWrite_ok [OF Cons.prems(1,2) _ s'] Cons.prems(3) by (simp add: oid_def val_def)
    moreover have "state_model s' = Inr m" using ApplyWrite_model [OF s'] Cons.prems(2) by simp
    ultimately show ?thesis
      using Cons.IH [of "v\<lparr>mv_state := s'\<rparr>" "i + 1"] Cons.prems(3) True b s'
      by (simp add: oid_def val_def TrimDots_def applyUncommitted_def ApplyWriteUncommitted_def Let_def)
  next
    case False
    then have "\<exists>st. set_vars i (p # vars) v = Inr (Some st, v)"
      using b by (cases "ApplyWrite oid val (mv_state v)")
        (auto simp: oid_def val_def TrimDots_def applyUncommitted_def ApplyWriteUncommitted_def Let_def)
    then show ?thesis using Cons.prems(1,2) by auto
  qed
qed simp

lemma NewMibView_well:
  assumes "agent_ok s" "state_model s = Inr m"
  shows "\<exists>v. NewMibView s = Inr v \<and> agent_well m v"
proof -
  have so: "snmp_ok s" using assms(1) by (simp add: agent_ok_def)
  obtain rows where rows: "oid_rows s = Inr (rows, filled m s)" "list_all row_ok rows"
    using oid_rows_served [OF so assms(2)] by (auto simp: beside_def)
  obtain v where v: "NewMibView s = Inr v" "mv_state v = filled m s" "view_ok v"
    using Rebuild_ok [of "\<lparr>mv_state = s, mv_entries = []\<rparr>" rows "filled m s" m] rows assms(2) by (auto simp: NewMibView_def)
  have "agent_ok (filled m s)" using assms(1) filled_ok by (simp add: agent_ok_def)
  then show ?thesis using v assms(2) by (simp add: agent_well_def)
qed

lemma handleSet_well:
  assumes well: "agent_well m v" and t: "list_all (\<lambda>p. typed_set m (TrimDots (pd_name p)) (fromWireValue (pd_value p))) vars"
  shows "\<exists>r v'. handleSet vars v = Inr (r, v') \<and> agent_well m v'"
proof -
  define s0 where "s0 = (mv_state v)\<lparr>vs_pdu_egress := []\<rparr>"
  have s0: "agent_ok s0" "state_model s0 = Inr m"
    using well by (auto simp: s0_def agent_well_def agent_ok_def snmp_ok_updates(10) state_model_def mustModel_def)
  obtain e v1 where r: "set_vars 0 vars (v\<lparr>mv_state := s0\<rparr>) = Inr (e, v1)" "mv_entries v1 = mv_entries v"
      "agent_ok (mv_state v1)" "state_model (mv_state v1) = Inr m"
    using set_vars_well [of "v\<lparr>mv_state := s0\<rparr>" m vars 0] s0 t by auto
  have snap: "SnapshotState v = (s0, v\<lparr>mv_state := s0\<rparr>)" by (simp add: SnapshotState_def Snapshot_State_def s0_def Let_def)
  show ?thesis
  proof (cases e)
    case (Some st)
    then show ?thesis
      using well s0 by (cases st) (auto simp: handleSet_def snap r(1,2) RestoreState_def agent_well_def view_ok_def)
  next
    case None
    obtain v2 where "NewMibView (mv_state v1) = Inr v2" "agent_well m v2" using NewMibView_well r(3,4) by blast
    then show ?thesis using Rebuild_state [of v1] None by (simp add: handleSet_def snap r(1) NewMibView_def)
  qed
qed

lemma snmp_handle_well:
  assumes "agent_well m v" "typed_request m req"
  shows "\<exists>resp v'. snmp_handle req v = Inr (resp, v') \<and> agent_well m v'"
proof -
  have vo: "view_ok v" using assms(1) by (simp add: agent_well_def)
  obtain a where a: "handleGet v (sk_vars req) = Inr a"
    using each_var_total [where g = "getPDU v"] getPDU_total [OF vo] by (metis handleGet_def)
  obtain b where b: "handleGetNext v (sk_vars req) = Inr b"
    using each_var_total [where g = "getNextPDU v"] getNextPDU_total [OF vo] by (metis handleGetNext_def)
  obtain c where c: "handleGetBulk v req = Inr c" using handleGetBulk_total [OF vo] by blast
  show ?thesis
  proof (cases "sk_kind req")
    case SetRequest
    then have "list_all (\<lambda>p. typed_set m (TrimDots (pd_name p)) (fromWireValue (pd_value p))) (sk_vars req)"
      using assms(2) by (simp add: typed_request_def)
    then obtain r v' where s: "handleSet (sk_vars req) v = Inr (r, v')" "agent_well m v'" using handleSet_well [OF assms(1)] by blast
    obtain x y z where "r = (x, y, z)" by (cases r)
    then show ?thesis using SetRequest s by (simp add: snmp_handle_def)
  qed (use a b c assms(1) in \<open>simp_all add: snmp_handle_def\<close>)
qed

text \<open>The loop of \<^verbatim>\<open>serve\<close> over the packets that decode.\<close>

fun serve_packets :: "snmp_packet list \<Rightarrow> snmp_face \<Rightarrow> (snmp_packet option list \<times> snmp_face) set_res" where
  "serve_packets [] f = Inr ([], f)"
| "serve_packets (req # reqs) f =
     rbind (serve_packet req f) (\<lambda>(resp, f1).
     rbind (serve_packets reqs f1) (\<lambda>(resps, f2). Inr (resp # resps, f2)))"

end
