(* ===== verification/Snmp_Stack.thy ===== *)
theory Snmp_Stack
  imports Snmp_Sound Nsdp_Writer
begin

section \<open>The SNMP stack\<close>

text \<open>
  The properties of reader, writer, client and agent together, and a switch they are tried on: a
  GSM7252PS with two ports and two VLANs.
\<close>

subsection \<open>A served switch\<close>

definition demo_vlan :: "string \<Rightarrow> int list \<Rightarrow> int list \<Rightarrow> vlan_sim" where
  "demo_vlan name members untagged =
     \<lparr>vv_name = name, vv_member = map (\<lambda>p. (p, True)) members, vv_untagged = map (\<lambda>p. (p, True)) untagged,
      vv_configured_only = [], vv_no_static_row = False\<rparr>"

definition demo_switch :: vstate where
  "demo_switch = (NewState ''gsm7252ps'')
     \<lparr>vs_ports := [(1, NewPortSim ''1/0/1'' True True 1000), (2, NewPortSim ''1/0/2'' True False 0)],
      vs_vlans := [(1, demo_vlan ''default'' [1, 2] [1, 2]), (10, demo_vlan ''lab'' [1] [])],
      vs_pvids := [(1, 1), (2, 1)]\<rparr>"

lemma demo_model: "state_model demo_switch = Inr model_gsm7252ps" "\<not> isSwitchportModel model_gsm7252ps"
  by (simp_all add: state_model_def mustModel_def demo_switch_def NewState_def GetModel_def modelAliases_def modelIndex_def
      registry_defs isSwitchportModel_def)

lemma demo_address: "key_ok ''0.0.0.0''"
proof -
  have "nums ''0.0.0.0'' [0, 0, 0, 0]" by (simp add: nums_eval)
  then show ?thesis by (rule numsD)
qed

lemma demo_ok: "agent_ok demo_switch"
proof -
  have "snmp_ok demo_switch"
    unfolding snmp_ok_def demo_model
    by (simp add: demo_switch_def NewState_def demo_vlan_def port_served_def vlan_served_def NewPortSim_def
        ports_positive_def counter32_ok_def u32_range_def int64_range_def demo_address)
  then show ?thesis by (simp add: agent_ok_def demo_switch_def)
qed

lemma demo_sel [simp]:
  "vs_ports demo_switch = [(1, NewPortSim ''1/0/1'' True True 1000), (2, NewPortSim ''1/0/2'' True False 0)]"
  "vs_vlans demo_switch = [(1, demo_vlan ''default'' [1, 2] [1, 2]), (10, demo_vlan ''lab'' [1] [])]"
  "vs_pvids demo_switch = [(1, 1), (2, 1)]"
  by (simp_all add: demo_switch_def)

lemma demo_served: "\<exists>f. serving f demo_switch \<and> sf_community f = ''public'' \<and> agent_well model_gsm7252ps (sf_view f)"
proof -
  obtain v where v: "NewMibView demo_switch = Inr v" "agent_well model_gsm7252ps v" using NewMibView_well [OF demo_ok demo_model(1)] by blast
  then have "serving \<lparr>sf_view = v, sf_community = ''public''\<rparr> demo_switch" using demo_ok by (simp add: serving_def agent_ok_def)
  then show ?thesis using v(2) by (intro exI [of _ "\<lparr>sf_view = v, sf_community = ''public''\<rparr>"]) simp
qed

lemma demo_items:
  "sorted_items [(1::int, a), (2, b)] = [(1, a), (2, b)]" "sorted_items [(1::int, c), (10, d)] = [(1, c), (10, d)]"
  by (simp_all add: sorted_items_def sorted_keys_def sort_uniq_def)

lemma demo_vids: "vids_natural demo_switch"
  by (simp add: vids_natural_def)

definition demo_writer :: "snmp_face snmp_writer" where
  "demo_writer =
     \<lparr>sw_client = gosnmp_client (virtual_link ''public''), sw_model = model_gsm7252ps, sw_protected = [1],
      sw_reader = \<lparr>re_client = gosnmp_client (virtual_link ''public''), re_model = model_gsm7252ps\<rparr>,
      sw_clock = (\<lambda>s. (0, s)), sw_sleep = (\<lambda>_. sret (Inr ()))\<rparr>"

lemma demo_writes: "writes_to demo_writer ''public''" "sw_model demo_writer = model_gsm7252ps" "sw_protected demo_writer = [1]"
  by (simp_all add: writes_to_def demo_writer_def)

subsection \<open>Soundness of the agent\<close>

text \<open>
  C5.  Type soundness of the SNMP agent: on a well-formed view, every packet is served without a panic
  and leaves a well-formed view of the same model, provided a SET carries values that fit the
  columns' types at indices the columns have.  So no sequence of GETs, bulk GETs and typed SETs,
  whatever identifiers and communities they carry, brings the agent down.
\<close>

theorem agent_sound:
  assumes "agent_well m (sf_view f)" "list_all (typed_request m) reqs"
  shows "\<exists>resps f'. serve_packets reqs f = Inr (resps, f') \<and> length resps = length reqs \<and> agent_well m (sf_view f')"
  using assms
proof (induction reqs arbitrary: f)
  case (Cons req reqs)
  obtain resp v' where h: "snmp_handle req (sf_view f) = Inr (resp, v')" "agent_well m v'"
    using snmp_handle_well [OF Cons.prems(1), of req] Cons.prems(2) by auto
  have "\<exists>resp' f1. serve_packet req f = Inr (resp', f1) \<and> agent_well m (sf_view f1)"
    using h Cons.prems(1) by (auto simp: serve_packet_def)
  then obtain resp' f1 where f1: "serve_packet req f = Inr (resp', f1)" "agent_well m (sf_view f1)" by blast
  moreover obtain resps f2 where "serve_packets reqs f1 = Inr (resps, f2)" "length resps = length reqs" "agent_well m (sf_view f2)"
    using Cons.IH [OF f1(2)] Cons.prems(2) by auto
  ultimately show ?case by simp
qed simp

text \<open>A GET of an identifier the tree does not have, and a SET of the host name.\<close>

definition demo_requests :: "snmp_packet list" where
  "demo_requests =
     [link_packet ''public'' GetRequest 0 [no_value ''.1.2.3'' asn_null],
      link_packet ''public'' SetRequest 0 [\<lparr>pd_name = ''.1.3.6.1.2.1.1.5.0'', pd_type = A_OctetString, pd_value = W_Bytes [0x61]\<rparr>]]"

lemma demo_typed: "typed_request model_gsm7252ps (demo_requests ! 0)" "typed_request model_gsm7252ps (demo_requests ! 1)"
proof -
  show "typed_request model_gsm7252ps (demo_requests ! 0)" by (simp add: demo_requests_def typed_request_def link_packet_def)
  have oid: "TrimDots ''.1.3.6.1.2.1.1.5.0'' = SysName" by (simp add: TrimDots_def SysName_def)
  have "columnTail col SysName = None" if "col \<in> set writable_columns" for col
    using that unfolding writable_columns_def set_simps insert_iff empty_iff
    by (elim disjE) (simp_all add: columnTail_def strip_prefix_def SysName_def column_defs)
  then have "typed_set model_gsm7252ps SysName (VBytes [0x61])"
    by (auto simp: typed_set_def small_value_def list_all_iff model_gsm7252ps_def resolveVendorOids_def HasVendorOids_def GetVendorOids_def
        vendorOidsFor_def vendorBaseFullyManaged_def SysName_def)
  then show "typed_request model_gsm7252ps (demo_requests ! 1)"
    by (simp add: demo_requests_def typed_request_def link_packet_def oid)
qed

theorem agent_sound_witness:
  "\<exists>f resps f'. serving f demo_switch \<and> serve_packets demo_requests f = Inr (resps, f') \<and> length resps = 2
     \<and> agent_well model_gsm7252ps (sf_view f')"
proof -
  obtain f where f: "serving f demo_switch" "agent_well model_gsm7252ps (sf_view f)" using demo_served by blast
  have "list_all (typed_request model_gsm7252ps) demo_requests"
    using demo_typed by (simp add: demo_requests_def)
  from agent_sound [OF f(2) this] show ?thesis using f(1) by (auto simp: demo_requests_def)
qed

subsection \<open>Walks\<close>

lemma serving_served: "serving f s \<Longrightarrow> oid_of base \<in> roots \<Longrightarrow> served f (oid_of base)"
proof -
  assume f: "serving f s" and root: "oid_of base \<in> roots"
  obtain m where m: "state_model s = Inr m" using serving_model [OF f] by blast
  have view: "mv_state (sf_view f) = filled m s" "view_ok (sf_view f)" using serving_view [OF f m] by auto
  have m': "state_model (mv_state (sf_view f)) = Inr m" using view(1) m by simp
  obtain x r where r: "oid_of base = [1, 3, 6, 1, 2, 1, x] @ r" "x \<noteq> 105" and o: "oid_ints (oid_of base)" using roots_ints [OF root] by blast
  show ?thesis
    unfolding served_def
    using view(2) o standard_implemented [OF m' r] standard_implemented [OF m' _ r(2)] r(1)
    by (auto simp: list_all_iff subtree_def below_iff)
qed

text \<open>
  C6.  A walk returns its subtree, and ends: against the virtual switch the client's loop of bulk
  GETs stops, and its rows are the entries below the root, each once and in the order of their
  identifiers, however many answers that takes, with neither the entries beyond the subtree that
  the last answer carries nor the end-of-view markers.
\<close>

theorem Walk_returns_subtree:
  assumes "served f root" "sf_community f = community"
  shows "Walk (virtual_link community) (intsToOID root) f =
     Some (Inr (map entry_row (filter (\<lambda>e. below root (vw_oid e)) (mv_entries (sf_view f)))), f)"
  using Walk_rows [OF assms] by (simp add: subtree_def)

theorem Walk_returns_subtree_witness:
  "\<exists>f. serving f demo_switch \<and> Walk (virtual_link ''public'') Dot1qPvid f =
     Some (Inr [intRow (colKey Dot1qPvid 1) 1 ''Gauge32'', intRow (colKey Dot1qPvid 2) 1 ''Gauge32''], f)"
proof -
  obtain f where f: "serving f demo_switch" "sf_community f = ''public''" using demo_served by blast
  have root: "oid_of Dot1qPvid \<in> roots" "key_ok Dot1qPvid" by (simp_all add: roots_def pvid_roots_def column_keys)
  have rows: "filter (\<lambda>e. below (oid_of Dot1qPvid) (vw_oid e)) (mv_entries (sf_view f)) =
      [view_row (colKey Dot1qPvid 1, entry ''Gauge32'' (show_int 1)), view_row (colKey Dot1qPvid 2, entry ''Gauge32'' (show_int 1))]"
    using serving_pvids [OF f(1) demo_model(1)] demo_items(1) [of "1::int" "1::int"] by (simp add: subtree_def column_rows_def)
  have keys: "key_ok (colKey Dot1qPvid 1)" "key_ok (colKey Dot1qPvid 2)" "u32_range 1"
    using key_ok_colKey [OF root(2)] by (simp_all add: int64_range_def u32_range_def)
  have "intsToOID (oid_of Dot1qPvid) = Dot1qPvid" using root(2) by (simp add: key_ok_def)
  then show ?thesis
    using Walk_returns_subtree [OF serving_served [OF f(1) root(1)] f(2)] f(1) unfolding rows
    by (auto simp: entry_row_int(2) [OF keys(1,3)] entry_row_int(2) [OF keys(2,3)])
qed

subsection \<open>Reads\<close>

text \<open>
  C7.  The SNMP reads report the switch: against a state the agent serves, GetPorts, GetVLANs and
  GetPVIDs return exactly its physical ports with their link, speed, duplex, flow control and texts,
  its VLANs with their static membership (the current one where there is no static row), and its
  PVIDs, and they leave the switch as it was.
\<close>

theorem SNMP_reads_report:
  assumes "serving f s" "vids_natural s" "re_client r = gosnmp_client (virtual_link (sf_community f))"
  shows "Snmp_Reader.GetPorts r f = (Inr (map snmp_port_view (filter (is_physical s \<circ> fst) (sorted_items (vs_ports s)))), f)
     \<and> Snmp_Reader.GetVLANs r f = (Inr (map (snmp_vlan_view s) (sorted_items (vs_vlans s))), f)
     \<and> Snmp_Reader.GetPVIDs r f =
         (Inr (map (\<lambda>(p, v). \<lparr>pv_port = p, pv_vlan = v\<rparr>) (filter (is_physical s \<circ> fst) (sorted_items (vs_pvids s)))), f)"
  using snmp_GetPorts_reported [OF assms(1) refl assms(3)] snmp_GetVLANs_reported [OF assms(1) refl assms(3,2)] snmp_GetPVIDs_reported [OF assms(1) refl assms(3)]
  by blast

theorem SNMP_reads_report_witness:
  "\<exists>f vlans. Snmp_Reader.GetVLANs (sw_reader demo_writer) f = (Inr vlans, f)
     \<and> map vi_vlan_id vlans = [1, 10] \<and> map vi_tagged vlans = [[], [1]] \<and> map vi_untagged vlans = [[1, 2], []]
     \<and> Snmp_Reader.GetPVIDs (sw_reader demo_writer) f = (Inr [\<lparr>pv_port = 1, pv_vlan = 1\<rparr>, \<lparr>pv_port = 2, pv_vlan = 1\<rparr>], f)"
proof -
  obtain f where f: "serving f demo_switch" "sf_community f = ''public''" using demo_served by blast
  have r: "re_client (sw_reader demo_writer) = gosnmp_client (virtual_link (sf_community f))" by (simp add: demo_writer_def f(2))
  show ?thesis
    using SNMP_reads_report [OF f(1) demo_vids r]
    by (intro exI [of _ f] exI [of _ "map (snmp_vlan_view demo_switch) (sorted_items (vs_vlans demo_switch))"])
      (simp add: demo_items snmp_vlan_view_def is_physical_def demo_vlan_def NewPortSim_def Configured_def sliceFromPortSet_def sorted_keys_def
        sort_uniq_def intSliceDiff_def in_set_def)
qed

subsection \<open>Writes\<close>

text \<open>
  C8.  SetPVID over SNMP succeeds: for a permitted port that is a physical one and a VLAN that
  exists, the writer, the client and the agent return success, and the agent then serves the state
  with exactly that PVID changed.
\<close>

theorem SNMP_SetPVID_succeeds:
  assumes "serving f s" "sf_community f = community" "writes_to w community" "vids_natural s"
    and "port \<notin> set (sw_protected w) \<or> force"
    and "vlan_has s vlan" "u32_range vlan" "index_ok port" "is_physical s port"
  shows "\<exists>f' m. Snmp_Writer.SetPVID w port vlan force f = (Inr (), f') \<and> sf_community f' = community
    \<and> state_model s = Inr m \<and> serving f' ((pdu_state m s)\<lparr>vs_pvids := AList.update port vlan (vs_pvids s)\<rparr>)"
  by (rule SetPVID_system [OF assms])

theorem SNMP_SetPVID_succeeds_witness:
  "\<exists>f f'. serving f demo_switch \<and> Snmp_Writer.SetPVID demo_writer 2 10 False f = (Inr (), f')
     \<and> serving f' ((pdu_state model_gsm7252ps demo_switch)\<lparr>vs_pvids := [(1, 1), (2, 10)]\<rparr>)"
proof -
  obtain f where f: "serving f demo_switch" "sf_community f = ''public''" using demo_served by blast
  have "(2::int) \<notin> set (sw_protected demo_writer) \<or> False" "vlan_has demo_switch 10" "u32_range 10" "index_ok 2" "is_physical demo_switch 2"
    by (simp_all add: demo_writes vlan_has_def u32_range_def index_ok_def is_physical_def NewPortSim_def)
  from SNMP_SetPVID_succeeds [OF f demo_writes(1) demo_vids this] show ?thesis
    using f(1) demo_model(1) by auto
qed

text \<open>
  C4.  SetVlanMembership over SNMP succeeds on a Q-BRIDGE switch: for a permitted port and a VLAN
  with a static row, the write of the two port lists, in one PDU or in two, verifies, and the agent
  then serves a state in which that port has the mode asked for in that VLAN, every other port is
  configured there as before, and nothing but the VLAN changed.
\<close>

theorem SNMP_SetVlanMembership_succeeds:
  assumes "serving f s" "sf_community f = community" "writes_to w community" "vids_natural s"
    and "state_model s = Inr (sw_model w)" "\<not> isSwitchportModel (sw_model w)"
    and "port \<notin> set (sw_protected w) \<or> force"
    and "map_of (vs_vlans s) vid = Some v" "\<not> vv_no_static_row v" "port \<notin> fst ` set (vv_configured_only v)"
    and "1 \<le> port" "port \<le> int (8 * max 8 (VlanBitmapWidth (sm_port_count (sw_model w))))"
  shows "\<exists>f' e u. Snmp_Writer.SetVlanMembership w vid port mode force f = (Inr (), f') \<and> sf_community f' = community
    \<and> serving f' (with_lists vid v e u s)
    \<and> (\<forall>q. q \<in> set (DecodePortBitmap e) \<longleftrightarrow> (if q = port then mode \<noteq> VlanExcluded else in_set (Configured v) q))
    \<and> (\<forall>q. q \<in> set (DecodePortBitmap u) \<longleftrightarrow> (if q = port then mode = VlanUntagged else in_set (vv_untagged v) q))"
  by (rule SetVlanMembership_system [OF assms])

theorem SNMP_SetVlanMembership_succeeds_witness:
  "\<exists>f f' e u. serving f demo_switch \<and> Snmp_Writer.SetVlanMembership demo_writer 10 2 VlanTagged False f = (Inr (), f')
     \<and> serving f' (with_lists 10 (demo_vlan ''lab'' [1] []) e u demo_switch) \<and> 2 \<in> set (DecodePortBitmap e)"
proof -
  obtain f where f: "serving f demo_switch" "sf_community f = ''public''" using demo_served by blast
  have m: "state_model demo_switch = Inr (sw_model demo_writer)" "\<not> isSwitchportModel (sw_model demo_writer)"
    using demo_model by (simp_all add: demo_writes)
  have h: "(2::int) \<notin> set (sw_protected demo_writer) \<or> False" "map_of (vs_vlans demo_switch) 10 = Some (demo_vlan ''lab'' [1] [])"
    "\<not> vv_no_static_row (demo_vlan ''lab'' [1] [])" "2 \<notin> fst ` set (vv_configured_only (demo_vlan ''lab'' [1] []))" "(1::int) \<le> 2"
    "(2::int) \<le> int (8 * max 8 (VlanBitmapWidth (sm_port_count (sw_model demo_writer))))"
    by (simp_all add: demo_writes demo_vlan_def max_def)
  obtain f' e u where x: "Snmp_Writer.SetVlanMembership demo_writer 10 2 VlanTagged False f = (Inr (), f')"
      "serving f' (with_lists 10 (demo_vlan ''lab'' [1] []) e u demo_switch)"
      "\<forall>q. q \<in> set (DecodePortBitmap e) \<longleftrightarrow> (if q = 2 then VlanTagged \<noteq> VlanExcluded else in_set (Configured (demo_vlan ''lab'' [1] [])) q)"
    using SNMP_SetVlanMembership_succeeds [OF f demo_writes(1) demo_vids m h, of VlanTagged] by blast
  then have "2 \<in> set (DecodePortBitmap e)" by simp
  then show ?thesis using x(1,2) f(1) by blast
qed

subsection \<open>A SET is all or nothing\<close>

definition set_writes :: "pdu list \<Rightarrow> (string \<times> snmp_value) list" where
  "set_writes vars = map (\<lambda>p. (TrimDots (pd_name p), fromWireValue (pd_value p))) vars"

lemma set_writes_Nil [simp]: "set_writes [] = []"
  by (simp add: set_writes_def)

lemma panic_status_error: "panic_status p \<noteq> Status_NoError"
  by (cases p) simp_all

lemma set_vars_result:
  assumes "set_vars i vars v = Inr (err, v')"
  shows "mv_entries v' = mv_entries v \<and> (case err of
       None \<Rightarrow> apply_all (set_writes vars) (mv_state v) = Inr (mv_state v')
     | Some (st, j) \<Rightarrow> st \<noteq> Status_NoError \<and> (\<exists>k < length vars. j = (i + k + 1) mod 256
         \<and> apply_all (set_writes (take k vars)) (mv_state v) = Inr (mv_state v')
         \<and> (\<exists>e. apply_all (set_writes (take (Suc k) vars)) (mv_state v) = Inl e \<and> panic_status e = st)))"
  using assms
proof (induction vars arbitrary: i v)
  case (Cons p vars)
  define oid where "oid = TrimDots (pd_name p)"
  define val where "val = fromWireValue (pd_value p)"
  have ws: "set_writes (p # xs) = (oid, val) # set_writes xs" for xs by (simp add: set_writes_def oid_def val_def)
  have drop: "dropWhile (\<lambda>c. c = CHR ''.'') (pd_name p) = oid" by (simp add: oid_def TrimDots_def)
  obtain b where b: "IsWritableOID (mv_state v) oid = Inr b"
    using Cons.prems by (cases "IsWritableOID (mv_state v) oid") (auto simp: drop Let_def)
  have first: "\<exists>k < length (p # vars). (i + 1) mod 256 = (i + k + 1) mod 256
      \<and> apply_all (set_writes (take k (p # vars))) (mv_state v) = Inr (mv_state v)
      \<and> (\<exists>e. apply_all (set_writes (take (Suc k) (p # vars))) (mv_state v) = Inl e \<and> panic_status e = st)"
    if "\<exists>e. apply_all [(oid, val)] (mv_state v) = Inl e \<and> panic_status e = st" for st
    using that by (intro exI [of _ 0]) (simp add: ws del: apply_all.simps(2))
  show ?case
  proof (cases b)
    case False
    then have "err = Some (Status_NotWritable, (i + 1) mod 256)" "v' = v" using Cons.prems b by (simp_all add: drop Let_def)
    then show ?thesis using first [of Status_NotWritable] b False by simp
  next
    case True
    show ?thesis
    proof (cases "ApplyWrite oid val (mv_state v)")
      case (Inl e)
      then have "err = Some (panic_status e, (i + 1) mod 256)" "v' = v"
        using Cons.prems b True by (simp_all add: drop Let_def applyUncommitted_def ApplyWriteUncommitted_def val_def)
      then show ?thesis using first [of "panic_status e"] b True Inl panic_status_error by simp
    next
      case (Inr s1)
      have app: "apply_all ((oid, val) # xs) (mv_state v) = apply_all xs s1" for xs using b True Inr by simp
      have rest: "set_vars (i + 1) vars (v\<lparr>mv_state := s1\<rparr>) = Inr (err, v')"
        using Cons.prems b True Inr by (simp add: drop Let_def applyUncommitted_def ApplyWriteUncommitted_def val_def)
      show ?thesis
      proof (cases err)
        case None
        then show ?thesis using Cons.IH [OF rest] by (auto simp: ws app simp del: apply_all.simps(2))
      next
        case (Some q)
        obtain st j where q: "q = (st, j)" by force
        obtain k where k: "st \<noteq> Status_NoError" "k < length vars" "j = (i + 1 + k + 1) mod 256" "mv_entries v' = mv_entries v"
            "apply_all (set_writes (take k vars)) s1 = Inr (mv_state v')" "\<exists>e. apply_all (set_writes (take (Suc k) vars)) s1 = Inl e \<and> panic_status e = st"
          using Cons.IH [OF rest] unfolding Some q by auto
        then show ?thesis unfolding Some q
          by (simp only: option.case prod.case) (intro conjI exI [of _ "Suc k"], simp_all add: ws app del: apply_all.simps(2))
      qed
    qed
  qed
qed (auto simp: set_writes_def)

text \<open>
  C26.  A SET of several varbinds is all or nothing: when the agent answers an error, its status and
  index are those of the first varbind that the state does not accept after the ones before it (the
  index in a byte), and state and view are those from before the SET but for the cleared record of
  egress writes; when it answers no error every varbind was applied, in order, and the view was
  rebuilt from the result.
\<close>

theorem SET_all_or_nothing:
  assumes "handleSet vars v = Inr ((vars', st, i), v')"
  shows "vars' = vars \<and>
     (if st = Status_NoError
      then i = 0 \<and> (\<exists>s. apply_all (set_writes vars) ((mv_state v)\<lparr>vs_pdu_egress := []\<rparr>) = Inr s \<and> NewMibView s = Inr v')
      else v' = v\<lparr>mv_state := (mv_state v)\<lparr>vs_pdu_egress := []\<rparr>\<rparr> \<and> (\<exists>k < length vars. i = (k + 1) mod 256
         \<and> (\<exists>s. apply_all (set_writes (take k vars)) ((mv_state v)\<lparr>vs_pdu_egress := []\<rparr>) = Inr s)
         \<and> (\<exists>e. apply_all (set_writes (take (Suc k) vars)) ((mv_state v)\<lparr>vs_pdu_egress := []\<rparr>) = Inl e \<and> panic_status e = st)))"
proof -
  define v0 where "v0 = v\<lparr>mv_state := (mv_state v)\<lparr>vs_pdu_egress := []\<rparr>\<rparr>"
  have snap: "SnapshotState v = (mv_state v0, v0)" by (simp add: SnapshotState_def Snapshot_State_def v0_def Let_def)
  obtain err v1 where r: "set_vars 0 vars v0 = Inr (err, v1)" using assms by (auto simp: handleSet_def snap rbind_def split: sum.splits)
  note res = set_vars_result [OF r]
  show ?thesis
  proof (cases err)
    case None
    then obtain v2 where "Rebuild v1 = Inr v2" "vars' = vars" "st = Status_NoError" "i = 0" "v' = v2"
      using assms r by (auto simp: handleSet_def snap rbind_def split: sum.splits)
    then show ?thesis using res None Rebuild_state [of v1] by (auto simp: v0_def NewMibView_def)
  next
    case (Some q)
    obtain st' j where q: "q = (st', j)" by force
    have "vars' = vars" "st = st'" "i = j" "v' = RestoreState (mv_state v0) v1"
      using assms r by (simp_all add: handleSet_def snap Some q)
    moreover have "RestoreState (mv_state v0) v1 = v0" using res by (simp add: RestoreState_def v0_def)
    ultimately show ?thesis using res by (auto simp: Some q v0_def)
  qed
qed

lemma unknown_oid: "IsWritableOID demo_switch ''1.2.3'' = Inr False"
proof -
  have "columnTail col ''1.2.3'' = None" if "col \<in> set ([FastpathSwitchportTaggedVlans, FastpathSwitchportUntaggedVlans] @ writable_columns)" for col
    using that unfolding writable_columns_def append.simps set_simps insert_iff empty_iff
    by (elim disjE) (simp_all add: columnTail_def strip_prefix_def column_defs)
  moreover have "isPoeAdminColumn ''1.2.3'' = None" by (simp add: isPoeAdminColumn_def strip_prefix_def column_defs)
  ultimately show ?thesis
    unfolding IsWritableOID_def demo_model(1)
    by (simp add: writable_columns_def demo_model(2) SysName_def resolveVendorOids_def HasVendorOids_def GetVendorOids_def model_gsm7252ps_def
        vendorOidsFor_def vendorBaseFullyManaged_def columnTail_def strip_prefix_def)
qed

theorem SET_all_or_nothing_witness:
  "\<exists>v' k. handleSet [\<lparr>pd_name = ''.1.2.3'', pd_type = A_Integer, pd_value = W_Int 1\<rparr>] \<lparr>mv_state = demo_switch, mv_entries = []\<rparr>
     = Inr (([\<lparr>pd_name = ''.1.2.3'', pd_type = A_Integer, pd_value = W_Int 1\<rparr>], Status_NotWritable, Suc k), v')
     \<and> mv_state v' = demo_switch \<and> k = 0"
proof -
  have same: "demo_switch\<lparr>vs_pdu_egress := []\<rparr> = demo_switch" by (simp add: demo_switch_def NewState_def)
  define vars where "vars = [\<lparr>pd_name = ''.1.2.3'', pd_type = A_Integer, pd_value = W_Int 1\<rparr>]"
  define v where "v = \<lparr>mv_state = demo_switch, mv_entries = []\<rparr>"
  have "\<exists>v'. handleSet vars v = Inr ((vars, Status_NotWritable, Suc 0), v')"
    by (simp add: handleSet_def SnapshotState_def Snapshot_State_def same unknown_oid Let_def vars_def v_def)
  then obtain v' where h: "handleSet vars v = Inr ((vars, Status_NotWritable, Suc 0), v')" by blast
  from SET_all_or_nothing [OF h] show ?thesis
    using h by (auto simp: same v_def vars_def)
qed

subsection \<open>A finding: a PVID below zero\<close>

text \<open>
  The SET is answered without an error; from then on every read that meets the row panics, and
  nothing above \<^verbatim>\<open>serve\<close> recovers: the conversion of the Gauge32 refuses the sign.
\<close>

lemma negative_pvid_accepted:
  assumes "state_model s = Inr m" "index_ok port"
  shows "ApplyWrite (colKey Dot1qPvid port) (VInt (- 1)) s = Inr (s\<lparr>vs_pvids := AList.update port (- 1) (vs_pvids s)\<rparr>)"
    "IsWritableOID s (colKey Dot1qPvid port) = Inr True"
  using ApplyWrite_columns(3) [OF assms] IsWritable_columns [OF assms] by auto

lemma negative_pvid_panics:
  assumes "view_Get v oid = Some (view_row (pvid_row (port, - 1)))" "IsImplemented v oid = Inr True" "oid_ints oid"
  shows "getPDU v (intsToOID oid) = Inl OtherPanic"
proof -
  have "toWireValue ''Gauge32'' (show_int (- 1)) = Inl OtherPanic"
    by (simp add: toWireValue_def unsigned_value_def ParseUint_def show_int_def is_digit_def)
  then show ?thesis
    using assms by (simp add: getPDU_def oidToInts_intsToOID view_row_def pvid_row_def entry_def)
qed

subsection \<open>The two backends change a membership alike\<close>

text \<open>
  C27.  A membership change means the same over NSDP and over SNMP: for port lists that hold a VLAN's
  members and its untagged members, the two lists SNMP writes decode to the members, and to the
  members without the tagged ones, of the two lists NSDP writes, in the same order.
\<close>

theorem membership_same_on_both:
  assumes port: "1 \<le> port" "port \<le> int (8 * max 8 w)"
    and lists: "DecodePortBitmap egress = vi_members v" "DecodePortBitmap untagged = intSliceDiff (vi_members v) (vi_tagged v)"
  shows "\<exists>e u. MembershipBitmaps egress untagged port mode w = Inr (e, u)
     \<and> DecodePortBitmap e = fst (membersAfter (Some v) port mode)
     \<and> DecodePortBitmap u = intSliceDiff (fst (membersAfter (Some v) port mode)) (snd (membersAfter (Some v) port mode))"
proof -
  have fits: "port \<le> int (8 * max 8 (max k w))" for k using port(2) by (simp add: max_def split: if_splits)
  have decode: "set (DecodePortBitmap b') = {q. if q = port then on else q \<in> set (DecodePortBitmap b)}"
    if bits: "\<forall>n. bm_bit b' n \<longleftrightarrow> (if int n + 1 = port then on else bm_bit b n)" for b' b on
  proof (rule set_eqI)
    fix q show "q \<in> set (DecodePortBitmap b') \<longleftrightarrow> q \<in> {q. if q = port then on else q \<in> set (DecodePortBitmap b)}"
      using spec [OF bits, of "nat (q - 1)"] port(1) by (cases "1 \<le> q") (auto simp: nsdp_bm.decode_mem)
  qed
  obtain e where e: "SetPortBit egress port (mode = VlanUntagged \<or> mode = VlanTagged) w = Inr e"
      "\<forall>n. bm_bit e n \<longleftrightarrow> (if int n + 1 = port then mode = VlanUntagged \<or> mode = VlanTagged else bm_bit egress n)"
    using SetPortBit_ok [OF port(1) fits] by blast
  obtain u where u: "SetPortBit untagged port (mode = VlanUntagged) w = Inr u"
      "\<forall>n. bm_bit u n \<longleftrightarrow> (if int n + 1 = port then mode = VlanUntagged else bm_bit untagged n)"
    using SetPortBit_ok [OF port(1) fits] by blast
  define ms where "ms = fst (membersAfter (Some v) port mode)"
  define ts where "ts = snd (membersAfter (Some v) port mode)"
  have sorted: "sorted (DecodePortBitmap b)" "distinct (DecodePortBitmap b)" for b
    by (simp_all add: bitmapToPorts_def ports_from_sorted)
  have ms: "sorted ms" "distinct ms" "set ms = {q. if q = port then mode \<noteq> VlanExcluded else q \<in> set (vi_members v)}"
      "set ts = {q. if q = port then mode = VlanTagged else q \<in> set (vi_tagged v)}"
    by (auto simp: ms_def ts_def membersAfter_def Let_def)
  have md: "mode = VlanUntagged \<or> mode = VlanTagged \<longleftrightarrow> mode \<noteq> VlanExcluded" by (cases mode) simp_all
  have "DecodePortBitmap e = ms"
    by (rule sorted_distinct_set_unique [OF sorted ms(1,2)]) (use decode [OF e(2)] ms(3) lists(1) md in auto)
  moreover have "DecodePortBitmap u = intSliceDiff ms ts"
  proof (rule sorted_distinct_set_unique [OF sorted])
    show "sorted (intSliceDiff ms ts)" "distinct (intSliceDiff ms ts)" using ms(1,2) by (simp_all add: intSliceDiff_def sorted_wrt_filter)
    show "set (DecodePortBitmap u) = set (intSliceDiff ms ts)"
      using decode [OF u(2)] lists(2) ms(3,4) by (cases mode) (auto simp: intSliceDiff_def)
  qed
  ultimately show ?thesis using e(1) u(1) unfolding ms_def ts_def by (simp add: MembershipBitmaps_def Let_def)
qed

theorem membership_same_on_both_witness:
  "\<exists>e u. MembershipBitmaps [0xC0, 0, 0, 0, 0, 0, 0, 0] [0x80, 0, 0, 0, 0, 0, 0, 0] 3 VlanUntagged 8 = Inr (e, u)
     \<and> DecodePortBitmap e = [1, 2, 3] \<and> DecodePortBitmap u = [1, 3]"
proof -
  define v where "v = \<lparr>vi_vlan_id = 10, vi_name = None, vi_members = [1, 2], vi_tagged = [2], vi_untagged = [1]\<rparr>"
  have "DecodePortBitmap [0xC0, 0, 0, 0, 0, 0, 0, 0] = vi_members v"
    "DecodePortBitmap [0x80, 0, 0, 0, 0, 0, 0, 0] = intSliceDiff (vi_members v) (vi_tagged v)"
    by (simp_all add: v_def bitmapToPorts_def byte_ports_def msb_mask_def intSliceDiff_def)
  moreover have "membersAfter (Some v) 3 VlanUntagged = ([1, 2, 3], [2])"
    by (simp add: membersAfter_def v_def sort_uniq_def)
  ultimately show ?thesis using membership_same_on_both [of 3 8 _ v _ VlanUntagged] by (simp add: intSliceDiff_def)
qed

subsection \<open>Counters\<close>

text \<open>The varbinds of a 64-bit counter column, one for each port.\<close>

definition counter_pdus :: "string \<Rightarrow> (int \<times> u64) list \<Rightarrow> pdu list" where
  "counter_pdus base cs = map (\<lambda>(p, n). \<lparr>pd_name = ''.'' @ colKey base p, pd_type = A_Counter64, pd_value = W_Int (uint n)\<rparr>) cs"

lemma word_wrap64: "(word_of_int (wrap64 (uint n)) :: u64) = n"
proof -
  have "wrap64 (uint n) mod 2 ^ 64 = uint n mod 2 ^ 64" by (simp add: wrap64_def mod_diff_left_eq)
  then have "(word_of_int (wrap64 (uint n)) :: u64) = word_of_int (uint n)"
    by (subst word_of_int_eq_iff) (simp add: take_bit_eq_mod)
  then show ?thesis by simp
qed

text \<open>
  No 64-bit counter is lost in the signed rows: a column of Counter64 varbinds, each value
  anywhere from 0 to 2^64 - 1, goes through an int64 in the row and comes back as the counter it was.
\<close>

theorem counter_column_exact:
  assumes "key_ok base" "distinct (map fst cs)" "list_all (\<lambda>(p, n). int64_range p) cs"
  shows "\<exists>rows m. get_rows (counter_pdus base cs) = Inr rows \<and> IndexIntColumn rows base = Inr m
     \<and> list_all (\<lambda>(p, v). int64_range v) m \<and> (\<forall>p. uint64PtrIfPresent m p = map_of cs p)"
proof -
  define rows where "rows = map (\<lambda>(p, n). intRow (colKey base p) (wrap64 (uint n)) ''Counter64'') cs"
  define m where "m = map (\<lambda>(p, n). (p, wrap64 (uint n))) cs"
  have name: "TrimDots (''.'' @ colKey base p) = colKey base p" if "int64_range p" for p
  proof -
    have "key_ok (colKey base p)" by (rule key_ok_colKey [OF assms(1) that])
    then have k: "oid_of (colKey base p) \<noteq> []" "intsToOID (oid_of (colKey base p)) = colKey base p" by (auto simp: key_ok_def oid_ints_def)
    then show ?thesis using intsToOID_no_dot_prefix(1) [OF k(1)] by simp
  qed
  have "get_rows (counter_pdus base cs) = Inr rows"
    using assms(3) unfolding rows_def
    by (induction cs) (auto simp: counter_pdus_def normalizeVarbind_def Let_def int_row_def name [simplified] AbsentTypes_def intRow_def)
  moreover have col: "int_column base out rows = Inr (fold (\<lambda>(k, v). AList.update k v) m out)" for out
    using assms(3) unfolding rows_def m_def by (induction cs arbitrary: out) (auto simp: show_int_no_dot Atoi_show_int)
  have "IndexIntColumn rows base = Inr m"
  proof -
    have "map fst m = map fst cs" by (simp add: m_def case_prod_beta')
    then show ?thesis using col assms(2) by (simp add: IndexIntColumn_def fold_update_distinct)
  qed
  moreover have "list_all (\<lambda>(p, v). int64_range v) m"
    by (auto simp: m_def list_all_iff wrap64_def int64_range_def pos_mod_sign pos_mod_bound)
  moreover have "uint64PtrIfPresent m p = map_of cs p" for p
    unfolding uint64PtrIfPresent_def m_def by (induction cs) (auto simp: word_wrap64)
  ultimately show ?thesis by blast
qed

theorem counter_column_exact_witness:
  "\<exists>rows m. get_rows (counter_pdus IfHCInOctets [(1, 0xFFFFFFFFFFFFFFFF), (2, 5)]) = Inr rows \<and> IndexIntColumn rows IfHCInOctets = Inr m
     \<and> uint64PtrIfPresent m 1 = Some 0xFFFFFFFFFFFFFFFF \<and> uint64PtrIfPresent m 2 = Some 5 \<and> uint64PtrIfPresent m 3 = None"
proof -
  have "distinct (map fst [(1::int, 0xFFFFFFFFFFFFFFFF::u64), (2, 5)])" "list_all (\<lambda>(p, n::u64). int64_range p) [(1, 0xFFFFFFFFFFFFFFFF), (2, 5)]"
    by (simp_all add: int64_range_def)
  from counter_column_exact [OF column_keys(7) this] show ?thesis by auto
qed

end
