(* ===== verification/Go_Regexp.thy ===== *)
theory Go_Regexp
  imports Cli_Text "HOL-Library.Sublist"
begin

section \<open>Regular expressions of package regexp\<close>

text \<open>
  The packages of the command-line backend are built from regular expressions.  They are kept as
  data, in the shape the source writes them, and matched by backtracking in the order of preference
  that package regexp documents (leftmost match, then the choice a backtracking engine makes
  first): \<open>rx_match r p c k\<close> matches \<open>r\<close> at position \<open>p\<close> and calls \<open>k\<close> on what remains; a \<open>None\<close>
  of \<open>k\<close> makes it take the next choice.  A position is the character before it and the text after
  it.  The matcher steps over bytes; the expressions of the source cannot tell that from stepping
  over runes, because every class they repeat contains all the bytes of non-ASCII runes or none.

  The lemmas evaluate the shapes the source uses: a literal, and a class repeated as long as it
  can be before something that cannot start with the class.
\<close>

subsection \<open>Expressions and the matcher\<close>

datatype rx =
    Rx_Empty
  | Rx_Begin
  | Rx_End
  | Rx_Boundary
  | Rx_Set "char \<Rightarrow> bool"
  | Rx_Seq rx rx
  | Rx_Alt rx rx
  | Rx_Star bool rx
  | Rx_Group nat rx

type_synonym rx_pos = "char option \<times> string"
type_synonym captures = "(nat \<times> string) list"
type_synonym rx_cont = "rx_pos \<Rightarrow> captures \<Rightarrow> captures option"

definition or_else :: "'a option \<Rightarrow> 'a option \<Rightarrow> 'a option" where
  "or_else x y = (case x of Some v \<Rightarrow> Some v | None \<Rightarrow> y)"

declare or_else_def [code_unfold]

lemma or_else_simps [simp]: "or_else None y = y" "or_else (Some v) y = Some v" "or_else x None = x"
  by (simp_all add: or_else_def split: option.split)

text \<open>Repetition: as often as possible first, or as rarely; a round consumes something.\<close>

fun rx_repeat :: "nat \<Rightarrow> bool \<Rightarrow> (rx_pos \<Rightarrow> captures \<Rightarrow> rx_cont \<Rightarrow> captures option) \<Rightarrow> rx_pos \<Rightarrow> captures \<Rightarrow> rx_cont \<Rightarrow> captures option" where
  "rx_repeat 0 greedy m p c k = k p c"
| "rx_repeat (Suc n) greedy m p c k =
     (if greedy
      then or_else (m p c (\<lambda>p' c'. if length (snd p') < length (snd p) then rx_repeat n greedy m p' c' k else None)) (k p c)
      else or_else (k p c) (m p c (\<lambda>p' c'. if length (snd p') < length (snd p) then rx_repeat n greedy m p' c' k else None)))"

definition is_word :: "char \<Rightarrow> bool" where
  "is_word ch \<longleftrightarrow> is_digit ch \<or> ch = CHR ''_'' \<or>
     (let n = of_char ch :: nat in (97 \<le> n \<and> n \<le> 122) \<or> (65 \<le> n \<and> n \<le> 90))"

definition at_word :: "char option \<Rightarrow> bool" where
  "at_word c = (case c of None \<Rightarrow> False | Some ch \<Rightarrow> is_word ch)"

definition next_char :: "string \<Rightarrow> char option" where
  "next_char s = (case s of [] \<Rightarrow> None | ch # _ \<Rightarrow> Some ch)"

primrec rx_match :: "rx \<Rightarrow> rx_pos \<Rightarrow> captures \<Rightarrow> rx_cont \<Rightarrow> captures option" where
  "rx_match Rx_Empty p c k = k p c"
| "rx_match Rx_Begin p c k = (if fst p = None then k p c else None)"
| "rx_match Rx_End p c k = (if snd p = [] then k p c else None)"
| "rx_match Rx_Boundary p c k = (if at_word (fst p) \<noteq> at_word (next_char (snd p)) then k p c else None)"
| "rx_match (Rx_Set P) p c k =
     (case snd p of [] \<Rightarrow> None | ch # rest \<Rightarrow> if P ch then k (Some ch, rest) c else None)"
| "rx_match (Rx_Seq a b) p c k = rx_match a p c (\<lambda>p' c'. rx_match b p' c' k)"
| "rx_match (Rx_Alt a b) p c k = or_else (rx_match a p c k) (rx_match b p c k)"
| "rx_match (Rx_Star greedy r) p c k = rx_repeat (length (snd p)) greedy (rx_match r) p c k"
| "rx_match (Rx_Group n r) p c k =
     rx_match r p c (\<lambda>p' c'. k p' ((n, take (length (snd p) - length (snd p')) (snd p)) # c'))"

fun rx_search :: "rx \<Rightarrow> char option \<Rightarrow> string \<Rightarrow> captures option" where
  "rx_search r prev s =
     or_else (rx_match r (prev, s) [] (\<lambda>p c. Some c))
       (case s of [] \<Rightarrow> None | ch # rest \<Rightarrow> rx_search r (Some ch) rest)"

declare rx_search.simps [simp del]

definition FindStringSubmatch :: "rx \<Rightarrow> string \<Rightarrow> captures option" where
  "FindStringSubmatch r s = rx_search r None s"

definition MatchString :: "rx \<Rightarrow> string \<Rightarrow> bool" where
  "MatchString r s \<longleftrightarrow> FindStringSubmatch r s \<noteq> None"

text \<open>The text of group \<open>n\<close>; the empty text when the group took no part in the match.\<close>

definition submatch :: "captures \<Rightarrow> nat \<Rightarrow> string" where
  "submatch m n = (case map_of m n of None \<Rightarrow> [] | Some t \<Rightarrow> t)"

text \<open>\<^verbatim>\<open>if m := re.FindStringSubmatch(s); m != nil { ... }\<close>, and what follows it.\<close>

definition on_match :: "rx \<Rightarrow> string \<Rightarrow> (captures \<Rightarrow> 'a) \<Rightarrow> 'a \<Rightarrow> 'a" where
  "on_match r s yes no = (case FindStringSubmatch r s of Some m \<Rightarrow> yes m | None \<Rightarrow> no)"

declare on_match_def [code_unfold]

subsection \<open>The notation of the source\<close>

definition rx_plus :: "bool \<Rightarrow> rx \<Rightarrow> rx" where "rx_plus greedy r = Rx_Seq r (Rx_Star greedy r)"
definition rx_opt :: "rx \<Rightarrow> rx" where "rx_opt r = Rx_Alt r Rx_Empty"

primrec rx_cat :: "rx list \<Rightarrow> rx" where
  "rx_cat [] = Rx_Empty"
| "rx_cat (r # rs) = Rx_Seq r (rx_cat rs)"

definition rx_lit :: "string \<Rightarrow> rx" where "rx_lit l = rx_cat (map (\<lambda>ch. Rx_Set (\<lambda>x. x = ch)) l)"

primrec rx_alts :: "string \<Rightarrow> string list \<Rightarrow> rx" where
  "rx_alts l [] = rx_lit l"
| "rx_alts l (m # ms) = Rx_Alt (rx_lit l) (rx_alts m ms)"

definition rx_whole :: "rx list \<Rightarrow> rx" where "rx_whole rs = Rx_Seq Rx_Begin (rx_cat (rs @ [Rx_End]))"

text \<open>The classes: \<open>\d\<close>, \<open>\s\<close>, \<open>\S\<close>, \<open>\w\<close> and the dot.\<close>

definition is_space :: "char \<Rightarrow> bool" where
  "is_space ch \<longleftrightarrow> ch = CHR '' '' \<or> ch = CHR 0x09 \<or> ch = CHR 0x0A \<or> ch = CHR 0x0C \<or> ch = CHR 0x0D"

definition not_newline :: "char \<Rightarrow> bool" where "not_newline ch \<longleftrightarrow> ch \<noteq> CHR 0x0A"

definition non_space :: "char \<Rightarrow> bool" where "non_space ch \<longleftrightarrow> \<not> is_space ch"

subsection \<open>Evaluation\<close>

named_theorems rx_eval "evaluation of a match"
named_theorems blocked_intros "expressions that cannot start with a class"

lemma rx_search_later: "rx_search (Rx_Seq Rx_Begin r) (Some ch) s = None"
  by (induction s arbitrary: ch) (simp_all add: rx_search.simps)

lemma FindStringSubmatch_Begin:
  "FindStringSubmatch (Rx_Seq Rx_Begin r) s = rx_match r (None, s) [] (\<lambda>p c. Some c)"
  by (cases s) (simp_all add: FindStringSubmatch_def rx_search.simps [of _ None] rx_search_later)

lemma FindStringSubmatch_whole [rx_eval]:
  "FindStringSubmatch (rx_whole rs) s = rx_match (rx_cat (rs @ [Rx_End])) (None, s) [] (\<lambda>p c. Some c)"
  by (simp add: rx_whole_def FindStringSubmatch_Begin)

lemma rx_lit_simps [rx_eval]:
  "rx_match (rx_lit []) p c k = k p c"
  "rx_match (rx_lit (x # l)) (pv, []) c k = None"
  "rx_match (rx_lit (x # l)) (pv, ch # s) c k = (if ch = x then rx_match (rx_lit l) (Some ch, s) c k else None)"
  by (simp_all add: rx_lit_def)

lemma rx_lit_match:
  "rx_match (rx_lit l) (pv, s) c k =
     (if prefix l s then k (if l = [] then pv else Some (last l), drop (length l) s) c else None)"
proof (induction l arbitrary: pv s)
  case (Cons x l)
  then show ?case by (cases s) (simp_all add: rx_lit_simps)
qed (simp add: rx_lit_simps)

definition blocked :: "(char \<Rightarrow> bool) \<Rightarrow> rx \<Rightarrow> bool" where
  "blocked P r \<longleftrightarrow> (\<forall>pv ch s c k. P ch \<longrightarrow> rx_match r (pv, ch # s) c k = None)"

lemma blockedD: "blocked P r \<Longrightarrow> P ch \<Longrightarrow> rx_match r (pv, ch # s) c k = None"
  unfolding blocked_def by blast

lemma blocked_End [blocked_intros]: "blocked P Rx_End"
  by (simp add: blocked_def)

lemma blocked_Set [blocked_intros]: "(\<And>ch. P ch \<Longrightarrow> \<not> Q ch) \<Longrightarrow> blocked P (Rx_Set Q)"
  by (auto simp: blocked_def)

lemma blocked_Seq [blocked_intros]: "blocked P a \<Longrightarrow> blocked P (Rx_Seq a b)"
  by (simp add: blocked_def)

lemma blocked_Group [blocked_intros]: "blocked P a \<Longrightarrow> blocked P (Rx_Group n a)"
  by (simp add: blocked_def)

lemma blocked_lit [blocked_intros]: "\<not> P x \<Longrightarrow> blocked P (rx_lit (x # l))"
  by (auto simp: blocked_def rx_lit_simps)

lemma blocked_plus [blocked_intros]: "blocked P a \<Longrightarrow> blocked P (rx_plus g a)"
  by (simp add: rx_plus_def blocked_Seq)

lemma blocked_opt [blocked_intros]: "blocked P a \<Longrightarrow> blocked P b \<Longrightarrow> blocked P (Rx_Seq (rx_opt a) b)"
  by (simp add: blocked_def rx_opt_def)

lemma blocked_star [blocked_intros]:
  assumes "\<And>ch. P ch \<Longrightarrow> \<not> Q ch" "blocked P b"
  shows "blocked P (Rx_Seq (Rx_Star g (Rx_Set Q)) b)"
  using assms by (auto simp: blocked_def)

definition moved :: "char option \<Rightarrow> string \<Rightarrow> char option" where
  "moved pv w = (if w = [] then pv else Some (last w))"

lemma moved_simps [simp]: "moved pv [] = pv" "moved pv (x # w) = moved (Some x) w"
  by (simp_all add: moved_def)

text \<open>A class repeated greedily takes all it can when stopping short leaves no match.\<close>

lemma rx_repeat_greedy:
  assumes "\<And>pv ch rest. P ch \<Longrightarrow> k (pv, ch # rest) c = None"
  shows "rx_repeat (length s) True (rx_match (Rx_Set P)) (pv, s) c k = k (moved pv (takeWhile P s), dropWhile P s) c"
  by (induction s arbitrary: pv) (simp_all add: assms)

lemma match_star_set [rx_eval]:
  assumes "blocked P b"
  shows "rx_match (Rx_Seq (Rx_Star True (Rx_Set P)) b) (pv, s) c k =
    rx_match b (moved pv (takeWhile P s), dropWhile P s) c k"
  using rx_repeat_greedy [of P "\<lambda>p' c'. rx_match b p' c' k" c s pv] assms by (simp add: blockedD)

lemma match_plus_set [rx_eval]:
  assumes "blocked P b"
  shows "rx_match (Rx_Seq (rx_plus True (Rx_Set P)) b) (pv, s) c k =
    (if takeWhile P s = [] then None else rx_match b (moved pv (takeWhile P s), dropWhile P s) c k)"
  using match_star_set [OF assms] by (cases s) (simp_all add: rx_plus_def)

lemma take_consumed: "length v \<le> length s \<Longrightarrow> drop (length s - length v) s = v \<Longrightarrow> take (length s - length v) s @ v = s"
  by (metis append_take_drop_id)

lemma take_span [simp]: "take (length s - length (dropWhile P s)) s = takeWhile P s"
  by (metis add_diff_cancel_right' append_eq_conv_conj length_append takeWhile_dropWhile_id)

lemma take_span_Cons: "P ch \<Longrightarrow> take (Suc (length s) - length (dropWhile P s)) (ch # s) = ch # takeWhile P s"
  using take_span [of "ch # s" P] by simp

lemma match_group_star [rx_eval]:
  assumes "blocked P b"
  shows "rx_match (Rx_Seq (Rx_Group n (Rx_Star True (Rx_Set P))) b) (pv, s) c k =
    rx_match b (moved pv (takeWhile P s), dropWhile P s) ((n, takeWhile P s) # c) k"
  using rx_repeat_greedy [of P "\<lambda>p' c'. rx_match b p' ((n, take (length s - length (snd p')) s) # c') k" c s pv] assms
  by (simp add: blockedD)

lemma match_group_plus [rx_eval]:
  assumes "blocked P b"
  shows "rx_match (Rx_Seq (Rx_Group n (rx_plus True (Rx_Set P))) b) (pv, s) c k =
    (if takeWhile P s = [] then None
     else rx_match b (moved pv (takeWhile P s), dropWhile P s) ((n, takeWhile P s) # c) k)"
proof (cases s)
  case (Cons ch t)
  then show ?thesis
    using rx_repeat_greedy [of P "\<lambda>p' c'. rx_match b p' ((n, take (length s - length (snd p')) s) # c') k" c t "Some ch"] assms
    by (auto simp: rx_plus_def blockedD take_span_Cons)
qed (simp add: rx_plus_def)

text \<open>An alternative, an optional part and a group of a literal.\<close>

lemma match_rules [rx_eval]:
  "rx_match (Rx_Seq (rx_opt a) b) p c k = or_else (rx_match (Rx_Seq a b) p c k) (rx_match b p c k)"
  "rx_match (Rx_Seq (Rx_Seq a a') b) p c k = rx_match (Rx_Seq a (Rx_Seq a' b)) p c k"
  "rx_match (Rx_Seq Rx_Empty b) p c k = rx_match b p c k"
  by (simp_all add: rx_opt_def)

lemma match_group_lit [rx_eval]:
  "rx_match (Rx_Seq (Rx_Group n (rx_lit l)) b) (pv, s) c k =
     (if prefix l s then rx_match b (moved pv l, drop (length l) s) ((n, l) # c) k else None)"
proof -
  have "take (length s - (length s - length l)) s = l" if "prefix l s"
    using that by (auto simp: prefix_def)
  then show ?thesis by (auto simp: rx_lit_match moved_def)
qed

lemma match_group_alts [rx_eval]:
  "rx_match (Rx_Seq (Rx_Group n (rx_alts l (m # ms))) b) p c k =
     or_else (rx_match (Rx_Seq (Rx_Group n (rx_lit l)) b) p c k) (rx_match (Rx_Seq (Rx_Group n (rx_alts m ms)) b) p c k)"
  "rx_match (Rx_Seq (Rx_Group n (rx_alts l [])) b) p c k = rx_match (Rx_Seq (Rx_Group n (rx_lit l)) b) p c k"
  by simp_all

lemma submatch_simps [simp]:
  "submatch [] n = []" "submatch ((m, t) # c) n = (if n = m then t else submatch c n)"
  by (simp_all add: submatch_def)

end
