(* ===== verification/Fastpath_Spec.thy ===== *)
theory Fastpath_Spec
  imports Registry Go_Regexp Snmp_Tables
begin

section \<open>The command specifications of the FASTPATH models (fastpath/spec.go)\<close>

text \<open>
  Which command each operation sends, per model: the record \<open>cli_model_spec\<close> of command templates,
  the four specifications, the methods that fill a template in, and the two registries.
\<close>

abbreviation (input) APOSTROPHE :: char where "APOSTROPHE \<equiv> CHR 0x27"
abbreviation (input) DOUBLE_QUOTE :: char where "DOUBLE_QUOTE \<equiv> CHR 0x22"

definition cliBackends :: "backend list" where
  "cliBackends = [BackendSSH, BackendTelnet, BackendConsole]"

definition hasCLIBackend :: "switch_model \<Rightarrow> bool" where
  "hasCLIBackend m \<longleftrightarrow> list_ex (HasBackend m) cliBackends"

record cli_model_spec =
  cs_model_key :: string
  cs_captured :: bool
  cs_reads_verified :: bool
  cs_writes_verified :: bool
  cs_telnet_port :: int
  cs_enable_cmd :: string
  cs_paging_off_cmd :: string
  cs_version_cmd :: string
  cs_port_status_cmd :: string
  cs_vlan_brief_cmd :: string
  cs_vlan_detail_cmd :: string
  cs_pvid_cmd :: string
  cs_mac_table_cmd :: string
  cs_lldp_cmd :: string
  cs_poe_cmd :: string
  cs_environment_cmd :: string
  cs_network_cmd :: string
  cs_interface_stats_cmd :: string
  cs_users_cmd :: string
  cs_http_service_cmd :: string
  cs_telnet_service_cmd :: string
  cs_ssh_service_cmd :: string
  cs_hosts_cmd :: string
  cs_logging_cmd :: string
  cs_logging_hosts_cmd :: string
  cs_iface_template :: string
  cs_uplink_iface_template :: string
  cs_first_uplink_port :: "int option"
  cs_vlan_database_cmd :: string
  cs_vlan_create_cmd :: string
  cs_vlan_name_cmd :: string
  cs_vlan_delete_cmd :: string
  cs_configure_cmd :: string
  cs_interface_cmd :: string
  cs_switchport_general_cmd :: string
  cs_vlan_participation_cmd :: string
  cs_vlan_tagging_cmd :: string
  cs_vlan_no_tagging_cmd :: string
  cs_vlan_pvid_cmd :: string
  cs_port_description_cmd :: string
  cs_port_no_description_cmd :: string
  cs_port_description_show_cmd :: string
  cs_port_speed_auto_cmd :: string
  cs_port_speed_forced_cmd :: string
  cs_port_flow_control_cmd :: string
  cs_port_no_flow_control_cmd :: string
  cs_exit_cmd :: string
  cs_poe_enable_cmd :: string
  cs_poe_disable_cmd :: string
  cs_poe_reset_cmd :: string
  cs_port_enable_cmd :: string
  cs_port_disable_cmd :: string
  cs_hostname_config_cmd :: string
  cs_logging_syslog_cmd :: string
  cs_logging_no_syslog_cmd :: string
  cs_logging_host_add_cmd :: string
  cs_logging_host_remove_cmd :: string
  cs_mgmt_ip_exec_cmds :: "string list"
  cs_mgmt_ip_config_cmds :: "string list"
  cs_reload_cmd :: string

subsection \<open>Filling a template in\<close>

text \<open>\<^verbatim>\<open>strings.Replace\<close> of the first occurrence of a text that is not empty.\<close>

fun replace_first :: "string \<Rightarrow> string \<Rightarrow> string \<Rightarrow> string" where
  "replace_first old new s =
     (if prefix old s then new @ drop (length old) s
      else (case s of [] \<Rightarrow> [] | ch # rest \<Rightarrow> ch # replace_first old new rest))"

declare replace_first.simps [simp del]

definition formatOne :: "string \<Rightarrow> string \<Rightarrow> string \<Rightarrow> string" where
  "formatOne tmpl name val = replace_first (''{'' @ name @ ''}'') val tmpl"

definition spec_VlanDetail :: "cli_model_spec \<Rightarrow> int \<Rightarrow> string" where
  "spec_VlanDetail s vlan = formatOne (cs_vlan_detail_cmd s) ''vlan'' (show_int vlan)"

definition spec_Iface :: "cli_model_spec \<Rightarrow> int \<Rightarrow> string" where
  "spec_Iface s port =
     (if cs_uplink_iface_template s \<noteq> [] \<and> (case cs_first_uplink_port s of None \<Rightarrow> False | Some first \<Rightarrow> first \<le> port)
      then formatOne (cs_uplink_iface_template s) ''port'' (show_int port)
      else formatOne (cs_iface_template s) ''port'' (show_int port))"

definition spec_InterfaceStats :: "cli_model_spec \<Rightarrow> int \<Rightarrow> string" where
  "spec_InterfaceStats s port = formatOne (cs_interface_stats_cmd s) ''iface'' (spec_Iface s port)"

definition spec_VlanCreate :: "cli_model_spec \<Rightarrow> int \<Rightarrow> string" where
  "spec_VlanCreate s vlan = formatOne (cs_vlan_create_cmd s) ''vlan'' (show_int vlan)"

definition spec_VlanName :: "cli_model_spec \<Rightarrow> int \<Rightarrow> string \<Rightarrow> string" where
  "spec_VlanName s vlan name =
     formatOne (formatOne (cs_vlan_name_cmd s) ''vlan'' (show_int vlan)) ''name'' name"

definition spec_VlanDelete :: "cli_model_spec \<Rightarrow> int \<Rightarrow> string" where
  "spec_VlanDelete s vlan = formatOne (cs_vlan_delete_cmd s) ''vlan'' (show_int vlan)"

definition spec_Interface :: "cli_model_spec \<Rightarrow> int \<Rightarrow> string" where
  "spec_Interface s port = formatOne (cs_interface_cmd s) ''iface'' (spec_Iface s port)"

definition spec_VlanParticipation :: "cli_model_spec \<Rightarrow> int \<Rightarrow> bool \<Rightarrow> string" where
  "spec_VlanParticipation s vlan included =
     formatOne (formatOne (cs_vlan_participation_cmd s) ''action'' (if included then ''include'' else ''exclude''))
       ''vlan'' (show_int vlan)"

definition spec_VlanTagging :: "cli_model_spec \<Rightarrow> int \<Rightarrow> bool \<Rightarrow> string" where
  "spec_VlanTagging s vlan tagged =
     formatOne (if tagged then cs_vlan_tagging_cmd s else cs_vlan_no_tagging_cmd s) ''vlan'' (show_int vlan)"

definition spec_VlanPvid :: "cli_model_spec \<Rightarrow> int \<Rightarrow> string" where
  "spec_VlanPvid s vlan = formatOne (cs_vlan_pvid_cmd s) ''vlan'' (show_int vlan)"

definition spec_PortDescription :: "cli_model_spec \<Rightarrow> string \<Rightarrow> string" where
  "spec_PortDescription s t =
     (if t = [] then cs_port_no_description_cmd s else formatOne (cs_port_description_cmd s) ''text'' t)"

definition spec_PortDescriptionShow :: "cli_model_spec \<Rightarrow> int \<Rightarrow> string" where
  "spec_PortDescriptionShow s port = formatOne (cs_port_description_show_cmd s) ''iface'' (spec_Iface s port)"

text \<open>Go's division and remainder truncate; the rate is at least 1000 where they are used.\<close>

definition fastpathRate :: "int \<Rightarrow> string" where
  "fastpathRate mbps =
     (if 1000 \<le> mbps \<and> mbps mod 1000 = 0 then show_int (mbps div 1000) @ ''G'' else show_int mbps)"

text \<open>A forced speed carries its rate; a forced speed without one would be a nil dereference.\<close>

definition spec_PortSpeed :: "cli_model_spec \<Rightarrow> port_speed \<Rightarrow> string res" where
  "spec_PortSpeed s speed =
     (if sp_autonegotiate speed then Inr (cs_port_speed_auto_cmd s)
      else (case sp_speed_mbps speed of
        None \<Rightarrow> Inl Go_Panic
      | Some mbps \<Rightarrow>
          Inr (formatOne (formatOne (cs_port_speed_forced_cmd s) ''rate'' (fastpathRate mbps)) ''duplex''
                (if sp_full_duplex speed = Some True then ''full'' else ''half''))))"

definition spec_PortFlowControl :: "cli_model_spec \<Rightarrow> bool \<Rightarrow> string" where
  "spec_PortFlowControl s enabled = (if enabled then cs_port_flow_control_cmd s else cs_port_no_flow_control_cmd s)"

definition spec_PoeAdmin :: "cli_model_spec \<Rightarrow> bool \<Rightarrow> string" where
  "spec_PoeAdmin s on = (if on then cs_poe_enable_cmd s else cs_poe_disable_cmd s)"

definition spec_PortAdmin :: "cli_model_spec \<Rightarrow> bool \<Rightarrow> string" where
  "spec_PortAdmin s enabled = (if enabled then cs_port_enable_cmd s else cs_port_disable_cmd s)"

definition spec_HostnameConfig :: "cli_model_spec \<Rightarrow> string \<Rightarrow> string" where
  "spec_HostnameConfig s name = formatOne (cs_hostname_config_cmd s) ''name'' name"

definition spec_LoggingSyslog :: "cli_model_spec \<Rightarrow> bool \<Rightarrow> string" where
  "spec_LoggingSyslog s enabled = (if enabled then cs_logging_syslog_cmd s else cs_logging_no_syslog_cmd s)"

definition addressKind :: "string \<Rightarrow> string" where
  "addressKind address =
     (if CHR '':'' \<in> set address then (if ParseIP address \<noteq> None then ''ipv6'' else ''dns'')
      else if ParseIP address \<noteq> None then ''ipv4'' else ''dns'')"

subsection \<open>Syslog severities (model/types.go)\<close>

definition SyslogSeverityWords :: "(int \<times> string) list" where
  "SyslogSeverityWords =
     [(0, ''emergency''), (1, ''alert''), (2, ''critical''), (3, ''error''), (4, ''warning''), (5, ''notice''),
      (6, ''info''), (7, ''debug'')]"

definition SyslogSeverityNames :: "(string \<times> int) list" where
  "SyslogSeverityNames =
     [(''emergency'', 0), (''alert'', 1), (''critical'', 2), (''error'', 3), (''warning'', 4), (''notice'', 5),
      (''info'', 6), (''informational'', 6), (''debug'', 7)]"


text \<open>
  \<^verbatim>\<open>strings.ToLower\<close>: rune by rune, ill-formed bytes replaced.  What the table of package unicode says of
  the runes beyond ASCII is the parameter: \<open>uc_lower\<close>, and \<open>uc_upper\<close> for
  \<^verbatim>\<open>strings.ToUpper\<close>.
\<close>

record unicode =
  uc_lower :: "nat \<Rightarrow> nat"
  uc_upper :: "nat \<Rightarrow> nat"

definition ToLowerRunes :: "unicode \<Rightarrow> string \<Rightarrow> string" where
  "ToLowerRunes U s =
     concat (map (\<lambda>r. encode_rune (if r < 0x80 then (if 65 \<le> r \<and> r \<le> 90 then r + 32 else r) else uc_lower U r))
       (runes (bytes_of s)))"

definition SyslogSeverityWord :: "int \<Rightarrow> string res" where
  "SyslogSeverityWord level =
     (case map_of SyslogSeverityWords level of
        None \<Rightarrow> Inl (Plain ''syslog severity %d is outside the standard range 0-7'' [AInt level])
      | Some word \<Rightarrow> Inr word)"

definition SyslogSeverity :: "unicode \<Rightarrow> string \<Rightarrow> int res" where
  "SyslogSeverity U name =
     (case map_of SyslogSeverityNames (ToLowerRunes U (TrimSpace name)) of
        None \<Rightarrow> Inl (Plain ''unknown syslog severity %q; measured names are %v''
                      [AStr name, AStrs [''alert'', ''critical'', ''debug'', ''emergency'', ''error'', ''info'',
                        ''informational'', ''notice'', ''warning'']])
      | Some level \<Rightarrow> Inr level)"

definition spec_LoggingHostAdd :: "cli_model_spec \<Rightarrow> string \<Rightarrow> int \<Rightarrow> int \<Rightarrow> string res" where
  "spec_LoggingHostAdd s address port severity =
     rbind (SyslogSeverityWord severity) (\<lambda>word.
       Inr (formatOne (formatOne (formatOne (formatOne (cs_logging_host_add_cmd s) ''address'' address)
         ''kind'' (addressKind address)) ''port'' (show_int port)) ''severity'' word))"

definition spec_LoggingHostRemove :: "cli_model_spec \<Rightarrow> int \<Rightarrow> string" where
  "spec_LoggingHostRemove s index = formatOne (cs_logging_host_remove_cmd s) ''index'' (show_int index)"

definition spec_MgmtIP :: "cli_model_spec \<Rightarrow> string \<Rightarrow> string \<Rightarrow> string \<Rightarrow> string list \<times> string list" where
  "spec_MgmtIP s address netmask gateway =
     (let fill_in = (\<lambda>tmpl. formatOne (formatOne (formatOne tmpl ''address'' address) ''netmask'' netmask) ''gateway'' gateway) in
      (map fill_in (cs_mgmt_ip_exec_cmds s), map fill_in (cs_mgmt_ip_config_cmds s)))"

subsection \<open>The specifications\<close>

record m4300_overrides =
  mo_vlan_brief_cmd :: string
  mo_network_cmd :: string
  mo_mgmt_ip_exec_cmds :: "string list"
  mo_mgmt_ip_config_cmds :: "string list"

definition M4300OverridesValue :: m4300_overrides where
  "M4300OverridesValue =
     \<lparr>mo_vlan_brief_cmd = ''show vlan'', mo_network_cmd = ''show ip management'', mo_mgmt_ip_exec_cmds = [],
      mo_mgmt_ip_config_cmds =
        [''ip management address {address} {netmask}'', ''ip default-gateway {gateway}'']\<rparr>"

definition applyM4300Overrides :: "cli_model_spec \<Rightarrow> cli_model_spec" where
  "applyM4300Overrides s =
     s\<lparr>cs_vlan_brief_cmd := mo_vlan_brief_cmd M4300OverridesValue,
       cs_network_cmd := mo_network_cmd M4300OverridesValue,
       cs_mgmt_ip_exec_cmds := mo_mgmt_ip_exec_cmds M4300OverridesValue,
       cs_mgmt_ip_config_cmds := mo_mgmt_ip_config_cmds M4300OverridesValue\<rparr>"

definition newCliModelSpec :: "string \<Rightarrow> bool \<Rightarrow> bool \<Rightarrow> cli_model_spec" where
  "newCliModelSpec modelKey captured readsVerified =
     \<lparr>cs_model_key = modelKey, cs_captured = captured, cs_reads_verified = readsVerified,
      cs_writes_verified = True, cs_telnet_port = 23,
      cs_enable_cmd = ''enable'', cs_paging_off_cmd = ''terminal length 0'',
      cs_version_cmd = ''show version'', cs_port_status_cmd = ''show port all'',
      cs_vlan_brief_cmd = ''show vlan brief'', cs_vlan_detail_cmd = ''show vlan {vlan}'',
      cs_pvid_cmd = ''show vlan port all'', cs_mac_table_cmd = ''show mac-addr-table'',
      cs_lldp_cmd = ''show lldp remote-device all'', cs_poe_cmd = ''show poe port info all'',
      cs_environment_cmd = ''show environment'', cs_network_cmd = ''show network'',
      cs_interface_stats_cmd = ''show interface ethernet {iface}'',
      cs_users_cmd = ''show users'', cs_http_service_cmd = ''show ip http'',
      cs_telnet_service_cmd = ''show telnetcon'', cs_ssh_service_cmd = ''show ip ssh'',
      cs_hosts_cmd = ''show hosts'', cs_logging_cmd = ''show logging'',
      cs_logging_hosts_cmd = ''show logging hosts'',
      cs_iface_template = ''1/0/{port}'', cs_uplink_iface_template = [], cs_first_uplink_port = None,
      cs_vlan_database_cmd = ''vlan database'', cs_vlan_create_cmd = ''vlan {vlan}'',
      cs_vlan_name_cmd = ''vlan name {vlan} {name}'', cs_vlan_delete_cmd = ''no vlan {vlan}'',
      cs_configure_cmd = ''configure'', cs_interface_cmd = ''interface {iface}'',
      cs_switchport_general_cmd = ''switchport mode general'',
      cs_vlan_participation_cmd = ''vlan participation {action} {vlan}'',
      cs_vlan_tagging_cmd = ''vlan tagging {vlan}'', cs_vlan_no_tagging_cmd = ''no vlan tagging {vlan}'',
      cs_vlan_pvid_cmd = ''vlan pvid {vlan}'',
      cs_port_description_cmd = ''description '' @ [APOSTROPHE] @ ''{text}'' @ [APOSTROPHE],
      cs_port_no_description_cmd = ''no description'',
      cs_port_description_show_cmd = ''show port description {iface}'',
      cs_port_speed_auto_cmd = ''speed auto'', cs_port_speed_forced_cmd = ''speed {rate} {duplex}-duplex'',
      cs_port_flow_control_cmd = ''flowcontrol'', cs_port_no_flow_control_cmd = ''no flowcontrol'',
      cs_exit_cmd = ''exit'', cs_poe_enable_cmd = ''poe'', cs_poe_disable_cmd = ''no poe'',
      cs_poe_reset_cmd = ''poe reset'', cs_port_enable_cmd = ''no shutdown'', cs_port_disable_cmd = ''shutdown'',
      cs_hostname_config_cmd = ''hostname {name}'',
      cs_logging_syslog_cmd = ''logging syslog'', cs_logging_no_syslog_cmd = ''no logging syslog'',
      cs_logging_host_add_cmd =
        ''logging host '' @ [DOUBLE_QUOTE] @ ''{address}'' @ [DOUBLE_QUOTE] @ '' {kind} {port} {severity}'',
      cs_logging_host_remove_cmd = ''logging host remove {index}'',
      cs_mgmt_ip_exec_cmds = [''network parms {address} {netmask} {gateway}''], cs_mgmt_ip_config_cmds = [],
      cs_reload_cmd = ''reload''\<rparr>"

definition gsm7252psSpec :: cli_model_spec where
  "gsm7252psSpec = (newCliModelSpec ''gsm7252ps'' True True)\<lparr>cs_switchport_general_cmd := []\<rparr>"

definition m430024xSpec :: cli_model_spec where
  "m430024xSpec = applyM4300Overrides (newCliModelSpec ''m4300-24x'' True True)"

definition m430016xSpec :: cli_model_spec where
  "m430016xSpec = applyM4300Overrides (newCliModelSpec ''m4300-16x'' True True)"

definition gsm7228psSpec :: cli_model_spec where
  "gsm7228psSpec =
     (newCliModelSpec ''gsm7228ps'' True True)\<lparr>cs_telnet_port := 60000, cs_vlan_brief_cmd := ''show vlan'',
       cs_iface_template := ''1/g{port}'', cs_uplink_iface_template := ''1/xg{port}'',
       cs_first_uplink_port := Some 49\<rparr>"

definition cliSpecs :: "(string \<times> cli_model_spec) list" where
  "cliSpecs =
     [(cs_model_key gsm7252psSpec, gsm7252psSpec), (cs_model_key m430024xSpec, m430024xSpec),
      (cs_model_key m430016xSpec, m430016xSpec), (cs_model_key gsm7228psSpec, gsm7228psSpec)]"

definition CLISpec :: "switch_model \<Rightarrow> cli_model_spec res" where
  "CLISpec m =
     (if \<not> hasCLIBackend m
      then Inl (Wraps ''model %q has no CLI backend'' [AStr (sm_key m)] ErrUnsupportedCapability)
      else (case map_of cliSpecs (sm_key m) of
        None \<Rightarrow> Inl (Wraps ''model %q has a CLI backend but no command spec'' [AStr (sm_key m)] ErrUnsupportedCapability)
      | Some spec \<Rightarrow> Inr spec))"

record scp_cert_profile =
  sp_model_key :: string
  sp_crypto :: string
  sp_writemem_stuff :: bool
  sp_verify_port :: int

definition scpCertProfiles :: "(string \<times> scp_cert_profile) list" where
  "scpCertProfiles =
     [(''m4300-24x'', \<lparr>sp_model_key = ''m4300-24x'', sp_crypto = ''modern'', sp_writemem_stuff = False, sp_verify_port = 443\<rparr>),
      (''m4300-16x'', \<lparr>sp_model_key = ''m4300-16x'', sp_crypto = ''modern'', sp_writemem_stuff = False, sp_verify_port = 49152\<rparr>),
      (''gsm7252ps'', \<lparr>sp_model_key = ''gsm7252ps'', sp_crypto = ''legacy'', sp_writemem_stuff = True, sp_verify_port = 443\<rparr>)]"

definition ScpProfile :: "switch_model \<Rightarrow> scp_cert_profile res" where
  "ScpProfile m =
     (if \<not> hasCLIBackend m
      then Inl (Wraps ''model %q has no CLI backend for an SCP cert deploy'' [AStr (sm_key m)] ErrUnsupportedCapability)
      else (case map_of scpCertProfiles (sm_key m) of
        None \<Rightarrow> Inl (Wraps ''model %q has no known copy-scp SSL-certificate deploy profile (the Smart Managed Pro line uses an HTTP multipart upload instead and is deliberately absent here)''
                  [AStr (sm_key m)] ErrUnsupportedCapability)
      | Some profile \<Rightarrow> Inr profile))"

subsection \<open>Properties of the specifications\<close>

lemma replace_first_Cons [simp]:
  "replace_first (x # old) new [] = []"
  "replace_first (x # old) new (ch # s) =
     (if x = ch \<and> prefix old s then new @ drop (length old) s else ch # replace_first (x # old) new s)"
  by (subst replace_first.simps, simp)+

lemma spec_keys [simp]:
  "cs_model_key gsm7252psSpec = ''gsm7252ps''" "cs_model_key m430024xSpec = ''m4300-24x''"
  "cs_model_key m430016xSpec = ''m4300-16x''" "cs_model_key gsm7228psSpec = ''gsm7228ps''"
  by (simp_all add: gsm7252psSpec_def m430024xSpec_def m430016xSpec_def gsm7228psSpec_def applyM4300Overrides_def
    newCliModelSpec_def)

text \<open>A model has a specification exactly when it has a command-line backend.\<close>

lemma CLISpec_iff:
  assumes "m \<in> set Models"
  shows "(\<exists>spec. CLISpec m = Inr spec) \<longleftrightarrow> hasCLIBackend m"
  using assms
  by (auto simp: CLISpec_def registry_defs hasCLIBackend_def cliBackends_def HasBackend_def cliSpecs_def spec_keys)

end
