(* ===== verification/Fastpath_Parse.thy ===== *)
theory Fastpath_Parse
  imports Fastpath_Spec
begin

section \<open>Labelled values and fixed-width tables (fastpath/parse.go, primitives)\<close>

text \<open>
  The two shapes FASTPATH prints: lines of a label, a dotted leader and a value, and tables whose
  columns are the spans of a dashed ruler line.  A column reaches to the start of the next one,
  the last to the end of the row; cells outside a short row are empty.
\<close>

subsection \<open>Text\<close>

definition splitLines :: "string \<Rightarrow> string list" where
  "splitLines t =
     (if t = [] then []
      else split_on (CHR 0x0A) (if last t = CHR 0x0A then butlast t else t))"

fun Contains :: "string \<Rightarrow> string \<Rightarrow> bool" where
  "Contains s sub \<longleftrightarrow> prefix sub s \<or> (case s of [] \<Rightarrow> False | _ # rest \<Rightarrow> Contains rest sub)"

declare Contains.simps [simp del]

text \<open>\<^verbatim>\<open>whitespaceRE.ReplaceAllString(s, " ")\<close>: every run of white space becomes one space.\<close>

function collapse_spaces :: "string \<Rightarrow> string" where
  "collapse_spaces [] = []"
| "collapse_spaces (ch # s) =
     (if is_space ch then CHR '' '' # collapse_spaces (dropWhile is_space s) else ch # collapse_spaces s)"
  by pat_completeness auto
termination
  by (relation "measure length") (auto simp: le_imp_less_Suc length_dropWhile_le)

definition parseInt :: "string \<Rightarrow> int option" where
  "parseInt t = Atoi (TrimSpace t)"

definition digitsOnly :: "string \<Rightarrow> bool" where
  "digitsOnly s \<longleftrightarrow> s \<noteq> [] \<and> list_all is_digit s"

subsection \<open>The expressions\<close>

abbreviation (input) rx_spaces :: rx where "rx_spaces \<equiv> Rx_Star True (Rx_Set is_space)"
abbreviation (input) rx_digits :: rx where "rx_digits \<equiv> rx_plus True (Rx_Set is_digit)"

definition labelRE :: rx where
  "labelRE = rx_whole [rx_spaces, Rx_Group 1 (rx_plus False (Rx_Set not_newline)), rx_spaces,
     rx_lit ''..'', Rx_Star True (Rx_Set (\<lambda>ch. ch = CHR ''.'')), rx_spaces,
     Rx_Group 2 (Rx_Star False (Rx_Set not_newline)), rx_spaces]"

definition blank :: "char \<Rightarrow> bool" where "blank ch \<longleftrightarrow> ch = CHR '' '' \<or> ch = CHR 0x09"

definition rulerRE :: rx where
  "rulerRE = rx_whole [Rx_Star True (Rx_Set blank), rx_lit ''--'', Rx_Star True (Rx_Set (\<lambda>ch. ch = CHR ''-'')),
     Rx_Star True (Rx_Set (\<lambda>ch. ch = CHR ''-'' \<or> blank ch))]"

definition physIfaceRE :: rx where
  "physIfaceRE = rx_whole [Rx_Group 1 rx_digits, rx_lit ''/0/'', Rx_Group 2 rx_digits]"

definition smartIfaceRE :: rx where
  "smartIfaceRE = rx_whole [rx_digits, rx_lit ''/'', rx_opt (rx_lit ''x''), rx_lit ''g'', Rx_Group 1 rx_digits]"

definition is_hex :: "char \<Rightarrow> bool" where "is_hex ch \<longleftrightarrow> hex_value ch \<noteq> None"

definition macTextRE :: rx where
  "macTextRE =
     (let pair = rx_cat [Rx_Set is_hex, Rx_Set is_hex]; group = Rx_Group 1 (rx_cat [pair, rx_lit '':'']) in
      rx_whole [group, group, group, group, group, pair])"

subsection \<open>Labelled values\<close>

definition labelled_line :: "(string \<times> string) list \<Rightarrow> string \<Rightarrow> (string \<times> string) list" where
  "labelled_line out line =
     (case FindStringSubmatch labelRE line of
        None \<Rightarrow> out
      | Some m \<Rightarrow> AList.update (TrimSpace (submatch m 1)) (TrimSpace (submatch m 2)) out)"

definition labelledValues :: "string \<Rightarrow> (string \<times> string) list" where
  "labelledValues t = foldl labelled_line [] (splitLines t)"

text \<open>A read of a Go map of texts: the empty text for an absent key.\<close>

definition field :: "(string \<times> string) list \<Rightarrow> string \<Rightarrow> string" where
  "field m key = (case map_of m key of None \<Rightarrow> [] | Some v \<Rightarrow> v)"

definition colon_line :: "(string \<times> string) list \<Rightarrow> string \<Rightarrow> (string \<times> string) list" where
  "colon_line out line =
     (if CHR '':'' \<notin> set line then out
      else let label = TrimSpace (takeWhile (\<lambda>ch. ch \<noteq> CHR '':'') line) in
        if label \<noteq> []
        then AList.update label (TrimSpace (tl (dropWhile (\<lambda>ch. ch \<noteq> CHR '':'') line))) out
        else out)"

definition colonFields :: "string \<Rightarrow> (string \<times> string) list" where
  "colonFields t = foldl colon_line [] (splitLines t)"

subsection \<open>Tables\<close>

record ruler_span =
  rs_start :: int
  rs_end :: int

function ruler_starts :: "int \<Rightarrow> string \<Rightarrow> int list" where
  "ruler_starts i [] = []"
| "ruler_starts i (ch # s) =
     (if ch = CHR ''-''
      then i # ruler_starts (i + 1 + int (length (takeWhile (\<lambda>x. x = CHR ''-'') s))) (dropWhile (\<lambda>x. x = CHR ''-'') s)
      else ruler_starts (i + 1) s)"
  by pat_completeness auto
termination
  by (relation "measure (length \<circ> snd)") (auto simp: le_imp_less_Suc length_dropWhile_le)

fun spans_of :: "int list \<Rightarrow> ruler_span list" where
  "spans_of [] = []"
| "spans_of [start] = [\<lparr>rs_start = start, rs_end = -1\<rparr>]"
| "spans_of (start # next_start # rest) = \<lparr>rs_start = start, rs_end = next_start\<rparr> # spans_of (next_start # rest)"

definition rulerSpans :: "string \<Rightarrow> ruler_span list" where
  "rulerSpans ruler = spans_of (ruler_starts 0 ruler)"

definition sliceCell :: "string \<Rightarrow> ruler_span \<Rightarrow> string" where
  "sliceCell row span =
     (let n = int (length row);
          start = (if n < rs_start span then n else rs_start span);
          stop = (if rs_end span < 0 \<or> n < rs_end span then n else rs_end span) in
      if stop < start then []
      else TrimSpace (take (nat (stop - start)) (drop (nat start) row)))"

definition sliceRow :: "ruler_span list \<Rightarrow> string \<Rightarrow> string list" where
  "sliceRow spans row = map (sliceCell row) spans"

definition findAfterAndRuler :: "string list \<Rightarrow> string \<Rightarrow> nat \<times> bool" where
  "findAfterAndRuler lines after =
     (let skipped = (if after \<noteq> [] then length (takeWhile (\<lambda>line. \<not> Contains line after) lines) else 0);
          idx = skipped + length (takeWhile (\<lambda>line. \<not> MatchString rulerRE line) (drop skipped lines)) in
      (idx, idx < length lines))"

definition body_line :: "string \<Rightarrow> bool" where
  "body_line line \<longleftrightarrow> \<not> (TrimSpace line = [] \<or> MatchString rulerRE line)"

definition iterTableRows :: "string \<Rightarrow> string \<Rightarrow> string list list" where
  "iterTableRows t after =
     (let lines = splitLines t in
      case findAfterAndRuler lines after of (idx, found) \<Rightarrow>
        if \<not> found then []
        else map (sliceRow (rulerSpans (lines ! idx))) (takeWhile body_line (drop (idx + 1) lines)))"

definition headerColumns :: "string \<Rightarrow> string \<Rightarrow> string list" where
  "headerColumns t after =
     (let lines = splitLines t in
      case findAfterAndRuler lines after of (idx, found) \<Rightarrow>
        if \<not> found then []
        else
          let spans = rulerSpans (lines ! idx);
              headerLines = rev (takeWhile body_line (rev (take idx lines))) in
          map (\<lambda>span. collapse_spaces (Join (filter (\<lambda>p. p \<noteq> []) (map (\<lambda>hl. sliceCell hl span) headerLines)) '' '')) spans)"

definition physPort :: "string \<Rightarrow> int option" where
  "physPort iface =
     (let s = TrimSpace iface in
      case FindStringSubmatch physIfaceRE s of
        Some m \<Rightarrow> Atoi (submatch m 2)
      | None \<Rightarrow>
          (case FindStringSubmatch smartIfaceRE s of
             Some m \<Rightarrow> Atoi (submatch m 1)
           | None \<Rightarrow> None))"

section \<open>The entity parsers (fastpath/parse.go)\<close>

text \<open>
  One function per \<^verbatim>\<open>show\<close> command: the text the switch printed to the records of package
  model.  A cell or a line that cannot be read leaves its field absent or drops its row; only the
  description, the host name and the logging block are errors when they are missing.  \<open>U\<close> is the
  case table of package unicode beyond ASCII.
\<close>

definition errCliCommand :: "string \<Rightarrow> msg_arg list \<Rightarrow> go_error" where
  "errCliCommand fmt args = Wraps fmt args ErrCliCommandRejected"

text \<open>
  \<^verbatim>\<open>v, _ = strconv.Atoi(s)\<close> for a text of digits: the value of a number out of range is the
  largest integer.
\<close>

definition AtoiValue :: "string \<Rightarrow> int" where
  "AtoiValue s = (case Atoi s of Some v \<Rightarrow> v | None \<Rightarrow> if s = [] then 0 else 2 ^ 63 - 1)"

text \<open>\<^verbatim>\<open>strings.EqualFold\<close> with a text of ASCII letters other than k and s.\<close>

definition equal_fold :: "string \<Rightarrow> string \<Rightarrow> bool" where
  "equal_fold s t \<longleftrightarrow> map to_lower s = map to_lower t"

subsection \<open>show version, show port all\<close>

definition vlanHeaderRE :: rx where
  "vlanHeaderRE = rx_cat [rx_lit ''VLAN ID:'', rx_spaces, Rx_Group 1 rx_digits]"

definition vlanNameRE :: rx where
  "vlanNameRE = rx_cat [rx_lit ''VLAN Name:'', rx_spaces, Rx_Group 1 (Rx_Star True (Rx_Set not_newline))]"

definition speedRE :: rx where
  "speedRE = Rx_Seq Rx_Begin (rx_cat [Rx_Group 1 rx_digits, rx_spaces,
     Rx_Group 2 (rx_opt (Rx_Set (\<lambda>ch. ch \<in> set ''GgMm'')))])"

definition portFlowHeader :: string where "portFlowHeader = ''flow''"

definition speedMbps :: "string \<Rightarrow> int option" where
  "speedMbps physStatus =
     (case FindStringSubmatch speedRE (TrimSpace physStatus) of
        None \<Rightarrow> None
      | Some m \<Rightarrow>
          (case Atoi (submatch m 1) of
             None \<Rightarrow> None
           | Some v \<Rightarrow> Some (if ToUpper (submatch m 2) = ''G'' then wrap64 (v * 1000) else v)))"

definition duplexText :: "unicode \<Rightarrow> string \<Rightarrow> bool option" where
  "duplexText U t =
     (let low = ToLowerRunes U (TrimSpace t) in
      if Contains low ''full'' then Some True else if Contains low ''half'' then Some False else None)"

fun first_index :: "('a \<Rightarrow> bool) \<Rightarrow> 'a list \<Rightarrow> nat option" where
  "first_index P [] = None"
| "first_index P (x # xs) = (if P x then Some 0 else map_option Suc (first_index P xs))"

definition findFlowColumn :: "unicode \<Rightarrow> string list \<Rightarrow> nat option" where
  "findFlowColumn U names = first_index (\<lambda>n. Contains (ToLowerRunes U n) portFlowHeader) names"

definition parsePhysicalMode :: "unicode \<Rightarrow> string \<Rightarrow> port_speed option" where
  "parsePhysicalMode U cell =
     (let t = TrimSpace cell in
      if t = [] then None
      else if ToLowerRunes U t = ''auto'' then Some AutoPortSpeed
      else (case (speedMbps t, duplexText U t) of
              (Some rate, Some duplex) \<Rightarrow> Some (ForcedPortSpeed rate duplex)
            | _ \<Rightarrow> None))"

definition some_unless_empty :: "string \<Rightarrow> string option" where
  "some_unless_empty v = (if v = [] then None else Some v)"

definition parseVersion :: "unicode \<Rightarrow> string \<Rightarrow> switch_model list \<Rightarrow> detected_model" where
  "parseVersion U t models =
     (let fields = labelledValues t;
          first = field fields ''System Description'';
          descr = (if first = [] then field fields ''Machine Model'' else first) in
      \<lparr>dm_key = (if descr = [] then None else DetectModelFromSysDescr (uc_upper U) (Some descr) models),
       dm_sys_descr = some_unless_empty descr, dm_sys_object_id = None\<rparr>)"

definition port_status_row :: "unicode \<Rightarrow> nat option \<Rightarrow> string list \<Rightarrow> port_status list" where
  "port_status_row U flowCol cells =
     (if length cells \<le> 5 then []
      else (case physPort (cells ! 0) of
        None \<Rightarrow> []
      | Some port \<Rightarrow>
          let linkUp = (ToLowerRunes U (cells ! 5) = ''up'') in
          [\<lparr>ps_port = port, ps_name = Some (cells ! 0),
            ps_admin_enabled = (ToLowerRunes U (cells ! 2) = ''enable''),
            ps_link_up = linkUp,
            ps_speed_mbps = (if linkUp then speedMbps (cells ! 4) else None),
            ps_description = None,
            ps_full_duplex = (if linkUp then duplexText U (cells ! 4) else None),
            ps_flow_control =
              (case flowCol of
                 None \<Rightarrow> None
               | Some col \<Rightarrow> if col < length cells
                   then Some (ToLowerRunes U (TrimSpace (cells ! col)) = ''enable'') else None),
            ps_speed_config = parsePhysicalMode U (cells ! 3)\<rparr>]))"

definition parsePortStatus :: "unicode \<Rightarrow> string \<Rightarrow> port_status list" where
  "parsePortStatus U t =
     concat (map (port_status_row U (findFlowColumn U (headerColumns t []))) (iterTableRows t []))"

definition parsePortDescription :: "string \<Rightarrow> string option res" where
  "parsePortDescription t =
     (case map_of (labelledValues t) ''Description'' of
        None \<Rightarrow> Inl (errCliCommand ''show port description: no 'Description' field in the output'' [])
      | Some v \<Rightarrow> Inr (some_unless_empty v))"

subsection \<open>show vlan brief, show vlan n, show vlan port all\<close>

record vlan_brief_row =
  bv_vlan :: int
  bv_name :: string

definition vlan_brief_of :: "string list \<Rightarrow> vlan_brief_row list" where
  "vlan_brief_of cells =
     (if cells = [] then []
      else (case parseInt (cells ! 0) of
        None \<Rightarrow> []
      | Some vid \<Rightarrow> [\<lparr>bv_vlan = vid, bv_name = (if 1 < length cells then cells ! 1 else [])\<rparr>]))"

definition parseVLANBrief :: "string \<Rightarrow> vlan_brief_row list" where
  "parseVLANBrief t = concat (map vlan_brief_of (iterTableRows t []))"

definition vlan_detail_row :: "unicode \<Rightarrow> bool gomap \<times> bool gomap \<Rightarrow> string list \<Rightarrow> bool gomap \<times> bool gomap" where
  "vlan_detail_row U sets cells = (case sets of (tagged, untagged) \<Rightarrow>
     (if length cells \<le> 3 then (tagged, untagged)
      else (case physPort (cells ! 0) of
        None \<Rightarrow> (tagged, untagged)
      | Some port \<Rightarrow>
          if ToLowerRunes U (cells ! 1) \<noteq> ''include'' then (tagged, untagged)
          else if ToLowerRunes U (cells ! 3) = ''tagged'' then (AList.update port True tagged, untagged)
          else (tagged, AList.update port True untagged))))"

definition parseVLANDetail :: "unicode \<Rightarrow> string \<Rightarrow> string option \<Rightarrow> vlan_info" where
  "parseVLANDetail U t name =
     (let vlanID = (case FindStringSubmatch vlanHeaderRE t of None \<Rightarrow> 0 | Some m \<Rightarrow> AtoiValue (submatch m 1));
          pageName = (case FindStringSubmatch vlanNameRE t of None \<Rightarrow> None | Some m \<Rightarrow> Some (TrimSpace (submatch m 1)));
          resolvedName = (if name \<noteq> None then name else pageName) in
      case foldl (vlan_detail_row U) ([], []) (iterTableRows t []) of (tagged, untagged) \<Rightarrow>
      \<lparr>vi_vlan_id = vlanID, vi_name = resolvedName,
       vi_members = sort_uniq (map fst tagged @ map fst untagged),
       vi_tagged = sorted_keys tagged, vi_untagged = sorted_keys untagged\<rparr>)"

definition pvid_row :: "string list \<Rightarrow> pvid list" where
  "pvid_row cells =
     (if length cells \<le> 1 then []
      else (case (physPort (cells ! 0), parseInt (cells ! 1)) of
              (Some port, Some vlan) \<Rightarrow> [\<lparr>pv_port = port, pv_vlan = vlan\<rparr>]
            | _ \<Rightarrow> []))"

definition parsePVIDs :: "string \<Rightarrow> pvid list" where
  "parsePVIDs t = concat (map pvid_row (iterTableRows t []))"

subsection \<open>show mac-addr-table, show lldp remote-device all\<close>

definition mac_row :: "unicode \<Rightarrow> string list \<Rightarrow> mac_entry list" where
  "mac_row U cells =
     (if length cells \<le> 3 then []
      else
        let mac = ToUpperRunes (uc_upper U) (TrimSpace (cells ! 1)) in
        if \<not> MatchString macTextRE mac then []
        else (case parseInt (cells ! 3) of
          None \<Rightarrow> []
        | Some ifindex \<Rightarrow> [\<lparr>me_mac = mac, me_port = ifindex, me_vlan_id = parseInt (cells ! 0)\<rparr>]))"

definition parseMacTable :: "unicode \<Rightarrow> string \<Rightarrow> mac_entry list" where
  "parseMacTable U t = concat (map (mac_row U) (iterTableRows t []))"

definition lldp_row :: "unicode \<Rightarrow> string list \<Rightarrow> lldp_neighbor list" where
  "lldp_row U cells =
     (if cells = [] then []
      else (case physPort (cells ! 0) of
        None \<Rightarrow> []
      | Some localPort \<Rightarrow>
          if length cells \<le> 4 \<or> TrimSpace (cells ! 2) = [] then []
          else [\<lparr>ln_local_port = localPort,
                 ln_sys_name = some_unless_empty (TrimSpace (cells ! 4)),
                 ln_port_desc = None,
                 ln_chassis_id = some_unless_empty (ToUpperRunes (uc_upper U) (TrimSpace (cells ! 2))),
                 ln_port_id = some_unless_empty (TrimSpace (cells ! 3))\<rparr>]))"

definition parseLLDP :: "unicode \<Rightarrow> string \<Rightarrow> lldp_neighbor list" where
  "parseLLDP U t = concat (map (lldp_row U) (iterTableRows t []))"

subsection \<open>show poe port info all, show environment\<close>

definition poeDetectText :: "(string \<times> poe_detect) list" where
  "poeDetectText =
     [(''delivering'', PoEDetectDelivering), (''searching'', PoEDetectSearching),
      (''disabled'', PoEDetectDisabled), (''fault'', PoEDetectFault)]"

definition indexOf :: "string list \<Rightarrow> string \<Rightarrow> nat option" where
  "indexOf names target = first_index (\<lambda>n. n = target) names"

definition poe_row :: "unicode \<Rightarrow> nat \<Rightarrow> nat \<Rightarrow> nat \<Rightarrow> string list \<Rightarrow> poe_status list" where
  "poe_row U intfI mwI statusI cells =
     (if length cells \<le> max intfI (max mwI statusI) then []
      else (case physPort (cells ! intfI) of
        None \<Rightarrow> []
      | Some port \<Rightarrow>
          let status = ToLowerRunes U (TrimSpace (cells ! statusI));
              detect = (case List.find (\<lambda>(substr, d). Contains status substr) poeDetectText of
                None \<Rightarrow> PoEDetectUnknown | Some (_, d) \<Rightarrow> d) in
          [\<lparr>poe_port = port, poe_admin_enabled = (detect \<noteq> PoEDetectDisabled), poe_detect = detect,
            poe_power_mw = parseInt (cells ! mwI)\<rparr>]))"

definition parsePoE :: "unicode \<Rightarrow> string \<Rightarrow> poe_status list" where
  "parsePoE U t =
     (let names = headerColumns t [] in
      case (indexOf names ''Intf'', indexOf names ''Power (mW)'', indexOf names ''Status'') of
        (Some intfI, Some mwI, Some statusI) \<Rightarrow> concat (map (poe_row U intfI mwI statusI) (iterTableRows t []))
      | _ \<Rightarrow> [])"

definition temperature_row :: "string list \<Rightarrow> sensor list" where
  "temperature_row cells =
     (if length cells \<le> 3 then []
      else (case parseInt (cells ! 3) of
        None \<Rightarrow> []
      | Some v \<Rightarrow> [\<lparr>se_name = TrimSpace (cells ! 2), se_kind = ''temperature'', se_value = Float64 v, se_unit = ''C''\<rparr>]))"

definition fan_row :: "string list \<Rightarrow> sensor list" where
  "fan_row cells =
     (if length cells \<le> 4 then []
      else (case parseInt (cells ! 4) of
        None \<Rightarrow> []
      | Some rpm \<Rightarrow> [\<lparr>se_name = TrimSpace (cells ! 2), se_kind = ''fan'', se_value = Float64 rpm, se_unit = ''RPM''\<rparr>]))"

definition psu_row :: "unicode \<Rightarrow> string list \<Rightarrow> sensor list" where
  "psu_row U cells =
     (if length cells \<le> 4 then []
      else [\<lparr>se_name = TrimSpace (cells ! 2), se_kind = ''power'',
             se_value = Float64 (if ToLowerRunes U (TrimSpace (cells ! 4)) = ''operational'' then 1 else 0),
             se_unit = ''state''\<rparr>])"

definition parseEnvironment :: "unicode \<Rightarrow> string \<Rightarrow> sensor list" where
  "parseEnvironment U t =
     concat (map temperature_row (iterTableRows t ''Temperature Sensors:'')) @
     concat (map fan_row (iterTableRows t ''Fans:'')) @
     concat (map (psu_row U)
       (iterTableRows t (if Contains t ''Power supplies:'' then ''Power supplies:'' else ''Power Modules:'')))"

subsection \<open>show network, show logging, show hosts\<close>

definition parseMgmtIP :: "unicode \<Rightarrow> string \<Rightarrow> mgmt_ip_config" where
  "parseMgmtIP U t =
     (let fields = labelledValues t;
          first = field fields ''Configured IPv4 Protocol'';
          proto = ToUpperRunes (uc_upper U) (TrimSpace (if first = [] then field fields ''Method'' else first));
          mac = ToUpperRunes (uc_upper U) (TrimSpace (field fields ''Burned In MAC Address'')) in
      \<lparr>mg_mode = (if proto = ''DHCP'' then IPModeDHCP else if proto \<noteq> [] then IPModeStatic else IPModeUnknown),
       mg_address = some_unless_empty (field fields ''IP Address''),
       mg_netmask = some_unless_empty (field fields ''Subnet Mask''),
       mg_gateway = some_unless_empty (field fields ''Default Gateway''),
       mg_base_mac = (if MatchString macTextRE mac then Some mac else None)\<rparr>)"

definition truncateWords :: "string \<Rightarrow> nat \<Rightarrow> string" where
  "truncateWords t n = concat (map encode_rune (take n (runes (bytes_of (TrimSpace (collapse_spaces t))))))"

text \<open>
  The rows of the host table: split at white space, an unreadable index or a short line skipped,
  an unknown severity word an error.
\<close>

fun syslog_rows :: "unicode \<Rightarrow> string list \<Rightarrow> syslog_server list res" where
  "syslog_rows U [] = Inr []"
| "syslog_rows U (line # lines) =
     (let cells = Fields line in
      if length cells < 5 \<or> \<not> digitsOnly (cells ! 0) then syslog_rows U lines
      else (case parseInt (cells ! 0) of
        None \<Rightarrow> syslog_rows U lines
      | Some index \<Rightarrow>
          let port = (if digitsOnly (cells ! 3) then (case parseInt (cells ! 3) of Some p \<Rightarrow> p | None \<Rightarrow> 0) else 0) in
          rbind (SyslogSeverity U (cells ! 2)) (\<lambda>severity.
          rbind (syslog_rows U lines) (\<lambda>rest.
            Inr (\<lparr>sy_host = cells ! 1, sy_port = port, sy_severity = severity,
                  sy_active = equal_fold (cells ! 4) ''active'', sy_index = Some index\<rparr> # rest)))))"

definition parseSyslog :: "unicode \<Rightarrow> string \<Rightarrow> string \<Rightarrow> syslog_config res" where
  "parseSyslog U loggingText hostsText =
     (let fields = colonFields loggingText in
      case (map_of fields ''Syslog Logging'', map_of fields ''Logging Client Local Port'') of
        (Some enabledText, Some portText) \<Rightarrow>
          (case parseInt portText of
             None \<Rightarrow> Inl (errCliCommand ''`show logging` reported a non-numeric local port %q'' [AStr (TrimSpace portText)])
           | Some localPort \<Rightarrow>
               rbind (syslog_rows U (splitLines hostsText)) (\<lambda>servers.
                 Inr \<lparr>sc_enabled = equal_fold (TrimSpace enabledText) ''enabled'', sc_local_port = localPort,
                      sc_servers = servers\<rparr>))
      | _ \<Rightarrow> Inl (errCliCommand ''`show logging` did not return a logging block (no 'Syslog Logging'/'Logging Client Local Port' line); the device said: %s''
               [AStr (truncateWords loggingText 200)]))"

definition parseHostname :: "string \<Rightarrow> string res" where
  "parseHostname t =
     (case map_of (labelledValues t) ''Host name'' of
        None \<Rightarrow> Inl (errCliCommand ''`show hosts` output carries no 'Host name' field; got: %s'' [AStr (truncateWords t 200)])
      | Some name \<Rightarrow> Inr name)"

subsection \<open>show interface ethernet, show users, the services\<close>

definition parseUint64 :: "string \<Rightarrow> u64 option" where
  "parseUint64 t = map_option word_of_nat (ParseUint (TrimSpace t) 64)"

definition parseInterfaceCounters :: "string \<Rightarrow> int \<Rightarrow> port_stats" where
  "parseInterfaceCounters t port =
     (let fields = labelledValues t; counter = (\<lambda>label. parseUint64 (field fields label)) in
      \<lparr>st_port = port,
       st_rx_bytes = counter ''Total Packets Received (Octets)'',
       st_tx_bytes = counter ''Total Packets Transmitted (Octets)'',
       st_rx_packets = counter ''Unicast Packets Received'',
       st_tx_packets = counter ''Unicast Packets Transmitted'',
       st_rx_errors = counter ''Total Packets Received with MAC Errors'',
       st_tx_errors = counter ''Total Transmit Errors''\<rparr>)"

definition enabledText :: "unicode \<Rightarrow> string \<Rightarrow> bool" where
  "enabledText U t \<longleftrightarrow> ToLowerRunes U (TrimSpace t) \<in> {''enabled'', ''enable'', ''yes''}"

definition PrivilegedAccess :: "unicode \<Rightarrow> string \<Rightarrow> bool option" where
  "PrivilegedAccess U accessMode =
     (let t = ToLowerRunes U (TrimSpace accessMode) in
      if t \<in> {''privilege-15'', ''read/write'', ''super user''} then Some True
      else if t \<in> {''privilege-1'', ''read only'', ''no access''} then Some False
      else None)"

definition user_row :: "unicode \<Rightarrow> string list \<Rightarrow> switch_user list" where
  "user_row U cells =
     (if cells = [] \<or> TrimSpace (cells ! 0) = [] then []
      else
        let padded = cells @ [[], [], [], []]; access = TrimSpace (padded ! 1) in
        [\<lparr>us_name = TrimSpace (padded ! 0), us_access_mode = access, us_privileged = PrivilegedAccess U access,
          us_snmpv3_access = some_unless_empty (TrimSpace (padded ! 2)),
          us_snmpv3_auth = some_unless_empty (TrimSpace (padded ! 3)),
          us_snmpv3_encryption = some_unless_empty (TrimSpace (padded ! 4))\<rparr>])"

definition parseUsers :: "unicode \<Rightarrow> string \<Rightarrow> switch_user list" where
  "parseUsers U t = concat (map (user_row U) (iterTableRows t []))"

text \<open>
  The labels of \<^verbatim>\<open>show ip ssh\<close> end in a colon; where two labels differ only in their colons
  the map of the source keeps either.
\<close>

definition parseServices :: "unicode \<Rightarrow> string \<Rightarrow> string \<Rightarrow> string \<Rightarrow> service_status list" where
  "parseServices U httpText telnetText sshText =
     (let httpFields = labelledValues httpText;
          telnetFields = labelledValues telnetText;
          sshFields = foldl (\<lambda>out (k, v). AList.update (TrimSpace (trim_right (CHR '':'') k)) v out) [] (labelledValues sshText) in
      [\<lparr>sv_name = ''http'', sv_enabled = enabledText U (field httpFields ''HTTP Mode (Unsecure)''),
        sv_port = parseInt (field httpFields ''HTTP Port'')\<rparr>,
       \<lparr>sv_name = ''https'', sv_enabled = enabledText U (field httpFields ''HTTP Mode (Secure)''),
        sv_port = parseInt (field httpFields ''Secure Port'')\<rparr>,
       \<lparr>sv_name = ''telnet'', sv_enabled = enabledText U (field telnetFields ''Telnet Server Admin Mode''),
        sv_port = parseInt (field telnetFields ''Telnet Server Port'')\<rparr>,
       \<lparr>sv_name = ''ssh'', sv_enabled = enabledText U (field sshFields ''Administrative Mode''),
        sv_port = parseInt (field sshFields ''SSH Port'')\<rparr>])"

end
