(* ===== verification/Fastpath_Session.thy ===== *)
theory Fastpath_Session
  imports Fastpath_Parse
begin

section \<open>Sessions and the shell driver (fastpath/session.go)\<close>

text \<open>
  A session answers one command with a text.  \<open>cli_run\<close> and \<open>inMode\<close> are the convention the writer
  builds on: an accepted configuration command prints nothing, anything printed is a rejection, and
  every mode entered is left again.  The shell driver makes a session of a byte transport; a
  transport is a parameter, a record of operations on a state of its own.
\<close>

subsection \<open>Sessions\<close>

record 's cli_session =
  se_Run :: "string \<Rightarrow> ('s, go_error, string) action"
  se_RunSCPCopy :: "string \<Rightarrow> string \<Rightarrow> ('s, go_error, string) action"
  se_RunWriteMemory :: "string \<Rightarrow> bool \<Rightarrow> ('s, go_error, string) action"
  se_Close :: "('s, go_error, unit) action"

definition errCliTransport :: "string \<Rightarrow> msg_arg list \<Rightarrow> go_error" where
  "errCliTransport fmt args = Wraps fmt args ErrCliTransport"

definition cli_run :: "'s cli_session \<Rightarrow> string \<Rightarrow> ('s, go_error, unit) action" where
  "cli_run sess command =
     sbind (se_Run sess command) (\<lambda>out.
     let trimmed = TrimSpace out in
     sret (if trimmed \<noteq> [] then Inl (Wraps ''%q: %s'' [AStr command, AStr trimmed] ErrCliCommandRejected) else Inr ()))"

fun run_all :: "'s cli_session \<Rightarrow> string list \<Rightarrow> ('s, go_error, unit) action" where
  "run_all sess [] = sret (Inr ())"
| "run_all sess (cmd # cmds) = sbind (cli_run sess cmd) (\<lambda>_. run_all sess cmds)"

text \<open>The commands that enter modes: the result and how many of them were accepted.\<close>

fun enter_all :: "'s cli_session \<Rightarrow> string list \<Rightarrow> nat \<Rightarrow> 's \<Rightarrow> ((go_error + unit) \<times> nat) \<times> 's" where
  "enter_all sess [] entered s = ((Inr (), entered), s)"
| "enter_all sess (cmd # cmds) entered s =
     (case cli_run sess cmd s of
        (Inl e, s') \<Rightarrow> ((Inl e, entered), s')
      | (Inr _, s') \<Rightarrow> enter_all sess cmds (Suc entered) s')"

fun unwind :: "'s cli_session \<Rightarrow> string \<Rightarrow> nat \<Rightarrow> 's \<Rightarrow> 's" where
  "unwind sess exitCmd 0 s = s"
| "unwind sess exitCmd (Suc n) s = unwind sess exitCmd n (snd (se_Run sess exitCmd s))"

definition inMode :: "'s cli_session \<Rightarrow> string list \<Rightarrow> string list \<Rightarrow> string \<Rightarrow> ('s, go_error, unit) action" where
  "inMode sess enter body exitCmd s =
     (case enter_all sess enter 0 s of
        ((Inl e, entered), s1) \<Rightarrow> (Inl e, unwind sess exitCmd entered s1)
      | ((Inr _, entered), s1) \<Rightarrow>
          (case run_all sess body s1 of (r, s2) \<Rightarrow> (r, unwind sess exitCmd entered s2)))"

subsection \<open>The sentinels of the driver\<close>

definition promptRE :: rx where
  "promptRE = rx_cat [rx_lit '')'', rx_spaces,
     rx_opt (rx_cat [rx_lit ''('', Rx_Star True (Rx_Set (\<lambda>ch. ch \<noteq> CHR '')'')), rx_lit '')'', rx_spaces]),
     Rx_Set (\<lambda>ch. ch = CHR ''#'' \<or> ch = CHR ''>''), rx_spaces, Rx_End]"

definition passwordRE :: rx where
  "passwordRE = rx_cat [Rx_Set (\<lambda>ch. ch = CHR ''P'' \<or> ch = CHR ''p''), rx_lit ''assword:'', rx_spaces, Rx_End]"

text \<open>
  A literal under the flag i: a letter stands for both cases, and the letters k and s also for the
  Kelvin sign and the long s.
\<close>

definition rx_fold_char :: "char \<Rightarrow> rx" where
  "rx_fold_char l =
     (let both = Rx_Set (\<lambda>x. to_lower x = l) in
      if l = CHR ''k'' then Rx_Alt both (rx_lit (string_of [0xE2, 0x84, 0xAA]))
      else if l = CHR ''s'' then Rx_Alt both (rx_lit (string_of [0xC5, 0xBF]))
      else both)"

definition rx_fold :: "string \<Rightarrow> rx" where "rx_fold l = rx_cat (map rx_fold_char l)"

definition scpTOFURE :: rx where
  "scpTOFURE = Rx_Alt (rx_fold ''host key'') (Rx_Alt (rx_fold ''continue connecting'')
     (rx_cat [rx_fold ''(yes'', rx_spaces, rx_fold ''/'', rx_spaces, rx_fold ''no'']))"

definition scpPasswordRE :: rx where
  "scpPasswordRE = rx_cat [Rx_Set (\<lambda>ch. ch = CHR ''P'' \<or> ch = CHR ''p''), rx_lit ''assword:'']"

definition scpConfirmRE :: rx where
  "scpConfirmRE = rx_cat [rx_lit ''(y'', rx_spaces, rx_lit ''/'', rx_spaces, rx_lit ''n)'']"

definition scpSuccessRE :: rx where
  "scpSuccessRE = Rx_Alt (rx_fold ''bytes transferred'') (Rx_Alt (rx_fold ''completed successfully'')
     (rx_fold ''operation completed''))"

definition scpFailureRE :: rx where
  "scpFailureRE = Rx_Alt (rx_fold ''transfer failed'') (Rx_Alt (rx_fold ''failed!'')
     (Rx_Alt (rx_cat [rx_fold ''%'', rx_spaces, rx_fold ''error'']) (rx_fold ''error during'')))"

subsection \<open>The shell driver\<close>

text \<open>
  \<^verbatim>\<open>Transport\<close>: a read returns what arrived and possibly an error, a write may fail.
\<close>

datatype io_error = IO_EOF | IO_Error string

record 't transport =
  tr_Read :: "'t \<Rightarrow> (string \<times> io_error option) \<times> 't"
  tr_Write :: "string \<Rightarrow> ('t, go_error, unit) action"
  tr_Close :: "('t, go_error, unit) action"

record 't shell_driver =
  sd_transport :: "'t transport"
  sd_enable_cmd :: string
  sd_paging_off_cmd :: string
  sd_enable_password :: string
  sd_newline :: string

definition NewShellDriver :: "'t transport \<Rightarrow> string \<Rightarrow> string \<Rightarrow> string \<Rightarrow> string \<Rightarrow> 't shell_driver" where
  "NewShellDriver transport enableCmd pagingOffCmd enablePassword newline_text =
     \<lparr>sd_transport = transport,
      sd_enable_cmd = (if enableCmd = [] then ''enable'' else enableCmd),
      sd_paging_off_cmd = (if pagingOffCmd = [] then ''terminal length 0'' else pagingOffCmd),
      sd_enable_password = enablePassword,
      sd_newline = (if newline_text = [] then [CHR 0x0D, CHR 0x0A] else newline_text)\<rparr>"

definition maxReads :: nat where "maxReads = 10000"

definition writeLine :: "'t shell_driver \<Rightarrow> string \<Rightarrow> ('t, go_error, unit) action" where
  "writeLine d t = tr_Write (sd_transport d) (t @ sd_newline d)"

definition read_failed :: "io_error option \<Rightarrow> go_error \<Rightarrow> go_error" where
  "read_failed e stopped =
     (case e of Some (IO_Error m) \<Rightarrow> WrapsCause ''read failed: %w'' [] ErrCliTransport (Foreign m) | _ \<Rightarrow> stopped)"

fun read_until :: "nat \<Rightarrow> 't shell_driver \<Rightarrow> bool \<Rightarrow> string \<Rightarrow> ('t, go_error, string) action" where
  "read_until 0 d allowPassword buf t = (Inl (errCliTransport ''no CLI prompt seen before end of stream'' []), t)"
| "read_until (Suc n) d allowPassword buf t =
     (case tr_Read (sd_transport d) t of ((chunk, e), t') \<Rightarrow>
        let so_far = buf @ chunk in
        if MatchString promptRE so_far then (Inr so_far, t')
        else if allowPassword \<and> MatchString passwordRE so_far then (Inr so_far, t')
        else if chunk = []
        then (Inl (read_failed e (errCliTransport ''no CLI prompt seen before end of stream'' [])), t')
        else read_until n d allowPassword so_far t')"

definition readUntil :: "'t shell_driver \<Rightarrow> bool \<Rightarrow> ('t, go_error, string) action" where
  "readUntil d allowPassword = read_until maxReads d allowPassword []"

definition Setup :: "'t shell_driver \<Rightarrow> ('t, go_error, unit) action" where
  "Setup d =
     sbind (readUntil d False) (\<lambda>_.
     sbind (writeLine d (sd_enable_cmd d)) (\<lambda>_.
     sbind (readUntil d True) (\<lambda>out.
     sbind (if MatchString passwordRE out
            then sbind (writeLine d (sd_enable_password d)) (\<lambda>_. readUntil d False)
            else sret (Inr [])) (\<lambda>_.
     sbind (writeLine d (sd_paging_off_cmd d)) (\<lambda>_.
     sbind (readUntil d False) (\<lambda>_. sret (Inr ())))))))"

definition cleanOutput :: "string \<Rightarrow> string \<Rightarrow> string" where
  "cleanOutput raw command =
     (let lines = split_on (CHR 0x0A) (universalNewlines raw);
          trimmedCmd = TrimSpace command;
          lines' = (if trimmedCmd \<noteq> [] \<and> Contains (hd lines) trimmedCmd then tl lines else lines) in
      Trim (Join (rev (dropWhile (MatchString promptRE) (rev lines'))) [CHR 0x0A]) (\<lambda>ch. ch = CHR 0x0A))"

definition driver_Run :: "'t shell_driver \<Rightarrow> string \<Rightarrow> ('t, go_error, string) action" where
  "driver_Run d command =
     sbind (writeLine d command) (\<lambda>_.
     sbind (readUntil d False) (\<lambda>raw. sret (Inr (cleanOutput raw command))))"

fun scp_loop :: "nat \<Rightarrow> 't shell_driver \<Rightarrow> string \<Rightarrow> string \<Rightarrow> string \<Rightarrow> string \<Rightarrow> bool \<Rightarrow> ('t, go_error, string) action" where
  "scp_loop 0 d command scpPassword transcript buf succeeded t =
     ((if succeeded then Inr transcript else Inl (errCliTransport ''SCP copy did not complete: %q'' [AStr command])), t)"
| "scp_loop (Suc n) d command scpPassword transcript buf succeeded t =
     (case tr_Read (sd_transport d) t of ((chunk, e), t') \<Rightarrow>
        let transcript' = transcript @ chunk; so_far = buf @ chunk in
        if MatchString scpFailureRE so_far
        then (Inl (errCliTransport ''SCP copy reported a failed transfer: %q'' [AStr command]), t')
        else if MatchString scpTOFURE so_far
        then sbind (writeLine d ''yes'') (\<lambda>_. scp_loop n d command scpPassword transcript' [] succeeded) t'
        else if MatchString scpPasswordRE so_far
        then sbind (writeLine d scpPassword) (\<lambda>_. scp_loop n d command scpPassword transcript' [] succeeded) t'
        else if MatchString scpConfirmRE so_far
        then sbind (tr_Write (sd_transport d) ''y'') (\<lambda>_. scp_loop n d command scpPassword transcript' [] succeeded) t'
        else
          let succeeded' = (succeeded \<or> MatchString scpSuccessRE so_far) in
          if MatchString promptRE so_far then (Inr transcript', t')
          else if chunk = []
          then (case e of
              Some (IO_Error m) \<Rightarrow> (Inl (WrapsCause ''read failed: %w'' [] ErrCliTransport (Foreign m)), t')
            | _ \<Rightarrow> ((if succeeded' then Inr transcript'
                    else Inl (errCliTransport ''SCP copy did not complete: %q'' [AStr command])), t'))
          else scp_loop n d command scpPassword transcript' so_far succeeded' t')"

definition driver_RunSCPCopy :: "'t shell_driver \<Rightarrow> string \<Rightarrow> string \<Rightarrow> ('t, go_error, string) action" where
  "driver_RunSCPCopy d command scpPassword =
     sbind (writeLine d command) (\<lambda>_. scp_loop maxReads d command scpPassword [] [] False)"

fun memory_loop :: "nat \<Rightarrow> 't shell_driver \<Rightarrow> bool \<Rightarrow> string \<Rightarrow> string \<Rightarrow> ('t, go_error, string) action" where
  "memory_loop 0 d prestuff transcript buf t = (Inl (errCliTransport ''write memory did not complete'' []), t)"
| "memory_loop (Suc n) d prestuff transcript buf t =
     (case tr_Read (sd_transport d) t of ((chunk, e), t') \<Rightarrow>
        let transcript' = transcript @ chunk; so_far = buf @ chunk in
        if \<not> prestuff \<and> MatchString scpConfirmRE so_far
        then sbind (tr_Write (sd_transport d) ''y'') (\<lambda>_. memory_loop n d prestuff transcript' []) t'
        else if MatchString promptRE so_far then (Inr transcript', t')
        else if chunk = [] then (Inl (read_failed e (errCliTransport ''write memory did not complete'' [])), t')
        else memory_loop n d prestuff transcript' so_far t')"

definition driver_RunWriteMemory :: "'t shell_driver \<Rightarrow> string \<Rightarrow> bool \<Rightarrow> ('t, go_error, string) action" where
  "driver_RunWriteMemory d command prestuff =
     sbind (if prestuff then tr_Write (sd_transport d) (command @ [CHR 0x0D] @ ''y'' @ [CHR 0x0D]) else writeLine d command)
       (\<lambda>_. memory_loop maxReads d prestuff [] [])"

definition driver_session :: "'t shell_driver \<Rightarrow> 't cli_session" where
  "driver_session d =
     \<lparr>se_Run = driver_Run d, se_RunSCPCopy = driver_RunSCPCopy d, se_RunWriteMemory = driver_RunWriteMemory d,
      se_Close = tr_Close (sd_transport d)\<rparr>"

subsection \<open>The certificate deploy (fastpath/cert\_scp.go)\<close>

definition ScpSourceURL :: "string \<Rightarrow> string \<Rightarrow> string \<Rightarrow> string" where
  "ScpSourceURL scpSource remoteDir filename = ''scp://'' @ scpSource @ remoteDir @ ''/'' @ filename"

definition scpCopyCmd :: "string \<Rightarrow> string \<Rightarrow> string \<Rightarrow> string \<Rightarrow> string" where
  "scpCopyCmd scpSource remoteDir filename dest = ''copy '' @ ScpSourceURL scpSource remoteDir filename @ '' '' @ dest"

definition DeployCertificateSCP ::
    "'s cli_session \<Rightarrow> switch_model \<Rightarrow> string \<Rightarrow> string \<Rightarrow> string \<Rightarrow> string \<Rightarrow> bool \<Rightarrow> ('s, go_error, unit) action" where
  "DeployCertificateSCP sess m scpSource scpPassword remoteDir base chain =
     sbind (sret (ScpProfile m)) (\<lambda>profile.
     sbind (se_Run sess ''no ip http secure-server'') (\<lambda>_.
     sbind (se_RunSCPCopy sess (scpCopyCmd scpSource remoteDir (base @ ''-server.pem'') ''nvram:sslpem-server'') scpPassword) (\<lambda>_.
     sbind (if chain
            then se_RunSCPCopy sess (scpCopyCmd scpSource remoteDir (base @ ''-root.pem'') ''nvram:sslpem-root'') scpPassword
            else sret (Inr [])) (\<lambda>_.
     sbind (se_Run sess ''ip http secure-server'') (\<lambda>_.
     sbind (se_RunWriteMemory sess ''write memory'' (sp_writemem_stuff profile)) (\<lambda>_.
     sret (Inr ())))))))"

section \<open>The command-line reader (fastpath/reader.go)\<close>

text \<open>
  One operation per read: the commands of the model's specification run on the session, the answers
  parsed.
\<close>

record 's cli_reader =
  cr_session :: "'s cli_session"
  cr_spec :: cli_model_spec
  cr_model :: switch_model
  cr_unicode :: unicode

definition unsupportedReadOp :: "string \<Rightarrow> string \<Rightarrow> go_error" where
  "unsupportedReadOp modelKey what = Wraps ''model %q CLI does not expose %s'' [AStr modelKey, AStr what] ErrUnsupportedCapability"

definition cli_NewReader :: "unicode \<Rightarrow> 's cli_session \<Rightarrow> switch_model \<Rightarrow> 's cli_reader res" where
  "cli_NewReader U session m =
     rbind (CLISpec m) (\<lambda>spec. Inr \<lparr>cr_session = session, cr_spec = spec, cr_model = m, cr_unicode = U\<rparr>)"

definition ask :: "'s cli_reader \<Rightarrow> string \<Rightarrow> ('s, go_error, string) action" where
  "ask r command = se_Run (cr_session r) command"

definition cli_GetPorts :: "'s cli_reader \<Rightarrow> ('s, go_error, port_status list) action" where
  "cli_GetPorts r =
     sbind (ask r (cs_port_status_cmd (cr_spec r))) (\<lambda>t. sret (Inr (parsePortStatus (cr_unicode r) t)))"

fun stats_of_ports :: "'s cli_reader \<Rightarrow> port_status list \<Rightarrow> ('s, go_error, port_stats list) action" where
  "stats_of_ports r [] = sret (Inr [])"
| "stats_of_ports r (port # ports) =
     sbind (ask r (spec_InterfaceStats (cr_spec r) (ps_port port))) (\<lambda>t.
     sbind (stats_of_ports r ports) (\<lambda>rest.
     sret (Inr (parseInterfaceCounters t (ps_port port) # rest))))"

definition cli_GetStats :: "'s cli_reader \<Rightarrow> ('s, go_error, port_stats list) action" where
  "cli_GetStats r = sbind (cli_GetPorts r) (stats_of_ports r)"

fun vlan_details :: "'s cli_reader \<Rightarrow> vlan_brief_row list \<Rightarrow> ('s, go_error, vlan_info list) action" where
  "vlan_details r [] = sret (Inr [])"
| "vlan_details r (row # rows) =
     sbind (ask r (spec_VlanDetail (cr_spec r) (bv_vlan row))) (\<lambda>t.
     sbind (vlan_details r rows) (\<lambda>rest.
     sret (Inr (parseVLANDetail (cr_unicode r) t (Some (bv_name row)) # rest))))"

definition cli_GetVLANs :: "'s cli_reader \<Rightarrow> ('s, go_error, vlan_info list) action" where
  "cli_GetVLANs r =
     sbind (ask r (cs_vlan_brief_cmd (cr_spec r))) (\<lambda>t. vlan_details r (parseVLANBrief t))"

definition cli_GetPVIDs :: "'s cli_reader \<Rightarrow> ('s, go_error, pvid list) action" where
  "cli_GetPVIDs r = sbind (ask r (cs_pvid_cmd (cr_spec r))) (\<lambda>t. sret (Inr (parsePVIDs t)))"

definition cli_GetMACs :: "'s cli_reader \<Rightarrow> ('s, go_error, mac_entry list) action" where
  "cli_GetMACs r =
     (if \<not> HasMACTable (cr_model r) then sret (Inl (unsupportedReadOp (sm_key (cr_model r)) ''a MAC/FDB table''))
      else sbind (ask r (cs_mac_table_cmd (cr_spec r))) (\<lambda>t. sret (Inr (parseMacTable (cr_unicode r) t))))"

definition cli_GetLLDP :: "'s cli_reader \<Rightarrow> ('s, go_error, lldp_neighbor list) action" where
  "cli_GetLLDP r = sbind (ask r (cs_lldp_cmd (cr_spec r))) (\<lambda>t. sret (Inr (parseLLDP (cr_unicode r) t)))"

definition cli_GetPoE :: "'s cli_reader \<Rightarrow> ('s, go_error, poe_status list) action" where
  "cli_GetPoE r =
     (if sm_poe_port_count (cr_model r) = 0
      then sret (Inl (unsupportedReadOp (sm_key (cr_model r)) ''PoE (model has no PSE ports)''))
      else sbind (ask r (cs_poe_cmd (cr_spec r))) (\<lambda>t. sret (Inr (parsePoE (cr_unicode r) t))))"

definition cli_GetSensors :: "'s cli_reader \<Rightarrow> ('s, go_error, sensor list) action" where
  "cli_GetSensors r =
     sbind (ask r (cs_environment_cmd (cr_spec r))) (\<lambda>t. sret (Inr (parseEnvironment (cr_unicode r) t)))"

definition cli_GetMgmtIP :: "'s cli_reader \<Rightarrow> ('s, go_error, mgmt_ip_config) action" where
  "cli_GetMgmtIP r = sbind (ask r (cs_network_cmd (cr_spec r))) (\<lambda>t. sret (Inr (parseMgmtIP (cr_unicode r) t)))"

definition cli_GetUsers :: "'s cli_reader \<Rightarrow> ('s, go_error, switch_user list) action" where
  "cli_GetUsers r = sbind (ask r (cs_users_cmd (cr_spec r))) (\<lambda>t. sret (Inr (parseUsers (cr_unicode r) t)))"

definition cli_GetServices :: "'s cli_reader \<Rightarrow> ('s, go_error, service_status list) action" where
  "cli_GetServices r =
     sbind (ask r (cs_http_service_cmd (cr_spec r))) (\<lambda>httpText.
     sbind (ask r (cs_telnet_service_cmd (cr_spec r))) (\<lambda>telnetText.
     sbind (ask r (cs_ssh_service_cmd (cr_spec r))) (\<lambda>sshText.
     sret (Inr (parseServices (cr_unicode r) httpText telnetText sshText)))))"

definition cli_GetHostname :: "'s cli_reader \<Rightarrow> ('s, go_error, string) action" where
  "cli_GetHostname r = sbind (ask r (cs_hosts_cmd (cr_spec r))) (\<lambda>t. sret (parseHostname t))"

definition cli_GetSyslog :: "'s cli_reader \<Rightarrow> ('s, go_error, syslog_config) action" where
  "cli_GetSyslog r =
     sbind (ask r (cs_logging_cmd (cr_spec r))) (\<lambda>loggingText.
     sbind (ask r (cs_logging_hosts_cmd (cr_spec r))) (\<lambda>hostsText.
     sret (parseSyslog (cr_unicode r) loggingText hostsText)))"

definition cli_Identify :: "'s cli_reader \<Rightarrow> ('s, go_error, detected_model) action" where
  "cli_Identify r = sbind (ask r (cs_version_cmd (cr_spec r))) (\<lambda>t. sret (Inr (parseVersion (cr_unicode r) t Models)))"

end
