(* ===== verification/Fastpath_Writer.thy ===== *)
theory Fastpath_Writer
  imports Fastpath_Session Snmp_Cycle
begin

section \<open>The command-line writer (fastpath/writer.go)\<close>

text \<open>
  Every write sends its configuration commands inside the modes they need and reads the switch back
  through a reader on the same session.  The PoE writes poll until a deadline and so may not return:
  they are runs, with the loop of the SNMP power cycle.  A write whose force argument the code
  ignores has none here.
\<close>

record 's cli_writer =
  cw_session :: "'s cli_session"
  cw_spec :: cli_model_spec
  cw_model :: switch_model
  cw_protected :: "int list"
  cw_reader :: "'s cli_reader"
  cw_clock :: "'s \<Rightarrow> int \<times> 's"
  cw_sleep :: "int \<Rightarrow> ('s, go_error, unit) action"

definition cli_NewWriter ::
    "unicode \<Rightarrow> 's cli_session \<Rightarrow> switch_model \<Rightarrow> int list \<Rightarrow> ('s \<Rightarrow> int \<times> 's) \<Rightarrow> (int \<Rightarrow> ('s, go_error, unit) action) \<Rightarrow>
     's cli_writer res" where
  "cli_NewWriter U session m protectedPorts clock sleep =
     rbind (CLISpec m) (\<lambda>spec.
     rbind (cli_NewReader U session m) (\<lambda>reader.
     Inr \<lparr>cw_session = session, cw_spec = spec, cw_model = m, cw_protected = protectedPorts, cw_reader = reader,
          cw_clock = clock, cw_sleep = sleep\<rparr>))"

subsection \<open>Helpers\<close>

definition cli_guard :: "'s cli_writer \<Rightarrow> int \<Rightarrow> bool \<Rightarrow> unit res" where
  "cli_guard w port force =
     (if port \<in> set (cw_protected w) \<and> \<not> force
      then Inl (Wraps ''port %d is protected; pass force=True to override'' [AInt port] ErrProtectedPort)
      else Inr ())"

definition generalMode :: "'s cli_writer \<Rightarrow> string list" where
  "generalMode w = (if cs_switchport_general_cmd (cw_spec w) = [] then [] else [cs_switchport_general_cmd (cw_spec w)])"

definition cli_vlan :: "'s cli_writer \<Rightarrow> int \<Rightarrow> ('s, go_error, vlan_info option) action" where
  "cli_vlan w vlanID =
     sbind (cli_GetVLANs (cw_reader w)) (\<lambda>vlans. sret (Inr (List.find (\<lambda>v. vi_vlan_id v = vlanID) vlans)))"

definition portMode :: "vlan_info option \<Rightarrow> int \<Rightarrow> vlan_mode" where
  "portMode info port =
     (case info of
        None \<Rightarrow> VlanExcluded
      | Some v \<Rightarrow>
          if port \<notin> set (vi_members v) then VlanExcluded
          else if port \<in> set (vi_tagged v) then VlanTagged
          else VlanUntagged)"

definition pvidFor :: "pvid list \<Rightarrow> int \<Rightarrow> int option" where
  "pvidFor pvids port = map_option pv_vlan (List.find (\<lambda>p. pv_port p = port) pvids)"

text \<open>The commands inside one interface, and inside the global configuration.\<close>

definition in_interface :: "'s cli_writer \<Rightarrow> int \<Rightarrow> string list \<Rightarrow> ('s, go_error, unit) action" where
  "in_interface w port body =
     inMode (cw_session w) [cs_configure_cmd (cw_spec w), spec_Interface (cw_spec w) port] body (cs_exit_cmd (cw_spec w))"

definition in_configure :: "'s cli_writer \<Rightarrow> string list \<Rightarrow> ('s, go_error, unit) action" where
  "in_configure w body = inMode (cw_session w) [cs_configure_cmd (cw_spec w)] body (cs_exit_cmd (cw_spec w))"

definition in_vlan_database :: "'s cli_writer \<Rightarrow> string list \<Rightarrow> ('s, go_error, unit) action" where
  "in_vlan_database w body = inMode (cw_session w) [cs_vlan_database_cmd (cw_spec w)] body (cs_exit_cmd (cw_spec w))"

subsection \<open>VLANs\<close>

definition cli_CreateVLAN :: "'s cli_writer \<Rightarrow> int \<Rightarrow> string \<Rightarrow> ('s, go_error, unit) action" where
  "cli_CreateVLAN w vlan name =
     sbind (cli_vlan w vlan) (\<lambda>before.
     sbind (in_vlan_database w [spec_VlanCreate (cw_spec w) vlan, spec_VlanName (cw_spec w) vlan name]) (\<lambda>_.
     sbind (cli_vlan w vlan) (\<lambda>after.
     sret (case after of
         Some v \<Rightarrow> if (case vi_name v of None \<Rightarrow> [] | Some n \<Rightarrow> n) \<noteq> name
           then Inl (Verification ''VLAN %d was not created with name %q'' [AInt vlan, AStr name] (Obs_Vlan before) (Obs_Vlan after))
           else Inr ()
       | None \<Rightarrow> Inl (Verification ''VLAN %d was not created with name %q'' [AInt vlan, AStr name] (Obs_Vlan before) (Obs_Vlan after))))))"

definition cli_DeleteVLAN :: "'s cli_writer \<Rightarrow> int \<Rightarrow> bool \<Rightarrow> ('s, go_error, unit) action" where
  "cli_DeleteVLAN w vlan force =
     sbind (cli_vlan w vlan) (\<lambda>before.
     case before of
       None \<Rightarrow> sret (Inl (errCliCommand ''VLAN %d does not exist'' [AInt vlan]))
     | Some v \<Rightarrow>
         let clash = (if force then [] else filter (\<lambda>p. p \<in> set (cw_protected w)) (vi_members v)) in
         if clash \<noteq> []
         then sret (Inl (Wraps ''VLAN %d includes protected port(s) %s; pass force=True to delete it anyway''
                [AInt vlan, AInts (sort clash)] ErrProtectedPort))
         else
           sbind (in_vlan_database w [spec_VlanDelete (cw_spec w) vlan]) (\<lambda>_.
           sbind (cli_vlan w vlan) (\<lambda>after.
           sret (if after \<noteq> None
             then Inl (Verification ''VLAN %d still exists after %q'' [AInt vlan, AStr (spec_VlanDelete (cw_spec w) vlan)]
                    (Obs_Vlan before) (Obs_Vlan after))
             else Inr ()))))"

definition membership_body :: "'s cli_writer \<Rightarrow> int \<Rightarrow> vlan_mode \<Rightarrow> string list" where
  "membership_body w vlan mode =
     generalMode w @
     (if mode = VlanExcluded then [spec_VlanParticipation (cw_spec w) vlan False]
      else [spec_VlanParticipation (cw_spec w) vlan True, spec_VlanTagging (cw_spec w) vlan (mode = VlanTagged)])"

definition cli_SetVLANMembership :: "'s cli_writer \<Rightarrow> int \<Rightarrow> int \<Rightarrow> vlan_mode \<Rightarrow> bool \<Rightarrow> ('s, go_error, unit) action" where
  "cli_SetVLANMembership w vlan port mode force =
     sbind (sret (cli_guard w port force)) (\<lambda>_.
     sbind (cli_vlan w vlan) (\<lambda>before.
     if before = None then sret (Inl (errCliCommand ''VLAN %d does not exist'' [AInt vlan]))
     else
       sbind (in_interface w port (membership_body w vlan mode)) (\<lambda>_.
       sbind (cli_vlan w vlan) (\<lambda>after.
       sret (if after = None
         then Inl (Verification ''VLAN %d disappeared while setting membership for port %d'' [AInt vlan, AInt port]
                (Obs_Vlan before) (Obs_Vlan after))
         else if portMode after port \<noteq> mode
         then Inl (Verification ''VLAN %d port %d did not read back as %s (got %s)''
                [AInt vlan, AInt port, AStr (mode_text mode), AStr (mode_text (portMode after port))]
                (Obs_Mode (portMode before port)) (Obs_Mode (portMode after port)))
         else Inr ())))))"

definition cli_SetPVID :: "'s cli_writer \<Rightarrow> int \<Rightarrow> int \<Rightarrow> bool \<Rightarrow> ('s, go_error, unit) action" where
  "cli_SetPVID w port vlan force =
     sbind (sret (cli_guard w port force)) (\<lambda>_.
     sbind (cli_vlan w vlan) (\<lambda>targetVlan.
     if targetVlan = None then sret (Inl (errCliCommand ''VLAN %d does not exist'' [AInt vlan]))
     else
       sbind (cli_GetPVIDs (cw_reader w)) (\<lambda>before.
       sbind (in_interface w port (generalMode w @ [spec_VlanPvid (cw_spec w) vlan])) (\<lambda>_.
       sbind (cli_GetPVIDs (cw_reader w)) (\<lambda>after.
       sret (if pvidFor after port \<noteq> Some vlan
         then Inl (Verification ''PVID for port %d did not read back as %d'' [AInt port, AInt vlan]
                (Obs_IntPtr (pvidFor before port)) (Obs_IntPtr (pvidFor after port)))
         else Inr ()))))))"

subsection \<open>Descriptions, speed and flow control\<close>

definition cli_described :: "'s cli_writer \<Rightarrow> int \<Rightarrow> ('s, go_error, string option) action" where
  "cli_described w port =
     sbind (se_Run (cw_session w) (spec_PortDescriptionShow (cw_spec w) port)) (\<lambda>t. sret (parsePortDescription t))"

definition cli_SetPortDescription :: "'s cli_writer \<Rightarrow> int \<Rightarrow> string \<Rightarrow> bool \<Rightarrow> ('s, go_error, unit) action" where
  "cli_SetPortDescription w port description force =
     sbind (sret (cli_guard w port force)) (\<lambda>_.
     sbind (cli_described w port) (\<lambda>before.
     sbind (in_interface w port [spec_PortDescription (cw_spec w) description]) (\<lambda>_.
     sbind (cli_described w port) (\<lambda>after.
     let want = some_unless_empty description in
     sret (if after \<noteq> want
       then Inl (Verification ''description for port %d did not read back as %s (got %s)''
              [AInt port, quoteOrNone want, quoteOrNone after] (Obs_StrPtr before) (Obs_StrPtr after))
       else Inr ())))))"

definition cli_portStatus :: "'s cli_writer \<Rightarrow> int \<Rightarrow> ('s, go_error, port_status option) action" where
  "cli_portStatus w port =
     sbind (cli_GetPorts (cw_reader w)) (\<lambda>statuses. sret (Inr (List.find (\<lambda>st. ps_port st = port) statuses)))"

definition speedConfig :: "'s cli_writer \<Rightarrow> int \<Rightarrow> ('s, go_error, port_speed option) action" where
  "speedConfig w port =
     sbind (cli_portStatus w port) (\<lambda>status.
     sret (case status of
         None \<Rightarrow> Inl (errCliCommand ''switch reports no port %d'' [AInt port])
       | Some st \<Rightarrow> Inr (ps_speed_config st)))"

definition cli_SetPortSpeed :: "'s cli_writer \<Rightarrow> int \<Rightarrow> port_speed \<Rightarrow> bool \<Rightarrow> ('s, go_error, unit) action" where
  "cli_SetPortSpeed w port speed force =
     sbind (sret (cli_guard w port force)) (\<lambda>_.
     if \<not> sp_autonegotiate speed \<and> sp_speed_mbps speed = Some 1000
     then sret (Inl (errCliCommand ''1000 Mbit/s cannot be FORCED on this firmware -- 1000BASE-T requires auto-negotiation, so the CLI offers 1000 only as an advertised rate. Use PortSpeed.auto() instead.'' []))
     else
       sbind (speedConfig w port) (\<lambda>before.
       sbind (sret (spec_PortSpeed (cw_spec w) speed)) (\<lambda>command.
       sbind (in_interface w port [command]) (\<lambda>_.
       sbind (speedConfig w port) (\<lambda>after.
       sret (case after of
           Some sp \<Rightarrow> if PortSpeed_Equal sp speed then Inr ()
             else Inl (Verification ''speed for port %d did not read back'' [AInt port] (Obs_Speed before) (Obs_Speed after))
         | None \<Rightarrow> Inl (Verification ''speed for port %d did not read back'' [AInt port] (Obs_Speed before) (Obs_Speed after))))))))"

definition flowControl :: "'s cli_writer \<Rightarrow> int \<Rightarrow> ('s, go_error, bool option) action" where
  "flowControl w port =
     sbind (cli_portStatus w port) (\<lambda>status.
     sret (case status of
         None \<Rightarrow> Inl (errCliCommand ''switch reports no port %d'' [AInt port])
       | Some st \<Rightarrow> Inr (ps_flow_control st)))"

definition cli_SetFlowControl :: "'s cli_writer \<Rightarrow> int \<Rightarrow> bool \<Rightarrow> bool \<Rightarrow> ('s, go_error, unit) action" where
  "cli_SetFlowControl w port enabled force =
     sbind (sret (cli_guard w port force)) (\<lambda>_.
     sbind (flowControl w port) (\<lambda>before.
     sbind (in_interface w port [spec_PortFlowControl (cw_spec w) enabled]) (\<lambda>_.
     sbind (flowControl w port) (\<lambda>after.
     sret (if after \<noteq> Some enabled
       then Inl (Verification ''flow control for port %d did not read back as %v'' [AInt port, AStr (bool_text enabled)]
              (Obs_BoolPtr before) (Obs_BoolPtr after))
       else Inr ())))))"

definition cli_SetPortEnabled :: "'s cli_writer \<Rightarrow> int \<Rightarrow> bool \<Rightarrow> bool \<Rightarrow> ('s, go_error, unit) action" where
  "cli_SetPortEnabled w port enabled force =
     sbind (sret (if enabled then Inr () else cli_guard w port force)) (\<lambda>_.
     sbind (cli_portStatus w port) (\<lambda>before.
     sbind (in_interface w port [spec_PortAdmin (cw_spec w) enabled]) (\<lambda>_.
     sbind (cli_portStatus w port) (\<lambda>after.
     sret (if map_option ps_admin_enabled after \<noteq> Some enabled
       then Inl (Verification ''admin state for port %d did not read back as %v'' [AInt port, AStr (bool_text enabled)]
              (Obs_Port before) (Obs_Port after))
       else Inr ())))))"

subsection \<open>PoE\<close>

definition requirePoE :: "'s cli_writer \<Rightarrow> unit res" where
  "requirePoE w =
     (if sm_poe_port_count (cw_model w) = 0
      then Inl (Wraps ''model %q has no PSE ports, so its firmware has no 'poe' command (verified live: 'poe ?' -> '%% Unrecognized command')''
             [AStr (sm_key (cw_model w))] ErrUnsupportedCapability)
      else Inr ())"

definition cli_poeStatus :: "'s cli_writer \<Rightarrow> int \<Rightarrow> ('s, go_error, poe_status option) action" where
  "cli_poeStatus w port =
     sbind (cli_GetPoE (cw_reader w)) (\<lambda>statuses. sret (Inr (List.find (\<lambda>st. poe_port st = port) statuses)))"

definition cli_deadline :: "'s cli_writer \<Rightarrow> int \<Rightarrow> ('s, go_error, int) action" where
  "cli_deadline w d s = (case cw_clock w s of (t, s') \<Rightarrow> (Inr (t + d), s'))"

definition cli_SetPoE :: "'s cli_writer \<Rightarrow> int \<Rightarrow> bool \<Rightarrow> bool \<Rightarrow> ('s, unit) run" where
  "cli_SetPoE w port on force =
     run_bind (returns (sret (requirePoE w))) (\<lambda>_.
     run_bind (returns (sret (if on then Inr () else cli_guard w port force))) (\<lambda>_.
     run_bind (returns (cli_poeStatus w port)) (\<lambda>before.
     run_bind (returns (in_interface w port [spec_PoeAdmin (cw_spec w) on])) (\<lambda>_.
     run_bind (returns (cli_deadline w (if on then pct_on DefaultPoeCycleTimeouts else pct_off DefaultPoeCycleTimeouts))) (\<lambda>deadline.
     poll (cli_poeStatus w port) (\<lambda>after. map_option poe_admin_enabled after = Some on)
       (\<lambda>after. Verification ''PoE admin for port %d did not read back as %v'' [AInt port, AStr (bool_text on)]
          (Obs_PoE before) (Obs_PoE after))
       (cw_clock w) (cw_sleep w (pct_poll DefaultPoeCycleTimeouts)) deadline)))))"

definition cli_poeReset ::
    "'s cli_writer \<Rightarrow> int \<Rightarrow> poe_cycle_timeouts \<Rightarrow> (poe_status option \<Rightarrow> bool) \<Rightarrow> (int \<Rightarrow> string \<times> msg_arg list) \<Rightarrow> ('s, unit) run" where
  "cli_poeReset w port timeouts recovered timeoutMessage =
     run_bind (returns (sret (requirePoE w))) (\<lambda>_.
     run_bind (returns (cli_poeStatus w port)) (\<lambda>before.
     run_bind (returns (in_interface w port [cs_poe_reset_cmd (cw_spec w)])) (\<lambda>_.
     run_bind (returns (cli_deadline w (pct_on timeouts))) (\<lambda>deadline.
     poll (cli_poeStatus w port) recovered
       (\<lambda>after. case timeoutMessage (pct_on timeouts) of (fmt, args) \<Rightarrow>
          Verification fmt args (Obs_PoE before) (Obs_PoE after))
       (cw_clock w) (cw_sleep w (pct_poll timeouts)) deadline))))"

definition cli_CyclePoE :: "'s cli_writer \<Rightarrow> int \<Rightarrow> poe_cycle_timeouts \<Rightarrow> bool \<Rightarrow> ('s, unit) run" where
  "cli_CyclePoE w port timeouts force =
     run_bind (returns (sret (cli_guard w port force))) (\<lambda>_.
     cli_poeReset w port timeouts (\<lambda>status. case status of None \<Rightarrow> False | Some st \<Rightarrow> Delivering st)
       (\<lambda>timeout. (''PoE port %d did not return to delivering within %s'', [AInt port, AInt timeout])))"

definition cli_ClearPoEFault :: "'s cli_writer \<Rightarrow> int \<Rightarrow> poe_cycle_timeouts \<Rightarrow> bool \<Rightarrow> ('s, unit) run" where
  "cli_ClearPoEFault w port timeouts force =
     run_bind (returns (sret (cli_guard w port force))) (\<lambda>_.
     cli_poeReset w port timeouts
       (\<lambda>status. case status of None \<Rightarrow> False
          | Some st \<Rightarrow> poe_detect st = PoEDetectDelivering \<or> poe_detect st = PoEDetectSearching)
       (\<lambda>timeout. (''PoE port %d still in FAULT after clear within %s'', [AInt port, AInt timeout])))"

subsection \<open>Host name, remote logging, management address, reboot\<close>

definition cli_SetHostname :: "'s cli_writer \<Rightarrow> string \<Rightarrow> ('s, go_error, unit) action" where
  "cli_SetHostname w name =
     (if TrimSpace name = []
      then sret (Inl (Plain ''hostname must not be empty; clearing a switch's host name is `no hostname` on FASTPATH, which this library does not implement because it has not been verified on a device'' []))
      else
        sbind (cli_GetHostname (cw_reader w)) (\<lambda>before.
        sbind (in_configure w [spec_HostnameConfig (cw_spec w) name]) (\<lambda>_.
        sbind (cli_GetHostname (cw_reader w)) (\<lambda>after.
        sret (if after \<noteq> name
          then Inl (Verification ''`show hosts` reports %q after setting hostname %q'' [AStr after, AStr name]
                 (Obs_Str before) (Obs_Str after))
          else Inr ())))))"

definition cli_SetSyslogEnabled :: "'s cli_writer \<Rightarrow> bool \<Rightarrow> ('s, go_error, unit) action" where
  "cli_SetSyslogEnabled w enabled =
     sbind (cli_GetSyslog (cw_reader w)) (\<lambda>before.
     sbind (in_configure w [spec_LoggingSyslog (cw_spec w) enabled]) (\<lambda>_.
     sbind (cli_GetSyslog (cw_reader w)) (\<lambda>after.
     sret (if sc_enabled after \<noteq> enabled
       then Inl (Verification ''remote logging did not read back as enabled=%v'' [AStr (bool_text enabled)]
              (Obs_Bool (sc_enabled before)) (Obs_Bool (sc_enabled after)))
       else Inr ()))))"

definition cli_AddSyslogCollector :: "'s cli_writer \<Rightarrow> string \<Rightarrow> int \<Rightarrow> int \<Rightarrow> ('s, go_error, unit) action" where
  "cli_AddSyslogCollector w host port severity =
     sbind (cli_GetSyslog (cw_reader w)) (\<lambda>before.
     if host \<in> set (map sy_host (sc_servers before))
     then sret (Inl (errCliCommand ''a syslog collector for %q already exists'' [AStr host]))
     else
       sbind (sret (spec_LoggingHostAdd (cw_spec w) host port severity)) (\<lambda>command.
       sbind (in_configure w [command]) (\<lambda>_.
       sbind (cli_GetSyslog (cw_reader w)) (\<lambda>after.
       sret (case List.find (\<lambda>srv. sy_host srv = host) (sc_servers after) of
           Some added \<Rightarrow> if sy_port added \<noteq> port \<or> sy_severity added \<noteq> severity
             then Inl (Verification ''syslog collector %q did not read back as port=%d severity=%d''
                    [AStr host, AInt port, AInt severity] (Obs_Servers (sc_servers before)) (Obs_Servers (sc_servers after)))
             else Inr ()
         | None \<Rightarrow> Inl (Verification ''syslog collector %q did not read back as port=%d severity=%d''
                    [AStr host, AInt port, AInt severity] (Obs_Servers (sc_servers before)) (Obs_Servers (sc_servers after))))))))"

definition cli_RemoveSyslogCollector :: "'s cli_writer \<Rightarrow> string \<Rightarrow> ('s, go_error, unit) action" where
  "cli_RemoveSyslogCollector w host =
     sbind (cli_GetSyslog (cw_reader w)) (\<lambda>before.
     case List.find (\<lambda>srv. sy_host srv = host) (sc_servers before) of
       None \<Rightarrow> sret (Inl (errCliCommand ''no syslog collector for %q to remove'' [AStr host]))
     | Some row \<Rightarrow>
         (case sy_index row of
           None \<Rightarrow> sret (Inl (errCliCommand ''the syslog collector for %q carries no table index, so it cannot be addressed for removal'' [AStr host]))
         | Some index \<Rightarrow>
             sbind (in_configure w [spec_LoggingHostRemove (cw_spec w) index]) (\<lambda>_.
             sbind (cli_GetSyslog (cw_reader w)) (\<lambda>after.
             sret (if host \<in> set (map sy_host (sc_servers after))
               then Inl (Verification ''syslog collector %q is still configured after removal'' [AStr host]
                      (Obs_Servers (sc_servers before)) (Obs_Servers (sc_servers after)))
               else Inr ())))))"

text \<open>The first of the three fields that does not read back is the one reported.\<close>

fun mgmt_mismatch :: "(string \<times> string \<times> string option) list \<Rightarrow> (string \<times> string \<times> string option) option" where
  "mgmt_mismatch [] = None"
| "mgmt_mismatch ((name, want, got) # rest) = (if got \<noteq> Some want then Some (name, want, got) else mgmt_mismatch rest)"

definition cli_SetMgmtIP :: "'s cli_writer \<Rightarrow> string \<Rightarrow> string \<Rightarrow> string \<Rightarrow> bool \<Rightarrow> ('s, go_error, unit) action" where
  "cli_SetMgmtIP w address netmask gateway force =
     (if \<not> force
      then sret (Inl (Wraps ''set_mgmt_ip can strand the switch (and drops the CLI session it is issued over); pass force=True to proceed'' [] ErrProtectedPort))
      else case spec_MgmtIP (cw_spec w) address netmask gateway of (execCmds, configCmds) \<Rightarrow>
        sbind (cli_GetMgmtIP (cw_reader w)) (\<lambda>before.
        sbind (run_all (cw_session w) execCmds) (\<lambda>_.
        sbind (if configCmds \<noteq> [] then in_configure w configCmds else sret (Inr ())) (\<lambda>_.
        sbind (cli_GetMgmtIP (cw_reader w)) (\<lambda>after.
        sret (case mgmt_mismatch [(''address'', address, mg_address after), (''netmask'', netmask, mg_netmask after),
                 (''gateway'', gateway, mg_gateway after)] of
            Some (name, want, got) \<Rightarrow> Inl (Verification ''management %s did not read back as %q (got %s)''
              [AStr name, AStr want, quoteOrNone got] (Obs_Mgmt before) (Obs_Mgmt after))
          | None \<Rightarrow> Inr ()))))))"

definition cli_Reboot :: "'s cli_writer \<Rightarrow> bool \<Rightarrow> ('s, go_error, unit) action" where
  "cli_Reboot w force s =
     (if \<not> force then (Inl (Wraps ''reboot is disruptive; pass force=True'' [] ErrProtectedPort), s)
      else (case se_RunWriteMemory (cw_session w) (cs_reload_cmd (cw_spec w)) True s of
          (Inl e, s') \<Rightarrow> ((if errors_is e ErrCliTransport then Inr () else Inl e), s')
        | (Inr _, s') \<Rightarrow> (Inr (), s')))"

end
