(* ===== verification/Cli_Render.thy ===== *)
theory Cli_Render
  imports Fastpath_Spec Virtual_State
begin

section \<open>What the virtual command line prints (virtual/cliface\_render.go)\<close>

text \<open>
  The \<^verbatim>\<open>show\<close> pages of the virtual switch: the dotted-leader lines and fixed-width tables the
  parsers of package fastpath read.  A renderer reads the state only, but the PoE page uses up the
  lag of a port whose status trails its setting.  An unknown model key panics where the code
  consults the registry.
\<close>

subsection \<open>Lines and tables\<close>

definition LF :: string where "LF = [CHR 0x0A]"

definition cliInvalid :: string where
  "cliInvalid = ''% Invalid input detected at '' @ [APOSTROPHE] @ ''^'' @ [APOSTROPHE] @ '' marker.''"

definition physPorts :: "vstate \<Rightarrow> int list res" where
  "physPorts s = rbind (mustModel s) (\<lambda>m. Inr (filter (\<lambda>p. 1 \<le> p \<and> p \<le> int (sm_port_count m)) (sorted_keys (vs_ports s))))"

definition cli_iface :: "vstate \<Rightarrow> int \<Rightarrow> string" where
  "cli_iface s port =
     (case map_of (vs_ports s) port of
        Some sim \<Rightarrow> if vp_name sim \<noteq> [] then vp_name sim else ''1/0/'' @ show_int port
      | None \<Rightarrow> ''1/0/'' @ show_int port)"

definition usesIPManagementDialect :: "vstate \<Rightarrow> bool" where
  "usesIPManagementDialect s \<longleftrightarrow> prefix ''m4300'' (vs_model_key s)"

definition isM4300 :: "vstate \<Rightarrow> bool" where
  "isM4300 s = usesIPManagementDialect s"

definition cliDotted :: "string \<Rightarrow> string \<Rightarrow> string" where
  "cliDotted label val =
     (let fill = 46 - int (length label); n = (if fill < 2 then 2 else fill) in
      label @ replicate (nat n) (CHR ''.'') @ '' '' @ val)"

definition ljust :: "string \<Rightarrow> nat \<Rightarrow> string" where
  "ljust s w = (if w \<le> length s then s else s @ replicate (w - length s) (CHR '' ''))"

definition table_line :: "nat list \<Rightarrow> string list \<Rightarrow> string" where
  "table_line widths cells =
     Join (map (\<lambda>(i, w). ljust (if i < length cells then cells ! i else []) w) (enumerate 0 widths)) '' ''"

definition table_ruler :: "nat list \<Rightarrow> string" where
  "table_ruler widths = Join (map (\<lambda>w. replicate w (CHR ''-'')) widths) '' ''"

definition cliTable :: "string list \<Rightarrow> nat list \<Rightarrow> string list list \<Rightarrow> string" where
  "cliTable headers widths rows =
     Join (table_line widths headers # table_ruler widths # map (table_line widths) rows) LF"

definition cliMacHex :: "bytes \<Rightarrow> string" where
  "cliMacHex raw = Join (map show_HEX raw) '':''"

definition cliSpeedText :: "int \<Rightarrow> string" where
  "cliSpeedText mbps =
     (if 1000 \<le> mbps \<and> mbps mod 1000 = 0 then show_int (mbps div 1000) @ ''G Full'' else show_int mbps @ '' Full'')"

subsection \<open>show version, show network, show hosts\<close>

definition renderVersion :: "vstate \<Rightarrow> string res" where
  "renderVersion s = rbind (mustModel s) (\<lambda>sm.
     let descr = (if vs_sys_descr s = [] then ''NETGEAR '' @ sm_display_name sm @ '' Managed Switch'' else vs_sys_descr s);
         modelName = (if vs_model_name s = [] then sm_display_name sm else vs_model_name s) in
     Inr (Join [''Switch: 1'', [],
       cliDotted ''System Description'' descr,
       cliDotted ''Machine Model'' modelName,
       cliDotted ''Serial Number'' (vs_serial s),
       cliDotted ''Burned In MAC Address'' (cliMacHex (vs_mac s)),
       cliDotted ''Software Version'' (vs_firmware s)] LF))"

definition renderNetwork :: "vstate \<Rightarrow> string" where
  "renderNetwork s =
     Join [cliDotted ''Interface Status'' ''Up'',
       cliDotted ''IP Address'' (vm_address (vs_mgmt s)),
       cliDotted ''Subnet Mask'' (vm_netmask (vs_mgmt s)),
       cliDotted ''Default Gateway'' (vm_gateway (vs_mgmt s)),
       cliDotted ''Burned In MAC Address'' (cliMacHex (vs_mac s)),
       cliDotted ''Configured IPv4 Protocol'' (if vm_mode (vs_mgmt s) = ''dhcp'' then ''DHCP'' else ''None''),
       cliDotted ''Management VLAN ID'' ''1''] LF"

definition renderHosts :: "vstate \<Rightarrow> string" where
  "renderHosts s =
     Join [cliDotted ''Host name'' (vs_hostname s),
       cliDotted ''Default domain'' ''Domain name is not configured'',
       cliDotted ''Default domain list'' ''Domain Name List is not configured'',
       cliDotted ''Domain Name Lookup'' ''Enabled'',
       cliDotted ''Number of retries'' ''2'',
       cliDotted ''Retry timeout period'' ''3'',
       cliDotted ''Name servers (Preference order)'' ''10.1.5.1'',
       [],
       ''Configured host name-to-address mapping:'',
       [],
       '' Host                                Addresses'',
       ''------------------------ ----------------------'',
       ''No host name is configured to IP address'',
       [],
       '' Host                   Total   Elapsed    Type        Addresses'',
       ''---------------------- -------  -------    ----        --------------'',
       ''No hostname is mapped to an IP address''] LF"

subsection \<open>show logging, show logging hosts\<close>

definition cliSyslogSeverityWords :: "(int \<times> string) list" where
  "cliSyslogSeverityWords =
     [(0, ''emergency''), (1, ''alert''), (2, ''critical''), (3, ''error''), (4, ''warning''), (5, ''notice''),
      (6, ''info''), (7, ''debug'')]"

definition cliSyslogSeverityWord :: "int \<Rightarrow> string" where
  "cliSyslogSeverityWord severity =
     (case map_of cliSyslogSeverityWords severity of Some w \<Rightarrow> w | None \<Rightarrow> show_int severity)"

definition renderLogging :: "vstate \<Rightarrow> string" where
  "renderLogging s =
     Join [''Logging Client Local Port           : '' @ show_int (vy_local_port (vs_syslog s)),
       ''Logging Client Source Interface     : serviceport'',
       ''CLI Command Logging                 : disabled'',
       ''Console Logging                     : disabled'',
       ''Console Logging Severity Filter     : error'',
       ''Buffered Logging                    : enabled'',
       ''Buffered Logging Severity Filter    : notice'',
       [],
       ''Syslog Logging                      : '' @ (if vy_admin_mode (vs_syslog s) = 1 then ''enabled'' else ''disabled''),
       [],
       ''Log Messages Received               : 9850'',
       ''Log Messages Dropped                : 0'',
       ''Log Messages Relayed                : 118''] LF"

text \<open>\<^verbatim>\<open>%-ws\<close> of package fmt: the width counts runes.\<close>

definition fmt_pad :: "nat \<Rightarrow> string \<Rightarrow> string" where
  "fmt_pad w t = t @ replicate (w - length (runes (bytes_of t))) (CHR '' '')"

definition logging_host_line :: "collector_sim \<Rightarrow> string" where
  "logging_host_line c =
     Join [fmt_pad 5 (show_int (vc_index c)), fmt_pad 24 (vc_host c), fmt_pad 10 (cliSyslogSeverityWord (vc_severity c)),
       fmt_pad 6 (show_int (vc_port c)), fmt_pad 9 (if vc_status c \<noteq> 1 then ''Inactive'' else ''Active''), ''udp''] '' ''"

definition renderLoggingHosts :: "vstate \<Rightarrow> string" where
  "renderLoggingHosts s =
     Join ([''Index   IP Address/Hostname     Severity    Port   Status  Mode   Auth    Cert#'',
            ''----- ------------------------ ---------- ------ --------- ----- -------- -----''] @
           map logging_host_line (vy_collectors (vs_syslog s))) LF"

subsection \<open>show port all, show vlan, show vlan port all\<close>

definition physicalMode :: "port_sim \<Rightarrow> string" where
  "physicalMode sim = (if vp_physical_mode sim = [] then ''Auto'' else vp_physical_mode sim)"

definition port_row :: "vstate \<Rightarrow> int \<Rightarrow> string list" where
  "port_row s p = (let sim = the (map_of (vs_ports s) p) in
     [cli_iface s p, [], if vp_admin sim then ''Enable'' else ''Disable'', physicalMode sim,
      if vp_link sim \<and> vp_speed sim \<noteq> 0 then cliSpeedText (vp_speed sim) else [],
      if vp_link sim then ''Up'' else ''Down'', ''Enable'', ''Enable'',
      if vp_flow_control sim then ''Enable'' else ''Disable''] @ (if isM4300 s then [''Yes''] else []))"

definition renderPorts :: "vstate \<Rightarrow> string res" where
  "renderPorts s = rbind (physPorts s) (\<lambda>ports.
     Inr (cliTable
       ([''Intf'', ''Type'', ''Admin'', ''Physical'', ''Physical'', ''Link'', ''Link'', ''LACP'', ''Flow''] @
        (if isM4300 s then [''Stack''] else []))
       ([9, 6, 9, 10, 10, 6, 7, 6, 7] @ (if isM4300 s then [8] else []))
       (map (port_row s) ports)))"

definition vlan_type_text :: "int \<Rightarrow> string" where
  "vlan_type_text vid = (if vid = 1 then ''Default'' else ''Static'')"

definition renderVlanBrief :: "vstate \<Rightarrow> string" where
  "renderVlanBrief s =
     cliTable [''VLAN ID'', ''VLAN Name'', ''VLAN Type''] [7, 32, 19]
       (map (\<lambda>vid. [show_int vid, vv_name (the (map_of (vs_vlans s) vid)), vlan_type_text vid]) (sorted_keys (vs_vlans s)))"

definition vlan_detail_cells :: "vstate \<Rightarrow> int \<Rightarrow> int \<Rightarrow> string list" where
  "vlan_detail_cells s vid p =
     (case map_of (vs_vlans s) vid of
        Some v \<Rightarrow> if in_set (vv_member v) p
          then [cli_iface s p, ''Include'', ''Include'', if in_set (vv_untagged v) p then ''Untagged'' else ''Tagged'']
          else [cli_iface s p, ''Exclude'', ''Autodetect'', ''Untagged'']
      | None \<Rightarrow> [cli_iface s p, ''Exclude'', ''Autodetect'', ''Untagged''])"

definition renderVlanDetail :: "vstate \<Rightarrow> int \<Rightarrow> string res" where
  "renderVlanDetail s vid = rbind (physPorts s) (\<lambda>ports.
     Inr (Join [''VLAN ID: '' @ show_int vid,
         ''VLAN Name: '' @ (case map_of (vs_vlans s) vid of Some v \<Rightarrow> vv_name v | None \<Rightarrow> []),
         ''VLAN Type: '' @ vlan_type_text vid, []] LF @ LF @
       cliTable [''Interface'', ''Current'', ''Configured'', ''Tagging''] [10, 8, 11, 8]
         (map (vlan_detail_cells s vid) ports)))"

definition pvid_cells :: "vstate \<Rightarrow> int \<Rightarrow> string list" where
  "pvid_cells s p =
     (let pvidStr = show_int (case map_of (vs_pvids s) p of Some v \<Rightarrow> v | None \<Rightarrow> 1) in
      [cli_iface s p, pvidStr, pvidStr, ''Admit All'', ''Disable'', ''Disable'', ''Enable'', ''0''])"

definition renderPvids :: "vstate \<Rightarrow> string res" where
  "renderPvids s = rbind (physPorts s) (\<lambda>ports.
     Inr (cliTable [''Interface'', ''Port'', ''Port'', ''Acceptable'', ''Ingress'', ''Ingress'', ''GVRP'', ''Default'']
       [9, 10, 8, 11, 10, 9, 7, 8] (map (pvid_cells s) ports)))"

subsection \<open>show mac-addr-table, show lldp remote-device all\<close>

definition mac_cells :: "vstate \<Rightarrow> mac_sim \<Rightarrow> string list" where
  "mac_cells s m =
     (let ifIndex = (case map_of (vs_bridge_ports s) (va_bridge_port m) of Some joined \<Rightarrow> joined | None \<Rightarrow> va_bridge_port m) in
      [show_int (va_vlan m), cliMacHex (va_mac m),
       case map_of (vs_ports s) ifIndex of Some sim \<Rightarrow> vp_name sim | None \<Rightarrow> ''1/0/'' @ show_int ifIndex,
       show_int ifIndex, ''Learned''])"

definition renderMacTable :: "vstate \<Rightarrow> string" where
  "renderMacTable s =
     cliTable [''VLAN ID'', ''MAC Address'', ''Interface'', ''IfIndex'', ''Status''] [7, 18, 21, 7, 12]
       (map (mac_cells s) (vs_macs s))"

definition isPrintableASCIIBytes :: "string \<Rightarrow> bool" where
  "isPrintableASCIIBytes s \<longleftrightarrow> list_all (\<lambda>b. \<not> (b < 0x20 \<or> b > 0x7E)) (bytes_of s)"

definition isMACShapedLLDPID :: "string \<Rightarrow> bool" where
  "isMACShapedLLDPID raw \<longleftrightarrow> length raw = 6 \<and> \<not> isPrintableASCIIBytes raw"

definition formatChassisHex :: "string \<Rightarrow> string" where
  "formatChassisHex chassis = Join (map show_HEX (bytes_of chassis)) '':''"

definition lldpPortIDText :: "string \<Rightarrow> string" where
  "lldpPortIDText portID = (if isMACShapedLLDPID portID then formatChassisHex portID else portID)"

definition lldp_cells :: "vstate \<Rightarrow> lldp_sim \<Rightarrow> string list" where
  "lldp_cells s n =
     [cli_iface s (vl_local_port n), show_int (vl_rem_idx n),
      if vl_chassis n \<noteq> [] then cliMacHex (bytes_of (vl_chassis n)) else [],
      lldpPortIDText (vl_port_id n), vl_sys_name n]"

definition renderLLDP :: "vstate \<Rightarrow> string" where
  "renderLLDP s =
     Join [''LLDP Remote Device Summary'', [], ''Local''] LF @ LF @
     cliTable [''Interface'', ''RemID'', ''Chassis ID'', ''Port ID'', ''System Name''] [9, 8, 20, 18, 18]
       (map (lldp_cells s) (vs_lldp s))"

subsection \<open>show poe port info all, show environment\<close>

definition cliPoeStatusText :: "poe_sim \<Rightarrow> string \<times> poe_sim" where
  "cliPoeStatusText psim =
     (if 0 < vq_status_lag psim then (''Disabled'', psim\<lparr>vq_status_lag := vq_status_lag psim - 1\<rparr>)
      else (if \<not> vq_admin psim then ''Disabled''
            else if vq_detect psim = 3 then ''Delivering Power''
            else if vq_detect psim = 4 \<or> vq_detect psim = 6 then ''Fault''
            else ''Searching'', psim))"

definition poe_cells :: "vstate \<Rightarrow> int \<Rightarrow> poe_sim \<Rightarrow> string \<Rightarrow> string list" where
  "poe_cells s p psim status =
     [cli_iface s p, if p \<le> 8 then ''Yes'' else ''No'', if p \<le> 8 then ''32000'' else ''18000'',
      if vq_power_mw psim \<noteq> 0 then ''4'' else ''Unknown'', show_int (vq_power_mw psim), ''0'',
      if vq_power_mw psim \<noteq> 0 then ''54'' else ''0''] @
     (if isM4300 s then [] else [''30'']) @ [status, ''No Error'']"

fun poe_rows :: "vstate \<Rightarrow> int list \<Rightarrow> string list list \<times> vstate" where
  "poe_rows s [] = ([], s)"
| "poe_rows s (p # ps) =
     (case map_of (vs_poe s) p of
        None \<Rightarrow> poe_rows s ps
      | Some psim \<Rightarrow>
          (case cliPoeStatusText psim of (status, psim') \<Rightarrow>
             case poe_rows (s\<lparr>vs_poe := AList.update p psim' (vs_poe s)\<rparr>) ps of (rows, s') \<Rightarrow>
               (poe_cells s p psim status # rows, s')))"

definition renderPoE :: "vstate \<Rightarrow> string \<times> vstate" where
  "renderPoE s =
     (case poe_rows s (sorted_keys (vs_poe s)) of (rows, s') \<Rightarrow>
        (cliTable
          ([''Intf'', ''High Power'', ''Max Power (mW)'', ''Class'', ''Power (mW)'', ''Output Current (mA)'', ''Output Voltage (V)''] @
           (if isM4300 s then [] else [''Temperature'']) @ [''Status'', ''Fault Status''])
          ([7, 11, 15, 9, 11, 20, 19] @ (if isM4300 s then [] else [13]) @ [18, 13]) rows, s'))"

definition numbered :: "sensor_sim list \<Rightarrow> (nat \<times> sensor_sim) list" where
  "numbered = enumerate 1"

definition renderEnvironment :: "vstate \<Rightarrow> string" where
  "renderEnvironment s =
     (let temps = filter (\<lambda>n. vn_kind n = ''temperature'') (vs_sensors s);
          fans = filter (\<lambda>n. vn_kind n = ''fan'') (vs_sensors s);
          psus = filter (\<lambda>n. vn_kind n = ''power'') (vs_sensors s) in
      Join [cliDotted ''Temp (C)'' (case temps of [] \<Rightarrow> ''36'' | t # _ \<Rightarrow> vn_raw t),
        cliDotted ''Fan Speed, RPM'' (case fans of [] \<Rightarrow> ''Not Supported'' | t # _ \<Rightarrow> vn_raw t),
        [], ''Temperature Sensors:'',
        cliTable [''Unit'', ''Sensor'', ''Description'', ''Temp (C)'', ''State'', ''Max_Temp (C)''] [4, 6, 16, 10, 14, 14]
          (map (\<lambda>(i, n). [''1'', show_nat i, vn_instance n, vn_raw n, ''Normal'', ''55'']) (numbered temps)),
        [], ''Fans:'',
        cliTable [''Unit'', ''Fan'', ''Description'', ''Type'', ''Speed'', ''Duty'', ''State''] [4, 3, 14, 9, 13, 13, 14]
          (map (\<lambda>(i, n). [''1'', show_nat i, vn_instance n, ''Fixed'', vn_raw n, ''Not Supported'', ''Operational'']) (numbered fans)),
        [], if isM4300 s then ''Power Modules:'' else ''Power supplies:'',
        cliTable [''Unit'', ''Power supply'', ''Description'', ''Type'', ''State''] [4, 12, 16, 10, 14]
          (map (\<lambda>(i, n). [''1'', show_nat i, vn_instance n, ''Fixed'', ''Operational'']) (numbered psus))] LF)"

subsection \<open>show interface ethernet, show port description\<close>

definition counter_text :: "u64 option \<Rightarrow> string" where
  "counter_text c = (case c of None \<Rightarrow> ''0'' | Some v \<Rightarrow> show_nat (unat v))"

definition renderInterfaceCounters :: "vstate \<Rightarrow> int \<Rightarrow> string" where
  "renderInterfaceCounters s port =
     (let counter = (\<lambda>sel. counter_text (Option.bind (map_of (vs_ports s) port) sel)) in
      Join [cliDotted ''Total Packets Received (Octets)'' (counter vp_rx_octets),
        cliDotted ''Unicast Packets Received'' (counter vp_rx_ucast),
        cliDotted ''Total Packets Received with MAC Errors'' (counter vp_rx_errors),
        cliDotted ''Total Packets Transmitted (Octets)'' (counter vp_tx_octets),
        cliDotted ''Unicast Packets Transmitted'' (counter vp_tx_ucast),
        cliDotted ''Total Transmit Errors'' (counter vp_tx_errors),
        cliDotted ''Time Since Counters Last Cleared'' ''1 day 0 hr 0 min 0 sec''] LF)"

definition renderPortDescription :: "vstate \<Rightarrow> string \<Rightarrow> string res" where
  "renderPortDescription s name = rbind (physPorts s) (\<lambda>ports.
     case List.find (\<lambda>p. cli_iface s p = name) ports of
       None \<Rightarrow> Inr cliInvalid
     | Some port \<Rightarrow>
         let desc = (case vp_description (the (map_of (vs_ports s) port)) of None \<Rightarrow> [] | Some d \<Rightarrow> d) in
         Inr (Join [''Interface....... '' @ name,
           ''ifIndex......... '' @ show_int port,
           trim_right (CHR '' '') (''Description..... '' @ desc),
           ''MAC address..... '' @ cliMacHex (vs_mac s),
           ''Bit Offset Val.. '' @ show_int port] LF))"

subsection \<open>show users, the services\<close>

definition cliDottedColon :: "string \<Rightarrow> string \<Rightarrow> string" where
  "cliDottedColon label val = cliDotted (label @ '':'') val"

definition cliUsersTable :: "string list \<Rightarrow> string list \<Rightarrow> nat list \<Rightarrow> string list list \<Rightarrow> string" where
  "cliUsersTable headers1 headers2 widths rows =
     Join (table_line widths headers1 # table_line widths headers2 # table_ruler widths # map (table_line widths) rows) LF"

definition renderUsers :: "vstate \<Rightarrow> string" where
  "renderUsers s =
     cliUsersTable [''User'', [], ''SNMPv3'', ''SNMPv3'', ''SNMPv3'']
       [''User Name'', ''Access Mode'', ''Access Mode'', ''Authentication'', ''Encryption''] [24, 12, 11, 14, 10]
       (map (\<lambda>u. [vu_name u, vu_cli_access_mode u, vu_snmpv3_access u, vu_snmpv3_auth u, vu_snmpv3_encryption u]) (vs_users s))"

definition cliServicePort :: "(string \<Rightarrow> string \<Rightarrow> string) \<Rightarrow> string \<Rightarrow> service_sim \<Rightarrow> string" where
  "cliServicePort leader label sim =
     (case vf_cli_port sim of None \<Rightarrow> [] | Some p \<Rightarrow> LF @ leader label (show_int p))"

definition service_of :: "vstate \<Rightarrow> string \<Rightarrow> service_sim" where
  "service_of s name =
     (case map_of (vs_services s) name of
        Some f \<Rightarrow> f | None \<Rightarrow> \<lparr>vf_enabled = False, vf_port = None, vf_cli_port = None\<rparr>)"

definition enableWord :: "bool \<Rightarrow> string" where
  "enableWord on = (if on then ''Enabled'' else ''Disabled'')"

definition enableWordShort :: "bool \<Rightarrow> string" where
  "enableWordShort on = (if on then ''Enable'' else ''Disable'')"

definition renderHTTPService :: "vstate \<Rightarrow> string" where
  "renderHTTPService s =
     cliDotted ''HTTP Mode (Unsecure)'' (enableWord (vf_enabled (service_of s ''http''))) @
     cliServicePort cliDotted ''HTTP Port'' (service_of s ''http'') @
     LF @ cliDotted ''HTTP Mode (Secure)'' (enableWord (vf_enabled (service_of s ''https''))) @
     cliServicePort cliDotted ''Secure Port'' (service_of s ''https'')"

definition renderTelnetService :: "vstate \<Rightarrow> string" where
  "renderTelnetService s =
     cliDotted ''Telnet Server Admin Mode'' (enableWordShort (vf_enabled (service_of s ''telnet''))) @
     cliServicePort cliDotted ''Telnet Server Port'' (service_of s ''telnet'')"

definition renderSSHService :: "vstate \<Rightarrow> string" where
  "renderSSHService s =
     cliDottedColon ''Administrative Mode'' (enableWord (vf_enabled (service_of s ''ssh''))) @
     cliServicePort cliDottedColon ''SSH Port'' (service_of s ''ssh'')"

end
