(* ===== verification/Cli_Face.thy ===== *)
theory Cli_Face
  imports Cli_Render Virtual_Snmp Fastpath_Session
begin

section \<open>The virtual command line (virtual/cliface.go)\<close>

text \<open>
  One command of a session: the stack of modes decides which commands are accepted; a configuration
  command that is accepted prints nothing.  \<open>cf_modes\<close> has the innermost mode first.  A write
  through a missing port would dereference nil: \<open>Go_Panic\<close>.  Where two ports carry one name the
  code's walk over the map may take either; here it is the lower one.
\<close>

subsection \<open>The expressions\<close>

abbreviation (input) rx_words :: rx where "rx_words \<equiv> rx_plus True (Rx_Set non_space)"

definition cliShowVlanIDRE :: rx where
  "cliShowVlanIDRE = rx_whole [rx_lit ''show vlan '', Rx_Group 1 rx_digits]"
definition cliShowIfaceRE :: rx where
  "cliShowIfaceRE = rx_whole [rx_lit ''show interface ethernet '', Rx_Group 1 rx_words]"
definition cliSetupRE :: rx where
  "cliSetupRE = rx_whole [Rx_Group 1 (Rx_Alt (rx_lit ''enable'')
     (Rx_Alt (Rx_Seq (rx_lit ''terminal length '') rx_digits) (rx_lit ''disable'')))]"
definition cliCopyRE :: rx where
  "cliCopyRE = rx_whole [rx_lit ''copy'', rx_plus True (Rx_Set is_space), Rx_Group 1 rx_words,
     rx_plus True (Rx_Set is_space), Rx_Group 2 rx_words]"
definition cliConfigureRE :: rx where
  "cliConfigureRE = rx_whole [rx_lit ''config'', rx_opt (rx_lit ''ure''), rx_opt (rx_lit '' terminal'')]"
definition cliVlanDatabaseRE :: rx where "cliVlanDatabaseRE = rx_whole [rx_lit ''vlan database'']"
definition cliVlanCreateRE :: rx where "cliVlanCreateRE = rx_whole [rx_lit ''vlan '', Rx_Group 1 rx_digits]"
definition cliVlanNameRE :: rx where
  "cliVlanNameRE = rx_whole [rx_lit ''vlan name '', Rx_Group 1 rx_digits, rx_lit '' '', Rx_Group 2 rx_words]"
definition cliVlanDeleteRE :: rx where "cliVlanDeleteRE = rx_whole [rx_lit ''no vlan '', Rx_Group 1 rx_digits]"
definition cliInterfaceRE :: rx where "cliInterfaceRE = rx_whole [rx_lit ''interface '', Rx_Group 1 rx_words]"
definition cliSwitchportModeRE :: rx where
  "cliSwitchportModeRE = rx_whole [rx_lit ''switchport mode '', Rx_Group 1 (rx_alts ''access'' [''general'', ''trunk''])]"
definition cliParticipationRE :: rx where
  "cliParticipationRE = rx_whole [rx_lit ''vlan participation '', Rx_Group 1 (rx_alts ''include'' [''exclude'']),
     rx_lit '' '', Rx_Group 2 rx_digits]"
definition cliTaggingRE :: rx where
  "cliTaggingRE = rx_whole [rx_opt (Rx_Group 1 (rx_lit ''no '')), rx_lit ''vlan tagging '', Rx_Group 2 rx_digits]"
definition cliPvidRE :: rx where "cliPvidRE = rx_whole [rx_lit ''vlan pvid '', Rx_Group 1 rx_digits]"
definition cliDescriptionRE :: rx where
  "cliDescriptionRE = rx_whole [rx_lit (''description '' @ [APOSTROPHE]),
     Rx_Group 1 (Rx_Star True (Rx_Set (\<lambda>ch. ch \<noteq> APOSTROPHE))), rx_lit [APOSTROPHE]]"
definition cliNoDescriptionRE :: rx where "cliNoDescriptionRE = rx_whole [rx_lit ''no description'']"
definition cliPortDescriptionShowRE :: rx where
  "cliPortDescriptionShowRE = rx_whole [rx_lit ''show port description '', Rx_Group 1 rx_words]"
definition cliSpeedAutoRE :: rx where "cliSpeedAutoRE = rx_whole [rx_lit ''speed auto'']"
definition cliSpeedForcedRE :: rx where
  "cliSpeedForcedRE = rx_whole [rx_lit ''speed '', Rx_Group 1 (Rx_Seq rx_digits (rx_opt (rx_lit ''G''))), rx_lit '' '',
     Rx_Group 2 (rx_alts ''full'' [''half'']), rx_lit ''-duplex'']"
definition cliFlowControlRE :: rx where
  "cliFlowControlRE = rx_whole [rx_opt (Rx_Group 1 (rx_lit ''no '')), rx_lit ''flowcontrol'']"
definition cliPoeRE :: rx where "cliPoeRE = rx_whole [rx_opt (Rx_Group 1 (rx_lit ''no '')), rx_lit ''poe'']"
definition cliPoeResetRE :: rx where "cliPoeResetRE = rx_whole [rx_lit ''poe reset'']"
definition cliShutdownRE :: rx where
  "cliShutdownRE = rx_whole [rx_opt (Rx_Group 1 (rx_lit ''no '')), rx_lit ''shutdown'']"
definition cliIPPattern :: "nat \<Rightarrow> rx" where
  "cliIPPattern n = Rx_Group n (rx_cat [rx_digits, rx_lit ''.'', rx_digits, rx_lit ''.'', rx_digits, rx_lit ''.'', rx_digits])"
definition cliNetworkParmsRE :: rx where
  "cliNetworkParmsRE = rx_whole [rx_lit ''network parms '', cliIPPattern 1, rx_lit '' '', cliIPPattern 2,
     rx_opt (Rx_Seq (rx_lit '' '') (cliIPPattern 3))]"
definition cliIPMgmtAddrRE :: rx where
  "cliIPMgmtAddrRE = rx_whole [rx_lit ''ip management address '', cliIPPattern 1, rx_lit '' '', cliIPPattern 2]"
definition cliIPGatewayRE :: rx where "cliIPGatewayRE = rx_whole [rx_lit ''ip default-gateway '', cliIPPattern 1]"
definition cliHostnameRE :: rx where
  "cliHostnameRE = rx_whole [rx_lit ''hostname '', Rx_Group 1 (rx_plus True (Rx_Set not_newline))]"
definition cliLoggingSyslogRE :: rx where
  "cliLoggingSyslogRE = rx_whole [rx_opt (Rx_Group 1 (rx_lit ''no '')), rx_lit ''logging syslog'']"
definition cliLoggingHostAddRE :: rx where
  "cliLoggingHostAddRE = rx_whole [rx_lit (''logging host '' @ [DOUBLE_QUOTE]),
     Rx_Group 1 (rx_plus True (Rx_Set (\<lambda>ch. ch \<noteq> DOUBLE_QUOTE))), rx_lit ([DOUBLE_QUOTE] @ '' ''),
     Rx_Group 2 (rx_alts ''ipv4'' [''ipv6'', ''dns'']), rx_lit '' '', Rx_Group 3 rx_digits, rx_lit '' '',
     Rx_Group 4 (rx_plus True (Rx_Set is_word))]"
definition cliLoggingHostNegationRE :: rx where
  "cliLoggingHostNegationRE = rx_whole [rx_lit ''no logging host'', Rx_Boundary, Rx_Star True (Rx_Set not_newline)]"
definition cliLoggingHostRemoveRE :: rx where
  "cliLoggingHostRemoveRE = rx_whole [rx_lit ''logging host remove '', Rx_Group 1 rx_digits]"

lemmas cli_expressions = cliShowVlanIDRE_def cliShowIfaceRE_def cliSetupRE_def cliCopyRE_def cliConfigureRE_def
  cliVlanDatabaseRE_def cliVlanCreateRE_def cliVlanNameRE_def cliVlanDeleteRE_def cliInterfaceRE_def
  cliSwitchportModeRE_def cliParticipationRE_def cliTaggingRE_def cliPvidRE_def cliDescriptionRE_def
  cliNoDescriptionRE_def cliPortDescriptionShowRE_def cliSpeedAutoRE_def cliSpeedForcedRE_def cliFlowControlRE_def
  cliPoeRE_def cliPoeResetRE_def cliShutdownRE_def cliIPPattern_def cliNetworkParmsRE_def cliIPMgmtAddrRE_def
  cliIPGatewayRE_def cliHostnameRE_def cliLoggingSyslogRE_def cliLoggingHostAddRE_def cliLoggingHostNegationRE_def
  cliLoggingHostRemoveRE_def

subsection \<open>The session\<close>

datatype cli_mode = Mode_Vlan_DB | Mode_Config | Mode_Interface

record cli_face =
  cf_state :: vstate
  cf_spec :: cli_model_spec
  cf_modes :: "cli_mode list"
  cf_iface_port :: "int option"

definition NewCliFace :: "vstate \<Rightarrow> cli_model_spec \<Rightarrow> cli_face" where
  "NewCliFace s spec = \<lparr>cf_state = s, cf_spec = spec, cf_modes = [], cf_iface_port = None\<rparr>"

text \<open>\<^verbatim>\<open>mode()\<close>: \<open>None\<close> is EXEC mode.\<close>

definition current_mode :: "cli_face \<Rightarrow> cli_mode option" where
  "current_mode f = (case cf_modes f of [] \<Rightarrow> None | m # _ \<Rightarrow> Some m)"

type_synonym cli_step = "(string res \<times> cli_face) option"

definition cliNoSuchVlan :: "int \<Rightarrow> string" where
  "cliNoSuchVlan vlan = ''ERROR: VLAN '' @ show_int vlan @ '' does not exist''"

text \<open>The outcomes of a command: a text, a changed device, a panic.\<close>

definition says :: "string \<Rightarrow> cli_face \<Rightarrow> cli_step" where "says t f = Some (Inr t, f)"

definition accepted :: "vstate \<Rightarrow> cli_face \<Rightarrow> cli_step" where
  "accepted s f = Some (Inr [], f\<lparr>cf_state := s\<rparr>)"

definition panics :: "cli_face \<Rightarrow> cli_step" where "panics f = Some (Inl Go_Panic, f)"

definition deploy_of :: "vstate \<Rightarrow> scp_cert_deploy_sim" where
  "deploy_of s =
     (case vs_deploy s of
        Some d \<Rightarrow> d
      | None \<Rightarrow> \<lparr>vd_commands = [], vd_copies = [], vd_https_disabled = False, vd_https_enabled = False, vd_saved = False\<rparr>)"

definition portForIface :: "vstate \<Rightarrow> string \<Rightarrow> int option" where
  "portForIface s name =
     List.find (\<lambda>p. map_option vp_name (map_of (vs_ports s) p) = Some name) (sorted_keys (vs_ports s))"

definition general :: "vstate \<Rightarrow> int \<Rightarrow> bool" where
  "general s port =
     (case map_of (vs_ports s) port of
        None \<Rightarrow> False
      | Some sim \<Rightarrow>
          if vp_switchport_mode sim \<noteq> [] then vp_switchport_mode sim = ''general'' \<or> vp_switchport_mode sim = ''trunk''
          else \<not> in_set (vs_locked_ports s) port)"

definition hasSwitchportModes :: "vstate \<Rightarrow> bool" where
  "hasSwitchportModes s \<longleftrightarrow> vs_model_key s \<noteq> ''gsm7252ps''"

definition poeCapable :: "vstate \<Rightarrow> bool res" where
  "poeCapable s = rbind (mustModel s) (\<lambda>m. Inr (0 < sm_poe_port_count m))"

definition applyPoeReset :: "int \<Rightarrow> vstate \<Rightarrow> vstate" where
  "applyPoeReset port s =
     (case map_of (vs_poe s) port of
        None \<Rightarrow> s
      | Some psim \<Rightarrow> s\<lparr>vs_poe := AList.update port
          (psim\<lparr>vq_admin := True, vq_detect := (if vq_power_mw psim \<noteq> 0 then 3 else 2)\<rparr>) (vs_poe s)\<rparr>)"

subsection \<open>vlan database\<close>

definition vlan_created :: "int \<Rightarrow> vstate \<Rightarrow> vstate" where
  "vlan_created vid s =
     (if map_of (vs_vlans s) vid \<noteq> None then s
      else s\<lparr>vs_vlans := AList.update vid
        \<lparr>vv_name = [], vv_member = [], vv_untagged = [], vv_configured_only = [], vv_no_static_row = False\<rparr> (vs_vlans s)\<rparr>)"

definition vlan_deleted :: "int \<Rightarrow> vstate \<Rightarrow> vstate" where
  "vlan_deleted vid s =
     s\<lparr>vs_vlans := AList.delete vid (vs_vlans s),
       vs_pvids := map (\<lambda>(port, pv). (port, if pv = vid then 1 else pv)) (vs_pvids s)\<rparr>"

definition vlanDBCommand :: "string \<Rightarrow> cli_face \<Rightarrow> cli_step" where
  "vlanDBCommand c f =
     (let s = cf_state f in
      on_match cliVlanCreateRE c (\<lambda>m. accepted (vlan_created (AtoiValue (submatch m 1)) s) f) (
      on_match cliVlanNameRE c (\<lambda>m.
          (let vid = AtoiValue (submatch m 1) in
           case map_of (vs_vlans s) vid of
             None \<Rightarrow> says (cliNoSuchVlan vid) f
           | Some v \<Rightarrow> accepted (s\<lparr>vs_vlans := AList.update vid (v\<lparr>vv_name := submatch m 2\<rparr>) (vs_vlans s)\<rparr>) f)) (
      on_match cliVlanDeleteRE c (\<lambda>m.
          (let vid = AtoiValue (submatch m 1) in
           if vid = 1 then says ''ERROR: The default VLAN cannot be deleted'' f
           else if map_of (vs_vlans s) vid = None then says (cliNoSuchVlan vid) f
           else accepted (vlan_deleted vid s) f)) None)))"

subsection \<open>interface\<close>

definition vlan_change :: "int \<Rightarrow> (vlan_sim \<Rightarrow> vlan_sim) \<Rightarrow> vstate \<Rightarrow> vstate" where
  "vlan_change vid g s =
     (case map_of (vs_vlans s) vid of
        None \<Rightarrow> s | Some v \<Rightarrow> s\<lparr>vs_vlans := AList.update vid (g v) (vs_vlans s)\<rparr>)"

definition port_change :: "int \<Rightarrow> (port_sim \<Rightarrow> port_sim) \<Rightarrow> cli_face \<Rightarrow> cli_step" where
  "port_change port g f =
     (if map_of (vs_ports (cf_state f)) port = None then panics f
      else accepted (update_port port g (cf_state f)) f)"

text \<open>A command of the VLANs: inert, but accepted, while the port honours none.\<close>

definition vlan_command :: "int \<Rightarrow> int \<Rightarrow> vstate \<Rightarrow> cli_face \<Rightarrow> cli_step" where
  "vlan_command vid port changed f =
     (if map_of (vs_vlans (cf_state f)) vid = None then says (cliNoSuchVlan vid) f
      else if \<not> general (cf_state f) port then accepted (cf_state f) f
      else accepted changed f)"

definition participation :: "bool \<Rightarrow> int \<Rightarrow> vlan_sim \<Rightarrow> vlan_sim" where
  "participation included port v =
     (if included
      then v\<lparr>vv_member := AList.update port True (vv_member v), vv_untagged := AList.update port True (vv_untagged v)\<rparr>
      else v\<lparr>vv_member := AList.delete port (vv_member v), vv_untagged := AList.delete port (vv_untagged v)\<rparr>)"

definition tagging :: "bool \<Rightarrow> int \<Rightarrow> vlan_sim \<Rightarrow> vlan_sim" where
  "tagging tagged port v =
     v\<lparr>vv_untagged := (if tagged then AList.delete port (vv_untagged v) else AList.update port True (vv_untagged v))\<rparr>"

definition cliNoForcedRate :: string where "cliNoForcedRate = ''1000''"

definition poe_guarded :: "vstate \<Rightarrow> cli_face \<Rightarrow> cli_step" where
  "poe_guarded changed f =
     (case poeCapable (cf_state f) of
        Inl _ \<Rightarrow> panics f
      | Inr capable \<Rightarrow> if capable then accepted changed f else says cliInvalid f)"

definition interfaceCommand :: "string \<Rightarrow> int \<Rightarrow> cli_face \<Rightarrow> cli_step" where
  "interfaceCommand c port f =
     (let s = cf_state f in
      on_match cliSwitchportModeRE c (\<lambda>m. if hasSwitchportModes s then port_change port (\<lambda>p. p\<lparr>vp_switchport_mode := submatch m 1\<rparr>) f
                  else says cliInvalid f) (
      if MatchString cliPoeResetRE c then poe_guarded (applyPoeReset port s) f else
      on_match cliPoeRE c (\<lambda>m. poe_guarded (ApplyPoeAdmin port (submatch m 1 = []) s) f) (
      on_match cliShutdownRE c (\<lambda>m.
          (let enabled = (submatch m 1 \<noteq> []) in
           if map_of (vs_ports s) port = None then says cliInvalid f
           else port_change port (\<lambda>p. p\<lparr>vp_admin := enabled, vp_link := (enabled \<and> vp_link p)\<rparr>) f)) (
      on_match cliParticipationRE c (\<lambda>m.
          (let vid = AtoiValue (submatch m 2) in
           vlan_command vid port (vlan_change vid (participation (submatch m 1 = ''include'') port) s) f)) (
      on_match cliTaggingRE c (\<lambda>m.
          (let vid = AtoiValue (submatch m 2) in
           vlan_command vid port (vlan_change vid (tagging (submatch m 1 = []) port) s) f)) (
      on_match cliPvidRE c (\<lambda>m.
          (let vid = AtoiValue (submatch m 1) in
           vlan_command vid port (s\<lparr>vs_pvids := AList.update port vid (vs_pvids s)\<rparr>) f)) (
      on_match cliFlowControlRE c (\<lambda>m. port_change port (\<lambda>p. p\<lparr>vp_flow_control := (submatch m 1 = [])\<rparr>) f) (
      if MatchString cliSpeedAutoRE c then port_change port (\<lambda>p. p\<lparr>vp_physical_mode := ''Auto''\<rparr>) f else
      on_match cliSpeedForcedRE c (\<lambda>m.
          (let rate = submatch m 1; duplex = submatch m 2 in
           if rate = cliNoForcedRate then says cliInvalid f
           else port_change port (\<lambda>p. p\<lparr>vp_physical_mode := rate @ '' '' @ ToUpper (take 1 duplex) @ drop 1 duplex\<rparr>) f)) (
      on_match cliDescriptionRE c (\<lambda>m.
          port_change port (\<lambda>p. p\<lparr>vp_description := (if submatch m 1 \<noteq> [] then Some (submatch m 1) else None)\<rparr>) f) (
      if MatchString cliNoDescriptionRE c then port_change port (\<lambda>p. p\<lparr>vp_description := None\<rparr>) f
      else None))))))))))"

subsection \<open>configure\<close>

definition set_mgmt :: "string \<Rightarrow> string \<Rightarrow> string \<Rightarrow> vstate \<Rightarrow> vstate" where
  "set_mgmt address netmask gateway s =
     s\<lparr>vs_mgmt := (vs_mgmt s)\<lparr>vm_address := address, vm_netmask := netmask,
        vm_gateway := (if gateway \<noteq> [] then gateway else vm_gateway (vs_mgmt s)), vm_mode := ''static''\<rparr>\<rparr>"

definition next_index :: "collector_sim list \<Rightarrow> int" where
  "next_index cols = foldl (\<lambda>next c. if next < vc_index c then vc_index c else next) 0 cols + 1"

definition set_collectors :: "collector_sim list \<Rightarrow> vstate \<Rightarrow> vstate" where
  "set_collectors cols s = s\<lparr>vs_syslog := (vs_syslog s)\<lparr>vy_collectors := cols\<rparr>\<rparr>"

text \<open>\<^verbatim>\<open>append(cols[:pos], cols[pos+1:]...)\<close> at the first row of that index.\<close>

fun remove_index :: "int \<Rightarrow> collector_sim list \<Rightarrow> collector_sim list" where
  "remove_index i [] = []"
| "remove_index i (c # cs) = (if vc_index c = i then cs else c # remove_index i cs)"

definition globalCommand :: "unicode \<Rightarrow> string \<Rightarrow> cli_face \<Rightarrow> cli_step" where
  "globalCommand U c f =
     (let s = cf_state f in
      on_match cliHostnameRE c (\<lambda>m. accepted (s\<lparr>vs_hostname := Trim (TrimSpace (submatch m 1)) (\<lambda>ch. ch = DOUBLE_QUOTE)\<rparr>) f) (
      on_match cliLoggingSyslogRE c (\<lambda>m. accepted (s\<lparr>vs_syslog := (vs_syslog s)\<lparr>vy_admin_mode := (if submatch m 1 = [] then 1 else 2)\<rparr>\<rparr>) f) (
      on_match cliLoggingHostAddRE c (\<lambda>m.
          (case (SyslogSeverity U (submatch m 4), Atoi (submatch m 3)) of
             (Inr severity, Some port) \<Rightarrow>
               accepted (set_collectors (vy_collectors (vs_syslog s) @
                 [\<lparr>vc_host = submatch m 1, vc_port = port, vc_severity = severity, vc_status = 1,
                   vc_index = next_index (vy_collectors (vs_syslog s))\<rparr>]) s) f
           | _ \<Rightarrow> says cliInvalid f)) (
      if MatchString cliLoggingHostNegationRE c then says cliInvalid f else
      on_match cliLoggingHostRemoveRE c (\<lambda>m.
          (case Atoi (submatch m 1) of
             None \<Rightarrow> says cliInvalid f
           | Some index \<Rightarrow>
               if index \<notin> set (map vc_index (vy_collectors (vs_syslog s)))
               then says (''Error! Logging Host with index of '' @ show_int index @ '' is non-existent.'') f
               else accepted (set_collectors (remove_index index (vy_collectors (vs_syslog s))) s) f)) (
      on_match cliInterfaceRE c (\<lambda>m.
          (case portForIface s (submatch m 1) of
             None \<Rightarrow> says cliInvalid f
           | Some port \<Rightarrow> Some (Inr [], f\<lparr>cf_iface_port := Some port, cf_modes := Mode_Interface # cf_modes f\<rparr>))) (
      on_match cliIPMgmtAddrRE c (\<lambda>m. if usesIPManagementDialect s then accepted (set_mgmt (submatch m 1) (submatch m 2) [] s) f
                  else says cliInvalid f) (
      on_match cliIPGatewayRE c (\<lambda>m. if usesIPManagementDialect s
          then accepted (s\<lparr>vs_mgmt := (vs_mgmt s)\<lparr>vm_gateway := submatch m 1\<rparr>\<rparr>) f
          else says cliInvalid f) None)))))))"

definition configCommand :: "unicode \<Rightarrow> string \<Rightarrow> cli_face \<Rightarrow> cli_step" where
  "configCommand U c f =
     (if c = ''exit''
      then Some (Inr [], case cf_modes f of
             [] \<Rightarrow> f
           | _ # ms \<Rightarrow> f\<lparr>cf_modes := ms,
                 cf_iface_port := (case ms of Mode_Interface # _ \<Rightarrow> cf_iface_port f | _ \<Rightarrow> None)\<rparr>)
      else if c = ''end'' then Some (Inr [], f\<lparr>cf_modes := [], cf_iface_port := None\<rparr>)
      else if MatchString cliVlanDatabaseRE c
      then (if current_mode f = None \<or> current_mode f = Some Mode_Config
            then Some (Inr [], f\<lparr>cf_modes := Mode_Vlan_DB # cf_modes f\<rparr>) else says cliInvalid f)
      else if MatchString cliConfigureRE c
      then (if current_mode f = None then Some (Inr [], f\<lparr>cf_modes := Mode_Config # cf_modes f\<rparr>) else says cliInvalid f)
      else (case FindStringSubmatch cliNetworkParmsRE c of
          Some m \<Rightarrow>
            if current_mode f \<noteq> None \<or> usesIPManagementDialect (cf_state f) then says cliInvalid f
            else accepted (set_mgmt (submatch m 1) (submatch m 2) (submatch m 3) (cf_state f)) f
        | None \<Rightarrow>
            (case current_mode f of
               None \<Rightarrow> None
             | Some Mode_Vlan_DB \<Rightarrow> vlanDBCommand c f
             | Some Mode_Config \<Rightarrow> globalCommand U c f
             | Some Mode_Interface \<Rightarrow>
                 (case cf_iface_port f of None \<Rightarrow> None | Some port \<Rightarrow> interfaceCommand c port f))))"

subsection \<open>show\<close>

definition prints :: "cli_face \<Rightarrow> string res \<Rightarrow> string res \<times> cli_face" where
  "prints f r = (r, f)"

definition showCommand :: "string \<Rightarrow> cli_face \<Rightarrow> string res \<times> cli_face" where
  "showCommand c f =
     (let s = cf_state f; spec = cf_spec f in
      if c = cs_version_cmd spec then prints f (renderVersion s)
      else if c = cs_port_status_cmd spec then prints f (renderPorts s)
      else case FindStringSubmatch cliPortDescriptionShowRE c of
        Some m \<Rightarrow> prints f (renderPortDescription s (submatch m 1))
      | None \<Rightarrow>
      if c = cs_vlan_brief_cmd spec then prints f (Inr (renderVlanBrief s))
      else if c = cs_pvid_cmd spec then prints f (renderPvids s)
      else if c = cs_mac_table_cmd spec then prints f (Inr (renderMacTable s))
      else if c = cs_lldp_cmd spec then prints f (Inr (renderLLDP s))
      else if c = cs_poe_cmd spec then (case renderPoE s of (t, s') \<Rightarrow> (Inr t, f\<lparr>cf_state := s'\<rparr>))
      else if c = cs_environment_cmd spec then prints f (Inr (renderEnvironment s))
      else if c = cs_network_cmd spec then prints f (Inr (renderNetwork s))
      else if c = cs_hosts_cmd spec then prints f (Inr (renderHosts s))
      else if c = cs_logging_hosts_cmd spec then prints f (Inr (renderLoggingHosts s))
      else if c = cs_logging_cmd spec then prints f (Inr (renderLogging s))
      else if c = cs_users_cmd spec then prints f (Inr (renderUsers s))
      else if c = cs_http_service_cmd spec then prints f (Inr (renderHTTPService s))
      else if c = cs_telnet_service_cmd spec then prints f (Inr (renderTelnetService s))
      else if c = cs_ssh_service_cmd spec then prints f (Inr (renderSSHService s))
      else case FindStringSubmatch cliShowVlanIDRE c of
        Some m \<Rightarrow> prints f (renderVlanDetail s (AtoiValue (submatch m 1)))
      | None \<Rightarrow>
      case FindStringSubmatch cliShowIfaceRE c of
        Some m \<Rightarrow> prints f (Inr (case portForIface s (submatch m 1) of
            None \<Rightarrow> cliInvalid | Some port \<Rightarrow> renderInterfaceCounters s port))
      | None \<Rightarrow> prints f (Inr ''Command not found / Incomplete command. Use ? to list commands.''))"

subsection \<open>The session's operations\<close>

definition record_deploy :: "(scp_cert_deploy_sim \<Rightarrow> scp_cert_deploy_sim) \<Rightarrow> string \<Rightarrow> cli_face \<Rightarrow> cli_face" where
  "record_deploy g c f =
     (let d = g (deploy_of (cf_state f)) in
      f\<lparr>cf_state := (cf_state f)\<lparr>vs_deploy := Some (d\<lparr>vd_commands := vd_commands d @ [c]\<rparr>)\<rparr>\<rparr>)"

definition cliface_run :: "unicode \<Rightarrow> string \<Rightarrow> (cli_face, go_error, string) action" where
  "cliface_run U command f =
     (let c = TrimSpace command in
      if MatchString cliSetupRE c then (Inr [], f)
      else if c = ''no ip http secure-server''
      then (Inr [], record_deploy (\<lambda>d. d\<lparr>vd_https_disabled := True\<rparr>) c f)
      else if c = ''ip http secure-server''
      then (Inr [], record_deploy (\<lambda>d. d\<lparr>vd_https_enabled := True\<rparr>) c f)
      else (case configCommand U c f of Some r \<Rightarrow> r | None \<Rightarrow> showCommand c f))"

definition cliface_RunSCPCopy :: "string \<Rightarrow> string \<Rightarrow> (cli_face, go_error, string) action" where
  "cliface_RunSCPCopy command scpPassword f =
     (let c = TrimSpace command in
      case FindStringSubmatch cliCopyRE c of
        None \<Rightarrow> (Inr (''% Invalid input: expected '' @ [APOSTROPHE] @ ''copy <src> <dest>'' @ [APOSTROPHE]), f)
      | Some m \<Rightarrow>
          (Inr (''Data transfer complete. bytes transferred to '' @ submatch m 2),
           record_deploy (\<lambda>d. d\<lparr>vd_copies := vd_copies d @ [(submatch m 1, submatch m 2)]\<rparr>) c f))"

definition cliface_RunWriteMemory :: "string \<Rightarrow> bool \<Rightarrow> (cli_face, go_error, string) action" where
  "cliface_RunWriteMemory command prestuff f =
     (let c = TrimSpace command in
      if c = ''reload'' then (Inr [], f\<lparr>cf_state := (cf_state f)\<lparr>vs_reboots := vs_reboots (cf_state f) + 1\<rparr>\<rparr>)
      else (Inr [], record_deploy (\<lambda>d. d\<lparr>vd_saved := True\<rparr>) c f))"

definition cliface_Close :: "(cli_face, go_error, unit) action" where
  "cliface_Close f = (Inr (), f)"

definition face_session :: "unicode \<Rightarrow> cli_face cli_session" where
  "face_session U =
     \<lparr>se_Run = cliface_run U, se_RunSCPCopy = cliface_RunSCPCopy, se_RunWriteMemory = cliface_RunWriteMemory,
      se_Close = cliface_Close\<rparr>"

definition cliface_Mode :: "cli_face \<Rightarrow> string" where
  "cliface_Mode f =
     (case current_mode f of None \<Rightarrow> ''exec'' | Some Mode_Vlan_DB \<Rightarrow> ''vlan-db'' | Some Mode_Config \<Rightarrow> ''config''
      | Some Mode_Interface \<Rightarrow> ''interface'')"

definition cliface_InterfaceName :: "cli_face \<Rightarrow> string option" where
  "cliface_InterfaceName f =
     Option.bind (cf_iface_port f) (\<lambda>port. map_option vp_name (map_of (vs_ports (cf_state f)) port))"

end
