(* ===== verification/Table_Roundtrip.thy ===== *)
theory Table_Roundtrip
  imports Cli_Render Fastpath_Parse
begin

section \<open>Tables: what is rendered is what is read\<close>

text \<open>
  \<open>cliTable\<close> of the virtual switch against \<open>iterTableRows\<close> of the parsers: rows whose cells fit
  their columns are read back cell by cell.  The lemmas on \<open>TrimSpace\<close>, \<open>Join\<close> and \<open>split_on\<close> this
  takes are here as well.
\<close>

subsection \<open>Trimming\<close>

definition graphic :: "char \<Rightarrow> bool" where
  "graphic ch \<longleftrightarrow> 0x21 \<le> (of_char ch :: nat) \<and> (of_char ch :: nat) \<le> 0x7E"

definition graphic_byte :: "byte \<Rightarrow> bool" where
  "graphic_byte b \<longleftrightarrow> 0x21 \<le> b \<and> b \<le> 0x7E"

lemma graphic_byte_of_char [simp]: "graphic_byte (byte_of_char ch) = graphic ch"
proof -
  have "(of_char ch :: nat) < 256" by (rule nat_of_char_less_256)
  then show ?thesis by (simp add: graphic_byte_def graphic_def byte_of_char_def word_le_nat_alt unat_of_nat)
qed

lemma space_runes_graphic: "r \<in> set space_runes \<Longrightarrow> b \<in> set r \<Longrightarrow> \<not> graphic_byte b"
  by (auto simp: space_runes_def graphic_byte_def)

lemma space_runes_blank: "r \<in> set space_runes \<Longrightarrow> 32 \<in> set r \<Longrightarrow> r = [32]"
  by (auto simp: space_runes_def)

lemma space_runes_nonempty: "[] \<notin> set space_runes"
  by (simp add: space_runes_def)

lemma leading_rune_cases:
  obtains "leading_rune rs s = 0"
  | r where "r \<in> set rs" "take (length r) s = r" "leading_rune rs s = length r"
proof (cases "List.find (\<lambda>r. take (length r) s = r) rs")
  case (Some r)
  then have "r \<in> set rs" "take (length r) s = r" by (auto simp: find_Some_iff)
  then show thesis using that(2) Some by (simp add: leading_rune_def)
qed (use that(1) in \<open>simp add: leading_rune_def\<close>)

lemma strip_runes_keeps:
  assumes "b \<in> set s" "\<And>r. r \<in> set rs \<Longrightarrow> b \<notin> set r"
  shows "b \<in> set (strip_runes rs s)"
  using assms
proof (induction rs s rule: strip_runes.induct)
  case (1 rs s)
  show ?case
  proof (cases "leading_rune rs s = 0 \<or> s = []")
    case True
    then show ?thesis using 1(2) by (subst strip_runes.simps) simp
  next
    case False
    obtain r where r: "r \<in> set rs" "take (length r) s = r" "leading_rune rs s = length r"
      using False leading_rune_cases [of rs s] by metis
    have "b \<in> set (take (length r) s) \<union> set (drop (length r) s)"
      using 1(2) by (metis append_take_drop_id set_append)
    then have "b \<in> set (drop (length r) s)" using 1(3) r by auto
    then have "b \<in> set (strip_runes rs (drop (length r) s))" using 1(1) 1(3) False r(3) by simp
    then show ?thesis using False r(3) by (subst strip_runes.simps) simp
  qed
qed

lemma leading_rune_blocked:
  assumes "\<And>r. r \<in> set rs \<Longrightarrow> r \<noteq> [] \<and> b \<notin> set r"
  shows "leading_rune rs (b # s) = 0"
proof -
  have "take (length r) (b # s) \<noteq> r" if "r \<in> set rs" for r
    using assms [OF that] by (cases r) auto
  then have "List.find (\<lambda>r. take (length r) (b # s) = r) rs = None" by (simp add: find_None_iff)
  then show ?thesis by (simp add: leading_rune_def)
qed

lemma leading_rune_graphic:
  assumes "graphic_byte b"
  shows "leading_rune space_runes (b # s) = 0" "leading_rune (map rev space_runes) (b # s) = 0"
  using assms space_runes_graphic space_runes_nonempty by (auto intro!: leading_rune_blocked)

lemma leading_rune_space [simp]:
  "leading_rune space_runes (32 # s) = 1" "leading_rune (map rev space_runes) (32 # s) = 1"
  by (simp_all add: leading_rune_def space_runes_def)

lemma strip_spaces:
  "strip_runes space_runes (replicate n 32 @ s) = strip_runes space_runes s"
  "strip_runes (map rev space_runes) (replicate n 32 @ s) = strip_runes (map rev space_runes) s"
  by (induction n) (simp_all add: strip_runes.simps [of _ "32 # _"])

lemma TrimSpace_Nil [simp]: "TrimSpace [] = []"
  by (simp add: TrimSpace_def bytes_of_def string_of_def)

lemma bytes_of_simps [simp]: "bytes_of [] = []" "bytes_of (c # s) = byte_of_char c # bytes_of s" "bytes_of (s @ t) = bytes_of s @ bytes_of t"
  "rev (bytes_of s) = bytes_of (rev s)" "bytes_of (replicate n c) = replicate n (byte_of_char c)"
  by (simp_all add: bytes_of_def rev_map)

lemma TrimSpace_id:
  assumes "graphic (hd s)" "graphic (last s)" "s \<noteq> []"
  shows "TrimSpace s = s"
proof -
  obtain c s' where s: "s = c # s'" using assms(3) by (cases s) auto
  obtain t where t: "s = t @ [last s]" using assms(3) by (metis append_butlast_last_id)
  then have t': "rev s = last s # rev t" by (metis rev_eq_Cons_iff rev_rev_ident)
  have "strip_runes space_runes (bytes_of s) = bytes_of s"
    using assms(1) by (simp add: s strip_runes_id leading_rune_graphic)
  moreover have "strip_runes (map rev space_runes) (bytes_of (rev s)) = bytes_of (rev s)"
    using assms(2) unfolding t' by (simp add: strip_runes_id leading_rune_graphic)
  ultimately show ?thesis by (simp add: TrimSpace_def)
qed

lemma TrimSpace_nonempty:
  assumes "c \<in> set s" "graphic c"
  shows "TrimSpace s \<noteq> []"
proof -
  have b: "byte_of_char c \<in> set (bytes_of s)" using assms(1) by (auto simp: bytes_of_def)
  have nr: "byte_of_char c \<notin> set r" if "r \<in> set space_runes" for r
    using space_runes_graphic [OF that, of "byte_of_char c"] assms(2) by auto
  have "byte_of_char c \<in> set (strip_runes (map rev space_runes) (rev (strip_runes space_runes (bytes_of s))))"
    using b nr by (intro strip_runes_keeps) (auto intro!: strip_runes_keeps)
  then show ?thesis by (auto simp: TrimSpace_def string_of_def)
qed

lemma leading_rune_append:
  assumes "s \<noteq> []"
  shows "leading_rune space_runes (s @ replicate n 32) = leading_rune space_runes s"
proof -
  have "(take (length r) (s @ replicate n 32) = r) = (take (length r) s = r)" if r: "r \<in> set space_runes" for r
  proof (cases "length r \<le> length s")
    case False
    have "take (length r) (s @ replicate n 32) \<noteq> r"
    proof
      assume eq: "take (length r) (s @ replicate n 32) = r"
      have "take (length r) (s @ replicate n 32) = s @ replicate (min (length r - length s) n) 32" using False by simp
      then obtain k where k: "r = s @ replicate k 32" unfolding eq by blast
      then have "32 \<in> set r" using False by (cases k) auto
      then have "r = [32]" using space_runes_blank [OF r] by simp
      then show False using False assms by (cases s) auto
    qed
    moreover have "take (length r) s \<noteq> r" using False arg_cong [of "take (length r) s" r length] by auto
    ultimately show ?thesis by blast
  qed simp
  then have "List.find (\<lambda>r. take (length r) (s @ replicate n 32) = r) space_runes = List.find (\<lambda>r. take (length r) s = r) space_runes"
    by (intro find_cong) auto
  then show ?thesis by (simp add: leading_rune_def)
qed

lemma strip_append:
  "strip_runes space_runes (s @ replicate n 32) =
     (if strip_runes space_runes s = [] then [] else strip_runes space_runes s @ replicate n 32)"
proof (induction "length s" arbitrary: s rule: less_induct)
  case less
  show ?case
  proof (cases "s = []")
    case True
    then show ?thesis using strip_spaces(1) [of n "[]"] by simp
  next
    case s: False
    show ?thesis
    proof (cases "leading_rune space_runes s = 0")
      case True
      then show ?thesis using s by (simp add: strip_runes_id leading_rune_append)
    next
      case False
      obtain r where r: "r \<in> set space_runes" "take (length r) s = r" "leading_rune space_runes s = length r"
        using False leading_rune_cases [of space_runes s] by metis
      have len: "length r \<le> length s" "0 < length r"
        using r(2) r(3) False by (metis length_take min.cobounded1, simp)
      have "strip_runes space_runes (s @ replicate n 32) = strip_runes space_runes (drop (length r) s @ replicate n 32)"
        using s False r(3) len by (subst strip_runes.simps) (simp add: leading_rune_append)
      also have "\<dots> = (if strip_runes space_runes (drop (length r) s) = [] then []
          else strip_runes space_runes (drop (length r) s) @ replicate n 32)"
        using s len by (intro less) simp
      also have "strip_runes space_runes (drop (length r) s) = strip_runes space_runes s"
        using s False r(3) by (subst (2) strip_runes.simps) simp
      finally show ?thesis .
    qed
  qed
qed

lemma TrimSpace_pad [simp]: "TrimSpace (s @ replicate n (CHR '' '')) = TrimSpace s"
proof -
  have b: "byte_of_char (CHR '' '') = 32" by (simp add: byte_of_char_def)
  show ?thesis
    by (simp add: TrimSpace_def b strip_append strip_spaces(2))
qed

subsection \<open>Lines\<close>

lemma Join_simps [simp]:
  "Join [] sep = []" "Join [p] sep = p" "Join (p # q # ps) sep = p @ sep @ Join (q # ps) sep"
  by (simp_all add: Join_def)

lemma set_Join: "set (Join ls sep) \<subseteq> (\<Union>l \<in> set ls. set l) \<union> set sep"
  by (cases ls) (auto simp: Join_def)

lemma split_on_Join:
  "list_all (\<lambda>l. sep \<notin> set l) lines \<Longrightarrow> lines \<noteq> [] \<Longrightarrow> split_on sep (Join lines [sep]) = lines"
proof (induction lines)
  case (Cons l lines)
  then show ?case
    by (cases lines) (simp_all add: split_on_no_sep split_on_append)
qed simp

lemma Join_append: "xs \<noteq> [] \<Longrightarrow> ys \<noteq> [] \<Longrightarrow> Join (xs @ ys) sep = Join xs sep @ sep @ Join ys sep"
proof (induction xs)
  case (Cons x xs)
  then show ?case by (cases xs; cases ys) simp_all
qed simp

definition plain_line :: "string \<Rightarrow> bool" where "plain_line l \<longleftrightarrow> CHR 0x0A \<notin> set l"

lemma Join_last: "lines \<noteq> [] \<Longrightarrow> last lines \<noteq> [] \<Longrightarrow> last (Join lines sep) = last (last lines) \<and> Join lines sep \<noteq> []"
proof (induction lines)
  case (Cons l lines)
  then show ?case by (cases lines) auto
qed simp

lemma splitLines_Join:
  assumes "list_all plain_line lines" "lines \<noteq> []" "last lines \<noteq> []"
  shows "splitLines (Join lines LF) = lines"
proof -
  have "CHR 0x0A \<notin> set (last lines)"
    using assms(1) last_in_set [OF assms(2)] by (simp add: list_all_iff plain_line_def)
  then have "last (Join lines LF) \<noteq> CHR 0x0A"
    using Join_last [OF assms(2,3), of LF] last_in_set [OF assms(3)] by auto
  moreover have "list_all (\<lambda>l. CHR 0x0A \<notin> set l) lines"
    using assms(1) by (simp add: list_all_iff plain_line_def)
  ultimately show ?thesis
    using Join_last [OF assms(2,3), of LF] split_on_Join [of "CHR 0x0A" lines] assms(2)
    by (simp add: splitLines_def LF_def)
qed

subsection \<open>The ruler\<close>

text \<open>A class repeated as often as it can be, when the rest then matches.\<close>

lemma rx_repeat_first:
  assumes "k (moved pv (takeWhile P s), dropWhile P s) c = Some r"
  shows "rx_repeat (length s) True (rx_match (Rx_Set P)) (pv, s) c k = Some r"
  using assms
proof (induction s arbitrary: pv)
  case (Cons a s)
  then show ?case by (cases "P a") simp_all
qed simp

lemma match_star_first:
  assumes "rx_match b (moved pv (takeWhile P s), dropWhile P s) c k = Some r"
  shows "rx_match (Rx_Seq (Rx_Star True (Rx_Set P)) b) (pv, s) c k = Some r"
  using rx_repeat_first [of "\<lambda>p' c'. rx_match b p' c' k", OF assms] by simp

abbreviation (input) "dash \<equiv> CHR ''-''"

lemma rulerRE_rejects: "graphic ch \<Longrightarrow> ch \<noteq> dash \<Longrightarrow> \<not> MatchString rulerRE (ch # s)"
  unfolding MatchString_def rulerRE_def FindStringSubmatch_whole
  by (auto simp: match_star_set blocked_intros blank_def rx_lit_simps graphic_def)

lemma rulerRE_rejects_Nil: "\<not> MatchString rulerRE []"
  unfolding MatchString_def rulerRE_def FindStringSubmatch_whole
  by (simp add: match_star_set blocked_intros blank_def rx_lit_simps)

lemma rulerRE_accepts:
  assumes "list_all (\<lambda>ch. ch = dash \<or> ch = CHR '' '') s"
  shows "MatchString rulerRE (dash # dash # s)"
proof -
  let ?k = "\<lambda>p c. Some c"
  let ?b = "Rx_Seq (Rx_Star True (Rx_Set (\<lambda>ch. ch = dash \<or> blank ch))) (Rx_Seq Rx_End Rx_Empty)"
  let ?a = "Rx_Seq (Rx_Star True (Rx_Set (\<lambda>ch. ch = dash))) ?b"
  have d: "dropWhile (\<lambda>ch. ch = dash \<or> blank ch) (dropWhile (\<lambda>ch. ch = dash) s) = []"
    using assms by (auto simp: list_all_iff blank_def dest: set_dropWhileD)
  have "rx_match ?b (pv, dropWhile (\<lambda>ch. ch = dash) s) [] ?k = Some []" for pv
    by (rule match_star_first) (simp only: d, simp)
  then have a: "rx_match ?a (Some dash, s) [] ?k = Some []" by (rule match_star_first)
  have "blocked blank (Rx_Seq (rx_lit ''--'') ?a)" by (intro blocked_intros) (simp add: blank_def)
  then have "rx_match (Rx_Seq (Rx_Star True (Rx_Set blank)) (Rx_Seq (rx_lit ''--'') ?a)) (None, dash # dash # s) [] ?k
      = rx_match (Rx_Seq (rx_lit ''--'') ?a) (None, dash # dash # s) [] ?k"
    by (subst match_star_set) (simp_all add: blank_def)
  also have "\<dots> = Some []" using a unfolding rx_match.simps(6) [of "rx_lit ''--''"] rx_lit_simps by simp
  finally show ?thesis
    by (simp only: MatchString_def rulerRE_def FindStringSubmatch_whole rx_cat.simps append.simps) simp
qed

subsection \<open>Columns\<close>

fun col_starts :: "int \<Rightarrow> nat list \<Rightarrow> int list" where
  "col_starts i [] = []"
| "col_starts i (w # ws) = i # col_starts (i + int w + 1) ws"

lemma table_ruler_simps:
  "table_ruler [w] = replicate w dash" "table_ruler (w # v # ws) = replicate w dash @ CHR '' '' # table_ruler (v # ws)"
  by (simp_all add: table_ruler_def)

lemma ruler_starts_dashes:
  assumes "1 \<le> w"
  shows "ruler_starts i (replicate w dash) = [i]"
    and "ruler_starts i (replicate w dash @ CHR '' '' # s) = i # ruler_starts (i + int w + 1) s"
proof -
  obtain n where w: "w = Suc n" using assms by (cases w) auto
  have "takeWhile (\<lambda>x. x = dash) (replicate n dash @ t) = replicate n dash @ takeWhile (\<lambda>x. x = dash) t"
    "dropWhile (\<lambda>x. x = dash) (replicate n dash @ t) = dropWhile (\<lambda>x. x = dash) t" for t
    by (induction n) auto
  note tw = this [of "[]"] this [of "CHR '' '' # s"]
  show "ruler_starts i (replicate w dash) = [i]" using tw(1,2) by (simp add: w)
  show "ruler_starts i (replicate w dash @ CHR '' '' # s) = i # ruler_starts (i + int w + 1) s"
    using tw(3,4) by (simp add: w algebra_simps)
qed

lemma ruler_starts_ruler:
  "list_all (\<lambda>w. 1 \<le> w) ws \<Longrightarrow> ws \<noteq> [] \<Longrightarrow> ruler_starts i (table_ruler ws) = col_starts i ws"
proof (induction ws arbitrary: i)
  case (Cons w ws)
  then show ?case by (cases ws) (simp_all add: table_ruler_simps ruler_starts_dashes)
qed simp

definition cells_fit :: "string list \<Rightarrow> nat list \<Rightarrow> bool" where
  "cells_fit cells ws \<longleftrightarrow> list_all2 (\<lambda>c w. length c \<le> w) cells ws"

lemma table_line_cells:
  assumes "length cells = length ws"
  shows "table_line ws cells = Join (map2 ljust cells ws) '' ''"
proof -
  have "map (\<lambda>(i, w). ljust (if i < length cells then cells ! i else []) w) (enumerate 0 ws) = map2 ljust cells ws"
    using assms by (intro nth_equalityI) (simp_all add: nth_enumerate_eq)
  then show ?thesis by (simp add: table_line_def)
qed

lemma length_ljust: "length c \<le> w \<Longrightarrow> length (ljust c w) = w"
  by (simp add: ljust_def)

lemma TrimSpace_ljust [simp]: "TrimSpace (ljust c w) = TrimSpace c"
  by (simp add: ljust_def)

lemma TrimSpace_ljust_space: "TrimSpace (ljust c w @ '' '') = TrimSpace c"
  using TrimSpace_pad [of "ljust c w" 1] by simp

lemma sliceCell_open:
  "sliceCell (pre @ s) \<lparr>rs_start = int (length pre), rs_end = -1\<rparr> = TrimSpace s"
  by (simp add: sliceCell_def)

lemma sliceCell_span:
  "n = length s \<Longrightarrow> sliceCell (pre @ s @ t) \<lparr>rs_start = int (length pre), rs_end = int (length pre) + int n\<rparr> = TrimSpace s"
  by (simp add: sliceCell_def nat_add_distrib)

lemma sliceRow_cells:
  assumes "list_all2 (\<lambda>c w. length c \<le> w) cells ws"
  shows "sliceRow (spans_of (col_starts (int (length pre)) ws)) (pre @ Join (map2 ljust cells ws) '' '') = map TrimSpace cells"
  using assms
proof (induction cells ws arbitrary: pre rule: list_all2_induct)
  case (Cons c cells w ws)
  show ?case
  proof (cases ws)
    case Nil
    then show ?thesis using Cons.hyps(2) by (simp add: sliceRow_def sliceCell_open)
  next
    case w: (Cons v vs)
    then obtain d ds where c: "cells = d # ds" using Cons.hyps(2) by (cases cells) auto
    let ?first = "ljust c w @ '' ''"
    let ?rest = "Join (map2 ljust cells ws) '' ''"
    have len: "length ?first = w + 1" using Cons.hyps(1) by (simp add: length_ljust)
    have "int (length (pre @ ?first)) = int (length pre) + int w + 1" using len by simp
    then have "sliceRow (spans_of (col_starts (int (length pre) + int w + 1) ws)) ((pre @ ?first) @ ?rest) = map TrimSpace cells"
      using Cons.IH [of "pre @ ?first"] by (simp only:)
    moreover have "sliceCell (pre @ ?first @ ?rest) \<lparr>rs_start = int (length pre), rs_end = int (length pre) + int (w + 1)\<rparr> = TrimSpace c"
      using sliceCell_span [OF len [symmetric]] by (simp only: TrimSpace_ljust_space)
    ultimately show ?thesis by (simp add: w c sliceRow_def algebra_simps)
  qed
qed (simp add: sliceRow_def)

subsection \<open>The round trip\<close>

definition row_fits :: "nat list \<Rightarrow> string list \<Rightarrow> bool" where
  "row_fits ws row \<longleftrightarrow> cells_fit row ws \<and> list_all plain_line row \<and>
     (case row of (ch # _) # _ \<Rightarrow> graphic ch \<and> ch \<noteq> dash | _ \<Rightarrow> False)"

lemma plain_ljust: "plain_line c \<Longrightarrow> plain_line (ljust c w)"
  by (auto simp: plain_line_def ljust_def)

lemma plain_Join: "list_all plain_line ls \<Longrightarrow> plain_line (Join ls '' '')"
proof (induction ls)
  case (Cons l ls)
  then show ?case by (cases ls) (auto simp: plain_line_def)
qed (simp add: plain_line_def)

lemma plain_table_line:
  assumes "list_all plain_line cells"
  shows "plain_line (table_line ws cells)"
proof -
  have "plain_line (ljust (if i < length cells then cells ! i else []) w)" for i w
    using assms by (intro plain_ljust) (auto simp: list_all_length plain_line_def)
  then show ?thesis unfolding table_line_def by (intro plain_Join) (auto simp: list_all_iff)
qed

lemma plain_table_ruler: "plain_line (table_ruler ws)"
  unfolding table_ruler_def by (rule plain_Join) (auto simp: list_all_iff plain_line_def)

lemma row_line:
  assumes "row_fits ws row"
  shows "\<exists>ch s. table_line ws row = ch # s \<and> graphic ch \<and> ch \<noteq> dash"
proof -
  from assms obtain ch c cs where row: "row = (ch # c) # cs" "graphic ch" "ch \<noteq> dash"
    by (auto simp: row_fits_def split: list.splits)
  with assms obtain w ws' where ws: "ws = w # ws'" by (auto simp: row_fits_def cells_fit_def list_all2_Cons1)
  have "length row = length ws" using assms by (auto simp: row_fits_def cells_fit_def dest: list_all2_lengthD)
  then show ?thesis
    using row(2,3) by (simp add: table_line_cells row(1) ws Join_def ljust_def)
qed

lemma body_line_row:
  assumes "row_fits ws row"
  shows "body_line (table_line ws row)"
proof -
  obtain ch s where "table_line ws row = ch # s" "graphic ch" "ch \<noteq> dash" using row_line [OF assms] by blast
  then show ?thesis using rulerRE_rejects [of ch s] TrimSpace_nonempty [of ch "ch # s"] by (simp add: body_line_def)
qed

lemma ruler_matches:
  assumes "ws \<noteq> []" "2 \<le> hd ws"
  shows "MatchString rulerRE (table_ruler ws)"
proof -
  obtain w vs where ws: "ws = w # vs" using assms(1) by (cases ws) auto
  obtain n where w: "w = Suc (Suc n)" using assms(2) ws by (auto simp: le_iff_add)
  have "set (table_ruler ws) \<subseteq> {dash, CHR '' ''}"
    using set_Join [of "map (\<lambda>w. replicate w dash) ws" "'' ''"] by (fastforce simp: table_ruler_def)
  then have "list_all (\<lambda>ch. ch = dash \<or> ch = CHR '' '') (table_ruler ws)" by (auto simp: list_all_iff)
  moreover obtain s where "table_ruler ws = dash # dash # s" by (simp add: table_ruler_def ws w Join_def)
  ultimately show ?thesis using rulerRE_accepts by simp
qed

definition page_head :: "string list \<Rightarrow> nat list \<Rightarrow> string list \<Rightarrow> bool" where
  "page_head pre ws headers \<longleftrightarrow> ws \<noteq> [] \<and> 2 \<le> hd ws \<and> list_all (\<lambda>w. 1 \<le> w) ws \<and>
     list_all (\<lambda>l. plain_line l \<and> \<not> MatchString rulerRE l) (pre @ [table_line ws headers])"

lemma iterTableRows_table:
  assumes head: "page_head pre ws headers" and rows: "list_all (row_fits ws) rows"
  shows "iterTableRows (Join (pre @ table_line ws headers # table_ruler ws # map (table_line ws) rows) LF) []
    = map (map TrimSpace) rows"
proof -
  let ?lines = "pre @ table_line ws headers # table_ruler ws # map (table_line ws) rows"
  have rule: "MatchString rulerRE (table_ruler ws)" using head by (simp add: page_head_def ruler_matches)
  have "list_all plain_line ?lines"
    using head rows plain_table_line plain_table_ruler by (auto simp: page_head_def row_fits_def list_all_iff)
  moreover have "last ?lines \<noteq> []"
  proof (cases rows rule: rev_cases)
    case Nil
    obtain w vs where "ws = w # vs" "2 \<le> w" using head by (cases ws) (auto simp: page_head_def)
    then show ?thesis using Nil by (cases w) (auto simp: table_ruler_def Join_def)
  next
    case (snoc rs r)
    then show ?thesis using rows row_line [of ws r] by auto
  qed
  ultimately have lines: "splitLines (Join ?lines LF) = ?lines" by (intro splitLines_Join) simp_all
  have "takeWhile (\<lambda>l. \<not> MatchString rulerRE l) ?lines = pre @ [table_line ws headers]"
    using head rule by (subst takeWhile_append2) (auto simp: page_head_def list_all_iff)
  then have idx: "findAfterAndRuler ?lines [] = (length pre + 1, True)" by (simp add: findAfterAndRuler_def Let_def)
  have body: "takeWhile body_line (map (table_line ws) rows) = map (table_line ws) rows"
    using rows body_line_row by (auto simp: list_all_iff takeWhile_eq_all_conv)
  have "sliceRow (rulerSpans (table_ruler ws)) (table_line ws row) = map TrimSpace row" if "row \<in> set rows" for row
  proof -
    have fit: "list_all2 (\<lambda>c w. length c \<le> w) row ws" using rows that by (auto simp: list_all_iff row_fits_def cells_fit_def)
    then show ?thesis
      using sliceRow_cells [OF fit, of "[]"] head
      by (simp add: rulerSpans_def ruler_starts_ruler page_head_def table_line_cells list_all2_lengthD [OF fit])
  qed
  then show ?thesis
    unfolding iterTableRows_def lines Let_def idx by (simp add: nth_append body)
qed

end
