(* ===== verification/Cli_View.thy ===== *)
theory Cli_View
  imports Table_Roundtrip Cli_Face Fastpath_Session
begin

section \<open>The reader on the virtual command line\<close>

text \<open>
  What the pages of the virtual switch say, read back by the parsers: the PVIDs, the VLANs and the
  ports of the state, for a state that fits the pages (\<open>cli_well\<close>: the ports carry the names the
  specification gives them, the VLAN identifiers and names fit their columns).
\<close>

subsection \<open>Matching one step at a time\<close>

declare rx_match.simps [simp del]

lemma match_step [rx_eval]:
  "rx_match (Rx_Seq (rx_lit []) b) p c k = rx_match b p c k"
  "rx_match (Rx_Seq (rx_lit (x # l)) b) (pv, []) c k = None"
  "rx_match (Rx_Seq (rx_lit (x # l)) b) (pv, ch # s) c k =
     (if ch = x then rx_match (Rx_Seq (rx_lit l) b) (Some ch, s) c k else None)"
  "rx_match (Rx_Seq Rx_End b) (pv, s) c k = (if s = [] then rx_match b (pv, s) c k else None)"
  "rx_match Rx_Empty p c k = k p c"
  by (simp_all add: rx_lit_simps rx_match.simps)

lemma match_alt [rx_eval]: "rx_match (Rx_Seq (Rx_Alt a a') b) p c k = or_else (rx_match (Rx_Seq a b) p c k) (rx_match (Rx_Seq a' b) p c k)"
  by (simp add: rx_match.simps)

subsection \<open>Decimal texts\<close>

lemma digit_graphic: "is_digit ch \<Longrightarrow> graphic ch \<and> ch \<noteq> dash \<and> ch \<noteq> CHR 0x0A \<and> \<not> is_space ch"
  by (auto simp: is_digit_def graphic_def is_space_def)

lemma length_show_nat: "0 < k \<Longrightarrow> n < 10 ^ k \<Longrightarrow> length (show_nat n) \<le> k"
proof (induction k arbitrary: n)
  case (Suc k)
  show ?case
  proof (cases "n < 10")
    case True
    then show ?thesis by (simp add: show_nat.simps)
  next
    case False
    then have "0 < k" using Suc.prems by (cases k) auto
    moreover have "n div 10 < 10 ^ k" using Suc.prems(2) by (simp add: less_mult_imp_div_less mult.commute)
    ultimately have "length (show_nat (n div 10)) \<le> k" by (rule Suc.IH)
    then show ?thesis using False by (subst show_nat.simps) simp
  qed
qed simp

lemma show_int_nat: "0 \<le> i \<Longrightarrow> show_int i = show_nat (nat i)"
  by (simp add: show_int_def)

lemma int_all_digits: "0 \<le> i \<Longrightarrow> list_all is_digit (show_int i) \<and> show_int i \<noteq> []"
  using show_nat_digits by (simp add: show_int_nat)

lemma digits_span [simp]:
  assumes "list_all is_digit ds"
  shows "takeWhile is_digit ds = ds" "dropWhile is_digit ds = []"
    "\<not> is_digit x \<Longrightarrow> takeWhile is_digit (ds @ x # t) = ds" "\<not> is_digit x \<Longrightarrow> dropWhile is_digit (ds @ x # t) = x # t"
  using assms by (induction ds) auto

lemma digits_graphic: "list_all is_digit ds \<Longrightarrow> list_all graphic ds"
  using digit_graphic by (auto simp: list_all_iff)

text \<open>A word: printable, without spaces; trimming leaves it alone.\<close>

definition word_text :: "string \<Rightarrow> bool" where
  "word_text t \<longleftrightarrow> t \<noteq> [] \<and> list_all graphic t"

lemma word_text_facts:
  assumes "word_text t"
  shows "TrimSpace t = t" "plain_line t" "t \<noteq> []"
  using assms
  by (auto simp: word_text_def list_all_iff plain_line_def graphic_def intro!: TrimSpace_id)

lemma word_text_int: "0 \<le> i \<Longrightarrow> word_text (show_int i)"
  using int_all_digits digits_graphic by (simp add: word_text_def)

lemma word_text_append: "word_text a \<Longrightarrow> word_text b \<Longrightarrow> word_text (a @ b)"
  by (simp add: word_text_def)

lemma parseInt_show_int: "0 \<le> i \<Longrightarrow> i < 2 ^ 63 \<Longrightarrow> parseInt (show_int i) = Some i"
  by (simp add: parseInt_def word_text_facts(1) [OF word_text_int] Atoi_show_int int64_range_def)

subsection \<open>Names of ports\<close>

definition port_name_text :: "string \<Rightarrow> int \<Rightarrow> bool" where
  "port_name_text name p \<longleftrightarrow> name = ''1/0/'' @ show_int p \<or> name = ''1/g'' @ show_int p \<or> name = ''1/xg'' @ show_int p"

lemma is_digit_slash [simp]: "\<not> is_digit (CHR ''/'')" "is_digit (CHR ''1'')" "is_digit (CHR ''0'')"
  "\<not> is_digit (CHR ''x'')" "\<not> is_digit (CHR ''g'')"
  by (simp_all add: is_digit_def)

lemma physPort_name:
  assumes "port_name_text name p" "0 \<le> p" "p < 2 ^ 63"
  shows "physPort name = Some p"
proof -
  have d: "list_all is_digit (show_int p)" "show_int p \<noteq> []" using int_all_digits [OF assms(2)] by auto
  have w: "word_text name"
    using assms(1) word_text_int [OF assms(2)] by (auto simp: port_name_text_def word_text_def graphic_def)
  have a: "Atoi (show_int p) = Some p" using assms by (simp add: Atoi_show_int int64_range_def)
  consider "name = ''1/0/'' @ show_int p" | "name = ''1/g'' @ show_int p" | "name = ''1/xg'' @ show_int p"
    using assms(1) by (auto simp: port_name_text_def)
  moreover have "physPort name = (case FindStringSubmatch physIfaceRE name of Some m \<Rightarrow> Atoi (submatch m 2)
      | None \<Rightarrow> (case FindStringSubmatch smartIfaceRE name of Some m \<Rightarrow> Atoi (submatch m 1) | None \<Rightarrow> None))"
    by (simp add: physPort_def word_text_facts(1) [OF w])
  ultimately show ?thesis
    by cases (simp_all add: physIfaceRE_def smartIfaceRE_def rx_eval blocked_intros d a)
qed

lemma port_name_word:
  assumes "port_name_text name p" "0 \<le> p" "p < 10000"
  shows "word_text name" "length name \<le> 9" "\<exists>s. name = CHR ''1'' # s"
proof -
  have "length (show_int p) \<le> 4" using assms length_show_nat [of 4 "nat p"] by (simp add: show_int_nat)
  then show "length name \<le> 9" using assms(1) by (auto simp: port_name_text_def)
  show "word_text name"
    using assms(1) word_text_int [OF assms(2)] by (auto simp: port_name_text_def word_text_def graphic_def)
  show "\<exists>s. name = CHR ''1'' # s" using assms(1) by (auto simp: port_name_text_def)
qed

subsection \<open>States that fit the pages\<close>

definition name_fits :: "string \<Rightarrow> bool" where
  "name_fits n \<longleftrightarrow> length n \<le> 32 \<and> plain_line n \<and> TrimSpace n = n"

definition id_fits :: "int \<Rightarrow> bool" where "id_fits v \<longleftrightarrow> 0 \<le> v \<and> v < 10000000"

definition names_ok :: "vstate \<Rightarrow> bool" where
  "names_ok s \<longleftrightarrow>
     (case physPorts s of
        Inl _ \<Rightarrow> False
      | Inr ports \<Rightarrow> list_all (\<lambda>p. port_name_text (vp_name (the (map_of (vs_ports s) p))) p) ports)"

definition pvids_ok :: "vstate \<Rightarrow> bool" where
  "pvids_ok s \<longleftrightarrow> list_all (\<lambda>p. id_fits (the (map_of (vs_pvids s) p))) (sorted_keys (vs_pvids s))"

definition vlans_ok :: "vstate \<Rightarrow> bool" where
  "vlans_ok s \<longleftrightarrow>
     list_all (\<lambda>vid. id_fits vid \<and> name_fits (vv_name (the (map_of (vs_vlans s) vid)))) (sorted_keys (vs_vlans s))"

definition cli_well :: "vstate \<Rightarrow> bool" where
  "cli_well s \<longleftrightarrow> names_ok s \<and> pvids_ok s \<and> vlans_ok s"

text \<open>The ports a page lists.\<close>

definition listed :: "vstate \<Rightarrow> int list" where
  "listed s = (case physPorts s of Inr ports \<Rightarrow> ports | Inl _ \<Rightarrow> [])"

lemma mustModel_in: "mustModel s = Inr m \<Longrightarrow> m \<in> set Models"
  by (auto simp: mustModel_def GetModel_def modelIndex_def find_Some_iff split: sum.splits option.splits dest: map_of_SomeD)

lemma mustModel_count: "mustModel s = Inr m \<Longrightarrow> sm_port_count m \<le> 52"
  by (drule mustModel_in) (auto simp: registry_defs)

lemma physPorts_listed: "names_ok s \<Longrightarrow> physPorts s = Inr (listed s)"
  by (auto simp: names_ok_def listed_def split: sum.splits)

lemma listed_distinct: "sorted (listed s)" "distinct (listed s)"
  by (auto simp: listed_def physPorts_def sorted_wrt_filter res_simps split: sum.splits)

lemma listed_port:
  assumes "names_ok s" "p \<in> set (listed s)"
  shows "1 \<le> p" "p \<le> 52" "\<exists>sim. map_of (vs_ports s) p = Some sim" "port_name_text (cli_iface s p) p"
proof -
  have ports: "physPorts s = Inr (listed s)"
    and names: "list_all (\<lambda>p. port_name_text (vp_name (the (map_of (vs_ports s) p))) p) (listed s)"
    using assms(1) by (auto simp: names_ok_def listed_def split: sum.splits)
  obtain m where m: "mustModel s = Inr m" using ports by (auto simp: physPorts_def res_simps)
  have p: "1 \<le> p" "p \<le> int (sm_port_count m)" "map_of (vs_ports s) p \<noteq> None"
    using assms(2) m by (auto simp: listed_def physPorts_def)
  then show "1 \<le> p" "p \<le> 52" using mustModel_count [OF m] by auto
  obtain sim where sim: "map_of (vs_ports s) p = Some sim" using p(3) by auto
  then show "\<exists>sim. map_of (vs_ports s) p = Some sim" by blast
  have "port_name_text (vp_name sim) p" using names sim assms(2) by (auto simp: list_all_iff)
  then show "port_name_text (cli_iface s p) p"
    using sim by (auto simp: cli_iface_def port_name_text_def)
qed

lemma listed_name:
  assumes "names_ok s" "p \<in> set (listed s)"
  shows "physPort (cli_iface s p) = Some p" "TrimSpace (cli_iface s p) = cli_iface s p" "plain_line (cli_iface s p)"
    "length (cli_iface s p) \<le> 9" "\<exists>t. cli_iface s p = CHR ''1'' # t"
proof -
  note l = listed_port [OF assms]
  show "physPort (cli_iface s p) = Some p" using l by (intro physPort_name) auto
  have w: "word_text (cli_iface s p)" "length (cli_iface s p) \<le> 9" "\<exists>t. cli_iface s p = CHR ''1'' # t"
    using port_name_word [OF l(4)] l(1,2) by auto
  then show "TrimSpace (cli_iface s p) = cli_iface s p" "plain_line (cli_iface s p)" "length (cli_iface s p) \<le> 9"
    "\<exists>t. cli_iface s p = CHR ''1'' # t" by (simp_all add: word_text_facts)
qed

lemma length_id: "id_fits v \<Longrightarrow> length (show_int v) \<le> 7"
  using length_show_nat [of 7 "nat v"] by (simp add: id_fits_def show_int_nat nat_less_iff)

lemma id_text: "id_fits v \<Longrightarrow> TrimSpace (show_int v) = show_int v \<and> plain_line (show_int v) \<and> parseInt (show_int v) = Some v"
  by (simp add: id_fits_def word_text_facts word_text_int parseInt_show_int)

text \<open>A page of one table.\<close>

lemma cliTable_rows:
  assumes "page_head [] ws headers" "list_all (row_fits ws) rows"
  shows "iterTableRows (cliTable headers ws rows) [] = map (map TrimSpace) rows"
  using iterTableRows_table [OF assms] by (simp add: cliTable_def)

lemma graphic_one [simp]: "graphic (CHR ''1'')" "CHR ''1'' \<noteq> dash"
  by (simp_all add: graphic_def)

lemma row_fits_named:
  assumes "names_ok s" "p \<in> set (listed s)" "9 \<le> w"
  shows "row_fits (w # ws) (cli_iface s p # cells) \<longleftrightarrow> list_all2 (\<lambda>c w. length c \<le> w) cells ws \<and> list_all plain_line cells"
  using listed_name [OF assms(1,2)] assms(3) by (auto simp: row_fits_def cells_fit_def)

subsection \<open>PVIDs\<close>

definition pvid_of :: "vstate \<Rightarrow> int \<Rightarrow> int" where
  "pvid_of s p = (case map_of (vs_pvids s) p of Some v \<Rightarrow> v | None \<Rightarrow> 1)"

definition cli_pvids :: "vstate \<Rightarrow> pvid list" where
  "cli_pvids s = map (\<lambda>p. \<lparr>pv_port = p, pv_vlan = pvid_of s p\<rparr>) (listed s)"

lemma pvid_fits: "pvids_ok s \<Longrightarrow> id_fits (pvid_of s p)"
  by (force simp: pvids_ok_def pvid_of_def list_all_iff id_fits_def split: option.split)

lemma pvids_head: "page_head [] [9, 10, 8, 11, 10, 9, 7, 8]
    [''Interface'', ''Port'', ''Port'', ''Acceptable'', ''Ingress'', ''Ingress'', ''GVRP'', ''Default'']"
  by (simp add: page_head_def table_line_def ljust_def plain_line_def enumerate_eq_zip rulerRE_rejects graphic_def)

lemma parse_pvids:
  assumes "names_ok s" "pvids_ok s"
  shows "\<exists>t. renderPvids s = Inr t \<and> parsePVIDs t = cli_pvids s"
proof -
  let ?rows = "map (pvid_cells s) (listed s)"
  have cells: "pvid_cells s p = cli_iface s p # show_int (pvid_of s p) # show_int (pvid_of s p) #
      [''Admit All'', ''Disable'', ''Disable'', ''Enable'', ''0'']" for p
    by (simp add: pvid_cells_def pvid_of_def Let_def)
  have id: "id_fits (pvid_of s p)" for p using assms(2) by (rule pvid_fits)
  have "list_all (row_fits [9, 10, 8, 11, 10, 9, 7, 8]) ?rows"
    using id_text [OF id] order_trans [OF length_id [OF id]]
    by (auto simp: list_all_iff cells row_fits_named [OF assms(1)] plain_line_def)
  then have "iterTableRows (cliTable [''Interface'', ''Port'', ''Port'', ''Acceptable'', ''Ingress'', ''Ingress'', ''GVRP'', ''Default'']
       [9, 10, 8, 11, 10, 9, 7, 8] ?rows) [] = map (map TrimSpace) ?rows"
    by (rule cliTable_rows [OF pvids_head])
  moreover have "pvid_row (map TrimSpace (pvid_cells s p)) = [\<lparr>pv_port = p, pv_vlan = pvid_of s p\<rparr>]" if "p \<in> set (listed s)" for p
    using listed_name [OF assms(1) that] id_text [OF id [of p]] by (simp add: cells pvid_row_def)
  then have "concat (map (\<lambda>p. pvid_row (map TrimSpace (pvid_cells s p))) (listed s)) = cli_pvids s"
    unfolding cli_pvids_def by (induction "listed s") (simp_all cong: map_cong)
  ultimately show ?thesis
    by (simp add: renderPvids_def physPorts_listed [OF assms(1)] parsePVIDs_def o_def)
qed

subsection \<open>Lower case\<close>

lemma runes_ascii: "list_all (\<lambda>b. b < 0x80) bs \<Longrightarrow> runes bs = map unat bs"
  by (induction bs) (simp_all add: next_rune_ascii)

lemma ToLowerRunes_ascii:
  assumes "is_ascii t"
  shows "ToLowerRunes U t = map to_lower t"
proof -
  have "list_all (\<lambda>b. b < 0x80) (bytes_of t)" using assms by (simp add: is_ascii_def list_all_iff)
  moreover have "encode_rune (let r = unat (byte_of_char ch) in if r < 0x80 then (if 65 \<le> r \<and> r \<le> 90 then r + 32 else r) else uc_lower U r)
      = [to_lower ch]" if "byte_of_char ch < 0x80" for ch
  proof -
    have "unat (byte_of_char ch) = of_char ch"
      using nat_of_char_less_256 [of ch] by (simp add: byte_of_char_def unat_of_nat)
    moreover have "(of_char ch :: nat) < 0x80" using that calculation by (simp add: word_less_nat_alt)
    ultimately show ?thesis by (auto simp: Let_def encode_rune_def to_lower_def)
  qed
  then have "concat (map (\<lambda>r. encode_rune (if r < 0x80 then (if 65 \<le> r \<and> r \<le> 90 then r + 32 else r) else uc_lower U r))
      (map unat (bytes_of t))) = map to_lower t" if "list_all (\<lambda>b. b < 0x80) (bytes_of t)"
    using that by (induction t) (simp_all add: Let_def)
  ultimately show ?thesis by (simp add: ToLowerRunes_def runes_ascii)
qed

lemma lower_word: "is_ascii t \<Longrightarrow> map to_lower t = t' \<Longrightarrow> ToLowerRunes U t = t'"
  by (simp add: ToLowerRunes_ascii)

lemma lower_words [simp]:
  "ToLowerRunes U ''Include'' = ''include''"
  "ToLowerRunes U ''Exclude'' = ''exclude''"
  "ToLowerRunes U ''Autodetect'' = ''autodetect''"
  "ToLowerRunes U ''Tagged'' = ''tagged''"
  "ToLowerRunes U ''Untagged'' = ''untagged''"
  "ToLowerRunes U ''Enable'' = ''enable''"
  "ToLowerRunes U ''Disable'' = ''disable''"
  "ToLowerRunes U ''Up'' = ''up''"
  "ToLowerRunes U ''Down'' = ''down''"
  by (rule lower_word; code_simp)+

lemma trim_words [simp]:
  "TrimSpace ''Include'' = ''Include''"
  "TrimSpace ''Exclude'' = ''Exclude''"
  "TrimSpace ''Autodetect'' = ''Autodetect''"
  "TrimSpace ''Tagged'' = ''Tagged''"
  "TrimSpace ''Untagged'' = ''Untagged''"
  "TrimSpace ''Enable'' = ''Enable''"
  "TrimSpace ''Disable'' = ''Disable''"
  "TrimSpace ''Up'' = ''Up''"
  "TrimSpace ''Down'' = ''Down''"
  "TrimSpace ''Yes'' = ''Yes''"
  "TrimSpace ''Auto'' = ''Auto''"
  "TrimSpace ''enable'' = ''enable''"
  "TrimSpace ''disable'' = ''disable''"
  by (rule word_text_facts(1), code_simp)+

subsection \<open>VLANs\<close>

definition cli_vlan_info :: "vstate \<Rightarrow> int \<Rightarrow> vlan_info" where
  "cli_vlan_info s vid =
     (let v = the (map_of (vs_vlans s) vid);
          members = filter (in_set (vv_member v)) (listed s) in
      \<lparr>vi_vlan_id = vid, vi_name = Some (vv_name v), vi_members = members,
       vi_tagged = filter (\<lambda>p. \<not> in_set (vv_untagged v) p) members,
       vi_untagged = filter (in_set (vv_untagged v)) members\<rparr>)"

definition cli_vlans :: "vstate \<Rightarrow> vlan_info list" where
  "cli_vlans s = map (cli_vlan_info s) (sorted_keys (vs_vlans s))"

lemma row_fits_int:
  assumes "id_fits v" "7 \<le> w"
  shows "row_fits (w # ws) (show_int v # cells) \<longleftrightarrow> list_all2 (\<lambda>c w. length c \<le> w) cells ws \<and> list_all plain_line cells"
proof -
  obtain c cs where "show_int v = c # cs" "is_digit c"
    using int_all_digits [of v] assms(1) by (cases "show_int v") (auto simp: id_fits_def)
  then show ?thesis
    using length_id [OF assms(1)] id_text [OF assms(1)] digit_graphic [of c] assms(2)
    by (auto simp: row_fits_def cells_fit_def)
qed

lemma vlan_well:
  assumes "vlans_ok s" "map_of (vs_vlans s) vid = Some v"
  shows "id_fits vid" "name_fits (vv_name v)"
  using assms by (force simp: vlans_ok_def list_all_iff)+

lemma brief_head: "page_head [] [7, 32, 19] [''VLAN ID'', ''VLAN Name'', ''VLAN Type'']"
  by (simp add: page_head_def table_line_def ljust_def plain_line_def enumerate_eq_zip rulerRE_rejects graphic_def)

lemma parse_brief:
  assumes "vlans_ok s"
  shows "parseVLANBrief (renderVlanBrief s)
    = map (\<lambda>vid. \<lparr>bv_vlan = vid, bv_name = vv_name (the (map_of (vs_vlans s) vid))\<rparr>) (sorted_keys (vs_vlans s))"
proof -
  let ?cells = "\<lambda>vid. [show_int vid, vv_name (the (map_of (vs_vlans s) vid)), vlan_type_text vid]"
  have well: "id_fits vid \<and> name_fits (vv_name (the (map_of (vs_vlans s) vid)))" if "vid \<in> set (sorted_keys (vs_vlans s))" for vid
    using that vlan_well [OF assms] by auto
  have "list_all (row_fits [7, 32, 19]) (map ?cells (sorted_keys (vs_vlans s)))"
    using well by (auto simp: list_all_iff row_fits_int name_fits_def vlan_type_text_def plain_line_def)
  then have "iterTableRows (renderVlanBrief s) [] = map (map TrimSpace) (map ?cells (sorted_keys (vs_vlans s)))"
    unfolding renderVlanBrief_def by (rule cliTable_rows [OF brief_head])
  moreover have "vlan_brief_of (map TrimSpace (?cells vid)) = [\<lparr>bv_vlan = vid, bv_name = vv_name (the (map_of (vs_vlans s) vid))\<rparr>]"
    if "vid \<in> set (sorted_keys (vs_vlans s))" for vid
    using well [OF that] id_text by (auto simp: vlan_brief_of_def name_fits_def)
  then have "concat (map (\<lambda>vid. vlan_brief_of (map TrimSpace (?cells vid))) ks)
      = map (\<lambda>vid. \<lparr>bv_vlan = vid, bv_name = vv_name (the (map_of (vs_vlans s) vid))\<rparr>) ks"
    if "set ks \<subseteq> set (sorted_keys (vs_vlans s))" for ks
    using that by (induction ks) simp_all
  ultimately show ?thesis by (simp add: parseVLANBrief_def o_def)
qed

text \<open>The header of a VLAN's page: an unanchored match at its first position.\<close>

lemma match_group_plus_first:
  assumes "P ch" "rx_match b (moved (Some ch) (takeWhile P s), dropWhile P s) ((n, ch # takeWhile P s) # c) k = Some r"
  shows "rx_match (Rx_Seq (Rx_Group n (rx_plus True (Rx_Set P))) b) (pv, ch # s) c k = Some r"
  using rx_repeat_first [of "\<lambda>p' c'. rx_match b p' ((n, take (length (ch # s) - length (snd p')) (ch # s)) # c') k" "Some ch" P s c r] assms
  by (simp add: rx_match.simps rx_plus_def take_span_Cons)

lemma vlanHeaderRE_matches:
  assumes "list_all is_digit ds" "ds \<noteq> []" "\<not> is_digit x"
  shows "FindStringSubmatch vlanHeaderRE (''VLAN ID: '' @ ds @ x # t) = Some [(1, ds)]"
proof -
  obtain d ds' where ds: "ds = d # ds'" "is_digit d" using assms(1,2) by (cases ds) auto
  have sp: "\<not> is_space d" using digit_graphic [OF ds(2)] by simp
  have b: "blocked is_space (Rx_Seq (Rx_Group 1 (rx_plus True (Rx_Set is_digit))) Rx_Empty)"
    using digit_graphic by (intro blocked_intros) blast
  have "rx_match (Rx_Seq (Rx_Group 1 (rx_plus True (Rx_Set is_digit))) Rx_Empty) (pv, d # ds' @ x # t) [] (\<lambda>p c. Some c) = Some [(1, ds)]" for pv
    using assms(1,3) ds by (intro match_group_plus_first) (simp_all add: rx_match.simps)
  then have "rx_match vlanHeaderRE (None, ''VLAN ID: '' @ ds @ x # t) [] (\<lambda>p c. Some c) = Some [(1, ds)]"
    by (simp add: vlanHeaderRE_def match_step match_star_set [OF b [unfolded One_nat_def]] ds(1) sp) (simp add: is_space_def)
  then show ?thesis by (simp add: FindStringSubmatch_def rx_search.simps)
qed

lemma AtoiValue_show_int: "id_fits v \<Longrightarrow> AtoiValue (show_int v) = v"
  by (simp add: AtoiValue_def Atoi_show_int id_fits_def int64_range_def)

lemma detail_fold:
  assumes "\<And>p t u. p \<in> set ports \<Longrightarrow> vlan_detail_row U (t, u) (row p)
      = (if \<not> mem p then (t, u) else if tag p then (AList.update p True t, u) else (t, AList.update p True u))"
  shows "\<exists>t' u'. foldl (vlan_detail_row U) (t, u) (map row ports) = (t', u')
    \<and> dom (map_of t') = dom (map_of t) \<union> {p \<in> set ports. mem p \<and> tag p}
    \<and> dom (map_of u') = dom (map_of u) \<union> {p \<in> set ports. mem p \<and> \<not> tag p}"
  using assms
proof (induction ports arbitrary: t u)
  case (Cons p ports)
  let ?step = "vlan_detail_row U (t, u) (row p)"
  obtain t1 u1 where step: "?step = (t1, u1)" by fastforce
  from Cons.IH [of t1 u1] Cons.prems obtain t' u' where
    fold: "foldl (vlan_detail_row U) (t1, u1) (map row ports) = (t', u')"
    "dom (map_of t') = dom (map_of t1) \<union> {p \<in> set ports. mem p \<and> tag p}"
    "dom (map_of u') = dom (map_of u1) \<union> {p \<in> set ports. mem p \<and> \<not> tag p}" by fastforce
  have "(t1, u1) = (if \<not> mem p then (t, u) else if tag p then (AList.update p True t, u) else (t, AList.update p True u))"
    using Cons.prems [of p t u] step by simp
  then have "dom (map_of t1) = dom (map_of t) \<union> (if mem p \<and> tag p then {p} else {})"
    "dom (map_of u1) = dom (map_of u) \<union> (if mem p \<and> \<not> tag p then {p} else {})"
    by (auto simp: update_conv' split: if_splits)
  then show ?case using fold step by auto
qed auto

lemma detail_head:
  assumes "id_fits vid" "plain_line name"
  shows "page_head [''VLAN ID: '' @ show_int vid, ''VLAN Name: '' @ name, ''VLAN Type: '' @ vlan_type_text vid, []]
    [10, 8, 11, 8] [''Interface'', ''Current'', ''Configured'', ''Tagging'']"
  using assms id_text [OF assms(1)]
  by (simp add: page_head_def table_line_def ljust_def plain_line_def enumerate_eq_zip rulerRE_rejects rulerRE_rejects_Nil
    graphic_def vlan_type_text_def)

lemma detail_page:
  "Join [a, b, c, []] LF @ LF @ cliTable headers ws rows
    = Join ([a, b, c, []] @ table_line ws headers # table_ruler ws # map (table_line ws) rows) LF"
  by (simp add: cliTable_def)

lemma vlan_cells_read:
  assumes "names_ok s" "p \<in> set (listed s)" "map_of (vs_vlans s) vid = Some v"
  shows "vlan_detail_row U (t, u) (map TrimSpace (vlan_detail_cells s vid p))
    = (if \<not> in_set (vv_member v) p then (t, u)
       else if \<not> in_set (vv_untagged v) p then (AList.update p True t, u) else (t, AList.update p True u))"
  using listed_name [OF assms(1,2)] assms(3)
  by (auto simp: vlan_detail_cells_def vlan_detail_row_def)

lemma vlan_cells_fit:
  assumes "names_ok s" "p \<in> set (listed s)" "map_of (vs_vlans s) vid = Some v"
  shows "row_fits [10, 8, 11, 8] (vlan_detail_cells s vid p)"
  using assms(3) by (auto simp: vlan_detail_cells_def row_fits_named [OF assms(1,2)] plain_line_def)

lemma keys_filter:
  "sorted xs \<Longrightarrow> distinct xs \<Longrightarrow> set ks = {p \<in> set xs. P p} \<Longrightarrow> sort_uniq ks = filter P xs"
  by (rule sorted_distinct_set_unique) (simp_all add: sorted_wrt_filter)

lemma parse_detail:
  assumes "names_ok s" "vlans_ok s" "map_of (vs_vlans s) vid = Some v"
  shows "\<exists>t. renderVlanDetail s vid = Inr t \<and> parseVLANDetail U t (Some (vv_name v)) = cli_vlan_info s vid"
proof -
  note well = vlan_well [OF assms(2,3)]
  let ?pre = "[''VLAN ID: '' @ show_int vid, ''VLAN Name: '' @ vv_name v, ''VLAN Type: '' @ vlan_type_text vid, []]"
  let ?ws = "[10, 8, 11, 8]" and ?headers = "[''Interface'', ''Current'', ''Configured'', ''Tagging'']"
  let ?rows = "map (vlan_detail_cells s vid) (listed s)"
  define page where "page = Join ?pre LF @ LF @ cliTable ?headers ?ws ?rows"
  let ?mem = "in_set (vv_member v)" and ?tag = "\<lambda>p. \<not> in_set (vv_untagged v) p"
  have render: "renderVlanDetail s vid = Inr page"
    using assms(3) by (simp add: page_def renderVlanDetail_def physPorts_listed [OF assms(1)])
  have "list_all (row_fits ?ws) ?rows" using vlan_cells_fit [OF assms(1) _ assms(3)] by (simp add: list_all_iff)
  then have rows: "iterTableRows page [] = map (map TrimSpace) ?rows"
    using iterTableRows_table [OF detail_head] well by (simp only: page_def detail_page name_fits_def)
  obtain t' u' where fold: "foldl (vlan_detail_row U) ([], []) (map (\<lambda>p. map TrimSpace (vlan_detail_cells s vid p)) (listed s)) = (t', u')"
    and dom: "dom (map_of t') = {p \<in> set (listed s). ?mem p \<and> ?tag p}" "dom (map_of u') = {p \<in> set (listed s). ?mem p \<and> \<not> ?tag p}"
    using detail_fold [of "listed s" U "\<lambda>p. map TrimSpace (vlan_detail_cells s vid p)" ?mem ?tag "[]" "[]"]
      vlan_cells_read [OF assms(1) _ assms(3)] by auto
  obtain rest where "page = ''VLAN ID: '' @ show_int vid @ CHR 0x0A # rest" by (simp add: page_def LF_def)
  then have vid: "FindStringSubmatch vlanHeaderRE page = Some [(1, show_int vid)]"
    using vlanHeaderRE_matches [of "show_int vid" "CHR 0x0A" rest] int_all_digits [of vid] well(1)
    by (simp add: id_fits_def is_digit_def)
  have "set (map fst t') = dom (map_of t')" "set (map fst u') = dom (map_of u')" by (simp_all add: dom_map_of_conv_image_fst)
  then have "sort_uniq (map fst t' @ map fst u') = filter ?mem (listed s)"
    "sorted_keys t' = filter (\<lambda>p. ?mem p \<and> ?tag p) (listed s)" "sorted_keys u' = filter (\<lambda>p. ?mem p \<and> \<not> ?tag p) (listed s)"
    using listed_distinct [of s] dom unfolding sorted_keys_def by (auto intro!: keys_filter)
  then have "parseVLANDetail U page (Some (vv_name v)) = cli_vlan_info s vid"
    using assms(3) AtoiValue_show_int [OF well(1)]
    by (simp add: parseVLANDetail_def vid rows o_def fold cli_vlan_info_def Let_def filter_filter conj_commute)
  then show ?thesis using render by blast
qed

subsection \<open>Show commands\<close>

definition known_spec :: "cli_model_spec \<Rightarrow> bool" where
  "known_spec spec \<longleftrightarrow> spec \<in> set (map snd cliSpecs)"

lemmas spec_defs = gsm7252psSpec_def m430024xSpec_def m430016xSpec_def gsm7228psSpec_def applyM4300Overrides_def
  M4300OverridesValue_def newCliModelSpec_def

lemma known_spec_cases:
  assumes "known_spec spec"
  obtains "spec = gsm7252psSpec" | "spec = m430024xSpec" | "spec = m430016xSpec" | "spec = gsm7228psSpec"
  using assms by (auto simp: known_spec_def cliSpecs_def)

lemma newCliModelSpec_sel [simp]:
  "cs_version_cmd (newCliModelSpec k captured verified) = ''show version''"
  "cs_port_status_cmd (newCliModelSpec k captured verified) = ''show port all''"
  "cs_pvid_cmd (newCliModelSpec k captured verified) = ''show vlan port all''"
  "cs_vlan_detail_cmd (newCliModelSpec k captured verified) = ''show vlan {vlan}''"
  "cs_mac_table_cmd (newCliModelSpec k captured verified) = ''show mac-addr-table''"
  "cs_lldp_cmd (newCliModelSpec k captured verified) = ''show lldp remote-device all''"
  "cs_poe_cmd (newCliModelSpec k captured verified) = ''show poe port info all''"
  "cs_environment_cmd (newCliModelSpec k captured verified) = ''show environment''"
  "cs_interface_stats_cmd (newCliModelSpec k captured verified) = ''show interface ethernet {iface}''"
  "cs_users_cmd (newCliModelSpec k captured verified) = ''show users''"
  "cs_http_service_cmd (newCliModelSpec k captured verified) = ''show ip http''"
  "cs_telnet_service_cmd (newCliModelSpec k captured verified) = ''show telnetcon''"
  "cs_ssh_service_cmd (newCliModelSpec k captured verified) = ''show ip ssh''"
  "cs_hosts_cmd (newCliModelSpec k captured verified) = ''show hosts''"
  "cs_logging_cmd (newCliModelSpec k captured verified) = ''show logging''"
  "cs_logging_hosts_cmd (newCliModelSpec k captured verified) = ''show logging hosts''"
  "cs_vlan_database_cmd (newCliModelSpec k captured verified) = ''vlan database''"
  "cs_vlan_create_cmd (newCliModelSpec k captured verified) = ''vlan {vlan}''"
  "cs_vlan_name_cmd (newCliModelSpec k captured verified) = ''vlan name {vlan} {name}''"
  "cs_vlan_delete_cmd (newCliModelSpec k captured verified) = ''no vlan {vlan}''"
  "cs_configure_cmd (newCliModelSpec k captured verified) = ''configure''"
  "cs_interface_cmd (newCliModelSpec k captured verified) = ''interface {iface}''"
  "cs_vlan_participation_cmd (newCliModelSpec k captured verified) = ''vlan participation {action} {vlan}''"
  "cs_vlan_tagging_cmd (newCliModelSpec k captured verified) = ''vlan tagging {vlan}''"
  "cs_vlan_no_tagging_cmd (newCliModelSpec k captured verified) = ''no vlan tagging {vlan}''"
  "cs_vlan_pvid_cmd (newCliModelSpec k captured verified) = ''vlan pvid {vlan}''"
  "cs_exit_cmd (newCliModelSpec k captured verified) = ''exit''"
  "cs_hostname_config_cmd (newCliModelSpec k captured verified) = ''hostname {name}''"
  by (simp_all add: newCliModelSpec_def)

lemma spec_cmds [simp]:
  assumes "known_spec spec"
  shows "cs_version_cmd spec = ''show version''"
    "cs_port_status_cmd spec = ''show port all''"
    "cs_pvid_cmd spec = ''show vlan port all''"
    "cs_vlan_detail_cmd spec = ''show vlan {vlan}''"
    "cs_mac_table_cmd spec = ''show mac-addr-table''"
    "cs_lldp_cmd spec = ''show lldp remote-device all''"
    "cs_poe_cmd spec = ''show poe port info all''"
    "cs_environment_cmd spec = ''show environment''"
    "cs_interface_stats_cmd spec = ''show interface ethernet {iface}''"
    "cs_users_cmd spec = ''show users''"
    "cs_http_service_cmd spec = ''show ip http''"
    "cs_telnet_service_cmd spec = ''show telnetcon''"
    "cs_ssh_service_cmd spec = ''show ip ssh''"
    "cs_hosts_cmd spec = ''show hosts''"
    "cs_logging_cmd spec = ''show logging''"
    "cs_logging_hosts_cmd spec = ''show logging hosts''"
    "cs_vlan_database_cmd spec = ''vlan database''"
    "cs_vlan_create_cmd spec = ''vlan {vlan}''"
    "cs_vlan_name_cmd spec = ''vlan name {vlan} {name}''"
    "cs_vlan_delete_cmd spec = ''no vlan {vlan}''"
    "cs_configure_cmd spec = ''configure''"
    "cs_interface_cmd spec = ''interface {iface}''"
    "cs_vlan_participation_cmd spec = ''vlan participation {action} {vlan}''"
    "cs_vlan_tagging_cmd spec = ''vlan tagging {vlan}''"
    "cs_vlan_no_tagging_cmd spec = ''no vlan tagging {vlan}''"
    "cs_vlan_pvid_cmd spec = ''vlan pvid {vlan}''"
    "cs_exit_cmd spec = ''exit''"
    "cs_hostname_config_cmd spec = ''hostname {name}''"
  by (rule known_spec_cases [OF assms]; simp add: gsm7252psSpec_def m430024xSpec_def m430016xSpec_def gsm7228psSpec_def
    applyM4300Overrides_def)+

lemma brief_cmd:
  assumes "known_spec spec"
  obtains "cs_vlan_brief_cmd spec = ''show vlan brief''" "cs_network_cmd spec = ''show network''"
  | "cs_vlan_brief_cmd spec = ''show vlan''" "cs_network_cmd spec = ''show ip management''"
  | "cs_vlan_brief_cmd spec = ''show vlan''" "cs_network_cmd spec = ''show network''"
  using assms by (elim known_spec_cases) (simp_all add: spec_defs)

lemma TrimSpace_command: "graphic x \<Longrightarrow> t \<noteq> [] \<Longrightarrow> graphic (last t) \<Longrightarrow> TrimSpace (x # t) = x # t"
  by (rule TrimSpace_id) simp_all

text \<open>In EXEC mode nothing but a \<^verbatim>\<open>show\<close> command begins with s.\<close>

lemma run_show:
  assumes "cf_modes f = []" "t \<noteq> []" "graphic (last t)"
  shows "cliface_run U (''show '' @ t) f = showCommand (''show '' @ t) f"
proof -
  have trim: "TrimSpace (''show '' @ t) = ''show '' @ t" using assms by (simp add: TrimSpace_command graphic_def)
  have no_setup: "\<not> MatchString cliSetupRE (''show '' @ t)"
    by (simp add: MatchString_def cliSetupRE_def FindStringSubmatch_whole rx_match.simps(9) rx_match.simps(7) rx_match.simps(6) rx_lit_simps)
  have conf: "configCommand U (''show '' @ t) f = None"
    using assms(1) by (simp add: configCommand_def MatchString_def cliVlanDatabaseRE_def cliConfigureRE_def cliNetworkParmsRE_def
      rx_eval current_mode_def)
  show ?thesis using no_setup conf by (simp only: cliface_run_def Let_def trim) simp
qed

lemma portDescription_other: "\<not> prefix ''port d'' t \<Longrightarrow> FindStringSubmatch cliPortDescriptionShowRE (''show '' @ t) = None"
  by (auto simp: cliPortDescriptionShowRE_def rx_eval prefix_def rx_match.simps(6) rx_lit_match)

lemma show_pvids:
  assumes "known_spec (cf_spec f)"
  shows "showCommand ''show vlan port all'' f = (renderPvids (cf_state f), f)"
  using portDescription_other [of "''vlan port all''"] assms
  by (cases rule: brief_cmd [OF assms]) (simp_all add: showCommand_def prints_def)

lemma show_brief:
  assumes "known_spec (cf_spec f)"
  shows "showCommand (cs_vlan_brief_cmd (cf_spec f)) f = (Inr (renderVlanBrief (cf_state f)), f)"
  using portDescription_other [of "''vlan''"] portDescription_other [of "''vlan brief''"] assms
  by (cases rule: brief_cmd [OF assms]) (simp_all add: showCommand_def prints_def)

lemma digits_front: "0 \<le> i \<Longrightarrow> \<exists>d ds. show_int i = d # ds \<and> is_digit d \<and> list_all is_digit ds"
  using int_all_digits [of i] by (cases "show_int i") auto

lemma show_detail:
  assumes "known_spec (cf_spec f)" "id_fits vid"
  shows "showCommand (''show vlan '' @ show_int vid) f = (renderVlanDetail (cf_state f) vid, f)"
proof -
  obtain d ds where d: "show_int vid = d # ds" "is_digit d" "list_all is_digit ds"
    using digits_front [of vid] assms(2) by (auto simp: id_fits_def)
  have ne: "d \<noteq> CHR ''p''" "d \<noteq> CHR ''b''" using d(2) by (auto simp: is_digit_def)
  have re: "FindStringSubmatch cliShowVlanIDRE (''show vlan '' @ show_int vid) = Some [(1, show_int vid)]"
    using d by (simp add: cliShowVlanIDRE_def rx_eval blocked_intros)
  show ?thesis
    using portDescription_other [of "''vlan '' @ show_int vid"] re AtoiValue_show_int [OF assms(2)] assms(1) ne
    by (cases rule: brief_cmd [OF assms(1)]) (simp_all add: showCommand_def prints_def Let_def d(1))
qed

subsection \<open>The reader's views\<close>

definition face_reader :: "'s cli_reader \<Rightarrow> 's cli_session \<Rightarrow> cli_model_spec \<Rightarrow> bool" where
  "face_reader r session spec \<longleftrightarrow> cr_session r = session \<and> cr_spec r = spec"

lemma face_session_sel [simp]: "se_Run (face_session U) = cliface_run U"
  by (simp add: face_session_def)

lemma spec_VlanDetail_text [simp]: "known_spec spec \<Longrightarrow> spec_VlanDetail spec vid = ''show vlan '' @ show_int vid"
  by (simp add: spec_VlanDetail_def formatOne_def)

lemma last_int_graphic: "0 \<le> i \<Longrightarrow> graphic (last (show_int i))"
  using int_all_digits [of i] digit_graphic last_in_set [of "show_int i"] by (auto simp: list_all_iff)

lemma run_pvids:
  assumes "cf_modes f = []" "known_spec (cf_spec f)"
  shows "cliface_run U ''show vlan port all'' f = (renderPvids (cf_state f), f)"
  using run_show [of f "''vlan port all''" U] show_pvids [OF assms(2)] assms(1) by (simp add: graphic_def)

lemma run_brief:
  assumes "cf_modes f = []" "known_spec (cf_spec f)"
  shows "cliface_run U (cs_vlan_brief_cmd (cf_spec f)) f = (Inr (renderVlanBrief (cf_state f)), f)"
  using run_show [of f "''vlan''" U] run_show [of f "''vlan brief''" U] show_brief [OF assms(2)] assms(1)
  by (cases rule: brief_cmd [OF assms(2)]) (simp_all add: graphic_def)

lemma run_detail:
  assumes "cf_modes f = []" "known_spec (cf_spec f)" "id_fits vid"
  shows "cliface_run U (''show vlan '' @ show_int vid) f = (renderVlanDetail (cf_state f) vid, f)"
  using run_show [of f "''vlan '' @ show_int vid" U] show_detail [OF assms(2,3)] assms(1)
    last_int_graphic [of vid] int_all_digits [of vid] assms(3) by (simp add: id_fits_def)

lemma read_pvids:
  assumes "face_reader r (face_session U) (cf_spec f)" "cf_modes f = []" "known_spec (cf_spec f)" "cli_well (cf_state f)"
  shows "cli_GetPVIDs r f = (Inr (cli_pvids (cf_state f)), f)"
  using run_pvids [OF assms(2,3), of U] parse_pvids [of "cf_state f"] assms
  by (auto simp: cli_GetPVIDs_def ask_def face_reader_def sbind_def cli_well_def)

lemma read_details:
  assumes "face_reader r (face_session U) (cf_spec f)" "cf_modes f = []" "known_spec (cf_spec f)" "cli_well (cf_state f)"
    and "set vids \<subseteq> set (sorted_keys (vs_vlans (cf_state f)))"
  shows "vlan_details r (map (\<lambda>vid. \<lparr>bv_vlan = vid, bv_name = vv_name (the (map_of (vs_vlans (cf_state f)) vid))\<rparr>) vids) f
    = (Inr (map (cli_vlan_info (cf_state f)) vids), f)"
  using assms(5)
proof (induction vids)
  case (Cons vid vids)
  then obtain v where v: "map_of (vs_vlans (cf_state f)) vid = Some v" by auto
  have ok: "names_ok (cf_state f)" "vlans_ok (cf_state f)" using assms(4) by (simp_all add: cli_well_def)
  show ?case
    using Cons run_detail [OF assms(2,3) vlan_well(1) [OF ok(2) v], of U] parse_detail [OF ok v, of "cr_unicode r"] assms(1,3) v
    by (auto simp: ask_def face_reader_def sbind_def)
qed simp

lemma read_vlans:
  assumes "face_reader r (face_session U) (cf_spec f)" "cf_modes f = []" "known_spec (cf_spec f)" "cli_well (cf_state f)"
  shows "cli_GetVLANs r f = (Inr (cli_vlans (cf_state f)), f)"
  using run_brief [OF assms(2,3), of U] parse_brief [of "cf_state f"] read_details [OF assms order_refl] assms
  by (simp add: cli_GetVLANs_def ask_def face_reader_def sbind_def cli_well_def cli_vlans_def)

end
