(* ===== verification/Cli_Write.thy ===== *)
theory Cli_Write
  imports Cli_View Fastpath_Writer
begin

section \<open>The writer on the virtual command line\<close>

text \<open>
  The commands of a write, one lemma per command and mode, and the writes end to end: what a write
  of the command-line backend does to the state of the virtual switch, seen through the reader that
  verifies it.
\<close>

subsection \<open>One command\<close>

declare rx_match.simps [simp del]

lemmas command_rules = MatchString_def rx_eval cliVlanDatabaseRE_def cliConfigureRE_def cliNetworkParmsRE_def current_mode_def

lemma setup_other:
  assumes "c \<noteq> []" "hd c \<noteq> CHR ''e''" "hd c \<noteq> CHR ''t''" "hd c \<noteq> CHR ''d''"
  shows "FindStringSubmatch cliSetupRE c = None"
  using assms by (cases c) (simp_all add: cliSetupRE_def FindStringSubmatch_whole rx_match.simps rx_lit_simps)

text \<open>A command that is trimmed and none of the session's set-up or certificate commands.\<close>

lemma run_config:
  assumes "TrimSpace c = c" "FindStringSubmatch cliSetupRE c = None" "c \<noteq> ''no ip http secure-server''" "c \<noteq> ''ip http secure-server''"
    "configCommand U c f = Some r"
  shows "cliface_run U c f = r"
  using assms by (simp add: cliface_run_def MatchString_def)

lemma run_configure: "cf_modes f = [] \<Longrightarrow> cliface_run U ''configure'' f = (Inr [], f\<lparr>cf_modes := [Mode_Config]\<rparr>)"
  by (rule run_config) (simp_all add: TrimSpace_command graphic_def setup_other configCommand_def command_rules)

lemma run_vlan_database: "cf_modes f = [] \<Longrightarrow> cliface_run U ''vlan database'' f = (Inr [], f\<lparr>cf_modes := [Mode_Vlan_DB]\<rparr>)"
  by (rule run_config) (simp_all add: TrimSpace_command graphic_def setup_other configCommand_def command_rules)

lemma exit_setup: "FindStringSubmatch cliSetupRE ''exit'' = None"
  by (simp add: cliSetupRE_def FindStringSubmatch_whole rx_match.simps rx_lit_simps)

lemma run_exit:
  "cf_modes f = m # ms \<Longrightarrow> cliface_run U ''exit'' f = (Inr [], f\<lparr>cf_modes := ms,
     cf_iface_port := (case ms of Mode_Interface # _ \<Rightarrow> cf_iface_port f | _ \<Rightarrow> None)\<rparr>)"
  by (rule run_config) (simp_all add: TrimSpace_command graphic_def exit_setup configCommand_def)

definition addressable :: "cli_model_spec \<Rightarrow> vstate \<Rightarrow> int \<Rightarrow> bool" where
  "addressable spec s p \<longleftrightarrow> portForIface s (spec_Iface spec p) = Some p"

lemma spec_Iface_text:
  assumes "known_spec spec" "0 \<le> p"
  shows "port_name_text (spec_Iface spec p) p"
  using assms by (elim known_spec_cases)
    (auto simp: port_name_text_def spec_Iface_def formatOne_def spec_defs)

lemma spec_Interface_text [simp]: "known_spec spec \<Longrightarrow> spec_Interface spec p = ''interface '' @ spec_Iface spec p"
  by (simp add: spec_Interface_def formatOne_def)

lemma run_interface:
  assumes "cf_modes f = [Mode_Config]" "known_spec (cf_spec f)" "addressable (cf_spec f) (cf_state f) p" "0 \<le> p" "p < 10000"
  shows "cliface_run U (''interface '' @ spec_Iface (cf_spec f) p) f
    = (Inr [], f\<lparr>cf_iface_port := Some p, cf_modes := [Mode_Interface, Mode_Config]\<rparr>)"
proof -
  let ?name = "spec_Iface (cf_spec f) p"
  have w: "word_text ?name" using port_name_word [OF spec_Iface_text [OF assms(2,4)] assms(4,5)] by simp
  then have name: "?name \<noteq> []" "graphic (last ?name)" "list_all non_space ?name"
    using last_in_set [of ?name] by (auto simp: word_text_def list_all_iff non_space_def graphic_def is_space_def)
  then have span: "takeWhile non_space ?name = ?name" "dropWhile non_space ?name = []"
    by (simp_all add: takeWhile_eq_all_conv list_all_iff)
  have "FindStringSubmatch cliInterfaceRE (''interface '' @ ?name) = Some [(1, ?name)]"
    by (simp add: cliInterfaceRE_def rx_eval blocked_intros span name(1))
  moreover have "globalCommand U (''interface '' @ ?name) f
      = (case FindStringSubmatch cliInterfaceRE (''interface '' @ ?name) of
           Some m \<Rightarrow> (case portForIface (cf_state f) (submatch m 1) of
             None \<Rightarrow> says cliInvalid f
           | Some port \<Rightarrow> Some (Inr [], f\<lparr>cf_iface_port := Some port, cf_modes := Mode_Interface # cf_modes f\<rparr>))
         | None \<Rightarrow> None)"
    if "FindStringSubmatch cliInterfaceRE (''interface '' @ ?name) = Some [(1, ?name)]"
    using that by (simp add: globalCommand_def on_match_def cliHostnameRE_def cliLoggingSyslogRE_def cliLoggingHostAddRE_def
      cliLoggingHostNegationRE_def cliLoggingHostRemoveRE_def command_rules)
  ultimately have "configCommand U (''interface '' @ ?name) f
      = Some (Inr [], f\<lparr>cf_iface_port := Some p, cf_modes := [Mode_Interface, Mode_Config]\<rparr>)"
    using assms(1,3) by (simp add: configCommand_def command_rules addressable_def)
  then show ?thesis
    using name by (intro run_config) (simp_all add: TrimSpace_command graphic_def setup_other)
qed

text \<open>In interface mode.\<close>

definition at_port :: "cli_face \<Rightarrow> int \<Rightarrow> cli_face" where
  "at_port f p = f\<lparr>cf_iface_port := Some p, cf_modes := [Mode_Interface, Mode_Config]\<rparr>"

lemma at_port_sel [simp]:
  "cf_modes (at_port f p) = [Mode_Interface, Mode_Config]" "cf_iface_port (at_port f p) = Some p"
  "cf_state (at_port f p) = cf_state f" "cf_spec (at_port f p) = cf_spec f"
  by (simp_all add: at_port_def)

lemma run_in_interface:
  assumes "TrimSpace c = c" "c \<noteq> []" "hd c \<in> {CHR ''s'', CHR ''v'', CHR ''n'', CHR ''p'', CHR ''f''}"
    and "c \<noteq> ''no ip http secure-server''" "FindStringSubmatch cliVlanDatabaseRE c = None" "FindStringSubmatch cliNetworkParmsRE c = None"
    and "interfaceCommand c p (at_port f p) = Some r"
  shows "cliface_run U c (at_port f p) = r"
proof (rule run_config)
  have "FindStringSubmatch cliConfigureRE c = None" "c \<noteq> ''exit''" "c \<noteq> ''end''"
    using assms(2,3) by (cases c; auto simp: cliConfigureRE_def command_rules)+
  then show "configCommand U c (at_port f p) = Some r"
    using assms by (simp add: configCommand_def MatchString_def current_mode_def)
qed (use assms in \<open>auto intro!: setup_other\<close>)

subsection \<open>The commands of an interface\<close>

definition made_general :: "int \<Rightarrow> vstate \<Rightarrow> vstate" where
  "made_general p s = update_port p (\<lambda>q. q\<lparr>vp_switchport_mode := ''general''\<rparr>) s"

lemma int_match [simp]:
  assumes "0 \<le> i"
  shows "takeWhile is_digit (show_int i) = show_int i" "dropWhile is_digit (show_int i) = []" "show_int i \<noteq> []"
  using int_all_digits [OF assms] by auto

lemma match_group_alt [rx_eval]:
  "rx_match (Rx_Seq (Rx_Group n (Rx_Alt a a')) b) p c k
    = or_else (rx_match (Rx_Seq (Rx_Group n a) b) p c k) (rx_match (Rx_Seq (Rx_Group n a') b) p c k)"
  by (simp add: rx_match.simps)

lemmas interface_expressions = cliSwitchportModeRE_def cliPoeResetRE_def cliPoeRE_def cliShutdownRE_def
  cliParticipationRE_def cliTaggingRE_def cliPvidRE_def

lemma match_general: "FindStringSubmatch cliSwitchportModeRE ''switchport mode general'' = Some [(1, ''general'')]"
  by (simp add: cliSwitchportModeRE_def rx_eval prefix_def match_group_lit)

lemma interfaceCommand_general:
  assumes "map_of (vs_ports (cf_state f)) p = Some sim"
  shows "interfaceCommand ''switchport mode general'' p f
    = (if hasSwitchportModes (cf_state f) then accepted (made_general p (cf_state f)) f else says cliInvalid f)"
  using assms by (simp add: interfaceCommand_def on_match_def match_general port_change_def made_general_def Let_def)

lemma no_match_v:
  "FindStringSubmatch cliSwitchportModeRE (CHR ''v'' # t) = None" "FindStringSubmatch cliPoeResetRE (CHR ''v'' # t) = None"
  "FindStringSubmatch cliPoeRE (CHR ''v'' # t) = None" "FindStringSubmatch cliShutdownRE (CHR ''v'' # t) = None"
  by (simp_all add: interface_expressions rx_eval match_group_lit)

lemma match_pvid:
  assumes "0 \<le> vid"
  shows "FindStringSubmatch cliPvidRE (''vlan pvid '' @ show_int vid) = Some [(1, show_int vid)]"
    "FindStringSubmatch cliParticipationRE (''vlan pvid '' @ show_int vid) = None"
    "FindStringSubmatch cliTaggingRE (''vlan pvid '' @ show_int vid) = None"
  using assms by (simp_all add: interface_expressions rx_eval blocked_intros match_group_lit prefix_def)

lemma interfaceCommand_pvid:
  assumes "id_fits vid"
  shows "interfaceCommand (''vlan pvid '' @ show_int vid) p f
    = vlan_command vid p ((cf_state f)\<lparr>vs_pvids := AList.update p vid (vs_pvids (cf_state f))\<rparr>) f"
proof -
  have "0 \<le> vid" using assms by (simp add: id_fits_def)
  then show ?thesis
    using match_pvid [of vid] AtoiValue_show_int [OF assms]
    by (simp add: interfaceCommand_def on_match_def MatchString_def no_match_v Let_def)
qed

lemma match_participation:
  assumes "0 \<le> vid"
  shows "FindStringSubmatch cliParticipationRE (''vlan participation '' @ (if yes then ''include'' else ''exclude'') @ '' '' @ show_int vid)
    = Some [(2, show_int vid), (1, if yes then ''include'' else ''exclude'')]"
  using assms by (cases yes) (simp_all add: interface_expressions rx_eval blocked_intros match_group_lit prefix_def)

lemma interfaceCommand_participation:
  assumes "id_fits vid"
  shows "interfaceCommand (''vlan participation '' @ (if yes then ''include'' else ''exclude'') @ '' '' @ show_int vid) p f
    = vlan_command vid p (vlan_change vid (participation yes p) (cf_state f)) f"
proof -
  have "0 \<le> vid" using assms by (simp add: id_fits_def)
  then show ?thesis
    using match_participation [of vid yes] AtoiValue_show_int [OF assms]
    by (cases yes) (simp_all add: interfaceCommand_def on_match_def MatchString_def no_match_v Let_def)
qed

lemma match_tagging:
  assumes "0 \<le> vid"
  shows "FindStringSubmatch cliTaggingRE (''vlan tagging '' @ show_int vid) = Some [(2, show_int vid)]"
    "FindStringSubmatch cliTaggingRE (''no vlan tagging '' @ show_int vid) = Some [(2, show_int vid), (1, ''no '')]"
    "FindStringSubmatch cliParticipationRE (''vlan tagging '' @ show_int vid) = None"
    "FindStringSubmatch cliParticipationRE (''no vlan tagging '' @ show_int vid) = None"
    "FindStringSubmatch cliSwitchportModeRE (''no vlan tagging '' @ show_int vid) = None"
    "FindStringSubmatch cliPoeResetRE (''no vlan tagging '' @ show_int vid) = None"
    "FindStringSubmatch cliPoeRE (''no vlan tagging '' @ show_int vid) = None"
    "FindStringSubmatch cliShutdownRE (''no vlan tagging '' @ show_int vid) = None"
  using assms by (simp_all add: interface_expressions rx_eval blocked_intros match_group_lit prefix_def)

lemma interfaceCommand_tagging:
  assumes "id_fits vid"
  shows "interfaceCommand ((if yes then ''vlan tagging '' else ''no vlan tagging '') @ show_int vid) p f
    = vlan_command vid p (vlan_change vid (tagging yes p) (cf_state f)) f"
proof -
  have "0 \<le> vid" using assms by (simp add: id_fits_def)
  then show ?thesis
    using match_tagging [of vid] AtoiValue_show_int [OF assms]
    by (cases yes) (simp_all add: interfaceCommand_def on_match_def MatchString_def no_match_v Let_def)
qed

subsection \<open>In and out of an interface\<close>

definition exec :: "cli_face \<Rightarrow> bool" where
  "exec f \<longleftrightarrow> cf_modes f = [] \<and> cf_iface_port f = None"

lemma exec_modes: "exec f \<Longrightarrow> cf_modes f = []"
  by (simp add: exec_def)

lemma exec_state [simp]: "exec (f\<lparr>cf_state := s\<rparr>) = exec f"
  by (simp add: exec_def)

definition reachable_port :: "cli_face \<Rightarrow> int \<Rightarrow> bool" where
  "reachable_port f p \<longleftrightarrow> known_spec (cf_spec f) \<and> addressable (cf_spec f) (cf_state f) p \<and> 0 \<le> p \<and> p < 10000"

lemma cli_run_face: "cliface_run U c f = (Inr [], g) \<Longrightarrow> cli_run (face_session U) c f = (Inr (), g)"
  by (simp add: cli_run_def sbind_def)

lemma accepted_at_port: "accepted s (at_port f p) = Some (Inr [], at_port (f\<lparr>cf_state := s\<rparr>) p)"
  by (simp add: accepted_def at_port_def)

lemma in_interface_face:
  assumes "cw_session w = face_session U" "cw_spec w = cf_spec f" "exec f" "reachable_port f p"
    and "run_all (face_session U) body (at_port f p) = (r, at_port (f\<lparr>cf_state := s\<rparr>) p)"
  shows "in_interface w p body f = (r, f\<lparr>cf_state := s\<rparr>)"
proof -
  note reach = assms(4) [unfolded reachable_port_def]
  let ?f1 = "f\<lparr>cf_modes := [Mode_Config]\<rparr>"
  have c: "cli_run (face_session U) ''configure'' f = (Inr (), ?f1)"
    using run_configure exec_modes [OF assms(3)] by (intro cli_run_face) simp
  have "cliface_run U (''interface '' @ spec_Iface (cf_spec f) p) ?f1 = (Inr [], at_port f p)"
    using run_interface [of ?f1 p U] reach by (simp add: at_port_def)
  then have i: "cli_run (face_session U) (''interface '' @ spec_Iface (cf_spec f) p) ?f1 = (Inr (), at_port f p)"
    by (rule cli_run_face)
  have en: "enter_all (face_session U) [''configure'', ''interface '' @ spec_Iface (cf_spec f) p] 0 f = ((Inr (), Suc (Suc 0)), at_port f p)"
    using c i by simp
  have "unwind (face_session U) ''exit'' (Suc (Suc 0)) (at_port (f\<lparr>cf_state := s\<rparr>) p) = f\<lparr>cf_state := s\<rparr>"
    using assms(3) by (cases f) (simp add: run_exit exec_def at_port_def)
  then show ?thesis
    using assms(1,2,5) reach by (simp add: in_interface_def inMode_def en del: unwind.simps enter_all.simps append.simps)
qed

text \<open>The configuration commands of an interface, accepted.\<close>

definition vlan_there :: "vstate \<Rightarrow> int \<Rightarrow> bool" where
  "vlan_there s vid \<longleftrightarrow> id_fits vid \<and> map_of (vs_vlans s) vid \<noteq> None"

lemma run_general:
  assumes "map_of (vs_ports (cf_state f)) p = Some sim" "hasSwitchportModes (cf_state f)"
  shows "cliface_run U ''switchport mode general'' (at_port f p)
    = (Inr [], at_port (f\<lparr>cf_state := made_general p (cf_state f)\<rparr>) p)"
proof (rule run_in_interface)
  show "interfaceCommand ''switchport mode general'' p (at_port f p)
      = Some (Inr [], at_port (f\<lparr>cf_state := made_general p (cf_state f)\<rparr>) p)"
    using assms interfaceCommand_general [of "at_port f p" p sim] by (simp add: accepted_at_port)
qed (simp_all add: TrimSpace_command graphic_def command_rules)

lemma trim_int_command: "0 \<le> i \<Longrightarrow> graphic x \<Longrightarrow> TrimSpace (x # t @ show_int i) = x # t @ show_int i"
  by (rule TrimSpace_command) (simp_all add: last_int_graphic)

lemma run_vlan_command:
  assumes "interfaceCommand c p (at_port f p) = vlan_command vid p s' (at_port f p)" "vlan_there (cf_state f) vid"
    and "general (cf_state f) p" "c = x # t @ show_int vid" "x \<in> {CHR ''v'', CHR ''n''}"
    and "FindStringSubmatch cliVlanDatabaseRE c = None" "FindStringSubmatch cliNetworkParmsRE c = None" "c \<noteq> ''no ip http secure-server''"
  shows "cliface_run U c (at_port f p) = (Inr [], at_port (f\<lparr>cf_state := s'\<rparr>) p)"
proof (rule run_in_interface)
  show "interfaceCommand c p (at_port f p) = Some (Inr [], at_port (f\<lparr>cf_state := s'\<rparr>) p)"
    using assms(2,3) by (auto simp: assms(1) vlan_command_def vlan_there_def accepted_at_port)
  show "TrimSpace c = c"
    using assms(2,4,5) by (auto simp: vlan_there_def id_fits_def graphic_def intro!: trim_int_command)
qed (use assms(4-8) in \<open>auto\<close>)

lemma run_pvid:
  assumes "vlan_there (cf_state f) vid" "general (cf_state f) p"
  shows "cliface_run U (''vlan pvid '' @ show_int vid) (at_port f p)
    = (Inr [], at_port (f\<lparr>cf_state := (cf_state f)\<lparr>vs_pvids := AList.update p vid (vs_pvids (cf_state f))\<rparr>\<rparr>) p)"
  using assms interfaceCommand_pvid [of vid p "at_port f p"]
  by (intro run_vlan_command [of _ _ _ vid _ "CHR ''v''" "''lan pvid ''"]) (simp_all add: command_rules vlan_there_def)

lemma run_participation:
  assumes "vlan_there (cf_state f) vid" "general (cf_state f) p"
  shows "cliface_run U (''vlan participation '' @ (if yes then ''include'' else ''exclude'') @ '' '' @ show_int vid) (at_port f p)
    = (Inr [], at_port (f\<lparr>cf_state := vlan_change vid (participation yes p) (cf_state f)\<rparr>) p)"
  using assms interfaceCommand_participation [of vid yes p "at_port f p"]
  by (intro run_vlan_command [of _ _ _ vid _ "CHR ''v''" "''lan participation '' @ (if yes then ''include'' else ''exclude'') @ '' ''"])
    (simp_all add: command_rules vlan_there_def)

lemma run_tagging:
  assumes "vlan_there (cf_state f) vid" "general (cf_state f) p"
  shows "cliface_run U ((if yes then ''vlan tagging '' else ''no vlan tagging '') @ show_int vid) (at_port f p)
    = (Inr [], at_port (f\<lparr>cf_state := vlan_change vid (tagging yes p) (cf_state f)\<rparr>) p)"
  using assms interfaceCommand_tagging [of vid yes p "at_port f p"]
  by (intro run_vlan_command [of _ _ _ vid _ "if yes then CHR ''v'' else CHR ''n''" "if yes then ''lan tagging '' else ''o vlan tagging ''"])
    (simp_all add: command_rules vlan_there_def)

subsection \<open>The writer on a face\<close>

definition cli_setup :: "unicode \<Rightarrow> cli_face cli_writer \<Rightarrow> cli_face \<Rightarrow> bool" where
  "cli_setup U w f \<longleftrightarrow> cw_session w = face_session U \<and> cw_spec w = cf_spec f \<and>
     face_reader (cw_reader w) (face_session U) (cf_spec f) \<and> exec f \<and> known_spec (cf_spec f) \<and>
     cs_model_key (cf_spec f) = vs_model_key (cf_state f) \<and> cli_well (cf_state f)"

text \<open>The state in which the per-port VLAN commands run: the mode first set where the firmware has modes.\<close>

definition prepared :: "int \<Rightarrow> vstate \<Rightarrow> vstate" where
  "prepared p s = (if hasSwitchportModes s then made_general p s else s)"

lemma update_port_sel [simp]:
  "vs_model_key (update_port p g s) = vs_model_key s" "vs_vlans (update_port p g s) = vs_vlans s"
  "vs_pvids (update_port p g s) = vs_pvids s" "vs_locked_ports (update_port p g s) = vs_locked_ports s"
  "map_of (vs_ports (update_port p g s)) q = (if q = p then map_option g (map_of (vs_ports s) q) else map_of (vs_ports s) q)"
  by (auto simp: update_port_def update_conv' split: option.splits)

lemma prepared_sel [simp]:
  "vs_model_key (prepared p s) = vs_model_key s" "vs_vlans (prepared p s) = vs_vlans s" "vs_pvids (prepared p s) = vs_pvids s"
  by (simp_all add: prepared_def made_general_def)

lemma mustModel_cong: "vs_model_key s' = vs_model_key s \<Longrightarrow> mustModel s' = mustModel s"
  by (simp add: mustModel_def)

lemma listed_cong:
  assumes "vs_model_key s' = vs_model_key s" "dom (map_of (vs_ports s')) = dom (map_of (vs_ports s))"
  shows "listed s' = listed s"
  using mustModel_cong [OF assms(1)] sorted_keys_cong [OF assms(2)] by (simp add: listed_def physPorts_def)

lemma listed_prepared [simp]: "listed (prepared p s) = listed s"
  by (rule listed_cong) (auto simp: prepared_def made_general_def dom_def)

lemma listed_update [simp]:
  "listed (s\<lparr>vs_pvids := m\<rparr>) = listed s" "listed (s\<lparr>vs_vlans := v\<rparr>) = listed s"
  by (rule listed_cong; simp)+

lemma vlan_change_sel [simp]:
  "vs_model_key (vlan_change vid g s) = vs_model_key s" "vs_ports (vlan_change vid g s) = vs_ports s"
  "vs_pvids (vlan_change vid g s) = vs_pvids s" "vs_locked_ports (vlan_change vid g s) = vs_locked_ports s"
  "map_of (vs_vlans (vlan_change vid g s)) k = (if k = vid then map_option g (map_of (vs_vlans s) k) else map_of (vs_vlans s) k)"
  "listed (vlan_change vid g s) = listed s"
  by (auto simp: vlan_change_def update_conv' split: option.splits)

text \<open>Being well formed is kept.\<close>

lemma names_ok_cong:
  assumes "vs_model_key s' = vs_model_key s"
    and "\<And>p. map_option vp_name (map_of (vs_ports s') p) = map_option vp_name (map_of (vs_ports s) p)"
  shows "names_ok s' = names_ok s"
proof -
  have "map_of (vs_ports s') p = None \<longleftrightarrow> map_of (vs_ports s) p = None" for p
    using assms(2) [of p] by (metis option.map_disc_iff)
  then have keys: "sorted_keys (vs_ports s') = sorted_keys (vs_ports s)"
    by (intro sorted_keys_cong) (simp add: dom_def)
  have names: "vp_name (the (map_of (vs_ports s') p)) = vp_name (the (map_of (vs_ports s) p))" if "p \<in> dom (map_of (vs_ports s))" for p
    using assms(2) [of p] that by (auto simp: map_option_case split: option.splits)
  have "physPorts s' = physPorts s" using keys mustModel_cong [OF assms(1)] by (simp add: physPorts_def)
  moreover have "set ports \<subseteq> dom (map_of (vs_ports s))" if "physPorts s = Inr ports" for ports
    using that by (auto simp: physPorts_def res_simps)
  ultimately show ?thesis
    using names by (fastforce simp: names_ok_def list_all_iff split: sum.splits)
qed

lemma names_ok_kept [simp]:
  "names_ok (prepared p s) = names_ok s" "names_ok (s\<lparr>vs_pvids := m\<rparr>) = names_ok s" "names_ok (s\<lparr>vs_vlans := v\<rparr>) = names_ok s"
  "names_ok (vlan_change vid g s) = names_ok s"
  by (rule names_ok_cong; simp add: prepared_def made_general_def option.map_comp o_def)+

lemma pvids_ok_update:
  assumes "pvids_ok s" "id_fits v" "vs_pvids s' = AList.update p v (vs_pvids s)"
  shows "pvids_ok s'"
  using assms by (auto simp: pvids_ok_def list_all_iff update_conv' split: if_splits)

lemma pvids_ok_cong: "vs_pvids s' = vs_pvids s \<Longrightarrow> pvids_ok s' = pvids_ok s"
  by (simp add: pvids_ok_def)

lemma vlans_ok_cong: "vs_vlans s' = vs_vlans s \<Longrightarrow> vlans_ok s' = vlans_ok s"
  by (simp add: vlans_ok_def)

lemma vlans_ok_iff: "vlans_ok s \<longleftrightarrow> (\<forall>vid v. map_of (vs_vlans s) vid = Some v \<longrightarrow> id_fits vid \<and> name_fits (vv_name v))"
  unfolding vlans_ok_def list_all_iff set_sorted_keys by (simp add: Ball_def dom_def) (metis option.sel)

lemma vlans_ok_change:
  assumes "vlans_ok s" "\<And>v. vv_name (g v) = vv_name v"
  shows "vlans_ok (vlan_change vid g s)"
  using assms by (auto simp: vlans_ok_iff split: if_splits)

subsection \<open>What the writer reads\<close>

lemma find_sorted: "vid \<in> set ks \<Longrightarrow> List.find (\<lambda>v. vi_vlan_id v = vid) (map (cli_vlan_info s) ks) = Some (cli_vlan_info s vid)"
  "vid \<notin> set ks \<Longrightarrow> List.find (\<lambda>v. vi_vlan_id v = vid) (map (cli_vlan_info s) ks) = None"
  by (induction ks) (auto simp: cli_vlan_info_def Let_def)

definition vlan_seen :: "vstate \<Rightarrow> int \<Rightarrow> vlan_info option" where
  "vlan_seen s vid = (if map_of (vs_vlans s) vid = None then None else Some (cli_vlan_info s vid))"

lemma cli_vlan_face:
  assumes "cli_setup U w f"
  shows "cli_vlan w vid f = (Inr (vlan_seen (cf_state f) vid), f)"
  using read_vlans [of "cw_reader w" U f] assms find_sorted [of vid "sorted_keys (vs_vlans (cf_state f))" "cf_state f"]
  by (auto simp: cli_vlan_def cli_setup_def exec_def sbind_def cli_vlans_def vlan_seen_def)

lemma cli_pvids_face:
  assumes "cli_setup U w f"
  shows "cli_GetPVIDs (cw_reader w) f = (Inr (cli_pvids (cf_state f)), f)"
  using read_pvids [of "cw_reader w" U f] assms by (simp add: cli_setup_def exec_def)

lemma pvidFor_face: "p \<in> set (listed s) \<Longrightarrow> pvidFor (cli_pvids s) p = Some (pvid_of s p)"
proof -
  have "p \<in> set ps \<Longrightarrow> List.find (\<lambda>x. pv_port x = p) (map (\<lambda>p. \<lparr>pv_port = p, pv_vlan = pvid_of s p\<rparr>) ps)
      = Some \<lparr>pv_port = p, pv_vlan = pvid_of s p\<rparr>" for ps
    by (induction ps) auto
  then show "p \<in> set (listed s) \<Longrightarrow> pvidFor (cli_pvids s) p = Some (pvid_of s p)"
    by (simp add: pvidFor_def cli_pvids_def)
qed

lemma setup_state:
  assumes "cli_setup U w f" "vs_model_key s = vs_model_key (cf_state f)" "cli_well s"
  shows "cli_setup U w (f\<lparr>cf_state := s\<rparr>)"
  using assms by (simp add: cli_setup_def)

lemma general_mode:
  assumes "cli_setup U w f"
  shows "generalMode w = (if hasSwitchportModes (cf_state f) then [''switchport mode general''] else [])"
proof -
  have s: "cw_spec w = cf_spec f" "known_spec (cf_spec f)" "cs_model_key (cf_spec f) = vs_model_key (cf_state f)"
    using assms by (simp_all add: cli_setup_def)
  from s(2) show ?thesis
    using s(1) s(3) [symmetric]
    by (cases rule: known_spec_cases) (simp_all add: generalMode_def hasSwitchportModes_def,
      simp_all add: spec_defs)
qed

text \<open>The prelude of a per-port VLAN command.\<close>

lemma run_prelude:
  assumes "cli_setup U w f" "map_of (vs_ports (cf_state f)) p = Some sim"
  shows "run_all (face_session U) (generalMode w @ body) (at_port f p)
    = run_all (face_session U) body (at_port (f\<lparr>cf_state := prepared p (cf_state f)\<rparr>) p)"
  using cli_run_face [OF run_general [OF assms(2)]] general_mode [OF assms(1)]
  by (auto simp: prepared_def sbind_def)

lemma general_made:
  assumes "map_of (vs_ports s) p = Some sim" "hasSwitchportModes s"
  shows "general (prepared p s) p"
  using assms by (simp add: prepared_def general_def made_general_def)

lemma guard_passes: "port \<notin> set (cw_protected w) \<or> force \<Longrightarrow> cli_guard w port force = Inr ()"
  by (auto simp: cli_guard_def)

subsection \<open>SetPVID\<close>

definition pvid_moved :: "int \<Rightarrow> int \<Rightarrow> vstate \<Rightarrow> vstate" where
  "pvid_moved p vid s = s\<lparr>vs_pvids := AList.update p vid (vs_pvids s)\<rparr>"

lemma spec_Vlan_texts [simp]:
  assumes "known_spec spec"
  shows "spec_VlanPvid spec vid = ''vlan pvid '' @ show_int vid"
    "spec_VlanParticipation spec vid yes = ''vlan participation '' @ (if yes then ''include'' else ''exclude'') @ '' '' @ show_int vid"
    "spec_VlanTagging spec vid yes = (if yes then ''vlan tagging '' else ''no vlan tagging '') @ show_int vid"
    "spec_VlanCreate spec vid = ''vlan '' @ show_int vid" "spec_VlanDelete spec vid = ''no vlan '' @ show_int vid"
  using assms by (simp_all add: spec_VlanPvid_def spec_VlanParticipation_def spec_VlanTagging_def spec_VlanCreate_def
    spec_VlanDelete_def formatOne_def)

definition port_write :: "unicode \<Rightarrow> cli_face cli_writer \<Rightarrow> cli_face \<Rightarrow> int \<Rightarrow> int \<Rightarrow> bool \<Rightarrow> bool" where
  "port_write U w f port vid force \<longleftrightarrow> cli_setup U w f \<and> reachable_port f port \<and> port \<in> set (listed (cf_state f)) \<and>
     vlan_there (cf_state f) vid \<and> (port \<notin> set (cw_protected w) \<or> force)"

lemma port_write_facts:
  assumes "port_write U w f port vid force"
  shows "cli_setup U w f" "reachable_port f port" "port \<in> set (listed (cf_state f))" "vlan_there (cf_state f) vid"
    "cli_guard w port force = Inr ()" "cw_session w = face_session U" "cw_spec w = cf_spec f" "exec f" "known_spec (cf_spec f)"
    "cli_well (cf_state f)" "\<exists>sim. map_of (vs_ports (cf_state f)) port = Some sim" "id_fits vid"
    "\<exists>v. map_of (vs_vlans (cf_state f)) vid = Some v"
  using assms listed_port(3) [of "cf_state f" port]
  by (auto simp: port_write_def cli_setup_def cli_well_def vlan_there_def guard_passes)

lemma cli_well_pvid_moved:
  assumes "cli_well s" "id_fits vid"
  shows "cli_well (pvid_moved p vid (prepared q s))"
  using assms pvids_ok_update [of s vid "pvid_moved p vid (prepared q s)" p] vlans_ok_cong [of "pvid_moved p vid (prepared q s)" s]
  by (simp add: cli_well_def pvid_moved_def)

text \<open>
  With the port's mode set, or a port that honours the commands, the write moves the PVID and is
  verified.
\<close>

lemma SetPVID_face:
  assumes w: "port_write U w f port vid force" and g: "general (prepared port (cf_state f)) port"
  shows "cli_SetPVID w port vid force f = (Inr (), f\<lparr>cf_state := pvid_moved port vid (prepared port (cf_state f))\<rparr>)"
proof -
  note facts = port_write_facts [OF w]
  let ?s = "pvid_moved port vid (prepared port (cf_state f))"
  obtain sim where sim: "map_of (vs_ports (cf_state f)) port = Some sim" using facts(11) by blast
  have there: "vlan_there (prepared port (cf_state f)) vid" using facts(4) by (simp add: vlan_there_def)
  have "run_all (face_session U) [''vlan pvid '' @ show_int vid] (at_port (f\<lparr>cf_state := prepared port (cf_state f)\<rparr>) port)
      = (Inr (), at_port (f\<lparr>cf_state := ?s\<rparr>) port)"
    using cli_run_face [OF run_pvid [of "f\<lparr>cf_state := prepared port (cf_state f)\<rparr>" vid port U]] there g
    by (simp add: sbind_def pvid_moved_def del: append.simps)
  then have body: "in_interface w port (generalMode w @ [spec_VlanPvid (cw_spec w) vid]) f = (Inr (), f\<lparr>cf_state := ?s\<rparr>)"
    using facts run_prelude [OF facts(1) sim, of "[''vlan pvid '' @ show_int vid]"]
    by (intro in_interface_face) (simp_all del: append.simps run_all.simps)
  have "cli_setup U w (f\<lparr>cf_state := ?s\<rparr>)"
    using facts by (intro setup_state cli_well_pvid_moved) (simp_all add: pvid_moved_def)
  then have after: "cli_GetPVIDs (cw_reader w) (f\<lparr>cf_state := ?s\<rparr>) = (Inr (cli_pvids ?s), f\<lparr>cf_state := ?s\<rparr>)"
    using cli_pvids_face by force
  have seen: "pvidFor (cli_pvids ?s) port = Some vid"
    using pvidFor_face [of port ?s] facts(3) by (simp add: pvid_moved_def pvid_of_def update_conv')
  show ?thesis
    using facts(13)
    by (auto simp: cli_SetPVID_def facts(5) cli_vlan_face [OF facts(1)] vlan_seen_def cli_pvids_face [OF facts(1)] body after seen sbind_def)
qed

text \<open>
  A port that does not honour the commands, on firmware without a mode to set: everything is
  accepted, nothing changes, and the read back reports it.
\<close>

lemma run_inert:
  assumes "vlan_there (cf_state f) vid" "\<not> general (cf_state f) p"
  shows "cliface_run U (''vlan pvid '' @ show_int vid) (at_port f p) = (Inr [], at_port f p)"
proof (rule run_in_interface)
  have "f\<lparr>cf_state := cf_state f\<rparr> = f" by simp
  then show "interfaceCommand (''vlan pvid '' @ show_int vid) p (at_port f p) = Some (Inr [], at_port f p)"
    using assms interfaceCommand_pvid [of vid p "at_port f p"] accepted_at_port [of "cf_state f" f p]
    by (auto simp: vlan_command_def vlan_there_def simp del: append.simps)
  show "TrimSpace (''vlan pvid '' @ show_int vid) = ''vlan pvid '' @ show_int vid"
    using assms trim_int_command [of vid "CHR ''v''" "''lan pvid ''"] by (simp add: vlan_there_def id_fits_def graphic_def)
qed (simp_all add: command_rules)

lemma SetPVID_inert:
  assumes w: "port_write U w f port vid force" and g: "\<not> general (prepared port (cf_state f)) port"
  shows "\<exists>r. cli_SetPVID w port vid force f = (r, f) \<and> (r = Inr () \<longleftrightarrow> pvid_of (cf_state f) port = vid)
    \<and> (pvid_of (cf_state f) port \<noteq> vid \<longrightarrow> (\<exists>e. r = Inl e \<and> is_verification e))"
proof -
  note facts = port_write_facts [OF w]
  obtain sim where sim: "map_of (vs_ports (cf_state f)) port = Some sim" using facts(11) by blast
  have modes: "\<not> hasSwitchportModes (cf_state f)" using g general_made [OF sim] by blast
  have p: "prepared port (cf_state f) = cf_state f" using modes by (simp add: prepared_def)
  have "run_all (face_session U) [''vlan pvid '' @ show_int vid] (at_port f port) = (Inr (), at_port f port)"
    using cli_run_face [OF run_inert [of f vid port U]] facts(4) g p by (simp add: sbind_def del: append.simps)
  then have "in_interface w port (generalMode w @ [spec_VlanPvid (cw_spec w) vid]) f = (Inr (), f\<lparr>cf_state := cf_state f\<rparr>)"
    using facts run_prelude [OF facts(1) sim, of "[''vlan pvid '' @ show_int vid]"] p
    by (intro in_interface_face) (simp_all del: append.simps run_all.simps)
  then have body: "in_interface w port (generalMode w @ [spec_VlanPvid (cw_spec w) vid]) f = (Inr (), f)" by simp
  show ?thesis
    using facts(13) pvidFor_face [OF facts(3)]
    by (auto simp: cli_SetPVID_def facts(5) cli_vlan_face [OF facts(1)] vlan_seen_def cli_pvids_face [OF facts(1)] body sbind_def)
qed

subsection \<open>SetVLANMembership\<close>

definition moved_to :: "vlan_mode \<Rightarrow> int \<Rightarrow> vlan_sim \<Rightarrow> vlan_sim" where
  "moved_to mode p v = (if mode = VlanExcluded then participation False p v else tagging (mode = VlanTagged) p (participation True p v))"

lemma moved_to_sets:
  "in_set (vv_member (moved_to mode p v)) q = (if q = p then mode \<noteq> VlanExcluded else in_set (vv_member v) q)"
  "in_set (vv_untagged (moved_to mode p v)) q = (if q = p then mode = VlanUntagged else in_set (vv_untagged v) q)"
  "vv_name (moved_to mode p v) = vv_name v"
  by (cases mode; auto simp: moved_to_def participation_def tagging_def in_set_def update_conv' delete_conv')+

lemma moved_to_fun:
  "moved_to VlanExcluded p = participation False p" "moved_to VlanTagged p = (\<lambda>v. tagging True p (participation True p v))"
  "moved_to VlanUntagged p = (\<lambda>v. tagging False p (participation True p v))"
  by (simp_all add: moved_to_def fun_eq_iff)

lemma vlan_change_twice: "vlan_change vid g (vlan_change vid h s) = vlan_change vid (\<lambda>v. g (h v)) s"
  by (cases "map_of (vs_vlans s) vid") (simp_all add: vlan_change_def update_conv' update_last)

lemma general_change [simp]: "general (vlan_change vid g s) p = general s p"
  by (simp add: general_def split: option.split)

lemma run_membership:
  assumes "known_spec (cw_spec w)" "vlan_there (cf_state f) vid" "general (cf_state f) p"
  shows "run_all (face_session U)
      (if mode = VlanExcluded then [spec_VlanParticipation (cw_spec w) vid False]
       else [spec_VlanParticipation (cw_spec w) vid True, spec_VlanTagging (cw_spec w) vid (mode = VlanTagged)]) (at_port f p)
    = (Inr (), at_port (f\<lparr>cf_state := vlan_change vid (moved_to mode p) (cf_state f)\<rparr>) p)"
proof -
  let ?f1 = "f\<lparr>cf_state := vlan_change vid (participation True p) (cf_state f)\<rparr>"
  have there: "vlan_there (cf_state ?f1) vid" using assms(2) by (simp add: vlan_there_def)
  note part = cli_run_face [OF run_participation [OF assms(2,3)]]
  note tag = cli_run_face [OF run_tagging [OF there, of p]]
  show ?thesis
    using part [of U True] part [of U False] tag [of U True] tag [of U False] assms(1,3)
    by (cases mode) (simp_all add: sbind_def moved_to_fun vlan_change_twice del: append.simps)
qed

lemma cli_well_change:
  assumes "cli_well s" "\<And>v. vv_name (g v) = vv_name v"
  shows "cli_well (vlan_change vid g (prepared q s))"
  using assms vlans_ok_change [of "prepared q s" g vid] pvids_ok_cong [of "vlan_change vid g (prepared q s)" s]
    vlans_ok_cong [of "prepared q s" s]
  by (simp add: cli_well_def)

lemma portMode_seen:
  assumes "p \<in> set (listed s)" "map_of (vs_vlans s) vid = Some v"
  shows "portMode (vlan_seen s vid) p
    = (if \<not> in_set (vv_member v) p then VlanExcluded else if in_set (vv_untagged v) p then VlanUntagged else VlanTagged)"
  using assms by (simp add: portMode_def vlan_seen_def cli_vlan_info_def Let_def)

lemma SetVLANMembership_face:
  assumes w: "port_write U w f port vid force" and g: "general (prepared port (cf_state f)) port"
  shows "cli_SetVLANMembership w vid port mode force f
    = (Inr (), f\<lparr>cf_state := vlan_change vid (moved_to mode port) (prepared port (cf_state f))\<rparr>)"
proof -
  note facts = port_write_facts [OF w]
  let ?s = "vlan_change vid (moved_to mode port) (prepared port (cf_state f))"
  let ?fp = "f\<lparr>cf_state := prepared port (cf_state f)\<rparr>"
  obtain sim where sim: "map_of (vs_ports (cf_state f)) port = Some sim" using facts(11) by blast
  obtain v where v: "map_of (vs_vlans (cf_state f)) vid = Some v" using facts(13) by blast
  have "known_spec (cw_spec w)" "vlan_there (cf_state ?fp) vid" "general (cf_state ?fp) port"
    using facts g by (simp_all add: vlan_there_def)
  then have "run_all (face_session U) (membership_body w vid mode) (at_port f port) = (Inr (), at_port (f\<lparr>cf_state := ?s\<rparr>) port)"
    using run_prelude [OF facts(1) sim] run_membership [of w ?fp vid port U mode]
    by (simp only: membership_body_def) simp
  then have body: "in_interface w port (membership_body w vid mode) f = (Inr (), f\<lparr>cf_state := ?s\<rparr>)"
    using facts by (intro in_interface_face) simp_all
  have "cli_setup U w (f\<lparr>cf_state := ?s\<rparr>)"
    using facts by (intro setup_state cli_well_change) (simp_all add: moved_to_sets)
  then have after: "cli_vlan w vid (f\<lparr>cf_state := ?s\<rparr>) = (Inr (vlan_seen ?s vid), f\<lparr>cf_state := ?s\<rparr>)"
    using cli_vlan_face by force
  have "portMode (vlan_seen ?s vid) port = mode"
    using portMode_seen [of port ?s vid "moved_to mode port v"] facts(3) v by (cases mode) (simp_all add: moved_to_sets)
  moreover have "vlan_seen ?s vid \<noteq> None" "vlan_seen (cf_state f) vid \<noteq> None" using v by (simp_all add: vlan_seen_def)
  ultimately show ?thesis
    by (auto simp: cli_SetVLANMembership_def facts(5) cli_vlan_face [OF facts(1)] body after sbind_def)
qed

end
