(* ===== verification/Cli_Vlans.thy ===== *)
theory Cli_Vlans
  imports Cli_Write
begin

section \<open>VLANs of the virtual command line: creation and deletion\<close>

text \<open>
  \<open>CreateVLAN\<close> and \<open>DeleteVLAN\<close> on the virtual switch, the names a create command accepts, and the
  VLAN a refused name leaves behind.
\<close>

declare rx_match.simps [simp del]

subsection \<open>In and out of the VLAN database\<close>

definition in_db :: "cli_face \<Rightarrow> cli_face" where
  "in_db f = f\<lparr>cf_modes := [Mode_Vlan_DB]\<rparr>"

lemma in_db_sel [simp]: "cf_modes (in_db f) = [Mode_Vlan_DB]" "cf_state (in_db f) = cf_state f"
  by (simp_all add: in_db_def)

lemma accepted_in_db: "accepted s (in_db f) = Some (Inr [], in_db (f\<lparr>cf_state := s\<rparr>))"
  by (simp add: accepted_def in_db_def)

lemma in_database_face:
  assumes "cw_session w = face_session U" "cw_spec w = cf_spec f" "exec f" "known_spec (cf_spec f)"
    and "run_all (face_session U) body (in_db f) = (r, in_db (f\<lparr>cf_state := s\<rparr>))"
  shows "in_vlan_database w body f = (r, f\<lparr>cf_state := s\<rparr>)"
proof -
  have "cli_run (face_session U) ''vlan database'' f = (Inr (), in_db f)"
    using run_vlan_database exec_modes [OF assms(3)] by (intro cli_run_face) (simp add: in_db_def)
  then have en: "enter_all (face_session U) [''vlan database''] 0 f = ((Inr (), Suc 0), in_db f)" by simp
  have "unwind (face_session U) ''exit'' (Suc 0) (in_db (f\<lparr>cf_state := s\<rparr>)) = f\<lparr>cf_state := s\<rparr>"
    using assms(3) by (cases f) (simp add: run_exit exec_def in_db_def)
  then show ?thesis
    using assms(1,2,4,5) by (simp add: in_vlan_database_def inMode_def en del: unwind.simps enter_all.simps)
qed

lemma run_in_db:
  assumes "TrimSpace c = c" "c \<noteq> []" "hd c \<in> {CHR ''v'', CHR ''n''}"
    and "c \<noteq> ''no ip http secure-server''" "FindStringSubmatch cliVlanDatabaseRE c = None" "FindStringSubmatch cliNetworkParmsRE c = None"
    and "vlanDBCommand c (in_db f) = Some r"
  shows "cliface_run U c (in_db f) = r"
proof (rule run_config)
  have "FindStringSubmatch cliConfigureRE c = None" "c \<noteq> ''exit''" "c \<noteq> ''end''"
    using assms(2,3) by (cases c; auto simp: cliConfigureRE_def command_rules)+
  then show "configCommand U c (in_db f) = Some r"
    using assms by (simp add: configCommand_def MatchString_def current_mode_def)
qed (use assms in \<open>auto intro!: setup_other\<close>)

subsection \<open>The commands of the VLAN database\<close>

lemmas db_expressions = cliVlanCreateRE_def cliVlanNameRE_def cliVlanDeleteRE_def

lemma non_digit_letters [simp]: "\<not> is_digit (CHR ''n'')" "\<not> is_digit (CHR '' '')" "\<not> is_digit (CHR ''d'')"
  by (simp_all add: is_digit_def)

lemma run_create:
  assumes "id_fits vid"
  shows "cliface_run U (''vlan '' @ show_int vid) (in_db f) = (Inr [], in_db (f\<lparr>cf_state := vlan_created vid (cf_state f)\<rparr>))"
proof -
  obtain d ds where d: "show_int vid = d # ds" "is_digit d" "list_all is_digit ds"
    using digits_front [of vid] assms by (auto simp: id_fits_def)
  then have ne: "d \<noteq> CHR ''d''" by (auto simp: is_digit_def)
  have m: "FindStringSubmatch cliVlanCreateRE (''vlan '' @ show_int vid) = Some [(1, show_int vid)]"
    using d by (simp add: db_expressions rx_eval blocked_intros)
  show ?thesis
  proof (rule run_in_db)
    show "vlanDBCommand (''vlan '' @ show_int vid) (in_db f)
        = Some (Inr [], in_db (f\<lparr>cf_state := vlan_created vid (cf_state f)\<rparr>))"
      by (simp only: vlanDBCommand_def on_match_def m) (simp add: AtoiValue_show_int [OF assms] accepted_in_db)
    show "TrimSpace (''vlan '' @ show_int vid) = ''vlan '' @ show_int vid"
      using assms trim_int_command [of vid "CHR ''v''" "''lan ''"] by (simp add: id_fits_def graphic_def)
  qed (use ne in \<open>simp_all add: command_rules d(1)\<close>)
qed

lemma run_name:
  assumes "id_fits vid" "word_text name" "map_of (vs_vlans (cf_state f)) vid = Some v"
  shows "cliface_run U (''vlan name '' @ show_int vid @ '' '' @ name) (in_db f)
    = (Inr [], in_db (f\<lparr>cf_state := vlan_change vid (\<lambda>v. v\<lparr>vv_name := name\<rparr>) (cf_state f)\<rparr>))"
proof -
  have i: "0 \<le> vid" using assms(1) by (simp add: id_fits_def)
  have name: "name \<noteq> []" "graphic (last name)" "list_all non_space name"
    using assms(2) last_in_set [of name] by (auto simp: word_text_def list_all_iff non_space_def graphic_def is_space_def)
  then have span: "takeWhile non_space name = name" "dropWhile non_space name = []"
    by (simp_all add: takeWhile_eq_all_conv list_all_iff)
  have ds: "list_all is_digit (show_int vid)" "show_int vid \<noteq> []" using int_all_digits [OF i] by auto
  let ?c = "''vlan name '' @ show_int vid @ '' '' @ name"
  have m1: "FindStringSubmatch cliVlanCreateRE ?c = None" by (simp add: db_expressions rx_eval blocked_intros)
  have m2: "FindStringSubmatch cliVlanNameRE ?c = Some [(2, name), (1, show_int vid)]"
    by (simp add: db_expressions rx_eval blocked_intros span name(1) ds)
  show ?thesis
  proof (rule run_in_db)
    show "vlanDBCommand ?c (in_db f) = Some (Inr [], in_db (f\<lparr>cf_state := vlan_change vid (\<lambda>v. v\<lparr>vv_name := name\<rparr>) (cf_state f)\<rparr>))"
      using assms(3) by (simp only: vlanDBCommand_def on_match_def m1 m2)
        (simp add: AtoiValue_show_int [OF assms(1)] accepted_in_db vlan_change_def Let_def)
    show "TrimSpace ?c = ?c"
      using TrimSpace_command [of "CHR ''v''" "''lan name '' @ show_int vid @ '' '' @ name"] name by (simp add: graphic_def)
  qed (simp_all add: command_rules)
qed

lemma run_delete:
  assumes "id_fits vid" "vid \<noteq> 1" "map_of (vs_vlans (cf_state f)) vid = Some v"
  shows "cliface_run U (''no vlan '' @ show_int vid) (in_db f) = (Inr [], in_db (f\<lparr>cf_state := vlan_deleted vid (cf_state f)\<rparr>))"
proof -
  have i: "0 \<le> vid" using assms(1) by (simp add: id_fits_def)
  let ?c = "''no vlan '' @ show_int vid"
  have m: "FindStringSubmatch cliVlanCreateRE ?c = None" "FindStringSubmatch cliVlanNameRE ?c = None"
    "FindStringSubmatch cliVlanDeleteRE ?c = Some [(1, show_int vid)]"
    using i by (simp_all add: db_expressions rx_eval blocked_intros)
  show ?thesis
  proof (rule run_in_db)
    show "vlanDBCommand ?c (in_db f) = Some (Inr [], in_db (f\<lparr>cf_state := vlan_deleted vid (cf_state f)\<rparr>))"
      using assms(2,3) by (simp only: vlanDBCommand_def on_match_def m) (simp add: AtoiValue_show_int [OF assms(1)] accepted_in_db)
    show "TrimSpace ?c = ?c"
      using i trim_int_command [of vid "CHR ''n''" "''o vlan ''"] by (simp add: graphic_def)
  qed (simp_all add: command_rules)
qed


text \<open>A name of two words is no name for the switch.\<close>

definition spaced_name :: "string \<Rightarrow> string \<Rightarrow> string" where
  "spaced_name a b = a @ '' '' @ b"

lemma run_spaced_name:
  assumes "id_fits vid" "word_text a" "word_text b"
  shows "cliface_run U (''vlan name '' @ show_int vid @ '' '' @ spaced_name a b) (in_db f)
    = showCommand (''vlan name '' @ show_int vid @ '' '' @ spaced_name a b) (in_db f)"
proof -
  have i: "0 \<le> vid" using assms(1) by (simp add: id_fits_def)
  have a: "a \<noteq> []" "list_all non_space a" and b: "b \<noteq> []" "graphic (last b)"
    using assms(2,3) last_in_set [of b] by (auto simp: word_text_def list_all_iff non_space_def graphic_def is_space_def)
  have span: "takeWhile non_space (a @ CHR '' '' # b) = a" "dropWhile non_space (a @ CHR '' '' # b) = CHR '' '' # b"
    using a(2) by (induction a) (simp_all add: non_space_def is_space_def)
  have ds: "list_all is_digit (show_int vid)" "show_int vid \<noteq> []" using int_all_digits [OF i] by auto
  let ?c = "''vlan name '' @ show_int vid @ '' '' @ spaced_name a b"
  have none: "FindStringSubmatch cliVlanCreateRE ?c = None" "FindStringSubmatch cliVlanNameRE ?c = None"
    "FindStringSubmatch cliVlanDeleteRE ?c = None"
    by (simp_all add: db_expressions rx_eval blocked_intros span a(1) ds spaced_name_def)
  have other: "FindStringSubmatch cliVlanDatabaseRE ?c = None" "FindStringSubmatch cliNetworkParmsRE ?c = None"
    "FindStringSubmatch cliConfigureRE ?c = None" "?c \<noteq> ''exit''" "?c \<noteq> ''end''" "FindStringSubmatch cliSetupRE ?c = None"
    by (simp_all add: command_rules cliConfigureRE_def setup_other)
  have trim: "TrimSpace ?c = ?c"
    using TrimSpace_command [of "CHR ''v''" "''lan name '' @ show_int vid @ '' '' @ spaced_name a b"] b
    by (simp add: graphic_def spaced_name_def)
  have "vlanDBCommand ?c (in_db f) = None" by (simp only: vlanDBCommand_def on_match_def none) simp
  moreover have "configCommand U ?c (in_db f) = vlanDBCommand ?c (in_db f)"
    using other by (simp only: configCommand_def MatchString_def) (simp add: current_mode_def)
  moreover have "?c \<noteq> ''no ip http secure-server''" "?c \<noteq> ''ip http secure-server''" by simp_all
  ultimately show ?thesis using other trim by (simp only: cliface_run_def MatchString_def Let_def) simp
qed


lemma show_other:
  assumes "known_spec (cf_spec f)" "c \<noteq> []" "hd c \<noteq> CHR ''s''"
  shows "showCommand c f = (Inr ''Command not found / Incomplete command. Use ? to list commands.'', f)"
proof -
  have ne: "c \<noteq> CHR ''s'' # t" for t using assms(3) by auto
  have "FindStringSubmatch cliPortDescriptionShowRE c = None" "FindStringSubmatch cliShowVlanIDRE c = None"
    "FindStringSubmatch cliShowIfaceRE c = None"
    using assms(2,3) by (cases c; simp add: cliPortDescriptionShowRE_def cliShowVlanIDRE_def cliShowIfaceRE_def rx_eval)+
  then show ?thesis
    using ne by (cases rule: brief_cmd [OF assms(1)]) (simp_all add: showCommand_def prints_def spec_cmds [OF assms(1)])
qed

lemma run_delete_default:
  "cliface_run U (''no vlan '' @ show_int 1) (in_db f) = (Inr ''ERROR: The default VLAN cannot be deleted'', in_db f)"
proof (rule run_in_db)
  show "vlanDBCommand (''no vlan '' @ show_int 1) (in_db f) = Some (Inr ''ERROR: The default VLAN cannot be deleted'', in_db f)"
    by (simp add: vlanDBCommand_def on_match_def db_expressions rx_eval blocked_intros says_def AtoiValue_show_int id_fits_def)
  show "TrimSpace (''no vlan '' @ show_int 1) = ''no vlan '' @ show_int 1"
    using trim_int_command [of 1 "CHR ''n''" "''o vlan ''"] by (simp add: graphic_def)
qed (simp_all add: command_rules)


subsection \<open>CreateVLAN\<close>

lemma not_brace: "\<not> prefix (CHR ''{'' # t) (show_int i @ u)" if "0 \<le> i"
  using digits_front [OF that] by (auto simp: is_digit_def)

lemma replace_first_skip:
  assumes "list_all (\<lambda>ch. ch \<noteq> CHR ''{'') s"
  shows "replace_first (CHR ''{'' # t) new (s @ u) = s @ replace_first (CHR ''{'' # t) new u"
  using assms by (induction s) (auto simp: replace_first.simps [of _ _ "_ # _"])

lemma replace_first_head: "replace_first (CHR ''{'' # t) new (CHR ''{'' # t @ u) = new @ u"
  by (simp add: replace_first.simps [of _ _ "_ # _"])

lemma spec_VlanName_text:
  assumes "known_spec spec" "id_fits vid"
  shows "spec_VlanName spec vid name = ''vlan name '' @ show_int vid @ '' '' @ name"
proof -
  have ds: "list_all (\<lambda>ch. ch \<noteq> CHR ''{'') (show_int vid)"
    using int_all_digits [of vid] assms(2) by (auto simp: id_fits_def list_all_iff is_digit_def)
  have "formatOne ''vlan name {vlan} {name}'' ''vlan'' (show_int vid) = ''vlan name '' @ show_int vid @ '' {name}''"
    using replace_first_skip [of "''vlan name ''" "''vlan}''" "show_int vid" "''{vlan} {name}''"]
      replace_first_head [of "''vlan}''" "show_int vid" "'' {name}''"] by (simp add: formatOne_def)
  moreover have "formatOne (''vlan name '' @ show_int vid @ '' {name}'') ''name'' name = ''vlan name '' @ show_int vid @ '' '' @ name"
    using replace_first_skip [of "''vlan name '' @ show_int vid @ '' ''" "''name}''" name "''{name}''"]
      replace_first_head [of "''name}''" name "[]"] ds by (simp add: formatOne_def)
  ultimately show ?thesis using assms(1) by (simp add: spec_VlanName_def del: append.simps)
qed

lemma vlan_created_sel [simp]:
  "vs_model_key (vlan_created vid s) = vs_model_key s" "vs_ports (vlan_created vid s) = vs_ports s"
  "vs_pvids (vlan_created vid s) = vs_pvids s" "map_of (vs_vlans (vlan_created vid s)) vid \<noteq> None"
  by (simp_all add: vlan_created_def update_conv')

lemma cli_well_created:
  assumes "cli_well s" "id_fits vid"
  shows "cli_well (vlan_created vid s)"
proof -
  have "name_fits []" by (simp add: name_fits_def plain_line_def)
  moreover have "names_ok (vlan_created vid s) = names_ok s" by (rule names_ok_cong) simp_all
  ultimately show ?thesis
    using assms by (auto simp: cli_well_def vlans_ok_iff pvids_ok_def vlan_created_def update_conv' split: if_splits)
qed

definition vlan_named :: "int \<Rightarrow> string \<Rightarrow> vstate \<Rightarrow> vstate" where
  "vlan_named vid name s = vlan_change vid (\<lambda>v. v\<lparr>vv_name := name\<rparr>) (vlan_created vid s)"

lemma cli_well_named:
  assumes "cli_well s" "id_fits vid" "word_text name" "length name \<le> 32"
  shows "cli_well (vlan_named vid name s)"
proof -
  have "name_fits name" using assms(3,4) word_text_facts [OF assms(3)] by (simp add: name_fits_def)
  then show ?thesis
    using cli_well_created [OF assms(1,2)]
    by (auto simp: cli_well_def vlan_named_def vlans_ok_iff pvids_ok_def split: if_splits)
qed

lemma CreateVLAN_face:
  assumes w: "cli_setup U w f" and vid: "id_fits vid" and name: "word_text name" "length name \<le> 32"
  shows "cli_CreateVLAN w vid name f = (Inr (), f\<lparr>cf_state := vlan_named vid name (cf_state f)\<rparr>)"
proof -
  have sess: "cw_session w = face_session U" "cw_spec w = cf_spec f" "exec f" and spec: "known_spec (cf_spec f)"
    and ok: "cli_well (cf_state f)" using w by (simp_all add: cli_setup_def)
  let ?c = "vlan_created vid (cf_state f)" and ?s = "vlan_named vid name (cf_state f)"
  obtain v where v: "map_of (vs_vlans ?c) vid = Some v" using vlan_created_sel(4) [of vid "cf_state f"] by blast
  note create = cli_run_face [OF run_create [OF vid]]
  have named: "cli_run (face_session U) (''vlan name '' @ show_int vid @ '' '' @ name) (in_db (f\<lparr>cf_state := ?c\<rparr>))
      = (Inr (), in_db (f\<lparr>cf_state := ?s\<rparr>))"
    using cli_run_face [OF run_name [of vid name "f\<lparr>cf_state := ?c\<rparr>"]] vid name v by (simp add: vlan_named_def del: append.simps)
  have "run_all (face_session U) [''vlan '' @ show_int vid, ''vlan name '' @ show_int vid @ '' '' @ name] (in_db f)
      = (Inr (), in_db (f\<lparr>cf_state := ?s\<rparr>))"
    by (simp only: run_all.simps sbind_def create named prod.case sum.case sret_def)
  then have body: "in_vlan_database w [spec_VlanCreate (cw_spec w) vid, spec_VlanName (cw_spec w) vid name] f
      = (Inr (), f\<lparr>cf_state := ?s\<rparr>)"
    using sess spec by (intro in_database_face) (simp_all only: spec_VlanName_text [OF spec vid] spec_Vlan_texts)
  have "cli_setup U w (f\<lparr>cf_state := ?s\<rparr>)"
    using cli_well_named [OF ok vid name] by (intro setup_state [OF w]) (simp_all add: vlan_named_def)
  then have after: "cli_vlan w vid (f\<lparr>cf_state := ?s\<rparr>) = (Inr (vlan_seen ?s vid), f\<lparr>cf_state := ?s\<rparr>)"
    using cli_vlan_face by force
  have seen: "vlan_seen ?s vid = Some (cli_vlan_info ?s vid)" "vi_name (cli_vlan_info ?s vid) = Some name"
    using v by (simp_all add: vlan_seen_def cli_vlan_info_def Let_def vlan_named_def)
  show ?thesis
    by (simp add: cli_CreateVLAN_def cli_vlan_face [OF w] body after seen sbind_def)
qed


text \<open>A name of two words is refused: the VLAN is left behind, without a name.\<close>

lemma CreateVLAN_spaced:
  assumes w: "cli_setup U w f" and vid: "id_fits vid" and name: "word_text a" "word_text b"
  shows "\<exists>e. cli_CreateVLAN w vid (spaced_name a b) f = (Inl e, f\<lparr>cf_state := vlan_created vid (cf_state f)\<rparr>)
    \<and> errors_is e ErrCliCommandRejected"
proof -
  have sess: "cw_session w = face_session U" "cw_spec w = cf_spec f" "exec f" and spec: "known_spec (cf_spec f)"
    using w by (simp_all add: cli_setup_def)
  let ?n = "''vlan name '' @ show_int vid @ '' '' @ spaced_name a b"
  let ?no = "''Command not found / Incomplete command. Use ? to list commands.''"
  let ?f1 = "in_db (f\<lparr>cf_state := vlan_created vid (cf_state f)\<rparr>)"
  have "cf_spec ?f1 = cf_spec f" by (simp add: in_db_def)
  then have "cliface_run U ?n ?f1 = (Inr ?no, ?f1)"
    using run_spaced_name [OF vid name, of U "f\<lparr>cf_state := vlan_created vid (cf_state f)\<rparr>"] show_other [of ?f1 ?n] spec by simp
  moreover have "TrimSpace ?no = ?no" by (rule TrimSpace_id) (simp_all add: graphic_def)
  ultimately obtain e where e: "cli_run (face_session U) ?n ?f1 = (Inl e, ?f1)" "errors_is e ErrCliCommandRejected"
    by (simp add: cli_run_def sbind_def Let_def sret_def)
  note create = cli_run_face [OF run_create [OF vid]]
  have "run_all (face_session U) [''vlan '' @ show_int vid, ?n] (in_db f) = (Inl e, ?f1)"
    by (simp only: run_all.simps sbind_def create e(1) prod.case sum.case)
  then have body: "in_vlan_database w [spec_VlanCreate (cw_spec w) vid, spec_VlanName (cw_spec w) vid (spaced_name a b)] f
      = (Inl e, f\<lparr>cf_state := vlan_created vid (cf_state f)\<rparr>)"
    using sess spec by (intro in_database_face) (simp_all only: spec_VlanName_text [OF spec vid] spec_Vlan_texts)
  show ?thesis
    using e(2) by (simp only: cli_CreateVLAN_def cli_vlan_face [OF w] body sbind_def prod.case sum.case) simp
qed

subsection \<open>DeleteVLAN\<close>

lemma cli_well_deleted:
  assumes "cli_well s"
  shows "cli_well (vlan_deleted vid s)"
proof -
  have n: "names_ok (vlan_deleted vid s) = names_ok s" by (rule names_ok_cong) (simp_all add: vlan_deleted_def)
  have m: "map_of (map (\<lambda>(port, pv). (port, if pv = vid then 1 else pv)) t) p
      = map_option (\<lambda>pv. if pv = vid then 1 else pv) (map_of t p)" for t p
    using map_of_map [of "\<lambda>pv. if pv = vid then 1 else pv" t] by simp
  have pv: "pvids_ok s' \<longleftrightarrow> (\<forall>p v. map_of (vs_pvids s') p = Some v \<longrightarrow> id_fits v)" for s'
    unfolding pvids_ok_def list_all_iff set_sorted_keys by (simp add: Ball_def dom_def) (metis option.sel)
  have "pvids_ok (vlan_deleted vid s)"
    using assms unfolding pv cli_well_def by (auto simp: vlan_deleted_def m id_fits_def)
  moreover have "vlans_ok (vlan_deleted vid s)"
    using assms unfolding vlans_ok_iff cli_well_def by (simp add: vlan_deleted_def delete_conv')
  ultimately show ?thesis using assms by (simp add: cli_well_def n)
qed

definition no_clash :: "'s cli_writer \<Rightarrow> vstate \<Rightarrow> int \<Rightarrow> bool \<Rightarrow> bool" where
  "no_clash w s vid force \<longleftrightarrow> force \<or> filter (\<lambda>p. p \<in> set (cw_protected w)) (vi_members (cli_vlan_info s vid)) = []"

lemma DeleteVLAN_face:
  assumes w: "cli_setup U w f" and vid: "vlan_there (cf_state f) vid" "vid \<noteq> 1" and g: "no_clash w (cf_state f) vid force"
  shows "cli_DeleteVLAN w vid force f = (Inr (), f\<lparr>cf_state := vlan_deleted vid (cf_state f)\<rparr>)"
proof -
  have sess: "cw_session w = face_session U" "cw_spec w = cf_spec f" "exec f" and spec: "known_spec (cf_spec f)"
    and ok: "cli_well (cf_state f)" using w by (simp_all add: cli_setup_def)
  obtain v where v: "id_fits vid" "map_of (vs_vlans (cf_state f)) vid = Some v" using vid by (auto simp: vlan_there_def)
  let ?s = "vlan_deleted vid (cf_state f)"
  note delete = cli_run_face [OF run_delete [OF v(1) vid(2) v(2)]]
  have "run_all (face_session U) [''no vlan '' @ show_int vid] (in_db f) = (Inr (), in_db (f\<lparr>cf_state := ?s\<rparr>))"
    by (simp only: run_all.simps sbind_def delete prod.case sum.case sret_def)
  then have body: "in_vlan_database w [spec_VlanDelete (cw_spec w) vid] f = (Inr (), f\<lparr>cf_state := ?s\<rparr>)"
    using sess spec by (intro in_database_face) (simp_all only: spec_Vlan_texts)
  have "cli_setup U w (f\<lparr>cf_state := ?s\<rparr>)"
    using cli_well_deleted [OF ok] by (intro setup_state [OF w]) (simp_all add: vlan_deleted_def)
  then have after: "cli_vlan w vid (f\<lparr>cf_state := ?s\<rparr>) = (Inr (vlan_seen ?s vid), f\<lparr>cf_state := ?s\<rparr>)"
    using cli_vlan_face by force
  have "vlan_seen ?s vid = None" by (simp add: vlan_seen_def vlan_deleted_def delete_conv')
  then show ?thesis
    using v g by (auto simp: cli_DeleteVLAN_def cli_vlan_face [OF w] vlan_seen_def body after sbind_def no_clash_def Let_def)
qed

lemma DeleteVLAN_default:
  assumes w: "cli_setup U w f" and vid: "vlan_there (cf_state f) 1" and g: "no_clash w (cf_state f) 1 force"
  shows "\<exists>e. cli_DeleteVLAN w 1 force f = (Inl e, f) \<and> errors_is e ErrCliCommandRejected"
proof -
  have sess: "cw_session w = face_session U" "cw_spec w = cf_spec f" "exec f" and spec: "known_spec (cf_spec f)"
    using w by (simp_all add: cli_setup_def)
  let ?no = "''ERROR: The default VLAN cannot be deleted''"
  have "TrimSpace ?no = ?no" by (rule TrimSpace_id) (simp_all add: graphic_def)
  then obtain e where e: "cli_run (face_session U) (''no vlan '' @ show_int 1) (in_db f) = (Inl e, in_db f)"
      "errors_is e ErrCliCommandRejected"
    using run_delete_default [of U f] by (simp add: cli_run_def sbind_def Let_def sret_def del: append.simps)
  have "f\<lparr>cf_state := cf_state f\<rparr> = f" by simp
  then have "run_all (face_session U) [''no vlan '' @ show_int 1] (in_db f) = (Inl e, in_db (f\<lparr>cf_state := cf_state f\<rparr>))"
    by (simp only: run_all.simps sbind_def e(1) prod.case sum.case)
  then have "in_vlan_database w [spec_VlanDelete (cw_spec w) 1] f = (Inl e, f\<lparr>cf_state := cf_state f\<rparr>)"
    using sess spec by (intro in_database_face) (simp_all only: spec_Vlan_texts)
  then have body: "in_vlan_database w [spec_VlanDelete (cw_spec w) 1] f = (Inl e, f)" by simp
  show ?thesis
    using e(2) vid g by (auto simp: cli_DeleteVLAN_def cli_vlan_face [OF w] vlan_seen_def body sbind_def no_clash_def Let_def vlan_there_def)
qed

end
