(* ===== verification/Cli_Refinement.thy ===== *)
theory Cli_Refinement
  imports Cli_Vlans
begin

section \<open>What the command-line backend does to a switch\<close>

text \<open>
  The reads of the command-line backend are a projection of the state of the virtual switch, and a
  list of its writes is a fold of abstract operations over that state.  The ports a write may name
  and the VLANs it needs are the conditions; a port that ignores the commands and a name the switch
  refuses are errors the writer reports.
\<close>

declare rx_match.simps [simp del]

subsection \<open>The abstract operations\<close>

datatype cli_op = Move_Pvid int int | Move_Member int int vlan_mode | Add_Vlan int string | Drop_Vlan int

fun apply_cli_op :: "cli_op \<Rightarrow> vstate \<Rightarrow> vstate" where
  "apply_cli_op (Move_Pvid p vid) s = pvid_moved p vid (prepared p s)"
| "apply_cli_op (Move_Member vid p mode) s = vlan_change vid (moved_to mode p) (prepared p s)"
| "apply_cli_op (Add_Vlan vid name) s = vlan_named vid name s"
| "apply_cli_op (Drop_Vlan vid) s = vlan_deleted vid s"

fun run_cli_op :: "'s cli_writer \<Rightarrow> bool \<Rightarrow> cli_op \<Rightarrow> ('s, go_error, unit) action" where
  "run_cli_op w force (Move_Pvid p vid) = cli_SetPVID w p vid force"
| "run_cli_op w force (Move_Member vid p mode) = cli_SetVLANMembership w vid p mode force"
| "run_cli_op w force (Add_Vlan vid name) = cli_CreateVLAN w vid name"
| "run_cli_op w force (Drop_Vlan vid) = cli_DeleteVLAN w vid force"

fun run_cli_ops :: "'s cli_writer \<Rightarrow> bool \<Rightarrow> cli_op list \<Rightarrow> ('s, go_error, unit) action" where
  "run_cli_ops w force [] = sret (Inr ())"
| "run_cli_ops w force (op # ops) = sbind (run_cli_op w force op) (\<lambda>_. run_cli_ops w force ops)"

text \<open>A port the commands can name, that obeys them, with the VLAN they name.\<close>

definition port_may :: "cli_model_spec \<Rightarrow> int list \<Rightarrow> bool \<Rightarrow> int \<Rightarrow> int \<Rightarrow> vstate \<Rightarrow> bool" where
  "port_may spec prot force p vid s \<longleftrightarrow>
     addressable spec s p \<and> 0 \<le> p \<and> p < 10000 \<and> p \<in> set (listed s) \<and> vlan_there s vid \<and> (p \<notin> set prot \<or> force) \<and>
     general (prepared p s) p"

fun may_cli_op :: "cli_model_spec \<Rightarrow> int list \<Rightarrow> bool \<Rightarrow> cli_op \<Rightarrow> vstate \<Rightarrow> bool" where
  "may_cli_op spec prot force (Move_Pvid p vid) s \<longleftrightarrow> port_may spec prot force p vid s"
| "may_cli_op spec prot force (Move_Member vid p mode) s \<longleftrightarrow> port_may spec prot force p vid s"
| "may_cli_op spec prot force (Add_Vlan vid name) s \<longleftrightarrow> id_fits vid \<and> word_text name \<and> length name \<le> 32"
| "may_cli_op spec prot force (Drop_Vlan vid) s \<longleftrightarrow>
     vlan_there s vid \<and> vid \<noteq> 1 \<and> (force \<or> (\<forall>p \<in> set (vi_members (cli_vlan_info s vid)). p \<notin> set prot))"

fun may_cli_ops :: "cli_model_spec \<Rightarrow> int list \<Rightarrow> bool \<Rightarrow> cli_op list \<Rightarrow> vstate \<Rightarrow> bool" where
  "may_cli_ops spec prot force [] s \<longleftrightarrow> True"
| "may_cli_ops spec prot force (op # ops) s \<longleftrightarrow>
     may_cli_op spec prot force op s \<and> may_cli_ops spec prot force ops (apply_cli_op op s)"

lemma apply_cli_op_kept:
  assumes "cli_well s" "may_cli_op spec prot force op s"
  shows "cli_well (apply_cli_op op s)" "vs_model_key (apply_cli_op op s) = vs_model_key s"
proof -
  show "vs_model_key (apply_cli_op op s) = vs_model_key s"
    by (cases op) (simp_all add: pvid_moved_def vlan_named_def vlan_deleted_def)
  show "cli_well (apply_cli_op op s)"
  proof (cases op)
    case (Move_Pvid p vid)
    then show ?thesis using assms cli_well_pvid_moved [OF assms(1)] by (simp add: port_may_def vlan_there_def)
  next
    case (Move_Member vid p mode)
    then show ?thesis using cli_well_change [OF assms(1)] by (simp add: moved_to_sets)
  next
    case (Add_Vlan vid name)
    then show ?thesis using assms cli_well_named [OF assms(1)] by simp
  next
    case (Drop_Vlan vid)
    then show ?thesis using cli_well_deleted [OF assms(1)] by simp
  qed
qed

lemma run_cli_op_face:
  assumes "cli_setup U w f" "may_cli_op (cf_spec f) (cw_protected w) force op (cf_state f)"
  shows "run_cli_op w force op f = (Inr (), f\<lparr>cf_state := apply_cli_op op (cf_state f)\<rparr>)"
proof -
  have port: "port_write U w f p vid force" "general (prepared p (cf_state f)) p"
    if "port_may (cf_spec f) (cw_protected w) force p vid (cf_state f)" for p vid
    using assms(1) that by (simp_all add: port_may_def port_write_def reachable_port_def cli_setup_def)
  show ?thesis
  proof (cases op)
    case (Move_Pvid p vid)
    then show ?thesis using assms(2) SetPVID_face [OF port] by simp
  next
    case (Move_Member vid p mode)
    then show ?thesis using assms(2) SetVLANMembership_face [OF port] by simp
  next
    case (Add_Vlan vid name)
    then show ?thesis using assms(2) CreateVLAN_face [OF assms(1)] by simp
  next
    case (Drop_Vlan vid)
    then have "no_clash w (cf_state f) vid force" using assms(2) by (auto simp: no_clash_def filter_empty_conv)
    then show ?thesis using assms(2) Drop_Vlan DeleteVLAN_face [OF assms(1)] by simp
  qed
qed

lemma run_cli_ops_face:
  assumes "cli_setup U w f" "may_cli_ops (cf_spec f) (cw_protected w) force ops (cf_state f)"
  shows "run_cli_ops w force ops f = (Inr (), f\<lparr>cf_state := fold apply_cli_op ops (cf_state f)\<rparr>)
    \<and> cli_well (fold apply_cli_op ops (cf_state f))"
  using assms
proof (induction ops arbitrary: f)
  case (Cons op ops)
  let ?g = "f\<lparr>cf_state := apply_cli_op op (cf_state f)\<rparr>"
  have "cli_setup U w ?g"
    using Cons.prems apply_cli_op_kept [of "cf_state f" "cf_spec f" "cw_protected w" force op]
    by (intro setup_state [OF Cons.prems(1)]) (auto simp: cli_setup_def)
  from Cons.IH [OF this] show ?case
    using run_cli_op_face [OF Cons.prems(1), of force op] Cons.prems(2) by (simp add: sbind_def)
qed (simp add: sret_def cli_setup_def)


subsection \<open>A switch on the shelf\<close>

definition shelf_unicode :: unicode where "shelf_unicode = \<lparr>uc_lower = id, uc_upper = id\<rparr>"

definition shelf_vlan :: "string \<Rightarrow> int list \<Rightarrow> int list \<Rightarrow> vlan_sim" where
  "shelf_vlan name members untagged =
     \<lparr>vv_name = name, vv_member = map (\<lambda>p. (p, True)) members, vv_untagged = map (\<lambda>p. (p, True)) untagged,
      vv_configured_only = [], vv_no_static_row = False\<rparr>"

text \<open>The third port is locked: it accepts the VLAN commands and obeys none.\<close>

definition shelf_switch :: vstate where
  "shelf_switch = (NewState ''gsm7252ps'')
     \<lparr>vs_ports := [(1, NewPortSim ''1/0/1'' True True 1000), (2, NewPortSim ''1/0/2'' True False 0),
        (3, (NewPortSim ''1/0/3'' True False 0)\<lparr>vp_switchport_mode := []\<rparr>)],
      vs_vlans := [(1, shelf_vlan ''default'' [1, 2, 3] [1, 2, 3]), (10, shelf_vlan ''lab'' [1] [])],
      vs_pvids := [(1, 1), (2, 1), (3, 1)], vs_locked_ports := [(3, True)]\<rparr>"

definition shelf_face :: cli_face where "shelf_face = NewCliFace shelf_switch gsm7252psSpec"

definition shelf_writer :: "cli_face cli_writer" where
  "shelf_writer =
     \<lparr>cw_session = face_session shelf_unicode, cw_spec = gsm7252psSpec, cw_model = model_gsm7252ps, cw_protected = [2],
      cw_reader = \<lparr>cr_session = face_session shelf_unicode, cr_spec = gsm7252psSpec, cr_model = model_gsm7252ps,
        cr_unicode = shelf_unicode\<rparr>,
      cw_clock = (\<lambda>s. (0, s)), cw_sleep = (\<lambda>_. sret (Inr ()))\<rparr>"

lemma shelf_vlan_sets [simp]:
  "in_set (vv_member (shelf_vlan name members untagged)) p \<longleftrightarrow> p \<in> set members"
  "in_set (vv_untagged (shelf_vlan name members untagged)) p \<longleftrightarrow> p \<in> set untagged"
  by (induction members, simp_all add: shelf_vlan_def in_set_def) (induction untagged, simp_all)

lemma shelf_sel [simp]:
  "vs_ports shelf_switch = [(1, NewPortSim ''1/0/1'' True True 1000), (2, NewPortSim ''1/0/2'' True False 0),
     (3, (NewPortSim ''1/0/3'' True False 0)\<lparr>vp_switchport_mode := []\<rparr>)]"
  "vs_vlans shelf_switch = [(1, shelf_vlan ''default'' [1, 2, 3] [1, 2, 3]), (10, shelf_vlan ''lab'' [1] [])]"
  "vs_pvids shelf_switch = [(1, 1), (2, 1), (3, 1)]" "vs_model_key shelf_switch = ''gsm7252ps''"
  "vs_locked_ports shelf_switch = [(3, True)]"
  by (simp_all add: shelf_switch_def NewState_def)

lemma shelf_model [simp]: "mustModel shelf_switch = Inr model_gsm7252ps"
  by (simp add: mustModel_def GetModel_def modelAliases_def modelIndex_def registry_defs)

lemma shelf_ports [simp]: "physPorts shelf_switch = Inr [1, 2, 3]" "listed shelf_switch = [1, 2, 3]"
  by (simp_all add: listed_def physPorts_def sorted_keys_def sort_uniq_def res_simps model_gsm7252ps_def)

lemma shelf_well: "cli_well shelf_switch"
proof -
  have "show_int 1 = ''1''" "show_int 2 = ''2''" "show_int 3 = ''3''" by code_simp+
  then have "names_ok shelf_switch" by (simp add: names_ok_def NewPortSim_def port_name_text_def)
  moreover have "name_fits ''default''" "name_fits ''lab''"
    by (auto simp: name_fits_def plain_line_def intro!: TrimSpace_id) (simp_all add: graphic_def)
  ultimately show ?thesis
    by (simp add: cli_well_def pvids_ok_def vlans_ok_def sorted_keys_def sort_uniq_def id_fits_def shelf_vlan_def)
qed

lemma shelf_known [simp]: "known_spec gsm7252psSpec"
  by (simp add: known_spec_def cliSpecs_def)

lemma shelf_setup: "cli_setup shelf_unicode shelf_writer shelf_face"
  using shelf_well by (simp add: cli_setup_def shelf_writer_def shelf_face_def face_reader_def exec_def NewCliFace_def)

lemma shelf_addressable:
  "addressable gsm7252psSpec shelf_switch 1" "addressable gsm7252psSpec shelf_switch 3"
proof -
  have "spec_Iface gsm7252psSpec 1 = ''1/0/1''" "spec_Iface gsm7252psSpec 3 = ''1/0/3''" by code_simp+
  then show "addressable gsm7252psSpec shelf_switch 1" "addressable gsm7252psSpec shelf_switch 3"
    by (simp_all add: addressable_def portForIface_def sorted_keys_def sort_uniq_def NewPortSim_def)
qed


subsection \<open>The properties\<close>

text \<open>
  C28.  The pages of the command line are read back: the rows of a table printed in columns, each
  cell within its column and the first cell not blank, are the rows the table reader finds, trimmed.
\<close>

theorem cli_table_roundtrip:
  assumes "page_head [] ws headers" "list_all (row_fits ws) rows"
  shows "iterTableRows (cliTable headers ws rows) [] = map (map TrimSpace) rows"
  using assms by (rule cliTable_rows)

theorem cli_table_roundtrip_witness:
  "iterTableRows (cliTable [''VLAN ID'', ''VLAN Name'', ''VLAN Type''] [7, 32, 19] [[''10'', ''lab'', ''Static'']]) []
    = [[''10'', ''lab'', ''Static'']]"
proof -
  have "list_all (row_fits [7, 32, 19]) [[''10'', ''lab'', ''Static'']]"
    by (simp add: row_fits_def cells_fit_def plain_line_def graphic_def)
  moreover have "TrimSpace ''10'' = ''10''" "TrimSpace ''lab'' = ''lab''" "TrimSpace ''Static'' = ''Static''"
    by (rule TrimSpace_id; simp add: graphic_def)+
  ultimately show ?thesis using cli_table_roundtrip [OF brief_head] by simp
qed

text \<open>
  C13.  The reads of the command-line backend report the switch: GetPVIDs and GetVLANs, their
  commands answered by the virtual command line in EXEC mode, return the PVID of every listed port and
  every VLAN with its name, its members and which of them are tagged, and change nothing.
\<close>

theorem cli_reads_report:
  assumes "face_reader r (face_session U) (cf_spec f)" "cf_modes f = []" "known_spec (cf_spec f)" "cli_well (cf_state f)"
  shows "cli_GetPVIDs r f = (Inr (cli_pvids (cf_state f)), f) \<and> cli_GetVLANs r f = (Inr (cli_vlans (cf_state f)), f)"
  using read_pvids [OF assms] read_vlans [OF assms] by (rule conjI)

theorem cli_reads_report_witness:
  "cli_GetPVIDs (cw_reader shelf_writer) shelf_face = (Inr [\<lparr>pv_port = 1, pv_vlan = 1\<rparr>, \<lparr>pv_port = 2, pv_vlan = 1\<rparr>, \<lparr>pv_port = 3, pv_vlan = 1\<rparr>], shelf_face)
    \<and> cli_GetVLANs (cw_reader shelf_writer) shelf_face =
     (Inr [\<lparr>vi_vlan_id = 1, vi_name = Some ''default'', vi_members = [1, 2, 3], vi_tagged = [], vi_untagged = [1, 2, 3]\<rparr>,
           \<lparr>vi_vlan_id = 10, vi_name = Some ''lab'', vi_members = [1], vi_tagged = [1], vi_untagged = []\<rparr>], shelf_face)"
proof -
  have f: "cf_state shelf_face = shelf_switch" "cf_modes shelf_face = []" "cf_spec shelf_face = gsm7252psSpec"
    by (simp_all add: shelf_face_def NewCliFace_def)
  have "face_reader (cw_reader shelf_writer) (face_session shelf_unicode) (cf_spec shelf_face)"
    by (simp add: face_reader_def shelf_writer_def f)
  from cli_reads_report [OF this f(2)] show ?thesis
    using shelf_well unfolding f
    by (simp add: cli_pvids_def pvid_of_def cli_vlans_def cli_vlan_info_def Let_def sorted_keys_def sort_uniq_def
        shelf_vlan_def in_set_def)
qed

text \<open>
  C12.  The writes of the command-line backend refine the abstract operations: a list of PVID moves,
  membership changes, VLAN creations and deletions, each permitted where it comes, succeeds through
  sessions, modes, commands and the read back of every one, leaves the command line in EXEC mode as it
  was, and leaves the switch in the state the operations give, one after the other.
\<close>

theorem cli_writes_refine:
  assumes "cli_setup U w f" "may_cli_ops (cf_spec f) (cw_protected w) force ops (cf_state f)"
  shows "run_cli_ops w force ops f = (Inr (), f\<lparr>cf_state := fold apply_cli_op ops (cf_state f)\<rparr>)"
  using run_cli_ops_face [OF assms] by blast

theorem cli_writes_refine_witness:
  "run_cli_ops shelf_writer False [Move_Member 10 1 VlanUntagged, Move_Pvid 1 10, Add_Vlan 20 ''iot'', Drop_Vlan 10] shelf_face
    = (Inr (), shelf_face\<lparr>cf_state := fold apply_cli_op
        [Move_Member 10 1 VlanUntagged, Move_Pvid 1 10, Add_Vlan 20 ''iot'', Drop_Vlan 10] shelf_switch\<rparr>)"
proof -
  have f: "cf_state shelf_face = shelf_switch" "cf_spec shelf_face = gsm7252psSpec" "cw_protected shelf_writer = [2]"
    by (simp_all add: shelf_face_def NewCliFace_def shelf_writer_def)
  have p: "prepared 1 s = s" if "vs_model_key s = ''gsm7252ps''" for s
    using that by (simp add: prepared_def hasSwitchportModes_def)
  let ?s1 = "apply_cli_op (Move_Member 10 1 VlanUntagged) shelf_switch"
  let ?s2 = "apply_cli_op (Move_Pvid 1 10) ?s1"
  have s1: "addressable gsm7252psSpec ?s1 1" "listed ?s1 = [1, 2, 3]" "general ?s1 1"
    using shelf_addressable(1) by (simp_all add: p addressable_def portForIface_def) (simp add: general_def NewPortSim_def in_set_def)
  have "may_cli_ops gsm7252psSpec [2] False [Move_Member 10 1 VlanUntagged, Move_Pvid 1 10, Add_Vlan 20 ''iot'', Drop_Vlan 10] shelf_switch"
    using s1 shelf_addressable(1)
    by (simp add: port_may_def p vlan_there_def id_fits_def)
      (simp add: word_text_def graphic_def vlan_named_def vlan_created_def pvid_moved_def cli_vlan_info_def Let_def update_conv'
        moved_to_sets)
  then show ?thesis using cli_writes_refine [OF shelf_setup] unfolding f by blast
qed


text \<open>
  C29.  A port that ignores the VLAN commands is found out: on firmware without a switchport mode to
  set, SetPVID on a port that accepts the commands and obeys none leaves the switch as it was, and
  reports success exactly when the PVID was the one asked for already; otherwise it reports a
  verification error.
\<close>

theorem cli_inert_port_reported:
  assumes "port_write U w f port vid force" "\<not> general (prepared port (cf_state f)) port"
  shows "\<exists>r. cli_SetPVID w port vid force f = (r, f) \<and> (r = Inr () \<longleftrightarrow> pvid_of (cf_state f) port = vid)
    \<and> (pvid_of (cf_state f) port \<noteq> vid \<longrightarrow> (\<exists>e. r = Inl e \<and> is_verification e))"
  using assms by (rule SetPVID_inert)

theorem cli_inert_port_reported_witness:
  "\<exists>e. cli_SetPVID shelf_writer 3 10 False shelf_face = (Inl e, shelf_face) \<and> is_verification e"
proof -
  have f: "cf_state shelf_face = shelf_switch" "cf_spec shelf_face = gsm7252psSpec" by (simp_all add: shelf_face_def NewCliFace_def)
  have "port_write shelf_unicode shelf_writer shelf_face 3 10 False"
    using shelf_setup shelf_addressable(2)
    by (simp add: port_write_def reachable_port_def f vlan_there_def id_fits_def shelf_writer_def)
  moreover have "\<not> general (prepared 3 (cf_state shelf_face)) 3"
    by (simp add: f prepared_def hasSwitchportModes_def general_def NewPortSim_def in_set_def)
  ultimately show ?thesis using cli_inert_port_reported [of shelf_unicode shelf_writer shelf_face 3 10 False]
    by (auto simp: f pvid_of_def)
qed

text \<open>
  A name of two words is refused, and the VLAN stays: CreateVLAN with a name the firmware's
  command does not take reports the command as rejected, leaves the command line in EXEC mode, and
  leaves the VLAN it created before the name was refused on the switch, without a name.
\<close>

theorem cli_refused_name:
  assumes "cli_setup U w f" "id_fits vid" "word_text a" "word_text b"
  shows "\<exists>e. cli_CreateVLAN w vid (spaced_name a b) f = (Inl e, f\<lparr>cf_state := vlan_created vid (cf_state f)\<rparr>)
    \<and> errors_is e ErrCliCommandRejected"
  using assms by (rule CreateVLAN_spaced)

theorem cli_refused_name_witness:
  "\<exists>e g. cli_CreateVLAN shelf_writer 20 ''guest wifi'' shelf_face = (Inl e, g) \<and> errors_is e ErrCliCommandRejected
    \<and> map_option vv_name (map_of (vs_vlans (cf_state g)) 20) = Some []"
proof -
  have f: "cf_state shelf_face = shelf_switch" by (simp add: shelf_face_def NewCliFace_def)
  have n: "''guest wifi'' = spaced_name ''guest'' ''wifi''" by (simp add: spaced_name_def)
  have "id_fits 20" "word_text ''guest''" "word_text ''wifi''" by (simp_all add: id_fits_def word_text_def graphic_def)
  from cli_refused_name [OF shelf_setup this] show ?thesis
    unfolding n by (auto simp: f vlan_created_def update_conv')
qed

end
