(* ===== verification/Web_Text.thy ===== *)
theory Web_Text
  imports Fastpath_Parse Complex_Main "HOL-Library.Log_Nat"
begin

section \<open>Searching, replacing, and ignoring case\<close>

text \<open>
  What the web pages need of package regexp beyond one match: all the matches of an expression, the
  text without them, the text after one, and expressions under the flag i.  A match of the whole
  expression is group 0.
\<close>

subsection \<open>Pieces\<close>

text \<open>
  The leftmost match at or after a position: the text skipped, the text matched and the groups.
\<close>

fun rx_find :: "rx \<Rightarrow> char option \<Rightarrow> string \<Rightarrow> (string \<times> string \<times> captures) option" where
  "rx_find r prev s =
     (case rx_match (Rx_Group 0 r) (prev, s) [] (\<lambda>p c. Some c) of
        Some c \<Rightarrow> Some ([], submatch c 0, c)
      | None \<Rightarrow> (case s of [] \<Rightarrow> None
          | ch # rest \<Rightarrow> map_option (\<lambda>(skipped, m, c). (ch # skipped, m, c)) (rx_find r (Some ch) rest)))"

declare rx_find.simps [simp del]

text \<open>
  The text as pieces: what stands before a match, the groups of the match and the whole text after it;
  and the text after the last match.  None of the expressions searched this way matches the empty
  text (\<open>consumes\<close> below), so the rules for empty matches never apply; here the search ends at one.
\<close>

function rx_pieces :: "rx \<Rightarrow> char option \<Rightarrow> string \<Rightarrow> (string \<times> captures \<times> string) list \<times> string" where
  "rx_pieces r prev s =
     (case rx_find r prev s of
        None \<Rightarrow> ([], s)
      | Some (skipped, m, c) \<Rightarrow>
          (let after = drop (length skipped + length m) s in
           if m = [] \<or> length s \<le> length after then ([], s)
           else (case rx_pieces r (Some (last m)) after of (ps, end_text) \<Rightarrow> ((skipped, c, after) # ps, end_text))))"
  by pat_completeness auto
termination by (relation "measure (\<lambda>(r, prev, s). length s)") auto

declare rx_pieces.simps [simp del]

definition FindAllStringSubmatch :: "rx \<Rightarrow> string \<Rightarrow> captures list" where
  "FindAllStringSubmatch r s = map (\<lambda>(before, c, after). c) (fst (rx_pieces r None s))"

definition texts_after :: "rx \<Rightarrow> string \<Rightarrow> string list" where
  "texts_after r s = map (\<lambda>(before, c, after). after) (fst (rx_pieces r None s))"

text \<open>\<^verbatim>\<open>FindStringSubmatchIndex\<close>: the groups of the first match, and the text after it.\<close>

definition first_match :: "rx \<Rightarrow> string \<Rightarrow> (captures \<times> string) option" where
  "first_match r s = map_option (\<lambda>(skipped, m, c). (c, drop (length skipped + length m) s)) (rx_find r None s)"

definition FindString :: "rx \<Rightarrow> string \<Rightarrow> string" where
  "FindString r s = (case rx_find r None s of None \<Rightarrow> [] | Some (skipped, m, c) \<Rightarrow> m)"

text \<open>\<^verbatim>\<open>re.ReplaceAllString(s, "")\<close>.\<close>

definition without_matches :: "rx \<Rightarrow> string \<Rightarrow> string" where
  "without_matches r s = (case rx_pieces r None s of (ps, end_text) \<Rightarrow> concat (map fst ps) @ end_text)"

text \<open>Python's \<^verbatim>\<open>fullmatch\<close> as the code emulates it: the first match is the whole text.\<close>

definition full_match :: "rx \<Rightarrow> string \<Rightarrow> captures option" where
  "full_match r s =
     (case rx_find r None s of None \<Rightarrow> None | Some (skipped, m, c) \<Rightarrow> if m = s then Some c else None)"

subsection \<open>Every match consumes\<close>

primrec consumes :: "rx \<Rightarrow> bool" where
  "consumes Rx_Empty \<longleftrightarrow> False"
| "consumes Rx_Begin \<longleftrightarrow> False"
| "consumes Rx_End \<longleftrightarrow> False"
| "consumes Rx_Boundary \<longleftrightarrow> False"
| "consumes (Rx_Set P) \<longleftrightarrow> True"
| "consumes (Rx_Seq a b) \<longleftrightarrow> consumes a \<or> consumes b"
| "consumes (Rx_Alt a b) \<longleftrightarrow> consumes a \<and> consumes b"
| "consumes (Rx_Star g r) \<longleftrightarrow> False"
| "consumes (Rx_Group n r) \<longleftrightarrow> consumes r"

text \<open>What a match hands on is a rest of the text, a shorter one if the expression consumes.\<close>

definition keeps :: "bool \<Rightarrow> rx_pos \<Rightarrow> rx_pos \<Rightarrow> bool" where
  "keeps strict p p' \<longleftrightarrow> (\<exists>w. snd p = w @ snd p' \<and> (strict \<longrightarrow> w \<noteq> []))"

lemma keeps_refl [simp]: "keeps False p p"
  by (simp add: keeps_def)

lemma keeps_trans: "keeps a p q \<Longrightarrow> keeps b q r \<Longrightarrow> keeps (a \<or> b) p r"
  by (auto simp: keeps_def)

lemma keeps_weak: "keeps a p q \<Longrightarrow> keeps False p q" "keeps a p q \<Longrightarrow> keeps (a \<and> b) p q" "keeps b p q \<Longrightarrow> keeps (a \<and> b) p q"
  by (auto simp: keeps_def)

lemma rx_repeat_reaches:
  assumes m: "\<And>p c k x. m p c k = Some x \<Longrightarrow> \<exists>p' c'. keeps False p p' \<and> k p' c' = Some x"
    and "rx_repeat n g m p c k = Some x"
  shows "\<exists>p' c'. keeps False p p' \<and> k p' c' = Some x"
  using assms(2)
proof (induction n arbitrary: p c)
  case 0
  then have "keeps False p p \<and> k p c = Some x" by simp
  then show ?case by blast
next
  case (Suc n)
  let ?k = "\<lambda>p' c'. if length (snd p') < length (snd p) then rx_repeat n g m p' c' k else None"
  from Suc.prems consider "k p c = Some x" | "m p c ?k = Some x"
    by (auto simp: or_else_def split: if_splits option.splits)
  then show ?case
  proof cases
    case 1
    then show ?thesis using keeps_refl by blast
  next
    case 2
    then obtain p' c' where p': "keeps False p p'" "?k p' c' = Some x" using m by blast
    then have "rx_repeat n g m p' c' k = Some x" by (simp split: if_splits)
    from Suc.IH [OF this] obtain p'' c'' where p'': "keeps False p' p''" "k p'' c'' = Some x" by blast
    then show ?thesis using keeps_trans [OF p'(1) p''(1)] by (metis (full_types))
  qed
qed

lemma rx_match_reaches:
  "rx_match r p c k = Some x \<Longrightarrow> \<exists>p' c'. keeps (consumes r) p p' \<and> k p' c' = Some x"
proof (induction r arbitrary: p c k x)
  case (Rx_Set P)
  then obtain ch rest where p: "snd p = ch # rest" "k (Some ch, rest) c = Some x"
    by (auto split: list.splits if_splits)
  then have "keeps True p (Some ch, rest)" by (simp add: keeps_def)
  then show ?case using p(2) by auto
next
  case (Rx_Seq a b)
  from Rx_Seq.prems have "rx_match a p c (\<lambda>p' c'. rx_match b p' c' k) = Some x" by simp
  from Rx_Seq.IH(1) [OF this] obtain p' c' where p': "keeps (consumes a) p p'" "rx_match b p' c' k = Some x" by blast
  from Rx_Seq.IH(2) [OF p'(2)] obtain p'' c'' where p'': "keeps (consumes b) p' p''" "k p'' c'' = Some x" by blast
  show ?case unfolding consumes.simps using keeps_trans [OF p'(1) p''(1)] p''(2) by blast
next
  case (Rx_Alt a b)
  then consider "rx_match a p c k = Some x" | "rx_match b p c k = Some x" by (auto simp: or_else_def split: option.splits)
  then show ?case unfolding consumes.simps
  proof cases
    case 1
    from Rx_Alt.IH(1) [OF this] show "\<exists>p' c'. keeps (consumes a \<and> consumes b) p p' \<and> k p' c' = Some x" using keeps_weak(2) by blast
  next
    case 2
    from Rx_Alt.IH(2) [OF this] show "\<exists>p' c'. keeps (consumes a \<and> consumes b) p p' \<and> k p' c' = Some x" using keeps_weak(3) by blast
  qed
next
  case (Rx_Star g r)
  have "\<exists>p' c'. keeps False q p' \<and> k' p' c' = Some y" if "rx_match r q c' k' = Some y" for q c' k' y
    using Rx_Star.IH [OF that] keeps_weak(1) by blast
  then show ?case using Rx_Star.prems rx_repeat_reaches [of "rx_match r" "length (snd p)" g p c k x] by simp
next
  case (Rx_Group n r)
  from Rx_Group.prems have "rx_match r p c (\<lambda>p' c'. k p' ((n, take (length (snd p) - length (snd p')) (snd p)) # c')) = Some x" by simp
  from Rx_Group.IH [OF this] show ?case unfolding consumes.simps by blast
next
  case Rx_Empty
  then have "k p c = Some x" by simp
  then show ?case using keeps_refl [of p] by (metis consumes.simps(1))
next
  case Rx_Begin
  then have "k p c = Some x" by (simp split: if_splits)
  then show ?case using keeps_refl [of p] by (metis consumes.simps(2))
next
  case Rx_End
  then have "k p c = Some x" by (simp split: if_splits)
  then show ?case using keeps_refl [of p] by (metis consumes.simps(3))
next
  case Rx_Boundary
  then have "k p c = Some x" by (simp split: if_splits)
  then show ?case using keeps_refl [of p] by (metis consumes.simps(4))
qed

lemma find_nonempty:
  assumes "consumes r" "rx_find r prev s = Some (skipped, m, c)"
  shows "m \<noteq> []"
proof -
  have found: "submatch c 0 \<noteq> []" if "rx_match (Rx_Group 0 r) (prev, s) [] (\<lambda>p c. Some c) = Some c" for prev s c
  proof -
    from that have "rx_match r (prev, s) [] (\<lambda>p' c'. Some ((0, take (length s - length (snd p')) s) # c')) = Some c" by simp
    from rx_match_reaches [OF this] obtain p' c' where p': "keeps True (prev, s) p'" "(0, take (length s - length (snd p')) s) # c' = c"
      unfolding option.inject using assms(1) by (metis (full_types))
    then show ?thesis by (auto simp: keeps_def)
  qed
  show ?thesis
    using assms(2)
  proof (induction s arbitrary: prev skipped)
    case Nil
    then show ?case using found by (auto simp: rx_find.simps [of _ _ "[]"] simp del: rx_match.simps split: option.splits)
  next
    case (Cons ch s)
    then show ?case using found by (auto simp: rx_find.simps [of _ _ "ch # s"] simp del: rx_match.simps split: option.splits)
  qed
qed

subsection \<open>The flag i\<close>

text \<open>
  Under the flag i a letter matches both of its cases; the two that package unicode folds with a rune
  beyond ASCII match that rune as well: s the long s, k the sign for kelvin.
\<close>

definition LONG_S :: string where "LONG_S = [CHR 0xC5, CHR 0xBF]"
definition KELVIN :: string where "KELVIN = [CHR 0xE2, CHR 0x84, CHR 0xAA]"

definition rx_ci_char :: "char \<Rightarrow> rx" where
  "rx_ci_char ch =
     (let letter = Rx_Set (\<lambda>x. to_lower x = to_lower ch) in
      if to_lower ch = CHR ''s'' then Rx_Alt letter (rx_lit LONG_S)
      else if to_lower ch = CHR ''k'' then Rx_Alt letter (rx_lit KELVIN)
      else letter)"

definition rx_ci :: "string \<Rightarrow> rx" where "rx_ci l = rx_cat (map rx_ci_char l)"

text \<open>\<open>\w\<close> under the flag i.\<close>

definition rx_ci_word :: rx where
  "rx_ci_word = Rx_Alt (Rx_Set is_word) (Rx_Alt (rx_lit LONG_S) (rx_lit KELVIN))"

text \<open>\<^verbatim>\<open>strings.EqualFold\<close> with a text of ASCII letters.\<close>

definition EqualFold :: "string \<Rightarrow> string \<Rightarrow> bool" where
  "EqualFold s t \<longleftrightarrow> MatchString (rx_whole [rx_ci t]) s"

subsection \<open>Repetition a number of times\<close>

primrec rx_times :: "nat \<Rightarrow> rx \<Rightarrow> rx" where
  "rx_times 0 r = Rx_Empty"
| "rx_times (Suc n) r = Rx_Seq r (rx_times n r)"

text \<open>At most \<open>n\<close> times, as often as possible first.\<close>

primrec rx_at_most :: "nat \<Rightarrow> rx \<Rightarrow> rx" where
  "rx_at_most 0 r = Rx_Empty"
| "rx_at_most (Suc n) r = rx_opt (Rx_Seq r (rx_at_most n r))"

lemma consumes_simps [simp]:
  "consumes (rx_cat []) \<longleftrightarrow> False" "consumes (rx_cat (r # rs)) \<longleftrightarrow> consumes r \<or> consumes (rx_cat rs)"
  "consumes (rx_lit l) \<longleftrightarrow> l \<noteq> []" "consumes (rx_ci l) \<longleftrightarrow> l \<noteq> []" "consumes (rx_plus g r) \<longleftrightarrow> consumes r"
  "consumes (rx_opt r) \<longleftrightarrow> False" "consumes rx_ci_word"
proof -
  have "consumes (rx_ci_char ch)" for ch by (simp add: rx_ci_char_def Let_def rx_lit_def LONG_S_def KELVIN_def)
  then show "consumes (rx_ci l) \<longleftrightarrow> l \<noteq> []" by (cases l) (simp_all add: rx_ci_def)
  show "consumes (rx_lit l) \<longleftrightarrow> l \<noteq> []" by (cases l) (simp_all add: rx_lit_def)
  show "consumes rx_ci_word" by (simp add: rx_ci_word_def rx_lit_def LONG_S_def KELVIN_def)
qed (auto simp: rx_plus_def rx_opt_def)

section \<open>Texts of the web pages\<close>

text \<open>
  What the web backend takes from the standard library beyond regular expressions: entities of HTML,
  positions in a text, and the decimal fractions it turns into whole numbers.  The tables of package
  unicode and of package html are parameters, and so are the parser of package encoding/xml, from a
  text to a tree or the text of an error, and the order in which Go walks a map.
\<close>

datatype xml_node = Xml_Node (xn_name: string) (xn_content: string) (xn_nodes: "xml_node list")

record web_lib =
  wl_unicode :: unicode
  wl_entity :: "string \<Rightarrow> nat option"
  wl_entity2 :: "string \<Rightarrow> (nat \<times> nat) option"
  wl_xml :: "string \<Rightarrow> string + xml_node"
  wl_order :: "string list \<Rightarrow> string list"

abbreviation (input) lower :: "web_lib \<Rightarrow> string \<Rightarrow> string" where "lower L \<equiv> ToLowerRunes (wl_unicode L)"
abbreviation (input) upper :: "web_lib \<Rightarrow> string \<Rightarrow> string" where "upper L \<equiv> ToUpperRunes (uc_upper (wl_unicode L))"

subsection \<open>Positions\<close>

text \<open>\<^verbatim>\<open>strings.Index\<close>, as the text before the first occurrence and the text from it on.\<close>

fun cut_at :: "string \<Rightarrow> string \<Rightarrow> (string \<times> string) option" where
  "cut_at sub [] = (if sub = [] then Some ([], []) else None)"
| "cut_at sub (ch # s) =
     (if prefix sub (ch # s) then Some ([], ch # s)
      else map_option (\<lambda>(before, from_here). (ch # before, from_here)) (cut_at sub s))"

text \<open>The text up to the first occurrence, all of it when there is none.\<close>

definition up_to :: "string \<Rightarrow> string \<Rightarrow> string" where
  "up_to sub s = (case cut_at sub s of None \<Rightarrow> s | Some (before, from_here) \<Rightarrow> before)"

lemma up_to_prefix: "prefix (up_to sub s) s"
proof -
  have "cut_at sub s = Some (a, b) \<Longrightarrow> s = a @ b" for a b
    by (induction s arbitrary: a) (auto split: if_splits)
  then show ?thesis by (auto simp: up_to_def prefix_def split: option.splits)
qed

text \<open>What follows the last occurrence of a character, all of it when there is none.\<close>

definition after_last :: "char \<Rightarrow> string \<Rightarrow> string" where
  "after_last ch s = rev (takeWhile (\<lambda>x. x \<noteq> ch) (rev s))"

subsection \<open>html.UnescapeString\<close>

text \<open>
  A numeric entity counts in a 32-bit rune; the codes from 128 to 159 stand for the characters of
  Windows-1252.  A named one is looked up with its semicolon, then, up to six characters of it,
  without; the tables of names are the parameter.
\<close>

definition wrap32 :: "int \<Rightarrow> int" where
  "wrap32 i = (i + 2 ^ 31) mod 2 ^ 32 - 2 ^ 31"

definition entity_digit :: "bool \<Rightarrow> char \<Rightarrow> nat option" where
  "entity_digit hex ch =
     (let n = of_char ch :: nat in
      if 48 \<le> n \<and> n \<le> 57 then Some (n - 48)
      else if hex \<and> 97 \<le> n \<and> n \<le> 102 then Some (n - 87)
      else if hex \<and> 65 \<le> n \<and> n \<le> 70 then Some (n - 55)
      else None)"

text \<open>The value of the digits, and how many characters they and a semicolon take.\<close>

fun entity_digits :: "bool \<Rightarrow> int \<Rightarrow> string \<Rightarrow> int \<times> nat" where
  "entity_digits hex x [] = (x, 0)"
| "entity_digits hex x (ch # s) =
     (case entity_digit hex ch of
        Some d \<Rightarrow> (case entity_digits hex (wrap32 ((if hex then 16 else 10) * x + int d)) s of (y, n) \<Rightarrow> (y, Suc n))
      | None \<Rightarrow> (x, if ch = CHR '';'' then 1 else 0))"

definition replacementTable :: "nat list" where
  "replacementTable =
     [0x20AC, 0x81, 0x201A, 0x0192, 0x201E, 0x2026, 0x2020, 0x2021, 0x02C6, 0x2030, 0x0160, 0x2039, 0x0152, 0x8D, 0x017D,
      0x8F, 0x90, 0x2018, 0x2019, 0x201C, 0x201D, 0x2022, 0x2013, 0x2014, 0x02DC, 0x2122, 0x0161, 0x203A, 0x0153, 0x9D,
      0x017E, 0x0178]"

definition entity_rune :: "int \<Rightarrow> nat" where
  "entity_rune x =
     (if 0x80 \<le> x \<and> x \<le> 0x9F then replacementTable ! nat (x - 0x80)
      else if x \<le> 0 \<or> (0xD800 \<le> x \<and> x \<le> 0xDFFF) \<or> 0x10FFFF < x then 0xFFFD
      else nat x)"

definition is_alnum :: "char \<Rightarrow> bool" where
  "is_alnum ch \<longleftrightarrow> is_word ch \<and> ch \<noteq> CHR ''_''"

text \<open>
  The text of one entity and how many characters of \<open>s\<close>, which begins with the ampersand, it stands
  for: a numeric one, a named one, and either.
\<close>

definition numeric_entity :: "string \<Rightarrow> string \<times> nat" where
  "numeric_entity s =
     (if length s \<le> 3 then (take 1 s, 1)
      else
        let hex = (s ! 2 = CHR ''x'' \<or> s ! 2 = CHR ''X''); start = (if hex then 3 else 2);
            x = entity_digits hex 0 (drop start s) in
        if start + snd x \<le> 3 then (take 1 s, 1) else (encode_rune (entity_rune (fst x)), start + snd x))"

definition named_entity :: "web_lib \<Rightarrow> string \<Rightarrow> string \<times> nat" where
  "named_entity L s =
     (let letters = takeWhile is_alnum (drop 1 s);
          closed = (case drop (1 + length letters) s of ch # _ \<Rightarrow> ch = CHR '';'' | [] \<Rightarrow> False);
          name = letters @ (if closed then '';'' else []); i = 1 + length name in
      if name = [] then (take i s, i)
      else (case wl_entity L name of
        Some r \<Rightarrow> (encode_rune r, i)
      | None \<Rightarrow>
      (case wl_entity2 L name of
        Some rs \<Rightarrow> (encode_rune (fst rs) @ encode_rune (snd rs), i)
      | None \<Rightarrow>
      (case List.find (\<lambda>j. wl_entity L (take j name) \<noteq> None) (rev [2 ..< 1 + min 6 (length name - 1)]) of
        Some j \<Rightarrow> (encode_rune (the (wl_entity L (take j name))), j + 1)
      | None \<Rightarrow> (take i s, i)))))"

definition unescapeEntity :: "web_lib \<Rightarrow> string \<Rightarrow> string \<times> nat" where
  "unescapeEntity L s =
     (if length s \<le> 1 then (take 1 s, 1)
      else if s ! 1 = CHR ''#'' then numeric_entity s
      else named_entity L s)"

lemma numeric_entity_consumes: "0 < snd (numeric_entity s)"
  by (simp add: numeric_entity_def Let_def)

lemma named_entity_consumes: "0 < snd (named_entity L s)"
  unfolding named_entity_def Let_def by (simp split: option.split)

lemma unescapeEntity_consumes: "0 < snd (unescapeEntity L s)"
  by (simp add: unescapeEntity_def numeric_entity_consumes named_entity_consumes)

function unescapeHTML :: "web_lib \<Rightarrow> string \<Rightarrow> string" where
  "unescapeHTML L s =
     (case dropWhile (\<lambda>ch. ch \<noteq> CHR ''&'') s of
        [] \<Rightarrow> s
      | a # t \<Rightarrow> takeWhile (\<lambda>ch. ch \<noteq> CHR ''&'') s @ fst (unescapeEntity L (a # t)) @
          unescapeHTML L (drop (snd (unescapeEntity L (a # t))) (a # t)))"
  by pat_completeness auto
termination
proof (relation "measure (\<lambda>(L, s). length s)")
  fix L s a t
  assume d: "dropWhile (\<lambda>ch. ch \<noteq> CHR ''&'') s = a # t"
  have "length (a # t) \<le> length s" using length_dropWhile_le [of "\<lambda>ch. ch \<noteq> CHR ''&''" s] d by simp
  then show "((L, drop (snd (unescapeEntity L (a # t))) (a # t)), L, s) \<in> measure (\<lambda>(L, s). length s)"
    using unescapeEntity_consumes [of L "a # t"] by simp
qed simp

declare unescapeHTML.simps [simp del]

lemma unescapeHTML_plain: "CHR ''&'' \<notin> set s \<Longrightarrow> unescapeHTML L s = s"
proof -
  assume "CHR ''&'' \<notin> set s"
  then have "dropWhile (\<lambda>ch. ch \<noteq> CHR ''&'') s = []" by (auto simp: dropWhile_eq_Nil_conv)
  then show ?thesis by (simp only: unescapeHTML.simps [of L s] list.case)
qed

subsection \<open>Decimal fractions\<close>

text \<open>
  \<^verbatim>\<open>strconv.ParseFloat\<close> gives the float64 nearest to the text, ties to even, and multiplication rounds
  the same way.  A float64 is the rational number it stands for; a value out of range is an error.
\<close>

text \<open>The exponent of the least step a float64 of this size can make.\<close>

fun halvings :: "nat \<Rightarrow> rat \<Rightarrow> nat" where
  "halvings 0 x = 0"
| "halvings (Suc n) x = (if x < 1 then Suc (halvings n (2 * x)) else 0)"

definition f64_exponent :: "rat \<Rightarrow> int" where
  "f64_exponent x =
     max (- 1074) ((if x < 1 then - int (halvings 1075 x) else int (floorlog 2 (nat \<lfloor>x\<rfloor>)) - 1) - 52)"

definition round_even :: "rat \<Rightarrow> int" where
  "round_even x =
     (let l = \<lfloor>x\<rfloor>; d = x - of_int l in
      if d < 1 / 2 then l else if 1 / 2 < d then l + 1 else if even l then l else l + 1)"

definition f64 :: "rat \<Rightarrow> rat option" where
  "f64 x =
     (if x = 0 then Some 0
      else
        let e = f64_exponent \<bar>x\<bar>; q = round_even (if 0 \<le> e then \<bar>x\<bar> / 2 ^ nat e else \<bar>x\<bar> * 2 ^ nat (- e));
            y = (if 0 \<le> e then of_int q * 2 ^ nat e else of_int q / 2 ^ nat (- e)) in
        if 2 ^ 1024 \<le> y then None else Some (if x < 0 then - y else y))"

text \<open>The number a text of digits with an optional sign and an optional fraction stands for.\<close>

definition decimal :: "string \<Rightarrow> rat" where
  "decimal s =
     (let negative = (case s of ch # _ \<Rightarrow> ch = CHR ''-'' | [] \<Rightarrow> False);
          digits = (if negative then tl s else s);
          whole = takeWhile is_digit digits; fraction = drop (length whole + 1) digits;
          v = of_nat (dec_value (whole @ fraction)) / 10 ^ length fraction in
      if negative then - v else v)"

definition ParseFloat :: "string \<Rightarrow> rat option" where "ParseFloat s = f64 (decimal s)"

text \<open>
  A float64 turned into an int drops its fraction; a value no int holds gives the least int, as it does
  on amd64.
\<close>

definition int_of_f64 :: "rat \<Rightarrow> int" where
  "int_of_f64 x =
     (let i = (if 0 \<le> x then \<lfloor>x\<rfloor> else \<lceil>x\<rceil>) in if int64_range i then i else - (2 ^ 63))"

text \<open>\<^verbatim>\<open>math.Round\<close>: to the nearest whole number, halves away from zero.\<close>

definition math_Round :: "rat \<Rightarrow> rat" where
  "math_Round x = (if 0 \<le> x then of_int \<lfloor>x + 1 / 2\<rfloor> else of_int \<lceil>x - 1 / 2\<rceil>)"

end
