(* ===== verification/Web_Plus.thy ===== *)
theory Web_Plus
  imports Web_Text
begin

section \<open>Web pages of the Plus switches (webui/parse_standard.go, parse_gs105pe.go, parse_gs110emx.go)\<close>

text \<open>
  The parsers of the pages of gs305ep, gs105pe and gs110emx.  A page without the rows it always has
  is an error that wraps \<^verbatim>\<open>ErrHTTPUnexpectedPage\<close>; a token that is not there is \<open>None\<close>.
\<close>

definition errUnexpectedPage :: "string \<Rightarrow> msg_arg list \<Rightarrow> go_error" where
  "errUnexpectedPage fmt args = Wraps fmt args ErrHTTPUnexpectedPage"

text \<open>The identity and the address a system-information page shows (types.go).\<close>

record http_sys_info =
  hs_product_name :: string
  hs_switch_name :: string
  hs_serial_number :: string
  hs_mac_address :: string
  hs_firmware_version :: string
  hs_ip_mode :: ip_mode
  hs_ip_address :: string
  hs_subnet_mask :: string
  hs_gateway_address :: string

subsection \<open>Expressions\<close>

abbreviation (input) QUOTE :: char where "QUOTE \<equiv> CHR 0x22"
abbreviation (input) TICK :: char where "TICK \<equiv> CHR 0x27"
abbreviation (input) rx_quote :: rx where "rx_quote \<equiv> rx_lit [QUOTE]"
abbreviation (input) rx_set :: "string \<Rightarrow> rx" where "rx_set cs \<equiv> Rx_Set (\<lambda>ch. ch \<in> set cs)"
abbreviation (input) rx_but :: "string \<Rightarrow> rx" where "rx_but cs \<equiv> Rx_Set (\<lambda>ch. ch \<notin> set cs)"
abbreviation (input) many :: "rx \<Rightarrow> rx" where "many r \<equiv> Rx_Star True r"
abbreviation (input) some :: "rx \<Rightarrow> rx" where "some r \<equiv> rx_plus True r"
abbreviation (input) in_tag :: rx where "in_tag \<equiv> Rx_Star True (Rx_Set (\<lambda>ch. ch \<notin> set ''>''))"
abbreviation (input) rx_lazy :: rx where "rx_lazy \<equiv> Rx_Star False (Rx_Set (\<lambda>ch. True))"

text \<open>An attribute with its value in double quotes.\<close>

definition quoted :: "string \<Rightarrow> string" where "quoted t = [QUOTE] @ t @ [QUOTE]"

text \<open>Either quote, and a value up to either.\<close>

abbreviation (input) any_quote :: rx where "any_quote \<equiv> Rx_Set (\<lambda>ch. ch \<in> set [QUOTE, TICK])"
abbreviation (input) unquoted :: rx where "unquoted \<equiv> Rx_Star True (Rx_Set (\<lambda>ch. ch \<notin> set [QUOTE, TICK]))"

definition rowRE :: rx where
  "rowRE = rx_cat [rx_ci ''<tr'', some (Rx_Set is_space), rx_ci (''class='' @ quoted ''portID'' @ ''>''),
     Rx_Group 1 rx_lazy, rx_ci ''</tr>'']"

definition tdRE :: rx where
  "tdRE = rx_cat [rx_ci ''<td'', in_tag, rx_lit ''>'', Rx_Group 1 rx_lazy, rx_ci ''</td>'']"

definition tagRE :: rx where "tagRE = rx_cat [rx_lit ''<'', some (rx_but ''>''), rx_lit ''>'']"

definition intRE :: rx where "intRE = rx_cat [rx_opt (rx_lit ''-''), rx_digits]"

definition loginRandRE :: rx where
  "loginRandRE = rx_cat [rx_lit ''id='', any_quote, rx_lit ''rand'', any_quote, in_tag, rx_lit ''value='', any_quote,
     Rx_Group 1 unquoted, any_quote]"

definition csrfHashRE :: rx where
  "csrfHashRE = rx_cat [rx_lit ''name='', any_quote, rx_lit ''hash'', any_quote, in_tag, rx_lit ''value='', any_quote,
     Rx_Group 1 unquoted, any_quote]"

definition pvidPairRE :: rx where
  "pvidPairRE = rx_cat [rx_lit ''<td'', in_tag, rx_lit (''sel='' @ quoted ''text''), in_tag, rx_lit ''>'', Rx_Group 1 rx_digits,
     rx_lazy, rx_lit ''</td>'', rx_spaces, rx_lit ''<td'', in_tag, rx_lit (''sel='' @ quoted ''input''), in_tag, rx_lit ''>'',
     Rx_Group 2 rx_digits, rx_lit ''</td>'']"

definition vlanckRE :: rx where
  "vlanckRE = rx_cat [rx_lit (''name='' @ [QUOTE] @ ''vlanck''), rx_digits, rx_quote, in_tag, rx_lit (''value='' @ [QUOTE]),
     Rx_Group 1 rx_digits, rx_quote]"

definition selectedVlanValueFirstRE :: rx where
  "selectedVlanValueFirstRE = rx_cat [rx_lit ''<option'', in_tag, rx_lit ''selected'', in_tag, rx_lit (''value='' @ [QUOTE]),
     Rx_Group 1 rx_digits, rx_quote]"

definition selectedVlanSelectedLastRE :: rx where
  "selectedVlanSelectedLastRE = rx_cat [rx_lit ''<option'', in_tag, rx_lit (''value='' @ [QUOTE]), Rx_Group 1 rx_digits, rx_quote,
     in_tag, rx_lit ''selected'']"

text \<open>An input of this attribute and its value in double quotes.\<close>

definition input_value :: "string \<Rightarrow> rx" where
  "input_value attr = rx_cat [rx_lit attr, in_tag, rx_lit (''value='' @ [QUOTE]), Rx_Group 1 (many (rx_but [QUOTE])), rx_quote]"

definition hiddenMemByIDRE :: rx where "hiddenMemByIDRE = input_value (''id='' @ quoted ''hiddenMem'')"
definition hiddenMemByNameRE :: rx where "hiddenMemByNameRE = input_value (''name='' @ quoted ''hiddenMem'')"

definition wireToMode :: "(char \<times> vlan_mode) list" where
  "wireToMode = [(CHR ''1'', VlanUntagged), (CHR ''2'', VlanTagged), (CHR ''3'', VlanExcluded)]"

definition detectText :: "(string \<times> poe_detect) list" where
  "detectText = [(''delivering'', PoEDetectDelivering), (''searching'', PoEDetectSearching), (''disabled'', PoEDetectDisabled),
     (''fault'', PoEDetectFault)]"

subsection \<open>Cells\<close>

definition cells :: "string \<Rightarrow> string list" where
  "cells rowHTML = map (\<lambda>m. TrimSpace (without_matches tagRE (submatch m 1))) (FindAllStringSubmatch tdRE rowHTML)"

definition parseIntCell :: "string \<Rightarrow> int option" where
  "parseIntCell t = (let m = FindString intRE t in if m = [] then None else Atoi m)"

definition parseUint64Cell :: "string \<Rightarrow> u64 option" where
  "parseUint64Cell t =
     (let m = FindString intRE t in
      if m = [] then None
      else (case Atoi m of None \<Rightarrow> None | Some v \<Rightarrow> if v < 0 then None else Some (of_int v)))"

subsection \<open>Tokens\<close>

definition group1 :: "rx \<Rightarrow> string \<Rightarrow> string option" where
  "group1 r s = map_option (\<lambda>m. submatch m 1) (FindStringSubmatch r s)"

definition ParseLoginRand :: "string \<Rightarrow> string option" where "ParseLoginRand = group1 loginRandRE"
definition ParseCSRFHash :: "string \<Rightarrow> string option" where "ParseCSRFHash = group1 csrfHashRE"

subsection \<open>gs305ep\<close>

text \<open>Rows turned into entries one by one; the first error ends it.\<close>

fun each_row :: "('r \<Rightarrow> 'a res) \<Rightarrow> 'r list \<Rightarrow> 'a list res" where
  "each_row f [] = Inr []"
| "each_row f (r # rs) = rbind (f r) (\<lambda>x. rbind (each_row f rs) (\<lambda>xs. Inr (x # xs)))"

text \<open>The rows of a page with \<open>n\<close> cells at least.\<close>

definition page_rows :: "string \<Rightarrow> nat \<Rightarrow> string list \<Rightarrow> (string list \<Rightarrow> 'a res) \<Rightarrow> 'a list res" where
  "page_rows page n rows f =
     (if rows = [] then Inl (errUnexpectedPage (page @ '': expected <tr class='' @ quoted ''portID'' @ ''> rows, found none'') [])
      else each_row (\<lambda>row. let c = cells row in
        if length c < n
        then Inl (errUnexpectedPage (page @ '': expected >=%d <td> columns per portID row, got %d'') [AInt (int n), AInt (int (length c))])
        else f c) rows)"

definition port_number :: "string \<Rightarrow> string \<Rightarrow> int res" where
  "port_number page cell =
     (case parseIntCell cell of
        None \<Rightarrow> Inl (errUnexpectedPage (page @ '': could not parse a port number from column %q'') [AStr cell])
      | Some port \<Rightarrow> Inr port)"

definition closed_rows :: "string \<Rightarrow> string list" where
  "closed_rows html = map (\<lambda>m. submatch m 1) (FindAllStringSubmatch rowRE html)"

definition plain_status :: "int \<Rightarrow> string option \<Rightarrow> bool \<Rightarrow> bool \<Rightarrow> int option \<Rightarrow> port_status" where
  "plain_status port name admin up speed =
     \<lparr>ps_port = port, ps_name = name, ps_admin_enabled = admin, ps_link_up = up, ps_speed_mbps = speed,
      ps_description = None, ps_full_duplex = None, ps_flow_control = None, ps_speed_config = None\<rparr>"

definition byte_stats :: "int \<Rightarrow> u64 option \<Rightarrow> u64 option \<Rightarrow> u64 option \<Rightarrow> port_stats" where
  "byte_stats port rx tx errors =
     \<lparr>st_port = port, st_rx_bytes = rx, st_tx_bytes = tx, st_rx_packets = None, st_tx_packets = None,
      st_rx_errors = errors, st_tx_errors = None\<rparr>"

definition web_ParsePortStatus :: "web_lib \<Rightarrow> string \<Rightarrow> port_status list res" where
  "web_ParsePortStatus L html =
     page_rows ''dashboard.cgi'' 5 (closed_rows html) (\<lambda>c.
       rbind (port_number ''dashboard.cgi'' (c ! 1)) (\<lambda>port.
       let linkUp = Contains (lower L (c ! 2)) ''up'' in
       Inr (plain_status port (some_unless_empty (c ! 4)) (prefix ''enable'' (lower L (c ! 3))) linkUp
         (if linkUp then parseIntCell (c ! 2) else None))))"

definition web_ParsePortStats :: "string \<Rightarrow> port_stats list res" where
  "web_ParsePortStats html =
     page_rows ''portStatistics.cgi'' 4 (closed_rows html) (\<lambda>c.
       rbind (port_number ''portStatistics.cgi'' (c ! 0)) (\<lambda>port.
       Inr (byte_stats port (parseUint64Cell (c ! 1)) (parseUint64Cell (c ! 2)) (parseUint64Cell (c ! 3)))))"

definition web_ParsePoEStatus :: "web_lib \<Rightarrow> string \<Rightarrow> poe_status list res" where
  "web_ParsePoEStatus L html =
     page_rows ''getPoePortStatus.cgi'' 3 (closed_rows html) (\<lambda>c.
       rbind (port_number ''getPoePortStatus.cgi'' (c ! 0)) (\<lambda>port.
       let detect = (case map_of detectText (lower L (c ! 1)) of Some d \<Rightarrow> d | None \<Rightarrow> PoEDetectUnknown) in
       Inr \<lparr>poe_port = port, poe_admin_enabled = (detect \<noteq> PoEDetectDisabled), poe_detect = detect,
         poe_power_mw = parseIntCell (c ! 2)\<rparr>))"

definition web_ParsePVIDs :: "string \<Rightarrow> pvid list res" where
  "web_ParsePVIDs html =
     (if \<not> MatchString rowRE html
      then Inl (errUnexpectedPage (''portPVID.cgi: expected <tr class='' @ quoted ''portID'' @ ''> rows, found none'') [])
      else
        let ms = FindAllStringSubmatch pvidPairRE html in
        if ms = [] then Inl (errUnexpectedPage (''portPVID.cgi: expected <td sel='' @ quoted ''text'' @ ''> and <td sel='' @ quoted ''input'' @
          ''> cells in portID rows, found none matching'') [])
        else each_row (\<lambda>m.
          case (Atoi (submatch m 1), Atoi (submatch m 2)) of
            (Some port, Some vlan) \<Rightarrow> Inr \<lparr>pv_port = port, pv_vlan = vlan\<rparr>
          | _ \<Rightarrow> Inl (errUnexpectedPage ''portPVID.cgi: could not parse port/PVID pair %q/%q''
              [AStr (submatch m 1), AStr (submatch m 2)])) ms)"

text \<open>The numbers in group 1 of the matches, each once and in order; one that no int holds is left out.\<close>

definition sorted_numbers :: "captures list \<Rightarrow> int list" where
  "sorted_numbers ms = sort_uniq (concat (map (\<lambda>m. case Atoi (submatch m 1) of Some v \<Rightarrow> [v] | None \<Rightarrow> []) ms))"

definition ParseVLANIDs :: "string \<Rightarrow> int list res" where
  "ParseVLANIDs html =
     (let ms = FindAllStringSubmatch vlanckRE html in
      if ms = [] then Inl (errUnexpectedPage (''8021qCf.cgi: expected at least one name='' @ quoted ''vlanckN'' @ '' checkbox, found none'') [])
      else Inr (sorted_numbers ms))"

definition group1_int :: "rx \<Rightarrow> string \<Rightarrow> int option" where
  "group1_int r s = (case group1 r s of None \<Rightarrow> None | Some t \<Rightarrow> Atoi t)"

definition ParseSelectedVlan :: "string \<Rightarrow> int option" where
  "ParseSelectedVlan html =
     (case group1_int selectedVlanValueFirstRE html of
        Some v \<Rightarrow> Some v
      | None \<Rightarrow> group1_int selectedVlanSelectedLastRE html)"

definition wire_mode :: "string \<Rightarrow> nat \<Rightarrow> (int \<times> vlan_mode) res" where
  "wire_mode raw i =
     (case map_of wireToMode (raw ! i) of
        None \<Rightarrow> Inl (errUnexpectedPage ''8021qMembe.cgi: unknown VLAN wire code %q at port %d''
                  [AStr (encode_rune (of_char (raw ! i))), AInt (int i + 1)])
      | Some mode \<Rightarrow> Inr (int i + 1, mode))"

definition ParseMembership :: "string \<Rightarrow> int \<Rightarrow> (int \<times> vlan_mode) list res" where
  "ParseMembership html portCount =
     (case (case group1 hiddenMemByIDRE html of Some raw \<Rightarrow> Some raw | None \<Rightarrow> group1 hiddenMemByNameRE html) of
        None \<Rightarrow> Inl (errUnexpectedPage ''8021qMembe.cgi: expected a hiddenMem input with the per-port wire codes, found none'' [])
      | Some raw \<Rightarrow>
          if int (length raw) < portCount
          then Inl (errUnexpectedPage ''8021qMembe.cgi: hiddenMem value %q has fewer than port_count=%d codes'' [AStr raw, AInt portCount])
          else each_row (wire_mode raw) [0 ..< nat portCount])"

section \<open>Web pages of gs110emx and gs105pe (webui/parse_gs110emx.go, parse_gs105pe.go)\<close>

text \<open>
  Their rows are never closed: a row runs from its opening tag to the next row or the end of the
  table.
\<close>

subsection \<open>Open rows and expressions\<close>

definition gs110emxRowStartRE :: rx where
  "gs110emxRowStartRE = rx_lit (''<tr class='' @ quoted ''portID'' @ ''>'')"

definition gs105peRowStartRE :: rx where
  "gs105peRowStartRE = rx_cat [rx_lit (''<tr class='' @ quoted ''portID''), in_tag, rx_lit ''>'']"

definition splitOpenRows :: "string \<Rightarrow> rx \<Rightarrow> string list" where
  "splitOpenRows html startRE = map (\<lambda>rest. up_to ''</table>'' (up_to ''<tr'' rest)) (texts_after startRE html)"

definition gambitTokenRE :: rx where
  "gambitTokenRE = rx_cat [rx_lit ''name='', any_quote, rx_lit ''Gambit'', any_quote, in_tag, rx_lit ''value='', any_quote,
     Rx_Group 1 unquoted, any_quote]"

definition web_speedRE :: rx where
  "web_speedRE = rx_cat [Rx_Group 1 (rx_cat [rx_digits, rx_opt (rx_cat [rx_lit ''.'', rx_digits])]), rx_spaces,
     Rx_Group 2 (rx_set ''GgMm'')]"

definition gs110emxVlanIDRowRE :: rx where
  "gs110emxVlanIDRowRE = rx_cat [rx_lit (''<tr class='' @ quoted ''vlanID tableTr'' @ ''>''), rx_lazy,
     rx_lit (''<td class='' @ quoted ''def'' @ ''>''), rx_spaces, Rx_Group 1 rx_digits, rx_spaces, rx_lit ''</td>'']"

definition emxHiddenRE :: rx where
  "emxHiddenRE = rx_cat [rx_ci ''<input'', in_tag, rx_ci (''name='' @ [QUOTE]), Rx_Group 1 (some rx_ci_word), rx_quote, in_tag,
     rx_ci (''value='' @ [QUOTE]), Rx_Group 2 (many (rx_but [QUOTE])), rx_quote]"

definition labeledCellRE :: "string \<Rightarrow> rx" where
  "labeledCellRE label = rx_cat [rx_lit ''<td'', in_tag, rx_lit (''>'' @ label @ ''</td>''), rx_spaces, rx_lit ''<td'', in_tag,
     rx_lit ''>'', Rx_Group 1 (many (rx_but ''<'')), rx_lit ''</td>'']"

definition namedInputRE :: "string \<Rightarrow> rx" where
  "namedInputRE name = rx_cat [rx_lit ''name='', any_quote, rx_lit name, any_quote, in_tag, rx_lit ''value='', any_quote,
     Rx_Group 1 unquoted, any_quote]"

definition dhcpSelectValueRE :: rx where
  "dhcpSelectValueRE = rx_cat [rx_lit (''<tr data-select-value='' @ [QUOTE]), Rx_Group 1 rx_digits, rx_quote]"

definition hiddenValueRE :: rx where
  "hiddenValueRE = rx_cat [rx_lit (''<input type='' @ quoted ''hidden'' @ '' value='' @ [QUOTE]), Rx_Group 1 rx_digits,
     rx_lit ([QUOTE] @ ''>'')]"

definition gs105peDHCPSelectRE :: rx where
  "gs105peDHCPSelectRE = rx_cat [rx_lit ''<select'', in_tag, rx_lit (''id='' @ quoted ''dhcpMode''), rx_lazy,
     rx_lit (''<option value='' @ quoted ''1''), in_tag, rx_lit ''selected'']"

definition ParseGambitToken :: "string \<Rightarrow> string option" where "ParseGambitToken = group1 gambitTokenRE"

subsection \<open>Speeds\<close>

text \<open>The number as a float64, a thousand times it for gigabits, its fraction dropped.\<close>

definition speedTextToMbps :: "string \<Rightarrow> int option" where
  "speedTextToMbps t =
     (case FindStringSubmatch web_speedRE t of
        None \<Rightarrow> None
      | Some m \<Rightarrow>
          (case ParseFloat (submatch m 1) of
             None \<Rightarrow> None
           | Some v \<Rightarrow>
               Some (if EqualFold (submatch m 2) ''G''
                 then (case f64 (v * 1000) of None \<Rightarrow> - (2 ^ 63) | Some w \<Rightarrow> int_of_f64 w)
                 else int_of_f64 v)))"

subsection \<open>gs110emx\<close>

definition open_rows :: "string \<Rightarrow> string list" where "open_rows html = splitOpenRows html gs110emxRowStartRE"

definition ParseGS110EMXPortStatus :: "web_lib \<Rightarrow> string \<Rightarrow> port_status list res" where
  "ParseGS110EMXPortStatus L html =
     page_rows ''port_settings.html'' 6 (open_rows html) (\<lambda>c.
       rbind (port_number ''port_settings.html'' (c ! 1)) (\<lambda>port.
       let linkUp = (lower L (TrimSpace (c ! 3)) = ''up'') in
       Inr (plain_status port (some_unless_empty (c ! 2)) (lower L (TrimSpace (c ! 4)) \<noteq> ''disable'') linkUp
         (if linkUp then speedTextToMbps (c ! 5) else None))))"

text \<open>Port and PVID in the second and third cell.\<close>

definition pvid_cells :: "string \<Rightarrow> string list \<Rightarrow> pvid res" where
  "pvid_cells page c =
     (case (parseIntCell (c ! 1), parseIntCell (c ! 2)) of
        (Some port, Some vlan) \<Rightarrow> Inr \<lparr>pv_port = port, pv_vlan = vlan\<rparr>
      | _ \<Rightarrow> Inl (errUnexpectedPage (page @ '': could not parse port/PVID from row %v'') [AStrs c]))"

definition ParseGS110EMXPVIDs :: "string \<Rightarrow> pvid list res" where
  "ParseGS110EMXPVIDs html = page_rows ''vlan_pvidsetting.html'' 3 (open_rows html) (pvid_cells ''vlan_pvidsetting.html'')"

definition ParseGS110EMXVlanIDs :: "string \<Rightarrow> int list res" where
  "ParseGS110EMXVlanIDs html =
     (let ms = FindAllStringSubmatch gs110emxVlanIDRowRE html in
      if ms = []
      then Inl (errUnexpectedPage (''Cf8021q.html: expected <tr class='' @ quoted ''vlanID tableTr'' @
        ''> rows with a VID cell, found none'') [])
      else Inr (sorted_numbers ms))"

definition ParseInterfaceStats :: "string \<Rightarrow> port_stats list res" where
  "ParseInterfaceStats html =
     page_rows ''interface_stats.html'' 4 (open_rows html) (\<lambda>c.
       rbind (port_number ''interface_stats.html'' (c ! 0)) (\<lambda>port.
       Inr (byte_stats port (parseUint64Cell (c ! 1)) (parseUint64Cell (c ! 2)) (parseUint64Cell (c ! 3)))))"

text \<open>A form field map; a later field of the same name replaces an earlier one.\<close>

type_synonym form_fields = "(string \<times> string) list"

definition port_fields :: "string \<Rightarrow> form_fields" where
  "port_fields row =
     fold (\<lambda>m fields. AList.update (submatch m 1) (submatch m 2) fields) (FindAllStringSubmatch emxHiddenRE row) []"

definition ParseGS110EMXPortFormFields :: "string \<Rightarrow> (int \<times> form_fields) list res" where
  "ParseGS110EMXPortFormFields html =
     (let out = fold (\<lambda>row out. let fields = port_fields row in
            case parseIntCell (field fields ''PORT_NO'') of Some port \<Rightarrow> AList.update port fields out | None \<Rightarrow> out)
          (open_rows html) [] in
      if out = []
      then Inl (errUnexpectedPage (''port_settings.html: no <tr class='' @ quoted ''portID'' @ ''> rows with a PORT_NO'') [])
      else Inr out)"

definition labeledCell :: "string \<Rightarrow> string \<Rightarrow> string option" where
  "labeledCell html label = map_option TrimSpace (group1 (labeledCellRE label) html)"

definition namedInputValue :: "string \<Rightarrow> string \<Rightarrow> string option" where
  "namedInputValue html name = group1 (namedInputRE name) html"

text \<open>The names of the fields a page lacks.\<close>

definition missing_fields :: "(string \<times> string option) list \<Rightarrow> string list" where
  "missing_fields fs = map fst (filter (\<lambda>f. snd f = None) fs)"

definition text_of :: "string option \<Rightarrow> string" where "text_of v = (case v of None \<Rightarrow> [] | Some t \<Rightarrow> t)"

definition ParseSysInfo :: "string \<Rightarrow> http_sys_info res" where
  "ParseSysInfo html =
     (let product = labeledCell html ''Product Name''; serial = labeledCell html ''Serial Number'';
          mac = labeledCell html ''MAC Address''; firmware = labeledCell html ''Firmware Version'';
          name = namedInputValue html ''switch_name''; ip = namedInputValue html ''IP_ADDRESS'';
          mask = namedInputValue html ''SUBNET_MASK''; gateway = namedInputValue html ''GATEWAY_ADDRESS'';
          dhcp = group1 dhcpSelectValueRE html;
          missing = missing_fields [(''Product Name'', product), (''Serial Number'', serial), (''MAC Address'', mac),
            (''Firmware Version'', firmware), (''switch_name'', name), (''IP_ADDRESS'', ip), (''SUBNET_MASK'', mask),
            (''GATEWAY_ADDRESS'', gateway), (''DHCP data-select-value'', dhcp)] in
      if missing \<noteq> [] then Inl (errUnexpectedPage ''sysInfo.html: missing expected field(s): %s'' [AStr (Join missing '', '')])
      else Inr \<lparr>hs_product_name = text_of product, hs_switch_name = text_of name, hs_serial_number = text_of serial,
        hs_mac_address = text_of mac, hs_firmware_version = text_of firmware,
        hs_ip_mode = (if dhcp = Some ''1'' then IPModeDHCP else IPModeStatic),
        hs_ip_address = text_of ip, hs_subnet_mask = text_of mask, hs_gateway_address = text_of gateway\<rparr>)"

subsection \<open>gs105pe\<close>

definition pe_rows :: "string \<Rightarrow> string list" where "pe_rows html = splitOpenRows html gs105peRowStartRE"

definition ParseGS105PEPortStatus :: "web_lib \<Rightarrow> string \<Rightarrow> port_status list res" where
  "ParseGS105PEPortStatus L html =
     page_rows ''status.cgi'' 5 (pe_rows html) (\<lambda>c.
       rbind (port_number ''status.cgi'' (c ! 1)) (\<lambda>port.
       let linkUp = (lower L (TrimSpace (c ! 2)) = ''up'') in
       Inr (plain_status port None (lower L (TrimSpace (c ! 3)) \<noteq> ''disable'') linkUp
         (if linkUp then speedTextToMbps (c ! 4) else None))))"

definition ParseGS105PEPVIDs :: "string \<Rightarrow> pvid list res" where
  "ParseGS105PEPVIDs html = page_rows ''portPVID.cgi'' 3 (pe_rows html) (pvid_cells ''portPVID.cgi'')"

text \<open>A counter in two halves of 32 bits.\<close>

definition from_halves :: "nat \<Rightarrow> nat \<Rightarrow> u64" where
  "from_halves hi lo = push_bit 32 (of_nat hi) OR of_nat lo"

definition pe_half :: "int \<Rightarrow> captures \<Rightarrow> nat res" where
  "pe_half port m =
     (case ParseUint (submatch m 1) 32 of
        None \<Rightarrow> Inl (errUnexpectedPage ''portStatistics.cgi: port %d invalid hidden counter half %q'' [AInt port, AStr (submatch m 1)])
      | Some v \<Rightarrow> Inr v)"

definition pe_stats_row :: "string \<Rightarrow> port_stats res" where
  "pe_stats_row row =
     (let c = cells row in
      case (if c = [] then None else parseIntCell (c ! 0)) of
        None \<Rightarrow> Inl (errUnexpectedPage ''portStatistics.cgi: could not parse a port number from row %v'' [AStrs c])
      | Some port \<Rightarrow>
          let ms = FindAllStringSubmatch hiddenValueRE row in
          if length ms < 6
          then Inl (errUnexpectedPage ''portStatistics.cgi: port %d expected 6 hidden counter halves (rx/tx/crc hi+lo), got %d''
                 [AInt port, AInt (int (length ms))])
          else rbind (each_row (pe_half port) (take 6 ms)) (\<lambda>h.
            Inr (byte_stats port (Some (from_halves (h ! 0) (h ! 1))) (Some (from_halves (h ! 2) (h ! 3)))
              (Some (from_halves (h ! 4) (h ! 5))))))"

definition ParseGS105PEStats :: "string \<Rightarrow> port_stats list res" where
  "ParseGS105PEStats html =
     (let rows = pe_rows html in
      if rows = []
      then Inl (errUnexpectedPage (''portStatistics.cgi: expected <tr class='' @ quoted ''portID'' @ ''> rows, found none'') [])
      else each_row pe_stats_row rows)"

definition ParseGS105PESysInfo :: "string \<Rightarrow> http_sys_info res" where
  "ParseGS105PESysInfo html =
     (let product = labeledCell html ''Product Name''; serial = labeledCell html ''Serial Number'';
          mac = labeledCell html ''MAC Address''; firmware = labeledCell html ''Firmware Version'';
          ip = namedInputValue html ''ip_address''; mask = namedInputValue html ''subnet_mask'';
          gateway = namedInputValue html ''gateway_address'';
          missing = missing_fields [(''Product Name'', product), (''Serial Number'', serial), (''MAC Address'', mac),
            (''Firmware Version'', firmware), (''ip_address'', ip), (''subnet_mask'', mask), (''gateway_address'', gateway)] in
      if missing \<noteq> [] then Inl (errUnexpectedPage ''switch_info.cgi: missing expected field(s): %s'' [AStr (Join missing '', '')])
      else Inr \<lparr>hs_product_name = text_of product, hs_switch_name = text_of (namedInputValue html ''switch_name''),
        hs_serial_number = text_of serial, hs_mac_address = text_of mac, hs_firmware_version = text_of firmware,
        hs_ip_mode = (if MatchString gs105peDHCPSelectRE html then IPModeDHCP else IPModeStatic),
        hs_ip_address = text_of ip, hs_subnet_mask = text_of mask, hs_gateway_address = text_of gateway\<rparr>)"

end
