(* ===== verification/Web_Cheetah.thy ===== *)
theory Web_Cheetah
  imports Web_Plus
begin

section \<open>Web pages of the M4300 switches (webui/parse_m4300.go)\<close>

text \<open>
  A page is a table of cells, each with the instance of its row and, in a comment behind it, the name
  of its column.  A row is the map from names to texts.
\<close>

subsection \<open>Rows of cells\<close>

type_synonym cell_row = "(string \<times> string) list"

text \<open>Cells put into the rows of their instances, rows in the order they are first seen.\<close>

definition group_cells :: "(string \<times> string \<times> string) list \<Rightarrow> cell_row list" where
  "group_cells cs =
     map snd (fold (\<lambda>(inst, key, v) rows.
       AList.update inst (AList.update key v (case map_of rows inst of Some row \<Rightarrow> row | None \<Rightarrow> [])) rows) cs [])"

definition cheetahCellRE :: rx where
  "cheetahCellRE = rx_cat [rx_ci ''NAME='', Rx_Group 1 (some (rx_set ''0123456789.'')), rx_ci ''.v_'', some (rx_set ''0123456789_''),
     rx_ci ('' VALUE='' @ [QUOTE]), Rx_Group 2 (many (rx_but [QUOTE])), rx_quote, many (rx_but ''<''), rx_opt (rx_ci ''</TD>''),
     rx_lit ''<!-- '', Rx_Group 3 (some rx_ci_word), rx_lit '' -->'']"

definition ParseCheetahRows :: "web_lib \<Rightarrow> string \<Rightarrow> cell_row list" where
  "ParseCheetahRows L html =
     group_cells (map (\<lambda>m. (submatch m 1, submatch m 3, TrimSpace (unescapeHTML L (submatch m 2))))
       (FindAllStringSubmatch cheetahCellRE html))"

definition cheetahInt :: "cell_row \<Rightarrow> string \<Rightarrow> int option" where
  "cheetahInt row key = (case map_of row key of None \<Rightarrow> None | Some v \<Rightarrow> parseIntCell v)"

definition m4300PortFromRow :: "cell_row \<Rightarrow> int option" where
  "m4300PortFromRow r =
     (case cheetahInt r ''baseport_ifIndex'' of
        Some port \<Rightarrow> Some port
      | None \<Rightarrow> parseIntCell (after_last (CHR ''/'') (field r ''baseinterfaceListing_Interfaces'')))"

text \<open>The rows with this column.\<close>

definition rows_with :: "string \<Rightarrow> cell_row list \<Rightarrow> cell_row list" where
  "rows_with key rows = filter (\<lambda>r. map_of r key \<noteq> None) rows"

subsection \<open>Ports, counters, PVIDs\<close>

definition m4300_port_row :: "web_lib \<Rightarrow> cell_row \<Rightarrow> port_status res" where
  "m4300_port_row L r =
     (case cheetahInt r ''baseport_ifIndex'' of
        None \<Rightarrow> Inl (errUnexpectedPage ''portsConfiguration.html: row without baseport_ifIndex'' [])
      | Some port \<Rightarrow>
          let linkUp = Contains (lower L (field r ''baseport_LinkStatus2'')) ''up'' in
          Inr (plain_status port (some_unless_empty (field r ''baseinterfaceListing_Interfaces''))
            (lower L (field r ''baseport_AdminMode'') = ''enable'') linkUp
            (if linkUp then speedTextToMbps (field r ''baseport_PhysicalStatus'') else None)))"

definition ParseM4300PortStatus :: "web_lib \<Rightarrow> string \<Rightarrow> port_status list res" where
  "ParseM4300PortStatus L html =
     (let rows = rows_with ''baseport_LinkStatus2'' (ParseCheetahRows L html) in
      if rows = [] then Inl (errUnexpectedPage ''portsConfiguration.html: no baseport_* cells found'' [])
      else each_row (m4300_port_row L) rows)"

text \<open>A count as \<^verbatim>\<open>uint64(v)\<close> has it.\<close>

definition cheetah_count :: "cell_row \<Rightarrow> string \<Rightarrow> u64 option" where
  "cheetah_count r key = map_option of_int (cheetahInt r key)"

definition m4300_stats_row :: "cell_row \<Rightarrow> port_stats res" where
  "m4300_stats_row r =
     (case m4300PortFromRow r of
        None \<Rightarrow> Inl (errUnexpectedPage ''portStatistics.html: row without an identifiable port'' [])
      | Some port \<Rightarrow> Inr \<lparr>st_port = port, st_rx_bytes = None, st_tx_bytes = None,
          st_rx_packets = cheetah_count r ''basePortStats_TotalFramesRx'', st_tx_packets = cheetah_count r ''basePortStats_TotalFramesTx'',
          st_rx_errors = cheetah_count r ''basePortStats_TotalErrorFramesRx'', st_tx_errors = cheetah_count r ''basePortStats_TotalErrorFramesTx''\<rparr>)"

definition ParseM4300Stats :: "web_lib \<Rightarrow> string \<Rightarrow> port_stats list res" where
  "ParseM4300Stats L html =
     (let rows = rows_with ''basePortStats_TotalFramesRx'' (ParseCheetahRows L html) in
      if rows = [] then Inl (errUnexpectedPage ''portStatistics.html: no basePortStats_* cells found'' [])
      else each_row m4300_stats_row rows)"

text \<open>Entries that must not all be missing.\<close>

definition unless_empty :: "string \<Rightarrow> 'a list \<Rightarrow> 'a list res" where
  "unless_empty message out = (if out = [] then Inl (errUnexpectedPage message []) else Inr out)"

definition ParseM4300PVIDs :: "web_lib \<Rightarrow> string \<Rightarrow> pvid list res" where
  "ParseM4300PVIDs L html =
     (let rows = rows_with ''SwitchingVlanPortConfig_Pvid'' (ParseCheetahRows L html) in
      if rows = [] then Inl (errUnexpectedPage ''portPvidConfiguration.html: no SwitchingVlanPortConfig_Pvid cells'' [])
      else unless_empty ''portPvidConfiguration.html: no (port, pvid) pair could be parsed''
        (concat (map (\<lambda>r. case (m4300PortFromRow r, cheetahInt r ''SwitchingVlanPortConfig_Pvid'') of
            (Some port, Some vlan) \<Rightarrow> [\<lparr>pv_port = port, pv_vlan = vlan\<rparr>] | _ \<Rightarrow> []) rows)))"

subsection \<open>Names of interfaces\<close>

definition fastpathIfaceRE :: rx where
  "fastpathIfaceRE = rx_cat [Rx_Group 1 rx_digits, rx_lit ''/'', Rx_Group 2 rx_digits, rx_lit ''/'', Rx_Group 3 rx_digits]"

definition isTempLimitRE :: rx where
  "isTempLimitRE = rx_cat [Rx_Boundary,
     Rx_Group 1 (Rx_Alt (rx_ci ''max'') (Rx_Alt (rx_ci ''maximum'') (Rx_Alt (rx_ci ''threshold'') (rx_ci ''limit'')))), Rx_Boundary]"

text \<open>
  The ports of one part of an egress list, given its interface names: both ends and everything between
  when it is a range of one unit and slot, else each of them.  A range that ends at the largest int
  never ends in the code.
\<close>

definition port_range :: "string \<Rightarrow> (captures \<Rightarrow> string) \<Rightarrow> (captures \<Rightarrow> captures \<Rightarrow> bool) \<Rightarrow> captures list \<Rightarrow> int list" where
  "port_range part number together ends =
     (let singles = concat (map (\<lambda>e. case Atoi (number e) of Some p \<Rightarrow> [p] | None \<Rightarrow> []) ends) in
      if CHR ''-'' \<in> set part \<and> length ends = 2
      then (case (Atoi (number (ends ! 0)), Atoi (number (ends ! 1))) of
              (Some p1, Some p2) \<Rightarrow> if together (ends ! 0) (ends ! 1) \<and> p1 \<le> p2 then [p1 .. p2] else singles
            | _ \<Rightarrow> singles)
      else singles)"

definition expandPortList :: "string \<Rightarrow> int list" where
  "expandPortList raw =
     sort_uniq (concat (map (\<lambda>part. port_range part (\<lambda>e. submatch e 3)
       (\<lambda>e e'. submatch e 1 = submatch e' 1 \<and> submatch e 2 = submatch e' 2) (FindAllStringSubmatch fastpathIfaceRE part))
       (split_on (CHR '','') raw)))"

subsection \<open>VLANs, addresses, system information\<close>

definition egress_vlan :: "int \<Rightarrow> string \<Rightarrow> int list \<Rightarrow> vlan_info" where
  "egress_vlan vid name members =
     \<lparr>vi_vlan_id = vid, vi_name = some_unless_empty name, vi_members = members, vi_tagged = [], vi_untagged = []\<rparr>"

definition ParseM4300Vlans :: "web_lib \<Rightarrow> string \<Rightarrow> vlan_info list res" where
  "ParseM4300Vlans L html =
     (let rows = rows_with ''SwitchingVlanStaticConfig_VlanIndex'' (ParseCheetahRows L html) in
      if rows = [] then Inl (errUnexpectedPage ''vlanStatus.html: no SwitchingVlanStaticConfig_VlanIndex cells'' [])
      else unless_empty ''vlanStatus.html: no VLAN row could be parsed''
        (concat (map (\<lambda>r. case cheetahInt r ''SwitchingVlanStaticConfig_VlanIndex'' of
            None \<Rightarrow> []
          | Some vid \<Rightarrow> [egress_vlan vid (field r ''SwitchingVlanStaticConfig_VlanName'')
              (expandPortList (field r ''SwitchingVlanCurrentConfig_VlanCurrentEgressPortList''))]) rows)))"

definition m4300MacTotalRE :: rx where
  "m4300MacTotalRE = rx_cat [rx_lit (''NAME=v_1_1_1 VALUE='' @ [QUOTE]), Rx_Group 1 rx_digits, rx_quote]"

text \<open>A page that shows fewer entries than the switch says it has.\<close>

definition checkMacPagination :: "string \<Rightarrow> int \<Rightarrow> unit res" where
  "checkMacPagination html rendered =
     (case group1_int m4300MacTotalRE html of
        None \<Rightarrow> Inr ()
      | Some stated \<Rightarrow>
          if stated \<le> rendered then Inr ()
          else Inl (errUnexpectedPage (''basicAddressTable.html: the switch reports %d FDB entries but this page renders only %d -- '' @
            ''the web UI paginates the MAC table. Use the SNMP backend for the complete FDB rather than a silently truncated page.'')
            [AInt stated, AInt rendered]))"

definition m4300_mac_row :: "web_lib \<Rightarrow> cell_row \<Rightarrow> mac_entry list" where
  "m4300_mac_row L r =
     (let mac = upper L (TrimSpace (field r ''SwitchingmacAddrGroup_MacAddress'')) in
      if mac = [] then []
      else (case full_match fastpathIfaceRE (TrimSpace (field r ''SwitchingmacAddrGroup_Intf'')) of
        None \<Rightarrow> []
      | Some iface \<Rightarrow>
          (case Atoi (submatch iface 3) of
             None \<Rightarrow> []
           | Some port \<Rightarrow> [\<lparr>me_mac = mac, me_port = port, me_vlan_id = cheetahInt r ''SwitchingmacAddrGroup_vlanIndex''\<rparr>])))"

definition ParseM4300Macs :: "web_lib \<Rightarrow> string \<Rightarrow> mac_entry list res" where
  "ParseM4300Macs L html =
     (let rows = rows_with ''SwitchingmacAddrGroup_MacAddress'' (ParseCheetahRows L html) in
      if rows = [] then Inl (errUnexpectedPage ''basicAddressTable.html: no SwitchingmacAddrGroup_MacAddress cells found'' [])
      else rbind (checkMacPagination html (int (length rows))) (\<lambda>_. Inr (concat (map (m4300_mac_row L) rows))))"

definition is_hex_colon :: "char \<Rightarrow> bool" where "is_hex_colon ch \<longleftrightarrow> ch \<in> set ''0123456789ABCDEFabcdef:''"

definition m4300MgmtAddrRE :: rx where
  "m4300MgmtAddrRE = rx_cat [rx_ci ''IPv4 Management Address</td>'', rx_lazy, rx_lit ''>'', Rx_Group 1 (some (rx_set ''0123456789.'')),
     rx_spaces, rx_lit ''/'', rx_spaces, Rx_Group 2 (some (rx_set ''0123456789.'')), rx_lit ''<'']"

definition mac_cell :: "string \<Rightarrow> rx" where
  "mac_cell label = rx_cat [rx_lit (label @ ''</td>''), rx_spaces, rx_lit ''<td'', in_tag, rx_lit ''>'', rx_spaces,
     Rx_Group 1 (rx_times 17 (Rx_Set is_hex_colon))]"

definition m4300MgmtMacRE :: rx where "m4300MgmtMacRE = mac_cell ''System MAC Address''"

definition ParseM4300Sysinfo :: "web_lib \<Rightarrow> string \<Rightarrow> mgmt_ip_config res" where
  "ParseM4300Sysinfo L html =
     (let addr = FindStringSubmatch m4300MgmtAddrRE html; mac = group1 m4300MgmtMacRE html in
      if addr = None \<and> mac = None
      then Inl (errUnexpectedPage ''sysInfo.html: neither IPv4 Management Address nor System MAC Address found'' [])
      else Inr \<lparr>mg_mode = IPModeUnknown, mg_address = map_option (\<lambda>m. submatch m 1) addr,
        mg_netmask = map_option (\<lambda>m. submatch m 2) addr, mg_gateway = None, mg_base_mac = map_option (upper L) mac\<rparr>)"

definition is_letter_or_space :: "char \<Rightarrow> bool" where
  "is_letter_or_space ch \<longleftrightarrow> ch = CHR '' '' \<or> (is_alnum ch \<and> \<not> is_digit ch)"

definition m4300SensorRE :: rx where
  "m4300SensorRE = rx_cat [rx_lit ''<td'', in_tag, rx_lit ''>'',
     Rx_Group 1 (Rx_Seq (rx_times 2 (Rx_Set is_letter_or_space)) (rx_at_most 26 (Rx_Set is_letter_or_space))),
     rx_lit ''</td>'', rx_spaces, rx_lit ''<td'', in_tag, rx_lit ''>'', rx_spaces, Rx_Group 2 rx_digits, rx_spaces, rx_lit ''&#8451;'']"

text \<open>The value is the float64 nearest to the number; one out of range is an error.\<close>

definition ParseM4300Sensors :: "string \<Rightarrow> sensor list" where
  "ParseM4300Sensors html =
     concat (map (\<lambda>m.
       if MatchString isTempLimitRE (submatch m 1) \<or> ParseFloat (submatch m 2) = None then []
       else [\<lparr>se_name = TrimSpace (submatch m 1), se_kind = ''temperature'', se_value = Float64 (int (dec_value (submatch m 2))),
              se_unit = ''C''\<rparr>]) (FindAllStringSubmatch m4300SensorRE html))"

end
