(* ===== verification/Web_Xe.thy ===== *)
theory Web_Xe
  imports Web_Cheetah
begin

section \<open>The cell grid of gsm7252ps and gsm7228ps (webui/parse_xe.go, first part)\<close>

text \<open>
  Here a cell carries the instance of its row and the coordinate of its column.  The pages of ports,
  counters, PVIDs, VLANs, addresses, PoE and neighbours, and the system information page with its
  labelled values and its three status tables.
\<close>

subsection \<open>Rows and names of ports\<close>

text \<open>Three numbers joined by underscores.\<close>

definition rx_coordinate :: rx where
  "rx_coordinate = rx_cat [rx_digits, rx_lit ''_'', rx_digits, rx_lit ''_'', rx_digits]"

definition xeCellRE :: rx where
  "xeCellRE = rx_cat [rx_ci ''NAME='', Rx_Group 1 (rx_cat [rx_digits, some (rx_cat [rx_lit ''.'', rx_digits])]), rx_ci ''.v_'',
     Rx_Group 2 rx_coordinate, rx_ci ('' VALUE='' @ [QUOTE]), Rx_Group 3 (many (rx_but [QUOTE])), rx_quote]"

definition ParseXERows :: "web_lib \<Rightarrow> string \<Rightarrow> cell_row list" where
  "ParseXERows L html =
     group_cells (map (\<lambda>m. (submatch m 1, submatch m 2, TrimSpace (unescapeHTML L (submatch m 3))))
       (FindAllStringSubmatch xeCellRE html))"

definition xeSmartIfaceRE :: rx where
  "xeSmartIfaceRE = rx_cat [rx_lit ''1/'', rx_opt (rx_lit ''x''), rx_lit ''g'', Rx_Group 1 rx_digits]"

definition xePortFromIface :: "string \<Rightarrow> int option" where
  "xePortFromIface t =
     (case full_match fastpathIfaceRE (TrimSpace t) of
        Some m \<Rightarrow> Atoi (submatch m 3)
      | None \<Rightarrow>
          (case full_match xeSmartIfaceRE (TrimSpace t) of
             Some m \<Rightarrow> Atoi (submatch m 1)
           | None \<Rightarrow> None))"

subsection \<open>Ports, counters, PVIDs, VLANs\<close>

abbreviation (input) xePortIface :: string where "xePortIface \<equiv> ''1_2_1''"
abbreviation (input) xePortAdmin :: string where "xePortAdmin \<equiv> ''1_2_6''"
abbreviation (input) xePortPhysStatus :: string where "xePortPhysStatus \<equiv> ''1_2_9''"
abbreviation (input) xePortLink :: string where "xePortLink \<equiv> ''1_2_10''"
abbreviation (input) xePortIfindex :: string where "xePortIfindex \<equiv> ''1_2_13''"

text \<open>A row given to a message.\<close>

definition shown_row :: "cell_row \<Rightarrow> msg_arg" where "shown_row r = AStrs (concat (map (\<lambda>(k, v). [k, v]) r))"

definition xe_port_row :: "web_lib \<Rightarrow> cell_row \<Rightarrow> port_status res" where
  "xe_port_row L r =
     (let name = field r xePortIface in
      case (case cheetahInt r xePortIfindex of Some port \<Rightarrow> Some port | None \<Rightarrow> xePortFromIface name) of
        None \<Rightarrow> Inl (errUnexpectedPage ''portsConfiguration.html: row without an identifiable port: %v'' [shown_row r])
      | Some port \<Rightarrow>
          let linkUp = Contains (lower L (field r xePortLink)) ''up'' in
          Inr (plain_status port (some_unless_empty name) (lower L (field r xePortAdmin) = ''enable'') linkUp
            (if linkUp then speedTextToMbps (field r xePortPhysStatus) else None)))"

definition ParseXEPortStatus :: "web_lib \<Rightarrow> string \<Rightarrow> port_status list res" where
  "ParseXEPortStatus L html =
     (let rows = rows_with xePortLink (ParseXERows L html) in
      if rows = []
      then Inl (errUnexpectedPage ''portsConfiguration.html: no XE port rows (no v_%s link-status cells) found'' [AStr xePortLink])
      else each_row (xe_port_row L) rows)"

abbreviation (input) xeStatsIface :: string where "xeStatsIface \<equiv> ''1_1_103''"
abbreviation (input) xeStatsRxPkts :: string where "xeStatsRxPkts \<equiv> ''1_1_2''"
abbreviation (input) xeStatsRxErrs :: string where "xeStatsRxErrs \<equiv> ''1_1_3''"
abbreviation (input) xeStatsTxPkts :: string where "xeStatsTxPkts \<equiv> ''1_1_5''"
abbreviation (input) xeStatsTxErrs :: string where "xeStatsTxErrs \<equiv> ''1_1_6''"

definition xe_stats_row :: "cell_row \<Rightarrow> port_stats list" where
  "xe_stats_row r =
     (case xePortFromIface (field r xeStatsIface) of
        None \<Rightarrow> []
      | Some port \<Rightarrow> [\<lparr>st_port = port, st_rx_bytes = None, st_tx_bytes = None,
          st_rx_packets = parseUint64Cell (field r xeStatsRxPkts), st_tx_packets = parseUint64Cell (field r xeStatsTxPkts),
          st_rx_errors = parseUint64Cell (field r xeStatsRxErrs), st_tx_errors = parseUint64Cell (field r xeStatsTxErrs)\<rparr>])"

definition ParseXEStats :: "web_lib \<Rightarrow> string \<Rightarrow> port_stats list res" where
  "ParseXEStats L html =
     (let rows = rows_with xeStatsRxPkts (rows_with xeStatsIface (ParseXERows L html)) in
      if rows = []
      then Inl (errUnexpectedPage ''portStatistics.html: no XE counter rows (no v_%s interface cells) found'' [AStr xeStatsIface])
      else unless_empty ''portStatistics.html: no physical-port counter row could be parsed'' (concat (map xe_stats_row rows)))"

abbreviation (input) xePvidIface :: string where "xePvidIface \<equiv> ''1_2_1''"
abbreviation (input) xePvidConfigured :: string where "xePvidConfigured \<equiv> ''1_2_4''"

definition xe_pvid_row :: "cell_row \<Rightarrow> pvid list" where
  "xe_pvid_row r =
     (case (map_of r xePvidIface, map_of r xePvidConfigured) of
        (Some ifaceText, Some pvidText) \<Rightarrow>
          (case (xePortFromIface ifaceText, parseIntCell pvidText) of
             (Some port, Some vlan) \<Rightarrow> [\<lparr>pv_port = port, pv_vlan = vlan\<rparr>]
           | _ \<Rightarrow> [])
      | _ \<Rightarrow> [])"

definition ParseXEPVIDs :: "web_lib \<Rightarrow> string \<Rightarrow> pvid list res" where
  "ParseXEPVIDs L html =
     unless_empty ''portPvidConfiguration.html: no (port, pvid) pair could be parsed'' (concat (map xe_pvid_row (ParseXERows L html)))"

abbreviation (input) xeVlanID :: string where "xeVlanID \<equiv> ''1_1_1''"
abbreviation (input) xeVlanName :: string where "xeVlanName \<equiv> ''1_1_2''"
abbreviation (input) xeVlanType :: string where "xeVlanType \<equiv> ''1_1_3''"
abbreviation (input) xeVlanMembers :: string where "xeVlanMembers \<equiv> ''1_1_4''"

definition expandS3300PortList :: "string \<Rightarrow> int list" where
  "expandS3300PortList raw =
     sort_uniq (concat (map (\<lambda>part. port_range part (\<lambda>e. submatch e 1) (\<lambda>e e'. True) (FindAllStringSubmatch xeSmartIfaceRE part))
       (split_on (CHR '','') raw)))"

definition xe_vlan_row :: "(string \<Rightarrow> int list) \<Rightarrow> cell_row \<Rightarrow> vlan_info list" where
  "xe_vlan_row expand r =
     (case (map_of r xeVlanID, map_of r xeVlanType, map_of r xeVlanMembers) of
        (Some vidText, Some _, Some membersText) \<Rightarrow>
          (case parseIntCell vidText of None \<Rightarrow> [] | Some vid \<Rightarrow> [egress_vlan vid (field r xeVlanName) (expand membersText)])
      | _ \<Rightarrow> [])"

definition xeVlanRows :: "web_lib \<Rightarrow> string \<Rightarrow> (string \<Rightarrow> int list) \<Rightarrow> vlan_info list res" where
  "xeVlanRows L html expand =
     unless_empty ''vlanStatus.html: no XE VLAN row could be parsed'' (concat (map (xe_vlan_row expand) (ParseXERows L html)))"

definition ParseXEVlans :: "web_lib \<Rightarrow> string \<Rightarrow> vlan_info list res" where "ParseXEVlans L html = xeVlanRows L html expandPortList"
definition ParseS3300Vlans :: "web_lib \<Rightarrow> string \<Rightarrow> vlan_info list res" where "ParseS3300Vlans L html = xeVlanRows L html expandS3300PortList"

subsection \<open>Addresses\<close>

abbreviation (input) xeMacVlan :: string where "xeMacVlan \<equiv> ''1_2_1''"
abbreviation (input) xeMacAddr :: string where "xeMacAddr \<equiv> ''1_2_3''"
abbreviation (input) xeMacPort :: string where "xeMacPort \<equiv> ''1_2_4''"
abbreviation (input) s3300MacVlan :: string where "s3300MacVlan \<equiv> ''1_2_2''"

definition is_hex_digit :: "char \<Rightarrow> bool" where "is_hex_digit ch \<longleftrightarrow> ch \<in> set ''0123456789ABCDEFabcdef''"

definition web_macTextRE :: rx where
  "web_macTextRE = rx_cat [rx_times 5 (rx_cat [rx_times 2 (Rx_Set is_hex_digit), rx_lit '':'']), rx_times 2 (Rx_Set is_hex_digit)]"

definition macTextFullMatch :: "string \<Rightarrow> bool" where
  "macTextFullMatch s \<longleftrightarrow> (let m = FindString web_macTextRE s in m \<noteq> [] \<and> m = s)"

definition mac_rows :: "cell_row list \<Rightarrow> cell_row list" where "mac_rows rows = rows_with xeMacPort (rows_with xeMacAddr rows)"

text \<open>Entries of a page, if it shows them all.\<close>

definition mac_page :: "string \<Rightarrow> string \<Rightarrow> cell_row list \<Rightarrow> (cell_row \<Rightarrow> mac_entry list) \<Rightarrow> mac_entry list res" where
  "mac_page html kind rows f =
     (if rows = []
      then Inl (errUnexpectedPage (''basicAddressTable.html: no '' @ kind @ '' MAC rows (no v_%s address cells) found'') [AStr xeMacAddr])
      else rbind (checkMacPagination html (int (length rows))) (\<lambda>_. Inr (concat (map f rows))))"

definition xe_mac_row :: "web_lib \<Rightarrow> cell_row \<Rightarrow> mac_entry list" where
  "xe_mac_row L r =
     (let mac = upper L (TrimSpace (field r xeMacAddr)) in
      if \<not> macTextFullMatch mac then []
      else (case full_match fastpathIfaceRE (TrimSpace (field r xeMacPort)) of
        None \<Rightarrow> []
      | Some iface \<Rightarrow>
          if submatch iface 2 \<noteq> ''0'' then []
          else (case Atoi (submatch iface 3) of
            None \<Rightarrow> []
          | Some port \<Rightarrow> [\<lparr>me_mac = mac, me_port = port, me_vlan_id = parseIntCell (field r xeMacVlan)\<rparr>])))"

definition ParseXEMacs :: "web_lib \<Rightarrow> string \<Rightarrow> mac_entry list res" where
  "ParseXEMacs L html = mac_page html ''XE'' (mac_rows (ParseXERows L html)) (xe_mac_row L)"

definition s3300_mac_row :: "web_lib \<Rightarrow> cell_row \<Rightarrow> mac_entry list" where
  "s3300_mac_row L r =
     (let mac = upper L (TrimSpace (field r xeMacAddr)) in
      if \<not> macTextFullMatch mac then []
      else (case xePortFromIface (field r xeMacPort) of
        None \<Rightarrow> []
      | Some port \<Rightarrow> [\<lparr>me_mac = mac, me_port = port, me_vlan_id = parseIntCell (field r s3300MacVlan)\<rparr>]))"

definition ParseS3300Macs :: "web_lib \<Rightarrow> string \<Rightarrow> mac_entry list res" where
  "ParseS3300Macs L html = mac_page html ''S3300'' (mac_rows (ParseXERows L html)) (s3300_mac_row L)"

definition s3300BaseMacRE :: rx where "s3300BaseMacRE = mac_cell ''Base MAC Address''"

definition ParseS3300Mgmt :: "web_lib \<Rightarrow> string \<Rightarrow> mgmt_ip_config res" where
  "ParseS3300Mgmt L html =
     (case group1 s3300BaseMacRE html of
        None \<Rightarrow> Inl (errUnexpectedPage ''sysInfo.html: no Base MAC Address cell found'' [])
      | Some mac \<Rightarrow> Inr \<lparr>mg_mode = IPModeUnknown, mg_address = None, mg_netmask = None, mg_gateway = None,
          mg_base_mac = Some (upper L mac)\<rparr>)"

subsection \<open>PoE and neighbours\<close>

abbreviation (input) xePoeIface :: string where "xePoeIface \<equiv> ''1_2_1''"
abbreviation (input) xePoeAdmin :: string where "xePoeAdmin \<equiv> ''1_2_2''"
abbreviation (input) xePoeOutput :: string where "xePoeOutput \<equiv> ''1_2_15''"
abbreviation (input) xePoeStatus :: string where "xePoeStatus \<equiv> ''1_2_17''"

definition poePowerRE :: rx where
  "poePowerRE = rx_cat [rx_opt (rx_lit ''-''), rx_digits, rx_opt (rx_cat [rx_lit ''.'', rx_digits])]"

definition poePowerToMw :: "string \<Rightarrow> int option" where
  "poePowerToMw t =
     (let m = FindString poePowerRE t in
      if m = [] then None
      else if CHR ''.'' \<in> set m
      then (case ParseFloat m of
              None \<Rightarrow> None
            | Some v \<Rightarrow> Some (case f64 (v * 1000) of None \<Rightarrow> - (2 ^ 63) | Some w \<Rightarrow> int_of_f64 (math_Round w)))
      else Atoi m)"

text \<open>The states in the order of their sorted texts; the first that occurs in the cell.\<close>

definition detect_in :: "string \<Rightarrow> poe_detect" where
  "detect_in status =
     (case List.find (Contains status) [''delivering'', ''disabled'', ''fault'', ''searching''] of
        None \<Rightarrow> PoEDetectUnknown
      | Some k \<Rightarrow> (case map_of detectText k of Some d \<Rightarrow> d | None \<Rightarrow> PoEDetectUnknown))"

definition xe_poe_row :: "web_lib \<Rightarrow> cell_row \<Rightarrow> poe_status list" where
  "xe_poe_row L r =
     (case xePortFromIface (field r xePoeIface) of
        None \<Rightarrow> []
      | Some port \<Rightarrow> [\<lparr>poe_port = port, poe_admin_enabled = (lower L (field r xePoeAdmin) = ''enable''),
          poe_detect = detect_in (lower L (field r xePoeStatus)), poe_power_mw = poePowerToMw (field r xePoeOutput)\<rparr>])"

definition ParseXEPoE :: "web_lib \<Rightarrow> string \<Rightarrow> poe_status list res" where
  "ParseXEPoE L html =
     (let rows = rows_with xePoeStatus (rows_with xePoeIface (ParseXERows L html)) in
      if rows = []
      then Inl (errUnexpectedPage ''poeInterfaceConfiguration.html: no XE PoE rows (no v_%s status cells) found'' [AStr xePoeStatus])
      else unless_empty ''poeInterfaceConfiguration.html: no PoE port row could be parsed'' (concat (map (xe_poe_row L) rows)))"

abbreviation (input) xeLLDPLocalIface :: string where "xeLLDPLocalIface \<equiv> ''1_1_1''"
abbreviation (input) xeLLDPChassis :: string where "xeLLDPChassis \<equiv> ''1_1_7''"
abbreviation (input) xeLLDPSysName :: string where "xeLLDPSysName \<equiv> ''1_1_8''"
abbreviation (input) xeLLDPPortID :: string where "xeLLDPPortID \<equiv> ''1_1_9''"

definition xe_lldp_row :: "web_lib \<Rightarrow> cell_row \<Rightarrow> lldp_neighbor list" where
  "xe_lldp_row L r =
     (case xePortFromIface (field r xeLLDPLocalIface) of
        None \<Rightarrow> []
      | Some port \<Rightarrow> [\<lparr>ln_local_port = port, ln_sys_name = some_unless_empty (field r xeLLDPSysName), ln_port_desc = None,
          ln_chassis_id = map_option (upper L) (some_unless_empty (field r xeLLDPChassis)),
          ln_port_id = some_unless_empty (field r xeLLDPPortID)\<rparr>])"

definition ParseXELLDP :: "web_lib \<Rightarrow> string \<Rightarrow> lldp_neighbor list res" where
  "ParseXELLDP L html =
     (let neighbours = rows_with xeLLDPLocalIface (ParseXERows L html) in
      if neighbours = [] \<and> \<not> Contains (lower L html) ''lldp''
      then Inl (errUnexpectedPage ''lldpRemoteInventory.html: no XE LLDP rows and no LLDP table found'' [])
      else Inr (concat (map (xe_lldp_row L) neighbours)))"

section \<open>System information of gsm7252ps (webui/parse_xe.go, second part)\<close>

text \<open>
  This page has plain cells: a bold label and the cells of its values.  Its status tables tell
  readings from states, and a state that is not reported from one that is not healthy.
\<close>

subsection \<open>Labelled values\<close>

definition xeLabelRowRE :: rx where
  "xeLabelRowRE = rx_cat [rx_ci ''<td'', in_tag, rx_ci (''class='' @ [QUOTE]), many (rx_but [QUOTE]), rx_ci ''font10Bold'',
     many (rx_but [QUOTE]), rx_quote, in_tag, rx_lit ''>'', Rx_Group 1 rx_lazy, rx_ci ''</td>'', rx_spaces, rx_ci ''<td'', in_tag,
     rx_lit ''>'', Rx_Group 2 rx_lazy, Rx_Alt (rx_ci ''</td>'') Rx_End]"

definition xeInputValueRE :: rx where
  "xeInputValueRE = rx_cat [rx_ci ''<INPUT'', in_tag, rx_ci (''VALUE='' @ [QUOTE]), Rx_Group 1 (many (rx_but [QUOTE])), rx_quote]"

definition xeTrRE :: rx where
  "xeTrRE = rx_cat [rx_ci ''<tr'', in_tag, rx_lit ''>'', Rx_Group 1 rx_lazy, rx_ci ''</tr>'']"

definition plain_cell :: "web_lib \<Rightarrow> string \<Rightarrow> string" where
  "plain_cell L cellHTML = TrimSpace (unescapeHTML L (without_matches tagRE cellHTML))"

definition xeText :: "web_lib \<Rightarrow> string \<Rightarrow> string" where
  "xeText L cellHTML =
     (case group1 xeInputValueRE cellHTML of
        Some v \<Rightarrow> TrimSpace (unescapeHTML L v)
      | None \<Rightarrow> plain_cell L cellHTML)"

definition ParseXELabelledValues :: "web_lib \<Rightarrow> string \<Rightarrow> (string \<times> string) list" where
  "ParseXELabelledValues L html =
     fold (\<lambda>m out. let label = plain_cell L (submatch m 1) in
        if label = [] then out else AList.update label (xeText L (submatch m 2)) out)
      (FindAllStringSubmatch xeLabelRowRE html) []"

subsection \<open>Status tables\<close>

text \<open>From a table's own call of \<^verbatim>\<open>tbhdr\<close> to the next.\<close>

definition tbhdr :: string where "tbhdr = ''tbhdr('' @ [TICK]"

definition xeSysinfoSection :: "string \<Rightarrow> string \<Rightarrow> string" where
  "xeSysinfoSection html title =
     (case cut_at (tbhdr @ title @ [TICK]) html of
        None \<Rightarrow> []
      | Some (before, from_here) \<Rightarrow>
          (case from_here of [] \<Rightarrow> [] | ch # rest \<Rightarrow> ch # up_to tbhdr rest))"

definition status_row :: "web_lib \<Rightarrow> string \<Rightarrow> (string \<times> string list) list" where
  "status_row L rowHTML =
     (if Contains rowHTML ''messageTableHeader'' then []
      else (case map (unescapeHTML L) (cells rowHTML) of
        label # v # vs \<Rightarrow> if label = [] then [] else [(label, v # vs)]
      | _ \<Rightarrow> []))"

definition xeStatusRows :: "web_lib \<Rightarrow> string \<Rightarrow> (string \<times> string list) list" where
  "xeStatusRows L sect = concat (map (\<lambda>m. status_row L (submatch m 1)) (FindAllStringSubmatch xeTrRE sect))"

definition xeSensorName :: "string \<Rightarrow> int \<Rightarrow> string" where
  "xeSensorName label unit = (if unit = 1 then label else label @ '' unit '' @ show_int unit)"

definition xeHealthyText :: "string list" where "xeHealthyText = [''ok'', ''operational'']"
definition xeAbsentText :: "string list" where "xeAbsentText = [[], ''na'', ''n/a'', ''not supported'', ''-'']"
definition xePowerRows :: "string list" where "xePowerRows = [''RPS'', ''Power Module'']"

text \<open>The values of a row with the number of their unit.\<close>

definition per_unit :: "(int \<Rightarrow> string \<Rightarrow> sensor list) \<Rightarrow> string list \<Rightarrow> sensor list" where
  "per_unit f vals = concat (map (\<lambda>(i, raw). f (int i + 1) raw) (enumerate 0 vals))"

definition xeStateSensors :: "web_lib \<Rightarrow> string \<Rightarrow> string \<Rightarrow> string list option \<Rightarrow> sensor list" where
  "xeStateSensors L sect kind only =
     concat (map (\<lambda>(label, vals).
       if (case only of None \<Rightarrow> False | Some ls \<Rightarrow> label \<notin> set ls) then []
       else per_unit (\<lambda>unit raw.
         let t = lower L (TrimSpace raw) in
         if t \<in> set xeAbsentText then []
         else [\<lparr>se_name = xeSensorName label unit, se_kind = kind, se_value = Float64 (if t \<in> set xeHealthyText then 1 else 0),
                se_unit = ''state''\<rparr>]) vals) (xeStatusRows L sect))"

definition ParseXESensors :: "web_lib \<Rightarrow> string \<Rightarrow> sensor list" where
  "ParseXESensors L html =
     concat (map (\<lambda>(label, vals).
       per_unit (\<lambda>unit raw. case parseIntCell raw of
           None \<Rightarrow> []
         | Some celsius \<Rightarrow> [\<lparr>se_name = xeSensorName label unit, se_kind = ''temperature'', se_value = Float64 celsius,
             se_unit = ''C''\<rparr>]) vals) (xeStatusRows L (xeSysinfoSection html ''Temperature Status''))) @
     xeStateSensors L (xeSysinfoSection html ''FAN Status'') ''fan'' None @
     xeStateSensors L (xeSysinfoSection html ''Device Status'') ''power'' (Some xePowerRows)"

subsection \<open>Management address\<close>

definition xeMgmtIfaceRE :: rx where
  "xeMgmtIfaceRE = Rx_Seq Rx_Begin (rx_cat [rx_spaces, Rx_Group 1 (some (rx_set ''0123456789.'')), rx_spaces, rx_lit ''/'', rx_spaces,
     Rx_Group 2 (some (rx_set ''0123456789.''))])"

definition ParseXEMgmtIP :: "web_lib \<Rightarrow> string \<Rightarrow> mgmt_ip_config res" where
  "ParseXEMgmtIP L html =
     (let fields = ParseXELabelledValues L html;
          addr = FindStringSubmatch xeMgmtIfaceRE (field fields ''IPv4 Network Interface'');
          text_mac = upper L (TrimSpace (field fields ''System MAC Address''));
          mac = (if macTextFullMatch text_mac then text_mac else []) in
      if addr = None \<and> mac = []
      then Inl (errUnexpectedPage ''sysInfo.html: neither IPv4 Network Interface nor System MAC Address found'' [])
      else Inr \<lparr>mg_mode = IPModeUnknown, mg_address = map_option (\<lambda>m. submatch m 1) addr,
        mg_netmask = map_option (\<lambda>m. submatch m 2) addr, mg_gateway = None, mg_base_mac = some_unless_empty mac\<rparr>)"

end
