(* ===== verification/Web_Membership.thy ===== *)
theory Web_Membership
  imports Web_Xe
begin

section \<open>The VLAN membership page of the managed switches (webui/parse_xe.go, third part)\<close>

text \<open>
  One VLAN's membership, with the form that changes it: a list of codes, one for every slot, and a grid
  of pictures that says which slot is which port and shows the same state again.  A page whose grid and
  codes disagree is refused.
\<close>

subsection \<open>Forms\<close>

definition inputRE :: rx where
  "inputRE = rx_cat [rx_ci ''<input'', Rx_Boundary, Rx_Group 1 in_tag, rx_lit ''>'']"

definition is_attr_char :: "char \<Rightarrow> bool" where "is_attr_char ch \<longleftrightarrow> is_word ch \<or> ch = CHR ''.'' \<or> ch = CHR ''-''"

definition bareAttrRE :: rx where
  "bareAttrRE = rx_cat [Rx_Group 1 (some (Rx_Set is_attr_char)),
     rx_opt (Rx_Group 2 (rx_cat [rx_spaces, rx_lit ''='', rx_spaces,
       Rx_Alt (rx_cat [rx_quote, Rx_Group 3 (many (rx_but [QUOTE])), rx_quote])
         (Rx_Alt (rx_cat [rx_lit [TICK], Rx_Group 4 (many (rx_but [TICK])), rx_lit [TICK]])
           (Rx_Group 5 (some (Rx_Set (\<lambda>ch. non_space ch \<and> ch \<noteq> CHR ''>'')))))]))]"

definition selectRE :: rx where
  "selectRE = rx_cat [rx_ci ''<select'', Rx_Boundary, Rx_Group 1 in_tag, rx_lit ''>'', Rx_Group 2 rx_lazy, rx_ci ''</select>'']"

definition optionRE :: rx where
  "optionRE = rx_cat [rx_ci ''<option'', Rx_Boundary, Rx_Group 1 in_tag, rx_lit ''>'']"

text \<open>
  The attributes of a tag: of one without a value the first occurrence counts, of one with a value
  the last.
\<close>

definition tag_attr :: "web_lib \<Rightarrow> captures \<Rightarrow> form_fields \<Rightarrow> form_fields" where
  "tag_attr L m out =
     (let key = lower L (submatch m 1) in
      if submatch m 2 = [] then (if map_of out key = None then AList.update key [] out else out)
      else AList.update key
        (if submatch m 3 \<noteq> [] then submatch m 3 else if submatch m 4 \<noteq> [] then submatch m 4 else submatch m 5) out)"

definition tagAttrs :: "web_lib \<Rightarrow> string \<Rightarrow> form_fields" where
  "tagAttrs L raw = fold (tag_attr L) (FindAllStringSubmatch bareAttrRE raw) []"

definition has_attr :: "form_fields \<Rightarrow> string \<Rightarrow> bool" where "has_attr attrs key \<longleftrightarrow> map_of attrs key \<noteq> None"

definition selectedOption :: "form_fields list \<Rightarrow> form_fields option" where
  "selectedOption opts =
     (case List.find (\<lambda>o'. has_attr o' ''selected'') opts of
        Some chosen \<Rightarrow> Some chosen
      | None \<Rightarrow> (case opts of [] \<Rightarrow> None | first # _ \<Rightarrow> Some first))"

text \<open>The value a select submits.\<close>

definition chosen_value :: "web_lib \<Rightarrow> string \<Rightarrow> string" where
  "chosen_value L inner =
     (case selectedOption (map (\<lambda>m. tagAttrs L (submatch m 1)) (FindAllStringSubmatch optionRE inner)) of
        None \<Rightarrow> []
      | Some chosen \<Rightarrow> field chosen ''value'')"

definition form_inputs :: "web_lib \<Rightarrow> string \<Rightarrow> form_fields list" where
  "form_inputs L block = map (\<lambda>m. tagAttrs L (submatch m 1)) (FindAllStringSubmatch inputRE block)"

text \<open>The selects of a form: the attributes of each and the value it submits.\<close>

definition form_selects :: "web_lib \<Rightarrow> string \<Rightarrow> (form_fields \<times> string) list" where
  "form_selects L block =
     map (\<lambda>m. (tagAttrs L (submatch m 1), chosen_value L (submatch m 2))) (FindAllStringSubmatch selectRE block)"

definition fastpathFormFields :: "web_lib \<Rightarrow> string \<Rightarrow> form_fields" where
  "fastpathFormFields L block =
     fold (\<lambda>(attrs, v) fields. if field attrs ''name'' = [] then fields else AList.update (field attrs ''name'') v fields)
       (map (\<lambda>attrs. (attrs, field attrs ''value'')) (form_inputs L block) @ form_selects L block) []"

subsection \<open>Ports\<close>

definition fastpathPhysicalUSPRE :: rx where "fastpathPhysicalUSPRE = rx_whole [fastpathIfaceRE]"

definition fastpathPhysicalSmartRE :: rx where
  "fastpathPhysicalSmartRE = rx_whole [Rx_Group 1 rx_digits, rx_lit ''/'', rx_opt (rx_lit ''x''), rx_lit ''g'', Rx_Group 2 rx_digits]"

definition fastpathPhysicalPort :: "web_lib \<Rightarrow> string \<Rightarrow> int option" where
  "fastpathPhysicalPort L ifname =
     (let t = TrimSpace (unescapeHTML L ifname) in
      case FindStringSubmatch fastpathPhysicalUSPRE t of
        Some m \<Rightarrow>
          (case Atoi (submatch m 3) of
             Some port \<Rightarrow> if AtoiValue (submatch m 1) \<noteq> 0 \<and> AtoiValue (submatch m 2) = 0 then Some port else None
           | None \<Rightarrow> None)
      | None \<Rightarrow> (case FindStringSubmatch fastpathPhysicalSmartRE t of Some m \<Rightarrow> Atoi (submatch m 2) | None \<Rightarrow> None))"

definition fastpathIfaceList :: "web_lib \<Rightarrow> string \<Rightarrow> int list" where
  "fastpathIfaceList L raw =
     sort_uniq (concat (map (\<lambda>part. if TrimSpace part = [] then []
         else (case fastpathPhysicalPort L part of Some port \<Rightarrow> [port] | None \<Rightarrow> []))
       (split_on (CHR '','') (unescapeHTML L raw))))"

subsection \<open>The grid\<close>

definition fastpathMemToMode :: "(string \<times> vlan_mode) list" where
  "fastpathMemToMode = [(''1'', VlanTagged), (''2'', VlanUntagged), (''3'', VlanExcluded)]"

definition modeToFastpathMem :: "vlan_mode \<Rightarrow> string" where
  "modeToFastpathMem mode = (case mode of VlanTagged \<Rightarrow> ''1'' | VlanUntagged \<Rightarrow> ''2'' | VlanExcluded \<Rightarrow> ''3'')"

definition fastpathImgToMode :: "(string \<times> vlan_mode) list" where
  "fastpathImgToMode = [(''t'', VlanTagged), (''u'', VlanUntagged), (''b'', VlanExcluded), (''tagged'', VlanTagged),
     (''untagged'', VlanUntagged), (''blank'', VlanExcluded)]"

definition is_small :: "char \<Rightarrow> bool" where "is_small ch \<longleftrightarrow> is_alnum ch \<and> \<not> is_digit ch \<and> to_lower ch = ch"

abbreviation (input) lazy_in_tag :: rx where "lazy_in_tag \<equiv> Rx_Star False (Rx_Set (\<lambda>ch. ch \<notin> set ''>''))"

definition fastpathGridARE :: rx where
  "fastpathGridARE = rx_cat [rx_lit ''toggleImageFirst(this,'', Rx_Group 1 rx_digits, rx_lit '','', rx_digits,
     rx_lit ('','' @ [TICK] @ ''img_unit''), rx_digits, rx_lit ([TICK] @ '',''), Rx_Group 2 rx_digits, rx_lit '')'', rx_lazy,
     rx_lit (''<img src='' @ [QUOTE] @ ''/base/images/''), Rx_Alt (rx_lit ''grey'') (rx_lit ''blue''), rx_lit ''_'',
     Rx_Group 3 (rx_set ''btu''), rx_lit (''.gif'' @ [QUOTE] @ '' name='' @ quoted ''imx'')]"

definition fastpathGridTableRE :: rx where
  "fastpathGridTableRE = rx_cat [rx_ci ''<table'', in_tag, rx_ci (''id='' @ [QUOTE] @ ''unit''), rx_digits, rx_ci (''tb'' @ [QUOTE]),
     in_tag, rx_lit ''>'', Rx_Group 1 rx_lazy, rx_ci ''</table>'']"

definition fastpathGridLabelRE :: rx where
  "fastpathGridLabelRE = rx_cat [rx_lit ''<td'', in_tag, rx_lit ''>'', rx_spaces,
     Rx_Group 1 (some (Rx_Set (\<lambda>ch. is_alnum ch \<and> \<not> is_digit ch))), rx_spaces, rx_lit ''</td>'']"

definition fastpathGridBRE :: rx where
  "fastpathGridBRE = rx_cat [rx_lit (''aid='' @ [TICK] @ ''port-''), Rx_Group 1 (some (rx_but [TICK])), rx_lit [TICK], lazy_in_tag,
     rx_lit (''src='' @ [TICK]), many (rx_but [TICK]), rx_lit ''/switch_'', Rx_Group 2 (rx_plus False (Rx_Set is_small)),
     rx_opt (rx_lit ''_bottom''), rx_lit ''_'', some (Rx_Set is_small), rx_lit (''.png'' @ [TICK]), lazy_in_tag,
     rx_lit (''name='' @ [TICK] @ ''imx'' @ [TICK]), lazy_in_tag, rx_lit ''togImg(this,'', Rx_Group 3 rx_digits, rx_lit '','', rx_digits,
     rx_lit ('','' @ quoted ''hiddenMem'' @ '')'')]"

text \<open>A port with its slot and the state its picture shows.\<close>

type_synonym grid = "(int \<times> int \<times> vlan_mode) list"

text \<open>The newer pictures count slots from one.\<close>

definition grid_b_cell :: "web_lib \<Rightarrow> captures \<Rightarrow> grid \<Rightarrow> grid" where
  "grid_b_cell L m g =
     (case (fastpathPhysicalPort L (submatch m 1), map_of fastpathImgToMode (submatch m 2), Atoi (submatch m 3)) of
        (Some port, Some mode, Some slot1) \<Rightarrow> AList.update port (slot1 - 1, mode) g
      | _ \<Rightarrow> g)"

text \<open>The older ones count from zero and name the interface by its number.\<close>

definition grid_a_cell :: "captures \<Rightarrow> grid \<Rightarrow> grid" where
  "grid_a_cell m g =
     (case (map_of fastpathImgToMode (submatch m 3), Atoi (submatch m 1), Atoi (submatch m 2)) of
        (Some mode, Some slot0, Some intf) \<Rightarrow> AList.update intf (slot0, mode) g
      | _ \<Rightarrow> g)"

definition grid_a_table :: "string \<Rightarrow> grid \<Rightarrow> grid" where
  "grid_a_table table g =
     (case group1 fastpathGridLabelRE table of
        None \<Rightarrow> g
      | Some label \<Rightarrow> if EqualFold label ''port'' then fold grid_a_cell (FindAllStringSubmatch fastpathGridARE table) g else g)"

definition fastpathGrid :: "web_lib \<Rightarrow> string \<Rightarrow> grid res" where
  "fastpathGrid L block =
     (let b = fold (grid_b_cell L) (FindAllStringSubmatch fastpathGridBRE block) [] in
      if b \<noteq> [] then Inr b
      else
        let a = fold (\<lambda>m. grid_a_table (submatch m 1)) (FindAllStringSubmatch fastpathGridTableRE block) [] in
        if a = []
        then Inl (errUnexpectedPage (''vlan_port_cfg.html: no port-membership grid could be parsed (neither the '' @
          ''toggleImageFirst/grey_*.gif nor the togImg/switch_*.png shape)'') [])
        else Inr a)"

subsection \<open>The page\<close>

record fastpath_membership =
  fm_vlan_id :: "int option"
  fm_vlan_ids :: "int list"
  fm_name :: "string option"
  fm_vlan_type :: "string option"
  fm_tagged :: "int list"
  fm_untagged :: "int list"
  fm_hidden_mem :: string
  fm_port_slots :: "(int \<times> int) list"
  fm_configured :: "(int \<times> vlan_mode) list"
  fm_fields :: form_fields
  fm_action :: string

definition fastpathMemActionRE :: rx where
  "fastpathMemActionRE = rx_cat [rx_ci ''<form'', some (Rx_Set is_space), rx_ci ''method='', rx_opt rx_quote, rx_ci ''post'', rx_opt rx_quote,
     some (Rx_Set is_space), rx_ci (''ACTION='' @ [QUOTE]), Rx_Group 1 (rx_cat [many (rx_but [QUOTE]), rx_ci ''vlan_port_cfg_rw.html'']),
     rx_quote]"

definition vlanIDSelectRE :: rx where
  "vlanIDSelectRE = rx_cat [rx_ci ''<select'', in_tag, rx_ci (''name='' @ quoted ''vlanId''), in_tag, rx_lit ''>'', Rx_Group 1 rx_lazy,
     rx_ci ''</select>'']"

text \<open>The VLAN the page shows, the last selected one, and all it offers.\<close>

definition fastpathVlanSelect :: "web_lib \<Rightarrow> string \<Rightarrow> (int option \<times> int list) res" where
  "fastpathVlanSelect L block =
     (case group1 vlanIDSelectRE block of
        None \<Rightarrow> Inl (errUnexpectedPage (''vlan_port_cfg.html: no <select name='' @ quoted ''vlanId'' @
          ''> -- cannot tell which VLAN this page is showing'') [])
      | Some inner \<Rightarrow>
          let opts = filter (\<lambda>attrs. digitsOnly (field attrs ''value''))
                (map (\<lambda>m. tagAttrs L (submatch m 1)) (FindAllStringSubmatch optionRE inner)) in
          Inr (fold (\<lambda>attrs selected. if has_attr attrs ''selected'' then Some (AtoiValue (field attrs ''value'')) else selected) opts None,
               sort_uniq (map (\<lambda>attrs. AtoiValue (field attrs ''value'')) opts)))"

text \<open>
  The state the codes give a port, which must be the one its picture shows.  A slot before the first
  is an index out of range.
\<close>

definition slot_state :: "string list \<Rightarrow> int \<times> int \<times> vlan_mode \<Rightarrow> (int \<times> int \<times> vlan_mode) res" where
  "slot_state codes = (\<lambda>(port, slot, shown).
     if int (length codes) \<le> slot
     then Inl (errUnexpectedPage (''vlan_port_cfg.html: port %d'' @ [TICK] @ ''s grid slot %d is past the end of hiddenMem (%d codes)'')
       [AInt port, AInt slot, AInt (int (length codes))])
     else if slot < 0 then Inl Go_Panic
     else (case map_of fastpathMemToMode (codes ! nat slot) of
       None \<Rightarrow> Inl (errUnexpectedPage ''vlan_port_cfg.html: unknown hiddenMem code %q at slot %d (port %d)''
         [AStr (codes ! nat slot), AInt slot, AInt port])
     | Some mode \<Rightarrow>
         if mode \<noteq> shown
         then Inl (errUnexpectedPage (''vlan_port_cfg.html: port %d renders as %s but hiddenMem slot %d says %s -- '' @
           ''grid/hiddenMem mismatch, refusing to trust the slot mapping'')
           [AInt port, AStr (mode_text shown), AInt slot, AStr (mode_text mode)])
         else Inr (port, slot, mode)))"

definition ParseFastpathMembership :: "web_lib \<Rightarrow> string \<Rightarrow> fastpath_membership res" where
  "ParseFastpathMembership L html =
     (case first_match fastpathMemActionRE html of
        None \<Rightarrow> Inl (errUnexpectedPage (''vlan_port_cfg.html: no <form ACTION=...vlan_port_cfg_rw.html> -- this is not the '' @
          ''FASTPATH VLAN Membership page'') [])
      | Some (m, block) \<Rightarrow>
          let fields = fastpathFormFields L block in
          (case map_of fields ''hiddenMem'' of
             None \<Rightarrow> Inl (errUnexpectedPage ''vlan_port_cfg.html: form carries no hiddenMem field'' [])
           | Some hiddenMem \<Rightarrow>
               rbind (fastpathGrid L block) (\<lambda>g.
               rbind (each_row (slot_state (split_on (CHR '','') hiddenMem)) (map (\<lambda>p. (p, the (map_of g p))) (sorted_keys g))) (\<lambda>states.
               rbind (fastpathVlanSelect L block) (\<lambda>(selected, vlanIDs).
               Inr \<lparr>fm_vlan_id = selected, fm_vlan_ids = vlanIDs,
                 fm_name = some_unless_empty (unescapeHTML L (field fields ''vlan_name'')),
                 fm_vlan_type = some_unless_empty (unescapeHTML L (field fields ''vlan_type'')),
                 fm_tagged = fastpathIfaceList L (field fields ''hiddenTagged''),
                 fm_untagged = fastpathIfaceList L (field fields ''hiddenUnTagged''),
                 fm_hidden_mem = hiddenMem,
                 fm_port_slots = map (\<lambda>(port, slot, mode). (port, slot)) states,
                 fm_configured = map (\<lambda>(port, slot, mode). (port, mode)) states,
                 fm_fields = fields, fm_action = unescapeHTML L (submatch m 1)\<rparr>)))))"

text \<open>The list of codes with that of one port replaced.\<close>

definition FastpathHiddenMemWith :: "fastpath_membership \<Rightarrow> int \<Rightarrow> vlan_mode \<Rightarrow> string res" where
  "FastpathHiddenMemWith page port mode =
     (case map_of (fm_port_slots page) port of
        None \<Rightarrow> Inl (errUnexpectedPage (''vlan_port_cfg.html: port %d is not on this switch'' @ [TICK] @
          ''s membership grid (it renders ports %v)'') [AInt port, AInts (sorted_keys (fm_port_slots page))])
      | Some slot \<Rightarrow>
          let codes = split_on (CHR '','') (fm_hidden_mem page) in
          if slot < 0 \<or> int (length codes) \<le> slot then Inl Go_Panic
          else Inr (Join (codes[nat slot := modeToFastpathMem mode]) '',''))"

subsection \<open>The error banner\<close>

definition ci_input_value :: "string \<Rightarrow> rx" where
  "ci_input_value attr = rx_cat [rx_ci attr, in_tag, rx_ci (''value='' @ [QUOTE]), Rx_Group 1 (many (rx_but [QUOTE])), rx_quote]"

definition fastpathErrFlagRE :: rx where "fastpathErrFlagRE = ci_input_value (''name='' @ quoted ''err_flag'')"
definition fastpathErrMsgRE :: rx where "fastpathErrMsgRE = ci_input_value (''name='' @ quoted ''err_msg'')"

definition ParseFastpathErr :: "web_lib \<Rightarrow> string \<Rightarrow> string option" where
  "ParseFastpathErr L html =
     (case group1 fastpathErrFlagRE html of
        None \<Rightarrow> None
      | Some flag \<Rightarrow>
          if TrimSpace flag = [] \<or> TrimSpace flag = ''0'' then None
          else
            let t = (case group1 fastpathErrMsgRE html of None \<Rightarrow> [] | Some msg \<Rightarrow> TrimSpace (unescapeHTML L msg)) in
            Some (if t \<noteq> [] then t else ''err_flag='' @ flag @ '' with no err_msg''))"

end
