(* ===== verification/Web_Xui.thy ===== *)
theory Web_Xui
  imports Web_Membership
begin

section \<open>The form pages of the managed switches (webui/parse_xe.go, fourth part)\<close>

text \<open>
  Pages with one write form: a list page with a row for every port or collector, a detail page with
  one flat map of fields, and what the reader takes from them: management address, login accounts,
  services and remote logging.
\<close>

subsection \<open>The form of a page\<close>

definition xuiFormRE :: rx where
  "xuiFormRE = rx_cat [rx_ci ''<FORM'', Rx_Boundary, in_tag, rx_ci (''ACTION='' @ [QUOTE]),
     Rx_Group 1 (rx_cat [many (rx_but [QUOTE]), rx_ci ''/a1'']), rx_quote]"

definition xuiFormBlock :: "web_lib \<Rightarrow> string \<Rightarrow> string \<Rightarrow> (string \<times> string) res" where
  "xuiFormBlock L html page =
     (case first_match xuiFormRE html of
        None \<Rightarrow> Inl (errUnexpectedPage (''%s: no <FORM ACTION='' @ quoted ''...(/a1)'' @ ''> -- this is not a FASTPATH XUI write page '' @
          ''(wrong URL, or the session bounced to the login page)'') [AStr page])
      | Some (m, block) \<Rightarrow> Inr (unescapeHTML L (submatch m 1), block))"

text \<open>
  Fields and boxes of a form: a disabled control is not submitted, and a box is a selection of a row,
  kept apart from the fields.
\<close>

definition xui_input :: "form_fields \<Rightarrow> form_fields \<times> string list \<Rightarrow> form_fields \<times> string list" where
  "xui_input attrs out =
     (let name = field attrs ''name'' in
      if name = [] \<or> has_attr attrs ''disabled'' then out
      else if EqualFold (field attrs ''type'') ''checkbox'' then (fst out, snd out @ [name])
      else (AList.update name (field attrs ''value'') (fst out), snd out))"

definition xui_select :: "form_fields \<times> string \<Rightarrow> form_fields \<Rightarrow> form_fields" where
  "xui_select = (\<lambda>(attrs, v) fields.
     if field attrs ''name'' = [] \<or> has_attr attrs ''disabled'' then fields else AList.update (field attrs ''name'') v fields)"

definition xuiInputsWithCheckboxes :: "web_lib \<Rightarrow> string \<Rightarrow> form_fields \<times> string list" where
  "xuiInputsWithCheckboxes L block =
     (case fold xui_input (form_inputs L block) ([], []) of
        (named, boxes) \<Rightarrow> (fold xui_select (form_selects L block) named, boxes))"

definition xuiInputs :: "web_lib \<Rightarrow> string \<Rightarrow> form_fields" where "xuiInputs L block = fst (xuiInputsWithCheckboxes L block)"

subsection \<open>List pages\<close>

record xui_row =
  xr_prefix :: string
  xr_checkbox :: "string option"
  xr_fields :: form_fields

definition XuiRow_Field :: "xui_row \<Rightarrow> string \<Rightarrow> string option" where
  "XuiRow_Field r column = map_of (xr_fields r) (xr_prefix r @ column)"

record xui_list_page =
  xl_action :: string
  xl_hidden :: form_fields
  xl_buttons :: form_fields
  xl_rows :: "xui_row list"
  xl_tokens :: form_fields
  xl_nav :: form_fields
  xl_template :: form_fields

definition RowFor :: "xui_list_page \<Rightarrow> string \<Rightarrow> string \<Rightarrow> xui_row option" where
  "RowFor p column v = List.find (\<lambda>r. XuiRow_Field r column = Some v) (xl_rows p)"

record xui_form_page =
  xf_action :: string
  xf_hidden :: form_fields
  xf_buttons :: form_fields
  xf_fields :: form_fields

definition xuiRowRE :: rx where
  "xuiRowRE = rx_cat [rx_ci ''<TR'', some (Rx_Set is_space), rx_ci (''p='' @ [QUOTE]), some (rx_set ''0123456789.''), rx_quote, in_tag, rx_lit ''>'',
     Rx_Group 1 rx_lazy, rx_ci ''</TR>'']"

definition xuiRowFieldRE :: rx where
  "xuiRowFieldRE = rx_whole [Rx_Group 1 (some (rx_cat [rx_digits, rx_lit ''.''])), Rx_Group 2 (rx_cat [rx_lit ''v_'', rx_coordinate])]"

definition xuiHiddenNames :: "string list" where
  "xuiHiddenNames = [''submit_flag'', ''submit_target'', ''err_flag'', ''err_msg'', ''clazz_information'']"

definition xuiButtonsDivRE :: rx where
  "xuiButtonsDivRE = rx_cat [rx_ci (''<div id='' @ quoted ''xuiButtonsDiv''), in_tag, rx_lit ''>'', Rx_Group 1 rx_lazy, rx_ci ''</div>'']"

definition xuiTokenRE :: rx where "xuiTokenRE = rx_whole [rx_ci ''CSRFToken'']"

definition xuiNavRowRE :: rx where
  "xuiNavRowRE = rx_cat [rx_ci ''<TR'', Rx_Boundary, in_tag, Rx_Boundary, rx_ci ''class='', rx_opt any_quote, rx_ci ''deftestme'', rx_opt any_quote,
     in_tag, rx_lit ''>'', Rx_Group 1 rx_lazy, rx_ci ''</TR>'']"

definition xuiPageFieldRE :: rx where "xuiPageFieldRE = rx_whole [rx_lit ''v_'', rx_coordinate]"

definition xuiTemplateRE :: rx where
  "xuiTemplateRE = rx_whole [rx_lit ''v_g_'', Rx_Group 1 rx_digits, rx_lit ''_'', Rx_Group 2 rx_digits, rx_lit ''_'', Rx_Group 3 rx_digits]"

definition xuiButtons :: "web_lib \<Rightarrow> string \<Rightarrow> form_fields" where
  "xuiButtons L html =
     (case group1 xuiButtonsDivRE html of
        None \<Rightarrow> []
      | Some inner \<Rightarrow> fold (\<lambda>attrs out. if field attrs ''name'' = [] then out
          else AList.update (field attrs ''name'') (unescapeHTML L (field attrs ''value'')) out) (form_inputs L inner) [])"

text \<open>Fields picked by name, their values unescaped.\<close>

definition picked :: "web_lib \<Rightarrow> (string \<Rightarrow> bool) \<Rightarrow> form_fields \<Rightarrow> form_fields" where
  "picked L P named = map (\<lambda>(n, v). (n, unescapeHTML L v)) (filter (\<lambda>(n, v). P n) named)"

text \<open>The prefix of a row: that of the first data field Go meets in the map.\<close>

definition row_prefix :: "web_lib \<Rightarrow> form_fields \<Rightarrow> string" where
  "row_prefix L named =
     (case List.find (MatchString xuiRowFieldRE) (wl_order L (map fst named)) of
        None \<Rightarrow> []
      | Some name \<Rightarrow> text_of (group1 xuiRowFieldRE name))"

definition xui_row_of :: "web_lib \<Rightarrow> string \<Rightarrow> xui_row list" where
  "xui_row_of L inner =
     (case xuiInputsWithCheckboxes L inner of
        (named, boxes) \<Rightarrow>
          let pre = row_prefix L named in
          if pre = [] then []
          else [\<lparr>xr_prefix = pre, xr_checkbox = List.find (prefix pre) boxes, xr_fields = picked L (\<lambda>n. True) named\<rparr>])"

text \<open>The fields of the navigation rows; a later row replaces an earlier one's.\<close>

definition nav_fields :: "web_lib \<Rightarrow> string \<Rightarrow> form_fields" where
  "nav_fields L block =
     fold (\<lambda>m nav. fold (\<lambda>(n, v). AList.update n v) (picked L (MatchString xuiPageFieldRE) (xuiInputs L (submatch m 1))) nav)
       (FindAllStringSubmatch xuiNavRowRE block) []"

definition hidden_of :: "form_fields \<Rightarrow> form_fields" where
  "hidden_of named = concat (map (\<lambda>n. case map_of named n of Some v \<Rightarrow> [(n, v)] | None \<Rightarrow> []) xuiHiddenNames)"

definition ParseXUIListPage :: "web_lib \<Rightarrow> string \<Rightarrow> string \<Rightarrow> xui_list_page res" where
  "ParseXUIListPage L html page =
     rbind (xuiFormBlock L html (if page = [] then ''XUI list page'' else page)) (\<lambda>(action, block).
       let formFields = xuiInputs L (without_matches xuiRowRE block) in
       Inr \<lparr>xl_action = action, xl_hidden = hidden_of formFields, xl_buttons = xuiButtons L block,
         xl_rows = concat (map (\<lambda>m. xui_row_of L (submatch m 1)) (FindAllStringSubmatch xuiRowRE block)),
         xl_tokens = picked L (MatchString xuiTokenRE) formFields, xl_nav = nav_fields L block,
         xl_template = picked L (MatchString xuiTemplateRE) formFields\<rparr>)"

subsection \<open>Detail pages\<close>

definition ParseXUIFormPage :: "web_lib \<Rightarrow> string \<Rightarrow> string \<Rightarrow> xui_form_page res" where
  "ParseXUIFormPage L html page =
     rbind (xuiFormBlock L html (if page = [] then ''XUI page'' else page)) (\<lambda>(action, block).
       let fields = xuiInputs L block in
       Inr \<lparr>xf_action = action, xf_hidden = hidden_of fields, xf_buttons = xuiButtons L block,
         xf_fields = picked L (\<lambda>n. n \<notin> set xuiHiddenNames) fields\<rparr>)"

definition xuiIPMode :: "(string \<times> ip_mode) list" where
  "xuiIPMode = [(''none'', IPModeStatic), (''manual'', IPModeStatic), (''disable'', IPModeStatic), (''dhcp'', IPModeDHCP),
     (''enable'', IPModeDHCP), (''bootp'', IPModeDHCP)]"

definition ParseXUIMgmtIP :: "web_lib \<Rightarrow> string \<Rightarrow> string \<Rightarrow> string \<Rightarrow> string \<Rightarrow> string \<Rightarrow> string \<Rightarrow> mgmt_ip_config res" where
  "ParseXUIMgmtIP L html addressField netmaskField gatewayField modeField page0 =
     (let page = (if page0 = [] then ''XUI management-IP page'' else page0) in
      rbind (xuiFormBlock L html page) (\<lambda>(action, block).
       let fields = xuiInputs L block;
           missing = filter (\<lambda>f. map_of fields f = None) [addressField, netmaskField, gatewayField];
           value_of = (\<lambda>f. TrimSpace (unescapeHTML L (field fields f))) in
       if missing \<noteq> []
       then Inl (errUnexpectedPage ''%s: no %v field(s) -- wrong management-IP page for this model?'' [AStr page, AStrs missing])
       else Inr \<lparr>mg_mode = (case map_of xuiIPMode (lower L (value_of modeField)) of Some m \<Rightarrow> m | None \<Rightarrow> IPModeUnknown),
         mg_address = some_unless_empty (value_of addressField), mg_netmask = some_unless_empty (value_of netmaskField),
         mg_gateway = some_unless_empty (value_of gatewayField), mg_base_mac = None\<rparr>))"

subsection \<open>Accounts\<close>

definition xeScalarRE :: rx where
  "xeScalarRE = rx_cat [rx_ci ''NAME=v_'', Rx_Group 1 rx_coordinate, rx_ci ('' VALUE='' @ [QUOTE]), Rx_Group 2 (many (rx_but [QUOTE])), rx_quote]"

definition parseXEScalars :: "string \<Rightarrow> form_fields" where
  "parseXEScalars html = fold (\<lambda>m. AList.update (submatch m 1) (submatch m 2)) (FindAllStringSubmatch xeScalarRE html) []"

abbreviation (input) xuiUserNameCoord :: string where "xuiUserNameCoord \<equiv> ''1_1_2''"
abbreviation (input) xuiUserAccessModeCoord :: string where "xuiUserAccessModeCoord \<equiv> ''1_1_5''"

definition xui_user_row :: "web_lib \<Rightarrow> cell_row \<Rightarrow> switch_user list" where
  "xui_user_row L row =
     (let name = TrimSpace (field row xuiUserNameCoord); access = TrimSpace (field row xuiUserAccessModeCoord) in
      if name = [] then []
      else [\<lparr>us_name = name, us_access_mode = access, us_privileged = PrivilegedAccess (wl_unicode L) access,
        us_snmpv3_access = None, us_snmpv3_auth = None, us_snmpv3_encryption = None\<rparr>])"

definition ParseXUIUsers :: "web_lib \<Rightarrow> string \<Rightarrow> switch_user list res" where
  "ParseXUIUsers L html =
     unless_empty (''userManagement.html: no user rows on page (a switch always has at least the account this request '' @
       ''authenticated as)'') (concat (map (xui_user_row L) (ParseXERows L html)))"

subsection \<open>Services\<close>

text \<open>The last checked radio button of a group; its last value when several are marked.\<close>

definition checkedRadio :: "web_lib \<Rightarrow> string \<Rightarrow> string \<Rightarrow> string option" where
  "checkedRadio L html name =
     fold (\<lambda>attrs found.
       if \<not> EqualFold (field attrs ''type'') ''radio'' \<or> field attrs ''name'' \<noteq> name then found
       else if has_attr attrs ''value'' \<and> has_attr attrs ''checked'' then map_of attrs ''value'' else found)
     (form_inputs L html) None"

definition plainFormValue :: "web_lib \<Rightarrow> string \<Rightarrow> string \<Rightarrow> string option" where
  "plainFormValue L html name =
     (case List.find (\<lambda>attrs. field attrs ''name'' = name \<and> has_attr attrs ''value'') (form_inputs L html) of
        None \<Rightarrow> None
      | Some attrs \<Rightarrow> map_of attrs ''value'')"

definition ServiceNames :: "string list" where "ServiceNames = [''http'', ''https'', ''ssh'', ''telnet'']"

record service_fields =
  sf_xui_admin :: string
  sf_xui_port :: string
  sf_radio :: string
  sf_form_port :: string

definition serviceFieldsTable :: "(string \<times> service_fields) list" where
  "serviceFieldsTable =
     [(''http'', \<lparr>sf_xui_admin = ''1_1_1'', sf_xui_port = [], sf_radio = ''httpAdmin'', sf_form_port = ''httpPort''\<rparr>),
      (''https'', \<lparr>sf_xui_admin = ''1_1_1'', sf_xui_port = ''1_4_1'', sf_radio = ''sslAdmin'', sf_form_port = ''httpsPort''\<rparr>),
      (''ssh'', \<lparr>sf_xui_admin = ''1_1_1'', sf_xui_port = ''1_10_1'', sf_radio = [], sf_form_port = []\<rparr>),
      (''telnet'', \<lparr>sf_xui_admin = ''2_5_1'', sf_xui_port = [], sf_radio = [], sf_form_port = []\<rparr>)]"

definition service_fields_of :: "string \<Rightarrow> service_fields" where
  "service_fields_of service =
     (case map_of serviceFieldsTable service of
        Some f \<Rightarrow> f
      | None \<Rightarrow> \<lparr>sf_xui_admin = [], sf_xui_port = [], sf_radio = [], sf_form_port = []\<rparr>)"

definition ParseServicePage :: "web_lib \<Rightarrow> string \<Rightarrow> string \<Rightarrow> service_status res" where
  "ParseServicePage L html service =
     (let f = service_fields_of service; scalars = parseXEScalars html;
          status = (\<lambda>admin portText. Inr \<lparr>sv_name = service, sv_enabled = EqualFold (TrimSpace admin) ''enable'',
            sv_port = parseIntCell portText\<rparr>) in
      case map_of scalars (sf_xui_admin f) of
        Some admin \<Rightarrow> status admin (if sf_xui_port f \<noteq> [] then field scalars (sf_xui_port f) else [])
      | None \<Rightarrow>
          (case (if sf_radio f \<noteq> [] then checkedRadio L html (sf_radio f) else None) of
             None \<Rightarrow> Inl (errUnexpectedPage
               ''%s configuration page: no admin-state control found (neither XUI v_%s nor a %s radio group)''
               [AStr service, AStr (sf_xui_admin f), AStr (if sf_radio f = [] then ''None'' else quoted (sf_radio f))])
           | Some admin \<Rightarrow> status admin
               (if sf_form_port f \<noteq> [] then text_of (plainFormValue L html (sf_form_port f)) else [])))"

subsection \<open>Remote logging\<close>

abbreviation (input) xuiSyslogAdminStatus :: string where "xuiSyslogAdminStatus \<equiv> ''1_1_1''"
abbreviation (input) xuiSyslogLocalPort :: string where "xuiSyslogLocalPort \<equiv> ''1_2_1''"
abbreviation (input) XUISyslogHostAddress :: string where "XUISyslogHostAddress \<equiv> ''2_1_1''"
abbreviation (input) xuiSyslogHostStatus :: string where "xuiSyslogHostStatus \<equiv> ''2_1_2''"
abbreviation (input) XUISyslogHostPort :: string where "XUISyslogHostPort \<equiv> ''2_1_3''"
abbreviation (input) XUISyslogHostSeverity :: string where "XUISyslogHostSeverity \<equiv> ''2_1_4''"
abbreviation (input) XUISyslogHostIndex :: string where "XUISyslogHostIndex \<equiv> ''2_1_6''"
abbreviation (input) xuiSyslogHostAddressCol :: string where "xuiSyslogHostAddressCol \<equiv> ''v_2_1_1''"
abbreviation (input) xuiSyslogHostRowStatus :: string where "xuiSyslogHostRowStatus \<equiv> ''v_2_1_5''"
abbreviation (input) xuiSyslogRowStatusDelete :: string where "xuiSyslogRowStatusDelete \<equiv> ''Delete''"
abbreviation (input) xuiSyslogDeleteButton :: string where "xuiSyslogDeleteButton \<equiv> ''v_4_3_1''"

definition int_or_zero :: "string \<Rightarrow> int" where
  "int_or_zero t = (case parseIntCell t of Some v \<Rightarrow> v | None \<Rightarrow> 0)"

definition syslog_row :: "web_lib \<Rightarrow> cell_row \<Rightarrow> syslog_server res" where
  "syslog_row L row =
     rbind (SyslogSeverity (wl_unicode L) (field row XUISyslogHostSeverity)) (\<lambda>severity.
       Inr \<lparr>sy_host = TrimSpace (field row XUISyslogHostAddress), sy_port = int_or_zero (field row XUISyslogHostPort),
         sy_severity = severity, sy_active = EqualFold (TrimSpace (field row xuiSyslogHostStatus)) ''active'',
         sy_index = parseIntCell (field row XUISyslogHostIndex)\<rparr>)"

definition ParseXUISyslog :: "web_lib \<Rightarrow> string \<Rightarrow> syslog_config res" where
  "ParseXUISyslog L html =
     (let scalars = parseXEScalars html in
      case map_of scalars xuiSyslogAdminStatus of
        None \<Rightarrow> Inl (errUnexpectedPage ''syslogConfiguration.html: no Admin Status field (NAME=v_%s) on page'' [AStr xuiSyslogAdminStatus])
      | Some admin \<Rightarrow>
          rbind (each_row (syslog_row L) (filter (\<lambda>row. TrimSpace (field row XUISyslogHostAddress) \<noteq> []) (ParseXERows L html))) (\<lambda>servers.
          Inr \<lparr>sc_enabled = EqualFold (TrimSpace admin) ''enable'', sc_local_port = int_or_zero (field scalars xuiSyslogLocalPort),
            sc_servers = servers\<rparr>))"

end
