(* ===== verification/Web_Goahead.thy ===== *)
theory Web_Goahead
  imports Web_Xui
begin

section \<open>The XML pages of gs728tpp (webui/parse_goahead.go)\<close>

text \<open>
  The answer is a template followed by one block of XML.  The block is cut out of the text, refused if
  it declares a document type or an entity, and parsed into a tree of elements; package encoding/xml is
  the parameter \<open>wl_xml\<close>.
\<close>

subsection \<open>The tree\<close>

definition xml_find :: "xml_node \<Rightarrow> string \<Rightarrow> xml_node option" where
  "xml_find n tag = List.find (\<lambda>c. xn_name c = tag) (xn_nodes n)"

definition xml_findAll :: "xml_node \<Rightarrow> string \<Rightarrow> xml_node list" where
  "xml_findAll n tag = filter (\<lambda>c. xn_name c = tag) (xn_nodes n)"

definition gtext :: "xml_node \<Rightarrow> string \<Rightarrow> string" where
  "gtext n tag = (case xml_find n tag of None \<Rightarrow> [] | Some c \<Rightarrow> TrimSpace (xn_content c))"

abbreviation (input) block_open :: string where "block_open \<equiv> ''<DeviceConfiguration>''"
abbreviation (input) block_close :: string where "block_close \<equiv> ''</DeviceConfiguration>''"

text \<open>
  The slice from the first opening tag to the end of the first closing tag; a closing tag that comes
  first makes it a slice with its bounds crossed.
\<close>

definition data_block :: "string \<Rightarrow> string res" where
  "data_block body =
     (case (cut_at block_open body, cut_at block_close body) of
        (Some (before, _), Some (before_close, _)) \<Rightarrow>
          let from_here = length before; until = length before_close + length block_close in
          if until < from_here then Inl Go_Panic else Inr (take (until - from_here) (drop from_here body))
      | _ \<Rightarrow> Inl (errUnexpectedPage ''wcd response: no <DeviceConfiguration> data block found'' []))"

definition goaheadDataBlock :: "web_lib \<Rightarrow> string \<Rightarrow> xml_node res" where
  "goaheadDataBlock L body =
     rbind (data_block body) (\<lambda>block.
       if Contains block ''<!DOCTYPE'' \<or> Contains block ''<!ENTITY''
       then Inl (errUnexpectedPage ''wcd response: DTD/entity declaration in data block rejected'' [])
       else (case wl_xml L block of
         Inl err \<Rightarrow> Inl (errUnexpectedPage ''wcd response: <DeviceConfiguration> is not valid XML: %v'' [AStr err])
       | Inr tree \<Rightarrow> Inr tree))"

definition goaheadSection :: "web_lib \<Rightarrow> string \<Rightarrow> string \<Rightarrow> xml_node res" where
  "goaheadSection L body name =
     rbind (goaheadDataBlock L body) (\<lambda>tree.
       case xml_find tree name of
         None \<Rightarrow> Inl (errUnexpectedPage ''wcd response: no <%s> section (wrong page?)'' [AStr name])
       | Some sec \<Rightarrow> Inr sec)"

definition goaheadPortRE :: rx where "goaheadPortRE = rx_whole [rx_lit ''g'', Rx_Group 1 rx_digits]"

definition goaheadPortNum :: "string \<Rightarrow> int option" where
  "goaheadPortNum name =
     (case FindStringSubmatch goaheadPortRE (TrimSpace name) of None \<Rightarrow> None | Some m \<Rightarrow> parseIntCell (submatch m 1))"

subsection \<open>Ports, PVIDs, VLANs\<close>

definition goaheadDuplexOper :: "(string \<times> bool) list" where "goaheadDuplexOper = [(''2'', True)]"
definition goaheadFlowControl :: "(string \<times> bool) list" where "goaheadFlowControl = [(''1'', True), (''2'', False)]"

definition goaheadSpeedConfig :: "xml_node \<Rightarrow> port_speed option" where
  "goaheadSpeedConfig e =
     (let autoneg = gtext e ''autoNegotiationAdminEnabled''; duplex = gtext e ''duplexAdminMode'' in
      if autoneg = ''1'' then Some AutoPortSpeed
      else if autoneg \<noteq> ''2'' then None
      else (case parseIntCell (gtext e ''speedAdmin'') of
        None \<Rightarrow> None
      | Some rate \<Rightarrow> if duplex \<noteq> ''2'' \<and> duplex \<noteq> ''3'' then None else Some (ForcedPortSpeed rate (duplex = ''3''))))"

definition goahead_port :: "xml_node \<Rightarrow> port_status list" where
  "goahead_port e =
     (case goaheadPortNum (gtext e ''interfaceName'') of
        None \<Rightarrow> []
      | Some port \<Rightarrow>
          let linkUp = (gtext e ''linkState'' = ''1'') in
          [\<lparr>ps_port = port, ps_name = some_unless_empty (gtext e ''interfaceName''),
            ps_admin_enabled = (gtext e ''adminState'' = ''1''), ps_link_up = linkUp,
            ps_speed_mbps = (if linkUp then parseIntCell (gtext e ''speedOper'') else None),
            ps_description = some_unless_empty (gtext e ''interfaceDescription''),
            ps_full_duplex = map_of goaheadDuplexOper (gtext e ''duplexOperMode''),
            ps_flow_control = map_of goaheadFlowControl (gtext e ''flowControlOperType''),
            ps_speed_config = goaheadSpeedConfig e\<rparr>])"

text \<open>The entries the elements of a section give.\<close>

definition section_entries :: "web_lib \<Rightarrow> string \<Rightarrow> string \<Rightarrow> string \<Rightarrow> (xml_node \<Rightarrow> 'a list) \<Rightarrow> 'a list res" where
  "section_entries L body name tag f =
     rbind (goaheadSection L body name) (\<lambda>sec. Inr (concat (map f (xml_findAll sec tag))))"

definition ParseGoAheadPorts :: "web_lib \<Rightarrow> string \<Rightarrow> port_status list res" where
  "ParseGoAheadPorts L body =
     rbind (section_entries L body ''Standard802_3List'' ''Entry'' goahead_port)
       (unless_empty ''Standard802_3List: no physical-port Entry rows found'')"

definition goahead_pvid :: "xml_node \<Rightarrow> pvid list" where
  "goahead_pvid e =
     (case (goaheadPortNum (gtext e ''interfaceName''), parseIntCell (gtext e ''PVID'')) of
        (Some port, Some vlan) \<Rightarrow> [\<lparr>pv_port = port, pv_vlan = vlan\<rparr>]
      | _ \<Rightarrow> [])"

definition ParseGoAheadPVIDs :: "web_lib \<Rightarrow> string \<Rightarrow> pvid list res" where
  "ParseGoAheadPVIDs L body =
     rbind (section_entries L body ''VLANInterfaceList'' ''Interface'' goahead_pvid)
       (unless_empty ''VLANInterfaceList: no (port, pvid) pair could be parsed'')"

definition goahead_vlan_name :: "xml_node \<Rightarrow> (int \<times> string option) list" where
  "goahead_vlan_name v =
     (case parseIntCell (gtext v ''VLANID'') of None \<Rightarrow> [] | Some vid \<Rightarrow> [(vid, some_unless_empty (gtext v ''VLANName''))])"

definition ParseGoAheadVlanNames :: "web_lib \<Rightarrow> string \<Rightarrow> (int \<times> string option) list res" where
  "ParseGoAheadVlanNames L body =
     rbind (section_entries L body ''VLANList'' ''VLAN'' goahead_vlan_name) (\<lambda>found.
       unless_empty ''VLANList: no VLAN row could be parsed'' (fold (\<lambda>(vid, name). AList.update vid name) found []))"

record goahead_membership =
  gm_tagged :: "int list"
  gm_untagged :: "int list"

text \<open>The VLANs a port joins: the VLAN, the port, and whether it is untagged there.\<close>

definition joined_vlans :: "xml_node \<Rightarrow> (int \<times> int \<times> bool) list" where
  "joined_vlans e =
     (case (goaheadPortNum (gtext e ''interfaceName''), xml_find e ''JoinVLANList'') of
        (Some port, Some jvl) \<Rightarrow>
          concat (map (\<lambda>ve. case parseIntCell (gtext ve ''VLANID'') of
              None \<Rightarrow> []
            | Some vid \<Rightarrow> [(vid, port, gtext ve ''taggingMode'' = ''1'')]) (xml_findAll jvl ''VLANEntry''))
      | _ \<Rightarrow> [])"

definition ParseGoAheadPortVlanMembership :: "web_lib \<Rightarrow> string \<Rightarrow> (int \<times> goahead_membership) list res" where
  "ParseGoAheadPortVlanMembership L body =
     rbind (section_entries L body ''VLANInterfaceList'' ''Interface'' joined_vlans) (\<lambda>joins.
       let ports = (\<lambda>vid plain. sort_uniq (concat (map (\<lambda>(v, p, u). if v = vid \<and> u = plain then [p] else []) joins))) in
       Inr (map (\<lambda>vid. (vid, \<lparr>gm_tagged = ports vid False, gm_untagged = ports vid True\<rparr>)) (sort_uniq (map fst joins))))"

definition ParseGoAheadVlans :: "web_lib \<Rightarrow> string \<Rightarrow> string \<Rightarrow> vlan_info list res" where
  "ParseGoAheadVlans L vlansBody membershipBody =
     rbind (ParseGoAheadVlanNames L vlansBody) (\<lambda>names.
     rbind (ParseGoAheadPortVlanMembership L membershipBody) (\<lambda>membership.
     Inr (map (\<lambda>vid.
       let m = (case map_of membership vid of Some m \<Rightarrow> m | None \<Rightarrow> \<lparr>gm_tagged = [], gm_untagged = []\<rparr>) in
       \<lparr>vi_vlan_id = vid, vi_name = (case map_of names vid of Some n \<Rightarrow> n | None \<Rightarrow> None),
        vi_members = sort_uniq (gm_tagged m @ gm_untagged m), vi_tagged = gm_tagged m, vi_untagged = gm_untagged m\<rparr>)
       (sort_uniq (map fst names @ map fst membership)))))"

subsection \<open>Addresses, PoE, neighbours\<close>

definition goahead_mac :: "web_lib \<Rightarrow> xml_node \<Rightarrow> mac_entry list" where
  "goahead_mac L e =
     (case goaheadPortNum (gtext e ''interfaceName'') of
        None \<Rightarrow> []
      | Some port \<Rightarrow>
          let mac = upper L (gtext e ''MACAddress'') in
          if \<not> macTextFullMatch mac then []
          else [\<lparr>me_mac = mac, me_port = port, me_vlan_id = parseIntCell (gtext e ''VLANID'')\<rparr>])"

definition ParseGoAheadMacs :: "web_lib \<Rightarrow> string \<Rightarrow> mac_entry list res" where
  "ParseGoAheadMacs L body = section_entries L body ''ForwardingTable'' ''Entry'' (goahead_mac L)"

definition goaheadPoeDetect :: "(string \<times> poe_detect) list" where
  "goaheadPoeDetect = [(''1'', PoEDetectDisabled), (''2'', PoEDetectSearching), (''3'', PoEDetectDelivering),
     (''4'', PoEDetectFault), (''6'', PoEDetectFault)]"

definition goahead_poe :: "xml_node \<Rightarrow> poe_status list" where
  "goahead_poe e =
     (case goaheadPortNum (gtext e ''interfaceName'') of
        None \<Rightarrow> []
      | Some port \<Rightarrow> [\<lparr>poe_port = port, poe_admin_enabled = (gtext e ''adminEnable'' = ''1''),
          poe_detect = (case map_of goaheadPoeDetect (gtext e ''detectionStatus'') of Some d \<Rightarrow> d | None \<Rightarrow> PoEDetectUnknown),
          poe_power_mw = parseIntCell (gtext e ''outputPower'')\<rparr>])"

definition ParseGoAheadPoE :: "web_lib \<Rightarrow> string \<Rightarrow> poe_status list res" where
  "ParseGoAheadPoE L body =
     rbind (section_entries L body ''PoEPSEInterfaceList'' ''Interface'' goahead_poe)
       (unless_empty ''PoEPSEInterfaceList: no PoE port row could be parsed'')"

definition macColonHexRE :: rx where
  "macColonHexRE = rx_whole [rx_times 2 (Rx_Set is_hex_digit), Rx_Group 1 (rx_cat [rx_lit '':'', rx_times 2 (Rx_Set is_hex_digit)]),
     rx_times 4 (rx_cat [rx_lit '':'', rx_times 2 (Rx_Set is_hex_digit)])]"

definition canonLLDPID :: "web_lib \<Rightarrow> string \<Rightarrow> string" where
  "canonLLDPID L t = (if MatchString macColonHexRE t then upper L t else t)"

definition goahead_neighbour :: "web_lib \<Rightarrow> xml_node \<Rightarrow> lldp_neighbor list" where
  "goahead_neighbour L e =
     (case goaheadPortNum (gtext e ''interfaceName'') of
        None \<Rightarrow> []
      | Some port \<Rightarrow> [\<lparr>ln_local_port = port, ln_sys_name = some_unless_empty (gtext e ''systemName''),
          ln_port_desc = some_unless_empty (gtext e ''portDescription''),
          ln_chassis_id = some_unless_empty (canonLLDPID L (gtext e ''deviceID'')),
          ln_port_id = some_unless_empty (canonLLDPID L (gtext e ''advertisedPortID''))\<rparr>])"

definition ParseGoAheadLLDP :: "web_lib \<Rightarrow> string \<Rightarrow> lldp_neighbor list res" where
  "ParseGoAheadLLDP L body = section_entries L body ''LLDPMEDNeighborList'' ''NeighborEntry'' (goahead_neighbour L)"

subsection \<open>Sensors and identity\<close>

definition goaheadAbsentStatus :: "string list" where "goaheadAbsentStatus = [[], ''5'']"

definition goaheadStateSensor :: "xml_node \<Rightarrow> string \<Rightarrow> string \<Rightarrow> string \<Rightarrow> sensor list" where
  "goaheadStateSensor e tag name kind =
     (let raw = gtext e tag in
      if raw \<in> set goaheadAbsentStatus then []
      else [\<lparr>se_name = name, se_kind = kind, se_value = Float64 (if raw = ''1'' then 1 else 0), se_unit = ''state''\<rparr>])"

definition ParseGoAheadSensors :: "web_lib \<Rightarrow> string \<Rightarrow> sensor list res" where
  "ParseGoAheadSensors L body =
     rbind (goaheadSection L body ''DiagnosticsUnitList'') (\<lambda>sec.
       case xml_find sec ''Entry'' of
         None \<Rightarrow> Inr []
       | Some e \<Rightarrow> Inr (
           concat (map (\<lambda>n. goaheadStateSensor e (''fan'' @ show_int n @ ''Status'') (''Fan'' @ show_int n) ''fan'') [1 .. 5]) @
           goaheadStateSensor e ''mainPSStatus'' ''Main PS'' ''power'' @
           goaheadStateSensor e ''redundantPSStatus'' ''Redundant PS'' ''power'' @
           (case parseIntCell (gtext e ''tempSensorValue'') of
              Some temp \<Rightarrow> if 0 < temp then [\<lparr>se_name = ''Temperature'', se_kind = ''temperature'', se_value = Float64 temp,
                se_unit = ''C''\<rparr>] else []
            | None \<Rightarrow> [])))"

definition ParseGoAheadBaseMAC :: "web_lib \<Rightarrow> string \<Rightarrow> string option res" where
  "ParseGoAheadBaseMAC L body =
     rbind (goaheadSection L body ''DeviceBasicInfo'') (\<lambda>sec. Inr (some_unless_empty (upper L (gtext sec ''MacAddre''))))"

definition ParseGoAheadHostname :: "web_lib \<Rightarrow> string \<Rightarrow> string res" where
  "ParseGoAheadHostname L body = rbind (goaheadSection L body ''DeviceBasicInfo'') (\<lambda>sec. Inr (gtext sec ''deviceName''))"

text \<open>The text of an element two levels down; nothing when a level is missing or the text is empty.\<close>

definition text_in :: "xml_node \<Rightarrow> string \<Rightarrow> string \<Rightarrow> string \<Rightarrow> string option" where
  "text_in tree a b tag =
     (case xml_find tree a of
        None \<Rightarrow> None
      | Some l \<Rightarrow> (case xml_find l b of None \<Rightarrow> None | Some e \<Rightarrow> some_unless_empty (gtext e tag)))"

definition ParseGoAheadMgmtIP :: "web_lib \<Rightarrow> string \<Rightarrow> mgmt_ip_config res" where
  "ParseGoAheadMgmtIP L body =
     rbind (goaheadDataBlock L body) (\<lambda>tree.
       let addr = text_in tree ''IPv4InterfaceList'' ''ifEntry'' ''IPAddr'';
           gateway = text_in tree ''IPv4GatewayList'' ''GWEntry'' ''IPAddr'' in
       if addr = None \<and> gateway = None
       then Inl (errUnexpectedPage ''IPConf: no IPv4 interface address or gateway found'' [])
       else Inr \<lparr>mg_mode = IPModeUnknown, mg_address = addr,
         mg_netmask = text_in tree ''IPv4InterfaceList'' ''ifEntry'' ''subnetMask'', mg_gateway = gateway, mg_base_mac = None\<rparr>)"

end
