(* ===== verification/Web_Endpoints.thy ===== *)
theory Web_Endpoints
  imports Web_Goahead
begin

section \<open>The forms the writer posts (webui/forms.go, webui/types.go)\<close>

text \<open>
  Every body is a Go map of field names to values, an association list here.  A change of one row of a
  list page is sent as that row alone: its fields, its box, the tokens and the navigation of the page,
  the hidden block and the button.
\<close>

definition web_errHTTP :: "string \<Rightarrow> msg_arg list \<Rightarrow> go_error" where
  "web_errHTTP fmt args = Wraps fmt args ErrHTTP"

text \<open>The entries of one map written over another.\<close>

definition put_all :: "form_fields \<Rightarrow> form_fields \<Rightarrow> form_fields" where
  "put_all over base = fold (\<lambda>(k, v). AList.update k v) over base"

subsection \<open>The Plus pages\<close>

definition plusVlanWireCode :: "vlan_mode \<Rightarrow> string" where
  "plusVlanWireCode mode = (case mode of VlanUntagged \<Rightarrow> ''1'' | VlanTagged \<Rightarrow> ''2'' | VlanExcluded \<Rightarrow> ''3'')"

definition PoeApplyForm :: "int \<Rightarrow> bool \<Rightarrow> bool \<Rightarrow> string \<Rightarrow> form_fields" where
  "PoeApplyForm port on isEPX csrfHash =
     [(''ACTION'', ''Apply''), (''portID'', show_int (port - 1)), (''ADMIN_MODE'', if on then ''1'' else ''0''),
      (''PORT_PRIO'', ''0''), (''POW_MOD'', ''3''), (''POW_LIMT_TYP'', if isEPX then ''2'' else ''0''),
      (''DETEC_TYP'', ''2''), (''DISCONNECT_TYP'', ''2''), (''hash'', csrfHash)]"

definition PoeResetForm :: "int \<Rightarrow> string \<Rightarrow> form_fields" where
  "PoeResetForm port csrfHash =
     [(''ACTION'', ''Reset''), (''port'' @ show_int (port - 1), ''checked''), (''hash'', csrfHash)]"

definition PvidForm :: "int \<Rightarrow> int \<Rightarrow> string \<Rightarrow> form_fields" where
  "PvidForm port vlan csrfHash =
     [(''port'' @ show_int (port - 1), ''checked''), (''pvid'', show_int vlan), (''hash'', csrfHash)]"

text \<open>A port the map does not mention is excluded.\<close>

definition mode_or_excluded :: "(int \<times> vlan_mode) list \<Rightarrow> int \<Rightarrow> vlan_mode" where
  "mode_or_excluded states p = (case map_of states p of Some mode \<Rightarrow> mode | None \<Rightarrow> VlanExcluded)"

definition MembershipHiddenMem :: "(int \<times> vlan_mode) list \<Rightarrow> int \<Rightarrow> string" where
  "MembershipHiddenMem states portCount = concat (map (\<lambda>p. plusVlanWireCode (mode_or_excluded states p)) [1 .. portCount])"

definition MembershipForm :: "int \<Rightarrow> string \<Rightarrow> string \<Rightarrow> form_fields" where
  "MembershipForm vlan hiddenMem csrfHash = [(''VLAN_ID'', show_int vlan), (''hiddenMem'', hiddenMem), (''hash'', csrfHash)]"

definition VlanAddForm :: "int \<Rightarrow> string \<Rightarrow> form_fields" where
  "VlanAddForm vlan csrfHash =
     [(''ACTION'', ''Add''), (''ADD_VLANID'', show_int vlan), (''status'', ''Enable''), (''hash'', csrfHash)]"

definition VlanDeleteForm :: "int \<Rightarrow> int \<Rightarrow> string \<Rightarrow> form_fields" where
  "VlanDeleteForm vlan checkboxIndex csrfHash =
     [(''ACTION'', ''Delete''), (''vlanck'' @ show_int checkboxIndex, show_int vlan), (''status'', ''Enable''), (''hash'', csrfHash)]"

definition RebootForm :: "string \<Rightarrow> form_fields" where "RebootForm csrfHash = [(''hash'', csrfHash)]"

subsection \<open>The membership page of the managed switches\<close>

abbreviation (input) fastpathMemApply :: string where "fastpathMemApply \<equiv> ''16''"
abbreviation (input) fastpathMemNoop :: string where "fastpathMemNoop \<equiv> ''0''"

definition FastpathMembershipForm :: "fastpath_membership \<Rightarrow> int \<Rightarrow> string option \<Rightarrow> bool \<Rightarrow> form_fields" where
  "FastpathMembershipForm page vlan hiddenMem apply =
     put_all ([(''vlanId'', show_int vlan), (''hiddenTagged'', []), (''hiddenUnTagged'', []),
       (''submt'', if apply then fastpathMemApply else fastpathMemNoop)] @
       (case hiddenMem of None \<Rightarrow> [] | Some codes \<Rightarrow> [(''hiddenMem'', codes)])) (fm_fields page)"

subsection \<open>The form pages\<close>

abbreviation (input) XUIOperationSubmit :: string where "XUIOperationSubmit \<equiv> ''8''"
abbreviation (input) XUIOperationReload :: string where "XUIOperationReload \<equiv> ''1''"

text \<open>The end of both bodies: the hidden block, the flags and the button, which the page must have.\<close>

definition submit_with :: "string \<Rightarrow> string \<Rightarrow> form_fields \<Rightarrow> form_fields \<Rightarrow> string \<Rightarrow> form_fields \<Rightarrow> form_fields res" where
  "submit_with what action hidden buttons button body =
     (case map_of buttons button of
        None \<Rightarrow> Inl (web_errHTTP (what @ '': page %q has no button %q'') [AStr action, AStr button])
      | Some label \<Rightarrow> Inr (put_all [(''submit_flag'', XUIOperationSubmit), (''err_flag'', ''0''), (''err_msg'', []), (button, label)]
          (put_all hidden body)))"

text \<open>
  The changed columns, each one the row shows; of several it does not show, the error names the first
  Go meets in the map.
\<close>

definition XuiRowApplyForm ::
    "web_lib \<Rightarrow> xui_list_page \<Rightarrow> xui_row \<Rightarrow> form_fields \<Rightarrow> string \<Rightarrow> string list \<Rightarrow> form_fields res" where
  "XuiRowApplyForm L page row changes button omit =
     (let dropped = map (\<lambda>column. xr_prefix row @ column) omit;
          body = put_all (filter (\<lambda>(k, v). k \<notin> set dropped) (xr_fields row)) (put_all (xl_nav page) (xl_tokens page)) in
      case List.find (\<lambda>column. map_of (xr_fields row) (xr_prefix row @ column) = None) (wl_order L (map fst changes)) of
        Some column \<Rightarrow> Inl (web_errHTTP ''xui_row_apply_form: row %q does not render column %q'' [AStr (xr_prefix row), AStr column])
      | None \<Rightarrow>
          submit_with ''xui_row_apply_form'' (xl_action page) (xl_hidden page) (xl_buttons page) button
            (put_all (map (\<lambda>(column, v). (xr_prefix row @ column, v)) changes @
              (case xr_checkbox row of None \<Rightarrow> [] | Some box \<Rightarrow> [(box, ''on'')])) body))"

definition XuiFormApplyForm :: "web_lib \<Rightarrow> xui_form_page \<Rightarrow> form_fields \<Rightarrow> string \<Rightarrow> form_fields res" where
  "XuiFormApplyForm L page changes button =
     (case List.find (\<lambda>name. map_of (xf_fields page) name = None) (wl_order L (map fst changes)) of
        Some name \<Rightarrow> Inl (web_errHTTP ''xui_form_apply_form: page %q does not render field %q'' [AStr (xf_action page), AStr name])
      | None \<Rightarrow> submit_with ''xui_form_apply_form'' (xf_action page) (xf_hidden page) (xf_buttons page) button
          (put_all changes (xf_fields page)))"

subsection \<open>gs110emx\<close>

abbreviation (input) emxCtrlModeAuto :: string where "emxCtrlModeAuto \<equiv> ''1''"
abbreviation (input) emxCtrlModeDisable :: string where "emxCtrlModeDisable \<equiv> ''3''"
abbreviation (input) emxDHCPOn :: string where "emxDHCPOn \<equiv> ''1''"
abbreviation (input) emxDHCPOff :: string where "emxDHCPOff \<equiv> ''2''"

definition GS110EMXSwitchInfoForm :: "string \<Rightarrow> string \<Rightarrow> string \<Rightarrow> string \<Rightarrow> string \<Rightarrow> form_fields" where
  "GS110EMXSwitchInfoForm switchName dhcpMode ipAddress subnetMask gatewayAddress =
     [(''switch_name'', switchName), (''dhcp_mode'', dhcpMode), (''refresh'', ''0''), (''IP_ADDRESS'', ipAddress),
      (''SUBNET_MASK'', subnetMask), (''GATEWAY_ADDRESS'', gatewayAddress), (''refreshFlag'', ''0''), (''errMsg'', []),
      (''ACTION'', ''Apply'')]"

definition GS110EMXPortAdminForm :: "int \<Rightarrow> bool \<Rightarrow> string \<Rightarrow> form_fields" where
  "GS110EMXPortAdminForm port enabled flowControlMode =
     [(''PORT_NO'', show_int port @ '';''), (''PORT_CTRL_MODE'', if enabled then emxCtrlModeAuto else emxCtrlModeDisable),
      (''PORT_CTRL_DUPLEX'', ''0''), (''PORT_CTRL_SPEED'', ''0''), (''FLOW_CONTROL_MODE'', flowControlMode), (''ACTION'', ''apply'')]"

subsection \<open>What the bodies say\<close>

lemma map_of_put_all:
  "map_of (put_all over base) = map_of base ++ map_of (rev over)"
proof (induction over arbitrary: base)
  case Nil
  show ?case by (simp add: put_all_def)
next
  case (Cons p over)
  obtain k v where p: "p = (k, v)" by (cases p)
  have "map_of (put_all (p # over) base) = map_of (put_all over (AList.update k v base))"
    by (simp add: put_all_def p)
  also have "\<dots> = map_of (AList.update k v base) ++ map_of (rev over)" by (rule Cons.IH)
  also have "\<dots> = map_of base ++ map_of (rev (p # over))"
    by (rule ext) (simp add: p update_conv map_add_def split: option.splits)
  finally show ?case .
qed

text \<open>Where the form of a row may speak: the page's own blocks, the box and the button, the row.\<close>

definition row_names :: "xui_list_page \<Rightarrow> xui_row \<Rightarrow> string \<Rightarrow> string set" where
  "row_names page row button =
     fst ` set (xl_tokens page) \<union> fst ` set (xl_nav page) \<union> fst ` set (xl_hidden page) \<union> fst ` set (xr_fields row) \<union>
     set_option (xr_checkbox row) \<union> {''submit_flag'', ''err_flag'', ''err_msg'', button}"

lemma map_of_rev_cases:
  assumes "map_of (rev xs) k = Some v" shows "(k, v) \<in> set xs"
  using map_of_SomeD [OF assms] by simp

lemma dom_put_all: "fst ` set (put_all over base) = fst ` set base \<union> fst ` set over"
proof -
  have "fst ` set (put_all over base) = dom (map_of base ++ map_of (rev over))"
    by (metis map_of_put_all dom_map_of_conv_image_fst)
  then show ?thesis by (auto simp: dom_map_of_conv_image_fst)
qed

section \<open>The endpoints of the web interfaces (webui/endpoints.go)\<close>

text \<open>
  Which page each operation reads or posts to, model by model, how the model logs in and in which of
  seven dialects its pages are written.  A path that is empty stands for a page the model has not.
\<close>

datatype login_scheme =
  LoginSchemeMergeHashCGI | LoginSchemeGambit | LoginSchemeCheetahForm | LoginSchemeCheetahV1 | LoginSchemeXMLAPI

datatype html_dialect =
  HTMLDialectStandard | HTMLDialectGS110EMX | HTMLDialectGS105PE | HTMLDialectM4300 | HTMLDialectXEFastpath
| HTMLDialectS3300 | HTMLDialectGoAheadXML

definition DialectHasCSRFHash :: "html_dialect \<Rightarrow> bool" where
  "DialectHasCSRFHash dialect \<longleftrightarrow> dialect = HTMLDialectStandard \<or> dialect = HTMLDialectGS105PE"

record xui_mgmt_ip_fields =
  mf_address :: string
  mf_netmask :: string
  mf_gateway :: string
  mf_mode :: string
  mf_static_value :: string
  mf_dhcp_value :: string
  mf_apply_button :: string

definition mgmtIPFieldsGSM72xx :: xui_mgmt_ip_fields where
  "mgmtIPFieldsGSM72xx =
     \<lparr>mf_address = ''v_1_1_1'', mf_netmask = ''v_1_2_1'', mf_gateway = ''v_1_3_1'', mf_mode = ''v_1_18_1'',
      mf_static_value = ''None'', mf_dhcp_value = ''DHCP'', mf_apply_button = ''v_3_1_1''\<rparr>"

definition mgmtIPFieldsM4300 :: xui_mgmt_ip_fields where
  "mgmtIPFieldsM4300 =
     \<lparr>mf_address = ''v_1_6_1'', mf_netmask = ''v_1_7_1'', mf_gateway = ''v_1_71_1'', mf_mode = ''v_1_5_3'',
      mf_static_value = ''Disable'', mf_dhcp_value = ''Enable'', mf_apply_button = ''v_3_1_1''\<rparr>"

record http_model_spec =
  ep_model_key :: string
  ep_scheme :: login_scheme
  ep_scheme_verified :: bool
  ep_login_path :: string
  ep_password_field :: string
  ep_cookie_name :: string
  ep_needs_rand :: bool
  ep_dashboard_path :: string
  ep_stats_path :: string
  ep_poe_config_path :: string
  ep_poe_status_path :: string
  ep_vlan_config_path :: string
  ep_vlan_membership_path :: string
  ep_pvid_path :: string
  ep_reboot_path :: string
  ep_logout_path :: string
  ep_is_epx_poe :: bool
  ep_reads_verified :: bool
  ep_session_token_field :: string
  ep_login_post_path :: string
  ep_sysinfo_path :: string
  ep_mgmt_ip_path :: string
  ep_html_dialect :: html_dialect
  ep_mac_table_path :: string
  ep_username_field :: string
  ep_username :: string
  ep_needs_referer :: bool
  ep_lldp_path :: string
  ep_cert_upload_path :: string
  ep_cert_upload_file_field :: string
  ep_cert_upload_form_fields :: "(string \<times> string) list"
  ep_secure :: bool
  ep_vlan_membership_post_path :: string
  ep_web_port :: "int option"
  ep_port_config_path :: string
  ep_mgmt_ip_fields :: "xui_mgmt_ip_fields option"
  ep_users_path :: string
  ep_http_service_path :: string
  ep_https_service_path :: string
  ep_ssh_service_path :: string
  ep_telnet_service_path :: string
  ep_syslog_path :: string
  ep_xml_write_path :: string

text \<open>A specification with every other field at the zero value of its type.\<close>

definition empty_spec :: "login_scheme \<Rightarrow> html_dialect \<Rightarrow> http_model_spec" where
  "empty_spec scheme dialect = \<lparr>
     ep_model_key = [], ep_scheme = scheme, ep_scheme_verified = False, ep_login_path = [], ep_password_field = [],
     ep_cookie_name = [], ep_needs_rand = False, ep_dashboard_path = [], ep_stats_path = [], ep_poe_config_path = [],
     ep_poe_status_path = [], ep_vlan_config_path = [], ep_vlan_membership_path = [], ep_pvid_path = [],
     ep_reboot_path = [], ep_logout_path = [], ep_is_epx_poe = False, ep_reads_verified = False,
     ep_session_token_field = [], ep_login_post_path = [], ep_sysinfo_path = [], ep_mgmt_ip_path = [], ep_html_dialect
     = dialect, ep_mac_table_path = [], ep_username_field = [], ep_username = [], ep_needs_referer = False,
     ep_lldp_path = [], ep_cert_upload_path = [], ep_cert_upload_file_field = [], ep_cert_upload_form_fields = [],
     ep_secure = False, ep_vlan_membership_post_path = [], ep_web_port = None, ep_port_config_path = [],
     ep_mgmt_ip_fields = None, ep_users_path = [], ep_http_service_path = [], ep_https_service_path = [],
     ep_ssh_service_path = [], ep_telnet_service_path = [], ep_syslog_path = [], ep_xml_write_path = []\<rparr>"

subsection \<open>Paths\<close>

definition fastpathVlanMembership :: string where "fastpathVlanMembership = ''/switching/dot1q/vlan_port_cfg.html''"

definition fastpathVlanMembershipRW :: string where "fastpathVlanMembershipRW = ''/switching/dot1q/vlan_port_cfg_rw.html''"

definition m4300VlanMembership :: string where "m4300VlanMembership = ''/v1'' @ fastpathVlanMembership"

definition m4300VlanMembershipRW :: string where "m4300VlanMembershipRW = ''/v1'' @ fastpathVlanMembershipRW"

definition fastpathPortConfig :: string where "fastpathPortConfig = ''/portsConfiguration.html''"

definition fastpathPoEConfig :: string where "fastpathPoEConfig = ''/poeInterfaceConfiguration.html''"

definition gsm72xxMgmtIPPath :: string where "gsm72xxMgmtIPPath = ''/ipConfiguration.html''"

definition m4300MgmtIPPath :: string where "m4300MgmtIPPath = ''/v1/mgmtVlanIpv4Configuration.html''"

definition m4300PortConfigPath :: string where "m4300PortConfigPath = ''/v1'' @ fastpathPortConfig"

definition m4300PoEConfigPath :: string where "m4300PoEConfigPath = ''/v1'' @ fastpathPoEConfig"

definition fastpathUsers :: string where "fastpathUsers = ''/userManagement.html''"

definition m4300UsersPath :: string where "m4300UsersPath = ''/v1'' @ fastpathUsers"

definition fastpathHTTPServicePath :: string where "fastpathHTTPServicePath = ''/httpConfiguration.html''"

definition fastpathHTTPSServicePath :: string where "fastpathHTTPSServicePath = ''/httpsConfiguration.html''"

definition fastpathSSHServicePath :: string where "fastpathSSHServicePath = ''/sshConfiguration.html''"

definition fastpathTelnetServicePath :: string where "fastpathTelnetServicePath = ''/telnet.html''"

definition m4300HTTPServicePath :: string where "m4300HTTPServicePath = ''/v1'' @ fastpathHTTPServicePath"

definition fastpathSyslog :: string where "fastpathSyslog = ''/syslogConfiguration.html''"

definition m4300SyslogPath :: string where "m4300SyslogPath = ''/v1'' @ fastpathSyslog"

definition m4300HTTPSServicePath :: string where "m4300HTTPSServicePath = ''/v1'' @ fastpathHTTPSServicePath"

definition m4300SSHServicePath :: string where "m4300SSHServicePath = ''/v1'' @ fastpathSSHServicePath"

definition m4300TelnetServicePath :: string where "m4300TelnetServicePath = ''/v1'' @ fastpathTelnetServicePath"

subsection \<open>The models\<close>

definition gs305epSpec :: http_model_spec where
  "gs305epSpec = (empty_spec LoginSchemeMergeHashCGI HTMLDialectStandard)\<lparr>
    ep_model_key := ''gs305ep'', ep_scheme_verified := True, ep_login_path := ''/login.cgi'',
    ep_password_field := ''password'', ep_cookie_name := ''SID'', ep_needs_rand := True,
    ep_dashboard_path := ''/dashboard.cgi'', ep_stats_path := ''/portStatistics.cgi'',
    ep_poe_config_path := ''/PoEPortConfig.cgi'', ep_poe_status_path := ''/getPoePortStatus.cgi'',
    ep_vlan_config_path := ''/8021qCf.cgi'', ep_vlan_membership_path := ''/8021qMembe.cgi'',
    ep_pvid_path := ''/portPVID.cgi'', ep_reboot_path := ''/device_reboot.cgi'', ep_logout_path := ''/logout.cgi'',
    ep_is_epx_poe := True, ep_reads_verified := True, ep_username := ''admin''\<rparr>"

definition gs110emxSpec :: http_model_spec where
  "gs110emxSpec = (empty_spec LoginSchemeGambit HTMLDialectGS110EMX)\<lparr>
    ep_model_key := ''gs110emx'', ep_scheme_verified := True, ep_login_path := ''/'',
    ep_login_post_path := ''/redirect.html'', ep_password_field := ''LoginPassword'', ep_cookie_name := [],
    ep_needs_rand := True, ep_dashboard_path := ''/iss/specific/port_settings.html'',
    ep_port_config_path := ''/iss/specific/port_settings.html'', ep_stats_path := ''/iss/specific/interface_stats.html'',
    ep_sysinfo_path := ''/iss/specific/sysInfo.html'', ep_vlan_config_path := ''/iss/specific/Cf8021q.html'',
    ep_vlan_membership_path := ''/iss/specific/vlanMembership.html'',
    ep_pvid_path := ''/iss/specific/vlan_pvidsetting.html'', ep_reboot_path := ''/iss/specific/sys_reload.html'',
    ep_logout_path := ''/iss/specific/logout.html'', ep_is_epx_poe := False, ep_reads_verified := True,
    ep_session_token_field := ''Gambit''\<rparr>"

definition cert_fields_gsm7228ps :: "(string \<times> string) list" where
  "cert_fields_gsm7228ps =
     [(''v_1_1_3'', ''HTTP''),
      (''v_1_1_2'', ''SSL Server Certificate PEM File''),
      (''v_1_2_1'', []),
      (''v_1_3_2'', '' not in progress''),
      (''v_1_3_3'', []),
      (''v_1_3_4'', []),
      (''v_1_9_1'', ''image1''),
      (''v_1_9_5'', []),
      (''v_1_9_2'', ''1''),
      (''v_1_9_3'', ''Enable''),
      (''v_1_19_1'', ''32''),
      (''v_1_20_1'', []),
      (''v_1_200_1'', []),
      (''v_2_3_1'', '' not in progress''),
      (''v_2_4_3'', ''None''),
      (''v_2_4_2'', '' not in progress''),
      (''v_4_1_1'', []),
      (''submit_flag'', ''8''),
      (''submit_target'', ''http_file_download.html''),
      (''err_flag'', ''0''),
      (''err_msg'', []),
      (''clazz_information'', ''http_file_download.html'')]"

definition gsm7228psSpec :: http_model_spec where
  "gsm7228psSpec = (empty_spec LoginSchemeCheetahForm HTMLDialectS3300)\<lparr>
    ep_model_key := ''gsm7228ps'', ep_scheme_verified := True, ep_login_path := ''/base/cheetah_login.html'',
    ep_password_field := ''pwd'', ep_username_field := ''uname'', ep_username := ''admin'', ep_cookie_name := ''SID'',
    ep_needs_rand := False, ep_dashboard_path := ''/portsConfiguration.html'', ep_port_config_path := fastpathPortConfig,
    ep_stats_path := ''/portStatistics.html'', ep_sysinfo_path := ''/base/system/management/sysInfo.html'',
    ep_mgmt_ip_path := gsm72xxMgmtIPPath, ep_mgmt_ip_fields := Some mgmtIPFieldsGSM72xx,
    ep_mac_table_path := ''/basicAddressTable.html'', ep_lldp_path := ''/lldpRemoteInventory.html'',
    ep_poe_config_path := ''/poeInterfaceConfiguration.html'', ep_poe_status_path := ''/poeInterfaceConfiguration.html'',
    ep_vlan_config_path := ''/vlanStatus.html'', ep_vlan_membership_path := fastpathVlanMembership,
    ep_vlan_membership_post_path := fastpathVlanMembershipRW, ep_pvid_path := ''/portPvidConfiguration.html'',
    ep_syslog_path := fastpathSyslog, ep_is_epx_poe := False, ep_reads_verified := True,
    ep_cert_upload_path := ''/http_file_download.html/a1'', ep_cert_upload_file_field := ''.v_1_3_1_handle'',
    ep_cert_upload_form_fields := cert_fields_gsm7228ps\<rparr>"

definition gs105peSpec :: http_model_spec where
  "gs105peSpec = (empty_spec LoginSchemeMergeHashCGI HTMLDialectGS105PE)\<lparr>
    ep_model_key := ''gs105pe'', ep_scheme_verified := True, ep_login_path := ''/login.cgi'',
    ep_password_field := ''password'', ep_cookie_name := ''SID'', ep_needs_rand := True,
    ep_dashboard_path := ''/status.cgi'', ep_stats_path := ''/portStatistics.cgi'', ep_sysinfo_path := ''/switch_info.cgi'',
    ep_vlan_config_path := ''/8021qCf.cgi'', ep_vlan_membership_path := ''/8021qMembe.cgi'',
    ep_pvid_path := ''/portPVID.cgi'', ep_reboot_path := ''/device_reboot.cgi'', ep_logout_path := ''/logout.cgi'',
    ep_is_epx_poe := False, ep_reads_verified := True, ep_username := ''admin''\<rparr>"

definition m430024xSpec :: http_model_spec where
  "m430024xSpec = (empty_spec LoginSchemeCheetahV1 HTMLDialectM4300)\<lparr>
    ep_model_key := ''m4300-24x'', ep_scheme_verified := True, ep_login_path := ''/'',
    ep_login_post_path := ''/v1/base/cheetah_login.html'', ep_password_field := ''pwd'', ep_username_field := ''uname'',
    ep_username := ''admin'', ep_cookie_name := ''SID'', ep_needs_rand := False, ep_needs_referer := True,
    ep_dashboard_path := ''/v1/portsConfiguration.html'', ep_port_config_path := m4300PortConfigPath,
    ep_stats_path := ''/v1/portStatistics.html'', ep_sysinfo_path := ''/v1/base/system/management/sysInfo.html'',
    ep_mgmt_ip_path := m4300MgmtIPPath, ep_mgmt_ip_fields := Some mgmtIPFieldsM4300,
    ep_mac_table_path := ''/v1/basicAddressTable.html'', ep_lldp_path := ''/v1/lldpRemoteInventory.html'',
    ep_vlan_config_path := ''/v1/vlanStatus.html'', ep_vlan_membership_path := m4300VlanMembership,
    ep_vlan_membership_post_path := m4300VlanMembershipRW, ep_pvid_path := ''/v1/portPvidConfiguration.html'',
    ep_users_path := m4300UsersPath, ep_http_service_path := m4300HTTPServicePath,
    ep_https_service_path := m4300HTTPSServicePath, ep_ssh_service_path := m4300SSHServicePath,
    ep_telnet_service_path := m4300TelnetServicePath, ep_syslog_path := m4300SyslogPath, ep_is_epx_poe := False,
    ep_reads_verified := True\<rparr>"

definition m430016xSpec :: http_model_spec where
  "m430016xSpec = m430024xSpec\<lparr>ep_model_key := ''m4300-16x'', ep_reads_verified := True, ep_cookie_name := ''SIDSSL'',
    ep_poe_status_path := m4300PoEConfigPath, ep_poe_config_path := m4300PoEConfigPath, ep_secure := True,
    ep_web_port := Some 49152\<rparr>"

definition gsm7252psSpec :: http_model_spec where
  "gsm7252psSpec = (empty_spec LoginSchemeCheetahForm HTMLDialectXEFastpath)\<lparr>
    ep_model_key := ''gsm7252ps'', ep_scheme_verified := True, ep_login_path := ''/base/cheetah_login.html'',
    ep_password_field := ''pwd'', ep_username_field := ''uname'', ep_username := ''admin'', ep_cookie_name := ''SID'',
    ep_needs_rand := False, ep_dashboard_path := ''/portsConfiguration.html'', ep_port_config_path := fastpathPortConfig,
    ep_stats_path := ''/portStatistics.html'', ep_sysinfo_path := ''/base/system/management/sysInfo.html'',
    ep_mgmt_ip_path := gsm72xxMgmtIPPath, ep_mgmt_ip_fields := Some mgmtIPFieldsGSM72xx,
    ep_mac_table_path := ''/basicAddressTable.html'', ep_lldp_path := ''/lldpRemoteInventory.html'',
    ep_poe_config_path := fastpathPoEConfig, ep_poe_status_path := fastpathPoEConfig,
    ep_vlan_config_path := ''/vlanStatus.html'', ep_vlan_membership_path := fastpathVlanMembership,
    ep_vlan_membership_post_path := fastpathVlanMembershipRW, ep_pvid_path := ''/portPvidConfiguration.html'',
    ep_users_path := fastpathUsers, ep_http_service_path := fastpathHTTPServicePath,
    ep_https_service_path := fastpathHTTPSServicePath, ep_ssh_service_path := fastpathSSHServicePath,
    ep_telnet_service_path := fastpathTelnetServicePath, ep_syslog_path := fastpathSyslog, ep_is_epx_poe := False,
    ep_reads_verified := True\<rparr>"

definition gs728tppSpec :: http_model_spec where
  "gs728tppSpec = (empty_spec LoginSchemeXMLAPI HTMLDialectGoAheadXML)\<lparr>
    ep_model_key := ''gs728tpp'', ep_scheme_verified := True, ep_login_path := ''/'', ep_password_field := ''password'',
    ep_username_field := ''user'', ep_username := ''admin'', ep_cookie_name := ''sessionID'', ep_needs_rand := False,
    ep_dashboard_path := ''wcd?{file=/Switching/Ports/portConfiguration_master_jq.htm}{Standard802_3List}'',
    ep_stats_path := [],
    ep_sysinfo_path := ''wcd?{file=/System/Management/SystemInfo_master_745.xml}'' @ ''{DeviceBasicInfo}{TimeSetting}{DiagnosticsUnitList}'',
    ep_mgmt_ip_path := ''wcd?{file=/System/Management/IPConf_master.xml}'' @ ''{IPv4InterfaceList}{IPv4GatewayList}'',
    ep_poe_status_path := ''wcd?{file=/System/PoE/PoeInterfaceConf_master.xml}{PoEPSEInterfaceList}'',
    ep_vlan_config_path := ''wcd?{file=/Switching/VLAN/VlanConfBasic_master.xml}{VLANList}'', ep_vlan_membership_path := [],
    ep_pvid_path := ''wcd?{file=/Switching/VLAN/PortPvidConf_master_745.xml}{VLANInterfaceList}'',
    ep_mac_table_path := ''wcd?{file=/Switching/Address Table/DynamicAddresses_master.xml}'' @ ''{ForwardingTable}'',
    ep_lldp_path := ''wcd?{file=/System/LLDP/NeighborsInformation_master.xml}{LLDPMEDNeighborList}'',
    ep_is_epx_poe := False, ep_cert_upload_path := ''wcd'', ep_xml_write_path := ''wcd'', ep_reads_verified := True\<rparr>"

definition HTTPSpecs :: "(string \<times> http_model_spec) list" where
  "HTTPSpecs = map (\<lambda>s. (ep_model_key s, s))
     [gs305epSpec, gs110emxSpec, gsm7228psSpec, gs105peSpec, m430024xSpec, m430016xSpec, gsm7252psSpec, gs728tppSpec]"

definition HTTPSpec :: "switch_model \<Rightarrow> http_model_spec res" where
  "HTTPSpec m =
     (if \<not> HasBackend m BackendHTTP
      then Inl (Wraps ''model %q has no HTTP backend'' [AStr (sm_key m)] ErrUnsupportedCapability)
      else (case map_of HTTPSpecs (sm_key m) of
        None \<Rightarrow> Inl (Wraps ''model %q has an HTTP backend but no endpoint spec'' [AStr (sm_key m)] ErrUnsupportedCapability)
      | Some spec \<Rightarrow> Inr spec))"

subsection \<open>What holds of every specification\<close>

lemmas spec_defs =
  gs305epSpec_def gs110emxSpec_def gsm7228psSpec_def gs105peSpec_def m430024xSpec_def m430016xSpec_def gsm7252psSpec_def
  gs728tppSpec_def empty_spec_def

lemma HTTPSpec_cases:
  assumes "HTTPSpec m = Inr spec"
  shows "spec \<in> {gs305epSpec, gs110emxSpec, gsm7228psSpec, gs105peSpec, m430024xSpec, m430016xSpec, gsm7252psSpec, gs728tppSpec} \<and>
         ep_model_key spec = sm_key m"
proof -
  from assms have "map_of HTTPSpecs (sm_key m) = Some spec"
    by (auto simp: HTTPSpec_def split: if_splits option.splits)
  then have "(sm_key m, spec) \<in> set HTTPSpecs" by (rule map_of_SomeD)
  then show ?thesis by (auto simp: HTTPSpecs_def)
qed

text \<open>Every model with the web backend has a specification, under its own name.\<close>

lemma HTTPSpec_registered:
  assumes "m \<in> set Models" "HasBackend m BackendHTTP"
  shows "\<exists>spec. HTTPSpec m = Inr spec \<and> ep_model_key spec = sm_key m \<and> ep_reads_verified spec"
  using assms
  by (auto simp: Models_def HTTPSpec_def HTTPSpecs_def HasBackend_def spec_defs
      model_m4300_24x_def model_m4300_16x_def model_gsm7252ps_def model_gsm7228ps_def model_gs110emx_def model_gs305ep_def
      model_m7300_def model_xs748t_def model_gs728tpp_def model_gs105pe_def)

end
