(* ===== verification/Web_Reader.thy ===== *)
theory Web_Reader
  imports Web_Endpoints
begin

section \<open>The web reader (webui/reader.go, webui/types.go)\<close>

text \<open>
  Every read fetches the page the specification names and hands it to the parser of the model's
  dialect.  A session is a record of operations on a state of its own, the switch and the network
  behind it.
\<close>

subsection \<open>Sessions\<close>

record multipart_file =
  fl_field :: string
  fl_filename :: string
  fl_content :: string
  fl_content_type :: string

record 's web_session =
  ws_Login :: "('s, go_error, unit) action"
  ws_GetPage :: "string \<Rightarrow> ('s, go_error, string) action"
  ws_PostForm :: "string \<Rightarrow> form_fields \<Rightarrow> ('s, go_error, string) action"
  ws_PostMultipart :: "string \<Rightarrow> form_fields \<Rightarrow> multipart_file \<Rightarrow> ('s, go_error, string) action"
  ws_PostXML :: "string \<Rightarrow> string \<Rightarrow> ('s, go_error, string) action"

subsection \<open>Refusals\<close>

definition unsupportedOp :: "string \<Rightarrow> string \<Rightarrow> go_error" where
  "unsupportedOp modelKey op =
     Wraps (''model %q has no %s page in its HTTP endpoint spec (see webui/endpoints.go for whether that is a measured '' @
       ''absence or an undiscovered page)'') [AStr modelKey, AStr op] ErrUnsupportedCapability"

definition requirePath :: "string \<Rightarrow> string \<Rightarrow> string \<Rightarrow> string res" where
  "requirePath modelKey path op = (if path = [] then Inl (unsupportedOp modelKey op) else Inr path)"

definition unsupportedRead :: "string \<Rightarrow> string \<Rightarrow> go_error" where
  "unsupportedRead modelKey op =
     Wraps ''model %q web UI does not expose %s'' [AStr modelKey, AStr op] ErrUnsupportedCapability"

definition web_requireVerifiedReads :: "http_model_spec \<Rightarrow> unit res" where
  "web_requireVerifiedReads spec =
     (if ep_reads_verified spec then Inr ()
      else Inl (Wraps ''model %q HTTP reads are UNVERIFIED-pending-capture'' [AStr (ep_model_key spec)] ErrUnsupportedCapability))"

subsection \<open>Dialects\<close>

definition isGS110EMXDialect :: "http_model_spec \<Rightarrow> bool" where "isGS110EMXDialect s \<longleftrightarrow> ep_html_dialect s = HTMLDialectGS110EMX"
definition isGS105PEDialect :: "http_model_spec \<Rightarrow> bool" where "isGS105PEDialect s \<longleftrightarrow> ep_html_dialect s = HTMLDialectGS105PE"
definition isM4300Dialect :: "http_model_spec \<Rightarrow> bool" where "isM4300Dialect s \<longleftrightarrow> ep_html_dialect s = HTMLDialectM4300"
definition isXEFastpathDialect :: "http_model_spec \<Rightarrow> bool" where
  "isXEFastpathDialect s \<longleftrightarrow> ep_html_dialect s = HTMLDialectXEFastpath"
definition isS3300Dialect :: "http_model_spec \<Rightarrow> bool" where "isS3300Dialect s \<longleftrightarrow> ep_html_dialect s = HTMLDialectS3300"
definition isGoAheadDialect :: "http_model_spec \<Rightarrow> bool" where "isGoAheadDialect s \<longleftrightarrow> ep_html_dialect s = HTMLDialectGoAheadXML"

definition usesXEGrid :: "http_model_spec \<Rightarrow> bool" where "usesXEGrid s \<longleftrightarrow> isXEFastpathDialect s \<or> isS3300Dialect s"
definition isFastpathDialect :: "http_model_spec \<Rightarrow> bool" where "isFastpathDialect s \<longleftrightarrow> isM4300Dialect s \<or> usesXEGrid s"

lemmas dialect_defs =
  isGS110EMXDialect_def isGS105PEDialect_def isM4300Dialect_def isXEFastpathDialect_def isS3300Dialect_def
  isGoAheadDialect_def usesXEGrid_def isFastpathDialect_def

subsection \<open>The parser of a dialect\<close>

definition parsePorts :: "web_lib \<Rightarrow> http_model_spec \<Rightarrow> string \<Rightarrow> port_status list res" where
  "parsePorts L spec html =
     (if isGS110EMXDialect spec then ParseGS110EMXPortStatus L html
      else if isGS105PEDialect spec then ParseGS105PEPortStatus L html
      else if isM4300Dialect spec then ParseM4300PortStatus L html
      else if usesXEGrid spec then ParseXEPortStatus L html
      else if isGoAheadDialect spec then ParseGoAheadPorts L html
      else web_ParsePortStatus L html)"

definition parseStats :: "web_lib \<Rightarrow> http_model_spec \<Rightarrow> string \<Rightarrow> port_stats list res" where
  "parseStats L spec html =
     (if isGS110EMXDialect spec then ParseInterfaceStats html
      else if isGS105PEDialect spec then ParseGS105PEStats html
      else if isM4300Dialect spec then ParseM4300Stats L html
      else if usesXEGrid spec then ParseXEStats L html
      else web_ParsePortStats html)"

definition parsePoE :: "web_lib \<Rightarrow> http_model_spec \<Rightarrow> string \<Rightarrow> poe_status list res" where
  "parsePoE L spec html =
     (if isGoAheadDialect spec then ParseGoAheadPoE L html
      else if usesXEGrid spec \<or> isM4300Dialect spec then ParseXEPoE L html
      else web_ParsePoEStatus L html)"

definition parseLLDP :: "web_lib \<Rightarrow> http_model_spec \<Rightarrow> string \<Rightarrow> lldp_neighbor list res" where
  "parseLLDP L spec html = (if isGoAheadDialect spec then ParseGoAheadLLDP L html else ParseXELLDP L html)"

definition SupportsSensors :: "http_model_spec \<Rightarrow> bool" where
  "SupportsSensors spec \<longleftrightarrow> (isM4300Dialect spec \<or> isXEFastpathDialect spec \<or> isGoAheadDialect spec) \<and> ep_sysinfo_path spec \<noteq> []"

definition parseSensors :: "web_lib \<Rightarrow> http_model_spec \<Rightarrow> string \<Rightarrow> sensor list res" where
  "parseSensors L spec html =
     (if isGoAheadDialect spec then ParseGoAheadSensors L html
      else if isXEFastpathDialect spec then Inr (ParseXESensors L html)
      else Inr (ParseM4300Sensors html))"

definition parseMACs :: "web_lib \<Rightarrow> http_model_spec \<Rightarrow> string \<Rightarrow> mac_entry list res" where
  "parseMACs L spec html =
     (if isGoAheadDialect spec then ParseGoAheadMacs L html
      else if isS3300Dialect spec then ParseS3300Macs L html
      else if isXEFastpathDialect spec then ParseXEMacs L html
      else ParseM4300Macs L html)"

definition parsePVIDs :: "web_lib \<Rightarrow> http_model_spec \<Rightarrow> string \<Rightarrow> pvid list res" where
  "parsePVIDs L spec html =
     (if isGS110EMXDialect spec then ParseGS110EMXPVIDs html
      else if isGS105PEDialect spec then ParseGS105PEPVIDs html
      else if isM4300Dialect spec then ParseM4300PVIDs L html
      else if usesXEGrid spec then ParseXEPVIDs L html
      else if isGoAheadDialect spec then ParseGoAheadPVIDs L html
      else web_ParsePVIDs html)"

definition parseVlans :: "web_lib \<Rightarrow> http_model_spec \<Rightarrow> string \<Rightarrow> vlan_info list res" where
  "parseVlans L spec html =
     (if isS3300Dialect spec then ParseS3300Vlans L html
      else if usesXEGrid spec then ParseXEVlans L html
      else ParseM4300Vlans L html)"

definition parseVlanIDs :: "http_model_spec \<Rightarrow> string \<Rightarrow> int list res" where
  "parseVlanIDs spec html = (if isGS110EMXDialect spec then ParseGS110EMXVlanIDs html else ParseVLANIDs html)"

subsection \<open>The membership pages of the Plus switches\<close>

definition membershipForm :: "http_model_spec \<Rightarrow> int \<Rightarrow> string \<Rightarrow> form_fields" where
  "membershipForm spec vid csrfHash =
     [(''VLAN_ID'', show_int vid)] @ (if isGS110EMXDialect spec then [(''vlanIdSel'', show_int vid)] else []) @
     (if isGS105PEDialect spec \<and> csrfHash \<noteq> [] then [(''hash'', csrfHash)] else [])"

definition requireCSRFHash :: "string \<Rightarrow> string res" where
  "requireCSRFHash memberHTML =
     (case ParseCSRFHash memberHTML of
        None \<Rightarrow> Inl (errUnexpectedPage (''8021qMembe.cgi: no CSRF '' @ [TICK] @ ''hash'' @ [TICK] @ '' field -- without it the switch '' @
          ''ignores VLAN_ID and every VLAN would report the selected VLAN'' @ [TICK] @ ''s membership'') [])
      | Some csrf \<Rightarrow> Inr csrf)"

definition checkMembershipIsFor :: "http_model_spec \<Rightarrow> string \<Rightarrow> int \<Rightarrow> unit res" where
  "checkMembershipIsFor spec html vid =
     (if \<not> isGS105PEDialect spec then Inr ()
      else (case ParseSelectedVlan html of
        None \<Rightarrow> Inr ()
      | Some shown \<Rightarrow>
          if shown \<noteq> vid
          then Inl (errUnexpectedPage (''8021qMembe.cgi: asked for VLAN %d but the page shows VLAN %d -- refusing to report the wrong VLAN'' @
            [TICK] @ ''s membership'') [AInt vid, AInt shown])
          else Inr ()))"

definition vlanInfoFromMembership :: "int \<Rightarrow> string \<Rightarrow> int \<Rightarrow> vlan_info res" where
  "vlanInfoFromMembership vid membershipHTML portCount =
     rbind (ParseMembership membershipHTML portCount) (\<lambda>states.
       let ports = [1 .. portCount] in
       Inr \<lparr>vi_vlan_id = vid, vi_name = None,
         vi_members = filter (\<lambda>p. map_of states p \<in> {Some VlanTagged, Some VlanUntagged}) ports,
         vi_tagged = filter (\<lambda>p. map_of states p = Some VlanTagged) ports,
         vi_untagged = filter (\<lambda>p. map_of states p = Some VlanUntagged) ports\<rparr>)"

subsection \<open>The membership page of the managed switches\<close>

definition fastpathMembershipPaths :: "http_model_spec \<Rightarrow> string \<Rightarrow> (string \<times> string) res" where
  "fastpathMembershipPaths spec modelKey =
     rbind (requirePath modelKey (ep_vlan_membership_path spec) ''VLAN membership'') (\<lambda>getPath.
     rbind (requirePath modelKey (ep_vlan_membership_post_path spec) ''the VLAN-membership form target'') (\<lambda>postPath.
     Inr (getPath, postPath)))"

text \<open>A page that says it shows another VLAN.\<close>

definition shows_other :: "fastpath_membership \<Rightarrow> int \<Rightarrow> int option" where
  "shows_other page vid = (case fm_vlan_id page of None \<Rightarrow> None | Some shown \<Rightarrow> if shown \<noteq> vid then Some shown else None)"

definition checkFastpathMembershipIsFor :: "fastpath_membership \<Rightarrow> int \<Rightarrow> fastpath_membership res" where
  "checkFastpathMembershipIsFor page vid =
     (case shows_other page vid of
        Some shown \<Rightarrow> Inl (errUnexpectedPage (''vlan_port_cfg_rw.html: asked for VLAN %d but the page shows VLAN %d -- refusing to report the wrong VLAN'' @
          [TICK] @ ''s membership'') [AInt vid, AInt shown])
      | None \<Rightarrow> Inr page)"

definition withFastpathEgress :: "vlan_info list \<Rightarrow> (int \<times> fastpath_membership) list \<Rightarrow> vlan_info list" where
  "withFastpathEgress vlans pages =
     map (\<lambda>v. case map_of pages (vi_vlan_id v) of
         None \<Rightarrow> v
       | Some page \<Rightarrow> v\<lparr>vi_members := sort_uniq (fm_tagged page @ fm_untagged page), vi_tagged := fm_tagged page,
           vi_untagged := fm_untagged page\<rparr>) vlans"

subsection \<open>Management addresses\<close>

definition MgmtIPPath :: "http_model_spec \<Rightarrow> string" where
  "MgmtIPPath spec = (if ep_mgmt_ip_path spec \<noteq> [] then ep_mgmt_ip_path spec else ep_sysinfo_path spec)"

definition parseSysInfoForModel :: "http_model_spec \<Rightarrow> string \<Rightarrow> http_sys_info res" where
  "parseSysInfoForModel spec html = (if isGS105PEDialect spec then ParseGS105PESysInfo html else ParseSysInfo html)"

definition mgmtIPFromSysInfo :: "web_lib \<Rightarrow> http_sys_info \<Rightarrow> mgmt_ip_config" where
  "mgmtIPFromSysInfo L info =
     \<lparr>mg_mode = hs_ip_mode info, mg_address = Some (hs_ip_address info), mg_netmask = Some (hs_subnet_mask info),
      mg_gateway = Some (hs_gateway_address info), mg_base_mac = some_unless_empty (upper L (hs_mac_address info))\<rparr>"

definition mgmtIPFor :: "web_lib \<Rightarrow> http_model_spec \<Rightarrow> string \<Rightarrow> mgmt_ip_config res" where
  "mgmtIPFor L spec page =
     (if isGoAheadDialect spec then ParseGoAheadMgmtIP L page
      else (case ep_mgmt_ip_fields spec of
        Some f \<Rightarrow> ParseXUIMgmtIP L page (mf_address f) (mf_netmask f) (mf_gateway f) (mf_mode f) (ep_mgmt_ip_path spec)
      | None \<Rightarrow>
          if isS3300Dialect spec then ParseS3300Mgmt L page
          else if isXEFastpathDialect spec then ParseXEMgmtIP L page
          else if isM4300Dialect spec then ParseM4300Sysinfo L page
          else rbind (parseSysInfoForModel spec page) (\<lambda>info. Inr (mgmtIPFromSysInfo L info))))"

definition fastpathBaseMac :: "web_lib \<Rightarrow> http_model_spec \<Rightarrow> string \<Rightarrow> string option res" where
  "fastpathBaseMac L spec sysinfoHTML =
     rbind (if isS3300Dialect spec then ParseS3300Mgmt L sysinfoHTML
            else if isXEFastpathDialect spec then ParseXEMgmtIP L sysinfoHTML
            else ParseM4300Sysinfo L sysinfoHTML) (\<lambda>cfg. Inr (mg_base_mac cfg))"

definition needsFastpathBaseMac :: "http_model_spec \<Rightarrow> mgmt_ip_config \<Rightarrow> bool" where
  "needsFastpathBaseMac spec cfg \<longleftrightarrow> ep_mgmt_ip_fields spec \<noteq> None \<and> mg_base_mac cfg = None \<and> ep_sysinfo_path spec \<noteq> []"

section \<open>The operations of the web reader (webui/reader.go, second part)\<close>

text \<open>
  The reads over a session.  Construction refuses a model without the backend or with reads that are
  not verified, before any use of the session.
\<close>

record 's web_reader =
  wr_session :: "'s web_session"
  wr_spec :: http_model_spec
  wr_model :: switch_model

definition web_NewReader :: "'s web_session \<Rightarrow> switch_model \<Rightarrow> 's web_reader res" where
  "web_NewReader session m =
     rbind (HTTPSpec m) (\<lambda>spec.
     rbind (web_requireVerifiedReads spec) (\<lambda>_.
     Inr \<lparr>wr_session = session, wr_spec = spec, wr_model = m\<rparr>))"

abbreviation reader_key :: "'s web_reader \<Rightarrow> string" where "reader_key r \<equiv> sm_key (wr_model r)"

text \<open>One page, required by name, and its parser.\<close>

definition read_page :: "'s web_reader \<Rightarrow> string \<Rightarrow> string \<Rightarrow> (string \<Rightarrow> 'a res) \<Rightarrow> ('s, go_error, 'a) action" where
  "read_page r path0 op parse =
     sbind (sret (requirePath (reader_key r) path0 op)) (\<lambda>path.
     sbind (ws_GetPage (wr_session r) path) (\<lambda>html. sret (parse html)))"

definition web_GetPorts :: "web_lib \<Rightarrow> 's web_reader \<Rightarrow> ('s, go_error, port_status list) action" where
  "web_GetPorts L r = read_page r (ep_dashboard_path (wr_spec r)) ''port status'' (parsePorts L (wr_spec r))"

definition web_GetStats :: "web_lib \<Rightarrow> 's web_reader \<Rightarrow> ('s, go_error, port_stats list) action" where
  "web_GetStats L r = read_page r (ep_stats_path (wr_spec r)) ''port statistics'' (parseStats L (wr_spec r))"

definition web_GetPoE :: "web_lib \<Rightarrow> 's web_reader \<Rightarrow> ('s, go_error, poe_status list) action" where
  "web_GetPoE L r = read_page r (ep_poe_status_path (wr_spec r)) ''PoE status'' (parsePoE L (wr_spec r))"

definition web_GetPVIDs :: "web_lib \<Rightarrow> 's web_reader \<Rightarrow> ('s, go_error, pvid list) action" where
  "web_GetPVIDs L r = read_page r (ep_pvid_path (wr_spec r)) ''port PVIDs'' (parsePVIDs L (wr_spec r))"

definition web_GetMACs :: "web_lib \<Rightarrow> 's web_reader \<Rightarrow> ('s, go_error, mac_entry list) action" where
  "web_GetMACs L r = read_page r (ep_mac_table_path (wr_spec r)) ''a MAC/FDB table'' (parseMACs L (wr_spec r))"

definition web_GetLLDP :: "web_lib \<Rightarrow> 's web_reader \<Rightarrow> ('s, go_error, lldp_neighbor list) action" where
  "web_GetLLDP L r = read_page r (ep_lldp_path (wr_spec r)) ''LLDP neighbours'' (parseLLDP L (wr_spec r))"

definition web_GetUsers :: "web_lib \<Rightarrow> 's web_reader \<Rightarrow> ('s, go_error, switch_user list) action" where
  "web_GetUsers L r = read_page r (ep_users_path (wr_spec r)) ''local user accounts'' (ParseXUIUsers L)"

definition web_GetSyslog :: "web_lib \<Rightarrow> 's web_reader \<Rightarrow> ('s, go_error, syslog_config) action" where
  "web_GetSyslog L r = read_page r (ep_syslog_path (wr_spec r)) ''remote-logging configuration'' (ParseXUISyslog L)"

definition web_GetSensors :: "web_lib \<Rightarrow> 's web_reader \<Rightarrow> ('s, go_error, sensor list) action" where
  "web_GetSensors L r =
     (if \<not> SupportsSensors (wr_spec r) then sret (Inl (unsupportedRead (reader_key r) ''box sensors''))
      else sbind (ws_GetPage (wr_session r) (ep_sysinfo_path (wr_spec r))) (\<lambda>html. sret (parseSensors L (wr_spec r) html)))"

definition HasSysinfoHostname :: "http_model_spec \<Rightarrow> bool" where
  "HasSysinfoHostname spec \<longleftrightarrow>
     ep_sysinfo_path spec \<noteq> [] \<and> (isGS110EMXDialect spec \<or> isGS105PEDialect spec \<or> isGoAheadDialect spec)"

definition web_GetHostname :: "web_lib \<Rightarrow> 's web_reader \<Rightarrow> ('s, go_error, string) action" where
  "web_GetHostname L r =
     (if \<not> HasSysinfoHostname (wr_spec r) then sret (Inl (unsupportedRead (reader_key r) ''a host name field''))
      else sbind (ws_GetPage (wr_session r) (ep_sysinfo_path (wr_spec r))) (\<lambda>page.
        sret (if isGoAheadDialect (wr_spec r) then ParseGoAheadHostname L page
              else rbind (parseSysInfoForModel (wr_spec r) page) (\<lambda>info. Inr (hs_switch_name info)))))"

definition web_GetMgmtIP :: "web_lib \<Rightarrow> 's web_reader \<Rightarrow> ('s, go_error, mgmt_ip_config) action" where
  "web_GetMgmtIP L r =
     (let spec = wr_spec r; with_mac = (\<lambda>mac_of cfg.
            sbind (ws_GetPage (wr_session r) (ep_sysinfo_path spec)) (\<lambda>sysHTML.
            sbind (sret (mac_of sysHTML)) (\<lambda>mac. sret (Inr (cfg\<lparr>mg_base_mac := mac\<rparr>))))) in
      if MgmtIPPath spec = [] then sret (Inl (unsupportedRead (reader_key r) ''management-IP config''))
      else
        sbind (ws_GetPage (wr_session r) (MgmtIPPath spec)) (\<lambda>page.
        sbind (sret (mgmtIPFor L spec page)) (\<lambda>cfg.
        if isGoAheadDialect spec \<and> ep_sysinfo_path spec \<noteq> [] then with_mac (ParseGoAheadBaseMAC L) cfg
        else if needsFastpathBaseMac spec cfg then with_mac (fastpathBaseMac L spec) cfg
        else sret (Inr cfg))))"

subsection \<open>Services\<close>

definition HasServicePaths :: "http_model_spec \<Rightarrow> bool" where
  "HasServicePaths spec \<longleftrightarrow>
     ep_http_service_path spec \<noteq> [] \<and> ep_https_service_path spec \<noteq> [] \<and> ep_ssh_service_path spec \<noteq> [] \<and>
     ep_telnet_service_path spec \<noteq> []"

definition requireServicePaths :: "string \<Rightarrow> http_model_spec \<Rightarrow> (string \<times> string) list res" where
  "requireServicePaths modelKey spec =
     (if \<not> HasServicePaths spec then Inl (unsupportedOp modelKey ''management-service state (http/https/telnet/ssh)'')
      else
        let pathFor = [(''http'', ep_http_service_path spec), (''https'', ep_https_service_path spec),
              (''ssh'', ep_ssh_service_path spec), (''telnet'', ep_telnet_service_path spec)] in
        Inr (map (\<lambda>service. (service, text_of (map_of pathFor service))) ServiceNames))"

fun service_pages :: "web_lib \<Rightarrow> 's web_session \<Rightarrow> (string \<times> string) list \<Rightarrow> ('s, go_error, service_status list) action" where
  "service_pages L session [] = sret (Inr [])"
| "service_pages L session ((service, path) # paths) =
     sbind (ws_GetPage session path) (\<lambda>html.
     sbind (sret (ParseServicePage L html service)) (\<lambda>status.
     sbind (service_pages L session paths) (\<lambda>rest. sret (Inr (status # rest)))))"

definition web_GetServices :: "web_lib \<Rightarrow> 's web_reader \<Rightarrow> ('s, go_error, service_status list) action" where
  "web_GetServices L r =
     sbind (sret (requireServicePaths (reader_key r) (wr_spec r))) (\<lambda>paths. service_pages L (wr_session r) paths)"

subsection \<open>VLANs\<close>

text \<open>The page of one VLAN: what the form shows, or a post that selects it without applying anything.\<close>

definition ReadFastpathMembership :: "web_lib \<Rightarrow> 's web_reader \<Rightarrow> int \<Rightarrow> ('s, go_error, fastpath_membership) action" where
  "ReadFastpathMembership L r vlan =
     sbind (sret (fastpathMembershipPaths (wr_spec r) (reader_key r))) (\<lambda>(getPath, postPath).
     sbind (ws_GetPage (wr_session r) getPath) (\<lambda>html.
     sbind (sret (ParseFastpathMembership L html)) (\<lambda>page.
     if fm_vlan_id page = Some vlan then sret (Inr page)
     else
       sbind (ws_PostForm (wr_session r) postPath (FastpathMembershipForm page vlan None False)) (\<lambda>respHTML.
       sbind (sret (ParseFastpathMembership L respHTML)) (\<lambda>page2.
       sret (checkFastpathMembershipIsFor page2 vlan))))))"

fun membership_pages ::
    "web_lib \<Rightarrow> 's web_session \<Rightarrow> string \<Rightarrow> fastpath_membership \<Rightarrow> int list \<Rightarrow> (int \<times> fastpath_membership) list \<Rightarrow>
     ('s, go_error, (int \<times> fastpath_membership) list) action" where
  "membership_pages L session postPath base [] pages = sret (Inr pages)"
| "membership_pages L session postPath base (vid # vids) pages =
     (if fm_vlan_id base = Some vid then membership_pages L session postPath base vids (AList.update vid base pages)
      else
        sbind (ws_PostForm session postPath (FastpathMembershipForm base vid None False)) (\<lambda>respHTML.
        sbind (sret (ParseFastpathMembership L respHTML)) (\<lambda>page.
        sbind (sret (checkFastpathMembershipIsFor page vid)) (\<lambda>checked.
        membership_pages L session postPath base vids (AList.update vid checked pages)))))"

definition fastpathMembership ::
    "web_lib \<Rightarrow> 's web_reader \<Rightarrow> vlan_info list \<Rightarrow> ('s, go_error, (int \<times> fastpath_membership) list) action" where
  "fastpathMembership L r vlans =
     sbind (sret (fastpathMembershipPaths (wr_spec r) (reader_key r))) (\<lambda>(getPath, postPath).
     sbind (ws_GetPage (wr_session r) getPath) (\<lambda>baseHTML.
     sbind (sret (ParseFastpathMembership L baseHTML)) (\<lambda>base.
     membership_pages L (wr_session r) postPath base (map vi_vlan_id vlans) [])))"

text \<open>
  The Plus loop: a VLAN the fetched page already shows is not posted for again.  \<open>shown\<close> is that
  page with the VLAN it selects.
\<close>

fun plus_vlans ::
    "'s web_reader \<Rightarrow> string \<Rightarrow> (string \<times> int) option \<Rightarrow> string \<Rightarrow> int list \<Rightarrow> ('s, go_error, vlan_info list) action" where
  "plus_vlans r memberPath shown csrf [] = sret (Inr [])"
| "plus_vlans r memberPath shown csrf (vid # vids) =
     sbind (case shown of
         Some (page, selected) \<Rightarrow>
           if vid = selected then sret (Inr page)
           else ws_PostForm (wr_session r) memberPath (membershipForm (wr_spec r) vid csrf)
       | None \<Rightarrow> ws_PostForm (wr_session r) memberPath (membershipForm (wr_spec r) vid csrf)) (\<lambda>html.
     sbind (sret (checkMembershipIsFor (wr_spec r) html vid)) (\<lambda>_.
     sbind (sret (vlanInfoFromMembership vid html (sm_port_count (wr_model r)))) (\<lambda>info.
     sbind (plus_vlans r memberPath shown csrf vids) (\<lambda>rest. sret (Inr (info # rest))))))"

definition web_GetVLANs :: "web_lib \<Rightarrow> 's web_reader \<Rightarrow> ('s, go_error, vlan_info list) action" where
  "web_GetVLANs L r =
     (let spec = wr_spec r; session = wr_session r in
      sbind (sret (requirePath (reader_key r) (ep_vlan_config_path spec) ''VLAN configuration'')) (\<lambda>cfgPath.
      if isGoAheadDialect spec then
        sbind (sret (requirePath (reader_key r) (ep_pvid_path spec) ''VLAN membership'')) (\<lambda>pvidPath.
        sbind (ws_GetPage session cfgPath) (\<lambda>cfgHTML.
        sbind (ws_GetPage session pvidPath) (\<lambda>pvidHTML.
        sret (ParseGoAheadVlans L cfgHTML pvidHTML))))
      else if isFastpathDialect spec then
        sbind (ws_GetPage session cfgPath) (\<lambda>cfgHTML.
        sbind (sret (parseVlans L spec cfgHTML)) (\<lambda>vlans.
        sbind (fastpathMembership L r vlans) (\<lambda>pages.
        sret (Inr (withFastpathEgress vlans pages)))))
      else
        sbind (sret (requirePath (reader_key r) (ep_vlan_membership_path spec) ''VLAN membership'')) (\<lambda>memberPath.
        sbind (ws_GetPage session cfgPath) (\<lambda>cfgHTML.
        sbind (if isGS105PEDialect spec
               then sbind (ws_GetPage session memberPath) (\<lambda>memberPage.
                 sbind (sret (requireCSRFHash memberPage)) (\<lambda>csrf.
                 sret (Inr (map_option (Pair memberPage) (ParseSelectedVlan memberPage), csrf))))
               else sret (Inr (None, []))) (\<lambda>(shown, csrf).
        sbind (sret (parseVlanIDs spec cfgHTML)) (\<lambda>vlanIDs.
        plus_vlans r memberPath shown csrf vlanIDs))))))"

end
