(* ===== verification/Web_Goahead_Write.thy ===== *)
theory Web_Goahead_Write
  imports Web_Reader
begin

section \<open>The bodies and answers of the GoAhead interface (webui/goahead_write.go, webui/cert.go)\<close>

text \<open>
  The GS728TPP takes every write as an XML document at one path; the object and the verb inside select
  the operation.  Its answer carries a status code.  The certificate uploads are here too; reading and
  writing PEM and RSA keys is library code, a parameter.
\<close>

subsection \<open>XML\<close>

definition goahead_escape :: "char \<Rightarrow> string" where
  "goahead_escape ch =
     (if ch = CHR ''&'' then ''&amp;'' else if ch = CHR ''<'' then ''&lt;'' else if ch = CHR ''>'' then ''&gt;''
      else if ch = QUOTE then ''&quot;'' else if ch = TICK then ''&apos;'' else [ch])"

definition goaheadEscaper :: "string \<Rightarrow> string" where "goaheadEscaper s = concat (map goahead_escape s)"

definition xml_element :: "string \<Rightarrow> string \<Rightarrow> string" where
  "xml_element tag content = ''<'' @ tag @ ''>'' @ content @ ''</'' @ tag @ ''>''"

definition goaheadWrapped :: "string \<Rightarrow> (string \<times> string) list \<Rightarrow> string" where
  "goaheadWrapped tag kvs = xml_element tag (concat (map (\<lambda>(k, v). xml_element k (goaheadEscaper v)) kvs))"

definition goaheadEntry :: "(string \<times> string) list \<Rightarrow> string" where "goaheadEntry = goaheadWrapped ''Entry''"

definition goaheadAdminCode :: "bool \<Rightarrow> string" where "goaheadAdminCode enabled = (if enabled then ''1'' else ''2'')"

definition xml_header :: string where
  "xml_header = ''<?xml version='' @ [TICK] @ ''1.0'' @ [TICK] @ '' encoding='' @ [TICK] @ ''utf-8'' @ [TICK] @ ''?>''"

definition goaheadWriteBody :: "string \<Rightarrow> string \<Rightarrow> string \<Rightarrow> string" where
  "goaheadWriteBody obj action entry =
     xml_header @ ''<DeviceConfiguration>'' @ (''<'' @ obj @ '' action='' @ quoted action @ ''>'') @ entry @
     (''</'' @ obj @ ''>'') @ ''</DeviceConfiguration>''"

definition portInterfaceName :: "int \<Rightarrow> string" where "portInterfaceName port = ''g'' @ show_int port"

abbreviation (input) interfacePhysical :: string where "interfacePhysical \<equiv> ''1''"

definition interface_fields :: "string \<Rightarrow> (string \<times> string) list" where
  "interface_fields portName = [(''interfaceName'', portName), (''interfaceType'', interfacePhysical)]"

subsection \<open>Ports\<close>

definition portConfigBody :: "string \<Rightarrow> int \<Rightarrow> bool option \<Rightarrow> string option \<Rightarrow> string" where
  "portConfigBody portName portID adminEnabled description =
     goaheadWriteBody ''Standard802_3List'' ''set'' (goaheadEntry
       (interface_fields portName @ [(''interfaceID'', show_int portID)] @
        (case adminEnabled of None \<Rightarrow> [] | Some e \<Rightarrow> [(''adminState'', goaheadAdminCode e)]) @
        (case description of None \<Rightarrow> [] | Some d \<Rightarrow> [(''interfaceDescription'', d)])))"

definition deviceBasicInfoBody :: "string \<Rightarrow> string" where
  "deviceBasicInfoBody name = goaheadWriteBody ''DeviceBasicInfo'' ''set'' (xml_element ''deviceName'' (goaheadEscaper name))"

abbreviation (input) duplexAdminFull :: string where "duplexAdminFull \<equiv> ''3''"
abbreviation (input) duplexAdminHalf :: string where "duplexAdminHalf \<equiv> ''2''"
abbreviation (input) autonegOn :: string where "autonegOn \<equiv> ''1''"
abbreviation (input) autonegOff :: string where "autonegOff \<equiv> ''2''"

definition goAheadForcedSpeeds :: "(int \<times> bool) list" where
  "goAheadForcedSpeeds = [(10, False), (10, True), (100, False), (100, True), (1000, True)]"

definition isGoAheadForcedSpeed :: "int \<Rightarrow> bool \<Rightarrow> bool" where
  "isGoAheadForcedSpeed mbps full \<longleftrightarrow> (mbps, full) \<in> set goAheadForcedSpeeds"

text \<open>A forced speed without a rate is a nil pointer.\<close>

definition portSpeedBody :: "string \<Rightarrow> int \<Rightarrow> port_speed \<Rightarrow> string res" where
  "portSpeedBody portName portID speed =
     rbind (if sp_autonegotiate speed then Inr (''0'', autonegOn, duplexAdminFull)
            else (case sp_speed_mbps speed of
                None \<Rightarrow> Inl Go_Panic
              | Some mbps \<Rightarrow> Inr (show_int mbps, autonegOff,
                  if sp_full_duplex speed = Some True then duplexAdminFull else duplexAdminHalf))) (\<lambda>(rate, autoneg, duplex).
     Inr (goaheadWriteBody ''Standard802_3List'' ''set'' (goaheadEntry
       (interface_fields portName @ [(''interfaceID'', show_int portID), (''autoNegotiationAdminEnabled'', autoneg),
        (''speedAdmin'', rate), (''duplexAdminMode'', duplex)]))))"

definition poeAdminBody :: "string \<Rightarrow> bool \<Rightarrow> string" where
  "poeAdminBody portName enabled =
     goaheadWriteBody ''PoEPSEInterfaceList'' ''set''
       (goaheadWrapped ''Interface'' (interface_fields portName @ [(''adminEnable'', goaheadAdminCode enabled)]))"

subsection \<open>VLANs\<close>

definition vlanCreateBody :: "int \<Rightarrow> string \<Rightarrow> string" where
  "vlanCreateBody vlan name =
     goaheadWriteBody ''VLANList'' ''set'' (goaheadWrapped ''VLAN'' [(''VLANID'', show_int vlan), (''VLANName'', name)])"

definition vlanDeleteBody :: "int \<Rightarrow> string" where
  "vlanDeleteBody vlan = goaheadWriteBody ''VLANList'' ''delete'' (goaheadWrapped ''VLAN'' [(''VLANID'', show_int vlan)])"

definition pvidBody :: "string \<Rightarrow> int \<Rightarrow> string" where
  "pvidBody portName vlan =
     goaheadWriteBody ''VLANInterfaceList'' ''set''
       (goaheadWrapped ''Interface'' (interface_fields portName @ [(''PVID'', show_int vlan)]))"

abbreviation (input) goaheadTaggingTagged :: string where "goaheadTaggingTagged \<equiv> ''2''"
abbreviation (input) goaheadTaggingUntagged :: string where "goaheadTaggingUntagged \<equiv> ''1''"
abbreviation (input) goaheadTaggingRemoved :: string where "goaheadTaggingRemoved \<equiv> ''0''"

definition goaheadTaggingMode :: "vlan_mode \<Rightarrow> string" where
  "goaheadTaggingMode mode =
     (case mode of VlanTagged \<Rightarrow> goaheadTaggingTagged | VlanUntagged \<Rightarrow> goaheadTaggingUntagged | VlanExcluded \<Rightarrow> goaheadTaggingRemoved)"

definition vlanMembershipBody :: "int \<Rightarrow> string \<Rightarrow> vlan_mode \<Rightarrow> string" where
  "vlanMembershipBody vlan portName mode =
     (let member = interface_fields portName @
            (if mode = VlanExcluded then [] else [(''membershipType'', ''2''), (''taggingMode'', goaheadTaggingMode mode)]) in
      goaheadWriteBody ''VLANMembershipList'' (if mode = VlanExcluded then ''delete'' else ''set'')
        (''<VLAN><VLANID>'' @ show_int vlan @ ''</VLANID>'' @
         ''<MembershipList>'' @ goaheadWrapped ''VLANMember'' member @ ''</MembershipList></VLAN>''))"

subsection \<open>Answers\<close>

definition uploadStatusRE :: rx where
  "uploadStatusRE = rx_cat [rx_lit ''<statusCode>'', Rx_Group 1 rx_digits, rx_lit ''</statusCode>'']"

definition uploadStatusStringRE :: rx where
  "uploadStatusStringRE = rx_cat [rx_lit ''<statusString>'', Rx_Group 1 (many (rx_but ''<'')), rx_lit ''</statusString>'']"

text \<open>
  What an answer says: an error \<open>missing\<close> without a code, \<open>failed\<close> of the code and the
  reason with any but 0.
\<close>

definition status_verdict :: "go_error \<Rightarrow> (string \<Rightarrow> string \<Rightarrow> go_error) \<Rightarrow> string \<Rightarrow> unit res" where
  "status_verdict missing failed answer =
     (case group1 uploadStatusRE answer of
        None \<Rightarrow> Inl missing
      | Some code \<Rightarrow>
          if code \<noteq> ''0''
          then Inl (failed code (case group1 uploadStatusStringRE answer of None \<Rightarrow> ''unknown error'' | Some reason \<Rightarrow> reason))
          else Inr ())"

definition checkGoAheadStatus :: "string \<Rightarrow> string \<times> msg_arg list \<Rightarrow> unit res" where
  "checkGoAheadStatus answer = (\<lambda>(what, args).
     status_verdict
       (web_errHTTP (what @ '': response carried no <statusCode> (unexpected page -- not logged in, or wrong endpoint?)'') args)
       (\<lambda>code reason. web_errHTTP (what @ '' failed (statusCode=%s): %s'') (args @ [AStr code, AStr reason])) answer)"

subsection \<open>Certificates\<close>

definition CertUploadKnownUnimplemented :: "(string \<times> string) list" where
  "CertUploadKnownUnimplemented =
     [(''m4300-24x'', ''SCP file-copy to the switch (FastpathScpUpdater)''),
      (''m4300-16x'', ''SCP file-copy to the switch (FastpathScpUpdater)''),
      (''gsm7252ps'', ''SCP file-copy to the switch (copy scp://)'')]"

abbreviation (input) certFilename :: string where "certFilename \<equiv> ''certificate.pem''"

definition rejectKnownUnimplementedCertUpload :: "string \<Rightarrow> unit res" where
  "rejectKnownUnimplementedCertUpload modelKey =
     (case map_of CertUploadKnownUnimplemented modelKey of
        None \<Rightarrow> Inr ()
      | Some mechanism \<Rightarrow> Inl (Wraps (''SSL-certificate upload for %q uses %s, which this HTTP writer does not perform; '' @
          ''use SyncSwitch.upload_certificate_scp instead'') [AStr modelKey, AStr mechanism] ErrKnownUnimplemented))"

definition combineCertKeyPEM :: "string \<Rightarrow> string \<Rightarrow> string" where
  "combineCertKeyPEM certPEM keyPEM = trim_right (CHR 0x0A) certPEM @ [CHR 0x0A] @ keyPEM"

definition no_cert_upload :: "http_model_spec \<Rightarrow> go_error" where
  "no_cert_upload spec =
     Wraps ''model %q has no known SSL-certificate upload mechanism'' [AStr (ep_model_key spec)] ErrUnsupportedCapability"

definition certUploadMultipart :: "http_model_spec \<Rightarrow> string \<Rightarrow> string \<Rightarrow> (string \<times> form_fields \<times> multipart_file) res" where
  "certUploadMultipart spec certPEM keyPEM =
     (if ep_cert_upload_path spec = [] \<or> ep_cert_upload_file_field spec = [] then Inl (no_cert_upload spec)
      else Inr (ep_cert_upload_path spec, ep_cert_upload_form_fields spec,
        \<lparr>fl_field = ep_cert_upload_file_field spec, fl_filename = certFilename, fl_content = combineCertKeyPEM certPEM keyPEM,
         fl_content_type = ''application/octet-stream''\<rparr>))"

text \<open>
  What crypto/x509 and encoding/pem read in a text: the first PEM block, and of its bytes a PKCS#1 key,
  else a PKCS#8 key of some algorithm; and how they write the two halves of an RSA key as PEM.
\<close>

datatype 'k pkcs8_key = Rsa_Key 'k | Other_Key string

record 'k key_lib =
  kl_Decode :: "string \<Rightarrow> bytes option"
  kl_ParsePKCS1 :: "bytes \<Rightarrow> 'k res"
  kl_ParsePKCS8 :: "bytes \<Rightarrow> 'k pkcs8_key res"
  kl_private_pem :: "'k \<Rightarrow> string"
  kl_public_pem :: "'k \<Rightarrow> string"

definition rsaPKCS1Pair :: "'k key_lib \<Rightarrow> string \<Rightarrow> (string \<times> string) res" where
  "rsaPKCS1Pair K keyPEM =
     (case kl_Decode K keyPEM of
        None \<Rightarrow> Inl (Plain ''could not parse the private key as an unencrypted PEM: no PEM block found in input'' [])
      | Some block \<Rightarrow>
          rbind (case kl_ParsePKCS1 K block of
              Inr key \<Rightarrow> Inr key
            | Inl _ \<Rightarrow> (case kl_ParsePKCS8 K block of
                Inl e \<Rightarrow> Inl (Rewraps ''could not parse the private key as an unencrypted PEM: %w'' [] e)
              | Inr (Other_Key kind) \<Rightarrow>
                  Inl (Plain ''GS728TPP SSL-certificate upload requires an RSA private key; got %T'' [AStr kind])
              | Inr (Rsa_Key key) \<Rightarrow> Inr key)) (\<lambda>key.
          Inr (TrimSpace (kl_private_pem K key), TrimSpace (kl_public_pem K key))))"

definition xmlCertEscaper :: "string \<Rightarrow> string" where "xmlCertEscaper = goaheadEscaper"

definition buildGS728TPPCertXML :: "string \<Rightarrow> string \<Rightarrow> string \<Rightarrow> string" where
  "buildGS728TPPCertXML certPEM publicPEM privatePEM =
     xml_header @ ''<DeviceConfiguration>'' @ (''<SSLCryptoCertificateImportList action='' @ quoted ''set'' @ ''>'') @
     ''<Entry><instance>1</instance>'' @
     ''<certificate>'' @ xmlCertEscaper certPEM @ ''</certificate>'' @
     ''<publicKey>'' @ xmlCertEscaper publicPEM @ ''</publicKey>'' @
     ''<privateKey>'' @ xmlCertEscaper privatePEM @ ''</privateKey>'' @
     ''</Entry></SSLCryptoCertificateImportList>'' @ ''</DeviceConfiguration>''"

definition certUploadXML :: "'k key_lib \<Rightarrow> http_model_spec \<Rightarrow> string \<Rightarrow> string \<Rightarrow> (string \<times> string) res" where
  "certUploadXML K spec certPEM keyPEM =
     (if ep_cert_upload_path spec = [] then Inl (no_cert_upload spec)
      else rbind (rsaPKCS1Pair K keyPEM) (\<lambda>(privatePKCS1, publicPKCS1).
        Inr (ep_cert_upload_path spec, buildGS728TPPCertXML (TrimSpace certPEM) publicPKCS1 privatePKCS1)))"

text \<open>One character in UTF-8; a byte that is part of none counts as one.\<close>

definition rx_byte :: "nat \<Rightarrow> nat \<Rightarrow> rx" where "rx_byte lo hi = Rx_Set (\<lambda>ch. lo \<le> of_char ch \<and> of_char ch \<le> hi)"

definition rx_wide_rune :: rx where
  "rx_wide_rune =
     (let tail = rx_byte 0x80 0xBF in
      Rx_Alt (rx_cat [rx_byte 0xC2 0xDF, tail])
     (Rx_Alt (rx_cat [rx_byte 0xE0 0xE0, rx_byte 0xA0 0xBF, tail])
     (Rx_Alt (rx_cat [rx_byte 0xED 0xED, rx_byte 0x80 0x9F, tail])
     (Rx_Alt (rx_cat [Rx_Alt (rx_byte 0xE1 0xEC) (rx_byte 0xEE 0xEF), tail, tail])
     (Rx_Alt (rx_cat [rx_byte 0xF0 0xF0, rx_byte 0x90 0xBF, tail, tail])
     (Rx_Alt (rx_cat [rx_byte 0xF1 0xF3, tail, tail, tail])
             (rx_cat [rx_byte 0xF4 0xF4, rx_byte 0x80 0x8F, tail, tail])))))))"

definition multipartErrorRE :: rx where
  "multipartErrorRE =
     Rx_Group 1 (rx_cat [rx_ci ''error'', rx_at_most 80 (Rx_Alt rx_wide_rune (rx_but [CHR ''<'', CHR ''>'', CHR 0x0A]))])"

definition checkMultipartCertResponse :: "web_lib \<Rightarrow> string \<Rightarrow> unit res" where
  "checkMultipartCertResponse L answer =
     (if Contains (lower L answer) ''completed successfully'' then Inr ()
      else Inl (web_errHTTP ''S3300 SSL-certificate upload was not accepted: %s''
        [AStr (case group1 multipartErrorRE answer of
            None \<Rightarrow> ''no '' @ [TICK] @ ''completed successfully'' @ [TICK] @ '' marker''
          | Some reason \<Rightarrow> TrimSpace reason)]))"

definition checkGoAheadUploadResponse :: "string \<Rightarrow> unit res" where
  "checkGoAheadUploadResponse answer =
     status_verdict
       (web_errHTTP ''GS728TPP cert upload: response carried no <statusCode> (unexpected page -- not logged in, or wrong endpoint?)'' [])
       (\<lambda>code reason. web_errHTTP ''GS728TPP cert upload failed (statusCode=%s): %s'' [AStr code, AStr reason]) answer"

end
