(* ===== verification/Web_Writer.thy ===== *)
theory Web_Writer
  imports Web_Goahead_Write Snmp_Cycle
begin

section \<open>The web writer (webui/writer.go): helpers, PoE, PVIDs\<close>

text \<open>
  A write refuses a protected port, fetches the page for its token, posts the form and reads the
  switch back; a page of the managed switches is also asked for its own error flag.
\<close>

abbreviation (input) xuiPortAdmin :: string where "xuiPortAdmin \<equiv> ''v_1_2_6''"
abbreviation (input) xuiPortIfname :: string where "xuiPortIfname \<equiv> ''v_1_2_1''"
abbreviation (input) xuiPoEIfname :: string where "xuiPoEIfname \<equiv> ''v_1_2_1''"
abbreviation (input) xuiPoEAdminColumn :: string where "xuiPoEAdminColumn \<equiv> ''v_1_2_2''"
abbreviation (input) xuiPoEResetColumn :: string where "xuiPoEResetColumn \<equiv> ''v_1_2_20''"
abbreviation (input) xuiPoEResetValue :: string where "xuiPoEResetValue \<equiv> ''Reset''"

definition xuiPoEApplyOmits :: "string list" where "xuiPoEApplyOmits = [xuiPoEResetColumn]"

definition xuiPoEResetOmits :: "string list" where
  "xuiPoEResetOmits = map (\<lambda>n. ''v_1_2_'' @ show_int n) [2 .. 19]"

definition xuiEnabled :: "bool \<Rightarrow> string" where "xuiEnabled v = (if v then ''Enable'' else ''Disable'')"

definition fastpathIfnames :: "int \<Rightarrow> string list" where
  "fastpathIfnames port = [''1/0/'' @ show_int port, ''1/g'' @ show_int port, ''1/xg'' @ show_int port]"

subsection \<open>Helpers\<close>

definition findXUIRow :: "xui_list_page \<Rightarrow> int \<Rightarrow> string \<Rightarrow> string \<times> msg_arg list \<Rightarrow> xui_row res" where
  "findXUIRow page port column = (\<lambda>(what, args).
     case concat (map (\<lambda>ifname. case RowFor page column ifname of Some row \<Rightarrow> [row] | None \<Rightarrow> []) (fastpathIfnames port)) of
       row # _ \<Rightarrow> Inr row
     | [] \<Rightarrow> Inl (Wraps (what @ '': port %d is not on this page (it renders %v)'')
         (args @ [AInt port, AStrs (sort (map (\<lambda>r. text_of (XuiRow_Field r column)) (xl_rows page)))]) ErrUnsupportedCapability))"

definition raiseOnFastpathErrFlag :: "web_lib \<Rightarrow> string \<Rightarrow> string \<times> msg_arg list \<Rightarrow> unit res" where
  "raiseOnFastpathErrFlag L html = (\<lambda>(what, args).
     case ParseFastpathErr L html of
       Some msg \<Rightarrow> Inl (web_errHTTP (''switch refused '' @ what @ '': %s'') (args @ [AStr msg]))
     | None \<Rightarrow> Inr ())"

definition requireFastpathMembershipFor :: "fastpath_membership \<Rightarrow> int \<Rightarrow> string \<Rightarrow> unit res" where
  "requireFastpathMembershipFor page vlan path =
     (case shows_other page vlan of
        Some shown \<Rightarrow> Inl (errUnexpectedPage ''%s: asked for VLAN %d but the page shows VLAN %d -- refusing to write to the wrong VLAN''
          [AStr path, AInt vlan, AInt shown])
      | None \<Rightarrow> Inr ())"

definition poeResetButton :: "xui_list_page \<Rightarrow> string \<Rightarrow> string res" where
  "poeResetButton page modelKey =
     (if map_of (xl_buttons page) ''v_2_1_3'' \<noteq> None then Inr ''v_2_1_3''
      else Inl (Wraps ''model %q PoE page has no reset button (it renders %v)''
        [AStr modelKey, AStrs (sort (map fst (xl_buttons page)))] ErrUnsupportedCapability))"

definition vlanCheckboxRE :: rx where
  "vlanCheckboxRE = rx_cat [rx_lit (''name='' @ [QUOTE] @ ''vlanck''), Rx_Group 1 rx_digits, rx_quote, in_tag,
     rx_lit (''value='' @ [QUOTE]), Rx_Group 2 rx_digits, rx_quote]"

definition vlanCheckboxIndex :: "string \<Rightarrow> int \<Rightarrow> int option" where
  "vlanCheckboxIndex html vlan =
     (case concat (map (\<lambda>m. if Atoi (submatch m 2) = Some vlan then (case Atoi (submatch m 1) of Some idx \<Rightarrow> [idx] | None \<Rightarrow> []) else [])
         (FindAllStringSubmatch vlanCheckboxRE html)) of
        idx # _ \<Rightarrow> Some idx
      | [] \<Rightarrow> None)"

definition requireXUIMgmtFields :: "http_model_spec \<Rightarrow> (string \<times> xui_mgmt_ip_fields) res" where
  "requireXUIMgmtFields spec =
     (if ep_mgmt_ip_path spec = [] \<or> ep_mgmt_ip_fields spec = None
      then Inl (Wraps ''model %q has no known web management-IP form (no MgmtIPPath/MgmtIPFields in its endpoint spec)''
        [AStr (ep_model_key spec)] ErrUnsupportedCapability)
      else Inr (ep_mgmt_ip_path spec, the (ep_mgmt_ip_fields spec)))"

definition mgmtIPChanges :: "xui_mgmt_ip_fields \<Rightarrow> string \<Rightarrow> string \<Rightarrow> string \<Rightarrow> form_fields" where
  "mgmtIPChanges f address netmask gateway =
     put_all [(mf_mode f, mf_static_value f), (mf_address f, address), (mf_netmask f, netmask), (mf_gateway f, gateway)] []"

definition requireCSRF :: "string \<Rightarrow> string res" where
  "requireCSRF html =
     (case ParseCSRFHash html of
        None \<Rightarrow> Inl (errUnexpectedPage (''no CSRF '' @ [TICK] @ ''hash'' @ [TICK] @ '' token on page before write'') [])
      | Some token \<Rightarrow> Inr token)"

definition requireCSRFDialect :: "http_model_spec \<Rightarrow> string \<Rightarrow> string \<Rightarrow> unit res" where
  "requireCSRFDialect spec modelKey op =
     (if DialectHasCSRFHash (ep_html_dialect spec) then Inr ()
      else Inl (Wraps (''model %q web UI carries no CSRF '' @ [TICK] @ ''hash'' @ [TICK] @ '' token, which the HTTP %s writer requires'')
        [AStr modelKey, AStr op] ErrUnsupportedCapability))"

definition pvidLookupMap :: "pvid list \<Rightarrow> (int \<times> int) list" where
  "pvidLookupMap pairs = fold (\<lambda>p. AList.update (pv_port p) (pv_vlan p)) pairs []"

definition obs_int :: "int option \<Rightarrow> observed" where
  "obs_int v = (case v of None \<Rightarrow> Obs_Nil | Some n \<Rightarrow> Obs_Int n)"

definition obs_mode :: "vlan_mode option \<Rightarrow> observed" where
  "obs_mode v = (case v of None \<Rightarrow> Obs_Nil | Some m \<Rightarrow> Obs_Mode m)"

definition obs_bool :: "bool option \<Rightarrow> observed" where
  "obs_bool v = (case v of None \<Rightarrow> Obs_Nil | Some b \<Rightarrow> Obs_Bool b)"

subsection \<open>The writer\<close>

record 's web_writer =
  ww_session :: "'s web_session"
  ww_spec :: http_model_spec
  ww_model :: switch_model
  ww_protected :: "int list"
  ww_clock :: "'s \<Rightarrow> int \<times> 's"
  ww_sleep :: "int \<Rightarrow> ('s, go_error, unit) action"

definition web_NewWriter ::
    "'s web_session \<Rightarrow> switch_model \<Rightarrow> int list \<Rightarrow> ('s \<Rightarrow> int \<times> 's) \<Rightarrow> (int \<Rightarrow> ('s, go_error, unit) action) \<Rightarrow> 's web_writer res" where
  "web_NewWriter session m protectedPorts clock sleep =
     rbind (HTTPSpec m) (\<lambda>spec.
     Inr \<lparr>ww_session = session, ww_spec = spec, ww_model = m, ww_protected = protectedPorts, ww_clock = clock, ww_sleep = sleep\<rparr>)"

abbreviation writer_key :: "'s web_writer \<Rightarrow> string" where "writer_key w \<equiv> sm_key (ww_model w)"

definition web_guard :: "'s web_writer \<Rightarrow> int \<Rightarrow> bool \<Rightarrow> unit res" where
  "web_guard w port force =
     (if port \<in> set (ww_protected w) \<and> \<not> force
      then Inl (Wraps ''port %d is protected on %q; pass force=true'' [AInt port, AStr (writer_key w)] ErrProtectedPort)
      else Inr ())"

definition need_page :: "'s web_writer \<Rightarrow> string \<Rightarrow> string \<Rightarrow> ('s, go_error, string) action" where
  "need_page w path op = sret (requirePath (writer_key w) path op)"

abbreviation get_page :: "'s web_writer \<Rightarrow> string \<Rightarrow> ('s, go_error, string) action" where
  "get_page w \<equiv> ws_GetPage (ww_session w)"

abbreviation post_form :: "'s web_writer \<Rightarrow> string \<Rightarrow> form_fields \<Rightarrow> ('s, go_error, string) action" where
  "post_form w \<equiv> ws_PostForm (ww_session w)"

definition goaheadWrite :: "'s web_writer \<Rightarrow> string \<Rightarrow> string \<times> msg_arg list \<Rightarrow> ('s, go_error, unit) action" where
  "goaheadWrite w body what =
     sbind (need_page w (ep_xml_write_path (ww_spec w)) ''XML-API write endpoint'') (\<lambda>path.
     sbind (ws_PostXML (ww_session w) path body) (\<lambda>answer. sret (checkGoAheadStatus answer what)))"

text \<open>A fetch of a page for its token and a post of the form made with it.\<close>

definition post_with_token :: "'s web_writer \<Rightarrow> string \<Rightarrow> string \<Rightarrow> (string \<Rightarrow> form_fields) \<Rightarrow> ('s, go_error, unit) action" where
  "post_with_token w page_path post_path form =
     sbind (get_page w page_path) (\<lambda>page.
     sbind (sret (requireCSRF page)) (\<lambda>csrf.
     sbind (post_form w post_path (form csrf)) (\<lambda>_. sret (Inr ()))))"

subsection \<open>PoE\<close>

definition goaheadPoEStatus :: "web_lib \<Rightarrow> 's web_writer \<Rightarrow> int \<Rightarrow> ('s, go_error, poe_status option) action" where
  "goaheadPoEStatus L w port =
     sbind (need_page w (ep_poe_status_path (ww_spec w)) ''PoE status'') (\<lambda>path.
     sbind (get_page w path) (\<lambda>html.
     sbind (sret (parsePoE L (ww_spec w) html)) (\<lambda>rows. sret (Inr (List.find (\<lambda>s. poe_port s = port) rows)))))"

definition web_poeAdmin :: "web_lib \<Rightarrow> 's web_writer \<Rightarrow> int \<Rightarrow> ('s, go_error, bool) action" where
  "web_poeAdmin L w port =
     sbind (need_page w (ep_poe_status_path (ww_spec w)) ''PoE status'') (\<lambda>path.
     sbind (get_page w path) (\<lambda>html.
     sbind (sret (parsePoE L (ww_spec w) html)) (\<lambda>rows.
     sret (Inr (case List.find (\<lambda>s. poe_port s = port) rows of None \<Rightarrow> False | Some s \<Rightarrow> poe_admin_enabled s)))))"

definition goaheadPoEAdmin :: "web_lib \<Rightarrow> 's web_writer \<Rightarrow> int \<Rightarrow> bool \<Rightarrow> ('s, go_error, unit) action" where
  "goaheadPoEAdmin L w port on =
     sbind (web_poeAdmin L w port) (\<lambda>before.
     sbind (goaheadWrite w (poeAdminBody (portInterfaceName port) on) (''PoE port %d admin -> %v'', [AInt port, AStr (bool_text on)])) (\<lambda>_.
     sbind (web_poeAdmin L w port) (\<lambda>after.
     sret (if after \<noteq> on
       then Inl (Verification ''PoE port %d did not read back as on=%v'' [AInt port, AStr (bool_text on)] (Obs_Bool before) (Obs_Bool after))
       else Inr ()))))"

definition xuiPoEAdmin :: "web_lib \<Rightarrow> 's web_writer \<Rightarrow> string \<Rightarrow> int \<Rightarrow> bool \<Rightarrow> ('s, go_error, unit) action" where
  "xuiPoEAdmin L w path port on =
     sbind (get_page w path) (\<lambda>html.
     sbind (sret (ParseXUIListPage L html path)) (\<lambda>page.
     sbind (sret (findXUIRow page port xuiPoEIfname (''%q PoE'', [AStr (writer_key w)]))) (\<lambda>row.
     sbind (sret (XuiRowApplyForm L page row [(xuiPoEAdminColumn, xuiEnabled on)] ''v_2_1_2'' xuiPoEApplyOmits)) (\<lambda>body.
     sbind (post_form w (xl_action page) body) (\<lambda>applied.
     sbind (sret (raiseOnFastpathErrFlag L applied (''PoE port %d admin -> %v'', [AInt port, AStr (bool_text on)]))) (\<lambda>_.
     sbind (web_poeAdmin L w port) (\<lambda>after.
     sret (if after \<noteq> on
       then Inl (Verification ''PoE port %d did not read back as on=%v on %s'' [AInt port, AStr (bool_text on), AStr path]
              (Obs_Str (text_of (XuiRow_Field row xuiPoEAdminColumn))) (Obs_Bool after))
       else Inr ()))))))))"

definition web_SetPoE :: "web_lib \<Rightarrow> 's web_writer \<Rightarrow> int \<Rightarrow> bool \<Rightarrow> bool \<Rightarrow> ('s, go_error, unit) action" where
  "web_SetPoE L w port on force =
     (if isGoAheadDialect (ww_spec w) then sbind (sret (web_guard w port force)) (\<lambda>_. goaheadPoEAdmin L w port on)
      else
        sbind (need_page w (ep_poe_config_path (ww_spec w)) ''web PoE config'') (\<lambda>path.
        sbind (sret (web_guard w port force)) (\<lambda>_.
        if isFastpathDialect (ww_spec w) then xuiPoEAdmin L w path port on
        else
          sbind (web_poeAdmin L w port) (\<lambda>before.
          sbind (post_with_token w path path (PoeApplyForm port on (ep_is_epx_poe (ww_spec w)))) (\<lambda>_.
          sbind (web_poeAdmin L w port) (\<lambda>after.
          sret (if after \<noteq> on
            then Inl (Verification ''PoE port %d did not read back as on=%v'' [AInt port, AStr (bool_text on)] (Obs_Bool before) (Obs_Bool after))
            else Inr ())))))))"

definition xuiPoEReset :: "web_lib \<Rightarrow> 's web_writer \<Rightarrow> string \<Rightarrow> int \<Rightarrow> ('s, go_error, unit) action" where
  "xuiPoEReset L w path port =
     sbind (get_page w path) (\<lambda>html.
     sbind (sret (ParseXUIListPage L html path)) (\<lambda>page.
     sbind (sret (findXUIRow page port xuiPoEIfname (''%q PoE'', [AStr (writer_key w)]))) (\<lambda>row.
     sbind (sret (poeResetButton page (writer_key w))) (\<lambda>button.
     sbind (sret (XuiRowApplyForm L page row [(xuiPoEResetColumn, xuiPoEResetValue)] button xuiPoEResetOmits)) (\<lambda>body.
     sbind (post_form w (xl_action page) body) (\<lambda>applied.
     sret (raiseOnFastpathErrFlag L applied (''PoE reset of port %d'', [AInt port]))))))))"

abbreviation (input) goaheadPoEOnTimeout :: int where "goaheadPoEOnTimeout \<equiv> 60 * 10 ^ 9"
abbreviation (input) goaheadPoEPollInterval :: int where "goaheadPoEPollInterval \<equiv> 2 * 10 ^ 9"

definition goaheadPoERearm :: "web_lib \<Rightarrow> 's web_writer \<Rightarrow> int \<Rightarrow> ('s, unit) run" where
  "goaheadPoERearm L w port =
     run_bind (returns (goaheadPoEStatus L w port)) (\<lambda>before.
     run_bind (returns (goaheadPoEAdmin L w port False)) (\<lambda>_.
     run_bind (returns (goaheadPoEAdmin L w port True)) (\<lambda>_.
     run_bind (returns (\<lambda>s. case ww_clock w s of (t, s') \<Rightarrow> (Inr (t + goaheadPoEOnTimeout), s'))) (\<lambda>deadline.
     poll (goaheadPoEStatus L w port) (PoeCycleComplete before)
       (\<lambda>status. Verification ''PoE port %d did not come back after the power cycle within %gs'' [AInt port, AInt 60]
          (Obs_PoE before) (Obs_PoE status))
       (ww_clock w) (ww_sleep w goaheadPoEPollInterval) deadline))))"

definition web_CyclePoE :: "web_lib \<Rightarrow> 's web_writer \<Rightarrow> int \<Rightarrow> bool \<Rightarrow> ('s, unit) run" where
  "web_CyclePoE L w port force =
     (if isGoAheadDialect (ww_spec w)
      then run_bind (returns (sret (web_guard w port force))) (\<lambda>_. goaheadPoERearm L w port)
      else returns (
        sbind (need_page w (ep_poe_config_path (ww_spec w)) ''web PoE config'') (\<lambda>path.
        sbind (sret (web_guard w port force)) (\<lambda>_.
        if isFastpathDialect (ww_spec w) then xuiPoEReset L w path port
        else post_with_token w path path (PoeResetForm port)))))"

definition web_ClearPoEFault :: "web_lib \<Rightarrow> 's web_writer \<Rightarrow> int \<Rightarrow> bool \<Rightarrow> ('s, unit) run" where
  "web_ClearPoEFault L w port force =
     (if isGoAheadDialect (ww_spec w)
      then run_bind (returns (sret (web_guard w port force))) (\<lambda>_. goaheadPoERearm L w port)
      else returns (
        sbind (need_page w (ep_poe_config_path (ww_spec w)) ''web PoE config'') (\<lambda>path.
        sbind (sret (web_guard w port force)) (\<lambda>_.
        if isFastpathDialect (ww_spec w) then xuiPoEReset L w path port
        else post_with_token w path path (PoeResetForm port)))))"

text \<open>Clearing a fault is the power cycle on every dialect: no page has an action of its own for it.\<close>

lemma web_ClearPoEFault_cycles: "web_ClearPoEFault = web_CyclePoE"
  by (intro ext) (simp add: web_ClearPoEFault_def web_CyclePoE_def)

subsection \<open>PVIDs\<close>

definition known_vlans :: "web_lib \<Rightarrow> http_model_spec \<Rightarrow> string \<Rightarrow> int list res" where
  "known_vlans L spec page =
     (if isGoAheadDialect spec then rbind (ParseGoAheadVlanNames L page) (\<lambda>names. Inr (map fst names))
      else if isFastpathDialect spec then rbind (parseVlans L spec page) (\<lambda>vlans. Inr (map vi_vlan_id vlans))
      else parseVlanIDs spec page)"

definition requireVlanExists :: "web_lib \<Rightarrow> 's web_writer \<Rightarrow> int \<Rightarrow> ('s, go_error, unit) action" where
  "requireVlanExists L w vlan =
     (if ep_vlan_config_path (ww_spec w) = [] then sret (Inr ())
      else
        sbind (get_page w (ep_vlan_config_path (ww_spec w))) (\<lambda>page.
        sbind (sret (known_vlans L (ww_spec w) page)) (\<lambda>known.
        sret (if vlan \<in> set known then Inr ()
              else Inl (errUnexpectedPage ''VLAN %d does not exist (known: %v)'' [AInt vlan, AInts (sort known)])))))"

definition goaheadPVIDs :: "web_lib \<Rightarrow> 's web_writer \<Rightarrow> string \<Rightarrow> ('s, go_error, pvid list) action" where
  "goaheadPVIDs L w path = sbind (get_page w path) (\<lambda>html. sret (ParseGoAheadPVIDs L html))"

definition setGoAheadPVID :: "web_lib \<Rightarrow> 's web_writer \<Rightarrow> string \<Rightarrow> int \<Rightarrow> int \<Rightarrow> ('s, go_error, unit) action" where
  "setGoAheadPVID L w path port vlan =
     sbind (goaheadPVIDs L w path) (\<lambda>beforePairs.
     sbind (goaheadWrite w (pvidBody (portInterfaceName port) vlan) (''PVID for port %d -> %d'', [AInt port, AInt vlan])) (\<lambda>_.
     sbind (goaheadPVIDs L w path) (\<lambda>afterPairs.
     let before = map_of (pvidLookupMap beforePairs) port; got = map_of (pvidLookupMap afterPairs) port in
     sret (if got \<noteq> Some vlan
       then Inl (Verification ''PVID for port %d did not read back as %d'' [AInt port, AInt vlan] (obs_int before) (obs_int got))
       else Inr ()))))"

definition web_SetPVID :: "web_lib \<Rightarrow> 's web_writer \<Rightarrow> int \<Rightarrow> int \<Rightarrow> bool \<Rightarrow> ('s, go_error, unit) action" where
  "web_SetPVID L w port vlan force =
     sbind (sret (web_guard w port force)) (\<lambda>_.
     sbind (need_page w (ep_pvid_path (ww_spec w)) ''port PVIDs'') (\<lambda>path.
     sbind (requireVlanExists L w vlan) (\<lambda>_.
     if isGoAheadDialect (ww_spec w) then setGoAheadPVID L w path port vlan
     else
       sbind (post_with_token w path path (PvidForm port vlan)) (\<lambda>_.
       sbind (get_page w path) (\<lambda>afterHTML.
       sbind (sret (web_ParsePVIDs afterHTML)) (\<lambda>afterPairs.
       let got = map_of (pvidLookupMap afterPairs) port in
       sret (if got \<noteq> Some vlan
         then Inl (Verification ''PVID for port %d did not read back as %d'' [AInt port, AInt vlan] Obs_Nil (obs_int got))
         else Inr ())))))))"

end
