(* ===== verification/Web_Writes.thy ===== *)
theory Web_Writes
  imports Web_Writer
begin

section \<open>The web writer (webui/writer.go, webui/cert.go): VLANs, ports, names, addresses\<close>

subsection \<open>VLAN membership\<close>

definition goaheadModeOf :: "(int \<times> goahead_membership) list \<Rightarrow> int \<Rightarrow> int \<Rightarrow> vlan_mode" where
  "goaheadModeOf membership vlan port =
     (case map_of membership vlan of
        None \<Rightarrow> VlanExcluded
      | Some m \<Rightarrow> if port \<in> set (gm_untagged m) then VlanUntagged else if port \<in> set (gm_tagged m) then VlanTagged else VlanExcluded)"

definition goaheadMembership ::
    "web_lib \<Rightarrow> 's web_writer \<Rightarrow> string \<Rightarrow> ('s, go_error, (int \<times> goahead_membership) list) action" where
  "goaheadMembership L w path = sbind (get_page w path) (\<lambda>html. sret (ParseGoAheadPortVlanMembership L html))"

definition setGoAheadMembership :: "web_lib \<Rightarrow> 's web_writer \<Rightarrow> int \<Rightarrow> int \<Rightarrow> vlan_mode \<Rightarrow> ('s, go_error, unit) action" where
  "setGoAheadMembership L w vlan port mode =
     sbind (need_page w (ep_pvid_path (ww_spec w)) ''port VLAN membership'') (\<lambda>path.
     sbind (goaheadMembership L w path) (\<lambda>before.
     sbind (goaheadWrite w (vlanMembershipBody vlan (portInterfaceName port) mode)
       (''VLAN %d membership for port %d -> %s'', [AInt vlan, AInt port, AStr (mode_text mode)])) (\<lambda>_.
     sbind (goaheadMembership L w path) (\<lambda>after.
     sret (if goaheadModeOf after vlan port \<noteq> mode
       then Inl (Verification ''VLAN %d port %d did not read back as %s'' [AInt vlan, AInt port, AStr (mode_text mode)]
              (Obs_Mode (goaheadModeOf before vlan port)) (Obs_Mode (goaheadModeOf after vlan port)))
       else Inr ())))))"

definition readFastpathMembership ::
    "web_lib \<Rightarrow> 's web_writer \<Rightarrow> int \<Rightarrow> string \<Rightarrow> string \<Rightarrow> ('s, go_error, fastpath_membership) action" where
  "readFastpathMembership L w vlan getPath postPath =
     sbind (get_page w getPath) (\<lambda>html.
     sbind (sret (ParseFastpathMembership L html)) (\<lambda>page.
     if fm_vlan_id page = Some vlan then sret (Inr page)
     else
       sbind (post_form w postPath (FastpathMembershipForm page vlan None False)) (\<lambda>respHTML.
       sbind (sret (ParseFastpathMembership L respHTML)) (\<lambda>page2.
       sbind (sret (requireFastpathMembershipFor page2 vlan postPath)) (\<lambda>_.
       sret (Inr page2))))))"

definition setFastpathMembership :: "web_lib \<Rightarrow> 's web_writer \<Rightarrow> int \<Rightarrow> int \<Rightarrow> vlan_mode \<Rightarrow> ('s, go_error, unit) action" where
  "setFastpathMembership L w vlan port mode =
     sbind (sret (fastpathMembershipPaths (ww_spec w) (writer_key w))) (\<lambda>(getPath, postPath).
     sbind (readFastpathMembership L w vlan getPath postPath) (\<lambda>before.
     sbind (sret (FastpathHiddenMemWith before port mode)) (\<lambda>codes.
     sbind (post_form w postPath (FastpathMembershipForm before vlan (Some codes) True)) (\<lambda>applied.
     sbind (sret (raiseOnFastpathErrFlag L applied (''VLAN %d port %d -> %s'', [AInt vlan, AInt port, AStr (mode_text mode)]))) (\<lambda>_.
     sbind (readFastpathMembership L w vlan getPath postPath) (\<lambda>after.
     let got = map_of (fm_configured after) port in
     sret (if got \<noteq> Some mode
       then Inl (Verification ''VLAN %d port %d did not read back as %s on %s (hiddenMem slot %d)''
              [AInt vlan, AInt port, AStr (mode_text mode), AStr postPath,
               AInt (case map_of (fm_port_slots before) port of Some slot \<Rightarrow> slot | None \<Rightarrow> 0)]
              (obs_mode (map_of (fm_configured before) port)) (obs_mode got))
       else Inr ())))))))"

text \<open>The state before is read after the change was put into the map, as the code has it.\<close>

definition setPlusMembership :: "'s web_writer \<Rightarrow> int \<Rightarrow> int \<Rightarrow> vlan_mode \<Rightarrow> ('s, go_error, unit) action" where
  "setPlusMembership w vlanID port mode =
     (let select = [(''VLAN_ID'', show_int vlanID)]; ports = sm_port_count (ww_model w) in
      sbind (need_page w (ep_vlan_membership_path (ww_spec w)) ''VLAN membership'') (\<lambda>path.
      sbind (post_form w path select) (\<lambda>html.
      sbind (sret (ParseMembership html ports)) (\<lambda>states0.
      let states = AList.update port mode states0 in
      sbind (sret (requireCSRF html)) (\<lambda>csrf.
      sbind (post_form w path (MembershipForm vlanID (MembershipHiddenMem states ports) csrf)) (\<lambda>_.
      sbind (post_form w path select) (\<lambda>verifyHTML.
      sbind (sret (ParseMembership verifyHTML ports)) (\<lambda>after.
      sret (if map_of after port \<noteq> Some mode
        then Inl (Verification ''VLAN %d port %d did not read back as %s'' [AInt vlanID, AInt port, AStr (mode_text mode)]
               (obs_mode (map_of states port)) (case map_of after port of None \<Rightarrow> Obs_Str [] | Some m \<Rightarrow> Obs_Mode m))
        else Inr ())))))))))"

definition web_SetVlanMembership ::
    "web_lib \<Rightarrow> 's web_writer \<Rightarrow> int \<Rightarrow> int \<Rightarrow> vlan_mode \<Rightarrow> bool \<Rightarrow> ('s, go_error, unit) action" where
  "web_SetVlanMembership L w vlanID port mode force =
     sbind (sret (web_guard w port force)) (\<lambda>_.
     if isFastpathDialect (ww_spec w) then setFastpathMembership L w vlanID port mode
     else if isGoAheadDialect (ww_spec w) then setGoAheadMembership L w vlanID port mode
     else setPlusMembership w vlanID port mode)"

subsection \<open>VLANs\<close>

definition goaheadVlanIDs :: "web_lib \<Rightarrow> 's web_writer \<Rightarrow> ('s, go_error, int list) action" where
  "goaheadVlanIDs L w =
     sbind (need_page w (ep_vlan_config_path (ww_spec w)) ''VLAN config'') (\<lambda>path.
     sbind (get_page w path) (\<lambda>html.
     sret (rbind (ParseGoAheadVlanNames L html) (\<lambda>names. Inr (sort (map fst names))))))"

definition goaheadCreateVlan :: "web_lib \<Rightarrow> 's web_writer \<Rightarrow> int \<Rightarrow> string \<Rightarrow> ('s, go_error, unit) action" where
  "goaheadCreateVlan L w vlan name =
     sbind (goaheadVlanIDs L w) (\<lambda>before.
     sbind (goaheadWrite w (vlanCreateBody vlan name) (''create VLAN %d'', [AInt vlan])) (\<lambda>_.
     sbind (goaheadVlanIDs L w) (\<lambda>after.
     sret (if vlan \<notin> set after
       then Inl (Verification ''VLAN %d was not created'' [AInt vlan] (Obs_Ints before) (Obs_Ints after))
       else Inr ()))))"

definition goaheadDeleteVlan :: "web_lib \<Rightarrow> 's web_writer \<Rightarrow> int \<Rightarrow> ('s, go_error, unit) action" where
  "goaheadDeleteVlan L w vlan =
     sbind (goaheadVlanIDs L w) (\<lambda>before.
     sbind (goaheadWrite w (vlanDeleteBody vlan) (''delete VLAN %d'', [AInt vlan])) (\<lambda>_.
     sbind (goaheadVlanIDs L w) (\<lambda>after.
     sret (if vlan \<in> set after
       then Inl (Verification ''VLAN %d was not deleted'' [AInt vlan] (Obs_Ints before) (Obs_Ints after))
       else Inr ()))))"

definition web_CreateVlan :: "web_lib \<Rightarrow> 's web_writer \<Rightarrow> int \<Rightarrow> string \<Rightarrow> ('s, go_error, unit) action" where
  "web_CreateVlan L w vlanID name =
     (if isGoAheadDialect (ww_spec w) then goaheadCreateVlan L w vlanID name
      else
        sbind (sret (requireCSRFDialect (ww_spec w) (writer_key w) ''create_vlan'')) (\<lambda>_.
        sbind (need_page w (ep_vlan_config_path (ww_spec w)) ''VLAN config'') (\<lambda>path.
        sbind (post_with_token w path path (VlanAddForm vlanID)) (\<lambda>_.
        sbind (get_page w path) (\<lambda>afterHTML.
        sbind (sret (ParseVLANIDs afterHTML)) (\<lambda>after.
        sret (if vlanID \<notin> set after
          then Inl (Verification ''VLAN %d was not created'' [AInt vlanID] Obs_Nil (Obs_Ints after))
          else Inr ())))))))"

definition web_DeleteVlan :: "web_lib \<Rightarrow> 's web_writer \<Rightarrow> int \<Rightarrow> ('s, go_error, unit) action" where
  "web_DeleteVlan L w vlanID =
     (if isGoAheadDialect (ww_spec w) then goaheadDeleteVlan L w vlanID
      else
        sbind (sret (requireCSRFDialect (ww_spec w) (writer_key w) ''delete_vlan'')) (\<lambda>_.
        sbind (need_page w (ep_vlan_config_path (ww_spec w)) ''VLAN config'') (\<lambda>path.
        sbind (get_page w path) (\<lambda>page.
        sbind (sret (case vlanCheckboxIndex page vlanID of
            None \<Rightarrow> Inl (errUnexpectedPage ''VLAN %d not present to delete'' [AInt vlanID])
          | Some idx \<Rightarrow> Inr idx)) (\<lambda>idx.
        sbind (sret (requireCSRF page)) (\<lambda>csrf.
        sbind (post_form w path (VlanDeleteForm vlanID idx csrf)) (\<lambda>_.
        sbind (get_page w path) (\<lambda>afterHTML.
        sbind (sret (ParseVLANIDs afterHTML)) (\<lambda>after.
        sret (if vlanID \<in> set after
          then Inl (Verification ''VLAN %d was not deleted'' [AInt vlanID] Obs_Nil (Obs_Ints after))
          else Inr ()))))))))))"

subsection \<open>Reboot\<close>

definition web_Reboot :: "'s web_writer \<Rightarrow> bool \<Rightarrow> ('s, go_error, unit) action" where
  "web_Reboot w force =
     sbind (need_page w (ep_reboot_path (ww_spec w)) ''web reboot'') (\<lambda>rebootPath.
     if \<not> force then sret (Inl (Wraps ''reboot is disruptive; pass force=true'' [] ErrProtectedPort))
     else
       sbind (need_page w (if ep_vlan_config_path (ww_spec w) = [] then ep_dashboard_path (ww_spec w)
         else ep_vlan_config_path (ww_spec w)) ''web reboot'') (\<lambda>landingPath.
       post_with_token w landingPath rebootPath RebootForm))"

subsection \<open>Ports\<close>

definition goaheadPortRow :: "web_lib \<Rightarrow> 's web_writer \<Rightarrow> string \<Rightarrow> int \<Rightarrow> ('s, go_error, port_status option) action" where
  "goaheadPortRow L w path port =
     sbind (get_page w path) (\<lambda>html.
     sbind (sret (ParseGoAheadPorts L html)) (\<lambda>rows. sret (Inr (List.find (\<lambda>s. ps_port s = port) rows))))"

definition setGoAheadPortEnabled :: "web_lib \<Rightarrow> 's web_writer \<Rightarrow> string \<Rightarrow> int \<Rightarrow> bool \<Rightarrow> ('s, go_error, unit) action" where
  "setGoAheadPortEnabled L w path port enabled =
     sbind (goaheadPortRow L w path port) (\<lambda>beforeRow.
     sbind (goaheadWrite w (portConfigBody (portInterfaceName port) port (Some enabled) None)
       (''port %d admin -> %v'', [AInt port, AStr (bool_text enabled)])) (\<lambda>_.
     sbind (goaheadPortRow L w path port) (\<lambda>afterRow.
     let got = map_option ps_admin_enabled afterRow in
     sret (if got \<noteq> Some enabled
       then Inl (Verification ''port %d did not read back as enabled=%v'' [AInt port, AStr (bool_text enabled)]
              (obs_bool (map_option ps_admin_enabled beforeRow)) (obs_bool got))
       else Inr ()))))"

definition adminEnabledFor :: "port_status list \<Rightarrow> int \<Rightarrow> bool option" where
  "adminEnabledFor statuses port = map_option ps_admin_enabled (List.find (\<lambda>s. ps_port s = port) statuses)"

definition setGS110EMXPortEnabled :: "web_lib \<Rightarrow> 's web_writer \<Rightarrow> string \<Rightarrow> int \<Rightarrow> bool \<Rightarrow> ('s, go_error, unit) action" where
  "setGS110EMXPortEnabled L w path port enabled =
     sbind (get_page w path) (\<lambda>html.
     sbind (sret (ParseGS110EMXPortFormFields html)) (\<lambda>rows.
     sbind (sret (case map_of rows port of
         None \<Rightarrow> Inl (Wraps ''%q port configuration: port %d is not on this page (it renders %v)''
           [AStr (writer_key w), AInt port, AInts (sort (map fst rows))] ErrUnsupportedCapability)
       | Some named \<Rightarrow> Inr named)) (\<lambda>named.
     sbind (sret (ParseGS110EMXPortStatus L html)) (\<lambda>beforeStatus.
     let flow = (if field named ''FLOW_CONTROL_MODE'' = [] then ''0'' else field named ''FLOW_CONTROL_MODE'') in
     sbind (post_form w path (GS110EMXPortAdminForm port enabled flow)) (\<lambda>_.
     sbind (get_page w path) (\<lambda>afterHTML.
     sbind (sret (ParseGS110EMXPortStatus L afterHTML)) (\<lambda>afterStatus.
     let got = adminEnabledFor afterStatus port in
     sret (if got \<noteq> Some enabled
       then Inl (Verification ''port %d admin mode did not read back as %v on %s''
              [AInt port, AStr (bool_text enabled), AStr path] (obs_bool (adminEnabledFor beforeStatus port)) (obs_bool got))
       else Inr ()))))))))"

definition setXUIPortEnabled :: "web_lib \<Rightarrow> 's web_writer \<Rightarrow> string \<Rightarrow> int \<Rightarrow> bool \<Rightarrow> ('s, go_error, unit) action" where
  "setXUIPortEnabled L w path port enabled =
     (let what = (''%q port configuration'', [AStr (writer_key w)]) in
      sbind (get_page w path) (\<lambda>html.
      sbind (sret (ParseXUIListPage L html path)) (\<lambda>page.
      sbind (sret (findXUIRow page port xuiPortIfname what)) (\<lambda>row.
      sbind (sret (XuiRowApplyForm L page row [(xuiPortAdmin, xuiEnabled enabled)] ''v_2_1_2'' [])) (\<lambda>body.
      sbind (post_form w (xl_action page) body) (\<lambda>applied.
      sbind (sret (raiseOnFastpathErrFlag L applied (''port %d admin mode -> %v'', [AInt port, AStr (bool_text enabled)]))) (\<lambda>_.
      sbind (get_page w path) (\<lambda>afterHTML.
      sbind (sret (ParseXUIListPage L afterHTML path)) (\<lambda>afterPage.
      sbind (sret (findXUIRow afterPage port xuiPortIfname what)) (\<lambda>afterRow.
      let after = text_of (XuiRow_Field afterRow xuiPortAdmin) in
      sret (if after \<noteq> xuiEnabled enabled
        then Inl (Verification ''port %d admin mode did not read back as %q on %s'' [AInt port, AStr (xuiEnabled enabled), AStr path]
               (Obs_Str (text_of (XuiRow_Field row xuiPortAdmin))) (Obs_Str after))
        else Inr ())))))))))))"

definition web_SetPortEnabled :: "web_lib \<Rightarrow> 's web_writer \<Rightarrow> int \<Rightarrow> bool \<Rightarrow> bool \<Rightarrow> ('s, go_error, unit) action" where
  "web_SetPortEnabled L w port enabled force =
     sbind (sret (web_guard w port force)) (\<lambda>_.
     if isGoAheadDialect (ww_spec w)
     then sbind (need_page w (ep_dashboard_path (ww_spec w)) ''the ports page'') (\<lambda>path. setGoAheadPortEnabled L w path port enabled)
     else
       sbind (need_page w (ep_port_config_path (ww_spec w)) ''the port-configuration page'') (\<lambda>path.
       if isGS110EMXDialect (ww_spec w) then setGS110EMXPortEnabled L w path port enabled
       else setXUIPortEnabled L w path port enabled))"

definition web_SetPortDescription :: "web_lib \<Rightarrow> 's web_writer \<Rightarrow> int \<Rightarrow> string \<Rightarrow> bool \<Rightarrow> ('s, go_error, unit) action" where
  "web_SetPortDescription L w port description force =
     sbind (sret (web_guard w port force)) (\<lambda>_.
     if \<not> isGoAheadDialect (ww_spec w)
     then sret (Inl (Wraps ''model %q: no HTTP port-description write is built for this web UI dialect'' [AStr (writer_key w)] ErrUnsupportedCapability))
     else
       sbind (need_page w (ep_dashboard_path (ww_spec w)) ''the ports page'') (\<lambda>path.
       sbind (goaheadPortRow L w path port) (\<lambda>beforeRow.
       sbind (goaheadWrite w (portConfigBody (portInterfaceName port) port None (Some description)) (''port %d description'', [AInt port])) (\<lambda>_.
       sbind (goaheadPortRow L w path port) (\<lambda>afterRow.
       let before = Option.bind beforeRow ps_description; after = Option.bind afterRow ps_description;
           want = some_unless_empty description in
       sret (if after \<noteq> want
         then Inl (Verification (''description for port %d did not read back as '' @ (if want = None then ''None'' else ''%q''))
                (AInt port # (case want of None \<Rightarrow> [] | Some d \<Rightarrow> [AStr d])) (Obs_StrPtr before) (Obs_StrPtr after))
         else Inr ()))))))"

definition PortSpeed_String :: "port_speed \<Rightarrow> string" where
  "PortSpeed_String p =
     (if sp_autonegotiate p then ''auto''
      else show_int (case sp_speed_mbps p of None \<Rightarrow> 0 | Some mbps \<Rightarrow> mbps) @ ''M '' @
        (if sp_full_duplex p = Some True then ''full'' else ''half'') @ ''-duplex'')"

definition web_SetPortSpeed :: "web_lib \<Rightarrow> 's web_writer \<Rightarrow> int \<Rightarrow> port_speed \<Rightarrow> bool \<Rightarrow> ('s, go_error, unit) action" where
  "web_SetPortSpeed L w port speed force =
     sbind (sret (web_guard w port force)) (\<lambda>_.
     if \<not> isGoAheadDialect (ww_spec w)
     then sret (Inl (Wraps ''model %q: no HTTP speed/duplex write form has been captured for this web UI dialect''
       [AStr (writer_key w)] ErrUnsupportedCapability))
     else if \<not> sp_autonegotiate speed \<and>
       \<not> isGoAheadForcedSpeed (case sp_speed_mbps speed of None \<Rightarrow> 0 | Some mbps \<Rightarrow> mbps) (sp_full_duplex speed = Some True)
     then sret (Inl (Wraps (''model %q: this web UI offers no %s choice (its Speed control lists 10/100 half or full, 1000 full, '' @
       ''and Auto)'') [AStr (writer_key w), AStr (PortSpeed_String speed)] ErrUnsupportedCapability))
     else
       sbind (need_page w (ep_dashboard_path (ww_spec w)) ''the ports page'') (\<lambda>path.
       sbind (goaheadPortRow L w path port) (\<lambda>beforeRow.
       sbind (sret (portSpeedBody (portInterfaceName port) port speed)) (\<lambda>body.
       sbind (goaheadWrite w body (''port %d speed -> %s'', [AInt port, AStr (PortSpeed_String speed)])) (\<lambda>_.
       sbind (goaheadPortRow L w path port) (\<lambda>afterRow.
       let before = Option.bind beforeRow ps_speed_config; after = Option.bind afterRow ps_speed_config in
       sret (if (case after of None \<Rightarrow> True | Some sp \<Rightarrow> \<not> PortSpeed_Equal sp speed)
         then Inl (Verification ''speed for port %d did not read back as %s'' [AInt port, AStr (PortSpeed_String speed)]
                (Obs_Speed before) (Obs_Speed after))
         else Inr ())))))))"

section \<open>The web writer (webui/writer.go, webui/cert.go): names, logging, addresses, certificates\<close>

subsection \<open>Refused by every dialect\<close>

definition web_SetFlowControl :: "'s web_writer \<Rightarrow> int \<Rightarrow> bool \<Rightarrow> bool \<Rightarrow> ('s, go_error, unit) action" where
  "web_SetFlowControl w port enabled force =
     sret (Inl (Wraps (''model %q: this web UI'' @ [TICK] @ ''s ports page reports flow control but carries no control to change it'')
       [AStr (writer_key w)] ErrUnsupportedCapability))"

definition web_SetSyslogEnabled :: "'s web_writer \<Rightarrow> bool \<Rightarrow> bool \<Rightarrow> ('s, go_error, unit) action" where
  "web_SetSyslogEnabled w enabled force =
     sret (Inl (Wraps ''model %q: this backend does not expose a remote-logging toggle'' [AStr (writer_key w)] ErrUnsupportedCapability))"

definition web_AddSyslogCollector :: "'s web_writer \<Rightarrow> string \<Rightarrow> int \<Rightarrow> int \<Rightarrow> bool \<Rightarrow> ('s, go_error, unit) action" where
  "web_AddSyslogCollector w host port severity force =
     sret (Inl (Wraps (''model %q: this web UI refuses a collector add (measured: HTTP 200 + '' @
       quoted (''Failed to Set '' @ [TICK] @ ''Host Address'' @ [TICK]) @ ''); the page'' @ [TICK] @ ''s delete works, and the CLI backend adds'')
       [AStr (writer_key w)] ErrUnsupportedCapability))"

subsection \<open>Remote logging\<close>

definition web_syslogPath :: "'s web_writer \<Rightarrow> ('s, go_error, string) action" where
  "web_syslogPath w = need_page w (ep_syslog_path (ww_spec w)) ''remote-logging configuration''"

definition syslogPage :: "web_lib \<Rightarrow> 's web_writer \<Rightarrow> ('s, go_error, xui_list_page) action" where
  "syslogPage L w =
     (if \<not> isM4300Dialect (ww_spec w)
      then sret (Inl (Wraps (''model %q: no syslog-collector row write is grounded for this web UI dialect (only the M4300 pages '' @
        ''render the template row and declare their cell metadata)'') [AStr (writer_key w)] ErrUnsupportedCapability))
      else
        sbind (web_syslogPath w) (\<lambda>path.
        sbind (get_page w path) (\<lambda>html.
        sbind (sret (ParseXUIListPage L html ''syslog configuration'')) (\<lambda>page.
        sret (if xl_template page = []
          then Inl (errUnexpectedPage ''the syslog page renders no v_g_* template row, so a collector cannot be added through it'' [])
          else Inr page)))))"

definition web_RemoveSyslogCollector :: "web_lib \<Rightarrow> 's web_writer \<Rightarrow> string \<Rightarrow> ('s, go_error, unit) action" where
  "web_RemoveSyslogCollector L w host =
     sbind (syslogPage L w) (\<lambda>page.
     sbind (web_syslogPath w) (\<lambda>path.
     sbind (get_page w path) (\<lambda>beforeHTML.
     sbind (sret (ParseXUISyslog L beforeHTML)) (\<lambda>before.
     sbind (sret (if host \<notin> sy_host ` set (sc_servers before)
       then Inl (errUnexpectedPage ''no syslog collector for %q to remove'' [AStr host]) else Inr ())) (\<lambda>_.
     sbind (sret (case RowFor page xuiSyslogHostAddressCol host of
         None \<Rightarrow> Inl (errUnexpectedPage ''the syslog page renders no row for %q'' [AStr host])
       | Some row \<Rightarrow> Inr row)) (\<lambda>row.
     sbind (sret (XuiRowApplyForm L page row [(xuiSyslogHostRowStatus, xuiSyslogRowStatusDelete)] xuiSyslogDeleteButton [])) (\<lambda>body.
     sbind (post_form w (xl_action page) body) (\<lambda>_.
     sbind (get_page w path) (\<lambda>afterHTML.
     sbind (sret (ParseXUISyslog L afterHTML)) (\<lambda>after.
     sret (if host \<in> sy_host ` set (sc_servers after)
       then Inl (Verification ''syslog collector %q is still configured after delete'' [AStr host]
              (Obs_Servers (sc_servers before)) (Obs_Servers (sc_servers after)))
       else Inr ())))))))))))"

subsection \<open>The host name\<close>

abbreviation (input) emxNameMax :: nat where "emxNameMax \<equiv> 20"

definition isASCIIPrintable :: "string \<Rightarrow> bool" where
  "isASCIIPrintable s \<longleftrightarrow> list_all (\<lambda>ch. \<not> (of_char ch < (0x20 :: nat) \<or> of_char ch > (0x7E :: nat))) s"

text \<open>What the rename of a GS110EMX must leave as it is.\<close>

definition addressing :: "http_sys_info \<Rightarrow> ip_mode \<times> string \<times> string \<times> string" where
  "addressing info = (hs_ip_mode info, hs_ip_address info, hs_subnet_mask info, hs_gateway_address info)"

definition ip_mode_text :: "ip_mode \<Rightarrow> string" where
  "ip_mode_text m = (case m of IPModeDHCP \<Rightarrow> ''dhcp'' | IPModeStatic \<Rightarrow> ''static'' | IPModeUnknown \<Rightarrow> ''unknown'')"

definition obs_addressing :: "http_sys_info \<Rightarrow> observed" where
  "obs_addressing info =
     Obs_Strs [ip_mode_text (hs_ip_mode info), hs_ip_address info, hs_subnet_mask info, hs_gateway_address info]"

definition setGS110EMXHostname :: "'s web_writer \<Rightarrow> string \<Rightarrow> ('s, go_error, unit) action" where
  "setGS110EMXHostname w name =
     (if name = [] \<or> length name > emxNameMax \<or> \<not> isASCIIPrintable name
      then sret (Inl (Wraps ''GS110EMX host name %q is not acceptable to this page: it takes 1-%d printable ASCII characters''
        [AStr name, AInt (int emxNameMax)] ErrUnsupportedCapability))
      else
        sbind (need_page w (ep_sysinfo_path (ww_spec w)) ''the system-information page'') (\<lambda>path.
        sbind (get_page w path) (\<lambda>beforeHTML.
        sbind (sret (ParseSysInfo beforeHTML)) (\<lambda>before.
        sbind (post_form w path (GS110EMXSwitchInfoForm name (if hs_ip_mode before = IPModeDHCP then emxDHCPOn else emxDHCPOff)
          (hs_ip_address before) (hs_subnet_mask before) (hs_gateway_address before))) (\<lambda>_.
        sbind (get_page w path) (\<lambda>afterHTML.
        sbind (sret (ParseSysInfo afterHTML)) (\<lambda>after.
        sret (if addressing after \<noteq> addressing before
          then Inl (Verification (''the host-name write CHANGED this switch'' @ [TICK] @ ''s management addressing -- it may be '' @
            ''unreachable at the old address'') [] (obs_addressing before) (obs_addressing after))
          else if hs_switch_name after \<noteq> name
          then Inl (Verification ''hostname did not read back as %q'' [AStr name] (Obs_Str (hs_switch_name before)) (Obs_Str (hs_switch_name after)))
          else Inr ()))))))))"

definition web_SetHostname :: "web_lib \<Rightarrow> 's web_writer \<Rightarrow> string \<Rightarrow> ('s, go_error, unit) action" where
  "web_SetHostname L w name =
     (if isGS110EMXDialect (ww_spec w) then setGS110EMXHostname w name
      else if \<not> isGoAheadDialect (ww_spec w)
      then sret (Inl (Wraps ''model %q: this backend does not expose a host-name write'' [AStr (writer_key w)] ErrUnsupportedCapability))
      else
        sbind (need_page w (ep_sysinfo_path (ww_spec w)) ''the system-information page'') (\<lambda>path.
        sbind (get_page w path) (\<lambda>beforeHTML.
        sbind (sret (ParseGoAheadHostname L beforeHTML)) (\<lambda>before.
        sbind (goaheadWrite w (deviceBasicInfoBody name) (''hostname -> %q'', [AStr name])) (\<lambda>_.
        sbind (get_page w path) (\<lambda>afterHTML.
        sbind (sret (ParseGoAheadHostname L afterHTML)) (\<lambda>after.
        sret (if after \<noteq> name
          then Inl (Verification ''hostname did not read back as %q'' [AStr name] (Obs_Str before) (Obs_Str after))
          else Inr ()))))))))"

subsection \<open>The management address\<close>

definition mgmt_values :: "xui_form_page \<Rightarrow> xui_mgmt_ip_fields \<Rightarrow> string list" where
  "mgmt_values page f = [field (xf_fields page) (mf_address f), field (xf_fields page) (mf_netmask f), field (xf_fields page) (mf_gateway f)]"

definition web_SetMgmtIP :: "web_lib \<Rightarrow> 's web_writer \<Rightarrow> string \<Rightarrow> string \<Rightarrow> string \<Rightarrow> bool \<Rightarrow> ('s, go_error, unit) action" where
  "web_SetMgmtIP L w address netmask gateway force =
     sbind (sret (requireXUIMgmtFields (ww_spec w))) (\<lambda>(path, f).
     if \<not> force
     then sret (Inl (Wraps (''set_mgmt_ip moves the address this session is using and can leave the switch unreachable; '' @
       ''pass force=true'') [] ErrProtectedPort))
     else
       sbind (get_page w path) (\<lambda>html.
       sbind (sret (ParseXUIFormPage L html path)) (\<lambda>page.
       sbind (sret (XuiFormApplyForm L page (mgmtIPChanges f address netmask gateway) (mf_apply_button f))) (\<lambda>body.
       sbind (post_form w (xf_action page) body) (\<lambda>applied.
       sbind (sret (raiseOnFastpathErrFlag L applied (''management IP -> %s/%s'', [AStr address, AStr netmask]))) (\<lambda>_.
       sbind (get_page w path) (\<lambda>afterHTML.
       sbind (sret (ParseXUIFormPage L afterHTML path)) (\<lambda>afterPage.
       sret (if mgmt_values afterPage f \<noteq> [address, netmask, gateway]
         then Inl (Verification ''management IP did not read back as %s/%s via %s on %s''
                [AStr address, AStr netmask, AStr gateway, AStr path]
                (Obs_Strs (mgmt_values page f)) (Obs_Strs (mgmt_values afterPage f)))
         else Inr ())))))))))"

subsection \<open>Certificates\<close>

definition cert_needs_force :: go_error where
  "cert_needs_force =
     Wraps (''SSL-certificate upload replaces the switch'' @ [TICK] @ ''s running certificate and is disruptive; pass force=true'')
       [] ErrProtectedPort"

definition UploadCertificate :: "web_lib \<Rightarrow> 'k key_lib \<Rightarrow> 's web_writer \<Rightarrow> string \<Rightarrow> string \<Rightarrow> bool \<Rightarrow> ('s, go_error, unit) action" where
  "UploadCertificate L K w certPEM keyPEM force =
     sbind (sret (rejectKnownUnimplementedCertUpload (writer_key w))) (\<lambda>_.
     if isGoAheadDialect (ww_spec w) then
       sbind (sret (certUploadXML K (ww_spec w) certPEM keyPEM)) (\<lambda>(path, body).
       if \<not> force then sret (Inl cert_needs_force)
       else sbind (ws_PostXML (ww_session w) path body) (\<lambda>answer. sret (checkGoAheadUploadResponse answer)))
     else
       sbind (sret (certUploadMultipart (ww_spec w) certPEM keyPEM)) (\<lambda>(path, named, payload).
       if \<not> force then sret (Inl cert_needs_force)
       else sbind (ws_PostMultipart (ww_session w) path named payload) (\<lambda>answer. sret (checkMultipartCertResponse L answer))))"

end
