(* ===== verification/Web_Client.thy ===== *)
theory Web_Client
  imports Web_Writes
begin

section \<open>The login hash (webui/crypt.go)\<close>

text \<open>
  The Plus login interleaves the password with a nonce and hashes the result with MD5, the function of
  crypto/md5: sixty-four steps on four 32-bit words for every block of sixty-four bytes.
\<close>

subsection \<open>The interleaving\<close>

fun interleave :: "'a list \<Rightarrow> 'a list \<Rightarrow> 'a list" where
  "interleave [] ys = ys"
| "interleave (x # xs) [] = x # xs"
| "interleave (x # xs) (y # ys) = x # y # interleave xs ys"

definition Merge :: "string \<Rightarrow> string \<Rightarrow> string" where
  "Merge str1 str2 = concat (map encode_rune (interleave (Cli_Text.runes (bytes_of str1)) (Cli_Text.runes (bytes_of str2))))"

subsection \<open>MD5\<close>

definition md5_shifts :: "nat list" where
  "md5_shifts = concat (map (\<lambda>row. concat (replicate 4 row)) [[7, 12, 17, 22], [5, 9, 14, 20], [4, 11, 16, 23], [6, 10, 15, 21]])"

definition md5_table :: "u32 list" where
  "md5_table =
     [0xd76aa478, 0xe8c7b756, 0x242070db, 0xc1bdceee, 0xf57c0faf, 0x4787c62a, 0xa8304613, 0xfd469501,
      0x698098d8, 0x8b44f7af, 0xffff5bb1, 0x895cd7be, 0x6b901122, 0xfd987193, 0xa679438e, 0x49b40821,
      0xf61e2562, 0xc040b340, 0x265e5a51, 0xe9b6c7aa, 0xd62f105d, 0x02441453, 0xd8a1e681, 0xe7d3fbc8,
      0x21e1cde6, 0xc33707d6, 0xf4d50d87, 0x455a14ed, 0xa9e3e905, 0xfcefa3f8, 0x676f02d9, 0x8d2a4c8a,
      0xfffa3942, 0x8771f681, 0x6d9d6122, 0xfde5380c, 0xa4beea44, 0x4bdecfa9, 0xf6bb4b60, 0xbebfbc70,
      0x289b7ec6, 0xeaa127fa, 0xd4ef3085, 0x04881d05, 0xd9d4d039, 0xe6db99e5, 0x1fa27cf8, 0xc4ac5665,
      0xf4292244, 0x432aff97, 0xab9423a7, 0xfc93a039, 0x655b59c3, 0x8f0ccc92, 0xffeff47d, 0x85845dd1,
      0x6fa87e4f, 0xfe2ce6e0, 0xa3014314, 0x4e0811a1, 0xf7537e82, 0xbd3af235, 0x2ad7d2bb, 0xeb86d391]"

text \<open>Words and their bytes, the least significant first.\<close>

definition le_word :: "bytes \<Rightarrow> u32" where
  "le_word bs = fold (\<lambda>b w. push_bit 8 w OR ucast b) (rev bs) 0"

definition le_bytes :: "nat \<Rightarrow> 'a::len word \<Rightarrow> bytes" where
  "le_bytes n w = map (\<lambda>i. ucast (drop_bit (8 * i) w)) [0 ..< n]"

type_synonym md5_state = "u32 \<times> u32 \<times> u32 \<times> u32"

definition md5_step :: "u32 list \<Rightarrow> nat \<Rightarrow> md5_state \<Rightarrow> md5_state" where
  "md5_step M i = (\<lambda>(a, b, c, d).
     let (f, g) =
       (if i < 16 then ((b AND c) OR (NOT b AND d), i)
        else if i < 32 then ((d AND b) OR (NOT d AND c), (5 * i + 1) mod 16)
        else if i < 48 then (b XOR c XOR d, (3 * i + 5) mod 16)
        else (c XOR (b OR NOT d), (7 * i) mod 16)) in
     (d, b + word_rotl (md5_shifts ! i) (f + a + md5_table ! i + M ! g), b, c))"

definition md5_block :: "bytes \<Rightarrow> md5_state \<Rightarrow> md5_state" where
  "md5_block block = (\<lambda>(a0, b0, c0, d0).
     let M = map (\<lambda>i. le_word (take 4 (drop (4 * i) block))) [0 ..< 16] in
     case fold (md5_step M) [0 ..< 64] (a0, b0, c0, d0) of
       (a, b, c, d) \<Rightarrow> (a0 + a, b0 + b, c0 + c, d0 + d))"

definition md5_padded :: "bytes \<Rightarrow> bytes" where
  "md5_padded bs =
     (let n = length bs in
      bs @ [0x80] @ replicate ((119 - n mod 64) mod 64) 0 @ le_bytes 8 (of_nat (8 * n) :: u64))"

definition md5_Sum :: "bytes \<Rightarrow> bytes" where
  "md5_Sum bs =
     (let padded = md5_padded bs in
      case fold md5_block (map (\<lambda>k. take 64 (drop (64 * k) padded)) [0 ..< length padded div 64])
        (0x67452301, 0xefcdab89, 0x98badcfe, 0x10325476) of
        (a, b, c, d) \<Rightarrow> concat (map (le_bytes 4) [a, b, c, d]))"

definition MergeHashMD5 :: "string \<Rightarrow> string \<Rightarrow> string" where
  "MergeHashMD5 password rand = concat (map show_hex (md5_Sum (bytes_of (Merge password rand))))"

lemma length_md5_padded: "length (md5_padded bs) mod 64 = 0"
proof -
  have fill: "(n + (1 + ((119 - n mod 64) mod 64 + 8))) mod 64 = 0" for n :: nat
  proof -
    define q r where "q = n div 64" and "r = n mod 64"
    then have n: "n = 64 * q + r" and r: "r < 64" by simp_all
    have "\<exists>k. r + ((119 - r) mod 64 + 9) = 64 * k"
    proof (cases "r \<le> 55")
      case True
      then have "(119 - r) mod 64 = 55 - r" using mod_add_self2 [of "55 - r" 64] by simp
      with True show ?thesis by (intro exI [of _ 1]) simp
    next
      case False
      with r show ?thesis by (intro exI [of _ 2]) simp
    qed
    then obtain k where "r + ((119 - r) mod 64 + 9) = 64 * k" ..
    moreover have "n + (1 + ((119 - r) mod 64 + 8)) = 64 * q + (r + ((119 - r) mod 64 + 9))"
      by (simp add: n del: mod_less)
    ultimately have "n + (1 + ((119 - r) mod 64 + 8)) = 64 * (q + k)" by (simp only: distrib_left)
    then show ?thesis by (simp only: r_def mod_mult_self1_is_0)
  qed
  have "length (md5_padded bs) = length bs + (1 + ((119 - length bs mod 64) mod 64 + 8))"
    by (simp add: md5_padded_def le_bytes_def Let_def)
  then show ?thesis by (simp only: fill)
qed

lemma interleave_length: "length (interleave xs ys) = length xs + length ys"
  by (induction xs ys rule: interleave.induct) auto

section \<open>The web client (webui/client.go)\<close>

text \<open>
  A session over net/http: log in by the scheme of the model, keep the token or the session path, retry
  a fetch whose connection was dropped, never retry a post.  The library is a parameter: what sending a
  request does to the network, and its cookie jar.  The request is built here; the encoding of a
  multipart body is the library's.
\<close>

subsection \<open>The library\<close>

datatype request_body = Body_None | Body_Text string | Body_Multipart "(string \<times> string) list" multipart_file

record http_request =
  rq_method :: string
  rq_url :: string
  rq_body :: request_body
  rq_content_type :: string
  rq_headers :: "(string \<times> string) list"

text \<open>An error of the library: whether it wraps the end of the input, and its message.\<close>

record net_error =
  ne_eof :: bool
  ne_message :: string

record http_response =
  rs_status :: int
  rs_body :: "net_error + string"
  rs_location :: string
  rs_session_id :: string

record 's http_lib =
  hl_Do :: "bool \<Rightarrow> http_request \<Rightarrow> 's \<Rightarrow> (net_error + http_response) \<times> 's"
  hl_has_cookie :: "string \<Rightarrow> 's \<Rightarrow> bool"
  hl_set_cookie :: "string \<Rightarrow> string \<Rightarrow> 's \<Rightarrow> 's"
  hl_delete_cookie :: "string \<Rightarrow> 's \<Rightarrow> 's"
  hl_cancelled :: "'s \<Rightarrow> bool"

subsection \<open>The client\<close>

abbreviation (input) droppedConnectionRetries :: nat where "droppedConnectionRetries \<equiv> 2"

record 's http_client =
  hc_lib :: "'s http_lib"
  hc_spec :: http_model_spec
  hc_password :: string
  hc_base_url :: string
  hc_referer :: string
  hc_origin :: string

definition NewHTTPClient :: "'s http_lib \<Rightarrow> string \<Rightarrow> string \<Rightarrow> http_model_spec \<Rightarrow> 's http_client" where
  "NewHTTPClient lib host password spec =
     (let base = (if ep_secure spec then ''https'' else ''http'') @ ''://'' @ host in
      \<lparr>hc_lib = lib, hc_spec = spec, hc_password = password, hc_base_url = base,
       hc_referer = (if ep_needs_referer spec then base @ ''/'' else []),
       hc_origin = (if ep_needs_referer spec then base else [])\<rparr>)"

record 's client_state =
  ct_logged_in :: bool
  ct_token :: string
  ct_session_path :: string
  ct_net :: 's

definition setLoggedIn :: "string \<Rightarrow> string \<Rightarrow> 's client_state \<Rightarrow> 's client_state" where
  "setLoggedIn token path s = s\<lparr>ct_logged_in := True, ct_token := token, ct_session_path := path\<rparr>"

definition setLoggedOut :: "'s client_state \<Rightarrow> 's client_state" where "setLoggedOut s = s\<lparr>ct_logged_in := False\<rparr>"

subsection \<open>Errors\<close>

definition errHTTPAuth :: "string \<Rightarrow> msg_arg list \<Rightarrow> go_error" where "errHTTPAuth fmt args = Wraps fmt args ErrHTTPAuth"

definition errHTTPCause :: "net_error \<Rightarrow> string \<Rightarrow> msg_arg list \<Rightarrow> go_error" where
  "errHTTPCause cause fmt args = WrapsCause fmt args ErrHTTP (Foreign (ne_message cause))"

definition wrapTransportErr :: "string \<Rightarrow> string \<Rightarrow> net_error \<Rightarrow> go_error" where
  "wrapTransportErr method path err = errHTTPCause err ''%s %s transport error'' [AStr method, AStr path]"

definition validateResponse :: "web_lib \<Rightarrow> int \<Rightarrow> string \<Rightarrow> string \<times> msg_arg list \<Rightarrow> string \<Rightarrow> unit res" where
  "validateResponse L status bodyText = (\<lambda>(context, args) path.
     if 400 \<le> status then Inl (web_errHTTP (context @ '' returned HTTP %d'') (args @ [AInt status]))
     else if path \<noteq> [] \<and> Contains (lower L bodyText) ''redirect to login''
     then Inl (errHTTPAuth ''session lost fetching %s'' [AStr path])
     else Inr ())"

definition isDroppedConnection :: "net_error \<Rightarrow> bool" where
  "isDroppedConnection err \<longleftrightarrow> ne_eof err \<or>
     Contains (ne_message err) ''EOF'' \<or> Contains (ne_message err) ''connection reset'' \<or>
     Contains (ne_message err) ''server closed idle connection''"

subsection \<open>Texts on the wire\<close>

definition is_unreserved :: "char \<Rightarrow> bool" where "is_unreserved ch \<longleftrightarrow> is_alnum ch \<or> ch \<in> set ''_.-~''"

definition percent :: "char \<Rightarrow> string" where
  "percent ch = CHR ''%'' # map to_upper [hex_digit (of_char ch div 16), hex_digit (of_char ch mod 16)]"

definition isUnreservedOrSlash :: "char \<Rightarrow> bool" where "isUnreservedOrSlash ch \<longleftrightarrow> is_unreserved ch \<or> ch = CHR ''/''"

definition xmlAPIQuote :: "string \<Rightarrow> string" where
  "xmlAPIQuote s = concat (map (\<lambda>ch. if isUnreservedOrSlash ch then [ch] else percent ch) s)"

text \<open>\<^verbatim>\<open>url.QueryEscape\<close>, and \<^verbatim>\<open>url.Values.Encode\<close>: the keys in order.\<close>

definition QueryEscape :: "string \<Rightarrow> string" where
  "QueryEscape s = concat (map (\<lambda>ch. if is_unreserved ch then [ch] else if ch = CHR '' '' then ''+'' else percent ch) s)"

definition sorted_fields :: "form_fields \<Rightarrow> (string \<times> string) list" where
  "sorted_fields named = map (\<lambda>k. (k, field named k)) (sort (remdups (map fst named)))"

definition encodeForm :: "form_fields \<Rightarrow> string" where
  "encodeForm named = Join (map (\<lambda>(k, v). QueryEscape k @ ''='' @ QueryEscape v) (sorted_fields named)) ''&''"

definition appendQueryParam :: "string \<Rightarrow> string \<Rightarrow> string \<Rightarrow> string" where
  "appendQueryParam path key v = path @ (if CHR ''?'' \<in> set path then ''&'' else ''?'') @ key @ ''='' @ QueryEscape v"

definition mergeTokenField :: "http_model_spec \<Rightarrow> string \<Rightarrow> form_fields \<Rightarrow> form_fields" where
  "mergeTokenField spec token named =
     (if ep_session_token_field spec \<noteq> [] then AList.update (ep_session_token_field spec) token named else named)"

subsection \<open>Requests\<close>

definition newRequest :: "'s http_client \<Rightarrow> string \<Rightarrow> string \<Rightarrow> request_body \<Rightarrow> string \<Rightarrow> http_request" where
  "newRequest c method path body contentType =
     \<lparr>rq_method = method, rq_url = hc_base_url c @ concat (map (\<lambda>ch. if ch = CHR '' '' then ''%20'' else [ch]) path),
      rq_body = body, rq_content_type = contentType,
      rq_headers = (if ep_needs_referer (hc_spec c) then [(''Referer'', hc_referer c), (''Origin'', hc_origin c)] else [])\<rparr>"

definition send :: "'s http_client \<Rightarrow> bool \<Rightarrow> http_request \<Rightarrow> 's client_state \<Rightarrow> (net_error + http_response) \<times> 's client_state" where
  "send c follow rq s = (case hl_Do (hc_lib c) follow rq (ct_net s) of (r, n) \<Rightarrow> (r, s\<lparr>ct_net := n\<rparr>))"

text \<open>A request and the whole body of its answer, under one handler of errors.\<close>

definition fetch ::
    "'s http_client \<Rightarrow> (net_error \<Rightarrow> go_error) \<Rightarrow> http_request \<Rightarrow> ('s client_state, go_error, http_response \<times> string) action" where
  "fetch c wrap rq s =
     (case send c True rq s of
        (Inl e, s') \<Rightarrow> (Inl (wrap e), s')
      | (Inr answer, s') \<Rightarrow> ((case rs_body answer of Inl e \<Rightarrow> Inl (wrap e) | Inr body \<Rightarrow> Inr (answer, body)), s'))"

definition login_error :: "net_error \<Rightarrow> go_error" where "login_error e = errHTTPCause e ''web-UI login transport error'' []"

definition doRequest ::
    "'s http_client \<Rightarrow> (net_error \<Rightarrow> go_error) \<Rightarrow> string \<Rightarrow> string \<Rightarrow> request_body \<Rightarrow> string \<Rightarrow>
     ('s client_state, go_error, http_response \<times> string) action" where
  "doRequest c wrap method path body contentType = fetch c wrap (newRequest c method path body contentType)"

subsection \<open>The login\<close>

definition cheetahCSRFTokenNameFirstRE :: rx where
  "cheetahCSRFTokenNameFirstRE = rx_cat [rx_ci ''name='', rx_opt any_quote, rx_ci ''CSRFToken'', rx_opt any_quote, lazy_in_tag,
     rx_ci ''value='', any_quote, Rx_Group 1 unquoted, any_quote]"

definition cheetahCSRFTokenValueFirstRE :: rx where
  "cheetahCSRFTokenValueFirstRE = rx_cat [rx_ci ''value='', any_quote, Rx_Group 1 unquoted, any_quote, lazy_in_tag,
     rx_ci ''name='', rx_opt any_quote, rx_ci ''CSRFToken'', rx_opt any_quote]"

definition cheetahCSRFToken :: "string \<Rightarrow> string option" where
  "cheetahCSRFToken html =
     (case group1 cheetahCSRFTokenNameFirstRE html of
        Some token \<Rightarrow> Some token
      | None \<Rightarrow> group1 cheetahCSRFTokenValueFirstRE html)"

definition loginBody :: "'s http_client \<Rightarrow> string \<Rightarrow> form_fields res" where
  "loginBody c loginPageHTML =
     (let spec = hc_spec c in
      case ep_scheme spec of
        LoginSchemeCheetahV1 \<Rightarrow>
          Inr (put_all ([(if ep_username_field spec = [] then ''uname'' else ep_username_field spec, ep_username spec),
              (ep_password_field spec, hc_password c)] @
            (case cheetahCSRFToken loginPageHTML of None \<Rightarrow> [] | Some token \<Rightarrow> [(''CSRFToken'', token)])) [])
      | LoginSchemeCheetahForm \<Rightarrow>
          Inr (put_all ([(ep_password_field spec, hc_password c)] @
            (if ep_username_field spec \<noteq> [] then [(ep_username_field spec, ep_username spec)] else [])) [])
      | _ \<Rightarrow>
          rbind (if \<not> ep_needs_rand spec then Inr []
              else (let rand = text_of (ParseLoginRand loginPageHTML) in
                if rand = []
                then Inl (errUnexpectedPage (''no login '' @ [TICK] @ ''rand'' @ [TICK] @ '' nonce on %s -- not a %s?'')
                  [AStr (ep_login_path spec), AStr (ep_model_key spec)])
                else Inr rand)) (\<lambda>rand.
          Inr [(ep_password_field spec, MergeHashMD5 (hc_password c) rand)]))"

abbreviation (input) form_type :: string where "form_type \<equiv> ''application/x-www-form-urlencoded''"

text \<open>After the post: the token of a token session, the cookie of any other.\<close>

definition login_outcome :: "'s http_client \<Rightarrow> string \<Rightarrow> ('s client_state, go_error, unit) action" where
  "login_outcome c answer s =
     (let spec = hc_spec c in
      if ep_session_token_field spec \<noteq> []
      then (let token = text_of (ParseGambitToken answer) in
        if token = []
        then (Inl (errHTTPAuth ''web-UI login failed for %s -- no %s token returned (check password, or switch may be locked out)''
               [AStr (ep_model_key spec), AStr (ep_session_token_field spec)]), s)
        else (Inr (), setLoggedIn token [] s))
      else if \<not> hl_has_cookie (hc_lib c) (ep_cookie_name spec) (ct_net s)
      then (Inl (errHTTPAuth ''web-UI login failed for %s -- no %s cookie (check password, or switch may be locked out)''
             [AStr (ep_model_key spec), AStr (ep_cookie_name spec)]), s)
      else (Inr (), setLoggedIn [] [] s))"

definition loginStandard :: "web_lib \<Rightarrow> 's http_client \<Rightarrow> ('s client_state, go_error, unit) action" where
  "loginStandard L c =
     (let spec = hc_spec c;
          postPath = (if ep_login_post_path spec = [] then ep_login_path spec else ep_login_post_path spec) in
      sbind (doRequest c login_error ''GET'' (ep_login_path spec) Body_None []) (\<lambda>(resp, pageText).
      sbind (sret (validateResponse L (rs_status resp) pageText (''GET %s'', [AStr (ep_login_path spec)]) [])) (\<lambda>_.
      sbind (sret (loginBody c pageText)) (\<lambda>body.
      sbind (doRequest c login_error ''POST'' postPath (Body_Text (encodeForm body)) form_type) (\<lambda>(resp2, respText).
      sbind (sret (validateResponse L (rs_status resp2) respText (''POST %s'', [AStr postPath]) [])) (\<lambda>_.
      login_outcome c respText))))))"

subsection \<open>The login of the XML interface\<close>

definition xmlAPISessionPathRE :: rx where
  "xmlAPISessionPathRE = rx_cat [rx_lit ''/'', Rx_Group 1 (some (Rx_Set is_alnum)), rx_lit ''/'']"

definition xmlAPISessionPath :: "http_model_spec \<Rightarrow> http_response \<Rightarrow> string res" where
  "xmlAPISessionPath spec resp =
     (case group1 xmlAPISessionPathRE (rs_location resp) of
        None \<Rightarrow> Inl (errHTTPAuth ''%s login: GET %s gave no session-path redirect (Location=%q)''
          [AStr (ep_model_key spec), AStr (ep_login_path spec), AStr (rs_location resp)])
      | Some path \<Rightarrow> Inr path)"

abbreviation (input) xmlAPIUnauthenticatedStatus :: int where "xmlAPIUnauthenticatedStatus \<equiv> 4"

definition xmlAPISessionLost :: "http_model_spec \<Rightarrow> string \<Rightarrow> bool" where
  "xmlAPISessionLost spec t \<longleftrightarrow>
     ep_scheme spec = LoginSchemeXMLAPI \<and> Option.bind (group1 uploadStatusRE t) Atoi = Some xmlAPIUnauthenticatedStatus"

text \<open>A change of the cookie jar.\<close>

definition with_jar :: "('s \<Rightarrow> 's) \<Rightarrow> 's client_state \<Rightarrow> 's client_state" where "with_jar f s = s\<lparr>ct_net := f (ct_net s)\<rparr>"

definition clear_cookies :: "'s http_client \<Rightarrow> ('s client_state, go_error, unit) action" where
  "clear_cookies c s =
     (Inr (), fold (\<lambda>stale. with_jar (hl_delete_cookie (hc_lib c) stale)) [''userStatus'', ''usernme'', ''sessionID''] s)"

definition redirect_of :: "'s http_client \<Rightarrow> ('s client_state, go_error, http_response) action" where
  "redirect_of c s =
     (case send c False (newRequest c ''GET'' (ep_login_path (hc_spec c)) Body_None []) s of
        (Inl e, s') \<Rightarrow> (Inl (login_error e), s')
      | (Inr resp, s') \<Rightarrow> (Inr resp, s'))"

definition keep_session :: "'s http_client \<Rightarrow> string \<Rightarrow> string \<Rightarrow> ('s client_state, go_error, unit) action" where
  "keep_session c sessionPath sessionID s =
     (let jar = hl_set_cookie (hc_lib c) in
      (Inr (), setLoggedIn [] sessionPath (with_jar (jar (ep_cookie_name (hc_spec c)) sessionID)
        (with_jar (jar ''usernme'' (ep_username (hc_spec c))) (with_jar (jar ''userStatus'' ''ok'') s)))))"

definition loginXMLAPI :: "web_lib \<Rightarrow> 's http_client \<Rightarrow> ('s client_state, go_error, unit) action" where
  "loginXMLAPI L c =
     (let spec = hc_spec c in
      sbind (clear_cookies c) (\<lambda>_.
      sbind (redirect_of c) (\<lambda>resp.
      sbind (sret (xmlAPISessionPath spec resp)) (\<lambda>sessionPath.
      sbind (doRequest c login_error ''GET'' (''/'' @ sessionPath @ ''/System.xml?action=login&user='' @ xmlAPIQuote (ep_username spec) @
        ''&password='' @ xmlAPIQuote (hc_password c)) Body_None []) (\<lambda>(resp2, answer).
      sbind (sret (validateResponse L (rs_status resp2) answer (''GET System.xml?action=login'', []) [])) (\<lambda>_.
      if \<not> Contains answer ''<statusCode>0</statusCode>''
      then sret (Inl (errHTTPAuth ''web-UI login failed for %s -- no <statusCode>0</statusCode> (check password, or switch may be locked out)''
        [AStr (ep_model_key spec)]))
      else if rs_session_id resp2 = []
      then sret (Inl (errHTTPAuth ''web-UI login failed for %s -- no sessionID response header'' [AStr (ep_model_key spec)]))
      else keep_session c sessionPath (rs_session_id resp2)))))))"

definition web_Login :: "web_lib \<Rightarrow> 's http_client \<Rightarrow> ('s client_state, go_error, unit) action" where
  "web_Login L c = (if ep_scheme (hc_spec c) = LoginSchemeXMLAPI then loginXMLAPI L c else loginStandard L c)"

definition ensureLoggedIn :: "web_lib \<Rightarrow> 's http_client \<Rightarrow> ('s client_state, go_error, unit) action" where
  "ensureLoggedIn L c s = (if ct_logged_in s then (Inr (), s) else web_Login L c s)"

subsection \<open>Fetches and posts\<close>

definition readURL :: "'s http_client \<Rightarrow> string \<Rightarrow> 's client_state \<Rightarrow> string" where
  "readURL c path s = (if ep_scheme (hc_spec c) = LoginSchemeXMLAPI then ''/'' @ ct_session_path s @ ''/'' @ path else path)"

text \<open>One attempt, its error unwrapped, and the attempts: \<open>n\<close> are left after this one.\<close>

definition attemptGet ::
    "'s http_client \<Rightarrow> string \<Rightarrow> 's client_state \<Rightarrow> (net_error + int \<times> string) \<times> 's client_state" where
  "attemptGet c reqPath s =
     (case send c True (newRequest c ''GET'' reqPath Body_None []) s of
        (Inl e, s') \<Rightarrow> (Inl e, s')
      | (Inr answer, s') \<Rightarrow> ((case rs_body answer of Inl e \<Rightarrow> Inl e | Inr body \<Rightarrow> Inr (rs_status answer, body)), s'))"

definition dropped :: "string \<Rightarrow> net_error \<Rightarrow> go_error" where
  "dropped displayPath e = errHTTPCause e ''GET %s: connection dropped by switch'' [AStr displayPath]"

fun get_attempts :: "'s http_client \<Rightarrow> string \<Rightarrow> string \<Rightarrow> nat \<Rightarrow> ('s client_state, go_error, int \<times> string) action" where
  "get_attempts c reqPath displayPath n s =
     (case attemptGet c reqPath s of
        (Inr answer, s') \<Rightarrow> (Inr answer, s')
      | (Inl e, s') \<Rightarrow>
          if \<not> isDroppedConnection e then (Inl (wrapTransportErr ''GET'' displayPath e), s')
          else if hl_cancelled (hc_lib c) (ct_net s') then (Inl (dropped displayPath e), s')
          else (case n of 0 \<Rightarrow> (Inl (dropped displayPath e), s') | Suc m \<Rightarrow> get_attempts c reqPath displayPath m s'))"

declare get_attempts.simps [simp del]

definition getWithRetry :: "'s http_client \<Rightarrow> string \<Rightarrow> string \<Rightarrow> ('s client_state, go_error, int \<times> string) action" where
  "getWithRetry c reqPath displayPath = get_attempts c reqPath displayPath droppedConnectionRetries"

definition getPageOnce :: "web_lib \<Rightarrow> 's http_client \<Rightarrow> string \<Rightarrow> ('s client_state, go_error, string) action" where
  "getPageOnce L c path s =
     (let field_name = ep_session_token_field (hc_spec c);
          reqPath = (if field_name \<noteq> [] then appendQueryParam (readURL c path s) field_name (ct_token s) else readURL c path s) in
      sbind (getWithRetry c reqPath path) (\<lambda>(status, answer).
      sbind (sret (validateResponse L status answer (''GET %s'', [AStr path]) path)) (\<lambda>_. sret (Inr answer))) s)"

definition log_out :: "('s client_state, go_error, unit) action" where "log_out s = (Inr (), setLoggedOut s)"

definition client_GetPage :: "web_lib \<Rightarrow> 's http_client \<Rightarrow> string \<Rightarrow> ('s client_state, go_error, string) action" where
  "client_GetPage L c path =
     sbind (ensureLoggedIn L c) (\<lambda>_.
     sbind (getPageOnce L c path) (\<lambda>answer.
     if \<not> xmlAPISessionLost (hc_spec c) answer then sret (Inr answer)
     else
       sbind log_out (\<lambda>_.
       sbind (web_Login L c) (\<lambda>_.
       sbind (getPageOnce L c path) (\<lambda>again.
       sret (if xmlAPISessionLost (hc_spec c) again
         then Inl (errHTTPAuth ''GET %s: the web UI answered with its login page even after re-authenticating -- the session cannot be kept''
           [AStr path])
         else Inr again))))))"

definition postOnce ::
    "'s http_client \<Rightarrow> string \<Rightarrow> request_body \<Rightarrow> string \<Rightarrow> ('s client_state, go_error, int \<times> string) action" where
  "postOnce c path body contentType =
     sbind (doRequest c (wrapTransportErr ''POST'' path) ''POST'' path body contentType) (\<lambda>(resp, answer). sret (Inr (rs_status resp, answer)))"

definition post_checked ::
    "web_lib \<Rightarrow> 's http_client \<Rightarrow> string \<Rightarrow> string \<Rightarrow> request_body \<Rightarrow> string \<Rightarrow> ('s client_state, go_error, string) action" where
  "post_checked L c path url body contentType =
     sbind (postOnce c url body contentType) (\<lambda>(status, answer).
     sbind (sret (validateResponse L status answer (''POST %s'', [AStr path]) [])) (\<lambda>_. sret (Inr answer)))"

definition client_PostForm :: "web_lib \<Rightarrow> 's http_client \<Rightarrow> string \<Rightarrow> form_fields \<Rightarrow> ('s client_state, go_error, string) action" where
  "client_PostForm L c path named =
     sbind (ensureLoggedIn L c) (\<lambda>_ s.
     post_checked L c path path (Body_Text (encodeForm (mergeTokenField (hc_spec c) (ct_token s) named))) form_type s)"

definition client_PostMultipart ::
    "web_lib \<Rightarrow> 's http_client \<Rightarrow> string \<Rightarrow> form_fields \<Rightarrow> multipart_file \<Rightarrow> ('s client_state, go_error, string) action" where
  "client_PostMultipart L c path named payload =
     sbind (ensureLoggedIn L c) (\<lambda>_ s.
     post_checked L c path path
       (Body_Multipart (sorted_fields (mergeTokenField (hc_spec c) (ct_token s) named)) payload) ''multipart/form-data'' s)"

definition client_PostXML :: "web_lib \<Rightarrow> 's http_client \<Rightarrow> string \<Rightarrow> string \<Rightarrow> ('s client_state, go_error, string) action" where
  "client_PostXML L c path body =
     sbind (ensureLoggedIn L c) (\<lambda>_ s.
     sbind (post_checked L c path (readURL c path s) (Body_Text body) ''application/xml; charset=utf-8'') (\<lambda>answer.
     sret (if xmlAPISessionLost (hc_spec c) answer
       then Inl (errHTTPAuth (''POST %s: the web UI answered with its login page -- the session expired, and this write was NOT '' @
         ''re-sent (log in again and retry it deliberately)'') [AStr path])
       else Inr answer)) s)"

text \<open>The session a client is.\<close>

definition client_session :: "web_lib \<Rightarrow> 's http_client \<Rightarrow> 's client_state web_session" where
  "client_session L c =
     \<lparr>ws_Login = web_Login L c, ws_GetPage = client_GetPage L c, ws_PostForm = client_PostForm L c,
      ws_PostMultipart = client_PostMultipart L c, ws_PostXML = client_PostXML L c\<rparr>"

end
