(* ===== verification/Web_Safety.thy ===== *)
theory Web_Safety
  imports Web_Client Table_Roundtrip
begin

section \<open>What the forms of the web writer may say\<close>

text \<open>
  A body made for one row names nothing of another row; a code list changes in one place; the Plus codes
  read back as they were written.
\<close>

subsection \<open>One row\<close>

lemma submit_with_names:
  assumes "submit_with what action hidden buttons button body = Inr out"
  shows "fst ` set out = fst ` set body \<union> fst ` set hidden \<union> {''submit_flag'', ''err_flag'', ''err_msg'', button}"
proof -
  obtain label where "out = put_all [(''submit_flag'', ''8''), (''err_flag'', ''0''), (''err_msg'', ''''), (button, label)]
      (put_all hidden body)"
    using assms by (auto simp: submit_with_def split: option.splits)
  then show ?thesis by (simp add: dom_put_all)
qed

lemma XuiRowApplyForm_eq_Inr:
  assumes "XuiRowApplyForm L page row changes button omit = Inr body"
  obtains "List.find (\<lambda>column. map_of (xr_fields row) (xr_prefix row @ column) = None) (wl_order L (map fst changes)) = None"
    "submit_with ''xui_row_apply_form'' (xl_action page) (xl_hidden page) (xl_buttons page) button
       (put_all (map (\<lambda>(column, v). (xr_prefix row @ column, v)) changes @
          (case xr_checkbox row of None \<Rightarrow> [] | Some box \<Rightarrow> [(box, ''on'')]))
        (put_all (filter (\<lambda>(k, v). k \<notin> set (map (\<lambda>column. xr_prefix row @ column) omit)) (xr_fields row))
          (put_all (xl_nav page) (xl_tokens page)))) = Inr body"
  using assms by (auto simp: XuiRowApplyForm_def Let_def split: option.splits)

text \<open>The order Go meets the keys of a map in is an order of those keys.\<close>

definition orders_keys :: "web_lib \<Rightarrow> bool" where "orders_keys L \<longleftrightarrow> (\<forall>ks. set (wl_order L ks) = set ks)"

lemma changed_columns_shown:
  assumes "orders_keys L" "XuiRowApplyForm L page row changes button omit = Inr body" "(column, v) \<in> set changes"
  shows "xr_prefix row @ column \<in> fst ` set (xr_fields row)"
proof -
  from assms(2) have "List.find (\<lambda>column. map_of (xr_fields row) (xr_prefix row @ column) = None) (wl_order L (map fst changes)) = None"
    by (rule XuiRowApplyForm_eq_Inr)
  then have "\<forall>c \<in> set (wl_order L (map fst changes)). map_of (xr_fields row) (xr_prefix row @ c) \<noteq> None"
    by (simp add: find_None_iff)
  moreover have "column \<in> set (wl_order L (map fst changes))"
    using assms(1,3) by (force simp: orders_keys_def)
  ultimately show ?thesis by (auto simp: map_of_eq_None_iff)
qed

lemma XuiRowApplyForm_names:
  assumes "orders_keys L" "XuiRowApplyForm L page row changes button omit = Inr body"
  shows "fst ` set body \<subseteq> row_names page row button"
proof
  fix name assume name: "name \<in> fst ` set body"
  from assms(2) have "fst ` set body = fst ` set (xl_tokens page) \<union> fst ` set (xl_nav page) \<union>
      fst ` set (filter (\<lambda>(k, v). k \<notin> set (map (\<lambda>column. xr_prefix row @ column) omit)) (xr_fields row)) \<union>
      fst ` set (map (\<lambda>(column, v). (xr_prefix row @ column, v)) changes @
          (case xr_checkbox row of None \<Rightarrow> [] | Some box \<Rightarrow> [(box, ''on'')])) \<union>
      fst ` set (xl_hidden page) \<union> {''submit_flag'', ''err_flag'', ''err_msg'', button}"
    by (elim XuiRowApplyForm_eq_Inr) (simp only: submit_with_names dom_put_all Un_assoc Un_commute Un_left_commute)
  with name consider "name \<in> fst ` set (xl_tokens page)" | "name \<in> fst ` set (xl_nav page)" | "name \<in> fst ` set (xr_fields row)"
    | "xr_checkbox row = Some name" | "name \<in> fst ` set (xl_hidden page)" | "name \<in> {''submit_flag'', ''err_flag'', ''err_msg'', button}"
    | column v where "(column, v) \<in> set changes" "name = xr_prefix row @ column"
    by (auto split: option.splits)
  then show "name \<in> row_names page row button"
    using changed_columns_shown [OF assms] by cases (auto simp: row_names_def)
qed

subsection \<open>The codes of the managed switches\<close>

lemma Join_codes:
  assumes "xs \<noteq> []" "\<forall>x \<in> set xs. CHR '','' \<notin> set x"
  shows "split_on (CHR '','') (Join xs '','') = xs"
  using assms by (intro split_on_Join) (simp_all add: list_all_iff)

lemma split_on_parts: "x \<in> set (split_on c s) \<Longrightarrow> c \<notin> set x"
proof (induction c s arbitrary: x rule: split_on.induct)
  case (2 sep c cs)
  then show ?case by (cases "split_on sep cs") (auto split: if_splits)
qed simp

lemma modeToFastpathMem_no_comma: "CHR '','' \<notin> set (modeToFastpathMem mode)"
  by (cases mode) (simp_all add: modeToFastpathMem_def)

lemma set_list_update_parts: "\<forall>x \<in> set xs. P x \<Longrightarrow> P y \<Longrightarrow> \<forall>x \<in> set (xs[i := y]). P x"
  using set_update_subset_insert [of xs i y] by blast


definition two_port_page :: fastpath_membership where
  "two_port_page =
     \<lparr>fm_vlan_id = Some 20, fm_vlan_ids = [1, 20], fm_name = None, fm_vlan_type = None, fm_tagged = [], fm_untagged = [1],
      fm_hidden_mem = ''0,2,1'', fm_port_slots = [(1, 1), (2, 2)], fm_configured = [(1, VlanUntagged)], fm_fields = [],
      fm_action = ''vlan_port_cfg_rw.html''\<rparr>"


subsection \<open>The codes of the Plus switches\<close>

lemma plusVlanWireCode_single: "\<exists>c. plusVlanWireCode mode = [c] \<and> map_of wireToMode c = Some mode"
  by (cases mode) (simp_all add: plusVlanWireCode_def wireToMode_def)

lemma concat_singles: "concat (map (\<lambda>p. [g p]) xs) = map g xs"
  by (induction xs) auto

lemma MembershipHiddenMem_map:
  "MembershipHiddenMem states n = map (\<lambda>p. hd (plusVlanWireCode (mode_or_excluded states p))) [1 .. n]"
proof -
  have "plusVlanWireCode m = [hd (plusVlanWireCode m)]" for m using plusVlanWireCode_single [of m] by auto
  then have "(\<lambda>p. plusVlanWireCode (mode_or_excluded states p)) = (\<lambda>p. [hd (plusVlanWireCode (mode_or_excluded states p))])" by metis
  then show ?thesis by (simp only: MembershipHiddenMem_def concat_singles)
qed

lemma upto_nth: "i < nat n \<Longrightarrow> [1 .. n] ! i = 1 + int i"
  by simp

lemma wire_mode_hidden_mem:
  assumes "i < nat n"
  shows "wire_mode (MembershipHiddenMem states n) i = Inr (int i + 1, mode_or_excluded states (int i + 1))"
proof -
  obtain c where "plusVlanWireCode (mode_or_excluded states (1 + int i)) = [c]"
      "map_of wireToMode c = Some (mode_or_excluded states (1 + int i))"
    using plusVlanWireCode_single by blast
  with assms show ?thesis by (simp add: wire_mode_def MembershipHiddenMem_map upto_nth add.commute)
qed

lemma each_row_map: "(\<And>x. x \<in> set xs \<Longrightarrow> f x = Inr (g x)) \<Longrightarrow> each_row f xs = Inr (map g xs)"
  by (induction xs) auto

lemma each_row_Inr: "each_row f xs = Inr ys \<longleftrightarrow> list_all2 (\<lambda>x y. f x = Inr y) xs ys"
  by (induction xs arbitrary: ys) (auto simp: res_simps list_all2_Cons1)

lemma ParseMembership_of_hidden_mem:
  assumes "group1 hiddenMemByIDRE html = Some (MembershipHiddenMem states n)"
  shows "ParseMembership html n = Inr (map (\<lambda>i. (int i + 1, mode_or_excluded states (int i + 1))) [0 ..< nat n])"
proof -
  have "\<not> int (length (MembershipHiddenMem states n)) < n" by (simp add: MembershipHiddenMem_map)
  moreover have "each_row (wire_mode (MembershipHiddenMem states n)) [0 ..< nat n] =
      Inr (map (\<lambda>i. (int i + 1, mode_or_excluded states (int i + 1))) [0 ..< nat n])"
    by (rule each_row_map) (simp add: wire_mode_hidden_mem)
  ultimately show ?thesis using assms by (simp add: ParseMembership_def)
qed

text \<open>The codes written for a change of one port are those read, but for that port.\<close>

lemma ParseMembership_raw:
  assumes "ParseMembership html n = Inr states"
  obtains raw where "length raw \<ge> nat n" "length states = nat n"
    "\<And>i. i < nat n \<Longrightarrow> states ! i = (int i + 1, the (map_of wireToMode (raw ! i))) \<and> map_of wireToMode (raw ! i) \<noteq> None"
    "(case group1 hiddenMemByIDRE html of Some r \<Rightarrow> Some r | None \<Rightarrow> group1 hiddenMemByNameRE html) = Some raw"
proof -
  obtain raw where raw: "(case group1 hiddenMemByIDRE html of Some r \<Rightarrow> Some r | None \<Rightarrow> group1 hiddenMemByNameRE html) = Some raw"
      "\<not> int (length raw) < n" "each_row (wire_mode raw) [0 ..< nat n] = Inr states"
    using assms by (auto simp: ParseMembership_def split: option.splits if_splits)
  then have all: "list_all2 (\<lambda>i y. wire_mode raw i = Inr y) [0 ..< nat n] states" by (simp add: each_row_Inr)
  then have len: "length states = nat n" by (simp add: list_all2_lengthD [symmetric])
  have "states ! i = (int i + 1, the (map_of wireToMode (raw ! i))) \<and> map_of wireToMode (raw ! i) \<noteq> None" if "i < nat n" for i
    using list_all2_nthD [OF all, of i] that by (auto simp: wire_mode_def split: option.splits)
  with raw(1,2) len show ?thesis by (intro that) auto
qed

end
