(* ===== verification/Web_Verified.thy ===== *)
theory Web_Verified
  imports Web_Safety
begin

section \<open>What a success of the web writer means\<close>

text \<open>
  Over any session, and so over any switch and network: a write on a protected port does nothing, a
  success was read back from the last page, and the form in between changes what it is meant to change.
  For the session a client is: a write is sent once, a fetch at most three times.
\<close>

subsection \<open>A Plus switch with one VLAN\<close>

text \<open>The session of a switch that keeps the codes of one VLAN and serves its page.\<close>

definition plain_lib :: web_lib where
  "plain_lib =
     \<lparr>wl_unicode = \<lparr>uc_lower = id, uc_upper = id\<rparr>, wl_entity = (\<lambda>_. None), wl_entity2 = (\<lambda>_. None),
      wl_xml = (\<lambda>_. Inl ''no XML here''), wl_order = id\<rparr>"

definition plus_page :: "string \<Rightarrow> string" where
  "plus_page codes =
     ''<input id='' @ quoted ''hiddenMem'' @ '' value='' @ quoted codes @ ''><input name='' @ quoted ''hash'' @ '' value='' @ quoted ''7'' @ ''>''"

definition plus_post :: "string \<Rightarrow> form_fields \<Rightarrow> (string, go_error, string) action" where
  "plus_post path named codes =
     (let now = (case map_of named ''hiddenMem'' of None \<Rightarrow> codes | Some sent \<Rightarrow> sent) in (Inr (plus_page now), now))"

definition plus_session :: "string web_session" where
  "plus_session =
     \<lparr>ws_Login = sret (Inr ()), ws_GetPage = (\<lambda>path codes. (Inr (plus_page codes), codes)), ws_PostForm = plus_post,
      ws_PostMultipart = (\<lambda>path named file. sret (Inl (web_errHTTP ''no uploads'' []))),
      ws_PostXML = (\<lambda>path body. sret (Inl (web_errHTTP ''no XML'' [])))\<rparr>"

definition plus_writer :: "string web_writer" where
  "plus_writer =
     \<lparr>ww_session = plus_session, ww_spec = gs305epSpec, ww_model = model_gs305ep, ww_protected = [5],
      ww_clock = (\<lambda>s. (0, s)), ww_sleep = (\<lambda>n. sret (Inr ()))\<rparr>"

lemma plus_write: "web_SetVlanMembership plain_lib plus_writer 20 2 VlanTagged False ''11113'' = (Inr (), ''12113'')"
  by code_simp

lemma plus_plain: "\<not> isFastpathDialect (ww_spec plus_writer)" "\<not> isGoAheadDialect (ww_spec plus_writer)"
  by code_simp+

subsection \<open>Protected ports\<close>

text \<open>The writes that take a port.\<close>

datatype web_port_write =
  Web_PVID int int
| Web_Member int int vlan_mode
| Web_Admin int bool
| Web_Describe int string
| Web_Speed int port_speed
| Web_PoE int bool
| Web_Flow int bool

fun web_port :: "web_port_write \<Rightarrow> int" where
  "web_port (Web_PVID port vlan) = port"
| "web_port (Web_Member vlan port mode) = port"
| "web_port (Web_Admin port on) = port"
| "web_port (Web_Describe port description) = port"
| "web_port (Web_Speed port speed) = port"
| "web_port (Web_PoE port on) = port"
| "web_port (Web_Flow port on) = port"

fun web_write :: "web_lib \<Rightarrow> 's web_writer \<Rightarrow> bool \<Rightarrow> web_port_write \<Rightarrow> ('s, go_error, unit) action" where
  "web_write L w force (Web_PVID port vlan) = web_SetPVID L w port vlan force"
| "web_write L w force (Web_Member vlan port mode) = web_SetVlanMembership L w vlan port mode force"
| "web_write L w force (Web_Admin port on) = web_SetPortEnabled L w port on force"
| "web_write L w force (Web_Describe port description) = web_SetPortDescription L w port description force"
| "web_write L w force (Web_Speed port speed) = web_SetPortSpeed L w port speed force"
| "web_write L w force (Web_PoE port on) = web_SetPoE L w port on force"
| "web_write L w force (Web_Flow port on) = web_SetFlowControl w port on force"

text \<open>
  C16.  An unforced write on a protected port does nothing: it refuses before any request, with the error of
  a protected port or of a capability the model lacks, and leaves the session and what is behind it as it
  was.  That holds of every write that takes a port: the seven of \<open>web_port_write\<close>, the power cycle
  and the clearing of a fault.
\<close>

theorem web_protected_port:
  assumes "web_port op \<in> set (ww_protected w)"
  shows "(\<exists>e. web_write L w False op s = (Inl e, s) \<and> (errors_is e ErrProtectedPort \<or> errors_is e ErrUnsupportedCapability)) \<and>
    (\<exists>e. web_CyclePoE L w (web_port op) False s = Some (Inl e, s) \<and>
      (errors_is e ErrProtectedPort \<or> errors_is e ErrUnsupportedCapability)) \<and>
    (\<exists>e. web_ClearPoEFault L w (web_port op) False s = Some (Inl e, s) \<and>
      (errors_is e ErrProtectedPort \<or> errors_is e ErrUnsupportedCapability))"
proof (intro conjI)
  show "\<exists>e. web_write L w False op s = (Inl e, s) \<and> (errors_is e ErrProtectedPort \<or> errors_is e ErrUnsupportedCapability)"
    using assms
    by (cases op) (simp_all add: web_SetPVID_def web_SetVlanMembership_def web_SetPortEnabled_def web_SetPortDescription_def
      web_SetPortSpeed_def web_SetPoE_def web_SetFlowControl_def web_guard_def need_page_def requirePath_def unsupportedOp_def
      split: sum.split)
  show "\<exists>e. web_CyclePoE L w (web_port op) False s = Some (Inl e, s) \<and>
      (errors_is e ErrProtectedPort \<or> errors_is e ErrUnsupportedCapability)"
    using assms
    by (simp add: web_CyclePoE_def web_guard_def need_page_def requirePath_def unsupportedOp_def returns_def run_bind_def)
  show "\<exists>e. web_ClearPoEFault L w (web_port op) False s = Some (Inl e, s) \<and>
      (errors_is e ErrProtectedPort \<or> errors_is e ErrUnsupportedCapability)"
    using assms
    by (simp add: web_ClearPoEFault_def web_guard_def need_page_def requirePath_def unsupportedOp_def returns_def run_bind_def)
qed

theorem web_protected_port_witness:
  "(\<exists>e. web_write plain_lib plus_writer False (Web_PVID 5 20) ''11113'' = (Inl e, ''11113'') \<and>
     (errors_is e ErrProtectedPort \<or> errors_is e ErrUnsupportedCapability)) \<and>
   (\<exists>e. web_ClearPoEFault plain_lib plus_writer 5 False ''11113'' = Some (Inl e, ''11113'') \<and>
     (errors_is e ErrProtectedPort \<or> errors_is e ErrUnsupportedCapability))"
proof -
  have "web_port (Web_PVID 5 20) \<in> set (ww_protected plus_writer)" by (simp add: plus_writer_def)
  from web_protected_port [OF this] show ?thesis by (simp only: web_port.simps)
qed

subsection \<open>A success was read back\<close>

text \<open>The mode a page shows a port of a VLAN in, by the parser of the dialect.\<close>

definition web_shown_mode :: "web_lib \<Rightarrow> http_model_spec \<Rightarrow> int \<Rightarrow> int \<Rightarrow> int \<Rightarrow> string \<Rightarrow> vlan_mode option" where
  "web_shown_mode L spec ports vlan port page =
     (if isFastpathDialect spec then
        (case ParseFastpathMembership L page of
           Inr shown \<Rightarrow> if shows_other shown vlan = None then map_of (fm_configured shown) port else None
         | Inl e \<Rightarrow> None)
      else if isGoAheadDialect spec then
        (case ParseGoAheadPortVlanMembership L page of Inr membership \<Rightarrow> Some (goaheadModeOf membership vlan port) | Inl e \<Rightarrow> None)
      else (case ParseMembership page ports of Inr states \<Rightarrow> map_of states port | Inl e \<Rightarrow> None))"

text \<open>A page the switch answered a request of the session with.\<close>

definition answered :: "'s web_writer \<Rightarrow> 's \<Rightarrow> string \<Rightarrow> 's \<Rightarrow> bool" where
  "answered w s page t \<longleftrightarrow>
     (\<exists>path. ws_GetPage (ww_session w) path s = (Inr page, t)) \<or>
     (\<exists>path body. ws_PostForm (ww_session w) path body s = (Inr page, t))"

lemma answeredI [intro]:
  "ws_GetPage (ww_session w) path s = (Inr page, t) \<Longrightarrow> answered w s page t"
  "ws_PostForm (ww_session w) path body s = (Inr page, t) \<Longrightarrow> answered w s page t"
  by (auto simp: answered_def)

lemma readFastpathMembership_shows:
  assumes "readFastpathMembership L w vlan getPath postPath s = (Inr page, t)"
  shows "\<exists>u html. answered w u html t \<and> ParseFastpathMembership L html = Inr page \<and> shows_other page vlan = None"
  using assms
  by (fastforce simp: readFastpathMembership_def res_simps requireFastpathMembershipFor_def shows_other_def
    simp del: sbind_sret split: if_splits option.splits)

lemma web_guard_passed: "web_guard w port force = Inr x \<Longrightarrow> port \<notin> set (ww_protected w) \<or> force"
  by (auto simp: web_guard_def split: if_splits)

lemma setFastpathMembership_shows:
  assumes "setFastpathMembership L w vlan port mode s = (Inr (), t)"
  shows "\<exists>u html page. answered w u html t \<and> ParseFastpathMembership L html = Inr page \<and> shows_other page vlan = None \<and>
    map_of (fm_configured page) port = Some mode"
  using assms
  by (fastforce simp: setFastpathMembership_def res_simps Let_def simp del: sbind_sret
    dest!: readFastpathMembership_shows split: if_splits prod.splits)

lemma setGoAheadMembership_shows:
  assumes "setGoAheadMembership L w vlan port mode s = (Inr (), t)"
  shows "\<exists>u html m. answered w u html t \<and> ParseGoAheadPortVlanMembership L html = Inr m \<and> goaheadModeOf m vlan port = mode"
  using assms
  by (fastforce simp: setGoAheadMembership_def goaheadMembership_def res_simps simp del: sbind_sret split: if_splits)

text \<open>
  C15.  A membership change reported successful was verified, on every web dialect: the port was not
  protected or the write forced, and the page the switch answered last shows the port in the mode asked
  for, of that VLAN and no other.
\<close>

theorem web_membership_verified:
  assumes "web_SetVlanMembership L w vlan port mode force s = (Inr (), t)"
  shows "(port \<notin> set (ww_protected w) \<or> force) \<and>
    (\<exists>u page. answered w u page t \<and> web_shown_mode L (ww_spec w) (sm_port_count (ww_model w)) vlan port page = Some mode)"
proof -
  have guarded: "port \<notin> set (ww_protected w) \<or> force"
    using assms by (auto simp: web_SetVlanMembership_def res_simps simp del: sbind_sret dest: web_guard_passed)
  have "\<exists>u page. answered w u page t \<and> web_shown_mode L (ww_spec w) (sm_port_count (ww_model w)) vlan port page = Some mode"
  proof -
    consider (fast) "isFastpathDialect (ww_spec w)" "setFastpathMembership L w vlan port mode s = (Inr (), t)"
      | (xml) "\<not> isFastpathDialect (ww_spec w)" "isGoAheadDialect (ww_spec w)" "setGoAheadMembership L w vlan port mode s = (Inr (), t)"
      | (plus) "\<not> isFastpathDialect (ww_spec w)" "\<not> isGoAheadDialect (ww_spec w)" "setPlusMembership w vlan port mode s = (Inr (), t)"
      using assms by (auto simp: web_SetVlanMembership_def split: if_splits sum.splits)
    then show ?thesis
    proof cases
      case fast then show ?thesis using setFastpathMembership_shows by (fastforce simp: web_shown_mode_def)
    next
      case xml then show ?thesis using setGoAheadMembership_shows by (fastforce simp: web_shown_mode_def)
    next
      case plus
      then obtain u path html states where "ws_PostForm (ww_session w) path [(''VLAN_ID'', show_int vlan)] u = (Inr html, t)"
          "ParseMembership html (sm_port_count (ww_model w)) = Inr states" "map_of states port = Some mode"
        by (auto simp: setPlusMembership_def Let_def res_simps simp del: sbind_sret split: if_splits)
      with plus show ?thesis by (intro exI [of _ u] exI [of _ html]) (auto simp: web_shown_mode_def)
    qed
  qed
  with guarded show ?thesis by simp
qed

theorem web_membership_verified_witness:
  "\<exists>u page. answered plus_writer u page ''12113'' \<and>
     web_shown_mode plain_lib gs305epSpec 5 20 2 page = Some VlanTagged"
proof -
  have "ww_spec plus_writer = gs305epSpec" "sm_port_count (ww_model plus_writer) = 5"
    by (simp_all add: plus_writer_def model_gs305ep_def)
  with web_membership_verified [OF plus_write] show ?thesis by simp
qed

subsection \<open>What a membership form changes\<close>

text \<open>The modes a list of codes gives the ports from 1.\<close>

definition code_mode :: "string \<Rightarrow> int \<Rightarrow> vlan_mode option" where
  "code_mode codes port =
     (if 1 \<le> port \<and> port \<le> int (length codes) then map_of wireToMode (codes ! nat (port - 1)) else None)"

lemma code_mode_hidden_mem:
  "code_mode (MembershipHiddenMem states n) port = (if 1 \<le> port \<and> port \<le> n then Some (mode_or_excluded states port) else None)"
proof (cases "1 \<le> port \<and> port \<le> n")
  case True
  then have i: "nat (port - 1) < nat n" "1 + int (nat (port - 1)) = port" by auto
  then have "wire_mode (MembershipHiddenMem states n) (nat (port - 1)) = Inr (port, mode_or_excluded states port)"
    using wire_mode_hidden_mem [of "nat (port - 1)" n states] by (simp add: add.commute)
  then have "map_of wireToMode (MembershipHiddenMem states n ! nat (port - 1)) = Some (mode_or_excluded states port)"
    by (auto simp: wire_mode_def split: option.splits)
  with True show ?thesis by (simp add: code_mode_def MembershipHiddenMem_map)
qed (auto simp: code_mode_def MembershipHiddenMem_map)

lemma ParseMembership_ports: "ParseMembership html n = Inr states \<Longrightarrow> map fst states = map (\<lambda>i. int i + 1) [0 ..< nat n]"
  by (erule ParseMembership_raw) (auto intro!: nth_equalityI)

lemma ParseMembership_shows:
  assumes "ParseMembership html n = Inr states"
  shows "map_of states port \<noteq> None \<longleftrightarrow> 1 \<le> port \<and> port \<le> n"
proof -
  have "fst ` set states = (\<lambda>i. int i + 1) ` {0 ..< nat n}"
    using arg_cong [OF ParseMembership_ports [OF assms], of set] by simp
  moreover have "port \<in> (\<lambda>i. int i + 1) ` {0 ..< nat n} \<longleftrightarrow> 1 \<le> port \<and> port \<le> n"
    by (auto intro!: image_eqI [of _ _ "nat (port - 1)"])
  ultimately show ?thesis by (simp add: map_of_eq_None_iff)
qed

text \<open>
  C14.  On a Plus switch a membership change that reports success made two posts that select the VLAN and
  one between them that sends, under the token of the page first answered, the codes of that page with
  one port changed, the named one, to the mode asked for; and the page answered last shows that mode.
\<close>

theorem web_plus_change:
  assumes "\<not> isFastpathDialect (ww_spec w)" "\<not> isGoAheadDialect (ww_spec w)"
    "web_SetVlanMembership L w vlan port mode force s = (Inr (), t)"
  shows "\<exists>html states csrf codes answer last after s1 s2. let path = ep_vlan_membership_path (ww_spec w);
      n = sm_port_count (ww_model w); post = ws_PostForm (ww_session w) path in
    1 \<le> port \<and> port \<le> n \<and>
    post [(''VLAN_ID'', show_int vlan)] s = (Inr html, s1) \<and>
    ParseMembership html n = Inr states \<and> ParseCSRFHash html = Some csrf \<and>
    post (MembershipForm vlan codes csrf) s1 = (Inr answer, s2) \<and>
    code_mode codes = (map_of states)(port \<mapsto> mode) \<and>
    post [(''VLAN_ID'', show_int vlan)] s2 = (Inr last, t) \<and>
    ParseMembership last n = Inr after \<and> map_of after port = Some mode"
proof -
  define n where "n = sm_port_count (ww_model w)"
  define post where "post = ws_PostForm (ww_session w) (ep_vlan_membership_path (ww_spec w))"
  have "setPlusMembership w vlan port mode s = (Inr (), t)"
    using assms by (auto simp: web_SetVlanMembership_def split: sum.splits)
  then obtain html s1 states csrf answer s2 last after where steps:
      "post [(''VLAN_ID'', show_int vlan)] s = (Inr html, s1)" "ParseMembership html n = Inr states" "ParseCSRFHash html = Some csrf"
      "post (MembershipForm vlan (MembershipHiddenMem (AList.update port mode states) n) csrf) s1 = (Inr answer, s2)"
      "post [(''VLAN_ID'', show_int vlan)] s2 = (Inr last, t)" "ParseMembership last n = Inr after" "map_of after port = Some mode"
    by (auto simp: setPlusMembership_def Let_def res_simps need_page_def requirePath_def requireCSRF_def post_def n_def
      simp del: sbind_sret split: if_splits option.splits)
  from ParseMembership_shows [OF steps(6), of port] steps(7) have range: "1 \<le> port" "port \<le> n" by simp_all
  have "code_mode (MembershipHiddenMem (AList.update port mode states) n) = (map_of states)(port \<mapsto> mode)"
  proof
    fix p show "code_mode (MembershipHiddenMem (AList.update port mode states) n) p = ((map_of states)(port \<mapsto> mode)) p"
      using ParseMembership_shows [OF steps(2), of p] range
      by (auto simp: code_mode_hidden_mem mode_or_excluded_def update_conv' split: option.split)
  qed
  with steps range show ?thesis unfolding Let_def n_def [symmetric] post_def [symmetric] by blast
qed

theorem web_plus_change_witness:
  "\<exists>html states csrf codes answer last after s1 s2. let path = ep_vlan_membership_path (ww_spec plus_writer);
      n = sm_port_count (ww_model plus_writer); post = ws_PostForm (ww_session plus_writer) path in
    1 \<le> (2::int) \<and> 2 \<le> n \<and>
    post [(''VLAN_ID'', show_int 20)] ''11113'' = (Inr html, s1) \<and>
    ParseMembership html n = Inr states \<and> ParseCSRFHash html = Some csrf \<and>
    post (MembershipForm 20 codes csrf) s1 = (Inr answer, s2) \<and>
    code_mode codes = (map_of states)(2 \<mapsto> VlanTagged) \<and>
    post [(''VLAN_ID'', show_int 20)] s2 = (Inr last, ''12113'') \<and>
    ParseMembership last n = Inr after \<and> map_of after 2 = Some VlanTagged"
  by (rule web_plus_change [OF plus_plain plus_write])

lemma web_SetPVID_verified:
  assumes "web_SetPVID L w port vlan force s = (Inr (), t)"
  shows "(port \<notin> set (ww_protected w) \<or> force) \<and>
    (\<exists>u html pairs. ws_GetPage (ww_session w) (ep_pvid_path (ww_spec w)) u = (Inr html, t) \<and>
      (if isGoAheadDialect (ww_spec w) then ParseGoAheadPVIDs L html else web_ParsePVIDs html) = Inr pairs \<and>
      map_of (pvidLookupMap pairs) port = Some vlan)"
  using assms
  by (fastforce simp: web_SetPVID_def setGoAheadPVID_def goaheadPVIDs_def res_simps Let_def need_page_def requirePath_def
    simp del: sbind_sret dest: web_guard_passed split: if_splits)

subsection \<open>The row form of a port\<close>

lemma findXUIRow_names:
  assumes "findXUIRow page port column what = Inr row"
  shows "row \<in> set (xl_rows page) \<and> (\<exists>ifname \<in> set (fastpathIfnames port). XuiRow_Field row column = Some ifname)"
proof -
  from assms obtain rest where "row # rest =
      concat (map (\<lambda>ifname. case RowFor page column ifname of Some row \<Rightarrow> [row] | None \<Rightarrow> []) (fastpathIfnames port))"
    by (auto simp: findXUIRow_def split: prod.splits list.splits)
  then have "row \<in> set (concat (map (\<lambda>ifname. case RowFor page column ifname of Some row \<Rightarrow> [row] | None \<Rightarrow> []) (fastpathIfnames port)))"
    by (metis list.set_intros(1))
  then show ?thesis by (auto simp: RowFor_def find_Some_iff eq_commute [of "Some row"] split: option.splits)
qed

lemma XuiRowApplyForm_value:
  assumes "XuiRowApplyForm L page row [(column, v)] button omit = Inr body" "xr_checkbox row \<noteq> Some (xr_prefix row @ column)"
    "xr_prefix row @ column \<notin> fst ` set (xl_hidden page) \<union> {''submit_flag'', ''err_flag'', ''err_msg'', button}"
  shows "map_of body (xr_prefix row @ column) = Some v"
proof -
  let ?name = "xr_prefix row @ column"
  have hidden: "map_of (rev (xl_hidden page)) ?name = None" using assms(3) by (simp add: map_of_eq_None_iff)
  from assms(1) obtain base where "submit_with ''xui_row_apply_form'' (xl_action page) (xl_hidden page) (xl_buttons page) button
      (put_all ((?name, v) # (case xr_checkbox row of None \<Rightarrow> [] | Some box \<Rightarrow> [(box, ''on'')])) base) = Inr body"
    by (rule XuiRowApplyForm_eq_Inr) simp
  then obtain label where body: "body = put_all [(''submit_flag'', ''8''), (''err_flag'', ''0''), (''err_msg'', []), (button, label)]
      (put_all (xl_hidden page) (put_all ((?name, v) # (case xr_checkbox row of None \<Rightarrow> [] | Some box \<Rightarrow> [(box, ''on'')])) base))"
    by (auto simp: submit_with_def split: option.splits)
  have "map_of (rev ((?name, v) # (case xr_checkbox row of None \<Rightarrow> [] | Some box \<Rightarrow> [(box, ''on'')]))) ?name = Some v"
    using assms(2) by (cases "xr_checkbox row") (auto simp: map_add_def)
  with hidden assms(3) show ?thesis
    unfolding body map_of_put_all map_add_def by simp
qed

text \<open>
  C17.  The form the writer makes for one row of a list page - a port, a PoE port, a syslog collector - names
  the fields and the checkbox of that row and what the page has for all rows, nothing of another row; each
  changed column is one the row shows, and a single change is in the form as asked for.
\<close>

theorem web_row_form:
  assumes "orders_keys L" "XuiRowApplyForm L page row changes button omit = Inr body"
  shows "fst ` set body \<subseteq> row_names page row button \<and>
    (\<forall>(column, v) \<in> set changes. xr_prefix row @ column \<in> fst ` set (xr_fields row)) \<and>
    (\<forall>column v. changes = [(column, v)] \<and> xr_checkbox row \<noteq> Some (xr_prefix row @ column) \<and>
      xr_prefix row @ column \<notin> fst ` set (xl_hidden page) \<union> {''submit_flag'', ''err_flag'', ''err_msg'', button} \<longrightarrow>
      map_of body (xr_prefix row @ column) = Some v)"
proof (intro conjI allI impI)
  show "fst ` set body \<subseteq> row_names page row button" by (rule XuiRowApplyForm_names [OF assms])
  show "\<forall>(column, v) \<in> set changes. xr_prefix row @ column \<in> fst ` set (xr_fields row)"
    using changed_columns_shown [OF assms] by blast
  fix column v
  assume single: "changes = [(column, v)] \<and> xr_checkbox row \<noteq> Some (xr_prefix row @ column) \<and>
    xr_prefix row @ column \<notin> fst ` set (xl_hidden page) \<union> {''submit_flag'', ''err_flag'', ''err_msg'', button}"
  show "map_of body (xr_prefix row @ column) = Some v"
    by (rule XuiRowApplyForm_value [of L page row column v button omit]) (use assms(2) single in simp_all)
qed

text \<open>A page of two ports.\<close>

definition port_row :: "string \<Rightarrow> string \<Rightarrow> xui_row" where
  "port_row pre ifname =
     \<lparr>xr_prefix = pre, xr_checkbox = Some (pre @ ''v_1_1_1''), xr_fields = [(pre @ ''v_1_2_1'', ifname), (pre @ ''v_1_2_6'', ''Enable'')]\<rparr>"

definition ports_page :: xui_list_page where
  "ports_page =
     \<lparr>xl_action = ''/ports.html/a1'', xl_hidden = [(''err_flag'', ''1'')], xl_buttons = [(''v_2_1_2'', ''APPLY'')],
      xl_rows = [port_row ''1.'' ''1/0/1'', port_row ''2.'' ''1/0/2''], xl_tokens = [], xl_nav = [], xl_template = []\<rparr>"

theorem web_row_form_witness:
  "\<exists>body. XuiRowApplyForm plain_lib ports_page (port_row ''2.'' ''1/0/2'') [(''v_1_2_6'', ''Disable'')] ''v_2_1_2'' [] = Inr body \<and>
     map_of body ''2.v_1_2_6'' = Some ''Disable'' \<and> ''1.v_1_2_6'' \<notin> fst ` set body"
proof -
  obtain body where body:
      "XuiRowApplyForm plain_lib ports_page (port_row ''2.'' ''1/0/2'') [(''v_1_2_6'', ''Disable'')] ''v_2_1_2'' [] = Inr body"
    by (simp add: XuiRowApplyForm_def submit_with_def port_row_def ports_page_def plain_lib_def)
  have order: "orders_keys plain_lib" by (simp add: orders_keys_def plain_lib_def)
  have apart: "''1.v_1_2_6'' \<notin> row_names ports_page (port_row ''2.'' ''1/0/2'') ''v_2_1_2''"
    by (simp add: row_names_def ports_page_def port_row_def)
  from web_row_form [OF order body] apart body show ?thesis
    by (auto simp: port_row_def ports_page_def)
qed

text \<open>
  On a managed switch a change of a port's admin mode that reports success posted one form, made from
  the row of the page that shows the port: it names the columns and the checkbox of that row and what the
  page has for all rows, nothing of another row, and sets the admin column to the mode asked for.  The
  page read last shows that mode.
\<close>

theorem setXUIPortEnabled_form:
  assumes "orders_keys L" "setXUIPortEnabled L w path port on s = (Inr (), t)"
  shows "\<exists>html page row body answer s1 s2 last page' row'.
    ws_GetPage (ww_session w) path s = (Inr html, s1) \<and> ParseXUIListPage L html path = Inr page \<and>
    row \<in> set (xl_rows page) \<and> (\<exists>ifname \<in> set (fastpathIfnames port). XuiRow_Field row xuiPortIfname = Some ifname) \<and>
    ws_PostForm (ww_session w) (xl_action page) body s1 = (Inr answer, s2) \<and> ParseFastpathErr L answer = None \<and>
    fst ` set body \<subseteq> row_names page row ''v_2_1_2'' \<and>
    (xr_checkbox row \<noteq> Some (xr_prefix row @ xuiPortAdmin) \<and>
     xr_prefix row @ xuiPortAdmin \<notin> fst ` set (xl_hidden page) \<union> {''submit_flag'', ''err_flag'', ''err_msg'', ''v_2_1_2''} \<longrightarrow>
       map_of body (xr_prefix row @ xuiPortAdmin) = Some (xuiEnabled on)) \<and>
    ws_GetPage (ww_session w) path s2 = (Inr last, t) \<and> ParseXUIListPage L last path = Inr page' \<and>
    row' \<in> set (xl_rows page') \<and> text_of (XuiRow_Field row' xuiPortAdmin) = xuiEnabled on"
proof -
  from assms(2) obtain html s1 page row body answer s2 last page' row' where steps:
      "ws_GetPage (ww_session w) path s = (Inr html, s1)" "ParseXUIListPage L html path = Inr page"
      "findXUIRow page port xuiPortIfname (''%q port configuration'', [AStr (writer_key w)]) = Inr row"
      "XuiRowApplyForm L page row [(xuiPortAdmin, xuiEnabled on)] ''v_2_1_2'' [] = Inr body"
      "ws_PostForm (ww_session w) (xl_action page) body s1 = (Inr answer, s2)" "ParseFastpathErr L answer = None"
      "ws_GetPage (ww_session w) path s2 = (Inr last, t)" "ParseXUIListPage L last path = Inr page'"
      "findXUIRow page' port xuiPortIfname (''%q port configuration'', [AStr (writer_key w)]) = Inr row'"
      "text_of (XuiRow_Field row' xuiPortAdmin) = xuiEnabled on"
    by (auto simp: setXUIPortEnabled_def raiseOnFastpathErrFlag_def Let_def res_simps simp del: sbind_sret
      split: if_splits option.splits prod.splits)
  show ?thesis
    using steps(1,2,5,6,7,8,10) findXUIRow_names [OF steps(3)] findXUIRow_names [OF steps(9)]
      XuiRowApplyForm_names [OF assms(1) steps(4)] XuiRowApplyForm_value [OF steps(4)]
    by blast
qed

subsection \<open>The host name of a GS110EMX\<close>

text \<open>
  The form of a GS110EMX that sets the host name carries the management addresses too.  A change that
  reports success posted the addresses the page showed, and the page read last shows the same addresses
  and the new name.
\<close>

theorem web_rename_keeps_addresses:
  assumes "setGS110EMXHostname w name s = (Inr (), t)"
  shows "\<exists>html before body answer last after s1 s2. let path = ep_sysinfo_path (ww_spec w) in
    ws_GetPage (ww_session w) path s = (Inr html, s1) \<and> ParseSysInfo html = Inr before \<and>
    ws_PostForm (ww_session w) path body s1 = (Inr answer, s2) \<and>
    body = GS110EMXSwitchInfoForm name (if hs_ip_mode before = IPModeDHCP then emxDHCPOn else emxDHCPOff)
      (hs_ip_address before) (hs_subnet_mask before) (hs_gateway_address before) \<and>
    ws_GetPage (ww_session w) path s2 = (Inr last, t) \<and> ParseSysInfo last = Inr after \<and>
    addressing after = addressing before \<and> hs_switch_name after = name \<and>
    name \<noteq> [] \<and> length name \<le> emxNameMax \<and> isASCIIPrintable name"
  using assms
  by (fastforce simp: setGS110EMXHostname_def need_page_def requirePath_def Let_def res_simps simp del: sbind_sret split: if_splits)

subsection \<open>What the client sends\<close>

text \<open>The network after it carried a request.\<close>

definition carried :: "'s http_client \<Rightarrow> http_request \<Rightarrow> 's \<Rightarrow> 's" where
  "carried c rq net = snd (hl_Do (hc_lib c) True rq net)"

lemma send_net: "ct_net (snd (send c True rq s)) = carried c rq (ct_net s)"
  by (simp add: send_def carried_def split: prod.split)

lemma fetch_net: "ct_net (snd (fetch c wrap rq s)) = carried c rq (ct_net s)"
  using send_net [of c rq s] by (auto simp: fetch_def split: prod.splits sum.splits)

lemma sbind_sret_net: "(\<And>x. r = Inr x \<Longrightarrow> ct_net (snd (f x s)) = ct_net s) \<Longrightarrow> ct_net (snd (sbind (sret r) f s)) = ct_net s"
  by (simp split: sum.split)

lemma post_checked_net:
  "ct_net (snd (post_checked L c path url body kind s)) = carried c (newRequest c ''POST'' url body kind) (ct_net s)"
  using fetch_net [of c "wrapTransportErr ''POST'' url" "newRequest c ''POST'' url body kind" s]
  by (auto simp: post_checked_def postOnce_def doRequest_def sbind_def sret_def split: prod.splits sum.splits)

lemma attemptGet_net: "ct_net (snd (attemptGet c url s)) = carried c (newRequest c ''GET'' url Body_None []) (ct_net s)"
  using send_net [of c "newRequest c ''GET'' url Body_None []" s] by (auto simp: attemptGet_def split: prod.splits sum.splits)

lemma get_attempts_net:
  "\<exists>k. 1 \<le> k \<and> k \<le> Suc n \<and>
     ct_net (snd (get_attempts c url path n s)) = (carried c (newRequest c ''GET'' url Body_None []) ^^ k) (ct_net s)"
proof (induction n arbitrary: s)
  case 0
  show ?case using attemptGet_net [of c url s]
    by (intro exI [of _ 1]) (auto simp: get_attempts.simps [of c url path 0] split: prod.splits sum.splits)
next
  case (Suc n)
  obtain answer s' where once: "attemptGet c url s = (answer, s')" by fastforce
  then have net: "ct_net s' = carried c (newRequest c ''GET'' url Body_None []) (ct_net s)" using attemptGet_net [of c url s] by simp
  from Suc [of s'] obtain k where k: "1 \<le> k" "k \<le> Suc n"
      "ct_net (snd (get_attempts c url path n s')) = (carried c (newRequest c ''GET'' url Body_None []) ^^ k) (ct_net s')" by blast
  have "get_attempts c url path (Suc n) s = get_attempts c url path n s' \<or> snd (get_attempts c url path (Suc n) s) = s'"
    using once by (cases answer) (simp_all add: get_attempts.simps [of c url path "Suc n"])
  then consider "get_attempts c url path (Suc n) s = get_attempts c url path n s'" | "snd (get_attempts c url path (Suc n) s) = s'"
    by blast
  then show ?case
  proof cases
    case 1
    with k net show ?thesis by (intro exI [of _ "Suc k"]) (simp add: funpow_swap1)
  next
    case 2
    with net show ?thesis by (intro exI [of _ 1]) simp
  qed
qed

lemma getPageOnce_net:
  "\<exists>k url. 1 \<le> k \<and> k \<le> 3 \<and>
     ct_net (snd (getPageOnce L c path s)) = (carried c (newRequest c ''GET'' url Body_None []) ^^ k) (ct_net s)"
proof -
  define url where "url = (if ep_session_token_field (hc_spec c) \<noteq> []
    then appendQueryParam (readURL c path s) (ep_session_token_field (hc_spec c)) (ct_token s) else readURL c path s)"
  obtain k where k: "1 \<le> k" "k \<le> 3"
      "ct_net (snd (get_attempts c url path 2 s)) = (carried c (newRequest c ''GET'' url Body_None []) ^^ k) (ct_net s)"
    using get_attempts_net [of 2 c url path s] by auto
  have "ct_net (snd (getPageOnce L c path s)) = ct_net (snd (get_attempts c url path 2 s))"
    by (auto simp: getPageOnce_def Let_def getWithRetry_def sbind_def sret_def url_def [symmetric] split: prod.splits sum.splits)
  with k show ?thesis by auto
qed

text \<open>A count of the requests the library was given: each adds one, a change of the cookie jar none.\<close>

definition counts_requests :: "'s http_client \<Rightarrow> ('s \<Rightarrow> nat) \<Rightarrow> bool" where
  "counts_requests c count \<longleftrightarrow>
     (\<forall>follow rq n. count (snd (hl_Do (hc_lib c) follow rq n)) = Suc (count n)) \<and>
     (\<forall>name v n. count (hl_set_cookie (hc_lib c) name v n) = count n) \<and>
     (\<forall>name n. count (hl_delete_cookie (hc_lib c) name n) = count n)"

lemma count_carried: "counts_requests c count \<Longrightarrow> count ((carried c rq ^^ k) n) = count n + k"
  by (induction k) (simp_all add: counts_requests_def carried_def)

lemma getPageOnce_count:
  assumes "counts_requests c count"
  shows "count (ct_net s) < count (ct_net (snd (getPageOnce L c path s))) \<and>
    count (ct_net (snd (getPageOnce L c path s))) \<le> count (ct_net s) + 3"
proof -
  from getPageOnce_net [of L c path s] obtain k url where "1 \<le> k" "k \<le> 3"
      "ct_net (snd (getPageOnce L c path s)) = (carried c (newRequest c ''GET'' url Body_None []) ^^ k) (ct_net s)" by blast
  then show ?thesis using count_carried [OF assms] by simp
qed

text \<open>An operation of the client that sends at most \<open>n\<close> requests.\<close>

definition spends :: "('s \<Rightarrow> nat) \<Rightarrow> nat \<Rightarrow> ('s client_state, go_error, 'a) action \<Rightarrow> bool" where
  "spends count n m \<longleftrightarrow>
     (\<forall>s. count (ct_net s) \<le> count (ct_net (snd (m s))) \<and> count (ct_net (snd (m s))) \<le> count (ct_net s) + n)"

lemma spends_sbind:
  assumes "spends count a m" "\<And>x. spends count b (f x)"
  shows "spends count (a + b) (sbind m f)"
  unfolding spends_def
proof
  fix s
  obtain r u where m: "m s = (r, u)" by force
  have u: "count (ct_net s) \<le> count (ct_net u)" "count (ct_net u) \<le> count (ct_net s) + a"
    using assms(1) m unfolding spends_def by (metis snd_conv)+
  show "count (ct_net s) \<le> count (ct_net (snd (sbind m f s))) \<and> count (ct_net (snd (sbind m f s))) \<le> count (ct_net s) + (a + b)"
  proof (cases r)
    case (Inr x)
    have "count (ct_net u) \<le> count (ct_net (snd (f x u)))" "count (ct_net (snd (f x u))) \<le> count (ct_net u) + b"
      using assms(2) unfolding spends_def by blast+
    with u show ?thesis by (simp add: sbind_def m Inr)
  qed (use u in \<open>simp add: sbind_def m\<close>)
qed

lemma spends_sret: "spends count 0 (sret r)"
  by (simp add: spends_def sret_def)

lemma spends_getPageOnce: "counts_requests c count \<Longrightarrow> spends count 3 (getPageOnce L c path)"
  unfolding spends_def using getPageOnce_count less_imp_le by blast

lemma spends_cases:
  "(\<And>a b. spends count n (f a b)) \<Longrightarrow> spends count n (case p of (a, b) \<Rightarrow> f a b)"
  "spends count n m \<Longrightarrow> spends count n m' \<Longrightarrow> spends count n (if b then m else m')"
  by (simp_all split: prod.split)

text \<open>Logging in to the XML interface: the redirect, and the login itself if there was one.\<close>

lemma spends_login:
  assumes "counts_requests c count" "ep_scheme (hc_spec c) = LoginSchemeXMLAPI"
  shows "spends count 2 (web_Login L c)"
proof -
  have cleared: "spends count 0 (clear_cookies c)"
    using assms(1) by (simp add: spends_def clear_cookies_def with_jar_def counts_requests_def)
  have "snd (redirect_of c u) = snd (send c False (newRequest c ''GET'' (ep_login_path (hc_spec c)) Body_None []) u)" for u
    by (simp add: redirect_of_def split: prod.split sum.split)
  then have redirected: "spends count 1 (redirect_of c)"
    using assms(1) by (simp add: spends_def send_def counts_requests_def split: prod.split) (metis snd_conv le_SucI order_refl)
  have asked: "spends count 1 (doRequest c wrap m p b k)" for wrap m p b k
    using assms(1) by (simp add: spends_def doRequest_def fetch_net carried_def counts_requests_def)
  have kept: "spends count 0 (keep_session c p i)" for p i
    using assms(1) by (simp add: spends_def keep_session_def Let_def setLoggedIn_def with_jar_def counts_requests_def)
  have "spends count (0 + (1 + (0 + (1 + (0 + 0))))) (loginXMLAPI L c)"
    unfolding loginXMLAPI_def Let_def
    by (intro spends_sbind spends_cases cleared redirected asked kept spends_sret)
  then show ?thesis using assms(2) by (simp add: web_Login_def numeral_2_eq_2)
qed

lemma client_GetPage_count:
  assumes "ct_logged_in s" "counts_requests c count"
  shows "count (ct_net s) < count (ct_net (snd (client_GetPage L c path s))) \<and>
    count (ct_net (snd (client_GetPage L c path s))) \<le> count (ct_net s) +
      (if \<exists>answer. fst (getPageOnce L c path s) = Inr answer \<and> xmlAPISessionLost (hc_spec c) answer then 8 else 3)"
proof -
  obtain r s1 where once: "getPageOnce L c path s = (r, s1)" by force
  have s1: "count (ct_net s) < count (ct_net s1)" "count (ct_net s1) \<le> count (ct_net s) + 3"
    using getPageOnce_count [OF assms(2), of s L path] by (simp_all add: once)
  show ?thesis
  proof (cases "\<exists>answer. r = Inr answer \<and> xmlAPISessionLost (hc_spec c) answer")
    case True
    then obtain answer where lost: "r = Inr answer" "xmlAPISessionLost (hc_spec c) answer" by blast
    then have "ep_scheme (hc_spec c) = LoginSchemeXMLAPI" by (simp add: xmlAPISessionLost_def)
    note again = spends_login [OF assms(2) this] spends_getPageOnce [OF assms(2)]
    define rest where "rest = sbind (web_Login L c) (\<lambda>_. sbind (getPageOnce L c path) (\<lambda>again.
       sret (if xmlAPISessionLost (hc_spec c) again
         then Inl (errHTTPAuth ''GET %s: the web UI answered with its login page even after re-authenticating -- the session cannot be kept''
           [AStr path])
         else Inr again)))"
    have "spends count (2 + (3 + 0)) rest"
      unfolding rest_def by (intro spends_sbind again spends_sret)
    moreover have "client_GetPage L c path s = rest (setLoggedOut s1)"
      using assms(1) once lost
      by (simp add: client_GetPage_def ensureLoggedIn_def sbind_Inr log_out_def rest_def)
    moreover have "ct_net (setLoggedOut s1) = ct_net s1" by (simp add: setLoggedOut_def)
    ultimately have "count (ct_net s1) \<le> count (ct_net (snd (client_GetPage L c path s)))"
        "count (ct_net (snd (client_GetPage L c path s))) \<le> count (ct_net s1) + 5"
      unfolding spends_def by simp_all metis+
    with s1 show ?thesis using True by (auto simp: once)
  next
    case False
    then have "snd (client_GetPage L c path s) = s1"
      using assms(1) once
      by (cases r) (auto simp: client_GetPage_def ensureLoggedIn_def sbind_def sret_def)
    with s1 False show ?thesis by (auto simp: once)
  qed
qed

text \<open>
  C20.  A logged-in client sends the request of a write exactly once, whatever the switch answers and also
  when its connection breaks.  A fetch of a page of a cookie or token session sends one request at least
  and three at most, all the same.  Under every scheme a fetch sends one at least, and three at most
  unless its answer tells that the session of the XML interface was lost: then, logging in and fetching
  once more, eight at most.
\<close>

theorem web_client_requests:
  assumes "ct_logged_in s"
  shows "ct_net (snd (client_PostForm L c path named s)) =
      carried c (newRequest c ''POST'' path (Body_Text (encodeForm (mergeTokenField (hc_spec c) (ct_token s) named))) form_type) (ct_net s) \<and>
    ct_net (snd (client_PostMultipart L c path named payload s)) =
      carried c (newRequest c ''POST'' path
        (Body_Multipart (sorted_fields (mergeTokenField (hc_spec c) (ct_token s) named)) payload) ''multipart/form-data'') (ct_net s) \<and>
    ct_net (snd (client_PostXML L c path body s)) =
      carried c (newRequest c ''POST'' (readURL c path s) (Body_Text body) ''application/xml; charset=utf-8'') (ct_net s) \<and>
    (ep_scheme (hc_spec c) \<noteq> LoginSchemeXMLAPI \<longrightarrow> (\<exists>k url. 1 \<le> k \<and> k \<le> 3 \<and>
      ct_net (snd (client_GetPage L c path s)) = (carried c (newRequest c ''GET'' url Body_None []) ^^ k) (ct_net s))) \<and>
    (counts_requests c count \<longrightarrow>
      count (ct_net s) < count (ct_net (snd (client_GetPage L c path s))) \<and>
      count (ct_net (snd (client_GetPage L c path s))) \<le> count (ct_net s) +
        (if \<exists>answer. fst (getPageOnce L c path s) = Inr answer \<and> xmlAPISessionLost (hc_spec c) answer then 8 else 3))"
proof (intro conjI impI)
  have ready: "ensureLoggedIn L c s = (Inr (), s)" using assms(1) by (simp add: ensureLoggedIn_def)
  show "ct_net (snd (client_PostForm L c path named s)) =
      carried c (newRequest c ''POST'' path (Body_Text (encodeForm (mergeTokenField (hc_spec c) (ct_token s) named))) form_type) (ct_net s)"
    using ready by (simp add: client_PostForm_def sbind_Inr post_checked_net)
  show "ct_net (snd (client_PostMultipart L c path named payload s)) =
      carried c (newRequest c ''POST'' path
        (Body_Multipart (sorted_fields (mergeTokenField (hc_spec c) (ct_token s) named)) payload) ''multipart/form-data'') (ct_net s)"
    using ready by (simp add: client_PostMultipart_def sbind_Inr post_checked_net)
  show "ct_net (snd (client_PostXML L c path body s)) =
      carried c (newRequest c ''POST'' (readURL c path s) (Body_Text body) ''application/xml; charset=utf-8'') (ct_net s)"
    using post_checked_net [of L c path "readURL c path s" "Body_Text body" "''application/xml; charset=utf-8''" s] ready
    by (auto simp: client_PostXML_def sbind_def sret_def split: prod.splits sum.splits)
  assume "ep_scheme (hc_spec c) \<noteq> LoginSchemeXMLAPI"
  then have kept: "\<not> xmlAPISessionLost (hc_spec c) answer" for answer by (simp add: xmlAPISessionLost_def)
  have "snd (client_GetPage L c path s) = snd (getPageOnce L c path s)"
    using ready by (auto simp: client_GetPage_def sbind_def sret_def kept split: prod.splits sum.splits)
  then show "\<exists>k url. 1 \<le> k \<and> k \<le> 3 \<and>
      ct_net (snd (client_GetPage L c path s)) = (carried c (newRequest c ''GET'' url Body_None []) ^^ k) (ct_net s)"
    using getPageOnce_net by metis
next
  assume counted: "counts_requests c count"
  show "count (ct_net s) < count (ct_net (snd (client_GetPage L c path s)))"
    using client_GetPage_count [OF assms counted] by blast
  show "count (ct_net (snd (client_GetPage L c path s))) \<le> count (ct_net s) +
      (if \<exists>answer. fst (getPageOnce L c path s) = Inr answer \<and> xmlAPISessionLost (hc_spec c) answer then 8 else 3)"
    using client_GetPage_count [OF assms counted] by blast
qed

text \<open>A network that counts its requests and drops every connection.\<close>

definition dropping_client :: "nat http_client" where
  "dropping_client =
     NewHTTPClient \<lparr>hl_Do = (\<lambda>follow rq n. (Inl \<lparr>ne_eof = True, ne_message = ''EOF''\<rparr>, Suc n)), hl_has_cookie = (\<lambda>name n. True),
       hl_set_cookie = (\<lambda>name v n. n), hl_delete_cookie = (\<lambda>name n. n), hl_cancelled = (\<lambda>n. False)\<rparr>
     ''switch'' ''password'' gs305epSpec"

definition dropping_state :: "nat client_state" where
  "dropping_state = \<lparr>ct_logged_in = True, ct_token = [], ct_session_path = [], ct_net = 0\<rparr>"

theorem web_client_requests_witness:
  "ct_net (snd (client_PostForm plain_lib dropping_client ''/f.cgi'' [] dropping_state)) = 1 \<and>
   ct_net (snd (client_GetPage plain_lib dropping_client ''/f.cgi'' dropping_state)) \<le> 3"
proof -
  have counts: "carried dropping_client rq n = Suc n" for rq n
    by (simp add: carried_def dropping_client_def NewHTTPClient_def Let_def)
  have many: "(carried dropping_client rq ^^ k) n = n + k" for rq k n by (induction k) (simp_all add: counts)
  have "ct_logged_in dropping_state" "ct_net dropping_state = 0" by (simp_all add: dropping_state_def)
  moreover have "ep_scheme (hc_spec dropping_client) \<noteq> LoginSchemeXMLAPI" by code_simp
  ultimately show ?thesis
    using web_client_requests [of dropping_state plain_lib dropping_client "''/f.cgi''" "[]" undefined undefined]
    by (auto simp: counts many)
qed

subsection \<open>Pages that stop the program\<close>

text \<open>A grid that numbers a port's slot 0, and a data block that closes before it opens, index out of range.\<close>

lemma slot_below_panics: "slot_state codes (port, -1, shown) = Inl Go_Panic"
  by (simp add: slot_state_def)

lemma closed_block_panics: "data_block ''</DeviceConfiguration> <DeviceConfiguration>'' = Inl Go_Panic"
  by code_simp

end
