(* ===== verification/Capabilities.thy ===== *)
theory Capabilities
  imports Nsdp_Writer Snmp_Writer Web_Verified
begin

section \<open>What each backend supports (capabilities/)\<close>

text \<open>
  The table that says, for a model, a backend and an operation, whether the operation is served and why
  not, computed from the same registries and specifications the backends use.  A reason is the format of
  its message with the arguments, or the text of an error.
\<close>

subsection \<open>Operations (capabilities/types.go)\<close>

datatype support = SupportSupported | SupportNoBackend | SupportUnsupported | SupportUnverified

datatype operation_kind = OperationKindRead | OperationKindWrite

record operation =
  op_name :: string
  op_kind :: operation_kind
  op_summary :: string
  op_backends :: "backend list option"

datatype reason = No_Reason | Reason string "msg_arg list" | Error_Text go_error

record capability =
  ca_model_key :: string
  ca_backend :: backend
  ca_operation :: operation
  ca_support :: support
  ca_reason :: reason

definition Supported :: "capability \<Rightarrow> bool" where "Supported c \<longleftrightarrow> ca_support c = SupportSupported"

abbreviation (input) "shell_backends \<equiv> [BackendSSH, BackendTelnet, BackendConsole]"

definition ReadOperations :: "operation list" where
  "ReadOperations =
     map (\<lambda>(name, summary, backends). \<lparr>op_name = name, op_kind = OperationKindRead, op_summary = summary, op_backends = backends\<rparr>)
       [(''get_ports'', ''Per-port link/admin status'', None),
        (''get_stats'', ''Per-port octet/packet counters'', None),
        (''get_vlans'', ''VLAN list with tagged/untagged members'', None),
        (''get_pvids'', ''Per-port PVID'', None),
        (''get_lldp'', ''LLDP neighbour table'', None),
        (''get_macs'', ''MAC/FDB forwarding table'', None),
        (''get_poe'', ''Per-port PoE status and power draw'', None),
        (''get_sensors'', ''Fan/PSU/temperature sensors'', None),
        (''get_mgmt_ip'', ''Management IP configuration'', None),
        (''get_hostname'', ''The switch'' @ [TICK] @ ''s host name'', None),
        (''get_users'', ''Local login accounts and their access level'', Some (BackendHTTP # shell_backends)),
        (''get_services'', ''Which management services (http/https/telnet/ssh) are enabled'', Some (BackendHTTP # shell_backends)),
        (''get_syslog'', ''Remote-logging configuration and collectors'', Some (BackendSNMP # BackendHTTP # shell_backends)),
        (''nsdp_device'', ''Full NSDP device record'', Some [BackendNSDP])]"

definition WriteOperations :: "operation list" where
  "WriteOperations =
     map (\<lambda>(name, summary, backends). \<lparr>op_name = name, op_kind = OperationKindWrite, op_summary = summary, op_backends = backends\<rparr>)
       [(''set_port_enabled'', ''Bring a port up or down'', None),
        (''set_poe'', ''Enable or disable PoE on a port'', None),
        (''cycle_poe'', ''Power-cycle a PoE port'', None),
        (''clear_poe_fault'', ''Clear a latched PoE fault'', None),
        (''set_port_description'', ''Set or clear a port'' @ [TICK] @ ''s description'', None),
        (''set_port_speed'', ''Force a port'' @ [TICK] @ ''s speed/duplex, or restore auto-negotiation'', Some (BackendHTTP # shell_backends)),
        (''set_flow_control'', ''Turn IEEE 802.3x flow control on or off for a port'', Some shell_backends),
        (''set_pvid'', ''Set a port'' @ [TICK] @ ''s PVID'', None),
        (''set_vlan_membership'', ''Set a port tagged/untagged/excluded on a VLAN'', None),
        (''create_vlan'', ''Create a VLAN'', None),
        (''delete_vlan'', ''Delete a VLAN'', None),
        (''set_mgmt_ip'', ''Set the management IP/mask/gateway'', None),
        (''set_hostname'', ''Set the switch'' @ [TICK] @ ''s host name'', Some (BackendSNMP # BackendNSDP # BackendHTTP # shell_backends)),
        (''set_syslog_enabled'', ''Turn remote logging on or off'', Some (BackendSNMP # shell_backends)),
        (''add_syslog_collector'', ''Add a remote syslog collector'', Some shell_backends),
        (''remove_syslog_collector'', ''Remove a remote syslog collector'', Some (BackendSNMP # BackendHTTP # shell_backends)),
        (''upload_certificate'', ''Upload an HTTPS certificate over the web UI'', Some [BackendHTTP]),
        (''upload_certificate_scp'', ''Deploy an HTTPS certificate via FASTPATH copy scp://'', Some shell_backends)]"

definition Operations :: "operation list" where "Operations = ReadOperations @ WriteOperations"

text \<open>The Go map is filled in this order, so a later operation of a name would replace an earlier one.\<close>

definition byName :: "(string \<times> operation) list" where
  "byName = fold (\<lambda>op. AList.update (op_name op) op) Operations []"

text \<open>An unknown operation is an error of this package; a model that is unknown, one of the registry.\<close>

datatype lookup_error = ErrUnknownOperation string | Model_Error go_error

definition OperationByName :: "string \<Rightarrow> lookup_error + operation" where
  "OperationByName name = (case map_of byName name of None \<Rightarrow> Inl (ErrUnknownOperation name) | Some op \<Rightarrow> Inr op)"

definition poeOps :: "string list" where "poeOps = [''get_poe'', ''set_poe'', ''cycle_poe'', ''clear_poe_fault'']"

definition noPSE :: "switch_model \<Rightarrow> support \<times> reason" where
  "noPSE m = (SupportUnsupported, Reason ''%s has no PSE ports, so it has no PoE to report or set'' [AStr (sm_display_name m)])"

subsection \<open>NSDP, SNMP, CLI\<close>

definition nsdpRefusals :: "(string \<times> string) list" where
  "nsdpRefusals =
     [(''get_macs'', NoMACsMsg), (''get_lldp'', NoLLDPMsg), (''get_sensors'', NoSensorsMsg), (''get_poe'', NoPoEReadMsg),
      (''set_poe'', NoPoEWriteMsg), (''cycle_poe'', NoPoEWriteMsg), (''clear_poe_fault'', NoPoEWriteMsg),
      (''set_port_enabled'', NoPortAdminMsg)]"

definition nsdpSupport :: "switch_model \<Rightarrow> operation \<Rightarrow> support \<times> reason" where
  "nsdpSupport m op =
     (case map_of nsdpRefusals (op_name op) of
        Some why \<Rightarrow> (SupportUnsupported, Reason why [])
      | None \<Rightarrow> (SupportSupported, No_Reason))"

definition snmpSupport :: "switch_model \<Rightarrow> operation \<Rightarrow> support \<times> reason" where
  "snmpSupport m op =
     (let name = op_name op in
      if name \<in> set poeOps \<and> sm_poe_port_count m = 0 then noPSE m
      else if name = ''create_vlan'' \<and> \<not> sm_snmp_can_create_vlan m
      then (SupportUnsupported, Reason ''model %q: %s'' [AStr (sm_key m), AStr NoVLANCreateMsg])
      else if name = ''set_mgmt_ip'' \<and> \<not> HasVendorOids m
      then (SupportUnsupported, Reason ''model %q registers no Netgear vendor OID subtree, and the management-IP write columns are vendor-only''
        [AStr (sm_key m)])
      else if name = ''get_macs'' \<and> \<not> HasMACTable m
      then (SupportUnsupported, Reason ''model %q has no MAC/FDB table'' [AStr (sm_key m)])
      else if name \<in> {''get_syslog'', ''set_syslog_enabled'', ''remove_syslog_collector''} \<and> \<not> HasVendorOids m
      then (SupportUnsupported, Reason ''model %q registers no Netgear vendor OID subtree, and the logging columns are vendor-only''
        [AStr (sm_key m)])
      else (SupportSupported, No_Reason))"

definition cliReadsSupported :: "switch_model \<Rightarrow> bool \<times> cli_model_spec option" where
  "cliReadsSupported m = (case CLISpec m of Inl e \<Rightarrow> (False, None) | Inr spec \<Rightarrow> (cs_reads_verified spec, Some spec))"

definition cliWritesSupported :: "switch_model \<Rightarrow> bool" where
  "cliWritesSupported m =
     (case cliReadsSupported m of (ok, spec) \<Rightarrow> ok \<and> (case spec of None \<Rightarrow> False | Some s \<Rightarrow> cs_writes_verified s))"

definition cliSupport :: "switch_model \<Rightarrow> operation \<Rightarrow> support \<times> reason" where
  "cliSupport m op =
     (let name = op_name op in
      if op_kind op = OperationKindRead \<and> \<not> fst (cliReadsSupported m)
      then (SupportUnverified, Reason ''model %q CLI reads are UNVERIFIED-pending cross-verify'' [AStr (sm_key m)])
      else if op_kind op = OperationKindWrite \<and> \<not> cliWritesSupported m
      then (SupportUnverified, Reason ''model %q CLI writes are UNVERIFIED-pending a live write run'' [AStr (sm_key m)])
      else if name = ''upload_certificate_scp''
      then (case ScpProfile m of Inl e \<Rightarrow> (SupportUnsupported, Error_Text e) | Inr profile \<Rightarrow> (SupportSupported, No_Reason))
      else if name \<in> set poeOps \<and> sm_poe_port_count m = 0 then noPSE m
      else if name = ''get_macs'' \<and> \<not> HasMACTable m
      then (SupportUnsupported, Reason ''model %q CLI has no MAC/FDB table'' [AStr (sm_key m)])
      else (SupportSupported, No_Reason))"

subsection \<open>HTTP\<close>

definition csrfHTTPWrites :: "string list" where "csrfHTTPWrites = [''create_vlan'', ''delete_vlan'']"

definition isXMLAPIDialect :: "http_model_spec \<Rightarrow> bool" where "isXMLAPIDialect spec \<longleftrightarrow> ep_html_dialect spec = HTMLDialectGoAheadXML"

definition xmlAPIWrites :: "string list" where
  "xmlAPIWrites =
     [''set_vlan_membership'', ''set_port_enabled'', ''set_poe'', ''set_pvid'', ''create_vlan'', ''delete_vlan'', ''cycle_poe'',
      ''clear_poe_fault'', ''set_port_description'', ''set_hostname'', ''set_port_speed'']"

text \<open>The page of an operation that needs no more than a page, in the order of the code's map.\<close>

definition simple_paths :: "http_model_spec \<Rightarrow> (string \<times> string) list" where
  "simple_paths spec =
     [(''get_ports'', ep_dashboard_path spec), (''get_stats'', ep_stats_path spec), (''get_poe'', ep_poe_status_path spec),
      (''get_pvids'', ep_pvid_path spec), (''get_vlans'', ep_vlan_config_path spec), (''get_macs'', ep_mac_table_path spec),
      (''get_lldp'', ep_lldp_path spec), (''get_syslog'', ep_syslog_path spec), (''get_users'', ep_users_path spec),
      (''set_poe'', ep_poe_config_path spec), (''cycle_poe'', ep_poe_config_path spec),
      (''clear_poe_fault'', ep_poe_config_path spec), (''set_pvid'', ep_pvid_path spec),
      (''set_vlan_membership'', ep_vlan_membership_path spec), (''create_vlan'', ep_vlan_config_path spec),
      (''delete_vlan'', ep_vlan_config_path spec), (''set_port_enabled'', ep_port_config_path spec),
      (''set_port_description'', []), (''set_port_speed'', []), (''set_flow_control'', []), (''add_syslog_collector'', []),
      (''upload_certificate'', ep_cert_upload_path spec)]"

definition httpPathFor :: "http_model_spec \<Rightarrow> operation \<Rightarrow> string" where
  "httpPathFor spec op =
     (let name = op_name op in
      if isXMLAPIDialect spec \<and> op_kind op = OperationKindWrite
      then (if name = ''upload_certificate'' then ep_cert_upload_path spec
            else if name \<in> set xmlAPIWrites then ep_xml_write_path spec else [])
      else if name = ''get_sensors'' then (if SupportsSensors spec then ep_sysinfo_path spec else [])
      else if name = ''get_services'' then (if HasServicePaths spec then ep_http_service_path spec else [])
      else if name = ''get_hostname'' then (if HasSysinfoHostname spec then ep_sysinfo_path spec else [])
      else if name = ''get_mgmt_ip'' then MgmtIPPath spec
      else if name = ''set_mgmt_ip'' then (if ep_mgmt_ip_fields spec \<noteq> None then ep_mgmt_ip_path spec else [])
      else if name = ''set_hostname'' then (if ep_html_dialect spec = HTMLDialectGS110EMX then ep_sysinfo_path spec else [])
      else if name = ''remove_syslog_collector'' then (if ep_html_dialect spec = HTMLDialectM4300 then ep_syslog_path spec else [])
      else text_of (map_of (simple_paths spec) name))"

definition httpSupport :: "switch_model \<Rightarrow> http_model_spec \<Rightarrow> operation \<Rightarrow> support \<times> reason" where
  "httpSupport m spec op =
     (let name = op_name op; mechanism = map_of CertUploadKnownUnimplemented (sm_key m) in
      if \<not> ep_reads_verified spec
      then (SupportUnverified, Reason ''model %q HTTP reads are UNVERIFIED-pending-capture'' [AStr (sm_key m)])
      else if name = ''upload_certificate'' \<and> mechanism \<noteq> None
      then (SupportUnsupported, Reason ''this model takes a certificate by %s, not over the web UI -- use upload_certificate_scp''
        [AStr (text_of mechanism)])
      else if name \<in> set csrfHTTPWrites \<and> \<not> isXMLAPIDialect spec \<and> \<not> DialectHasCSRFHash (ep_html_dialect spec)
      then (SupportUnsupported, Reason (''model %q web UI carries no CSRF '' @ [TICK] @ ''hash'' @ [TICK] @
        '' token, which the HTTP %s writer requires'') [AStr (sm_key m), AStr name])
      else if httpPathFor spec op = []
      then (SupportUnsupported, Reason ''model %q web UI has no page for %s (%s)'' [AStr (sm_key m), AStr name, AStr (op_summary op)])
      else (SupportSupported, No_Reason))"

subsection \<open>The table (capabilities/support.go)\<close>

definition backendOrder :: "backend list" where
  "backendOrder = [BackendSNMP, BackendNSDP, BackendHTTP, BackendSSH, BackendTelnet, BackendConsole]"

definition BackendsFor :: "switch_model \<Rightarrow> backend list" where "BackendsFor m = filter (HasBackend m) backendOrder"

definition backendRestricts :: "operation \<Rightarrow> backend \<Rightarrow> bool" where
  "backendRestricts op b \<longleftrightarrow> (case op_backends op of None \<Rightarrow> False | Some bs \<Rightarrow> b \<notin> set bs)"

definition sortedBackendNames :: "backend list \<Rightarrow> string" where
  "sortedBackendNames bs = Join (sort (map backend_name bs)) '', ''"

definition For :: "switch_model \<Rightarrow> backend \<Rightarrow> operation \<Rightarrow> capability" where
  "For m b op =
     (let says = (\<lambda>(support, reason).
            \<lparr>ca_model_key = sm_key m, ca_backend = b, ca_operation = op, ca_support = support, ca_reason = reason\<rparr>) in
      says (
        if \<not> HasBackend m b
        then (SupportNoBackend,
          if b = BackendConsole
          then Reason (''CONSOLE is a serial transport for the CLI backend, not a network backend; a model'' @ [TICK] @
            ''s CLI support is its SSH/TELNET entry'') []
          else Reason ''model %q has no %s backend (it has: %s)''
            [AStr (sm_key m), AStr (backend_name b), AStr (sortedBackendNames (sm_backends m))])
        else if backendRestricts op b
        then (SupportUnsupported, Reason ''%s is served only over %s''
          [AStr (op_name op), AStr (sortedBackendNames (case op_backends op of None \<Rightarrow> [] | Some bs \<Rightarrow> bs))])
        else (case b of
            BackendSNMP \<Rightarrow> snmpSupport m op
          | BackendNSDP \<Rightarrow> nsdpSupport m op
          | BackendHTTP \<Rightarrow> (case HTTPSpec m of Inl e \<Rightarrow> (SupportUnsupported, Error_Text e) | Inr spec \<Rightarrow> httpSupport m spec op)
          | _ \<Rightarrow> cliSupport m op)))"

definition ForKey :: "string \<Rightarrow> backend \<Rightarrow> string \<Rightarrow> lookup_error + capability" where
  "ForKey modelKey b opName =
     (case GetModel modelKey of
        Inl e \<Rightarrow> Inl (Model_Error e)
      | Inr m \<Rightarrow> rbind (OperationByName opName) (\<lambda>op. Inr (For m b op)))"

definition Matrix :: "string list option \<Rightarrow> operation list option \<Rightarrow> capability list res" where
  "Matrix modelKeys operations =
     (let keys = (case modelKeys of None \<Rightarrow> map sm_key Models | Some keys \<Rightarrow> keys);
          ops = (case operations of None \<Rightarrow> Operations | Some ops \<Rightarrow> ops) in
      rbind (each_row GetModel keys) (\<lambda>models.
      Inr (concat (map (\<lambda>m. concat (map (\<lambda>b. map (For m b) ops) (BackendsFor m))) models))))"

section \<open>The table and the web backend agree\<close>

record web_args =
  wa_port :: int
  wa_vlan :: int
  wa_mode :: vlan_mode
  wa_on :: bool
  wa_text :: string
  wa_speed :: port_speed
  wa_host :: string
  wa_mask :: string
  wa_gateway :: string
  wa_number :: int
  wa_severity :: int
  wa_cert :: string
  wa_key :: string

definition quiet :: "('s, go_error, 'a) action \<Rightarrow> ('s, unit) run" where
  "quiet a = run_bind (returns a) (\<lambda>_. returns (sret (Inr ())))"

text \<open>The operations of the web backend by the names of the table, the writes forced.\<close>

definition web_ops ::
    "web_lib \<Rightarrow> 'k key_lib \<Rightarrow> 's web_reader \<Rightarrow> 's web_writer \<Rightarrow> web_args \<Rightarrow> (string \<times> ('s, unit) run) list" where
  "web_ops L K r w a =
     [(''get_ports'', quiet (web_GetPorts L r)), (''get_stats'', quiet (web_GetStats L r)), (''get_vlans'', quiet (web_GetVLANs L r)),
      (''get_pvids'', quiet (web_GetPVIDs L r)), (''get_lldp'', quiet (web_GetLLDP L r)), (''get_macs'', quiet (web_GetMACs L r)),
      (''get_poe'', quiet (web_GetPoE L r)), (''get_sensors'', quiet (web_GetSensors L r)),
      (''get_mgmt_ip'', quiet (web_GetMgmtIP L r)), (''get_hostname'', quiet (web_GetHostname L r)),
      (''get_users'', quiet (web_GetUsers L r)), (''get_services'', quiet (web_GetServices L r)),
      (''get_syslog'', quiet (web_GetSyslog L r)),
      (''set_port_enabled'', quiet (web_SetPortEnabled L w (wa_port a) (wa_on a) True)),
      (''set_poe'', quiet (web_SetPoE L w (wa_port a) (wa_on a) True)),
      (''cycle_poe'', web_CyclePoE L w (wa_port a) True), (''clear_poe_fault'', web_ClearPoEFault L w (wa_port a) True),
      (''set_port_description'', quiet (web_SetPortDescription L w (wa_port a) (wa_text a) True)),
      (''set_port_speed'', quiet (web_SetPortSpeed L w (wa_port a) (wa_speed a) True)),
      (''set_flow_control'', quiet (web_SetFlowControl w (wa_port a) (wa_on a) True)),
      (''set_pvid'', quiet (web_SetPVID L w (wa_port a) (wa_vlan a) True)),
      (''set_vlan_membership'', quiet (web_SetVlanMembership L w (wa_vlan a) (wa_port a) (wa_mode a) True)),
      (''create_vlan'', quiet (web_CreateVlan L w (wa_vlan a) (wa_text a))),
      (''delete_vlan'', quiet (web_DeleteVlan L w (wa_vlan a))),
      (''set_mgmt_ip'', quiet (web_SetMgmtIP L w (wa_host a) (wa_mask a) (wa_gateway a) True)),
      (''set_hostname'', quiet (web_SetHostname L w (wa_text a))),
      (''set_syslog_enabled'', quiet (web_SetSyslogEnabled w (wa_on a) True)),
      (''add_syslog_collector'', quiet (web_AddSyslogCollector w (wa_host a) (wa_number a) (wa_severity a) True)),
      (''remove_syslog_collector'', quiet (web_RemoveSyslogCollector L w (wa_host a))),
      (''upload_certificate'', quiet (UploadCertificate L K w (wa_cert a) (wa_key a) True))]"

text \<open>A session that notes that it was used and fails.\<close>

definition probe :: "bool web_session" where
  "probe =
     \<lparr>ws_Login = (\<lambda>touched. (Inl (web_errHTTP ''probe'' []), True)), ws_GetPage = (\<lambda>path touched. (Inl (web_errHTTP ''probe'' []), True)),
      ws_PostForm = (\<lambda>path named touched. (Inl (web_errHTTP ''probe'' []), True)),
      ws_PostMultipart = (\<lambda>path named payload touched. (Inl (web_errHTTP ''probe'' []), True)),
      ws_PostXML = (\<lambda>path body touched. (Inl (web_errHTTP ''probe'' []), True))\<rparr>"

definition probe_reader :: "switch_model \<Rightarrow> http_model_spec \<Rightarrow> bool web_reader" where
  "probe_reader m spec = \<lparr>wr_session = probe, wr_spec = spec, wr_model = m\<rparr>"

definition probe_writer :: "switch_model \<Rightarrow> http_model_spec \<Rightarrow> int list \<Rightarrow> bool web_writer" where
  "probe_writer m spec protected =
     \<lparr>ww_session = probe, ww_spec = spec, ww_model = m, ww_protected = protected, ww_clock = (\<lambda>s. (0, s)), ww_sleep = (\<lambda>n. sret (Inr ()))\<rparr>"

text \<open>Arguments the switch itself could take: a name, a speed and a key of the right form.\<close>

definition args_fit :: "'k key_lib \<Rightarrow> web_args \<Rightarrow> bool" where
  "args_fit K a \<longleftrightarrow> wa_text a \<noteq> [] \<and> length (wa_text a) \<le> emxNameMax \<and> isASCIIPrintable (wa_text a) \<and>
     sp_autonegotiate (wa_speed a) \<and> (case rsaPKCS1Pair K (wa_key a) of Inl e \<Rightarrow> False | Inr pair \<Rightarrow> True)"

text \<open>
  The outcome of an operation on the probe: an error, after a request when it made one, and otherwise
  one that refuses the operation.
\<close>

definition probed :: "(bool, unit) run \<Rightarrow> bool \<Rightarrow> bool" where
  "probed run touched \<longleftrightarrow>
     (\<exists>e. run False = Some (Inl e, touched) \<and>
        (\<not> touched \<longrightarrow> errors_is e ErrUnsupportedCapability \<or> errors_is e ErrKnownUnimplemented))"

lemma probed_quiet:
  "probed (quiet a) touched \<longleftrightarrow>
     (\<exists>e. a False = (Inl e, touched) \<and> (\<not> touched \<longrightarrow> errors_is e ErrUnsupportedCapability \<or> errors_is e ErrKnownUnimplemented))"
  by (auto simp: probed_def quiet_def returns_def run_bind_def split: prod.splits sum.splits)

lemma probe_sel [simp]:
  "ws_GetPage probe path s = (Inl (web_errHTTP ''probe'' []), True)"
  "ws_PostForm probe path named s = (Inl (web_errHTTP ''probe'' []), True)"
  "ws_PostMultipart probe path named payload s = (Inl (web_errHTTP ''probe'' []), True)"
  "ws_PostXML probe path body s = (Inl (web_errHTTP ''probe'' []), True)"
  by (simp_all add: probe_def)

lemma probe_at [simp]:
  "wr_session (probe_reader m spec) = probe" "wr_spec (probe_reader m spec) = spec" "wr_model (probe_reader m spec) = m"
  "ww_session (probe_writer m spec ps) = probe" "ww_spec (probe_writer m spec ps) = spec" "ww_model (probe_writer m spec ps) = m"
  by (simp_all add: probe_reader_def probe_writer_def)

lemma sbind_probe [simp]:
  "sbind (ws_GetPage probe path) f s = (Inl (web_errHTTP ''probe'' []), True)"
  "sbind (ws_PostForm probe path named) f s = (Inl (web_errHTTP ''probe'' []), True)"
  "sbind (ws_PostMultipart probe path named payload) f s = (Inl (web_errHTTP ''probe'' []), True)"
  "sbind (ws_PostXML probe path body) f s = (Inl (web_errHTTP ''probe'' []), True)"
  by (simp_all add: sbind_def)

text \<open>What the table says of an operation, with the specification at hand.\<close>

lemma For_http:
  assumes "HTTPSpec m = Inr spec" "HasBackend m BackendHTTP" "ep_reads_verified spec"
  shows "Supported (For m BackendHTTP op) \<longleftrightarrow> \<not> backendRestricts op BackendHTTP \<and>
    \<not> (op_name op = ''upload_certificate'' \<and> map_of CertUploadKnownUnimplemented (sm_key m) \<noteq> None) \<and>
    \<not> (op_name op \<in> set csrfHTTPWrites \<and> \<not> isXMLAPIDialect spec \<and> \<not> DialectHasCSRFHash (ep_html_dialect spec)) \<and>
    httpPathFor spec op \<noteq> []"
  using assms by (simp add: For_def Supported_def httpSupport_def Let_def)

text \<open>The operations by name: their kind, and those another backend alone serves.\<close>

lemma Operations_kind:
  "op \<in> set Operations \<Longrightarrow>
     op_kind op = (if take 4 (op_name op) \<in> {''get_'', ''nsdp''} then OperationKindRead else OperationKindWrite)"
  unfolding Operations_def ReadOperations_def WriteOperations_def by (simp, elim disjE, simp_all)

lemma Operations_restricted:
  "op \<in> set Operations \<Longrightarrow> backendRestricts op BackendHTTP \<longleftrightarrow>
     op_name op \<in> {''nsdp_device'', ''set_flow_control'', ''set_syslog_enabled'', ''add_syslog_collector'', ''upload_certificate_scp''}"
  unfolding Operations_def ReadOperations_def WriteOperations_def by (simp, elim disjE, simp_all add: backendRestricts_def)

subsection \<open>Each operation on the probe\<close>

lemmas web_read_defs =
  web_GetPorts_def web_GetStats_def web_GetVLANs_def web_GetPVIDs_def web_GetLLDP_def web_GetMACs_def web_GetPoE_def web_GetSensors_def
  web_GetMgmtIP_def web_GetHostname_def web_GetUsers_def web_GetServices_def web_GetSyslog_def read_page_def requirePath_def
  unsupportedOp_def unsupportedRead_def

lemma probed_pages:
  "probed (quiet (web_GetPorts L (probe_reader m spec))) (ep_dashboard_path spec \<noteq> [])"
  "probed (quiet (web_GetStats L (probe_reader m spec))) (ep_stats_path spec \<noteq> [])"
  "probed (quiet (web_GetPVIDs L (probe_reader m spec))) (ep_pvid_path spec \<noteq> [])"
  "probed (quiet (web_GetLLDP L (probe_reader m spec))) (ep_lldp_path spec \<noteq> [])"
  "probed (quiet (web_GetMACs L (probe_reader m spec))) (ep_mac_table_path spec \<noteq> [])"
  "probed (quiet (web_GetPoE L (probe_reader m spec))) (ep_poe_status_path spec \<noteq> [])"
  "probed (quiet (web_GetUsers L (probe_reader m spec))) (ep_users_path spec \<noteq> [])"
  "probed (quiet (web_GetSyslog L (probe_reader m spec))) (ep_syslog_path spec \<noteq> [])"
  "probed (quiet (web_GetMgmtIP L (probe_reader m spec))) (MgmtIPPath spec \<noteq> [])"
  "probed (quiet (web_GetSensors L (probe_reader m spec))) (SupportsSensors spec)"
  "probed (quiet (web_GetHostname L (probe_reader m spec))) (HasSysinfoHostname spec)"
  by (simp_all add: probed_quiet web_read_defs)

lemma probed_services: "probed (quiet (web_GetServices L (probe_reader m spec))) (HasServicePaths spec)"
  by (simp add: probed_quiet web_GetServices_def requireServicePaths_def ServiceNames_def Let_def unsupportedOp_def)

lemma probed_vlans:
  assumes "ep_vlan_config_path spec \<noteq> [] \<longrightarrow> (if isGoAheadDialect spec then ep_pvid_path spec \<noteq> []
     else isFastpathDialect spec \<or> ep_vlan_membership_path spec \<noteq> [])"
  shows "probed (quiet (web_GetVLANs L (probe_reader m spec))) (ep_vlan_config_path spec \<noteq> [])"
  using assms by (auto simp: probed_quiet web_read_defs Let_def split: if_splits)

lemmas web_write_defs =
  web_guard_def need_page_def requirePath_def unsupportedOp_def post_with_token_def

lemma probed_writes:
  "probed (quiet (web_SetPortEnabled L (probe_writer m spec ps) port on True))
     (if isGoAheadDialect spec then ep_dashboard_path spec \<noteq> [] else ep_port_config_path spec \<noteq> [])"
  "probed (quiet (web_SetPortDescription L (probe_writer m spec ps) port description True))
     (isGoAheadDialect spec \<and> ep_dashboard_path spec \<noteq> [])"
  "probed (quiet (web_SetFlowControl (probe_writer m spec ps) port on True)) False"
  "probed (quiet (web_SetSyslogEnabled (probe_writer m spec ps) on True)) False"
  "probed (quiet (web_AddSyslogCollector (probe_writer m spec ps) host n severity True)) False"
  "probed (quiet (web_RemoveSyslogCollector L (probe_writer m spec ps) host)) (isM4300Dialect spec \<and> ep_syslog_path spec \<noteq> [])"
  "probed (quiet (web_SetMgmtIP L (probe_writer m spec ps) host netmask gateway True)) (ep_mgmt_ip_path spec \<noteq> [] \<and> ep_mgmt_ip_fields spec \<noteq> None)"
  by (auto simp: probed_quiet web_write_defs web_SetPortEnabled_def web_SetPortDescription_def web_SetFlowControl_def
    web_SetSyslogEnabled_def web_AddSyslogCollector_def web_RemoveSyslogCollector_def syslogPage_def web_syslogPath_def web_SetMgmtIP_def
    requireXUIMgmtFields_def setGoAheadPortEnabled_def goaheadPortRow_def setGS110EMXPortEnabled_def setXUIPortEnabled_def Let_def
    sbind_def [of "sbind _ _"])

lemma probed_poe:
  assumes "if isGoAheadDialect spec then ep_poe_status_path spec \<noteq> [] else ep_poe_config_path spec \<noteq> [] \<longrightarrow> ep_poe_status_path spec \<noteq> []"
  shows "probed (quiet (web_SetPoE L (probe_writer m spec ps) port on True)) (isGoAheadDialect spec \<or> ep_poe_config_path spec \<noteq> [])"
    "probed (web_CyclePoE L (probe_writer m spec ps) port True) (isGoAheadDialect spec \<or> ep_poe_config_path spec \<noteq> [])"
    "probed (web_ClearPoEFault L (probe_writer m spec ps) port True) (isGoAheadDialect spec \<or> ep_poe_config_path spec \<noteq> [])"
proof -
  show cycle: "probed (web_CyclePoE L (probe_writer m spec ps) port True) (isGoAheadDialect spec \<or> ep_poe_config_path spec \<noteq> [])"
    using assms by (auto simp: probed_def web_CyclePoE_def web_write_defs goaheadPoERearm_def goaheadPoEStatus_def xuiPoEReset_def
      run_bind_def returns_def split: if_splits)
  then show "probed (web_ClearPoEFault L (probe_writer m spec ps) port True) (isGoAheadDialect spec \<or> ep_poe_config_path spec \<noteq> [])"
    by (simp add: web_ClearPoEFault_cycles)
  show "probed (quiet (web_SetPoE L (probe_writer m spec ps) port on True)) (isGoAheadDialect spec \<or> ep_poe_config_path spec \<noteq> [])"
    using assms by (auto simp: probed_quiet web_SetPoE_def web_write_defs goaheadPoEAdmin_def web_poeAdmin_def xuiPoEAdmin_def
      sbind_def [of "sbind _ _"] sbind_def [of "web_poeAdmin _ _ _"] split: if_splits)
qed

lemma probed_speed:
  assumes "sp_autonegotiate speed" "isGoAheadDialect spec \<Longrightarrow> ep_dashboard_path spec \<noteq> []"
  shows "probed (quiet (web_SetPortSpeed L (probe_writer m spec ps) port speed True)) (isGoAheadDialect spec)"
  using assms by (auto simp: probed_quiet web_SetPortSpeed_def web_write_defs goaheadPortRow_def sbind_def [of "sbind _ _"])

lemma probed_pvid: "probed (quiet (web_SetPVID L (probe_writer m spec ps) port vlan True)) (ep_pvid_path spec \<noteq> [])"
  by (auto simp: probed_quiet web_SetPVID_def web_write_defs requireVlanExists_def setGoAheadPVID_def goaheadPVIDs_def
    sbind_def [of "sbind _ _"])

lemma probed_membership:
  assumes "isFastpathDialect spec \<Longrightarrow> ep_vlan_membership_path spec \<noteq> [] \<Longrightarrow> ep_vlan_membership_post_path spec \<noteq> []"
    "isGoAheadDialect spec \<Longrightarrow> ep_pvid_path spec \<noteq> []"
  shows "probed (quiet (web_SetVlanMembership L (probe_writer m spec ps) vlan port mode True))
    (isGoAheadDialect spec \<or> ep_vlan_membership_path spec \<noteq> [])"
  using assms by (auto simp: probed_quiet web_SetVlanMembership_def web_write_defs setFastpathMembership_def readFastpathMembership_def
    fastpathMembershipPaths_def setGoAheadMembership_def goaheadMembership_def setPlusMembership_def Let_def
    dialect_defs
    sbind_def [of "sbind _ _"])

lemma probed_vlan_writes:
  assumes "isGoAheadDialect spec \<Longrightarrow> ep_vlan_config_path spec \<noteq> []"
  shows "probed (quiet (web_CreateVlan L (probe_writer m spec ps) vlan name))
      (isGoAheadDialect spec \<or> DialectHasCSRFHash (ep_html_dialect spec) \<and> ep_vlan_config_path spec \<noteq> [])"
    "probed (quiet (web_DeleteVlan L (probe_writer m spec ps) vlan))
      (isGoAheadDialect spec \<or> DialectHasCSRFHash (ep_html_dialect spec) \<and> ep_vlan_config_path spec \<noteq> [])"
  using assms by (auto simp: probed_quiet web_CreateVlan_def web_DeleteVlan_def web_write_defs goaheadCreateVlan_def goaheadDeleteVlan_def
    goaheadVlanIDs_def requireCSRFDialect_def sbind_def [of "sbind _ _"])

lemma probed_hostname:
  assumes "name \<noteq> []" "length name \<le> emxNameMax" "isASCIIPrintable name" "isGoAheadDialect spec \<Longrightarrow> ep_sysinfo_path spec \<noteq> []"
  shows "probed (quiet (web_SetHostname L (probe_writer m spec ps) name))
    (isGoAheadDialect spec \<or> isGS110EMXDialect spec \<and> ep_sysinfo_path spec \<noteq> [])"
  using assms by (auto simp: probed_quiet web_SetHostname_def setGS110EMXHostname_def web_write_defs dialect_defs)

lemma probed_upload:
  assumes "rsaPKCS1Pair K key = Inr pair" "ep_cert_upload_path spec \<noteq> [] \<Longrightarrow> \<not> isGoAheadDialect spec \<Longrightarrow> ep_cert_upload_file_field spec \<noteq> []"
  shows "probed (quiet (UploadCertificate L K (probe_writer m spec ps) cert key True))
    (map_of CertUploadKnownUnimplemented (sm_key m) = None \<and> ep_cert_upload_path spec \<noteq> [])"
  using assms by (auto simp: probed_quiet UploadCertificate_def rejectKnownUnimplementedCertUpload_def certUploadXML_def certUploadMultipart_def
    no_cert_upload_def split: option.splits prod.splits)

subsection \<open>The specifications at hand\<close>

text \<open>What the paths of every model with a web backend have in common.\<close>

definition spec_fit :: "http_model_spec \<Rightarrow> bool" where
  "spec_fit spec \<longleftrightarrow> ep_reads_verified spec \<and>
     (isGoAheadDialect spec \<longrightarrow> ep_xml_write_path spec \<noteq> [] \<and> ep_dashboard_path spec \<noteq> [] \<and> ep_pvid_path spec \<noteq> [] \<and>
        ep_vlan_config_path spec \<noteq> [] \<and> ep_poe_status_path spec \<noteq> [] \<and> ep_sysinfo_path spec \<noteq> [] \<and> ep_mgmt_ip_fields spec = None) \<and>
     (isFastpathDialect spec \<longrightarrow> ep_vlan_membership_path spec \<noteq> [] \<longrightarrow> ep_vlan_membership_post_path spec \<noteq> []) \<and>
     (ep_vlan_config_path spec \<noteq> [] \<longrightarrow> isGoAheadDialect spec \<or> ep_vlan_membership_path spec \<noteq> []) \<and>
     (ep_poe_config_path spec \<noteq> [] \<longrightarrow> ep_poe_status_path spec \<noteq> []) \<and>
     (ep_cert_upload_path spec \<noteq> [] \<longrightarrow> \<not> isGoAheadDialect spec \<longrightarrow> ep_cert_upload_file_field spec \<noteq> [])"

lemma all_specs_fit: "list_all (\<lambda>(key, spec). spec_fit spec) HTTPSpecs"
  by code_simp

lemma HTTPSpec_fit: "HTTPSpec m = Inr spec \<Longrightarrow> HasBackend m BackendHTTP \<and> spec_fit spec"
  using all_specs_fit by (auto simp: HTTPSpec_def list_all_iff split: if_splits option.splits dest: map_of_SomeD)

lemma probed_eq: "run = run' \<Longrightarrow> probed run' b \<Longrightarrow> b = c \<Longrightarrow> probed run c"
  by simp

lemmas probed_rules =
  probed_pages probed_services probed_vlans probed_writes probed_poe probed_speed probed_pvid probed_membership probed_vlan_writes
  probed_hostname probed_upload

text \<open>
  C18.  For every model with a web backend and every operation the backend has, the capability table says
  supported exactly when the operation, forced and with arguments of the right form, reaches its first
  request; and one the table does not support refuses, with the error of a missing capability, before any
  request.
\<close>

theorem http_capability_exact:
  assumes "HTTPSpec m = Inr spec" "args_fit K a" "op \<in> set Operations"
    "(op_name op, run) \<in> set (web_ops L K (probe_reader m spec) (probe_writer m spec ps) a)"
  shows "probed run (Supported (For m BackendHTTP op))"
proof -
  have fit: "HasBackend m BackendHTTP" "spec_fit spec" using HTTPSpec_fit [OF assms(1)] by simp_all
  obtain pair where a: "wa_text a \<noteq> []" "length (wa_text a) \<le> emxNameMax" "isASCIIPrintable (wa_text a)"
      "sp_autonegotiate (wa_speed a)" "rsaPKCS1Pair K (wa_key a) = Inr pair"
    using assms(2) by (auto simp: args_fit_def split: sum.splits)
  have served: "Supported (For m BackendHTTP op) \<longleftrightarrow> \<not> backendRestricts op BackendHTTP \<and>
    \<not> (op_name op = ''upload_certificate'' \<and> map_of CertUploadKnownUnimplemented (sm_key m) \<noteq> None) \<and>
    \<not> (op_name op \<in> set csrfHTTPWrites \<and> \<not> isXMLAPIDialect spec \<and> \<not> DialectHasCSRFHash (ep_html_dialect spec)) \<and>
    httpPathFor spec op \<noteq> []"
    using For_http [OF assms(1) fit(1)] fit(2) by (simp add: spec_fit_def)
  note kind = Operations_kind [OF assms(3)] Operations_restricted [OF assms(3)]
  have paths: "isGoAheadDialect spec \<longrightarrow> ep_xml_write_path spec \<noteq> [] \<and> ep_dashboard_path spec \<noteq> [] \<and> ep_pvid_path spec \<noteq> [] \<and>
        ep_vlan_config_path spec \<noteq> [] \<and> ep_poe_status_path spec \<noteq> [] \<and> ep_sysinfo_path spec \<noteq> [] \<and> ep_mgmt_ip_fields spec = None"
      "isFastpathDialect spec \<longrightarrow> ep_vlan_membership_path spec \<noteq> [] \<longrightarrow> ep_vlan_membership_post_path spec \<noteq> []"
      "ep_vlan_config_path spec \<noteq> [] \<longrightarrow> isGoAheadDialect spec \<or> ep_vlan_membership_path spec \<noteq> []"
      "ep_poe_config_path spec \<noteq> [] \<longrightarrow> ep_poe_status_path spec \<noteq> []"
      "ep_cert_upload_path spec \<noteq> [] \<longrightarrow> \<not> isGoAheadDialect spec \<longrightarrow> ep_cert_upload_file_field spec \<noteq> []"
      "SupportsSensors spec \<longrightarrow> ep_sysinfo_path spec \<noteq> []" "HasSysinfoHostname spec \<longrightarrow> ep_sysinfo_path spec \<noteq> []"
      "HasServicePaths spec \<longrightarrow> ep_http_service_path spec \<noteq> []"
    using fit(2) by (simp_all add: spec_fit_def SupportsSensors_def HasSysinfoHostname_def HasServicePaths_def)
  show ?thesis
    using assms(4) a
    unfolding web_ops_def set_simps insert_iff empty_iff prod.inject
    apply -
    apply (elim disjE conjE FalseE; (erule probed_eq, rule probed_rules))
    apply (simp_all add: served kind httpPathFor_def simple_paths_def Let_def text_of_def isXMLAPIDialect_def csrfHTTPWrites_def
      xmlAPIWrites_def isGoAheadDialect_def isM4300Dialect_def isGS110EMXDialect_def)
    using paths [unfolded isGoAheadDialect_def] by (blast | simp)+
qed

text \<open>A key library that reads any text as a key, and arguments of the right form.\<close>

definition plain_keys :: "unit key_lib" where
  "plain_keys =
     \<lparr>kl_Decode = (\<lambda>t. Some (bytes_of t)), kl_ParsePKCS1 = (\<lambda>block. Inr ()), kl_ParsePKCS8 = (\<lambda>block. Inr (Rsa_Key ())),
      kl_private_pem = (\<lambda>k. ''private''), kl_public_pem = (\<lambda>k. ''public'')\<rparr>"

definition plain_args :: web_args where
  "plain_args =
     \<lparr>wa_port = 2, wa_vlan = 20, wa_mode = VlanTagged, wa_on = True, wa_text = ''lab'',
      wa_speed = \<lparr>sp_autonegotiate = True, sp_speed_mbps = None, sp_full_duplex = None\<rparr>, wa_host = ''10.0.0.2'',
      wa_mask = ''255.0.0.0'', wa_gateway = ''10.0.0.1'', wa_number = 514, wa_severity = 6, wa_cert = ''cert'', wa_key = ''key''\<rparr>"

definition create_vlan_op :: operation where
  "create_vlan_op = \<lparr>op_name = ''create_vlan'', op_kind = OperationKindWrite, op_summary = ''Create a VLAN'', op_backends = None\<rparr>"

theorem http_capability_exact_witness:
  "probed (quiet (web_CreateVlan plain_lib (probe_writer model_gsm7252ps gsm7252psSpec [2]) 20 ''lab'')) False \<and>
   \<not> Supported (For model_gsm7252ps BackendHTTP create_vlan_op)"
proof -
  have spec: "HTTPSpec model_gsm7252ps = Inr gsm7252psSpec" by code_simp
  have fit: "args_fit plain_keys plain_args" by code_simp
  have op: "create_vlan_op \<in> set Operations"
    by (simp add: Operations_def ReadOperations_def WriteOperations_def create_vlan_op_def)
  have run: "(op_name create_vlan_op, quiet (web_CreateVlan plain_lib (probe_writer model_gsm7252ps gsm7252psSpec [2]) 20 ''lab''))
      \<in> set (web_ops plain_lib plain_keys (probe_reader model_gsm7252ps gsm7252psSpec) (probe_writer model_gsm7252ps gsm7252psSpec [2]) plain_args)"
    by (simp add: web_ops_def create_vlan_op_def plain_args_def)
  have "\<not> Supported (For model_gsm7252ps BackendHTTP create_vlan_op)" by code_simp
  with http_capability_exact [OF spec fit op run] show ?thesis by simp
qed

end
