(* ===== verification/Spec2Isabelle.thy ===== *)
theory Spec2Isabelle
  imports Prelude Switch_Model Registry Nsdp_Codec Bitmap Nsdp_Auth Net_Text Nsdp_Parse Nsdp_Build Nsdp_Client
    Virtual_State Virtual_Projection Nsdp_Reader Nsdp_Writer Virtual_Face Nsdp_System Virtual_Lockout
    Dispatch Facade Facade_System Safety_Gate Cli_Text Gngsw_Write Gngsw_System Snmp_Rows Snmp_Parse
    Snmp_Tables Snmp_Reader Snmp_Switchport Snmp_Writer Snmp_Cycle Poe_Time Virtual_Switchport
    Virtual_Snmp Switchport_Refinement Virtual_Oidmap Mib_View Snmp_Face Snmp_Client Snmp_Walk
    Snmp_Columns Snmp_Objects Snmp_Served Snmp_Reads Snmp_System Snmp_System_Vlans Snmp_Set
    Snmp_Set_Vlans Snmp_Sound Snmp_Stack Go_Regexp Fastpath_Spec Fastpath_Parse Fastpath_Session
    Fastpath_Writer Cli_Render Cli_Face Table_Roundtrip Cli_View Cli_Write Cli_Vlans Cli_Refinement
    Web_Text Web_Plus Web_Cheetah Web_Xe Web_Membership Web_Xui Web_Goahead Web_Endpoints Web_Reader
    Web_Goahead_Write Web_Writer Web_Writes Web_Client Web_Safety Web_Verified Capabilities
begin

text \<open>
  A model of go-netgear-switch-library, a Go library that reads and configures Netgear switches.

  The program.  A switch is named by a key of the model registry (\<^verbatim>\<open>model/\<close>), which says
  which backends reach it.  A facade (the root package) dispatches each read or write to a backend.
  The NSDP backend (\<^verbatim>\<open>nsdp/\<close>) speaks Netgear's UDP protocol: typed reads and
  verify-after-write operations become TLVs of a packet that a client exchanges with the switch.  The
  package \<^verbatim>\<open>virtual/\<close> is the other side: an in-memory switch with an NSDP face that
  decodes datagrams, checks credentials, applies writes to its state and projects the state back into
  TLVs.  The SNMP backend (\<^verbatim>\<open>snmp/\<close>) reads MIB tables as rows and writes varbinds, with a
  switchport plan for one model family and a timed power cycle of PoE ports; the virtual switch answers
  its writes in ApplyWrite and answers every request over a sorted view of its objects.  The
  command-line backend (\<^verbatim>\<open>fastpath/\<close>) drives a switch's shell over any transport and reads the
  tables it prints; the virtual switch has that shell too.  The HTTP backend (\<^verbatim>\<open>webui/\<close>) logs
  in to a switch's web pages, parses the pages of six dialects and posts their forms.  The program gngsw
  (\<^verbatim>\<open>cmd/gngsw\<close>) puts a confirmation gate in front of the facade's writes.  The web pages of the
  virtual switch and the other programs are not modelled; the manifest lists them.

  The theories.

    \<^item> Prelude: byte strings, big-endian integers, the error monad \<open>rbind\<close> and the state
      monad with errors \<open>sbind\<close>, and Go maps as association lists in which the first key counts.
    \<^item> Switch_Model (model/types.go, model/nsdp.go, model/errors.go): the data the packages share and
      the sentinel errors, with \<open>Go_Panic\<close> as the value of an operation that panics.
    \<^item> Registry (model/registry.go): the ten models, their aliases and GetModel.
    \<^item> Nsdp_Codec (nsdp/protocol.go): TLVs and packets, encoded and decoded.
    \<^item> Bitmap (nsdp/parse.go, snmp/parse.go, snmp/write.go): the two copies of the port bitmap
      code; the locale \<open>msb_codec\<close> is their common contract and is interpreted on both.
    \<^item> Nsdp_Auth (nsdp/auth.go): the XOR encoding of a password and the salted token.
    \<^item> Net_Text: the parts of the Go standard library the packages use on texts: net.ParseIP,
      dotted quads, strings.TrimSpace.
    \<^item> Nsdp_Parse (nsdp/parse.go): the TLV value decoders and ParseDevice, its loop as
      \<open>device_step\<close> over the record \<open>device_vars\<close> of its local variables.
    \<^item> Nsdp_Build (nsdp/write.go, nsdp/write_tlv.go): requests and the TLVs of a write.
    \<^item> Nsdp_Client (nsdp/client.go): UDPClient with its sequence counter and cached scheme; the
      transport \<^verbatim>\<open>transceiveFunc\<close> is a parameter, a function that threads a network state.
    \<^item> Nsdp_Reader, Nsdp_Writer (nsdp/reader.go, nsdp/writer.go): every operation of Reader and
      Writer over any client.  The locales \<open>nsdp_client\<close> and \<open>nsdp_write_client\<close> state what
      a lawful client does: reads answer with the projection of a switch state, writes apply it.
    \<^item> Virtual_State, Virtual_Projection (virtual/state.go): the fields of State the NSDP face
      reads and writes, NsdpTlvs and ApplyNsdpWrite; \<open>project_device\<close> is the abstract view.
    \<^item> Virtual_Face, Virtual_Lockout (virtual/nsdpface.go): the face's handler for one datagram and
      the relation \<open>face_step\<close> of its runs.
    \<^item> Nsdp_System: client, network and face together; it interprets the client locales on them.
    \<^item> Dispatch (dispatch.go, write_dispatch.go, resolveOnce of switch.go): the Switch handle as the
      record \<open>gswitch\<close>, backend resolution, the caches of readers and writers, the refusal texts;
      the locale \<open>builder_law\<close> says what a builder of a backend may change.
    \<^item> Facade (switch.go, switch_write.go, backend_nsdp.go, snapshot.go): options, New, the NSDP
      adapter, every read and write of a Switch, Snapshot.  A world is a list of client objects,
      referred to by index, and the network.
    \<^item> Facade_System: the facade over the virtual switch; \<open>op_effect\<close> is what each write means.
    \<^item> Safety_Gate (cmd/internal/safety/safety.go): exit codes, Confirm and DoWrite; the locale
      \<open>console\<close> is what its guards need of the streams.
    \<^item> Cli_Text, Gngsw_Write (cmd/gngsw): the text functions and the write commands of gngsw.
    \<^item> Gngsw_System: gngsw, the gate, the facade and the virtual switch together.

    \<^item> Snmp_Rows (snmp/client.go, snmp/oids.go, the column helpers of snmp/parse.go): rows of a walk,
      varbinds, object identifiers and the columns cut out of them.
    \<^item> Snmp_Parse, Snmp_Tables (snmp/parse.go): every table parser, from ports and VLANs to the
      forwarding table, LLDP, sensors and the detection of the model.
    \<^item> Snmp_Reader (snmp/reader.go), Snmp_Writer (snmp/writer.go, snmp/writer_vlan.go): the operations
      over any client, a pair of functions that thread the agent's state.
    \<^item> Snmp_Switchport (snmp/writer_switchport.go): the plan of a switchport change, its allowed-VLAN
      maps and the cross-check of the two tables.
    \<^item> Snmp_Cycle, Poe_Time (snmp/writer_cycle.go): the poll loop, CyclePoE and ClearPoEFault.  The
      loop is \<open>partial_function (option)\<close>, so not returning is None; the locale
      \<open>timed\<close> says what the clock and the sleep promise, and is interpreted on a wall clock.
    \<^item> Virtual_Switchport, Virtual_Snmp (virtual/state_switchport.go, virtual/state.go): ApplyWrite and
      what it does to the switchport objects, VLAN bitmaps and scalars of the virtual switch.
    \<^item> Switchport_Refinement: a switchport plan of the writer applied by the virtual switch.
    \<^item> Virtual_Oidmap (virtual/state_oidmap.go), Mib_View (virtual/mibview.go), Snmp_Face
      (virtual/snmpface.go): the rows a state stands for, the sorted view of them, and GET, GETNEXT,
      GETBULK and the atomic SET over it.
    \<^item> Snmp_Client (snmp/gosnmp.go): Get, Walk, Set and SetMany over a gosnmp that is a parameter, and
      Snmp_Walk: a walk of the agent ends with exactly its subtree.
    \<^item> Snmp_Columns, Snmp_Objects, Snmp_Served, Snmp_Reads, Snmp_System, Snmp_System_Vlans, Snmp_Set,
      Snmp_Set_Vlans, Snmp_Sound: the lemmas of the SNMP stack, from the order of object identifiers to
      what each read reports and each set of varbinds does.
    \<^item> Snmp_Stack: reader, writer, client and agent together.

    \<^item> Go_Regexp: regular expressions as data with a backtracking matcher, as Go's leftmost-first match.
    \<^item> Fastpath_Spec (fastpath/spec.go), Fastpath_Parse (fastpath/parse.go): the commands of each model
      and every parser of what the shell prints.
    \<^item> Fastpath_Session (fastpath/session.go, fastpath/cert_scp.go, fastpath/reader.go): the shell driver
      over an abstract transport, the modes a command needs, the reads; Fastpath_Writer
      (fastpath/writer.go): the writes.
    \<^item> Cli_Render, Cli_Face (virtual/cliface_render.go, virtual/cliface.go): the pages the virtual shell
      prints and its mode machine.
    \<^item> Table_Roundtrip, Cli_View, Cli_Write, Cli_Vlans: a printed table reads back as its rows; what the
      commands do to the virtual switch and what its pages read back as.
    \<^item> Cli_Refinement: the command-line backend against the virtual shell.

    \<^item> Web_Text: the case-insensitive matcher, entities of HTML, float64 texts.
    \<^item> Web_Plus, Web_Cheetah, Web_Xe, Web_Membership, Web_Xui, Web_Goahead (webui/parse_*.go): the page
      parsers by dialect.
    \<^item> Web_Endpoints (webui/forms.go, webui/endpoints.go): form bodies and the paths of each model.
    \<^item> Web_Reader (webui/reader.go), Web_Goahead_Write (webui/goahead_write.go, webui/cert.go), Web_Writer,
      Web_Writes (webui/writer.go): every operation over a session, a record of actions on a state.
    \<^item> Web_Client (webui/crypt.go, webui/client.go): the session net/http gives, with MD5, both logins,
      retries and the token; \<open>http_lib\<close> is the library.
    \<^item> Web_Safety, Web_Verified: what the forms may say and what a success means.
    \<^item> Capabilities (capabilities/): the table of what each backend supports, and that for the web
      backend it is exact.

  What the lemmas show.  Codec, bitmaps, TLV builders and parsers round-trip; every decoder of
  untrusted bytes returns a value or an error that wraps ErrNSDP and never panics.  The projection of
  a well-formed state parses to its abstract view, and every configuration TLV keeps the state well
  formed.  The writer reports success only when the value it read back is the one asked for, refuses
  protected ports before any exchange, and, run against the virtual switch over the modelled network,
  changes exactly what was asked.  The face survives any bytes, changes its switch only on an
  authenticated write, and locks out as documented.  The facade serves an operation by the one
  backend resolved for it and reports that backend's own failure; from a handle just built, any sequence of permitted writes does to the
  switch what the abstract operations say, and a snapshot reports it exactly.  A gngsw command reaches
  the switch only when confirmed, does what its arguments say, and reports refusals, protection and
  usage errors by distinct exit codes.  Over SNMP, a switchport plan applied varbind by varbind gives
  exactly the membership asked for; a power cycle returns whatever the agent answers, and one reported
  done set the power off, saw it off, set it on and saw it back, each from the state the last left; a walk returns exactly its subtree, the reads report the served
  state, a SET is all or nothing, and the agent answers any packets without a panic.  The command-line
  backend, against the virtual shell, does what its writes say and reads back exactly the state; a table
  round-trips through its columns.  Over HTTP, for any switch behind the session: a success was read
  back, a protected port is not touched, a membership form changes one port, a row form names one row,
  a write is sent once, a page fetched with three requests at most while the session lasts, and the
  capability table says exactly which operations reach the switch.  Some theorems show defects: the VLAN-destroy and
  port-name TLVs truncate their argument, so an out-of-range argument hits another VLAN or a
  protected port; a VLAN name of two words leaves the VLAN created and unnamed; two malformed web pages
  index out of range.

  Bounds.  The end-to-end theorems ask that the replies of the reads involved fit the client's
  4096-byte buffer (\<open>readable\<close>) and that the 32-bit salt counter of the face has room for the
  writes to come (\<open>system_inv password n\<close>): the face takes a counter of zero for "no salt
  issued".  Permitted facade operations (\<open>op_permitted\<close>) name ports and VLANs the wire can carry.
  The loops over TLVs recurse on the remaining bytes and the poll loop is a partial function proved to
  return.  The shell driver reads at most ten thousand times for one answer, which is the code's own
  bound (maxReads), and a fetch of a web page is tried at most three times, which is too, so no fuel
  is added.

  What is not modelled here: sockets, deadlines, mutexes and goroutines (a transceiver stands for one
  exchange; the virtual faces handle requests one at a time), the texts of formatted messages beyond their
  format and arguments, the gosnmp and net/http libraries, the SSH, telnet and serial transports, the
  tables of package unicode and html and the parser of encoding/xml, which are parameters, the order in
  which Go walks a map where it shows, a parameter too, and the web pages of the virtual switch with
  the fields of State only they use.  A port range that ends at the largest int never ends in the code's
  loop; the model gives its list.
\<close>

end
